(* ===== verification/Prelude.thy ===== *)
theory Prelude
  imports Main "HOL-Library.AList" "HOL-Library.Char_ord" "HOL-Library.List_Lexorder"
    "HOL-Library.Product_Lexorder"
begin

text \<open>
  The vocabulary every component shares: raising validations as values, Python's text and
  dictionary operations, the shape tests behind the repository's regular expressions, and the
  lemma collections the component theories feed to the simplifier.

  A Python \<^verbatim>\<open>str\<close> is a \<^typ>\<open>string\<close>, one \<^typ>\<open>char\<close> per code point, so the model covers
  the code points below 256. The order on \<^typ>\<open>string\<close> is the code point order of Python
  (\<^verbatim>\<open>List_Lexorder\<close> over \<^verbatim>\<open>Char_ord\<close>). A Python \<^verbatim>\<open>dict\<close> is an association list in
  insertion order, which \<^const>\<open>AList.update\<close> keeps as Python does.
\<close>

named_theorems guard_simps \<open>when a sequence of validations passes\<close>
named_theorems pattern_simps \<open>what the text patterns accept\<close>

section \<open>Raising validations\<close>

text \<open>
  A validation that raises \<^verbatim>\<open>e\<close> is \<^term>\<open>Some e\<close>, one that passes is \<^const>\<open>None\<close>. A function body
  that validates and then returns is \<^verbatim>\<open>construct\<close>: the first raise, in the order of the code, wins.
\<close>

definition raise_if :: "bool \<Rightarrow> 'e \<Rightarrow> 'e option" where
  "raise_if b e = (if b then Some e else None)"

fun first_raise :: "'e option list \<Rightarrow> 'e option" where
  "first_raise [] = None"
| "first_raise (Some e # cs) = Some e"
| "first_raise (None # cs) = first_raise cs"

definition construct :: "'e option list \<Rightarrow> 'a \<Rightarrow> 'e + 'a" where
  "construct cs x = (case first_raise cs of None \<Rightarrow> Inr x | Some e \<Rightarrow> Inl e)"

fun and_then :: "'e + 'a \<Rightarrow> ('a \<Rightarrow> 'e + 'b) \<Rightarrow> 'e + 'b" where
  "and_then (Inl e) f = Inl e"
| "and_then (Inr x) f = f x"

fun raised_by :: "'e + 'a \<Rightarrow> 'e option" where
  "raised_by (Inl e) = Some e"
| "raised_by (Inr x) = None"

lemma raise_if_None [simp, guard_simps]: "raise_if b e = None \<longleftrightarrow> \<not> b"
  by (simp add: raise_if_def)

lemma raise_if_Some [simp]: "raise_if b e = Some e' \<longleftrightarrow> b \<and> e = e'"
  by (simp add: raise_if_def)

lemma first_raise_Cons_None [simp, guard_simps]:
  "first_raise (c # cs) = None \<longleftrightarrow> c = None \<and> first_raise cs = None"
  by (cases c) auto

lemma first_raise_None_iff: "first_raise cs = None \<longleftrightarrow> (\<forall>c \<in> set cs. c = None)"
  by (induction cs) auto

lemma construct_Inr [simp, guard_simps]:
  "construct cs x = Inr y \<longleftrightarrow> first_raise cs = None \<and> y = x"
  by (auto simp: construct_def split: option.splits)

lemma construct_Inl [simp]: "construct cs x = Inl e \<longleftrightarrow> first_raise cs = Some e"
  by (auto simp: construct_def split: option.splits)

lemma and_then_Inr [simp]: "and_then r f = Inr y \<longleftrightarrow> (\<exists>x. r = Inr x \<and> f x = Inr y)"
  by (cases r) auto

lemma and_then_Inl: "and_then r f = Inl e \<longleftrightarrow> r = Inl e \<or> (\<exists>x. r = Inr x \<and> f x = Inl e)"
  by (cases r) auto

lemma raised_by_None [simp, guard_simps]: "raised_by r = None \<longleftrightarrow> (\<exists>x. r = Inr x)"
  by (cases r) auto

lemma raised_by_Some [simp]: "raised_by r = Some e \<longleftrightarrow> r = Inl e"
  by (cases r) auto

text \<open>A value that is computed where the guards before it do not raise.\<close>

definition guarded :: "'e option list \<Rightarrow> 'e + 'a \<Rightarrow> 'e + 'a" where
  "guarded guards r = (case first_raise guards of Some e \<Rightarrow> Inl e | None \<Rightarrow> r)"

lemma guarded_Inr: "guarded guards r = Inr x \<longleftrightarrow> first_raise guards = None \<and> r = Inr x"
  by (auto simp: guarded_def split: option.splits)

lemma first_raise_append_None: "first_raise (xs @ ys) = None \<longleftrightarrow> first_raise xs = None \<and> first_raise ys = None"
  by (auto simp: first_raise_None_iff)

text \<open>A comprehension whose element expression may raise: the first raise wins.\<close>

fun collect :: "('a \<Rightarrow> 'e + 'b) \<Rightarrow> 'a list \<Rightarrow> 'e + 'b list" where
  "collect f [] = Inr []"
| "collect f (x # xs) = and_then (f x) (\<lambda>y. and_then (collect f xs) (\<lambda>ys. Inr (y # ys)))"

lemma collect_Inr:
  "collect f xs = Inr ys \<longleftrightarrow> length ys = length xs \<and> list_all2 (\<lambda>x y. f x = Inr y) xs ys"
  by (induction xs arbitrary: ys) (auto simp: list_all2_Cons1)

lemma collect_length: "collect f xs = Inr ys \<Longrightarrow> length ys = length xs"
  by (simp add: collect_Inr)

lemma collect_total: "collect f xs = Inr ys \<Longrightarrow> x \<in> set xs \<Longrightarrow> \<exists>y. f x = Inr y"
  by (induction xs arbitrary: ys) auto

lemma collect_member: "collect f xs = Inr ys \<Longrightarrow> y \<in> set ys \<Longrightarrow> \<exists>x \<in> set xs. f x = Inr y"
  by (induction xs arbitrary: ys) auto

section \<open>Text\<close>

text \<open>The code points below 256 for which \<^verbatim>\<open>str.isspace\<close> holds.\<close>

definition is_space :: "char \<Rightarrow> bool" where
  "is_space c \<longleftrightarrow> (let n = (of_char c :: nat) in
     9 \<le> n \<and> n \<le> 13 \<or> 28 \<le> n \<and> n \<le> 32 \<or> n = 133 \<or> n = 160)"

definition strip :: "string \<Rightarrow> string" where
  "strip s = rev (dropWhile is_space (rev (dropWhile is_space s)))"

text \<open>\<^verbatim>\<open>not value or value.strip() != value\<close> is the rejected case.\<close>

definition is_exact_text :: "string \<Rightarrow> bool" where
  "is_exact_text s \<longleftrightarrow> s \<noteq> [] \<and> strip s = s"

lemma strip_ends_fixed:
  assumes "s \<noteq> []" and "\<not> is_space (hd s)" and "\<not> is_space (last s)"
  shows "strip s = s"
proof -
  have "dropWhile is_space s = s" using assms(1,2) by (cases s) auto
  moreover have "dropWhile is_space (rev s) = rev s"
    using assms(1,3) by (cases s rule: rev_cases) auto
  ultimately show ?thesis by (simp add: strip_def)
qed

lemma strip_fixed_hd:
  assumes "strip s = s" and "s \<noteq> []"
  shows "\<not> is_space (hd s)"
proof
  assume sp: "is_space (hd s)"
  have "length (strip s) \<le> length (dropWhile is_space s)"
    by (simp add: strip_def) (metis length_dropWhile_le length_rev)
  also have "\<dots> < length s"
    using sp assms(2) by (cases s) (auto simp: le_imp_less_Suc length_dropWhile_le)
  finally show False using assms(1) by simp
qed

lemma is_exact_text_iff:
  "is_exact_text s \<longleftrightarrow> s \<noteq> [] \<and> \<not> is_space (hd s) \<and> \<not> is_space (last s)"
proof
  assume a: "is_exact_text s"
  then have ne: "s \<noteq> []" and fx: "strip s = s" by (auto simp: is_exact_text_def)
  have h: "\<not> is_space (hd s)" using fx ne by (rule strip_fixed_hd)
  have "dropWhile is_space s = s" using h ne by (cases s) auto
  then have "dropWhile is_space (rev s) = rev s"
    using fx by (simp add: strip_def) (metis rev_swap)
  then have "\<not> is_space (last s)"
    using ne by (metis hd_dropWhile hd_rev list.sel(1) rev_is_Nil_conv dropWhile_eq_self_iff)
  with ne h show "s \<noteq> [] \<and> \<not> is_space (hd s) \<and> \<not> is_space (last s)" by blast
next
  assume "s \<noteq> [] \<and> \<not> is_space (hd s) \<and> \<not> is_space (last s)"
  then show "is_exact_text s" by (simp add: is_exact_text_def strip_ends_fixed)
qed

definition starts_with :: "string \<Rightarrow> string \<Rightarrow> bool" where
  "starts_with s p \<longleftrightarrow> take (length p) s = p"

definition ends_with :: "string \<Rightarrow> string \<Rightarrow> bool" where
  "ends_with s p \<longleftrightarrow> length p \<le> length s \<and> drop (length s - length p) s = p"

lemma starts_with_append [simp]: "starts_with (p @ s) p"
  by (simp add: starts_with_def)

text \<open>\<^verbatim>\<open>sep.join(parts)\<close>.\<close>

fun join :: "string \<Rightarrow> string list \<Rightarrow> string" where
  "join d [] = []"
| "join d [x] = x"
| "join d (x # y # xs) = x @ d @ join d (y # xs)"

text \<open>\<^verbatim>\<open>text.split(sep)\<close> for a one-character separator.\<close>

fun split_on :: "char \<Rightarrow> string \<Rightarrow> string list" where
  "split_on d [] = [[]]"
| "split_on d (c # cs) =
     (if c = d then [] # split_on d cs
      else case split_on d cs of [] \<Rightarrow> [[c]] | w # ws \<Rightarrow> (c # w) # ws)"

text \<open>\<^verbatim>\<open>str.encode()\<close>: UTF-8 of the code points below 256.\<close>

definition utf8_char :: "char \<Rightarrow> string" where
  "utf8_char c = (let n = (of_char c :: nat) in
     if n < 128 then [c] else [char_of (192 + n div 64), char_of (128 + n mod 64)])"

definition utf8 :: "string \<Rightarrow> string" where
  "utf8 s = concat (map utf8_char s)"

section \<open>Character classes and the repeated patterns\<close>

definition in_range :: "char \<Rightarrow> char \<Rightarrow> char \<Rightarrow> bool" where
  "in_range lo hi c \<longleftrightarrow> (of_char lo :: nat) \<le> of_char c \<and> (of_char c :: nat) \<le> of_char hi"

definition is_digit :: "char \<Rightarrow> bool" where
  "is_digit c \<longleftrightarrow> in_range (CHR ''0'') (CHR ''9'') c"

definition is_lower :: "char \<Rightarrow> bool" where
  "is_lower c \<longleftrightarrow> in_range (CHR ''a'') (CHR ''z'') c"

definition is_upper :: "char \<Rightarrow> bool" where
  "is_upper c \<longleftrightarrow> in_range (CHR ''A'') (CHR ''Z'') c"

definition is_hex :: "char \<Rightarrow> bool" where
  "is_hex c \<longleftrightarrow> is_digit c \<or> in_range (CHR ''a'') (CHR ''f'') c"

lemmas char_class_defs = is_digit_def is_lower_def is_upper_def is_hex_def in_range_def

text \<open>The classes on the bits of a character, for evaluation.\<close>

lemma is_digit_code [code]:
  "is_digit (Char b0 b1 b2 b3 b4 b5 b6 b7) \<longleftrightarrow>
     \<not> b7 \<and> \<not> b6 \<and> b5 \<and> b4 \<and> (\<not> b3 \<or> \<not> b2 \<and> \<not> b1)"
  by (cases b0; cases b1; cases b2; cases b3; cases b4; cases b5; cases b6; cases b7)
    (simp_all add: char_class_defs)

lemma is_lower_code [code]:
  "is_lower (Char b0 b1 b2 b3 b4 b5 b6 b7) \<longleftrightarrow>
     \<not> b7 \<and> b6 \<and> b5 \<and> (b0 \<or> b1 \<or> b2 \<or> b3 \<or> b4) \<and> \<not> (b4 \<and> b3 \<and> (b2 \<or> b1 \<and> b0))"
  by (cases b0; cases b1; cases b2; cases b3; cases b4; cases b5; cases b6; cases b7)
    (simp_all add: char_class_defs)

lemma is_upper_code [code]:
  "is_upper (Char b0 b1 b2 b3 b4 b5 b6 b7) \<longleftrightarrow>
     \<not> b7 \<and> b6 \<and> \<not> b5 \<and> (b0 \<or> b1 \<or> b2 \<or> b3 \<or> b4) \<and> \<not> (b4 \<and> b3 \<and> (b2 \<or> b1 \<and> b0))"
  by (cases b0; cases b1; cases b2; cases b3; cases b4; cases b5; cases b6; cases b7)
    (simp_all add: char_class_defs)

lemma is_hex_code [code]:
  "is_hex (Char b0 b1 b2 b3 b4 b5 b6 b7) \<longleftrightarrow>
     \<not> b7 \<and> \<not> b6 \<and> b5 \<and> b4 \<and> (\<not> b3 \<or> \<not> b2 \<and> \<not> b1)
   \<or> \<not> b7 \<and> b6 \<and> b5 \<and> \<not> b4 \<and> \<not> b3 \<and> (b0 \<or> b1 \<or> b2) \<and> \<not> (b2 \<and> b1 \<and> b0)"
  by (cases b0; cases b1; cases b2; cases b3; cases b4; cases b5; cases b6; cases b7)
    (simp_all add: char_class_defs)

lemma is_space_code [code]:
  "is_space (Char b0 b1 b2 b3 b4 b5 b6 b7) \<longleftrightarrow>
     \<not> b7 \<and> \<not> b6 \<and> \<not> b5 \<and> b3 \<and> (\<not> b4 \<and> (b2 \<and> \<not> b1 \<or> \<not> b2 \<and> (b0 \<or> b1)) \<or> b4 \<and> b2)
   \<or> \<not> b7 \<and> \<not> b6 \<and> b5 \<and> \<not> b4 \<and> \<not> b3 \<and> \<not> b2 \<and> \<not> b1 \<and> \<not> b0
   \<or> b7 \<and> \<not> b6 \<and> \<not> b5 \<and> \<not> b4 \<and> \<not> b3 \<and> b2 \<and> \<not> b1 \<and> b0
   \<or> b7 \<and> \<not> b6 \<and> b5 \<and> \<not> b4 \<and> \<not> b3 \<and> \<not> b2 \<and> \<not> b1 \<and> \<not> b0"
  by (cases b0; cases b1; cases b2; cases b3; cases b4; cases b5; cases b6; cases b7)
    (simp_all add: is_space_def)

text \<open>\<^verbatim>\<open>[0-9a-f]{n}\<close>\<close>

definition hex_word :: "nat \<Rightarrow> string \<Rightarrow> bool" where
  "hex_word n s \<longleftrightarrow> length s = n \<and> list_all is_hex s"

text \<open>\<^verbatim>\<open>^sha256:[0-9a-f]{64}$\<close>\<close>

definition fingerprint_pattern :: "string \<Rightarrow> bool" where
  "fingerprint_pattern s \<longleftrightarrow> starts_with s ''sha256:'' \<and> hex_word 64 (drop 7 s)"

text \<open>\<^verbatim>\<open>^<prefix>_[0-9a-f]{48}$\<close> for a fixed prefix such as \<^verbatim>\<open>cmd\<close>\<close>

definition prefixed_id :: "string \<Rightarrow> string \<Rightarrow> bool" where
  "prefixed_id p s \<longleftrightarrow> starts_with s (p @ ''_'') \<and> hex_word 48 (drop (length p + 1) s)"

text \<open>\<^verbatim>\<open>^[a-z][a-z0-9]{2}_[0-9a-f]{48}$\<close>\<close>

definition id_pattern :: "string \<Rightarrow> bool" where
  "id_pattern s \<longleftrightarrow> length s = 52 \<and> is_lower (s ! 0)
     \<and> (is_lower (s ! 1) \<or> is_digit (s ! 1)) \<and> (is_lower (s ! 2) \<or> is_digit (s ! 2))
     \<and> s ! 3 = CHR ''_'' \<and> hex_word 48 (drop 4 s)"

text \<open>\<^verbatim>\<open>(0|[1-9][0-9]*)\<close> and \<^verbatim>\<open>^n\.n\.n$\<close>\<close>

definition version_number :: "string \<Rightarrow> bool" where
  "version_number s \<longleftrightarrow> s \<noteq> [] \<and> list_all is_digit s \<and> (s = ''0'' \<or> hd s \<noteq> CHR ''0'')"

definition version_pattern :: "string \<Rightarrow> bool" where
  "version_pattern s \<longleftrightarrow> (let ps = split_on (CHR ''.'') s in
     length ps = 3 \<and> list_all version_number ps)"

text \<open>\<^verbatim>\<open>^[A-Z][A-Z0-9_]*$\<close>\<close>

definition code_pattern :: "string \<Rightarrow> bool" where
  "code_pattern s \<longleftrightarrow> s \<noteq> [] \<and> is_upper (hd s)
     \<and> list_all (\<lambda>c. is_upper c \<or> is_digit c \<or> c = CHR ''_'') s"

lemma starts_with_length: "starts_with s p \<Longrightarrow> length p \<le> length s"
  by (metis starts_with_def length_take min.cobounded1)

lemma fingerprint_pattern_length [pattern_simps]: "length s = 71" if "fingerprint_pattern s"
proof -
  from that have "starts_with s ''sha256:''" and d: "length (drop 7 s) = 64"
    by (auto simp: fingerprint_pattern_def hex_word_def)
  then have "length ''sha256:'' \<le> length s" by (blast dest: starts_with_length)
  with d show ?thesis by simp
qed

lemma is_hex_not_space: "is_hex c \<Longrightarrow> \<not> is_space c"
  by (auto simp: char_class_defs is_space_def Let_def)

lemma hex_word_exact_text: "hex_word n s \<Longrightarrow> 0 < n \<Longrightarrow> is_exact_text s"
  by (cases s rule: rev_cases)
     (auto simp: hex_word_def is_exact_text_iff is_hex_not_space list_all_iff hd_append)

end
