(* ===== verification/Lifecycles.thy ===== *)
theory Lifecycles
  imports Prelude
begin

text \<open>
  The lifecycle kernel of \<^verbatim>\<open>packages/domain/src/asklegal_domain/lifecycles.py\<close>: the five closed
  state enumerations, snapshots, events and transition results with their validating
  constructors, the \<^verbatim>\<open>StateMachine\<close> class with its reachability loop, and the five declared
  machines. A generic \<^verbatim>\<open>StateT\<close> is a value of \<^verbatim>\<open>lifecycle_state\<close>, tagged with its
  enumeration, so that the run-time type checks of the code are real branches.
\<close>

datatype domain_error = DomainInvariantError | DomainTypeError

definition validate_exact_text :: "string \<Rightarrow> domain_error option" where
  "validate_exact_text v = raise_if (\<not> is_exact_text v) DomainInvariantError"

definition validate_exact_integer :: "int \<Rightarrow> int \<Rightarrow> domain_error option" where
  "validate_exact_integer v minimum = raise_if (v < minimum) DomainInvariantError"

lemma validate_exact_text_None [simp, guard_simps]:
  "validate_exact_text v = None \<longleftrightarrow> is_exact_text v"
  by (simp add: validate_exact_text_def)

lemma validate_exact_integer_None [simp, guard_simps]:
  "validate_exact_integer v n = None \<longleftrightarrow> n \<le> v"
  by (auto simp: validate_exact_integer_def)

section \<open>States\<close>

datatype transition_result_code = APPLIED | REJECTED_STALE_VERSION | REJECTED_INVALID_STATE

datatype pipeline_run_state =
    RUN_PLANNED | RUN_ADMITTED | RUN_ACTIVE | RUN_AWAITING_REVIEW | RUN_APPROVED
  | RUN_PROMOTING | RUN_SUCCEEDED | RUN_NO_CHANGE | RUN_REJECTED | RUN_CANCELLED
  | RUN_BLOCKED | RUN_FAILED | RUN_ROLLED_BACK

datatype work_item_state =
    WORK_PLANNED | WORK_DISPATCHED | WORK_RUNNING | WORK_RETRY_WAIT | WORK_SUCCEEDED
  | WORK_NO_CHANGE | WORK_BLOCKED | WORK_QUARANTINED | WORK_CANCELLED | WORK_FAILED_FINAL

datatype source_contract_review_state =
    SCR_OPEN | SCR_RESOLVED_SUPPORTED | SCR_RESOLVED_CHANGED | SCR_RESOLVED_UNSUPPORTED
  | SCR_SUPERSEDED

datatype coverage_gap_state =
    GAP_OPEN | GAP_MITIGATED_CARRY_FORWARD | GAP_MITIGATED_WITHHOLDING
  | GAP_RESOLVED_COMPLETE | GAP_SUPERSEDED

datatype quarantine_state =
    QUA_OPEN | QUA_RELEASED_TO_REPROCESSING | QUA_PERMANENTLY_EXCLUDED | QUA_SUPERSEDED

datatype lifecycle_state =
    RunS pipeline_run_state | WorkS work_item_state | ReviewS source_contract_review_state
  | GapS coverage_gap_state | QuarantineS quarantine_state

datatype state_type =
    PipelineRunState | WorkItemState | SourceContractReviewState | CoverageGapState
  | QuarantineState

fun type_of_state :: "lifecycle_state \<Rightarrow> state_type" where
  "type_of_state (RunS _) = PipelineRunState"
| "type_of_state (WorkS _) = WorkItemState"
| "type_of_state (ReviewS _) = SourceContractReviewState"
| "type_of_state (GapS _) = CoverageGapState"
| "type_of_state (QuarantineS _) = QuarantineState"

text \<open>\<^verbatim>\<open>frozenset(self.state_type)\<close>: the members of an enumeration.\<close>

fun members :: "state_type \<Rightarrow> lifecycle_state list" where
  "members PipelineRunState = map RunS
     [RUN_PLANNED, RUN_ADMITTED, RUN_ACTIVE, RUN_AWAITING_REVIEW, RUN_APPROVED, RUN_PROMOTING,
      RUN_SUCCEEDED, RUN_NO_CHANGE, RUN_REJECTED, RUN_CANCELLED, RUN_BLOCKED, RUN_FAILED,
      RUN_ROLLED_BACK]"
| "members WorkItemState = map WorkS
     [WORK_PLANNED, WORK_DISPATCHED, WORK_RUNNING, WORK_RETRY_WAIT, WORK_SUCCEEDED,
      WORK_NO_CHANGE, WORK_BLOCKED, WORK_QUARANTINED, WORK_CANCELLED, WORK_FAILED_FINAL]"
| "members SourceContractReviewState = map ReviewS
     [SCR_OPEN, SCR_RESOLVED_SUPPORTED, SCR_RESOLVED_CHANGED, SCR_RESOLVED_UNSUPPORTED,
      SCR_SUPERSEDED]"
| "members CoverageGapState = map GapS
     [GAP_OPEN, GAP_MITIGATED_CARRY_FORWARD, GAP_MITIGATED_WITHHOLDING, GAP_RESOLVED_COMPLETE,
      GAP_SUPERSEDED]"
| "members QuarantineState = map QuarantineS
     [QUA_OPEN, QUA_RELEASED_TO_REPROCESSING, QUA_PERMANENTLY_EXCLUDED, QUA_SUPERSEDED]"

lemma members_complete: "s \<in> set (members ty) \<longleftrightarrow> type_of_state s = ty"
proof (cases s)
  case (RunS x) then show ?thesis by (cases x; cases ty) auto
next
  case (WorkS x) then show ?thesis by (cases x; cases ty) auto
next
  case (ReviewS x) then show ?thesis by (cases x; cases ty) auto
next
  case (GapS x) then show ?thesis by (cases x; cases ty) auto
next
  case (QuarantineS x) then show ?thesis by (cases x; cases ty) auto
qed

section \<open>Snapshots, events and results\<close>

record lifecycle_snapshot =
  sn_entity_id :: string
  sn_state :: lifecycle_state
  sn_version :: int
  sn_predecessor_ref :: "string option"

definition make_snapshot ::
    "string \<Rightarrow> lifecycle_state \<Rightarrow> int \<Rightarrow> string option \<Rightarrow> domain_error + lifecycle_snapshot" where
  "make_snapshot entity_id state version predecessor_ref = construct
     [validate_exact_text entity_id,
      validate_exact_integer version 1,
      (case predecessor_ref of None \<Rightarrow> None
       | Some p \<Rightarrow> first_raise
           [validate_exact_text p, raise_if (p = entity_id) DomainInvariantError])]
     \<lparr>sn_entity_id = entity_id, sn_state = state, sn_version = version,
      sn_predecessor_ref = predecessor_ref\<rparr>"

record lifecycle_event =
  ev_entity_id :: string
  ev_from_state :: lifecycle_state
  ev_to_state :: lifecycle_state
  ev_prior_version :: int
  ev_new_version :: int

definition make_event ::
    "string \<Rightarrow> lifecycle_state \<Rightarrow> lifecycle_state \<Rightarrow> int \<Rightarrow> int \<Rightarrow> domain_error + lifecycle_event" where
  "make_event entity_id from_state to_state prior_version new_version = construct
     [validate_exact_text entity_id,
      raise_if (type_of_state from_state \<noteq> type_of_state to_state) DomainTypeError,
      raise_if (from_state = to_state) DomainInvariantError,
      validate_exact_integer prior_version 1,
      validate_exact_integer new_version 2,
      raise_if (new_version \<noteq> prior_version + 1) DomainInvariantError]
     \<lparr>ev_entity_id = entity_id, ev_from_state = from_state, ev_to_state = to_state,
      ev_prior_version = prior_version, ev_new_version = new_version\<rparr>"

record transition_result =
  tr_code :: transition_result_code
  tr_snapshot :: lifecycle_snapshot
  tr_event :: "lifecycle_event option"

definition make_transition_result ::
    "transition_result_code \<Rightarrow> lifecycle_snapshot \<Rightarrow> lifecycle_event option
       \<Rightarrow> domain_error + transition_result" where
  "make_transition_result code snapshot event = construct
     [if code = APPLIED
      then (case event of None \<Rightarrow> Some DomainInvariantError
            | Some e \<Rightarrow> first_raise
                [raise_if (ev_entity_id e \<noteq> sn_entity_id snapshot) DomainInvariantError,
                 raise_if (ev_to_state e \<noteq> sn_state snapshot) DomainInvariantError,
                 raise_if (ev_new_version e \<noteq> sn_version snapshot) DomainInvariantError])
      else raise_if (event \<noteq> None) DomainInvariantError]
     \<lparr>tr_code = code, tr_snapshot = snapshot, tr_event = event\<rparr>"

definition applied :: "transition_result \<Rightarrow> bool" where
  "applied r \<longleftrightarrow> tr_code r = APPLIED"

text \<open>What the snapshot constructor guarantees of every snapshot.\<close>

definition valid_snapshot :: "lifecycle_snapshot \<Rightarrow> bool" where
  "valid_snapshot s \<longleftrightarrow> is_exact_text (sn_entity_id s) \<and> 1 \<le> sn_version s \<and>
     (case sn_predecessor_ref s of None \<Rightarrow> True
      | Some p \<Rightarrow> is_exact_text p \<and> p \<noteq> sn_entity_id s)"

lemma make_snapshot_Inr:
  "make_snapshot i st v p = Inr s \<longleftrightarrow>
     s = \<lparr>sn_entity_id = i, sn_state = st, sn_version = v, sn_predecessor_ref = p\<rparr> \<and> valid_snapshot s"
  by (auto simp: make_snapshot_def valid_snapshot_def split: option.splits)

section \<open>The state machine\<close>

record state_machine =
  machine_id :: string
  machine_version :: string
  machine_entity_type :: string
  machine_state_type :: state_type
  initial_state :: lifecycle_state
  terminal_states :: "lifecycle_state list"
  transitions :: "(lifecycle_state \<times> lifecycle_state) list"

text \<open>
  \<^verbatim>\<open>_reachable_states\<close>: grow the set until it stops growing. Each round that continues adds the
  target of some transition, of which there are finitely many.
\<close>

definition expand :: "('s \<times> 's) list \<Rightarrow> 's set \<Rightarrow> 's set" where
  "expand ts reach = reach \<union> snd ` {e \<in> set ts. fst e \<in> reach}"

function reach_loop :: "('s \<times> 's) list \<Rightarrow> 's set \<Rightarrow> 's set" where
  "reach_loop ts reach =
     (if expand ts reach = reach then reach else reach_loop ts (expand ts reach))"
  by pat_completeness auto
termination
proof (relation "measure (\<lambda>(ts, reach). card (snd ` set ts - reach))", goal_cases)
  case (2 ts reach)
  then have "snd ` set ts - expand ts reach \<subset> snd ` set ts - reach"
    by (auto simp: expand_def)
  then show ?case by (simp add: psubset_card_mono)
qed simp

declare reach_loop.simps [simp del]

definition reachable_states :: "state_machine \<Rightarrow> lifecycle_state set" where
  "reachable_states m = reach_loop (transitions m) {initial_state m}"

definition validate_transition_rule ::
    "state_machine \<Rightarrow> lifecycle_state \<times> lifecycle_state \<Rightarrow> domain_error option" where
  "validate_transition_rule m rule = (case rule of (from_state, to_state) \<Rightarrow> first_raise
     [raise_if (type_of_state from_state \<noteq> machine_state_type m
                \<or> type_of_state to_state \<noteq> machine_state_type m) DomainInvariantError,
      raise_if (from_state \<in> set (terminal_states m)) DomainInvariantError,
      raise_if (from_state = to_state) DomainInvariantError])"

definition new_state_machine :: "state_machine \<Rightarrow> domain_error + state_machine" where
  "new_state_machine m = construct
     [validate_exact_text (machine_id m),
      validate_exact_text (machine_version m),
      validate_exact_text (machine_entity_type m),
      raise_if (type_of_state (initial_state m) \<noteq> machine_state_type m) DomainInvariantError,
      raise_if (\<exists>s \<in> set (terminal_states m). type_of_state s \<noteq> machine_state_type m)
        DomainInvariantError,
      first_raise (map (validate_transition_rule m) (transitions m)),
      raise_if (reachable_states m \<noteq> set (members (machine_state_type m))) DomainInvariantError]
     m"

definition start ::
    "state_machine \<Rightarrow> string \<Rightarrow> string option \<Rightarrow> domain_error + lifecycle_snapshot" where
  "start m entity_id predecessor_ref = make_snapshot entity_id (initial_state m) 1 predecessor_ref"

definition transition ::
    "state_machine \<Rightarrow> lifecycle_snapshot \<Rightarrow> lifecycle_state \<Rightarrow> int
       \<Rightarrow> domain_error + transition_result" where
  "transition m snapshot to_state expected_version =
     (if type_of_state (sn_state snapshot) \<noteq> machine_state_type m then Inl DomainTypeError
      else if type_of_state to_state \<noteq> machine_state_type m then Inl DomainTypeError
      else case validate_exact_integer expected_version 0 of
        Some e \<Rightarrow> Inl e
      | None \<Rightarrow>
          if expected_version \<noteq> sn_version snapshot
          then make_transition_result REJECTED_STALE_VERSION snapshot None
          else if (sn_state snapshot, to_state) \<notin> set (transitions m)
          then make_transition_result REJECTED_INVALID_STATE snapshot None
          else
            let new_version = sn_version snapshot + 1 in
            and_then (make_event (sn_entity_id snapshot) (sn_state snapshot) to_state
                        (sn_version snapshot) new_version)
              (\<lambda>event. and_then (make_snapshot (sn_entity_id snapshot) to_state new_version
                                   (sn_predecessor_ref snapshot))
                 (\<lambda>successor. make_transition_result APPLIED successor (Some event))))"

subsection \<open>The reachability loop computes the closure of the transitions\<close>

lemma expand_step: "expand ts R \<subseteq> {t. \<exists>s \<in> R. (s, t) \<in> (set ts)\<^sup>*}"
proof
  fix t assume "t \<in> expand ts R"
  then consider "t \<in> R" | s where "s \<in> R" "(s, t) \<in> set ts"
    by (auto simp: expand_def)
  then show "t \<in> {t. \<exists>s \<in> R. (s, t) \<in> (set ts)\<^sup>*}" by cases blast+
qed

lemma reach_loop_closure: "reach_loop ts R = {t. \<exists>s \<in> R. (s, t) \<in> (set ts)\<^sup>*}"
proof (induction ts R rule: reach_loop.induct)
  case (1 ts R)
  show ?case
  proof (cases "expand ts R = R")
    case True
    have "t \<in> R" if "s \<in> R" and "(s, t) \<in> (set ts)\<^sup>*" for s t
      using that(2,1)
    proof (induction rule: rtrancl_induct)
      case (step y z)
      then have "z \<in> expand ts R" by (force simp: expand_def)
      with True show ?case by simp
    qed
    moreover have "reach_loop ts R = R" using True by (simp add: reach_loop.simps [of ts R])
    ultimately show ?thesis by auto
  next
    case False
    have same: "{t. \<exists>s \<in> expand ts R. (s, t) \<in> (set ts)\<^sup>*} = {t. \<exists>s \<in> R. (s, t) \<in> (set ts)\<^sup>*}"
    proof (intro equalityI subsetI)
      fix t assume "t \<in> {t. \<exists>s \<in> expand ts R. (s, t) \<in> (set ts)\<^sup>*}"
      then obtain s where "s \<in> expand ts R" and st: "(s, t) \<in> (set ts)\<^sup>*" by blast
      from expand_step this(1) have "s \<in> {t. \<exists>s \<in> R. (s, t) \<in> (set ts)\<^sup>*}" by (rule subsetD)
      then obtain r where "r \<in> R" and "(r, s) \<in> (set ts)\<^sup>*" by auto
      from this(2) st have "(r, t) \<in> (set ts)\<^sup>*" by (rule rtrancl_trans)
      with \<open>r \<in> R\<close> show "t \<in> {t. \<exists>s \<in> R. (s, t) \<in> (set ts)\<^sup>*}" by auto
    qed (auto simp: expand_def)
    have "reach_loop ts R = reach_loop ts (expand ts R)"
      using False by (simp add: reach_loop.simps [of ts R])
    also have "\<dots> = {t. \<exists>s \<in> expand ts R. (s, t) \<in> (set ts)\<^sup>*}" using False by (rule "1.IH")
    finally show ?thesis unfolding same .
  qed
qed

lemma reach_loop_code [code]:
  "reach_loop ts reach = (let e = expand ts reach in if e \<subseteq> reach then reach else reach_loop ts e)"
proof -
  have "expand ts reach \<subseteq> reach \<longleftrightarrow> expand ts reach = reach" by (auto simp: expand_def)
  then show ?thesis by (simp add: Let_def reach_loop.simps [of ts reach])
qed

section \<open>Driving a machine\<close>

text \<open>
  A client holds a snapshot and issues transition requests, each with the version it expects. A
  request that raises leaves the snapshot as it is; \<^verbatim>\<open>drive\<close> returns the last snapshot and the
  events that were applied, oldest first.
\<close>

fun drive ::
    "state_machine \<Rightarrow> lifecycle_snapshot \<Rightarrow> (lifecycle_state \<times> int) list
       \<Rightarrow> lifecycle_snapshot \<times> lifecycle_event list" where
  "drive m s [] = (s, [])"
| "drive m s ((to_state, expected) # requests) =
     (case transition m s to_state expected of
        Inl _ \<Rightarrow> drive m s requests
      | Inr r \<Rightarrow>
          (case drive m (tr_snapshot r) requests of
             (s', evs) \<Rightarrow> (s', (case tr_event r of None \<Rightarrow> evs | Some e \<Rightarrow> e # evs))))"

text \<open>The events form a path of the machine from a state and version to another.\<close>

fun event_path ::
    "state_machine \<Rightarrow> string \<Rightarrow> lifecycle_state \<Rightarrow> int \<Rightarrow> lifecycle_event list
       \<Rightarrow> lifecycle_state \<Rightarrow> int \<Rightarrow> bool" where
  "event_path m i s v [] t w \<longleftrightarrow> t = s \<and> w = v"
| "event_path m i s v (e # es) t w \<longleftrightarrow>
     e = \<lparr>ev_entity_id = i, ev_from_state = s, ev_to_state = ev_to_state e,
          ev_prior_version = v, ev_new_version = v + 1\<rparr>
     \<and> (s, ev_to_state e) \<in> set (transitions m)
     \<and> event_path m i (ev_to_state e) (v + 1) es t w"

lemma event_path_snoc:
  "event_path m i s v (es @ [e]) t w \<longleftrightarrow>
     (\<exists>u. event_path m i s v es u (w - 1) \<and> (u, t) \<in> set (transitions m)
        \<and> e = \<lparr>ev_entity_id = i, ev_from_state = u, ev_to_state = t,
               ev_prior_version = w - 1, ev_new_version = w\<rparr>)"
  by (induction es arbitrary: s v) auto

lemma event_path_version: "event_path m i s v es t w \<Longrightarrow> w = v + int (length es)"
proof (induction es arbitrary: s v)
  case (Cons e es)
  then have "event_path m i (ev_to_state e) (v + 1) es t w" by simp
  then have "w = v + 1 + int (length es)" by (rule Cons.IH)
  then show ?case by simp
qed simp

lemma event_path_state: "event_path m i s v es t w \<Longrightarrow> t = (if es = [] then s else ev_to_state (last es))"
  by (induction es arbitrary: s v) auto

text \<open>
  The functional result of \<^verbatim>\<open>transition\<close> on a valid snapshot of the machine's own enumeration.
\<close>

definition transition_spec ::
    "state_machine \<Rightarrow> lifecycle_snapshot \<Rightarrow> lifecycle_state \<Rightarrow> int \<Rightarrow> transition_result" where
  "transition_spec m s t expected =
     (if expected \<noteq> sn_version s
      then \<lparr>tr_code = REJECTED_STALE_VERSION, tr_snapshot = s, tr_event = None\<rparr>
      else if (sn_state s, t) \<notin> set (transitions m)
      then \<lparr>tr_code = REJECTED_INVALID_STATE, tr_snapshot = s, tr_event = None\<rparr>
      else \<lparr>tr_code = APPLIED,
            tr_snapshot = s\<lparr>sn_state := t, sn_version := sn_version s + 1\<rparr>,
            tr_event = Some \<lparr>ev_entity_id = sn_entity_id s, ev_from_state = sn_state s,
              ev_to_state = t, ev_prior_version = sn_version s,
              ev_new_version = sn_version s + 1\<rparr>\<rparr>)"

text \<open>
  The interface of a machine that its constructor accepted. Its lemmas are the contract every
  declared machine inherits by interpretation.
\<close>

locale lifecycle =
  fixes m :: state_machine
  assumes accepted: "new_state_machine m = Inr m"
begin

lemma edge_rules:
  assumes "(s, t) \<in> set (transitions m)"
  shows "type_of_state s = machine_state_type m" "type_of_state t = machine_state_type m"
    "s \<notin> set (terminal_states m)" "s \<noteq> t"
proof -
  have "validate_transition_rule m (s, t) = None"
    using accepted assms by (auto simp: new_state_machine_def first_raise_None_iff)
  then show "type_of_state s = machine_state_type m" "type_of_state t = machine_state_type m"
    "s \<notin> set (terminal_states m)" "s \<noteq> t"
    by (auto simp: validate_transition_rule_def)
qed

lemma reachable_iff: "type_of_state t = machine_state_type m
    \<longleftrightarrow> (initial_state m, t) \<in> (set (transitions m))\<^sup>*"
  using accepted members_complete [of t]
  by (auto simp: new_state_machine_def reachable_states_def reach_loop_closure)

lemma transition_is_spec:
  assumes "valid_snapshot s" and "type_of_state (sn_state s) = machine_state_type m"
    and "type_of_state t = machine_state_type m" and "0 \<le> expected"
  shows "transition m s t expected = Inr (transition_spec m s t expected)"
proof (cases "(sn_state s, t) \<in> set (transitions m)")
  case True
  from assms(1) have v: "is_exact_text (sn_entity_id s)" "1 \<le> sn_version s"
    by (auto simp: valid_snapshot_def)
  from assms(1) have "valid_snapshot (s\<lparr>sn_state := t, sn_version := sn_version s + 1\<rparr>)"
    by (auto simp: valid_snapshot_def split: option.splits)
  then have sn: "make_snapshot (sn_entity_id s) t (sn_version s + 1) (sn_predecessor_ref s)
      = Inr (s\<lparr>sn_state := t, sn_version := sn_version s + 1\<rparr>)"
    by (subst make_snapshot_Inr) simp
  have ev: "make_event (sn_entity_id s) (sn_state s) t (sn_version s) (sn_version s + 1)
      = Inr \<lparr>ev_entity_id = sn_entity_id s, ev_from_state = sn_state s, ev_to_state = t,
             ev_prior_version = sn_version s, ev_new_version = sn_version s + 1\<rparr>"
    using v assms(2,3) edge_rules(4) [OF True] by (simp add: make_event_def)
  show ?thesis
    using assms True
    by (auto simp: transition_def transition_spec_def sn ev Let_def make_transition_result_def
        validate_exact_integer_def raise_if_def construct_def)
next
  case False
  with assms show ?thesis
    by (auto simp: transition_def transition_spec_def make_transition_result_def construct_def
        validate_exact_integer_def raise_if_def)
qed

lemma spec_valid:
  assumes "valid_snapshot s" and "type_of_state t = machine_state_type m"
    and "type_of_state (sn_state s) = machine_state_type m"
  shows "valid_snapshot (tr_snapshot (transition_spec m s t expected))"
    "type_of_state (sn_state (tr_snapshot (transition_spec m s t expected))) = machine_state_type m"
  using assms by (auto simp: transition_spec_def valid_snapshot_def split: option.splits)

lemma transition_cases:
  assumes "valid_snapshot s" and "type_of_state (sn_state s) = machine_state_type m"
  obtains e where "transition m s t expected = Inl e"
  | "transition m s t expected = Inr (transition_spec m s t expected)"
    "type_of_state t = machine_state_type m"
proof (cases "type_of_state t = machine_state_type m \<and> 0 \<le> expected")
  case True
  with assms transition_is_spec that(2) show ?thesis by blast
next
  case False
  with assms(2) have "\<exists>e. transition m s t expected = Inl e"
    by (auto simp: transition_def validate_exact_integer_def raise_if_def)
  with that(1) show ?thesis by blast
qed

lemma drive_path:
  assumes "valid_snapshot s" and "type_of_state (sn_state s) = machine_state_type m"
    and "drive m s requests = (s', evs)"
  shows "valid_snapshot s' \<and> sn_entity_id s' = sn_entity_id s
    \<and> sn_predecessor_ref s' = sn_predecessor_ref s
    \<and> event_path m (sn_entity_id s) (sn_state s) (sn_version s) evs (sn_state s') (sn_version s')"
  using assms
proof (induction requests arbitrary: s evs)
  case Nil
  then show ?case by simp
next
  case (Cons r requests)
  obtain t expected where r: "r = (t, expected)" by (cases r)
  from Cons.prems(1,2) show ?case
  proof (cases rule: transition_cases [of s t expected])
    case (1 e)
    with Cons r show ?thesis by simp
  next
    case 2
    let ?n = "tr_snapshot (transition_spec m s t expected)"
    obtain evs' where d: "drive m ?n requests = (s', evs')"
      and evs: "evs = (case tr_event (transition_spec m s t expected) of
          None \<Rightarrow> evs' | Some e \<Rightarrow> e # evs')"
      using Cons.prems(3) r 2(1) by (auto split: prod.splits)
    from spec_valid [OF Cons.prems(1) 2(2) Cons.prems(2)] d
    have "valid_snapshot s' \<and> sn_entity_id s' = sn_entity_id ?n
        \<and> sn_predecessor_ref s' = sn_predecessor_ref ?n
        \<and> event_path m (sn_entity_id ?n) (sn_state ?n) (sn_version ?n) evs'
             (sn_state s') (sn_version s')"
      by (intro Cons.IH)
    with evs show ?thesis by (auto simp: transition_spec_def split: if_splits)
  qed
qed

lemma terminal_absorbing:
  assumes "valid_snapshot s" and "sn_state s \<in> set (terminal_states m)"
  shows "drive m s requests = (s, [])"
proof -
  have ty: "type_of_state (sn_state s) = machine_state_type m"
    using accepted assms(2) by (auto simp: new_state_machine_def)
  obtain s' evs where d: "drive m s requests = (s', evs)" by fastforce
  from drive_path [OF assms(1) ty d] have p: "valid_snapshot s'" "sn_entity_id s' = sn_entity_id s"
    "sn_predecessor_ref s' = sn_predecessor_ref s"
    "event_path m (sn_entity_id s) (sn_state s) (sn_version s) evs (sn_state s') (sn_version s')"
    by auto
  have "evs = []" using p(4) assms(2) edge_rules(3) by (cases evs) auto
  with p d show ?thesis by simp
qed

lemma stale_after_applied:
  assumes "valid_snapshot s" and "type_of_state (sn_state s) = machine_state_type m"
    and "transition m s t v = Inr r" and "applied r" and "type_of_state u = machine_state_type m"
  shows "transition m (tr_snapshot r) u v
    = Inr \<lparr>tr_code = REJECTED_STALE_VERSION, tr_snapshot = tr_snapshot r, tr_event = None\<rparr>"
proof -
  from assms(1,2) have rt: "r = transition_spec m s t v \<and> type_of_state t = machine_state_type m"
    by (cases rule: transition_cases [of s t v]) (use assms(3) in auto)
  then have r: "r = transition_spec m s t v" and t: "type_of_state t = machine_state_type m"
    by auto
  have v: "v = sn_version s" "1 \<le> v"
    using assms(1,4) r by (auto simp: applied_def transition_spec_def valid_snapshot_def split: if_splits)
  from spec_valid [OF assms(1) t assms(2)] r
  have "transition m (tr_snapshot r) u v = Inr (transition_spec m (tr_snapshot r) u v)"
    using assms(5) v by (intro transition_is_spec) auto
  then show ?thesis
    using assms(4) r v by (auto simp: transition_spec_def applied_def split: if_splits)
qed

end

section \<open>The five declared machines\<close>

definition pipeline_run_machine :: state_machine where
  "pipeline_run_machine = \<lparr>
     machine_id = ''asklegal.pipeline-run-lifecycle.v1'',
     machine_version = ''1.0.0'',
     machine_entity_type = ''Pipeline Run'',
     machine_state_type = PipelineRunState,
     initial_state = RunS RUN_PLANNED,
     terminal_states = map RunS
      [RUN_SUCCEEDED, RUN_NO_CHANGE, RUN_REJECTED, RUN_CANCELLED, RUN_BLOCKED, RUN_FAILED,
      RUN_ROLLED_BACK],
     transitions = map (map_prod RunS RunS)
      [(RUN_PLANNED, RUN_ADMITTED), (RUN_PLANNED, RUN_BLOCKED), (RUN_PLANNED, RUN_CANCELLED),
      (RUN_PLANNED, RUN_FAILED), (RUN_ADMITTED, RUN_ACTIVE), (RUN_ADMITTED, RUN_BLOCKED),
      (RUN_ADMITTED, RUN_CANCELLED), (RUN_ADMITTED, RUN_FAILED),
      (RUN_ACTIVE, RUN_AWAITING_REVIEW), (RUN_ACTIVE, RUN_NO_CHANGE), (RUN_ACTIVE, RUN_BLOCKED),
      (RUN_ACTIVE, RUN_CANCELLED), (RUN_ACTIVE, RUN_FAILED), (RUN_AWAITING_REVIEW, RUN_APPROVED),
      (RUN_AWAITING_REVIEW, RUN_REJECTED), (RUN_AWAITING_REVIEW, RUN_BLOCKED),
      (RUN_AWAITING_REVIEW, RUN_CANCELLED), (RUN_AWAITING_REVIEW, RUN_FAILED),
      (RUN_APPROVED, RUN_PROMOTING), (RUN_APPROVED, RUN_BLOCKED), (RUN_APPROVED, RUN_CANCELLED),
      (RUN_APPROVED, RUN_FAILED), (RUN_PROMOTING, RUN_SUCCEEDED),
      (RUN_PROMOTING, RUN_ROLLED_BACK), (RUN_PROMOTING, RUN_FAILED)]\<rparr>"

definition work_item_machine :: state_machine where
  "work_item_machine = \<lparr>
     machine_id = ''asklegal.work-item-lifecycle.v1'',
     machine_version = ''1.0.0'',
     machine_entity_type = ''Work Item'',
     machine_state_type = WorkItemState,
     initial_state = WorkS WORK_PLANNED,
     terminal_states = map WorkS
      [WORK_SUCCEEDED, WORK_NO_CHANGE, WORK_BLOCKED, WORK_QUARANTINED, WORK_CANCELLED,
      WORK_FAILED_FINAL],
     transitions = map (map_prod WorkS WorkS)
      [(WORK_PLANNED, WORK_DISPATCHED), (WORK_PLANNED, WORK_BLOCKED),
      (WORK_PLANNED, WORK_CANCELLED), (WORK_PLANNED, WORK_FAILED_FINAL),
      (WORK_DISPATCHED, WORK_RUNNING), (WORK_DISPATCHED, WORK_BLOCKED),
      (WORK_DISPATCHED, WORK_CANCELLED), (WORK_DISPATCHED, WORK_FAILED_FINAL),
      (WORK_RUNNING, WORK_SUCCEEDED), (WORK_RUNNING, WORK_NO_CHANGE),
      (WORK_RUNNING, WORK_BLOCKED), (WORK_RUNNING, WORK_QUARANTINED),
      (WORK_RUNNING, WORK_CANCELLED), (WORK_RUNNING, WORK_FAILED_FINAL),
      (WORK_RUNNING, WORK_RETRY_WAIT), (WORK_RETRY_WAIT, WORK_DISPATCHED),
      (WORK_RETRY_WAIT, WORK_BLOCKED), (WORK_RETRY_WAIT, WORK_CANCELLED),
      (WORK_RETRY_WAIT, WORK_FAILED_FINAL)]\<rparr>"

definition source_contract_review_machine :: state_machine where
  "source_contract_review_machine = \<lparr>
     machine_id = ''asklegal.source-contract-review-lifecycle.v1'',
     machine_version = ''1.0.0'',
     machine_entity_type = ''Source Contract Review'',
     machine_state_type = SourceContractReviewState,
     initial_state = ReviewS SCR_OPEN,
     terminal_states = map ReviewS
      [SCR_RESOLVED_SUPPORTED, SCR_RESOLVED_CHANGED, SCR_RESOLVED_UNSUPPORTED, SCR_SUPERSEDED],
     transitions = map (map_prod ReviewS ReviewS)
      [(SCR_OPEN, SCR_RESOLVED_SUPPORTED), (SCR_OPEN, SCR_RESOLVED_CHANGED),
      (SCR_OPEN, SCR_RESOLVED_UNSUPPORTED), (SCR_OPEN, SCR_SUPERSEDED)]\<rparr>"

definition coverage_gap_machine :: state_machine where
  "coverage_gap_machine = \<lparr>
     machine_id = ''asklegal.coverage-gap-lifecycle.v1'',
     machine_version = ''1.0.0'',
     machine_entity_type = ''Coverage Gap'',
     machine_state_type = CoverageGapState,
     initial_state = GapS GAP_OPEN,
     terminal_states = map GapS
      [GAP_RESOLVED_COMPLETE, GAP_SUPERSEDED],
     transitions = map (map_prod GapS GapS)
      [(GAP_MITIGATED_CARRY_FORWARD, GAP_MITIGATED_WITHHOLDING),
      (GAP_MITIGATED_WITHHOLDING, GAP_MITIGATED_CARRY_FORWARD),
      (GAP_OPEN, GAP_MITIGATED_CARRY_FORWARD), (GAP_OPEN, GAP_MITIGATED_WITHHOLDING),
      (GAP_OPEN, GAP_RESOLVED_COMPLETE), (GAP_OPEN, GAP_SUPERSEDED),
      (GAP_MITIGATED_CARRY_FORWARD, GAP_RESOLVED_COMPLETE),
      (GAP_MITIGATED_CARRY_FORWARD, GAP_SUPERSEDED),
      (GAP_MITIGATED_WITHHOLDING, GAP_RESOLVED_COMPLETE),
      (GAP_MITIGATED_WITHHOLDING, GAP_SUPERSEDED)]\<rparr>"

definition quarantine_machine :: state_machine where
  "quarantine_machine = \<lparr>
     machine_id = ''asklegal.quarantine-lifecycle.v1'',
     machine_version = ''1.0.0'',
     machine_entity_type = ''Quarantine'',
     machine_state_type = QuarantineState,
     initial_state = QuarantineS QUA_OPEN,
     terminal_states = map QuarantineS
      [QUA_RELEASED_TO_REPROCESSING, QUA_PERMANENTLY_EXCLUDED, QUA_SUPERSEDED],
     transitions = map (map_prod QuarantineS QuarantineS)
      [(QUA_OPEN, QUA_RELEASED_TO_REPROCESSING), (QUA_OPEN, QUA_PERMANENTLY_EXCLUDED),
      (QUA_OPEN, QUA_SUPERSEDED)]\<rparr>"

definition declared_machines :: "state_machine list" where
  "declared_machines = [pipeline_run_machine, work_item_machine, source_contract_review_machine,
     coverage_gap_machine, quarantine_machine]"

lemmas machine_defs = pipeline_run_machine_def work_item_machine_def
  source_contract_review_machine_def coverage_gap_machine_def quarantine_machine_def

text \<open>The reachability loop on a transition list, as a computation the simplifier can run.\<close>

lemma expand_code: "expand ts (set rs) = set (rs @ map snd (filter (\<lambda>e. fst e \<in> set rs) ts))"
  by (auto simp: expand_def)

fun reach_list :: "nat \<Rightarrow> ('s \<times> 's) list \<Rightarrow> 's list \<Rightarrow> 's list" where
  "reach_list 0 ts rs = rs"
| "reach_list (Suc n) ts rs =
     reach_list n ts (remdups (rs @ map snd (filter (\<lambda>e. fst e \<in> set rs) ts)))"

lemma reach_loop_list:
  assumes "expand ts (set (reach_list n ts rs)) = set (reach_list n ts rs)"
  shows "reach_loop ts (set rs) = set (reach_list n ts rs)"
  using assms
proof (induction n arbitrary: rs)
  case 0
  then show ?case by (simp add: reach_loop.simps [of ts "set rs"])
next
  case (Suc n)
  let ?rs = "remdups (rs @ map snd (filter (\<lambda>e. fst e \<in> set rs) ts))"
  have ex: "expand ts (set rs) = set ?rs" unfolding expand_code by simp
  have "reach_loop ts (set ?rs) = set (reach_list n ts ?rs)"
    by (rule Suc.IH) (use Suc.prems in \<open>simp only: reach_list.simps\<close>)
  moreover have "reach_loop ts (set rs) = reach_loop ts (expand ts (set rs))"
    by (cases "expand ts (set rs) = set rs") (simp_all add: reach_loop.simps [of ts "set rs"])
  ultimately show ?case unfolding ex by simp
qed

lemma accepted_by_evaluation:
  assumes "is_exact_text (machine_id m)" "is_exact_text (machine_version m)"
    "is_exact_text (machine_entity_type m)"
    "type_of_state (initial_state m) = machine_state_type m"
    "list_all (\<lambda>s. type_of_state s = machine_state_type m) (terminal_states m)"
    "list_all (\<lambda>e. validate_transition_rule m e = None) (transitions m)"
    "expand (transitions m) (set (reach_list n (transitions m) [initial_state m]))
       = set (reach_list n (transitions m) [initial_state m])"
    "set (reach_list n (transitions m) [initial_state m]) = set (members (machine_state_type m))"
  shows "new_state_machine m = Inr m"
  using assms reach_loop_list [OF assms(7)]
  by (auto simp: new_state_machine_def first_raise_None_iff list_all_iff reachable_states_def)

lemma pipeline_run_accepted: "new_state_machine pipeline_run_machine = Inr pipeline_run_machine"
  by (rule accepted_by_evaluation [where n = 7]) code_simp+

lemma work_item_accepted: "new_state_machine work_item_machine = Inr work_item_machine"
  by (rule accepted_by_evaluation [where n = 5]) code_simp+

lemma source_contract_review_accepted:
  "new_state_machine source_contract_review_machine = Inr source_contract_review_machine"
  by (rule accepted_by_evaluation [where n = 2]) code_simp+

lemma coverage_gap_accepted: "new_state_machine coverage_gap_machine = Inr coverage_gap_machine"
  by (rule accepted_by_evaluation [where n = 3]) code_simp+

lemma quarantine_accepted: "new_state_machine quarantine_machine = Inr quarantine_machine"
  by (rule accepted_by_evaluation [where n = 2]) code_simp+

lemmas machines_accepted = pipeline_run_accepted work_item_accepted
  source_contract_review_accepted coverage_gap_accepted quarantine_accepted

interpretation run_lc: lifecycle pipeline_run_machine
  by unfold_locales (rule pipeline_run_accepted)

interpretation work_lc: lifecycle work_item_machine
  by unfold_locales (rule work_item_accepted)

interpretation review_lc: lifecycle source_contract_review_machine
  by unfold_locales (rule source_contract_review_accepted)

interpretation gap_lc: lifecycle coverage_gap_machine
  by unfold_locales (rule coverage_gap_accepted)

interpretation quarantine_lc: lifecycle quarantine_machine
  by unfold_locales (rule quarantine_accepted)

lemma declared_lifecycle: "m \<in> set declared_machines \<Longrightarrow> lifecycle m"
  by (auto simp: declared_machines_def run_lc.lifecycle_axioms work_lc.lifecycle_axioms
      review_lc.lifecycle_axioms gap_lc.lifecycle_axioms quarantine_lc.lifecycle_axioms)

section \<open>Quarantine re-entry\<close>

record reprocessing_admission =
  ra_quarantine_id :: string
  ra_work_item :: lifecycle_snapshot

definition make_reprocessing_admission ::
    "string \<Rightarrow> lifecycle_snapshot \<Rightarrow> domain_error + reprocessing_admission" where
  "make_reprocessing_admission quarantine_id work_item = construct
     [validate_exact_text quarantine_id,
      raise_if (type_of_state (sn_state work_item) \<noteq> WorkItemState) DomainTypeError,
      raise_if (sn_state work_item \<noteq> WorkS WORK_PLANNED \<or> sn_version work_item \<noteq> 1)
        DomainInvariantError,
      raise_if (sn_predecessor_ref work_item = None) DomainInvariantError]
     \<lparr>ra_quarantine_id = quarantine_id, ra_work_item = work_item\<rparr>"

definition admit_quarantine_reentry ::
    "lifecycle_snapshot \<Rightarrow> string \<Rightarrow> string \<Rightarrow> domain_error + reprocessing_admission" where
  "admit_quarantine_reentry quarantine new_work_item_id predecessor_work_item_ref =
     (if type_of_state (sn_state quarantine) \<noteq> QuarantineState then Inl DomainTypeError
      else if sn_state quarantine \<noteq> QuarantineS QUA_RELEASED_TO_REPROCESSING
      then Inl DomainInvariantError
      else and_then (start work_item_machine new_work_item_id (Some predecessor_work_item_ref))
             (make_reprocessing_admission (sn_entity_id quarantine)))"

section \<open>Properties\<close>

text \<open>
  The reachability loop of \<^verbatim>\<open>StateMachine._reachable_states\<close> terminates and returns exactly
  the states that a chain of declared transitions reaches from the initial state.
\<close>

theorem reachable_states_closure:
  "reachable_states m = {t. (initial_state m, t) \<in> (set (transitions m))\<^sup>*}"
  by (simp add: reachable_states_def reach_loop_closure)

text \<open>
  All five declared machines pass their own construction check: closed over their enumeration,
  no transition out of a terminal state, no self-transition, every state reachable.
\<close>

theorem declared_machines_accepted:
  "map new_state_machine declared_machines = map Inr declared_machines"
  by (simp add: declared_machines_def machines_accepted)

text \<open>
  On every declared machine a transition request that names a state of the machine and a
  non-negative expected version never raises: it is rejected as stale when the version differs,
  rejected as invalid when the edge is not declared, and otherwise applied, moving the state,
  incrementing the version once and keeping identity and predecessor.
\<close>

theorem transition_functional:
  assumes "m \<in> set declared_machines" and "valid_snapshot s"
    and "type_of_state (sn_state s) = machine_state_type m"
    and "type_of_state t = machine_state_type m" and "0 \<le> expected"
  shows "transition m s t expected = Inr
     (if expected \<noteq> sn_version s
      then \<lparr>tr_code = REJECTED_STALE_VERSION, tr_snapshot = s, tr_event = None\<rparr>
      else if (sn_state s, t) \<notin> set (transitions m)
      then \<lparr>tr_code = REJECTED_INVALID_STATE, tr_snapshot = s, tr_event = None\<rparr>
      else \<lparr>tr_code = APPLIED,
            tr_snapshot = s\<lparr>sn_state := t, sn_version := sn_version s + 1\<rparr>,
            tr_event = Some \<lparr>ev_entity_id = sn_entity_id s, ev_from_state = sn_state s,
              ev_to_state = t, ev_prior_version = sn_version s,
              ev_new_version = sn_version s + 1\<rparr>\<rparr>)"
  using lifecycle.transition_is_spec [OF declared_lifecycle [OF assms(1)] assms(2-5)]
  by (simp add: transition_spec_def)

definition gap_snapshot :: lifecycle_snapshot where
  "gap_snapshot = \<lparr>sn_entity_id = ''gap-7'', sn_state = GapS GAP_OPEN, sn_version = 1,
     sn_predecessor_ref = None\<rparr>"

lemma gap_snapshot_valid: "valid_snapshot gap_snapshot"
  by (simp add: valid_snapshot_def gap_snapshot_def is_exact_text_iff is_space_def)

theorem transition_functional_witness:
  "transition coverage_gap_machine gap_snapshot (GapS GAP_MITIGATED_WITHHOLDING) 1 = Inr
     \<lparr>tr_code = APPLIED,
      tr_snapshot = gap_snapshot\<lparr>sn_state := GapS GAP_MITIGATED_WITHHOLDING, sn_version := 2\<rparr>,
      tr_event = Some \<lparr>ev_entity_id = ''gap-7'', ev_from_state = GapS GAP_OPEN,
        ev_to_state = GapS GAP_MITIGATED_WITHHOLDING, ev_prior_version = 1, ev_new_version = 2\<rparr>\<rparr>"
  using transition_functional [of coverage_gap_machine gap_snapshot
      "GapS GAP_MITIGATED_WITHHOLDING" 1] gap_snapshot_valid
  by (simp add: declared_machines_def gap_snapshot_def coverage_gap_machine_def)

text \<open>
  Two clients that read the same version cannot both move an entity: once one request with
  that version is applied, any other request with the same version on the successor is rejected
  as stale and changes nothing.
\<close>

theorem lost_update_rejected:
  assumes "m \<in> set declared_machines" and "valid_snapshot s"
    and "type_of_state (sn_state s) = machine_state_type m"
    and "transition m s t v = Inr r" and "applied r"
    and "type_of_state u = machine_state_type m"
  shows "transition m (tr_snapshot r) u v
    = Inr \<lparr>tr_code = REJECTED_STALE_VERSION, tr_snapshot = tr_snapshot r, tr_event = None\<rparr>"
  using declared_lifecycle [OF assms(1)] assms(2-6) by (rule lifecycle.stale_after_applied)

theorem lost_update_rejected_witness:
  "transition coverage_gap_machine
       (gap_snapshot\<lparr>sn_state := GapS GAP_RESOLVED_COMPLETE, sn_version := 2\<rparr>) (GapS GAP_SUPERSEDED) 1
   = Inr \<lparr>tr_code = REJECTED_STALE_VERSION,
       tr_snapshot = gap_snapshot\<lparr>sn_state := GapS GAP_RESOLVED_COMPLETE, sn_version := 2\<rparr>,
       tr_event = None\<rparr>"
proof -
  let ?s = "gap_snapshot\<lparr>sn_state := GapS GAP_RESOLVED_COMPLETE, sn_version := 2\<rparr>"
  let ?r = "transition_spec coverage_gap_machine gap_snapshot (GapS GAP_RESOLVED_COMPLETE) 1"
  have t: "transition coverage_gap_machine gap_snapshot (GapS GAP_RESOLVED_COMPLETE) 1 = Inr ?r"
    by (rule gap_lc.transition_is_spec)
      (simp_all add: gap_snapshot_valid, simp_all add: gap_snapshot_def coverage_gap_machine_def)
  have "applied ?r" and "tr_snapshot ?r = ?s"
    by (simp_all add: applied_def transition_spec_def gap_snapshot_def coverage_gap_machine_def)
  with lost_update_rejected [OF _ gap_snapshot_valid _ t, of "GapS GAP_SUPERSEDED"] show ?thesis
    by (simp add: declared_machines_def gap_snapshot_def coverage_gap_machine_def)
qed

text \<open>
  Whatever sequence of requests a client issues, the applied events form one path of declared
  transitions from the snapshot it started with, each event incrementing the version by one, and
  the last snapshot is where the path ends, with identity and predecessor unchanged.
\<close>

theorem history_is_a_path:
  assumes "m \<in> set declared_machines" and "valid_snapshot s"
    and "type_of_state (sn_state s) = machine_state_type m"
    and "drive m s requests = (s', evs)"
  shows "event_path m (sn_entity_id s) (sn_state s) (sn_version s) evs (sn_state s') (sn_version s')
    \<and> sn_version s' = sn_version s + int (length evs)
    \<and> sn_entity_id s' = sn_entity_id s \<and> sn_predecessor_ref s' = sn_predecessor_ref s"
  using lifecycle.drive_path [OF declared_lifecycle [OF assms(1)] assms(2-4)]
  by (auto dest: event_path_version)

theorem history_is_a_path_witness:
  "case drive coverage_gap_machine gap_snapshot
      [(GapS GAP_MITIGATED_WITHHOLDING, 1), (GapS GAP_RESOLVED_COMPLETE, 1),
       (GapS GAP_RESOLVED_COMPLETE, 2)] of
     (s', evs) \<Rightarrow> sn_version s' = 1 + int (length evs)"
  using history_is_a_path [of coverage_gap_machine gap_snapshot
      "[(GapS GAP_MITIGATED_WITHHOLDING, 1), (GapS GAP_RESOLVED_COMPLETE, 1),
       (GapS GAP_RESOLVED_COMPLETE, 2)]"] gap_snapshot_valid
  by (simp add: declared_machines_def split: prod.splits)
    (simp add: gap_snapshot_def coverage_gap_machine_def)

text \<open>
  A terminal state is final: no sequence of requests moves an entity out of it or produces an
  event.
\<close>

theorem terminal_states_are_final:
  assumes "m \<in> set declared_machines" and "valid_snapshot s"
    and "sn_state s \<in> set (terminal_states m)"
  shows "drive m s requests = (s, [])"
  using declared_lifecycle [OF assms(1)] assms(2,3) by (rule lifecycle.terminal_absorbing)

theorem terminal_states_are_final_witness:
  "drive quarantine_machine
     (gap_snapshot\<lparr>sn_state := QuarantineS QUA_PERMANENTLY_EXCLUDED\<rparr>)
     [(QuarantineS QUA_RELEASED_TO_REPROCESSING, 1), (QuarantineS QUA_OPEN, 1)]
   = (gap_snapshot\<lparr>sn_state := QuarantineS QUA_PERMANENTLY_EXCLUDED\<rparr>, [])"
  by (rule terminal_states_are_final)
    (simp_all add: declared_machines_def quarantine_machine_def valid_snapshot_def gap_snapshot_def
      is_exact_text_iff is_space_def)

text \<open>The only edges into the states on the way to success.\<close>

lemma event_path_into:
  assumes "event_path m i s v evs t w" and "s \<noteq> t"
  obtains u es e where "evs = es @ [e]" "ev_to_state e = t" "(u, t) \<in> set (transitions m)"
    "event_path m i s v es u (w - 1)"
proof (cases evs rule: rev_cases)
  case Nil
  with assms show ?thesis by simp
next
  case (snoc es e)
  with assms(1) have "event_path m i s v (es @ [e]) t w" by simp
  then obtain u where "event_path m i s v es u (w - 1)" "(u, t) \<in> set (transitions m)"
    "ev_to_state e = t"
    unfolding event_path_snoc by auto
  with snoc that show ?thesis by blast
qed

abbreviation run_edge :: "pipeline_run_state \<Rightarrow> pipeline_run_state \<Rightarrow> bool" where
  "run_edge a b \<equiv> (RunS a, RunS b) \<in> set (transitions pipeline_run_machine)"

lemma run_edges_into:
  "(u, RunS RUN_SUCCEEDED) \<in> set (transitions pipeline_run_machine) \<longleftrightarrow> u = RunS RUN_PROMOTING"
  "(u, RunS RUN_PROMOTING) \<in> set (transitions pipeline_run_machine) \<longleftrightarrow> u = RunS RUN_APPROVED"
  "(u, RunS RUN_APPROVED) \<in> set (transitions pipeline_run_machine) \<longleftrightarrow> u = RunS RUN_AWAITING_REVIEW"
  "(u, RunS RUN_AWAITING_REVIEW) \<in> set (transitions pipeline_run_machine) \<longleftrightarrow> u = RunS RUN_ACTIVE"
  "(u, RunS RUN_ACTIVE) \<in> set (transitions pipeline_run_machine) \<longleftrightarrow> u = RunS RUN_ADMITTED"
  "(u, RunS RUN_ADMITTED) \<in> set (transitions pipeline_run_machine) \<longleftrightarrow> u = RunS RUN_PLANNED"
  "(u, RunS RUN_PLANNED) \<notin> set (transitions pipeline_run_machine)"
  by (auto simp: pipeline_run_machine_def)

lemma run_path_to_planned:
  assumes "event_path pipeline_run_machine i (RunS RUN_PLANNED) v evs (RunS RUN_PLANNED) w"
  shows "evs = []"
proof (cases evs rule: rev_cases)
  case (snoc es e)
  with assms have "event_path pipeline_run_machine i (RunS RUN_PLANNED) v (es @ [e]) (RunS RUN_PLANNED) w"
    by simp
  then show ?thesis unfolding event_path_snoc using run_edges_into(7) by blast
qed simp

lemma run_path_step:
  assumes "event_path pipeline_run_machine i (RunS RUN_PLANNED) v evs (RunS b) w"
    and "b \<noteq> RUN_PLANNED"
    and "\<And>u. (u, RunS b) \<in> set (transitions pipeline_run_machine) \<longleftrightarrow> u = RunS a"
  obtains es e where "evs = es @ [e]" "ev_to_state e = RunS b"
    "event_path pipeline_run_machine i (RunS RUN_PLANNED) v es (RunS a) (w - 1)"
  using event_path_into [OF assms(1)] assms(2,3) by (metis lifecycle_state.inject(1))

lemma run_success_path:
  assumes "event_path pipeline_run_machine i (RunS RUN_PLANNED) v evs (RunS RUN_SUCCEEDED) w"
  shows "map ev_to_state evs = map RunS
    [RUN_ADMITTED, RUN_ACTIVE, RUN_AWAITING_REVIEW, RUN_APPROVED, RUN_PROMOTING, RUN_SUCCEEDED]"
proof -
  from run_path_step [OF assms _ run_edges_into(1)] obtain es6 e6 where
    6: "evs = es6 @ [e6]" "ev_to_state e6 = RunS RUN_SUCCEEDED" and
    p5: "event_path pipeline_run_machine i (RunS RUN_PLANNED) v es6 (RunS RUN_PROMOTING) (w - 1)"
    by blast
  from run_path_step [OF p5 _ run_edges_into(2)] obtain es5 e5 where
    5: "es6 = es5 @ [e5]" "ev_to_state e5 = RunS RUN_PROMOTING" and
    p4: "event_path pipeline_run_machine i (RunS RUN_PLANNED) v es5 (RunS RUN_APPROVED) (w - 1 - 1)"
    by blast
  from run_path_step [OF p4 _ run_edges_into(3)] obtain es4 e4 where
    4: "es5 = es4 @ [e4]" "ev_to_state e4 = RunS RUN_APPROVED" and
    p3: "event_path pipeline_run_machine i (RunS RUN_PLANNED) v es4 (RunS RUN_AWAITING_REVIEW)
      (w - 1 - 1 - 1)"
    by blast
  from run_path_step [OF p3 _ run_edges_into(4)] obtain es3 e3 where
    3: "es4 = es3 @ [e3]" "ev_to_state e3 = RunS RUN_AWAITING_REVIEW" and
    p2: "event_path pipeline_run_machine i (RunS RUN_PLANNED) v es3 (RunS RUN_ACTIVE)
      (w - 1 - 1 - 1 - 1)"
    by blast
  from run_path_step [OF p2 _ run_edges_into(5)] obtain es2 e2 where
    2: "es3 = es2 @ [e2]" "ev_to_state e2 = RunS RUN_ACTIVE" and
    p1: "event_path pipeline_run_machine i (RunS RUN_PLANNED) v es2 (RunS RUN_ADMITTED)
      (w - 1 - 1 - 1 - 1 - 1)"
    by blast
  from run_path_step [OF p1 _ run_edges_into(6)] obtain es1 e1 where
    1: "es2 = es1 @ [e1]" "ev_to_state e1 = RunS RUN_ADMITTED" and
    p0: "event_path pipeline_run_machine i (RunS RUN_PLANNED) v es1 (RunS RUN_PLANNED)
      (w - 1 - 1 - 1 - 1 - 1 - 1)"
    by blast
  from run_path_to_planned [OF p0] show ?thesis using 1 2 3 4 5 6 by simp
qed

text \<open>
  C33: The human approval boundary of a pipeline run: however it is driven, a run that ends in
  \<^verbatim>\<open>RUN_SUCCEEDED\<close> was admitted, active, awaiting review, approved and promoting, in that order
  and once each, and its version is then exactly 7.
\<close>

theorem success_requires_approval:
  assumes "start pipeline_run_machine i p = Inr s"
    and "drive pipeline_run_machine s requests = (s', evs)"
    and "sn_state s' = RunS RUN_SUCCEEDED"
  shows "map ev_to_state evs = map RunS
      [RUN_ADMITTED, RUN_ACTIVE, RUN_AWAITING_REVIEW, RUN_APPROVED, RUN_PROMOTING, RUN_SUCCEEDED]
    \<and> sn_version s' = 7"
proof -
  from assms(1) have s: "valid_snapshot s" "sn_state s = RunS RUN_PLANNED" "sn_version s = 1"
    by (auto simp: start_def make_snapshot_Inr pipeline_run_machine_def)
  then have "type_of_state (sn_state s) = machine_state_type pipeline_run_machine"
    by (simp add: pipeline_run_machine_def)
  from run_lc.drive_path [OF s(1) this assms(2)] have
    "event_path pipeline_run_machine (sn_entity_id s) (RunS RUN_PLANNED) 1 evs
       (RunS RUN_SUCCEEDED) (sn_version s')"
    using s assms(3) by simp
  note path = run_success_path [OF this] event_path_version [OF this]
  from path(1) have "length evs = 6" by (auto dest: arg_cong [of _ _ length])
  with path show ?thesis by simp
qed

definition success_requests :: "(lifecycle_state \<times> int) list" where
  "success_requests =
     [(RunS RUN_ADMITTED, 1), (RunS RUN_PROMOTING, 2), (RunS RUN_ACTIVE, 2),
      (RunS RUN_AWAITING_REVIEW, 3), (RunS RUN_SUCCEEDED, 4), (RunS RUN_APPROVED, 4),
      (RunS RUN_PROMOTING, 5), (RunS RUN_SUCCEEDED, 6)]"

theorem success_requires_approval_witness:
  "case drive pipeline_run_machine
      \<lparr>sn_entity_id = ''run-1'', sn_state = RunS RUN_PLANNED, sn_version = 1,
       sn_predecessor_ref = None\<rparr> success_requests of
     (s', evs) \<Rightarrow> sn_state s' = RunS RUN_SUCCEEDED \<and> sn_version s' = 7"
proof -
  let ?s = "\<lparr>sn_entity_id = ''run-1'', sn_state = RunS RUN_PLANNED, sn_version = 1,
       sn_predecessor_ref = None\<rparr>"
  obtain s' evs where d: "drive pipeline_run_machine ?s success_requests = (s', evs)" by fastforce
  have "start pipeline_run_machine ''run-1'' None = Inr ?s" by code_simp
  moreover have "sn_state (fst (drive pipeline_run_machine ?s success_requests)) = RunS RUN_SUCCEEDED"
    by code_simp
  ultimately show ?thesis using success_requires_approval [OF _ d] d by simp
qed

text \<open>
  A quarantined item re-enters processing only through a quarantine in the released state, and
  what is admitted is then a new version-one planned work item, with its own identity, that names
  its predecessor.
\<close>

theorem quarantine_reentry:
  "admit_quarantine_reentry q new_id predecessor = Inr a \<longleftrightarrow>
     sn_state q = QuarantineS QUA_RELEASED_TO_REPROCESSING
     \<and> is_exact_text (sn_entity_id q) \<and> is_exact_text new_id \<and> is_exact_text predecessor
     \<and> predecessor \<noteq> new_id
     \<and> a = \<lparr>ra_quarantine_id = sn_entity_id q,
            ra_work_item = \<lparr>sn_entity_id = new_id, sn_state = WorkS WORK_PLANNED, sn_version = 1,
              sn_predecessor_ref = Some predecessor\<rparr>\<rparr>"
  by (auto simp: admit_quarantine_reentry_def start_def make_snapshot_Inr
      make_reprocessing_admission_def valid_snapshot_def work_item_machine_def)

end
