(* ===== verification/OperationCodes.thy ===== *)
theory OperationCodes
  imports Lifecycles
begin

text \<open>
  The closed vocabularies of \<^verbatim>\<open>packages/domain/src/asklegal_domain/operations.py\<close>: one datatype per
  \<^verbatim>\<open>StrEnum\<close>, with its members in the order of the source, and the text value of a member where the
  code sorts or renders by it. The prefix of a constructor names the enumeration.
\<close>

datatype reference_type =
    Ref_ACTOR | Ref_AGGREGATE | Ref_APPROVAL | Ref_ARTIFACT | Ref_ATTESTATION | Ref_BUILD
  | Ref_CAPABILITY_PROFILE | Ref_CARRY_FORWARD_SELECTION | Ref_COMMAND | Ref_COMMAND_RESULT
  | Ref_CONFIGURATION | Ref_CONTRACT | Ref_CONTRACT_SET | Ref_CORPUS_RELEASE | Ref_COVERAGE_GAP
  | Ref_DECISION | Ref_DESIRED_STATE_INVENTORY | Ref_EFFECT_INTENT | Ref_EFFECT_RECEIPT
  | Ref_EMBEDDING_PROFILE | Ref_EMBEDDING_REQUEST | Ref_EMBEDDING_RECEIPT | Ref_EVIDENCE
  | Ref_EXECUTION_EVENT | Ref_EXECUTION_LINEAGE | Ref_LEGAL_ITEM | Ref_LEGAL_LOCATION
  | Ref_LEGAL_STATUS_EVENT | Ref_OBSERVATION | Ref_OFFICIAL_VERSION
  | Ref_PINECONE_INDEX_GENERATION | Ref_POLICY_PROFILE | Ref_PROMOTION_MANIFEST
  | Ref_PROPOSAL_PACKAGE | Ref_QUARANTINE | Ref_QUERY_CONTRACT | Ref_RECORD_TRACEABILITY_LOOKUP
  | Ref_RELEASE_SCOPE | Ref_RELEASE_SCOPE_REGISTRY | Ref_ROUTING_CONFIGURATION | Ref_RULEBOOK
  | Ref_SEARCH_RECORD | Ref_SERVING_STATE | Ref_SOURCE | Ref_SOURCE_ENDPOINT | Ref_SOURCE_SNAPSHOT
  | Ref_VALIDATION | Ref_WORKFLOW_PROFILE | Ref_WORK_ITEM

primrec reference_type_value :: "reference_type \<Rightarrow> string" where
  "reference_type_value Ref_ACTOR = ''ACTOR''"
| "reference_type_value Ref_AGGREGATE = ''AGGREGATE''"
| "reference_type_value Ref_APPROVAL = ''APPROVAL''"
| "reference_type_value Ref_ARTIFACT = ''ARTIFACT''"
| "reference_type_value Ref_ATTESTATION = ''ATTESTATION''"
| "reference_type_value Ref_BUILD = ''BUILD''"
| "reference_type_value Ref_CAPABILITY_PROFILE = ''CAPABILITY_PROFILE''"
| "reference_type_value Ref_CARRY_FORWARD_SELECTION = ''CARRY_FORWARD_SELECTION''"
| "reference_type_value Ref_COMMAND = ''COMMAND''"
| "reference_type_value Ref_COMMAND_RESULT = ''COMMAND_RESULT''"
| "reference_type_value Ref_CONFIGURATION = ''CONFIGURATION''"
| "reference_type_value Ref_CONTRACT = ''CONTRACT''"
| "reference_type_value Ref_CONTRACT_SET = ''CONTRACT_SET''"
| "reference_type_value Ref_CORPUS_RELEASE = ''CORPUS_RELEASE''"
| "reference_type_value Ref_COVERAGE_GAP = ''COVERAGE_GAP''"
| "reference_type_value Ref_DECISION = ''DECISION''"
| "reference_type_value Ref_DESIRED_STATE_INVENTORY = ''DESIRED_STATE_INVENTORY''"
| "reference_type_value Ref_EFFECT_INTENT = ''EFFECT_INTENT''"
| "reference_type_value Ref_EFFECT_RECEIPT = ''EFFECT_RECEIPT''"
| "reference_type_value Ref_EMBEDDING_PROFILE = ''EMBEDDING_PROFILE''"
| "reference_type_value Ref_EMBEDDING_REQUEST = ''EMBEDDING_REQUEST''"
| "reference_type_value Ref_EMBEDDING_RECEIPT = ''EMBEDDING_RECEIPT''"
| "reference_type_value Ref_EVIDENCE = ''EVIDENCE''"
| "reference_type_value Ref_EXECUTION_EVENT = ''EXECUTION_EVENT''"
| "reference_type_value Ref_EXECUTION_LINEAGE = ''EXECUTION_LINEAGE''"
| "reference_type_value Ref_LEGAL_ITEM = ''LEGAL_ITEM''"
| "reference_type_value Ref_LEGAL_LOCATION = ''LEGAL_LOCATION''"
| "reference_type_value Ref_LEGAL_STATUS_EVENT = ''LEGAL_STATUS_EVENT''"
| "reference_type_value Ref_OBSERVATION = ''OBSERVATION''"
| "reference_type_value Ref_OFFICIAL_VERSION = ''OFFICIAL_VERSION''"
| "reference_type_value Ref_PINECONE_INDEX_GENERATION = ''PINECONE_INDEX_GENERATION''"
| "reference_type_value Ref_POLICY_PROFILE = ''POLICY_PROFILE''"
| "reference_type_value Ref_PROMOTION_MANIFEST = ''PROMOTION_MANIFEST''"
| "reference_type_value Ref_PROPOSAL_PACKAGE = ''PROPOSAL_PACKAGE''"
| "reference_type_value Ref_QUARANTINE = ''QUARANTINE''"
| "reference_type_value Ref_QUERY_CONTRACT = ''QUERY_CONTRACT''"
| "reference_type_value Ref_RECORD_TRACEABILITY_LOOKUP = ''RECORD_TRACEABILITY_LOOKUP''"
| "reference_type_value Ref_RELEASE_SCOPE = ''RELEASE_SCOPE''"
| "reference_type_value Ref_RELEASE_SCOPE_REGISTRY = ''RELEASE_SCOPE_REGISTRY''"
| "reference_type_value Ref_ROUTING_CONFIGURATION = ''ROUTING_CONFIGURATION''"
| "reference_type_value Ref_RULEBOOK = ''RULEBOOK''"
| "reference_type_value Ref_SEARCH_RECORD = ''SEARCH_RECORD''"
| "reference_type_value Ref_SERVING_STATE = ''SERVING_STATE''"
| "reference_type_value Ref_SOURCE = ''SOURCE''"
| "reference_type_value Ref_SOURCE_ENDPOINT = ''SOURCE_ENDPOINT''"
| "reference_type_value Ref_SOURCE_SNAPSHOT = ''SOURCE_SNAPSHOT''"
| "reference_type_value Ref_VALIDATION = ''VALIDATION''"
| "reference_type_value Ref_WORKFLOW_PROFILE = ''WORKFLOW_PROFILE''"
| "reference_type_value Ref_WORK_ITEM = ''WORK_ITEM''"

datatype command_result_code =
    Cmd_APPLIED | Cmd_REJECTED_CAPABILITY | Cmd_REJECTED_CONFLICT | Cmd_REJECTED_EXPIRED
  | Cmd_REJECTED_INVALID_INPUT | Cmd_REJECTED_INVALID_STATE | Cmd_REJECTED_STALE_VERSION
  | Cmd_REJECTED_UNAUTHORIZED

primrec command_result_code_value :: "command_result_code \<Rightarrow> string" where
  "command_result_code_value Cmd_APPLIED = ''APPLIED''"
| "command_result_code_value Cmd_REJECTED_CAPABILITY = ''REJECTED_CAPABILITY''"
| "command_result_code_value Cmd_REJECTED_CONFLICT = ''REJECTED_CONFLICT''"
| "command_result_code_value Cmd_REJECTED_EXPIRED = ''REJECTED_EXPIRED''"
| "command_result_code_value Cmd_REJECTED_INVALID_INPUT = ''REJECTED_INVALID_INPUT''"
| "command_result_code_value Cmd_REJECTED_INVALID_STATE = ''REJECTED_INVALID_STATE''"
| "command_result_code_value Cmd_REJECTED_STALE_VERSION = ''REJECTED_STALE_VERSION''"
| "command_result_code_value Cmd_REJECTED_UNAUTHORIZED = ''REJECTED_UNAUTHORIZED''"

datatype submission_resolution_code =
    Sub_COMMAND_ID_CONFLICT | Sub_EXACT_REPLAY | Sub_INDETERMINATE | Sub_RESULT_RECORDED

datatype effect_type =
    Eff_BACKUP_MUTATION | Eff_EMBEDDING_PROVIDER_CALL | Eff_EVIDENCE_WRITE
  | Eff_GENERATIVE_LLM_CALL | Eff_PINECONE_MUTATION | Eff_RELEASE_PUBLICATION
  | Eff_ROUTING_ACTIVATION | Eff_SOURCE_CAPTURE

datatype application_code =
    App_ACQUISITION_WORKER | App_CONTROL_PLANE | App_LEGAL_PROCESSING_WORKER
  | App_PROMOTION_WORKER | App_REVIEW_APPLICATION

datatype effect_capability =
    Cap_ACTIVATE_ROUTING | Cap_CALL_EMBEDDING_PROVIDER | Cap_CALL_GENERATIVE_LLM
  | Cap_CAPTURE_SOURCE | Cap_MANAGE_BACKUP | Cap_MUTATE_PINECONE | Cap_PUBLISH_RELEASE
  | Cap_WRITE_EVIDENCE

datatype destination_class =
    Dest_BACKUP_STORE | Dest_EMBEDDING_PROVIDER | Dest_EVIDENCE_VAULT | Dest_MODEL_PROVIDER
  | Dest_RELEASE_STORE | Dest_ROUTING_TARGET | Dest_SERVING_TARGET | Dest_SOURCE_SYSTEM

datatype retry_class =
    Retry_NEVER | Retry_RECONCILE_BEFORE_RETRY | Retry_SAFE_SAME_INTENT

datatype stop_condition =
    Stop_ATTEMPT_CEILING | Stop_AUTHORITY_INVALID | Stop_CANCELLATION_BEFORE_EFFECT
  | Stop_CAPABILITY_INACTIVE | Stop_DEADLINE | Stop_POSTCONDITION_MET | Stop_PRECONDITION_CHANGED

primrec stop_condition_value :: "stop_condition \<Rightarrow> string" where
  "stop_condition_value Stop_ATTEMPT_CEILING = ''ATTEMPT_CEILING''"
| "stop_condition_value Stop_AUTHORITY_INVALID = ''AUTHORITY_INVALID''"
| "stop_condition_value Stop_CANCELLATION_BEFORE_EFFECT = ''CANCELLATION_BEFORE_EFFECT''"
| "stop_condition_value Stop_CAPABILITY_INACTIVE = ''CAPABILITY_INACTIVE''"
| "stop_condition_value Stop_DEADLINE = ''DEADLINE''"
| "stop_condition_value Stop_POSTCONDITION_MET = ''POSTCONDITION_MET''"
| "stop_condition_value Stop_PRECONDITION_CHANGED = ''PRECONDITION_CHANGED''"

datatype effect_receipt_status =
    Rcpt_CANCELLED_BEFORE_EFFECT | Rcpt_FAILED_FINAL | Rcpt_OUTCOME_UNKNOWN | Rcpt_SUCCEEDED

datatype failure_code =
    Fail_FAILURE_CAPABILITY_DISABLED | Fail_FAILURE_DUPLICATE_ID | Fail_FAILURE_EXTERNAL_EFFECT
  | Fail_FAILURE_FINGERPRINT_MISMATCH | Fail_FAILURE_FORBIDDEN_TRANSITION
  | Fail_FAILURE_ID_COLLISION | Fail_FAILURE_INVENTORY_MISMATCH | Fail_FAILURE_LINEAGE_CYCLE
  | Fail_FAILURE_MALFORMED_JSON | Fail_FAILURE_NON_CANONICAL | Fail_FAILURE_PATH_ESCAPE
  | Fail_FAILURE_POLICY_UNDECIDED | Fail_FAILURE_REFERENCE_MISSING | Fail_FAILURE_REPRODUCIBILITY
  | Fail_FAILURE_RETRY_INPUT_CHANGED | Fail_FAILURE_SCHEMA_INVALID | Fail_FAILURE_UNKNOWN_CODE

text \<open>\<^verbatim>\<open>_REFERENCE_PREFIXES\<close>: the identity prefix of a reference type, where one is fixed.\<close>

definition reference_prefix :: "reference_type \<Rightarrow> string option" where
  "reference_prefix t = (case t of
     Ref_ACTOR \<Rightarrow> Some ''act''
   | Ref_BUILD \<Rightarrow> Some ''bld''
   | Ref_CAPABILITY_PROFILE \<Rightarrow> Some ''cap''
   | Ref_COMMAND \<Rightarrow> Some ''cmd''
   | Ref_COMMAND_RESULT \<Rightarrow> Some ''cmr''
   | Ref_CONFIGURATION \<Rightarrow> Some ''cfg''
   | Ref_CONTRACT_SET \<Rightarrow> Some ''cst''
   | Ref_EFFECT_INTENT \<Rightarrow> Some ''efi''
   | Ref_EFFECT_RECEIPT \<Rightarrow> Some ''efr''
   | Ref_EMBEDDING_PROFILE \<Rightarrow> Some ''emp''
   | Ref_EMBEDDING_REQUEST \<Rightarrow> Some ''emr''
   | Ref_EMBEDDING_RECEIPT \<Rightarrow> Some ''emc''
   | Ref_EVIDENCE \<Rightarrow> Some ''evi''
   | Ref_EXECUTION_LINEAGE \<Rightarrow> Some ''exe''
   | Ref_POLICY_PROFILE \<Rightarrow> Some ''pol''
   | Ref_PROPOSAL_PACKAGE \<Rightarrow> Some ''ppk''
   | Ref_WORKFLOW_PROFILE \<Rightarrow> Some ''wap''
   | Ref_WORK_ITEM \<Rightarrow> Some ''wki''
   | _ \<Rightarrow> None)"

text \<open>
  \<^verbatim>\<open>_EFFECT_BINDINGS\<close>: for an effect type, the applications that may own it, the capability it
  needs and where it goes.
\<close>

definition all_applications :: "application_code list" where
  "all_applications = [App_ACQUISITION_WORKER, App_CONTROL_PLANE, App_LEGAL_PROCESSING_WORKER,
     App_PROMOTION_WORKER, App_REVIEW_APPLICATION]"

primrec effect_binding ::
    "effect_type \<Rightarrow> application_code list \<times> effect_capability \<times> destination_class" where
  "effect_binding Eff_BACKUP_MUTATION =
     ([App_PROMOTION_WORKER], Cap_MANAGE_BACKUP, Dest_BACKUP_STORE)"
| "effect_binding Eff_EMBEDDING_PROVIDER_CALL =
     ([App_PROMOTION_WORKER], Cap_CALL_EMBEDDING_PROVIDER, Dest_EMBEDDING_PROVIDER)"
| "effect_binding Eff_EVIDENCE_WRITE =
     (all_applications, Cap_WRITE_EVIDENCE, Dest_EVIDENCE_VAULT)"
| "effect_binding Eff_GENERATIVE_LLM_CALL =
     ([App_LEGAL_PROCESSING_WORKER], Cap_CALL_GENERATIVE_LLM, Dest_MODEL_PROVIDER)"
| "effect_binding Eff_PINECONE_MUTATION =
     ([App_PROMOTION_WORKER], Cap_MUTATE_PINECONE, Dest_SERVING_TARGET)"
| "effect_binding Eff_RELEASE_PUBLICATION =
     ([App_PROMOTION_WORKER], Cap_PUBLISH_RELEASE, Dest_RELEASE_STORE)"
| "effect_binding Eff_ROUTING_ACTIVATION =
     ([App_PROMOTION_WORKER], Cap_ACTIVATE_ROUTING, Dest_ROUTING_TARGET)"
| "effect_binding Eff_SOURCE_CAPTURE =
     ([App_ACQUISITION_WORKER], Cap_CAPTURE_SOURCE, Dest_SOURCE_SYSTEM)"

text \<open>
  Stop conditions are ordered by their text value, as the code sorts them.
\<close>

lemma stop_condition_value_inj: "stop_condition_value a = stop_condition_value b \<longleftrightarrow> a = b"
  by (cases a; cases b) simp_all

instantiation stop_condition :: linorder
begin

definition less_eq_stop_condition :: "stop_condition \<Rightarrow> stop_condition \<Rightarrow> bool" where
  "less_eq_stop_condition a b \<longleftrightarrow> stop_condition_value a \<le> stop_condition_value b"

definition less_stop_condition :: "stop_condition \<Rightarrow> stop_condition \<Rightarrow> bool" where
  "less_stop_condition a b \<longleftrightarrow> stop_condition_value a < stop_condition_value b"

instance
  by standard
    (auto simp: less_eq_stop_condition_def less_stop_condition_def
      stop_condition_value_inj [symmetric])

end

end
