(* ===== verification/Operations.thy ===== *)
theory Operations
  imports OperationCodes
begin

text \<open>
  The command and external-effect objects of
  \<^verbatim>\<open>packages/domain/src/asklegal_domain/operations.py\<close>. A frozen dataclass is a record; its
  \<^verbatim>\<open>__post_init__\<close> is the list of validations of \<^verbatim>\<open>new_\<dots>\<close>, in the order of the code. A
  field whose annotation the code re-checks at run time (\<^verbatim>\<open>type(x) is not T\<close>) has that type here,
  so those checks cannot fail in the model.
\<close>

section \<open>Timestamps\<close>

definition digit_value :: "char \<Rightarrow> nat" where
  "digit_value c = of_char c - 48"

definition number :: "string \<Rightarrow> nat" where
  "number s = foldl (\<lambda>a c. a * 10 + digit_value c) 0 s"

definition two_digits :: "string \<Rightarrow> nat \<Rightarrow> nat \<Rightarrow> nat \<Rightarrow> bool" where
  "two_digits s i lo hi \<longleftrightarrow> is_digit (s ! i) \<and> is_digit (s ! (i + 1))
     \<and> lo \<le> number (take 2 (drop i s)) \<and> number (take 2 (drop i s)) \<le> hi"

text \<open>The optional fraction and the closing \<^verbatim>\<open>Z\<close> of \<^verbatim>\<open>_TIMESTAMP_PATTERN\<close>.\<close>

definition timestamp_tail :: "string \<Rightarrow> bool" where
  "timestamp_tail t \<longleftrightarrow> t = ''Z'' \<or>
     (3 \<le> length t \<and> length t \<le> 11 \<and> hd t = CHR ''.'' \<and> last t = CHR ''Z''
      \<and> list_all is_digit (butlast (tl t)))"

definition timestamp_pattern :: "string \<Rightarrow> bool" where
  "timestamp_pattern s \<longleftrightarrow> 20 \<le> length s \<and> list_all is_digit (take 4 s) \<and> s ! 4 = CHR ''-''
     \<and> two_digits s 5 1 12 \<and> s ! 7 = CHR ''-'' \<and> two_digits s 8 0 31 \<and> s ! 10 = CHR ''T''
     \<and> two_digits s 11 0 23 \<and> s ! 13 = CHR '':'' \<and> two_digits s 14 0 59
     \<and> s ! 16 = CHR '':'' \<and> two_digits s 17 0 59 \<and> timestamp_tail (drop 19 s)"

text \<open>\<^verbatim>\<open>datetime\<close>: year, month, day, hour, minute, second, microsecond, compared in this order.\<close>

type_synonym datetime = "nat \<times> nat \<times> nat \<times> nat \<times> nat \<times> nat \<times> nat"

definition leap_year :: "nat \<Rightarrow> bool" where
  "leap_year y \<longleftrightarrow> y mod 4 = 0 \<and> (y mod 100 \<noteq> 0 \<or> y mod 400 = 0)"

definition days_in_month :: "nat \<Rightarrow> nat \<Rightarrow> nat" where
  "days_in_month y m =
     (if m = 2 then (if leap_year y then 29 else 28)
      else if m \<in> {4, 6, 9, 11} then 30 else 31)"

definition real_date :: "nat \<Rightarrow> nat \<Rightarrow> nat \<Rightarrow> bool" where
  "real_date y m d \<longleftrightarrow> 1 \<le> y \<and> 1 \<le> m \<and> m \<le> 12 \<and> 1 \<le> d \<and> d \<le> days_in_month y m"

text \<open>The fraction padded or cut to six digits: \<^verbatim>\<open>ljust(6, "0")[:6]\<close>.\<close>

definition microseconds :: "string \<Rightarrow> nat" where
  "microseconds s = number (take 6 (butlast (drop 20 s) @ replicate 6 (CHR ''0'')))"

definition parse_timestamp :: "string \<Rightarrow> domain_error + datetime" where
  "parse_timestamp s =
     (if \<not> is_exact_text s then Inl DomainInvariantError
      else if \<not> timestamp_pattern s then Inl DomainInvariantError
      else let y = number (take 4 s); m = number (take 2 (drop 5 s)); d = number (take 2 (drop 8 s)) in
        if real_date y m d
        then Inr (y, m, d, number (take 2 (drop 11 s)), number (take 2 (drop 14 s)),
                  number (take 2 (drop 17 s)), microseconds s)
        else Inl DomainInvariantError)"

section \<open>Reference objects\<close>

definition validate_pattern :: "string \<Rightarrow> (string \<Rightarrow> bool) \<Rightarrow> domain_error option" where
  "validate_pattern v pattern = first_raise
     [validate_exact_text v, raise_if (\<not> pattern v) DomainInvariantError]"

lemma validate_pattern_None [simp, guard_simps]:
  "validate_pattern v pattern = None \<longleftrightarrow> is_exact_text v \<and> pattern v"
  by (simp add: validate_pattern_def)

record immutable_reference =
  ref_type :: reference_type
  ref_id :: string
  ref_fingerprint :: string

definition new_immutable_reference ::
    "immutable_reference \<Rightarrow> domain_error + immutable_reference" where
  "new_immutable_reference r = construct
     [validate_pattern (ref_id r) id_pattern,
      validate_pattern (ref_fingerprint r) fingerprint_pattern,
      (case reference_prefix (ref_type r) of None \<Rightarrow> None
       | Some p \<Rightarrow> raise_if (take 3 (ref_id r) \<noteq> p) DomainInvariantError)] r"

record contract_reference =
  contract_id :: string
  contract_version :: string
  contract_fingerprint :: string

definition new_contract_reference ::
    "contract_reference \<Rightarrow> domain_error + contract_reference" where
  "new_contract_reference c = construct
     [validate_exact_text (contract_id c),
      validate_pattern (contract_version c) version_pattern,
      validate_pattern (contract_fingerprint c) fingerprint_pattern] c"

definition reference_key :: "immutable_reference \<Rightarrow> string \<times> string \<times> string" where
  "reference_key r = (reference_type_value (ref_type r), ref_id r, ref_fingerprint r)"

definition validate_references ::
    "immutable_reference list \<Rightarrow> nat \<Rightarrow> reference_type list option \<Rightarrow> domain_error option" where
  "validate_references refs minimum allowed_types =
     (let keys = map reference_key refs in first_raise
       [raise_if (length refs < minimum) DomainInvariantError,
        (case allowed_types of None \<Rightarrow> None
         | Some ts \<Rightarrow> raise_if (\<not> list_all (\<lambda>r. ref_type r \<in> set ts) refs) DomainInvariantError),
        raise_if (length (remdups keys) \<noteq> length keys) DomainInvariantError,
        raise_if (keys \<noteq> sort keys) DomainInvariantError])"

definition validate_reference ::
    "immutable_reference \<Rightarrow> reference_type list option \<Rightarrow> domain_error option" where
  "validate_reference r allowed_types =
     (case allowed_types of None \<Rightarrow> None
      | Some ts \<Rightarrow> raise_if (ref_type r \<notin> set ts) DomainInvariantError)"

lemma validate_reference_None [simp, guard_simps]:
  "validate_reference r None = None"
  "validate_reference r (Some ts) = None \<longleftrightarrow> ref_type r \<in> set ts"
  by (auto simp: validate_reference_def)

datatype expected_version = ABSENT | Version int

fun validate_expected_version :: "expected_version \<Rightarrow> domain_error option" where
  "validate_expected_version ABSENT = None"
| "validate_expected_version (Version v) = validate_exact_integer v 0"

section \<open>Commands\<close>

record command_payload =
  payload_contract_ref :: contract_reference
  payload_object_ref :: immutable_reference

record command_envelope =
  env_command_id :: string
  env_command_type :: string
  env_contract_version :: string
  env_target_ref :: immutable_reference
  env_expected_version :: expected_version
  env_actor_ref :: immutable_reference
  env_authority_ref :: immutable_reference
  env_causation_ref :: immutable_reference
  env_correlation_id :: string
  env_execution_lineage_ref :: "immutable_reference option"
  env_input_refs :: "immutable_reference list"
  env_policy_profile_refs :: "immutable_reference list"
  env_configuration_ref :: immutable_reference
  env_contract_set_ref :: immutable_reference
  env_build_ref :: immutable_reference
  env_submitted_at :: string
  env_expires_at :: string
  env_payload :: command_payload

text \<open>\<^verbatim>\<open>expires_at\<close> must be later than \<^verbatim>\<open>submitted_at\<close>; both must parse first.\<close>

definition validate_later :: "string \<Rightarrow> string \<Rightarrow> domain_error option" where
  "validate_later earlier later =
     (case parse_timestamp earlier of Inl e \<Rightarrow> Some e
      | Inr t \<Rightarrow> (case parse_timestamp later of Inl e \<Rightarrow> Some e
         | Inr u \<Rightarrow> raise_if (u \<le> t) DomainInvariantError))"

lemma validate_later_None [simp, guard_simps]:
  "validate_later a b = None \<longleftrightarrow> (\<exists>t u. parse_timestamp a = Inr t \<and> parse_timestamp b = Inr u \<and> t < u)"
  by (auto simp: validate_later_def split: sum.splits)

definition new_command_envelope :: "command_envelope \<Rightarrow> domain_error + command_envelope" where
  "new_command_envelope e = construct
     [validate_pattern (env_command_id e) (prefixed_id ''cmd''),
      validate_pattern (env_command_type e) code_pattern,
      validate_pattern (env_contract_version e) version_pattern,
      validate_reference (env_target_ref e) None,
      validate_expected_version (env_expected_version e),
      validate_reference (env_actor_ref e) (Some [Ref_ACTOR]),
      validate_reference (env_authority_ref e) (Some [Ref_EVIDENCE]),
      validate_reference (env_causation_ref e) None,
      validate_pattern (env_correlation_id e) (prefixed_id ''run''),
      (case env_execution_lineage_ref e of None \<Rightarrow> None
       | Some r \<Rightarrow> validate_reference r (Some [Ref_EXECUTION_LINEAGE])),
      validate_references (env_input_refs e) 0 None,
      validate_references (env_policy_profile_refs e) 1
        (Some [Ref_CAPABILITY_PROFILE, Ref_POLICY_PROFILE, Ref_WORKFLOW_PROFILE]),
      validate_reference (env_configuration_ref e) (Some [Ref_CONFIGURATION]),
      validate_reference (env_contract_set_ref e) (Some [Ref_CONTRACT_SET]),
      validate_reference (env_build_ref e) (Some [Ref_BUILD]),
      validate_later (env_submitted_at e) (env_expires_at e)] e"

record command_result =
  cr_command_result_id :: string
  cr_command_ref :: immutable_reference
  cr_recorded_at :: string
  cr_result_code :: command_result_code
  cr_authoritative_version :: expected_version
  cr_event_refs :: "immutable_reference list"
  cr_effect_intent_refs :: "immutable_reference list"
  cr_evidence_refs :: "immutable_reference list"

text \<open>\<^verbatim>\<open>_validate_exact_integer\<close> on a value that may be \<^verbatim>\<open>ExpectedVersion.ABSENT\<close>.\<close>

fun validate_version_integer :: "expected_version \<Rightarrow> int \<Rightarrow> domain_error option" where
  "validate_version_integer ABSENT minimum = Some DomainTypeError"
| "validate_version_integer (Version v) minimum = validate_exact_integer v minimum"

definition new_command_result :: "command_result \<Rightarrow> domain_error + command_result" where
  "new_command_result r = construct
     [validate_pattern (cr_command_result_id r) (prefixed_id ''cmr''),
      validate_reference (cr_command_ref r) (Some [Ref_COMMAND]),
      raised_by (parse_timestamp (cr_recorded_at r)),
      validate_expected_version (cr_authoritative_version r),
      validate_references (cr_event_refs r) 0 None,
      validate_references (cr_effect_intent_refs r) 0 (Some [Ref_EFFECT_INTENT]),
      validate_references (cr_evidence_refs r) 0 None,
      (if cr_result_code r = Cmd_APPLIED
       then first_raise
         [validate_version_integer (cr_authoritative_version r) 1,
          raise_if (cr_event_refs r = []) DomainInvariantError]
       else raise_if (cr_event_refs r \<noteq> [] \<or> cr_effect_intent_refs r \<noteq> []) DomainInvariantError)] r"

section \<open>Effects\<close>

datatype compensation = NoCompensation | DeclaredCompensation contract_reference

record effect_intent =
  ei_effect_intent_id :: string
  ei_created_at :: string
  ei_effect_type :: effect_type
  ei_owning_application :: application_code
  ei_aggregate_ref :: immutable_reference
  ei_command_ref :: immutable_reference
  ei_execution_lineage_ref :: immutable_reference
  ei_permitted_checkpoint :: string
  ei_input_refs :: "immutable_reference list"
  ei_effect_command_fingerprint :: string
  ei_required_capability :: effect_capability
  ei_capability_profile_ref :: immutable_reference
  ei_destination_class :: destination_class
  ei_stable_idempotency_key :: string
  ei_retry_class :: retry_class
  ei_attempt_ceiling :: int
  ei_deadline :: string
  ei_stop_conditions :: "stop_condition list"
  ei_expected_remote_precondition_ref :: contract_reference
  ei_success_postcondition_ref :: contract_reference
  ei_compensation :: compensation

definition validate_identity_and_authority :: "effect_intent \<Rightarrow> domain_error option" where
  "validate_identity_and_authority i = first_raise
     [validate_pattern (ei_effect_intent_id i) (prefixed_id ''efi''),
      raised_by (parse_timestamp (ei_created_at i)),
      validate_reference (ei_aggregate_ref i) None,
      validate_reference (ei_command_ref i) (Some [Ref_COMMAND]),
      validate_reference (ei_execution_lineage_ref i) (Some [Ref_EXECUTION_LINEAGE]),
      validate_pattern (ei_permitted_checkpoint i) code_pattern,
      validate_references (ei_input_refs i) 1 None,
      validate_pattern (ei_effect_command_fingerprint i) fingerprint_pattern,
      validate_reference (ei_capability_profile_ref i) (Some [Ref_CAPABILITY_PROFILE]),
      (case effect_binding (ei_effect_type i) of
         (allowed_owners, required_capability, destination_class) \<Rightarrow> first_raise
           [raise_if (ei_owning_application i \<notin> set allowed_owners) DomainInvariantError,
            raise_if (ei_required_capability i \<noteq> required_capability) DomainInvariantError,
            raise_if (ei_destination_class i \<noteq> destination_class) DomainInvariantError]),
      validate_exact_text (ei_stable_idempotency_key i)]"

definition validate_retry_and_completion :: "effect_intent \<Rightarrow> domain_error option" where
  "validate_retry_and_completion i =
     (case parse_timestamp (ei_created_at i) of Inl e \<Rightarrow> Some e
      | Inr created_at \<Rightarrow> first_raise
         [validate_exact_integer (ei_attempt_ceiling i) 1,
          (case parse_timestamp (ei_deadline i) of Inl e \<Rightarrow> Some e
           | Inr deadline \<Rightarrow> raise_if (deadline \<le> created_at) DomainInvariantError),
          raise_if (ei_stop_conditions i = []) DomainInvariantError,
          raise_if (length (remdups (map stop_condition_value (ei_stop_conditions i)))
                    \<noteq> length (ei_stop_conditions i)) DomainInvariantError,
          raise_if (map stop_condition_value (ei_stop_conditions i)
                    \<noteq> sort (map stop_condition_value (ei_stop_conditions i))) DomainInvariantError])"

definition new_effect_intent :: "effect_intent \<Rightarrow> domain_error + effect_intent" where
  "new_effect_intent i = construct
     [validate_identity_and_authority i, validate_retry_and_completion i] i"

record effect_success_detail =
  esd_remote_identity :: string
  esd_remote_version :: string
  esd_provider_request_id :: string
  esd_response_fingerprint :: string
  esd_postcondition_evidence_refs :: "immutable_reference list"

definition new_effect_success_detail ::
    "effect_success_detail \<Rightarrow> domain_error + effect_success_detail" where
  "new_effect_success_detail d = construct
     [validate_exact_text (esd_remote_identity d),
      validate_exact_text (esd_remote_version d),
      validate_exact_text (esd_provider_request_id d),
      validate_pattern (esd_response_fingerprint d) fingerprint_pattern,
      validate_references (esd_postcondition_evidence_refs d) 1 None] d"

record effect_final_failure_detail =
  efd_failure_code :: failure_code
  efd_failure_evidence_refs :: "immutable_reference list"

definition new_effect_final_failure_detail ::
    "effect_final_failure_detail \<Rightarrow> domain_error + effect_final_failure_detail" where
  "new_effect_final_failure_detail d = construct
     [validate_references (efd_failure_evidence_refs d) 1 None] d"

record effect_cancelled_detail =
  ecd_cancellation_evidence_refs :: "immutable_reference list"

definition new_effect_cancelled_detail ::
    "effect_cancelled_detail \<Rightarrow> domain_error + effect_cancelled_detail" where
  "new_effect_cancelled_detail d = construct
     [validate_references (ecd_cancellation_evidence_refs d) 1 None] d"

record effect_unknown_detail =
  eud_failure_code :: failure_code
  eud_reconciliation_evidence_refs :: "immutable_reference list"

definition new_effect_unknown_detail ::
    "effect_unknown_detail \<Rightarrow> domain_error + effect_unknown_detail" where
  "new_effect_unknown_detail d = construct
     [validate_references (eud_reconciliation_evidence_refs d) 1 None] d"

datatype effect_receipt_detail =
    SuccessDetail effect_success_detail
  | FinalFailureDetail effect_final_failure_detail
  | CancelledDetail effect_cancelled_detail
  | UnknownDetail effect_unknown_detail

record effect_receipt =
  er_effect_receipt_id :: string
  er_effect_intent_ref :: immutable_reference
  er_command_ref :: immutable_reference
  er_execution_lineage_ref :: immutable_reference
  er_terminal_status :: effect_receipt_status
  er_attempt_count :: int
  er_observed_at :: string
  er_evidence_refs :: "immutable_reference list"
  er_detail :: effect_receipt_detail

text \<open>The status under which the code looks up the exact detail type.\<close>

fun detail_status :: "effect_receipt_detail \<Rightarrow> effect_receipt_status" where
  "detail_status (SuccessDetail _) = Rcpt_SUCCEEDED"
| "detail_status (FinalFailureDetail _) = Rcpt_FAILED_FINAL"
| "detail_status (CancelledDetail _) = Rcpt_CANCELLED_BEFORE_EFFECT"
| "detail_status (UnknownDetail _) = Rcpt_OUTCOME_UNKNOWN"

definition new_effect_receipt :: "effect_receipt \<Rightarrow> domain_error + effect_receipt" where
  "new_effect_receipt r = construct
     [validate_pattern (er_effect_receipt_id r) (prefixed_id ''efr''),
      validate_reference (er_effect_intent_ref r) (Some [Ref_EFFECT_INTENT]),
      validate_reference (er_command_ref r) (Some [Ref_COMMAND]),
      validate_reference (er_execution_lineage_ref r) (Some [Ref_EXECUTION_LINEAGE]),
      validate_exact_integer (er_attempt_count r) 0,
      raised_by (parse_timestamp (er_observed_at r)),
      validate_references (er_evidence_refs r) 1 None,
      raise_if (detail_status (er_detail r) \<noteq> er_terminal_status r) DomainInvariantError,
      (if er_terminal_status r = Rcpt_CANCELLED_BEFORE_EFFECT
       then raise_if (er_attempt_count r \<noteq> 0) DomainInvariantError
       else raise_if (er_attempt_count r < 1) DomainInvariantError)] r"

section \<open>What the constructors guarantee\<close>

lemma sorted_distinct_strict:
  fixes xs :: "'a::linorder list"
  shows "length (remdups xs) = length xs \<and> xs = sort xs \<longleftrightarrow> sorted_wrt (<) xs"
proof -
  have "xs = sort xs \<longleftrightarrow> sorted xs" by (metis sorted_sort sorted_sort_id)
  moreover have "length (remdups xs) = length xs \<longleftrightarrow> distinct xs"
    by (metis distinct_card length_remdups_card_conv card_distinct)
  ultimately show ?thesis by (auto simp: strict_sorted_iff)
qed

lemma validate_references_None [guard_simps]:
  "validate_references refs minimum allowed = None \<longleftrightarrow>
     minimum \<le> length refs
     \<and> (\<forall>ts. allowed = Some ts \<longrightarrow> (\<forall>r \<in> set refs. ref_type r \<in> set ts))
     \<and> sorted_wrt (<) (map reference_key refs)"
proof -
  let ?ks = "map reference_key refs"
  have "validate_references refs minimum allowed = None \<longleftrightarrow>
      minimum \<le> length refs
      \<and> (\<forall>ts. allowed = Some ts \<longrightarrow> (\<forall>r \<in> set refs. ref_type r \<in> set ts))
      \<and> (length (remdups ?ks) = length ?ks \<and> ?ks = sort ?ks)"
    by (cases allowed) (auto simp: validate_references_def Let_def list_all_iff simp del: length_map)
  then show ?thesis unfolding sorted_distinct_strict .
qed

lemma strictly_sorted_refs_unique:
  fixes f :: "'a \<Rightarrow> 'b::linorder"
  assumes "sorted_wrt (<) (map f xs)" and "sorted_wrt (<) (map f ys)" and "set xs = set ys"
  shows "xs = ys"
proof -
  have "map f xs = map f ys"
    using assms by (intro strict_sorted_equal) auto
  moreover have "inj_on f (set xs \<union> set ys)"
    using assms by (auto simp: strict_sorted_iff distinct_map)
  ultimately show ?thesis by (metis map_inj_on)
qed

lemma new_effect_intent_Inr:
  assumes "new_effect_intent i = Inr j"
  shows "j = i" "validate_identity_and_authority i = None" "validate_retry_and_completion i = None"
  using assms by (auto simp: new_effect_intent_def)

lemma effect_intent_binding:
  assumes "new_effect_intent i = Inr j"
  obtains owners where
    "effect_binding (ei_effect_type i)
       = (owners, ei_required_capability i, ei_destination_class i)"
    "ei_owning_application i \<in> set owners"
  using new_effect_intent_Inr(2) [OF assms]
  by (auto simp: validate_identity_and_authority_def split: prod.splits)

lemma effect_intent_retry:
  assumes "new_effect_intent i = Inr j"
  shows "1 \<le> ei_attempt_ceiling i"
    and "\<exists>t u. parse_timestamp (ei_created_at i) = Inr t \<and> parse_timestamp (ei_deadline i) = Inr u \<and> t < u"
    and "ei_stop_conditions i \<noteq> []" and "sorted_wrt (<) (ei_stop_conditions i)"
proof -
  let ?vs = "map stop_condition_value (ei_stop_conditions i)"
  from new_effect_intent_Inr(3) [OF assms] show "1 \<le> ei_attempt_ceiling i"
    and "\<exists>t u. parse_timestamp (ei_created_at i) = Inr t \<and> parse_timestamp (ei_deadline i) = Inr u \<and> t < u"
    and "ei_stop_conditions i \<noteq> []"
    by (auto simp: validate_retry_and_completion_def split: sum.splits)
  from new_effect_intent_Inr(3) [OF assms]
  have "length (remdups ?vs) = length ?vs \<and> ?vs = sort ?vs"
    by (auto simp: validate_retry_and_completion_def split: sum.splits)
  then have "sorted_wrt (<) ?vs" using sorted_distinct_strict by blast
  then show "sorted_wrt (<) (ei_stop_conditions i)"
    by (simp add: sorted_wrt_map less_stop_condition_def [abs_def])
qed

lemma new_effect_receipt_Inr:
  assumes "new_effect_receipt r = Inr s"
  shows "s = r" "detail_status (er_detail r) = er_terminal_status r" "0 \<le> er_attempt_count r"
    "er_attempt_count r = 0 \<longleftrightarrow> er_terminal_status r = Rcpt_CANCELLED_BEFORE_EFFECT"
  using assms by (auto simp: new_effect_receipt_def split: if_splits)

lemma new_command_result_Inr:
  assumes "new_command_result r = Inr s"
  shows "s = r" "cr_event_refs r \<noteq> [] \<longleftrightarrow> cr_result_code r = Cmd_APPLIED"
    "cr_effect_intent_refs r \<noteq> [] \<Longrightarrow> cr_result_code r = Cmd_APPLIED"
    "cr_result_code r = Cmd_APPLIED \<Longrightarrow> \<exists>v \<ge> 1. cr_authoritative_version r = Version v"
proof -
  show "s = r" "cr_event_refs r \<noteq> [] \<longleftrightarrow> cr_result_code r = Cmd_APPLIED"
    "cr_effect_intent_refs r \<noteq> [] \<Longrightarrow> cr_result_code r = Cmd_APPLIED"
    using assms by (auto simp: new_command_result_def split: if_splits)
  assume "cr_result_code r = Cmd_APPLIED"
  with assms have "validate_version_integer (cr_authoritative_version r) 1 = None"
    by (simp add: new_command_result_def)
  then show "\<exists>v \<ge> 1. cr_authoritative_version r = Version v"
    by (cases "cr_authoritative_version r") auto
qed

text \<open>
  Accepted reference sets are canonical: a list passes the check exactly when it is long
  enough, holds only allowed types and is strictly increasing in (type, identity, fingerprint),
  so two accepted lists with the same members are the same list.
\<close>

theorem reference_sets_canonical:
  assumes "validate_references xs m allowed = None" and "validate_references ys n allowed' = None"
    and "set xs = set ys"
  shows "xs = ys \<and> distinct xs"
proof -
  from assms(1,2) have "sorted_wrt (<) (map reference_key xs)" "sorted_wrt (<) (map reference_key ys)"
    by (simp_all add: validate_references_None)
  from strictly_sorted_refs_unique [OF this assms(3)] this(1) show ?thesis
    by (auto simp: strict_sorted_iff distinct_map)
qed

definition sample_hex :: "char \<Rightarrow> string" where
  "sample_hex c = replicate 48 c"

definition sample_fingerprint :: string where
  "sample_fingerprint = ''sha256:'' @ replicate 64 (CHR ''0'')"

definition sample_ref :: "reference_type \<Rightarrow> string \<Rightarrow> char \<Rightarrow> immutable_reference" where
  "sample_ref t p c = \<lparr>ref_type = t, ref_id = p @ ''_'' @ sample_hex c,
     ref_fingerprint = sample_fingerprint\<rparr>"

theorem reference_sets_canonical_witness:
  "validate_references [sample_ref Ref_ACTOR ''act'' (CHR ''1''), sample_ref Ref_BUILD ''bld'' (CHR ''0'')] 1 None = None
   \<and> distinct [sample_ref Ref_ACTOR ''act'' (CHR ''1''), sample_ref Ref_BUILD ''bld'' (CHR ''0'')]"
proof -
  let ?xs = "[sample_ref Ref_ACTOR ''act'' (CHR ''1''), sample_ref Ref_BUILD ''bld'' (CHR ''0'')]"
  have v: "validate_references ?xs 1 None = None" by code_simp
  from reference_sets_canonical [OF v v refl] v show ?thesis by blast
qed

text \<open>
  The authority of an admitted external effect: only the promotion worker owns effects on the
  serving target, the routing target, the release store, the backup store or the embedding
  provider, only the legal-processing worker calls a generative model, only the acquisition worker
  captures a source; and the capability an intent names determines its effect type and its
  destination, so a capability granted for one kind of effect never authorises another.
\<close>

theorem effect_authority:
  assumes "new_effect_intent i = Inr i'" and "new_effect_intent j = Inr j'"
  shows "(ei_destination_class i \<in> {Dest_SERVING_TARGET, Dest_ROUTING_TARGET, Dest_RELEASE_STORE,
            Dest_BACKUP_STORE, Dest_EMBEDDING_PROVIDER}
          \<longrightarrow> ei_owning_application i = App_PROMOTION_WORKER)
    \<and> (ei_destination_class i = Dest_MODEL_PROVIDER
          \<longrightarrow> ei_owning_application i = App_LEGAL_PROCESSING_WORKER)
    \<and> (ei_destination_class i = Dest_SOURCE_SYSTEM
          \<longrightarrow> ei_owning_application i = App_ACQUISITION_WORKER)
    \<and> (ei_required_capability i = ei_required_capability j
          \<longrightarrow> ei_effect_type i = ei_effect_type j \<and> ei_destination_class i = ei_destination_class j)"
proof -
  from effect_intent_binding [OF assms(1)] obtain os where
    i: "effect_binding (ei_effect_type i) = (os, ei_required_capability i, ei_destination_class i)"
    "ei_owning_application i \<in> set os" by blast
  from effect_intent_binding [OF assms(2)] obtain os' where
    j: "effect_binding (ei_effect_type j) = (os', ei_required_capability j, ei_destination_class j)"
    by blast
  have "ei_required_capability i = ei_required_capability j \<longrightarrow> ei_effect_type i = ei_effect_type j"
    using i(1) j by (cases "ei_effect_type i"; cases "ei_effect_type j") auto
  with i j show ?thesis by (cases "ei_effect_type i") auto
qed

definition sample_contract :: contract_reference where
  "sample_contract = \<lparr>contract_id = ''urn:contract'', contract_version = ''1.0.0'',
     contract_fingerprint = sample_fingerprint\<rparr>"

definition sample_intent :: effect_intent where
  "sample_intent = \<lparr>
     ei_effect_intent_id = ''efi_'' @ sample_hex (CHR ''1''),
     ei_created_at = ''2026-01-01T00:00:00Z'',
     ei_effect_type = Eff_PINECONE_MUTATION,
     ei_owning_application = App_PROMOTION_WORKER,
     ei_aggregate_ref = sample_ref Ref_WORK_ITEM ''wki'' (CHR ''1''),
     ei_command_ref = sample_ref Ref_COMMAND ''cmd'' (CHR ''1''),
     ei_execution_lineage_ref = sample_ref Ref_EXECUTION_LINEAGE ''exe'' (CHR ''1''),
     ei_permitted_checkpoint = ''PROMOTION'',
     ei_input_refs = [sample_ref Ref_EVIDENCE ''evi'' (CHR ''1'')],
     ei_effect_command_fingerprint = sample_fingerprint,
     ei_required_capability = Cap_MUTATE_PINECONE,
     ei_capability_profile_ref = sample_ref Ref_CAPABILITY_PROFILE ''cap'' (CHR ''1''),
     ei_destination_class = Dest_SERVING_TARGET,
     ei_stable_idempotency_key = ''promotion-1'',
     ei_retry_class = Retry_SAFE_SAME_INTENT,
     ei_attempt_ceiling = 3,
     ei_deadline = ''2026-01-01T01:00:00Z'',
     ei_stop_conditions = [Stop_ATTEMPT_CEILING, Stop_DEADLINE],
     ei_expected_remote_precondition_ref = sample_contract,
     ei_success_postcondition_ref = sample_contract,
     ei_compensation = NoCompensation\<rparr>"

lemma sample_intent_admitted: "new_effect_intent sample_intent = Inr sample_intent"
  by code_simp

theorem effect_authority_witness:
  "new_effect_intent sample_intent = Inr sample_intent
   \<and> ei_owning_application sample_intent = App_PROMOTION_WORKER"
proof -
  have "ei_destination_class sample_intent = Dest_SERVING_TARGET" by (simp add: sample_intent_def)
  with effect_authority [OF sample_intent_admitted sample_intent_admitted] sample_intent_admitted
  show ?thesis by simp
qed

end
