(* ===== verification/Platform.thy ===== *)
theory Platform
  imports Operations
begin

text \<open>
  What the register takes from Python's standard library. Number formatting and
  \<^verbatim>\<open>json.dumps\<close> of flat objects are defined here. The SHA-256 digest, the ISO 8601 reader and
  writer of \<^verbatim>\<open>datetime\<close> are parameters: fields of a \<^verbatim>\<open>platform\<close>, with the documented behaviour
  that some theorems need as named laws.
\<close>

section \<open>Numbers and JSON text\<close>

definition hex_char :: "nat \<Rightarrow> char" where
  "hex_char n = (if n < 10 then char_of (48 + n) else char_of (87 + n))"

fun hexadecimal :: "nat \<Rightarrow> string" where
  "hexadecimal n = (if n < 16 then [hex_char n] else hexadecimal (n div 16) @ [hex_char (n mod 16)])"

declare hexadecimal.simps [simp del]

text \<open>\<^verbatim>\<open>f"{counter:0<width>x}"\<close>\<close>

definition padded_hex :: "nat \<Rightarrow> nat \<Rightarrow> string" where
  "padded_hex width n = (let h = hexadecimal n in replicate (width - length h) (CHR ''0'') @ h)"

fun decimal_nat :: "nat \<Rightarrow> string" where
  "decimal_nat n = (if n < 10 then [char_of (48 + n)] else decimal_nat (n div 10) @ [char_of (48 + n mod 10)])"

declare decimal_nat.simps [simp del]

definition decimal :: "int \<Rightarrow> string" where
  "decimal i = (if i < 0 then ''-'' @ decimal_nat (nat (- i)) else decimal_nat (nat i))"

text \<open>A character of a JSON string under \<^verbatim>\<open>ensure_ascii\<close>.\<close>

definition json_char :: "char \<Rightarrow> string" where
  "json_char c = (let n = (of_char c :: nat) in
     if n = 34 then [CHR 0x5C, CHR 0x22]
     else if n = 92 then [CHR 0x5C, CHR 0x5C]
     else if n = 10 then [CHR 0x5C, CHR ''n'']
     else if n = 13 then [CHR 0x5C, CHR ''r'']
     else if n = 9 then [CHR 0x5C, CHR ''t'']
     else if n = 12 then [CHR 0x5C, CHR ''f'']
     else if n = 8 then [CHR 0x5C, CHR ''b'']
     else if 32 \<le> n \<and> n \<le> 126 then [c]
     else [CHR 0x5C, CHR ''u''] @ padded_hex 4 n)"

definition json_string :: "string \<Rightarrow> string" where
  "json_string s = [CHR 0x22] @ concat (map json_char s) @ [CHR 0x22]"

datatype json_scalar = JStr string | JInt int

fun json_scalar_text :: "json_scalar \<Rightarrow> string" where
  "json_scalar_text (JStr s) = json_string s"
| "json_scalar_text (JInt i) = decimal i"

text \<open>\<^verbatim>\<open>json.dumps(payload, sort_keys=True, separators=(",", ":")).encode()\<close> of a flat object.\<close>

definition json_object :: "(string \<times> json_scalar) list \<Rightarrow> string" where
  "json_object payload = ''{'' @ join '',''
     (map (\<lambda>(k, v). json_string k @ '':'' @ json_scalar_text v) (sort_key fst payload)) @ ''}''"

lemma is_hex_hex_char: "n < 16 \<Longrightarrow> is_hex (hex_char n)"
  by (auto simp: hex_char_def char_class_defs of_char_of)

lemma list_all_hex_hexadecimal: "list_all is_hex (hexadecimal n)"
proof (induction n rule: hexadecimal.induct)
  case (1 n)
  show ?case
  proof (cases "n < 16")
    case True then show ?thesis by (simp add: hexadecimal.simps [of n] is_hex_hex_char)
  next
    case False
    with 1 show ?thesis by (simp add: hexadecimal.simps [of n] is_hex_hex_char)
  qed
qed

lemma length_hexadecimal: "n < 16 ^ k \<Longrightarrow> 0 < k \<Longrightarrow> length (hexadecimal n) \<le> k"
proof (induction n arbitrary: k rule: hexadecimal.induct)
  case (1 n)
  show ?case
  proof (cases "n < 16")
    case True with 1 show ?thesis by (simp add: hexadecimal.simps [of n])
  next
    case False
    then obtain j where k: "k = Suc j" "0 < j"
      using 1(2,3) by (cases k; cases "k - 1") auto
    with 1(2) have "n div 16 < 16 ^ j" by (simp add: less_mult_imp_div_less mult.commute)
    from "1.IH" [OF False this k(2)] k False show ?thesis by (simp add: hexadecimal.simps [of n])
  qed
qed

lemma padded_hex_word: "n < 16 ^ k \<Longrightarrow> 0 < k \<Longrightarrow> hex_word k (padded_hex k n)"
  using length_hexadecimal [of n k] list_all_hex_hexadecimal [of n]
  by (auto simp: hex_word_def padded_hex_def Let_def list_all_iff char_class_defs)

section \<open>The platform\<close>

text \<open>
  An aware \<^verbatim>\<open>datetime\<close> is its distance from a fixed instant in microseconds.
  \<^verbatim>\<open>from_iso\<close> is \<^verbatim>\<open>datetime.fromisoformat\<close>: \<^const>\<open>None\<close> for \<^verbatim>\<open>ValueError\<close>, else the instant and
  whether its \<^verbatim>\<open>tzinfo\<close> is UTC. \<^verbatim>\<open>iso_text\<close> is
  \<^verbatim>\<open>isoformat(timespec="microseconds").replace("+00:00", "Z")\<close> of an instant in UTC,
  \<^const>\<open>None\<close> where the instant is outside the years \<^verbatim>\<open>datetime\<close> has (\<^verbatim>\<open>OverflowError\<close>).
\<close>

record platform =
  sha256_hex :: "string \<Rightarrow> string"
  from_iso :: "string \<Rightarrow> (int \<times> bool) option"
  iso_text :: "int \<Rightarrow> string option"

definition sha256_fingerprint :: "platform \<Rightarrow> string \<Rightarrow> string" where
  "sha256_fingerprint P raw = ''sha256:'' @ sha256_hex P raw"

text \<open>A hexadecimal SHA-256 digest has 64 lower-case digits.\<close>

definition digest_law :: "platform \<Rightarrow> bool" where
  "digest_law P \<longleftrightarrow> (\<forall>raw. hex_word 64 (sha256_hex P raw))"

text \<open>Reading back the text of an instant gives the instant, in UTC.\<close>

definition clock_law_at :: "platform \<Rightarrow> int \<Rightarrow> bool" where
  "clock_law_at P t \<longleftrightarrow> (case iso_text P t of None \<Rightarrow> False
     | Some s \<Rightarrow> is_exact_text s \<and> ends_with s ''Z''
         \<and> from_iso P (butlast s @ ''+00:00'') = Some (t, True))"

lemma fingerprint_law: "digest_law P \<Longrightarrow> fingerprint_pattern (sha256_fingerprint P raw)"
  by (simp add: digest_law_def fingerprint_pattern_def sha256_fingerprint_def starts_with_def)

section \<open>A concrete platform\<close>

text \<open>
  An instance for the evaluated examples: a checksum of the length in place of SHA-256, and a
  clock that reads the timestamps of the years 2000 to 2099 in the form of the domain package and
  writes the instants of one day.
\<close>

definition demo_day :: int where
  "demo_day = (26 * 12 + 1) * 31 + 1"

definition demo_from_iso :: "string \<Rightarrow> (int \<times> bool) option" where
  "demo_from_iso s =
     (if ends_with s ''+00:00'' \<and> starts_with s ''20''
      then case parse_timestamp (take (length s - 6) s @ ''Z'') of
          Inl _ \<Rightarrow> None
        | Inr (_, mo, d, h, mi, sec, us) \<Rightarrow>
            Some (((((int (number (take 2 (drop 2 s))) * 12 + int mo) * 31 + int d) * 24 + int h) * 60
                  + int mi) * 60000000 + int sec * 1000000 + int us, True)
      else None)"

definition two :: "int \<Rightarrow> string" where
  "two n = [char_of (48 + nat (n div 10)), char_of (48 + nat (n mod 10))]"

definition demo_iso_text :: "int \<Rightarrow> string option" where
  "demo_iso_text t =
     (if t div 86400000000 = demo_day
      then let us = t mod 86400000000; s = us div 1000000; f = us mod 1000000 in
        Some (''2026-01-01T'' @ two (s div 3600) @ '':'' @ two (s div 60 mod 60) @ '':'' @ two (s mod 60)
              @ ''.'' @ two (f div 10000) @ two (f div 100 mod 100) @ two (f mod 100) @ ''Z'')
      else None)"

definition demo_platform :: platform where
  "demo_platform = \<lparr>sha256_hex = (\<lambda>s. padded_hex 64 (length s mod 251)),
     from_iso = demo_from_iso, iso_text = demo_iso_text\<rparr>"

lemma demo_digest_law: "digest_law demo_platform"
proof -
  have "length s mod 251 < 16 ^ 64" for s :: string
  proof -
    have "length s mod 251 < 251" by simp
    also have "(251::nat) < 16 ^ 64" by simp
    finally show ?thesis .
  qed
  then show ?thesis by (simp add: digest_law_def demo_platform_def padded_hex_word)
qed

lemma demo_clock_law: "clock_law_at demo_platform (demo_day * 86400000000 + 3661000005)"
  by code_simp

end
