(* ===== verification/RegisterModel.thy ===== *)
theory RegisterModel
  imports Platform
begin

text \<open>
  The value objects of the Management Register,
  \<^verbatim>\<open>packages/management-register/src/asklegal_management_register_ports/model.py\<close>: every
  dataclass is a record and its \<^verbatim>\<open>__post_init__\<close> the validations of \<^verbatim>\<open>new_\<dots>\<close>, in the order of
  the code. Byte strings are strings of the code points 0 to 255.
\<close>

datatype register_error =
    RegisterInvariantError
  | CommandIdentityConflict string
  | EffectClaimConflict
  | StaleFencingToken
  | RecoveryDigestMismatch
  | RegisterLookupError string
  | RegisterTypeError
  | RegisterOverflowError
  | DomainError domain_error

fun lift_domain :: "domain_error + 'a \<Rightarrow> register_error + 'a" where
  "lift_domain (Inl e) = Inl (DomainError e)"
| "lift_domain (Inr x) = Inr x"

lemma lift_domain_Inr [simp]: "lift_domain r = Inr x \<longleftrightarrow> r = Inr x"
  by (cases r) auto

section \<open>Validations\<close>

definition exact_text :: "string \<Rightarrow> register_error option" where
  "exact_text v = raise_if (\<not> is_exact_text v) RegisterInvariantError"

text \<open>\<^verbatim>\<open>bytes.fromhex\<close>: pairs of hexadecimal digits, ASCII whitespace between them skipped.\<close>

definition is_ascii_space :: "char \<Rightarrow> bool" where
  "is_ascii_space c \<longleftrightarrow> (let n = (of_char c :: nat) in 9 \<le> n \<and> n \<le> 13 \<or> n = 32)"

definition is_any_hex :: "char \<Rightarrow> bool" where
  "is_any_hex c \<longleftrightarrow> is_hex c \<or> in_range (CHR ''A'') (CHR ''F'') c"

fun from_hex_accepts :: "string \<Rightarrow> bool" where
  "from_hex_accepts [] = True"
| "from_hex_accepts [c] = is_ascii_space c"
| "from_hex_accepts (c # d # cs) =
     (if is_ascii_space c then from_hex_accepts (d # cs)
      else is_any_hex c \<and> is_any_hex d \<and> from_hex_accepts cs)"

definition check_fingerprint :: "string \<Rightarrow> register_error option" where
  "check_fingerprint v = first_raise
     [exact_text v,
      raise_if (length v \<noteq> 71 \<or> \<not> starts_with v ''sha256:'') RegisterInvariantError,
      raise_if (\<not> from_hex_accepts (drop 7 v)) RegisterInvariantError]"

text \<open>\<^verbatim>\<open>_utc\<close> of \<^verbatim>\<open>fake.py\<close>, and of \<^verbatim>\<open>model.py\<close>, which first requires exact text.\<close>

definition parse_utc :: "platform \<Rightarrow> string \<Rightarrow> register_error + int" where
  "parse_utc P v =
     (if \<not> ends_with v ''Z'' then Inl RegisterInvariantError
      else case from_iso P (butlast v @ ''+00:00'') of
        None \<Rightarrow> Inl RegisterInvariantError
      | Some (t, is_utc) \<Rightarrow> if is_utc then Inr t else Inl RegisterInvariantError)"

definition model_utc :: "platform \<Rightarrow> string \<Rightarrow> register_error + int" where
  "model_utc P v = (if \<not> is_exact_text v then Inl RegisterInvariantError else parse_utc P v)"

lemma exact_text_None [simp, guard_simps]: "exact_text v = None \<longleftrightarrow> is_exact_text v"
  by (simp add: exact_text_def)

section \<open>Values\<close>

datatype policy_decision_state = CONFIGURED | UNDECIDED

record policy_state =
  pol_policy_ref :: immutable_reference
  pol_state :: policy_decision_state
  pol_value_ref :: "immutable_reference option"

definition new_policy_state :: "policy_state \<Rightarrow> register_error + policy_state" where
  "new_policy_state p = construct
     [raise_if (ref_type (pol_policy_ref p) \<noteq> Ref_POLICY_PROFILE) RegisterInvariantError,
      raise_if ((pol_state p = CONFIGURED) = (pol_value_ref p = None)) RegisterInvariantError] p"

record command_guard_decision =
  gd_result_code :: command_result_code
  gd_event_type :: "string option"
  gd_winner_key :: "string option"

definition new_command_guard_decision ::
    "command_guard_decision \<Rightarrow> register_error + command_guard_decision" where
  "new_command_guard_decision d = construct
     [(if gd_result_code d = Cmd_APPLIED
       then (case gd_event_type d of None \<Rightarrow> Some RegisterTypeError | Some t \<Rightarrow> exact_text t)
       else raise_if (gd_event_type d \<noteq> None \<or> gd_winner_key d \<noteq> None) RegisterInvariantError),
      (case gd_winner_key d of None \<Rightarrow> None | Some k \<Rightarrow> exact_text k)] d"

record command_transaction =
  ct_envelope :: command_envelope
  ct_canonical_command :: string
  ct_command_fingerprint :: string
  ct_decision :: command_guard_decision
  ct_effect_intents :: "effect_intent list"
  ct_evidence_refs :: "immutable_reference list"

definition new_command_transaction ::
    "platform \<Rightarrow> command_transaction \<Rightarrow> register_error + command_transaction" where
  "new_command_transaction P t = construct
     [raise_if (ct_canonical_command t = []) RegisterInvariantError,
      check_fingerprint (ct_command_fingerprint t),
      raise_if (sha256_fingerprint P (ct_canonical_command t) \<noteq> ct_command_fingerprint t)
        RegisterInvariantError,
      (let keys = map reference_key (ct_evidence_refs t) in
       raise_if (keys \<noteq> sort (remdups keys)) RegisterInvariantError),
      raise_if (gd_result_code (ct_decision t) \<noteq> Cmd_APPLIED \<and> ct_effect_intents t \<noteq> [])
        RegisterInvariantError,
      (let ids = map ei_effect_intent_id (ct_effect_intents t) in
       raise_if (length ids \<noteq> length (remdups ids)) RegisterInvariantError),
      raise_if (\<not> list_all (\<lambda>i. ref_id (ei_command_ref i) = env_command_id (ct_envelope t))
          (ct_effect_intents t)) RegisterInvariantError] t"

record command_submission =
  sub_resolution :: submission_resolution_code
  sub_result :: command_result
  sub_result_bytes :: string

definition new_command_submission ::
    "command_submission \<Rightarrow> register_error + command_submission" where
  "new_command_submission s = construct
     [raise_if (sub_resolution s \<notin> {Sub_RESULT_RECORDED, Sub_EXACT_REPLAY}) RegisterInvariantError,
      raise_if (sub_result_bytes s = []) RegisterInvariantError] s"

record register_event =
  re_event_ref :: immutable_reference
  re_command_id :: string
  re_aggregate_ref :: immutable_reference
  re_event_type :: string
  re_prior_version :: int
  re_new_version :: int
  re_recorded_at :: string

definition new_register_event :: "platform \<Rightarrow> register_event \<Rightarrow> register_error + register_event" where
  "new_register_event P e = construct
     [raise_if (ref_type (re_event_ref e) \<noteq> Ref_EXECUTION_EVENT) RegisterInvariantError,
      exact_text (re_command_id e),
      exact_text (re_event_type e),
      raise_if (re_prior_version e < 0 \<or> re_new_version e \<noteq> re_prior_version e + 1)
        RegisterInvariantError,
      raised_by (model_utc P (re_recorded_at e))] e"

record effect_claim =
  cl_effect_intent_id :: string
  cl_claimant_id :: string
  cl_generation :: int
  cl_fencing_token :: int
  cl_claimed_at :: string
  cl_expires_at :: string

definition new_effect_claim :: "platform \<Rightarrow> effect_claim \<Rightarrow> register_error + effect_claim" where
  "new_effect_claim P c = construct
     [exact_text (cl_effect_intent_id c),
      exact_text (cl_claimant_id c),
      raise_if (cl_generation c < 1 \<or> cl_fencing_token c < 1) RegisterInvariantError,
      (case model_utc P (cl_expires_at c) of Inl e \<Rightarrow> Some e
       | Inr expires \<Rightarrow> (case model_utc P (cl_claimed_at c) of Inl e \<Rightarrow> Some e
          | Inr claimed \<Rightarrow> raise_if (expires \<le> claimed) RegisterInvariantError))] c"

record effect_attempt_event =
  at_effect_intent_id :: string
  at_attempt_number :: int
  at_fencing_token :: int
  at_event_code :: string
  at_evidence_refs :: "immutable_reference list"
  at_recorded_at :: string

definition new_effect_attempt_event ::
    "platform \<Rightarrow> effect_attempt_event \<Rightarrow> register_error + effect_attempt_event" where
  "new_effect_attempt_event P a = construct
     [exact_text (at_effect_intent_id a),
      exact_text (at_event_code a),
      raise_if (at_attempt_number a < 1 \<or> at_fencing_token a < 1) RegisterInvariantError,
      raised_by (model_utc P (at_recorded_at a))] a"

record projection_row =
  pr_aggregate_id :: string
  pr_version :: int
  pr_checkpoint :: nat
  pr_source_event_fingerprint :: string

record register_snapshot =
  rs_schema_version :: int
  rs_migration_set :: "string list"
  rs_commands :: "command_transaction list"
  rs_submissions :: "command_submission list"
  rs_events :: "register_event list"
  rs_intents :: "effect_intent list"
  rs_claims :: "effect_claim list"
  rs_attempts :: "effect_attempt_event list"
  rs_receipts :: "effect_receipt list"
  rs_policies :: "policy_state list"
  rs_projections :: "projection_row list"
  rs_winners :: "(string \<times> string) list"

record recovery_package =
  rp_snapshot :: register_snapshot
  rp_external_digest :: string

definition new_recovery_package :: "recovery_package \<Rightarrow> register_error + recovery_package" where
  "new_recovery_package p = construct [check_fingerprint (rp_external_digest p)] p"

section \<open>What the constructors guarantee\<close>

lemma new_command_transaction_Inr:
  assumes "new_command_transaction P t = Inr t'"
  shows "t' = t" "sha256_fingerprint P (ct_canonical_command t) = ct_command_fingerprint t"
    "gd_result_code (ct_decision t) = Cmd_APPLIED \<or> ct_effect_intents t = []"
    "distinct (map ei_effect_intent_id (ct_effect_intents t))"
    "\<forall>i \<in> set (ct_effect_intents t). ref_id (ei_command_ref i) = env_command_id (ct_envelope t)"
    "sorted_wrt (<) (map reference_key (ct_evidence_refs t))"
proof -
  let ?ks = "map reference_key (ct_evidence_refs t)"
  from assms show "t' = t" "sha256_fingerprint P (ct_canonical_command t) = ct_command_fingerprint t"
    "gd_result_code (ct_decision t) = Cmd_APPLIED \<or> ct_effect_intents t = []"
    "\<forall>i \<in> set (ct_effect_intents t). ref_id (ei_command_ref i) = env_command_id (ct_envelope t)"
    by (auto simp: new_command_transaction_def Let_def list_all_iff)
  from assms have "length (map ei_effect_intent_id (ct_effect_intents t))
      = length (remdups (map ei_effect_intent_id (ct_effect_intents t)))"
    by (simp add: new_command_transaction_def Let_def del: length_map)
  then show "distinct (map ei_effect_intent_id (ct_effect_intents t))"
    by (metis length_remdups_card_conv card_distinct)
  from assms have "?ks = sort (remdups ?ks)" by (simp add: new_command_transaction_def Let_def)
  then have "sorted ?ks" and "distinct ?ks"
    by (metis sorted_sort, metis distinct_remdups distinct_sort)
  then show "sorted_wrt (<) ?ks" by (simp add: strict_sorted_iff)
qed

lemma new_command_submission_Inr [simp, guard_simps]:
  "new_command_submission s = Inr s' \<longleftrightarrow>
     sub_resolution s \<in> {Sub_RESULT_RECORDED, Sub_EXACT_REPLAY} \<and> sub_result_bytes s \<noteq> [] \<and> s' = s"
  by (auto simp: new_command_submission_def)

lemma new_effect_claim_Inr:
  assumes "new_effect_claim P c = Inr c'"
  shows "c' = c" "1 \<le> cl_generation c" "1 \<le> cl_fencing_token c"
    "\<exists>u t. model_utc P (cl_claimed_at c) = Inr u \<and> model_utc P (cl_expires_at c) = Inr t \<and> u < t"
  using assms by (auto simp: new_effect_claim_def split: sum.splits)

lemma new_effect_attempt_event_Inr:
  assumes "new_effect_attempt_event P a = Inr a'"
  shows "a' = a" "1 \<le> at_attempt_number a" "1 \<le> at_fencing_token a"
  using assms by (auto simp: new_effect_attempt_event_def)

end
