(* ===== verification/Stores.thy ===== *)
theory Stores
  imports Prelude
begin

text \<open>
  The contracts the repository's in-memory stores share: a store whose operations keep an
  invariant, one whose failed operations change nothing, and a write-once record store. Also the
  dictionary lemmas their proofs use.
\<close>

section \<open>Dictionaries\<close>

lemma map_of_update [simp]: "map_of (AList.update k v m) = (map_of m)(k \<mapsto> v)"
  by (rule update_conv')

lemma distinct_keys_update [simp]:
  "distinct (map fst (AList.update k v m)) \<longleftrightarrow> distinct (map fst m)"
  by (induction m) (auto simp: update_keys)

text \<open>Inserting a list of values under their own keys, one by one.\<close>

lemma foldl_update_None [simp]:
  "map_of (foldl (\<lambda>m i. AList.update (f i) i m) m xs) k = None \<longleftrightarrow> map_of m k = None \<and> k \<notin> f ` set xs"
  by (induction xs arbitrary: m) auto

lemma foldl_update_SomeD:
  "map_of (foldl (\<lambda>m i. AList.update (f i) i m) m xs) k = Some v
     \<Longrightarrow> map_of m k = Some v \<or> (v \<in> set xs \<and> f v = k)"
proof (induction xs arbitrary: m)
  case (Cons x xs)
  from Cons.IH [of "AList.update (f x) x m"] Cons.prems show ?case by (auto split: if_splits)
qed simp

lemma foldl_update_other:
  "k \<notin> f ` set xs \<Longrightarrow> map_of (foldl (\<lambda>m i. AList.update (f i) i m) m xs) k = map_of m k"
  by (induction xs arbitrary: m) auto

lemma foldl_update_member:
  "x \<in> set xs \<Longrightarrow> distinct (map f xs) \<Longrightarrow> map_of (foldl (\<lambda>m i. AList.update (f i) i m) m xs) (f x) = Some x"
proof (induction xs arbitrary: m)
  case (Cons y xs)
  show ?case
  proof (cases "x = y")
    case True
    with Cons.prems have "f x \<notin> f ` set xs" by auto
    with True show ?thesis by (simp add: foldl_update_other)
  next
    case False
    with Cons show ?thesis by auto
  qed
qed simp

lemma distinct_keys_foldl_update [simp]:
  "distinct (map fst (foldl (\<lambda>m i. AList.update (f i) i m) m xs)) \<longleftrightarrow> distinct (map fst m)"
  by (induction xs arbitrary: m) auto

text \<open>A dictionary comprehension or \<^verbatim>\<open>dict(pairs)\<close>.\<close>

definition dict_of :: "('k \<times> 'v) list \<Rightarrow> ('k \<times> 'v) list" where
  "dict_of kvs = foldl (\<lambda>m (k, v). AList.update k v m) [] kvs"

lemma dict_of_snoc: "dict_of (kvs @ [(k, v)]) = AList.update k v (dict_of kvs)"
  by (simp add: dict_of_def)

lemma update_fresh: "k \<notin> fst ` set m \<Longrightarrow> AList.update k v m = m @ [(k, v)]"
  by (induction m) auto

lemma dict_of_distinct: "distinct (map fst kvs) \<Longrightarrow> dict_of kvs = kvs"
proof (induction kvs rule: rev_induct)
  case (snoc kv kvs)
  then show ?case by (cases kv) (auto simp: dict_of_snoc update_fresh)
qed (simp add: dict_of_def)

lemma map_of_same_set:
  assumes "distinct (map fst xs)" and "distinct (map fst ys)" and "set xs = set ys"
  shows "map_of xs = map_of ys"
  using assms by (metis map_of_inject_set)

lemma keyed_values: "(\<And>k v. (k, v) \<in> set m \<Longrightarrow> f v = k) \<Longrightarrow> map (\<lambda>v. (f v, v)) (map snd m) = m"
  by (induction m) (auto simp: map_idI)

lemma distinct_sort_key [simp]: "distinct (map fst (sort_key fst m)) \<longleftrightarrow> distinct (map fst m)"
  by (simp add: distinct_map)

lemma map_of_sort_key [simp]: "distinct (map fst m) \<Longrightarrow> map_of (sort_key fst m) = map_of m"
  by (rule map_of_same_set) simp_all

section \<open>Stores\<close>

text \<open>The state after a sequence of operations, whatever each of them returned.\<close>

definition run :: "('op \<Rightarrow> 's \<Rightarrow> 'r \<times> 's) \<Rightarrow> 'op list \<Rightarrow> 's \<Rightarrow> 's" where
  "run step ops s = foldl (\<lambda>s op. snd (step op s)) s ops"

lemma run_Nil [simp]: "run step [] s = s"
  by (simp add: run_def)

lemma run_Cons [simp]: "run step (op # ops) s = run step ops (snd (step op s))"
  by (simp add: run_def)

lemma run_append: "run step (xs @ ys) s = run step ys (run step xs s)"
  by (simp add: run_def)

text \<open>The operations of a history that did not raise.\<close>

fun effective :: "('op \<Rightarrow> 's \<Rightarrow> ('e + 'r) \<times> 's) \<Rightarrow> 'op list \<Rightarrow> 's \<Rightarrow> 'op list" where
  "effective step [] s = []"
| "effective step (op # ops) s = (case fst (step op s) of
     Inl _ \<Rightarrow> effective step ops s
   | Inr _ \<Rightarrow> op # effective step ops (snd (step op s)))"

locale state_store =
  fixes initial :: 's
    and step :: "'op \<Rightarrow> 's \<Rightarrow> ('e + 'r) \<times> 's"
    and admitted :: "'op \<Rightarrow> bool"
    and inv :: "'s \<Rightarrow> bool"
  assumes initial_inv: "inv initial"
    and step_inv: "inv s \<Longrightarrow> admitted op \<Longrightarrow> inv (snd (step op s))"
begin

lemma run_inv: "inv s \<Longrightarrow> list_all admitted ops \<Longrightarrow> inv (run step ops s)"
  by (induction ops arbitrary: s) (auto simp: step_inv)

lemma reachable_inv: "list_all admitted ops \<Longrightarrow> inv (run step ops initial)"
  by (simp add: run_inv initial_inv)

text \<open>What every step keeps, every history keeps.\<close>

lemma run_persists:
  assumes "\<And>s op. inv s \<Longrightarrow> admitted op \<Longrightarrow> Q s \<Longrightarrow> Q (snd (step op s))"
  shows "inv s \<Longrightarrow> list_all admitted ops \<Longrightarrow> Q s \<Longrightarrow> Q (run step ops s)"
  using assms by (induction ops arbitrary: s) (auto simp: step_inv)

text \<open>A transitive relation that holds across every step holds across every history.\<close>

lemma run_related:
  assumes refl: "\<And>s. rel s s" and trans: "\<And>s t u. rel s t \<Longrightarrow> rel t u \<Longrightarrow> rel s u"
    and step: "\<And>s op. inv s \<Longrightarrow> admitted op \<Longrightarrow> rel s (snd (step op s))"
  shows "inv s \<Longrightarrow> list_all admitted ops \<Longrightarrow> rel s (run step ops s)"
proof (induction ops arbitrary: s)
  case (Cons op ops)
  then have "rel (snd (step op s)) (run step ops (snd (step op s)))" by (simp add: step_inv)
  with Cons.prems step show ?case by (auto intro: trans)
qed (simp add: refl)

end

locale atomic_store = state_store +
  assumes failure_changes_nothing: "fst (step op s) = Inl e \<Longrightarrow> snd (step op s) = s"
begin

lemma failed_operations_invisible: "run step (effective step ops s) s = run step ops s"
proof (induction ops arbitrary: s)
  case (Cons op ops)
  show ?case
  proof (cases "fst (step op s)")
    case (Inl e)
    then have "snd (step op s) = s" by (rule failure_changes_nothing)
    with Cons Inl show ?thesis by (simp split: sum.splits prod.splits)
  next
    case (Inr r)
    with Cons show ?thesis by (simp split: sum.splits prod.splits)
  qed
qed simp

end

section \<open>Write-once record stores\<close>

text \<open>
  A store keyed by a field of the record: the first record under a key is kept, recording it again
  returns it, recording another one under the same key is refused.
\<close>

locale write_once =
  fixes put :: "'r \<Rightarrow> ('k \<times> 'r) list \<Rightarrow> ('e + 'r) \<times> ('k \<times> 'r) list" and key :: "'r \<Rightarrow> 'k"
  assumes put_new: "map_of s (key r) = None \<Longrightarrow> put r s = (Inr r, AList.update (key r) r s)"
    and put_same: "map_of s (key r) = Some r \<Longrightarrow> put r s = (Inr r, s)"
    and put_conflict: "map_of s (key r) = Some q \<Longrightarrow> q \<noteq> r \<Longrightarrow> \<exists>e. put r s = (Inl e, s)"
begin

lemma put_state:
  "map_of (snd (put r s)) k = (if k = key r \<and> map_of s k = None then Some r else map_of s k)"
proof (cases "map_of s (key r)")
  case None
  then show ?thesis by (simp add: put_new)
next
  case (Some q)
  then show ?thesis
    by (cases "q = r") (auto simp: put_same dest: put_conflict)
qed

lemma put_outcome:
  "fst (put r s) = Inr x \<Longrightarrow> x = r \<and> map_of (snd (put r s)) (key r) = Some r"
proof (cases "map_of s (key r)")
  case None
  then show "fst (put r s) = Inr x \<Longrightarrow> ?thesis" by (simp add: put_new)
next
  case (Some q)
  then show "fst (put r s) = Inr x \<Longrightarrow> ?thesis"
    by (cases "q = r") (auto simp: put_same dest: put_conflict)
qed

lemma put_known: "map_of s (key r) = Some q \<Longrightarrow> snd (put r s) = s"
  by (cases "q = r") (auto simp: put_same dest: put_conflict)

lemma put_distinct: "distinct (map fst s) \<Longrightarrow> distinct (map fst (snd (put r s)))"
  by (cases "map_of s (key r)") (simp_all add: put_new put_known del: map_of_eq_Some_iff)

text \<open>The first write under a key wins, whatever the sequence of writes.\<close>

lemma first_write_wins_from:
  "map_of (run put rs s) k =
     (case map_of s k of Some q \<Rightarrow> Some q | None \<Rightarrow> find (\<lambda>r. key r = k) rs)"
  by (induction rs arbitrary: s) (auto simp: put_state split: option.splits)

lemma first_write_wins: "map_of (run put rs []) k = find (\<lambda>r. key r = k) rs"
  by (simp add: first_write_wins_from)

lemma run_distinct: "distinct (map fst s) \<Longrightarrow> distinct (map fst (run put rs s))"
  by (induction rs arbitrary: s) (auto simp: put_distinct)

text \<open>A write succeeds exactly when the record is the first one under its key.\<close>

lemma put_succeeds_iff:
  "(\<exists>x. fst (put r (run put rs [])) = Inr x) \<longleftrightarrow>
     find (\<lambda>q. key q = key r) rs = None \<or> find (\<lambda>q. key q = key r) rs = Some r"
proof (cases "find (\<lambda>q. key q = key r) rs")
  case None
  then show ?thesis using put_new [of "run put rs []" r] by (simp add: first_write_wins)
next
  case (Some q)
  then have q: "map_of (run put rs []) (key r) = Some q" by (simp add: first_write_wins)
  show ?thesis
  proof (cases "q = r")
    case True
    with q Some show ?thesis using put_same [of "run put rs []" r] by simp
  next
    case False
    with q Some show ?thesis using put_conflict [of "run put rs []" r q] by auto
  qed
qed

end

end
