(* ===== verification/Register.thy ===== *)
theory Register
  imports RegisterModel Stores
begin

text \<open>
  The authoritative Management Register: \<^verbatim>\<open>InMemoryManagementRegister\<close> of \<^verbatim>\<open>fake.py\<close>, the
  reference behaviour of the register port. The object's dictionaries and lists are the fields of
  \<^verbatim>\<open>register\<close>, in insertion order. A method is a function from the register to its outcome, a
  raised error or a returned value, and the register afterwards; the lock makes each method one
  atomic step. The digest and the clock come from the \<^verbatim>\<open>platform\<close>, \<^verbatim>\<open>repr\<close> of a snapshot from
  the parameter \<^verbatim>\<open>rep\<close>.
\<close>

record register =
  reg_commands :: "(string \<times> (command_transaction \<times> command_submission)) list"
  reg_events :: "register_event list"
  reg_intents :: "(string \<times> effect_intent) list"
  reg_claims :: "(string \<times> effect_claim) list"
  reg_attempts :: "effect_attempt_event list"
  reg_receipts :: "(string \<times> effect_receipt) list"
  reg_policies :: "policy_state list"
  reg_aggregate_versions :: "(string \<times> int) list"
  reg_winners :: "(string \<times> string) list"
  reg_projections :: "(string \<times> projection_row) list"

definition empty_register :: register where
  "empty_register = \<lparr>reg_commands = [], reg_events = [], reg_intents = [], reg_claims = [],
     reg_attempts = [], reg_receipts = [], reg_policies = [], reg_aggregate_versions = [],
     reg_winners = [], reg_projections = []\<rparr>"

type_synonym 'a outcome = "(register_error + 'a) \<times> register"

section \<open>Helpers\<close>

definition issued_id :: "string \<Rightarrow> nat \<Rightarrow> string" where
  "issued_id prefix counter = prefix @ ''_'' @ padded_hex 48 counter"

definition format_utc :: "platform \<Rightarrow> int \<Rightarrow> register_error + string" where
  "format_utc P t = (case iso_text P t of None \<Rightarrow> Inl RegisterOverflowError | Some s \<Rightarrow> Inr s)"

definition check_lease_seconds :: "int \<Rightarrow> register_error option" where
  "check_lease_seconds n = raise_if (n < 1) RegisterInvariantError"

fun version_scalar :: "expected_version \<Rightarrow> json_scalar" where
  "version_scalar ABSENT = JStr ''ABSENT''"
| "version_scalar (Version v) = JInt v"

definition result_bytes :: "command_result \<Rightarrow> string" where
  "result_bytes r = json_object
     [(''authoritative_version'', version_scalar (cr_authoritative_version r)),
      (''command_result_id'', JStr (cr_command_result_id r)),
      (''result_code'', JStr (command_result_code_value (cr_result_code r)))]"

definition event_bytes :: "register_event \<Rightarrow> string" where
  "event_bytes e = json_object
     [(''aggregate_id'', JStr (ref_id (re_aggregate_ref e))),
      (''command_id'', JStr (re_command_id e)),
      (''event_id'', JStr (ref_id (re_event_ref e))),
      (''event_type'', JStr (re_event_type e)),
      (''new_version'', JInt (re_new_version e)),
      (''prior_version'', JInt (re_prior_version e)),
      (''recorded_at'', JStr (re_recorded_at e))]"

lemma result_bytes_nonempty [simp]: "result_bytes r \<noteq> []"
  by (simp add: result_bytes_def json_object_def)

section \<open>Projections\<close>

text \<open>The loop of \<^verbatim>\<open>rebuild_projections\<close>: one row per aggregate, the last event wins.\<close>

definition projection_step ::
    "platform \<Rightarrow> (string \<times> projection_row) list \<Rightarrow> nat \<times> register_event
       \<Rightarrow> (string \<times> projection_row) list" where
  "projection_step P rows ce = (case ce of (checkpoint, e) \<Rightarrow>
     AList.update (ref_id (re_aggregate_ref e))
       \<lparr>pr_aggregate_id = ref_id (re_aggregate_ref e), pr_version = re_new_version e,
        pr_checkpoint = checkpoint,
        pr_source_event_fingerprint = sha256_fingerprint P (event_bytes e)\<rparr> rows)"

definition project_events :: "platform \<Rightarrow> register_event list \<Rightarrow> (string \<times> projection_row) list" where
  "project_events P evs = foldl (projection_step P) [] (zip [1..<length evs + 1] evs)"

definition rebuilt :: "platform \<Rightarrow> register \<Rightarrow> register" where
  "rebuilt P R = R\<lparr>reg_projections := project_events P (reg_events R)\<rparr>"

definition rebuild_projections :: "platform \<Rightarrow> register \<Rightarrow> projection_row list \<times> register" where
  "rebuild_projections P R =
     (map snd (sort_key fst (project_events P (reg_events R))), rebuilt P R)"

section \<open>Commands\<close>

definition effective_result_code ::
    "platform \<Rightarrow> register \<Rightarrow> command_transaction \<Rightarrow> int \<Rightarrow> register_error + command_result_code" where
  "effective_result_code P R t instant =
     (let envelope = ct_envelope t;
          current = map_of (reg_aggregate_versions R) (ref_id (env_target_ref envelope)) in
      case parse_utc P (env_expires_at envelope) of
        Inl e \<Rightarrow> Inl e
      | Inr expires \<Rightarrow>
          if expires \<le> instant then Inr Cmd_REJECTED_EXPIRED
          else if (case env_expected_version envelope of
                     ABSENT \<Rightarrow> current \<noteq> None
                   | Version v \<Rightarrow> current \<noteq> Some v)
          then Inr Cmd_REJECTED_STALE_VERSION
          else case gd_winner_key (ct_decision t) of
              Some k \<Rightarrow> if map_of (reg_winners R) k \<noteq> None then Inr Cmd_REJECTED_CONFLICT
                        else Inr (gd_result_code (ct_decision t))
            | None \<Rightarrow> Inr (gd_result_code (ct_decision t)))"

definition new_event ::
    "platform \<Rightarrow> register \<Rightarrow> command_transaction \<Rightarrow> int \<Rightarrow> int \<Rightarrow> string
       \<Rightarrow> register_error + register_event" where
  "new_event P R t prior_version new_version now =
     (let envelope = ct_envelope t;
          event_type = (case gd_event_type (ct_decision t) of None \<Rightarrow> ''None'' | Some s \<Rightarrow> s);
          seed = utf8 (env_command_id envelope @ '':'' @ event_type @ '':'' @ decimal new_version) in
      and_then (lift_domain (new_immutable_reference
          \<lparr>ref_type = Ref_EXECUTION_EVENT, ref_id = issued_id ''evt'' (length (reg_events R) + 1),
           ref_fingerprint = sha256_fingerprint P seed\<rparr>))
        (\<lambda>event_ref. new_register_event P
          \<lparr>re_event_ref = event_ref, re_command_id = env_command_id envelope,
           re_aggregate_ref = env_target_ref envelope,
           re_event_type = (case gd_event_type (ct_decision t) of
               None \<Rightarrow> ''UNREACHABLE'' | Some s \<Rightarrow> if s = [] then ''UNREACHABLE'' else s),
           re_prior_version = prior_version, re_new_version = new_version, re_recorded_at = now\<rparr>))"

text \<open>The references \<^verbatim>\<open>effect_refs\<close>, built left to right.\<close>

fun effect_references :: "effect_intent list \<Rightarrow> register_error + immutable_reference list" where
  "effect_references [] = Inr []"
| "effect_references (i # is) =
     and_then (lift_domain (new_immutable_reference
         \<lparr>ref_type = Ref_EFFECT_INTENT, ref_id = ei_effect_intent_id i,
          ref_fingerprint = ei_effect_command_fingerprint i\<rparr>))
       (\<lambda>r. and_then (effect_references is) (\<lambda>rs. Inr (r # rs)))"

text \<open>
  The event, if the command is applied, the effect references and the authoritative version.
\<close>

definition plan_facts ::
    "platform \<Rightarrow> register \<Rightarrow> command_transaction \<Rightarrow> command_result_code \<Rightarrow> string
       \<Rightarrow> register_error + (register_event option \<times> immutable_reference list \<times> expected_version)" where
  "plan_facts P R t result_code now =
     (let current = map_of (reg_aggregate_versions R) (ref_id (env_target_ref (ct_envelope t))) in
      if result_code = Cmd_APPLIED
      then if list_ex (\<lambda>i. map_of (reg_intents R) (ei_effect_intent_id i) \<noteq> None) (ct_effect_intents t)
        then Inl RegisterInvariantError
        else let prior_version = (case current of None \<Rightarrow> 0 | Some v \<Rightarrow> v);
                 new_version = prior_version + 1 in
          and_then (new_event P R t prior_version new_version now) (\<lambda>event.
            and_then (effect_references (ct_effect_intents t)) (\<lambda>effect_refs.
              Inr (Some event, effect_refs, Version new_version)))
      else Inr (None, [], (case current of None \<Rightarrow> ABSENT | Some v \<Rightarrow> Version v)))"

definition plan_result ::
    "register \<Rightarrow> command_transaction \<Rightarrow> command_result_code \<Rightarrow> string
       \<Rightarrow> register_event option \<times> immutable_reference list \<times> expected_version
       \<Rightarrow> register_error + command_result" where
  "plan_result R t result_code now facts = (case facts of (event, effect_refs, version) \<Rightarrow>
     and_then (lift_domain (new_immutable_reference
         \<lparr>ref_type = Ref_COMMAND, ref_id = env_command_id (ct_envelope t),
          ref_fingerprint = ct_command_fingerprint t\<rparr>)) (\<lambda>command_ref.
       lift_domain (new_command_result
         \<lparr>cr_command_result_id = issued_id ''cmr'' (length (reg_commands R) + 1),
          cr_command_ref = command_ref, cr_recorded_at = now, cr_result_code = result_code,
          cr_authoritative_version = version,
          cr_event_refs = (case event of None \<Rightarrow> [] | Some e \<Rightarrow> [re_event_ref e]),
          cr_effect_intent_refs = effect_refs, cr_evidence_refs = ct_evidence_refs t\<rparr>)))"

text \<open>The mutations of \<^verbatim>\<open>submit_command\<close>, once nothing can raise any more.\<close>

definition append_event_facts ::
    "command_transaction \<Rightarrow> register_event \<Rightarrow> register \<Rightarrow> register" where
  "append_event_facts t e R = R\<lparr>
     reg_events := reg_events R @ [e],
     reg_aggregate_versions := AList.update (ref_id (env_target_ref (ct_envelope t)))
       (re_new_version e) (reg_aggregate_versions R),
     reg_intents := foldl (\<lambda>m i. AList.update (ei_effect_intent_id i) i m) (reg_intents R)
       (ct_effect_intents t),
     reg_winners := (case gd_winner_key (ct_decision t) of None \<Rightarrow> reg_winners R
       | Some k \<Rightarrow> AList.update k (env_command_id (ct_envelope t)) (reg_winners R))\<rparr>"

definition commit_submission ::
    "platform \<Rightarrow> command_transaction \<Rightarrow> register_event option \<Rightarrow> command_submission \<Rightarrow> register
       \<Rightarrow> register" where
  "commit_submission P t event submission R =
     (let R1 = (case event of None \<Rightarrow> R | Some e \<Rightarrow> append_event_facts t e R) in
      rebuilt P (R1\<lparr>reg_commands := AList.update (env_command_id (ct_envelope t))
        (t, submission) (reg_commands R1)\<rparr>))"

definition replay_submission :: "command_submission \<Rightarrow> register_error + command_submission" where
  "replay_submission stored = new_command_submission
     \<lparr>sub_resolution = Sub_EXACT_REPLAY, sub_result = sub_result stored,
      sub_result_bytes = sub_result_bytes stored\<rparr>"

definition submit_command ::
    "platform \<Rightarrow> command_transaction \<Rightarrow> string \<Rightarrow> register \<Rightarrow> command_submission outcome" where
  "submit_command P t now R =
     (case parse_utc P now of
        Inl e \<Rightarrow> (Inl e, R)
      | Inr instant \<Rightarrow>
        (let command_id = env_command_id (ct_envelope t) in
         case map_of (reg_commands R) command_id of
           Some (transaction, submission) \<Rightarrow>
             if ct_command_fingerprint transaction \<noteq> ct_command_fingerprint t
             then (Inl (CommandIdentityConflict command_id), R)
             else (replay_submission submission, R)
         | None \<Rightarrow>
             (case and_then (effective_result_code P R t instant) (\<lambda>result_code.
                     and_then (plan_facts P R t result_code now) (\<lambda>facts.
                       and_then (plan_result R t result_code now facts) (\<lambda>result.
                         and_then (new_command_submission
                             \<lparr>sub_resolution = Sub_RESULT_RECORDED, sub_result = result,
                              sub_result_bytes = result_bytes result\<rparr>) (\<lambda>submission.
                           Inr (fst facts, submission))))) of
                Inl e \<Rightarrow> (Inl e, R)
              | Inr (event, submission) \<Rightarrow>
                  (Inr submission, commit_submission P t event submission R))))"

definition resolve_command ::
    "string \<Rightarrow> string \<Rightarrow> register \<Rightarrow> command_submission outcome" where
  "resolve_command command_id command_fingerprint R =
     (case map_of (reg_commands R) command_id of
        None \<Rightarrow> (Inl (RegisterLookupError command_id), R)
      | Some (transaction, submission) \<Rightarrow>
          if ct_command_fingerprint transaction \<noteq> command_fingerprint
          then (Inl (CommandIdentityConflict command_id), R)
          else (replay_submission submission, R))"

section \<open>Effects\<close>

text \<open>A claim from \<^verbatim>\<open>now\<close> until \<^verbatim>\<open>instant + timedelta(seconds=lease_seconds)\<close>.\<close>

definition leased_claim ::
    "platform \<Rightarrow> string \<Rightarrow> string \<Rightarrow> int \<Rightarrow> int \<Rightarrow> string \<Rightarrow> int \<Rightarrow> int
       \<Rightarrow> register_error + effect_claim" where
  "leased_claim P intent_id claimant_id generation token now instant lease_seconds =
     and_then (format_utc P (instant + lease_seconds * 1000000)) (\<lambda>expires_at.
       new_effect_claim P
         \<lparr>cl_effect_intent_id = intent_id, cl_claimant_id = claimant_id,
          cl_generation = generation, cl_fencing_token = token,
          cl_claimed_at = now, cl_expires_at = expires_at\<rparr>)"

text \<open>The claim \<^verbatim>\<open>claim_effect\<close> returns, and whether it is a new one to store.\<close>

definition select_claim ::
    "platform \<Rightarrow> string \<Rightarrow> application_code \<Rightarrow> string \<Rightarrow> string \<Rightarrow> int \<Rightarrow> register
       \<Rightarrow> register_error + (effect_claim \<times> bool)" where
  "select_claim P intent_id owning_application claimant_id now lease_seconds R =
     and_then (parse_utc P now) (\<lambda>instant.
       case check_lease_seconds lease_seconds of
         Some e \<Rightarrow> Inl e
       | None \<Rightarrow>
         (case map_of (reg_intents R) intent_id of
            None \<Rightarrow> Inl (RegisterLookupError intent_id)
          | Some intent \<Rightarrow>
              if ei_owning_application intent \<noteq> owning_application then Inl EffectClaimConflict
              else if map_of (reg_receipts R) intent_id \<noteq> None then Inl EffectClaimConflict
              else and_then (parse_utc P (ei_deadline intent)) (\<lambda>deadline.
                if deadline \<le> instant then Inl EffectClaimConflict
                else case map_of (reg_claims R) intent_id of
                    None \<Rightarrow>
                      and_then (leased_claim P intent_id claimant_id 1 1 now instant lease_seconds)
                        (\<lambda>claim. Inr (claim, True))
                  | Some previous \<Rightarrow>
                      and_then (parse_utc P (cl_expires_at previous)) (\<lambda>expires.
                        if instant < expires
                        then if cl_claimant_id previous = claimant_id then Inr (previous, False)
                          else Inl EffectClaimConflict
                        else and_then
                          (leased_claim P intent_id claimant_id (cl_generation previous + 1)
                            (cl_fencing_token previous + 1) now instant lease_seconds)
                          (\<lambda>claim. Inr (claim, True))))))"

definition claim_effect ::
    "platform \<Rightarrow> string \<Rightarrow> application_code \<Rightarrow> string \<Rightarrow> string \<Rightarrow> int \<Rightarrow> register
       \<Rightarrow> effect_claim outcome" where
  "claim_effect P intent_id owning_application claimant_id now lease_seconds R =
     (case select_claim P intent_id owning_application claimant_id now lease_seconds R of
        Inl e \<Rightarrow> (Inl e, R)
      | Inr (claim, stored) \<Rightarrow>
          (Inr claim,
           if stored then R\<lparr>reg_claims := AList.update intent_id claim (reg_claims R)\<rparr> else R))"

definition live_claim ::
    "platform \<Rightarrow> register \<Rightarrow> string \<Rightarrow> string \<Rightarrow> int \<Rightarrow> int \<Rightarrow> register_error + effect_claim" where
  "live_claim P R intent_id claimant_id fencing_token instant =
     (case map_of (reg_claims R) intent_id of
        None \<Rightarrow> Inl StaleFencingToken
      | Some claim \<Rightarrow>
          if cl_claimant_id claim \<noteq> claimant_id \<or> cl_fencing_token claim \<noteq> fencing_token
          then Inl StaleFencingToken
          else and_then (parse_utc P (cl_expires_at claim)) (\<lambda>expires.
            if expires \<le> instant then Inl StaleFencingToken else Inr claim))"

definition renew_effect_claim ::
    "platform \<Rightarrow> string \<Rightarrow> string \<Rightarrow> int \<Rightarrow> string \<Rightarrow> int \<Rightarrow> register \<Rightarrow> effect_claim outcome" where
  "renew_effect_claim P intent_id claimant_id fencing_token now lease_seconds R =
     (case and_then (parse_utc P now) (\<lambda>instant.
             case check_lease_seconds lease_seconds of
               Some e \<Rightarrow> Inl e
             | None \<Rightarrow> and_then (live_claim P R intent_id claimant_id fencing_token instant) (\<lambda>current.
                 leased_claim P intent_id claimant_id (cl_generation current)
                   (cl_fencing_token current) now instant lease_seconds)) of
        Inl e \<Rightarrow> (Inl e, R)
      | Inr renewed \<Rightarrow> (Inr renewed, R\<lparr>reg_claims := AList.update intent_id renewed (reg_claims R)\<rparr>))"

definition attempt_count :: "register \<Rightarrow> string \<Rightarrow> nat" where
  "attempt_count R intent_id = length (filter (\<lambda>a. at_effect_intent_id a = intent_id) (reg_attempts R))"

text \<open>A claim always has its intent; \<^verbatim>\<open>self._intents[...]\<close> would raise \<^verbatim>\<open>KeyError\<close> otherwise.\<close>

definition attempt_guard ::
    "platform \<Rightarrow> register \<Rightarrow> effect_attempt_event \<Rightarrow> string \<Rightarrow> register_error + unit" where
  "attempt_guard P R a now =
     (let intent_id = at_effect_intent_id a in
      and_then (parse_utc P now) (\<lambda>instant.
        case map_of (reg_claims R) intent_id of
          None \<Rightarrow> Inl StaleFencingToken
        | Some claim \<Rightarrow>
            and_then (live_claim P R intent_id (cl_claimant_id claim) (at_fencing_token a) instant)
            (\<lambda>_. if at_recorded_at a \<noteq> now then Inl RegisterInvariantError
              else if at_attempt_number a \<noteq> int (attempt_count R intent_id) + 1
              then Inl RegisterInvariantError
              else case map_of (reg_intents R) intent_id of
                  None \<Rightarrow> Inl (RegisterLookupError intent_id)
                | Some intent \<Rightarrow>
                    if ei_attempt_ceiling intent < at_attempt_number a
                    then Inl EffectClaimConflict else Inr ())))"

definition append_effect_attempt ::
    "platform \<Rightarrow> effect_attempt_event \<Rightarrow> string \<Rightarrow> register \<Rightarrow> unit outcome" where
  "append_effect_attempt P a now R =
     (case attempt_guard P R a now of
        Inl e \<Rightarrow> (Inl e, R)
      | Inr _ \<Rightarrow> (Inr (), R\<lparr>reg_attempts := reg_attempts R @ [a]\<rparr>))"

definition receipt_guard ::
    "platform \<Rightarrow> register \<Rightarrow> effect_receipt \<Rightarrow> effect_intent \<Rightarrow> int option \<Rightarrow> int
       \<Rightarrow> register_error + unit" where
  "receipt_guard P R receipt intent fencing_token instant =
     (let intent_id = ref_id (er_effect_intent_ref receipt);
          attempts = int (attempt_count R intent_id);
          cancelled = (er_terminal_status receipt = Rcpt_CANCELLED_BEFORE_EFFECT) in
      if er_command_ref receipt \<noteq> ei_command_ref intent then Inl RegisterInvariantError
      else if er_execution_lineage_ref receipt \<noteq> ei_execution_lineage_ref intent
      then Inl RegisterInvariantError
      else if cancelled \<and> attempts \<noteq> 0 then Inl EffectClaimConflict
      else if er_attempt_count receipt \<noteq> attempts then Inl RegisterInvariantError
      else if cancelled then Inr ()
      else case fencing_token of
          None \<Rightarrow> Inl StaleFencingToken
        | Some token \<Rightarrow>
            (case map_of (reg_claims R) intent_id of
               None \<Rightarrow> Inl StaleFencingToken
             | Some claim \<Rightarrow>
                 and_then (live_claim P R intent_id (cl_claimant_id claim) token instant) (\<lambda>_. Inr ())))"

definition record_effect_receipt ::
    "platform \<Rightarrow> effect_receipt \<Rightarrow> int option \<Rightarrow> string \<Rightarrow> register \<Rightarrow> effect_receipt outcome" where
  "record_effect_receipt P receipt fencing_token now R =
     (case parse_utc P now of
        Inl e \<Rightarrow> (Inl e, R)
      | Inr instant \<Rightarrow>
        (let intent_id = ref_id (er_effect_intent_ref receipt) in
         case map_of (reg_receipts R) intent_id of
           Some existing \<Rightarrow>
             if existing = receipt then (Inr existing, R) else (Inl EffectClaimConflict, R)
         | None \<Rightarrow>
             (case map_of (reg_intents R) intent_id of
                None \<Rightarrow> (Inl (RegisterLookupError intent_id), R)
              | Some intent \<Rightarrow>
                  (case receipt_guard P R receipt intent fencing_token instant of
                     Inl e \<Rightarrow> (Inl e, R)
                   | Inr _ \<Rightarrow>
                       (Inr receipt, R\<lparr>reg_receipts := AList.update intent_id receipt (reg_receipts R)\<rparr>)))))"

definition set_policy_state :: "policy_state \<Rightarrow> register \<Rightarrow> unit outcome" where
  "set_policy_state p R = (Inr (), R\<lparr>reg_policies := reg_policies R @ [p]\<rparr>)"

section \<open>Recovery\<close>

definition snapshot_digest :: "platform \<Rightarrow> (register_snapshot \<Rightarrow> string) \<Rightarrow> register_snapshot \<Rightarrow> string" where
  "snapshot_digest P rep s = sha256_fingerprint P (utf8 (rep s))"

definition take_snapshot :: "string list \<Rightarrow> register \<Rightarrow> register_snapshot" where
  "take_snapshot migration_set R = \<lparr>rs_schema_version = 1, rs_migration_set = migration_set,
     rs_commands = map (fst \<circ> snd) (reg_commands R),
     rs_submissions = map (snd \<circ> snd) (reg_commands R),
     rs_events = reg_events R,
     rs_intents = map snd (reg_intents R),
     rs_claims = map snd (sort_key fst (reg_claims R)),
     rs_attempts = reg_attempts R,
     rs_receipts = map snd (sort_key fst (reg_receipts R)),
     rs_policies = reg_policies R,
     rs_projections = map snd (sort_key fst (reg_projections R)),
     rs_winners = sort (reg_winners R)\<rparr>"

definition export_recovery ::
    "platform \<Rightarrow> (register_snapshot \<Rightarrow> string) \<Rightarrow> string list \<Rightarrow> register
       \<Rightarrow> register_error + recovery_package" where
  "export_recovery P rep migration_set R =
     (if migration_set = [] \<or> list_ex (\<lambda>item. item = []) migration_set
      then Inl RegisterInvariantError
      else let snapshot = take_snapshot migration_set R in
        new_recovery_package \<lparr>rp_snapshot = snapshot, rp_external_digest = snapshot_digest P rep snapshot\<rparr>)"

definition restore_recovery ::
    "platform \<Rightarrow> (register_snapshot \<Rightarrow> string) \<Rightarrow> recovery_package \<Rightarrow> register \<Rightarrow> unit outcome" where
  "restore_recovery P rep package R =
     (let s = rp_snapshot package in
      if snapshot_digest P rep s \<noteq> rp_external_digest package then (Inl RecoveryDigestMismatch, R)
      else if length (rs_commands s) \<noteq> length (rs_submissions s) then (Inl RegisterInvariantError, R)
      else let commands = dict_of (map (\<lambda>(t, b). (env_command_id (ct_envelope t), (t, b)))
                 (zip (rs_commands s) (rs_submissions s))) in
        if length commands \<noteq> length (rs_commands s) then (Inl RegisterInvariantError, R)
        else (Inr (), rebuilt P (R\<lparr>
          reg_commands := commands,
          reg_events := rs_events s,
          reg_intents := dict_of (map (\<lambda>i. (ei_effect_intent_id i, i)) (rs_intents s)),
          reg_claims := dict_of (map (\<lambda>c. (cl_effect_intent_id c, c)) (rs_claims s)),
          reg_attempts := rs_attempts s,
          reg_receipts := dict_of (map (\<lambda>r. (ref_id (er_effect_intent_ref r), r)) (rs_receipts s)),
          reg_policies := rs_policies s,
          reg_aggregate_versions := dict_of (map (\<lambda>e. (ref_id (re_aggregate_ref e), re_new_version e))
            (rs_events s)),
          reg_winners := dict_of (rs_winners s)\<rparr>)))"

end
