(* ===== verification/RegisterSteps.thy ===== *)
theory RegisterSteps
  imports Register Stores
begin

text \<open>
  The register as a transition system: the operations of the port as a datatype, \<^verbatim>\<open>perform\<close>
  which runs one on the model, and the step relation \<^verbatim>\<open>register_step\<close>, the abstract account of
  what an operation may change and under which conditions. Every operation refines it.
\<close>

section \<open>Operations\<close>

datatype register_op =
    SubmitOp command_transaction string
  | ResolveOp string string
  | ClaimOp string application_code string string int
  | RenewOp string string int string int
  | AttemptOp effect_attempt_event string
  | ReceiptOp effect_receipt "int option" string
  | PolicyOp policy_state
  | RebuildOp

datatype register_reply =
    SubmissionReply command_submission
  | ClaimReply effect_claim
  | ReceiptReply effect_receipt
  | RowsReply "projection_row list"
  | NoReply

definition reply :: "('a \<Rightarrow> register_reply) \<Rightarrow> 'a outcome \<Rightarrow> register_reply outcome" where
  "reply f o1 = (map_sum id f (fst o1), snd o1)"

fun perform :: "platform \<Rightarrow> register_op \<Rightarrow> register \<Rightarrow> register_reply outcome" where
  "perform P (SubmitOp t now) R = reply SubmissionReply (submit_command P t now R)"
| "perform P (ResolveOp i fp) R = reply SubmissionReply (resolve_command i fp R)"
| "perform P (ClaimOp i app who now secs) R = reply ClaimReply (claim_effect P i app who now secs R)"
| "perform P (RenewOp i who token now secs) R = reply ClaimReply (renew_effect_claim P i who token now secs R)"
| "perform P (AttemptOp a now) R = reply (\<lambda>_. NoReply) (append_effect_attempt P a now R)"
| "perform P (ReceiptOp r token now) R = reply ReceiptReply (record_effect_receipt P r token now R)"
| "perform P (PolicyOp p) R = reply (\<lambda>_. NoReply) (set_policy_state p R)"
| "perform P RebuildOp R = (case rebuild_projections P R of (rows, R') \<Rightarrow> (Inr (RowsReply rows), R'))"

text \<open>An operation whose argument objects their constructors accepted.\<close>

fun admitted_op :: "platform \<Rightarrow> register_op \<Rightarrow> bool" where
  "admitted_op P (SubmitOp t now) \<longleftrightarrow> new_command_transaction P t = Inr t
     \<and> new_command_guard_decision (ct_decision t) = Inr (ct_decision t)
     \<and> new_command_envelope (ct_envelope t) = Inr (ct_envelope t)
     \<and> list_all (\<lambda>i. new_effect_intent i = Inr i) (ct_effect_intents t)"
| "admitted_op P (AttemptOp a now) \<longleftrightarrow> new_effect_attempt_event P a = Inr a"
| "admitted_op P (ReceiptOp r token now) \<longleftrightarrow> new_effect_receipt r = Inr r"
| "admitted_op P (PolicyOp p) \<longleftrightarrow> new_policy_state p = Inr p"
| "admitted_op P _ \<longleftrightarrow> True"

lemma reply_simps [simp]:
  "snd (reply f o1) = snd o1" "fst (reply f o1) = Inl e \<longleftrightarrow> fst o1 = Inl e"
  "fst (reply f o1) = Inr x \<longleftrightarrow> (\<exists>y. fst o1 = Inr y \<and> x = f y)"
  by (cases "fst o1"; auto simp: reply_def)+

section \<open>The step relation\<close>

text \<open>Who may extend a claim, and with which token.\<close>

definition claim_follows :: "register \<Rightarrow> effect_claim \<Rightarrow> bool" where
  "claim_follows R c \<longleftrightarrow> (case map_of (reg_claims R) (cl_effect_intent_id c) of
     None \<Rightarrow> cl_fencing_token c = 1 \<and> cl_generation c = 1
   | Some d \<Rightarrow> cl_fencing_token c = cl_fencing_token d + 1 \<and> cl_generation c = cl_generation d + 1)"

definition current_version :: "register \<Rightarrow> string \<Rightarrow> int" where
  "current_version R a = (case map_of (reg_aggregate_versions R) a of None \<Rightarrow> 0 | Some v \<Rightarrow> v)"

definition version_expected :: "register \<Rightarrow> command_envelope \<Rightarrow> bool" where
  "version_expected R e \<longleftrightarrow>
     map_of (reg_aggregate_versions R) (ref_id (env_target_ref e))
       = (case env_expected_version e of ABSENT \<Rightarrow> None | Version v \<Rightarrow> Some v)"

text \<open>What a recorded submission says of its transaction.\<close>

definition records :: "command_transaction \<Rightarrow> command_submission \<Rightarrow> bool" where
  "records t s \<longleftrightarrow> sub_resolution s = Sub_RESULT_RECORDED
     \<and> sub_result_bytes s = result_bytes (sub_result s)
     \<and> new_command_result (sub_result s) = Inr (sub_result s)
     \<and> ref_id (cr_command_ref (sub_result s)) = env_command_id (ct_envelope t)
     \<and> ref_fingerprint (cr_command_ref (sub_result s)) = ct_command_fingerprint t
     \<and> cr_evidence_refs (sub_result s) = ct_evidence_refs t"

definition store_command ::
    "platform \<Rightarrow> command_transaction \<Rightarrow> command_submission \<Rightarrow> register \<Rightarrow> register" where
  "store_command P t s R =
     rebuilt P (R\<lparr>reg_commands := AList.update (env_command_id (ct_envelope t)) (t, s) (reg_commands R)\<rparr>)"

inductive register_step :: "platform \<Rightarrow> register \<Rightarrow> register \<Rightarrow> bool" for P R where
  unchanged: "register_step P R R"
| policy: "register_step P R (R\<lparr>reg_policies := reg_policies R @ [p]\<rparr>)"
| rebuild: "register_step P R (rebuilt P R)"
| claim: "map_of (reg_intents R) (cl_effect_intent_id c) = Some i
    \<Longrightarrow> map_of (reg_receipts R) (cl_effect_intent_id c) = None
    \<Longrightarrow> new_effect_claim P c = Inr c \<Longrightarrow> claim_follows R c
    \<Longrightarrow> register_step P R (R\<lparr>reg_claims := AList.update (cl_effect_intent_id c) c (reg_claims R)\<rparr>)"
| renewal: "map_of (reg_claims R) (cl_effect_intent_id c) = Some d
    \<Longrightarrow> cl_fencing_token c = cl_fencing_token d \<Longrightarrow> cl_generation c = cl_generation d
    \<Longrightarrow> cl_claimant_id c = cl_claimant_id d \<Longrightarrow> new_effect_claim P c = Inr c
    \<Longrightarrow> register_step P R (R\<lparr>reg_claims := AList.update (cl_effect_intent_id c) c (reg_claims R)\<rparr>)"
| attempt: "map_of (reg_claims R) (at_effect_intent_id a) = Some c
    \<Longrightarrow> at_fencing_token a = cl_fencing_token c
    \<Longrightarrow> map_of (reg_intents R) (at_effect_intent_id a) = Some i
    \<Longrightarrow> at_attempt_number a = int (attempt_count R (at_effect_intent_id a)) + 1
    \<Longrightarrow> at_attempt_number a \<le> ei_attempt_ceiling i
    \<Longrightarrow> register_step P R (R\<lparr>reg_attempts := reg_attempts R @ [a]\<rparr>)"
| receipt: "map_of (reg_receipts R) (ref_id (er_effect_intent_ref r)) = None
    \<Longrightarrow> map_of (reg_intents R) (ref_id (er_effect_intent_ref r)) = Some i
    \<Longrightarrow> er_command_ref r = ei_command_ref i
    \<Longrightarrow> er_execution_lineage_ref r = ei_execution_lineage_ref i
    \<Longrightarrow> er_attempt_count r = int (attempt_count R (ref_id (er_effect_intent_ref r)))
    \<Longrightarrow> register_step P R
          (R\<lparr>reg_receipts := AList.update (ref_id (er_effect_intent_ref r)) r (reg_receipts R)\<rparr>)"
| rejected: "map_of (reg_commands R) (env_command_id (ct_envelope t)) = None
    \<Longrightarrow> records t s \<Longrightarrow> cr_result_code (sub_result s) \<noteq> Cmd_APPLIED
    \<Longrightarrow> register_step P R (store_command P t s R)"
| applied: "map_of (reg_commands R) (env_command_id (ct_envelope t)) = None
    \<Longrightarrow> records t s \<Longrightarrow> cr_result_code (sub_result s) = Cmd_APPLIED
    \<Longrightarrow> cr_authoritative_version (sub_result s) = Version (re_new_version e)
    \<Longrightarrow> cr_event_refs (sub_result s) = [re_event_ref e]
    \<Longrightarrow> version_expected R (ct_envelope t)
    \<Longrightarrow> re_command_id e = env_command_id (ct_envelope t)
    \<Longrightarrow> re_aggregate_ref e = env_target_ref (ct_envelope t)
    \<Longrightarrow> re_prior_version e = current_version R (ref_id (env_target_ref (ct_envelope t)))
    \<Longrightarrow> re_new_version e = re_prior_version e + 1
    \<Longrightarrow> ref_id (re_event_ref e) = issued_id ''evt'' (length (reg_events R) + 1)
    \<Longrightarrow> (\<forall>k. gd_winner_key (ct_decision t) = Some k \<longrightarrow> map_of (reg_winners R) k = None)
    \<Longrightarrow> (\<forall>i \<in> set (ct_effect_intents t). map_of (reg_intents R) (ei_effect_intent_id i) = None
          \<and> ref_id (ei_command_ref i) = env_command_id (ct_envelope t))
    \<Longrightarrow> distinct (map ei_effect_intent_id (ct_effect_intents t))
    \<Longrightarrow> register_step P R (store_command P t s (append_event_facts t e R))"

inductive_cases register_stepE [consumes 1]: "register_step P R R'"

section \<open>Every operation refines the step relation\<close>

lemma new_immutable_reference_Inr:
  "new_immutable_reference r = Inr r' \<Longrightarrow> r' = r"
  by (simp add: new_immutable_reference_def)

lemma new_event_Inr:
  assumes "new_event P R t prior new now = Inr e"
  shows "re_command_id e = env_command_id (ct_envelope t)"
    "re_aggregate_ref e = env_target_ref (ct_envelope t)" "re_prior_version e = prior"
    "re_new_version e = new" "re_recorded_at e = now"
    "ref_id (re_event_ref e) = issued_id ''evt'' (length (reg_events R) + 1)"
  using assms
  by (auto simp: new_event_def Let_def new_register_event_def dest!: new_immutable_reference_Inr)

lemma effective_result_code_Inr:
  assumes "effective_result_code P R t instant = Inr Cmd_APPLIED"
  shows "version_expected R (ct_envelope t)"
    "\<forall>k. gd_winner_key (ct_decision t) = Some k \<longrightarrow> map_of (reg_winners R) k = None"
    "gd_result_code (ct_decision t) = Cmd_APPLIED"
    "\<exists>u. parse_utc P (env_expires_at (ct_envelope t)) = Inr u \<and> instant < u"
  using assms
  by (auto simp: effective_result_code_def version_expected_def Let_def
      split: sum.splits if_splits option.splits expected_version.splits)

lemma plan_facts_Inr:
  assumes "plan_facts P R t code now = Inr (event, refs, version)"
  shows "code \<noteq> Cmd_APPLIED \<Longrightarrow> event = None"
    and "code = Cmd_APPLIED \<Longrightarrow> \<exists>e. event = Some e \<and> version = Version (re_new_version e)
      \<and> new_event P R t (current_version R (ref_id (env_target_ref (ct_envelope t))))
          (current_version R (ref_id (env_target_ref (ct_envelope t))) + 1) now = Inr e
      \<and> (\<forall>i \<in> set (ct_effect_intents t). map_of (reg_intents R) (ei_effect_intent_id i) = None)"
proof -
  show "code \<noteq> Cmd_APPLIED \<Longrightarrow> event = None"
    using assms by (auto simp: plan_facts_def Let_def split: if_splits)
  assume "code = Cmd_APPLIED"
  with assms show "\<exists>e. event = Some e \<and> version = Version (re_new_version e)
      \<and> new_event P R t (current_version R (ref_id (env_target_ref (ct_envelope t))))
          (current_version R (ref_id (env_target_ref (ct_envelope t))) + 1) now = Inr e
      \<and> (\<forall>i \<in> set (ct_effect_intents t). map_of (reg_intents R) (ei_effect_intent_id i) = None)"
    by (auto simp: plan_facts_def Let_def current_version_def list_ex_iff new_event_Inr(4)
        split: if_splits)
qed

lemma plan_result_Inr:
  assumes "plan_result R t code now (event, refs, version) = Inr r"
  shows "new_command_result r = Inr r" "cr_result_code r = code"
    "cr_authoritative_version r = version" "cr_recorded_at r = now"
    "cr_event_refs r = (case event of None \<Rightarrow> [] | Some e \<Rightarrow> [re_event_ref e])"
    "cr_effect_intent_refs r = refs"
    "ref_id (cr_command_ref r) = env_command_id (ct_envelope t)"
    "ref_fingerprint (cr_command_ref r) = ct_command_fingerprint t"
    "cr_evidence_refs r = ct_evidence_refs t"
proof -
  from assms obtain c where c: "new_immutable_reference
      \<lparr>ref_type = Ref_COMMAND, ref_id = env_command_id (ct_envelope t),
       ref_fingerprint = ct_command_fingerprint t\<rparr> = Inr c" and
    n: "new_command_result
         \<lparr>cr_command_result_id = issued_id ''cmr'' (length (reg_commands R) + 1),
          cr_command_ref = c, cr_recorded_at = now, cr_result_code = code,
          cr_authoritative_version = version,
          cr_event_refs = (case event of None \<Rightarrow> [] | Some e \<Rightarrow> [re_event_ref e]),
          cr_effect_intent_refs = refs, cr_evidence_refs = ct_evidence_refs t\<rparr> = Inr r"
    by (auto simp: plan_result_def)
  note r = new_command_result_Inr(1) [OF n]
  from c have "c = \<lparr>ref_type = Ref_COMMAND, ref_id = env_command_id (ct_envelope t),
       ref_fingerprint = ct_command_fingerprint t\<rparr>" by (rule new_immutable_reference_Inr)
  with n r show "new_command_result r = Inr r" "cr_result_code r = code"
    "cr_authoritative_version r = version" "cr_recorded_at r = now"
    "cr_event_refs r = (case event of None \<Rightarrow> [] | Some e \<Rightarrow> [re_event_ref e])"
    "cr_effect_intent_refs r = refs"
    "ref_id (cr_command_ref r) = env_command_id (ct_envelope t)"
    "ref_fingerprint (cr_command_ref r) = ct_command_fingerprint t"
    "cr_evidence_refs r = ct_evidence_refs t" by simp_all
qed

text \<open>The one way a submission is recorded.\<close>

lemma submit_command_cases:
  obtains (same) e where "submit_command P t now R = (Inl e, R)"
  | (replay) t0 s where "map_of (reg_commands R) (env_command_id (ct_envelope t)) = Some (t0, s)"
      "ct_command_fingerprint t0 = ct_command_fingerprint t"
      "submit_command P t now R = (replay_submission s, R)"
  | (recorded) instant code event refs version r s where
      "parse_utc P now = Inr instant"
      "map_of (reg_commands R) (env_command_id (ct_envelope t)) = None"
      "effective_result_code P R t instant = Inr code"
      "plan_facts P R t code now = Inr (event, refs, version)"
      "plan_result R t code now (event, refs, version) = Inr r"
      "s = \<lparr>sub_resolution = Sub_RESULT_RECORDED, sub_result = r, sub_result_bytes = result_bytes r\<rparr>"
      "submit_command P t now R = (Inr s, commit_submission P t event s R)"
proof (cases "parse_utc P now")
  case (Inl e)
  then show ?thesis by (intro same [of e]) (simp add: submit_command_def)
next
  case now: (Inr instant)
  show ?thesis
  proof (cases "map_of (reg_commands R) (env_command_id (ct_envelope t))")
    case (Some ts)
    obtain t0 s where ts: "ts = (t0, s)" by fastforce
    show ?thesis
    proof (cases "ct_command_fingerprint t0 = ct_command_fingerprint t")
      case True
      with now Some ts show ?thesis by (intro replay [of t0 s]) (simp_all add: submit_command_def)
    next
      case False
      with now Some ts show ?thesis by (intro same) (simp add: submit_command_def)
    qed
  next
    case None
    let ?plan = "and_then (effective_result_code P R t instant) (\<lambda>result_code.
                     and_then (plan_facts P R t result_code now) (\<lambda>facts.
                       and_then (plan_result R t result_code now facts) (\<lambda>result.
                         and_then (new_command_submission
                             \<lparr>sub_resolution = Sub_RESULT_RECORDED, sub_result = result,
                              sub_result_bytes = result_bytes result\<rparr>) (\<lambda>submission.
                           Inr (fst facts, submission)))))"
    show ?thesis
    proof (cases ?plan)
      case (Inl e)
      with now None show ?thesis by (intro same [of e]) (simp add: submit_command_def)
    next
      case (Inr es)
      obtain event s where es: "es = (event, s)" by fastforce
      from Inr es obtain code refs version r where
        "effective_result_code P R t instant = Inr code"
        "plan_facts P R t code now = Inr (event, refs, version)"
        "plan_result R t code now (event, refs, version) = Inr r"
        "s = \<lparr>sub_resolution = Sub_RESULT_RECORDED, sub_result = r, sub_result_bytes = result_bytes r\<rparr>"
        by auto
      moreover have "submit_command P t now R = (Inr s, commit_submission P t event s R)"
        using now None Inr es by (simp add: submit_command_def del: and_then_Inr)
      ultimately show ?thesis using now None by (intro recorded)
    qed
  qed
qed

lemma submit_command_step:
  assumes "admitted_op P (SubmitOp t now)"
  shows "register_step P R (snd (submit_command P t now R))"
proof (cases rule: submit_command_cases [of P t now R])
  case (same e)
  then show ?thesis by (simp add: register_step.unchanged)
next
  case (replay t0 s)
  then show ?thesis by (simp add: register_step.unchanged)
next
  case (recorded instant code event refs version r s)
  note result = plan_result_Inr [OF recorded(5)]
  have rec: "records t s" using result by (simp add: records_def recorded(6))
  show ?thesis
  proof (cases "code = Cmd_APPLIED")
    case False
    with plan_facts_Inr(1) [OF recorded(4)] have "event = None" by blast
    with recorded(7) have "snd (submit_command P t now R) = store_command P t s R"
      by (simp add: commit_submission_def store_command_def)
    moreover have "cr_result_code (sub_result s) \<noteq> Cmd_APPLIED"
      using False result(2) by (simp add: recorded(6))
    ultimately show ?thesis using recorded(2) rec by (simp add: register_step.rejected)
  next
    case True
    from plan_facts_Inr(2) [OF recorded(4) True] obtain e where
      e: "event = Some e" "version = Version (re_new_version e)" and
      ne: "new_event P R t (current_version R (ref_id (env_target_ref (ct_envelope t))))
          (current_version R (ref_id (env_target_ref (ct_envelope t))) + 1) now = Inr e" and
      fresh: "\<forall>i \<in> set (ct_effect_intents t). map_of (reg_intents R) (ei_effect_intent_id i) = None"
      by blast
    note ev = new_event_Inr [OF ne]
    note guards = effective_result_code_Inr [OF recorded(3) [unfolded True]]
    from assms have tx: "new_command_transaction P t = Inr t" by simp
    note tx = new_command_transaction_Inr(4,5) [OF tx]
    have "snd (submit_command P t now R) = store_command P t s (append_event_facts t e R)"
      using recorded(7) e by (simp add: commit_submission_def store_command_def Let_def)
    moreover have "register_step P R (store_command P t s (append_event_facts t e R))"
      using recorded(2) rec ev guards fresh tx result e True
      by (intro register_step.applied) (simp_all add: recorded(6))
    ultimately show ?thesis by simp
  qed
qed

lemma resolve_command_step: "snd (resolve_command i fp R) = R"
  by (simp add: resolve_command_def split: option.splits)

lemma leased_claim_Inr:
  assumes "leased_claim P k who g n now instant secs = Inr c"
  shows "cl_effect_intent_id c = k" "cl_claimant_id c = who" "cl_generation c = g"
    "cl_fencing_token c = n" "new_effect_claim P c = Inr c"
  using assms by (auto simp: leased_claim_def dest: new_effect_claim_Inr(1))

lemma claim_effect_cases:
  obtains (same) r where "claim_effect P k app who now secs R = (r, R)"
  | (claimed) c i where "claim_effect P k app who now secs R
        = (Inr c, R\<lparr>reg_claims := AList.update k c (reg_claims R)\<rparr>)"
      "cl_effect_intent_id c = k" "map_of (reg_intents R) k = Some i"
      "map_of (reg_receipts R) k = None"
      "new_effect_claim P c = Inr c" "claim_follows R c"
proof (cases "\<exists>c. select_claim P k app who now secs R = Inr (c, True)")
  case True
  then obtain c where c: "select_claim P k app who now secs R = Inr (c, True)" by blast
  then obtain i g n instant where i: "map_of (reg_intents R) k = Some i"
      "map_of (reg_receipts R) k = None" and
    l: "leased_claim P k who g n now instant secs = Inr c" and
    gn: "case map_of (reg_claims R) k of None \<Rightarrow> g = 1 \<and> n = 1
       | Some d \<Rightarrow> g = cl_generation d + 1 \<and> n = cl_fencing_token d + 1"
    by (auto simp: select_claim_def split: option.splits if_splits)
  have "claim_effect P k app who now secs R
        = (Inr c, R\<lparr>reg_claims := AList.update k c (reg_claims R)\<rparr>)"
    using c by (simp add: claim_effect_def)
  moreover have "claim_follows R c"
    using leased_claim_Inr [OF l] gn by (auto simp: claim_follows_def split: option.splits)
  ultimately show ?thesis using leased_claim_Inr [OF l] i by (intro claimed)
next
  case False
  then have "snd (claim_effect P k app who now secs R) = R"
    by (auto simp: claim_effect_def split: sum.splits prod.splits)
  then show ?thesis
    by (intro same [of "fst (claim_effect P k app who now secs R)"]) (simp add: prod_eq_iff)
qed

lemma claim_effect_step: "register_step P R (snd (claim_effect P k app who now secs R))"
proof (cases rule: claim_effect_cases [of P k app who now secs R])
  case (same r)
  then show ?thesis by (simp add: register_step.unchanged)
next
  case (claimed c i)
  then show ?thesis using register_step.claim [of R c i P] by simp
qed

lemma live_claim_Inr:
  assumes "live_claim P R k who token instant = Inr c"
  shows "map_of (reg_claims R) k = Some c" "cl_claimant_id c = who" "cl_fencing_token c = token"
    "\<exists>u. parse_utc P (cl_expires_at c) = Inr u \<and> instant < u"
  using assms by (auto simp: live_claim_def split: option.splits if_splits)

lemma renew_effect_claim_step: "register_step P R (snd (renew_effect_claim P k who token now secs R))"
proof (cases "fst (renew_effect_claim P k who token now secs R)")
  case (Inl e)
  then have "snd (renew_effect_claim P k who token now secs R) = R"
    by (auto simp: renew_effect_claim_def split: sum.splits)
  then show ?thesis by (simp add: register_step.unchanged)
next
  case (Inr c)
  then obtain instant d where d: "live_claim P R k who token instant = Inr d" and
    l: "leased_claim P k who (cl_generation d) (cl_fencing_token d) now instant secs = Inr c"
    by (auto simp: renew_effect_claim_def split: sum.splits option.splits)
  have "snd (renew_effect_claim P k who token now secs R)
      = R\<lparr>reg_claims := AList.update k c (reg_claims R)\<rparr>"
    using Inr by (auto simp: renew_effect_claim_def split: sum.splits)
  then show ?thesis
    using register_step.renewal [of R c d P] live_claim_Inr [OF d] leased_claim_Inr [OF l] by simp
qed

lemma attempt_guard_Inr:
  assumes "attempt_guard P R a now = Inr u"
  obtains c i instant where
    "live_claim P R (at_effect_intent_id a) (cl_claimant_id c) (at_fencing_token a) instant = Inr c"
    "parse_utc P now = Inr instant" "at_recorded_at a = now"
    "map_of (reg_intents R) (at_effect_intent_id a) = Some i"
    "at_attempt_number a = int (attempt_count R (at_effect_intent_id a)) + 1"
    "at_attempt_number a \<le> ei_attempt_ceiling i"
proof -
  from assms obtain c i instant d where
    live: "map_of (reg_claims R) (at_effect_intent_id a) = Some c"
      "live_claim P R (at_effect_intent_id a) (cl_claimant_id c) (at_fencing_token a) instant = Inr d" and
    rest: "parse_utc P now = Inr instant" "at_recorded_at a = now"
    "map_of (reg_intents R) (at_effect_intent_id a) = Some i"
    "at_attempt_number a = int (attempt_count R (at_effect_intent_id a)) + 1"
    "at_attempt_number a \<le> ei_attempt_ceiling i"
    by (auto simp: attempt_guard_def Let_def split: option.splits if_splits)
  from live live_claim_Inr(1) [OF live(2)] have "d = c" by simp
  with that live rest show ?thesis by blast
qed

lemma append_effect_attempt_step: "register_step P R (snd (append_effect_attempt P a now R))"
proof (cases "attempt_guard P R a now")
  case (Inl e)
  then show ?thesis by (simp add: append_effect_attempt_def register_step.unchanged)
next
  case (Inr u)
  then obtain c i instant where
    l: "live_claim P R (at_effect_intent_id a) (cl_claimant_id c) (at_fencing_token a) instant = Inr c" and
    i: "map_of (reg_intents R) (at_effect_intent_id a) = Some i"
    "at_attempt_number a = int (attempt_count R (at_effect_intent_id a)) + 1"
    "at_attempt_number a \<le> ei_attempt_ceiling i"
    by (rule attempt_guard_Inr)
  show ?thesis
    using register_step.attempt [of R a c i P] live_claim_Inr [OF l] i Inr
    by (simp add: append_effect_attempt_def)
qed

lemma receipt_guard_Inr:
  assumes "receipt_guard P R r i token instant = Inr u"
  shows "er_command_ref r = ei_command_ref i"
    "er_execution_lineage_ref r = ei_execution_lineage_ref i"
    "er_attempt_count r = int (attempt_count R (ref_id (er_effect_intent_ref r)))"
  using assms by (auto simp: receipt_guard_def Let_def split: if_splits)

lemma record_effect_receipt_cases:
  obtains (failed) e where "record_effect_receipt P r token now R = (Inl e, R)"
  | (replay) "record_effect_receipt P r token now R = (Inr r, R)"
      "map_of (reg_receipts R) (ref_id (er_effect_intent_ref r)) = Some r"
  | (recorded) i instant where "record_effect_receipt P r token now R
        = (Inr r, R\<lparr>reg_receipts := AList.update (ref_id (er_effect_intent_ref r)) r (reg_receipts R)\<rparr>)"
      "map_of (reg_receipts R) (ref_id (er_effect_intent_ref r)) = None"
      "map_of (reg_intents R) (ref_id (er_effect_intent_ref r)) = Some i"
      "parse_utc P now = Inr instant" "receipt_guard P R r i token instant = Inr ()"
proof (cases "parse_utc P now")
  case (Inl e)
  then show ?thesis by (intro failed [of e]) (simp add: record_effect_receipt_def)
next
  case now: (Inr instant)
  let ?k = "ref_id (er_effect_intent_ref r)"
  consider (old) x where "map_of (reg_receipts R) ?k = Some x"
    | (unknown) "map_of (reg_receipts R) ?k = None" "map_of (reg_intents R) ?k = None"
    | (fresh) i where "map_of (reg_receipts R) ?k = None" "map_of (reg_intents R) ?k = Some i"
    by blast
  then show ?thesis
  proof cases
    case old
    then show ?thesis
      using now by (cases "x = r") (auto intro: failed replay simp: record_effect_receipt_def Let_def)
  next
    case unknown
    then show ?thesis using now by (intro failed) (simp add: record_effect_receipt_def Let_def)
  next
    case fresh
    then show ?thesis
    proof (cases "receipt_guard P R r i token instant")
      case (Inl e)
      with fresh now show ?thesis by (intro failed [of e]) (simp add: record_effect_receipt_def Let_def)
    next
      case (Inr u)
      with fresh now show ?thesis
        by (intro recorded [of i instant]) (simp_all add: record_effect_receipt_def Let_def)
    qed
  qed
qed

lemma record_effect_receipt_step: "register_step P R (snd (record_effect_receipt P r token now R))"
proof (cases rule: record_effect_receipt_cases [of P r token now R])
  case (recorded i instant)
  then show ?thesis
    using register_step.receipt [of R r i P] receipt_guard_Inr [OF recorded(5)] by simp
qed (simp_all add: register_step.unchanged)

lemma perform_refines_step:
  assumes "admitted_op P op"
  shows "register_step P R (snd (perform P op R))"
proof (cases op)
  case (SubmitOp t now)
  with assms submit_command_step [of P t now R] show ?thesis by simp
qed (simp_all add: resolve_command_step claim_effect_step renew_effect_claim_step
    append_effect_attempt_step record_effect_receipt_step set_policy_state_def
    rebuild_projections_def register_step.intros)

end
