(* ===== verification/RegisterInvariant.thy ===== *)
theory RegisterInvariant
  imports RegisterSteps
begin

text \<open>
  The well-formedness invariant of the Management Register, that every step keeps it, and what no
  step undoes. The register is then an interpretation of the store contracts, so the properties
  at the end hold for every history of admitted operations.
\<close>

section \<open>The invariant\<close>

definition aggregate_events :: "register \<Rightarrow> string \<Rightarrow> register_event list" where
  "aggregate_events R a = filter (\<lambda>e. ref_id (re_aggregate_ref e) = a) (reg_events R)"

definition intent_attempts :: "register \<Rightarrow> string \<Rightarrow> effect_attempt_event list" where
  "intent_attempts R k = filter (\<lambda>a. at_effect_intent_id a = k) (reg_attempts R)"

text \<open>The versions of an aggregate are 1, 2, 3, ... without gap, and the last is the current one.\<close>

definition versions_ok :: "register \<Rightarrow> bool" where
  "versions_ok R \<longleftrightarrow> (\<forall>a. let evs = aggregate_events R a in
     map re_new_version evs = map int [1..<Suc (length evs)]
     \<and> map re_prior_version evs = map int [0..<length evs]
     \<and> map_of (reg_aggregate_versions R) a = (if evs = [] then None else Some (int (length evs))))"

definition commands_ok :: "register \<Rightarrow> bool" where
  "commands_ok R \<longleftrightarrow> (\<forall>i t s. map_of (reg_commands R) i = Some (t, s)
     \<longrightarrow> env_command_id (ct_envelope t) = i \<and> records t s)"

definition applied_command :: "register \<Rightarrow> string \<Rightarrow> command_transaction \<Rightarrow> bool" where
  "applied_command R i t \<longleftrightarrow> (\<exists>s. map_of (reg_commands R) i = Some (t, s)
     \<and> cr_result_code (sub_result s) = Cmd_APPLIED)"

text \<open>Every intent belongs to the applied command that planned it.\<close>

definition intents_ok :: "register \<Rightarrow> bool" where
  "intents_ok R \<longleftrightarrow> (\<forall>k i. map_of (reg_intents R) k = Some i \<longrightarrow> ei_effect_intent_id i = k
     \<and> (\<exists>t. applied_command R (ref_id (ei_command_ref i)) t \<and> i \<in> set (ct_effect_intents t)))"

definition winners_ok :: "register \<Rightarrow> bool" where
  "winners_ok R \<longleftrightarrow> (\<forall>k c. map_of (reg_winners R) k = Some c \<longleftrightarrow>
     (\<exists>t. applied_command R c t \<and> gd_winner_key (ct_decision t) = Some k))"

definition projections_ok :: "platform \<Rightarrow> register \<Rightarrow> bool" where
  "projections_ok P R \<longleftrightarrow> reg_projections R = project_events P (reg_events R)"

definition claims_ok :: "register \<Rightarrow> bool" where
  "claims_ok R \<longleftrightarrow> (\<forall>k c. map_of (reg_claims R) k = Some c \<longrightarrow> cl_effect_intent_id c = k
     \<and> 1 \<le> cl_fencing_token c \<and> map_of (reg_intents R) k \<noteq> None)"

text \<open>
  The attempts of an intent are numbered 1, 2, 3, ... up to at most its ceiling, under fencing
  tokens that never decrease and never exceed the current claim's.
\<close>

definition attempts_ok :: "register \<Rightarrow> bool" where
  "attempts_ok R \<longleftrightarrow> (\<forall>k. let as = intent_attempts R k in
     map at_attempt_number as = map int [1..<Suc (length as)]
     \<and> sorted (map at_fencing_token as)
     \<and> (as \<noteq> [] \<longrightarrow> (\<exists>c i. map_of (reg_claims R) k = Some c \<and> map_of (reg_intents R) k = Some i
           \<and> (\<forall>a \<in> set as. at_fencing_token a \<le> cl_fencing_token c)
           \<and> int (length as) \<le> ei_attempt_ceiling i)))"

definition receipts_ok :: "register \<Rightarrow> bool" where
  "receipts_ok R \<longleftrightarrow> (\<forall>k r. map_of (reg_receipts R) k = Some r \<longrightarrow> ref_id (er_effect_intent_ref r) = k
     \<and> (\<exists>i. map_of (reg_intents R) k = Some i \<and> er_command_ref r = ei_command_ref i
          \<and> er_execution_lineage_ref r = ei_execution_lineage_ref i))"

definition keys_ok :: "register \<Rightarrow> bool" where
  "keys_ok R \<longleftrightarrow> distinct (map fst (reg_commands R)) \<and> distinct (map fst (reg_intents R))
     \<and> distinct (map fst (reg_claims R)) \<and> distinct (map fst (reg_receipts R))
     \<and> distinct (map fst (reg_aggregate_versions R)) \<and> distinct (map fst (reg_winners R))"

definition register_inv :: "platform \<Rightarrow> register \<Rightarrow> bool" where
  "register_inv P R \<longleftrightarrow> keys_ok R \<and> versions_ok R \<and> commands_ok R \<and> intents_ok R \<and> winners_ok R
     \<and> projections_ok P R \<and> claims_ok R \<and> attempts_ok R \<and> receipts_ok R"

lemma register_invD:
  assumes "register_inv P R"
  shows "keys_ok R" "versions_ok R" "commands_ok R" "intents_ok R" "winners_ok R"
    "projections_ok P R" "claims_ok R" "attempts_ok R" "receipts_ok R"
  using assms by (simp_all add: register_inv_def)

section \<open>Every step keeps it\<close>

lemma rebuilt_fields [simp]:
  "reg_commands (rebuilt P R) = reg_commands R" "reg_events (rebuilt P R) = reg_events R"
  "reg_intents (rebuilt P R) = reg_intents R" "reg_claims (rebuilt P R) = reg_claims R"
  "reg_attempts (rebuilt P R) = reg_attempts R" "reg_receipts (rebuilt P R) = reg_receipts R"
  "reg_policies (rebuilt P R) = reg_policies R"
  "reg_aggregate_versions (rebuilt P R) = reg_aggregate_versions R"
  "reg_winners (rebuilt P R) = reg_winners R"
  "reg_projections (rebuilt P R) = project_events P (reg_events R)"
  by (simp_all add: rebuilt_def)

lemma store_command_fields [simp]:
  "reg_commands (store_command P t s R)
     = AList.update (env_command_id (ct_envelope t)) (t, s) (reg_commands R)"
  "reg_events (store_command P t s R) = reg_events R"
  "reg_intents (store_command P t s R) = reg_intents R"
  "reg_claims (store_command P t s R) = reg_claims R"
  "reg_attempts (store_command P t s R) = reg_attempts R"
  "reg_receipts (store_command P t s R) = reg_receipts R"
  "reg_aggregate_versions (store_command P t s R) = reg_aggregate_versions R"
  "reg_winners (store_command P t s R) = reg_winners R"
  "reg_projections (store_command P t s R) = project_events P (reg_events R)"
  by (simp_all add: store_command_def)

lemma append_event_facts_fields [simp]:
  "reg_commands (append_event_facts t e R) = reg_commands R"
  "reg_events (append_event_facts t e R) = reg_events R @ [e]"
  "reg_intents (append_event_facts t e R)
     = foldl (\<lambda>m i. AList.update (ei_effect_intent_id i) i m) (reg_intents R) (ct_effect_intents t)"
  "reg_claims (append_event_facts t e R) = reg_claims R"
  "reg_attempts (append_event_facts t e R) = reg_attempts R"
  "reg_receipts (append_event_facts t e R) = reg_receipts R"
  "reg_aggregate_versions (append_event_facts t e R) = AList.update
     (ref_id (env_target_ref (ct_envelope t))) (re_new_version e) (reg_aggregate_versions R)"
  "reg_winners (append_event_facts t e R) = (case gd_winner_key (ct_decision t) of
     None \<Rightarrow> reg_winners R | Some k \<Rightarrow> AList.update k (env_command_id (ct_envelope t)) (reg_winners R))"
  by (simp_all add: append_event_facts_def)

lemma keys_step: "register_step P R R' \<Longrightarrow> keys_ok R \<Longrightarrow> keys_ok R'"
  by (erule register_stepE) (auto simp: keys_ok_def split: option.splits)

lemma projections_step: "register_step P R R' \<Longrightarrow> projections_ok P R \<Longrightarrow> projections_ok P R'"
  by (erule register_stepE) (auto simp: projections_ok_def)

lemma commands_step: "register_step P R R' \<Longrightarrow> commands_ok R \<Longrightarrow> commands_ok R'"
  by (erule register_stepE) (auto simp: commands_ok_def)

text \<open>What is never undone: recorded commands, events, intents, receipts; tokens only grow.\<close>

lemma step_keeps_command:
  "register_step P R R' \<Longrightarrow> map_of (reg_commands R) i = Some x \<Longrightarrow> map_of (reg_commands R') i = Some x"
  by (erule register_stepE) auto

lemma step_keeps_intent:
  "register_step P R R' \<Longrightarrow> map_of (reg_intents R) k = Some i \<Longrightarrow> map_of (reg_intents R') k = Some i"
  by (erule register_stepE) (auto intro: foldl_update_other [THEN trans])

lemma step_keeps_receipt:
  "register_step P R R' \<Longrightarrow> map_of (reg_receipts R) k = Some r \<Longrightarrow> map_of (reg_receipts R') k = Some r"
  by (erule register_stepE) auto

lemma step_appends_events: "register_step P R R' \<Longrightarrow> \<exists>es. reg_events R' = reg_events R @ es"
  by (erule register_stepE) auto

lemma step_appends_attempts: "register_step P R R' \<Longrightarrow> \<exists>es. reg_attempts R' = reg_attempts R @ es"
  by (erule register_stepE) auto

lemma step_token_grows:
  assumes "register_step P R R'" and "map_of (reg_claims R) k = Some c"
  shows "\<exists>d. map_of (reg_claims R') k = Some d \<and> cl_fencing_token c \<le> cl_fencing_token d"
  using assms by cases (auto simp: claim_follows_def)

lemma applied_command_step:
  "register_step P R R' \<Longrightarrow> applied_command R i t \<Longrightarrow> applied_command R' i t"
  unfolding applied_command_def using step_keeps_command by blast

lemma versions_step:
  assumes "register_step P R R'" and "versions_ok R"
  shows "versions_ok R'"
  using assms(1)
proof cases
  case (applied t s e)
  let ?a = "ref_id (env_target_ref (ct_envelope t))"
  have v: "map re_new_version (aggregate_events R b) = map int [1..<Suc (length (aggregate_events R b))]"
    "map re_prior_version (aggregate_events R b) = map int [0..<length (aggregate_events R b)]"
    "map_of (reg_aggregate_versions R) b = (if aggregate_events R b = [] then None
       else Some (int (length (aggregate_events R b))))" for b
    using assms(2) by (simp_all add: versions_ok_def Let_def)
  have cur: "current_version R ?a = int (length (aggregate_events R ?a))"
    by (simp add: current_version_def v(3))
  have evs: "aggregate_events R' b = (if b = ?a then aggregate_events R b @ [e] else aggregate_events R b)" for b
    using applied(1,9) by (simp add: aggregate_events_def)
  show ?thesis
    unfolding versions_ok_def
  proof
    fix b
    show "let evs = aggregate_events R' b in
     map re_new_version evs = map int [1..<Suc (length evs)]
     \<and> map re_prior_version evs = map int [0..<length evs]
     \<and> map_of (reg_aggregate_versions R') b = (if evs = [] then None else Some (int (length evs)))"
      using applied(1,10,11) cur v [of b] evs [of b] by (auto simp: Let_def)
  qed
qed (use assms(2) in \<open>auto simp: versions_ok_def aggregate_events_def\<close>)

lemma intents_step:
  assumes "register_step P R R'" and "intents_ok R"
  shows "intents_ok R'"
proof -
  have old: "ei_effect_intent_id i = k
     \<and> (\<exists>t. applied_command R' (ref_id (ei_command_ref i)) t \<and> i \<in> set (ct_effect_intents t))"
    if "map_of (reg_intents R) k = Some i" for k i
    using assms(2) that applied_command_step [OF assms(1)] unfolding intents_ok_def by blast
  from assms(1) show ?thesis
  proof cases
    case (applied t s e)
    have "ei_effect_intent_id i = k
     \<and> (\<exists>t. applied_command R' (ref_id (ei_command_ref i)) t \<and> i \<in> set (ct_effect_intents t))"
      if "map_of (reg_intents R') k = Some i" for k i
    proof -
      from that applied(1) have "map_of (reg_intents R) k = Some i
          \<or> (i \<in> set (ct_effect_intents t) \<and> ei_effect_intent_id i = k)"
        by (auto dest: foldl_update_SomeD)
      then show ?thesis
      proof
        assume i: "i \<in> set (ct_effect_intents t) \<and> ei_effect_intent_id i = k"
        with applied(14) have c: "ref_id (ei_command_ref i) = env_command_id (ct_envelope t)" by blast
        have "applied_command R' (env_command_id (ct_envelope t)) t"
          using applied(1,4) by (auto simp: applied_command_def)
        with i c show ?thesis by auto
      qed (rule old)
    qed
    then show ?thesis by (simp add: intents_ok_def)
  qed (use old in \<open>auto simp: intents_ok_def\<close>)
qed

lemma applied_command_store:
  "applied_command (store_command P t s R) i u \<longleftrightarrow>
     (if i = env_command_id (ct_envelope t) then u = t \<and> cr_result_code (sub_result s) = Cmd_APPLIED
      else applied_command R i u)"
  by (auto simp: applied_command_def)

lemma applied_command_fields:
  "reg_commands R' = reg_commands R \<Longrightarrow> applied_command R' = applied_command R"
  by (auto simp: applied_command_def fun_eq_iff)

lemma winners_step:
  assumes "register_step P R R'" and "winners_ok R"
  shows "winners_ok R'"
  using assms(1)
proof cases
  case (rejected t s)
  then have "\<not> applied_command R (env_command_id (ct_envelope t)) u" for u
    by (simp add: applied_command_def)
  with rejected assms(2) show ?thesis
    by (auto simp: winners_ok_def applied_command_store)
next
  case (applied t s e)
  let ?c = "env_command_id (ct_envelope t)"
  have none: "\<not> applied_command R ?c u" for u
    using applied(2) by (simp add: applied_command_def)
  have app: "applied_command R' c u \<longleftrightarrow> (if c = ?c then u = t else applied_command R c u)" for c u
    using applied(1,4) applied_command_fields [of "append_event_facts t e R" R]
    by (simp add: applied_command_store)
  have w: "map_of (reg_winners R) k = Some c \<longleftrightarrow>
     (\<exists>u. applied_command R c u \<and> gd_winner_key (ct_decision u) = Some k)" for k c
    using assms(2) by (simp add: winners_ok_def)
  have "map_of (reg_winners R') k = Some c \<longleftrightarrow>
     (\<exists>u. applied_command R' c u \<and> gd_winner_key (ct_decision u) = Some k)" for k c
  proof (cases "gd_winner_key (ct_decision t) = Some k")
    case True
    with applied(13) have "map_of (reg_winners R) k = None" by blast
    then have "\<not> (applied_command R c u \<and> gd_winner_key (ct_decision u) = Some k)" for u
      using w [of k c] by auto
    moreover have "map_of (reg_winners R') k = Some ?c" using True applied(1) by simp
    ultimately show ?thesis using True by (auto simp: app)
  next
    case False
    then have "map_of (reg_winners R') k = map_of (reg_winners R) k"
      using applied(1) by (auto split: option.splits)
    with False w [of k c] none show ?thesis by (auto simp: app)
  qed
  then show ?thesis by (simp add: winners_ok_def)
qed (use assms(2) in \<open>auto simp: winners_ok_def applied_command_def\<close>)

lemma claims_step:
  assumes "register_step P R R'" and "claims_ok R"
  shows "claims_ok R'"
proof -
  have keep: "map_of (reg_intents R') k \<noteq> None" if "map_of (reg_intents R) k \<noteq> None" for k
    using that step_keeps_intent [OF assms(1)] by auto
  from assms(1) show ?thesis
  proof cases
    case (claim c i)
    with assms(2) show ?thesis by (auto simp: claims_ok_def dest: new_effect_claim_Inr)
  next
    case (renewal c d)
    with assms(2) show ?thesis by (auto simp: claims_ok_def)
  qed (use assms(2) keep in \<open>auto simp: claims_ok_def\<close>)
qed

lemma receipts_step:
  assumes "register_step P R R'" and "receipts_ok R"
  shows "receipts_ok R'"
proof -
  have old: "ref_id (er_effect_intent_ref r) = k \<and> (\<exists>i. map_of (reg_intents R') k = Some i
       \<and> er_command_ref r = ei_command_ref i \<and> er_execution_lineage_ref r = ei_execution_lineage_ref i)"
    if "map_of (reg_receipts R) k = Some r" for k r
    using assms that step_keeps_intent [OF assms(1)] by (fastforce simp: receipts_ok_def)
  from assms(1) show ?thesis
    by cases (use old in \<open>auto simp: receipts_ok_def\<close>)
qed

lemma attempts_step:
  assumes "register_step P R R'" and "attempts_ok R"
  shows "attempts_ok R'"
proof -
  have a: "map at_attempt_number (intent_attempts R k) = map int [1..<Suc (length (intent_attempts R k))]"
    "sorted (map at_fencing_token (intent_attempts R k))" for k
    using assms(2) by (simp_all add: attempts_ok_def Let_def)
  have held: "\<exists>c i. map_of (reg_claims R') k = Some c \<and> map_of (reg_intents R') k = Some i
       \<and> (\<forall>a \<in> set (intent_attempts R k). at_fencing_token a \<le> cl_fencing_token c)
       \<and> int (length (intent_attempts R k)) \<le> ei_attempt_ceiling i"
    if ne: "intent_attempts R k \<noteq> []" for k
  proof -
    from assms(2) ne obtain c i where c: "map_of (reg_claims R) k = Some c"
      "map_of (reg_intents R) k = Some i"
      "\<forall>a \<in> set (intent_attempts R k). at_fencing_token a \<le> cl_fencing_token c"
      "int (length (intent_attempts R k)) \<le> ei_attempt_ceiling i"
      by (auto simp: attempts_ok_def Let_def)
    from step_token_grows [OF assms(1) c(1)] obtain d where
      "map_of (reg_claims R') k = Some d" "cl_fencing_token c \<le> cl_fencing_token d" by blast
    with c step_keeps_intent [OF assms(1) c(2)] show ?thesis by force
  qed
  show ?thesis
  proof (cases "reg_attempts R' = reg_attempts R")
    case True
    then have "intent_attempts R' = intent_attempts R" by (simp add: intent_attempts_def fun_eq_iff)
    with a held show ?thesis by (simp add: attempts_ok_def Let_def)
  next
    case False
    from assms(1) False obtain x c i where
      R': "R' = R\<lparr>reg_attempts := reg_attempts R @ [x]\<rparr>" and
      c: "map_of (reg_claims R) (at_effect_intent_id x) = Some c"
        "at_fencing_token x = cl_fencing_token c"
      and i: "map_of (reg_intents R) (at_effect_intent_id x) = Some i"
        "at_attempt_number x = int (attempt_count R (at_effect_intent_id x)) + 1"
        "at_attempt_number x \<le> ei_attempt_ceiling i"
      by cases auto
    have count: "attempt_count R k = length (intent_attempts R k)" for k
      by (simp add: attempt_count_def intent_attempts_def)
    have as: "intent_attempts R' k = (if k = at_effect_intent_id x then intent_attempts R k @ [x]
        else intent_attempts R k)" for k
      by (simp add: R' intent_attempts_def)
    have low: "\<forall>a \<in> set (intent_attempts R (at_effect_intent_id x)). at_fencing_token a \<le> cl_fencing_token c"
      using held [of "at_effect_intent_id x"] c R' by (cases "intent_attempts R (at_effect_intent_id x)") auto
    show ?thesis
      unfolding attempts_ok_def
    proof
      fix k
      show "let as = intent_attempts R' k in
     map at_attempt_number as = map int [1..<Suc (length as)]
     \<and> sorted (map at_fencing_token as)
     \<and> (as \<noteq> [] \<longrightarrow> (\<exists>c i. map_of (reg_claims R') k = Some c \<and> map_of (reg_intents R') k = Some i
           \<and> (\<forall>a \<in> set as. at_fencing_token a \<le> cl_fencing_token c)
           \<and> int (length as) \<le> ei_attempt_ceiling i))"
      proof (cases "k = at_effect_intent_id x")
        case True
        with as a [of k] low c i R' count show ?thesis by (auto simp: Let_def sorted_append)
      next
        case False
        with as a [of k] held [of k] show ?thesis by (simp add: Let_def)
      qed
    qed
  qed
qed

lemma register_inv_step: "register_step P R R' \<Longrightarrow> register_inv P R \<Longrightarrow> register_inv P R'"
  by (simp add: register_inv_def keys_step projections_step commands_step versions_step
      intents_step winners_step claims_step receipts_step attempts_step)

lemma empty_register_inv: "register_inv P empty_register"
  by (simp add: register_inv_def empty_register_def keys_ok_def versions_ok_def commands_ok_def
      intents_ok_def winners_ok_def projections_ok_def claims_ok_def attempts_ok_def receipts_ok_def
      aggregate_events_def intent_attempts_def applied_command_def project_events_def)

end
