(* ===== verification/RegisterExamples.thy ===== *)
theory RegisterExamples
  imports RegisterSteps
begin

text \<open>
  A concrete run of the Management Register on the demonstration platform: one command that
  plans one effect, its claim, an attempt and its receipt. The witnesses of the register's
  properties are evaluated on it.
\<close>

definition sample_envelope :: command_envelope where
  "sample_envelope = \<lparr>
     env_command_id = ''cmd_'' @ sample_hex (CHR ''1''),
     env_command_type = ''PROMOTE'',
     env_contract_version = ''1.0.0'',
     env_target_ref = sample_ref Ref_WORK_ITEM ''wki'' (CHR ''1''),
     env_expected_version = ABSENT,
     env_actor_ref = sample_ref Ref_ACTOR ''act'' (CHR ''1''),
     env_authority_ref = sample_ref Ref_EVIDENCE ''evi'' (CHR ''1''),
     env_causation_ref = sample_ref Ref_COMMAND ''cmd'' (CHR ''0''),
     env_correlation_id = ''run_'' @ sample_hex (CHR ''1''),
     env_execution_lineage_ref = None,
     env_input_refs = [],
     env_policy_profile_refs = [sample_ref Ref_POLICY_PROFILE ''pol'' (CHR ''1'')],
     env_configuration_ref = sample_ref Ref_CONFIGURATION ''cfg'' (CHR ''1''),
     env_contract_set_ref = sample_ref Ref_CONTRACT_SET ''cst'' (CHR ''1''),
     env_build_ref = sample_ref Ref_BUILD ''bld'' (CHR ''1''),
     env_submitted_at = ''2026-01-01T00:00:00Z'',
     env_expires_at = ''2026-01-01T02:00:00Z'',
     env_payload = \<lparr>payload_contract_ref = sample_contract,
       payload_object_ref = sample_ref Ref_WORK_ITEM ''wki'' (CHR ''1'')\<rparr>\<rparr>"

definition sample_transaction :: command_transaction where
  "sample_transaction = \<lparr>
     ct_envelope = sample_envelope,
     ct_canonical_command = ''{}'',
     ct_command_fingerprint = sha256_fingerprint demo_platform ''{}'',
     ct_decision = \<lparr>gd_result_code = Cmd_APPLIED, gd_event_type = Some ''PROMOTION_PLANNED'',
       gd_winner_key = Some ''release-1''\<rparr>,
     ct_effect_intents = [sample_intent],
     ct_evidence_refs = []\<rparr>"

definition sample_now :: string where
  "sample_now = ''2026-01-01T00:10:00Z''"

definition sample_submit :: register_op where
  "sample_submit = SubmitOp sample_transaction sample_now"

definition sample_effect :: string where
  "sample_effect = ei_effect_intent_id sample_intent"

definition sample_claim :: register_op where
  "sample_claim = ClaimOp sample_effect App_PROMOTION_WORKER ''worker-a'' sample_now 60"

definition sample_attempt :: effect_attempt_event where
  "sample_attempt = \<lparr>at_effect_intent_id = sample_effect, at_attempt_number = 1,
     at_fencing_token = 1, at_event_code = ''CALL'', at_evidence_refs = [],
     at_recorded_at = sample_now\<rparr>"

definition sample_receipt :: effect_receipt where
  "sample_receipt = \<lparr>er_effect_receipt_id = ''efr_'' @ sample_hex (CHR ''1''),
     er_effect_intent_ref = \<lparr>ref_type = Ref_EFFECT_INTENT, ref_id = sample_effect,
       ref_fingerprint = sample_fingerprint\<rparr>,
     er_command_ref = ei_command_ref sample_intent,
     er_execution_lineage_ref = ei_execution_lineage_ref sample_intent,
     er_terminal_status = Rcpt_OUTCOME_UNKNOWN, er_attempt_count = 1, er_observed_at = sample_now,
     er_evidence_refs = [sample_ref Ref_EVIDENCE ''evi'' (CHR ''1'')],
     er_detail = UnknownDetail \<lparr>eud_failure_code = Fail_FAILURE_EXTERNAL_EFFECT,
       eud_reconciliation_evidence_refs = [sample_ref Ref_EVIDENCE ''evi'' (CHR ''1'')]\<rparr>\<rparr>"

definition sample_ops :: "register_op list" where
  "sample_ops = [sample_submit, sample_claim, AttemptOp sample_attempt sample_now,
     ReceiptOp sample_receipt (Some 1) sample_now]"

definition sample_effect_ref :: immutable_reference where
  "sample_effect_ref = \<lparr>ref_type = Ref_EFFECT_INTENT, ref_id = ei_effect_intent_id sample_intent,
     ref_fingerprint = ei_effect_command_fingerprint sample_intent\<rparr>"

definition sample_result :: command_result where
  "sample_result = \<lparr>cr_command_result_id = issued_id ''cmr'' 1,
     cr_command_ref = \<lparr>ref_type = Ref_COMMAND, ref_id = env_command_id sample_envelope,
       ref_fingerprint = sha256_fingerprint demo_platform ''{}''\<rparr>,
     cr_recorded_at = sample_now, cr_result_code = Cmd_APPLIED,
     cr_authoritative_version = Version 1,
     cr_event_refs = [\<lparr>ref_type = Ref_EXECUTION_EVENT, ref_id = issued_id ''evt'' 1,
       ref_fingerprint = sha256_fingerprint demo_platform
         (env_command_id sample_envelope @ '':PROMOTION_PLANNED:1'')\<rparr>],
     cr_effect_intent_refs = [sample_effect_ref],
     cr_evidence_refs = []\<rparr>"

definition sample_submission :: command_submission where
  "sample_submission = \<lparr>sub_resolution = Sub_RESULT_RECORDED, sub_result = sample_result,
     sub_result_bytes = result_bytes sample_result\<rparr>"

lemma sample_transaction_admitted: "admitted_op demo_platform sample_submit"
  by code_simp

lemma sample_ops_admitted: "list_all (admitted_op demo_platform) sample_ops"
  by code_simp


text \<open>The registers after each operation of \<^verbatim>\<open>sample_ops\<close>.\<close>

definition sample_event :: register_event where
  "sample_event = \<lparr>re_event_ref = \<lparr>ref_type = Ref_EXECUTION_EVENT, ref_id = issued_id ''evt'' 1,
       ref_fingerprint = sha256_fingerprint demo_platform
         (env_command_id sample_envelope @ '':PROMOTION_PLANNED:1'')\<rparr>,
     re_command_id = env_command_id sample_envelope,
     re_aggregate_ref = env_target_ref sample_envelope, re_event_type = ''PROMOTION_PLANNED'',
     re_prior_version = 0, re_new_version = 1, re_recorded_at = sample_now\<rparr>"

definition sample_R1 :: register where
  "sample_R1 = commit_submission demo_platform sample_transaction (Some sample_event)
     sample_submission empty_register"

definition sample_held :: effect_claim where
  "sample_held = \<lparr>cl_effect_intent_id = sample_effect, cl_claimant_id = ''worker-a'',
     cl_generation = 1, cl_fencing_token = 1, cl_claimed_at = sample_now,
     cl_expires_at = ''2026-01-01T00:11:00.000000Z''\<rparr>"

definition sample_R2 :: register where
  "sample_R2 = sample_R1\<lparr>reg_claims := [(sample_effect, sample_held)]\<rparr>"

definition sample_R3 :: register where
  "sample_R3 = sample_R2\<lparr>reg_attempts := [sample_attempt]\<rparr>"

definition sample_R4 :: register where
  "sample_R4 = sample_R3\<lparr>reg_receipts := [(sample_effect, sample_receipt)]\<rparr>"

definition sample_instant :: int where
  "sample_instant = demo_day * 86400000000 + 600000000"

lemma sample_instants:
  "parse_utc demo_platform sample_now = Inr sample_instant"
  "parse_utc demo_platform (ei_deadline sample_intent) = Inr (sample_instant + 3000000000)"
  "parse_utc demo_platform (cl_expires_at sample_held) = Inr (sample_instant + 60000000)"
  by code_simp+

lemma sample_guards:
  "effective_result_code demo_platform empty_register sample_transaction sample_instant = Inr Cmd_APPLIED"
  by code_simp

lemma sample_new_event:
  "new_event demo_platform empty_register sample_transaction 0 1 sample_now = Inr sample_event"
  by code_simp

lemma sample_effect_reference: "new_immutable_reference sample_effect_ref = Inr sample_effect_ref"
  by code_simp

lemma sample_plan:
  "plan_facts demo_platform empty_register sample_transaction Cmd_APPLIED sample_now
     = Inr (Some sample_event, cr_effect_intent_refs sample_result, Version 1)"
proof -
  have "ct_effect_intents sample_transaction = [sample_intent]" by (simp add: sample_transaction_def)
  moreover have "reg_aggregate_versions empty_register = []" "reg_intents empty_register = []"
    by (simp_all add: empty_register_def)
  moreover have "re_new_version sample_event = 1" by (simp add: sample_event_def)
  moreover have "cr_effect_intent_refs sample_result = [sample_effect_ref]" by (simp add: sample_result_def)
  ultimately show ?thesis
    by (simp add: plan_facts_def Let_def sample_new_event
        sample_effect_reference [unfolded sample_effect_ref_def, folded sample_effect_ref_def])
      (simp add: sample_effect_ref_def sample_effect_reference [unfolded sample_effect_ref_def])
qed

lemma sample_planned_result:
  "plan_result empty_register sample_transaction Cmd_APPLIED sample_now
     (Some sample_event, cr_effect_intent_refs sample_result, Version 1) = Inr sample_result"
  by code_simp

lemma sample_submitted:
  "submit_command demo_platform sample_transaction sample_now empty_register
     = (Inr sample_submission, sample_R1)"
proof -
  have "reg_commands empty_register = []" by (simp add: empty_register_def)
  moreover have "new_command_submission \<lparr>sub_resolution = Sub_RESULT_RECORDED,
      sub_result = sample_result, sub_result_bytes = result_bytes sample_result\<rparr> = Inr sample_submission"
    by (simp add: sample_submission_def)
  ultimately show ?thesis
    by (simp add: submit_command_def sample_instants sample_guards sample_plan sample_planned_result
        sample_R1_def del: new_command_submission_Inr)
qed

lemma sample_R1_fields:
  "reg_commands sample_R1 = [(env_command_id sample_envelope, (sample_transaction, sample_submission))]"
  "reg_intents sample_R1 = [(sample_effect, sample_intent)]" "reg_claims sample_R1 = []"
  "reg_receipts sample_R1 = []" "reg_attempts sample_R1 = []" "reg_events sample_R1 = [sample_event]"
  by (simp_all add: sample_R1_def commit_submission_def append_event_facts_def rebuilt_def
      empty_register_def sample_transaction_def sample_effect_def)

lemma sample_lease:
  "leased_claim demo_platform sample_effect ''worker-a'' 1 1 sample_now sample_instant 60 = Inr sample_held"
  by code_simp

lemma sample_claimed:
  "claim_effect demo_platform sample_effect App_PROMOTION_WORKER ''worker-a'' sample_now 60 sample_R1
     = (Inr sample_held, sample_R2)"
proof -
  have "ei_owning_application sample_intent = App_PROMOTION_WORKER" by (simp add: sample_intent_def)
  then show ?thesis
    by (simp add: claim_effect_def select_claim_def sample_instants check_lease_seconds_def raise_if_def
        sample_R1_fields sample_R2_def sample_lease)
qed

lemma sample_attempted: "append_effect_attempt demo_platform sample_attempt sample_now sample_R2
    = (Inr (), sample_R3)"
proof -
  have "ei_attempt_ceiling sample_intent = 3" by (simp add: sample_intent_def)
  moreover have "cl_fencing_token sample_held = 1" by (simp add: sample_held_def)
  ultimately show ?thesis
    by (simp add: append_effect_attempt_def attempt_guard_def live_claim_def sample_instants
        sample_R1_fields sample_R2_def sample_R3_def sample_attempt_def attempt_count_def)
qed

lemma sample_receipted: "record_effect_receipt demo_platform sample_receipt (Some 1) sample_now sample_R3
    = (Inr sample_receipt, sample_R4)"
proof -
  have "cl_fencing_token sample_held = 1" by (simp add: sample_held_def)
  then show ?thesis
    by (simp add: record_effect_receipt_def receipt_guard_def live_claim_def sample_instants
        sample_R1_fields sample_R2_def sample_R3_def sample_R4_def sample_attempt_def
        sample_receipt_def attempt_count_def)
qed

lemma sample_runs:
  "run (perform demo_platform) [sample_submit] empty_register = sample_R1"
  "run (perform demo_platform) [sample_submit, sample_claim] empty_register = sample_R2"
  "run (perform demo_platform) (take 3 sample_ops) empty_register = sample_R3"
  "run (perform demo_platform) sample_ops empty_register = sample_R4"
  by (simp_all add: sample_ops_def sample_submit_def sample_claim_def sample_submitted sample_claimed
      sample_attempted sample_receipted)

text \<open>The claim lapses and another worker takes the effect over.\<close>

definition sample_later :: string where
  "sample_later = ''2026-01-01T00:20:00Z''"

definition sample_taken :: effect_claim where
  "sample_taken = \<lparr>cl_effect_intent_id = sample_effect, cl_claimant_id = ''worker-b'',
     cl_generation = 2, cl_fencing_token = 2, cl_claimed_at = sample_later,
     cl_expires_at = ''2026-01-01T00:21:00.000000Z''\<rparr>"

definition sample_takeover :: "register_op list" where
  "sample_takeover = [sample_submit, sample_claim,
     ClaimOp sample_effect App_PROMOTION_WORKER ''worker-b'' sample_later 60]"

definition sample_R5 :: register where
  "sample_R5 = sample_R1\<lparr>reg_claims := [(sample_effect, sample_taken)]\<rparr>"

lemma sample_later_instant:
  "parse_utc demo_platform sample_later = Inr (sample_instant + 600000000)"
  by code_simp

lemma sample_later_lease:
  "leased_claim demo_platform sample_effect ''worker-b'' 2 2 sample_later (sample_instant + 600000000) 60
     = Inr sample_taken"
  by code_simp

lemma sample_taken_over: "run (perform demo_platform) sample_takeover empty_register = sample_R5"
proof -
  have "ei_owning_application sample_intent = App_PROMOTION_WORKER" by (simp add: sample_intent_def)
  moreover have "cl_fencing_token sample_held = 1" "cl_generation sample_held = 1"
    by (simp_all add: sample_held_def)
  ultimately have "claim_effect demo_platform sample_effect App_PROMOTION_WORKER ''worker-b'' sample_later 60
      sample_R2 = (Inr sample_taken, sample_R5)"
    by (simp add: claim_effect_def select_claim_def sample_instants sample_later_instant
        check_lease_seconds_def raise_if_def sample_R1_fields sample_R2_def sample_R5_def
        sample_later_lease)
  then show ?thesis using sample_runs(2) by (simp add: sample_takeover_def)
qed

lemma sample_takeover_admitted: "list_all (admitted_op demo_platform) sample_takeover"
  using sample_transaction_admitted by (simp add: sample_takeover_def sample_claim_def)

end
