(* ===== verification/RegisterProperties.thy ===== *)
theory RegisterProperties
  imports RegisterInvariant RegisterExamples
begin

text \<open>
  What the Management Register promises its clients, for every history of admitted operations:
  atomic failures, exact replay, gap-free versions, unique winners, fencing, numbered attempts,
  final receipts, projections that follow the events, and a recovery export that restores.
\<close>

section \<open>The register as a store\<close>

lemma perform_failure_changes_nothing:
  assumes "fst (perform P op R) = Inl e"
  shows "snd (perform P op R) = R"
proof (cases op)
  case (SubmitOp t now)
  with assms show ?thesis by (cases rule: submit_command_cases [of P t now R]) auto
next
  case (ResolveOp i fp)
  then show ?thesis by (simp add: resolve_command_step)
next
  case (ClaimOp k app who now secs)
  with assms show ?thesis by (cases rule: claim_effect_cases [of P k app who now secs R])
      (auto simp: claim_effect_def split: sum.splits prod.splits)
next
  case (RenewOp k who token now secs)
  with assms show ?thesis by (auto simp: renew_effect_claim_def split: sum.splits)
next
  case (AttemptOp a now)
  with assms show ?thesis by (auto simp: append_effect_attempt_def split: sum.splits)
next
  case (ReceiptOp r token now)
  with assms show ?thesis by (cases rule: record_effect_receipt_cases [of P r token now R]) auto
next
  case (PolicyOp p)
  with assms show ?thesis by (simp add: set_policy_state_def)
next
  case RebuildOp
  with assms show ?thesis by (simp add: rebuild_projections_def)
qed

interpretation register_store: atomic_store empty_register "perform P" "admitted_op P" "register_inv P"
  for P
  by unfold_locales (auto intro: empty_register_inv register_inv_step perform_refines_step
      perform_failure_changes_nothing)

text \<open>Two registers related by what no step undoes.\<close>

definition extends :: "register \<Rightarrow> register \<Rightarrow> bool" where
  "extends R R' \<longleftrightarrow>
     (\<forall>i x. map_of (reg_commands R) i = Some x \<longrightarrow> map_of (reg_commands R') i = Some x)
     \<and> (\<forall>k r. map_of (reg_receipts R) k = Some r \<longrightarrow> map_of (reg_receipts R') k = Some r)
     \<and> (\<forall>k i. map_of (reg_intents R) k = Some i \<longrightarrow> map_of (reg_intents R') k = Some i)
     \<and> (\<exists>es. reg_events R' = reg_events R @ es)
     \<and> (\<forall>k c. map_of (reg_claims R) k = Some c \<longrightarrow>
          (\<exists>d. map_of (reg_claims R') k = Some d \<and> cl_fencing_token c \<le> cl_fencing_token d))"

lemma extends_refl: "extends R R"
  by (simp add: extends_def)

lemma extends_trans:
  assumes "extends R S" and "extends S T"
  shows "extends R T"
proof -
  have "\<exists>d. map_of (reg_claims T) k = Some d \<and> cl_fencing_token c \<le> cl_fencing_token d"
    if "map_of (reg_claims R) k = Some c" for k c
  proof -
    from assms(1) that obtain b where "map_of (reg_claims S) k = Some b"
      "cl_fencing_token c \<le> cl_fencing_token b" unfolding extends_def by blast
    moreover from assms(2) this(1) obtain d where "map_of (reg_claims T) k = Some d"
      "cl_fencing_token b \<le> cl_fencing_token d" unfolding extends_def by blast
    ultimately show ?thesis by auto
  qed
  moreover have "\<exists>es. reg_events T = reg_events R @ es"
    using assms unfolding extends_def by auto
  ultimately show ?thesis using assms unfolding extends_def by blast
qed

lemma extends_step: "register_step P R R' \<Longrightarrow> extends R R'"
  unfolding extends_def
  by (auto intro: step_keeps_command step_keeps_receipt step_keeps_intent step_appends_events
      step_token_grows)

lemma extends_run:
  assumes "register_inv P R" and "list_all (admitted_op P) ops"
  shows "extends R (run (perform P) ops R)"
  by (rule register_store.run_related [where rel = extends])
    (auto intro: extends_refl extends_trans extends_step perform_refines_step assms)

lemma history_inv: "list_all (admitted_op P) ops \<Longrightarrow> register_inv P (run (perform P) ops empty_register)"
  by (rule register_store.reachable_inv)

section \<open>Atomicity and replay\<close>

text \<open>
  Failures are atomic: whatever the operations and their arguments, leaving out every
  operation that raised gives the same register, so a raised error never leaves partial state.
\<close>

theorem failures_leave_no_trace:
  "run (perform P) (effective (perform P) ops R) R = run (perform P) ops R"
  by (rule register_store.failed_operations_invisible)

lemma submit_recorded:
  assumes "fst (submit_command P t now R) = Inr s" and "commands_ok R"
  obtains t0 s0 where
    "map_of (reg_commands (snd (submit_command P t now R))) (env_command_id (ct_envelope t)) = Some (t0, s0)"
    "ct_command_fingerprint t0 = ct_command_fingerprint t"
    "sub_result s0 = sub_result s" "sub_result_bytes s0 = sub_result_bytes s"
    "sub_result_bytes s0 \<noteq> []"
proof (cases rule: submit_command_cases [of P t now R])
  case (same e)
  with assms show ?thesis by simp
next
  case (replay t0 s0)
  have "records t0 s0" using replay(1) assms(2) by (auto simp: commands_ok_def)
  then have "sub_result_bytes s0 \<noteq> []" by (simp add: records_def)
  from assms(1) replay(3) have s: "sub_result s = sub_result s0" "sub_result_bytes s = sub_result_bytes s0"
    by (auto simp: replay_submission_def)
  show ?thesis
    by (rule that [of t0 s0]) (simp_all add: replay(1,2,3) s \<open>sub_result_bytes s0 \<noteq> []\<close>)
next
  case (recorded instant code event refs version r s1)
  have "map_of (reg_commands (commit_submission P t event s1 R)) (env_command_id (ct_envelope t))
      = Some (t, s1)"
    by (simp add: commit_submission_def Let_def split: option.splits)
  moreover have "s = s1" using assms(1) recorded(7) by simp
  ultimately show ?thesis by (intro that [of t s1]) (simp_all add: recorded(6,7))
qed

text \<open>
  Exact replay: once a submission returned a durable result, then after any further history a
  submission under the same command identity re-runs nothing. With the same fingerprint it
  returns the same result and the same bytes, with another fingerprint it is a conflict, and the
  register does not change; \<^verbatim>\<open>resolve_command\<close> returns the same result.
\<close>

theorem submission_replay:
  assumes "list_all (admitted_op P) ops" and "R = run (perform P) ops empty_register"
    and "admitted_op P (SubmitOp t now)" and "submit_command P t now R = (Inr s, R1)"
    and "list_all (admitted_op P) later" and "R2 = run (perform P) later R1"
    and "env_command_id (ct_envelope t') = env_command_id (ct_envelope t)"
    and "parse_utc P now' = Inr instant"
  shows "submit_command P t' now' R2
      = (if ct_command_fingerprint t' = ct_command_fingerprint t
         then Inr \<lparr>sub_resolution = Sub_EXACT_REPLAY, sub_result = sub_result s,
                   sub_result_bytes = sub_result_bytes s\<rparr>
         else Inl (CommandIdentityConflict (env_command_id (ct_envelope t))), R2)
    \<and> resolve_command (env_command_id (ct_envelope t)) (ct_command_fingerprint t) R2
      = (Inr \<lparr>sub_resolution = Sub_EXACT_REPLAY, sub_result = sub_result s,
              sub_result_bytes = sub_result_bytes s\<rparr>, R2)"
proof -
  have inv: "register_inv P R" using assms(1,2) by (simp add: history_inv)
  have R1: "R1 = snd (perform P (SubmitOp t now) R)" using assms(4) by simp
  with inv assms(3) have inv1: "register_inv P R1" by (simp only: register_store.step_inv)
  have sr: "fst (submit_command P t now R) = Inr s" using assms(4) by simp
  obtain t0 s0 where rec:
    "map_of (reg_commands R1) (env_command_id (ct_envelope t)) = Some (t0, s0)"
    "ct_command_fingerprint t0 = ct_command_fingerprint t"
    "sub_result s0 = sub_result s" "sub_result_bytes s0 = sub_result_bytes s"
    "sub_result_bytes s0 \<noteq> []"
    using submit_recorded [OF sr register_invD(3) [OF inv]] assms(4) by (metis snd_conv)
  have "extends R1 R2" using extends_run [OF inv1 assms(5)] assms(6) by simp
  with rec(1) have "map_of (reg_commands R2) (env_command_id (ct_envelope t)) = Some (t0, s0)"
    by (simp add: extends_def)
  with rec(2-5) assms(7,8) show ?thesis
    by (simp add: submit_command_def resolve_command_def replay_submission_def)
qed

theorem submission_replay_witness:
  "submit_command demo_platform sample_transaction sample_later sample_R4
     = (Inr \<lparr>sub_resolution = Sub_EXACT_REPLAY, sub_result = sample_result,
             sub_result_bytes = result_bytes sample_result\<rparr>, sample_R4)"
proof -
  have "run (perform demo_platform) (tl sample_ops) sample_R1 = sample_R4"
    using sample_runs(4) by (simp add: sample_ops_def sample_submit_def sample_submitted)
  moreover have "list_all (admitted_op demo_platform) (tl sample_ops)"
    using sample_ops_admitted by (simp add: sample_ops_def)
  moreover have "admitted_op demo_platform (SubmitOp sample_transaction sample_now)"
    using sample_transaction_admitted by (simp add: sample_submit_def)
  ultimately show ?thesis
    using submission_replay [of demo_platform "[]" empty_register sample_transaction sample_now
        sample_submission sample_R1 "tl sample_ops" sample_R4 sample_transaction sample_later]
      sample_later_instant
    by (simp add: sample_submitted sample_submission_def)
qed

section \<open>Versions, winners, effects\<close>

text \<open>
  Optimistic concurrency: after any history the events of each aggregate carry the versions
  1, 2, ..., n in order, each from its predecessor, with n the version the register holds, so no
  version is skipped, repeated or lost.
\<close>

theorem aggregate_versions_gap_free:
  assumes "list_all (admitted_op P) ops" and "R = run (perform P) ops empty_register"
    and "evs = filter (\<lambda>e. ref_id (re_aggregate_ref e) = a) (reg_events R)"
  shows "map re_new_version evs = map int [1..<Suc (length evs)]
    \<and> map re_prior_version evs = map int [0..<length evs]
    \<and> map_of (reg_aggregate_versions R) a = (if evs = [] then None else Some (int (length evs)))"
proof -
  have "versions_ok R" using assms(1,2) history_inv by (auto dest: register_invD(2))
  then show ?thesis unfolding versions_ok_def Let_def aggregate_events_def assms(3) by blast
qed

theorem aggregate_versions_gap_free_witness:
  "map_of (reg_aggregate_versions sample_R4) (ref_id (env_target_ref sample_envelope)) = Some 1"
proof -
  have "reg_events sample_R4 = [sample_event]"
    by (simp add: sample_R4_def sample_R3_def sample_R2_def sample_R1_fields)
  moreover have "re_aggregate_ref sample_event = env_target_ref sample_envelope"
    by (simp add: sample_event_def)
  ultimately show ?thesis
    using aggregate_versions_gap_free [OF sample_ops_admitted refl refl,
        of "ref_id (env_target_ref sample_envelope)"]
    by (simp add: sample_runs)
qed

text \<open>
  A winner key is won once: in any history at most one command is recorded as applied under a
  given winner key, and the register names it.
\<close>

theorem winner_unique:
  assumes "list_all (admitted_op P) ops" and "R = run (perform P) ops empty_register"
    and "map_of (reg_commands R) c = Some (t, s)" and "cr_result_code (sub_result s) = Cmd_APPLIED"
    and "map_of (reg_commands R) c' = Some (t', s')" and "cr_result_code (sub_result s') = Cmd_APPLIED"
    and "gd_winner_key (ct_decision t) = Some k" and "gd_winner_key (ct_decision t') = Some k"
  shows "c = c' \<and> t = t' \<and> map_of (reg_winners R) k = Some c"
proof -
  have w: "winners_ok R" using assms(1,2) history_inv by (auto dest: register_invD(5))
  have "applied_command R c t" "applied_command R c' t'"
    using assms(3-6) by (auto simp: applied_command_def)
  with w assms(7,8) have "map_of (reg_winners R) k = Some c" "map_of (reg_winners R) k = Some c'"
    unfolding winners_ok_def by blast+
  with assms(3,5) show ?thesis by simp
qed

theorem winner_unique_witness:
  "map_of (reg_winners sample_R4) ''release-1'' = Some (env_command_id sample_envelope)"
proof -
  have "map_of (reg_commands sample_R4) (env_command_id sample_envelope)
      = Some (sample_transaction, sample_submission)"
    by (simp add: sample_R4_def sample_R3_def sample_R2_def sample_R1_fields)
  moreover have "cr_result_code (sub_result sample_submission) = Cmd_APPLIED"
    by (simp add: sample_submission_def sample_result_def)
  moreover have "gd_winner_key (ct_decision sample_transaction) = Some ''release-1''"
    by (simp add: sample_transaction_def)
  ultimately show ?thesis
    using winner_unique [OF sample_ops_admitted refl] by (simp add: sample_runs)
qed

text \<open>
  C34: Fencing: once the claim of an effect carries a token, every later attempt or renewal under a
  smaller token is refused as stale and changes nothing, whatever happened in between.
\<close>

theorem stale_token_fenced:
  assumes "list_all (admitted_op P) ops" and "R = run (perform P) ops empty_register"
    and "map_of (reg_claims R) k = Some c"
    and "list_all (admitted_op P) later" and "R2 = run (perform P) later R"
    and "token < cl_fencing_token c"
    and "at_effect_intent_id a = k" and "at_fencing_token a = token"
    and "parse_utc P now = Inr instant" and "1 \<le> lease_seconds"
  shows "append_effect_attempt P a now R2 = (Inl StaleFencingToken, R2)
    \<and> renew_effect_claim P k who token now lease_seconds R2 = (Inl StaleFencingToken, R2)"
proof -
  have "register_inv P R" using assms(1,2) by (simp add: history_inv)
  then have "extends R R2" using extends_run assms(4,5) by simp
  with assms(3) obtain d where d: "map_of (reg_claims R2) k = Some d"
    "cl_fencing_token c \<le> cl_fencing_token d"
    unfolding extends_def by blast
  with assms(6) have "live_claim P R2 k w token instant = Inl StaleFencingToken" for w
    by (simp add: live_claim_def)
  with d assms(7-10) show ?thesis
    by (simp add: append_effect_attempt_def attempt_guard_def renew_effect_claim_def
        check_lease_seconds_def raise_if_def)
qed

theorem stale_token_fenced_witness:
  "append_effect_attempt demo_platform sample_attempt sample_later sample_R5
     = (Inl StaleFencingToken, sample_R5)"
proof -
  have "map_of (reg_claims sample_R5) sample_effect = Some sample_taken"
    by (simp add: sample_R5_def)
  moreover have "1 < cl_fencing_token sample_taken" by (simp add: sample_taken_def)
  moreover have "at_effect_intent_id sample_attempt = sample_effect" "at_fencing_token sample_attempt = 1"
    by (simp_all add: sample_attempt_def)
  ultimately show ?thesis
    using stale_token_fenced [OF sample_takeover_admitted refl, of sample_effect sample_taken "[]"
        sample_R5 1 sample_attempt sample_later "sample_instant + 600000000" 60 "''worker-a''"]
    by (simp add: sample_taken_over sample_later_instant)
qed

text \<open>
  After any history the attempts recorded for an effect are numbered 1, 2, ..., n with n at
  most the ceiling of its intent, under fencing tokens that never decrease.
\<close>

theorem attempts_numbered_and_bounded:
  assumes "list_all (admitted_op P) ops" and "R = run (perform P) ops empty_register"
    and "map_of (reg_intents R) k = Some i"
    and "as = filter (\<lambda>a. at_effect_intent_id a = k) (reg_attempts R)"
  shows "map at_attempt_number as = map int [1..<Suc (length as)]
    \<and> (as \<noteq> [] \<longrightarrow> int (length as) \<le> ei_attempt_ceiling i)
    \<and> sorted (map at_fencing_token as)"
proof -
  have ok: "attempts_ok R" using assms(1,2) history_inv by (auto dest: register_invD(8))
  have as: "as = intent_attempts R k" using assms(4) by (simp add: intent_attempts_def)
  show ?thesis using ok assms(3) unfolding attempts_ok_def Let_def as by fastforce
qed

theorem attempts_numbered_and_bounded_witness:
  "int (length (reg_attempts sample_R4)) \<le> ei_attempt_ceiling sample_intent"
proof -
  have "map_of (reg_intents sample_R4) sample_effect = Some sample_intent"
    and "reg_attempts sample_R4 = [sample_attempt]"
    and "at_effect_intent_id sample_attempt = sample_effect"
    by (simp_all add: sample_R4_def sample_R3_def sample_R2_def sample_R1_fields sample_attempt_def)
  then show ?thesis
    using attempts_numbered_and_bounded [OF sample_ops_admitted refl, of sample_effect sample_intent]
    by (simp add: sample_runs)
qed

text \<open>
  A receipt is final: once recorded for an effect it survives every later history; recording
  it again returns it, recording another one is refused, and no new claim is granted.
\<close>

theorem receipt_final:
  assumes "list_all (admitted_op P) ops" and "R = run (perform P) ops empty_register"
    and "map_of (reg_receipts R) k = Some r"
    and "list_all (admitted_op P) later" and "R2 = run (perform P) later R"
    and "ref_id (er_effect_intent_ref r') = k" and "parse_utc P now = Inr instant"
    and "1 \<le> lease_seconds" and "map_of (reg_intents R) k = Some i"
  shows "map_of (reg_receipts R2) k = Some r
    \<and> record_effect_receipt P r' token now R2
        = (if r' = r then Inr r else Inl EffectClaimConflict, R2)
    \<and> claim_effect P k app who now lease_seconds R2 = (Inl EffectClaimConflict, R2)"
proof -
  have "register_inv P R" using assms(1,2) by (simp add: history_inv)
  then have "extends R R2" using extends_run assms(4,5) by simp
  with assms(3,9) have "map_of (reg_receipts R2) k = Some r" "map_of (reg_intents R2) k = Some i"
    unfolding extends_def by blast+
  with assms(6-8) show ?thesis
    by (auto simp: record_effect_receipt_def claim_effect_def select_claim_def
        check_lease_seconds_def raise_if_def Let_def)
qed

theorem receipt_final_witness:
  "claim_effect demo_platform sample_effect App_PROMOTION_WORKER ''worker-b'' sample_later 60 sample_R4
     = (Inl EffectClaimConflict, sample_R4)"
proof -
  have "map_of (reg_receipts sample_R4) sample_effect = Some sample_receipt"
    "map_of (reg_intents sample_R4) sample_effect = Some sample_intent"
    by (simp_all add: sample_R4_def sample_R3_def sample_R2_def sample_R1_fields)
  moreover have "ref_id (er_effect_intent_ref sample_receipt) = sample_effect"
    by (simp add: sample_receipt_def)
  ultimately show ?thesis
    using receipt_final [OF sample_ops_admitted refl, of sample_effect sample_receipt "[]" sample_R4
        sample_receipt sample_later "sample_instant + 600000000" 60 sample_intent None
        App_PROMOTION_WORKER "''worker-b''"]
    by (simp add: sample_runs sample_later_instant)
qed

text \<open>
  The converse guard is missing: whether an attempt is accepted does not depend on the
  receipts, so an owner whose claim is still live can append attempts to an effect that already
  has its terminal receipt, whose attempt count then no longer matches the recorded facts.
\<close>

theorem attempts_ignore_receipts:
  "append_effect_attempt P a now (R\<lparr>reg_receipts := rs\<rparr>)
     = (fst (append_effect_attempt P a now R), (snd (append_effect_attempt P a now R))\<lparr>reg_receipts := rs\<rparr>)"
proof -
  have "attempt_guard P (R\<lparr>reg_receipts := rs\<rparr>) a now = attempt_guard P R a now"
  proof -
    have "attempt_count (R\<lparr>reg_receipts := rs\<rparr>) = attempt_count R"
      and "live_claim P (R\<lparr>reg_receipts := rs\<rparr>) = live_claim P R"
      by (simp_all add: attempt_count_def live_claim_def fun_eq_iff)
    then show ?thesis by (simp add: attempt_guard_def Let_def cong: option.case_cong)
  qed
  then show ?thesis by (simp add: append_effect_attempt_def split: sum.splits)
qed

section \<open>Projections and recovery\<close>

lemma project_events_snoc:
  "project_events P (evs @ [e]) = projection_step P (project_events P evs) (length evs + 1, e)"
proof -
  have "[1..<length (evs @ [e]) + 1] = [1..<length evs + 1] @ [length evs + 1]" by simp
  then have "zip [1..<length (evs @ [e]) + 1] (evs @ [e])
      = zip [1..<length evs + 1] evs @ [(length evs + 1, e)]"
    by (simp del: upt_Suc)
  then show ?thesis by (simp add: project_events_def del: upt_Suc)
qed

lemma project_events_versions:
  "map_option pr_version (map_of (project_events P evs) a) =
     (case filter (\<lambda>e. ref_id (re_aggregate_ref e) = a) evs of [] \<Rightarrow> None
      | es \<Rightarrow> Some (re_new_version (last es)))"
proof (induction evs rule: rev_induct)
  case Nil
  show ?case by (simp add: project_events_def)
next
  case (snoc e evs)
  then show ?case
    by (auto simp: project_events_snoc projection_step_def split: list.splits)
qed

text \<open>
  Projections are disposable: after any history rebuilding them from the events changes
  nothing, and the version each projection row shows is the aggregate's current version.
\<close>

theorem projections_follow_events:
  assumes "list_all (admitted_op P) ops" and "R = run (perform P) ops empty_register"
  shows "snd (rebuild_projections P R) = R
    \<and> map_option pr_version (map_of (reg_projections R) a) = map_of (reg_aggregate_versions R) a"
proof
  have inv: "register_inv P R" using assms by (simp add: history_inv)
  then have p: "reg_projections R = project_events P (reg_events R)"
    by (auto dest: register_invD(6) simp: projections_ok_def)
  then show "snd (rebuild_projections P R) = R"
    by (simp add: rebuild_projections_def rebuilt_def)
  from register_invD(2) [OF inv] have
    "map re_new_version (aggregate_events R a) = map int [1..<Suc (length (aggregate_events R a))]"
    "map_of (reg_aggregate_versions R) a = (if aggregate_events R a = [] then None
       else Some (int (length (aggregate_events R a))))"
    by (simp_all add: versions_ok_def Let_def)
  moreover from this(1) have "re_new_version (last (aggregate_events R a)) = int (length (aggregate_events R a))"
    if "aggregate_events R a \<noteq> []"
    using that by (cases "aggregate_events R a" rule: rev_cases) auto
  ultimately show "map_option pr_version (map_of (reg_projections R) a) = map_of (reg_aggregate_versions R) a"
    unfolding p project_events_versions aggregate_events_def [symmetric]
    by (cases "aggregate_events R a") auto
qed

theorem projections_follow_events_witness:
  "snd (rebuild_projections demo_platform sample_R4) = sample_R4"
  using projections_follow_events [OF sample_ops_admitted refl] by (simp add: sample_runs)

lemma dict_of_versions:
  "map_of (dict_of (map (\<lambda>e. (ref_id (re_aggregate_ref e), re_new_version e)) evs)) a =
     (case filter (\<lambda>e. ref_id (re_aggregate_ref e) = a) evs of [] \<Rightarrow> None
      | es \<Rightarrow> Some (re_new_version (last es)))"
proof (induction evs rule: rev_induct)
  case Nil
  show ?case by (simp add: dict_of_def)
next
  case (snoc e evs)
  then show ?case by (auto simp: dict_of_snoc split: list.splits)
qed

lemma take_snapshot_same:
  assumes "reg_commands R' = reg_commands R" "reg_events R' = reg_events R"
    "reg_intents R' = reg_intents R" "sort_key fst (reg_claims R') = sort_key fst (reg_claims R)"
    "reg_attempts R' = reg_attempts R" "sort_key fst (reg_receipts R') = sort_key fst (reg_receipts R)"
    "reg_policies R' = reg_policies R" "reg_projections R' = reg_projections R"
    "sort (reg_winners R') = sort (reg_winners R)"
  shows "take_snapshot ms R' = take_snapshot ms R"
  using assms by (simp add: take_snapshot_def)

text \<open>What restoring the exported package of a well-formed register yields.\<close>

lemma restore_of_export:
  assumes inv: "register_inv P R" and exported: "export_recovery P rep ms R = Inr pkg"
  obtains R1 where "restore_recovery P rep pkg R0 = (Inr (), R1)"
    "reg_commands R1 = reg_commands R" "reg_events R1 = reg_events R"
    "reg_intents R1 = reg_intents R" "reg_claims R1 = sort_key fst (reg_claims R)"
    "reg_attempts R1 = reg_attempts R" "reg_receipts R1 = sort_key fst (reg_receipts R)"
    "reg_policies R1 = reg_policies R" "reg_projections R1 = reg_projections R"
    "reg_winners R1 = sort (reg_winners R)"
    "map_of (reg_aggregate_versions R1) = map_of (reg_aggregate_versions R)"
proof -
  let ?s = "take_snapshot ms R"
  from exported have pkg: "pkg = \<lparr>rp_snapshot = ?s, rp_external_digest = snapshot_digest P rep ?s\<rparr>"
    by (auto simp: export_recovery_def new_recovery_package_def Let_def split: if_splits)
  have d: "distinct (map fst (reg_commands R))" "distinct (map fst (reg_intents R))"
    "distinct (map fst (reg_claims R))" "distinct (map fst (reg_receipts R))"
    "distinct (map fst (reg_winners R))"
    using register_invD(1) [OF inv] by (simp_all add: keys_ok_def)
  have c: "env_command_id (ct_envelope t) = i" if "(i, (t, s)) \<in> set (reg_commands R)" for i t s
    using register_invD(3) [OF inv] that d(1) unfolding commands_ok_def by (metis map_of_is_SomeI)
  have zipped: "zip (rs_commands ?s) (rs_submissions ?s) = map snd (reg_commands R)"
    by (simp add: take_snapshot_def zip_map_map [symmetric] zip_same_conv_map map_idI comp_def)
      (simp add: zip_map1 zip_map2 zip_same_conv_map comp_def)
  have "map (\<lambda>(t, b). (env_command_id (ct_envelope t), (t, b))) (map snd (reg_commands R)) = reg_commands R"
    using c by (auto intro!: map_idI)
  then have commands: "dict_of (map (\<lambda>(t, b). (env_command_id (ct_envelope t), (t, b)))
      (zip (rs_commands ?s) (rs_submissions ?s))) = reg_commands R"
    using d(1) by (simp add: zipped dict_of_distinct)
  have intents: "dict_of (map (\<lambda>i. (ei_effect_intent_id i, i)) (rs_intents ?s)) = reg_intents R"
  proof -
    have "map (\<lambda>i. (ei_effect_intent_id i, i)) (map snd (reg_intents R)) = reg_intents R"
      using register_invD(4) [OF inv] d(2) by (intro keyed_values) (auto simp: intents_ok_def)
    with d(2) show ?thesis by (simp add: take_snapshot_def dict_of_distinct)
  qed
  have claims: "dict_of (map (\<lambda>c. (cl_effect_intent_id c, c)) (rs_claims ?s)) = sort_key fst (reg_claims R)"
  proof -
    have "map (\<lambda>c. (cl_effect_intent_id c, c)) (map snd (sort_key fst (reg_claims R)))
        = sort_key fst (reg_claims R)"
      using register_invD(7) [OF inv] d(3) by (intro keyed_values) (auto simp: claims_ok_def)
    with d(3) show ?thesis by (simp add: take_snapshot_def dict_of_distinct)
  qed
  have receipts: "dict_of (map (\<lambda>r. (ref_id (er_effect_intent_ref r), r)) (rs_receipts ?s))
      = sort_key fst (reg_receipts R)"
  proof -
    have "map (\<lambda>r. (ref_id (er_effect_intent_ref r), r)) (map snd (sort_key fst (reg_receipts R)))
        = sort_key fst (reg_receipts R)"
      using register_invD(9) [OF inv] d(4) by (intro keyed_values) (auto simp: receipts_ok_def)
    with d(4) show ?thesis by (simp add: take_snapshot_def dict_of_distinct)
  qed
  have winners: "dict_of (rs_winners ?s) = sort (reg_winners R)"
    using d(5) by (simp add: take_snapshot_def dict_of_distinct distinct_map)
  have versions: "map_of (dict_of (map (\<lambda>e. (ref_id (re_aggregate_ref e), re_new_version e)) (rs_events ?s)))
      = map_of (reg_aggregate_versions R)"
  proof
    fix a
    have v: "map re_new_version (aggregate_events R a) = map int [1..<Suc (length (aggregate_events R a))]"
      "map_of (reg_aggregate_versions R) a = (if aggregate_events R a = [] then None
         else Some (int (length (aggregate_events R a))))"
      using register_invD(2) [OF inv] by (simp_all add: versions_ok_def Let_def)
    then have "re_new_version (last (aggregate_events R a)) = int (length (aggregate_events R a))"
      if "aggregate_events R a \<noteq> []"
      using that by (cases "aggregate_events R a" rule: rev_cases) auto
    with v(2) show "map_of (dict_of (map (\<lambda>e. (ref_id (re_aggregate_ref e), re_new_version e)) (rs_events ?s))) a
      = map_of (reg_aggregate_versions R) a"
      unfolding dict_of_versions
      by (cases "aggregate_events R a")
        (auto simp: take_snapshot_def aggregate_events_def [symmetric])
  qed
  have lens: "length (rs_commands ?s) = length (rs_submissions ?s)"
    "length (reg_commands R) = length (rs_commands ?s)" by (simp_all add: take_snapshot_def)
  let ?Rn = "rebuilt P (R0\<lparr>
          reg_commands := reg_commands R, reg_events := rs_events ?s,
          reg_intents := reg_intents R, reg_claims := sort_key fst (reg_claims R),
          reg_attempts := rs_attempts ?s, reg_receipts := sort_key fst (reg_receipts R),
          reg_policies := rs_policies ?s,
          reg_aggregate_versions := dict_of (map (\<lambda>e. (ref_id (re_aggregate_ref e), re_new_version e))
            (rs_events ?s)),
          reg_winners := sort (reg_winners R)\<rparr>)"
  have restored: "restore_recovery P rep pkg R0 = (Inr (), ?Rn)"
    by (simp add: restore_recovery_def pkg commands intents claims receipts winners lens Let_def)
  have "reg_projections R = project_events P (reg_events R)"
    using register_invD(6) [OF inv] by (simp add: projections_ok_def)
  then show ?thesis
    using versions by (intro that [OF restored]) (simp_all add: take_snapshot_def)
qed

lemma hex_word_last: "hex_word n h \<Longrightarrow> 0 < n \<Longrightarrow> h \<noteq> [] \<and> \<not> is_space (last h)"
  by (cases h rule: rev_cases) (auto simp: hex_word_def is_hex_not_space)

lemma fingerprint_exact_text:
  assumes "fingerprint_pattern f"
  shows "is_exact_text f"
proof -
  let ?p = "''sha256:''"
  from assms have "take (length ?p) f = ?p" and h: "hex_word 64 (drop 7 f)"
    by (simp_all add: fingerprint_pattern_def starts_with_def)
  then have "f = ?p @ drop (length ?p) f" by (metis append_take_drop_id)
  then have f: "f = ?p @ drop 7 f" by (simp add: numeral_eq_Suc)
  have "\<not> is_space (CHR ''s'')" by (simp add: is_space_def)
  moreover have "drop 7 f \<noteq> []" "\<not> is_space (last (drop 7 f))" using hex_word_last [OF h zero_less_numeral] by blast+
  then have "\<not> is_space (last f)" by (metis drop_eq_Nil last_drop leI)
  moreover have "f \<noteq> []" "hd f = CHR ''s''" by (subst f, simp)+
  ultimately show ?thesis by (simp add: is_exact_text_iff)
qed

lemma hex_accepted: "list_all is_hex s \<Longrightarrow> even (length s) \<Longrightarrow> from_hex_accepts s"
proof (induction s rule: from_hex_accepts.induct)
  case (3 c d cs)
  then have "\<not> is_ascii_space c"
    by (auto simp: is_ascii_space_def char_class_defs Let_def)
  with 3 show ?case by (simp add: is_any_hex_def)
qed auto

lemma export_succeeds:
  assumes "digest_law P" and "ms \<noteq> []" and "\<forall>item \<in> set ms. item \<noteq> []"
  shows "export_recovery P rep ms R = Inr \<lparr>rp_snapshot = take_snapshot ms R,
     rp_external_digest = snapshot_digest P rep (take_snapshot ms R)\<rparr>"
proof -
  let ?d = "snapshot_digest P rep (take_snapshot ms R)"
  have "fingerprint_pattern ?d" using fingerprint_law [OF assms(1)] by (simp add: snapshot_digest_def)
  then have d: "is_exact_text ?d" "length ?d = 71" "starts_with ?d ''sha256:''" "hex_word 64 (drop 7 ?d)"
    by (simp_all add: fingerprint_exact_text fingerprint_pattern_length)
      (simp_all add: fingerprint_pattern_def)
  from d(4) have "from_hex_accepts (drop 7 ?d)" by (intro hex_accepted) (auto simp: hex_word_def)
  with d have "check_fingerprint ?d = None" by (simp add: check_fingerprint_def)
  then have "new_recovery_package \<lparr>rp_snapshot = take_snapshot ms R, rp_external_digest = ?d\<rparr>
      = Inr \<lparr>rp_snapshot = take_snapshot ms R, rp_external_digest = ?d\<rparr>"
    by (simp add: new_recovery_package_def)
  with assms(2,3) show ?thesis by (simp add: export_recovery_def list_ex_iff Let_def)
qed

text \<open>
  Recovery round trip: any reachable register exports, and restoring the package into any
  register succeeds and yields the same commands, results, events, intents, attempts, policies
  and projections and the same claims, receipts, winners and versions as dictionaries; exporting
  the restored register gives the same package again.
\<close>

theorem recovery_round_trip:
  assumes "digest_law P" and "list_all (admitted_op P) ops" and "R = run (perform P) ops empty_register"
    and "migration_set \<noteq> []" and "\<forall>item \<in> set migration_set. item \<noteq> []"
  shows "\<exists>pkg R1. export_recovery P rep migration_set R = Inr pkg
    \<and> restore_recovery P rep pkg R0 = (Inr (), R1)
    \<and> reg_commands R1 = reg_commands R \<and> reg_events R1 = reg_events R
    \<and> reg_intents R1 = reg_intents R \<and> reg_attempts R1 = reg_attempts R
    \<and> reg_policies R1 = reg_policies R \<and> reg_projections R1 = reg_projections R
    \<and> map_of (reg_claims R1) = map_of (reg_claims R)
    \<and> map_of (reg_receipts R1) = map_of (reg_receipts R)
    \<and> map_of (reg_winners R1) = map_of (reg_winners R)
    \<and> map_of (reg_aggregate_versions R1) = map_of (reg_aggregate_versions R)
    \<and> export_recovery P rep migration_set R1 = Inr pkg"
proof -
  have inv: "register_inv P R" using assms(2,3) by (simp add: history_inv)
  then have d: "distinct (map fst (reg_claims R))" "distinct (map fst (reg_receipts R))"
    "distinct (map fst (reg_winners R))"
    by (auto dest: register_invD(1) simp: keys_ok_def)
  obtain pkg where pkg: "export_recovery P rep migration_set R = Inr pkg"
    using export_succeeds [OF assms(1,4,5)] by blast
  obtain R1 where R1: "restore_recovery P rep pkg R0 = (Inr (), R1)"
    "reg_commands R1 = reg_commands R" "reg_events R1 = reg_events R"
    "reg_intents R1 = reg_intents R" "reg_claims R1 = sort_key fst (reg_claims R)"
    "reg_attempts R1 = reg_attempts R" "reg_receipts R1 = sort_key fst (reg_receipts R)"
    "reg_policies R1 = reg_policies R" "reg_projections R1 = reg_projections R"
    "reg_winners R1 = sort (reg_winners R)"
    "map_of (reg_aggregate_versions R1) = map_of (reg_aggregate_versions R)"
    using restore_of_export [OF inv pkg] by blast
  have maps: "map_of (sort_key fst (reg_claims R)) = map_of (reg_claims R)"
    "map_of (sort_key fst (reg_receipts R)) = map_of (reg_receipts R)"
    "map_of (sort (reg_winners R)) = map_of (reg_winners R)"
    using d by (auto intro!: map_of_same_set simp: distinct_map)
  have "take_snapshot migration_set R1 = take_snapshot migration_set R"
    by (rule take_snapshot_same) (simp_all add: R1 sort_key_id_if_sorted)
  then have "export_recovery P rep migration_set R1 = export_recovery P rep migration_set R"
    by (simp add: export_recovery_def)
  with pkg R1 maps show ?thesis by auto
qed

theorem recovery_round_trip_witness:
  "\<exists>pkg R1. export_recovery demo_platform (\<lambda>_. ''snapshot'') [''0001''] sample_R4 = Inr pkg
    \<and> restore_recovery demo_platform (\<lambda>_. ''snapshot'') pkg empty_register = (Inr (), R1)
    \<and> reg_commands R1 = reg_commands sample_R4"
  using recovery_round_trip [OF demo_digest_law sample_ops_admitted refl, of "[''0001'']"
      "\<lambda>_. ''snapshot''" empty_register]
  by (auto simp: sample_runs)

section \<open>When a submission is applied\<close>

lemma prefixed_id_iff: "prefixed_id p s \<longleftrightarrow> (\<exists>h. s = p @ ''_'' @ h \<and> hex_word 48 h)"
proof
  assume a: "prefixed_id p s"
  then have "take (length (p @ ''_'')) s = p @ ''_''" by (simp add: prefixed_id_def starts_with_def)
  then have "s = p @ ''_'' @ drop (length p + 1) s"
    by (metis append.assoc append_take_drop_id length_append length_Cons list.size(3) One_nat_def)
  with a show "\<exists>h. s = p @ ''_'' @ h \<and> hex_word 48 h" by (auto simp: prefixed_id_def)
qed (auto simp: prefixed_id_def starts_with_def)

lemma issued_id_prefixed: "n < 16 ^ 48 \<Longrightarrow> prefixed_id p (issued_id p n)"
  by (auto simp: prefixed_id_iff issued_id_def intro: padded_hex_word)

lemma prefixed_id_valid:
  assumes "prefixed_id p s" and "p = [a, b, c]" and "is_lower a" and "is_lower b" and "is_lower c"
  shows "id_pattern s" "is_exact_text s" "take 3 s = p"
proof -
  obtain h where s: "s = p @ ''_'' @ h" and h: "hex_word 48 h" using assms(1) by (auto simp: prefixed_id_iff)
  from h have "length h = 48" by (simp add: hex_word_def)
  with s h assms(2-5) show "id_pattern s" "take 3 s = p" by (simp_all add: id_pattern_def)
  have "\<not> is_space a" using assms(3) by (auto simp: is_space_def char_class_defs Let_def)
  with s assms(2) hex_word_last [OF h] show "is_exact_text s" by (simp add: is_exact_text_iff)
qed

lemma new_immutable_reference_of:
  assumes "prefixed_id p (ref_id r)" and "p = [a, b, c]" and "is_lower a" and "is_lower b" and "is_lower c"
    and "fingerprint_pattern (ref_fingerprint r)"
    and "\<forall>q. reference_prefix (ref_type r) = Some q \<longrightarrow> q = p"
  shows "new_immutable_reference r = Inr r"
  using prefixed_id_valid [OF assms(1-5)] fingerprint_exact_text [OF assms(6)] assms(6,7)
  by (auto simp: new_immutable_reference_def split: option.splits)

definition effect_reference :: "effect_intent \<Rightarrow> immutable_reference" where
  "effect_reference i = \<lparr>ref_type = Ref_EFFECT_INTENT, ref_id = ei_effect_intent_id i,
     ref_fingerprint = ei_effect_command_fingerprint i\<rparr>"

lemma lower_letters: "is_lower (CHR ''c'')" "is_lower (CHR ''m'')" "is_lower (CHR ''d'')"
  "is_lower (CHR ''e'')" "is_lower (CHR ''f'')" "is_lower (CHR ''i'')" "is_lower (CHR ''v'')"
  "is_lower (CHR ''t'')" "is_lower (CHR ''r'')"
  by (simp_all add: char_class_defs)

lemma effect_references_admitted:
  "list_all (\<lambda>i. new_effect_intent i = Inr i) is \<Longrightarrow> effect_references is = Inr (map effect_reference is)"
proof (induction "is")
  case (Cons i "is")
  then have i: "new_effect_intent i = Inr i" by simp
  from new_effect_intent_Inr(2) [OF i] have "prefixed_id ''efi'' (ei_effect_intent_id i)"
    "fingerprint_pattern (ei_effect_command_fingerprint i)"
    by (simp_all add: validate_identity_and_authority_def)
  then have "new_immutable_reference (effect_reference i) = Inr (effect_reference i)"
    by (intro new_immutable_reference_of [of "''efi''" _ "CHR ''e''" "CHR ''f''" "CHR ''i''"])
      (simp_all add: effect_reference_def reference_prefix_def lower_letters)
  with Cons show ?case by (simp add: effect_reference_def)
qed simp

lemma effect_key_less:
  "ei_effect_intent_id i \<noteq> ei_effect_intent_id j \<Longrightarrow>
     reference_key (effect_reference i) < reference_key (effect_reference j)
       \<longleftrightarrow> ei_effect_intent_id i < ei_effect_intent_id j"
  by (auto simp: reference_key_def effect_reference_def)

lemma effect_keys_sorted:
  "distinct (map ei_effect_intent_id is) \<Longrightarrow>
     sorted_wrt (<) (map reference_key (map effect_reference is)) \<longleftrightarrow> sorted_wrt (<) (map ei_effect_intent_id is)"
proof (induction "is")
  case (Cons i "is")
  then have "ei_effect_intent_id i \<noteq> ei_effect_intent_id j" if "j \<in> set is" for j
    using that by auto
  then have "(\<forall>j \<in> set is. reference_key (effect_reference i) < reference_key (effect_reference j))
      \<longleftrightarrow> (\<forall>j \<in> set is. ei_effect_intent_id i < ei_effect_intent_id j)"
    by (intro ball_cong refl effect_key_less)
  with Cons show ?case by simp
qed simp

text \<open>What an applied command needs: an event that can be formed, and a result whose effects are in order.\<close>

lemma applied_event:
  assumes "digest_law P" and "new_command_envelope (ct_envelope t) = Inr (ct_envelope t)"
    and "gd_event_type (ct_decision t) = Some ty" and "is_exact_text ty" and "is_exact_text now"
    and "parse_utc P now = Inr instant" and "0 \<le> v" and "length (reg_events R) + 1 < 16 ^ 48"
  shows "\<exists>e. new_event P R t v (v + 1) now = Inr e"
proof -
  let ?env = "ct_envelope t"
  let ?r = "\<lparr>ref_type = Ref_EXECUTION_EVENT, ref_id = issued_id ''evt'' (length (reg_events R) + 1),
     ref_fingerprint = sha256_fingerprint P (utf8 (env_command_id ?env @ '':'' @ ty @ '':'' @ decimal (v + 1)))\<rparr>"
  have "new_immutable_reference ?r = Inr ?r"
    using fingerprint_law [OF assms(1)] issued_id_prefixed [OF assms(8)]
    by (intro new_immutable_reference_of [of "''evt''" _ "CHR ''e''" "CHR ''v''" "CHR ''t''"])
      (simp_all add: reference_prefix_def lower_letters)
  moreover have "ty \<noteq> []" using assms(4) by (auto simp: is_exact_text_def)
  moreover have "is_exact_text (env_command_id ?env)" using assms(2) by (simp add: new_command_envelope_def)
  ultimately show ?thesis
    using assms(3-7) by (simp add: new_event_def new_register_event_def model_utc_def Let_def)
qed

definition applied_result ::
    "register \<Rightarrow> command_transaction \<Rightarrow> string \<Rightarrow> register_event \<Rightarrow> int \<Rightarrow> command_result" where
  "applied_result R t now e v = \<lparr>cr_command_result_id = issued_id ''cmr'' (length (reg_commands R) + 1),
     cr_command_ref = \<lparr>ref_type = Ref_COMMAND, ref_id = env_command_id (ct_envelope t),
       ref_fingerprint = ct_command_fingerprint t\<rparr>,
     cr_recorded_at = now, cr_result_code = Cmd_APPLIED, cr_authoritative_version = Version (v + 1),
     cr_event_refs = [re_event_ref e], cr_effect_intent_refs = map effect_reference (ct_effect_intents t),
     cr_evidence_refs = ct_evidence_refs t\<rparr>"

lemma applied_result_planned:
  assumes "digest_law P" and "new_command_transaction P t = Inr t"
    and "new_command_envelope (ct_envelope t) = Inr (ct_envelope t)" and "0 \<le> v"
    and "new_event P R t v (v + 1) now = Inr e" and "parse_timestamp now = Inr stamp"
    and "length (reg_commands R) + 1 < 16 ^ 48"
  shows "plan_result R t Cmd_APPLIED now (Some e, map effect_reference (ct_effect_intents t), Version (v + 1)) = Inr r
    \<longleftrightarrow> sorted_wrt (<) (map ei_effect_intent_id (ct_effect_intents t)) \<and> r = applied_result R t now e v"
proof -
  note tx = new_command_transaction_Inr [OF assms(2)]
  let ?c = "\<lparr>ref_type = Ref_COMMAND, ref_id = env_command_id (ct_envelope t),
        ref_fingerprint = ct_command_fingerprint t\<rparr>"
  from assms(3) have cmd: "prefixed_id ''cmd'' (env_command_id (ct_envelope t))"
      "is_exact_text (env_command_id (ct_envelope t))"
    by (simp_all add: new_command_envelope_def)
  have "new_immutable_reference ?c = Inr ?c"
    using fingerprint_law [OF assms(1)] tx(2) cmd
    by (intro new_immutable_reference_of [of "''cmd''" _ "CHR ''c''" "CHR ''m''" "CHR ''d''"])
      (simp_all add: reference_prefix_def lower_letters flip: tx(2))
  moreover have "new_command_result (applied_result R t now e v) = Inr r'
      \<longleftrightarrow> r' = applied_result R t now e v \<and> sorted_wrt (<) (map ei_effect_intent_id (ct_effect_intents t))" for r'
  proof -
    have "prefixed_id ''cmr'' (issued_id ''cmr'' (length (reg_commands R) + 1))"
      using assms(7) by (rule issued_id_prefixed)
    moreover from prefixed_id_valid(2) [OF this refl] have
      "is_exact_text (issued_id ''cmr'' (length (reg_commands R) + 1))" by (simp add: lower_letters)
    ultimately show ?thesis
      using assms(4,6) tx(6) effect_keys_sorted [OF tx(4)] new_event_Inr [OF assms(5)]
      by (auto simp: new_command_result_def applied_result_def validate_references_None effect_reference_def)
  qed
  ultimately show ?thesis by (auto simp: plan_result_def applied_result_def)
qed

lemma submit_new_command:
  assumes "parse_utc P now = Inr instant" and "map_of (reg_commands R) (env_command_id (ct_envelope t)) = None"
    and "effective_result_code P R t instant = Inr code" and "plan_facts P R t code now = Inr facts"
    and "\<And>r. plan_result R t code now facts = Inr r \<longleftrightarrow> ordered \<and> r = result"
    and "cr_result_code result = code"
  shows "(\<exists>s. fst (submit_command P t now R) = Inr s \<and> cr_result_code (sub_result s) = code) \<longleftrightarrow> ordered"
proof (cases rule: submit_command_cases [of P t now R])
  case (same x)
  have "\<not> ordered"
  proof
    assume ordered
    with assms(5) have "plan_result R t code now facts = Inr result" by blast
    with same assms(1-4) show False
      by (cases facts) (simp add: submit_command_def new_command_submission_def construct_def raise_if_def)
  qed
  with same show ?thesis by simp
next
  case (replay t0 s)
  with assms(2) show ?thesis by simp
next
  case (recorded instant' code' event refs version r s)
  with assms(1,3,4) have "plan_result R t code now facts = Inr r"
    and s: "s = \<lparr>sub_resolution = Sub_RESULT_RECORDED, sub_result = r, sub_result_bytes = result_bytes r\<rparr>"
    by simp_all
  from iffD1 [OF assms(5) this(1)] recorded(7) s assms(6) show ?thesis by simp
qed

text \<open>
  C32: When a submission is applied: for a new, unexpired command whose expected version is
  current, whose winner key is free, whose effects are new and whose owner decided to apply it,
  the register records it as applied exactly when its planned effects are listed in increasing
  order of identity. \<^verbatim>\<open>CommandTransaction\<close> accepts any order of distinct identities, but an
  unsorted plan makes \<^verbatim>\<open>submit_command\<close> raise.
\<close>

theorem submission_applied:
  assumes "digest_law P" and "list_all (admitted_op P) ops"
    and "R = run (perform P) ops empty_register"
    and "admitted_op P (SubmitOp t now)" and "parse_utc P now = Inr instant"
    and "parse_timestamp now = Inr stamp"
    and "map_of (reg_commands R) (env_command_id (ct_envelope t)) = None"
    and "parse_utc P (env_expires_at (ct_envelope t)) = Inr expires" and "instant < expires"
    and "version_expected R (ct_envelope t)"
    and "\<forall>k. gd_winner_key (ct_decision t) = Some k \<longrightarrow> map_of (reg_winners R) k = None"
    and "gd_result_code (ct_decision t) = Cmd_APPLIED"
    and "\<forall>i \<in> set (ct_effect_intents t). map_of (reg_intents R) (ei_effect_intent_id i) = None"
    and "length (reg_events R) + 1 < 16 ^ 48" and "length (reg_commands R) + 1 < 16 ^ 48"
  shows "(\<exists>s. fst (submit_command P t now R) = Inr s \<and> cr_result_code (sub_result s) = Cmd_APPLIED)
    \<longleftrightarrow> sorted_wrt (<) (map ei_effect_intent_id (ct_effect_intents t))"
proof -
  let ?env = "ct_envelope t"
  let ?v = "current_version R (ref_id (env_target_ref ?env))"
  have inv: "register_inv P R" using assms(2,3) by (simp add: history_inv)
  have tx: "new_command_transaction P t = Inr t" and env: "new_command_envelope ?env = Inr ?env"
    and dec: "new_command_guard_decision (ct_decision t) = Inr (ct_decision t)"
    and intents: "list_all (\<lambda>i. new_effect_intent i = Inr i) (ct_effect_intents t)"
    using assms(4) by simp_all
  from dec assms(12) obtain ty where ty: "gd_event_type (ct_decision t) = Some ty" "is_exact_text ty"
    by (auto simp: new_command_guard_decision_def split: option.splits)
  have exact_now: "is_exact_text now" using assms(6) by (auto simp: parse_timestamp_def split: if_splits)
  have v: "0 \<le> ?v" using register_invD(2) [OF inv]
    by (simp add: current_version_def versions_ok_def Let_def)
  obtain e where e: "new_event P R t ?v (?v + 1) now = Inr e"
    using applied_event [OF assms(1) env ty exact_now assms(5) v assms(14)] by blast
  have code: "effective_result_code P R t instant = Inr Cmd_APPLIED"
    using assms(8-12)
    by (auto simp: effective_result_code_def version_expected_def Let_def
        split: option.splits expected_version.splits)
  have facts: "plan_facts P R t Cmd_APPLIED now
      = Inr (Some e, map effect_reference (ct_effect_intents t), Version (?v + 1))"
    using assms(13) e effect_references_admitted [OF intents]
    by (auto simp: plan_facts_def Let_def list_ex_iff current_version_def)
  show ?thesis
    by (rule submit_new_command [OF assms(5,7) code facts
        applied_result_planned [OF assms(1) tx env v e assms(6,15)]]) (simp add: applied_result_def)
qed

theorem submission_applied_witness:
  "\<exists>s. fst (submit_command demo_platform sample_transaction sample_now empty_register) = Inr s
     \<and> cr_result_code (sub_result s) = Cmd_APPLIED"
proof -
  have stamp: "parse_timestamp sample_now = Inr (2026, 1, 1, 0, 10, 0, 0)" by code_simp
  have expires: "parse_utc demo_platform (env_expires_at (ct_envelope sample_transaction))
      = Inr (sample_instant + 6600000000)" by code_simp
  have t: "ct_effect_intents sample_transaction = [sample_intent]"
    "gd_result_code (ct_decision sample_transaction) = Cmd_APPLIED"
    by (simp_all add: sample_transaction_def)
  have empty: "reg_events empty_register = []" "reg_commands empty_register = []"
    "reg_winners empty_register = []" "reg_intents empty_register = []"
    "version_expected empty_register (ct_envelope sample_transaction)"
    by (simp_all add: empty_register_def version_expected_def sample_transaction_def sample_envelope_def)
  have "(1::nat) < 16 ^ 48" by simp
  with submission_applied [OF demo_digest_law, of "[]" empty_register sample_transaction sample_now]
    sample_transaction_admitted sample_instants(1) stamp expires t empty
  show ?thesis by (simp add: sample_submit_def)
qed

end
