(* ===== verification/OutcomeRegisters.thy ===== *)
theory OutcomeRegisters
  imports Stores
begin

text \<open>
  The two single-outcome registers of the Management Register package: observation outcomes
  (\<^verbatim>\<open>acquisition.py\<close>) and legal-processing results (\<^verbatim>\<open>legal_processing.py\<close>). Each stores one
  immutable record per identity, an instance of the write-once contract. The codes of an
  observation are strings which the constructor checks against closed catalogues.
\<close>

datatype outcome_error = OutcomeValueError | RecordConflict string | OutcomeLookupError string

section \<open>Acquisition observations\<close>

record acquisition_observation =
  ao_observation_id :: string
  ao_input_fingerprint :: string
  ao_source_id :: string
  ao_endpoint_id :: string
  ao_observation_cutoff :: string
  ao_watcher_result :: string
  ao_scraper_result :: "string option"
  ao_disposition :: string
  ao_consequence :: string
  ao_evidence_package_id :: string
  ao_primary_manifest_version :: string
  ao_recovery_manifest_version :: string
  ao_manifest_fingerprint :: string
  ao_source_snapshot_id :: string
  ao_issue_id :: string

definition watcher_codes :: "string list" where
  "watcher_codes = [''SUPPORTED_NO_CHANGE'', ''POSSIBLE_CHANGE'', ''SOURCE_UNAVAILABLE'',
     ''SOURCE_CONTRACT_CHANGED'', ''INCOMPLETE_OBSERVATION'', ''UNSAFE_RESPONSE'']"

definition scraper_codes :: "string list" where
  "scraper_codes = [''SNAPSHOT_PRESERVED'', ''SUPPORTED_NO_CHANGE_AFTER_CAPTURE'',
     ''PARTIAL_CAPTURE'', ''SOURCE_UNAVAILABLE'', ''SOURCE_CONTRACT_CHANGED'', ''UNSAFE_RESPONSE'']"

definition disposition_codes :: "string list" where
  "disposition_codes = [''COMPLETE_NO_CHANGE'', ''SNAPSHOT_PRESERVED'', ''SOURCE_CONTRACT_REVIEW'',
     ''COVERAGE_GAP'', ''QUARANTINE'']"

definition new_acquisition_observation ::
    "acquisition_observation \<Rightarrow> outcome_error + acquisition_observation" where
  "new_acquisition_observation r = construct
     [raise_if (ao_watcher_result r \<notin> set watcher_codes) OutcomeValueError,
      (case ao_scraper_result r of None \<Rightarrow> None
       | Some c \<Rightarrow> raise_if (c \<notin> set scraper_codes) OutcomeValueError),
      raise_if (ao_disposition r \<notin> set disposition_codes) OutcomeValueError,
      raise_if (ao_consequence r \<notin> {''NONE'', ''LEGAL_PROCESSING_ELIGIBLE''}) OutcomeValueError,
      (if ao_disposition r = ''SNAPSHOT_PRESERVED''
       then first_raise
         [raise_if (ao_source_snapshot_id r = [] \<or> ao_scraper_result r \<noteq> Some ''SNAPSHOT_PRESERVED'')
            OutcomeValueError,
          raise_if (ao_consequence r \<noteq> ''LEGAL_PROCESSING_ELIGIBLE'') OutcomeValueError,
          raise_if (ao_issue_id r \<noteq> []) OutcomeValueError]
       else first_raise
         [raise_if (ao_source_snapshot_id r \<noteq> []) OutcomeValueError,
          raise_if (ao_consequence r \<noteq> ''NONE'') OutcomeValueError,
          raise_if ((ao_disposition r \<in> {''COVERAGE_GAP'', ''QUARANTINE'', ''SOURCE_CONTRACT_REVIEW''})
                    \<noteq> (ao_issue_id r \<noteq> [])) OutcomeValueError])] r"

text \<open>The dictionary \<^verbatim>\<open>_records\<close> of \<^verbatim>\<open>InMemoryAcquisitionRegister\<close> is its whole state.\<close>

type_synonym acquisition_register = "(string \<times> acquisition_observation) list"

definition record_observation ::
    "acquisition_observation \<Rightarrow> acquisition_register
       \<Rightarrow> (outcome_error + acquisition_observation) \<times> acquisition_register" where
  "record_observation r s =
     (case map_of s (ao_observation_id r) of
        None \<Rightarrow> (Inr r, AList.update (ao_observation_id r) r s)
      | Some existing \<Rightarrow>
          if existing \<noteq> r then (Inl (RecordConflict (ao_observation_id r)), s) else (Inr existing, s))"

definition get_observation ::
    "string \<Rightarrow> acquisition_register \<Rightarrow> outcome_error + acquisition_observation" where
  "get_observation i s = (case map_of s i of None \<Rightarrow> Inl (OutcomeLookupError i) | Some r \<Rightarrow> Inr r)"

definition observation_records :: "acquisition_register \<Rightarrow> acquisition_observation list" where
  "observation_records s = map snd (sort_key fst s)"

interpretation acquisition: write_once record_observation ao_observation_id
  by unfold_locales (auto simp: record_observation_def)

section \<open>Legal-processing results\<close>

record legal_processing_record =
  lp_result_id :: string
  lp_input_fingerprint :: string
  lp_observation_id :: string
  lp_source_snapshot_id :: string
  lp_package_id :: string
  lp_package_fingerprint :: string
  lp_rule_id :: string
  lp_disposition :: string
  lp_reason_code :: string
  lp_failure_code :: string
  lp_evidence_refs :: "string list"
  lp_candidate_artifact_id :: string
  lp_candidate_artifact_fingerprint :: string
  lp_semantic_decision_fingerprint :: string
  lp_next_action :: string

type_synonym legal_processing_register = "(string \<times> legal_processing_record) list"

definition record_processing_result ::
    "legal_processing_record \<Rightarrow> legal_processing_register
       \<Rightarrow> (outcome_error + legal_processing_record) \<times> legal_processing_register" where
  "record_processing_result r s =
     (case map_of s (lp_result_id r) of
        None \<Rightarrow> (Inr r, AList.update (lp_result_id r) r s)
      | Some existing \<Rightarrow>
          if existing \<noteq> r then (Inl (RecordConflict (lp_result_id r)), s) else (Inr existing, s))"

definition get_processing_result ::
    "string \<Rightarrow> legal_processing_register \<Rightarrow> outcome_error + legal_processing_record" where
  "get_processing_result i s = (case map_of s i of None \<Rightarrow> Inl (OutcomeLookupError i) | Some r \<Rightarrow> Inr r)"

definition processing_records :: "legal_processing_register \<Rightarrow> legal_processing_record list" where
  "processing_records s = map snd (sort_key fst s)"

interpretation processing: write_once record_processing_result lp_result_id
  by unfold_locales (auto simp: record_processing_result_def)

section \<open>Properties\<close>

lemma find_None_in: "find Q xs = None \<longleftrightarrow> (\<forall>x \<in> set xs. \<not> Q x)"
  by (auto simp: find_None_iff)

text \<open>
  One outcome per observation: after any sequence of recordings, looking an observation up
  returns the first record written under its identity, or a lookup error when there was none; and
  a further recording succeeds exactly when it is new or repeats that first record.
\<close>

theorem observation_first_write_wins:
  "get_observation i (run record_observation rs [])
     = (case find (\<lambda>r. ao_observation_id r = i) rs of None \<Rightarrow> Inl (OutcomeLookupError i) | Some r \<Rightarrow> Inr r)
   \<and> ((\<exists>x. fst (record_observation q (run record_observation rs [])) = Inr x) \<longleftrightarrow>
        find (\<lambda>r. ao_observation_id r = ao_observation_id q) rs \<in> {None, Some q})"
  by (simp add: get_observation_def acquisition.first_write_wins acquisition.put_succeeds_iff)

text \<open>
  The same for legal-processing results: the first result under an identity is the one every
  later lookup returns, and the listing names every identity once, in increasing order.
\<close>

theorem processing_first_write_wins:
  "get_processing_result i (run record_processing_result rs [])
     = (case find (\<lambda>r. lp_result_id r = i) rs of None \<Rightarrow> Inl (OutcomeLookupError i) | Some r \<Rightarrow> Inr r)
   \<and> sorted_wrt (<) (map fst (sort_key fst (run record_processing_result rs [])))"
proof -
  have "distinct (map fst (run record_processing_result rs []))"
    by (rule processing.run_distinct) simp
  then have "distinct (map fst (sort_key fst (run record_processing_result rs [])))"
    by (simp add: distinct_map)
  then show ?thesis
    by (simp add: get_processing_result_def processing.first_write_wins strict_sorted_iff)
qed

text \<open>
  What an accepted observation authorises: legal processing is eligible exactly for a
  preserved snapshot, which names its snapshot and no issue; a failed outcome names exactly one
  issue and no snapshot; a complete unchanged one names neither. So no record both authorises
  work and reports an issue.
\<close>

theorem observation_consequences:
  assumes "new_acquisition_observation r = Inr r'"
  shows "r' = r
    \<and> (ao_consequence r = ''LEGAL_PROCESSING_ELIGIBLE'' \<longleftrightarrow> ao_disposition r = ''SNAPSHOT_PRESERVED'')
    \<and> (ao_source_snapshot_id r \<noteq> [] \<longleftrightarrow> ao_disposition r = ''SNAPSHOT_PRESERVED'')
    \<and> (ao_issue_id r = [] \<longleftrightarrow> ao_disposition r \<in> {''SNAPSHOT_PRESERVED'', ''COMPLETE_NO_CHANGE''})
    \<and> (ao_source_snapshot_id r = [] \<or> ao_scraper_result r = Some ''SNAPSHOT_PRESERVED'')"
proof (cases "ao_disposition r = ''SNAPSHOT_PRESERVED''")
  case True
  with assms show ?thesis by (simp add: new_acquisition_observation_def)
next
  case False
  with assms have d: "ao_disposition r \<in> set disposition_codes" "ao_source_snapshot_id r = []"
    "ao_consequence r = ''NONE''" "r' = r"
    "ao_disposition r \<in> {''COVERAGE_GAP'', ''QUARANTINE'', ''SOURCE_CONTRACT_REVIEW''} \<longleftrightarrow> ao_issue_id r \<noteq> []"
    by (simp_all add: new_acquisition_observation_def)
  from d(1) False have "ao_disposition r \<in> {''COVERAGE_GAP'', ''QUARANTINE'', ''SOURCE_CONTRACT_REVIEW''}
      \<or> ao_disposition r = ''COMPLETE_NO_CHANGE''"
    by (auto simp: disposition_codes_def)
  with d(2-5) False show ?thesis by auto
qed

definition sample_observation :: acquisition_observation where
  "sample_observation = \<lparr>ao_observation_id = ''obs-1'', ao_input_fingerprint = ''f'',
     ao_source_id = ''s'', ao_endpoint_id = ''e'', ao_observation_cutoff = ''c'',
     ao_watcher_result = ''POSSIBLE_CHANGE'', ao_scraper_result = Some ''SNAPSHOT_PRESERVED'',
     ao_disposition = ''SNAPSHOT_PRESERVED'', ao_consequence = ''LEGAL_PROCESSING_ELIGIBLE'',
     ao_evidence_package_id = ''p'', ao_primary_manifest_version = ''1'',
     ao_recovery_manifest_version = ''1'', ao_manifest_fingerprint = ''m'',
     ao_source_snapshot_id = ''snap-1'', ao_issue_id = []\<rparr>"

theorem observation_consequences_witness:
  "new_acquisition_observation sample_observation = Inr sample_observation
   \<and> ao_issue_id sample_observation = []"
proof -
  have ok: "new_acquisition_observation sample_observation = Inr sample_observation"
    by (simp add: new_acquisition_observation_def sample_observation_def watcher_codes_def
        scraper_codes_def disposition_codes_def)
  have "ao_disposition sample_observation = ''SNAPSHOT_PRESERVED''" by (simp add: sample_observation_def)
  with observation_consequences [OF ok] ok show ?thesis by simp
qed

end
