(* ===== verification/TimestampOrder.thy ===== *)
theory TimestampOrder
  imports Operations
begin

text \<open>
  Timestamps compared as text. Approvals and promotion windows compare timestamp strings; here is
  when that order is the order of time: between timestamps without a fraction. With fractions it
  is not.
\<close>

lemma pair_less: "(a, b) < (c, d) \<longleftrightarrow> a < c \<or> a = c \<and> b < d" for a c :: "'a::linorder" and b d :: "'b::linorder"
  by auto

lemma append_less:
  fixes x y s t :: "'a::linorder list"
  shows "length x = length y \<Longrightarrow> x @ s < y @ t \<longleftrightarrow> x < y \<or> x = y \<and> s < t"
  by (induction x y rule: list_induct2) auto

lemma foldl_number:
  "foldl (\<lambda>a c. a * 10 + digit_value c) n cs
     = n * 10 ^ length cs + foldl (\<lambda>a c. a * 10 + digit_value c) 0 cs"
proof (induction cs arbitrary: n)
  case (Cons c cs)
  from Cons.IH [of "n * 10 + digit_value c"] Cons.IH [of "digit_value c"]
  show ?case by (simp add: algebra_simps)
qed simp

lemma number_Cons: "number (c # cs) = digit_value c * 10 ^ length cs + number cs"
  using foldl_number [of "digit_value c" cs] by (simp add: number_def)

lemma number_Nil [simp]: "number [] = 0"
  by (simp add: number_def)

lemma digit_value_less: "is_digit c \<Longrightarrow> digit_value c < 10"
  by (auto simp: digit_value_def char_class_defs)

lemma digit_order:
  assumes "is_digit c" and "is_digit d"
  shows "c < d \<longleftrightarrow> digit_value c < digit_value d" "c = d \<longleftrightarrow> digit_value c = digit_value d"
proof -
  have "c = d \<longleftrightarrow> (of_char c :: nat) = of_char d" by simp
  moreover have "c < d \<longleftrightarrow> (of_char c :: nat) < of_char d" by (simp add: less_char_def)
  moreover have "48 \<le> (of_char c :: nat)" "48 \<le> (of_char d :: nat)"
    using assms by (simp_all add: char_class_defs)
  ultimately show "c < d \<longleftrightarrow> digit_value c < digit_value d" "c = d \<longleftrightarrow> digit_value c = digit_value d"
    unfolding digit_value_def by arith+
qed

lemma number_less_power: "list_all is_digit cs \<Longrightarrow> number cs < 10 ^ length cs"
proof (induction cs)
  case (Cons c cs)
  then have "digit_value c \<le> 9" using digit_value_less [of c] by simp
  then have "digit_value c * 10 ^ length cs \<le> 9 * 10 ^ length cs" by (rule mult_le_mono1)
  moreover have "number cs < 10 ^ length cs" using Cons by simp
  ultimately have "digit_value c * 10 ^ length cs + number cs < 9 * 10 ^ length cs + 10 ^ length cs"
    by (rule add_le_less_mono)
  then show ?case by (simp add: number_Cons)
qed simp

lemma number_order:
  "length x = length y \<Longrightarrow> list_all is_digit x \<Longrightarrow> list_all is_digit y
    \<Longrightarrow> (x < y \<longleftrightarrow> number x < number y) \<and> (x = y \<longleftrightarrow> number x = number y)"
proof (induction x y rule: list_induct2)
  case (Cons c x d y)
  let ?p = "10 ^ length x :: nat"
  have less: "number x < ?p" "number y < ?p"
    using number_less_power [of x] number_less_power [of y] Cons by simp_all
  have "digit_value c * ?p + number x < digit_value d * ?p + number y
      \<longleftrightarrow> digit_value c < digit_value d \<or> digit_value c = digit_value d \<and> number x < number y"
    and "digit_value c * ?p + number x = digit_value d * ?p + number y
      \<longleftrightarrow> digit_value c = digit_value d \<and> number x = number y"
  proof -
    have small: "a * ?p + number x < b * ?p + number y" if "a < b" for a b :: nat
    proof -
      have "a * ?p + number x < Suc a * ?p" using less(1) by simp
      also have "\<dots> \<le> b * ?p" using that by (intro mult_le_mono1) simp
      finally show ?thesis by simp
    qed
    have large: "b * ?p + number y < a * ?p + number x" if "b < a" for a b :: nat
    proof -
      have "b * ?p + number y < Suc b * ?p" using less(2) by simp
      also have "\<dots> \<le> a * ?p" using that by (intro mult_le_mono1) simp
      finally show ?thesis by simp
    qed
    show "digit_value c * ?p + number x < digit_value d * ?p + number y
      \<longleftrightarrow> digit_value c < digit_value d \<or> digit_value c = digit_value d \<and> number x < number y"
      using small [of "digit_value c" "digit_value d"] large [of "digit_value d" "digit_value c"]
      by (cases "digit_value c" "digit_value d" rule: linorder_cases) auto
    show "digit_value c * ?p + number x = digit_value d * ?p + number y
      \<longleftrightarrow> digit_value c = digit_value d \<and> number x = number y"
      using small [of "digit_value c" "digit_value d"] large [of "digit_value d" "digit_value c"]
      by (cases "digit_value c" "digit_value d" rule: linorder_cases) auto
  qed
  with Cons digit_order [of c d] show ?case by (simp add: number_Cons)
qed simp

text \<open>A pattern-conforming timestamp without a fraction, cut into its parts.\<close>

lemma whole_seconds_parts:
  assumes "timestamp_pattern s" and "length s = 20"
  obtains y m d h mi sec where
    "s = y @ ''-'' @ m @ ''-'' @ d @ ''T'' @ h @ '':'' @ mi @ '':'' @ sec @ ''Z''"
    "length y = 4" "length m = 2" "length d = 2" "length h = 2" "length mi = 2" "length sec = 2"
    "list_all is_digit (y @ m @ d @ h @ mi @ sec)"
proof -
  have "\<exists>a b c d e f g h i j k l m n p q r t u v. s = [a,b,c,d,e,f,g,h,i,j,k,l,m,n,p,q,r,t,u,v]"
    using assms(2) by (auto simp: numeral_eq_Suc length_Suc_conv)
  then obtain a b c d e f g h i j k l m n p q r t u v where
    s: "s = [a,b,c,d,e,f,g,h,i,j,k,l,m,n,p,q,r,t,u,v]" by blast
  from assms(1) have "timestamp_tail [v]" by (simp add: timestamp_pattern_def s)
  then have "v = CHR ''Z''" by (simp add: timestamp_tail_def)
  with assms(1) s show ?thesis
    by (intro that [of "[a,b,c,d]" "[f,g]" "[i,j]" "[l,m]" "[p,q]" "[t,u]"])
      (simp_all add: timestamp_pattern_def two_digits_def)
qed

lemma parse_timestamp_parts:
  assumes "parse_timestamp s = Inr x" and
    "s = y @ ''-'' @ m @ ''-'' @ d @ ''T'' @ h @ '':'' @ mi @ '':'' @ sec @ ''Z''"
    "length y = 4" "length m = 2" "length d = 2" "length h = 2" "length mi = 2" "length sec = 2"
  shows "x = (number y, number m, number d, number h, number mi, number sec, 0)"
proof -
  have "microseconds s = 0"
    using assms(2-) by (simp add: microseconds_def number_def digit_value_def numeral_eq_Suc)
  with assms show ?thesis
    by (auto simp: parse_timestamp_def Let_def numeral_eq_Suc split: if_splits)
qed

text \<open>
  Between timestamps without a fraction, the order of the text is the order of time: for two
  such strings that the domain package parses, one is smaller as text exactly when it denotes the
  earlier instant. The approval and promotion windows rely on this.
\<close>

theorem whole_second_text_order:
  assumes "parse_timestamp a = Inr t" and "parse_timestamp b = Inr u"
    and "length a = 20" and "length b = 20"
  shows "a < b \<longleftrightarrow> t < u"
proof -
  have "timestamp_pattern a" "timestamp_pattern b"
    using assms(1,2) by (auto simp: parse_timestamp_def split: if_splits)
  then obtain y m d h mi sec where
    a: "a = y @ ''-'' @ m @ ''-'' @ d @ ''T'' @ h @ '':'' @ mi @ '':'' @ sec @ ''Z''"
    "length y = 4" "length m = 2" "length d = 2" "length h = 2" "length mi = 2" "length sec = 2" and
    da: "list_all is_digit (y @ m @ d @ h @ mi @ sec)"
    using whole_seconds_parts assms(3) by metis
  obtain y' m' d' h' mi' sec' where
    b: "b = y' @ ''-'' @ m' @ ''-'' @ d' @ ''T'' @ h' @ '':'' @ mi' @ '':'' @ sec' @ ''Z''"
    "length y' = 4" "length m' = 2" "length d' = 2" "length h' = 2" "length mi' = 2" "length sec' = 2" and
    db: "list_all is_digit (y' @ m' @ d' @ h' @ mi' @ sec')"
    using whole_seconds_parts \<open>timestamp_pattern b\<close> assms(4) by metis
  note t = parse_timestamp_parts [OF assms(1) a] and u = parse_timestamp_parts [OF assms(2) b]
  have "a < b \<longleftrightarrow> y < y' \<or> y = y' \<and> (m < m' \<or> m = m' \<and> (d < d' \<or> d = d' \<and> (h < h' \<or> h = h' \<and>
      (mi < mi' \<or> mi = mi' \<and> sec < sec'))))"
    using a(2-) b(2-) by (simp add: a(1) b(1) append_less)
  also have "\<dots> \<longleftrightarrow> t < u"
    using number_order [of y y'] number_order [of m m'] number_order [of d d'] number_order [of h h']
      number_order [of mi mi'] number_order [of sec sec'] a(2-) b(2-) da db
    by (simp add: t u pair_less del: less_prod_simp)
  finally show ?thesis .
qed

theorem whole_second_text_order_witness:
  "''2026-01-01T00:00:59Z'' < ''2026-01-01T00:01:00Z'' \<longleftrightarrow>
     (2026, 1, 1, 0, 0, 59, 0) < ((2026, 1, 1, 0, 1, 0, 0) :: datetime)"
proof -
  have "parse_timestamp ''2026-01-01T00:00:59Z'' = Inr (2026, 1, 1, 0, 0, 59, 0)"
    "parse_timestamp ''2026-01-01T00:01:00Z'' = Inr (2026, 1, 1, 0, 1, 0, 0)"
    by code_simp+
  from whole_second_text_order [OF this] show ?thesis by simp
qed

end
