(* ===== verification/Approval.thy ===== *)
theory Approval
  imports Platform Stores
begin

text \<open>
  Human approval of promotions: \<^verbatim>\<open>InMemoryApprovalRegister\<close> of
  \<^verbatim>\<open>packages/management-register/src/asklegal_management_register_ports/approval.py\<close>. A decision
  is recorded per manifest, an approved one may be revoked, invalidated or consumed once. Times
  are compared as text, as the code does. The digest is a field of the \<^verbatim>\<open>platform\<close>.
\<close>

datatype approval_error =
    APPROVAL_CONSUMED | APPROVAL_INVALIDATED | APPROVAL_NOT_FOUND | APPROVAL_REJECTED
  | APPROVAL_REVOKED | AUTHORITY_REMOVED | MANIFEST_DRIFT | MANIFEST_INVALID | REASON_REQUIRED
  | UNAUTHORIZED_PRINCIPAL

datatype approval_state = Approved | Consumed | Invalidated | Rejected | Revoked

primrec approval_state_value :: "approval_state \<Rightarrow> string" where
  "approval_state_value Approved = ''APPROVAL_APPROVED''"
| "approval_state_value Consumed = ''APPROVAL_CONSUMED''"
| "approval_state_value Invalidated = ''APPROVAL_INVALIDATED''"
| "approval_state_value Rejected = ''APPROVAL_REJECTED''"
| "approval_state_value Revoked = ''APPROVAL_REVOKED''"

primrec error_for_state :: "approval_state \<Rightarrow> approval_error" where
  "error_for_state Consumed = APPROVAL_CONSUMED"
| "error_for_state Invalidated = APPROVAL_INVALIDATED"
| "error_for_state Rejected = APPROVAL_REJECTED"
| "error_for_state Revoked = APPROVAL_REVOKED"
| "error_for_state Approved = MANIFEST_INVALID"

section \<open>Values\<close>

record reviewer_principal =
  rp_subject :: string
  rp_delegated_human :: bool
  rp_roles :: "string list"

record manifest_snapshot =
  ms_manifest_id :: string
  ms_fingerprint :: string
  ms_expected_base :: string
  ms_valid_from :: string
  ms_valid_until :: string
  ms_predicates :: "(string \<times> string \<times> string) list"

record review_comment =
  rc_comment_id :: string
  rc_manifest_id :: string
  rc_manifest_fingerprint :: string
  rc_section :: string
  rc_author_subject :: string
  rc_reason :: string
  rc_recorded_at :: string

record approval_decision =
  ad_approval_id :: string
  ad_manifest_id :: string
  ad_manifest_fingerprint :: string
  ad_decision :: string
  ad_reviewer_subject :: string
  ad_reason :: string
  ad_decision_time :: string
  ad_expected_base :: string
  ad_authority_evidence_ref :: string

record approval_event =
  ae_event_id :: string
  ae_approval_id :: string
  ae_from_state :: approval_state
  ae_to_state :: approval_state
  ae_event_type :: string
  ae_responsible_subject :: string
  ae_event_time :: string
  ae_reason :: string
  ae_execution_lineage_id :: string

record approval_projection =
  ap_decision :: approval_decision
  ap_state :: approval_state
  ap_execution_lineage_id :: string

record approval_consumption =
  ac_current_base :: string
  ac_current_predicates :: "(string \<times> string \<times> string) list"
  ac_at :: string

record approval_transition =
  tn_state :: approval_state
  tn_event_type :: string
  tn_subject :: string
  tn_at :: string
  tn_reason :: string
  tn_lineage :: string

section \<open>The register\<close>

record approval_register =
  ar_assignments :: "(string \<times> string list) list"
  ar_approvals :: "(string \<times> approval_projection) list"
  ar_manifest_approval :: "(string \<times> string) list"
  ar_comments :: "review_comment list"
  ar_events :: "approval_event list"

definition new_approval_register :: "(string \<times> string list) list \<Rightarrow> approval_register" where
  "new_approval_register assignments = \<lparr>ar_assignments = assignments, ar_approvals = [],
     ar_manifest_approval = [], ar_comments = [], ar_events = []\<rparr>"

type_synonym 'a approval_outcome = "(approval_error + 'a) \<times> approval_register"

text \<open>\<^verbatim>\<open>_stable_id\<close>: the values joined by the unit separator, hashed and cut to 48 digits.\<close>

definition stable_id :: "platform \<Rightarrow> string \<Rightarrow> string list \<Rightarrow> string" where
  "stable_id P prefix values = prefix @ ''_'' @ take 48 (sha256_hex P (utf8 (join [CHR 0x1F] values)))"

definition set_roles :: "string \<Rightarrow> string list \<Rightarrow> approval_register \<Rightarrow> approval_register" where
  "set_roles subject roles R = R\<lparr>ar_assignments := AList.update subject roles (ar_assignments R)\<rparr>"

definition assigned_administrator :: "approval_register \<Rightarrow> string \<Rightarrow> bool" where
  "assigned_administrator R subject \<longleftrightarrow> (case map_of (ar_assignments R) subject of
     None \<Rightarrow> False | Some roles \<Rightarrow> ''PipelineAdministrator'' \<in> set roles)"

definition authorize :: "approval_register \<Rightarrow> reviewer_principal \<Rightarrow> approval_error option" where
  "authorize R p = raise_if
     (\<not> rp_delegated_human p \<or> ''PipelineAdministrator'' \<notin> set (rp_roles p)
      \<or> \<not> assigned_administrator R (rp_subject p)) UNAUTHORIZED_PRINCIPAL"

definition require_reason :: "string \<Rightarrow> approval_error option" where
  "require_reason reason = raise_if (strip reason = []) REASON_REQUIRED"

definition comment_on ::
    "platform \<Rightarrow> reviewer_principal \<Rightarrow> manifest_snapshot \<Rightarrow> string \<Rightarrow> string \<Rightarrow> string
       \<Rightarrow> approval_register \<Rightarrow> review_comment approval_outcome" where
  "comment_on P reviewer manifest section_name reason recorded_at R =
     (case first_raise [authorize R reviewer, require_reason reason] of
        Some e \<Rightarrow> (Inl e, R)
      | None \<Rightarrow>
          (let comment = \<lparr>rc_comment_id = stable_id P ''art''
                 [ms_manifest_id manifest, ms_fingerprint manifest, section_name,
                  rp_subject reviewer, reason, recorded_at],
               rc_manifest_id = ms_manifest_id manifest,
               rc_manifest_fingerprint = ms_fingerprint manifest, rc_section = section_name,
               rc_author_subject = rp_subject reviewer, rc_reason = reason,
               rc_recorded_at = recorded_at\<rparr>
           in (Inr comment, R\<lparr>ar_comments := ar_comments R @ [comment]\<rparr>)))"

definition approval_id_of :: "platform \<Rightarrow> manifest_snapshot \<Rightarrow> string \<Rightarrow> string" where
  "approval_id_of P manifest decision =
     stable_id P ''apr'' [ms_manifest_id manifest, ms_fingerprint manifest, decision]"

definition decided_projection ::
    "platform \<Rightarrow> reviewer_principal \<Rightarrow> manifest_snapshot \<Rightarrow> string \<Rightarrow> string \<Rightarrow> string
       \<Rightarrow> approval_projection" where
  "decided_projection P reviewer manifest decision reason decision_time =
     \<lparr>ap_decision = \<lparr>ad_approval_id = approval_id_of P manifest decision,
        ad_manifest_id = ms_manifest_id manifest,
        ad_manifest_fingerprint = ms_fingerprint manifest, ad_decision = decision,
        ad_reviewer_subject = rp_subject reviewer, ad_reason = reason,
        ad_decision_time = decision_time, ad_expected_base = ms_expected_base manifest,
        ad_authority_evidence_ref = stable_id P ''art'' [rp_subject reviewer, decision_time, ''authority'']\<rparr>,
      ap_state = (if decision = ''APPROVED'' then Approved else Rejected),
      ap_execution_lineage_id = ''''\<rparr>"

text \<open>A known manifest has its approval; \<^verbatim>\<open>self._approvals[existing_id]\<close> cannot miss.\<close>

definition decide ::
    "platform \<Rightarrow> reviewer_principal \<Rightarrow> manifest_snapshot \<Rightarrow> string \<Rightarrow> string \<Rightarrow> string
       \<Rightarrow> approval_register \<Rightarrow> approval_projection approval_outcome" where
  "decide P reviewer manifest decision reason decision_time R =
     (case first_raise
        [authorize R reviewer, require_reason reason,
         raise_if (decision \<notin> {''APPROVED'', ''REJECTED''}) MANIFEST_INVALID] of
        Some e \<Rightarrow> (Inl e, R)
      | None \<Rightarrow>
          (let approval_id = approval_id_of P manifest decision;
               projection = decided_projection P reviewer manifest decision reason decision_time in
           case map_of (ar_manifest_approval R) (ms_manifest_id manifest) of
             Some existing_id \<Rightarrow>
               if map_of (ar_approvals R) existing_id = Some projection then (Inr projection, R)
               else (Inl MANIFEST_DRIFT, R)
           | None \<Rightarrow>
               (Inr projection, R\<lparr>
                  ar_approvals := AList.update approval_id projection (ar_approvals R),
                  ar_manifest_approval := AList.update (ms_manifest_id manifest) approval_id
                    (ar_manifest_approval R)\<rparr>)))"

definition apply_transition ::
    "platform \<Rightarrow> approval_projection \<Rightarrow> approval_transition \<Rightarrow> approval_register
       \<Rightarrow> approval_projection \<times> approval_register" where
  "apply_transition P current t R =
     (let a = ad_approval_id (ap_decision current);
          event = \<lparr>ae_event_id = stable_id P ''ape'' [a, approval_state_value (tn_state t), tn_at t, tn_lineage t],
            ae_approval_id = a, ae_from_state = ap_state current, ae_to_state = tn_state t,
            ae_event_type = tn_event_type t, ae_responsible_subject = tn_subject t,
            ae_event_time = tn_at t, ae_reason = tn_reason t, ae_execution_lineage_id = tn_lineage t\<rparr>;
          projection = \<lparr>ap_decision = ap_decision current, ap_state = tn_state t,
            ap_execution_lineage_id = tn_lineage t\<rparr>
      in (projection, R\<lparr>ar_events := ar_events R @ [event],
            ar_approvals := AList.update a projection (ar_approvals R)\<rparr>))"

definition get_approval :: "approval_register \<Rightarrow> string \<Rightarrow> approval_error + approval_projection" where
  "get_approval R approval_id = (case map_of (ar_approvals R) approval_id of
     None \<Rightarrow> Inl APPROVAL_NOT_FOUND | Some p \<Rightarrow> Inr p)"

text \<open>The approval named, if it is still in the approved state.\<close>

definition pending :: "approval_register \<Rightarrow> string \<Rightarrow> approval_error + approval_projection" where
  "pending R approval_id = and_then (get_approval R approval_id) (\<lambda>current.
     if ap_state current \<noteq> Approved then Inl (error_for_state (ap_state current)) else Inr current)"

definition revoke ::
    "platform \<Rightarrow> reviewer_principal \<Rightarrow> string \<Rightarrow> string \<Rightarrow> string \<Rightarrow> approval_register
       \<Rightarrow> approval_projection approval_outcome" where
  "revoke P reviewer approval_id reason at_time R =
     (case first_raise [authorize R reviewer, require_reason reason] of
        Some e \<Rightarrow> (Inl e, R)
      | None \<Rightarrow>
          (case pending R approval_id of
             Inl e \<Rightarrow> (Inl e, R)
           | Inr current \<Rightarrow> apfst Inr (apply_transition P current
               \<lparr>tn_state = Revoked, tn_event_type = ''REVOKE'', tn_subject = rp_subject reviewer,
                tn_at = at_time, tn_reason = reason, tn_lineage = ''''\<rparr> R)))"

definition invalidate ::
    "platform \<Rightarrow> string \<Rightarrow> string \<Rightarrow> string \<Rightarrow> approval_register
       \<Rightarrow> approval_projection approval_outcome" where
  "invalidate P approval_id reason at_time R =
     (case require_reason reason of
        Some e \<Rightarrow> (Inl e, R)
      | None \<Rightarrow>
          (case pending R approval_id of
             Inl e \<Rightarrow> (Inl e, R)
           | Inr current \<Rightarrow> apfst Inr (apply_transition P current
               \<lparr>tn_state = Invalidated, tn_event_type = ''INVALIDATE'', tn_subject = ''SYSTEM_VALIDATOR'',
                tn_at = at_time, tn_reason = reason, tn_lineage = ''''\<rparr> R)))"

definition manifest_holds :: "manifest_snapshot \<Rightarrow> approval_consumption \<Rightarrow> bool" where
  "manifest_holds manifest context1 \<longleftrightarrow>
     \<not> (ac_at context1 < ms_valid_from manifest \<or> ms_valid_until manifest < ac_at context1
        \<or> ac_current_base context1 \<noteq> ms_expected_base manifest
        \<or> ac_current_predicates context1 \<noteq> ms_predicates manifest)"

definition validity_failure :: "approval_consumption \<Rightarrow> approval_transition" where
  "validity_failure context1 = \<lparr>tn_state = Invalidated, tn_event_type = ''INVALIDATE'',
     tn_subject = ''SYSTEM_VALIDATOR'', tn_at = ac_at context1,
     tn_reason = ''manifest validity predicate failed'', tn_lineage = ''''\<rparr>"

definition consumption :: "string \<Rightarrow> approval_consumption \<Rightarrow> approval_transition" where
  "consumption lineage context1 = \<lparr>tn_state = Consumed,
     tn_event_type = ''CONSUME_FOR_ONE_EXECUTION_LINEAGE'', tn_subject = ''PROMOTION_WORKER'',
     tn_at = ac_at context1, tn_reason = ''exact approval consumed'', tn_lineage = lineage\<rparr>"

lemma consume_transitions [simp]:
  "tn_state (validity_failure c) = Invalidated" "tn_lineage (validity_failure c) = ''''"
  "tn_state (consumption l c) = Consumed" "tn_lineage (consumption l c) = l"
  by (simp_all add: validity_failure_def consumption_def)

definition consume ::
    "platform \<Rightarrow> string \<Rightarrow> string \<Rightarrow> manifest_snapshot \<Rightarrow> approval_consumption \<Rightarrow> approval_register
       \<Rightarrow> approval_projection approval_outcome" where
  "consume P approval_id lineage manifest context1 R =
     (case get_approval R approval_id of
        Inl e \<Rightarrow> (Inl e, R)
      | Inr current \<Rightarrow>
          (let d = ap_decision current;
               same_manifest = (ad_manifest_id d = ms_manifest_id manifest
                 \<and> ad_manifest_fingerprint d = ms_fingerprint manifest) in
           if ap_state current = Consumed \<and> ap_execution_lineage_id current = lineage \<and> same_manifest
           then (Inr current, R)
           else if ap_state current \<noteq> Approved then (Inl (error_for_state (ap_state current)), R)
           else if \<not> assigned_administrator R (ad_reviewer_subject d) then (Inl AUTHORITY_REMOVED, R)
           else if \<not> same_manifest then (Inl MANIFEST_DRIFT, R)
           else if \<not> manifest_holds manifest context1
           then (Inl MANIFEST_INVALID, snd (apply_transition P current (validity_failure context1) R))
           else apfst Inr (apply_transition P current (consumption lineage context1) R)))"

end
