(* ===== verification/ApprovalProperties.thy ===== *)
theory ApprovalProperties
  imports Approval TimestampOrder
begin

text \<open>
  What an approval guarantees: it is a human decision on one exact manifest, it is final once it
  left the approved state, it is consumed by one execution lineage, and a failed validity check
  uses it up.
\<close>

section \<open>Operations and their effect\<close>

datatype approval_op =
    RolesOp string "string list"
  | CommentOp reviewer_principal manifest_snapshot string string string
  | DecideOp reviewer_principal manifest_snapshot string string string
  | RevokeOp reviewer_principal string string string
  | InvalidateOp string string string
  | ConsumeOp string string manifest_snapshot approval_consumption

fun perform_approval :: "platform \<Rightarrow> approval_op \<Rightarrow> approval_register \<Rightarrow> unit approval_outcome" where
  "perform_approval P (RolesOp subject roles) R = (Inr (), set_roles subject roles R)"
| "perform_approval P (CommentOp rv m sec reason at) R =
     apfst (map_sum id (\<lambda>_. ())) (comment_on P rv m sec reason at R)"
| "perform_approval P (DecideOp rv m dec reason at) R =
     apfst (map_sum id (\<lambda>_. ())) (decide P rv m dec reason at R)"
| "perform_approval P (RevokeOp rv a reason at) R =
     apfst (map_sum id (\<lambda>_. ())) (revoke P rv a reason at R)"
| "perform_approval P (InvalidateOp a reason at) R =
     apfst (map_sum id (\<lambda>_. ())) (invalidate P a reason at R)"
| "perform_approval P (ConsumeOp a lineage m ctx) R =
     apfst (map_sum id (\<lambda>_. ())) (consume P a lineage m ctx R)"

text \<open>The well-formedness of the register: approvals under their own identity and manifest.\<close>

definition approvals_ok :: "approval_register \<Rightarrow> bool" where
  "approvals_ok R \<longleftrightarrow> (\<forall>a p. map_of (ar_approvals R) a = Some p \<longrightarrow>
     ad_approval_id (ap_decision p) = a
     \<and> map_of (ar_manifest_approval R) (ad_manifest_id (ap_decision p)) = Some a
     \<and> (ap_state p = Approved \<longrightarrow> ad_decision (ap_decision p) = ''APPROVED''))"

lemma pending_Inr:
  "pending R a = Inr p \<longleftrightarrow> map_of (ar_approvals R) a = Some p \<and> ap_state p = Approved"
  by (auto simp: pending_def get_approval_def split: option.splits if_splits)

lemma apply_transition_simps [simp]:
  "ar_approvals (snd (apply_transition P c t R)) = AList.update (ad_approval_id (ap_decision c))
     \<lparr>ap_decision = ap_decision c, ap_state = tn_state t, ap_execution_lineage_id = tn_lineage t\<rparr>
     (ar_approvals R)"
  "ar_manifest_approval (snd (apply_transition P c t R)) = ar_manifest_approval R"
  "ar_assignments (snd (apply_transition P c t R)) = ar_assignments R"
  "fst (apply_transition P c t R) =
     \<lparr>ap_decision = ap_decision c, ap_state = tn_state t, ap_execution_lineage_id = tn_lineage t\<rparr>"
  by (simp_all add: apply_transition_def Let_def)

text \<open>What an operation can do to the approvals.\<close>

definition approvals_moved :: "approval_register \<Rightarrow> approval_register \<Rightarrow> string \<Rightarrow> approval_state \<Rightarrow> bool" where
  "approvals_moved R R' a s \<longleftrightarrow> (\<exists>c l. map_of (ar_approvals R) a = Some c \<and> ap_state c = Approved
     \<and> ar_approvals R' = AList.update a \<lparr>ap_decision = ap_decision c, ap_state = s,
         ap_execution_lineage_id = l\<rparr> (ar_approvals R)
     \<and> ar_manifest_approval R' = ar_manifest_approval R)"

lemma moved_by_transition:
  assumes "approvals_ok R" and "map_of (ar_approvals R) a = Some c" and "ap_state c = Approved"
  shows "approvals_moved R (snd (apply_transition P c t R)) a (tn_state t)"
proof -
  have "ad_approval_id (ap_decision c) = a" using assms(1,2) unfolding approvals_ok_def by blast
  with assms(2,3) show ?thesis unfolding approvals_moved_def by auto
qed

lemma approval_step_cases:
  assumes "approvals_ok R" and R': "R' = snd (perform_approval P op R)"
  obtains (same) "ar_approvals R' = ar_approvals R" "ar_manifest_approval R' = ar_manifest_approval R"
  | (decided) rv m dec reason at where "op = DecideOp rv m dec reason at"
      "authorize R rv = None" "require_reason reason = None"
      "map_of (ar_manifest_approval R) (ms_manifest_id m) = None"
      "ar_approvals R' = AList.update (approval_id_of P m dec)
         (decided_projection P rv m dec reason at) (ar_approvals R)"
      "ar_manifest_approval R' = AList.update (ms_manifest_id m) (approval_id_of P m dec)
         (ar_manifest_approval R)"
  | (moved) a s where "approvals_moved R R' a s" "s \<noteq> Approved"
proof (cases op)
  case (RolesOp subject roles)
  with R' show ?thesis by (intro same) (simp_all add: set_roles_def)
next
  case (CommentOp rv m sec reason at)
  with R' show ?thesis by (intro same) (simp_all add: comment_on_def Let_def split: option.splits)
next
  case (DecideOp rv m dec reason at)
  let ?g = "first_raise [authorize R rv, require_reason reason,
       raise_if (dec \<notin> {''APPROVED'', ''REJECTED''}) MANIFEST_INVALID]"
  consider (raised) e where "?g = Some e"
    | (known) x where "?g = None" "map_of (ar_manifest_approval R) (ms_manifest_id m) = Some x"
    | (fresh) "?g = None" "map_of (ar_manifest_approval R) (ms_manifest_id m) = None"
    by (cases ?g; cases "map_of (ar_manifest_approval R) (ms_manifest_id m)") auto
  then show ?thesis
  proof cases
    case raised
    with DecideOp R' show ?thesis by (intro same) (simp_all add: decide_def)
  next
    case known
    with DecideOp R' show ?thesis
      by (intro same) (simp_all add: decide_def Let_def del: first_raise_Cons_None)
  next
    case fresh
    then have "authorize R rv = None" "require_reason reason = None" by simp_all
    with fresh DecideOp R' show ?thesis
      by (intro decided [of rv m dec reason at]) (simp_all add: decide_def Let_def del: first_raise_Cons_None)
  qed
next
  case (RevokeOp rv a reason at)
  show ?thesis
  proof (cases "first_raise [authorize R rv, require_reason reason]")
    case None
    show ?thesis
    proof (cases "pending R a")
      case (Inl e)
      with None RevokeOp R' show ?thesis by (intro same) (simp_all add: revoke_def)
    next
      case (Inr c)
      with pending_Inr have "map_of (ar_approvals R) a = Some c" "ap_state c = Approved" by blast+
      from moved_by_transition [OF assms(1) this, of P "\<lparr>tn_state = Revoked, tn_event_type = ''REVOKE'',
          tn_subject = rp_subject rv, tn_at = at, tn_reason = reason, tn_lineage = ''''\<rparr>"]
        None Inr RevokeOp R' show ?thesis
        by (intro moved [of a Revoked]) (simp_all add: revoke_def apfst_def)
    qed
  next
    case (Some e)
    with RevokeOp R' show ?thesis by (intro same) (simp_all add: revoke_def)
  qed
next
  case (InvalidateOp a reason at)
  show ?thesis
  proof (cases "require_reason reason")
    case None
    show ?thesis
    proof (cases "pending R a")
      case (Inl e)
      with None InvalidateOp R' show ?thesis by (intro same) (simp_all add: invalidate_def)
    next
      case (Inr c)
      with pending_Inr have "map_of (ar_approvals R) a = Some c" "ap_state c = Approved" by blast+
      from moved_by_transition [OF assms(1) this, of P "\<lparr>tn_state = Invalidated,
          tn_event_type = ''INVALIDATE'', tn_subject = ''SYSTEM_VALIDATOR'', tn_at = at,
          tn_reason = reason, tn_lineage = ''''\<rparr>"] None Inr InvalidateOp R' show ?thesis
        by (intro moved [of a Invalidated]) (simp_all add: invalidate_def apfst_def)
    qed
  next
    case (Some e)
    with InvalidateOp R' show ?thesis by (intro same) (simp_all add: invalidate_def)
  qed
next
  case (ConsumeOp a lineage m ctx)
  show ?thesis
  proof (cases "pending R a")
    case (Inl e)
    then have "snd (consume P a lineage m ctx R) = R"
      by (auto simp: consume_def pending_def Let_def split: sum.splits if_splits)
    with ConsumeOp R' show ?thesis by (intro same) simp_all
  next
    case (Inr c)
    with pending_Inr have c: "map_of (ar_approvals R) a = Some c" "ap_state c = Approved" by blast+
    then have "snd (consume P a lineage m ctx R) \<in> {R, snd (apply_transition P c (validity_failure ctx) R),
        snd (apply_transition P c (consumption lineage ctx) R)}"
      by (auto simp: consume_def get_approval_def Let_def)
    with moved_by_transition [OF assms(1) c, of P "validity_failure ctx"]
      moved_by_transition [OF assms(1) c, of P "consumption lineage ctx"] ConsumeOp R'
    show ?thesis by (auto intro: same moved)
  qed
qed

lemma approvals_ok_step:
  assumes "approvals_ok R"
  shows "approvals_ok (snd (perform_approval P op R))"
  using assms refl
proof (cases rule: approval_step_cases [where P = P and op = op])
  case same
  with assms show ?thesis by (simp add: approvals_ok_def)
next
  case (decided rv m dec reason at)
  have old: "ad_approval_id (ap_decision p) = a"
    "map_of (ar_manifest_approval R) (ad_manifest_id (ap_decision p)) = Some a"
    "ap_state p = Approved \<longrightarrow> ad_decision (ap_decision p) = ''APPROVED''"
    if "map_of (ar_approvals R) a = Some p" for a p
    using assms that unfolding approvals_ok_def by blast+
  have other: "ad_manifest_id (ap_decision p) \<noteq> ms_manifest_id m"
    if "map_of (ar_approvals R) a = Some p" for a p
    using old(2) [OF that] decided(4) by auto
  show ?thesis
    unfolding approvals_ok_def decided(5,6)
    using old other by (auto simp: decided_projection_def)
next
  case (moved a s)
  with assms show ?thesis by (auto simp: approvals_ok_def approvals_moved_def split: if_splits)
qed

interpretation approval_store: state_store "new_approval_register assignments" "perform_approval P"
  "\<lambda>_. True" approvals_ok
  for assignments P
  by unfold_locales (auto simp: approvals_ok_step, simp add: approvals_ok_def new_approval_register_def)

lemma approval_history_ok: "approvals_ok (run (perform_approval P) ops (new_approval_register assignments))"
  by (rule approval_store.reachable_inv) (simp add: list_all_iff)

section \<open>Finality\<close>

text \<open>
  No later decision on another manifest gets the identity of this approval. Identities are hashes
  of the manifest and the decision, cut to 192 bits, so this is the absence of a collision.
\<close>

definition no_collision :: "platform \<Rightarrow> string \<Rightarrow> string \<Rightarrow> approval_op list \<Rightarrow> bool" where
  "no_collision P a manifest_id ops \<longleftrightarrow> list_all (\<lambda>op. case op of
     DecideOp _ m dec _ _ \<Rightarrow> approval_id_of P m dec = a \<longrightarrow> ms_manifest_id m = manifest_id
   | _ \<Rightarrow> True) ops"

lemma settled_step:
  assumes "approvals_ok R" and "map_of (ar_approvals R) a = Some p" and "ap_state p \<noteq> Approved"
    and "no_collision P a (ad_manifest_id (ap_decision p)) [op]"
  shows "map_of (ar_approvals (snd (perform_approval P op R))) a = Some p"
  using assms(1) refl
proof (cases rule: approval_step_cases [where P = P and op = op])
  case same
  with assms(2) show ?thesis by simp
next
  case (decided rv m dec reason at)
  have "map_of (ar_manifest_approval R) (ad_manifest_id (ap_decision p)) = Some a"
    using assms(1,2) unfolding approvals_ok_def by blast
  with decided(4) have "ms_manifest_id m \<noteq> ad_manifest_id (ap_decision p)" by auto
  with assms(4) decided(1) have "approval_id_of P m dec \<noteq> a" by (auto simp: no_collision_def)
  with decided(5) assms(2) show ?thesis by simp
next
  case (moved b s)
  with assms(2,3) show ?thesis by (auto simp: approvals_moved_def)
qed

lemma settled_run:
  "approvals_ok R \<Longrightarrow> map_of (ar_approvals R) a = Some p \<Longrightarrow> ap_state p \<noteq> Approved
    \<Longrightarrow> no_collision P a (ad_manifest_id (ap_decision p)) ops
    \<Longrightarrow> map_of (ar_approvals (run (perform_approval P) ops R)) a = Some p"
proof (induction ops arbitrary: R)
  case (Cons op ops)
  then have "no_collision P a (ad_manifest_id (ap_decision p)) [op]"
    "no_collision P a (ad_manifest_id (ap_decision p)) ops" by (simp_all add: no_collision_def)
  with Cons show ?case by (simp add: settled_step approvals_ok_step)
qed simp

lemma pending_settled:
  "map_of (ar_approvals R) a = Some p \<Longrightarrow> ap_state p \<noteq> Approved \<Longrightarrow> pending R a = Inl (error_for_state (ap_state p))"
  by (simp add: pending_def get_approval_def)

text \<open>
  An approval that left the approved state is final: after any later history without an
  identity collision it reads the same, no one can revoke or invalidate it, and consuming it
  returns it only for the execution lineage and manifest that consumed it and raises the error of
  its state otherwise. So an approval is consumed by at most one execution lineage.
\<close>

theorem settled_approval_final:
  assumes "R = run (perform_approval P) ops (new_approval_register assignments)"
    and "map_of (ar_approvals R) a = Some p" and "ap_state p \<noteq> Approved"
    and "no_collision P a (ad_manifest_id (ap_decision p)) later"
    and "R2 = run (perform_approval P) later R"
  shows "map_of (ar_approvals R2) a = Some p
    \<and> consume P a lineage m ctx R2
        = (if ap_state p = Consumed \<and> ap_execution_lineage_id p = lineage
              \<and> ad_manifest_id (ap_decision p) = ms_manifest_id m
              \<and> ad_manifest_fingerprint (ap_decision p) = ms_fingerprint m
           then Inr p else Inl (error_for_state (ap_state p)), R2)
    \<and> snd (revoke P rv a reason at_time R2) = R2
    \<and> snd (invalidate P a reason at_time R2) = R2"
proof -
  have "approvals_ok R" using assms(1) by (simp add: approval_history_ok)
  from settled_run [OF this assms(2-4)] assms(5) have p: "map_of (ar_approvals R2) a = Some p" by simp
  from pending_settled [OF this assms(3)] p assms(3) show ?thesis
    by (auto simp: consume_def get_approval_def revoke_def invalidate_def Let_def split: option.splits)
qed

text \<open>
  A failed validity check uses the approval up: when the manifest matches and its reviewer is
  still assigned but the time window, the base state or the predicates do not hold, consuming
  raises, and after any later history without an identity collision consuming it again, under any
  circumstances, raises too.
\<close>

theorem failed_validity_is_final:
  assumes "R = run (perform_approval P) ops (new_approval_register assignments)"
    and "map_of (ar_approvals R) a = Some p" and "ap_state p = Approved"
    and "assigned_administrator R (ad_reviewer_subject (ap_decision p))"
    and "ad_manifest_id (ap_decision p) = ms_manifest_id m"
    and "ad_manifest_fingerprint (ap_decision p) = ms_fingerprint m"
    and "\<not> manifest_holds m ctx"
    and "no_collision P a (ms_manifest_id m) later"
    and "R2 = run (perform_approval P) later (snd (consume P a lineage m ctx R))"
  shows "fst (consume P a lineage m ctx R) = Inl MANIFEST_INVALID
    \<and> consume P a lineage' m' ctx' R2 = (Inl APPROVAL_INVALIDATED, R2)"
proof -
  have ok: "approvals_ok R" using assms(1) by (simp add: approval_history_ok)
  then have id: "ad_approval_id (ap_decision p) = a" using assms(2) unfolding approvals_ok_def by blast
  let ?q = "\<lparr>ap_decision = ap_decision p, ap_state = Invalidated, ap_execution_lineage_id = ''''\<rparr>"
  let ?R1 = "snd (consume P a lineage m ctx R)"
  have first: "fst (consume P a lineage m ctx R) = Inl MANIFEST_INVALID"
    and q: "map_of (ar_approvals ?R1) a = Some ?q"
    using assms(2-7) id by (simp_all add: consume_def get_approval_def Let_def)
  have "approvals_ok ?R1" using approvals_ok_step [OF ok, of P "ConsumeOp a lineage m ctx"] by simp
  from settled_run [OF this q] assms(5,8,9) have "map_of (ar_approvals R2) a = Some ?q" by simp
  with first show ?thesis by (simp add: consume_def get_approval_def Let_def)
qed

section \<open>Provenance\<close>

lemma run_snoc: "run step (ops @ [op]) s = snd (step op (run step ops s))"
  by (simp add: run_append)

lemma approval_origin:
  "map_of (ar_approvals (run (perform_approval P) ops (new_approval_register assignments))) a = Some p
   \<Longrightarrow> \<exists>before rv m dec reason at_time after. ops = before @ DecideOp rv m dec reason at_time # after
     \<and> authorize (run (perform_approval P) before (new_approval_register assignments)) rv = None
     \<and> require_reason reason = None
     \<and> ap_decision p = ap_decision (decided_projection P rv m dec reason at_time)"
proof (induction ops arbitrary: a p rule: rev_induct)
  case Nil
  then show ?case by (simp add: new_approval_register_def)
next
  case (snoc op ops)
  let ?R = "run (perform_approval P) ops (new_approval_register assignments)"
  have step: "run (perform_approval P) (ops @ [op]) (new_approval_register assignments)
      = snd (perform_approval P op ?R)" by (rule run_snoc)
  have older: ?case if "map_of (ar_approvals ?R) b = Some q" "ap_decision p = ap_decision q" for b q
  proof -
    from snoc.IH [OF that(1)] obtain before rv m dec reason at_time after where
      "ops = before @ DecideOp rv m dec reason at_time # after"
      "authorize (run (perform_approval P) before (new_approval_register assignments)) rv = None"
      "require_reason reason = None"
      "ap_decision q = ap_decision (decided_projection P rv m dec reason at_time)" by blast
    with that(2) show ?thesis
      by (intro exI [of _ before] exI [of _ rv] exI [of _ m] exI [of _ dec] exI [of _ reason]
          exI [of _ at_time] exI [of _ "after @ [op]"]) simp
  qed
  from approval_history_ok refl show ?case
  proof (cases rule: approval_step_cases [where R = ?R and P = P and op = op])
    case same
    with snoc.prems step older show ?thesis by simp
  next
    case (decided rv m dec reason at_time)
    show ?thesis
    proof (cases "a = approval_id_of P m dec")
      case True
      with decided snoc.prems step have "p = decided_projection P rv m dec reason at_time" by simp
      with decided(1-3) show ?thesis by blast
    next
      case False
      with decided snoc.prems step older show ?thesis by simp
    qed
  next
    case (moved b s)
    with snoc.prems step older show ?thesis
      by (auto simp: approvals_moved_def split: if_splits)
  qed
qed

text \<open>
  No consumption without a human decision: when a fresh approval is consumed, an earlier
  operation of the history was an approving decision on this exact manifest identity and
  fingerprint, with a stated reason, by a delegated human who held the administrator role and was
  assigned it at that moment; that reviewer is still assigned, and the time window, the base
  state and the predicates of the manifest hold.
\<close>

theorem consumption_needs_human_decision:
  assumes "R = run (perform_approval P) ops (new_approval_register assignments)"
    and "map_of (ar_approvals R) a = Some c" and "ap_state c = Approved"
    and "consume P a lineage m ctx R = (Inr p, R')"
  shows "\<exists>before rv m0 reason at_time after.
      ops = before @ DecideOp rv m0 ''APPROVED'' reason at_time # after
    \<and> rp_delegated_human rv \<and> ''PipelineAdministrator'' \<in> set (rp_roles rv) \<and> strip reason \<noteq> []
    \<and> assigned_administrator (run (perform_approval P) before (new_approval_register assignments)) (rp_subject rv)
    \<and> assigned_administrator R (rp_subject rv)
    \<and> ms_manifest_id m0 = ms_manifest_id m \<and> ms_fingerprint m0 = ms_fingerprint m
    \<and> manifest_holds m ctx
    \<and> ap_state p = Consumed \<and> ap_execution_lineage_id p = lineage"
proof -
  have "approvals_ok R" using assms(1) by (simp add: approval_history_ok)
  with assms(2,3) have approved: "ad_decision (ap_decision c) = ''APPROVED''"
    unfolding approvals_ok_def by blast
  from approval_origin assms(1,2) obtain before rv m0 dec reason at_time after where
    ops: "ops = before @ DecideOp rv m0 dec reason at_time # after" and
    auth: "authorize (run (perform_approval P) before (new_approval_register assignments)) rv = None"
      "require_reason reason = None" and
    dec: "ap_decision c = ap_decision (decided_projection P rv m0 dec reason at_time)" by blast
  from dec approved have "dec = ''APPROVED''" by (simp add: decided_projection_def)
  moreover have "assigned_administrator R (rp_subject rv)"
    "ms_manifest_id m0 = ms_manifest_id m" "ms_fingerprint m0 = ms_fingerprint m" "manifest_holds m ctx"
    "ap_state p = Consumed" "ap_execution_lineage_id p = lineage"
    using assms(2-4) dec
    by (auto simp: consume_def get_approval_def Let_def decided_projection_def apfst_def
        apply_transition_def split: if_splits)
  moreover have "rp_delegated_human rv" "''PipelineAdministrator'' \<in> set (rp_roles rv)"
    "strip reason \<noteq> []"
    "assigned_administrator (run (perform_approval P) before (new_approval_register assignments)) (rp_subject rv)"
    using auth by (simp_all add: authorize_def require_reason_def)
  ultimately show ?thesis using ops
    by (intro exI [of _ before] exI [of _ rv] exI [of _ m0] exI [of _ reason] exI [of _ at_time]
        exI [of _ after]) simp
qed

section \<open>A concrete approval\<close>

definition sample_reviewer :: reviewer_principal where
  "sample_reviewer = \<lparr>rp_subject = ''alice'', rp_delegated_human = True,
     rp_roles = [''PipelineAdministrator'']\<rparr>"

definition sample_manifest :: manifest_snapshot where
  "sample_manifest = \<lparr>ms_manifest_id = ''mft-1'', ms_fingerprint = ''fp-1'',
     ms_expected_base = ''srv-1'', ms_valid_from = ''2026-01-01T00:00:00Z'',
     ms_valid_until = ''2026-01-02T00:00:00Z'', ms_predicates = []\<rparr>"

definition sample_context :: "string \<Rightarrow> approval_consumption" where
  "sample_context at_time = \<lparr>ac_current_base = ''srv-1'', ac_current_predicates = [], ac_at = at_time\<rparr>"

definition sample_decision :: approval_op where
  "sample_decision = DecideOp sample_reviewer sample_manifest ''APPROVED'' ''checked'' ''2026-01-01T08:00:00Z''"

definition sample_start :: approval_register where
  "sample_start = new_approval_register [(''alice'', [''PipelineAdministrator''])]"

definition sample_approval :: string where
  "sample_approval = approval_id_of demo_platform sample_manifest ''APPROVED''"

definition sample_projection :: approval_projection where
  "sample_projection = decided_projection demo_platform sample_reviewer sample_manifest ''APPROVED''
     ''checked'' ''2026-01-01T08:00:00Z''"

definition sample_decided :: approval_register where
  "sample_decided = sample_start\<lparr>ar_approvals := [(sample_approval, sample_projection)],
     ar_manifest_approval := [(''mft-1'', sample_approval)]\<rparr>"

lemma sample_decides: "run (perform_approval demo_platform) [sample_decision] sample_start = sample_decided"
proof -
  have "authorize sample_start sample_reviewer = None"
    by (simp add: authorize_def raise_if_def sample_start_def sample_reviewer_def
        assigned_administrator_def new_approval_register_def)
  moreover have "require_reason ''checked'' = None"
    by (simp add: require_reason_def strip_def is_space_def)
  moreover have "ar_manifest_approval sample_start = []" "ar_approvals sample_start = []"
    by (simp_all add: sample_start_def new_approval_register_def)
  moreover have "ms_manifest_id sample_manifest = ''mft-1''" by (simp add: sample_manifest_def)
  ultimately show ?thesis
    by (simp add: sample_decision_def decide_def Let_def sample_decided_def sample_approval_def
        sample_projection_def construct_def raise_if_def)
qed

lemma sample_decided_fields:
  "map_of (ar_approvals sample_decided) sample_approval = Some sample_projection"
  "assigned_administrator sample_decided ''alice''"
  "ap_state sample_projection = Approved"
  "ad_approval_id (ap_decision sample_projection) = sample_approval"
  "ad_reviewer_subject (ap_decision sample_projection) = ''alice''"
  "ad_manifest_id (ap_decision sample_projection) = ms_manifest_id sample_manifest"
  "ad_manifest_fingerprint (ap_decision sample_projection) = ms_fingerprint sample_manifest"
  by (simp_all add: sample_decided_def sample_start_def new_approval_register_def
      assigned_administrator_def sample_projection_def decided_projection_def sample_reviewer_def
      sample_approval_def)

lemma sample_window:
  "manifest_holds sample_manifest (sample_context ''2026-01-01T09:00:00Z'')"
  "\<not> manifest_holds sample_manifest (sample_context ''2026-01-03T00:00:00Z'')"
  by code_simp+

definition sample_consumption :: approval_op where
  "sample_consumption = ConsumeOp sample_approval ''exe-1'' sample_manifest (sample_context ''2026-01-01T09:00:00Z'')"

lemma sample_consumes:
  "consume demo_platform sample_approval ''exe-1'' sample_manifest (sample_context ''2026-01-01T09:00:00Z'')
     sample_decided = apfst Inr (apply_transition demo_platform sample_projection
        (consumption ''exe-1'' (sample_context ''2026-01-01T09:00:00Z'')) sample_decided)"
  by (simp add: consume_def get_approval_def sample_decided_fields sample_window)

theorem settled_approval_final_witness:
  "fst (consume demo_platform sample_approval ''exe-2'' sample_manifest (sample_context ''2026-01-01T09:00:00Z'')
     (run (perform_approval demo_platform) [sample_decision, sample_consumption, RolesOp ''alice'' []]
        sample_start)) = Inl APPROVAL_CONSUMED"
proof -
  let ?R = "run (perform_approval demo_platform) [sample_decision, sample_consumption] sample_start"
  let ?p = "\<lparr>ap_decision = ap_decision sample_projection, ap_state = Consumed,
     ap_execution_lineage_id = ''exe-1''\<rparr>"
  have "?R = snd (consume demo_platform sample_approval ''exe-1'' sample_manifest
      (sample_context ''2026-01-01T09:00:00Z'') sample_decided)"
    using sample_decides by (simp add: sample_consumption_def)
  then have p: "map_of (ar_approvals ?R) sample_approval = Some ?p"
    by (simp add: sample_consumes sample_decided_fields)
  have R: "run (perform_approval demo_platform) [sample_decision, sample_consumption, RolesOp ''alice'' []]
        sample_start = run (perform_approval demo_platform) [RolesOp ''alice'' []] ?R" by simp
  show ?thesis
    unfolding R
    using settled_approval_final [OF _ p _ _ refl, of demo_platform
        "[sample_decision, sample_consumption]" "[(''alice'', [''PipelineAdministrator''])]"
        "[RolesOp ''alice'' []]" "''exe-2''" sample_manifest]
    by (simp add: no_collision_def sample_start_def)
qed

theorem failed_validity_is_final_witness:
  "fst (consume demo_platform sample_approval ''exe-1'' sample_manifest (sample_context ''2026-01-01T09:00:00Z'')
     (snd (consume demo_platform sample_approval ''exe-1'' sample_manifest
        (sample_context ''2026-01-03T00:00:00Z'') sample_decided))) = Inl APPROVAL_INVALIDATED"
  using failed_validity_is_final [OF sample_decides [symmetric, unfolded sample_start_def],
      of sample_approval sample_projection sample_manifest "sample_context ''2026-01-03T00:00:00Z''"
        "[]" _ "''exe-1''" "''exe-1''" sample_manifest "sample_context ''2026-01-01T09:00:00Z''"]
    sample_decided_fields sample_window
  by (simp add: no_collision_def)

theorem consumption_needs_human_decision_witness:
  "\<exists>before rv m0 reason at_time after.
     [sample_decision] = before @ DecideOp rv m0 ''APPROVED'' reason at_time # after
     \<and> rp_delegated_human rv \<and> ms_manifest_id m0 = ms_manifest_id sample_manifest"
proof -
  obtain p R' where "consume demo_platform sample_approval ''exe-1'' sample_manifest
      (sample_context ''2026-01-01T09:00:00Z'') sample_decided = (Inr p, R')"
    by (cases "apply_transition demo_platform sample_projection
          (consumption ''exe-1'' (sample_context ''2026-01-01T09:00:00Z'')) sample_decided")
      (simp add: sample_consumes)
  from consumption_needs_human_decision [OF sample_decides [symmetric, unfolded sample_start_def]
      sample_decided_fields(1,3) this] show ?thesis by blast
qed

text \<open>
  The validity window is compared as text, and a fraction of a second escapes it: this
  consumption happens after the manifest expired and its manifest still holds. The promotion
  worker writes its clock with microseconds, the manifests whole seconds.
\<close>

theorem fractional_expiry_accepted:
  "manifest_holds sample_manifest (sample_context ''2026-01-02T00:00:00.000001Z'')
   \<and> parse_timestamp (ms_valid_until sample_manifest) = Inr (2026, 1, 2, 0, 0, 0, 0)
   \<and> parse_timestamp (ac_at (sample_context ''2026-01-02T00:00:00.000001Z'')) = Inr (2026, 1, 2, 0, 0, 0, 1)
   \<and> (2026, 1, 2, 0, 0, 0, 0) < ((2026, 1, 2, 0, 0, 0, 1) :: datetime)"
proof (intro conjI)
  show "manifest_holds sample_manifest (sample_context ''2026-01-02T00:00:00.000001Z'')" by code_simp
  show "parse_timestamp (ms_valid_until sample_manifest) = Inr (2026, 1, 2, 0, 0, 0, 0)" by code_simp
  show "parse_timestamp (ac_at (sample_context ''2026-01-02T00:00:00.000001Z'')) = Inr (2026, 1, 2, 0, 0, 0, 1)"
    by code_simp
qed simp

end
