(* ===== verification/Durable.thy ===== *)
theory Durable
  imports Stores
begin

text \<open>
  The durable review-gate workflow of \<^verbatim>\<open>packages/durable-task-adapter\<close>: the payload objects of
  \<^verbatim>\<open>models.py\<close>, the authoritative register fake of \<^verbatim>\<open>fake_register.py\<close>, and the orchestrator and
  activities of \<^verbatim>\<open>workflow.py\<close>. The canonical JSON encoder is third-party code: the parameter
  \<^verbatim>\<open>canon\<close>. The orchestrator is a generator: its suspension points are the states of
  \<^verbatim>\<open>orchestration\<close>, what the scheduler sends in are the values of \<^verbatim>\<open>workflow_send\<close>.
\<close>

section \<open>Payloads\<close>

datatype durable_error =
    TokenInvalid | FingerprintInvalid | PayloadTooLarge
  | ExecutionConflict | EventConflict | CapabilityRejected | LineageRejected | ApprovalRejected
  | EffectFingerprintMismatch | LostEffectAcknowledgement | WrongExecution
  | EventTypeInvalid | ResolutionTypeInvalid | EffectResultTypeInvalid

datatype payload_value = PText string | PBool bool | PNull

type_synonym payload = "(string \<times> payload_value) list"

definition is_token_char :: "char \<Rightarrow> bool" where
  "is_token_char c \<longleftrightarrow> is_upper c \<or> is_lower c \<or> is_digit c
     \<or> c \<in> {CHR ''.'', CHR ''_'', CHR '':'', CHR ''-''}"

text \<open>\<^verbatim>\<open>[A-Za-z0-9][A-Za-z0-9._:-]*\<close>, at most 160 characters.\<close>

definition validate_token :: "string \<Rightarrow> durable_error option" where
  "validate_token v = raise_if
     (160 < length v \<or> \<not> (v \<noteq> [] \<and> (is_upper (hd v) \<or> is_lower (hd v) \<or> is_digit (hd v))
        \<and> list_all is_token_char v)) TokenInvalid"

definition validate_fingerprint :: "string \<Rightarrow> durable_error option" where
  "validate_fingerprint v = raise_if (\<not> fingerprint_pattern v) FingerprintInvalid"

definition validate_payload :: "(payload \<Rightarrow> string) \<Rightarrow> payload \<Rightarrow> durable_error option" where
  "validate_payload canon p = raise_if (64 * 1024 < length (canon p)) PayloadTooLarge"

record workflow_input =
  wi_execution_id :: string
  wi_workflow_version :: string
  wi_build_fingerprint :: string
  wi_configuration_fingerprint :: string
  wi_contract_fingerprint :: string
  wi_input_fingerprint :: string
  wi_effect_command_id :: string
  wi_effect_command_fingerprint :: string

definition workflow_input_json :: "workflow_input \<Rightarrow> payload" where
  "workflow_input_json w =
     [(''build_fingerprint'', PText (wi_build_fingerprint w)),
      (''configuration_fingerprint'', PText (wi_configuration_fingerprint w)),
      (''contract_fingerprint'', PText (wi_contract_fingerprint w)),
      (''effect_command_fingerprint'', PText (wi_effect_command_fingerprint w)),
      (''effect_command_id'', PText (wi_effect_command_id w)),
      (''execution_id'', PText (wi_execution_id w)),
      (''input_fingerprint'', PText (wi_input_fingerprint w)),
      (''workflow_version'', PText (wi_workflow_version w))]"

definition new_workflow_input :: "(payload \<Rightarrow> string) \<Rightarrow> workflow_input \<Rightarrow> durable_error + workflow_input" where
  "new_workflow_input canon w = construct
     [validate_token (wi_execution_id w), validate_token (wi_workflow_version w),
      validate_fingerprint (wi_build_fingerprint w),
      validate_fingerprint (wi_configuration_fingerprint w),
      validate_fingerprint (wi_contract_fingerprint w),
      validate_fingerprint (wi_input_fingerprint w),
      validate_token (wi_effect_command_id w),
      validate_fingerprint (wi_effect_command_fingerprint w),
      validate_payload canon (workflow_input_json w)] w"

record review_event_ref =
  rv_event_id :: string
  rv_event_fingerprint :: string

definition new_review_event_ref ::
    "(payload \<Rightarrow> string) \<Rightarrow> review_event_ref \<Rightarrow> durable_error + review_event_ref" where
  "new_review_event_ref canon e = construct
     [validate_token (rv_event_id e), validate_fingerprint (rv_event_fingerprint e),
      validate_payload canon [(''event_fingerprint'', PText (rv_event_fingerprint e)),
        (''event_id'', PText (rv_event_id e))]] e"

record review_event_request =
  rq_execution_id :: string
  rq_event_id :: string
  rq_event_fingerprint :: string

definition new_review_event_request ::
    "(payload \<Rightarrow> string) \<Rightarrow> review_event_request \<Rightarrow> durable_error + review_event_request" where
  "new_review_event_request canon r = construct
     [validate_token (rq_execution_id r), validate_token (rq_event_id r),
      validate_fingerprint (rq_event_fingerprint r),
      validate_payload canon [(''event_fingerprint'', PText (rq_event_fingerprint r)),
        (''event_id'', PText (rq_event_id r)), (''execution_id'', PText (rq_execution_id r))]] r"

datatype review_resolution_code =
    ACCEPTED | DUPLICATE_EVENT | STALE_FINGERPRINT | UNKNOWN_EVENT | WRONG_EXECUTION

primrec review_resolution_code_value :: "review_resolution_code \<Rightarrow> string" where
  "review_resolution_code_value ACCEPTED = ''ACCEPTED''"
| "review_resolution_code_value DUPLICATE_EVENT = ''DUPLICATE_EVENT''"
| "review_resolution_code_value STALE_FINGERPRINT = ''STALE_FINGERPRINT''"
| "review_resolution_code_value UNKNOWN_EVENT = ''UNKNOWN_EVENT''"
| "review_resolution_code_value WRONG_EXECUTION = ''WRONG_EXECUTION''"

record review_resolution =
  rr_code :: review_resolution_code
  rr_event_id :: string

definition new_review_resolution ::
    "(payload \<Rightarrow> string) \<Rightarrow> review_resolution \<Rightarrow> durable_error + review_resolution" where
  "new_review_resolution canon r = construct
     [validate_token (rr_event_id r),
      validate_payload canon [(''code'', PText (review_resolution_code_value (rr_code r))),
        (''event_id'', PText (rr_event_id r))]] r"

record effect_request =
  eq_execution_id :: string
  eq_workflow_version :: string
  eq_build_fingerprint :: string
  eq_configuration_fingerprint :: string
  eq_contract_fingerprint :: string
  eq_input_fingerprint :: string
  eq_approval_event_id :: string
  eq_command_id :: string
  eq_command_fingerprint :: string

definition effect_request_json :: "effect_request \<Rightarrow> payload" where
  "effect_request_json r =
     [(''approval_event_id'', PText (eq_approval_event_id r)),
      (''build_fingerprint'', PText (eq_build_fingerprint r)),
      (''command_fingerprint'', PText (eq_command_fingerprint r)),
      (''command_id'', PText (eq_command_id r)),
      (''configuration_fingerprint'', PText (eq_configuration_fingerprint r)),
      (''contract_fingerprint'', PText (eq_contract_fingerprint r)),
      (''execution_id'', PText (eq_execution_id r)),
      (''input_fingerprint'', PText (eq_input_fingerprint r)),
      (''workflow_version'', PText (eq_workflow_version r))]"

definition new_effect_request :: "(payload \<Rightarrow> string) \<Rightarrow> effect_request \<Rightarrow> durable_error + effect_request" where
  "new_effect_request canon r = construct
     [validate_token (eq_execution_id r), validate_token (eq_workflow_version r),
      validate_fingerprint (eq_build_fingerprint r),
      validate_fingerprint (eq_configuration_fingerprint r),
      validate_fingerprint (eq_contract_fingerprint r),
      validate_fingerprint (eq_input_fingerprint r),
      validate_token (eq_approval_event_id r), validate_token (eq_command_id r),
      validate_fingerprint (eq_command_fingerprint r),
      validate_payload canon (effect_request_json r)] r"

record effect_result =
  er_receipt_id :: string
  er_replayed :: bool

definition new_effect_result :: "(payload \<Rightarrow> string) \<Rightarrow> effect_result \<Rightarrow> durable_error + effect_result" where
  "new_effect_result canon r = construct
     [validate_token (er_receipt_id r),
      validate_payload canon [(''receipt_id'', PText (er_receipt_id r)),
        (''replayed'', PBool (er_replayed r))]] r"

datatype workflow_result_code = EFFECT_RECORDED | EVENT_LIMIT_REACHED | VERSION_REJECTED

primrec workflow_result_code_value :: "workflow_result_code \<Rightarrow> string" where
  "workflow_result_code_value EFFECT_RECORDED = ''EFFECT_RECORDED''"
| "workflow_result_code_value EVENT_LIMIT_REACHED = ''EVENT_LIMIT_REACHED''"
| "workflow_result_code_value VERSION_REJECTED = ''VERSION_REJECTED''"

record workflow_output =
  wo_code :: workflow_result_code
  wo_accepted_event_id :: "string option"
  wo_effect_receipt_id :: "string option"

fun optional_text :: "string option \<Rightarrow> payload_value" where
  "optional_text None = PNull"
| "optional_text (Some s) = PText s"

definition new_workflow_output ::
    "(payload \<Rightarrow> string) \<Rightarrow> workflow_output \<Rightarrow> durable_error + workflow_output" where
  "new_workflow_output canon w = construct
     [(case wo_accepted_event_id w of None \<Rightarrow> None | Some i \<Rightarrow> validate_token i),
      (case wo_effect_receipt_id w of None \<Rightarrow> None | Some i \<Rightarrow> validate_token i),
      validate_payload canon
        [(''accepted_event_id'', optional_text (wo_accepted_event_id w)),
         (''code'', PText (workflow_result_code_value (wo_code w))),
         (''effect_receipt_id'', optional_text (wo_effect_receipt_id w))]] w"

section \<open>The authoritative register\<close>

record execution_record =
  xr_workflow_input :: workflow_input
  xr_capability_enabled :: bool

record review_event_fact =
  rf_execution_id :: string
  rf_event_id :: string
  rf_event_fingerprint :: string
  rf_input_fingerprint :: string

record event_audit_fact =
  af_execution_id :: string
  af_event_id :: string
  af_event_fingerprint :: string
  af_code :: review_resolution_code

record effect_receipt_record =
  rc_request :: effect_request
  rc_receipt_id :: string

text \<open>\<^verbatim>\<open>_processed_events\<close> is a set: a list without repetition.\<close>

record durable_register =
  dr_executions :: "(string \<times> execution_record) list"
  dr_review_events :: "(string \<times> review_event_fact) list"
  dr_processed_events :: "(string \<times> string \<times> string) list"
  dr_accepted_events :: "(string \<times> string) list"
  dr_event_audit :: "event_audit_fact list"
  dr_effect_receipts :: "(string \<times> effect_receipt_record) list"
  dr_effect_counts :: "(string \<times> nat) list"
  dr_effect_attempts :: "(string \<times> nat) list"
  dr_lost_ack_remaining :: "(string \<times> nat) list"

definition empty_durable_register :: durable_register where
  "empty_durable_register = \<lparr>dr_executions = [], dr_review_events = [], dr_processed_events = [],
     dr_accepted_events = [], dr_event_audit = [], dr_effect_receipts = [], dr_effect_counts = [],
     dr_effect_attempts = [], dr_lost_ack_remaining = []\<rparr>"

type_synonym 'a durable_outcome = "(durable_error + 'a) \<times> durable_register"

definition count_of :: "(string \<times> nat) list \<Rightarrow> string \<Rightarrow> nat" where
  "count_of m k = (case map_of m k of None \<Rightarrow> 0 | Some n \<Rightarrow> n)"

definition admit_execution :: "execution_record \<Rightarrow> durable_register \<Rightarrow> unit durable_outcome" where
  "admit_execution r R =
     (let execution_id = wi_execution_id (xr_workflow_input r) in
      if map_of (dr_executions R) execution_id \<notin> {None, Some r} then (Inl ExecutionConflict, R)
      else (Inr (), R\<lparr>dr_executions := AList.update execution_id r (dr_executions R)\<rparr>))"

definition record_review_event :: "review_event_fact \<Rightarrow> durable_register \<Rightarrow> unit durable_outcome" where
  "record_review_event f R =
     (if map_of (dr_review_events R) (rf_event_id f) \<notin> {None, Some f} then (Inl EventConflict, R)
      else (Inr (), R\<lparr>dr_review_events := AList.update (rf_event_id f) f (dr_review_events R)\<rparr>))"

definition fail_next_effect_acknowledgement :: "string \<Rightarrow> durable_register \<Rightarrow> durable_register" where
  "fail_next_effect_acknowledgement command_id R =
     R\<lparr>dr_lost_ack_remaining := AList.update command_id 1 (dr_lost_ack_remaining R)\<rparr>"

definition review_resolution_code_of ::
    "string \<Rightarrow> execution_record option \<Rightarrow> review_event_fact option \<Rightarrow> review_event_ref
       \<Rightarrow> review_resolution_code" where
  "review_resolution_code_of execution_id execution known event =
     (case execution of
        None \<Rightarrow> WRONG_EXECUTION
      | Some x \<Rightarrow>
          (case known of
             None \<Rightarrow> UNKNOWN_EVENT
           | Some f \<Rightarrow>
               if rf_execution_id f \<noteq> execution_id then WRONG_EXECUTION
               else if rf_event_fingerprint f \<noteq> rv_event_fingerprint event then STALE_FINGERPRINT
               else if rf_input_fingerprint f \<noteq> wi_input_fingerprint (xr_workflow_input x)
               then STALE_FINGERPRINT
               else ACCEPTED))"

text \<open>The \<^verbatim>\<open>ReviewResolution\<close> is built after the mutations, so its check can raise after them.\<close>

definition resolve_review_event ::
    "(payload \<Rightarrow> string) \<Rightarrow> string \<Rightarrow> review_event_ref \<Rightarrow> durable_register
       \<Rightarrow> review_resolution durable_outcome" where
  "resolve_review_event canon execution_id event R =
     (let found = review_resolution_code_of execution_id (map_of (dr_executions R) execution_id)
            (map_of (dr_review_events R) (rv_event_id event)) event;
          key = (execution_id, rv_event_id event, rv_event_fingerprint event);
          seen = (key \<in> set (dr_processed_events R));
          code = (if seen then DUPLICATE_EVENT else found)
      in (new_review_resolution canon \<lparr>rr_code = code, rr_event_id = rv_event_id event\<rparr>,
          R\<lparr>dr_processed_events := (if seen then dr_processed_events R else dr_processed_events R @ [key]),
            dr_accepted_events := (if \<not> seen \<and> code = ACCEPTED
              then AList.update execution_id (rv_event_id event) (dr_accepted_events R)
              else dr_accepted_events R),
            dr_event_audit := dr_event_audit R @
              [\<lparr>af_execution_id = execution_id, af_event_id = rv_event_id event,
                af_event_fingerprint = rv_event_fingerprint event, af_code = code\<rparr>]\<rparr>))"

definition require_effect_authority :: "durable_register \<Rightarrow> effect_request \<Rightarrow> durable_error option" where
  "require_effect_authority R q =
     (case map_of (dr_executions R) (eq_execution_id q) of
        None \<Rightarrow> Some CapabilityRejected
      | Some x \<Rightarrow>
          (let w = xr_workflow_input x in first_raise
             [raise_if (\<not> xr_capability_enabled x) CapabilityRejected,
              raise_if (\<not> (eq_workflow_version q = wi_workflow_version w
                 \<and> eq_build_fingerprint q = wi_build_fingerprint w
                 \<and> eq_configuration_fingerprint q = wi_configuration_fingerprint w
                 \<and> eq_contract_fingerprint q = wi_contract_fingerprint w
                 \<and> eq_input_fingerprint q = wi_input_fingerprint w
                 \<and> eq_command_id q = wi_effect_command_id w
                 \<and> eq_command_fingerprint q = wi_effect_command_fingerprint w)) LineageRejected,
              raise_if (map_of (dr_accepted_events R) (eq_execution_id q) \<noteq> Some (eq_approval_event_id q))
                ApprovalRejected]))"

definition apply_effect ::
    "(payload \<Rightarrow> string) \<Rightarrow> effect_request \<Rightarrow> durable_register \<Rightarrow> effect_result durable_outcome" where
  "apply_effect canon q R =
     (let command_id = eq_command_id q;
          R1 = R\<lparr>dr_effect_attempts := AList.update command_id
                  (count_of (dr_effect_attempts R) command_id + 1) (dr_effect_attempts R)\<rparr> in
      case map_of (dr_effect_receipts R) command_id of
        Some existing \<Rightarrow>
          if rc_request existing \<noteq> q then (Inl EffectFingerprintMismatch, R1)
          else (new_effect_result canon \<lparr>er_receipt_id = rc_receipt_id existing, er_replayed = True\<rparr>, R1)
      | None \<Rightarrow>
          (case require_effect_authority R q of
             Some e \<Rightarrow> (Inl e, R1)
           | None \<Rightarrow>
               (let receipt_id = ''receipt:'' @ command_id in
                (new_effect_result canon \<lparr>er_receipt_id = receipt_id, er_replayed = False\<rparr>,
                 R1\<lparr>dr_effect_receipts := AList.update command_id
                      \<lparr>rc_request = q, rc_receipt_id = receipt_id\<rparr> (dr_effect_receipts R),
                    dr_effect_counts := AList.update command_id
                      (count_of (dr_effect_counts R) command_id + 1) (dr_effect_counts R)\<rparr>))))"

definition acknowledge_effect :: "string \<Rightarrow> durable_register \<Rightarrow> unit durable_outcome" where
  "acknowledge_effect command_id R =
     (let remaining = count_of (dr_lost_ack_remaining R) command_id in
      if remaining < 1 then (Inr (), R)
      else (Inl LostEffectAcknowledgement,
            R\<lparr>dr_lost_ack_remaining := AList.update command_id (remaining - 1) (dr_lost_ack_remaining R)\<rparr>))"

definition event_audit :: "durable_register \<Rightarrow> event_audit_fact list" where
  "event_audit R = dr_event_audit R"

definition effect_count :: "durable_register \<Rightarrow> string \<Rightarrow> nat" where
  "effect_count R command_id = count_of (dr_effect_counts R) command_id"

definition effect_attempt_count :: "durable_register \<Rightarrow> string \<Rightarrow> nat" where
  "effect_attempt_count R command_id = count_of (dr_effect_attempts R) command_id"

subsection \<open>Recovery\<close>

record durable_snapshot =
  ds_executions :: "execution_record list"
  ds_review_events :: "review_event_fact list"
  ds_processed_events :: "(string \<times> string \<times> string) list"
  ds_accepted_events :: "(string \<times> string) list"
  ds_event_audit :: "event_audit_fact list"
  ds_effect_receipts :: "effect_receipt_record list"
  ds_effect_counts :: "(string \<times> nat) list"
  ds_effect_attempts :: "(string \<times> nat) list"
  ds_lost_ack_remaining :: "(string \<times> nat) list"

definition snapshot_of :: "durable_register \<Rightarrow> durable_snapshot" where
  "snapshot_of R = \<lparr>
     ds_executions = map snd (sort_key fst (dr_executions R)),
     ds_review_events = map snd (sort_key fst (dr_review_events R)),
     ds_processed_events = sort (dr_processed_events R),
     ds_accepted_events = sort (dr_accepted_events R),
     ds_event_audit = dr_event_audit R,
     ds_effect_receipts = map snd (sort_key fst (dr_effect_receipts R)),
     ds_effect_counts = sort (dr_effect_counts R),
     ds_effect_attempts = sort (dr_effect_attempts R),
     ds_lost_ack_remaining = sort (dr_lost_ack_remaining R)\<rparr>"

definition recover_register :: "durable_snapshot \<Rightarrow> durable_register" where
  "recover_register s = \<lparr>
     dr_executions = dict_of (map (\<lambda>r. (wi_execution_id (xr_workflow_input r), r)) (ds_executions s)),
     dr_review_events = dict_of (map (\<lambda>r. (rf_event_id r, r)) (ds_review_events s)),
     dr_processed_events = remdups (ds_processed_events s),
     dr_accepted_events = dict_of (ds_accepted_events s),
     dr_event_audit = ds_event_audit s,
     dr_effect_receipts = dict_of (map (\<lambda>r. (eq_command_id (rc_request r), r)) (ds_effect_receipts s)),
     dr_effect_counts = dict_of (ds_effect_counts s),
     dr_effect_attempts = dict_of (ds_effect_attempts s),
     dr_lost_ack_remaining = dict_of (ds_lost_ack_remaining s)\<rparr>"

section \<open>Activities\<close>

definition resolve_review_event_activity ::
    "(payload \<Rightarrow> string) \<Rightarrow> string \<Rightarrow> review_event_request \<Rightarrow> durable_register
       \<Rightarrow> review_resolution durable_outcome" where
  "resolve_review_event_activity canon orchestration_id q R =
     (if orchestration_id \<noteq> rq_execution_id q
      then (new_review_resolution canon \<lparr>rr_code = WRONG_EXECUTION, rr_event_id = rq_event_id q\<rparr>, R)
      else case new_review_event_ref canon
             \<lparr>rv_event_id = rq_event_id q, rv_event_fingerprint = rq_event_fingerprint q\<rparr> of
          Inl e \<Rightarrow> (Inl e, R)
        | Inr event \<Rightarrow> resolve_review_event canon (rq_execution_id q) event R)"

definition apply_effect_activity ::
    "(payload \<Rightarrow> string) \<Rightarrow> string \<Rightarrow> effect_request \<Rightarrow> durable_register
       \<Rightarrow> effect_result durable_outcome" where
  "apply_effect_activity canon orchestration_id q R =
     (if orchestration_id \<noteq> eq_execution_id q then (Inl WrongExecution, R)
      else case apply_effect canon q R of
          (Inl e, R1) \<Rightarrow> (Inl e, R1)
        | (Inr result, R1) \<Rightarrow>
            (case acknowledge_effect (eq_command_id q) R1 of
               (Inl e, R2) \<Rightarrow> (Inl e, R2)
             | (Inr _, R2) \<Rightarrow> (Inr result, R2)))"

section \<open>The orchestrator\<close>

datatype orchestration =
    AwaitEvent nat
  | AwaitResolution nat review_event_request
  | AwaitEffect string effect_request
  | Returned workflow_output

datatype workflow_send =
    SendEvent review_event_ref | SendResolution review_resolution | SendEffect effect_result

definition max_review_event_attempts :: nat where
  "max_review_event_attempts = 16"

definition returned :: "(payload \<Rightarrow> string) \<Rightarrow> workflow_output \<Rightarrow> durable_error + orchestration" where
  "returned canon w = and_then (new_workflow_output canon w) (\<lambda>w. Inr (Returned w))"

text \<open>Up to the first suspension: \<^verbatim>\<open>context_version\<close> is the version of the orchestration context.\<close>

definition start_orchestration ::
    "(payload \<Rightarrow> string) \<Rightarrow> string \<Rightarrow> workflow_input \<Rightarrow> durable_error + orchestration" where
  "start_orchestration canon context_version w =
     (if context_version \<noteq> wi_workflow_version w
      then returned canon \<lparr>wo_code = VERSION_REJECTED, wo_accepted_event_id = None,
             wo_effect_receipt_id = None\<rparr>
      else Inr (AwaitEvent 1))"

definition effect_request_for :: "workflow_input \<Rightarrow> string \<Rightarrow> effect_request" where
  "effect_request_for w accepted_event_id = \<lparr>
     eq_execution_id = wi_execution_id w,
     eq_workflow_version = wi_workflow_version w,
     eq_build_fingerprint = wi_build_fingerprint w,
     eq_configuration_fingerprint = wi_configuration_fingerprint w,
     eq_contract_fingerprint = wi_contract_fingerprint w,
     eq_input_fingerprint = wi_input_fingerprint w,
     eq_approval_event_id = accepted_event_id,
     eq_command_id = wi_effect_command_id w,
     eq_command_fingerprint = wi_effect_command_fingerprint w\<rparr>"

text \<open>From one suspension to the next, with the value the scheduler sends.\<close>

fun resume ::
    "(payload \<Rightarrow> string) \<Rightarrow> workflow_input \<Rightarrow> orchestration \<Rightarrow> workflow_send
       \<Rightarrow> durable_error + orchestration" where
  "resume canon w (AwaitEvent attempt) sent =
     (case sent of
        SendEvent e \<Rightarrow> and_then (new_review_event_request canon
            \<lparr>rq_execution_id = wi_execution_id w, rq_event_id = rv_event_id e,
             rq_event_fingerprint = rv_event_fingerprint e\<rparr>)
          (\<lambda>q. Inr (AwaitResolution attempt q))
      | _ \<Rightarrow> Inl EventTypeInvalid)"
| "resume canon w (AwaitResolution attempt q) sent =
     (case sent of
        SendResolution r \<Rightarrow>
          if rr_code r = ACCEPTED
          then and_then (new_effect_request canon (effect_request_for w (rr_event_id r)))
            (\<lambda>q. Inr (AwaitEffect (rr_event_id r) q))
          else if attempt < max_review_event_attempts then Inr (AwaitEvent (attempt + 1))
          else returned canon \<lparr>wo_code = EVENT_LIMIT_REACHED, wo_accepted_event_id = None,
                 wo_effect_receipt_id = None\<rparr>
      | _ \<Rightarrow> Inl ResolutionTypeInvalid)"
| "resume canon w (AwaitEffect accepted_event_id q) sent =
     (case sent of
        SendEffect r \<Rightarrow> returned canon \<lparr>wo_code = EFFECT_RECORDED,
            wo_accepted_event_id = Some accepted_event_id,
            wo_effect_receipt_id = Some (er_receipt_id r)\<rparr>
      | _ \<Rightarrow> Inl EffectResultTypeInvalid)"
| "resume canon w (Returned out) sent = Inr (Returned out)"

fun resume_all ::
    "(payload \<Rightarrow> string) \<Rightarrow> workflow_input \<Rightarrow> orchestration \<Rightarrow> workflow_send list
       \<Rightarrow> durable_error + orchestration" where
  "resume_all canon w s [] = Inr s"
| "resume_all canon w s (x # xs) = and_then (resume canon w s x) (\<lambda>s'. resume_all canon w s' xs)"

end
