(* ===== verification/DurableSteps.thy ===== *)
theory DurableSteps
  imports Durable
begin

text \<open>
  Every operation of the durable register fake and of its activities as one step relation, and the
  invariant it keeps: one effect per receipt, receipts and acceptances backed by what is on record.
\<close>

section \<open>Histories\<close>

datatype durable_op =
    AdmitOp execution_record
  | EventOp review_event_fact
  | ArmOp string
  | ResolveOp string review_event_ref
  | ApplyOp effect_request
  | AckOp string
  | ResolveActivityOp string review_event_request
  | EffectActivityOp string effect_request

datatype durable_answer = Done | Resolved review_resolution | Effected effect_result

abbreviation answer :: "('a \<Rightarrow> durable_answer) \<Rightarrow> 'a durable_outcome \<Rightarrow> durable_answer durable_outcome" where
  "answer f \<equiv> apfst (map_sum id f)"

fun perform_durable :: "(payload \<Rightarrow> string) \<Rightarrow> durable_op \<Rightarrow> durable_register \<Rightarrow> durable_answer durable_outcome" where
  "perform_durable canon (AdmitOp x) R = answer (\<lambda>_. Done) (admit_execution x R)"
| "perform_durable canon (EventOp f) R = answer (\<lambda>_. Done) (record_review_event f R)"
| "perform_durable canon (ArmOp c) R = (Inr Done, fail_next_effect_acknowledgement c R)"
| "perform_durable canon (ResolveOp x e) R = answer Resolved (resolve_review_event canon x e R)"
| "perform_durable canon (ApplyOp q) R = answer Effected (apply_effect canon q R)"
| "perform_durable canon (AckOp c) R = answer (\<lambda>_. Done) (acknowledge_effect c R)"
| "perform_durable canon (ResolveActivityOp i q) R = answer Resolved (resolve_review_event_activity canon i q R)"
| "perform_durable canon (EffectActivityOp i q) R = answer Effected (apply_effect_activity canon i q R)"

section \<open>The step relation\<close>

text \<open>
  What any operation does, up to the attempt counts and the armed acknowledgement losses, which no
  guard of an effect reads: nothing, admit an execution, record an event, resolve an event, or
  record the first receipt of a command.
\<close>

definition bookkeeping :: "durable_register \<Rightarrow> durable_register \<Rightarrow> bool" where
  "bookkeeping R R' \<longleftrightarrow> (\<exists>at la. R' = R\<lparr>dr_effect_attempts := at, dr_lost_ack_remaining := la\<rparr>
     \<and> (distinct (map fst (dr_effect_attempts R)) \<longrightarrow> distinct (map fst at))
     \<and> (distinct (map fst (dr_lost_ack_remaining R)) \<longrightarrow> distinct (map fst la)))"

definition effect_recorded :: "effect_request \<Rightarrow> durable_register \<Rightarrow> durable_register" where
  "effect_recorded q R = R\<lparr>
     dr_effect_receipts := AList.update (eq_command_id q)
       \<lparr>rc_request = q, rc_receipt_id = ''receipt:'' @ eq_command_id q\<rparr> (dr_effect_receipts R),
     dr_effect_counts := AList.update (eq_command_id q)
       (count_of (dr_effect_counts R) (eq_command_id q) + 1) (dr_effect_counts R)\<rparr>"

inductive durable_step :: "(payload \<Rightarrow> string) \<Rightarrow> durable_register \<Rightarrow> durable_register \<Rightarrow> bool"
  for canon R where
  none: "bookkeeping R R' \<Longrightarrow> durable_step canon R R'"
| admit: "map_of (dr_executions R) (wi_execution_id (xr_workflow_input x)) \<in> {None, Some x}
    \<Longrightarrow> durable_step canon R
      (R\<lparr>dr_executions := AList.update (wi_execution_id (xr_workflow_input x)) x (dr_executions R)\<rparr>)"
| event: "map_of (dr_review_events R) (rf_event_id f) \<in> {None, Some f}
    \<Longrightarrow> durable_step canon R
      (R\<lparr>dr_review_events := AList.update (rf_event_id f) f (dr_review_events R)\<rparr>)"
| resolve: "durable_step canon R (snd (resolve_review_event canon x e R))"
| effect: "map_of (dr_effect_receipts R) (eq_command_id q) = None \<Longrightarrow> require_effect_authority R q = None
    \<Longrightarrow> bookkeeping (effect_recorded q R) R' \<Longrightarrow> durable_step canon R R'"

inductive_cases durable_stepE: "durable_step canon R R'"

lemma bookkeeping_refl [simp]: "bookkeeping R R"
  unfolding bookkeeping_def by (intro exI [of _ "dr_effect_attempts R"] exI [of _ "dr_lost_ack_remaining R"]) simp

lemma bookkeeping_trans: "bookkeeping R S \<Longrightarrow> bookkeeping S T \<Longrightarrow> bookkeeping R T"
  unfolding bookkeeping_def by fastforce

lemma bookkeeping_attempts [simp]:
  "bookkeeping R (R\<lparr>dr_effect_attempts := AList.update c n (dr_effect_attempts R)\<rparr>)"
  unfolding bookkeeping_def
  by (intro exI [of _ "AList.update c n (dr_effect_attempts R)"] exI [of _ "dr_lost_ack_remaining R"]) simp

lemma bookkeeping_acks [simp]:
  "bookkeeping R (R\<lparr>dr_lost_ack_remaining := AList.update c n (dr_lost_ack_remaining R)\<rparr>)"
  unfolding bookkeeping_def
  by (intro exI [of _ "dr_effect_attempts R"] exI [of _ "AList.update c n (dr_lost_ack_remaining R)"]) simp

lemma bookkeeping_fields:
  assumes "bookkeeping R R'"
  shows "dr_executions R' = dr_executions R" "dr_review_events R' = dr_review_events R"
    "dr_processed_events R' = dr_processed_events R" "dr_accepted_events R' = dr_accepted_events R"
    "dr_event_audit R' = dr_event_audit R" "dr_effect_receipts R' = dr_effect_receipts R"
    "dr_effect_counts R' = dr_effect_counts R"
  using assms by (auto simp: bookkeeping_def)

lemma acknowledge_bookkeeping: "bookkeeping R (snd (acknowledge_effect c R))"
  by (simp add: acknowledge_effect_def Let_def)

lemma authority_bookkeeping: "bookkeeping R R' \<Longrightarrow> require_effect_authority R' q = require_effect_authority R q"
  by (simp add: require_effect_authority_def bookkeeping_fields split: option.split)

lemma apply_effect_cases:
  obtains (refused) "bookkeeping R (snd (apply_effect canon q R))"
      "map_of (dr_effect_receipts R) (eq_command_id q) = None \<Longrightarrow> require_effect_authority R q \<noteq> None"
  | (first) "map_of (dr_effect_receipts R) (eq_command_id q) = None" "require_effect_authority R q = None"
      "bookkeeping (effect_recorded q R) (snd (apply_effect canon q R))"
      "fst (apply_effect canon q R) = new_effect_result canon
         \<lparr>er_receipt_id = ''receipt:'' @ eq_command_id q, er_replayed = False\<rparr>"
proof (cases "map_of (dr_effect_receipts R) (eq_command_id q)")
  case (Some r)
  then show ?thesis by (intro refused) (simp_all add: apply_effect_def Let_def)
next
  case None
  show ?thesis
  proof (cases "require_effect_authority R q")
    case (Some e)
    with None show ?thesis by (intro refused) (simp_all add: apply_effect_def Let_def)
  next
    case authority: None
    have "snd (apply_effect canon q R) = (effect_recorded q R)\<lparr>dr_effect_attempts :=
        AList.update (eq_command_id q) (count_of (dr_effect_attempts R) (eq_command_id q) + 1)
          (dr_effect_attempts R)\<rparr>"
      using None authority by (simp add: apply_effect_def Let_def effect_recorded_def)
    then have "bookkeeping (effect_recorded q R) (snd (apply_effect canon q R))"
      using bookkeeping_attempts [of "effect_recorded q R"] by (simp add: effect_recorded_def)
    with None authority show ?thesis by (intro first) (simp_all add: apply_effect_def Let_def)
  qed
qed

lemma apply_effect_step: "durable_step canon R (snd (apply_effect canon q R))"
  by (cases rule: apply_effect_cases [of R canon q])
    (auto intro: durable_step.none durable_step.effect)

lemma effect_activity_step: "durable_step canon R (snd (apply_effect_activity canon i q R))"
proof (cases "i = eq_execution_id q")
  case False
  then show ?thesis by (simp add: apply_effect_activity_def durable_step.none)
next
  case True
  have "bookkeeping (snd (apply_effect canon q R)) (snd (apply_effect_activity canon i q R))"
    using True acknowledge_bookkeeping
    by (auto simp: apply_effect_activity_def split: prod.splits sum.splits)
      (metis snd_conv)+
  then show ?thesis
    by (cases rule: apply_effect_cases [of R canon q])
      (auto intro: durable_step.none durable_step.effect bookkeeping_trans)
qed

lemma perform_durable_step: "durable_step canon R (snd (perform_durable canon op R))"
proof (cases op)
  case (AdmitOp x)
  show ?thesis
    by (cases "map_of (dr_executions R) (wi_execution_id (xr_workflow_input x)) \<in> {None, Some x}")
      (simp_all add: AdmitOp admit_execution_def Let_def durable_step.none durable_step.admit)
next
  case (EventOp f)
  show ?thesis
    by (cases "map_of (dr_review_events R) (rf_event_id f) \<in> {None, Some f}")
      (simp_all add: EventOp record_review_event_def durable_step.none durable_step.event)
next
  case (ResolveActivityOp i q)
  show ?thesis
  proof (cases "new_review_event_ref canon
             \<lparr>rv_event_id = rq_event_id q, rv_event_fingerprint = rq_event_fingerprint q\<rparr>")
    case (Inl e)
    then show ?thesis
      by (simp add: ResolveActivityOp resolve_review_event_activity_def durable_step.none)
  next
    case (Inr e)
    then show ?thesis
      by (cases "i = rq_execution_id q")
        (simp_all add: ResolveActivityOp resolve_review_event_activity_def durable_step.none durable_step.resolve)
  qed
qed (simp_all add: fail_next_effect_acknowledgement_def durable_step.none durable_step.resolve
    apply_effect_step effect_activity_step acknowledge_bookkeeping)

section \<open>The invariant\<close>

definition exact_lineage :: "execution_record \<Rightarrow> effect_request \<Rightarrow> bool" where
  "exact_lineage x q \<longleftrightarrow>
     q = effect_request_for (xr_workflow_input x) (eq_approval_event_id q)"

text \<open>Why an audited acceptance was right: the event is on record for that execution and its exact input.\<close>

definition acceptance_backed :: "durable_register \<Rightarrow> event_audit_fact \<Rightarrow> bool" where
  "acceptance_backed R a \<longleftrightarrow> (\<exists>x f. map_of (dr_executions R) (af_execution_id a) = Some x
     \<and> map_of (dr_review_events R) (af_event_id a) = Some f
     \<and> rf_execution_id f = af_execution_id a \<and> rf_event_fingerprint f = af_event_fingerprint a
     \<and> rf_input_fingerprint f = wi_input_fingerprint (xr_workflow_input x))"

definition accepted_in :: "durable_register \<Rightarrow> string \<Rightarrow> string \<Rightarrow> bool" where
  "accepted_in R execution_id event_id \<longleftrightarrow> (\<exists>a \<in> set (dr_event_audit R).
     af_code a = ACCEPTED \<and> af_execution_id a = execution_id \<and> af_event_id a = event_id)"

definition audit_key :: "event_audit_fact \<Rightarrow> string \<times> string \<times> string" where
  "audit_key a = (af_execution_id a, af_event_id a, af_event_fingerprint a)"

definition keys_inv :: "durable_register \<Rightarrow> bool" where
  "keys_inv R \<longleftrightarrow> distinct (map fst (dr_executions R)) \<and> distinct (map fst (dr_review_events R))
     \<and> distinct (dr_processed_events R) \<and> distinct (map fst (dr_accepted_events R))
     \<and> distinct (map fst (dr_effect_receipts R)) \<and> distinct (map fst (dr_effect_counts R))
     \<and> distinct (map fst (dr_effect_attempts R)) \<and> distinct (map fst (dr_lost_ack_remaining R))
     \<and> (\<forall>k x. map_of (dr_executions R) k = Some x \<longrightarrow> wi_execution_id (xr_workflow_input x) = k)
     \<and> (\<forall>k f. map_of (dr_review_events R) k = Some f \<longrightarrow> rf_event_id f = k)
     \<and> (\<forall>k r. map_of (dr_effect_receipts R) k = Some r \<longrightarrow> eq_command_id (rc_request r) = k)"

definition audit_inv :: "durable_register \<Rightarrow> bool" where
  "audit_inv R \<longleftrightarrow>
     (\<forall>a \<in> set (dr_event_audit R). audit_key a \<in> set (dr_processed_events R)
        \<and> (af_code a = ACCEPTED \<longrightarrow> acceptance_backed R a))
     \<and> distinct (map audit_key (filter (\<lambda>a. af_code a = ACCEPTED) (dr_event_audit R)))
     \<and> (\<forall>x e. map_of (dr_accepted_events R) x = Some e \<longrightarrow> accepted_in R x e)"

definition receipt_backed :: "durable_register \<Rightarrow> string \<Rightarrow> effect_receipt_record \<Rightarrow> bool" where
  "receipt_backed R c r \<longleftrightarrow> rc_receipt_id r = ''receipt:'' @ c
     \<and> (\<exists>x. map_of (dr_executions R) (eq_execution_id (rc_request r)) = Some x
          \<and> xr_capability_enabled x \<and> exact_lineage x (rc_request r))
     \<and> accepted_in R (eq_execution_id (rc_request r)) (eq_approval_event_id (rc_request r))"

definition receipts_inv :: "durable_register \<Rightarrow> bool" where
  "receipts_inv R \<longleftrightarrow>
     (\<forall>c. count_of (dr_effect_counts R) c = (if map_of (dr_effect_receipts R) c = None then 0 else 1))
     \<and> (\<forall>c r. map_of (dr_effect_receipts R) c = Some r \<longrightarrow> receipt_backed R c r)"

definition durable_inv :: "durable_register \<Rightarrow> bool" where
  "durable_inv R \<longleftrightarrow> keys_inv R \<and> audit_inv R \<and> receipts_inv R"

text \<open>Executions, recorded events and receipts are final, the audit is only appended to.\<close>

definition grows_to :: "durable_register \<Rightarrow> durable_register \<Rightarrow> bool" where
  "grows_to R S \<longleftrightarrow> map_of (dr_executions R) \<subseteq>\<^sub>m map_of (dr_executions S)
     \<and> map_of (dr_review_events R) \<subseteq>\<^sub>m map_of (dr_review_events S)
     \<and> map_of (dr_effect_receipts R) \<subseteq>\<^sub>m map_of (dr_effect_receipts S)
     \<and> (\<exists>as. dr_event_audit S = dr_event_audit R @ as)"

lemma grows_refl: "grows_to R R"
  by (simp add: grows_to_def)

lemma grows_trans: "grows_to R S \<Longrightarrow> grows_to S T \<Longrightarrow> grows_to R T"
  unfolding grows_to_def by (auto intro: map_le_trans)

lemma map_le_update: "m k \<in> {None, Some v} \<Longrightarrow> m \<subseteq>\<^sub>m m(k \<mapsto> v)"
  by (auto simp: map_le_def)

lemma resolve_review_event_fields [simp]:
  "dr_executions (snd (resolve_review_event canon x e R)) = dr_executions R"
  "dr_review_events (snd (resolve_review_event canon x e R)) = dr_review_events R"
  "dr_effect_receipts (snd (resolve_review_event canon x e R)) = dr_effect_receipts R"
  "dr_effect_counts (snd (resolve_review_event canon x e R)) = dr_effect_counts R"
  "dr_effect_attempts (snd (resolve_review_event canon x e R)) = dr_effect_attempts R"
  "dr_lost_ack_remaining (snd (resolve_review_event canon x e R)) = dr_lost_ack_remaining R"
  by (simp_all add: resolve_review_event_def Let_def)

lemma step_grows:
  assumes "durable_step canon R S"
  shows "grows_to R S"
  using assms
proof (cases rule: durable_step.cases)
  case none
  then show ?thesis by (simp add: grows_to_def bookkeeping_fields)
next
  case (resolve x e)
  then show ?thesis by (simp add: grows_to_def) (simp add: resolve_review_event_def Let_def)
next
  case (effect q)
  then show ?thesis by (simp add: grows_to_def bookkeeping_fields effect_recorded_def map_le_update)
qed (simp_all add: grows_to_def map_le_update)

lemma grown_acceptance: "grows_to R S \<Longrightarrow> acceptance_backed R a \<Longrightarrow> acceptance_backed S a"
  unfolding grows_to_def acceptance_backed_def map_le_def by (metis domI)

lemma grown_accepted: "grows_to R S \<Longrightarrow> accepted_in R x e \<Longrightarrow> accepted_in S x e"
  unfolding grows_to_def accepted_in_def by fastforce

lemma grown_receipt: "grows_to R S \<Longrightarrow> receipt_backed R c r \<Longrightarrow> receipt_backed S c r"
  using grown_accepted [of R S] unfolding grows_to_def receipt_backed_def map_le_def by (metis domI)

lemma authority_lineage:
  assumes "keys_inv R" "require_effect_authority R q = None"
  obtains x where "map_of (dr_executions R) (eq_execution_id q) = Some x" "xr_capability_enabled x"
    "exact_lineage x q" "map_of (dr_accepted_events R) (eq_execution_id q) = Some (eq_approval_event_id q)"
proof -
  obtain x where x: "map_of (dr_executions R) (eq_execution_id q) = Some x"
    using assms(2) by (auto simp: require_effect_authority_def split: option.splits)
  then have "eq_execution_id q = wi_execution_id (xr_workflow_input x)"
    using assms(1) by (auto simp: keys_inv_def)
  with x assms(2) that show thesis
    by (auto simp: require_effect_authority_def Let_def exact_lineage_def effect_request_for_def
        intro: effect_request.equality)
qed

subsection \<open>Every step keeps it\<close>

lemma step_keys:
  assumes "durable_step canon R S" and inv: "keys_inv R"
  shows "keys_inv S"
  using assms(1)
proof (cases rule: durable_step.cases)
  case none
  with inv show ?thesis by (auto simp: keys_inv_def bookkeeping_def)
next
  case (admit x)
  with inv show ?thesis by (simp add: keys_inv_def)
next
  case (event f)
  with inv show ?thesis by (simp add: keys_inv_def)
next
  case (resolve x e)
  with inv show ?thesis
    by (simp add: keys_inv_def) (simp add: resolve_review_event_def Let_def)
next
  case (effect q)
  with inv show ?thesis
    by (auto simp: keys_inv_def bookkeeping_def effect_recorded_def simp del: map_of_eq_Some_iff split: if_splits)
qed

lemma audit_grows:
  assumes "audit_inv R" "grows_to R S" "dr_event_audit S = dr_event_audit R"
    "set (dr_processed_events R) \<subseteq> set (dr_processed_events S)" "dr_accepted_events S = dr_accepted_events R"
  shows "audit_inv S"
  using assms grown_acceptance [OF assms(2)] grown_accepted [OF assms(2)]
  by (auto simp: audit_inv_def)

lemma acceptance_found:
  assumes "review_resolution_code_of x (map_of (dr_executions R) x)
      (map_of (dr_review_events R) (rv_event_id e)) e = ACCEPTED"
  shows "acceptance_backed R \<lparr>af_execution_id = x, af_event_id = rv_event_id e,
    af_event_fingerprint = rv_event_fingerprint e, af_code = c\<rparr>"
  using assms by (auto simp: review_resolution_code_of_def acceptance_backed_def split: option.splits if_splits)

lemma step_audit:
  assumes step: "durable_step canon R S" and inv: "audit_inv R"
  shows "audit_inv S"
  using step
proof (cases rule: durable_step.cases)
  case (resolve x e)
  let ?key = "(x, rv_event_id e, rv_event_fingerprint e)"
  let ?found = "review_resolution_code_of x (map_of (dr_executions R) x)
      (map_of (dr_review_events R) (rv_event_id e)) e"
  let ?code = "if ?key \<in> set (dr_processed_events R) then DUPLICATE_EVENT else ?found"
  let ?a = "\<lparr>af_execution_id = x, af_event_id = rv_event_id e,
     af_event_fingerprint = rv_event_fingerprint e, af_code = ?code\<rparr>"
  have fields: "dr_event_audit S = dr_event_audit R @ [?a]"
    "set (dr_processed_events S) = insert ?key (set (dr_processed_events R))"
    "dr_accepted_events S = (if af_code ?a = ACCEPTED
       then AList.update x (rv_event_id e) (dr_accepted_events R) else dr_accepted_events R)"
    using resolve by (auto simp: resolve_review_event_def Let_def)
  have "acceptance_backed R ?a" if "af_code ?a = ACCEPTED"
    using that acceptance_found [of x R e ?code] by (simp split: if_splits)
  moreover have "?key \<notin> set (dr_processed_events R)" if "af_code ?a = ACCEPTED"
    using that by (simp split: if_splits)
  ultimately show ?thesis
    using inv grown_acceptance [OF step_grows [OF step]] grown_accepted [OF step_grows [OF step]]
    unfolding audit_inv_def fields by (auto simp: audit_key_def accepted_in_def fields)
next
  case none
  with inv show ?thesis by (intro audit_grows [OF inv step_grows [OF step]]) (simp_all add: bookkeeping_fields)
next
  case (effect q)
  with inv show ?thesis
    by (intro audit_grows [OF inv step_grows [OF step]]) (simp_all add: bookkeeping_fields effect_recorded_def)
qed (use inv audit_grows [OF inv step_grows [OF step]] in simp_all)

lemma step_receipts:
  assumes step: "durable_step canon R S" and inv: "receipts_inv R" "audit_inv R" "keys_inv R"
  shows "receipts_inv S"
proof (cases "dr_effect_receipts S = dr_effect_receipts R \<and> dr_effect_counts S = dr_effect_counts R")
  case True
  with inv grown_receipt [OF step_grows [OF step]] show ?thesis by (auto simp: receipts_inv_def)
next
  case False
  from step False obtain q where q: "map_of (dr_effect_receipts R) (eq_command_id q) = None"
      "require_effect_authority R q = None" "bookkeeping (effect_recorded q R) S"
    by (cases rule: durable_step.cases) (auto simp: bookkeeping_fields)
  from q(3) have fields: "dr_effect_receipts S = dr_effect_receipts (effect_recorded q R)"
      "dr_effect_counts S = dr_effect_counts (effect_recorded q R)"
    by (simp_all add: bookkeeping_fields)
  obtain x where x: "map_of (dr_executions R) (eq_execution_id q) = Some x" "xr_capability_enabled x"
      "exact_lineage x q" "map_of (dr_accepted_events R) (eq_execution_id q) = Some (eq_approval_event_id q)"
    using authority_lineage [OF inv(3) q(2)] .
  with inv(2) have "receipt_backed R (eq_command_id q) \<lparr>rc_request = q, rc_receipt_id = ''receipt:'' @ eq_command_id q\<rparr>"
    by (auto simp: receipt_backed_def audit_inv_def)
  then have "receipt_backed S (eq_command_id q) \<lparr>rc_request = q, rc_receipt_id = ''receipt:'' @ eq_command_id q\<rparr>"
    by (rule grown_receipt [OF step_grows [OF step]])
  with inv(1) q(1) grown_receipt [OF step_grows [OF step]] show ?thesis
    by (auto simp: receipts_inv_def fields effect_recorded_def count_of_def)
qed

lemma step_durable: "durable_step canon R S \<Longrightarrow> durable_inv R \<Longrightarrow> durable_inv S"
  by (simp add: durable_inv_def step_keys step_audit step_receipts)

interpretation durable_store: state_store empty_durable_register "perform_durable canon" "\<lambda>_. True" durable_inv
  for canon
proof
  show "durable_inv empty_durable_register"
    by (simp add: durable_inv_def keys_inv_def audit_inv_def receipts_inv_def empty_durable_register_def count_of_def)
  show "durable_inv (snd (perform_durable canon op s))" if "durable_inv s" for s op
    using that perform_durable_step by (rule step_durable [rotated])
qed

lemma durable_history_inv: "durable_inv (run (perform_durable canon) ops empty_durable_register)"
  by (rule durable_store.reachable_inv) (simp add: list.pred_True)

lemma durable_history_grows:
  "durable_inv R \<Longrightarrow> grows_to R (run (perform_durable canon) ops R)"
  by (rule durable_store.run_related [where rel = grows_to])
    (auto intro: grows_refl grows_trans step_grows perform_durable_step simp: list.pred_True)

end
