(* ===== verification/DurableProperties.thy ===== *)
theory DurableProperties
  imports DurableSteps
begin

text \<open>
  What the durable workflow guarantees: an effect happens at most once whatever is retried, only
  under an accepted review event and the exact admitted lineage, a lost acknowledgement is
  resolved by replay, recovery is exact, and the orchestration ends after sixteen events. Also the
  command identifiers too long for their own receipt.
\<close>

section \<open>Recovery\<close>

text \<open>Two registers that hold the same data, whatever the order of their dictionaries.\<close>

definition same_register :: "durable_register \<Rightarrow> durable_register \<Rightarrow> bool" where
  "same_register R S \<longleftrightarrow> map_of (dr_executions R) = map_of (dr_executions S)
     \<and> map_of (dr_review_events R) = map_of (dr_review_events S)
     \<and> set (dr_processed_events R) = set (dr_processed_events S)
     \<and> map_of (dr_accepted_events R) = map_of (dr_accepted_events S)
     \<and> dr_event_audit R = dr_event_audit S
     \<and> map_of (dr_effect_receipts R) = map_of (dr_effect_receipts S)
     \<and> map_of (dr_effect_counts R) = map_of (dr_effect_counts S)
     \<and> map_of (dr_effect_attempts R) = map_of (dr_effect_attempts S)
     \<and> map_of (dr_lost_ack_remaining R) = map_of (dr_lost_ack_remaining S)"

lemma keyed_sort_key:
  assumes "distinct (map fst m)" "\<forall>k v. map_of m k = Some v \<longrightarrow> f v = k"
  shows "dict_of (map (\<lambda>v. (f v, v)) (map snd (sort_key fst m))) = sort_key fst m"
proof -
  have "map (\<lambda>v. (f v, v)) (map snd (sort_key fst m)) = sort_key fst m"
    using assms by (intro keyed_values) auto
  with assms(1) show ?thesis by (simp add: dict_of_distinct)
qed

lemma distinct_sort_pairs [simp]: "distinct (map fst (sort m)) \<longleftrightarrow> distinct (map fst m)"
  by (simp add: distinct_map)

lemma map_of_sort [simp]: "distinct (map fst m) \<Longrightarrow> map_of (sort m) = map_of m"
  by (rule map_of_same_set) simp_all

lemma recover_snapshot:
  assumes "keys_inv R"
  shows "recover_register (snapshot_of R) = \<lparr>
     dr_executions = sort_key fst (dr_executions R), dr_review_events = sort_key fst (dr_review_events R),
     dr_processed_events = sort (dr_processed_events R), dr_accepted_events = sort (dr_accepted_events R),
     dr_event_audit = dr_event_audit R, dr_effect_receipts = sort_key fst (dr_effect_receipts R),
     dr_effect_counts = sort (dr_effect_counts R), dr_effect_attempts = sort (dr_effect_attempts R),
     dr_lost_ack_remaining = sort (dr_lost_ack_remaining R)\<rparr>"
  using assms unfolding recover_register_def snapshot_of_def keys_inv_def
  by (simp add: keyed_sort_key dict_of_distinct distinct_remdups_id del: map_of_eq_Some_iff map_map)

lemma recovered_same: "keys_inv R \<Longrightarrow> same_register R (recover_register (snapshot_of R))"
  by (simp add: recover_snapshot same_register_def) (simp add: keys_inv_def)

text \<open>No operation tells two such registers apart.\<close>

lemma same_authority: "same_register R S \<Longrightarrow> require_effect_authority R q = require_effect_authority S q"
  by (simp add: require_effect_authority_def same_register_def split: option.split)

lemma same_apply_effect:
  assumes "same_register R S"
  shows "fst (apply_effect canon q R) = fst (apply_effect canon q S)
    \<and> same_register (snd (apply_effect canon q R)) (snd (apply_effect canon q S))"
proof -
  note same = assms [unfolded same_register_def] same_authority [OF assms, of q]
  show ?thesis
    using same by (auto simp: apply_effect_def Let_def count_of_def same_register_def split: option.split)
qed

lemma same_acknowledge:
  assumes "same_register R S"
  shows "fst (acknowledge_effect c R) = fst (acknowledge_effect c S)
    \<and> same_register (snd (acknowledge_effect c R)) (snd (acknowledge_effect c S))"
  using assms by (auto simp: acknowledge_effect_def Let_def count_of_def same_register_def)

lemma same_resolve:
  assumes "same_register R S"
  shows "fst (resolve_review_event canon x e R) = fst (resolve_review_event canon x e S)
    \<and> same_register (snd (resolve_review_event canon x e R)) (snd (resolve_review_event canon x e S))"
  using assms by (auto simp: resolve_review_event_def Let_def same_register_def)

lemma same_activity:
  assumes "same_register R S"
  shows "fst (apply_effect_activity canon i q R) = fst (apply_effect_activity canon i q S)
    \<and> same_register (snd (apply_effect_activity canon i q R)) (snd (apply_effect_activity canon i q S))"
proof -
  obtain a R1 b S1 where r: "apply_effect canon q R = (a, R1)" "apply_effect canon q S = (b, S1)"
    by (meson surj_pair)
  with same_apply_effect [OF assms, of canon q] have "a = b" "same_register R1 S1" by simp_all
  with r assms same_acknowledge [of R1 S1 "eq_command_id q"] show ?thesis
    by (cases "acknowledge_effect (eq_command_id q) R1"; cases "acknowledge_effect (eq_command_id q) S1")
      (auto simp: apply_effect_activity_def split: sum.split)
qed

lemma same_perform:
  assumes "same_register R S"
  shows "fst (perform_durable canon op R) = fst (perform_durable canon op S)
    \<and> same_register (snd (perform_durable canon op R)) (snd (perform_durable canon op S))"
proof (cases op)
  case (AdmitOp x)
  with assms show ?thesis by (auto simp: admit_execution_def Let_def same_register_def)
next
  case (EventOp f)
  with assms show ?thesis by (auto simp: record_review_event_def same_register_def)
next
  case (ArmOp c)
  with assms show ?thesis by (auto simp: fail_next_effect_acknowledgement_def same_register_def)
next
  case (ResolveActivityOp i q)
  with assms show ?thesis
    by (cases "new_review_event_ref canon
        \<lparr>rv_event_id = rq_event_id q, rv_event_fingerprint = rq_event_fingerprint q\<rparr>")
      (simp_all add: resolve_review_event_activity_def same_resolve)
qed (simp_all add: same_resolve [OF assms] same_apply_effect [OF assms] same_acknowledge [OF assms]
    same_activity [OF assms])

lemma same_run:
  "same_register R S \<Longrightarrow> same_register (run (perform_durable canon) ops R) (run (perform_durable canon) ops S)"
  by (induction ops arbitrary: R S) (simp_all add: same_perform)

section \<open>The properties\<close>

abbreviation durable_history :: "(payload \<Rightarrow> string) \<Rightarrow> durable_op list \<Rightarrow> durable_register" where
  "durable_history canon ops \<equiv> run (perform_durable canon) ops empty_durable_register"

lemma history_keys: "keys_inv (durable_history canon ops)"
  and history_audit: "audit_inv (durable_history canon ops)"
  and history_receipts: "receipts_inv (durable_history canon ops)"
  using durable_history_inv [of canon ops] by (simp_all add: durable_inv_def)

text \<open>
  C35: Whatever is submitted, retried, lost or refused, in any order, a command has at most one
  effect: its effect count is at most one, it is one exactly when a receipt is on record, and the
  receipt on record is the one of that command.
\<close>

theorem effect_at_most_once:
  "let R = durable_history canon ops in
     effect_count R c \<le> 1
     \<and> (effect_count R c = 1 \<longleftrightarrow> map_of (dr_effect_receipts R) c \<noteq> None)
     \<and> map_option (\<lambda>r. (eq_command_id (rc_request r), rc_receipt_id r)) (map_of (dr_effect_receipts R) c)
         \<in> {None, Some (c, ''receipt:'' @ c)}"
proof -
  note inv = history_receipts [of canon ops] history_keys [of canon ops]
  then show ?thesis
    by (cases "map_of (dr_effect_receipts (durable_history canon ops)) c")
      (auto simp: Let_def effect_count_def receipts_inv_def keys_inv_def receipt_backed_def
        simp del: map_of_eq_Some_iff)
qed

text \<open>
  An effect is only ever recorded with authority: behind every receipt there is an execution
  that was admitted with its capability enabled, the request is exactly the one the admitted
  lineage prescribes, and the audit holds an acceptance of the approval event, which is on record
  for this very execution, with the audited fingerprint and the admitted input fingerprint.
\<close>

theorem effect_was_authorised:
  assumes "map_of (dr_effect_receipts (durable_history canon ops)) c = Some r"
  shows "\<exists>x f. map_of (dr_executions (durable_history canon ops)) (eq_execution_id (rc_request r)) = Some x
     \<and> xr_capability_enabled x
     \<and> rc_request r = effect_request_for (xr_workflow_input x) (rf_event_id f)
     \<and> map_of (dr_review_events (durable_history canon ops)) (rf_event_id f) = Some f
     \<and> rf_execution_id f = eq_execution_id (rc_request r)
     \<and> rf_input_fingerprint f = wi_input_fingerprint (xr_workflow_input x)
     \<and> \<lparr>af_execution_id = rf_execution_id f, af_event_id = rf_event_id f,
        af_event_fingerprint = rf_event_fingerprint f, af_code = ACCEPTED\<rparr>
       \<in> set (event_audit (durable_history canon ops))"
proof -
  let ?R = "durable_history canon ops" and ?q = "rc_request r"
  have backed: "receipt_backed ?R c r"
    using history_receipts [of canon ops] assms by (simp add: receipts_inv_def del: map_of_eq_Some_iff)
  then obtain x a where x: "map_of (dr_executions ?R) (eq_execution_id ?q) = Some x"
      "xr_capability_enabled x" "exact_lineage x ?q"
    and a: "a \<in> set (dr_event_audit ?R)" "af_code a = ACCEPTED" "af_execution_id a = eq_execution_id ?q"
      "af_event_id a = eq_approval_event_id ?q"
    by (auto simp: receipt_backed_def accepted_in_def)
  have "acceptance_backed ?R a"
    using history_audit [of canon ops] a(1,2) unfolding audit_inv_def by blast
  then obtain f
    where f: "map_of (dr_review_events ?R) (af_event_id a) = Some f" "rf_execution_id f = eq_execution_id ?q"
      "rf_event_fingerprint f = af_event_fingerprint a"
      "rf_input_fingerprint f = wi_input_fingerprint (xr_workflow_input x)"
    unfolding acceptance_backed_def a(3) x(1) by blast
  have id: "rf_event_id f = af_event_id a"
    using f(1) history_keys [of canon ops] by (simp add: keys_inv_def del: map_of_eq_Some_iff)
  have "a = \<lparr>af_execution_id = rf_execution_id f, af_event_id = rf_event_id f,
        af_event_fingerprint = rf_event_fingerprint f, af_code = ACCEPTED\<rparr>"
    using a(2-4) f(2,3) id by simp
  with a(1) have audited: "\<lparr>af_execution_id = rf_execution_id f, af_event_id = rf_event_id f,
        af_event_fingerprint = rf_event_fingerprint f, af_code = ACCEPTED\<rparr> \<in> set (event_audit ?R)"
    by (simp add: event_audit_def)
  have "?q = effect_request_for (xr_workflow_input x) (rf_event_id f)"
    using x(3) a(4) id by (simp add: exact_lineage_def)
  with x(1,2) f(1,2,4) id audited show ?thesis by metis
qed

text \<open>
  A recorded effect is replayed, never repeated. After any further history the same request
  gets the receipt on record, marked as a replay, any other request under the command is refused,
  and neither changes a receipt or an effect count.
\<close>

theorem effect_replayed:
  assumes "map_of (dr_effect_receipts (durable_history canon ops)) (eq_command_id q) = Some r"
  shows "let R = run (perform_durable canon) later (durable_history canon ops);
             (outcome, S) = apply_effect canon q R in
     outcome = (if rc_request r = q
       then new_effect_result canon \<lparr>er_receipt_id = ''receipt:'' @ eq_command_id q, er_replayed = True\<rparr>
       else Inl EffectFingerprintMismatch)
     \<and> dr_effect_receipts S = dr_effect_receipts R \<and> dr_effect_counts S = dr_effect_counts R
     \<and> effect_count S (eq_command_id q) = 1
     \<and> effect_attempt_count S (eq_command_id q) = effect_attempt_count R (eq_command_id q) + 1"
proof -
  let ?R = "run (perform_durable canon) later (durable_history canon ops)"
  have R: "?R = durable_history canon (ops @ later)" by (simp add: run_append)
  have kept: "map_of (dr_effect_receipts ?R) (eq_command_id q) = Some r"
    using durable_history_grows [OF durable_history_inv, of canon ops canon later] assms
    unfolding grows_to_def map_le_def by (metis domI)
  moreover have "rc_receipt_id r = ''receipt:'' @ eq_command_id q"
      "count_of (dr_effect_counts ?R) (eq_command_id q) = 1"
    using history_receipts [of canon "ops @ later"] kept
    by (simp_all add: R receipts_inv_def receipt_backed_def del: map_of_eq_Some_iff)
  ultimately show ?thesis
    by (auto simp: apply_effect_def Let_def effect_count_def effect_attempt_count_def count_of_def)
qed

text \<open>
  An event reference is accepted at most once. Once an execution has resolved it, every later
  resolution of the same reference, after any history, answers \<^verbatim>\<open>DUPLICATE_EVENT\<close>, and its only
  effect is one more audit fact; the audit never holds two acceptances of one reference.
\<close>

theorem review_event_resolved_once:
  "let R = durable_history canon ops;
       S = run (perform_durable canon) later (snd (resolve_review_event canon x e R));
       duplicate = \<lparr>af_execution_id = x, af_event_id = rv_event_id e,
         af_event_fingerprint = rv_event_fingerprint e, af_code = DUPLICATE_EVENT\<rparr> in
     resolve_review_event canon x e S =
       (new_review_resolution canon \<lparr>rr_code = DUPLICATE_EVENT, rr_event_id = rv_event_id e\<rparr>,
        S\<lparr>dr_event_audit := dr_event_audit S @ [duplicate]\<rparr>)
     \<and> distinct (map audit_key (filter (\<lambda>a. af_code a = ACCEPTED) (event_audit S)))"
proof -
  let ?R = "durable_history canon ops"
  let ?R1 = "snd (resolve_review_event canon x e ?R)"
  let ?S = "run (perform_durable canon) later ?R1"
  have R1: "?R1 = snd (perform_durable canon (ResolveOp x e) ?R)" by simp
  have S: "?S = durable_history canon (ops @ ResolveOp x e # later)" by (simp add: run_append)
  have inv: "durable_inv ?R1"
    using step_durable [OF perform_durable_step [of canon ?R "ResolveOp x e"] durable_history_inv] by simp
  let ?key = "(x, rv_event_id e, rv_event_fingerprint e)"
  have "?key \<in> audit_key ` set (dr_event_audit ?R1)"
    by (simp add: resolve_review_event_def Let_def audit_key_def)
  then have "?key \<in> audit_key ` set (dr_event_audit ?S)"
    using durable_history_grows [OF inv, of canon later] unfolding grows_to_def by fastforce
  with history_audit [of canon "ops @ ResolveOp x e # later"]
  have "?key \<in> set (dr_processed_events ?S)" unfolding S by (auto simp: audit_inv_def)
  with history_audit [of canon "ops @ ResolveOp x e # later"] show ?thesis
    unfolding Let_def by (simp add: S [symmetric] resolve_review_event_def Let_def audit_inv_def event_audit_def)
qed

text \<open>
  C36: Recovery is exact. A register rebuilt from the snapshot of any reachable register has the
  same snapshot, and whatever operations follow, it cannot be told from the original: each next
  operation gives the same result, error or value.
\<close>

theorem recovery_is_exact:
  "let R = durable_history canon ops; S = recover_register (snapshot_of R) in
     snapshot_of S = snapshot_of R
     \<and> fst (perform_durable canon op (run (perform_durable canon) later S))
       = fst (perform_durable canon op (run (perform_durable canon) later R))"
proof -
  let ?R = "durable_history canon ops"
  have "same_register ?R (recover_register (snapshot_of ?R))"
    by (rule recovered_same [OF history_keys])
  then have "same_register (run (perform_durable canon) later ?R)
      (run (perform_durable canon) later (recover_register (snapshot_of ?R)))" by (rule same_run)
  moreover have "snapshot_of (recover_register (snapshot_of ?R)) = snapshot_of ?R"
    by (simp add: recover_snapshot [OF history_keys]) (simp add: snapshot_of_def sort_key_id_if_sorted)
  ultimately show ?thesis by (simp add: Let_def same_perform)
qed

section \<open>A sample history\<close>

definition demo_canon :: "payload \<Rightarrow> string" where
  "demo_canon p = concat (map (\<lambda>(k, v). k @ CHR '':'' #
     (case v of PText s \<Rightarrow> s | PBool b \<Rightarrow> (if b then ''true'' else ''false'') | PNull \<Rightarrow> ''null'') @ '','') p)"

definition demo_fingerprint :: "char \<Rightarrow> string" where
  "demo_fingerprint c = ''sha256:'' @ replicate 64 c"

definition demo_input :: "string \<Rightarrow> workflow_input" where
  "demo_input command_id = \<lparr>wi_execution_id = ''execution-1'', wi_workflow_version = ''v1'',
     wi_build_fingerprint = demo_fingerprint CHR ''1'',
     wi_configuration_fingerprint = demo_fingerprint CHR ''2'',
     wi_contract_fingerprint = demo_fingerprint CHR ''3'',
     wi_input_fingerprint = demo_fingerprint CHR ''4'',
     wi_effect_command_id = command_id,
     wi_effect_command_fingerprint = demo_fingerprint CHR ''5''\<rparr>"

definition demo_event :: review_event_ref where
  "demo_event = \<lparr>rv_event_id = ''event-1'', rv_event_fingerprint = demo_fingerprint CHR ''6''\<rparr>"

definition demo_fact :: review_event_fact where
  "demo_fact = \<lparr>rf_execution_id = ''execution-1'', rf_event_id = ''event-1'',
     rf_event_fingerprint = demo_fingerprint CHR ''6'', rf_input_fingerprint = demo_fingerprint CHR ''4''\<rparr>"

definition demo_request :: "string \<Rightarrow> effect_request" where
  "demo_request command_id = effect_request_for (demo_input command_id) ''event-1''"

definition demo_admitted :: "string \<Rightarrow> durable_op list" where
  "demo_admitted command_id =
     [AdmitOp \<lparr>xr_workflow_input = demo_input command_id, xr_capability_enabled = True\<rparr>, EventOp demo_fact]"

definition demo_approved :: "string \<Rightarrow> durable_op list" where
  "demo_approved command_id = demo_admitted command_id @ [ResolveOp ''execution-1'' demo_event]"

lemmas demo_defs = demo_input_def demo_event_def demo_fact_def demo_request_def demo_admitted_def
  demo_approved_def effect_request_for_def empty_durable_register_def

lemma demo_approved_register:
  "durable_history demo_canon (demo_approved c) =
     \<lparr>dr_executions = [(''execution-1'', \<lparr>xr_workflow_input = demo_input c, xr_capability_enabled = True\<rparr>)],
      dr_review_events = [(''event-1'', demo_fact)],
      dr_processed_events = [(''execution-1'', ''event-1'', demo_fingerprint CHR ''6'')],
      dr_accepted_events = [(''execution-1'', ''event-1'')],
      dr_event_audit = [\<lparr>af_execution_id = ''execution-1'', af_event_id = ''event-1'',
        af_event_fingerprint = demo_fingerprint CHR ''6'', af_code = ACCEPTED\<rparr>],
      dr_effect_receipts = [], dr_effect_counts = [], dr_effect_attempts = [], dr_lost_ack_remaining = []\<rparr>"
  by (simp add: demo_defs admit_execution_def record_review_event_def resolve_review_event_def
      review_resolution_code_of_def Let_def)

lemma demo_authority: "require_effect_authority (durable_history demo_canon (demo_approved c)) (demo_request c) = None"
  unfolding demo_approved_register
  by (simp add: require_effect_authority_def demo_request_def demo_input_def effect_request_for_def Let_def)

lemma demo_receipt:
  "map_of (dr_effect_receipts (durable_history demo_canon (demo_approved c @ [ApplyOp (demo_request c)]))) c =
     Some \<lparr>rc_request = demo_request c, rc_receipt_id = ''receipt:'' @ c\<rparr>"
proof -
  have "eq_command_id (demo_request c) = c" by (simp add: demo_defs)
  moreover have "dr_effect_receipts (durable_history demo_canon (demo_approved c)) = []"
    by (simp add: demo_approved_register)
  ultimately show ?thesis
    using demo_authority [of c] by (simp add: run_append apply_effect_def Let_def)
qed

lemma demo_command [simp]: "eq_command_id (demo_request c) = c" "eq_execution_id (demo_request c) = ''execution-1''"
  by (simp_all add: demo_defs)

theorem effect_was_authorised_witness:
  "\<exists>x (f :: review_event_fact). map_of (dr_executions (durable_history demo_canon (demo_approved ''c1'' @ [ApplyOp (demo_request ''c1'')])))
       ''execution-1'' = Some x \<and> xr_capability_enabled x
     \<and> demo_request ''c1'' = effect_request_for (xr_workflow_input x) (rf_event_id f)"
proof -
  let ?R = "durable_history demo_canon (demo_approved ''c1'' @ [ApplyOp (demo_request ''c1'')])"
  from effect_was_authorised [OF demo_receipt, of "''c1''", unfolded effect_receipt_record.select_convs demo_command]
  obtain x and f :: review_event_fact where "map_of (dr_executions ?R) ''execution-1'' = Some x" "xr_capability_enabled x"
      "demo_request ''c1'' = effect_request_for (xr_workflow_input x) (rf_event_id f)"
    by (elim exE conjE)
  then show ?thesis by (intro exI [of _ x] exI [of _ f] conjI)
qed

theorem effect_replayed_witness:
  "fst (apply_effect demo_canon (demo_request ''c1'')
      (durable_history demo_canon (demo_approved ''c1'' @ [ApplyOp (demo_request ''c1'')])))
    = new_effect_result demo_canon \<lparr>er_receipt_id = ''receipt:c1'', er_replayed = True\<rparr>"
  using effect_replayed [where later = "[]" and q = "demo_request ''c1''" and canon = demo_canon
      and ops = "demo_approved ''c1'' @ [ApplyOp (demo_request ''c1'')]",
      unfolded demo_command, OF demo_receipt]
  by (simp add: Let_def split: prod.splits)

section \<open>Lost acknowledgements\<close>

text \<open>
  A lost acknowledgement costs nothing. When the acknowledgement of an authorised first
  attempt is lost, the activity raises although the effect is recorded, and the one retry of the
  workflow's policy returns the receipt as a replay; the effect count is one after both.
\<close>

theorem lost_acknowledgement_resolved_by_retry:
  assumes "require_effect_authority (durable_history canon ops) q = None"
    and "map_of (dr_effect_receipts (durable_history canon ops)) (eq_command_id q) = None"
    and "\<forall>b. new_effect_result canon \<lparr>er_receipt_id = ''receipt:'' @ eq_command_id q, er_replayed = b\<rparr>
      = Inr \<lparr>er_receipt_id = ''receipt:'' @ eq_command_id q, er_replayed = b\<rparr>"
  shows "let R = fail_next_effect_acknowledgement (eq_command_id q) (durable_history canon ops);
             (first, R1) = apply_effect_activity canon (eq_execution_id q) q R;
             (retry, R2) = apply_effect_activity canon (eq_execution_id q) q R1 in
     first = Inl LostEffectAcknowledgement
     \<and> retry = Inr \<lparr>er_receipt_id = ''receipt:'' @ eq_command_id q, er_replayed = True\<rparr>
     \<and> effect_count R1 (eq_command_id q) = 1 \<and> effect_count R2 (eq_command_id q) = 1
     \<and> effect_attempt_count R2 (eq_command_id q) = effect_attempt_count R (eq_command_id q) + 2"
proof -
  let ?R = "fail_next_effect_acknowledgement (eq_command_id q) (durable_history canon ops)"
  have "count_of (dr_effect_counts (durable_history canon ops)) (eq_command_id q) = 0"
    using history_receipts [of canon ops] assms(2) by (simp add: receipts_inv_def)
  moreover have "require_effect_authority ?R q = None"
    using assms(1) authority_bookkeeping [OF bookkeeping_acks [of "durable_history canon ops" "eq_command_id q" 1], of q]
    by (simp add: fail_next_effect_acknowledgement_def)
  ultimately show ?thesis
    using assms(2,3)
    by (simp add: apply_effect_activity_def apply_effect_def acknowledge_effect_def Let_def
        fail_next_effect_acknowledgement_def count_of_def effect_count_def effect_attempt_count_def)
qed

theorem lost_acknowledgement_resolved_by_retry_witness:
  "fst (apply_effect_activity demo_canon ''execution-1'' (demo_request ''c1'')
      (fail_next_effect_acknowledgement ''c1'' (durable_history demo_canon (demo_approved ''c1''))))
    = Inl LostEffectAcknowledgement"
proof -
  have ok: "\<forall>b. new_effect_result demo_canon \<lparr>er_receipt_id = ''receipt:'' @ ''c1'', er_replayed = b\<rparr>
      = Inr \<lparr>er_receipt_id = ''receipt:'' @ ''c1'', er_replayed = b\<rparr>"
  proof -
    have "validate_token (''receipt:'' @ ''c1'') = None" by code_simp
    then show ?thesis by (simp add: new_effect_result_def validate_payload_def demo_canon_def)
  qed
  have none: "map_of (dr_effect_receipts (durable_history demo_canon (demo_approved ''c1''))) ''c1'' = None"
    by (simp add: demo_approved_register)
  show ?thesis
    using lost_acknowledgement_resolved_by_retry [OF demo_authority [of "''c1''"], unfolded demo_command,
        OF none ok] by (simp add: Let_def split: prod.splits)
qed

section \<open>Receipts too long\<close>

text \<open>
  A command identifier of 153 to 160 characters passes every check, but the receipt identifier
  made from it is longer than an opaque token may be. The first attempt records receipt and effect
  and then raises, and after any history every retry raises too: the effect is never acknowledged.
\<close>

theorem long_command_id_never_acknowledged:
  assumes "new_effect_request canon q = Inr q" and "152 < length (eq_command_id q)"
    and "require_effect_authority (durable_history canon ops) q = None"
    and "map_of (dr_effect_receipts (durable_history canon ops)) (eq_command_id q) = None"
  shows "let (first, S) = apply_effect canon q (durable_history canon ops) in
     first = Inl TokenInvalid \<and> effect_count S (eq_command_id q) = 1
     \<and> fst (apply_effect canon q (run (perform_durable canon) later S)) = Inl TokenInvalid"
proof -
  let ?R = "durable_history canon ops" and ?S = "snd (apply_effect canon q (durable_history canon ops))"
  have long: "new_effect_result canon \<lparr>er_receipt_id = ''receipt:'' @ eq_command_id q, er_replayed = b\<rparr>
      = Inl TokenInvalid" for b
    using assms(2) by (simp add: new_effect_result_def validate_token_def raise_if_def)
  have S: "?S = durable_history canon (ops @ [ApplyOp q])" by (simp add: run_append)
  have recorded: "map_of (dr_effect_receipts ?S) (eq_command_id q)
      = Some \<lparr>rc_request = q, rc_receipt_id = ''receipt:'' @ eq_command_id q\<rparr>"
    using assms(3,4) by (simp add: apply_effect_def Let_def)
  then have "effect_count ?S (eq_command_id q) = 1"
    using history_receipts [of canon "ops @ [ApplyOp q]"]
    unfolding S receipts_inv_def effect_count_def by simp
  moreover have "fst (apply_effect canon q ?R) = Inl TokenInvalid"
    using assms(3,4) long by (simp add: apply_effect_def Let_def)
  moreover have "fst (apply_effect canon q (run (perform_durable canon) later ?S)) = Inl TokenInvalid"
  proof -
    have "map_of (dr_effect_receipts (run (perform_durable canon) later ?S)) (eq_command_id q)
        = Some \<lparr>rc_request = q, rc_receipt_id = ''receipt:'' @ eq_command_id q\<rparr>"
      using durable_history_grows [OF durable_history_inv, of canon "ops @ [ApplyOp q]" canon later] recorded
      unfolding S grows_to_def map_le_def by (metis domI)
    with long show ?thesis by (simp add: apply_effect_def Let_def)
  qed
  ultimately show ?thesis by (simp add: case_prod_beta)
qed

theorem long_command_id_never_acknowledged_witness:
  "fst (apply_effect demo_canon (demo_request (replicate 153 CHR ''c''))
      (durable_history demo_canon (demo_approved (replicate 153 CHR ''c'')))) = Inl TokenInvalid"
proof -
  have valid: "new_effect_request demo_canon (demo_request (replicate 153 CHR ''c''))
      = Inr (demo_request (replicate 153 CHR ''c''))"
  proof -
    have "validate_token ''execution-1'' = None" "validate_token ''v1'' = None" "validate_token ''event-1'' = None"
      "validate_token (replicate 153 CHR ''c'') = None"
      "\<forall>c \<in> set ''12345''. validate_fingerprint (demo_fingerprint c) = None" by code_simp+
    then show ?thesis
      by (simp add: demo_defs new_effect_request_def validate_payload_def effect_request_json_def
          demo_canon_def) (simp add: demo_fingerprint_def)
  qed
  have none: "map_of (dr_effect_receipts (durable_history demo_canon (demo_approved c))) c = None" for c
    by (simp add: demo_approved_register)
  show ?thesis
    using long_command_id_never_acknowledged [OF valid _ demo_authority, unfolded demo_command, OF _ none]
    by (simp add: case_prod_beta)
qed

end
