(* ===== verification/WorkflowProperties.thy ===== *)
theory WorkflowProperties
  imports DurableProperties
begin

text \<open>
  The orchestrator of the durable workflow: it ends whatever the scheduler delivers, asks for an
  effect only after an acceptance, and, run on the register of the fake, carries an approved event
  to its one recorded effect.
\<close>

section \<open>The orchestrator\<close>

text \<open>How far the orchestration is from its end, in sends.\<close>

fun sends_left :: "orchestration \<Rightarrow> nat" where
  "sends_left (AwaitEvent n) = 2 * (max_review_event_attempts - n) + 3"
| "sends_left (AwaitResolution n q) = 2 * (max_review_event_attempts - n) + 2"
| "sends_left (AwaitEffect i q) = 1"
| "sends_left (Returned out) = 0"

lemma returned_cases: "returned canon w = Inr s \<Longrightarrow> s = Returned w"
  by (auto simp: returned_def new_workflow_output_def construct_def split: option.splits)

lemma resume_closer:
  "resume canon w s x = Inr s' \<Longrightarrow> sends_left s' = 0 \<or> sends_left s' < sends_left s"
  by (cases s; cases x)
    (auto simp: max_review_event_attempts_def dest: returned_cases split: if_splits)

lemma finished_orchestration: "sends_left s = 0 \<longleftrightarrow> (\<exists>out. s = Returned out)"
  by (cases s) auto

lemma resume_finished: "resume canon w (Returned out) x = Inr (Returned out)"
  by (cases x) simp_all

lemma resume_all_returns:
  "sends_left s \<le> length xs \<Longrightarrow> resume_all canon w s xs = Inr s' \<Longrightarrow> sends_left s' = 0"
proof (induction xs arbitrary: s)
  case (Cons x xs)
  then obtain t where t: "resume canon w s x = Inr t" "resume_all canon w t xs = Inr s'" by auto
  from resume_closer [OF t(1)] Cons.prems(1) have "sends_left t \<le> length xs" by auto
  with Cons.IH t(2) show ?case by blast
qed simp

text \<open>
  C37: The orchestration ends. Whatever the scheduler delivers, of whatever type and content, after
  at most thirty-three deliveries it has raised or returned, and it is then at rest: sixteen event
  waits with a resolution each, and one effect.
\<close>

theorem workflow_returns:
  assumes "33 \<le> length sends"
  shows "(\<exists>e. and_then (start_orchestration canon version w) (\<lambda>s. resume_all canon w s sends) = Inl e)
     \<or> (\<exists>out. and_then (start_orchestration canon version w) (\<lambda>s. resume_all canon w s sends)
          = Inr (Returned out))"
proof (cases "and_then (start_orchestration canon version w) (\<lambda>s. resume_all canon w s sends)")
  case (Inr s')
  then obtain s where s: "start_orchestration canon version w = Inr s" "resume_all canon w s sends = Inr s'"
    by auto
  have "sends_left s \<le> 33"
    using s(1) by (auto simp: start_orchestration_def max_review_event_attempts_def
        dest: returned_cases split: if_splits)
  with assms s(2) have "sends_left s' = 0" by (intro resume_all_returns) auto
  then obtain out where "s' = Returned out" by (auto simp: finished_orchestration)
  with Inr show ?thesis by blast
qed simp

text \<open>What the deliveries so far must hold for the orchestration to be where it is.\<close>

fun justified :: "workflow_input \<Rightarrow> workflow_send list \<Rightarrow> orchestration \<Rightarrow> bool" where
  "justified w past (AwaitEvent n) \<longleftrightarrow> 1 \<le> n \<and> n \<le> max_review_event_attempts"
| "justified w past (AwaitResolution n q) \<longleftrightarrow> 1 \<le> n \<and> n \<le> max_review_event_attempts
     \<and> rq_execution_id q = wi_execution_id w
     \<and> SendEvent \<lparr>rv_event_id = rq_event_id q, rv_event_fingerprint = rq_event_fingerprint q\<rparr> \<in> set past"
| "justified w past (AwaitEffect i q) \<longleftrightarrow> q = effect_request_for w i
     \<and> SendResolution \<lparr>rr_code = ACCEPTED, rr_event_id = i\<rparr> \<in> set past"
| "justified w past (Returned out) \<longleftrightarrow>
     (case wo_code out of
        EFFECT_RECORDED \<Rightarrow>
          (\<exists>i r. wo_accepted_event_id out = Some i \<and> wo_effect_receipt_id out = Some (er_receipt_id r)
             \<and> SendResolution \<lparr>rr_code = ACCEPTED, rr_event_id = i\<rparr> \<in> set past \<and> SendEffect r \<in> set past)
      | _ \<Rightarrow> wo_accepted_event_id out = None \<and> wo_effect_receipt_id out = None)"

lemma new_effect_request_Inr: "new_effect_request canon q = Inr q' \<Longrightarrow> q' = q"
  by (simp add: new_effect_request_def)

lemma new_review_event_request_Inr: "new_review_event_request canon q = Inr q' \<Longrightarrow> q' = q"
  by (simp add: new_review_event_request_def)

lemma resume_justified:
  assumes "justified w past s" "resume canon w s x = Inr s'"
  shows "justified w (past @ [x]) s'"
proof (cases s)
  case (AwaitEvent n)
  with assms show ?thesis
    by (cases x) (auto dest!: new_review_event_request_Inr)
next
  case (AwaitResolution n q)
  with assms obtain r where x: "x = SendResolution r" by (cases x) auto
  show ?thesis
  proof (cases "rr_code r = ACCEPTED")
    case True
    then have "r = \<lparr>rr_code = ACCEPTED, rr_event_id = rr_event_id r\<rparr>" by simp
    with assms(2) AwaitResolution True x show ?thesis
      by (auto dest!: new_effect_request_Inr)
  next
    case False
    with assms AwaitResolution x show ?thesis
      by (auto dest: returned_cases split: if_splits)
  qed
next
  case (AwaitEffect i q)
  with assms show ?thesis
    by (cases x) (auto dest!: returned_cases)
next
  case (Returned out)
  with assms show ?thesis
    by (auto simp: resume_finished split: workflow_result_code.splits)
qed

lemma resume_all_justified:
  "justified w past s \<Longrightarrow> resume_all canon w s xs = Inr s' \<Longrightarrow> justified w (past @ xs) s'"
proof (induction xs arbitrary: s past)
  case (Cons x xs)
  then obtain t where "resume canon w s x = Inr t" "resume_all canon w t xs = Inr s'" by auto
  with Cons.IH [of "past @ [x]" t] resume_justified [OF Cons.prems(1)] show ?case by simp
qed simp

theorem workflow_returns_witness:
  "\<exists>sends. length sends = 33 \<and>
     ((\<exists>e. and_then (start_orchestration demo_canon ''v1'' (demo_input ''c1''))
          (\<lambda>s. resume_all demo_canon (demo_input ''c1'') s sends) = Inl e)
      \<or> (\<exists>out. and_then (start_orchestration demo_canon ''v1'' (demo_input ''c1''))
          (\<lambda>s. resume_all demo_canon (demo_input ''c1'') s sends) = Inr (Returned out)))"
  by (intro exI [of _ "replicate 33 (SendEvent demo_event)"] conjI workflow_returns) simp_all

text \<open>
  The orchestration asks for an effect only after an acceptance. When it waits for the effect
  of an event, some delivered resolution accepted that event and the request is exactly the one of
  its own input; when it reports a recorded effect, an acceptance and a receipt were delivered, and
  the report names them; any other report names neither.
\<close>

theorem workflow_effect_needs_acceptance:
  assumes "and_then (start_orchestration canon version w) (\<lambda>s. resume_all canon w s sends) = Inr s'"
  shows "case s' of
      AwaitEffect i q \<Rightarrow> q = effect_request_for w i
        \<and> SendResolution \<lparr>rr_code = ACCEPTED, rr_event_id = i\<rparr> \<in> set sends
    | Returned out \<Rightarrow>
        (if wo_code out = EFFECT_RECORDED
         then \<exists>i r. wo_accepted_event_id out = Some i \<and> wo_effect_receipt_id out = Some (er_receipt_id r)
           \<and> SendResolution \<lparr>rr_code = ACCEPTED, rr_event_id = i\<rparr> \<in> set sends \<and> SendEffect r \<in> set sends
         else wo_accepted_event_id out = None \<and> wo_effect_receipt_id out = None)
    | AwaitResolution n q \<Rightarrow> n \<le> 16 \<and> rq_execution_id q = wi_execution_id w
    | AwaitEvent n \<Rightarrow> n \<le> 16"
proof -
  obtain s where s: "start_orchestration canon version w = Inr s" "resume_all canon w s sends = Inr s'"
    using assms by auto
  have "justified w [] s"
    using s(1) by (auto simp: start_orchestration_def max_review_event_attempts_def
        dest!: returned_cases split: if_splits)
  from resume_all_justified [OF this s(2)] show ?thesis
    by (cases s') (auto simp: max_review_event_attempts_def split: workflow_result_code.splits)
qed

definition demo_sends :: "workflow_send list" where
  "demo_sends = [SendEvent demo_event, SendResolution \<lparr>rr_code = UNKNOWN_EVENT, rr_event_id = ''event-1''\<rparr>,
     SendEvent demo_event, SendResolution \<lparr>rr_code = ACCEPTED, rr_event_id = ''event-1''\<rparr>]"

lemma demo_tokens:
  "validate_token ''execution-1'' = None" "validate_token ''v1'' = None" "validate_token ''event-1'' = None"
  "validate_token ''c1'' = None" "validate_token ''receipt:c1'' = None"
  "\<forall>c \<in> set ''123456''. validate_fingerprint (demo_fingerprint c) = None"
  by code_simp+

lemma demo_requests:
  "new_effect_request demo_canon (demo_request ''c1'') = Inr (demo_request ''c1'')"
  "new_review_event_request demo_canon \<lparr>rq_execution_id = ''execution-1'', rq_event_id = ''event-1'',
     rq_event_fingerprint = demo_fingerprint CHR ''6''\<rparr> = Inr \<lparr>rq_execution_id = ''execution-1'',
     rq_event_id = ''event-1'', rq_event_fingerprint = demo_fingerprint CHR ''6''\<rparr>"
  "new_review_event_ref demo_canon demo_event = Inr demo_event"
  "new_review_resolution demo_canon \<lparr>rr_code = ACCEPTED, rr_event_id = ''event-1''\<rparr>
     = Inr \<lparr>rr_code = ACCEPTED, rr_event_id = ''event-1''\<rparr>"
  "new_effect_result demo_canon \<lparr>er_receipt_id = ''receipt:c1'', er_replayed = False\<rparr>
     = Inr \<lparr>er_receipt_id = ''receipt:c1'', er_replayed = False\<rparr>"
  "new_workflow_output demo_canon \<lparr>wo_code = EFFECT_RECORDED, wo_accepted_event_id = Some ''event-1'',
     wo_effect_receipt_id = Some ''receipt:c1''\<rparr> = Inr \<lparr>wo_code = EFFECT_RECORDED,
     wo_accepted_event_id = Some ''event-1'', wo_effect_receipt_id = Some ''receipt:c1''\<rparr>"
  using demo_tokens
  by (simp_all add: new_effect_request_def new_review_event_request_def new_review_event_ref_def
      new_review_resolution_def new_effect_result_def new_workflow_output_def validate_payload_def
      effect_request_json_def demo_canon_def demo_defs)
    (simp_all add: demo_fingerprint_def)

lemma demo_sent:
  "and_then (start_orchestration demo_canon ''v1'' (demo_input ''c1''))
     (\<lambda>s. resume_all demo_canon (demo_input ''c1'') s demo_sends)
   = Inr (AwaitEffect ''event-1'' (demo_request ''c1''))"
  using demo_requests(1,2)
  by (simp add: demo_sends_def start_orchestration_def max_review_event_attempts_def)
    (simp add: demo_defs max_review_event_attempts_def)

theorem workflow_effect_needs_acceptance_witness:
  "demo_request ''c1'' = effect_request_for (demo_input ''c1'') ''event-1''
     \<and> SendResolution \<lparr>rr_code = ACCEPTED, rr_event_id = ''event-1''\<rparr> \<in> set demo_sends"
  using workflow_effect_needs_acceptance [OF demo_sent] by simp

section \<open>The workflow on the register\<close>

text \<open>One event delivered and resolved, one effect applied, by a scheduler that loses nothing.\<close>

definition workflow_round ::
    "(payload \<Rightarrow> string) \<Rightarrow> workflow_input \<Rightarrow> review_event_ref \<Rightarrow> orchestration \<Rightarrow> durable_register
       \<Rightarrow> orchestration durable_outcome" where
  "workflow_round canon w e s R =
     (case resume canon w s (SendEvent e) of
        Inl err \<Rightarrow> (Inl err, R)
      | Inr (AwaitResolution n q) \<Rightarrow>
          (case resolve_review_event_activity canon (wi_execution_id w) q R of
             (Inl err, R1) \<Rightarrow> (Inl err, R1)
           | (Inr r, R1) \<Rightarrow> (resume canon w (AwaitResolution n q) (SendResolution r), R1))
      | Inr t \<Rightarrow> (Inr t, R))"

definition workflow_effect ::
    "(payload \<Rightarrow> string) \<Rightarrow> workflow_input \<Rightarrow> orchestration \<Rightarrow> durable_register
       \<Rightarrow> orchestration durable_outcome" where
  "workflow_effect canon w s R =
     (case s of
        AwaitEffect i q \<Rightarrow>
          (case apply_effect_activity canon (wi_execution_id w) q R of
             (Inl err, R1) \<Rightarrow> (Inl err, R1)
           | (Inr r, R1) \<Rightarrow> (resume canon w s (SendEffect r), R1))
      | t \<Rightarrow> (Inr t, R))"

text \<open>The objects one successful round builds pass their checks.\<close>

definition objects_fit :: "(payload \<Rightarrow> string) \<Rightarrow> workflow_input \<Rightarrow> review_event_ref \<Rightarrow> bool" where
  "objects_fit canon w e \<longleftrightarrow>
     new_review_event_request canon \<lparr>rq_execution_id = wi_execution_id w, rq_event_id = rv_event_id e,
       rq_event_fingerprint = rv_event_fingerprint e\<rparr> = Inr \<lparr>rq_execution_id = wi_execution_id w,
       rq_event_id = rv_event_id e, rq_event_fingerprint = rv_event_fingerprint e\<rparr>
     \<and> new_review_event_ref canon e = Inr e
     \<and> new_review_resolution canon \<lparr>rr_code = ACCEPTED, rr_event_id = rv_event_id e\<rparr>
       = Inr \<lparr>rr_code = ACCEPTED, rr_event_id = rv_event_id e\<rparr>
     \<and> new_effect_request canon (effect_request_for w (rv_event_id e)) = Inr (effect_request_for w (rv_event_id e))
     \<and> new_effect_result canon \<lparr>er_receipt_id = ''receipt:'' @ wi_effect_command_id w, er_replayed = False\<rparr>
       = Inr \<lparr>er_receipt_id = ''receipt:'' @ wi_effect_command_id w, er_replayed = False\<rparr>
     \<and> new_workflow_output canon \<lparr>wo_code = EFFECT_RECORDED, wo_accepted_event_id = Some (rv_event_id e),
       wo_effect_receipt_id = Some (''receipt:'' @ wi_effect_command_id w)\<rparr>
       = Inr \<lparr>wo_code = EFFECT_RECORDED, wo_accepted_event_id = Some (rv_event_id e),
           wo_effect_receipt_id = Some (''receipt:'' @ wi_effect_command_id w)\<rparr>"

text \<open>
  An approval reaches its effect. On any reachable register in which the execution is admitted
  and enabled and the event is on record for it, with its fingerprint and the admitted input, not
  yet resolved, the command without a receipt and no acknowledgement armed to be lost, delivering
  the event in any of the sixteen waits leads through one resolution and one effect to the report
  that the effect is recorded, with its receipt, and the effect count is then one.
\<close>

theorem workflow_records_effect:
  assumes "map_of (dr_executions (durable_history canon ops)) (wi_execution_id w)
      = Some \<lparr>xr_workflow_input = w, xr_capability_enabled = True\<rparr>"
    and "map_of (dr_review_events (durable_history canon ops)) (rv_event_id e)
      = Some \<lparr>rf_execution_id = wi_execution_id w, rf_event_id = rv_event_id e,
          rf_event_fingerprint = rv_event_fingerprint e, rf_input_fingerprint = wi_input_fingerprint w\<rparr>"
    and "(wi_execution_id w, rv_event_id e, rv_event_fingerprint e)
      \<notin> set (dr_processed_events (durable_history canon ops))"
    and "map_of (dr_effect_receipts (durable_history canon ops)) (wi_effect_command_id w) = None"
    and "count_of (dr_lost_ack_remaining (durable_history canon ops)) (wi_effect_command_id w) = 0"
    and "objects_fit canon w e"
  shows "let (decided, R1) = workflow_round canon w e (AwaitEvent n) (durable_history canon ops);
             (finished, R2) = workflow_effect canon w
               (AwaitEffect (rv_event_id e) (effect_request_for w (rv_event_id e))) R1 in
     decided = Inr (AwaitEffect (rv_event_id e) (effect_request_for w (rv_event_id e)))
     \<and> finished = Inr (Returned \<lparr>wo_code = EFFECT_RECORDED, wo_accepted_event_id = Some (rv_event_id e),
         wo_effect_receipt_id = Some (''receipt:'' @ wi_effect_command_id w)\<rparr>)
     \<and> effect_count R2 (wi_effect_command_id w) = 1"
proof -
  let ?R = "durable_history canon ops" and ?q = "effect_request_for w (rv_event_id e)"
  let ?R1 = "snd (resolve_review_event canon (wi_execution_id w) e ?R)"
  note fit = assms(6) [unfolded objects_fit_def]
  have resolved: "fst (resolve_review_event canon (wi_execution_id w) e ?R)
      = Inr \<lparr>rr_code = ACCEPTED, rr_event_id = rv_event_id e\<rparr>"
    and accepted: "map_of (dr_accepted_events ?R1) (wi_execution_id w) = Some (rv_event_id e)"
    using assms(1-3) fit
    by (simp_all add: resolve_review_event_def Let_def review_resolution_code_of_def)
  have activity: "resolve_review_event_activity canon (wi_execution_id w)
      \<lparr>rq_execution_id = wi_execution_id w, rq_event_id = rv_event_id e,
       rq_event_fingerprint = rv_event_fingerprint e\<rparr> ?R
    = (Inr \<lparr>rr_code = ACCEPTED, rr_event_id = rv_event_id e\<rparr>, ?R1)"
  proof -
    have "new_review_event_ref canon \<lparr>rv_event_id = rv_event_id e,
        rv_event_fingerprint = rv_event_fingerprint e\<rparr> = Inr e" using fit by (cases e) simp
    with resolved show ?thesis by (simp add: resolve_review_event_activity_def prod_eq_iff)
  qed
  have round: "workflow_round canon w e (AwaitEvent n) ?R = (Inr (AwaitEffect (rv_event_id e) ?q), ?R1)"
    using fit activity by (simp add: workflow_round_def)
  have "require_effect_authority ?R1 ?q = None"
    using assms(1) accepted by (simp add: require_effect_authority_def effect_request_for_def Let_def)
  moreover have "count_of (dr_effect_counts ?R) (wi_effect_command_id w) = 0"
    using history_receipts [of canon ops] assms(4) by (simp add: receipts_inv_def)
  ultimately have effect: "fst (workflow_effect canon w (AwaitEffect (rv_event_id e) ?q) ?R1)
        = Inr (Returned \<lparr>wo_code = EFFECT_RECORDED, wo_accepted_event_id = Some (rv_event_id e),
            wo_effect_receipt_id = Some (''receipt:'' @ wi_effect_command_id w)\<rparr>)"
      "effect_count (snd (workflow_effect canon w (AwaitEffect (rv_event_id e) ?q) ?R1))
        (wi_effect_command_id w) = 1"
    using assms(4,5) fit
    by (simp_all add: workflow_effect_def apply_effect_activity_def apply_effect_def acknowledge_effect_def
        Let_def returned_def effect_count_def count_of_def effect_request_for_def)
  then show ?thesis unfolding round by (simp add: case_prod_beta)
qed

theorem workflow_records_effect_witness:
  "fst (workflow_effect demo_canon (demo_input ''c1'')
      (AwaitEffect ''event-1'' (demo_request ''c1''))
      (snd (workflow_round demo_canon (demo_input ''c1'') demo_event (AwaitEvent 3)
        (durable_history demo_canon (demo_admitted ''c1'')))))
   = Inr (Returned \<lparr>wo_code = EFFECT_RECORDED, wo_accepted_event_id = Some ''event-1'',
       wo_effect_receipt_id = Some ''receipt:c1''\<rparr>)"
proof -
  let ?R = "durable_history demo_canon (demo_admitted ''c1'')"
  have R: "dr_executions ?R = [(''execution-1'', \<lparr>xr_workflow_input = demo_input ''c1'', xr_capability_enabled = True\<rparr>)]"
    "dr_review_events ?R = [(''event-1'', demo_fact)]" "dr_processed_events ?R = []"
    "dr_effect_receipts ?R = []" "dr_lost_ack_remaining ?R = []"
    by (simp_all add: demo_defs admit_execution_def record_review_event_def Let_def)
  have fit: "objects_fit demo_canon (demo_input ''c1'') demo_event"
    using demo_requests by (simp add: objects_fit_def demo_defs)
  show ?thesis
    using workflow_records_effect [of demo_canon "demo_admitted ''c1''" "demo_input ''c1''" demo_event 3,
        OF _ _ _ _ _ fit] R
    by (simp add: demo_defs count_of_def case_prod_beta Let_def)
qed

end
