(* ===== verification/Json.thy ===== *)
theory Json
  imports Platform
begin

text \<open>
  JSON values, as \<^verbatim>\<open>packages/contracts/src/asklegal_contracts/json_types.py\<close> closes them, and the text
  \<^verbatim>\<open>json.dumps\<close> writes for them. A number with a fraction or an exponent is kept as its token: the
  modelled code reads such numbers, but never writes or computes with one. The RFC 8785 encoder
  behind \<^verbatim>\<open>canonicalize\<close> is third-party code: an argument of type \<^verbatim>\<open>encoder\<close>, \<^const>\<open>None\<close> where it
  raises.
\<close>

datatype json =
    JNull | JText string | JNumber int | JReal string | JBoolean bool | JArray "json list"
  | JObject "(string \<times> json) list"

type_synonym encoder = "json \<Rightarrow> string option"

text \<open>
  \<^verbatim>\<open>json.dumps(value, separators=(",", ":"))\<close>, with the members of an object in the order given.
\<close>

fun json_text :: "json \<Rightarrow> string" where
  "json_text JNull = ''null''"
| "json_text (JText s) = json_string s"
| "json_text (JNumber i) = decimal i"
| "json_text (JReal token) = token"
| "json_text (JBoolean b) = (if b then ''true'' else ''false'')"
| "json_text (JArray xs) = ''['' @ join '','' (map json_text xs) @ '']''"
| "json_text (JObject kvs) = ''{'' @ join '','' (map (\<lambda>(k, v). json_string k @ '':'' @ json_text v) kvs) @ ''}''"

end
