(* ===== verification/PromotionModel.thy ===== *)
theory PromotionModel
  imports Json Approval
begin

text \<open>
  The values of the promotion package: \<^verbatim>\<open>packages/promotion/src/asklegal_promotion/model.py\<close>, and
  the corpus values they carry (\<^verbatim>\<open>packages/corpus/src/asklegal_corpus/model.py\<close>). An embedding profile
  extends the admitted fields it is issued from, and a manifest extends its plan, as both repeat
  those fields in the code. The \<^verbatim>\<open>detail\<close> text of an error is not modelled. A vector
  component is of a type \<^verbatim>\<open>'v\<close>: the code only compares and tests components.
\<close>

section \<open>Failures\<close>

datatype promotion_code =
    BackupFailed | BaseStateDrift | BroadRetirementForbidden | CostLimitExceeded
  | CoverageFingerprintMismatch | CoverageUnavailable | IndexNameInvalid | InventoryMismatch
  | LostAckUnreconciled | ManifestDrift | OverlappingExecution | PostCutoverFailed | ProfileInvalid
  | RetrievalGateFailed | RoutingCompareAndSetLost | ServingStateCompareAndSetLost
  | ServingPayloadInvalid | SwapPreflightFailed | TargetCollision | UnknownRemoteRecord
  | VectorInvalid | WarmupFailed

datatype corpus_code =
    CoverageIncomplete | DuplicateRecord | FingerprintMismatch | CorpusInventoryMismatch
  | ProposalNotFrozen | ReleaseScopeMismatch | TraceabilityIncomplete | ZeroRecordUnjustified

text \<open>What a promotion can raise; a missing dictionary key and \<^verbatim>\<open>zip(strict=True)\<close> included.\<close>

datatype promotion_failure =
    PromotionError promotion_code
  | CorpusError corpus_code
  | ApprovalError approval_error
  | ContractViolation
  | OutcomeUnknown
  | KeyError
  | ValueError

section \<open>Canonical JSON\<close>

definition canonical_fingerprint :: "platform \<Rightarrow> encoder \<Rightarrow> json \<Rightarrow> promotion_failure + string" where
  "canonical_fingerprint P canon j =
     (case canon j of None \<Rightarrow> Inl ContractViolation | Some raw \<Rightarrow> Inr (sha256_fingerprint P raw))"

section \<open>Corpus values\<close>

record serving_record =
  sr_record_id :: string
  sr_text :: string
  sr_country :: string
  sr_jurisdiction :: string
  sr_material_type :: string
  sr_source :: string
  sr_authority_note :: string
  sr_artifact_ref :: string
  sr_evidence_refs :: "string list"

record flattened_record =
  fr_record_id :: string
  fr_content_fingerprint :: string
  fr_scope_id :: string
  fr_release_id :: string
  fr_record :: serving_record

record desired_state_inventory =
  di_inventory_id :: string
  di_target_key :: string
  di_observation_cutoff :: string
  di_scope_releases :: "(string \<times> string) list"
  di_records :: "flattened_record list"
  di_records_fingerprint :: string
  di_inventory_fingerprint :: string

datatype coverage_state = CURRENT | KNOWN_GAP | NOT_READY | WITHHELD

datatype coverage_warning =
    COVERAGE_KNOWN_GAP | COVERAGE_NOT_READY | COVERAGE_WITHHELD | NO_COVERAGE_WARNING

record coverage_scope_status =
  cs_scope_id :: string
  cs_status :: coverage_state
  cs_last_verified_at :: string
  cs_gap_refs :: "string list"
  cs_quarantine_refs :: "string list"
  cs_source_failure_refs :: "string list"
  cs_warning :: coverage_warning

record source_cycle_binding =
  sc_vault :: string
  sc_logical_key :: string
  sc_version_id :: string
  sc_fingerprint :: string
  sc_byte_length :: int
  sc_observation_cutoff :: string
  sc_accounting_complete :: bool
  sc_release_blocking :: bool
  sc_missing_source_ids :: "string list"
  sc_duplicate_source_ids :: "string list"
  sc_gap_source_ids :: "string list"

record coverage_manifest =
  cm_manifest_id :: string
  cm_serving_state_id :: string
  cm_observation_cutoff :: string
  cm_scopes :: "coverage_scope_status list"
  cm_source_cycle :: "source_cycle_binding option"
  cm_canonical_bytes :: string
  cm_fingerprint :: string

section \<open>Embeddings\<close>

record embedding_profile_input =
  ep_provider :: string
  ep_resource_class :: string
  ep_geography_class :: string
  ep_deployment_name :: string
  ep_model_id :: string
  ep_model_version :: string
  ep_api_contract :: string
  ep_tokenizer :: string
  ep_dimensions :: int
  ep_encoding :: string
  ep_normalization :: string
  ep_metric :: string
  ep_max_input_tokens :: int
  ep_cost_limit_microunits :: int
  ep_expires_at :: string
  ep_allowed_environments :: "string list"
  ep_stateful_features :: bool

record embedding_profile = embedding_profile_input +
  ep_profile_id :: string
  ep_profile_fingerprint :: string

record embedding_request_input =
  qi_record_id :: string
  qi_serving_payload_fingerprint :: string
  qi_text :: string
  qi_batch_id :: string
  qi_position :: int

record embedding_request =
  qr_request_id :: string
  qr_record_id :: string
  qr_serving_payload_fingerprint :: string
  qr_text :: string
  qr_text_fingerprint :: string
  qr_token_count :: int
  qr_profile_id :: string
  qr_batch_id :: string
  qr_batch_position :: int
  qr_cache_key :: string

record embedding_receipt =
  rt_receipt_id :: string
  rt_request_id :: string
  rt_provider_request_id :: string
  rt_dimensions :: int
  rt_vector_fingerprint :: string
  rt_input_tokens :: int
  rt_latency_milliseconds :: int
  rt_result :: string

record 'v embedded_vector =
  ev_values :: "'v list"
  ev_receipt :: embedding_receipt

section \<open>Manifests\<close>

record promotion_action =
  pa_sequence :: int
  pa_action_id :: string
  pa_effect_type :: effect_type
  pa_owning_application :: application_code
  pa_permitted_checkpoint :: string
  pa_input_refs :: "immutable_reference list"
  pa_effect_command_fingerprint :: string
  pa_required_capability :: effect_capability
  pa_capability_profile_ref :: immutable_reference
  pa_destination_class :: destination_class
  pa_stable_idempotency_key :: string
  pa_retry_class :: retry_class
  pa_attempt_ceiling :: int
  pa_deadline :: string
  pa_stop_conditions :: "stop_condition list"
  pa_expected_remote_precondition_ref :: contract_reference
  pa_success_postcondition_ref :: contract_reference
  pa_compensation :: compensation

record promotion_plan =
  pp_environment :: string
  pp_jurisdiction :: string
  pp_freeze_date :: string
  pp_valid_from :: string
  pp_valid_until :: string
  pp_base_serving_state_id :: string
  pp_candidate_serving_state_id :: string
  pp_candidate_serving_state_fingerprint :: string
  pp_rollback_serving_state_id :: string
  pp_desired_state :: desired_state_inventory
  pp_coverage_status :: coverage_manifest
  pp_embedding_profile :: embedding_profile
  pp_validity_predicates :: "(string \<times> string \<times> string) list"
  pp_batch_size :: int
  pp_project_id :: string
  pp_action_contract_version :: string
  pp_actions :: "promotion_action list"
  pp_exact_retirement_target_ids :: "string list"

record promotion_manifest = promotion_plan +
  pm_manifest_id :: string
  pm_fingerprint :: string

section \<open>Targets and serving states\<close>

record 'v target_record =
  tr_record_id :: string
  tr_content_fingerprint :: string
  tr_vector :: "'v list"
  tr_metadata_text :: string
  tr_country :: string
  tr_jurisdiction :: string
  tr_material_type :: string
  tr_source :: string
  tr_authority_note :: string

record target_definition =
  td_name :: string
  td_state_fingerprint :: string
  td_dimensions :: int
  td_metric :: string
  td_namespace :: string

record backup_verification =
  bv_native_backup_receipt_ref :: string
  bv_recovery_receipt_ref :: string
  bv_native_verified :: bool
  bv_recovery_verified :: bool

record serving_candidate =
  sv_state_id :: string
  sv_state_fingerprint :: string
  sv_predecessor_state_id :: string
  sv_target_name :: string
  sv_desired_inventory_fingerprint :: string
  sv_coverage_fingerprint :: string
  sv_embedding_profile_id :: string
  sv_embedding_profile_fingerprint :: string
  sv_approval_id :: string
  sv_execution_lineage_id :: string

record serving_receipt =
  sx_receipt_id :: string
  sx_operation :: string
  sx_predecessor_state_id :: string
  sx_state_id :: string
  sx_candidate_fingerprint :: string
  sx_replayed :: bool

record execution_result =
  xe_execution_lineage_id :: string
  xe_manifest_id :: string
  xe_target_name :: string
  xe_state :: string
  xe_embedding_receipt_ids :: "string list"
  xe_native_backup_receipt_ref :: string
  xe_recovery_receipt_ref :: string
  xe_routing_receipt_ref :: string
  xe_rollback_receipt_ref :: string
  xe_total_cost_microunits :: int

end
