(* ===== verification/Manifests.thy ===== *)
theory Manifests
  imports PromotionModel
begin

text \<open>
  Freezing and verifying what a promotion executes:
  \<^verbatim>\<open>packages/promotion/src/asklegal_promotion/builder.py\<close> (embedding profiles, action authorities,
  manifests, target names, embedding requests) and the coverage release gate of
  \<^verbatim>\<open>packages/corpus/src/asklegal_corpus/builder.py\<close>. The token counter is a port: \<^const>\<open>None\<close> where it
  raises or returns something that is no text or no integer.
\<close>

section \<open>The text values of the domain enumerations\<close>

primrec effect_type_value :: "effect_type \<Rightarrow> string" where
  "effect_type_value Eff_BACKUP_MUTATION = ''BACKUP_MUTATION''"
| "effect_type_value Eff_EMBEDDING_PROVIDER_CALL = ''EMBEDDING_PROVIDER_CALL''"
| "effect_type_value Eff_EVIDENCE_WRITE = ''EVIDENCE_WRITE''"
| "effect_type_value Eff_GENERATIVE_LLM_CALL = ''GENERATIVE_LLM_CALL''"
| "effect_type_value Eff_PINECONE_MUTATION = ''PINECONE_MUTATION''"
| "effect_type_value Eff_RELEASE_PUBLICATION = ''RELEASE_PUBLICATION''"
| "effect_type_value Eff_ROUTING_ACTIVATION = ''ROUTING_ACTIVATION''"
| "effect_type_value Eff_SOURCE_CAPTURE = ''SOURCE_CAPTURE''"

primrec application_code_value :: "application_code \<Rightarrow> string" where
  "application_code_value App_ACQUISITION_WORKER = ''ACQUISITION_WORKER''"
| "application_code_value App_CONTROL_PLANE = ''CONTROL_PLANE''"
| "application_code_value App_LEGAL_PROCESSING_WORKER = ''LEGAL_PROCESSING_WORKER''"
| "application_code_value App_PROMOTION_WORKER = ''PROMOTION_WORKER''"
| "application_code_value App_REVIEW_APPLICATION = ''REVIEW_APPLICATION''"

primrec effect_capability_value :: "effect_capability \<Rightarrow> string" where
  "effect_capability_value Cap_ACTIVATE_ROUTING = ''ACTIVATE_ROUTING''"
| "effect_capability_value Cap_CALL_EMBEDDING_PROVIDER = ''CALL_EMBEDDING_PROVIDER''"
| "effect_capability_value Cap_CALL_GENERATIVE_LLM = ''CALL_GENERATIVE_LLM''"
| "effect_capability_value Cap_CAPTURE_SOURCE = ''CAPTURE_SOURCE''"
| "effect_capability_value Cap_MANAGE_BACKUP = ''MANAGE_BACKUP''"
| "effect_capability_value Cap_MUTATE_PINECONE = ''MUTATE_PINECONE''"
| "effect_capability_value Cap_PUBLISH_RELEASE = ''PUBLISH_RELEASE''"
| "effect_capability_value Cap_WRITE_EVIDENCE = ''WRITE_EVIDENCE''"

primrec destination_class_value :: "destination_class \<Rightarrow> string" where
  "destination_class_value Dest_BACKUP_STORE = ''BACKUP_STORE''"
| "destination_class_value Dest_EMBEDDING_PROVIDER = ''EMBEDDING_PROVIDER''"
| "destination_class_value Dest_EVIDENCE_VAULT = ''EVIDENCE_VAULT''"
| "destination_class_value Dest_MODEL_PROVIDER = ''MODEL_PROVIDER''"
| "destination_class_value Dest_RELEASE_STORE = ''RELEASE_STORE''"
| "destination_class_value Dest_ROUTING_TARGET = ''ROUTING_TARGET''"
| "destination_class_value Dest_SERVING_TARGET = ''SERVING_TARGET''"
| "destination_class_value Dest_SOURCE_SYSTEM = ''SOURCE_SYSTEM''"

primrec retry_class_value :: "retry_class \<Rightarrow> string" where
  "retry_class_value Retry_NEVER = ''NEVER''"
| "retry_class_value Retry_RECONCILE_BEFORE_RETRY = ''RECONCILE_BEFORE_RETRY''"
| "retry_class_value Retry_SAFE_SAME_INTENT = ''SAFE_SAME_INTENT''"

section \<open>Embedding profiles\<close>

definition embedding_profile_body :: "'m embedding_profile_input_scheme \<Rightarrow> json" where
  "embedding_profile_body p = JObject
     [(''allowed_environments'', JArray (map JText (ep_allowed_environments p))),
      (''api_contract'', JText (ep_api_contract p)),
      (''cost_limit_microunits'', JNumber (ep_cost_limit_microunits p)),
      (''deployment_name'', JText (ep_deployment_name p)),
      (''dimensions'', JNumber (ep_dimensions p)),
      (''encoding'', JText (ep_encoding p)),
      (''expires_at'', JText (ep_expires_at p)),
      (''geography_class'', JText (ep_geography_class p)),
      (''max_input_tokens'', JNumber (ep_max_input_tokens p)),
      (''metric'', JText (ep_metric p)),
      (''model_id'', JText (ep_model_id p)),
      (''model_version'', JText (ep_model_version p)),
      (''normalization'', JText (ep_normalization p)),
      (''provider'', JText (ep_provider p)),
      (''resource_class'', JText (ep_resource_class p)),
      (''stateful_features'', JBoolean (ep_stateful_features p)),
      (''tokenizer'', JText (ep_tokenizer p))]"

definition verify_embedding_profile ::
    "platform \<Rightarrow> encoder \<Rightarrow> embedding_profile \<Rightarrow> promotion_failure option" where
  "verify_embedding_profile P canon p =
     (case canonical_fingerprint P canon (embedding_profile_body p) of
        Inl e \<Rightarrow> Some e
      | Inr f \<Rightarrow> raise_if
          (ep_profile_fingerprint p \<noteq> f \<or> ep_profile_id p \<noteq> stable_id P ''emp'' [f])
          (PromotionError ProfileInvalid))"

definition freeze_embedding_profile ::
    "platform \<Rightarrow> encoder \<Rightarrow> embedding_profile_input \<Rightarrow> promotion_failure + embedding_profile" where
  "freeze_embedding_profile P canon inputs =
     and_then (canonical_fingerprint P canon (embedding_profile_body inputs))
       (\<lambda>f. Inr (embedding_profile_input.extend inputs
          (embedding_profile.fields (stable_id P ''emp'' [f]) f)))"

section \<open>Action authorities\<close>

definition reference_body :: "immutable_reference \<Rightarrow> json" where
  "reference_body r = JObject
     [(''fingerprint'', JText (ref_fingerprint r)), (''ref_id'', JText (ref_id r)),
      (''ref_type'', JText (reference_type_value (ref_type r)))]"

definition contract_reference_body :: "contract_reference \<Rightarrow> json" where
  "contract_reference_body c = JObject
     [(''contract_id'', JText (contract_id c)), (''fingerprint'', JText (contract_fingerprint c)),
      (''version'', JText (contract_version c))]"

primrec compensation_body :: "compensation \<Rightarrow> json" where
  "compensation_body NoCompensation = JObject [(''mode'', JText ''NO_COMPENSATION'')]"
| "compensation_body (DeclaredCompensation c) = JObject
     [(''contract_ref'', contract_reference_body c), (''mode'', JText ''DECLARED_COMPENSATION'')]"

definition action_body :: "promotion_action \<Rightarrow> json" where
  "action_body a = JObject
     [(''action_id'', JText (pa_action_id a)),
      (''attempt_ceiling'', JNumber (pa_attempt_ceiling a)),
      (''capability_profile_ref'', reference_body (pa_capability_profile_ref a)),
      (''compensation'', compensation_body (pa_compensation a)),
      (''deadline'', JText (pa_deadline a)),
      (''destination_class'', JText (destination_class_value (pa_destination_class a))),
      (''effect_command_fingerprint'', JText (pa_effect_command_fingerprint a)),
      (''effect_type'', JText (effect_type_value (pa_effect_type a))),
      (''expected_remote_precondition_ref'',
         contract_reference_body (pa_expected_remote_precondition_ref a)),
      (''input_refs'', JArray (map reference_body (pa_input_refs a))),
      (''owning_application'', JText (application_code_value (pa_owning_application a))),
      (''permitted_checkpoint'', JText (pa_permitted_checkpoint a)),
      (''required_capability'', JText (effect_capability_value (pa_required_capability a))),
      (''retry_class'', JText (retry_class_value (pa_retry_class a))),
      (''sequence'', JNumber (pa_sequence a)),
      (''stable_idempotency_key'', JText (pa_stable_idempotency_key a)),
      (''stop_conditions'', JArray (map (\<lambda>s. JText (stop_condition_value s)) (pa_stop_conditions a))),
      (''success_postcondition_ref'', contract_reference_body (pa_success_postcondition_ref a))]"

definition action_authority_fingerprint ::
    "platform \<Rightarrow> encoder \<Rightarrow> promotion_action \<Rightarrow> promotion_failure + string" where
  "action_authority_fingerprint P canon a = canonical_fingerprint P canon (action_body a)"

text \<open>\<^verbatim>\<open>_PROMOTION_EFFECT_BINDINGS\<close>, by effect type.\<close>

fun promotion_effect_binding :: "effect_type \<Rightarrow> (effect_capability \<times> destination_class) option" where
  "promotion_effect_binding Eff_BACKUP_MUTATION = Some (Cap_MANAGE_BACKUP, Dest_BACKUP_STORE)"
| "promotion_effect_binding Eff_EMBEDDING_PROVIDER_CALL =
     Some (Cap_CALL_EMBEDDING_PROVIDER, Dest_EMBEDDING_PROVIDER)"
| "promotion_effect_binding Eff_PINECONE_MUTATION = Some (Cap_MUTATE_PINECONE, Dest_SERVING_TARGET)"
| "promotion_effect_binding Eff_RELEASE_PUBLICATION = Some (Cap_PUBLISH_RELEASE, Dest_RELEASE_STORE)"
| "promotion_effect_binding Eff_ROUTING_ACTIVATION = Some (Cap_ACTIVATE_ROUTING, Dest_ROUTING_TARGET)"
| "promotion_effect_binding _ = None"

text \<open>The \<^verbatim>\<open>_TIMESTAMP\<close> of this module is the one of the domain without day zero.\<close>

definition deadline_pattern :: "string \<Rightarrow> bool" where
  "deadline_pattern s \<longleftrightarrow> timestamp_pattern s \<and> two_digits s 8 1 31"

definition mandatory_stop_conditions :: "stop_condition list" where
  "mandatory_stop_conditions = [Stop_ATTEMPT_CEILING, Stop_AUTHORITY_INVALID,
     Stop_CANCELLATION_BEFORE_EFFECT, Stop_CAPABILITY_INACTIVE, Stop_DEADLINE,
     Stop_POSTCONDITION_MET, Stop_PRECONDITION_CHANGED]"

definition validate_action_authority ::
    "string \<Rightarrow> string \<Rightarrow> promotion_action \<Rightarrow> promotion_failure option" where
  "validate_action_authority valid_from valid_until a =
     (let drift = PromotionError ManifestDrift; keys = map reference_key (pa_input_refs a);
          stops = map stop_condition_value (pa_stop_conditions a) in first_raise
       [raise_if (\<not> code_pattern (pa_action_id a) \<or> \<not> code_pattern (pa_permitted_checkpoint a)
          \<or> pa_owning_application a \<noteq> App_PROMOTION_WORKER
          \<or> promotion_effect_binding (pa_effect_type a) = None) drift,
        raise_if (promotion_effect_binding (pa_effect_type a)
          \<noteq> Some (pa_required_capability a, pa_destination_class a)) drift,
        raise_if (pa_input_refs a = [] \<or> ref_type (pa_capability_profile_ref a) \<noteq> Ref_CAPABILITY_PROFILE) drift,
        raise_if (keys \<noteq> sort (remdups keys)) drift,
        raise_if (\<not> fingerprint_pattern (pa_effect_command_fingerprint a)
          \<or> \<not> is_exact_text (pa_stable_idempotency_key a)
          \<or> pa_attempt_ceiling a < 1
          \<or> pa_retry_class a = Retry_NEVER \<and> pa_attempt_ceiling a \<noteq> 1
          \<or> \<not> deadline_pattern (pa_deadline a)
          \<or> \<not> (valid_from < pa_deadline a \<and> pa_deadline a \<le> valid_until)) drift,
        raise_if (stops \<noteq> sort (remdups stops)
          \<or> set (pa_stop_conditions a) \<noteq> set mandatory_stop_conditions) drift])"

record action_bindings =
  ab_candidate_serving_state_fingerprint :: string
  ab_desired_state_fingerprint :: string
  ab_embedding_profile_fingerprint :: string
  ab_valid_from :: string
  ab_valid_until :: string

fun required_inputs :: "action_bindings \<Rightarrow> effect_type \<Rightarrow> (reference_type \<times> string) list" where
  "required_inputs b Eff_EMBEDDING_PROVIDER_CALL =
     [(Ref_DESIRED_STATE_INVENTORY, ab_desired_state_fingerprint b),
      (Ref_EMBEDDING_PROFILE, ab_embedding_profile_fingerprint b)]"
| "required_inputs b Eff_PINECONE_MUTATION =
     [(Ref_DESIRED_STATE_INVENTORY, ab_desired_state_fingerprint b),
      (Ref_SERVING_STATE, ab_candidate_serving_state_fingerprint b)]"
| "required_inputs b Eff_BACKUP_MUTATION = [(Ref_SERVING_STATE, ab_candidate_serving_state_fingerprint b)]"
| "required_inputs b Eff_RELEASE_PUBLICATION =
     [(Ref_DESIRED_STATE_INVENTORY, ab_desired_state_fingerprint b)]"
| "required_inputs b Eff_ROUTING_ACTIVATION = [(Ref_SERVING_STATE, ab_candidate_serving_state_fingerprint b)]"
| "required_inputs b _ = []"

definition validate_action_inputs ::
    "action_bindings \<Rightarrow> promotion_action \<Rightarrow> promotion_failure option" where
  "validate_action_inputs b a = first_raise
     [validate_action_authority (ab_valid_from b) (ab_valid_until b) a,
      raise_if (\<not> set (required_inputs b (pa_effect_type a))
        \<subseteq> set (map (\<lambda>r. (ref_type r, ref_fingerprint r)) (pa_input_refs a)))
        (PromotionError ManifestDrift)]"

definition validate_action_authorities ::
    "string \<Rightarrow> promotion_action list \<Rightarrow> action_bindings \<Rightarrow> promotion_failure option" where
  "validate_action_authorities version actions b =
     (let drift = PromotionError ManifestDrift in first_raise
       ([raise_if (version \<noteq> ''1.0.0'') drift,
         raise_if (actions = []) drift,
         raise_if (map pa_sequence actions \<noteq> map int [1..<length actions + 1]) drift,
         raise_if (\<not> distinct (map pa_action_id actions)
           \<or> \<not> distinct (map pa_stable_idempotency_key actions)) drift]
        @ map (validate_action_inputs b) actions))"

section \<open>Manifests\<close>

definition manifest_body :: "'m promotion_plan_scheme \<Rightarrow> json" where
  "manifest_body p = JObject
     [(''action_contract_version'', JText (pp_action_contract_version p)),
      (''actions'', JArray (map action_body (pp_actions p))),
      (''base_serving_state_id'', JText (pp_base_serving_state_id p)),
      (''batch_size'', JNumber (pp_batch_size p)),
      (''candidate_serving_state_fingerprint'', JText (pp_candidate_serving_state_fingerprint p)),
      (''candidate_serving_state_id'', JText (pp_candidate_serving_state_id p)),
      (''coverage_fingerprint'', JText (cm_fingerprint (pp_coverage_status p))),
      (''desired_state_fingerprint'', JText (di_inventory_fingerprint (pp_desired_state p))),
      (''embedding_profile_fingerprint'', JText (ep_profile_fingerprint (pp_embedding_profile p))),
      (''environment'', JText (pp_environment p)),
      (''exact_retirement_target_ids'', JArray (map JText (pp_exact_retirement_target_ids p))),
      (''freeze_date'', JText (pp_freeze_date p)),
      (''jurisdiction'', JText (pp_jurisdiction p)),
      (''project_id'', JText (pp_project_id p)),
      (''rollback_serving_state_id'', JText (pp_rollback_serving_state_id p)),
      (''valid_from'', JText (pp_valid_from p)),
      (''valid_until'', JText (pp_valid_until p)),
      (''validity_predicates'',
         JArray (map (\<lambda>(a, b, c). JArray [JText a, JText b, JText c]) (pp_validity_predicates p)))]"

definition plan_bindings :: "'m promotion_plan_scheme \<Rightarrow> action_bindings" where
  "plan_bindings p = \<lparr>
     ab_candidate_serving_state_fingerprint = pp_candidate_serving_state_fingerprint p,
     ab_desired_state_fingerprint = di_inventory_fingerprint (pp_desired_state p),
     ab_embedding_profile_fingerprint = ep_profile_fingerprint (pp_embedding_profile p),
     ab_valid_from = pp_valid_from p,
     ab_valid_until = pp_valid_until p\<rparr>"

definition plan_guards :: "promotion_plan \<Rightarrow> promotion_failure option" where
  "plan_guards p = first_raise
     [raise_if (pp_batch_size p < 1 \<or> pp_validity_predicates p = []
        \<or> \<not> distinct (pp_validity_predicates p)) (PromotionError ManifestDrift),
      validate_action_authorities (pp_action_contract_version p) (pp_actions p) (plan_bindings p)]"

definition freeze_generic_promotion_manifest ::
    "platform \<Rightarrow> encoder \<Rightarrow> promotion_plan \<Rightarrow> promotion_failure + promotion_manifest" where
  "freeze_generic_promotion_manifest P canon p =
     (case plan_guards p of
        Some e \<Rightarrow> Inl e
      | None \<Rightarrow> and_then (canonical_fingerprint P canon (manifest_body p))
          (\<lambda>f. Inr (promotion_plan.extend p (promotion_manifest.fields (stable_id P ''pmn'' [f]) f))))"

definition validate_hk_v1_effect_types :: "effect_type list \<Rightarrow> promotion_failure option" where
  "validate_hk_v1_effect_types effect_types = first_raise
     [raise_if (Eff_ROUTING_ACTIVATION \<in> set effect_types) (PromotionError ManifestDrift),
      raise_if (Eff_RELEASE_PUBLICATION \<notin> set effect_types) (PromotionError ManifestDrift)]"

subsection \<open>The coverage release gate\<close>

definition validate_source_cycle_binding ::
    "source_cycle_binding \<Rightarrow> string \<Rightarrow> promotion_failure option" where
  "validate_source_cycle_binding c observation_cutoff =
     (let incomplete = CorpusError CoverageIncomplete in first_raise
       ([raise_if (sc_vault c \<noteq> ''PRIMARY''
           \<or> \<not> starts_with (sc_logical_key c) ''poc/report/source-coverage-cycle/''
           \<or> sc_version_id c = [] \<or> \<not> fingerprint_pattern (sc_fingerprint c)
           \<or> sc_byte_length c < 1 \<or> sc_observation_cutoff c \<noteq> observation_cutoff) incomplete]
        @ map (\<lambda>values. raise_if (values \<noteq> sort (remdups values) \<or> [] \<in> set values) incomplete)
            [sc_missing_source_ids c, sc_duplicate_source_ids c, sc_gap_source_ids c]
        @ [raise_if (sc_accounting_complete c
             = (sc_missing_source_ids c @ sc_duplicate_source_ids c \<noteq> [])) incomplete]))"

definition verify_v1_coverage_release_gate :: "coverage_manifest \<Rightarrow> promotion_failure option" where
  "verify_v1_coverage_release_gate m =
     (case cm_source_cycle m of
        None \<Rightarrow> Some (CorpusError CoverageIncomplete)
      | Some c \<Rightarrow> first_raise
          [validate_source_cycle_binding c (cm_observation_cutoff m),
           raise_if (\<not> sc_accounting_complete c) (CorpusError CoverageIncomplete),
           raise_if (sc_release_blocking c) (CorpusError CoverageIncomplete)])"

subsection \<open>The canonical V1 form\<close>

definition v1_guards :: "promotion_plan \<Rightarrow> promotion_failure option" where
  "v1_guards p = first_raise
     [verify_v1_coverage_release_gate (pp_coverage_status p),
      validate_hk_v1_effect_types (map pa_effect_type (pp_actions p))]"

definition freeze_v1_promotion_manifest ::
    "platform \<Rightarrow> encoder \<Rightarrow> promotion_plan \<Rightarrow> promotion_failure + promotion_manifest" where
  "freeze_v1_promotion_manifest P canon p =
     (case v1_guards p of
        Some e \<Rightarrow> Inl e
      | None \<Rightarrow> freeze_generic_promotion_manifest P canon p)"

definition verify_frozen ::
    "(promotion_plan \<Rightarrow> promotion_failure + promotion_manifest) \<Rightarrow> promotion_manifest
       \<Rightarrow> promotion_failure option" where
  "verify_frozen freezer m =
     (case freezer (promotion_plan.truncate m) of
        Inl e \<Rightarrow> Some e
      | Inr refrozen \<Rightarrow> raise_if (pm_manifest_id refrozen \<noteq> pm_manifest_id m
          \<or> pm_fingerprint refrozen \<noteq> pm_fingerprint m) (PromotionError ManifestDrift))"

definition verify_promotion_manifest ::
    "platform \<Rightarrow> encoder \<Rightarrow> promotion_manifest \<Rightarrow> promotion_failure option" where
  "verify_promotion_manifest P canon = verify_frozen (freeze_v1_promotion_manifest P canon)"

definition verify_generic_promotion_manifest ::
    "platform \<Rightarrow> encoder \<Rightarrow> promotion_manifest \<Rightarrow> promotion_failure option" where
  "verify_generic_promotion_manifest P canon = verify_frozen (freeze_generic_promotion_manifest P canon)"

section \<open>Target names\<close>

definition pinecone_index_name ::
    "string \<Rightarrow> string \<Rightarrow> string \<Rightarrow> string \<Rightarrow> string \<Rightarrow> promotion_failure + string" where
  "pinecone_index_name environment jurisdiction freeze_date state_fingerprint project_id =
     (let name = ''asklegal-'' @ environment @ ''-'' @ jurisdiction @ ''-'' @ freeze_date @ ''-''
            @ take 12 (drop 7 state_fingerprint) in construct
       [raise_if (environment \<notin> {''dev'', ''stg'', ''prd''}
          \<or> \<not> (length jurisdiction = 3 \<and> list_all (\<lambda>c. is_lower c \<or> is_digit c) jurisdiction)
          \<or> \<not> (length freeze_date = 8 \<and> list_all is_digit freeze_date)
          \<or> \<not> fingerprint_pattern state_fingerprint) (PromotionError IndexNameInvalid),
        raise_if (40 < length name \<or> 52 < length (name @ ''-'' @ project_id)
          \<or> \<not> (name \<noteq> [] \<and> list_all (\<lambda>c. is_lower c \<or> is_digit c \<or> c = CHR ''-'') name))
          (PromotionError IndexNameInvalid)] name)"

section \<open>Embedding requests\<close>

record token_counter =
  tc_tokenizer_id :: "string option"
  tc_count :: "string \<Rightarrow> int option"

definition embedding_request_for ::
    "platform \<Rightarrow> embedding_request_input \<Rightarrow> embedding_profile \<Rightarrow> token_counter
       \<Rightarrow> promotion_failure + embedding_request" where
  "embedding_request_for P q p counter =
     (if qi_text q = [] then Inl (PromotionError VectorInvalid)
      else if tc_tokenizer_id counter \<noteq> Some (ep_tokenizer p) then Inl (PromotionError ProfileInvalid)
      else case tc_count counter (qi_text q) of
          None \<Rightarrow> Inl (PromotionError VectorInvalid)
        | Some n \<Rightarrow>
            if \<not> (1 \<le> n \<and> n \<le> ep_max_input_tokens p) then Inl (PromotionError VectorInvalid)
            else let text_fingerprint = sha256_fingerprint P (utf8 (qi_text q));
                     cache_key = sha256_fingerprint P (utf8 (text_fingerprint @ ep_profile_fingerprint p)) in
              Inr \<lparr>qr_request_id = stable_id P ''emr''
                     [qi_record_id q, qi_serving_payload_fingerprint q, cache_key, qi_batch_id q,
                      decimal (qi_position q)],
                   qr_record_id = qi_record_id q,
                   qr_serving_payload_fingerprint = qi_serving_payload_fingerprint q,
                   qr_text = qi_text q, qr_text_fingerprint = text_fingerprint,
                   qr_token_count = n, qr_profile_id = ep_profile_id p,
                   qr_batch_id = qi_batch_id q, qr_batch_position = qi_position q,
                   qr_cache_key = cache_key\<rparr>)"

end
