(* ===== verification/ServingStores.thy ===== *)
theory ServingStores
  imports PromotionModel
begin

text \<open>
  The local stores a promotion runs against: replacement targets, backups, routing, serving states
  and coverage of \<^verbatim>\<open>packages/promotion/src/asklegal_promotion/local.py\<close>. The synthetic faults of a
  store are its \<^verbatim>\<open>failure_plan\<close>, fixed when it is made. A raising operation returns \<^const>\<open>Inl\<close> with the
  store as the raise leaves it.
\<close>

record failure_plan =
  fp_partial_batch :: bool
  fp_lost_ack_once :: bool
  fp_vector_mismatch :: bool
  fp_unknown_remote_record :: bool
  fp_backup_failure :: bool
  fp_recovery_failure :: bool
  fp_routing_cas_loss :: bool
  fp_swap_preflight_failure :: bool
  fp_warmup_failure :: bool
  fp_post_cutover_failure :: bool
  fp_rollback_failure :: bool
  fp_retrieval_failure :: bool

definition no_failures :: failure_plan where
  "no_failures = \<lparr>fp_partial_batch = False, fp_lost_ack_once = False, fp_vector_mismatch = False,
     fp_unknown_remote_record = False, fp_backup_failure = False, fp_recovery_failure = False,
     fp_routing_cas_loss = False, fp_swap_preflight_failure = False, fp_warmup_failure = False,
     fp_post_cutover_failure = False, fp_rollback_failure = False, fp_retrieval_failure = False\<rparr>"

section \<open>Replacement targets\<close>

type_synonym 'v target = "target_definition \<times> (string \<times> 'v target_record) list"

record 'v target_store =
  ts_plan :: failure_plan
  ts_targets :: "(string \<times> 'v target) list"
  ts_lost_ack_fired :: bool

type_synonym ('a, 's) promotion_outcome = "(promotion_failure + 'a) \<times> 's"

definition create_target ::
    "target_definition \<Rightarrow> 'v target_store \<Rightarrow> (unit, 'v target_store) promotion_outcome" where
  "create_target d S =
     (case map_of (ts_targets S) (td_name d) of
        Some existing \<Rightarrow>
          if fst existing \<noteq> d then (Inl (PromotionError TargetCollision), S) else (Inr (), S)
      | None \<Rightarrow> (Inr (), S\<lparr>ts_targets := AList.update (td_name d) (d, []) (ts_targets S)\<rparr>))"

definition describe_target :: "string \<Rightarrow> 'v target_store \<Rightarrow> promotion_failure + target_definition" where
  "describe_target name S = (case map_of (ts_targets S) name of
     None \<Rightarrow> Inl KeyError | Some t \<Rightarrow> Inr (fst t))"

definition write_records ::
    "'v target_record list \<Rightarrow> (string \<times> 'v target_record) list \<Rightarrow> (string \<times> 'v target_record) list" where
  "write_records rs m = foldl (\<lambda>m r. AList.update (tr_record_id r) r m) m rs"

definition upsert_batch ::
    "string \<Rightarrow> 'v target_record list \<Rightarrow> 'v target_store \<Rightarrow> (unit, 'v target_store) promotion_outcome" where
  "upsert_batch name records S =
     (case map_of (ts_targets S) name of
        None \<Rightarrow> (Inl KeyError, S)
      | Some (d, target) \<Rightarrow>
          (let selected = (if fp_partial_batch (ts_plan S) \<and> 1 < length records
                           then butlast records else records);
               S1 = S\<lparr>ts_targets := AList.update name (d, write_records selected target) (ts_targets S)\<rparr> in
           if fp_lost_ack_once (ts_plan S) \<and> \<not> ts_lost_ack_fired S
           then (Inl OutcomeUnknown, S1\<lparr>ts_lost_ack_fired := True\<rparr>)
           else (Inr (), S1)))"

definition unknown_record :: "'v \<Rightarrow> 'v target_record" where
  "unknown_record zero = \<lparr>tr_record_id = ''rec_unknown'',
     tr_content_fingerprint = ''sha256:'' @ replicate 64 CHR ''f'', tr_vector = [zero],
     tr_metadata_text = ''unknown'', tr_country = ''unknown'', tr_jurisdiction = ''unknown'',
     tr_material_type = ''unknown'', tr_source = ''unknown'', tr_authority_note = ''unknown''\<rparr>"

text \<open>Enumeration, in identity order; the component \<^verbatim>\<open>0.0\<close> of the injected record is an argument.\<close>

definition enumerate_target ::
    "'v \<Rightarrow> string \<Rightarrow> 'v target_store \<Rightarrow> ('v target_record list, 'v target_store) promotion_outcome" where
  "enumerate_target zero name S =
     (case map_of (ts_targets S) name of
        None \<Rightarrow> (Inl KeyError, S)
      | Some (d, target) \<Rightarrow>
          (let target1 = (if fp_unknown_remote_record (ts_plan S) \<and> map_of target ''rec_unknown'' = None
                          then AList.update ''rec_unknown'' (unknown_record zero) target else target) in
           (Inr (map snd (sort_key fst target1)),
            S\<lparr>ts_targets := AList.update name (d, target1) (ts_targets S)\<rparr>)))"

definition delete_exact ::
    "platform \<Rightarrow> string \<Rightarrow> string \<Rightarrow> 'v target_store \<Rightarrow> (string, 'v target_store) promotion_outcome" where
  "delete_exact P name exact_name S =
     (if name \<noteq> exact_name \<or> map_of (ts_targets S) name = None
      then (Inl (PromotionError BroadRetirementForbidden), S)
      else (Inr (stable_id P ''efr'' [''retire'', name]),
            S\<lparr>ts_targets := AList.delete name (ts_targets S)\<rparr>))"

definition contains_target :: "string \<Rightarrow> 'v target_store \<Rightarrow> bool" where
  "contains_target name S \<longleftrightarrow> map_of (ts_targets S) name \<noteq> None"

definition verify_queries ::
    "string \<Rightarrow> string list \<Rightarrow> 'v target_store \<Rightarrow> promotion_failure option" where
  "verify_queries name expected S =
     (if fp_retrieval_failure (ts_plan S) then Some (PromotionError RetrievalGateFailed)
      else case map_of (ts_targets S) name of
          None \<Rightarrow> Some KeyError
        | Some (d, target) \<Rightarrow> raise_if (list_ex (\<lambda>i. map_of target i = None) expected)
            (PromotionError RetrievalGateFailed))"

section \<open>Backups\<close>

record backup_store =
  bs_plan :: failure_plan
  bs_receipts :: "backup_verification list"

definition create_and_verify_backup ::
    "platform \<Rightarrow> string \<Rightarrow> string \<Rightarrow> backup_store \<Rightarrow> (backup_verification, backup_store) promotion_outcome" where
  "create_and_verify_backup P target_name inventory_fingerprint S =
     (if fp_backup_failure (bs_plan S) then (Inl (PromotionError BackupFailed), S)
      else if fp_recovery_failure (bs_plan S) then (Inl (PromotionError BackupFailed), S)
      else let receipt = \<lparr>
             bv_native_backup_receipt_ref =
               stable_id P ''efr'' [''native-backup'', target_name, inventory_fingerprint],
             bv_recovery_receipt_ref =
               stable_id P ''efr'' [''recovery-copy'', target_name, inventory_fingerprint],
             bv_native_verified = True, bv_recovery_verified = True\<rparr> in
           (Inr receipt, S\<lparr>bs_receipts := bs_receipts S @ [receipt]\<rparr>))"

section \<open>Routing\<close>

record routing_store =
  rs_plan :: failure_plan
  rs_active_state_id :: string

definition activate_routing ::
    "platform \<Rightarrow> string \<Rightarrow> string \<Rightarrow> routing_store \<Rightarrow> (string, routing_store) promotion_outcome" where
  "activate_routing P expected_base candidate S =
     (if fp_swap_preflight_failure (rs_plan S) then (Inl (PromotionError SwapPreflightFailed), S)
      else if fp_warmup_failure (rs_plan S) then (Inl (PromotionError WarmupFailed), S)
      else if fp_routing_cas_loss (rs_plan S) \<or> rs_active_state_id S \<noteq> expected_base
      then (Inl (PromotionError RoutingCompareAndSetLost), S)
      else (Inr (stable_id P ''efr'' [''routing'', expected_base, candidate]),
            S\<lparr>rs_active_state_id := candidate\<rparr>))"

definition verify_post_cutover :: "string \<Rightarrow> routing_store \<Rightarrow> promotion_failure option" where
  "verify_post_cutover candidate S = raise_if
     (fp_post_cutover_failure (rs_plan S) \<or> rs_active_state_id S \<noteq> candidate)
     (PromotionError PostCutoverFailed)"

definition rollback_routing ::
    "platform \<Rightarrow> string \<Rightarrow> string \<Rightarrow> routing_store \<Rightarrow> (string, routing_store) promotion_outcome" where
  "rollback_routing P candidate predecessor S =
     (if fp_rollback_failure (rs_plan S) \<or> rs_active_state_id S \<noteq> candidate
      then (Inl (PromotionError PostCutoverFailed), S)
      else (Inr (stable_id P ''efr'' [''rollback'', candidate, predecessor]),
            S\<lparr>rs_active_state_id := predecessor\<rparr>))"

section \<open>Serving states\<close>

text \<open>\<^verbatim>\<open>^[a-z0-9][a-z0-9-]{2,79}$\<close>\<close>

definition serving_target_name :: "string \<Rightarrow> bool" where
  "serving_target_name s \<longleftrightarrow> 3 \<le> length s \<and> length s \<le> 80
     \<and> (is_lower (hd s) \<or> is_digit (hd s))
     \<and> list_all (\<lambda>c. is_lower c \<or> is_digit c \<or> c = CHR ''-'') s"

definition valid_serving_candidate :: "string \<Rightarrow> serving_candidate \<Rightarrow> bool" where
  "valid_serving_candidate expected_base c \<longleftrightarrow>
     sv_predecessor_state_id c = expected_base
     \<and> prefixed_id ''srv'' expected_base \<and> prefixed_id ''srv'' (sv_state_id c)
     \<and> prefixed_id ''srv'' (sv_predecessor_state_id c) \<and> prefixed_id ''emp'' (sv_embedding_profile_id c)
     \<and> prefixed_id ''apr'' (sv_approval_id c) \<and> prefixed_id ''exe'' (sv_execution_lineage_id c)
     \<and> fingerprint_pattern (sv_state_fingerprint c)
     \<and> fingerprint_pattern (sv_desired_inventory_fingerprint c)
     \<and> fingerprint_pattern (sv_coverage_fingerprint c)
     \<and> fingerprint_pattern (sv_embedding_profile_fingerprint c)
     \<and> serving_target_name (sv_target_name c)"

definition serving_activation_receipt :: "platform \<Rightarrow> string \<Rightarrow> serving_candidate \<Rightarrow> string" where
  "serving_activation_receipt P expected_base c = ''ssr_'' @ sha256_hex P (utf8 (join ''|''
     [expected_base, sv_state_id c, sv_state_fingerprint c, sv_target_name c,
      sv_desired_inventory_fingerprint c, sv_coverage_fingerprint c, sv_embedding_profile_id c,
      sv_embedding_profile_fingerprint c, sv_approval_id c, sv_execution_lineage_id c]))"

definition serving_rollback_receipt :: "platform \<Rightarrow> string \<Rightarrow> serving_candidate \<Rightarrow> string" where
  "serving_rollback_receipt P activation_receipt_id c = ''ssr_'' @ sha256_hex P (utf8 (join ''|''
     [''rollback'', activation_receipt_id, sv_state_id c, sv_predecessor_state_id c]))"

type_synonym activation_key = "string \<times> serving_candidate"

record serving_store =
  ss_plan :: failure_plan
  ss_active_state_id :: string
  ss_activations :: "(activation_key \<times> serving_receipt) list"
  ss_active_activation :: "(string \<times> serving_candidate \<times> serving_receipt) option"
  ss_rollbacks :: "(activation_key \<times> serving_receipt) list"

definition new_serving_store :: "string \<Rightarrow> failure_plan \<Rightarrow> serving_store" where
  "new_serving_store active_state_id plan = \<lparr>ss_plan = plan, ss_active_state_id = active_state_id,
     ss_activations = [], ss_active_activation = None, ss_rollbacks = []\<rparr>"

definition replay_of :: "serving_receipt \<Rightarrow> serving_receipt" where
  "replay_of r = r\<lparr>sx_replayed := True\<rparr>"

definition activation_of :: "platform \<Rightarrow> string \<Rightarrow> serving_candidate \<Rightarrow> serving_receipt" where
  "activation_of P expected_base c = \<lparr>sx_receipt_id = serving_activation_receipt P expected_base c,
     sx_operation = ''ACTIVATED'', sx_predecessor_state_id = expected_base,
     sx_state_id = sv_state_id c, sx_candidate_fingerprint = sv_state_fingerprint c,
     sx_replayed = False\<rparr>"

definition rollback_of :: "platform \<Rightarrow> string \<Rightarrow> serving_candidate \<Rightarrow> serving_receipt" where
  "rollback_of P activation_receipt_id c = \<lparr>
     sx_receipt_id = serving_rollback_receipt P activation_receipt_id c,
     sx_operation = ''ROLLED_BACK'', sx_predecessor_state_id = sv_state_id c,
     sx_state_id = sv_predecessor_state_id c, sx_candidate_fingerprint = sv_state_fingerprint c,
     sx_replayed = False\<rparr>"

definition activate_serving_state ::
    "platform \<Rightarrow> string \<Rightarrow> serving_candidate \<Rightarrow> serving_store
       \<Rightarrow> (serving_receipt, serving_store) promotion_outcome" where
  "activate_serving_state P expected_base c S =
     (if \<not> valid_serving_candidate expected_base c then (Inl (PromotionError BaseStateDrift), S)
      else case map_of (ss_activations S) (expected_base, c) of
          Some replay \<Rightarrow>
            if ss_active_state_id S \<noteq> sv_state_id c
              \<or> ss_active_activation S \<noteq> Some (expected_base, c, replay)
            then (Inl (PromotionError BaseStateDrift), S)
            else (Inr (replay_of replay), S)
        | None \<Rightarrow>
            if fp_routing_cas_loss (ss_plan S) \<or> ss_active_state_id S \<noteq> expected_base
              \<or> sv_predecessor_state_id c \<noteq> expected_base
            then (Inl (PromotionError BaseStateDrift), S)
            else let receipt = activation_of P expected_base c in
              (Inr receipt, S\<lparr>ss_active_state_id := sv_state_id c,
                 ss_activations := AList.update (expected_base, c) receipt (ss_activations S),
                 ss_active_activation := Some (expected_base, c, receipt)\<rparr>))"

definition verify_serving_state :: "string \<Rightarrow> serving_store \<Rightarrow> promotion_failure option" where
  "verify_serving_state candidate_state_id S = raise_if
     (fp_post_cutover_failure (ss_plan S) \<or> ss_active_state_id S \<noteq> candidate_state_id)
     (PromotionError PostCutoverFailed)"

text \<open>\<^verbatim>\<open>self._activations[key]\<close> is evaluated only after the first comparison has succeeded.\<close>

definition rollback_serving_state ::
    "platform \<Rightarrow> serving_candidate \<Rightarrow> string \<Rightarrow> serving_store
       \<Rightarrow> (serving_receipt, serving_store) promotion_outcome" where
  "rollback_serving_state P c activation_receipt_id S =
     (let key = (sv_predecessor_state_id c, c); failed = Inl (PromotionError PostCutoverFailed) in
      case map_of (ss_rollbacks S) key of
        Some replay \<Rightarrow>
          if ss_active_state_id S = sv_predecessor_state_id c
          then (case map_of (ss_activations S) key of
                  None \<Rightarrow> (Inl KeyError, S)
                | Some a \<Rightarrow>
                    if ss_active_activation S = Some (sv_predecessor_state_id c, c, a)
                      \<and> activation_receipt_id = sx_receipt_id a
                    then (Inr (replay_of replay), S) else (failed, S))
          else (failed, S)
      | None \<Rightarrow>
          (case ss_active_activation S of
             None \<Rightarrow> (failed, S)
           | Some (base, active, a) \<Rightarrow>
               if fp_rollback_failure (ss_plan S) \<or> ss_active_state_id S \<noteq> sv_state_id c
                 \<or> active \<noteq> c \<or> base \<noteq> sv_predecessor_state_id c
                 \<or> sx_receipt_id a \<noteq> activation_receipt_id
               then (failed, S)
               else let receipt = rollback_of P activation_receipt_id c in
                 (Inr receipt, S\<lparr>ss_active_state_id := sv_predecessor_state_id c,
                    ss_rollbacks := AList.update key receipt (ss_rollbacks S)\<rparr>)))"

section \<open>Coverage\<close>

record coverage_store =
  cv_manifest :: "coverage_manifest option"
  cv_available :: bool
  cv_cache :: "(string \<times> coverage_manifest) list"

definition new_coverage_store :: "coverage_manifest option \<Rightarrow> coverage_store" where
  "new_coverage_store m = \<lparr>cv_manifest = m, cv_available = True, cv_cache = []\<rparr>"

definition set_coverage_available :: "bool \<Rightarrow> coverage_store \<Rightarrow> coverage_store" where
  "set_coverage_available available S = S\<lparr>cv_available := available\<rparr>"

definition load_for_activation ::
    "string \<Rightarrow> string \<Rightarrow> coverage_store \<Rightarrow> (coverage_manifest, coverage_store) promotion_outcome" where
  "load_for_activation generation_id expected S =
     (case (if cv_available S then cv_manifest S else None) of
        None \<Rightarrow> (Inl (PromotionError CoverageUnavailable), S)
      | Some m \<Rightarrow>
          if cm_fingerprint m \<noteq> expected then (Inl (PromotionError CoverageFingerprintMismatch), S)
          else (Inr m, S\<lparr>cv_cache := AList.update generation_id m (cv_cache S)\<rparr>))"

definition load_for_request ::
    "string \<Rightarrow> string \<Rightarrow> coverage_store \<Rightarrow> (coverage_manifest, coverage_store) promotion_outcome" where
  "load_for_request generation_id expected S =
     (case (if cv_available S then cv_manifest S else None) of
        Some m \<Rightarrow>
          if cm_fingerprint m \<noteq> expected then (Inl (PromotionError CoverageFingerprintMismatch), S)
          else (Inr m, S\<lparr>cv_cache := AList.update generation_id m (cv_cache S)\<rparr>)
      | None \<Rightarrow>
          (case map_of (cv_cache S) generation_id of
             None \<Rightarrow> (Inl (PromotionError CoverageUnavailable), S)
           | Some m \<Rightarrow> if cm_fingerprint m \<noteq> expected
               then (Inl (PromotionError CoverageUnavailable), S) else (Inr m, S)))"

end
