(* ===== verification/PromotionService.thy ===== *)
theory PromotionService
  imports Manifests ServingStores Stores
begin

text \<open>
  The promotion service, \<^verbatim>\<open>apps/promotion-worker/src/asklegal_promotion_worker/service.py\<close>, in its
  local composition: every port but the embedding provider and the token counter is the local
  store of the repository, no serving profile and no real effect authority is injected. The service
  and the stores it shares make up one \<^verbatim>\<open>promotion_world\<close>; a method maps a world to its result and
  the world it leaves, also when it raises.
\<close>

section \<open>Sequencing\<close>

text \<open>A statement after another: a raise skips the rest and keeps the state as it is.\<close>

definition proceed ::
    "('a, 's) promotion_outcome \<Rightarrow> ('a \<Rightarrow> 's \<Rightarrow> ('b, 's) promotion_outcome) \<Rightarrow> ('b, 's) promotion_outcome" where
  "proceed r k = (case fst r of Inl e \<Rightarrow> (Inl e, snd r) | Inr a \<Rightarrow> k a (snd r))"

definition require :: "promotion_failure option \<Rightarrow> 's \<Rightarrow> (unit, 's) promotion_outcome" where
  "require c W = (case c of Some e \<Rightarrow> (Inl e, W) | None \<Rightarrow> (Inr (), W))"

text \<open>\<^verbatim>\<open>for start in range(0, len(xs), n)\<close> over the slices \<^verbatim>\<open>xs[start : start + n]\<close>, where \<^verbatim>\<open>0 < n\<close>.\<close>

fun slices :: "nat \<Rightarrow> 'a list \<Rightarrow> 'a list list" where
  "slices n [] = []"
| "slices n (x # xs) = (x # take (n - 1) xs) # slices n (drop (n - 1) xs)"

section \<open>State and ports\<close>

record 'v promotion_ports =
  po_embed :: "embedding_profile \<Rightarrow> embedding_request \<Rightarrow> promotion_failure + 'v embedded_vector"
  po_token_counter :: token_counter
  po_finite :: "'v \<Rightarrow> bool"
  po_zero :: 'v

record execution_context =
  ec_base_serving_state_id :: string
  ec_predicates :: "(string \<times> string \<times> string) list"
  ec_at :: string

record 'v promotion_world =
  pw_approvals :: approval_register
  pw_targets :: "'v target_store"
  pw_backups :: backup_store
  pw_routing :: routing_store
  pw_coverage :: coverage_store
  pw_serving :: "serving_store option"
  pw_running :: "string list"
  pw_results :: "(string \<times> execution_result) list"
  pw_result_inputs :: "(string \<times> string) list"

text \<open>A new service over new stores: one failure plan, the active states, the coverage published.\<close>

definition new_promotion_world ::
    "(string \<times> string list) list \<Rightarrow> failure_plan \<Rightarrow> string \<Rightarrow> string \<Rightarrow> coverage_manifest option
       \<Rightarrow> 'v promotion_world" where
  "new_promotion_world assignments plan routed served coverage = \<lparr>
     pw_approvals = new_approval_register assignments,
     pw_targets = \<lparr>ts_plan = plan, ts_targets = [], ts_lost_ack_fired = False\<rparr>,
     pw_backups = \<lparr>bs_plan = plan, bs_receipts = []\<rparr>,
     pw_routing = \<lparr>rs_plan = plan, rs_active_state_id = routed\<rparr>,
     pw_coverage = new_coverage_store coverage,
     pw_serving = Some (new_serving_store served plan),
     pw_running = [], pw_results = [], pw_result_inputs = []\<rparr>"

type_synonym ('a, 'v) service_outcome = "('a, 'v promotion_world) promotion_outcome"

definition on_approvals ::
    "(approval_register \<Rightarrow> 'a approval_outcome) \<Rightarrow> 'v promotion_world \<Rightarrow> ('a, 'v) service_outcome" where
  "on_approvals f W = (case f (pw_approvals W) of (r, S) \<Rightarrow>
     (case r of Inl e \<Rightarrow> Inl (ApprovalError e) | Inr a \<Rightarrow> Inr a, W\<lparr>pw_approvals := S\<rparr>))"

definition on_targets ::
    "('v target_store \<Rightarrow> ('a, 'v target_store) promotion_outcome) \<Rightarrow> 'v promotion_world
       \<Rightarrow> ('a, 'v) service_outcome" where
  "on_targets f W = (case f (pw_targets W) of (r, S) \<Rightarrow> (r, W\<lparr>pw_targets := S\<rparr>))"

definition on_backups ::
    "(backup_store \<Rightarrow> ('a, backup_store) promotion_outcome) \<Rightarrow> 'v promotion_world
       \<Rightarrow> ('a, 'v) service_outcome" where
  "on_backups f W = (case f (pw_backups W) of (r, S) \<Rightarrow> (r, W\<lparr>pw_backups := S\<rparr>))"

definition on_routing ::
    "(routing_store \<Rightarrow> ('a, routing_store) promotion_outcome) \<Rightarrow> 'v promotion_world
       \<Rightarrow> ('a, 'v) service_outcome" where
  "on_routing f W = (case f (pw_routing W) of (r, S) \<Rightarrow> (r, W\<lparr>pw_routing := S\<rparr>))"

definition on_coverage ::
    "(coverage_store \<Rightarrow> ('a, coverage_store) promotion_outcome) \<Rightarrow> 'v promotion_world
       \<Rightarrow> ('a, 'v) service_outcome" where
  "on_coverage f W = (case f (pw_coverage W) of (r, S) \<Rightarrow> (r, W\<lparr>pw_coverage := S\<rparr>))"

text \<open>\<^verbatim>\<open>_v1_serving_states\<close>: the serving state port, required.\<close>

definition on_serving ::
    "(serving_store \<Rightarrow> ('a, serving_store) promotion_outcome) \<Rightarrow> 'v promotion_world
       \<Rightarrow> ('a, 'v) service_outcome" where
  "on_serving f W = (case pw_serving W of
     None \<Rightarrow> (Inl (PromotionError ManifestDrift), W)
   | Some Z \<Rightarrow> (case f Z of (r, S) \<Rightarrow> (r, W\<lparr>pw_serving := Some S\<rparr>)))"

section \<open>The local embedding adapter\<close>

text \<open>
  \<^verbatim>\<open>LocalEmbeddingAdapter.embed\<close>. Its floating point arithmetic is a parameter: the component made
  from a digest byte and its network byte order encoding.
\<close>

record 'v float_port =
  fl_component :: "nat \<Rightarrow> 'v"
  fl_pack :: "'v \<Rightarrow> string"
  fl_finite :: "'v \<Rightarrow> bool"

definition hex_value :: "char \<Rightarrow> nat" where
  "hex_value c = (let n = of_char c in if n < 58 then n - 48 else n - 87)"

fun digest_bytes :: "string \<Rightarrow> nat list" where
  "digest_bytes (a # b # cs) = (16 * hex_value a + hex_value b) # digest_bytes cs"
| "digest_bytes _ = []"

definition local_embed ::
    "platform \<Rightarrow> 'v float_port \<Rightarrow> failure_plan \<Rightarrow> embedding_profile \<Rightarrow> embedding_request
       \<Rightarrow> promotion_failure + 'v embedded_vector" where
  "local_embed P F plan profile request =
     (if ep_provider profile \<noteq> ''LOCAL_FAKE'' then Inl (PromotionError ProfileInvalid)
      else let digest = digest_bytes (sha256_hex P (utf8 (qr_cache_key request @ qr_text request)));
               dimensions = ep_dimensions profile + (if fp_vector_mismatch plan then 1 else 0);
               values = map (\<lambda>i. fl_component F (digest ! (i mod length digest))) [0..<nat dimensions] in
        if list_ex (\<lambda>v. \<not> fl_finite F v) values then Inl (PromotionError VectorInvalid)
        else let vector_fingerprint = sha256_fingerprint P (concat (map (fl_pack F) values)) in
          Inr \<lparr>ev_values = values, ev_receipt = \<lparr>
            rt_receipt_id = stable_id P ''emc'' [qr_request_id request, vector_fingerprint],
            rt_request_id = qr_request_id request,
            rt_provider_request_id = ''local-'' @ qr_request_id request,
            rt_dimensions = int (length values), rt_vector_fingerprint = vector_fingerprint,
            rt_input_tokens = qr_token_count request, rt_latency_milliseconds = 0,
            rt_result = ''SUCCEEDED''\<rparr>\<rparr>)"

section \<open>Preparing the requests\<close>

definition uses_v1_serving_state :: "promotion_manifest \<Rightarrow> bool" where
  "uses_v1_serving_state m \<longleftrightarrow> Eff_ROUTING_ACTIVATION \<notin> set (map pa_effect_type (pp_actions m))"

definition execution_input_fingerprint ::
    "platform \<Rightarrow> encoder \<Rightarrow> promotion_manifest \<Rightarrow> string \<Rightarrow> string \<Rightarrow> execution_context
       \<Rightarrow> promotion_failure + string" where
  "execution_input_fingerprint P canon m approval_id lineage c = canonical_fingerprint P canon (JObject
     [(''approval_id'', JText approval_id),
      (''base_serving_state_id'', JText (ec_base_serving_state_id c)),
      (''execution_lineage_id'', JText lineage),
      (''manifest_fingerprint'', JText (pm_fingerprint m)),
      (''manifest_id'', JText (pm_manifest_id m)),
      (''predicates'', JArray (map (\<lambda>(a, b, c). JArray [JText a, JText b, JText c]) (ec_predicates c))),
      (''time'', JText (ec_at c))])"

text \<open>\<^verbatim>\<open>_admitted_serving_profile\<close> without an injected serving profile.\<close>

definition admitted_serving_profile :: "promotion_manifest \<Rightarrow> promotion_failure option" where
  "admitted_serving_profile m = raise_if
     (ep_provider (pp_embedding_profile m) \<noteq> ''LOCAL_FAKE'') (PromotionError ProfileInvalid)"

definition request_input ::
    "platform \<Rightarrow> string \<Rightarrow> int \<Rightarrow> nat \<times> flattened_record \<Rightarrow> embedding_request_input" where
  "request_input P lineage batch_size entry = (case entry of (index, item) \<Rightarrow>
     \<lparr>qi_record_id = fr_record_id item,
      qi_serving_payload_fingerprint = fr_content_fingerprint item,
      qi_text = sr_text (fr_record item),
      qi_batch_id = stable_id P ''art'' [lineage, decimal (int index div batch_size)],
      qi_position = int index mod batch_size\<rparr>)"

definition prepare_requests ::
    "platform \<Rightarrow> encoder \<Rightarrow> 'v promotion_ports \<Rightarrow> promotion_manifest \<Rightarrow> string \<Rightarrow> string
       \<Rightarrow> promotion_failure + embedding_request list \<times> int" where
  "prepare_requests P canon ports m lineage at_time =
     (let profile = pp_embedding_profile m in
      case first_raise
        [verify_embedding_profile P canon profile,
         raise_if (ep_provider profile \<notin> {''LOCAL_FAKE'', ''AZURE_OPENAI''}
           \<or> pp_environment m \<notin> set (ep_allowed_environments profile)
           \<or> ep_stateful_features profile \<or> ep_expires_at profile \<le> at_time
           \<or> ep_dimensions profile < 1) (PromotionError ProfileInvalid)] of
        Some e \<Rightarrow> Inl e
      | None \<Rightarrow> and_then (collect (\<lambda>entry. embedding_request_for P
            (request_input P lineage (pp_batch_size m) entry) profile (po_token_counter ports))
            (enumerate 0 (di_records (pp_desired_state m)))) (\<lambda>requests.
          let estimated_cost = sum_list (map qr_token_count requests) in
          if ep_cost_limit_microunits profile < estimated_cost
          then Inl (PromotionError CostLimitExceeded) else Inr (requests, estimated_cost)))"

section \<open>Building the target\<close>

text \<open>\<^verbatim>\<open>target_state_fingerprint\<close> of \<^verbatim>\<open>remote.py\<close>.\<close>

definition target_state_fingerprint :: "platform \<Rightarrow> string \<Rightarrow> int \<Rightarrow> string \<Rightarrow> string \<Rightarrow> string" where
  "target_state_fingerprint P name dimensions metric namespace =
     sha256_fingerprint P (utf8 (json_object
       [(''name'', JStr name), (''dimensions'', JInt dimensions), (''metric'', JStr metric),
        (''namespace'', JStr namespace)]))"

definition target_definition_for :: "platform \<Rightarrow> string \<Rightarrow> embedding_profile \<Rightarrow> target_definition" where
  "target_definition_for P name profile = \<lparr>td_name = name,
     td_state_fingerprint =
       target_state_fingerprint P name (ep_dimensions profile) (ep_metric profile) ''default'',
     td_dimensions = ep_dimensions profile, td_metric = ep_metric profile, td_namespace = ''default''\<rparr>"

definition manifest_target_name :: "promotion_manifest \<Rightarrow> promotion_failure + string" where
  "manifest_target_name m = pinecone_index_name (pp_environment m) (pp_jurisdiction m)
     (pp_freeze_date m) (pp_candidate_serving_state_fingerprint m) (pp_project_id m)"

definition open_target :: "target_definition \<Rightarrow> 'v promotion_world \<Rightarrow> (unit, 'v) service_outcome" where
  "open_target d W = proceed (on_targets (create_target d) W) (\<lambda>_ W.
     case describe_target (td_name d) (pw_targets W) of
       Inl e \<Rightarrow> (Inl e, W)
     | Inr described \<Rightarrow> require (raise_if (described \<noteq> d) (PromotionError InventoryMismatch)) W)"

definition target_record_for :: "flattened_record \<Rightarrow> 'v list \<Rightarrow> 'v target_record" where
  "target_record_for desired values = \<lparr>tr_record_id = fr_record_id desired,
     tr_content_fingerprint = fr_content_fingerprint desired, tr_vector = values,
     tr_metadata_text = sr_text (fr_record desired), tr_country = sr_country (fr_record desired),
     tr_jurisdiction = sr_jurisdiction (fr_record desired),
     tr_material_type = sr_material_type (fr_record desired),
     tr_source = sr_source (fr_record desired),
     tr_authority_note = sr_authority_note (fr_record desired)\<rparr>"

text \<open>One record of a batch: its receipt and its target record.\<close>

definition embed_member ::
    "'v promotion_ports \<Rightarrow> embedding_profile \<Rightarrow> embedding_request \<times> flattened_record
       \<Rightarrow> promotion_failure + string \<times> 'v target_record" where
  "embed_member ports profile member = (case member of (request, desired) \<Rightarrow>
     and_then (po_embed ports profile request) (\<lambda>embedded. construct
       [raise_if (rt_input_tokens (ev_receipt embedded) \<noteq> qr_token_count request)
          (PromotionError ProfileInvalid),
        raise_if (rt_dimensions (ev_receipt embedded) \<noteq> ep_dimensions profile
          \<or> int (length (ev_values embedded)) \<noteq> ep_dimensions profile
          \<or> list_ex (\<lambda>v. \<not> po_finite ports v) (ev_values embedded)) (PromotionError VectorInvalid)]
       (rt_receipt_id (ev_receipt embedded), target_record_for desired (ev_values embedded))))"

definition by_record_id :: "'v target_record list \<Rightarrow> (string \<times> 'v target_record) list" where
  "by_record_id rs = dict_of (map (\<lambda>r. (tr_record_id r, r)) rs)"

text \<open>A batch whose acknowledgement is lost is read back and compared exactly.\<close>

definition upload_batch ::
    "'v \<Rightarrow> string \<Rightarrow> 'v target_record list \<Rightarrow> 'v target_store
       \<Rightarrow> (unit, 'v target_store) promotion_outcome" where
  "upload_batch zero name batch S =
     (let (r, S1) = upsert_batch name batch S in
      if r = Inl OutcomeUnknown
      then proceed (enumerate_target zero name S1) (\<lambda>actual. require
        (raise_if (list_ex (\<lambda>r. map_of (by_record_id actual) (tr_record_id r) \<noteq> Some r) batch)
          (PromotionError LostAckUnreconciled)))
      else (r, S1))"

fun run_batches ::
    "'v promotion_ports \<Rightarrow> embedding_profile \<Rightarrow> string \<Rightarrow> (embedding_request \<times> flattened_record) list list
       \<Rightarrow> 'v promotion_world \<Rightarrow> ((string \<times> 'v target_record) list, 'v) service_outcome" where
  "run_batches ports profile name [] W = (Inr [], W)"
| "run_batches ports profile name (b # bs) W =
     proceed (collect (embed_member ports profile) b, W) (\<lambda>built W.
     proceed (on_targets (upload_batch (po_zero ports) name (map snd built)) W) (\<lambda>_ W.
     proceed (run_batches ports profile name bs W) (\<lambda>rest W. (Inr (built @ rest), W))))"

text \<open>The inventory gate.\<close>

definition compare_inventory ::
    "promotion_manifest \<Rightarrow> 'v target_record list \<Rightarrow> 'v target_record list \<Rightarrow> promotion_failure option" where
  "compare_inventory m expected_records actual =
     (let actual_ids = set (map tr_record_id actual);
          expected_ids = set (map fr_record_id (di_records (pp_desired_state m)));
          expected_by_id = by_record_id expected_records in first_raise
       ([raise_if (actual_ids - expected_ids \<noteq> {}) (PromotionError UnknownRemoteRecord),
         raise_if (actual_ids \<noteq> expected_ids) (PromotionError InventoryMismatch)]
        @ map (\<lambda>item. case map_of expected_by_id (tr_record_id item) of
            None \<Rightarrow> Some KeyError
          | Some e \<Rightarrow> raise_if (item \<noteq> e) (PromotionError InventoryMismatch)) actual))"

definition verify_inventory ::
    "'v promotion_ports \<Rightarrow> promotion_manifest \<Rightarrow> string \<Rightarrow> 'v target_record list \<Rightarrow> 'v promotion_world
       \<Rightarrow> (unit, 'v) service_outcome" where
  "verify_inventory ports m name expected_records W =
     proceed (on_targets (enumerate_target (po_zero ports) name) W) (\<lambda>actual.
       require (compare_inventory m expected_records actual))"

section \<open>Backup and activation\<close>

definition verified_backup ::
    "platform \<Rightarrow> promotion_manifest \<Rightarrow> string \<Rightarrow> 'v promotion_world
       \<Rightarrow> (backup_verification, 'v) service_outcome" where
  "verified_backup P m name W =
     proceed (on_backups (create_and_verify_backup P name
         (di_inventory_fingerprint (pp_desired_state m))) W) (\<lambda>result W.
       if \<not> bv_native_verified result \<or> \<not> bv_recovery_verified result
       then (Inl (PromotionError BackupFailed), W) else (Inr result, W))"

definition serving_candidate_for :: "promotion_manifest \<Rightarrow> string \<Rightarrow> string \<Rightarrow> string \<Rightarrow> serving_candidate" where
  "serving_candidate_for m approval_id lineage name = \<lparr>
     sv_state_id = pp_candidate_serving_state_id m,
     sv_state_fingerprint = pp_candidate_serving_state_fingerprint m,
     sv_predecessor_state_id = pp_rollback_serving_state_id m,
     sv_target_name = name,
     sv_desired_inventory_fingerprint = di_inventory_fingerprint (pp_desired_state m),
     sv_coverage_fingerprint = cm_fingerprint (pp_coverage_status m),
     sv_embedding_profile_id = ep_profile_id (pp_embedding_profile m),
     sv_embedding_profile_fingerprint = ep_profile_fingerprint (pp_embedding_profile m),
     sv_approval_id = approval_id, sv_execution_lineage_id = lineage\<rparr>"

text \<open>
  The \<^verbatim>\<open>except PromotionError\<close> clause of a failed verification: reverse, then re-raise unless the
  failure is the declared one. A failure that is no \<^verbatim>\<open>PromotionError\<close> passes through.
\<close>

definition reverse_after ::
    "promotion_failure \<Rightarrow> string \<Rightarrow> ('v promotion_world \<Rightarrow> (string, 'v) service_outcome)
       \<Rightarrow> 'v promotion_world \<Rightarrow> (string \<times> string \<times> string, 'v) service_outcome" where
  "reverse_after failure receipt reversal W =
     (case failure of
        PromotionError code \<Rightarrow> proceed (reversal W) (\<lambda>rollback W.
          if code \<noteq> PostCutoverFailed then (Inl failure, W)
          else (Inr (receipt, rollback, ''EXECUTION_ROLLED_BACK''), W))
      | _ \<Rightarrow> (Inl failure, W))"

definition activate_by_routing ::
    "platform \<Rightarrow> promotion_manifest \<Rightarrow> 'v promotion_world
       \<Rightarrow> (string \<times> string \<times> string, 'v) service_outcome" where
  "activate_by_routing P m W =
     proceed (on_routing (activate_routing P (pp_base_serving_state_id m)
         (pp_candidate_serving_state_id m)) W) (\<lambda>receipt W.
       case verify_post_cutover (pp_candidate_serving_state_id m) (pw_routing W) of
         None \<Rightarrow> (Inr (receipt, '''', ''EXECUTION_SUCCEEDED''), W)
       | Some e \<Rightarrow> reverse_after e receipt (on_routing (rollback_routing P
           (pp_candidate_serving_state_id m) (pp_rollback_serving_state_id m))) W)"

text \<open>The port bound to \<^verbatim>\<open>state\<close> is the store that was just activated; it cannot be missing here.\<close>

definition verify_serving :: "string \<Rightarrow> 'v promotion_world \<Rightarrow> promotion_failure option" where
  "verify_serving candidate_state_id W = (case pw_serving W of
     None \<Rightarrow> Some (PromotionError ManifestDrift)
   | Some S \<Rightarrow> verify_serving_state candidate_state_id S)"

definition activate_by_serving_state ::
    "platform \<Rightarrow> promotion_manifest \<Rightarrow> string \<Rightarrow> string \<Rightarrow> string \<Rightarrow> 'v promotion_world
       \<Rightarrow> (string \<times> string \<times> string, 'v) service_outcome" where
  "activate_by_serving_state P m approval_id lineage name W =
     (let candidate = serving_candidate_for m approval_id lineage name in
      proceed (on_serving (activate_serving_state P (pp_base_serving_state_id m) candidate) W)
        (\<lambda>activation W.
          let receipt = sx_receipt_id activation in
          case verify_serving (pp_candidate_serving_state_id m) W of
            None \<Rightarrow> (Inr (receipt, '''', ''EXECUTION_SUCCEEDED''), W)
          | Some e \<Rightarrow> reverse_after e receipt (\<lambda>W.
              proceed (on_serving (rollback_serving_state P candidate receipt) W)
                (\<lambda>r W. (Inr (sx_receipt_id r), W))) W))"

definition activate_and_verify ::
    "platform \<Rightarrow> promotion_manifest \<Rightarrow> string \<Rightarrow> string \<Rightarrow> string \<Rightarrow> 'v promotion_world
       \<Rightarrow> (string \<times> string \<times> string, 'v) service_outcome" where
  "activate_and_verify P m approval_id lineage name W =
     (if \<not> uses_v1_serving_state m then activate_by_routing P m W
      else activate_by_serving_state P m approval_id lineage name W)"

section \<open>Executing a manifest\<close>

definition approval_snapshot :: "promotion_manifest \<Rightarrow> manifest_snapshot" where
  "approval_snapshot m = \<lparr>ms_manifest_id = pm_manifest_id m, ms_fingerprint = pm_fingerprint m,
     ms_expected_base = pp_base_serving_state_id m, ms_valid_from = pp_valid_from m,
     ms_valid_until = pp_valid_until m, ms_predicates = pp_validity_predicates m\<rparr>"

definition consumption_facts :: "execution_context \<Rightarrow> approval_consumption" where
  "consumption_facts c = \<lparr>ac_current_base = ec_base_serving_state_id c,
     ac_current_predicates = ec_predicates c, ac_at = ec_at c\<rparr>"

text \<open>From the opened target to the verified backup: what must hold before anything is activated.\<close>

definition build_target ::
    "platform \<Rightarrow> 'v promotion_ports \<Rightarrow> promotion_manifest \<Rightarrow> embedding_request list \<Rightarrow> string
       \<Rightarrow> 'v promotion_world \<Rightarrow> (string list \<times> backup_verification, 'v) service_outcome" where
  "build_target P ports m requests name W =
     (let profile = pp_embedding_profile m in
      proceed (open_target (target_definition_for P name profile) W) (\<lambda>_ W.
      proceed (run_batches ports profile name (slices (nat (pp_batch_size m))
        (zip requests (di_records (pp_desired_state m)))) W) (\<lambda>built W.
      proceed (verify_inventory ports m name (map snd built) W) (\<lambda>_ W.
      proceed (require (verify_queries name (map (\<lambda>r. tr_record_id (snd r)) built) (pw_targets W)) W)
        (\<lambda>_ W.
      proceed (verified_backup P m name W) (\<lambda>backup W. (Inr (map fst built, backup), W)))))))"

definition execution_result_for ::
    "string \<Rightarrow> promotion_manifest \<Rightarrow> string \<Rightarrow> string list \<Rightarrow> backup_verification
       \<Rightarrow> string \<times> string \<times> string \<Rightarrow> int \<Rightarrow> execution_result" where
  "execution_result_for lineage m name receipts backup activation cost =
     (case activation of (routing_receipt, rollback_receipt, state) \<Rightarrow> \<lparr>
        xe_execution_lineage_id = lineage, xe_manifest_id = pm_manifest_id m, xe_target_name = name,
        xe_state = state, xe_embedding_receipt_ids = receipts,
        xe_native_backup_receipt_ref = bv_native_backup_receipt_ref backup,
        xe_recovery_receipt_ref = bv_recovery_receipt_ref backup,
        xe_routing_receipt_ref = routing_receipt, xe_rollback_receipt_ref = rollback_receipt,
        xe_total_cost_microunits = cost\<rparr>)"

text \<open>
  \<^verbatim>\<open>_execute\<close>, up to the call of \<^verbatim>\<open>_activate_and_verify\<close> and from it on. Without a serving profile
  \<^verbatim>\<open>_validate_real_effect_facts\<close> returns at once.
\<close>

definition before_activation ::
    "platform \<Rightarrow> encoder \<Rightarrow> 'v promotion_ports \<Rightarrow> promotion_manifest \<Rightarrow> string \<Rightarrow> string
       \<Rightarrow> execution_context \<Rightarrow> 'v promotion_world
       \<Rightarrow> (int \<times> string \<times> string list \<times> backup_verification, 'v) service_outcome" where
  "before_activation P canon ports m approval_id lineage c W =
     proceed (require (first_raise
       [raise_if (ec_base_serving_state_id c \<noteq> pp_base_serving_state_id m) (PromotionError BaseStateDrift),
        admitted_serving_profile m]) W) (\<lambda>_ W.
     proceed (prepare_requests P canon ports m lineage (ec_at c), W) (\<lambda>(requests, cost) W.
     proceed (on_approvals (consume P approval_id lineage (approval_snapshot m) (consumption_facts c)) W)
       (\<lambda>_ W.
     proceed (on_coverage (load_for_activation (pp_candidate_serving_state_id m)
       (cm_fingerprint (pp_coverage_status m))) W) (\<lambda>_ W.
     proceed (manifest_target_name m, W) (\<lambda>name W.
     proceed (build_target P ports m requests name W) (\<lambda>(receipts, backup) W.
       (Inr (cost, name, receipts, backup), W)))))))"

definition execute_once ::
    "platform \<Rightarrow> encoder \<Rightarrow> 'v promotion_ports \<Rightarrow> promotion_manifest \<Rightarrow> string \<Rightarrow> string
       \<Rightarrow> execution_context \<Rightarrow> 'v promotion_world \<Rightarrow> (execution_result, 'v) service_outcome" where
  "execute_once P canon ports m approval_id lineage c W =
     proceed (before_activation P canon ports m approval_id lineage c W)
       (\<lambda>(cost, name, receipts, backup) W.
     proceed (activate_and_verify P m approval_id lineage name W) (\<lambda>activation W.
       let result = execution_result_for lineage m name receipts backup activation cost in
       (Inr result, W\<lparr>pw_results := AList.update lineage result (pw_results W)\<rparr>)))"

definition verify_for_execution ::
    "platform \<Rightarrow> encoder \<Rightarrow> promotion_manifest \<Rightarrow> promotion_failure option" where
  "verify_for_execution P canon m = (if uses_v1_serving_state m then verify_promotion_manifest P canon m
     else verify_generic_promotion_manifest P canon m)"

text \<open>\<^verbatim>\<open>execution_input_fingerprint or _execution_input_fingerprint(...)\<close>: the empty text counts as none.\<close>

definition input_fingerprint_for ::
    "platform \<Rightarrow> encoder \<Rightarrow> promotion_manifest \<Rightarrow> string \<Rightarrow> string \<Rightarrow> execution_context \<Rightarrow> string option
       \<Rightarrow> promotion_failure + string" where
  "input_fingerprint_for P canon m approval_id lineage c supplied =
     (case supplied of
        Some (x # xs) \<Rightarrow> Inr (x # xs)
      | _ \<Rightarrow> execution_input_fingerprint P canon m approval_id lineage c)"

definition replay_execution ::
    "promotion_manifest \<Rightarrow> string \<Rightarrow> string \<Rightarrow> execution_result \<Rightarrow> 'v promotion_world
       \<Rightarrow> (execution_result, 'v) service_outcome" where
  "replay_execution m lineage input existing W =
     (if xe_manifest_id existing \<noteq> pm_manifest_id m \<or> map_of (pw_result_inputs W) lineage \<noteq> Some input
      then (Inl (PromotionError ManifestDrift), W) else (Inr existing, W))"

text \<open>\<^verbatim>\<open>finally: self._running.discard(...)\<close>, whatever the outcome.\<close>

definition leave_running :: "string \<Rightarrow> ('a, 'v) service_outcome \<Rightarrow> ('a, 'v) service_outcome" where
  "leave_running manifest_id outcome = (case outcome of (r, W) \<Rightarrow>
     (r, W\<lparr>pw_running := removeAll manifest_id (pw_running W)\<rparr>))"

definition execute ::
    "platform \<Rightarrow> encoder \<Rightarrow> 'v promotion_ports \<Rightarrow> promotion_manifest \<Rightarrow> string \<Rightarrow> string
       \<Rightarrow> execution_context \<Rightarrow> string option \<Rightarrow> 'v promotion_world
       \<Rightarrow> (execution_result, 'v) service_outcome" where
  "execute P canon ports m approval_id lineage c supplied W =
     proceed (require (verify_for_execution P canon m) W) (\<lambda>_ W.
     proceed (input_fingerprint_for P canon m approval_id lineage c supplied, W) (\<lambda>input W.
       case map_of (pw_results W) lineage of
         Some existing \<Rightarrow> replay_execution m lineage input existing W
       | None \<Rightarrow>
           if pm_manifest_id m \<in> set (pw_running W)
           then (Inl (PromotionError OverlappingExecution), W)
           else leave_running (pm_manifest_id m)
             (proceed (execute_once P canon ports m approval_id lineage c
                 (W\<lparr>pw_running := pm_manifest_id m # pw_running W\<rparr>)) (\<lambda>result W.
               (Inr result, W\<lparr>pw_result_inputs :=
                  AList.update lineage input (pw_result_inputs W)\<rparr>)))))"

section \<open>Retiring a target\<close>

definition active_serving_state :: "promotion_manifest \<Rightarrow> 'v promotion_world \<Rightarrow> promotion_failure + string" where
  "active_serving_state m W =
     (if uses_v1_serving_state m
      then (case pw_serving W of None \<Rightarrow> Inl (PromotionError ManifestDrift)
              | Some S \<Rightarrow> Inr (ss_active_state_id S))
      else Inr (rs_active_state_id (pw_routing W)))"

definition retire_exact ::
    "platform \<Rightarrow> encoder \<Rightarrow> promotion_manifest \<Rightarrow> string \<Rightarrow> 'v promotion_world
       \<Rightarrow> (string, 'v) service_outcome" where
  "retire_exact P canon m target_name W =
     proceed (require (verify_for_execution P canon m) W) (\<lambda>_ W.
     proceed (manifest_target_name m, W) (\<lambda>active_candidate_name W.
     proceed (active_serving_state m W, W) (\<lambda>active_state_id W.
       if target_name \<notin> set (pp_exact_retirement_target_ids m)
         \<or> (target_name = active_candidate_name
            \<and> active_state_id = pp_candidate_serving_state_id m)
       then (Inl (PromotionError BroadRetirementForbidden), W)
       else on_targets (delete_exact P target_name target_name) W)))"

end
