(* ===== verification/ManifestProperties.thy ===== *)
theory ManifestProperties
  imports Manifests
begin

text \<open>
  What a frozen manifest is worth: freezing and verifying agree, a verified manifest authorises
  numbered actions of the promotion worker inside its window and nothing that routes, its
  fingerprint binds every field the canonical document carries, and target names are bounded and
  unambiguous. An evaluated manifest closes the theory.
\<close>

section \<open>Freezing and verifying\<close>

lemma truncate_extend [simp]: "promotion_plan.truncate (promotion_plan.extend p x) = p"
  by (simp add: promotion_plan.defs)

lemma extend_fields [simp]:
  "pm_manifest_id (promotion_plan.extend p (promotion_manifest.fields i f)) = i"
  "pm_fingerprint (promotion_plan.extend p (promotion_manifest.fields i f)) = f"
  by (simp_all add: promotion_plan.defs promotion_manifest.defs)

lemma manifest_eq_extend:
  "m = promotion_plan.extend p (promotion_manifest.fields i f) \<longleftrightarrow>
     promotion_plan.truncate m = p \<and> pm_manifest_id m = i \<and> pm_fingerprint m = f"
  by (cases m) (auto simp: promotion_plan.defs promotion_manifest.defs)

definition issued_manifest :: "platform \<Rightarrow> encoder \<Rightarrow> promotion_manifest \<Rightarrow> bool" where
  "issued_manifest P canon m \<longleftrightarrow> (\<exists>raw. canon (manifest_body (promotion_plan.truncate m)) = Some raw
     \<and> pm_fingerprint m = sha256_fingerprint P raw \<and> pm_manifest_id m = stable_id P ''pmn'' [pm_fingerprint m])"

lemma freeze_generic_Inr:
  "freeze_generic_promotion_manifest P canon p = Inr m \<longleftrightarrow>
     plan_guards p = None \<and> promotion_plan.truncate m = p \<and> issued_manifest P canon m"
  by (auto simp: freeze_generic_promotion_manifest_def canonical_fingerprint_def issued_manifest_def
      manifest_eq_extend eq_commute [of _ m] split: option.splits)

lemma freeze_v1_Inr:
  "freeze_v1_promotion_manifest P canon p = Inr m \<longleftrightarrow>
     v1_guards p = None \<and> plan_guards p = None \<and> promotion_plan.truncate m = p \<and> issued_manifest P canon m"
  by (auto simp: freeze_v1_promotion_manifest_def freeze_generic_Inr split: option.splits)

lemma verify_frozen_None:
  assumes "\<And>p m. freezer p = Inr m \<Longrightarrow> promotion_plan.truncate m = p"
  shows "verify_frozen freezer m = None \<longleftrightarrow> freezer (promotion_plan.truncate m) = Inr m"
proof -
  have "r = m" if "freezer (promotion_plan.truncate m) = Inr r" "pm_manifest_id r = pm_manifest_id m"
      "pm_fingerprint r = pm_fingerprint m" for r
    using assms [OF that(1)] that(2,3) by (cases r; cases m) (simp add: promotion_plan.defs)
  then show ?thesis by (auto simp: verify_frozen_def split: sum.splits)
qed

lemma verify_v1_None:
  "verify_promotion_manifest P canon m = None \<longleftrightarrow>
     freeze_v1_promotion_manifest P canon (promotion_plan.truncate m) = Inr m"
  unfolding verify_promotion_manifest_def by (rule verify_frozen_None) (simp add: freeze_v1_Inr)

lemma verify_generic_None:
  "verify_generic_promotion_manifest P canon m = None \<longleftrightarrow>
     freeze_generic_promotion_manifest P canon (promotion_plan.truncate m) = Inr m"
  unfolding verify_generic_promotion_manifest_def by (rule verify_frozen_None) (simp add: freeze_generic_Inr)

text \<open>
  Freezing and verifying agree. For both lifecycles, a manifest is what freezing a plan yields
  exactly when it verifies and carries that plan: what was frozen verifies, what verifies was
  frozen from its own fields, and changing any field or either identity breaks it.
\<close>

theorem frozen_iff_verified:
  "(freeze_v1_promotion_manifest P canon p = Inr m \<longleftrightarrow>
      verify_promotion_manifest P canon m = None \<and> promotion_plan.truncate m = p)
   \<and> (freeze_generic_promotion_manifest P canon p = Inr m \<longleftrightarrow>
      verify_generic_promotion_manifest P canon m = None \<and> promotion_plan.truncate m = p)"
  by (auto simp: verify_v1_None verify_generic_None freeze_v1_Inr freeze_generic_Inr)

lemma verified_v1:
  "verify_promotion_manifest P canon m = None \<longleftrightarrow>
     v1_guards (promotion_plan.truncate m) = None \<and> plan_guards (promotion_plan.truncate m) = None
     \<and> issued_manifest P canon m"
  by (simp add: verify_v1_None freeze_v1_Inr)

lemma truncate_fields [simp]:
  "pp_actions (promotion_plan.truncate m) = pp_actions m"
  "pp_valid_from (promotion_plan.truncate m) = pp_valid_from m"
  "pp_valid_until (promotion_plan.truncate m) = pp_valid_until m"
  "pp_coverage_status (promotion_plan.truncate m) = pp_coverage_status m"
  "pp_batch_size (promotion_plan.truncate m) = pp_batch_size m"
  "pp_validity_predicates (promotion_plan.truncate m) = pp_validity_predicates m"
  "pp_action_contract_version (promotion_plan.truncate m) = pp_action_contract_version m"
  "plan_bindings (promotion_plan.truncate m) = plan_bindings m"
  "manifest_body (promotion_plan.truncate m) = manifest_body m"
  by (simp_all add: promotion_plan.defs plan_bindings_def manifest_body_def)

section \<open>What verified actions are\<close>

lemma promotion_binding_is_domain_binding:
  "promotion_effect_binding e = Some (c, d) \<Longrightarrow> effect_binding e = ([App_PROMOTION_WORKER], c, d)"
  by (cases e) auto

lemma mandatory_sorted: "sorted (map stop_condition_value mandatory_stop_conditions)"
  "distinct (map stop_condition_value mandatory_stop_conditions)"
  by code_simp+

lemma canonical_stops:
  assumes "map stop_condition_value stops = sort (remdups (map stop_condition_value stops))"
    and "set stops = set mandatory_stop_conditions"
  shows "stops = mandatory_stop_conditions"
proof -
  have "map stop_condition_value stops = map stop_condition_value mandatory_stop_conditions"
  proof (rule sorted_distinct_set_unique)
    show "sorted (map stop_condition_value stops)" by (subst assms(1)) (rule sorted_sort)
    show "distinct (map stop_condition_value stops)" by (subst assms(1)) simp
    show "set (map stop_condition_value stops) = set (map stop_condition_value mandatory_stop_conditions)"
      by (simp add: assms(2))
  qed (rule mandatory_sorted)+
  then show ?thesis
    by (rule map_injective) (simp add: inj_on_def stop_condition_value_inj)
qed

lemma validate_action_inputs_None:
  assumes "validate_action_inputs b a = None"
  shows "effect_binding (pa_effect_type a)
      = ([pa_owning_application a], pa_required_capability a, pa_destination_class a)"
    and "pa_owning_application a = App_PROMOTION_WORKER"
    and "pa_stop_conditions a = mandatory_stop_conditions"
    and "ab_valid_from b < pa_deadline a" "pa_deadline a \<le> ab_valid_until b"
    and "1 \<le> pa_attempt_ceiling a" "pa_retry_class a = Retry_NEVER \<longrightarrow> pa_attempt_ceiling a = 1"
    and "set (required_inputs b (pa_effect_type a))
      \<subseteq> (\<lambda>r. (ref_type r, ref_fingerprint r)) ` set (pa_input_refs a)"
  using assms canonical_stops [of "pa_stop_conditions a"] promotion_binding_is_domain_binding [of "pa_effect_type a"]
  by (auto simp: validate_action_inputs_def validate_action_authority_def Let_def)

lemma plan_guards_None:
  assumes "plan_guards p = None"
  shows "map pa_sequence (pp_actions p) = map int [1..<length (pp_actions p) + 1]"
    and "distinct (map pa_action_id (pp_actions p))"
    and "distinct (map pa_stable_idempotency_key (pp_actions p))"
    and "\<forall>a \<in> set (pp_actions p). validate_action_inputs (plan_bindings p) a = None"
    and "1 \<le> pp_batch_size p"
  using assms by (auto simp: plan_guards_def validate_action_authorities_def Let_def first_raise_None_iff)

text \<open>
  A verified V1 manifest authorises exactly this. Its actions are numbered from one in order,
  with distinct identities and idempotency keys; each belongs to the promotion worker, with the
  capability and destination the domain binds to its effect, all seven stop conditions, at least
  one attempt, and a deadline inside the validity window; none activates routing, one publishes
  the release, and the coverage it carries is accounted for and not blocking.
\<close>

theorem verified_manifest_authority:
  assumes "verify_promotion_manifest P canon m = None" and "i < length (pp_actions m)"
  shows "let a = pp_actions m ! i in
     pa_sequence a = int (i + 1)
     \<and> effect_binding (pa_effect_type a)
       = ([App_PROMOTION_WORKER], pa_required_capability a, pa_destination_class a)
     \<and> pa_stop_conditions a = mandatory_stop_conditions
     \<and> 1 \<le> pa_attempt_ceiling a
     \<and> pp_valid_from m < pa_deadline a \<and> pa_deadline a \<le> pp_valid_until m
     \<and> pa_effect_type a \<noteq> Eff_ROUTING_ACTIVATION
     \<and> distinct (map pa_action_id (pp_actions m))
     \<and> distinct (map pa_stable_idempotency_key (pp_actions m))
     \<and> Eff_RELEASE_PUBLICATION \<in> set (map pa_effect_type (pp_actions m))
     \<and> (\<exists>c. cm_source_cycle (pp_coverage_status m) = Some c \<and> sc_accounting_complete c
          \<and> \<not> sc_release_blocking c \<and> sc_missing_source_ids c = [] \<and> sc_duplicate_source_ids c = [])"
proof -
  let ?p = "promotion_plan.truncate m" and ?a = "pp_actions m ! i"
  have guards: "v1_guards ?p = None" "plan_guards ?p = None" using assms(1) by (auto simp: verified_v1)
  note plan = plan_guards_None [OF guards(2), simplified]
  have member: "?a \<in> set (pp_actions m)" using assms(2) by simp
  then have a: "validate_action_inputs (plan_bindings m) ?a = None" using plan(4) by blast
  have "pa_sequence ?a = map int [1..<length (pp_actions m) + 1] ! i"
    using plan(1) assms(2) nth_map [of i "pp_actions m" pa_sequence] by simp
  then have seq: "pa_sequence ?a = int (i + 1)" using assms(2) by (simp add: nth_upt del: upt_Suc)
  have v1: "Eff_ROUTING_ACTIVATION \<notin> pa_effect_type ` set (pp_actions m)"
      "Eff_RELEASE_PUBLICATION \<in> set (map pa_effect_type (pp_actions m))"
    using guards(1) by (simp_all add: v1_guards_def validate_hk_v1_effect_types_def)
  have gate: "\<exists>c. cm_source_cycle (pp_coverage_status m) = Some c \<and> sc_accounting_complete c
          \<and> \<not> sc_release_blocking c \<and> sc_missing_source_ids c = [] \<and> sc_duplicate_source_ids c = []"
    using guards(1)
    by (auto simp: v1_guards_def verify_v1_coverage_release_gate_def
        validate_source_cycle_binding_def Let_def split: option.splits)
  have "pa_effect_type ?a \<noteq> Eff_ROUTING_ACTIVATION" using v1(1) member by (metis imageI)
  moreover
  have window: "ab_valid_from (plan_bindings m) = pp_valid_from m" "ab_valid_until (plan_bindings m) = pp_valid_until m"
    by (simp_all add: plan_bindings_def)
  ultimately show ?thesis
    using seq validate_action_inputs_None(1-6) [OF a] plan(2,3) v1(2) gate
    by (simp add: Let_def)
qed

section \<open>What a manifest fingerprint binds\<close>

lemma reference_type_value_inj: "reference_type_value a = reference_type_value b \<longleftrightarrow> a = b"
  by (cases a; cases b) simp_all

lemma domain_values_inj:
  "effect_type_value e = effect_type_value e' \<longleftrightarrow> e = e'"
  "application_code_value p = application_code_value p' \<longleftrightarrow> p = p'"
  "effect_capability_value c = effect_capability_value c' \<longleftrightarrow> c = c'"
  "destination_class_value d = destination_class_value d' \<longleftrightarrow> d = d'"
  "retry_class_value r = retry_class_value r' \<longleftrightarrow> r = r'"
  subgoal by (cases e; cases e') simp_all
  subgoal by (cases p; cases p') simp_all
  subgoal by (cases c; cases c') simp_all
  subgoal by (cases d; cases d') simp_all
  subgoal by (cases r; cases r') simp_all
  done

lemma reference_body_inj: "reference_body r = reference_body r' \<longleftrightarrow> r = r'"
  by (cases r; cases r') (auto simp: reference_body_def reference_type_value_inj)

lemma contract_reference_body_inj: "contract_reference_body r = contract_reference_body r' \<longleftrightarrow> r = r'"
  by (cases r; cases r') (auto simp: contract_reference_body_def)

lemma compensation_body_inj: "compensation_body c = compensation_body c' \<longleftrightarrow> c = c'"
  by (cases c; cases c') (auto simp: contract_reference_body_inj)

lemma action_body_inj: "action_body a = action_body a' \<longleftrightarrow> a = a'"
proof
  have refs: "map reference_body xs = map reference_body ys \<Longrightarrow> xs = ys" for xs ys
    using inj_map_eq_map [of reference_body] by (simp add: inj_def reference_body_inj)
  have stops: "map (\<lambda>s. JText (stop_condition_value s)) xs = map (\<lambda>s. JText (stop_condition_value s)) ys
      \<Longrightarrow> xs = ys" for xs ys
    using inj_map_eq_map [of "\<lambda>s. JText (stop_condition_value s)"]
    by (simp add: inj_def stop_condition_value_inj)
  assume "action_body a = action_body a'"
  then show "a = a'"
    by (cases a; cases a') (auto simp: action_body_def reference_body_inj contract_reference_body_inj
        compensation_body_inj domain_values_inj dest: refs stops)
qed simp

lemma texts_inj: "map JText xs = map JText ys \<longleftrightarrow> xs = ys"
  by (simp add: inj_map_eq_map inj_def)

lemma predicates_inj:
  "map (\<lambda>(a, b, c). JArray [JText a, JText b, JText c]) xs
     = map (\<lambda>(a, b, c). JArray [JText a, JText b, JText c]) ys \<longleftrightarrow> xs = ys"
  by (rule inj_map_eq_map) (auto simp: inj_def)

lemma actions_inj: "map action_body xs = map action_body ys \<longleftrightarrow> xs = ys"
  by (rule inj_map_eq_map) (simp add: inj_def action_body_inj)

lemma same_manifest_body:
  assumes "verify_promotion_manifest P canon m = None" and "verify_promotion_manifest P canon n = None"
    and "pm_fingerprint m = pm_fingerprint n"
    and "\<forall>x y. canon (manifest_body m) = Some x \<longrightarrow> canon (manifest_body n) = Some y
       \<longrightarrow> sha256_hex P x = sha256_hex P y \<longrightarrow> manifest_body m = manifest_body n"
  shows "manifest_body m = manifest_body n \<and> pm_manifest_id m = pm_manifest_id n"
  using assms by (auto simp: verified_v1 issued_manifest_def sha256_fingerprint_def)

text \<open>
  What is approved is what is executed. If two verified manifests carry the same fingerprint
  and their canonical bytes neither collide under the digest nor encode two documents, they agree
  on the serving states, target naming, window, predicates, batch size, retirements and every
  field of every action, and on the fingerprints of inventory, coverage and profile.
\<close>

theorem fingerprint_binds_manifest:
  assumes "verify_promotion_manifest P canon m = None" and "verify_promotion_manifest P canon n = None"
    and "pm_fingerprint m = pm_fingerprint n"
    and "\<forall>x y. canon (manifest_body m) = Some x \<longrightarrow> canon (manifest_body n) = Some y
       \<longrightarrow> sha256_hex P x = sha256_hex P y \<longrightarrow> manifest_body m = manifest_body n"
  shows "pp_actions m = pp_actions n \<and> pp_validity_predicates m = pp_validity_predicates n
     \<and> pm_manifest_id m = pm_manifest_id n
     \<and> pp_base_serving_state_id m = pp_base_serving_state_id n
     \<and> pp_candidate_serving_state_id m = pp_candidate_serving_state_id n
     \<and> pp_candidate_serving_state_fingerprint m = pp_candidate_serving_state_fingerprint n
     \<and> pp_rollback_serving_state_id m = pp_rollback_serving_state_id n
     \<and> pp_valid_from m = pp_valid_from n \<and> pp_valid_until m = pp_valid_until n
     \<and> pp_batch_size m = pp_batch_size n
     \<and> (pp_environment m, pp_jurisdiction m, pp_freeze_date m, pp_project_id m)
       = (pp_environment n, pp_jurisdiction n, pp_freeze_date n, pp_project_id n)
     \<and> pp_exact_retirement_target_ids m = pp_exact_retirement_target_ids n
     \<and> di_inventory_fingerprint (pp_desired_state m) = di_inventory_fingerprint (pp_desired_state n)
     \<and> cm_fingerprint (pp_coverage_status m) = cm_fingerprint (pp_coverage_status n)
     \<and> ep_profile_fingerprint (pp_embedding_profile m) = ep_profile_fingerprint (pp_embedding_profile n)"
  using same_manifest_body [OF assms]
  by (simp add: manifest_body_def actions_inj texts_inj predicates_inj)

section \<open>Target names\<close>

text \<open>
  A target name has exactly thirty-eight characters out of lower-case letters, digits and
  hyphens, leaves the project suffix at most thirteen, and two names are equal only if
  environment, jurisdiction, date and the first twelve digits of the state fingerprint are.
\<close>

theorem index_name_shape:
  assumes "pinecone_index_name e j d f p = Inr n" and "pinecone_index_name e' j' d' f' p' = Inr n'"
  shows "length n = 38 \<and> list_all (\<lambda>c. is_lower c \<or> is_digit c \<or> c = CHR ''-'') n \<and> length p \<le> 13
     \<and> (n = n' \<longleftrightarrow> e = e' \<and> j = j' \<and> d = d' \<and> take 12 (drop 7 f) = take 12 (drop 7 f'))"
proof -
  have parts: "n = ''asklegal-'' @ e @ ''-'' @ j @ ''-'' @ d @ ''-'' @ take 12 (drop 7 f)"
    "length e = 3" "length j = 3" "length d = 8" "length f = 71" "length n + 1 + length p \<le> 52"
    "list_all (\<lambda>c. is_lower c \<or> is_digit c \<or> c = CHR ''-'') n"
    if "pinecone_index_name e j d f p = Inr n" for e j d f p n
  proof -
    have g: "e \<in> {''dev'', ''stg'', ''prd''}" "length j = 3" "length d = 8" "fingerprint_pattern f"
      "n = ''asklegal-'' @ e @ ''-'' @ j @ ''-'' @ d @ ''-'' @ take 12 (drop 7 f)"
      "\<not> 52 < length (n @ ''-'' @ p)"
      "list_all (\<lambda>c. is_lower c \<or> is_digit c \<or> c = CHR ''-'') n"
      using that unfolding pinecone_index_name_def Let_def construct_Inr first_raise_Cons_None raise_if_None
      by blast+
    show "length e = 3" using g(1) by auto
    show "length f = 71" using g(4) by (rule fingerprint_pattern_length)
    show "length n + 1 + length p \<le> 52" using g(6) by simp
  qed (use that in \<open>unfold pinecone_index_name_def Let_def construct_Inr first_raise_Cons_None raise_if_None, blast+\<close>)
  note n = parts [OF assms(1)] and n' = parts [OF assms(2)]
  have "length n = 38" using n by simp
  moreover have "n = n' \<longleftrightarrow> e = e' \<and> j = j' \<and> d = d' \<and> take 12 (drop 7 f) = take 12 (drop 7 f')"
    using n(2-4) n'(2-4) by (simp add: n(1) n'(1))
  ultimately show ?thesis using n(6,7) by simp
qed

section \<open>A sample manifest\<close>

definition sample_encoder :: encoder where
  "sample_encoder j = Some (json_text j)"

definition sample_digest :: "char \<Rightarrow> string" where
  "sample_digest c = ''sha256:'' @ replicate 64 c"

definition sample_action :: promotion_action where
  "sample_action = \<lparr>pa_sequence = 1, pa_action_id = ''PUBLISH'', pa_effect_type = Eff_RELEASE_PUBLICATION,
     pa_owning_application = App_PROMOTION_WORKER, pa_permitted_checkpoint = ''APPROVED'',
     pa_input_refs = [\<lparr>ref_type = Ref_DESIRED_STATE_INVENTORY, ref_id = ''inv'', ref_fingerprint = sample_digest CHR ''1''\<rparr>],
     pa_effect_command_fingerprint = sample_digest CHR ''2'',
     pa_required_capability = Cap_PUBLISH_RELEASE,
     pa_capability_profile_ref = \<lparr>ref_type = Ref_CAPABILITY_PROFILE, ref_id = ''cap'', ref_fingerprint = sample_digest CHR ''3''\<rparr>,
     pa_destination_class = Dest_RELEASE_STORE, pa_stable_idempotency_key = ''publish-1'',
     pa_retry_class = Retry_NEVER, pa_attempt_ceiling = 1, pa_deadline = ''2026-01-01T12:00:00Z'',
     pa_stop_conditions = mandatory_stop_conditions,
     pa_expected_remote_precondition_ref = \<lparr>contract_id = ''pre'', contract_version = ''1.0.0'', contract_fingerprint = sample_digest CHR ''4''\<rparr>,
     pa_success_postcondition_ref = \<lparr>contract_id = ''post'', contract_version = ''1.0.0'', contract_fingerprint = sample_digest CHR ''5''\<rparr>,
     pa_compensation = NoCompensation\<rparr>"

definition sample_cycle :: source_cycle_binding where
  "sample_cycle = \<lparr>sc_vault = ''PRIMARY'', sc_logical_key = ''poc/report/source-coverage-cycle/1'',
     sc_version_id = ''v1'', sc_fingerprint = sample_digest CHR ''6'', sc_byte_length = 1,
     sc_observation_cutoff = ''2026-01-01T00:00:00Z'', sc_accounting_complete = True, sc_release_blocking = False,
     sc_missing_source_ids = [], sc_duplicate_source_ids = [], sc_gap_source_ids = []\<rparr>"

definition sample_coverage :: coverage_manifest where
  "sample_coverage = \<lparr>cm_manifest_id = ''cov'', cm_serving_state_id = ''srv'',
     cm_observation_cutoff = ''2026-01-01T00:00:00Z'', cm_scopes = [], cm_source_cycle = Some sample_cycle,
     cm_canonical_bytes = '''', cm_fingerprint = sample_digest CHR ''7''\<rparr>"

definition sample_profile_input :: embedding_profile_input where
  "sample_profile_input = \<lparr>ep_provider = ''LOCAL_FAKE'', ep_resource_class = ''local'', ep_geography_class = ''none'',
     ep_deployment_name = ''local'', ep_model_id = ''fake'', ep_model_version = ''1'', ep_api_contract = ''none'',
     ep_tokenizer = ''words'', ep_dimensions = 2, ep_encoding = ''float32'', ep_normalization = ''none'',
     ep_metric = ''cosine'', ep_max_input_tokens = 8, ep_cost_limit_microunits = 100,
     ep_expires_at = ''2026-12-31T00:00:00Z'', ep_allowed_environments = [''dev''], ep_stateful_features = False\<rparr>"

definition sample_profile :: embedding_profile where
  "sample_profile = (let f = sha256_fingerprint demo_platform (json_text (embedding_profile_body sample_profile_input)) in
     embedding_profile_input.extend sample_profile_input
       (embedding_profile.fields (stable_id demo_platform ''emp'' [f]) f))"

definition sample_record :: "string \<Rightarrow> flattened_record" where
  "sample_record i = \<lparr>fr_record_id = i, fr_content_fingerprint = sample_digest CHR ''8'', fr_scope_id = ''HK-LEG-ORDINANCES'',
     fr_release_id = ''rel'', fr_record = \<lparr>sr_record_id = i, sr_text = ''text'', sr_country = ''HK'',
       sr_jurisdiction = ''hkg'', sr_material_type = ''LEGISLATION'', sr_source = ''source'',
       sr_authority_note = ''note'', sr_artifact_ref = ''art'', sr_evidence_refs = []\<rparr>\<rparr>"

definition sample_inventory :: "string \<Rightarrow> desired_state_inventory" where
  "sample_inventory i = \<lparr>di_inventory_id = i, di_target_key = ''key'', di_observation_cutoff = ''2026-01-01T00:00:00Z'',
     di_scope_releases = [], di_records = [sample_record ''rec_1'', sample_record ''rec_2''],
     di_records_fingerprint = sample_digest CHR ''9'', di_inventory_fingerprint = sample_digest CHR ''1''\<rparr>"

definition sample_state :: "string \<Rightarrow> char \<Rightarrow> string" where
  "sample_state prefix c = prefix @ ''_'' @ replicate 48 c"

definition sample_plan :: "string \<Rightarrow> promotion_plan" where
  "sample_plan inventory_id = \<lparr>pp_environment = ''dev'', pp_jurisdiction = ''hkg'', pp_freeze_date = ''20260101'',
     pp_valid_from = ''2026-01-01T00:00:00Z'', pp_valid_until = ''2026-01-02T00:00:00Z'',
     pp_base_serving_state_id = sample_state ''srv'' CHR ''a'',
     pp_candidate_serving_state_id = sample_state ''srv'' CHR ''b'',
     pp_candidate_serving_state_fingerprint = sample_digest CHR ''b'',
     pp_rollback_serving_state_id = sample_state ''srv'' CHR ''a'',
     pp_desired_state = sample_inventory inventory_id, pp_coverage_status = sample_coverage,
     pp_embedding_profile = sample_profile, pp_validity_predicates = [(''P'', ''1.0.0'', sample_digest CHR ''c'')],
     pp_batch_size = 1, pp_project_id = ''proj'', pp_action_contract_version = ''1.0.0'',
     pp_actions = [sample_action], pp_exact_retirement_target_ids = []\<rparr>"

definition sample_promotion :: "string \<Rightarrow> promotion_manifest" where
  "sample_promotion inventory_id =
     (let f = sha256_fingerprint demo_platform (json_text (manifest_body (sample_plan inventory_id))) in
      promotion_plan.extend (sample_plan inventory_id)
        (promotion_manifest.fields (stable_id demo_platform ''pmn'' [f]) f))"

lemma sample_action_valid:
  "validate_action_inputs \<lparr>ab_candidate_serving_state_fingerprint = b, ab_desired_state_fingerprint = sample_digest CHR ''1'',
     ab_embedding_profile_fingerprint = p, ab_valid_from = ''2026-01-01T00:00:00Z'',
     ab_valid_until = ''2026-01-02T00:00:00Z''\<rparr> sample_action = None"
proof -
  have "validate_action_authority ''2026-01-01T00:00:00Z'' ''2026-01-02T00:00:00Z'' sample_action = None"
    by code_simp
  then show ?thesis by (simp add: validate_action_inputs_def sample_action_def)
qed

lemma sample_plan_guards: "plan_guards (sample_plan i) = None"
  using sample_action_valid
  by (simp add: plan_guards_def validate_action_authorities_def plan_bindings_def sample_plan_def
      sample_inventory_def Let_def) (simp add: sample_action_def)

lemma sample_v1_guards: "v1_guards (sample_plan i) = None"
proof -
  have "verify_v1_coverage_release_gate sample_coverage = None" by code_simp
  then show ?thesis
    by (simp add: v1_guards_def validate_hk_v1_effect_types_def sample_plan_def sample_action_def)
qed

lemma sample_frozen:
  "freeze_v1_promotion_manifest demo_platform sample_encoder (sample_plan i) = Inr (sample_promotion i)"
  by (simp add: freeze_v1_promotion_manifest_def freeze_generic_promotion_manifest_def sample_v1_guards
      sample_plan_guards canonical_fingerprint_def sample_encoder_def sample_promotion_def Let_def)

lemma sample_verified: "verify_promotion_manifest demo_platform sample_encoder (sample_promotion i) = None"
  using sample_frozen [of i] by (simp add: verify_v1_None sample_promotion_def Let_def)

lemma sample_promotion_plan: "promotion_plan.truncate (sample_promotion i) = sample_plan i"
  by (simp add: sample_promotion_def Let_def)

lemma sample_promotion_actions: "pp_actions (sample_promotion i) = [sample_action]"
  using truncate_fields(1) [of "sample_promotion i"] by (simp add: sample_promotion_plan) (simp add: sample_plan_def)

theorem verified_manifest_authority_witness:
  "effect_binding (pa_effect_type sample_action)
     = ([App_PROMOTION_WORKER], pa_required_capability sample_action, pa_destination_class sample_action)
   \<and> pa_effect_type sample_action \<noteq> Eff_ROUTING_ACTIVATION"
  using verified_manifest_authority [OF sample_verified, of 0 "''inv''"]
  by (simp add: sample_promotion_actions Let_def sample_action_def)

theorem fingerprint_binds_manifest_witness:
  "pp_actions (sample_promotion ''inv-1'') = pp_actions (sample_promotion ''inv-2'')
   \<and> pm_manifest_id (sample_promotion ''inv-1'') = pm_manifest_id (sample_promotion ''inv-2'')"
proof -
  have plans: "manifest_body (sample_plan ''inv-1'') = manifest_body (sample_plan ''inv-2'')"
    by (simp add: manifest_body_def sample_plan_def sample_inventory_def)
  then have body: "manifest_body (sample_promotion ''inv-1'') = manifest_body (sample_promotion ''inv-2'')"
    using truncate_fields(9) sample_promotion_plan by metis
  from plans have "pm_fingerprint (sample_promotion ''inv-1'') = pm_fingerprint (sample_promotion ''inv-2'')"
    by (simp add: sample_promotion_def Let_def)
  from fingerprint_binds_manifest [OF sample_verified sample_verified this] body show ?thesis by simp
qed

theorem index_name_shape_witness:
  "length ''asklegal-dev-hkg-20260101-bbbbbbbbbbbb'' = 38"
proof -
  have "pinecone_index_name ''dev'' ''hkg'' ''20260101'' (sample_digest CHR ''b'') ''proj''
      = Inr ''asklegal-dev-hkg-20260101-bbbbbbbbbbbb''" by code_simp
  from index_name_shape [OF this this] show ?thesis by blast
qed

end
