(* ===== verification/ServingProperties.thy ===== *)
theory ServingProperties
  imports ServingStores Stores
begin

text \<open>
  The serving state store as a protocol: its receipts form one chain from the initial state to the
  active one, a reversal undoes exactly the last activation, and a reversed candidate stays out.
  The store interprets the contract of a store whose failed operations change nothing.
\<close>

section \<open>Histories of the serving state store\<close>

datatype serving_op = ActivateOp string serving_candidate | RollbackOp serving_candidate string

fun perform_serving ::
    "platform \<Rightarrow> serving_op \<Rightarrow> serving_store \<Rightarrow> (serving_receipt, serving_store) promotion_outcome" where
  "perform_serving P (ActivateOp b c) S = activate_serving_state P b c S"
| "perform_serving P (RollbackOp c r) S = rollback_serving_state P c r S"

text \<open>The receipts of a history that are no replays: what actually happened, in order.\<close>

fun serving_log :: "platform \<Rightarrow> serving_op list \<Rightarrow> serving_store \<Rightarrow> serving_receipt list" where
  "serving_log P [] S = []"
| "serving_log P (op # ops) S =
     (case fst (perform_serving P op S) of
        Inl _ \<Rightarrow> [] | Inr r \<Rightarrow> if sx_replayed r then [] else [r])
     @ serving_log P ops (snd (perform_serving P op S))"

lemma serving_log_snoc:
  "serving_log P (ops @ [op]) S = serving_log P ops S @ serving_log P [op] (run (perform_serving P) ops S)"
  by (induction ops arbitrary: S) simp_all

text \<open>What a log must look like: each move starts where the last one ended.\<close>

fun chained :: "string \<Rightarrow> serving_receipt list \<Rightarrow> bool" where
  "chained s [] \<longleftrightarrow> True"
| "chained s (r # rs) \<longleftrightarrow> sx_predecessor_state_id r = s \<and> chained (sx_state_id r) rs"

text \<open>A reversal directly follows the activation it reverses.\<close>

definition follows :: "serving_receipt option \<Rightarrow> serving_receipt \<Rightarrow> bool" where
  "follows prev r \<longleftrightarrow> sx_operation r = ''ACTIVATED'' \<or>
     (sx_operation r = ''ROLLED_BACK'' \<and> (case prev of None \<Rightarrow> False | Some a \<Rightarrow>
        sx_operation a = ''ACTIVATED'' \<and> sx_state_id a = sx_predecessor_state_id r
        \<and> sx_predecessor_state_id a = sx_state_id r
        \<and> sx_candidate_fingerprint a = sx_candidate_fingerprint r))"

fun reversals_follow :: "serving_receipt option \<Rightarrow> serving_receipt list \<Rightarrow> bool" where
  "reversals_follow prev [] \<longleftrightarrow> True"
| "reversals_follow prev (r # rs) \<longleftrightarrow> follows prev r \<and> reversals_follow (Some r) rs"

definition last_state :: "string \<Rightarrow> serving_receipt list \<Rightarrow> string" where
  "last_state s rs = (if rs = [] then s else sx_state_id (last rs))"

lemma chained_snoc: "chained s (rs @ [r]) \<longleftrightarrow> chained s rs \<and> sx_predecessor_state_id r = last_state s rs"
  by (induction s rs rule: chained.induct) (auto simp: last_state_def)

lemma reversals_follow_snoc:
  "reversals_follow prev (rs @ [r]) \<longleftrightarrow> reversals_follow prev rs
     \<and> follows (if rs = [] then prev else Some (last rs)) r"
  by (induction prev rs rule: reversals_follow.induct) auto

section \<open>The invariant\<close>

definition reversed :: "serving_store \<Rightarrow> activation_key \<Rightarrow> bool" where
  "reversed S k \<longleftrightarrow> map_of (ss_rollbacks S) k \<noteq> None"

definition serving_ok :: "platform \<Rightarrow> string \<Rightarrow> serving_store \<Rightarrow> bool" where
  "serving_ok P i S \<longleftrightarrow>
     distinct (map fst (ss_activations S)) \<and> distinct (map fst (ss_rollbacks S))
     \<and> (\<forall>b c r. map_of (ss_activations S) (b, c) = Some r \<longrightarrow>
          valid_serving_candidate b c \<and> r = activation_of P b c)
     \<and> (\<forall>b c r. map_of (ss_rollbacks S) (b, c) = Some r \<longrightarrow>
          map_of (ss_activations S) (b, c) = Some (activation_of P b c)
          \<and> r = rollback_of P (serving_activation_receipt P b c) c)
     \<and> (case ss_active_activation S of
          None \<Rightarrow> ss_activations S = [] \<and> ss_active_state_id S = i
        | Some (b, c, r) \<Rightarrow> map_of (ss_activations S) (b, c) = Some r
            \<and> ss_active_state_id S = (if reversed S (b, c) then b else sv_state_id c))"

definition log_ok :: "string \<Rightarrow> serving_receipt list \<Rightarrow> serving_store \<Rightarrow> bool" where
  "log_ok i rs S \<longleftrightarrow> chained i rs \<and> reversals_follow None rs \<and> ss_active_state_id S = last_state i rs
     \<and> map snd (ss_activations S) = filter (\<lambda>r. sx_operation r = ''ACTIVATED'') rs
     \<and> map snd (ss_rollbacks S) = filter (\<lambda>r. sx_operation r = ''ROLLED_BACK'') rs
     \<and> (\<forall>b c a. ss_active_activation S = Some (b, c, a) \<longrightarrow> rs \<noteq> []
          \<and> (\<not> reversed S (b, c) \<longrightarrow> last rs = a))"

lemma activation_of_simps [simp]:
  "sx_operation (activation_of P b c) = ''ACTIVATED''" "sx_predecessor_state_id (activation_of P b c) = b"
  "sx_state_id (activation_of P b c) = sv_state_id c" "\<not> sx_replayed (activation_of P b c)"
  "sx_candidate_fingerprint (activation_of P b c) = sv_state_fingerprint c"
  "sx_receipt_id (activation_of P b c) = serving_activation_receipt P b c"
  by (simp_all add: activation_of_def)

lemma rollback_of_simps [simp]:
  "sx_operation (rollback_of P i c) = ''ROLLED_BACK''" "sx_predecessor_state_id (rollback_of P i c) = sv_state_id c"
  "sx_state_id (rollback_of P i c) = sv_predecessor_state_id c" "\<not> sx_replayed (rollback_of P i c)"
  "sx_candidate_fingerprint (rollback_of P i c) = sv_state_fingerprint c"
  "sx_receipt_id (rollback_of P i c) = serving_rollback_receipt P i c"
  by (simp_all add: rollback_of_def)

lemma replay_of_simps [simp]: "sx_replayed (replay_of r)" "sx_receipt_id (replay_of r) = sx_receipt_id r"
  by (simp_all add: replay_of_def)

text \<open>What an operation does: nothing, one first activation, or the reversal of the last one.\<close>

lemma perform_serving_cases:
  obtains (unchanged) "snd (perform_serving P op S) = S"
      "\<And>r. fst (perform_serving P op S) = Inr r \<Longrightarrow> sx_replayed r"
  | (activated) b c where "op = ActivateOp b c" "valid_serving_candidate b c"
      "map_of (ss_activations S) (b, c) = None" "ss_active_state_id S = b"
      "perform_serving P op S = (Inr (activation_of P b c), S\<lparr>ss_active_state_id := sv_state_id c,
         ss_activations := AList.update (b, c) (activation_of P b c) (ss_activations S),
         ss_active_activation := Some (b, c, activation_of P b c)\<rparr>)"
  | (rolled_back) b c a where "op = RollbackOp c (sx_receipt_id a)" "b = sv_predecessor_state_id c"
      "ss_active_activation S = Some (b, c, a)" "\<not> reversed S (b, c)" "ss_active_state_id S = sv_state_id c"
      "perform_serving P op S = (Inr (rollback_of P (sx_receipt_id a) c), S\<lparr>ss_active_state_id := b,
         ss_rollbacks := AList.update (b, c) (rollback_of P (sx_receipt_id a) c) (ss_rollbacks S)\<rparr>)"
proof (cases op)
  case (ActivateOp b c)
  show thesis
  proof (cases "valid_serving_candidate b c \<and> map_of (ss_activations S) (b, c) = None
      \<and> \<not> fp_routing_cas_loss (ss_plan S) \<and> ss_active_state_id S = b")
    case True
    then have "sv_predecessor_state_id c = b" by (simp add: valid_serving_candidate_def)
    with True show thesis
      by (intro activated [OF ActivateOp]) (simp_all add: ActivateOp activate_serving_state_def Let_def)
  next
    case False
    then show thesis
      by (intro unchanged)
        (auto simp: ActivateOp activate_serving_state_def Let_def split: option.splits if_splits)
  qed
next
  case (RollbackOp c rid)
  show thesis
  proof (cases "\<exists>a. ss_active_activation S = Some (sv_predecessor_state_id c, c, a) \<and> rid = sx_receipt_id a
      \<and> \<not> reversed S (sv_predecessor_state_id c, c) \<and> ss_active_state_id S = sv_state_id c
      \<and> \<not> fp_rollback_failure (ss_plan S)")
    case True
    then obtain a where a: "ss_active_activation S = Some (sv_predecessor_state_id c, c, a)"
      "rid = sx_receipt_id a" "\<not> reversed S (sv_predecessor_state_id c, c)"
      "ss_active_state_id S = sv_state_id c" "\<not> fp_rollback_failure (ss_plan S)" by blast
    then show thesis
      by (intro rolled_back [of c a "sv_predecessor_state_id c"])
        (simp_all add: RollbackOp rollback_serving_state_def reversed_def Let_def)
  next
    case False
    then show thesis
      by (intro unchanged)
        (auto simp: RollbackOp rollback_serving_state_def reversed_def Let_def
          split: option.splits if_splits prod.splits)
  qed
qed

lemma serving_okD:
  assumes "serving_ok P i S"
  shows "map_of (ss_activations S) (b, c) = Some r \<Longrightarrow> valid_serving_candidate b c \<and> r = activation_of P b c"
    and "map_of (ss_rollbacks S) (b, c) = Some q \<Longrightarrow>
      map_of (ss_activations S) (b, c) = Some (activation_of P b c)
      \<and> q = rollback_of P (serving_activation_receipt P b c) c"
    and "ss_active_activation S = Some (b, c, r) \<Longrightarrow> map_of (ss_activations S) (b, c) = Some r
      \<and> r = activation_of P b c \<and> b = sv_predecessor_state_id c
      \<and> ss_active_state_id S = (if reversed S (b, c) then b else sv_state_id c)"
    and "ss_active_activation S = None \<Longrightarrow> ss_activations S = [] \<and> ss_rollbacks S = [] \<and> ss_active_state_id S = i"
proof -
  show A: "map_of (ss_activations S) (b, c) = Some r \<Longrightarrow> valid_serving_candidate b c \<and> r = activation_of P b c" for b c r
    using assms unfolding serving_ok_def by blast
  show R: "map_of (ss_rollbacks S) (b, c) = Some q \<Longrightarrow>
      map_of (ss_activations S) (b, c) = Some (activation_of P b c)
      \<and> q = rollback_of P (serving_activation_receipt P b c) c" for b c q
    using assms unfolding serving_ok_def by blast
  show "ss_active_activation S = Some (b, c, r) \<Longrightarrow> map_of (ss_activations S) (b, c) = Some r
      \<and> r = activation_of P b c \<and> b = sv_predecessor_state_id c
      \<and> ss_active_state_id S = (if reversed S (b, c) then b else sv_state_id c)"
    using assms A [of b c r] unfolding serving_ok_def
    by (auto simp: valid_serving_candidate_def simp del: map_of_eq_Some_iff)
  show "ss_active_activation S = None \<Longrightarrow> ss_activations S = [] \<and> ss_rollbacks S = [] \<and> ss_active_state_id S = i"
  proof -
    assume none: "ss_active_activation S = None"
    then have a: "ss_activations S = []" "ss_active_state_id S = i" using assms by (auto simp: serving_ok_def)
    have "ss_rollbacks S = []"
    proof (rule ccontr)
      assume "ss_rollbacks S \<noteq> []"
      then obtain kq rest where "ss_rollbacks S = kq # rest" by (cases "ss_rollbacks S") auto
      then have "map_of (ss_rollbacks S) (fst kq) = Some (snd kq)" by (cases kq) simp
      with R [of "fst (fst kq)" "snd (fst kq)" "snd kq"] a(1) show False by simp
    qed
    with a show ?thesis by simp
  qed
qed

lemma activation_not_reversed:
  assumes "serving_ok P i S" "map_of (ss_activations S) k = None"
  shows "map_of (ss_rollbacks S) k = None"
  using serving_okD(2) [OF assms(1), of "fst k" "snd k"] assms(2)
  by (cases "map_of (ss_rollbacks S) k") auto

lemma serving_okI:
  assumes "distinct (map fst (ss_activations S))" "distinct (map fst (ss_rollbacks S))"
    and "\<And>b c r. map_of (ss_activations S) (b, c) = Some r \<Longrightarrow> valid_serving_candidate b c \<and> r = activation_of P b c"
    and "\<And>b c q. map_of (ss_rollbacks S) (b, c) = Some q \<Longrightarrow>
      map_of (ss_activations S) (b, c) = Some (activation_of P b c)
      \<and> q = rollback_of P (serving_activation_receipt P b c) c"
    and "ss_active_activation S = Some (b, c, r)" "map_of (ss_activations S) (b, c) = Some r"
      "ss_active_state_id S = (if reversed S (b, c) then b else sv_state_id c)"
  shows "serving_ok P i S"
  unfolding serving_ok_def assms(5) option.case prod.case using assms(1-4,6,7) by blast

lemma serving_ok_step:
  assumes ok: "serving_ok P i S"
  shows "serving_ok P i (snd (perform_serving P op S))"
proof (cases rule: perform_serving_cases [of P op S])
  case unchanged
  with ok show ?thesis by simp
next
  case (activated b c)
  have keys: "distinct (map fst (ss_activations S))" "distinct (map fst (ss_rollbacks S))"
    using ok by (simp_all add: serving_ok_def)
  let ?S = "S\<lparr>ss_active_state_id := sv_state_id c,
     ss_activations := AList.update (b, c) (activation_of P b c) (ss_activations S),
     ss_active_activation := Some (b, c, activation_of P b c)\<rparr>"
  have "serving_ok P i ?S"
  proof (rule serving_okI)
    show "distinct (map fst (ss_activations ?S))" "distinct (map fst (ss_rollbacks ?S))"
      using keys by simp_all
    show "valid_serving_candidate b' c' \<and> r = activation_of P b' c'"
      if "map_of (ss_activations ?S) (b', c') = Some r" for b' c' r
      using that activated(2) serving_okD(1) [OF ok, of b' c' r]
      by (cases "(b', c') = (b, c)") (auto simp del: map_of_eq_Some_iff)
    show "map_of (ss_activations ?S) (b', c') = Some (activation_of P b' c')
        \<and> q = rollback_of P (serving_activation_receipt P b' c') c'"
      if "map_of (ss_rollbacks ?S) (b', c') = Some q" for b' c' q
      using that activated(3) serving_okD(2) [OF ok, of b' c' q] by simp
    show "ss_active_state_id ?S = (if reversed ?S (b, c) then b else sv_state_id c)"
      using activation_not_reversed [OF ok activated(3)] by (simp add: reversed_def)
  qed simp_all
  with activated(5) show ?thesis by simp
next
  case (rolled_back b c a)
  note active = serving_okD(3) [OF ok rolled_back(3)]
  have keys: "distinct (map fst (ss_activations S))" "distinct (map fst (ss_rollbacks S))"
    using ok by (simp_all add: serving_ok_def)
  let ?S = "S\<lparr>ss_active_state_id := b,
     ss_rollbacks := AList.update (b, c) (rollback_of P (sx_receipt_id a) c) (ss_rollbacks S)\<rparr>"
  have "serving_ok P i ?S"
  proof (rule serving_okI)
    show "distinct (map fst (ss_activations ?S))" "distinct (map fst (ss_rollbacks ?S))"
      using keys by simp_all
    show "valid_serving_candidate b' c' \<and> r = activation_of P b' c'"
      if "map_of (ss_activations ?S) (b', c') = Some r" for b' c' r
      using that serving_okD(1) [OF ok, of b' c' r] by simp
    show "map_of (ss_activations ?S) (b', c') = Some (activation_of P b' c')
        \<and> q = rollback_of P (serving_activation_receipt P b' c') c'"
      if "map_of (ss_rollbacks ?S) (b', c') = Some q" for b' c' q
      using that active serving_okD(2) [OF ok, of b' c' q]
      by (cases "(b', c') = (b, c)") (auto simp del: map_of_eq_Some_iff)
    show "ss_active_activation ?S = Some (b, c, a)" using rolled_back(3) by simp
    have "map_of (ss_activations S) (b, c) = Some a" using active by blast
    then show "map_of (ss_activations ?S) (b, c) = Some a" by (simp del: map_of_eq_Some_iff)
    show "ss_active_state_id ?S = (if reversed ?S (b, c) then b else sv_state_id c)"
      by (simp add: reversed_def)
  qed
  with rolled_back(6) show ?thesis by simp
qed

lemma update_fresh_value: "map_of m k = None \<Longrightarrow> map snd (AList.update k v m) = map snd m @ [v]"
  by (simp add: update_fresh map_of_eq_None_iff)

lemma log_ok_step:
  assumes ok: "serving_ok P i S" and log: "log_ok i rs S"
  shows "log_ok i (rs @ serving_log P [op] S) (snd (perform_serving P op S))"
proof (cases rule: perform_serving_cases [of P op S])
  case unchanged
  then have "serving_log P [op] S = []" by (auto split: sum.split)
  with log unchanged show ?thesis by simp
next
  case (activated b c)
  note fresh = activation_not_reversed [OF ok activated(3)]
  from log activated(3,4) show ?thesis
    by (simp add: activated(5) log_ok_def chained_snoc reversals_follow_snoc follows_def last_state_def
        update_fresh_value)
next
  case (rolled_back b c a)
  note active = serving_okD(3) [OF ok rolled_back(3)]
  from log rolled_back(3,4) have last: "rs \<noteq> []" "last rs = a" by (auto simp: log_ok_def)
  from log rolled_back(2-5) active last show ?thesis
    by (simp add: rolled_back(6) log_ok_def chained_snoc reversals_follow_snoc follows_def last_state_def
        update_fresh_value reversed_def)
qed

interpretation serving: atomic_store "new_serving_store i plan" "perform_serving P" "\<lambda>_. True" "serving_ok P i"
  for i plan P
proof
  show "serving_ok P i (new_serving_store i plan)" by (simp add: serving_ok_def new_serving_store_def)
  show "serving_ok P i (snd (perform_serving P op s))" if "serving_ok P i s" for s op
    using that by (rule serving_ok_step)
  show "snd (perform_serving P op s) = s" if "fst (perform_serving P op s) = Inl e" for op s e
    using that by (cases rule: perform_serving_cases [of P op s]) simp_all
qed

abbreviation serving_history :: "platform \<Rightarrow> string \<Rightarrow> failure_plan \<Rightarrow> serving_op list \<Rightarrow> serving_store" where
  "serving_history P i plan ops \<equiv> run (perform_serving P) ops (new_serving_store i plan)"

lemma serving_history_ok: "serving_ok P i (serving_history P i plan ops)"
  by (rule serving.reachable_inv) (simp add: list.pred_True)

lemma serving_history_log:
  "log_ok i (serving_log P ops (new_serving_store i plan)) (serving_history P i plan ops)"
proof (induction ops rule: rev_induct)
  case Nil
  show ?case by (simp add: log_ok_def new_serving_store_def last_state_def)
next
  case (snoc op ops)
  from log_ok_step [OF serving_history_ok snoc, of op] show ?case
    by (simp add: serving_log_snoc run_append del: serving_log.simps)
qed

text \<open>
  The active serving state is what the receipts say. In every history, faults included, the
  receipts that are no replays form one chain: each starts at the state the previous one led to,
  the first at the initial state, and the active state is where the last one led. A reversal
  directly follows the activation it reverses. No candidate is activated twice from one base or
  reversed twice, and an operation that raises changes nothing.
\<close>

theorem serving_states_chain:
  "let log = serving_log P ops (new_serving_store i plan); S = serving_history P i plan ops in
     chained i log \<and> reversals_follow None log \<and> ss_active_state_id S = last_state i log
     \<and> filter (\<lambda>r. sx_operation r = ''ACTIVATED'') log = map snd (ss_activations S)
     \<and> filter (\<lambda>r. sx_operation r = ''ROLLED_BACK'') log = map snd (ss_rollbacks S)
     \<and> distinct (map fst (ss_activations S)) \<and> distinct (map fst (ss_rollbacks S))
     \<and> run (perform_serving P) (effective (perform_serving P) ops (new_serving_store i plan))
         (new_serving_store i plan) = S"
  using serving_history_log [where i = i and P = P and ops = ops and plan = plan]
    serving_history_ok [where i = i and P = P and ops = ops and plan = plan]
    serving.failed_operations_invisible
  by (simp add: Let_def log_ok_def serving_ok_def)

lemma reversed_step: "reversed S k \<Longrightarrow> reversed (snd (perform_serving P op S)) k"
  by (cases rule: perform_serving_cases [of P op S]) (auto simp: reversed_def)

text \<open>
  A reversal is final. After any history in which a candidate was rolled back, and whatever
  follows, activating it again from the same base is refused and changes nothing, unless the
  candidate is its own predecessor.
\<close>

theorem reversed_candidate_stays_out:
  assumes "reversed (serving_history P i plan ops) (b, c)" and "sv_state_id c \<noteq> b"
  shows "let S = run (perform_serving P) later (serving_history P i plan ops) in
     activate_serving_state P b c S = (Inl (PromotionError BaseStateDrift), S)"
proof -
  let ?S = "run (perform_serving P) later (serving_history P i plan ops)"
  have ok: "serving_ok P i ?S"
    by (rule serving.run_inv [OF serving_history_ok]) (simp add: list.pred_True)
  have "reversed ?S (b, c)"
    by (rule serving.run_persists [where Q = "\<lambda>S. reversed S (b, c)", OF reversed_step serving_history_ok])
      (simp_all add: list.pred_True assms(1))
  then obtain q where "map_of (ss_rollbacks ?S) (b, c) = Some q" by (auto simp: reversed_def)
  from serving_okD(2) [OF ok this]
  have activated: "map_of (ss_activations ?S) (b, c) = Some (activation_of P b c)" by blast
  have "\<not> (ss_active_state_id ?S = sv_state_id c
      \<and> ss_active_activation ?S = Some (b, c, activation_of P b c))"
    using serving_okD(3) [OF ok, of b c] \<open>reversed ?S (b, c)\<close> assms(2) by auto
  with activated show ?thesis by (auto simp: activate_serving_state_def Let_def)
qed

text \<open>
  A cutover can be undone exactly. When a candidate is activated for the first time and no
  rollback fault is planned, its receipt reverses it: the predecessor is active again, repeating
  the reversal replays the same receipt, and any other receipt identity is refused.
\<close>

theorem reversal_restores_predecessor:
  assumes "activate_serving_state P b c (serving_history P i plan ops) = (Inr r, S1)"
    and "\<not> sx_replayed r" and "\<not> fp_rollback_failure (ss_plan S1)"
  shows "let (outcome, S2) = rollback_serving_state P c (sx_receipt_id r) S1 in
     outcome = Inr (rollback_of P (sx_receipt_id r) c)
     \<and> ss_active_state_id S2 = ss_active_state_id (serving_history P i plan ops)
     \<and> rollback_serving_state P c (sx_receipt_id r) S2 = (Inr (replay_of (rollback_of P (sx_receipt_id r) c)), S2)
     \<and> (other = sx_receipt_id r \<or>
        rollback_serving_state P c other S1 = (Inl (PromotionError PostCutoverFailed), S1)
        \<and> rollback_serving_state P c other S2 = (Inl (PromotionError PostCutoverFailed), S2))"
proof (cases rule: perform_serving_cases [of P "ActivateOp b c" "serving_history P i plan ops"])
  case unchanged
  with assms(1,2) show ?thesis by simp
next
  case (activated b' c')
  then have eqs: "b' = b" "c' = c" by simp_all
  note act = activated [unfolded eqs]
  from act(2) have b: "b = sv_predecessor_state_id c" by (simp add: valid_serving_candidate_def)
  note fresh = activation_not_reversed [OF serving_history_ok act(3)]
  from act(5) assms(1) have r: "r = activation_of P b c" and S1: "S1 = (serving_history P i plan ops)
      \<lparr>ss_active_state_id := sv_state_id c,
       ss_activations := AList.update (b, c) (activation_of P b c) (ss_activations (serving_history P i plan ops)),
       ss_active_activation := Some (b, c, activation_of P b c)\<rparr>" by simp_all
  from act(4) b fresh assms(3) show ?thesis
    by (simp add: rollback_serving_state_def Let_def r S1)
next
  case (rolled_back b' c' a)
  then show ?thesis by simp
qed

section \<open>A sample cutover\<close>

definition sample_candidate :: serving_candidate where
  "sample_candidate = \<lparr>sv_state_id = ''srv_'' @ replicate 48 CHR ''b'',
     sv_state_fingerprint = ''sha256:'' @ replicate 64 CHR ''b'',
     sv_predecessor_state_id = ''srv_'' @ replicate 48 CHR ''a'',
     sv_target_name = ''asklegal-dev-hkg-20260101-bbbbbbbbbbbb'',
     sv_desired_inventory_fingerprint = ''sha256:'' @ replicate 64 CHR ''1'',
     sv_coverage_fingerprint = ''sha256:'' @ replicate 64 CHR ''7'',
     sv_embedding_profile_id = ''emp_'' @ replicate 48 CHR ''3'',
     sv_embedding_profile_fingerprint = ''sha256:'' @ replicate 64 CHR ''4'',
     sv_approval_id = ''apr_'' @ replicate 48 CHR ''5'',
     sv_execution_lineage_id = ''exe_'' @ replicate 48 CHR ''6''\<rparr>"

definition sample_base :: string where
  "sample_base = ''srv_'' @ replicate 48 CHR ''a''"

lemma sample_candidate_valid: "valid_serving_candidate sample_base sample_candidate"
  by code_simp

lemma sample_states: "sv_state_id sample_candidate \<noteq> sample_base" "sv_predecessor_state_id sample_candidate = sample_base"
  by code_simp+

lemma sample_activates:
  "activate_serving_state demo_platform sample_base sample_candidate (new_serving_store sample_base no_failures)
    = (Inr (activation_of demo_platform sample_base sample_candidate),
       \<lparr>ss_plan = no_failures, ss_active_state_id = sv_state_id sample_candidate,
        ss_activations = [((sample_base, sample_candidate), activation_of demo_platform sample_base sample_candidate)],
        ss_active_activation = Some (sample_base, sample_candidate, activation_of demo_platform sample_base sample_candidate),
        ss_rollbacks = []\<rparr>)"
  using sample_candidate_valid sample_states(2)
  by (simp add: activate_serving_state_def new_serving_store_def no_failures_def Let_def)

theorem reversal_restores_predecessor_witness:
  "ss_active_state_id (snd (rollback_serving_state demo_platform sample_candidate
      (serving_activation_receipt demo_platform sample_base sample_candidate)
      (snd (activate_serving_state demo_platform sample_base sample_candidate
        (serving_history demo_platform sample_base no_failures []))))) = sample_base"
proof -
  let ?S = "snd (activate_serving_state demo_platform sample_base sample_candidate
        (serving_history demo_platform sample_base no_failures []))"
  have "activate_serving_state demo_platform sample_base sample_candidate
        (serving_history demo_platform sample_base no_failures []) =
      (Inr (activation_of demo_platform sample_base sample_candidate), ?S)"
    by (simp add: sample_activates)
  moreover have "\<not> fp_rollback_failure (ss_plan ?S)"
    by (simp add: sample_activates) (simp add: no_failures_def)
  ultimately have "ss_active_state_id (snd (rollback_serving_state demo_platform sample_candidate
      (sx_receipt_id (activation_of demo_platform sample_base sample_candidate)) ?S))
    = ss_active_state_id (serving_history demo_platform sample_base no_failures [])"
    using reversal_restores_predecessor [of demo_platform sample_base sample_candidate "[]"
        sample_base no_failures "activation_of demo_platform sample_base sample_candidate" ?S "''''"]
    by (simp only: case_prod_beta Let_def activation_of_simps simp_thms)
  then show ?thesis by simp (simp add: new_serving_store_def)
qed

theorem reversed_candidate_stays_out_witness:
  "fst (activate_serving_state demo_platform sample_base sample_candidate
     (serving_history demo_platform sample_base no_failures
       [ActivateOp sample_base sample_candidate,
        RollbackOp sample_candidate (serving_activation_receipt demo_platform sample_base sample_candidate)]))
   = Inl (PromotionError BaseStateDrift)"
proof -
  have "reversed (serving_history demo_platform sample_base no_failures
       [ActivateOp sample_base sample_candidate,
        RollbackOp sample_candidate (serving_activation_receipt demo_platform sample_base sample_candidate)])
      (sample_base, sample_candidate)"
    using sample_activates sample_states(2)
    by (simp add: rollback_serving_state_def reversed_def no_failures_def Let_def)
  from reversed_candidate_stays_out [OF this sample_states(1), of "[]"] show ?thesis by (simp add: Let_def)
qed

end
