(* ===== verification/ServiceFacts.thy ===== *)
theory ServiceFacts
  imports PromotionService ManifestProperties ServingProperties ApprovalProperties
begin

text \<open>
  The proof rules of the promotion service: what each step of an execution leaves alone, what has
  happened when it gets past a gate, and what any sequence of service calls keeps.
\<close>

section \<open>Rules of sequencing\<close>

lemma proceed_Inr: "proceed r k = (Inr b, W') \<longleftrightarrow> (\<exists>a W1. r = (Inr a, W1) \<and> k a W1 = (Inr b, W'))"
  by (cases r; cases "fst r") (auto simp: proceed_def)

lemma proceed_simps [simp]: "proceed (Inl e, W) k = (Inl e, W)" "proceed (Inr a, W) k = k a W"
  by (simp_all add: proceed_def)

lemma require_simps [simp]: "require None W = (Inr (), W)" "require (Some e) W = (Inl e, W)"
  by (simp_all add: require_def)

lemma snd_require [simp]: "snd (require c W) = W"
  by (cases c) simp_all

lemma require_Inr: "require c W = (Inr u, W') \<longleftrightarrow> c = None \<and> W' = W"
  by (cases c) auto

lemma proceed_frame:
  assumes "g (snd r) = g W" and "\<And>a W1. r = (Inr a, W1) \<Longrightarrow> g W1 = g W \<Longrightarrow> g (snd (k a W1)) = g W1"
  shows "g (snd (proceed r k)) = g W"
proof (cases "fst r")
  case (Inl e) with assms(1) show ?thesis by (simp add: proceed_def)
next
  case (Inr a)
  then have r: "r = (Inr a, snd r)" by (cases r) simp
  have "snd (proceed r k) = snd (k a (snd r))" by (simp add: proceed_def Inr)
  with assms(2) [OF r assms(1)] assms(1) show ?thesis by simp
qed

lemma proceed_holds:
  assumes "Q (snd r)" and "\<And>a W1. r = (Inr a, W1) \<Longrightarrow> Q W1 \<Longrightarrow> Q (snd (k a W1))"
  shows "Q (snd (proceed r k))"
proof (cases "fst r")
  case (Inl e) with assms(1) show ?thesis by (simp add: proceed_def)
next
  case (Inr a)
  then have r: "r = (Inr a, snd r)" by (cases r) simp
  show ?thesis using assms(2) [OF r assms(1)] by (simp add: proceed_def Inr)
qed

lemma on_stores_snd:
  "snd (on_approvals fa W) = W\<lparr>pw_approvals := snd (fa (pw_approvals W))\<rparr>"
  "snd (on_targets ft W) = W\<lparr>pw_targets := snd (ft (pw_targets W))\<rparr>"
  "snd (on_backups fb W) = W\<lparr>pw_backups := snd (fb (pw_backups W))\<rparr>"
  "snd (on_routing fr W) = W\<lparr>pw_routing := snd (fr (pw_routing W))\<rparr>"
  "snd (on_coverage fc W) = W\<lparr>pw_coverage := snd (fc (pw_coverage W))\<rparr>"
  by (simp_all add: on_approvals_def on_targets_def on_backups_def on_routing_def on_coverage_def
      split: prod.splits)

lemma on_stores_Inr:
  "on_approvals fa W = (Inr a, W') \<longleftrightarrow> (\<exists>S. fa (pw_approvals W) = (Inr a, S) \<and> W' = W\<lparr>pw_approvals := S\<rparr>)"
  "on_targets ft W = (Inr b, W') \<longleftrightarrow> (\<exists>S. ft (pw_targets W) = (Inr b, S) \<and> W' = W\<lparr>pw_targets := S\<rparr>)"
  "on_backups fb W = (Inr c, W') \<longleftrightarrow> (\<exists>S. fb (pw_backups W) = (Inr c, S) \<and> W' = W\<lparr>pw_backups := S\<rparr>)"
  "on_routing fr W = (Inr d, W') \<longleftrightarrow> (\<exists>S. fr (pw_routing W) = (Inr d, S) \<and> W' = W\<lparr>pw_routing := S\<rparr>)"
  "on_coverage fc W = (Inr e, W') \<longleftrightarrow> (\<exists>S. fc (pw_coverage W) = (Inr e, S) \<and> W' = W\<lparr>pw_coverage := S\<rparr>)"
  by (auto simp: on_approvals_def on_targets_def on_backups_def on_routing_def on_coverage_def
      split: prod.splits sum.splits)

text \<open>Building a target touches only the targets and the backups.\<close>

lemma run_batches_frame:
  assumes "\<And>W S. g (W\<lparr>pw_targets := S\<rparr>) = g W"
  shows "g (snd (run_batches ports profile name bs W)) = g W"
  by (induction bs arbitrary: W)
    (auto intro!: proceed_frame simp: on_stores_snd assms)

lemma open_target_frame:
  assumes "\<And>W S. g (W\<lparr>pw_targets := S\<rparr>) = g W"
  shows "g (snd (open_target d W)) = g W"
  unfolding open_target_def
  by (rule proceed_frame) (auto simp: on_stores_snd assms split: sum.splits)

lemma verify_inventory_frame:
  assumes "\<And>W S. g (W\<lparr>pw_targets := S\<rparr>) = g W"
  shows "g (snd (verify_inventory ports m name rs W)) = g W"
  unfolding verify_inventory_def
  by (rule proceed_frame) (auto simp: on_stores_snd assms)

lemma verified_backup_frame:
  assumes "\<And>W S. g (W\<lparr>pw_backups := S\<rparr>) = g W"
  shows "g (snd (verified_backup P m name W)) = g W"
  unfolding verified_backup_def
  by (rule proceed_frame) (auto simp: on_stores_snd assms)

lemma build_target_frame:
  assumes "\<And>W S. g (W\<lparr>pw_targets := S\<rparr>) = g W" and "\<And>W S. g (W\<lparr>pw_backups := S\<rparr>) = g W"
  shows "g (snd (build_target P ports m requests name W)) = g W"
  unfolding build_target_def Let_def
  by (intro proceed_frame open_target_frame run_batches_frame verify_inventory_frame
      verified_backup_frame assms) auto

section \<open>Target inventories\<close>

text \<open>A target is keyed by the identity of its records, each identity once.\<close>

definition inventory_keyed :: "(string \<times> 'v target_record) list \<Rightarrow> bool" where
  "inventory_keyed t \<longleftrightarrow> distinct (map fst t) \<and> (\<forall>(k, r) \<in> set t. tr_record_id r = k)"

definition targets_ok :: "'v target_store \<Rightarrow> bool" where
  "targets_ok S \<longleftrightarrow> (\<forall>name d t. map_of (ts_targets S) name = Some (d, t) \<longrightarrow> inventory_keyed t)"

lemma targets_okD: "targets_ok S \<Longrightarrow> map_of (ts_targets S) name = Some (d, t) \<Longrightarrow> inventory_keyed t"
  unfolding targets_ok_def by blast

lemma targets_ok_update:
  "targets_ok S \<Longrightarrow> inventory_keyed t \<Longrightarrow> targets_ok (S\<lparr>ts_targets := AList.update name (d, t) (ts_targets S)\<rparr>)"
  by (simp add: targets_ok_def)

lemma targets_ok_flag [simp]: "targets_ok (S\<lparr>ts_lost_ack_fired := b\<rparr>) \<longleftrightarrow> targets_ok S"
  by (simp add: targets_ok_def)

lemma set_update_subset: "set (AList.update k v m) \<subseteq> insert (k, v) (set m)"
  by (induction m) auto

lemma inventory_keyed_update:
  assumes "inventory_keyed t" "tr_record_id r = k"
  shows "inventory_keyed (AList.update k r t)"
  using assms distinct_update [of t k r] set_update_subset [of k r t]
  unfolding inventory_keyed_def by fastforce

lemma inventory_keyed_write: "inventory_keyed t \<Longrightarrow> inventory_keyed (write_records rs t)"
  unfolding write_records_def by (induction rs arbitrary: t) (auto intro: inventory_keyed_update)

lemma inventory_keyed_Nil [simp]: "inventory_keyed []"
  by (simp add: inventory_keyed_def)

lemma create_target_ok: "targets_ok S \<Longrightarrow> targets_ok (snd (create_target d S))"
  by (auto simp: create_target_def targets_ok_update split: option.splits)

lemma upsert_batch_ok: "targets_ok S \<Longrightarrow> targets_ok (snd (upsert_batch name rs S))"
  by (auto simp: upsert_batch_def Let_def split: option.splits
      intro!: targets_ok_update inventory_keyed_write dest: targets_okD)

lemma enumerate_target_ok: "targets_ok S \<Longrightarrow> targets_ok (snd (enumerate_target zero name S))"
  by (auto simp: enumerate_target_def Let_def unknown_record_def split: option.splits
      intro!: targets_ok_update inventory_keyed_update dest: targets_okD)

lemma delete_exact_ok: "targets_ok S \<Longrightarrow> targets_ok (snd (delete_exact P name exact S))"
  by (auto simp: delete_exact_def targets_ok_def delete_conv' map_of_eq_Some_iff)

lemma upload_batch_ok: "targets_ok S \<Longrightarrow> targets_ok (snd (upload_batch zero name rs S))"
  using upsert_batch_ok [of S name rs]
  by (auto simp: upload_batch_def split: prod.splits intro!: proceed_holds [where Q = targets_ok]
      enumerate_target_ok)

text \<open>The definition of a target never changes.\<close>

definition target_description :: "string \<Rightarrow> 'v target_store \<Rightarrow> target_definition option" where
  "target_description name S = map_option fst (map_of (ts_targets S) name)"

lemma upload_batch_description:
  "target_description n (snd (upload_batch zero name rs S)) = target_description n S"
proof -
  have 1: "target_description n (snd (upsert_batch name rs S)) = target_description n S" for S
    by (auto simp: upsert_batch_def target_description_def Let_def split: option.splits)
  have 2: "target_description n (snd (enumerate_target zero name S)) = target_description n S" for S
    by (auto simp: enumerate_target_def target_description_def Let_def split: option.splits)
  show ?thesis
    using 1 [of S] by (auto simp: upload_batch_def split: prod.splits
        intro!: proceed_frame [where g = "target_description n"] simp: 2)
qed

section \<open>What a built target looks like\<close>

lemma collect_append:
  "collect f xs = Inr ys \<Longrightarrow> collect f xs' = Inr ys' \<Longrightarrow> collect f (xs @ xs') = Inr (ys @ ys')"
  by (simp add: collect_Inr list_all2_appendI)

lemma concat_slices: "0 < n \<Longrightarrow> concat (slices n xs) = xs"
  by (induction n xs rule: slices.induct) (auto simp: append_take_drop_id)

lemma run_batches_members:
  "run_batches ports profile name bs W = (Inr built, W')
     \<Longrightarrow> collect (embed_member ports profile) (concat bs) = Inr built"
  by (induction bs arbitrary: W built)
    (auto simp: proceed_Inr on_stores_Inr intro: collect_append)

text \<open>The record an embedded member becomes.\<close>

definition embeds_as ::
    "'v promotion_ports \<Rightarrow> embedding_profile \<Rightarrow> flattened_record \<Rightarrow> 'v target_record \<Rightarrow> bool" where
  "embeds_as ports profile desired r \<longleftrightarrow> (\<exists>values. r = target_record_for desired values
     \<and> int (length values) = ep_dimensions profile \<and> list_all (po_finite ports) values)"

lemma embed_member_Inr:
  "embed_member ports profile (request, desired) = Inr (receipt, r) \<Longrightarrow> embeds_as ports profile desired r"
  by (auto simp: embed_member_def embeds_as_def list_ex_iff list_all_iff)

lemma embeds_as_id: "embeds_as ports profile desired r \<Longrightarrow> tr_record_id r = fr_record_id desired"
  by (auto simp: embeds_as_def target_record_for_def)

lemma collect_members:
  assumes "collect (embed_member ports profile) (zip requests records) = Inr built"
    and "length requests = length records"
  shows "list_all2 (embeds_as ports profile) records (map snd built)"
proof -
  have "list_all2 (\<lambda>x y. embed_member ports profile x = Inr y) (zip requests records) built"
    using assms(1) by (simp add: collect_Inr)
  then have "list_all2 (\<lambda>x y. embeds_as ports profile (snd x) (snd y)) (zip requests records) built"
    by (rule list_all2_mono) (auto dest: embed_member_Inr)
  then show ?thesis
    using assms(2) by (simp add: list_all2_conv_all_nth)
qed

text \<open>The inventory gate, read as a property of the target.\<close>

definition exact_inventory ::
    "'v promotion_ports \<Rightarrow> promotion_manifest \<Rightarrow> (string \<times> 'v target_record) list \<Rightarrow> bool" where
  "exact_inventory ports m t \<longleftrightarrow> distinct (map fst t)
     \<and> set (map fst t) = set (map fr_record_id (di_records (pp_desired_state m)))
     \<and> (\<forall>(k, r) \<in> set t. \<exists>desired \<in> set (di_records (pp_desired_state m)).
          k = fr_record_id desired \<and> embeds_as ports (pp_embedding_profile m) desired r)"

lemma by_record_id_member:
  "map_of (by_record_id rs) k = Some r \<Longrightarrow> r \<in> set rs \<and> tr_record_id r = k"
proof (induction rs rule: rev_induct)
  case (snoc x rs)
  then show ?case by (auto simp: by_record_id_def dict_of_snoc split: if_splits)
qed (simp add: by_record_id_def dict_of_def)

lemma compare_inventory_None:
  assumes "compare_inventory m expected actual = None"
  shows "set (map tr_record_id actual) = set (map fr_record_id (di_records (pp_desired_state m)))
    \<and> set actual \<subseteq> set expected"
proof -
  have "item \<in> set expected" if "item \<in> set actual" for item
  proof -
    from assms that have "map_of (by_record_id expected) (tr_record_id item) = Some item"
      by (auto simp: compare_inventory_def Let_def first_raise_None_iff split: option.splits)
    then show ?thesis by (blast dest: by_record_id_member)
  qed
  with assms show ?thesis by (auto simp: compare_inventory_def Let_def first_raise_None_iff)
qed

lemma list_all2_partner: "list_all2 R xs ys \<Longrightarrow> y \<in> set ys \<Longrightarrow> \<exists>x \<in> set xs. R x y"
  by (induction rule: list_all2_induct) auto

lemma verify_inventory_Inr:
  assumes "verify_inventory ports m name expected W = (Inr u, W1)" and "targets_ok (pw_targets W)"
    and "list_all2 (embeds_as ports (pp_embedding_profile m)) (di_records (pp_desired_state m)) expected"
  shows "\<exists>d t. map_of (ts_targets (pw_targets W1)) name = Some (d, t) \<and> exact_inventory ports m t
    \<and> target_description name (pw_targets W1) = target_description name (pw_targets W)"
proof -
  from assms(1) obtain actual S where e: "enumerate_target (po_zero ports) name (pw_targets W) = (Inr actual, S)"
    and c: "compare_inventory m expected actual = None" and W1: "W1 = W\<lparr>pw_targets := S\<rparr>"
    by (auto simp: verify_inventory_def proceed_Inr on_stores_Inr require_Inr)
  from e obtain d t t0 where t: "map_of (ts_targets S) name = Some (d, t)"
      "actual = map snd (sort_key fst t)" "map_of (ts_targets (pw_targets W)) name = Some (d, t0)"
    by (fastforce simp: enumerate_target_def Let_def split: option.splits)
  have "targets_ok S" using enumerate_target_ok [OF assms(2), of "po_zero ports" name] e by simp
  then have k: "inventory_keyed t" using t(1) by (rule targets_okD)
  have ids: "set (map tr_record_id actual) = set (map fst t)"
    using k by (force simp: t(2) inventory_keyed_def)
  have embeds: "\<exists>desired \<in> set (di_records (pp_desired_state m)). k = fr_record_id desired
      \<and> embeds_as ports (pp_embedding_profile m) desired r" if "(k, r) \<in> set t" for k r
  proof -
    have "r \<in> set expected" using that compare_inventory_None [OF c] by (force simp: t(2))
    then obtain desired where "desired \<in> set (di_records (pp_desired_state m))"
        "embeds_as ports (pp_embedding_profile m) desired r"
      using list_all2_partner [OF assms(3)] by blast
    moreover from this have "k = fr_record_id desired"
      using k that by (auto simp: inventory_keyed_def dest: embeds_as_id)
    ultimately show ?thesis by blast
  qed
  have "exact_inventory ports m t"
    using k ids compare_inventory_None [OF c] embeds
    unfolding exact_inventory_def inventory_keyed_def by auto
  with t W1 show ?thesis by (auto simp: target_description_def)
qed

text \<open>What is left when a target has been built: its exact inventory and a verified backup of it.\<close>

definition built_target ::
    "platform \<Rightarrow> 'v promotion_ports \<Rightarrow> promotion_manifest \<Rightarrow> string \<Rightarrow> 'v promotion_world \<Rightarrow> bool" where
  "built_target P ports m name W \<longleftrightarrow>
     (\<exists>t. map_of (ts_targets (pw_targets W)) name
          = Some (target_definition_for P name (pp_embedding_profile m), t) \<and> exact_inventory ports m t)
     \<and> (\<exists>b \<in> set (bs_receipts (pw_backups W)). bv_native_verified b \<and> bv_recovery_verified b
          \<and> bv_native_backup_receipt_ref b = stable_id P ''efr''
              [''native-backup'', name, di_inventory_fingerprint (pp_desired_state m)])"

lemma run_batches_description:
  "target_description name (pw_targets (snd (run_batches ports profile n bs W)))
     = target_description name (pw_targets W)"
proof (induction bs arbitrary: W)
  case (Cons b bs)
  show ?case
    by (auto intro!: proceed_frame [where g = "\<lambda>W. target_description name (pw_targets W)"]
        simp: on_stores_snd upload_batch_description Cons.IH)
qed simp

lemma run_batches_ok:
  "targets_ok (pw_targets W) \<Longrightarrow> targets_ok (pw_targets (snd (run_batches ports profile n bs W)))"
proof (induction bs arbitrary: W)
  case (Cons b bs)
  show ?case
    by (auto intro!: proceed_holds [where Q = "\<lambda>W. targets_ok (pw_targets W)"]
        simp: on_stores_snd upload_batch_ok Cons)
qed simp

lemma open_target_ok:
  "targets_ok (pw_targets W) \<Longrightarrow> targets_ok (pw_targets (snd (open_target d W)))"
  unfolding open_target_def
  by (auto intro!: proceed_holds [where Q = "\<lambda>W. targets_ok (pw_targets W)"]
      simp: on_stores_snd create_target_ok split: sum.splits)

lemma verify_inventory_ok:
  "targets_ok (pw_targets W) \<Longrightarrow> targets_ok (pw_targets (snd (verify_inventory ports m n rs W)))"
  unfolding verify_inventory_def
  by (auto intro!: proceed_holds [where Q = "\<lambda>W. targets_ok (pw_targets W)"]
      simp: on_stores_snd enumerate_target_ok)

lemma open_target_Inr:
  "open_target d W = (Inr u, W1) \<Longrightarrow> target_description (td_name d) (pw_targets W1) = Some d"
  by (auto simp: open_target_def proceed_Inr on_stores_Inr require_Inr describe_target_def
      target_description_def split: option.splits)

lemma verified_backup_Inr:
  "verified_backup P m name W = (Inr b, W1) \<Longrightarrow> pw_targets W1 = pw_targets W \<and>
     b \<in> set (bs_receipts (pw_backups W1)) \<and> bv_native_verified b \<and> bv_recovery_verified b
     \<and> bv_native_backup_receipt_ref b = stable_id P ''efr''
         [''native-backup'', name, di_inventory_fingerprint (pp_desired_state m)]"
  by (auto simp: verified_backup_def proceed_Inr on_stores_Inr create_and_verify_backup_def Let_def
      split: if_splits)

lemma target_definition_for_name [simp]: "td_name (target_definition_for P name profile) = name"
  by (simp add: target_definition_for_def)

lemma build_target_Inr:
  assumes "build_target P ports m requests name W = (Inr x, W')" and "targets_ok (pw_targets W)"
    and "0 < pp_batch_size m" and "length requests = length (di_records (pp_desired_state m))"
  shows "built_target P ports m name W'"
proof -
  let ?profile = "pp_embedding_profile m" and ?pairs = "zip requests (di_records (pp_desired_state m))"
  from assms(1) obtain W1 W2 W3 built b where
      1: "open_target (target_definition_for P name ?profile) W = (Inr (), W1)"
    and 2: "run_batches ports ?profile name (slices (nat (pp_batch_size m)) ?pairs) W1 = (Inr built, W2)"
    and 3: "verify_inventory ports m name (map snd built) W2 = (Inr (), W3)"
    and 4: "verified_backup P m name W3 = (Inr b, W')"
    by (auto simp: build_target_def Let_def proceed_Inr require_Inr)
  have "targets_ok (pw_targets W1)" using open_target_ok [OF assms(2)] 1 by (metis snd_conv)
  then have ok: "targets_ok (pw_targets W2)" using run_batches_ok 2 by (metis snd_conv)
  have "collect (embed_member ports ?profile) ?pairs = Inr built"
    using run_batches_members [OF 2] assms(3) by (simp add: concat_slices)
  then have "list_all2 (embeds_as ports ?profile) (di_records (pp_desired_state m)) (map snd built)"
    using assms(4) by (rule collect_members)
  with verify_inventory_Inr [OF 3 ok] obtain d t where
      t: "map_of (ts_targets (pw_targets W3)) name = Some (d, t)" "exact_inventory ports m t"
        "target_description name (pw_targets W3) = target_description name (pw_targets W2)" by blast
  have "target_description name (pw_targets W2) = Some (target_definition_for P name ?profile)"
    using run_batches_description [of name ports ?profile name _ W1] 2 open_target_Inr [OF 1]
    by (metis snd_conv target_definition_for_name)
  with t have "d = target_definition_for P name ?profile" by (auto simp: target_description_def)
  with t verified_backup_Inr [OF 4] show ?thesis unfolding built_target_def by auto
qed

lemma build_target_ok:
  "targets_ok (pw_targets W) \<Longrightarrow> targets_ok (pw_targets (snd (build_target P ports m requests name W)))"
  unfolding build_target_def Let_def
  by (intro proceed_holds [where Q = "\<lambda>W. targets_ok (pw_targets W)"] open_target_ok run_batches_ok
      verify_inventory_ok verified_backup_frame [where g = "\<lambda>W. targets_ok (pw_targets W)", THEN iffD2]) auto

section \<open>Up to the activation\<close>

lemma prepare_requests_length:
  "prepare_requests P canon ports m lineage at_time = Inr (requests, cost)
     \<Longrightarrow> length requests = length (di_records (pp_desired_state m))"
  by (auto simp: prepare_requests_def Let_def collect_Inr split: option.splits if_splits)

lemma verified_batch_size: "verify_for_execution P canon m = None \<Longrightarrow> 0 < pp_batch_size m"
  by (auto simp: verify_for_execution_def verify_v1_None verify_generic_None freeze_v1_Inr
      freeze_generic_Inr plan_guards_def split: if_splits)

text \<open>What is left alone until the activation.\<close>

lemma before_activation_frame:
  assumes "\<And>W S. g (W\<lparr>pw_approvals := S\<rparr>) = g W" and "\<And>W S. g (W\<lparr>pw_coverage := S\<rparr>) = g W"
    and "\<And>W S. g (W\<lparr>pw_targets := S\<rparr>) = g W" and "\<And>W S. g (W\<lparr>pw_backups := S\<rparr>) = g W"
  shows "g (snd (before_activation P canon ports m a l c W)) = g W"
  unfolding before_activation_def
  by (intro proceed_frame) (auto intro!: proceed_frame build_target_frame simp: on_stores_snd assms)

lemma before_activation_Inr:
  assumes "before_activation P canon ports m a l c W = (Inr (cost, name, receipts, backup), W')"
    and "verify_for_execution P canon m = None" and "targets_ok (pw_targets W)"
  shows "ec_base_serving_state_id c = pp_base_serving_state_id m"
    and "\<exists>requests. prepare_requests P canon ports m l (ec_at c) = Inr (requests, cost)"
    and "manifest_target_name m = Inr name"
    and "\<exists>p. consume P a l (approval_snapshot m) (consumption_facts c) (pw_approvals W)
           = (Inr p, pw_approvals W')"
    and "\<exists>q. load_for_activation (pp_candidate_serving_state_id m) (cm_fingerprint (pp_coverage_status m))
           (pw_coverage W) = (Inr q, pw_coverage W')"
    and "built_target P ports m name W'"
proof -
  from assms(1) obtain requests p q S Z where
      1: "ec_base_serving_state_id c = pp_base_serving_state_id m"
    and 2: "prepare_requests P canon ports m l (ec_at c) = Inr (requests, cost)"
    and 3: "consume P a l (approval_snapshot m) (consumption_facts c) (pw_approvals W) = (Inr p, S)"
    and 4: "load_for_activation (pp_candidate_serving_state_id m) (cm_fingerprint (pp_coverage_status m))
           (pw_coverage W) = (Inr q, Z)"
    and 5: "manifest_target_name m = Inr name"
    and 6: "build_target P ports m requests name (W\<lparr>pw_approvals := S, pw_coverage := Z\<rparr>)
           = (Inr (receipts, backup), W')"
    by (auto simp: before_activation_def proceed_Inr require_Inr on_stores_Inr)
  have "pw_approvals W' = S" "pw_coverage W' = Z"
    using build_target_frame [where g = pw_approvals and P = P and ports = ports and m = m
        and requests = requests and name = name and W = "W\<lparr>pw_approvals := S, pw_coverage := Z\<rparr>"]
      build_target_frame [where g = pw_coverage and P = P and ports = ports and m = m
        and requests = requests and name = name and W = "W\<lparr>pw_approvals := S, pw_coverage := Z\<rparr>"]
    by (simp_all add: 6)
  with 1 2 3 4 5 show "ec_base_serving_state_id c = pp_base_serving_state_id m"
    "\<exists>requests. prepare_requests P canon ports m l (ec_at c) = Inr (requests, cost)"
    "manifest_target_name m = Inr name"
    "\<exists>p. consume P a l (approval_snapshot m) (consumption_facts c) (pw_approvals W)
           = (Inr p, pw_approvals W')"
    "\<exists>q. load_for_activation (pp_candidate_serving_state_id m) (cm_fingerprint (pp_coverage_status m))
           (pw_coverage W) = (Inr q, pw_coverage W')"
    by auto
  show "built_target P ports m name W'"
    using build_target_Inr [OF 6] assms(2,3) prepare_requests_length [OF 2] verified_batch_size
    by simp
qed

text \<open>The activation touches nothing but the serving states or the routing.\<close>

lemma on_serving_snd:
  "snd (on_serving f W) = W\<lparr>pw_serving := map_option (\<lambda>S. snd (f S)) (pw_serving W)\<rparr>"
  by (auto simp: on_serving_def split: option.splits prod.splits)

lemma reverse_after_frame:
  "g (snd (reversal W)) = g W \<Longrightarrow> g (snd (reverse_after e receipt reversal W)) = g W"
  by (auto simp: reverse_after_def intro!: proceed_frame split: promotion_failure.split)

lemma activate_by_routing_frame:
  assumes "\<And>W S. g (W\<lparr>pw_routing := S\<rparr>) = g W"
  shows "g (snd (activate_by_routing P m W)) = g W"
  unfolding activate_by_routing_def
proof (rule proceed_frame, goal_cases)
  case (2 receipt W1)
  show ?case
    by (cases "verify_post_cutover (pp_candidate_serving_state_id m) (pw_routing W1)")
      (simp_all, intro reverse_after_frame, simp add: on_stores_snd assms)
qed (simp add: on_stores_snd assms)

lemma activate_by_serving_state_frame:
  assumes "\<And>W S. g (W\<lparr>pw_serving := S\<rparr>) = g W"
  shows "g (snd (activate_by_serving_state P m a l name W)) = g W"
  unfolding activate_by_serving_state_def Let_def
proof (rule proceed_frame, goal_cases)
  case (2 receipt W1)
  show ?case
    by (cases "verify_serving (pp_candidate_serving_state_id m) W1")
      (simp_all, intro reverse_after_frame proceed_frame, simp_all add: on_serving_snd assms)
qed (simp add: on_serving_snd assms)

lemma activate_and_verify_frame:
  assumes "\<And>W S. g (W\<lparr>pw_serving := S\<rparr>) = g W" and "\<And>W S. g (W\<lparr>pw_routing := S\<rparr>) = g W"
  shows "g (snd (activate_and_verify P m a l name W)) = g W"
  by (simp add: activate_and_verify_def activate_by_routing_frame activate_by_serving_state_frame assms)

section \<open>Executions\<close>

lemma proceed_moved:
  assumes "g (snd (proceed r k)) \<noteq> g W" and "g (snd r) = g W"
  obtains a W1 where "r = (Inr a, W1)" "g W1 = g W" "g (snd (k a W1)) \<noteq> g W1"
  using assms by (cases r; cases "fst r") auto

text \<open>Whatever an execution activates, it has passed every gate before.\<close>

lemma execute_once_moved:
  assumes "g (snd (execute_once P canon ports m a l c W)) \<noteq> g W"
    and "\<And>W S. g (W\<lparr>pw_approvals := S\<rparr>) = g W" and "\<And>W S. g (W\<lparr>pw_coverage := S\<rparr>) = g W"
    and "\<And>W S. g (W\<lparr>pw_targets := S\<rparr>) = g W" and "\<And>W S. g (W\<lparr>pw_backups := S\<rparr>) = g W"
    and "\<And>W S. g (W\<lparr>pw_results := S\<rparr>) = g W"
  obtains cost name receipts backup W1 where
    "before_activation P canon ports m a l c W = (Inr (cost, name, receipts, backup), W1)"
    "g W1 = g W" "g (snd (activate_and_verify P m a l name W1)) \<noteq> g W"
proof -
  have "g (snd (before_activation P canon ports m a l c W)) = g W"
    by (rule before_activation_frame) (fact assms)+
  from proceed_moved [OF assms(1) [unfolded execute_once_def] this]
  obtain q W1 where q: "before_activation P canon ports m a l c W = (Inr q, W1)" "g W1 = g W"
      "g (snd ((\<lambda>(cost, name, receipts, backup) W.
        proceed (activate_and_verify P m a l name W) (\<lambda>activation W.
          let result = execution_result_for l m name receipts backup activation cost in
          (Inr result, W\<lparr>pw_results := AList.update l result (pw_results W)\<rparr>))) q W1)) \<noteq> g W1"
    by blast
  obtain cost name receipts backup where [simp]: "q = (cost, name, receipts, backup)" by (cases q) auto
  have "g (snd (activate_and_verify P m a l name W1)) \<noteq> g W1"
  proof
    assume "g (snd (activate_and_verify P m a l name W1)) = g W1"
    then have "g (snd (proceed (activate_and_verify P m a l name W1) (\<lambda>activation W.
        let result = execution_result_for l m name receipts backup activation cost in
        (Inr result, W\<lparr>pw_results := AList.update l result (pw_results W)\<rparr>)))) = g W1"
      by (rule proceed_frame) (simp add: Let_def assms(6))
    with q(3) show False by simp
  qed
  with q that show thesis by simp
qed

lemma execute_once_after:
  assumes "before_activation P canon ports m a l c W = (Inr q, W1)"
    and "\<And>W S. g (W\<lparr>pw_serving := S\<rparr>) = g W" and "\<And>W S. g (W\<lparr>pw_routing := S\<rparr>) = g W"
    and "\<And>W S. g (W\<lparr>pw_results := S\<rparr>) = g W"
  shows "g (snd (execute_once P canon ports m a l c W)) = g W1"
  unfolding execute_once_def assms(1)
  by (cases q) (auto simp: Let_def assms(4) intro!: proceed_frame activate_and_verify_frame assms(2,3))

text \<open>An execution that is admitted and no replay runs, and only notes its input and its end.\<close>

lemma execute_runs:
  assumes "verify_for_execution P canon m = None" "input_fingerprint_for P canon m a l c fp = Inr input"
    "map_of (pw_results W) l = None" "pm_manifest_id m \<notin> set (pw_running W)"
    and "\<And>W S. g (W\<lparr>pw_running := S\<rparr>) = g W" and "\<And>W S. g (W\<lparr>pw_result_inputs := S\<rparr>) = g W"
  shows "g (snd (execute P canon ports m a l c fp W))
    = g (snd (execute_once P canon ports m a l c (W\<lparr>pw_running := pm_manifest_id m # pw_running W\<rparr>)))"
proof -
  have "g (snd (leave_running i (proceed r (\<lambda>result W. (Inr result, W\<lparr>pw_result_inputs := f W\<rparr>))))) = g (snd r)"
    for i r f
    by (cases r; cases "fst r") (simp_all add: leave_running_def assms(5,6))
  with assms(1-4) show ?thesis by (simp add: execute_def)
qed

lemma execute_moved:
  assumes "g (snd (execute P canon ports m a l c fp W)) \<noteq> g W"
    and "\<And>W S. g (W\<lparr>pw_running := S\<rparr>) = g W" and "\<And>W S. g (W\<lparr>pw_result_inputs := S\<rparr>) = g W"
  obtains input where "verify_for_execution P canon m = None"
    "input_fingerprint_for P canon m a l c fp = Inr input" "map_of (pw_results W) l = None"
    "pm_manifest_id m \<notin> set (pw_running W)"
    "g (snd (execute_once P canon ports m a l c (W\<lparr>pw_running := pm_manifest_id m # pw_running W\<rparr>))) \<noteq> g W"
proof (cases "verify_for_execution P canon m = None \<and> map_of (pw_results W) l = None
    \<and> pm_manifest_id m \<notin> set (pw_running W)")
  case True
  then obtain input where i: "input_fingerprint_for P canon m a l c fp = Inr input"
    using assms(1) by (cases "input_fingerprint_for P canon m a l c fp") (auto simp: execute_def)
  with True that assms(1) show thesis using execute_runs [where g = g, OF _ i _ _ assms(2,3)] by auto
next
  case False
  then have "snd (execute P canon ports m a l c fp W) = W"
    by (cases "input_fingerprint_for P canon m a l c fp")
      (auto simp: execute_def replay_execution_def require_def split: option.splits)
  with assms(1) show thesis by simp
qed

section \<open>Histories of the service\<close>

datatype service_op =
    ExecuteOp promotion_manifest string string execution_context "string option"
  | RetireOp promotion_manifest string
  | ApprovalOp approval_op
  | CoverageOp bool

fun perform_service ::
    "platform \<Rightarrow> encoder \<Rightarrow> 'v promotion_ports \<Rightarrow> service_op \<Rightarrow> 'v promotion_world
       \<Rightarrow> (unit, 'v) service_outcome" where
  "perform_service P canon ports (ExecuteOp m a l c fp) W =
     apfst (map_sum id (\<lambda>_. ())) (execute P canon ports m a l c fp W)"
| "perform_service P canon ports (RetireOp m name) W =
     apfst (map_sum id (\<lambda>_. ())) (retire_exact P canon m name W)"
| "perform_service P canon ports (ApprovalOp op) W = on_approvals (perform_approval P op) W"
| "perform_service P canon ports (CoverageOp available) W =
     (Inr (), W\<lparr>pw_coverage := set_coverage_available available (pw_coverage W)\<rparr>)"

definition service_ok :: "'v promotion_world \<Rightarrow> bool" where
  "service_ok W \<longleftrightarrow> approvals_ok (pw_approvals W) \<and> targets_ok (pw_targets W) \<and> pw_running W = []"

lemma snd_consume: "snd (consume P a l m ctx R) = snd (perform_approval P (ConsumeOp a l m ctx) R)"
  by simp

lemma consume_ok: "approvals_ok R \<Longrightarrow> approvals_ok (snd (consume P a l m ctx R))"
  unfolding snd_consume by (rule approvals_ok_step)

lemma consume_Inr:
  assumes "consume P a l m ctx R = (Inr p, R')" and "approvals_ok R"
  shows "map_of (ar_approvals R') a = Some p \<and> ap_state p = Consumed \<and> ap_execution_lineage_id p = l
    \<and> ad_manifest_id (ap_decision p) = ms_manifest_id m
    \<and> ad_manifest_fingerprint (ap_decision p) = ms_fingerprint m
    \<and> (\<exists>q. map_of (ar_approvals R) a = Some q \<and> ap_decision q = ap_decision p
          \<and> (q = p \<or> ap_state q = Approved \<and> manifest_holds m ctx))"
proof -
  from assms(1) obtain q where q: "map_of (ar_approvals R) a = Some q"
    by (auto simp: consume_def get_approval_def split: option.splits)
  with assms(2) have "ad_approval_id (ap_decision q) = a" unfolding approvals_ok_def by blast
  with assms(1) q show ?thesis
    by (auto simp: consume_def get_approval_def Let_def prod_eq_iff split: if_splits)
qed

lemma before_activation_ok:
  assumes "approvals_ok (pw_approvals W)" and "targets_ok (pw_targets W)"
  shows "approvals_ok (pw_approvals (snd (before_activation P canon ports m a l c W)))
    \<and> targets_ok (pw_targets (snd (before_activation P canon ports m a l c W)))"
proof -
  let ?Q = "\<lambda>W. approvals_ok (pw_approvals W) \<and> targets_ok (pw_targets W)"
  have build: "?Q (snd (build_target P ports m requests name W))" if "?Q W" for requests name W
    using that build_target_ok [of W P ports m requests name]
      build_target_frame [where g = pw_approvals and P = P and ports = ports and m = m
        and requests = requests and name = name and W = W] by simp
  show ?thesis
    unfolding before_activation_def
    using assms
    by (intro proceed_holds [where Q = ?Q])
      (auto intro!: proceed_holds [where Q = ?Q] build simp: on_stores_snd consume_ok)
qed

lemma service_ok_fields:
  "service_ok (W\<lparr>pw_serving := s, pw_routing := r\<rparr>) = service_ok W"
  by (simp add: service_ok_def)

lemma execute_once_ok:
  assumes "approvals_ok (pw_approvals W)" and "targets_ok (pw_targets W)"
  shows "approvals_ok (pw_approvals (snd (execute_once P canon ports m a l c W)))
    \<and> targets_ok (pw_targets (snd (execute_once P canon ports m a l c W)))"
proof -
  let ?Q = "\<lambda>W. approvals_ok (pw_approvals W) \<and> targets_ok (pw_targets W)"
  have activate: "?Q (snd (activate_and_verify P m a l name W))" if "?Q W" for name W
    using that activate_and_verify_frame [where g = pw_approvals and P = P and m = m and a = a and l = l
        and name = name and W = W]
      activate_and_verify_frame [where g = pw_targets and P = P and m = m and a = a and l = l
        and name = name and W = W] by simp
  show ?thesis
    unfolding execute_once_def
    by (rule proceed_holds [where Q = ?Q])
      (use before_activation_ok [OF assms] in \<open>auto intro!: proceed_holds [where Q = ?Q] activate
        simp: Let_def\<close>)
qed

lemma execute_once_running: "pw_running (snd (execute_once P canon ports m a l c W)) = pw_running W"
  by (rule ccontr, rule execute_once_moved [where g = pw_running and P = P and canon = canon
        and ports = ports and m = m and a = a and l = l and c = c and W = W])
    (auto simp: activate_and_verify_frame)

lemma execute_ok:
  assumes "service_ok W"
  shows "service_ok (snd (execute P canon ports m a l c fp W))"
proof -
  let ?W = "W\<lparr>pw_running := pm_manifest_id m # pw_running W\<rparr>"
  let ?r = "execute_once P canon ports m a l c ?W"
  have "approvals_ok (pw_approvals (snd ?r)) \<and> targets_ok (pw_targets (snd ?r))"
    using execute_once_ok [of ?W] assms by (simp add: service_ok_def)
  moreover have "pw_running (snd ?r) = [pm_manifest_id m]"
    using assms by (simp add: execute_once_running service_ok_def)
  ultimately have "service_ok (snd (leave_running (pm_manifest_id m) (proceed ?r (\<lambda>result W.
      (Inr result, W\<lparr>pw_result_inputs := AList.update l input (pw_result_inputs W)\<rparr>)))))" for input
    by (cases ?r; cases "fst ?r") (auto simp: leave_running_def service_ok_def)
  with assms show ?thesis
    by (cases "input_fingerprint_for P canon m a l c fp")
      (auto simp: execute_def replay_execution_def require_def split: option.splits)
qed

lemma retire_exact_ok: "service_ok W \<Longrightarrow> service_ok (snd (retire_exact P canon m name W))"
  unfolding retire_exact_def
  by (intro proceed_holds [where Q = service_ok])
    (auto simp: service_ok_def on_stores_snd delete_exact_ok)

lemma perform_service_ok: "service_ok W \<Longrightarrow> service_ok (snd (perform_service P canon ports op W))"
proof (cases op)
  case (ApprovalOp x) then show "service_ok W \<Longrightarrow> ?thesis"
    by (simp add: service_ok_def on_stores_snd approvals_ok_step)
next
  case (CoverageOp x) then show "service_ok W \<Longrightarrow> ?thesis" by (simp add: service_ok_def)
qed (simp_all add: execute_ok retire_exact_ok)

lemma new_world_ok: "service_ok (new_promotion_world assignments plan routed served coverage)"
  by (simp add: service_ok_def new_promotion_world_def targets_ok_def approvals_ok_def
      new_approval_register_def)

interpretation service: state_store "new_promotion_world assignments plan routed served coverage"
    "perform_service P canon ports" "\<lambda>_. True" service_ok
  for assignments plan routed served coverage P canon ports
  by unfold_locales (simp_all add: new_world_ok perform_service_ok)

lemma service_history_ok:
  "service_ok (run (perform_service P canon ports) ops
     (new_promotion_world assignments plan routed served coverage))"
  by (rule service.reachable_inv) (simp add: list_all_iff)

end
