(* ===== verification/ServiceProperties.thy ===== *)
theory ServiceProperties
  imports ServiceFacts
begin

text \<open>
  What the promotion service guarantees: nothing is activated that has not passed every gate, the
  result tells what is active, a lineage is replayed, an approval serves one lineage, and a lost
  acknowledgement is reconciled.
\<close>

section \<open>The gates\<close>

lemma load_for_activation_Inr:
  "load_for_activation g f S = (Inr q, S') \<Longrightarrow> cv_available S \<and> cv_manifest S = Some q \<and> cm_fingerprint q = f"
  by (auto simp: load_for_activation_def split: option.splits if_splits)

lemma prepare_requests_cost:
  "prepare_requests P canon ports m l at_time = Inr (requests, cost) \<Longrightarrow>
     cost = sum_list (map qr_token_count requests)
     \<and> cost \<le> ep_cost_limit_microunits (pp_embedding_profile m)"
  by (auto simp: prepare_requests_def Let_def split: option.splits if_splits)

text \<open>
  C1: In any history of the service, an execution that moves the routing or a serving state, even
  one that raises afterwards, has passed every gate: its manifest verified, its base state matched,
  its cost within the profile's limit, its approval was approved under the manifest's validity
  conditions (or already consumed by this lineage) and is now consumed by this lineage for this
  exact manifest, the published coverage had the manifest's fingerprint, and the target holds
  exactly the records of the desired state, each embedded with the profile's dimensions and finite
  components, with a verified native backup.
\<close>

theorem activation_passed_every_gate:
  assumes "W = run (perform_service P canon ports) ops
      (new_promotion_world assignments plan routed served coverage)"
    and "execute P canon ports m a l c fp W = (r, W')"
    and "pw_serving W' \<noteq> pw_serving W \<or> pw_routing W' \<noteq> pw_routing W"
  shows "verify_for_execution P canon m = None
    \<and> ec_base_serving_state_id c = pp_base_serving_state_id m
    \<and> (\<exists>requests cost. prepare_requests P canon ports m l (ec_at c) = Inr (requests, cost)
         \<and> cost \<le> ep_cost_limit_microunits (pp_embedding_profile m))
    \<and> (\<exists>p q. map_of (ar_approvals (pw_approvals W)) a = Some q
         \<and> map_of (ar_approvals (pw_approvals W')) a = Some p
         \<and> ap_state p = Consumed \<and> ap_execution_lineage_id p = l
         \<and> ad_manifest_id (ap_decision p) = pm_manifest_id m
         \<and> ad_manifest_fingerprint (ap_decision p) = pm_fingerprint m
         \<and> (q = p \<or> ap_state q = Approved \<and> manifest_holds (approval_snapshot m) (consumption_facts c)))
    \<and> (\<exists>status. cv_available (pw_coverage W) \<and> cv_manifest (pw_coverage W) = Some status
         \<and> cm_fingerprint status = cm_fingerprint (pp_coverage_status m))
    \<and> (\<exists>name. manifest_target_name m = Inr name \<and> built_target P ports m name W')"
proof -
  let ?g = "\<lambda>W. (pw_serving W, pw_routing W)"
  let ?W = "W\<lparr>pw_running := pm_manifest_id m # pw_running W\<rparr>"
  have ok: "service_ok W" unfolding assms(1) by (rule service_history_ok)
  have W': "W' = snd (execute P canon ports m a l c fp W)" using assms(2) by simp
  have moved: "?g (snd (execute P canon ports m a l c fp W)) \<noteq> ?g W" using assms(2,3) by auto
  from execute_moved [where g = ?g, OF moved] obtain input where
      v: "verify_for_execution P canon m = None" "map_of (pw_results W) l = None"
        "input_fingerprint_for P canon m a l c fp = Inr input" "pm_manifest_id m \<notin> set (pw_running W)"
    and o: "?g (snd (execute_once P canon ports m a l c ?W)) \<noteq> ?g ?W" by auto
  obtain cost name receipts backup W1 where
      b: "before_activation P canon ports m a l c ?W = (Inr (cost, name, receipts, backup), W1)"
    by (rule execute_once_moved [where g = ?g, OF o]) (simp, simp, simp, simp, simp, blast intro: that)
  have same: "pw_approvals W' = pw_approvals W1" "pw_targets W' = pw_targets W1" "pw_backups W' = pw_backups W1"
    unfolding W' using execute_runs [where g = pw_approvals, OF v(1,3,2,4)]
      execute_runs [where g = pw_targets, OF v(1,3,2,4)] execute_runs [where g = pw_backups, OF v(1,3,2,4)]
      execute_once_after [where g = pw_approvals, OF b] execute_once_after [where g = pw_targets, OF b]
      execute_once_after [where g = pw_backups, OF b]
    by simp_all
  have "targets_ok (pw_targets ?W)" "approvals_ok (pw_approvals W)" using ok by (simp_all add: service_ok_def)
  note facts = before_activation_Inr [OF b v(1) this(1)] and appr = this(2)
  from facts(4) obtain p where p: "consume P a l (approval_snapshot m) (consumption_facts c) (pw_approvals W)
      = (Inr p, pw_approvals W')" by (auto simp: same)
  have "built_target P ports m name W'" using facts(6) by (simp add: built_target_def same)
  moreover from facts(2) obtain requests where
    "prepare_requests P canon ports m l (ec_at c) = Inr (requests, cost)" by blast
  moreover from this have "cost \<le> ep_cost_limit_microunits (pp_embedding_profile m)"
    by (blast dest: prepare_requests_cost)
  moreover from facts(5) have "\<exists>status. cv_available (pw_coverage W) \<and> cv_manifest (pw_coverage W) = Some status
      \<and> cm_fingerprint status = cm_fingerprint (pp_coverage_status m)"
    by (auto dest: load_for_activation_Inr)
  moreover note consume_Inr [OF p appr]
  ultimately show ?thesis
    using v(1) facts(1,3) by (simp add: approval_snapshot_def) blast
qed

section \<open>Results and approvals over time\<close>

lemma execute_once_Inr:
  assumes "execute_once P canon ports m a l c W = (Inr x, W')"
  obtains cost name receipts backup activation W1 W2 where
    "before_activation P canon ports m a l c W = (Inr (cost, name, receipts, backup), W1)"
    "activate_and_verify P m a l name W1 = (Inr activation, W2)"
    "x = execution_result_for l m name receipts backup activation cost"
    "W' = W2\<lparr>pw_results := AList.update l x (pw_results W2)\<rparr>"
  using assms by (auto simp: execute_once_def proceed_Inr Let_def)

lemma leave_running_fst [simp]: "fst (leave_running i r) = fst r"
  by (cases r) (simp add: leave_running_def)

lemma execute_Inr:
  assumes "execute P canon ports m a l c fp W = (Inr x, W')" and "map_of (pw_results W) l = None"
  obtains input W1 where "verify_for_execution P canon m = None"
    "input_fingerprint_for P canon m a l c fp = Inr input" "pm_manifest_id m \<notin> set (pw_running W)"
    "execute_once P canon ports m a l c (W\<lparr>pw_running := pm_manifest_id m # pw_running W\<rparr>) = (Inr x, W1)"
    "W' = W1\<lparr>pw_result_inputs := AList.update l input (pw_result_inputs W1),
       pw_running := removeAll (pm_manifest_id m) (pw_running W1)\<rparr>"
proof -
  from assms obtain input where i: "verify_for_execution P canon m = None"
      "input_fingerprint_for P canon m a l c fp = Inr input" "pm_manifest_id m \<notin> set (pw_running W)"
    and r: "leave_running (pm_manifest_id m)
             (proceed (execute_once P canon ports m a l c
                 (W\<lparr>pw_running := pm_manifest_id m # pw_running W\<rparr>)) (\<lambda>result W.
               (Inr result, W\<lparr>pw_result_inputs :=
                  AList.update l input (pw_result_inputs W)\<rparr>))) = (Inr x, W')"
    by (auto simp: execute_def proceed_Inr require_Inr split: if_splits)
  then obtain W1 where
      "execute_once P canon ports m a l c (W\<lparr>pw_running := pm_manifest_id m # pw_running W\<rparr>) = (Inr x, W1)"
    by (cases "execute_once P canon ports m a l c (W\<lparr>pw_running := pm_manifest_id m # pw_running W\<rparr>)";
        cases "fst (execute_once P canon ports m a l c (W\<lparr>pw_running := pm_manifest_id m # pw_running W\<rparr>))")
      (auto simp: leave_running_def)
  with i r that show thesis by (auto simp: leave_running_def)
qed

text \<open>An execution writes at most its own result, and only when it has one.\<close>

lemma before_activation_results:
  "pw_results (snd (before_activation P canon ports m a l c W)) = pw_results W"
  by (rule before_activation_frame) simp_all

lemma activate_and_verify_results: "pw_results (snd (activate_and_verify P m a l name W)) = pw_results W"
  by (rule activate_and_verify_frame) simp_all

lemma execute_once_results:
  "map_of (pw_results (snd (execute_once P canon ports m a l c W))) k
     = (case fst (execute_once P canon ports m a l c W) of
          Inr x \<Rightarrow> if k = l then Some x else map_of (pw_results W) k
        | Inl _ \<Rightarrow> map_of (pw_results W) k)"
  by (auto simp: execute_once_def proceed_def Let_def before_activation_results
      activate_and_verify_results split: sum.splits prod.splits)

lemma execute_results:
  assumes "map_of (pw_results W) k = Some x"
  shows "map_of (pw_results (snd (execute P canon ports m a l c fp W))) k = Some x"
proof (rule ccontr)
  let ?g = "\<lambda>W. map_of (pw_results W) k"
  assume *: "?g (snd (execute P canon ports m a l c fp W)) \<noteq> Some x"
  with assms have "?g (snd (execute P canon ports m a l c fp W)) \<noteq> ?g W" by simp
  then show False
  proof (rule execute_moved [where g = ?g])
    assume "map_of (pw_results W) l = None"
      and "?g (snd (execute_once P canon ports m a l c (W\<lparr>pw_running := pm_manifest_id m # pw_running W\<rparr>))) \<noteq> ?g W"
    with assms show False by (auto simp: execute_once_results split: sum.splits if_splits)
  qed simp_all
qed

text \<open>The four ways a call can go: refused, replayed, overlapping, run.\<close>

lemma execute_cases:
  obtains (unchanged) "snd (execute P canon ports m a l c fp W) = W"
  | (runs) input where "verify_for_execution P canon m = None"
      "input_fingerprint_for P canon m a l c fp = Inr input" "map_of (pw_results W) l = None"
      "pm_manifest_id m \<notin> set (pw_running W)"
      "execute P canon ports m a l c fp W = leave_running (pm_manifest_id m)
         (proceed (execute_once P canon ports m a l c
            (W\<lparr>pw_running := pm_manifest_id m # pw_running W\<rparr>)) (\<lambda>result W.
           (Inr result, W\<lparr>pw_result_inputs := AList.update l input (pw_result_inputs W)\<rparr>)))"
proof (cases "verify_for_execution P canon m = None \<and> map_of (pw_results W) l = None
    \<and> pm_manifest_id m \<notin> set (pw_running W) \<and> (\<exists>i. input_fingerprint_for P canon m a l c fp = Inr i)")
  case True
  then show thesis by (auto simp: execute_def intro: runs)
next
  case False
  then show thesis
    by (intro unchanged; cases "input_fingerprint_for P canon m a l c fp")
      (auto simp: execute_def replay_execution_def require_def split: option.splits)
qed

lemma execute_once_inputs:
  "pw_result_inputs (snd (execute_once P canon ports m a l c W)) = pw_result_inputs W"
  by (rule ccontr, rule execute_once_moved [where g = pw_result_inputs and P = P and canon = canon
        and ports = ports and m = m and a = a and l = l and c = c and W = W])
    (auto simp: activate_and_verify_frame)

lemma execute_inputs:
  assumes "map_of (pw_results W) k = Some x"
  shows "map_of (pw_result_inputs (snd (execute P canon ports m a l c fp W))) k
    = map_of (pw_result_inputs W) k"
proof (cases rule: execute_cases [of P canon ports m a l c fp W])
  case (runs input)
  then have "k \<noteq> l" using assms by auto
  with runs(5) show ?thesis
    using execute_once_inputs [of P canon ports m a l c "W\<lparr>pw_running := pm_manifest_id m # pw_running W\<rparr>"]
    by (auto simp: leave_running_def proceed_def split: prod.splits sum.splits)
qed simp

definition recorded :: "string \<Rightarrow> execution_result \<Rightarrow> string \<Rightarrow> 'v promotion_world \<Rightarrow> bool" where
  "recorded l x input W \<longleftrightarrow>
     map_of (pw_results W) l = Some x \<and> map_of (pw_result_inputs W) l = Some input"

lemma retire_exact_frame:
  assumes "\<And>W S. g (W\<lparr>pw_targets := S\<rparr>) = g W"
  shows "g (snd (retire_exact P canon m name W)) = g W"
  unfolding retire_exact_def by (intro proceed_frame) (auto simp: on_stores_snd assms)

lemma recorded_step: "recorded l x input W \<Longrightarrow> recorded l x input (snd (perform_service P canon ports op W))"
proof (cases op)
  case (ExecuteOp m a l' c fp)
  then show "recorded l x input W \<Longrightarrow> ?thesis"
    unfolding recorded_def by (simp add: execute_results execute_inputs [where x = x])
next
  case (RetireOp m name)
  then show "recorded l x input W \<Longrightarrow> ?thesis"
    using retire_exact_frame [where g = "recorded l x input" and W = W] by (simp add: recorded_def)
qed (simp_all add: recorded_def on_stores_snd)

lemma recorded_run: "recorded l x input W \<Longrightarrow> recorded l x input (run (perform_service P canon ports) ops W)"
  by (induction ops arbitrary: W) (simp_all add: recorded_step)

lemma execute_once_recorded:
  "execute_once P canon ports m a l c W = (Inr x, W1)
     \<Longrightarrow> map_of (pw_results W1) l = Some x \<and> xe_manifest_id x = pm_manifest_id m
       \<and> xe_execution_lineage_id x = l"
  by (erule execute_once_Inr) (auto simp: execution_result_for_def split: prod.splits)

lemma execute_recorded:
  assumes "execute P canon ports m a l c fp W = (Inr x, W1)" and "map_of (pw_results W) l = None"
    and "input_fingerprint_for P canon m a l c fp = Inr input"
  shows "recorded l x input W1 \<and> xe_manifest_id x = pm_manifest_id m"
  using assms by (elim execute_Inr) (auto simp: recorded_def dest: execute_once_recorded)

text \<open>
  A lineage that produced a result is replayed: after any later history of the service, the
  same call returns the same result and changes nothing, and a call under that lineage for another
  manifest or with another input fingerprint is refused as drift, again without any effect.
\<close>

theorem lineage_replayed:
  assumes "execute P canon ports m a l c fp W = (Inr x, W1)" and "map_of (pw_results W) l = None"
    and "W2 = run (perform_service P canon ports) later W1"
  shows "execute P canon ports m a l c fp W2 = (Inr x, W2)
    \<and> (verify_for_execution P canon m' = None
       \<longrightarrow> input_fingerprint_for P canon m' a' l c' fp' = Inr input'
       \<longrightarrow> pm_manifest_id m' \<noteq> pm_manifest_id m
           \<or> Inr input' \<noteq> input_fingerprint_for P canon m a l c fp
       \<longrightarrow> execute P canon ports m' a' l c' fp' W2 = (Inl (PromotionError ManifestDrift), W2))"
proof -
  from assms(1,2) obtain input where i: "verify_for_execution P canon m = None"
      "input_fingerprint_for P canon m a l c fp = Inr input" by (rule execute_Inr)
  have "recorded l x input W2" "xe_manifest_id x = pm_manifest_id m"
    using execute_recorded [OF assms(1,2) i(2)] recorded_run unfolding assms(3) by blast+
  with i show ?thesis by (auto simp: execute_def replay_execution_def recorded_def)
qed

section \<open>One approval, one lineage\<close>

definition approval_calls :: "service_op list \<Rightarrow> approval_op list" where
  "approval_calls ops = concat (map (\<lambda>op. case op of ApprovalOp x \<Rightarrow> [x] | _ \<Rightarrow> []) ops)"

definition consumed_by :: "string \<Rightarrow> string \<Rightarrow> string \<Rightarrow> 'v promotion_world \<Rightarrow> bool" where
  "consumed_by a l i W \<longleftrightarrow> (\<exists>p. map_of (ar_approvals (pw_approvals W)) a = Some p \<and> ap_state p = Consumed
     \<and> ap_execution_lineage_id p = l \<and> ad_manifest_id (ap_decision p) = i)"

lemma before_activation_approvals:
  "pw_approvals (snd (before_activation P canon ports m a l c W))
     \<in> {pw_approvals W, snd (consume P a l (approval_snapshot m) (consumption_facts c) (pw_approvals W))}"
proof -
  have build: "pw_approvals (snd (build_target P ports m requests name W)) = pw_approvals W" for requests name W
    by (rule build_target_frame) simp_all
  show ?thesis
    unfolding before_activation_def
    by (auto simp: proceed_def require_def on_stores_snd build split: sum.splits prod.splits option.splits)
qed

lemma execute_approvals:
  "pw_approvals (snd (execute P canon ports m a l c fp W))
     \<in> {pw_approvals W, snd (consume P a l (approval_snapshot m) (consumption_facts c) (pw_approvals W))}"
proof (cases rule: execute_cases [of P canon ports m a l c fp W])
  case (runs input)
  let ?W = "W\<lparr>pw_running := pm_manifest_id m # pw_running W\<rparr>"
  have after: "pw_approvals (snd (activate_and_verify P m a l name W)) = pw_approvals W" for name W
    by (rule activate_and_verify_frame) simp_all
  have "pw_approvals (snd (execute_once P canon ports m a l c ?W))
      = pw_approvals (snd (before_activation P canon ports m a l c ?W))"
    by (auto simp: execute_once_def proceed_def Let_def after split: sum.splits prod.splits)
  then show ?thesis
    using execute_runs [where g = pw_approvals, OF runs(1-4)]
      before_activation_approvals [of P canon ports m a l c ?W] by simp
qed simp

lemma consumed_by_consume:
  assumes "consumed_by a l i W" and "approvals_ok (pw_approvals W)" and "approvals_ok R"
    and "R \<in> {pw_approvals W, snd (consume P a' l' m ctx (pw_approvals W))}"
  shows "consumed_by a l i (W\<lparr>pw_approvals := R\<rparr>)"
proof -
  from assms(1) obtain p where p: "map_of (ar_approvals (pw_approvals W)) a = Some p" "ap_state p \<noteq> Approved"
    by (auto simp: consumed_by_def)
  have "map_of (ar_approvals (snd (consume P a' l' m ctx (pw_approvals W)))) a = Some p"
    using settled_step [OF assms(2) p, of P "ConsumeOp a' l' m ctx"] by (simp add: no_collision_def)
  with assms(1,4) p show ?thesis by (auto simp: consumed_by_def)
qed

lemma consumed_by_step:
  assumes "consumed_by a l i W" and "service_ok W" and "no_collision P a i (approval_calls [op])"
  shows "consumed_by a l i (snd (perform_service P canon ports op W))"
proof (cases op)
  case (ExecuteOp m a' l' c fp)
  have "consumed_by a l i (W\<lparr>pw_approvals := pw_approvals (snd (execute P canon ports m a' l' c fp W))\<rparr>)"
    using execute_ok [OF assms(2), of P canon ports m a' l' c fp] assms(1,2)
    by (intro consumed_by_consume [OF assms(1) _ _ execute_approvals]) (simp_all add: service_ok_def)
  with ExecuteOp show ?thesis by (simp add: consumed_by_def)
next
  case (RetireOp m name)
  then show ?thesis
    using retire_exact_frame [where g = "consumed_by a l i" and W = W] assms(1) by (simp add: consumed_by_def)
next
  case (ApprovalOp x)
  from assms(1) obtain p where p: "map_of (ar_approvals (pw_approvals W)) a = Some p"
      "ap_state p = Consumed" "ap_execution_lineage_id p = l" "ad_manifest_id (ap_decision p) = i"
    by (auto simp: consumed_by_def)
  have "map_of (ar_approvals (snd (perform_approval P x (pw_approvals W)))) a = Some p"
    using assms(2,3) p ApprovalOp by (intro settled_step) (auto simp: service_ok_def approval_calls_def)
  with ApprovalOp p show ?thesis by (simp add: consumed_by_def on_stores_snd)
qed (use assms(1) in \<open>simp add: consumed_by_def\<close>)

lemma consumed_by_run:
  "consumed_by a l i W \<Longrightarrow> service_ok W \<Longrightarrow> no_collision P a i (approval_calls ops)
     \<Longrightarrow> consumed_by a l i (run (perform_service P canon ports) ops W)
       \<and> service_ok (run (perform_service P canon ports) ops W)"
proof (induction ops arbitrary: W)
  case (Cons op ops)
  then have "no_collision P a i (approval_calls [op])" "no_collision P a i (approval_calls ops)"
    by (simp_all add: no_collision_def approval_calls_def)
  with Cons show ?case by (simp add: consumed_by_step perform_service_ok)
qed simp

text \<open>A call under a consumed approval and another lineage stops before it has changed anything.\<close>

lemma consume_refused:
  "map_of (ar_approvals R) a = Some p \<Longrightarrow> ap_state p = Consumed \<Longrightarrow> ap_execution_lineage_id p \<noteq> l
     \<Longrightarrow> consume P a l m ctx R = (Inl APPROVAL_CONSUMED, R)"
  by (simp add: consume_def get_approval_def Let_def)

lemma refused_execution:
  assumes "consumed_by a l i W" and "l' \<noteq> l" and "map_of (pw_results W) l' = None" and "service_ok W"
  shows "\<exists>e. execute P canon ports m a l' c fp W = (Inl e, W)"
proof -
  let ?W = "W\<lparr>pw_running := [pm_manifest_id m]\<rparr>"
  from assms(1,2) obtain p where "map_of (ar_approvals (pw_approvals W)) a = Some p" "ap_state p = Consumed"
      "ap_execution_lineage_id p \<noteq> l'" by (auto simp: consumed_by_def)
  from consume_refused [OF this] have "\<exists>e. before_activation P canon ports m a l' c ?W = (Inl e, ?W)"
    by (auto simp: before_activation_def proceed_def require_def on_approvals_def
        split: option.splits sum.splits prod.splits)
  then obtain e where "execute_once P canon ports m a l' c ?W = (Inl e, ?W)"
    by (auto simp: execute_once_def)
  moreover have "W\<lparr>pw_running := []\<rparr> = W" using assms(4) by (cases W) (simp add: service_ok_def)
  ultimately show ?thesis using assms(3,4)
    by (cases "input_fingerprint_for P canon m a l' c fp"; cases "verify_for_execution P canon m")
      (auto simp: execute_def leave_running_def service_ok_def)
qed

lemma execute_consumed:
  assumes "execute P canon ports m a l c fp W = (Inr x, W1)" and "map_of (pw_results W) l = None"
    and "service_ok W"
  shows "consumed_by a l (pm_manifest_id m) W1"
proof -
  let ?W = "W\<lparr>pw_running := pm_manifest_id m # pw_running W\<rparr>"
  from execute_Inr [OF assms(1,2)] obtain input W2 where e: "verify_for_execution P canon m = None"
      "execute_once P canon ports m a l c ?W = (Inr x, W2)"
      "W1 = W2\<lparr>pw_result_inputs := AList.update l input (pw_result_inputs W2),
         pw_running := removeAll (pm_manifest_id m) (pw_running W2)\<rparr>" by metis
  from execute_once_Inr [OF e(2)] obtain cost name receipts backup W3 where
      b: "before_activation P canon ports m a l c ?W = (Inr (cost, name, receipts, backup), W3)" by metis
  have "pw_approvals W1 = pw_approvals W3"
    using execute_once_after [where g = pw_approvals, OF b] e(2,3) by simp
  moreover have "targets_ok (pw_targets ?W)" "approvals_ok (pw_approvals W)"
    using assms(3) by (simp_all add: service_ok_def)
  ultimately show ?thesis
    using before_activation_Inr(4) [OF b e(1)] consume_Inr
    by (fastforce simp: consumed_by_def approval_snapshot_def)
qed

text \<open>
  An approval serves one execution lineage: once an execution under it has returned a result,
  after any later history of the service and of reviewing (without a collision of approval
  identities) a call with that approval, whatever its manifest, under another lineage without a
  result of its own raises and leaves every store as it is.
\<close>

theorem approval_serves_one_lineage:
  assumes "W = run (perform_service P canon ports) ops
      (new_promotion_world assignments plan routed served coverage)"
    and "execute P canon ports m a l c fp W = (Inr x, W1)" and "map_of (pw_results W) l = None"
    and "no_collision P a (pm_manifest_id m) (approval_calls later)"
    and "W2 = run (perform_service P canon ports) later W1"
    and "l' \<noteq> l" and "map_of (pw_results W2) l' = None"
  shows "\<exists>e. execute P canon ports m' a l' c' fp' W2 = (Inl e, W2)"
proof -
  have ok: "service_ok W" unfolding assms(1) by (rule service_history_ok)
  have "service_ok W1" using execute_ok [OF ok, of P canon ports m a l c fp] assms(2) by simp
  from consumed_by_run [OF execute_consumed [OF assms(2,3) ok] this assms(4)] assms(5-7)
  show ?thesis by (blast intro: refused_execution)
qed

section \<open>What a result means\<close>

lemma activate_serving_Inr:
  assumes "activate_serving_state P base candidate S = (Inr r, S')"
  shows "ss_active_state_id S' = sv_state_id candidate \<and> ss_plan S' = ss_plan S
    \<and> sx_receipt_id r \<in> {sx_receipt_id (activation_of P base candidate)}
        \<union> {sx_receipt_id q | q. map_of (ss_activations S) (base, candidate) = Some q}
    \<and> sv_predecessor_state_id candidate = base"
  using assms by (auto simp: activate_serving_state_def Let_def valid_serving_candidate_def
      split: option.splits if_splits)

lemma rollback_serving_Inr:
  "rollback_serving_state P candidate receipt S = (Inr r, S')
     \<Longrightarrow> ss_active_state_id S' = sv_predecessor_state_id candidate"
  by (auto simp: rollback_serving_state_def Let_def split: option.splits if_splits prod.splits)

lemma serving_candidate_for_simps [simp]:
  "sv_state_id (serving_candidate_for m a l name) = pp_candidate_serving_state_id m"
  "sv_predecessor_state_id (serving_candidate_for m a l name) = pp_rollback_serving_state_id m"
  "sv_approval_id (serving_candidate_for m a l name) = a"
  "sv_execution_lineage_id (serving_candidate_for m a l name) = l"
  "sv_target_name (serving_candidate_for m a l name) = name"
  by (simp_all add: serving_candidate_for_def)

lemma on_serving_Inr:
  "on_serving f W = (Inr a, W') \<longleftrightarrow>
     (\<exists>S S'. pw_serving W = Some S \<and> f S = (Inr a, S') \<and> W' = W\<lparr>pw_serving := Some S'\<rparr>)"
  by (auto simp: on_serving_def split: option.splits prod.splits)

lemma activate_by_serving_state_Inr:
  assumes "activate_by_serving_state P m a l name W = (Inr (receipt, rollback, state), W')"
  shows "\<exists>S S'. pw_serving W = Some S \<and> pw_serving W' = Some S'
    \<and> pp_rollback_serving_state_id m = pp_base_serving_state_id m
    \<and> (state = ''EXECUTION_SUCCEEDED'' \<and> rollback = ''''
         \<and> ss_active_state_id S' = pp_candidate_serving_state_id m
       \<or> state = ''EXECUTION_ROLLED_BACK'' \<and> fp_post_cutover_failure (ss_plan S)
         \<and> ss_active_state_id S' = pp_base_serving_state_id m)"
proof -
  let ?c = "serving_candidate_for m a l name"
  from assms obtain S r S1 where 1: "pw_serving W = Some S"
      "activate_serving_state P (pp_base_serving_state_id m) ?c S = (Inr r, S1)" 
    and 2: "(case verify_serving_state (pp_candidate_serving_state_id m) S1 of
            None \<Rightarrow> (Inr (sx_receipt_id r, '''', ''EXECUTION_SUCCEEDED''), W\<lparr>pw_serving := Some S1\<rparr>)
          | Some e \<Rightarrow> reverse_after e (sx_receipt_id r) (\<lambda>W.
              proceed (on_serving (rollback_serving_state P ?c (sx_receipt_id r)) W)
                (\<lambda>r W. (Inr (sx_receipt_id r), W))) (W\<lparr>pw_serving := Some S1\<rparr>))
        = (Inr (receipt, rollback, state), W')"
    by (auto simp: activate_by_serving_state_def Let_def proceed_Inr on_serving_Inr verify_serving_def)
  note act = activate_serving_Inr [OF 1(2)]
  show ?thesis
  proof (cases "verify_serving_state (pp_candidate_serving_state_id m) S1")
    case None
    with 1 2 act show ?thesis by auto
  next
    case (Some e)
    with act have e: "e = PromotionError PostCutoverFailed" "fp_post_cutover_failure (ss_plan S)"
      by (auto simp: verify_serving_state_def)
    with Some 2 obtain r2 S2 where "rollback_serving_state P ?c (sx_receipt_id r) S1 = (Inr r2, S2)"
        "state = ''EXECUTION_ROLLED_BACK''" "W' = W\<lparr>pw_serving := Some S2\<rparr>"
      by (auto simp: reverse_after_def proceed_Inr on_serving_Inr)
    with 1(1) act e(2) show ?thesis by (auto dest: rollback_serving_Inr)
  qed
qed

lemma before_activation_receipts:
  assumes "before_activation P canon ports m a l c W = (Inr (cost, name, receipts, backup), W')"
    and "verify_for_execution P canon m = None"
  shows "length receipts = length (di_records (pp_desired_state m)) \<and> manifest_target_name m = Inr name"
proof -
  from assms(1) obtain requests W1 where
      p: "prepare_requests P canon ports m l (ec_at c) = Inr (requests, cost)" "manifest_target_name m = Inr name"
    and "build_target P ports m requests name W1 = (Inr (receipts, backup), W')"
    by (auto simp: before_activation_def proceed_Inr require_Inr)
  then obtain built W2 W3 where
      "run_batches ports (pp_embedding_profile m) name (slices (nat (pp_batch_size m))
        (zip requests (di_records (pp_desired_state m)))) W2 = (Inr built, W3)" "receipts = map fst built"
    by (auto simp: build_target_def Let_def proceed_Inr require_Inr)
  with run_batches_members [OF this(1)] verified_batch_size [OF assms(2)] prepare_requests_length [OF p(1)] p(2)
  show ?thesis by (simp add: concat_slices collect_Inr)
qed

text \<open>
  The result of a first execution tells what is active. A V1 manifest whose execution returns
  leaves the routing alone, records the result under its lineage with its manifest, its target and
  one embedding receipt for each desired record; it reports success exactly when its candidate is
  the active serving state with no reversal, and otherwise reports the reversal of a failed
  verification that left the base state active.
\<close>

theorem execution_result_tells_active_state:
  assumes "execute P canon ports m a l c fp W = (Inr x, W')" and "map_of (pw_results W) l = None"
    and "uses_v1_serving_state m"
  shows "\<exists>S S'. pw_serving W = Some S \<and> pw_serving W' = Some S' \<and> pw_routing W' = pw_routing W
    \<and> map_of (pw_results W') l = Some x \<and> xe_execution_lineage_id x = l
    \<and> xe_manifest_id x = pm_manifest_id m \<and> manifest_target_name m = Inr (xe_target_name x)
    \<and> length (xe_embedding_receipt_ids x) = length (di_records (pp_desired_state m))
    \<and> (xe_state x = ''EXECUTION_SUCCEEDED'' \<and> xe_rollback_receipt_ref x = ''''
         \<and> ss_active_state_id S' = pp_candidate_serving_state_id m
       \<or> xe_state x = ''EXECUTION_ROLLED_BACK'' \<and> fp_post_cutover_failure (ss_plan S)
         \<and> ss_active_state_id S' = pp_base_serving_state_id m)"
proof -
  let ?W = "W\<lparr>pw_running := pm_manifest_id m # pw_running W\<rparr>"
  from execute_Inr [OF assms(1,2)] obtain input W2 where e: "verify_for_execution P canon m = None"
      "execute_once P canon ports m a l c ?W = (Inr x, W2)"
      "W' = W2\<lparr>pw_result_inputs := AList.update l input (pw_result_inputs W2),
         pw_running := removeAll (pm_manifest_id m) (pw_running W2)\<rparr>" by metis
  from execute_once_Inr [OF e(2)] obtain cost name receipts backup activation W3 W4 where
      b: "before_activation P canon ports m a l c ?W = (Inr (cost, name, receipts, backup), W3)"
      "activate_and_verify P m a l name W3 = (Inr activation, W4)"
      "x = execution_result_for l m name receipts backup activation cost"
      "W2 = W4\<lparr>pw_results := AList.update l x (pw_results W4)\<rparr>" by metis
  obtain receipt rollback state where [simp]: "activation = (receipt, rollback, state)" by (cases activation) auto
  have same: "pw_serving W3 = pw_serving W" "pw_routing W3 = pw_routing W"
    using before_activation_frame [where g = pw_serving, of P canon ports m a l c ?W]
      before_activation_frame [where g = pw_routing, of P canon ports m a l c ?W] b(1) by simp_all
  have "pw_routing W4 = pw_routing W3"
    using activate_by_serving_state_frame [where g = pw_routing, of P m a l name W3] b(2) assms(3)
    by (simp add: activate_and_verify_def)
  moreover note before_activation_receipts [OF b(1) e(1)]
  moreover have "activate_by_serving_state P m a l name W3 = (Inr (receipt, rollback, state), W4)"
    using b(2) assms(3) by (simp add: activate_and_verify_def)
  from activate_by_serving_state_Inr [OF this] obtain S S' where "pw_serving W3 = Some S"
      "pw_serving W4 = Some S'" "state = ''EXECUTION_SUCCEEDED'' \<and> rollback = ''''
         \<and> ss_active_state_id S' = pp_candidate_serving_state_id m
       \<or> state = ''EXECUTION_ROLLED_BACK'' \<and> fp_post_cutover_failure (ss_plan S)
         \<and> ss_active_state_id S' = pp_base_serving_state_id m" by blast
  ultimately show ?thesis using b(3,4) e(3) same
    by (auto simp: execution_result_for_def)
qed

section \<open>Lost acknowledgements\<close>

text \<open>The writes of a batch, read back.\<close>

lemma map_of_write_records:
  "distinct (map tr_record_id rs) \<Longrightarrow> map_of (write_records rs t) k =
     (case find (\<lambda>r. tr_record_id r = k) rs of Some r \<Rightarrow> Some r | None \<Rightarrow> map_of t k)"
  unfolding write_records_def
proof (induction rs arbitrary: t)
  case (Cons r rs)
  have "find (\<lambda>x. tr_record_id x = k) rs = None" if "tr_record_id r = k"
    using Cons.prems that by (auto simp: find_None_iff) (metis imageI)
  with Cons show ?case by (auto split: option.split)
qed simp

lemma written_record:
  assumes "distinct (map tr_record_id rs)" and "r \<in> set rs"
  shows "map_of (write_records rs t) (tr_record_id r) = Some r"
proof -
  have "find (\<lambda>x. tr_record_id x = tr_record_id r) rs = Some r"
    using assms by (induction rs) auto
  then show ?thesis using map_of_write_records [OF assms(1)] by simp
qed

lemma by_record_id_sorted:
  assumes "inventory_keyed t"
  shows "map_of (by_record_id (map snd (sort_key fst t))) = map_of t"
proof -
  let ?s = "sort_key fst t"
  have s: "distinct (map fst ?s)" "\<forall>(k, r) \<in> set ?s. tr_record_id r = k"
    using assms by (auto simp: inventory_keyed_def distinct_sort_key)
  have "map (\<lambda>r. (tr_record_id r, r)) (map snd ?s) = ?s"
    using s(2) by (auto intro!: map_idI)
  then have "by_record_id (map snd ?s) = ?s" using s(1) by (simp add: by_record_id_def dict_of_distinct)
  with assms show ?thesis by (simp add: map_of_sort_key inventory_keyed_def)
qed

lemma upload_batch_done:
  assumes "targets_ok S" and "map_of (ts_targets S) name = Some (d, t)"
    and "distinct (map tr_record_id batch)"
    and "\<not> fp_partial_batch (ts_plan S)" and "\<not> fp_unknown_remote_record (ts_plan S)"
  shows "\<exists>S'. upload_batch zero name batch S = (Inr (), S') \<and> ts_plan S' = ts_plan S
    \<and> map_of (ts_targets S') = (map_of (ts_targets S))(name \<mapsto> (d, write_records batch t))"
proof -
  let ?t = "write_records batch t"
  have k: "inventory_keyed ?t" using assms(1,2) by (blast intro: inventory_keyed_write dest: targets_okD)
  have "\<not> list_ex (\<lambda>r. map_of (by_record_id (map snd (sort_key fst ?t))) (tr_record_id r) \<noteq> Some r) batch"
    using written_record [OF assms(3)] by (simp add: list_ex_iff by_record_id_sorted [OF k])
  then show ?thesis
    using assms(2,4,5)
    by (auto simp: upload_batch_def upsert_batch_def enumerate_target_def Let_def update_conv' raise_if_def
        intro!: ext)
qed

text \<open>
  A lost acknowledgement is reconciled: in a store without further faults, uploading a batch of
  distinct records to a known target succeeds whether or not its acknowledgement is lost, and the
  target then holds each record of the batch and is otherwise unchanged.
\<close>

theorem lost_acknowledgement_reconciled:
  assumes "targets_ok S" and "map_of (ts_targets S) name = Some (d, t)"
    and "distinct (map tr_record_id batch)"
    and "\<not> fp_partial_batch (ts_plan S)" and "\<not> fp_unknown_remote_record (ts_plan S)"
  shows "\<exists>S' t'. upload_batch zero name batch S = (Inr (), S')
    \<and> map_of (ts_targets S') = (map_of (ts_targets S))(name \<mapsto> (d, t'))
    \<and> (\<forall>k. map_of t' k = (case find (\<lambda>r. tr_record_id r = k) batch of
          Some r \<Rightarrow> Some r | None \<Rightarrow> map_of t k))"
  using upload_batch_done [OF assms] map_of_write_records [OF assms(3)] by blast

section \<open>A promotion that succeeds\<close>

text \<open>Batch after batch, everything embedded is written.\<close>

lemma write_records_append: "write_records (xs @ ys) t = write_records ys (write_records xs t)"
  by (simp add: write_records_def)

lemma collect_append_Inr:
  "collect f (xs @ ys) = Inr zs \<longleftrightarrow> (\<exists>us vs. collect f xs = Inr us \<and> collect f ys = Inr vs \<and> zs = us @ vs)"
  by (induction xs arbitrary: zs) auto

lemma run_batches_done:
  assumes "targets_ok (pw_targets W)" and "map_of (ts_targets (pw_targets W)) name = Some (d, t)"
    and "collect (embed_member ports profile) (concat bs) = Inr built"
    and "distinct (map (\<lambda>r. tr_record_id (snd r)) built)"
    and "\<not> fp_partial_batch (ts_plan (pw_targets W))" and "\<not> fp_unknown_remote_record (ts_plan (pw_targets W))"
  shows "\<exists>S. run_batches ports profile name bs W = (Inr built, W\<lparr>pw_targets := S\<rparr>)
    \<and> ts_plan S = ts_plan (pw_targets W)
    \<and> map_of (ts_targets S) name = Some (d, write_records (map snd built) t)"
  using assms
proof (induction bs arbitrary: W t built)
  case Nil
  then show ?case by (auto simp: write_records_def intro!: exI [of _ "pw_targets W"])
next
  case (Cons b bs)
  from Cons.prems(3) obtain xs ys where xs: "collect (embed_member ports profile) b = Inr xs"
      "collect (embed_member ports profile) (concat bs) = Inr ys" "built = xs @ ys"
    by (auto simp: collect_append_Inr)
  have "distinct (map tr_record_id (map snd xs))" "distinct (map (\<lambda>r. tr_record_id (snd r)) ys)"
    using Cons.prems(4) by (simp_all add: xs(3) comp_def)
  with upload_batch_done [OF Cons.prems(1,2) _ Cons.prems(5,6)]
  obtain S where S: "upload_batch (po_zero ports) name (map snd xs) (pw_targets W) = (Inr (), S)"
      "ts_plan S = ts_plan (pw_targets W)"
      "map_of (ts_targets S) name = Some (d, write_records (map snd xs) t)" by fastforce
  have "targets_ok S" using upload_batch_ok [OF Cons.prems(1)] S(1) by (metis snd_conv)
  from Cons.IH [of "W\<lparr>pw_targets := S\<rparr>", OF _ _ xs(2)] this S \<open>distinct (map _ ys)\<close> Cons.prems(5,6)
  show ?case by (auto simp: xs(1,3) on_targets_def write_records_append)
qed

lemma write_records_new:
  assumes "distinct (map tr_record_id rs)" and "set (map tr_record_id rs) \<inter> set (map fst t) = {}"
  shows "write_records rs t = t @ map (\<lambda>r. (tr_record_id r, r)) rs"
  using assms unfolding write_records_def
proof (induction rs arbitrary: t)
  case (Cons r rs)
  then have "AList.update (tr_record_id r) r t = t @ [(tr_record_id r, r)]"
    by (intro update_fresh) (auto simp: map_of_eq_None_iff)
  with Cons show ?case by auto
qed simp

lemma compare_inventory_done:
  assumes "distinct (map tr_record_id expected)" and "set actual = set expected"
    and "map tr_record_id expected = map fr_record_id (di_records (pp_desired_state m))"
  shows "compare_inventory m expected actual = None"
proof -
  have "by_record_id expected = map (\<lambda>r. (tr_record_id r, r)) expected"
    using assms(1) by (simp add: by_record_id_def dict_of_distinct comp_def)
  moreover have "map_of (map (\<lambda>r. (tr_record_id r, r)) expected) (tr_record_id r) = Some r" if "r \<in> set expected" for r
    using assms(1) that by (simp add: map_of_eq_Some_iff comp_def)
  moreover have "set (map tr_record_id actual) = set (map fr_record_id (di_records (pp_desired_state m)))"
    using assms(2) by (simp flip: assms(3))
  ultimately show ?thesis
    using assms(2) by (auto simp: compare_inventory_def Let_def first_raise_None_iff)
qed

text \<open>The ports do their work: one admissible vector for each request.\<close>

definition embeds_all :: "'v promotion_ports \<Rightarrow> embedding_profile \<Rightarrow> embedding_request list \<Rightarrow> bool" where
  "embeds_all ports profile requests \<longleftrightarrow> list_all (\<lambda>q. case po_embed ports profile q of
     Inl _ \<Rightarrow> False
   | Inr v \<Rightarrow> rt_input_tokens (ev_receipt v) = qr_token_count q
       \<and> rt_dimensions (ev_receipt v) = ep_dimensions profile
       \<and> int (length (ev_values v)) = ep_dimensions profile \<and> list_all (po_finite ports) (ev_values v)) requests"

lemma collect_embeds:
  assumes "embeds_all ports profile requests" and "length requests = length records"
  shows "\<exists>built. collect (embed_member ports profile) (zip requests records) = Inr built"
  using assms(2,1)
proof (induction requests records rule: list_induct2)
  case (Cons q qs d ds)
  then show ?case
    by (auto simp: embeds_all_def embed_member_def construct_def list_ex_iff list_all_iff raise_if_def
        split: sum.splits)
qed simp

lemma build_target_done:
  assumes "targets_ok (pw_targets W)" and "map_of (ts_targets (pw_targets W)) name = None"
    and "embeds_all ports (pp_embedding_profile m) requests"
    and "length requests = length (di_records (pp_desired_state m))" and "0 < pp_batch_size m"
    and "distinct (map fr_record_id (di_records (pp_desired_state m)))"
    and "\<not> fp_partial_batch (ts_plan (pw_targets W))" and "\<not> fp_unknown_remote_record (ts_plan (pw_targets W))"
    and "\<not> fp_retrieval_failure (ts_plan (pw_targets W))"
    and "\<not> fp_backup_failure (bs_plan (pw_backups W))" and "\<not> fp_recovery_failure (bs_plan (pw_backups W))"
  shows "\<exists>x W'. build_target P ports m requests name W = (Inr x, W')"
proof -
  let ?d = "target_definition_for P name (pp_embedding_profile m)"
  let ?records = "di_records (pp_desired_state m)" and ?profile = "pp_embedding_profile m"
  let ?S1 = "(pw_targets W)\<lparr>ts_targets := AList.update name (?d, []) (ts_targets (pw_targets W))\<rparr>"
  let ?W1 = "W\<lparr>pw_targets := ?S1\<rparr>"
  have 1: "open_target ?d W = (Inr (), ?W1)"
    using assms(2) by (simp add: open_target_def on_targets_def create_target_def describe_target_def raise_if_def)
  obtain built where c: "collect (embed_member ports ?profile) (zip requests ?records) = Inr built"
    using collect_embeds [OF assms(3,4)] by blast
  have "list_all2 (\<lambda>x y. fr_record_id x = tr_record_id y) ?records (map snd built)"
    using collect_members [OF c assms(4)] by (rule list_all2_mono) (simp add: embeds_as_id)
  then have ids: "map tr_record_id (map snd built) = map fr_record_id ?records"
    by (simp add: list_all2_conv_all_nth list_eq_iff_nth_eq)
  then have dist: "distinct (map tr_record_id (map snd built))" using assms(6) by simp
  have c': "collect (embed_member ports ?profile)
      (concat (slices (nat (pp_batch_size m)) (zip requests ?records))) = Inr built"
    using assms(5) c by (simp add: concat_slices)
  have ok: "targets_ok ?S1" by (rule targets_ok_update [OF assms(1)]) simp
  have "\<exists>S. run_batches ports ?profile name (slices (nat (pp_batch_size m)) (zip requests ?records)) ?W1
      = (Inr built, W\<lparr>pw_targets := S\<rparr>) \<and> ts_plan S = ts_plan (pw_targets W)
      \<and> map_of (ts_targets S) name = Some (?d, write_records (map snd built) [])"
    using run_batches_done [where W = ?W1 and name = name and d = ?d and t = "[]", OF _ _ c']
      ok dist assms(7,8) by (simp add: comp_def)
  then obtain S where 2: "run_batches ports ?profile name (slices (nat (pp_batch_size m)) (zip requests ?records)) ?W1
      = (Inr built, W\<lparr>pw_targets := S\<rparr>)" "ts_plan S = ts_plan (pw_targets W)"
      "map_of (ts_targets S) name = Some (?d, map (\<lambda>r. (tr_record_id (snd r), snd r)) built)"
    using dist by (auto simp: write_records_new comp_def)
  let ?t = "map (\<lambda>r. (tr_record_id (snd r), snd r)) built"
  let ?S3 = "S\<lparr>ts_targets := AList.update name (?d, ?t) (ts_targets S)\<rparr>"
  have "compare_inventory m (map snd built) (map snd (sort_key fst ?t)) = None"
    by (rule compare_inventory_done [OF dist _ ids]) force
  then have 3: "verify_inventory ports m name (map snd built) (W\<lparr>pw_targets := S\<rparr>) = (Inr (), W\<lparr>pw_targets := ?S3\<rparr>)"
    using 2(2,3) assms(8) by (simp add: verify_inventory_def on_targets_def enumerate_target_def)
  have "tr_record_id (snd r) \<in> fst ` set ?t" if "r \<in> set built" for r
    using that by (simp add: image_image)
  then have "map_of ?t (tr_record_id (snd r)) \<noteq> None" if "r \<in> set built" for r
    using that by (simp only: map_of_eq_None_iff not_False_eq_True not_not)
  then have 4: "verify_queries name (map (\<lambda>r. tr_record_id (snd r)) built) ?S3 = None"
    using 2(2) assms(9) by (auto simp: verify_queries_def list_ex_iff)
  have 5: "\<exists>b W'. verified_backup P m name (W\<lparr>pw_targets := ?S3\<rparr>) = (Inr b, W')"
    using assms(10,11) by (simp add: verified_backup_def on_backups_def create_and_verify_backup_def Let_def)
  then show ?thesis by (auto simp: build_target_def Let_def 1 2(1) 3 4)
qed

text \<open>What a fault-free local composition must offer for a promotion to go through.\<close>

definition stores_ready :: "promotion_manifest \<Rightarrow> string \<Rightarrow> string \<Rightarrow> string \<Rightarrow> 'v promotion_world \<Rightarrow> bool" where
  "stores_ready m a l name W \<longleftrightarrow>
     map_of (ts_targets (pw_targets W)) name = None
     \<and> \<not> fp_partial_batch (ts_plan (pw_targets W)) \<and> \<not> fp_unknown_remote_record (ts_plan (pw_targets W))
     \<and> \<not> fp_retrieval_failure (ts_plan (pw_targets W))
     \<and> \<not> fp_backup_failure (bs_plan (pw_backups W)) \<and> \<not> fp_recovery_failure (bs_plan (pw_backups W))
     \<and> cv_available (pw_coverage W)
     \<and> map_option cm_fingerprint (cv_manifest (pw_coverage W)) = Some (cm_fingerprint (pp_coverage_status m))
     \<and> (case pw_serving W of None \<Rightarrow> False | Some S \<Rightarrow>
          ss_active_state_id S = pp_base_serving_state_id m
          \<and> \<not> fp_routing_cas_loss (ss_plan S) \<and> \<not> fp_post_cutover_failure (ss_plan S)
          \<and> map_of (ss_activations S) (pp_base_serving_state_id m, serving_candidate_for m a l name) = None
          \<and> valid_serving_candidate (pp_base_serving_state_id m) (serving_candidate_for m a l name))"

definition approval_ready ::
    "promotion_manifest \<Rightarrow> string \<Rightarrow> execution_context \<Rightarrow> approval_register \<Rightarrow> bool" where
  "approval_ready m a c R \<longleftrightarrow> (case map_of (ar_approvals R) a of None \<Rightarrow> False | Some p \<Rightarrow>
     ap_state p = Approved \<and> assigned_administrator R (ad_reviewer_subject (ap_decision p))
     \<and> ad_manifest_id (ap_decision p) = pm_manifest_id m
     \<and> ad_manifest_fingerprint (ap_decision p) = pm_fingerprint m
     \<and> manifest_holds (approval_snapshot m) (consumption_facts c))"

lemma consume_ready:
  "approval_ready m a c R \<Longrightarrow> \<exists>p S. consume P a l (approval_snapshot m) (consumption_facts c) R = (Inr p, S)"
  by (auto simp: approval_ready_def consume_def get_approval_def Let_def approval_snapshot_def apfst_def
      map_prod_def split: option.splits prod.splits)

lemma before_activation_done:
  assumes "verify_for_execution P canon m = None" and "targets_ok (pw_targets W)"
    and "ec_base_serving_state_id c = pp_base_serving_state_id m"
    and "ep_provider (pp_embedding_profile m) = ''LOCAL_FAKE''"
    and "prepare_requests P canon ports m l (ec_at c) = Inr (requests, cost)"
    and "embeds_all ports (pp_embedding_profile m) requests"
    and "distinct (map fr_record_id (di_records (pp_desired_state m)))"
    and "manifest_target_name m = Inr name"
    and "approval_ready m a c (pw_approvals W)" and "stores_ready m a l name W"
  shows "\<exists>q W1. before_activation P canon ports m a l c W = (Inr (cost, name, q), W1)
    \<and> pw_serving W1 = pw_serving W"
proof -
  from consume_ready [OF assms(9)] obtain p R where
      consume: "consume P a l (approval_snapshot m) (consumption_facts c) (pw_approvals W) = (Inr p, R)" by blast
  from assms(10) obtain q Z where load: "load_for_activation (pp_candidate_serving_state_id m)
      (cm_fingerprint (pp_coverage_status m)) (pw_coverage W) = (Inr q, Z)"
    by (auto simp: stores_ready_def load_for_activation_def)
  let ?W = "W\<lparr>pw_approvals := R, pw_coverage := Z\<rparr>"
  have "\<exists>x W'. build_target P ports m requests name ?W = (Inr x, W')"
    using assms(2,6,7,10) prepare_requests_length [OF assms(5)] verified_batch_size [OF assms(1)]
    by (intro build_target_done) (simp_all add: stores_ready_def)
  then have "\<exists>q W1. before_activation P canon ports m a l c W = (Inr (cost, name, q), W1)"
    by (auto simp: before_activation_def admitted_serving_profile_def raise_if_def assms(3,4,5,8)
        on_approvals_def on_coverage_def consume load)
  with before_activation_frame [where g = pw_serving, of P canon ports m a l c W] show ?thesis
    by auto
qed

lemma activate_done:
  assumes "stores_ready m a l name W" and "pw_serving W1 = pw_serving W" and "uses_v1_serving_state m"
  shows "\<exists>receipt S. activate_and_verify P m a l name W1
    = (Inr (receipt, '''', ''EXECUTION_SUCCEEDED''), W1\<lparr>pw_serving := Some S\<rparr>)
    \<and> ss_active_state_id S = pp_candidate_serving_state_id m"
proof -
  from assms(1) obtain S where S: "pw_serving W = Some S" "ss_active_state_id S = pp_base_serving_state_id m"
      "\<not> fp_routing_cas_loss (ss_plan S)" "\<not> fp_post_cutover_failure (ss_plan S)"
      "map_of (ss_activations S) (pp_base_serving_state_id m, serving_candidate_for m a l name) = None"
      "valid_serving_candidate (pp_base_serving_state_id m) (serving_candidate_for m a l name)"
    by (auto simp: stores_ready_def split: option.splits)
  then have "sv_predecessor_state_id (serving_candidate_for m a l name) = pp_base_serving_state_id m"
    by (simp add: valid_serving_candidate_def)
  with S assms(2,3) show ?thesis
    by (auto simp: activate_and_verify_def activate_by_serving_state_def Let_def on_serving_def
        activate_serving_state_def verify_serving_def verify_serving_state_def raise_if_def)
qed

lemma promotion_done:
  assumes ok: "service_ok W"
    and "verify_for_execution P canon m = None" and "uses_v1_serving_state m"
    and "input_fingerprint_for P canon m a l c fp = Inr input"
    and "map_of (pw_results W) l = None"
    and "ec_base_serving_state_id c = pp_base_serving_state_id m"
    and "ep_provider (pp_embedding_profile m) = ''LOCAL_FAKE''"
    and "prepare_requests P canon ports m l (ec_at c) = Inr (requests, cost)"
    and "embeds_all ports (pp_embedding_profile m) requests"
    and "distinct (map fr_record_id (di_records (pp_desired_state m)))"
    and "manifest_target_name m = Inr name"
    and "approval_ready m a c (pw_approvals W)" and "stores_ready m a l name W"
  shows "\<exists>x W' S. execute P canon ports m a l c fp W = (Inr x, W')
    \<and> xe_state x = ''EXECUTION_SUCCEEDED'' \<and> xe_total_cost_microunits x = cost
    \<and> pw_serving W' = Some S \<and> ss_active_state_id S = pp_candidate_serving_state_id m"
proof -
  let ?W = "W\<lparr>pw_running := [pm_manifest_id m]\<rparr>"
  have "stores_ready m a l name ?W" using assms(13) by (simp add: stores_ready_def)
  then obtain q W1 where 1: "before_activation P canon ports m a l c ?W = (Inr (cost, name, q), W1)"
      "pw_serving W1 = pw_serving ?W"
    using before_activation_done [OF assms(2) _ assms(6-11), where W = ?W and a = a] ok assms(12)
    by (auto simp: service_ok_def)
  from activate_done [OF \<open>stores_ready m a l name ?W\<close> 1(2) assms(3)] obtain receipt S where
      "activate_and_verify P m a l name W1
        = (Inr (receipt, '''', ''EXECUTION_SUCCEEDED''), W1\<lparr>pw_serving := Some S\<rparr>)"
      "ss_active_state_id S = pp_candidate_serving_state_id m" by blast
  with 1 ok assms(2,4,5) show ?thesis
    by (cases q) (auto simp: execute_def execute_once_def leave_running_def service_ok_def
        execution_result_for_def Let_def)
qed

text \<open>
  C2: An approved promotion succeeds: in any state of the service with its stores free of faults
  (a lost acknowledgement excepted), a verified V1 manifest with distinct records, within its cost
  limit, with a usable target name and admissible embeddings, whose approval holds, whose coverage
  is published and whose base state is active, is executed to the end; its result reports success
  and its candidate is the active serving state.
\<close>

theorem approved_promotion_succeeds:
  assumes "W = run (perform_service P canon ports) ops
      (new_promotion_world assignments plan routed served coverage)"
    and "verify_for_execution P canon m = None" and "uses_v1_serving_state m"
    and "input_fingerprint_for P canon m a l c fp = Inr input"
    and "map_of (pw_results W) l = None"
    and "ec_base_serving_state_id c = pp_base_serving_state_id m"
    and "ep_provider (pp_embedding_profile m) = ''LOCAL_FAKE''"
    and "prepare_requests P canon ports m l (ec_at c) = Inr (requests, cost)"
    and "embeds_all ports (pp_embedding_profile m) requests"
    and "distinct (map fr_record_id (di_records (pp_desired_state m)))"
    and "manifest_target_name m = Inr name"
    and "approval_ready m a c (pw_approvals W)" and "stores_ready m a l name W"
  shows "\<exists>x W' S. execute P canon ports m a l c fp W = (Inr x, W')
    \<and> xe_state x = ''EXECUTION_SUCCEEDED'' \<and> xe_total_cost_microunits x = cost
    \<and> pw_serving W' = Some S \<and> ss_active_state_id S = pp_candidate_serving_state_id m"
  using service_history_ok assms(2-) unfolding assms(1) by (rule promotion_done)

section \<open>Retirement\<close>

text \<open>
  Retiring does not protect the active target: a verified V1 manifest that declares a target
  other than its own for retirement deletes it even while the active serving state is the one that
  was activated on that very target.
\<close>

theorem active_target_can_be_retired:
  assumes "verify_for_execution P canon m = None" and "uses_v1_serving_state m"
    and "pw_serving W = Some S" and "ss_active_activation S = Some (b, candidate, r)"
    and "ss_active_state_id S = sv_state_id candidate" and "contains_target (sv_target_name candidate) (pw_targets W)"
    and "manifest_target_name m = Inr own" and "own \<noteq> sv_target_name candidate"
    and "sv_target_name candidate \<in> set (pp_exact_retirement_target_ids m)"
  shows "\<exists>receipt W'. retire_exact P canon m (sv_target_name candidate) W = (Inr receipt, W')
    \<and> pw_serving W' = pw_serving W \<and> \<not> contains_target (sv_target_name candidate) (pw_targets W')"
  using assms by (auto simp: retire_exact_def active_serving_state_def on_targets_def delete_exact_def
      contains_target_def delete_conv' split: prod.splits)

end
