(* ===== verification/ServiceExamples.thy ===== *)
theory ServiceExamples
  imports ServiceProperties
begin

text \<open>
  A release of two records on local stores with a lost acknowledgement, from its approval to its
  cutover: the run behind the witnesses of the service properties.
\<close>

definition sample_ports :: "nat promotion_ports" where
  "sample_ports = \<lparr>po_embed = local_embed demo_platform
       \<lparr>fl_component = id, fl_pack = (\<lambda>n. decimal (int n)), fl_finite = (\<lambda>_. True)\<rparr> no_failures,
     po_token_counter = \<lparr>tc_tokenizer_id = Some ''words'', tc_count = (\<lambda>_. Some 1)\<rparr>,
     po_finite = (\<lambda>_. True), po_zero = 0\<rparr>"

definition sample_release :: promotion_manifest where
  "sample_release = sample_promotion ''inv''"

definition release_approval :: string where
  "release_approval = approval_id_of demo_platform (approval_snapshot sample_release) ''APPROVED''"

definition sample_lineage :: string where
  "sample_lineage = ''exe_'' @ replicate 48 CHR ''6''"

definition release_facts :: execution_context where
  "release_facts = \<lparr>ec_base_serving_state_id = sample_state ''srv'' CHR ''a'',
     ec_predicates = [(''P'', ''1.0.0'', sample_digest CHR ''c'')], ec_at = ''2026-01-01T09:00:00Z''\<rparr>"

definition release_decision :: service_op where
  "release_decision = ApprovalOp (DecideOp sample_reviewer (approval_snapshot sample_release) ''APPROVED''
     ''checked'' ''2026-01-01T08:00:00Z'')"

definition initial_world :: "nat promotion_world" where
  "initial_world = new_promotion_world [(''alice'', [''PipelineAdministrator''])]
     (no_failures\<lparr>fp_lost_ack_once := True\<rparr>) (sample_state ''srv'' CHR ''a'') (sample_state ''srv'' CHR ''a'')
     (Some sample_coverage)"

definition approved_world :: "nat promotion_world" where
  "approved_world = initial_world\<lparr>pw_approvals := (pw_approvals initial_world)\<lparr>
     ar_approvals := [(release_approval, decided_projection demo_platform sample_reviewer
       (approval_snapshot sample_release) ''APPROVED'' ''checked'' ''2026-01-01T08:00:00Z'')],
     ar_manifest_approval := [(pm_manifest_id sample_release, release_approval)]\<rparr>\<rparr>"

lemma approval_snapshot_simps [simp]:
  "ms_manifest_id (approval_snapshot m) = pm_manifest_id m"
  "ms_fingerprint (approval_snapshot m) = pm_fingerprint m"
  by (simp_all add: approval_snapshot_def)

lemma release_decided:
  "run (perform_service demo_platform sample_encoder sample_ports) [release_decision] initial_world = approved_world"
proof -
  have "authorize (pw_approvals initial_world) sample_reviewer = None"
    by (simp add: authorize_def raise_if_def initial_world_def new_promotion_world_def sample_reviewer_def
        assigned_administrator_def new_approval_register_def)
  moreover have "require_reason ''checked'' = None"
    by (simp add: require_reason_def strip_def is_space_def)
  moreover have "ar_manifest_approval (pw_approvals initial_world) = []" "ar_approvals (pw_approvals initial_world) = []"
    by (simp_all add: initial_world_def new_promotion_world_def new_approval_register_def)
  ultimately show ?thesis
    by (simp add: release_decision_def on_approvals_def decide_def Let_def approved_world_def
        release_approval_def raise_if_def)
qed

lemma release_fields [simp]:
  "pp_environment sample_release = ''dev''" "pp_jurisdiction sample_release = ''hkg''"
  "pp_freeze_date sample_release = ''20260101''" "pp_project_id sample_release = ''proj''"
  "pp_candidate_serving_state_fingerprint sample_release = sample_digest CHR ''b''"
  "pp_candidate_serving_state_id sample_release = sample_state ''srv'' CHR ''b''"
  "pp_base_serving_state_id sample_release = sample_state ''srv'' CHR ''a''"
  "pp_rollback_serving_state_id sample_release = sample_state ''srv'' CHR ''a''"
  "pp_valid_from sample_release = ''2026-01-01T00:00:00Z''" "pp_valid_until sample_release = ''2026-01-02T00:00:00Z''"
  "pp_validity_predicates sample_release = [(''P'', ''1.0.0'', sample_digest CHR ''c'')]"
  "pp_desired_state sample_release = sample_inventory ''inv''" "pp_coverage_status sample_release = sample_coverage"
  "pp_embedding_profile sample_release = sample_profile" "pp_batch_size sample_release = 1"
  "pp_actions sample_release = [sample_action]"
  by (simp_all add: sample_release_def sample_promotion_def Let_def sample_plan_def promotion_plan.defs
      promotion_manifest.defs)

lemma profile_fields [simp]:
  "ep_provider sample_profile = ''LOCAL_FAKE''" "ep_dimensions sample_profile = 2"
  "ep_tokenizer sample_profile = ''words''" "ep_max_input_tokens sample_profile = 8"
  "ep_cost_limit_microunits sample_profile = 100" "ep_allowed_environments sample_profile = [''dev'']"
  "ep_expires_at sample_profile = ''2026-12-31T00:00:00Z''" "\<not> ep_stateful_features sample_profile"
  by (simp_all add: sample_profile_def Let_def sample_profile_input_def embedding_profile_input.defs
      embedding_profile.defs)

lemma release_verified: "verify_for_execution demo_platform sample_encoder sample_release = None"
  "uses_v1_serving_state sample_release"
  using sample_verified [of "''inv''"]
  by (simp_all add: verify_for_execution_def uses_v1_serving_state_def sample_action_def)
    (simp add: sample_release_def)

lemma release_consumable: "manifest_holds (approval_snapshot sample_release) (consumption_facts release_facts)"
proof -
  have "''2026-01-01T00:00:00Z'' \<le> ''2026-01-01T09:00:00Z''" "''2026-01-01T09:00:00Z'' \<le> ''2026-01-02T00:00:00Z''"
    by code_simp+
  then show ?thesis
    by (simp add: manifest_holds_def approval_snapshot_def consumption_facts_def release_facts_def not_less)
qed

lemma release_approval_ready:
  "approval_ready sample_release release_approval release_facts (pw_approvals approved_world)"
  using release_consumable
  by (simp add: approval_ready_def approved_world_def initial_world_def new_promotion_world_def
      new_approval_register_def assigned_administrator_def decided_projection_def sample_reviewer_def)

lemma release_target:
  "manifest_target_name sample_release = Inr ''asklegal-dev-hkg-20260101-bbbbbbbbbbbb''"
proof -
  have "pinecone_index_name ''dev'' ''hkg'' ''20260101'' (sample_digest CHR ''b'') ''proj''
      = Inr ''asklegal-dev-hkg-20260101-bbbbbbbbbbbb''" by code_simp
  then show ?thesis by (simp add: manifest_target_name_def)
qed

lemma demo_stable_id: "prefixed_id p (stable_id demo_platform p vs)"
  using demo_digest_law
  by (simp add: prefixed_id_def stable_id_def starts_with_def digest_law_def hex_word_def list_all_iff)
    (meson in_set_takeD)

lemma demo_fingerprint: "fingerprint_pattern (sha256_fingerprint demo_platform s)"
  using demo_digest_law by (simp add: fingerprint_pattern_def sha256_fingerprint_def digest_law_def starts_with_def)

lemma release_candidate_valid:
  "valid_serving_candidate (sample_state ''srv'' CHR ''a'') (serving_candidate_for sample_release release_approval
     sample_lineage ''asklegal-dev-hkg-20260101-bbbbbbbbbbbb'')"
proof -
  have "prefixed_id ''srv'' (sample_state ''srv'' CHR ''a'')" "prefixed_id ''srv'' (sample_state ''srv'' CHR ''b'')"
    "prefixed_id ''exe'' sample_lineage" "fingerprint_pattern (sample_digest CHR ''b'')"
    "fingerprint_pattern (sample_digest CHR ''1'')" "fingerprint_pattern (sample_digest CHR ''7'')"
    "serving_target_name ''asklegal-dev-hkg-20260101-bbbbbbbbbbbb''"
    by code_simp+
  moreover have "prefixed_id ''emp'' (ep_profile_id sample_profile)"
    "fingerprint_pattern (ep_profile_fingerprint sample_profile)"
    by (simp_all add: sample_profile_def Let_def embedding_profile.defs embedding_profile_input.defs
        demo_stable_id demo_fingerprint)
  moreover have "prefixed_id ''apr'' release_approval"
    by (simp add: release_approval_def approval_id_of_def demo_stable_id)
  ultimately show ?thesis
    by (simp add: valid_serving_candidate_def serving_candidate_for_def sample_inventory_def sample_coverage_def)
qed

lemma release_stores_ready:
  "stores_ready sample_release release_approval sample_lineage ''asklegal-dev-hkg-20260101-bbbbbbbbbbbb'' approved_world"
  using release_candidate_valid
  by (simp add: stores_ready_def approved_world_def initial_world_def new_promotion_world_def no_failures_def
      new_coverage_store_def new_serving_store_def)

text \<open>The local adapter embeds every request admissibly where its components are finite.\<close>

lemma local_embeds_all:
  assumes "po_embed ports = local_embed P F plan" and "ep_provider profile = ''LOCAL_FAKE''"
    and "0 \<le> ep_dimensions profile" and "\<not> fp_vector_mismatch plan"
    and "\<And>n. fl_finite F (fl_component F n)" and "po_finite ports = fl_finite F"
  shows "embeds_all ports profile requests"
  using assms by (simp add: embeds_all_def local_embed_def Let_def list_ex_iff list_all_iff)

lemma release_requests:
  obtains requests where
    "prepare_requests demo_platform sample_encoder sample_ports sample_release sample_lineage (ec_at release_facts)
       = Inr (requests, 2)"
    "embeds_all sample_ports sample_profile requests"
proof -
  have profile: "verify_embedding_profile demo_platform sample_encoder sample_profile = None"
    by (simp add: verify_embedding_profile_def canonical_fingerprint_def sample_encoder_def sample_profile_def
        Let_def embedding_profile.defs embedding_profile_input.defs embedding_profile_body_def)
  have "\<not> ''2026-12-31T00:00:00Z'' \<le> ''2026-01-01T09:00:00Z''" by code_simp
  then have "\<exists>requests. prepare_requests demo_platform sample_encoder sample_ports sample_release sample_lineage
      (ec_at release_facts) = Inr (requests, 2)"
    by (simp add: prepare_requests_def profile raise_if_def release_facts_def sample_inventory_def
        embedding_request_for_def request_input_def sample_ports_def sample_record_def Let_def)
  moreover have "embeds_all sample_ports sample_profile requests" for requests
    by (rule local_embeds_all [where plan = no_failures])
      (auto simp: sample_ports_def no_failures_def)
  ultimately show thesis using that by blast
qed

lemma release_input:
  obtains input where "input_fingerprint_for demo_platform sample_encoder sample_release release_approval
    sample_lineage release_facts None = Inr input"
  by (simp add: input_fingerprint_for_def execution_input_fingerprint_def canonical_fingerprint_def sample_encoder_def)

lemma approved_world_fresh: "map_of (pw_results approved_world) l = None"
  by (simp add: approved_world_def initial_world_def new_promotion_world_def)

text \<open>The sample release, with a lost acknowledgement on its way.\<close>

theorem approved_promotion_succeeds_witness:
  "\<exists>x W' S. execute demo_platform sample_encoder sample_ports sample_release release_approval sample_lineage
       release_facts None approved_world = (Inr x, W')
     \<and> xe_state x = ''EXECUTION_SUCCEEDED'' \<and> xe_total_cost_microunits x = 2
     \<and> pw_serving W' = Some S \<and> ss_active_state_id S = sample_state ''srv'' CHR ''b''"
proof -
  obtain requests where r: "prepare_requests demo_platform sample_encoder sample_ports sample_release sample_lineage
      (ec_at release_facts) = Inr (requests, 2)" "embeds_all sample_ports sample_profile requests"
    by (rule release_requests)
  obtain input where i: "input_fingerprint_for demo_platform sample_encoder sample_release release_approval
      sample_lineage release_facts None = Inr input" by (rule release_input)
  show ?thesis
    using approved_promotion_succeeds [OF release_decided [unfolded initial_world_def, symmetric] release_verified i
        approved_world_fresh _ _ r(1) _ _ release_target release_approval_ready release_stores_ready] r(2)
    by (simp add: release_facts_def sample_inventory_def sample_record_def)
qed

lemma approved_world_ok: "service_ok approved_world"
  unfolding release_decided [symmetric] initial_world_def by (rule service_history_ok)

lemma release_executes:
  obtains x W' S where
    "execute demo_platform sample_encoder sample_ports sample_release release_approval sample_lineage
       release_facts None approved_world = (Inr x, W')"
    "xe_state x = ''EXECUTION_SUCCEEDED''"
    "pw_serving W' = Some S" "ss_active_state_id S = sample_state ''srv'' CHR ''b''"
proof -
  obtain requests where r: "prepare_requests demo_platform sample_encoder sample_ports sample_release sample_lineage
      (ec_at release_facts) = Inr (requests, 2)" "embeds_all sample_ports sample_profile requests"
    by (rule release_requests)
  obtain input where i: "input_fingerprint_for demo_platform sample_encoder sample_release release_approval
      sample_lineage release_facts None = Inr input" by (rule release_input)
  from promotion_done [OF approved_world_ok release_verified i
        approved_world_fresh _ _ r(1) _ _ release_target release_approval_ready release_stores_ready] r(2) that
  show thesis by (auto simp: release_facts_def sample_inventory_def sample_record_def)
qed

lemma approved_world_serving:
  "map_option ss_active_state_id (pw_serving approved_world) = Some (sample_state ''srv'' CHR ''a'')"
  by (simp add: approved_world_def initial_world_def new_promotion_world_def new_serving_store_def)

theorem activation_passed_every_gate_witness:
  "\<exists>x W'. execute demo_platform sample_encoder sample_ports sample_release release_approval sample_lineage
       release_facts None approved_world = (Inr x, W')
     \<and> built_target demo_platform sample_ports sample_release ''asklegal-dev-hkg-20260101-bbbbbbbbbbbb'' W'"
proof -
  obtain x W' S where e: "execute demo_platform sample_encoder sample_ports sample_release release_approval
      sample_lineage release_facts None approved_world = (Inr x, W')"
    and s: "pw_serving W' = Some S" "ss_active_state_id S = sample_state ''srv'' CHR ''b''"
    by (rule release_executes)
  have "sample_state ''srv'' CHR ''a'' \<noteq> sample_state ''srv'' CHR ''b''" by code_simp
  with s approved_world_serving have "pw_serving W' \<noteq> pw_serving approved_world" by auto
  with activation_passed_every_gate [OF release_decided [unfolded initial_world_def, symmetric] e] e release_target
  show ?thesis by auto
qed

theorem execution_result_tells_active_state_witness:
  "\<exists>x W'. execute demo_platform sample_encoder sample_ports sample_release release_approval sample_lineage
       release_facts None approved_world = (Inr x, W') \<and> length (xe_embedding_receipt_ids x) = 2
     \<and> xe_target_name x = ''asklegal-dev-hkg-20260101-bbbbbbbbbbbb''"
proof -
  obtain x W' where e: "execute demo_platform sample_encoder sample_ports sample_release release_approval
      sample_lineage release_facts None approved_world = (Inr x, W')" by (rule release_executes)
  from execution_result_tells_active_state [OF e approved_world_fresh release_verified(2)] e release_target
  show ?thesis by (auto simp: sample_inventory_def)
qed

theorem lineage_replayed_witness:
  "\<exists>x W'. execute demo_platform sample_encoder sample_ports sample_release release_approval sample_lineage
       release_facts None (run (perform_service demo_platform sample_encoder sample_ports) [CoverageOp False] W')
     = (Inr x, run (perform_service demo_platform sample_encoder sample_ports) [CoverageOp False] W')"
proof -
  obtain x W' where e: "execute demo_platform sample_encoder sample_ports sample_release release_approval
      sample_lineage release_facts None approved_world = (Inr x, W')" by (rule release_executes)
  from lineage_replayed [OF e approved_world_fresh refl] show ?thesis by blast
qed

lemma execute_results_only:
  assumes "execute P canon ports m a l c fp W = (r, W')" and "k \<noteq> l"
  shows "map_of (pw_results W') k = map_of (pw_results W) k"
proof (cases rule: execute_cases [of P canon ports m a l c fp W])
  case (runs input)
  show ?thesis
    using execute_runs [where g = "\<lambda>W. map_of (pw_results W) k" and ports = ports, OF runs(1-4)] assms
    by (simp add: execute_once_results split: sum.splits)
qed (use assms in simp)

theorem approval_serves_one_lineage_witness:
  "\<exists>x W' e. execute demo_platform sample_encoder sample_ports sample_release release_approval sample_lineage
       release_facts None approved_world = (Inr x, W')
     \<and> execute demo_platform sample_encoder sample_ports sample_release release_approval ''exe_other''
         release_facts None W' = (Inl e, W')"
proof -
  obtain x W' where e: "execute demo_platform sample_encoder sample_ports sample_release release_approval
      sample_lineage release_facts None approved_world = (Inr x, W')" by (rule release_executes)
  have other: "''exe_other'' \<noteq> sample_lineage" by code_simp
  have "map_of (pw_results W') ''exe_other'' = None"
    using execute_results_only [OF e] other approved_world_fresh by simp
  with approval_serves_one_lineage [OF release_decided [unfolded initial_world_def, symmetric] e approved_world_fresh,
      of "[]" W' "''exe_other''"] other e
  show ?thesis by (auto simp: no_collision_def approval_calls_def)
qed

definition sample_target_store :: "nat target_store" where
  "sample_target_store = \<lparr>ts_plan = no_failures\<lparr>fp_lost_ack_once := True\<rparr>,
     ts_targets = [(''t'', target_definition_for demo_platform ''t'' sample_profile, [])], ts_lost_ack_fired = False\<rparr>"

theorem lost_acknowledgement_reconciled_witness:
  "fst (upsert_batch ''t'' [target_record_for (sample_record ''rec_1'') [1]] sample_target_store) = Inl OutcomeUnknown
   \<and> fst (upload_batch 0 ''t'' [target_record_for (sample_record ''rec_1'') [1]] sample_target_store) = Inr ()"
proof -
  have "targets_ok sample_target_store" "\<not> fp_partial_batch (ts_plan sample_target_store)"
    "\<not> fp_unknown_remote_record (ts_plan sample_target_store)"
    by (simp_all add: targets_ok_def sample_target_store_def no_failures_def)
  moreover have "map_of (ts_targets sample_target_store) ''t''
      = Some (target_definition_for demo_platform ''t'' sample_profile, [])"
    by (simp add: sample_target_store_def)
  ultimately show ?thesis
    using lost_acknowledgement_reconciled [of sample_target_store "''t''"
        "target_definition_for demo_platform ''t'' sample_profile" "[]"
        "[target_record_for (sample_record ''rec_1'') [1]]" 0]
    by (auto simp: upsert_batch_def sample_target_store_def no_failures_def)
qed

section \<open>A successor that retires the active target\<close>

definition successor_plan :: promotion_plan where
  "successor_plan = (sample_plan ''inv'')\<lparr>
     pp_base_serving_state_id := sample_state ''srv'' CHR ''b'',
     pp_candidate_serving_state_id := sample_state ''srv'' CHR ''d'',
     pp_candidate_serving_state_fingerprint := sample_digest CHR ''d'',
     pp_rollback_serving_state_id := sample_state ''srv'' CHR ''b'',
     pp_exact_retirement_target_ids := [sv_target_name sample_candidate]\<rparr>"

definition successor :: promotion_manifest where
  "successor = (let f = sha256_fingerprint demo_platform (json_text (manifest_body successor_plan)) in
     promotion_plan.extend successor_plan (promotion_manifest.fields (stable_id demo_platform ''pmn'' [f]) f))"

lemma successor_verified: "verify_for_execution demo_platform sample_encoder successor = None"
  "uses_v1_serving_state successor"
proof -
  have "plan_guards successor_plan = None"
    using sample_action_valid
    by (simp add: plan_guards_def validate_action_authorities_def plan_bindings_def successor_plan_def
        sample_plan_def sample_inventory_def Let_def) (simp add: sample_action_def)
  moreover have "v1_guards successor_plan = None"
    using sample_v1_guards [of "''inv''"] by (simp add: v1_guards_def successor_plan_def)
  ultimately have "freeze_v1_promotion_manifest demo_platform sample_encoder successor_plan = Inr successor"
    by (simp add: freeze_v1_promotion_manifest_def freeze_generic_promotion_manifest_def
        canonical_fingerprint_def sample_encoder_def successor_def Let_def)
  then have "verify_promotion_manifest demo_platform sample_encoder successor = None"
    by (simp add: verify_v1_None successor_def Let_def)
  moreover show "uses_v1_serving_state successor"
    by (simp add: uses_v1_serving_state_def successor_def successor_plan_def Let_def sample_plan_def
        promotion_plan.defs promotion_manifest.defs sample_action_def)
  ultimately show "verify_for_execution demo_platform sample_encoder successor = None"
    by (simp add: verify_for_execution_def)
qed

lemma successor_fields:
  "pp_exact_retirement_target_ids successor = [sv_target_name sample_candidate]"
  "manifest_target_name successor = Inr ''asklegal-dev-hkg-20260101-dddddddddddd''"
proof -
  have "pinecone_index_name ''dev'' ''hkg'' ''20260101'' (sample_digest CHR ''d'') ''proj''
      = Inr ''asklegal-dev-hkg-20260101-dddddddddddd''" by code_simp
  then show "manifest_target_name successor = Inr ''asklegal-dev-hkg-20260101-dddddddddddd''"
    by (simp add: manifest_target_name_def successor_def successor_plan_def Let_def sample_plan_def
        promotion_plan.defs promotion_manifest.defs)
  show "pp_exact_retirement_target_ids successor = [sv_target_name sample_candidate]"
    by (simp add: successor_def successor_plan_def Let_def sample_plan_def promotion_plan.defs
        promotion_manifest.defs)
qed

definition cutover_world :: "nat promotion_world" where
  "cutover_world = initial_world\<lparr>
     pw_targets := \<lparr>ts_plan = no_failures,
       ts_targets = [(sv_target_name sample_candidate, target_definition_for demo_platform ''t'' sample_profile, [])],
       ts_lost_ack_fired = False\<rparr>,
     pw_serving := Some (snd (activate_serving_state demo_platform sample_base sample_candidate
       (new_serving_store sample_base no_failures)))\<rparr>"

theorem active_target_can_be_retired_witness:
  "\<exists>receipt W'. retire_exact demo_platform sample_encoder successor (sv_target_name sample_candidate) cutover_world
       = (Inr receipt, W')
     \<and> map_option ss_active_state_id (pw_serving W') = Some (sv_state_id sample_candidate)"
proof -
  have "''asklegal-dev-hkg-20260101-dddddddddddd'' \<noteq> sv_target_name sample_candidate"
    by (simp add: sample_candidate_def)
  moreover have "contains_target (sv_target_name sample_candidate) (pw_targets cutover_world)"
    by (simp add: contains_target_def cutover_world_def)
  moreover have s: "pw_serving cutover_world = Some \<lparr>ss_plan = no_failures,
      ss_active_state_id = sv_state_id sample_candidate,
      ss_activations = [((sample_base, sample_candidate), activation_of demo_platform sample_base sample_candidate)],
      ss_active_activation = Some (sample_base, sample_candidate,
        activation_of demo_platform sample_base sample_candidate), ss_rollbacks = []\<rparr>"
    by (simp add: cutover_world_def sample_activates)
  ultimately show ?thesis
    using active_target_can_be_retired [OF successor_verified s _ _ _ successor_fields(2)]
    by (auto simp: successor_fields(1))
qed

end
