(* ===== verification/Coverage.thy ===== *)
theory Coverage
  imports Manifests Stores
begin

text \<open>
  Coverage statuses, \<^verbatim>\<open>packages/corpus/src/asklegal_corpus/builder.py\<close>: freezing the status of every
  scope, degrading all of them under a blocking source cycle, and reading a source cycle from the
  acquisition worker's document. The release gate on them is in \<^verbatim>\<open>Manifests\<close>.
\<close>

section \<open>Text values\<close>

primrec coverage_state_value :: "coverage_state \<Rightarrow> string" where
  "coverage_state_value CURRENT = ''CURRENT''"
| "coverage_state_value KNOWN_GAP = ''KNOWN_GAP''"
| "coverage_state_value NOT_READY = ''NOT_READY''"
| "coverage_state_value WITHHELD = ''WITHHELD''"

primrec coverage_warning_value :: "coverage_warning \<Rightarrow> string" where
  "coverage_warning_value COVERAGE_KNOWN_GAP = ''COVERAGE_KNOWN_GAP''"
| "coverage_warning_value COVERAGE_NOT_READY = ''COVERAGE_NOT_READY''"
| "coverage_warning_value COVERAGE_WITHHELD = ''COVERAGE_WITHHELD''"
| "coverage_warning_value NO_COVERAGE_WARNING = ''NO_COVERAGE_WARNING''"

primrec warning_by_state :: "coverage_state \<Rightarrow> coverage_warning" where
  "warning_by_state CURRENT = NO_COVERAGE_WARNING"
| "warning_by_state KNOWN_GAP = COVERAGE_KNOWN_GAP"
| "warning_by_state NOT_READY = COVERAGE_NOT_READY"
| "warning_by_state WITHHELD = COVERAGE_WITHHELD"

section \<open>Freezing coverage\<close>

definition source_cycle_body :: "source_cycle_binding \<Rightarrow> json" where
  "source_cycle_body c = JObject
     [(''accounting_complete'', JBoolean (sc_accounting_complete c)),
      (''byte_length'', JNumber (sc_byte_length c)),
      (''duplicate_source_ids'', JArray (map JText (sc_duplicate_source_ids c))),
      (''fingerprint'', JText (sc_fingerprint c)),
      (''gap_source_ids'', JArray (map JText (sc_gap_source_ids c))),
      (''logical_key'', JText (sc_logical_key c)),
      (''missing_source_ids'', JArray (map JText (sc_missing_source_ids c))),
      (''observation_cutoff'', JText (sc_observation_cutoff c)),
      (''release_blocking'', JBoolean (sc_release_blocking c)),
      (''vault'', JText (sc_vault c)), (''version_id'', JText (sc_version_id c))]"

definition source_cycle_reference :: "source_cycle_binding \<Rightarrow> string" where
  "source_cycle_reference c = sc_vault c @ '':'' @ sc_logical_key c @ ''@'' @ sc_version_id c
     @ ''#'' @ sc_fingerprint c @ '':'' @ decimal (sc_byte_length c)"

definition scope_status_body :: "coverage_scope_status \<Rightarrow> json" where
  "scope_status_body s = JObject
     [(''gap_refs'', JArray (map JText (cs_gap_refs s))),
      (''last_verified_at'', JText (cs_last_verified_at s)),
      (''quarantine_refs'', JArray (map JText (cs_quarantine_refs s))),
      (''scope_id'', JText (cs_scope_id s)),
      (''source_failure_refs'', JArray (map JText (cs_source_failure_refs s))),
      (''status'', JText (coverage_state_value (cs_status s))),
      (''warning'', JText (coverage_warning_value (cs_warning s)))]"

definition scope_evidence_count :: "coverage_scope_status \<Rightarrow> nat" where
  "scope_evidence_count s =
     length (cs_gap_refs s) + length (cs_quarantine_refs s) + length (cs_source_failure_refs s)"

definition validate_scope_status :: "coverage_scope_status \<Rightarrow> promotion_failure option" where
  "validate_scope_status s = raise_if
     (cs_warning s \<noteq> warning_by_state (cs_status s)
      \<or> (cs_status s = CURRENT \<and> scope_evidence_count s \<noteq> 0)
      \<or> (cs_status s \<noteq> CURRENT \<and> scope_evidence_count s = 0)) (CorpusError CoverageIncomplete)"

definition coverage_guards ::
    "string \<Rightarrow> string list \<Rightarrow> coverage_scope_status list \<Rightarrow> source_cycle_binding option
       \<Rightarrow> promotion_failure option" where
  "coverage_guards observation_cutoff expected ordered source_cycle = first_raise
     ([raise_if (map cs_scope_id ordered \<noteq> sort expected) (CorpusError CoverageIncomplete)]
      @ map validate_scope_status ordered
      @ [case source_cycle of None \<Rightarrow> None | Some c \<Rightarrow> validate_source_cycle_binding c observation_cutoff])"

definition coverage_body ::
    "string \<Rightarrow> string \<Rightarrow> coverage_scope_status list \<Rightarrow> source_cycle_binding option \<Rightarrow> json" where
  "coverage_body serving_state_id observation_cutoff ordered source_cycle = JObject
     ([(''observation_cutoff'', JText observation_cutoff),
       (''scopes'', JArray (map scope_status_body ordered)),
       (''serving_state_id'', JText serving_state_id)]
      @ (case source_cycle of None \<Rightarrow> [] | Some c \<Rightarrow> [(''source_cycle'', source_cycle_body c)]))"

definition freeze_coverage_status ::
    "platform \<Rightarrow> encoder \<Rightarrow> string \<Rightarrow> string \<Rightarrow> string list \<Rightarrow> coverage_scope_status list
       \<Rightarrow> source_cycle_binding option \<Rightarrow> promotion_failure + coverage_manifest" where
  "freeze_coverage_status P canon serving_state_id observation_cutoff expected statuses source_cycle =
     (let ordered = sort_key cs_scope_id statuses in
      case coverage_guards observation_cutoff expected ordered source_cycle of
        Some e \<Rightarrow> Inl e
      | None \<Rightarrow>
          (case canon (coverage_body serving_state_id observation_cutoff ordered source_cycle) of
             None \<Rightarrow> Inl ContractViolation
           | Some content \<Rightarrow>
               let f = sha256_fingerprint P content in
               Inr \<lparr>cm_manifest_id = stable_id P ''csm'' [serving_state_id, f],
                 cm_serving_state_id = serving_state_id, cm_observation_cutoff = observation_cutoff,
                 cm_scopes = ordered, cm_source_cycle = source_cycle, cm_canonical_bytes = content,
                 cm_fingerprint = f\<rparr>))"

text \<open>A status under a source cycle that is incomplete or blocks the release.\<close>

definition degraded_status :: "source_cycle_binding \<Rightarrow> coverage_scope_status \<Rightarrow> coverage_scope_status" where
  "degraded_status c s = \<lparr>cs_scope_id = cs_scope_id s, cs_status = NOT_READY,
     cs_last_verified_at = cs_last_verified_at s, cs_gap_refs = cs_gap_refs s,
     cs_quarantine_refs = cs_quarantine_refs s,
     cs_source_failure_refs = sort (remdups (source_cycle_reference c # cs_source_failure_refs s)),
     cs_warning = COVERAGE_NOT_READY\<rparr>"

definition source_blocked :: "source_cycle_binding \<Rightarrow> bool" where
  "source_blocked c \<longleftrightarrow> \<not> sc_accounting_complete c \<or> sc_release_blocking c"

definition freeze_v1_coverage_status ::
    "platform \<Rightarrow> encoder \<Rightarrow> string \<Rightarrow> string \<Rightarrow> string list \<Rightarrow> coverage_scope_status list
       \<Rightarrow> source_cycle_binding \<Rightarrow> promotion_failure + coverage_manifest" where
  "freeze_v1_coverage_status P canon serving_state_id observation_cutoff expected statuses c =
     (case validate_source_cycle_binding c observation_cutoff of
        Some e \<Rightarrow> Inl e
      | None \<Rightarrow> freeze_coverage_status P canon serving_state_id observation_cutoff expected
          (if source_blocked c then map (degraded_status c) statuses else statuses) (Some c))"

section \<open>Reading a source cycle\<close>

text \<open>The fields of a document; a JSON object has each key once.\<close>

definition cycle_text :: "(string \<times> json) list \<Rightarrow> string \<Rightarrow> promotion_failure + string" where
  "cycle_text document field = (case map_of document field of
     Some (JText value) \<Rightarrow> if value = [] then Inl (CorpusError CoverageIncomplete) else Inr value
   | _ \<Rightarrow> Inl (CorpusError CoverageIncomplete))"

definition cycle_integer :: "(string \<times> json) list \<Rightarrow> string \<Rightarrow> promotion_failure + int" where
  "cycle_integer document field = (case map_of document field of
     Some (JNumber i) \<Rightarrow> Inr i | _ \<Rightarrow> Inl (CorpusError CoverageIncomplete))"

definition cycle_boolean :: "(string \<times> json) list \<Rightarrow> string \<Rightarrow> promotion_failure + bool" where
  "cycle_boolean document field = (case map_of document field of
     Some (JBoolean b) \<Rightarrow> Inr b | _ \<Rightarrow> Inl (CorpusError CoverageIncomplete))"

fun text_of :: "json \<Rightarrow> promotion_failure + string" where
  "text_of (JText s) = Inr s"
| "text_of _ = Inl (CorpusError CoverageIncomplete)"

definition cycle_strings :: "(string \<times> json) list \<Rightarrow> string \<Rightarrow> promotion_failure + string list" where
  "cycle_strings document field = (case map_of document field of
     Some (JArray items) \<Rightarrow> collect text_of items | _ \<Rightarrow> Inl (CorpusError CoverageIncomplete))"

definition source_cycle_fields :: "string list" where
  "source_cycle_fields = [''accounting_complete'', ''byte_length'', ''duplicate_source_ids'',
     ''fingerprint'', ''gap_source_ids'', ''logical_key'', ''missing_source_ids'',
     ''observation_cutoff'', ''release_blocking'', ''vault'', ''version_id'']"

definition cycle_from_fields :: "(string \<times> json) list \<Rightarrow> promotion_failure + source_cycle_binding" where
  "cycle_from_fields document =
     and_then (cycle_text document ''vault'') (\<lambda>vault.
     and_then (cycle_text document ''logical_key'') (\<lambda>logical_key.
     and_then (cycle_text document ''version_id'') (\<lambda>version_id.
     and_then (cycle_text document ''fingerprint'') (\<lambda>fingerprint.
     and_then (cycle_integer document ''byte_length'') (\<lambda>byte_length.
     and_then (cycle_text document ''observation_cutoff'') (\<lambda>observation_cutoff.
     and_then (cycle_boolean document ''accounting_complete'') (\<lambda>accounting_complete.
     and_then (cycle_boolean document ''release_blocking'') (\<lambda>release_blocking.
     and_then (cycle_strings document ''missing_source_ids'') (\<lambda>missing.
     and_then (cycle_strings document ''duplicate_source_ids'') (\<lambda>duplicate.
     and_then (cycle_strings document ''gap_source_ids'') (\<lambda>gap.
       Inr \<lparr>sc_vault = vault, sc_logical_key = logical_key, sc_version_id = version_id,
         sc_fingerprint = fingerprint, sc_byte_length = byte_length,
         sc_observation_cutoff = observation_cutoff, sc_accounting_complete = accounting_complete,
         sc_release_blocking = release_blocking, sc_missing_source_ids = missing,
         sc_duplicate_source_ids = duplicate, sc_gap_source_ids = gap\<rparr>)))))))))))"

definition source_coverage_cycle_binding_from_json ::
    "json \<Rightarrow> promotion_failure + source_cycle_binding" where
  "source_coverage_cycle_binding_from_json value =
     (case value of
        JObject document \<Rightarrow>
          if set (map fst document) \<noteq> set source_cycle_fields then Inl (CorpusError CoverageIncomplete)
          else and_then (cycle_from_fields document) (\<lambda>binding.
            case validate_source_cycle_binding binding (sc_observation_cutoff binding) of
              Some e \<Rightarrow> Inl e | None \<Rightarrow> Inr binding)
      | _ \<Rightarrow> Inl (CorpusError CoverageIncomplete))"

end
