(* ===== verification/CoverageProperties.thy ===== *)
theory CoverageProperties
  imports Coverage ManifestProperties "HOL-Library.Multiset"
begin

text \<open>
  What coverage promises: a frozen V1 coverage is consistent scope by scope and follows its source
  cycle, so that an incomplete or blocking cycle leaves every scope not ready and stops every
  manifest over it; and the reader of source cycles inverts their canonical document.
\<close>

section \<open>Frozen coverage\<close>

lemma validate_scope_status_None:
  "validate_scope_status s = None \<longleftrightarrow> cs_warning s = warning_by_state (cs_status s)
     \<and> (cs_status s = CURRENT \<longleftrightarrow> scope_evidence_count s = 0)"
  by (auto simp: validate_scope_status_def)

lemma freeze_coverage_Inr:
  assumes "freeze_coverage_status P canon sid cutoff expected statuses cycle = Inr m"
  shows "cm_scopes m = sort_key cs_scope_id statuses" and "cm_source_cycle m = cycle"
    and "cm_observation_cutoff m = cutoff" and "map cs_scope_id (cm_scopes m) = sort expected"
    and "\<forall>s \<in> set (cm_scopes m). validate_scope_status s = None"
  using assms
  by (auto simp: freeze_coverage_status_def coverage_guards_def first_raise_None_iff Let_def split: option.splits)

lemma freeze_v1_coverage_Inr:
  "freeze_v1_coverage_status P canon sid cutoff expected statuses c = Inr m \<longleftrightarrow>
     validate_source_cycle_binding c cutoff = None
     \<and> freeze_coverage_status P canon sid cutoff expected
         (if source_blocked c then map (degraded_status c) statuses else statuses) (Some c) = Inr m"
  by (simp add: freeze_v1_coverage_status_def split: option.splits)

lemma release_gate:
  assumes "cm_source_cycle m = Some c" and "validate_source_cycle_binding c (cm_observation_cutoff m) = None"
  shows "verify_v1_coverage_release_gate m = (if source_blocked c then Some (CorpusError CoverageIncomplete) else None)"
  using assms by (simp add: verify_v1_coverage_release_gate_def source_blocked_def raise_if_def)

text \<open>
  C24: Coverage follows its source cycle. In a frozen V1 coverage the scopes are the expected ones
  in order, every warning is the one of its status, and a scope is current exactly when nothing
  is held against it. Under an incomplete or blocking cycle every scope is not ready and names
  the cycle among its source failures; the release gate passes exactly under the other cycles;
  and a V1 manifest over the coverage of a blocked cycle is refused.
\<close>

theorem coverage_follows_source_cycle:
  assumes "freeze_v1_coverage_status P canon sid cutoff expected statuses c = Inr m"
  shows "map cs_scope_id (cm_scopes m) = sort expected
     \<and> (\<forall>s \<in> set (cm_scopes m). cs_warning s = warning_by_state (cs_status s)
          \<and> (cs_status s = CURRENT \<longleftrightarrow> scope_evidence_count s = 0))
     \<and> (source_blocked c \<longrightarrow> (\<forall>s \<in> set (cm_scopes m). cs_status s = NOT_READY
          \<and> source_cycle_reference c \<in> set (cs_source_failure_refs s)))
     \<and> (verify_v1_coverage_release_gate m = None \<longleftrightarrow> \<not> source_blocked c)
     \<and> (source_blocked c \<longrightarrow> pp_coverage_status p = m
          \<longrightarrow> freeze_v1_promotion_manifest P canon p = Inl (CorpusError CoverageIncomplete))"
proof -
  have valid: "validate_source_cycle_binding c cutoff = None"
    and frozen: "freeze_coverage_status P canon sid cutoff expected
         (if source_blocked c then map (degraded_status c) statuses else statuses) (Some c) = Inr m"
    using assms by (simp_all add: freeze_v1_coverage_Inr)
  note m = freeze_coverage_Inr [OF frozen]
  have gate: "verify_v1_coverage_release_gate m = (if source_blocked c then Some (CorpusError CoverageIncomplete) else None)"
    by (rule release_gate) (simp_all add: m(2,3) valid)
  have "cs_status s = NOT_READY \<and> source_cycle_reference c \<in> set (cs_source_failure_refs s)"
    if "source_blocked c" "s \<in> set (cm_scopes m)" for s
    using that by (auto simp: m(1) degraded_status_def)
  moreover have "freeze_v1_promotion_manifest P canon p = Inl (CorpusError CoverageIncomplete)"
    if "source_blocked c" "pp_coverage_status p = m"
    using that gate by (simp add: freeze_v1_promotion_manifest_def v1_guards_def)
  ultimately show ?thesis using m(4,5) gate by (auto simp: validate_scope_status_None)
qed

text \<open>
  Coverage of a blocked cycle is never lost: with the expected scopes and an encoder that accepts
  the document, freezing succeeds whatever the statuses held.
\<close>

lemma blocked_coverage_frozen:
  assumes "source_blocked c" and "validate_source_cycle_binding c cutoff = None"
    and "sort (map cs_scope_id statuses) = sort expected" and "\<And>j. canon j \<noteq> None"
  shows "\<exists>m. freeze_v1_coverage_status P canon sid cutoff expected statuses c = Inr m"
proof -
  let ?ordered = "sort_key cs_scope_id (map (degraded_status c) statuses)"
  have "map cs_scope_id ?ordered = sort (map cs_scope_id statuses)"
  proof (rule properties_for_sort [symmetric])
    have "mset (map cs_scope_id ?ordered) = image_mset cs_scope_id (mset (map (degraded_status c) statuses))"
      by simp
    then show "mset (map cs_scope_id ?ordered) = mset (map cs_scope_id statuses)"
      by (simp add: image_mset.compositionality comp_def degraded_status_def)
  qed simp
  moreover have "validate_scope_status (degraded_status c s) = None" for s
  proof -
    have "cs_source_failure_refs (degraded_status c s) \<noteq> []"
    proof
      assume "cs_source_failure_refs (degraded_status c s) = []"
      then have "source_cycle_reference c \<in> set []"
        by (metis degraded_status_def coverage_scope_status.select_convs(6) list.set_intros(1) set_remdups set_sort)
      then show False by simp
    qed
    then show ?thesis
      by (simp add: validate_scope_status_None scope_evidence_count_def) (simp add: degraded_status_def)
  qed
  ultimately have "coverage_guards cutoff expected ?ordered (Some c) = None"
    using assms(2,3) by (auto simp: coverage_guards_def first_raise_None_iff)
  then show ?thesis
    using assms(1,2,4) by (auto simp: freeze_v1_coverage_status_def freeze_coverage_status_def Let_def split: option.splits)
qed

section \<open>Reading source cycles\<close>

lemma collect_text_of: "collect text_of items = Inr values \<longleftrightarrow> items = map JText values"
proof (induction items arbitrary: "values")
  case (Cons j items)
  then show ?case by (cases j; cases "values") auto
qed auto

lemma cycle_field_Inr:
  "cycle_text kvs f = Inr v \<longleftrightarrow> map_of kvs f = Some (JText v) \<and> v \<noteq> []"
  "cycle_integer kvs f = Inr i \<longleftrightarrow> map_of kvs f = Some (JNumber i)"
  "cycle_boolean kvs f = Inr b \<longleftrightarrow> map_of kvs f = Some (JBoolean b)"
  "cycle_strings kvs f = Inr vs \<longleftrightarrow> map_of kvs f = Some (JArray (map JText vs))"
  by (auto simp: cycle_text_def cycle_integer_def cycle_boolean_def cycle_strings_def collect_text_of
      split: option.splits json.splits if_splits)

definition cycle_pairs :: "source_cycle_binding \<Rightarrow> (string \<times> json) list" where
  "cycle_pairs c = (case source_cycle_body c of JObject kvs \<Rightarrow> kvs | _ \<Rightarrow> [])"

lemma source_cycle_pairs: "source_cycle_body c = JObject (cycle_pairs c)"
  by (simp add: cycle_pairs_def source_cycle_body_def)

lemma cycle_pairs_keys: "map fst (cycle_pairs c) = source_cycle_fields" "distinct source_cycle_fields"
  by (simp_all add: cycle_pairs_def source_cycle_body_def source_cycle_fields_def)

definition cycle_texts_present :: "source_cycle_binding \<Rightarrow> bool" where
  "cycle_texts_present c \<longleftrightarrow> sc_vault c \<noteq> [] \<and> sc_logical_key c \<noteq> [] \<and> sc_version_id c \<noteq> []
     \<and> sc_fingerprint c \<noteq> [] \<and> sc_observation_cutoff c \<noteq> []"

lemma cycle_from_fields_Inr:
  "cycle_from_fields kvs = Inr c \<longleftrightarrow>
     (\<forall>f \<in> set source_cycle_fields. map_of kvs f = map_of (cycle_pairs c) f) \<and> cycle_texts_present c"
  by (cases c) (auto simp: cycle_from_fields_def cycle_field_Inr cycle_pairs_def source_cycle_body_def
      source_cycle_fields_def cycle_texts_present_def)

lemma valid_cycle_texts:
  "validate_source_cycle_binding c cutoff = None \<Longrightarrow>
     cycle_texts_present c \<longleftrightarrow> sc_observation_cutoff c \<noteq> []"
  by (auto simp: validate_source_cycle_binding_def cycle_texts_present_def starts_with_def
      fingerprint_pattern_def Let_def)

text \<open>
  Reading a source cycle inverts writing it. A document with distinct keys is read as a source
  cycle exactly when its members are those of the cycle's own canonical document, in any order,
  the cycle passes validation at its own cutoff and that cutoff is not empty. So every valid cycle
  is read back as itself, and no document with a missing, foreign or altered field is.
\<close>

theorem source_cycle_round_trip:
  assumes "distinct (map fst document)"
  shows "source_coverage_cycle_binding_from_json (JObject document) = Inr c \<longleftrightarrow>
     (\<exists>pairs. source_cycle_body c = JObject pairs \<and> set document = set pairs)
     \<and> validate_source_cycle_binding c (sc_observation_cutoff c) = None \<and> sc_observation_cutoff c \<noteq> []"
proof -
  let ?read = "set (map fst document) = set source_cycle_fields
     \<and> (\<forall>f \<in> set source_cycle_fields. map_of document f = map_of (cycle_pairs c) f)"
  have pairs: "distinct (map fst (cycle_pairs c))" by (simp add: cycle_pairs_keys)
  have "?read \<longleftrightarrow> set document = set (cycle_pairs c)"
  proof
    assume r: ?read
    have "map_of document f = map_of (cycle_pairs c) f" for f
    proof (cases "f \<in> set source_cycle_fields")
      case False
      then show ?thesis using r cycle_pairs_keys(1) [of c] by (metis map_of_eq_None_iff set_map)
    qed (use r in blast)
    then show "set document = set (cycle_pairs c)" using map_of_inject_set [OF assms pairs] by blast
  next
    assume "set document = set (cycle_pairs c)"
    then show ?read
      using map_of_same_set [OF assms pairs] cycle_pairs_keys(1) [of c] by (metis set_map)
  qed
  moreover have "source_coverage_cycle_binding_from_json (JObject document) = Inr c \<longleftrightarrow>
     ?read \<and> cycle_texts_present c \<and> validate_source_cycle_binding c (sc_observation_cutoff c) = None"
    by (auto simp: source_coverage_cycle_binding_from_json_def cycle_from_fields_Inr split: option.splits)
  ultimately show ?thesis using valid_cycle_texts [of c] by (auto simp: source_cycle_pairs)
qed

section \<open>Examples\<close>

definition blocked_cycle :: source_cycle_binding where
  "blocked_cycle = sample_cycle\<lparr>sc_accounting_complete := False, sc_missing_source_ids := [''src-1'']\<rparr>"

definition current_scope :: coverage_scope_status where
  "current_scope = \<lparr>cs_scope_id = ''HK-LEG-ORDINANCES'', cs_status = CURRENT,
     cs_last_verified_at = ''2026-01-01T00:00:00Z'', cs_gap_refs = [], cs_quarantine_refs = [],
     cs_source_failure_refs = [], cs_warning = NO_COVERAGE_WARNING\<rparr>"

lemma sample_cycles_valid:
  "validate_source_cycle_binding sample_cycle ''2026-01-01T00:00:00Z'' = None"
  "validate_source_cycle_binding blocked_cycle ''2026-01-01T00:00:00Z'' = None"
  by code_simp+

theorem coverage_follows_source_cycle_witness:
  "\<exists>m. freeze_v1_coverage_status demo_platform sample_encoder ''srv'' ''2026-01-01T00:00:00Z''
       [''HK-LEG-ORDINANCES''] [current_scope] blocked_cycle = Inr m
     \<and> verify_v1_coverage_release_gate m \<noteq> None
     \<and> freeze_v1_promotion_manifest demo_platform sample_encoder
         ((sample_plan ''inv'')\<lparr>pp_coverage_status := m\<rparr>) = Inl (CorpusError CoverageIncomplete)"
proof -
  have blocked: "source_blocked blocked_cycle" by (simp add: source_blocked_def blocked_cycle_def)
  obtain m where m: "freeze_v1_coverage_status demo_platform sample_encoder ''srv'' ''2026-01-01T00:00:00Z''
       [''HK-LEG-ORDINANCES''] [current_scope] blocked_cycle = Inr m"
    using blocked_coverage_frozen [OF blocked sample_cycles_valid(2), of "[current_scope]" "[''HK-LEG-ORDINANCES'']"
        sample_encoder demo_platform "''srv''"]
    by (auto simp: current_scope_def sample_encoder_def)
  show ?thesis
    using coverage_follows_source_cycle [OF m, of "(sample_plan ''inv'')\<lparr>pp_coverage_status := m\<rparr>"] blocked
    by (intro exI [of _ m]) (simp add: m)
qed

theorem source_cycle_round_trip_witness:
  "source_coverage_cycle_binding_from_json (source_cycle_body sample_cycle) = Inr sample_cycle
   \<and> source_coverage_cycle_binding_from_json (JObject (rev (cycle_pairs sample_cycle))) = Inr sample_cycle"
proof -
  have "sc_observation_cutoff sample_cycle = ''2026-01-01T00:00:00Z''" by (simp add: sample_cycle_def)
  then show ?thesis
    using source_cycle_round_trip [of "cycle_pairs sample_cycle" sample_cycle]
      source_cycle_round_trip [of "rev (cycle_pairs sample_cycle)" sample_cycle] sample_cycles_valid(1)
    by (simp add: source_cycle_pairs cycle_pairs_keys rev_map [symmetric])
qed

end
