(* ===== verification/Corpus.thy ===== *)
theory Corpus
  imports PromotionModel Stores
begin

text \<open>
  The corpus builder, \<^verbatim>\<open>packages/corpus/src/asklegal_corpus/builder.py\<close>: sealing one scope's records
  into a release, composing releases into the desired state of a target, and freezing the coverage
  of its scopes. Source bytes are text; a canonical encoding is an \<^verbatim>\<open>encoder\<close> argument.
\<close>

section \<open>Releases\<close>

record release_entry =
  le_record :: serving_record
  le_serving_payload_fingerprint :: string

record corpus_release_input =
  li_scope_id :: string
  li_observation_cutoff :: string
  li_evidence_refs :: "string list"
  li_validation_refs :: "string list"
  li_withholding_refs :: "string list"
  li_zero_record_justification_refs :: "string list"

record corpus_release =
  lr_release_id :: string
  lr_scope_id :: string
  lr_observation_cutoff :: string
  lr_records :: "release_entry list"
  lr_evidence_refs :: "string list"
  lr_validation_refs :: "string list"
  lr_withholding_refs :: "string list"
  lr_zero_record_justification_refs :: "string list"
  lr_records_fingerprint :: string
  lr_release_fingerprint :: string

definition record_payload :: "serving_record \<Rightarrow> json" where
  "record_payload r = JObject
     [(''authority_note'', JText (sr_authority_note r)), (''country'', JText (sr_country r)),
      (''jurisdiction'', JText (sr_jurisdiction r)), (''source'', JText (sr_source r)),
      (''text'', JText (sr_text r)), (''type'', JText (sr_material_type r))]"

definition serving_payload_fingerprint ::
    "platform \<Rightarrow> encoder \<Rightarrow> serving_record \<Rightarrow> promotion_failure + string" where
  "serving_payload_fingerprint P canon r =
     (if list_ex (\<lambda>value. value = []) [sr_record_id r, sr_text r, sr_country r, sr_jurisdiction r,
        sr_material_type r, sr_source r, sr_authority_note r, sr_artifact_ref r]
      then Inl (CorpusError FingerprintMismatch)
      else canonical_fingerprint P canon (record_payload r))"

definition release_entry_for ::
    "platform \<Rightarrow> encoder \<Rightarrow> serving_record \<Rightarrow> promotion_failure + release_entry" where
  "release_entry_for P canon r = and_then (serving_payload_fingerprint P canon r) (\<lambda>f.
     Inr \<lparr>le_record = r, le_serving_payload_fingerprint = f\<rparr>)"

definition release_records_body :: "release_entry list \<Rightarrow> json" where
  "release_records_body entries = JArray (map (\<lambda>e. JObject
     [(''content_fingerprint'', JText (le_serving_payload_fingerprint e)),
      (''record_id'', JText (sr_record_id (le_record e)))]) entries)"

definition release_body :: "corpus_release_input \<Rightarrow> string \<Rightarrow> json" where
  "release_body i records_fingerprint = JObject
     [(''evidence_refs'', JArray (map JText (li_evidence_refs i))),
      (''observation_cutoff'', JText (li_observation_cutoff i)),
      (''records_fingerprint'', JText records_fingerprint),
      (''scope_id'', JText (li_scope_id i)),
      (''validation_refs'', JArray (map JText (li_validation_refs i))),
      (''withholding_refs'', JArray (map JText (li_withholding_refs i))),
      (''zero_record_justification_refs'', JArray (map JText (li_zero_record_justification_refs i)))]"

definition release_guards :: "corpus_release_input \<Rightarrow> serving_record list \<Rightarrow> promotion_failure option" where
  "release_guards i ordered = first_raise
     [raise_if (\<not> distinct (map sr_record_id ordered)) (CorpusError DuplicateRecord),
      raise_if (li_evidence_refs i = [] \<or> li_validation_refs i = []) (CorpusError CorpusInventoryMismatch),
      raise_if (ordered = [] \<and> li_zero_record_justification_refs i = [] \<and> li_withholding_refs i = [])
        (CorpusError ZeroRecordUnjustified)]"

definition freeze_corpus_release ::
    "platform \<Rightarrow> encoder \<Rightarrow> corpus_release_input \<Rightarrow> serving_record list
       \<Rightarrow> promotion_failure + corpus_release" where
  "freeze_corpus_release P canon i records =
     (let ordered = sort_key sr_record_id records in
      case release_guards i ordered of
        Some e \<Rightarrow> Inl e
      | None \<Rightarrow>
          and_then (collect (release_entry_for P canon) ordered) (\<lambda>entries.
          and_then (canonical_fingerprint P canon (release_records_body entries)) (\<lambda>records_fingerprint.
          and_then (canonical_fingerprint P canon (release_body i records_fingerprint)) (\<lambda>release_fingerprint.
            Inr \<lparr>lr_release_id = stable_id P ''rel''
                   [li_scope_id i, li_observation_cutoff i, release_fingerprint],
                 lr_scope_id = li_scope_id i, lr_observation_cutoff = li_observation_cutoff i,
                 lr_records = entries, lr_evidence_refs = li_evidence_refs i,
                 lr_validation_refs = li_validation_refs i,
                 lr_withholding_refs = li_withholding_refs i,
                 lr_zero_record_justification_refs = li_zero_record_justification_refs i,
                 lr_records_fingerprint = records_fingerprint,
                 lr_release_fingerprint = release_fingerprint\<rparr>))))"

section \<open>The desired state\<close>

definition flattened_for :: "string \<Rightarrow> corpus_release \<Rightarrow> release_entry \<Rightarrow> flattened_record" where
  "flattened_for scope r e = \<lparr>fr_record_id = sr_record_id (le_record e),
     fr_content_fingerprint = le_serving_payload_fingerprint e, fr_scope_id = scope,
     fr_release_id = lr_release_id r, fr_record = le_record e\<rparr>"

definition desired_records_body :: "flattened_record list \<Rightarrow> json" where
  "desired_records_body records = JArray (map (\<lambda>r. JObject
     [(''content_fingerprint'', JText (fr_content_fingerprint r)),
      (''record_id'', JText (fr_record_id r)), (''release_id'', JText (fr_release_id r)),
      (''scope_id'', JText (fr_scope_id r))]) records)"

definition inventory_body :: "string \<Rightarrow> string \<Rightarrow> (string \<times> string) list \<Rightarrow> string \<Rightarrow> json" where
  "inventory_body observation_cutoff records_fingerprint selections target_key = JObject
     [(''observation_cutoff'', JText observation_cutoff),
      (''records_fingerprint'', JText records_fingerprint),
      (''scope_releases'', JArray (map (\<lambda>(scope, release). JArray [JText scope, JText release]) selections)),
      (''target_key'', JText target_key)]"

text \<open>\<^verbatim>\<open>by_scope[scope_id]\<close> is only evaluated where every required scope has its release.\<close>

definition releases_by_scope :: "corpus_release list \<Rightarrow> (string \<times> corpus_release) list" where
  "releases_by_scope releases = dict_of (map (\<lambda>r. (lr_scope_id r, r)) releases)"

definition flatten_releases :: "string list \<Rightarrow> (string \<times> corpus_release) list \<Rightarrow> flattened_record list" where
  "flatten_releases required by_scope = sort_key fr_record_id (concat (map (\<lambda>scope.
     case map_of by_scope scope of None \<Rightarrow> []
     | Some r \<Rightarrow> map (flattened_for scope r) (lr_records r)) (sort required)))"

definition compose_desired_state ::
    "platform \<Rightarrow> encoder \<Rightarrow> string list \<Rightarrow> corpus_release list \<Rightarrow> string \<Rightarrow> string
       \<Rightarrow> promotion_failure + desired_state_inventory" where
  "compose_desired_state P canon required releases target_key observation_cutoff =
     (let by_scope = releases_by_scope releases;
          flattened = flatten_releases required by_scope;
          selections = map (\<lambda>(scope, r). (scope, lr_release_id r)) (sort_key fst by_scope) in
      case first_raise
        [raise_if (\<not> distinct required) (CorpusError ReleaseScopeMismatch),
         raise_if (length by_scope \<noteq> length releases \<or> set (map fst by_scope) \<noteq> set required)
           (CorpusError ReleaseScopeMismatch),
         raise_if (\<not> distinct (map fr_record_id flattened)) (CorpusError DuplicateRecord)] of
        Some e \<Rightarrow> Inl e
      | None \<Rightarrow>
          and_then (canonical_fingerprint P canon (desired_records_body flattened)) (\<lambda>records_fingerprint.
          and_then (canonical_fingerprint P canon
              (inventory_body observation_cutoff records_fingerprint selections target_key)) (\<lambda>f.
            Inr \<lparr>di_inventory_id = stable_id P ''dsi'' [target_key, observation_cutoff, f],
                 di_target_key = target_key, di_observation_cutoff = observation_cutoff,
                 di_scope_releases = selections, di_records = flattened,
                 di_records_fingerprint = records_fingerprint, di_inventory_fingerprint = f\<rparr>)))"

end
