(* ===== verification/Traceability.thy ===== *)
theory Traceability
  imports Corpus
begin

text \<open>
  The record traceability lookup of the corpus builder,
  \<^verbatim>\<open>packages/corpus/src/asklegal_corpus/builder.py\<close>: the validated canonical body of every entry, and
  the shards that hold the entries of one release scope each. Every failed check raises
  \<^verbatim>\<open>TRACEABILITY_INCOMPLETE\<close>; the checks on the Python type of a value have no counterpart.
\<close>

section \<open>Values\<close>

record traceability_reference =
  tr_type :: string
  tr_id :: string
  tr_fingerprint :: string

record authority_note_evidence =
  an_rendered_value_fingerprint :: string
  an_decision_ref :: traceability_reference
  an_supporting_evidence_refs :: "traceability_reference list"

record traceability_entry =
  te_search_record_id :: string
  te_serving_payload_fingerprint :: string
  te_serving_record_profile_id :: string
  te_legal_item_id :: string
  te_official_version_ids :: "string list"
  te_legal_location_ids :: "string list"
  te_release_scope_id :: string
  te_corpus_release_id :: string
  te_evidence_refs :: "traceability_reference list"
  te_authority_note_evidence :: authority_note_evidence
  te_grouping_ids :: "string list"
  te_display_citation_ids :: "string list"

record serving_record_profile =
  sp_serving_record_profile_id :: string
  sp_schema_version :: string
  sp_schema_fingerprint :: string

record scope_shard_input =
  ss_release_scope_id :: string
  ss_corpus_release_id :: string
  ss_lookup_shard_id :: string

record traceability_shard =
  ts_release_scope_id :: string
  ts_corpus_release_id :: string
  ts_lookup_shard_id :: string
  ts_path :: string
  ts_content :: string
  ts_entry_count :: nat
  ts_fingerprint :: string

record traceability_lookup =
  tl_lookup_revision_id :: string
  tl_desired_state_inventory_id :: string
  tl_profiles :: "serving_record_profile list"
  tl_shards :: "traceability_shard list"
  tl_total_entry_count :: nat
  tl_manifest_bytes :: string
  tl_fingerprint :: string

record traceability_lookup_input =
  ti_lookup_revision_id :: string
  ti_manifest_schema_fingerprint :: string
  ti_entry_schema_fingerprint :: string

section \<open>Patterns\<close>

definition traceability_reference_types :: "string list" where
  "traceability_reference_types =
     [''ACTOR'', ''AGGREGATE'', ''APPROVAL'', ''ARTIFACT'', ''ATTESTATION'', ''BUILD'',
      ''CAPABILITY_PROFILE'', ''CARRY_FORWARD_SELECTION'', ''COMMAND'', ''COMMAND_RESULT'',
      ''CONFIGURATION'', ''CONTRACT'', ''CONTRACT_SET'', ''CORPUS_RELEASE'', ''COVERAGE_GAP'',
      ''DECISION'', ''DESIRED_STATE_INVENTORY'', ''EFFECT_INTENT'', ''EFFECT_RECEIPT'',
      ''EMBEDDING_PROFILE'', ''EMBEDDING_RECEIPT'', ''EMBEDDING_REQUEST'', ''EVIDENCE'',
      ''EXECUTION_EVENT'', ''EXECUTION_LINEAGE'', ''LEGAL_ITEM'', ''LEGAL_LOCATION'',
      ''LEGAL_STATUS_EVENT'', ''OBSERVATION'', ''OFFICIAL_VERSION'', ''PINECONE_INDEX_GENERATION'',
      ''POLICY_PROFILE'', ''PROMOTION_MANIFEST'', ''PROPOSAL_PACKAGE'', ''QUARANTINE'',
      ''QUERY_CONTRACT'', ''RECORD_TRACEABILITY_LOOKUP'', ''RELEASE_SCOPE'', ''RELEASE_SCOPE_REGISTRY'',
      ''ROUTING_CONFIGURATION'', ''RULEBOOK'', ''SEARCH_RECORD'', ''SERVING_STATE'', ''SOURCE'',
      ''SOURCE_ENDPOINT'', ''SOURCE_SNAPSHOT'', ''VALIDATION'', ''WORKFLOW_PROFILE'', ''WORK_ITEM'']"

definition release_scope_pattern :: "string \<Rightarrow> bool" where
  "release_scope_pattern s \<longleftrightarrow> prefixed_id ''rsc'' s \<or> s \<in> set [''HK-CASE-BINDING-POST-1997'',
     ''HK-LEG-CONSTITUTIONAL-AND-OTHER-INSTRUMENTS'', ''HK-LEG-ORDINANCES'', ''HK-LEG-SUBSIDIARY'']"

abbreviation untraceable :: promotion_failure where
  "untraceable \<equiv> CorpusError TraceabilityIncomplete"

section \<open>Bodies\<close>

definition validate_trace_fingerprint :: "string \<Rightarrow> promotion_failure option" where
  "validate_trace_fingerprint value = raise_if (\<not> fingerprint_pattern value) untraceable"

definition trace_reference_body :: "traceability_reference \<Rightarrow> promotion_failure + json" where
  "trace_reference_body r = guarded
     [raise_if (tr_type r \<notin> set traceability_reference_types \<or> \<not> id_pattern (tr_id r)) untraceable,
      validate_trace_fingerprint (tr_fingerprint r)]
     (Inr (JObject [(''fingerprint'', JText (tr_fingerprint r)), (''ref_id'', JText (tr_id r)),
        (''ref_type'', JText (tr_type r))]))"

definition trace_reference_sort_key :: "traceability_reference \<Rightarrow> string \<times> string \<times> string" where
  "trace_reference_sort_key r = (tr_type r, tr_id r, tr_fingerprint r)"

definition require_sorted_unique_strings ::
    "string list \<Rightarrow> (string \<Rightarrow> bool) \<Rightarrow> bool \<Rightarrow> promotion_failure option" where
  "require_sorted_unique_strings values pattern required = raise_if
     (required \<and> values = [] \<or> values \<noteq> sort (remdups values) \<or> \<not> list_all pattern values) untraceable"

definition require_sorted_unique_references ::
    "traceability_reference list \<Rightarrow> bool \<Rightarrow> promotion_failure option" where
  "require_sorted_unique_references values required =
     (let keys = map trace_reference_sort_key values in first_raise
       [raise_if (required \<and> values = []) untraceable,
        raise_if (keys \<noteq> sort (remdups keys)) untraceable])"

definition authority_note_body ::
    "platform \<Rightarrow> authority_note_evidence \<Rightarrow> string \<Rightarrow> promotion_failure + json" where
  "authority_note_body P a authority_note = guarded
     [raise_if (an_rendered_value_fingerprint a \<noteq> sha256_fingerprint P authority_note) untraceable,
      require_sorted_unique_references (an_supporting_evidence_refs a) False]
     (and_then (trace_reference_body (an_decision_ref a)) (\<lambda>decision.
      and_then (collect trace_reference_body (an_supporting_evidence_refs a)) (\<lambda>supporting.
        Inr (JObject [(''decision_ref'', decision),
          (''rendered_value_fingerprint'', JText (an_rendered_value_fingerprint a)),
          (''supporting_evidence_refs'', JArray supporting)]))))"

definition entry_identity_guard :: "string set \<Rightarrow> traceability_entry \<Rightarrow> promotion_failure option" where
  "entry_identity_guard profile_ids e = raise_if
     (\<not> prefixed_id ''rec'' (te_search_record_id e) \<or> \<not> prefixed_id ''lit'' (te_legal_item_id e)
      \<or> \<not> release_scope_pattern (te_release_scope_id e) \<or> \<not> prefixed_id ''rel'' (te_corpus_release_id e)
      \<or> te_serving_record_profile_id e = [] \<or> te_serving_record_profile_id e \<notin> profile_ids) untraceable"

definition entry_binding_guard ::
    "traceability_entry \<Rightarrow> flattened_record \<Rightarrow> string \<Rightarrow> promotion_failure option" where
  "entry_binding_guard e r expected_payload = raise_if
     (te_search_record_id e \<noteq> fr_record_id r \<or> te_release_scope_id e \<noteq> fr_scope_id r
      \<or> te_corpus_release_id e \<noteq> fr_release_id r
      \<or> te_serving_payload_fingerprint e \<noteq> fr_content_fingerprint r
      \<or> te_serving_payload_fingerprint e \<noteq> expected_payload) untraceable"

definition entry_list_guards :: "traceability_entry \<Rightarrow> promotion_failure option list" where
  "entry_list_guards e =
     [require_sorted_unique_strings (te_official_version_ids e) (prefixed_id ''ofv'') True,
      require_sorted_unique_strings (te_legal_location_ids e) (prefixed_id ''loc'') True,
      require_sorted_unique_strings (te_grouping_ids e) id_pattern False,
      require_sorted_unique_strings (te_display_citation_ids e) id_pattern False,
      require_sorted_unique_references (te_evidence_refs e) True]"

definition entry_fields :: "traceability_entry \<Rightarrow> json \<Rightarrow> json list \<Rightarrow> json" where
  "entry_fields e authority evidence = JObject
     [(''authority_note_evidence'', authority),
      (''corpus_release_id'', JText (te_corpus_release_id e)),
      (''display_citation_ids'', JArray (map JText (te_display_citation_ids e))),
      (''evidence_refs'', JArray evidence),
      (''grouping_ids'', JArray (map JText (te_grouping_ids e))),
      (''legal_item_id'', JText (te_legal_item_id e)),
      (''legal_location_ids'', JArray (map JText (te_legal_location_ids e))),
      (''official_version_ids'', JArray (map JText (te_official_version_ids e))),
      (''release_scope_id'', JText (te_release_scope_id e)),
      (''search_record_id'', JText (te_search_record_id e)),
      (''serving_payload_fingerprint'', JText (te_serving_payload_fingerprint e)),
      (''serving_record_profile_id'', JText (te_serving_record_profile_id e))]"

definition traceability_entry_body ::
    "platform \<Rightarrow> encoder \<Rightarrow> traceability_entry \<Rightarrow> flattened_record \<Rightarrow> string set
       \<Rightarrow> promotion_failure + json" where
  "traceability_entry_body P canon e r profile_ids =
     guarded [entry_identity_guard profile_ids e]
       (and_then (serving_payload_fingerprint P canon (fr_record r)) (\<lambda>expected_payload.
        guarded (entry_binding_guard e r expected_payload # entry_list_guards e)
          (and_then (authority_note_body P (te_authority_note_evidence e) (sr_authority_note (fr_record r)))
            (\<lambda>authority.
           and_then (collect trace_reference_body (te_evidence_refs e)) (\<lambda>evidence.
             Inr (entry_fields e authority evidence))))))"

definition serving_profile_body :: "serving_record_profile \<Rightarrow> promotion_failure + json" where
  "serving_profile_body p = guarded
     [raise_if (sp_serving_record_profile_id p = [] \<or> \<not> version_pattern (sp_schema_version p)) untraceable,
      validate_trace_fingerprint (sp_schema_fingerprint p)]
     (Inr (JObject [(''schema_fingerprint'', JText (sp_schema_fingerprint p)),
        (''schema_version'', JText (sp_schema_version p)),
        (''serving_record_profile_id'', JText (sp_serving_record_profile_id p))]))"

section \<open>Shards\<close>

text \<open>\<^verbatim>\<open>b"".join(_canonical(body) + b"\n" for body in bodies)\<close>\<close>

definition encoded_lines :: "encoder \<Rightarrow> json list \<Rightarrow> promotion_failure + string" where
  "encoded_lines canon bodies = and_then (collect (\<lambda>body.
     case canon body of None \<Rightarrow> Inl ContractViolation | Some raw \<Rightarrow> Inr (raw @ [CHR 0x0A])) bodies)
     (\<lambda>lines. Inr (concat lines))"

definition scope_bodies :: "string \<Rightarrow> (traceability_entry \<times> json) list \<Rightarrow> json list" where
  "scope_bodies scope bodies = map snd (filter (\<lambda>(e, body). te_release_scope_id e = scope) bodies)"

text \<open>A shard is built only for the scope of a required release.\<close>

definition build_shard ::
    "platform \<Rightarrow> encoder \<Rightarrow> (string \<times> string) list \<Rightarrow> (traceability_entry \<times> json) list
       \<Rightarrow> scope_shard_input \<Rightarrow> promotion_failure + traceability_shard" where
  "build_shard P canon scope_releases bodies i =
     guarded [raise_if (\<not> release_scope_pattern (ss_release_scope_id i)
         \<or> \<not> prefixed_id ''rel'' (ss_corpus_release_id i) \<or> \<not> prefixed_id ''rts'' (ss_lookup_shard_id i)
         \<or> map_of scope_releases (ss_release_scope_id i) \<noteq> Some (ss_corpus_release_id i)) untraceable]
       (and_then (encoded_lines canon (scope_bodies (ss_release_scope_id i) bodies)) (\<lambda>content.
         Inr \<lparr>ts_release_scope_id = ss_release_scope_id i, ts_corpus_release_id = ss_corpus_release_id i,
           ts_lookup_shard_id = ss_lookup_shard_id i,
           ts_path = ''entries/'' @ ss_lookup_shard_id i @ ''.ndjson'', ts_content = content,
           ts_entry_count = length (scope_bodies (ss_release_scope_id i) bodies),
           ts_fingerprint = sha256_fingerprint P content\<rparr>))"

definition shard_descriptor :: "traceability_shard \<Rightarrow> json" where
  "shard_descriptor s = JObject
     [(''artifact_fingerprint'', JText (ts_fingerprint s)),
      (''corpus_release_id'', JText (ts_corpus_release_id s)),
      (''entry_count'', JNumber (int (ts_entry_count s))),
      (''lookup_shard_id'', JText (ts_lookup_shard_id s)),
      (''media_type'', JText ''application/x-ndjson''),
      (''path'', JText (ts_path s)),
      (''release_scope_id'', JText (ts_release_scope_id s))]"

definition lookup_manifest ::
    "traceability_lookup_input \<Rightarrow> json list \<Rightarrow> traceability_shard list \<Rightarrow> nat \<Rightarrow> json" where
  "lookup_manifest i profile_bodies shards entry_total = JObject
     [(''entry_schema_fingerprint'', JText (ti_entry_schema_fingerprint i)),
      (''entry_schema_id'', JText ''asklegal.record-traceability-entry''),
      (''entry_schema_version'', JText ''1.0.0''),
      (''lookup_revision_id'', JText (ti_lookup_revision_id i)),
      (''manifest_schema_fingerprint'', JText (ti_manifest_schema_fingerprint i)),
      (''schema_id'', JText ''asklegal.record-traceability-lookup-manifest''),
      (''schema_version'', JText ''1.0.0''),
      (''serving_record_profiles'', JArray profile_bodies),
      (''shards'', JArray (map shard_descriptor shards)),
      (''total_entry_count'', JNumber (int entry_total))]"

section \<open>The lookup\<close>

definition lookup_identity_guards :: "traceability_lookup_input \<Rightarrow> promotion_failure option list" where
  "lookup_identity_guards i =
     [raise_if (\<not> prefixed_id ''rtl'' (ti_lookup_revision_id i)) untraceable,
      validate_trace_fingerprint (ti_manifest_schema_fingerprint i),
      validate_trace_fingerprint (ti_entry_schema_fingerprint i)]"

definition entry_inventory_guards ::
    "desired_state_inventory \<Rightarrow> traceability_entry list \<Rightarrow> promotion_failure option list" where
  "entry_inventory_guards d entries =
     [raise_if (\<not> distinct (map fr_record_id (di_records d))
        \<or> te_search_record_id ` set entries \<noteq> fr_record_id ` set (di_records d)) untraceable,
      raise_if (\<not> distinct (map te_search_record_id entries)) untraceable]"

definition shard_scope_guards ::
    "desired_state_inventory \<Rightarrow> scope_shard_input list \<Rightarrow> promotion_failure option list" where
  "shard_scope_guards d shards =
     [raise_if (\<not> distinct (map fst (di_scope_releases d))
        \<or> ss_release_scope_id ` set shards \<noteq> fst ` set (di_scope_releases d)) untraceable,
      raise_if (\<not> distinct (map ss_release_scope_id shards)) untraceable]"

text \<open>\<^verbatim>\<open>desired_by_id[entry.search_record_id]\<close>, where the inventory guard passed.\<close>

definition entry_body_in ::
    "platform \<Rightarrow> encoder \<Rightarrow> desired_state_inventory \<Rightarrow> string set \<Rightarrow> traceability_entry
       \<Rightarrow> promotion_failure + json" where
  "entry_body_in P canon d profile_ids e =
     (case map_of (map (\<lambda>r. (fr_record_id r, r)) (di_records d)) (te_search_record_id e) of
        None \<Rightarrow> Inl KeyError
      | Some r \<Rightarrow> traceability_entry_body P canon e r profile_ids)"

definition freeze_record_traceability_lookup ::
    "platform \<Rightarrow> encoder \<Rightarrow> traceability_lookup_input \<Rightarrow> desired_state_inventory
       \<Rightarrow> traceability_entry list \<Rightarrow> serving_record_profile list \<Rightarrow> scope_shard_input list
       \<Rightarrow> promotion_failure + traceability_lookup" where
  "freeze_record_traceability_lookup P canon i d entries profiles scope_shards =
     (let ordered_profiles = sort_key sp_serving_record_profile_id profiles;
          profile_ids = map sp_serving_record_profile_id ordered_profiles;
          ordered_entries = sort_key te_search_record_id entries;
          ordered_shards = sort_key ss_release_scope_id scope_shards in
      guarded (lookup_identity_guards i @ [raise_if (\<not> distinct profile_ids) untraceable])
        (and_then (collect serving_profile_body ordered_profiles) (\<lambda>profile_bodies.
         guarded (entry_inventory_guards d ordered_entries)
          (and_then (collect (entry_body_in P canon d (set profile_ids)) ordered_entries) (\<lambda>entry_bodies.
           guarded (raise_if (te_serving_record_profile_id ` set ordered_entries \<noteq> set profile_ids) untraceable
              # shard_scope_guards d ordered_shards)
            (and_then (collect (build_shard P canon (di_scope_releases d) (zip ordered_entries entry_bodies))
                ordered_shards) (\<lambda>shards.
             case canon (lookup_manifest i profile_bodies shards (length entry_bodies)) of
               None \<Rightarrow> Inl ContractViolation
             | Some manifest_bytes \<Rightarrow>
                 Inr \<lparr>tl_lookup_revision_id = ti_lookup_revision_id i,
                   tl_desired_state_inventory_id = di_inventory_id d, tl_profiles = ordered_profiles,
                   tl_shards = shards, tl_total_entry_count = length entry_bodies,
                   tl_manifest_bytes = manifest_bytes,
                   tl_fingerprint = sha256_fingerprint P manifest_bytes\<rparr>)))))))"

end
