(* ===== verification/CorpusProperties.thy ===== *)
theory CorpusProperties
  imports Corpus ManifestProperties "HOL-Library.Multiset"
begin

text \<open>
  What the corpus builder promises: the desired state is exactly the union of the releases of its
  scopes, neither sealing nor composing depends on the order of its inputs, and a manifest
  fingerprint binds the records that are served. A composed and approved example closes the theory.
\<close>

section \<open>Releases by scope\<close>

lemma keys_dict_of [simp]: "fst ` set (dict_of kvs) = fst ` set kvs"
proof (induction kvs rule: rev_induct)
  case (snoc kv kvs)
  have "set (map fst (AList.update k v m)) = insert k (set (map fst m))" for k v and m :: "('a \<times> 'b) list"
    by (simp add: update_keys) auto
  then show ?case using snoc by (cases kv) (simp add: dict_of_snoc)
qed (simp add: dict_of_def)

lemma distinct_dict_of [simp]: "distinct (map fst (dict_of kvs))"
proof (induction kvs rule: rev_induct)
  case (snoc kv kvs)
  then show ?case by (cases kv) (simp add: dict_of_snoc)
qed (simp add: dict_of_def)

lemma length_dict_of: "length (dict_of kvs) = length kvs \<longleftrightarrow> distinct (map fst kvs)"
proof
  assume l: "length (dict_of kvs) = length kvs"
  have "card (set (map fst kvs)) = card (set (map fst (dict_of kvs)))" by simp
  also have "\<dots> = length (map fst (dict_of kvs))" by (rule distinct_card) (rule distinct_dict_of)
  finally show "distinct (map fst kvs)" using l by (simp add: card_distinct)
qed (simp add: dict_of_distinct)

lemma releases_by_scope_distinct:
  "distinct (map lr_scope_id releases) \<Longrightarrow> releases_by_scope releases = map (\<lambda>r. (lr_scope_id r, r)) releases"
  by (simp add: releases_by_scope_def dict_of_distinct comp_def)

lemma scope_guard:
  "length (releases_by_scope releases) \<noteq> length releases
     \<or> set (map fst (releases_by_scope releases)) \<noteq> set required
   \<longleftrightarrow> \<not> (distinct (map lr_scope_id releases) \<and> lr_scope_id ` set releases = set required)"
  using length_dict_of [of "map (\<lambda>r. (lr_scope_id r, r)) releases"]
  by (simp add: releases_by_scope_def comp_def image_image)

lemma map_of_scope:
  "distinct (map lr_scope_id releases) \<Longrightarrow>
     map_of (map (\<lambda>r. (lr_scope_id r, r)) releases) s = Some r \<longleftrightarrow> r \<in> set releases \<and> lr_scope_id r = s"
  by (subst map_of_eq_Some_iff) (auto simp: comp_def)

lemma set_flatten_releases:
  assumes "distinct (map lr_scope_id releases)" and "lr_scope_id ` set releases = set required"
  shows "set (flatten_releases required (releases_by_scope releases))
     = (\<Union>r \<in> set releases. flattened_for (lr_scope_id r) r ` set (lr_records r))"
proof -
  let ?m = "map_of (map (\<lambda>r. (lr_scope_id r, r)) releases)"
  have known: "?m (lr_scope_id r) = Some r" if "r \<in> set releases" for r
    using that by (simp add: map_of_scope assms(1) del: map_of_eq_Some_iff)
  show ?thesis
    by (simp add: flatten_releases_def releases_by_scope_distinct assms(1) assms(2) [symmetric] known)
qed

lemma compose_guards:
  assumes "compose_desired_state P canon required releases target_key cutoff = Inr d"
  shows "distinct required" and "distinct (map lr_scope_id releases)"
    and "lr_scope_id ` set releases = set required"
    and "di_records d = flatten_releases required (releases_by_scope releases)"
    and "distinct (map fr_record_id (di_records d))"
    and "di_scope_releases d = map (\<lambda>(scope, r). (scope, lr_release_id r)) (sort_key fst (releases_by_scope releases))"
    and "canonical_fingerprint P canon (desired_records_body (di_records d)) = Inr (di_records_fingerprint d)"
    and "canonical_fingerprint P canon (inventory_body cutoff (di_records_fingerprint d) (di_scope_releases d) target_key)
       = Inr (di_inventory_fingerprint d)"
    and "di_target_key d = target_key" and "di_observation_cutoff d = cutoff"
    and "di_inventory_id d = stable_id P ''dsi'' [target_key, cutoff, di_inventory_fingerprint d]"
  using assms unfolding compose_desired_state_def Let_def scope_guard
  by (simp_all split: option.splits add: scope_guard) (auto split: option.splits)

section \<open>The exact union of the releases\<close>

lemma composed_keys: "map fst (di_scope_releases d) = sort required"
  if "compose_desired_state P canon required releases target_key cutoff = Inr d"
proof -
  note g = compose_guards [OF that]
  have "map fst (di_scope_releases d) = map fst (sort_key fst (map (\<lambda>r. (lr_scope_id r, r)) releases))"
    by (simp add: g(6) releases_by_scope_distinct g(2) comp_def case_prod_unfold)
  moreover have "map fst (sort_key fst (map (\<lambda>r. (lr_scope_id r, r)) releases)) = sort required"
  proof (rule sorted_distinct_set_unique)
    show "sorted (map fst (sort_key fst (map (\<lambda>r. (lr_scope_id r, r)) releases)))" by (rule sorted_sort_key)
    show "set (map fst (sort_key fst (map (\<lambda>r. (lr_scope_id r, r)) releases))) = set (sort required)"
      using g(3) by (simp add: image_image)
  qed (use g(1,2) in \<open>simp_all add: comp_def\<close>)
  ultimately show ?thesis by simp
qed

text \<open>
  C26: The desired state is exactly the union of the releases. A composed inventory lists the
  records in order of identity and each identity once; they are all the records of all the
  releases, each under its own scope, and nothing else; the scopes are the required ones in order,
  each with the identity of its release.
\<close>

theorem desired_state_exact:
  assumes "compose_desired_state P canon required releases target_key cutoff = Inr d"
  shows "sorted (map fr_record_id (di_records d)) \<and> distinct (map fr_record_id (di_records d))
     \<and> set (di_records d) = (\<Union>r \<in> set releases. flattened_for (lr_scope_id r) r ` set (lr_records r))
     \<and> map fst (di_scope_releases d) = sort required
     \<and> set (di_scope_releases d) = (\<lambda>r. (lr_scope_id r, lr_release_id r)) ` set releases"
proof -
  note g = compose_guards [OF assms]
  have "set (di_scope_releases d) = (\<lambda>r. (lr_scope_id r, lr_release_id r)) ` set releases"
    by (simp add: g(6) releases_by_scope_distinct g(2) image_image)
  moreover have "sorted (map fr_record_id (di_records d))" by (simp add: g(4) flatten_releases_def)
  ultimately show ?thesis
    using g(5) composed_keys [OF assms] set_flatten_releases [OF g(2,3)] by (simp add: g(4))
qed

section \<open>Order independence\<close>

lemma same_sort: "mset xs = mset ys \<Longrightarrow> distinct (map f xs) \<Longrightarrow> sort_key f xs = sort_key f ys"
  by (rule sort_key_eq_sort_key) (auto simp: distinct_map)

lemma mset_eq_distinct_map: "mset xs = mset ys \<Longrightarrow> distinct (map f xs) \<longleftrightarrow> distinct (map f ys)"
  by (rule mset_eq_imp_distinct_iff) simp

lemma freeze_release_reordered:
  assumes "mset records = mset records'"
  shows "freeze_corpus_release P canon i records = freeze_corpus_release P canon i records'"
proof (cases "distinct (map sr_record_id records)")
  case True
  then show ?thesis using same_sort [OF assms True] by (simp add: freeze_corpus_release_def)
next
  case False
  moreover have "\<not> distinct (map sr_record_id records')"
    using False assms by (simp add: mset_eq_distinct_map [OF assms])
  moreover have "distinct (map sr_record_id (sort_key sr_record_id xs)) \<longleftrightarrow> distinct (map sr_record_id xs)"
    for xs :: "serving_record list"
    by (rule mset_eq_distinct_map) simp
  ultimately show ?thesis by (simp add: freeze_corpus_release_def release_guards_def raise_if_def Let_def)
qed

lemma compose_reordered:
  assumes "mset required = mset required'" and "mset releases = mset releases'"
  shows "compose_desired_state P canon required releases target_key cutoff
     = compose_desired_state P canon required' releases' target_key cutoff"
proof -
  have same: "set required = set required'" "set releases = set releases'" "sort required = sort required'"
      "distinct required \<longleftrightarrow> distinct required'"
      "distinct (map lr_scope_id releases) \<longleftrightarrow> distinct (map lr_scope_id releases')"
    using assms by (auto dest: mset_eq_setD mset_eq_imp_distinct_iff mset_eq_distinct_map
        intro: properties_for_sort)
  show ?thesis
  proof (cases "distinct (map lr_scope_id releases)")
    case True
    let ?kvs = "\<lambda>rs. map (\<lambda>r. (lr_scope_id r, r)) rs"
    have kvs: "releases_by_scope releases = ?kvs releases" "releases_by_scope releases' = ?kvs releases'"
      using True same(5) by (simp_all add: releases_by_scope_distinct)
    have "map_of (?kvs releases) = map_of (?kvs releases')"
      by (rule map_of_same_set) (use True same in \<open>simp_all add: comp_def\<close>)
    then have "flatten_releases required (?kvs releases) = flatten_releases required' (?kvs releases')"
      by (simp add: flatten_releases_def same(3))
    moreover have "sort_key fst (?kvs releases) = sort_key fst (?kvs releases')"
      by (rule same_sort) (use True assms(2) in \<open>simp_all add: comp_def\<close>)
    ultimately show ?thesis
      using True same scope_guard [of releases required] scope_guard [of releases' required']
      unfolding compose_desired_state_def Let_def by (simp add: kvs raise_if_def)
  next
    case False
    then show ?thesis
      using same scope_guard [of releases required] scope_guard [of releases' required']
      unfolding compose_desired_state_def Let_def by (simp add: raise_if_def)
  qed
qed

text \<open>
  Neither sealing a release nor composing a desired state depends on the order in which
  records, required scopes and releases are given, and a refusal does not either: the same inputs
  in any order yield the same identities, fingerprints and content, or the same error.
\<close>

theorem corpus_order_independent:
  assumes "mset records = mset records'" and "mset required = mset required'"
    and "mset releases = mset releases'"
  shows "freeze_corpus_release P canon i records = freeze_corpus_release P canon i records'
     \<and> compose_desired_state P canon required releases target_key cutoff
       = compose_desired_state P canon required' releases' target_key cutoff"
  using freeze_release_reordered [OF assms(1)] compose_reordered [OF assms(2,3)] by simp

section \<open>What an approved manifest serves\<close>

definition collision_free :: "platform \<Rightarrow> encoder \<Rightarrow> json set \<Rightarrow> bool" where
  "collision_free P canon D \<longleftrightarrow> (\<forall>j \<in> D. \<forall>j' \<in> D. \<forall>x y. canon j = Some x \<longrightarrow> canon j' = Some y
     \<longrightarrow> sha256_hex P x = sha256_hex P y \<longrightarrow> j = j')"

lemma same_document:
  assumes "collision_free P canon D" and "canonical_fingerprint P canon j = Inr f"
    and "canonical_fingerprint P canon j' = Inr f" and "j \<in> D" and "j' \<in> D"
  shows "j = j'"
  using assms by (auto simp: collision_free_def canonical_fingerprint_def sha256_fingerprint_def
      split: option.splits)

text \<open>Sealing releases and composing them, and the documents whose digests this takes.\<close>

definition sealed_desired_state ::
    "platform \<Rightarrow> encoder \<Rightarrow> (corpus_release_input \<times> serving_record list) list \<Rightarrow> string list
       \<Rightarrow> string \<Rightarrow> string \<Rightarrow> promotion_failure + desired_state_inventory" where
  "sealed_desired_state P canon inputs required target_key cutoff =
     and_then (collect (\<lambda>(i, records). freeze_corpus_release P canon i records) inputs) (\<lambda>releases.
       compose_desired_state P canon required releases target_key cutoff)"

definition sealed_documents :: "desired_state_inventory \<Rightarrow> json set" where
  "sealed_documents d = {desired_records_body (di_records d), inventory_body (di_observation_cutoff d)
       (di_records_fingerprint d) (di_scope_releases d) (di_target_key d)}
     \<union> record_payload ` fr_record ` set (di_records d)"

text \<open>A record as it is served: where it comes from and the six fields of its payload.\<close>

definition served :: "flattened_record \<Rightarrow> string list" where
  "served r = [fr_record_id r, fr_scope_id r, fr_release_id r, sr_text (fr_record r),
     sr_country (fr_record r), sr_jurisdiction (fr_record r), sr_material_type (fr_record r),
     sr_source (fr_record r), sr_authority_note (fr_record r)]"

lemma record_payload_inj:
  "record_payload r = record_payload r' \<longleftrightarrow> sr_authority_note r = sr_authority_note r'
     \<and> sr_country r = sr_country r' \<and> sr_jurisdiction r = sr_jurisdiction r' \<and> sr_source r = sr_source r'
     \<and> sr_text r = sr_text r' \<and> sr_material_type r = sr_material_type r'"
  by (auto simp: record_payload_def)

lemma desired_records_body_inj:
  "desired_records_body xs = desired_records_body ys \<longleftrightarrow>
     map (\<lambda>r. (fr_content_fingerprint r, fr_record_id r, fr_release_id r, fr_scope_id r)) xs
       = map (\<lambda>r. (fr_content_fingerprint r, fr_record_id r, fr_release_id r, fr_scope_id r)) ys"
proof (induction xs arbitrary: ys)
  case (Cons x xs)
  then show ?case by (cases ys) (auto simp: desired_records_body_def)
qed (simp add: desired_records_body_def)

lemma selections_inj:
  "map (\<lambda>(s, r). JArray [JText s, JText r]) xs = map (\<lambda>(s, r). JArray [JText s, JText r]) ys \<longleftrightarrow> xs = ys"
  by (rule inj_map_eq_map) (auto simp: inj_def)

lemma release_entry_sealed:
  assumes "release_entry_for P canon q = Inr e"
  shows "canonical_fingerprint P canon (record_payload (le_record e)) = Inr (le_serving_payload_fingerprint e)"
proof -
  obtain f where f: "serving_payload_fingerprint P canon q = Inr f"
    and e: "e = \<lparr>le_record = q, le_serving_payload_fingerprint = f\<rparr>"
    using assms by (auto simp: release_entry_for_def)
  from f show ?thesis
    unfolding serving_payload_fingerprint_def e by (cases "list_ex (\<lambda>value. value = []) [sr_record_id q, sr_text q, sr_country q, sr_jurisdiction q,
        sr_material_type q, sr_source q, sr_authority_note q, sr_artifact_ref q]") (simp_all only: if_True if_False sum.simps release_entry.simps)
qed

lemma sealed_content:
  assumes "sealed_desired_state P canon inputs required target_key cutoff = Inr d"
    and "r \<in> set (di_records d)"
  shows "canonical_fingerprint P canon (record_payload (fr_record r)) = Inr (fr_content_fingerprint r)
     \<and> fr_record_id r = sr_record_id (fr_record r)"
proof -
  obtain releases where frozen: "collect (\<lambda>(i, records). freeze_corpus_release P canon i records) inputs = Inr releases"
    and composed: "compose_desired_state P canon required releases target_key cutoff = Inr d"
    using assms(1) by (auto simp: sealed_desired_state_def)
  note g = compose_guards [OF composed]
  obtain s e where "s \<in> set releases" and e: "e \<in> set (lr_records s)" "r = flattened_for (lr_scope_id s) s e"
    using assms(2) set_flatten_releases [OF g(2,3)] by (auto simp: g(4))
  then obtain p where "(\<lambda>(i, records). freeze_corpus_release P canon i records) p = Inr s"
    using collect_member [OF frozen] by blast
  then obtain records where "collect (release_entry_for P canon) (sort_key sr_record_id records) = Inr (lr_records s)"
    by (cases p) (auto simp: freeze_corpus_release_def Let_def split: option.splits)
  then obtain q where "release_entry_for P canon q = Inr e"
    using collect_member [OF _ e(1)] by metis
  then show ?thesis
    using release_entry_sealed by (simp add: e(2) flattened_for_def)
qed

lemma sealed_fingerprints:
  assumes "sealed_desired_state P canon inputs required target_key cutoff = Inr d"
  shows "canonical_fingerprint P canon (desired_records_body (di_records d)) = Inr (di_records_fingerprint d)"
    and "canonical_fingerprint P canon (inventory_body (di_observation_cutoff d) (di_records_fingerprint d)
      (di_scope_releases d) (di_target_key d)) = Inr (di_inventory_fingerprint d)"
  using assms compose_guards(7-10) by (fastforce simp: sealed_desired_state_def)+

lemma sealed_target:
  assumes "sealed_desired_state P canon inputs required target_key cutoff = Inr d"
  shows "di_target_key d = target_key" and "di_observation_cutoff d = cutoff"
  using assms compose_guards(9,10) by (fastforce simp: sealed_desired_state_def)+

lemma inventory_fingerprint_binds_records:
  assumes d: "sealed_desired_state P canon inputs required target_key cutoff = Inr d"
    and e: "sealed_desired_state P canon inputs' required' target_key' cutoff' = Inr e"
    and "di_inventory_fingerprint d = di_inventory_fingerprint e"
    and free: "collision_free P canon (sealed_documents d \<union> sealed_documents e)"
  shows "map served (di_records d) = map served (di_records e) \<and> di_scope_releases d = di_scope_releases e
     \<and> di_target_key d = di_target_key e \<and> di_observation_cutoff d = di_observation_cutoff e"
proof -
  note same = same_document [OF free]
  have inventory: "inventory_body (di_observation_cutoff d) (di_records_fingerprint d) (di_scope_releases d) (di_target_key d)
      = inventory_body (di_observation_cutoff e) (di_records_fingerprint e) (di_scope_releases e) (di_target_key e)"
    by (rule same [OF sealed_fingerprints(2) [OF d]])
      (use sealed_fingerprints(2) [OF e] assms(3) in \<open>simp_all add: sealed_documents_def\<close>)
  then have "di_records_fingerprint d = di_records_fingerprint e" by (simp add: inventory_body_def)
  then have "desired_records_body (di_records d) = desired_records_body (di_records e)"
    by (intro same [OF sealed_fingerprints(1) [OF d]])
      (use sealed_fingerprints(1) [OF e] in \<open>simp_all add: sealed_documents_def\<close>)
  then have records: "length (di_records d) = length (di_records e)"
      "i < length (di_records d) \<Longrightarrow> fr_content_fingerprint (di_records d ! i) = fr_content_fingerprint (di_records e ! i)
        \<and> fr_record_id (di_records d ! i) = fr_record_id (di_records e ! i)
        \<and> fr_release_id (di_records d ! i) = fr_release_id (di_records e ! i)
        \<and> fr_scope_id (di_records d ! i) = fr_scope_id (di_records e ! i)" for i
    by (auto simp: desired_records_body_inj list_eq_iff_nth_eq)
  have "served (di_records d ! i) = served (di_records e ! i)" if i: "i < length (di_records d)" for i
  proof -
    have members: "di_records d ! i \<in> set (di_records d)" "di_records e ! i \<in> set (di_records e)"
      using i records(1) by simp_all
    have "record_payload (fr_record (di_records d ! i)) = record_payload (fr_record (di_records e ! i))"
      by (rule same [OF sealed_content [OF d members(1), THEN conjunct1]])
        (use members sealed_content [OF e members(2)] records(2) [OF i] in \<open>simp_all add: sealed_documents_def\<close>)
    then show ?thesis using records(2) [OF i] by (simp add: served_def record_payload_inj)
  qed
  then have "map served (di_records d) = map served (di_records e)"
    using records(1) by (simp add: list_eq_iff_nth_eq)
  then show ?thesis using inventory by (simp add: inventory_body_def selections_inj)
qed

text \<open>
  C3: What was approved is what is served. Take two verified manifests with one fingerprint whose
  desired states were composed from sealed releases, and let no two of the documents digested for
  them collide. Then both serve the same records in the same order, from the same scopes and
  releases, with the same six payload fields, for one target and observation cutoff.
\<close>

theorem approved_payload_bound:
  assumes "verify_promotion_manifest P canon m = None" and "verify_promotion_manifest P canon n = None"
    and "pm_fingerprint m = pm_fingerprint n"
    and "sealed_desired_state P canon inputs required target_key cutoff = Inr (pp_desired_state m)"
    and "sealed_desired_state P canon inputs' required' target_key' cutoff' = Inr (pp_desired_state n)"
    and "collision_free P canon ({manifest_body m, manifest_body n}
       \<union> sealed_documents (pp_desired_state m) \<union> sealed_documents (pp_desired_state n))"
  shows "map served (di_records (pp_desired_state m)) = map served (di_records (pp_desired_state n))
     \<and> di_scope_releases (pp_desired_state m) = di_scope_releases (pp_desired_state n)
     \<and> (target_key, cutoff) = (target_key', cutoff')"
proof -
  have "manifest_body m = manifest_body n \<and> pm_manifest_id m = pm_manifest_id n"
    by (rule same_manifest_body [OF assms(1-3)]) (use assms(6) in \<open>auto simp: collision_free_def\<close>)
  then have "di_inventory_fingerprint (pp_desired_state m) = di_inventory_fingerprint (pp_desired_state n)"
    by (simp add: manifest_body_def)
  moreover have "collision_free P canon (sealed_documents (pp_desired_state m) \<union> sealed_documents (pp_desired_state n))"
    using assms(6) by (auto simp: collision_free_def)
  ultimately show ?thesis
    using inventory_fingerprint_binds_records [OF assms(4,5)] sealed_target [OF assms(4)] sealed_target [OF assms(5)]
    by simp
qed

section \<open>A composed and approved example\<close>

text \<open>
  A digest that only reads the sixth character tells the four documents of the example apart. The
  artifact a record is kept in is outside its payload, so it is free in the example.
\<close>

definition tagged_platform :: platform where
  "tagged_platform = demo_platform\<lparr>sha256_hex := (\<lambda>raw. padded_hex 64 (of_char (raw ! 5)))\<rparr>"

definition seal :: "char \<Rightarrow> string" where
  "seal c = ''sha256:'' @ padded_hex 64 (of_char c)"

lemma tagged_fingerprint: "canonical_fingerprint tagged_platform sample_encoder j = Inr (seal (json_text j ! 5))"
  by (simp add: canonical_fingerprint_def sample_encoder_def sha256_fingerprint_def tagged_platform_def seal_def)

definition sample_release_input :: corpus_release_input where
  "sample_release_input = \<lparr>li_scope_id = ''HK-LEG-ORDINANCES'', li_observation_cutoff = ''2026-01-01T00:00:00Z'',
     li_evidence_refs = [''evd''], li_validation_refs = [''val''], li_withholding_refs = [],
     li_zero_record_justification_refs = []\<rparr>"

definition kept_record :: "string \<Rightarrow> serving_record" where
  "kept_record a = (fr_record (sample_record (sample_state ''rec'' CHR ''1'')))
     \<lparr>sr_artifact_ref := ''art_'' @ a, sr_authority_note := ''official''\<rparr>"

definition sealed_release :: "string \<Rightarrow> corpus_release" where
  "sealed_release a = \<lparr>lr_release_id = stable_id tagged_platform ''rel''
       [''HK-LEG-ORDINANCES'', ''2026-01-01T00:00:00Z'', seal CHR ''d''],
     lr_scope_id = ''HK-LEG-ORDINANCES'', lr_observation_cutoff = ''2026-01-01T00:00:00Z'',
     lr_records = [\<lparr>le_record = kept_record a, le_serving_payload_fingerprint = seal CHR ''h''\<rparr>],
     lr_evidence_refs = [''evd''], lr_validation_refs = [''val''], lr_withholding_refs = [],
     lr_zero_record_justification_refs = [], lr_records_fingerprint = seal CHR ''n'',
     lr_release_fingerprint = seal CHR ''d''\<rparr>"

definition sealed_inventory :: "string \<Rightarrow> desired_state_inventory" where
  "sealed_inventory a = \<lparr>di_inventory_id = stable_id tagged_platform ''dsi'' [''key'', ''2026-01-01T00:00:00Z'', seal CHR ''e''],
     di_target_key = ''key'', di_observation_cutoff = ''2026-01-01T00:00:00Z'',
     di_scope_releases = [(''HK-LEG-ORDINANCES'', lr_release_id (sealed_release a))],
     di_records = [flattened_for ''HK-LEG-ORDINANCES'' (sealed_release a) (hd (lr_records (sealed_release a)))],
     di_records_fingerprint = seal CHR ''n'', di_inventory_fingerprint = seal CHR ''e''\<rparr>"

lemma join_prefix: "\<exists>rest. join d (x # xs) = x @ rest"
  by (cases xs) auto

lemma plain_char: "c \<in> set ''abcdefghijklmnopqrstuvwxyz_'' \<Longrightarrow> json_char c = [c]"
  by (auto simp: json_char_def)

lemma object_tag:
  "json_char a = [a] \<Longrightarrow> json_char b = [b] \<Longrightarrow> json_char c = [c] \<Longrightarrow> json_char e = [e] \<Longrightarrow>
     json_text (JObject ((a # b # c # e # k, v) # kvs)) ! 5 = e"
  using join_prefix [of "'',''" "json_string (a # b # c # e # k) @ '':'' @ json_text v"
      "map (\<lambda>(k, v). json_string k @ '':'' @ json_text v) kvs"]
  by (auto simp: json_string_def)

lemma array_tag:
  "json_char a = [a] \<Longrightarrow> json_char b = [b] \<Longrightarrow> json_char c = [c] \<Longrightarrow>
     json_text (JArray (JObject ((a # b # c # k, v) # kvs) # js)) ! 5 = c"
  using join_prefix [of "'',''" "json_text (JObject ((a # b # c # k, v) # kvs))" "map json_text js"]
    join_prefix [of "'',''" "json_string (a # b # c # k) @ '':'' @ json_text v"
      "map (\<lambda>(k, v). json_string k @ '':'' @ json_text v) kvs"]
  by (auto simp: json_string_def)

lemma sample_documents:
  "json_text (record_payload r) ! 5 = CHR ''h''"
  "json_text (release_body i f) ! 5 = CHR ''d''"
  "json_text (release_records_body (e # es)) ! 5 = CHR ''n''"
  "json_text (desired_records_body (q # qs)) ! 5 = CHR ''n''"
  "json_text (inventory_body c f s k) ! 5 = CHR ''e''"
  "json_text (manifest_body p) ! 5 = CHR ''i''"
  unfolding record_payload_def release_body_def release_records_body_def desired_records_body_def
    inventory_body_def manifest_body_def list.map
  by (rule object_tag array_tag; rule plain_char; simp)+

lemma sample_release_sealed:
  "freeze_corpus_release tagged_platform sample_encoder sample_release_input [kept_record a]
     = Inr (sealed_release a)"
  by (simp add: freeze_corpus_release_def release_guards_def sample_release_input_def tagged_fingerprint
      release_entry_for_def serving_payload_fingerprint_def kept_record_def sample_record_def sample_state_def sample_documents
      sealed_release_def raise_if_def)

lemma sample_inventory_composed:
  "compose_desired_state tagged_platform sample_encoder [''HK-LEG-ORDINANCES''] [sealed_release a] ''key''
     ''2026-01-01T00:00:00Z'' = Inr (sealed_inventory a)"
proof -
  have scope: "lr_scope_id (sealed_release a) = ''HK-LEG-ORDINANCES''"
    "lr_records (sealed_release a) = [hd (lr_records (sealed_release a))]"
    by (simp_all add: sealed_release_def)
  then have by_scope: "releases_by_scope [sealed_release a] = [(''HK-LEG-ORDINANCES'', sealed_release a)]"
    by (simp add: releases_by_scope_def dict_of_def)
  have "flatten_releases [''HK-LEG-ORDINANCES''] [(''HK-LEG-ORDINANCES'', sealed_release a)]
      = [flattened_for ''HK-LEG-ORDINANCES'' (sealed_release a) (hd (lr_records (sealed_release a)))]"
    by (simp add: flatten_releases_def sealed_release_def)
  then show ?thesis
    by (simp add: compose_desired_state_def by_scope tagged_fingerprint sample_documents sealed_inventory_def
        raise_if_def)
qed

lemma sample_sealed:
  "sealed_desired_state tagged_platform sample_encoder [(sample_release_input, [kept_record a])]
     [''HK-LEG-ORDINANCES''] ''key'' ''2026-01-01T00:00:00Z'' = Inr (sealed_inventory a)"
  by (simp add: sealed_desired_state_def sample_release_sealed sample_inventory_composed)

definition sealed_action :: promotion_action where
  "sealed_action = sample_action\<lparr>pa_input_refs :=
     [\<lparr>ref_type = Ref_DESIRED_STATE_INVENTORY, ref_id = ''inv'', ref_fingerprint = seal CHR ''e''\<rparr>]\<rparr>"

definition sealed_plan :: "string \<Rightarrow> promotion_plan" where
  "sealed_plan a = (sample_plan ''inv'')\<lparr>pp_desired_state := sealed_inventory a, pp_actions := [sealed_action]\<rparr>"

definition sealed_manifest :: "string \<Rightarrow> promotion_manifest" where
  "sealed_manifest a = promotion_plan.extend (sealed_plan a)
     (promotion_manifest.fields (stable_id tagged_platform ''pmn'' [seal CHR ''i'']) (seal CHR ''i''))"

lemma sealed_plan_guards: "plan_guards (sealed_plan a) = None" "v1_guards (sealed_plan a) = None"
proof -
  have "validate_action_authority ''2026-01-01T00:00:00Z'' ''2026-01-02T00:00:00Z'' sample_action = None"
    by code_simp
  moreover have "validate_action_authority from until sealed_action = validate_action_authority from until sample_action"
    for "from" until
    by (simp add: validate_action_authority_def sealed_action_def sample_action_def reference_key_def Let_def)
  moreover have "pa_effect_type sealed_action = Eff_RELEASE_PUBLICATION" "pa_sequence sealed_action = 1"
    by (simp_all add: sealed_action_def sample_action_def)
  moreover have "pa_input_refs sealed_action
      = [\<lparr>ref_type = Ref_DESIRED_STATE_INVENTORY, ref_id = ''inv'', ref_fingerprint = seal CHR ''e''\<rparr>]"
    by (simp add: sealed_action_def)
  ultimately show "plan_guards (sealed_plan a) = None"
    by (simp add: plan_guards_def validate_action_authorities_def validate_action_inputs_def plan_bindings_def
        sealed_plan_def sample_plan_def sealed_inventory_def Let_def)
  have "pp_coverage_status (sealed_plan a) = pp_coverage_status (sample_plan ''inv'')"
    "map pa_effect_type (pp_actions (sealed_plan a)) = map pa_effect_type (pp_actions (sample_plan ''inv''))"
    by (simp_all add: sealed_plan_def sealed_action_def sample_plan_def sample_action_def)
  then show "v1_guards (sealed_plan a) = None" using sample_v1_guards [of "''inv''"] by (simp add: v1_guards_def)
qed

lemma sealed_manifest_verified: "verify_promotion_manifest tagged_platform sample_encoder (sealed_manifest a) = None"
  and sealed_manifest_plan: "promotion_plan.truncate (sealed_manifest a) = sealed_plan a"
proof -
  show plan: "promotion_plan.truncate (sealed_manifest a) = sealed_plan a" by (simp add: sealed_manifest_def)
  show "verify_promotion_manifest tagged_platform sample_encoder (sealed_manifest a) = None"
    by (simp add: verify_v1_None plan freeze_v1_promotion_manifest_def freeze_generic_promotion_manifest_def
        sealed_plan_guards tagged_fingerprint sample_documents) (simp add: sealed_manifest_def)
qed

lemma sealed_manifest_inventory: "pp_desired_state (sealed_manifest a) = sealed_inventory a"
  by (simp add: sealed_manifest_def promotion_plan.defs sealed_plan_def)

lemma sealed_payload: "sealed_documents (sealed_inventory a) = sealed_documents (sealed_inventory b)"
  "manifest_body (sealed_manifest a) = manifest_body (sealed_manifest b)"
proof -
  show "sealed_documents (sealed_inventory a) = sealed_documents (sealed_inventory b)"
    by (simp add: sealed_documents_def sealed_inventory_def desired_records_body_def flattened_for_def
        sealed_release_def kept_record_def sample_record_def record_payload_def)
  have "manifest_body (sealed_plan a) = manifest_body (sealed_plan b)"
    by (simp add: manifest_body_def sealed_plan_def sealed_inventory_def)
  then show "manifest_body (sealed_manifest a) = manifest_body (sealed_manifest b)"
    using truncate_fields(9) sealed_manifest_plan by metis
qed

lemma sealed_documents_four:
  "\<exists>q c f s k. sealed_documents (sealed_inventory a)
     = {desired_records_body [q], inventory_body c f s k, record_payload (fr_record q)}"
proof -
  have "sealed_documents (sealed_inventory a)
      = {desired_records_body (di_records (sealed_inventory a)), inventory_body (di_observation_cutoff (sealed_inventory a))
         (di_records_fingerprint (sealed_inventory a)) (di_scope_releases (sealed_inventory a))
         (di_target_key (sealed_inventory a)), record_payload (fr_record (hd (di_records (sealed_inventory a))))}"
    and "di_records (sealed_inventory a) = [hd (di_records (sealed_inventory a))]"
    by (simp_all add: sealed_documents_def sealed_inventory_def insert_commute)
  then show ?thesis by metis
qed

lemma tags_apart:
  "inj_on (\<lambda>c. padded_hex 64 (of_char c)) (set ''ineh'')"
  by code_simp

lemma sealed_collision_free:
  "collision_free tagged_platform sample_encoder
     (insert (manifest_body p) (sealed_documents (sealed_inventory a)))"
proof -
  obtain q c f s k where docs: "sealed_documents (sealed_inventory a)
     = {desired_records_body [q], inventory_body c f s k, record_payload (fr_record q)}"
    using sealed_documents_four by blast
  have "CHR ''i'' \<noteq> CHR ''n''" by simp
  then show ?thesis
    unfolding collision_free_def docs using tags_apart
    by (simp add: sample_encoder_def tagged_platform_def sample_documents inj_on_def)
qed

lemma sealed_collision_free_both:
  "collision_free tagged_platform sample_encoder ({manifest_body (sealed_manifest a), manifest_body (sealed_manifest b)}
     \<union> sealed_documents (pp_desired_state (sealed_manifest a)) \<union> sealed_documents (pp_desired_state (sealed_manifest b)))"
proof -
  have "{manifest_body (sealed_manifest a), manifest_body (sealed_manifest b)}
     \<union> sealed_documents (pp_desired_state (sealed_manifest a)) \<union> sealed_documents (pp_desired_state (sealed_manifest b))
     = insert (manifest_body (sealed_manifest a)) (sealed_documents (sealed_inventory a))"
    by (auto simp: sealed_manifest_inventory sealed_payload(1) [of b a] sealed_payload(2) [of b a])
  then show ?thesis using sealed_collision_free by simp
qed

text \<open>Two manifests that keep the record in different artifacts serve the same payload.\<close>

theorem approved_payload_bound_witness:
  "map served (di_records (pp_desired_state (sealed_manifest ''1'')))
     = map served (di_records (pp_desired_state (sealed_manifest ''2'')))
   \<and> sealed_manifest ''1'' \<noteq> sealed_manifest ''2''"
proof -
  have "pm_fingerprint (sealed_manifest ''1'') = pm_fingerprint (sealed_manifest ''2'')"
    by (simp add: sealed_manifest_def)
  note bound = approved_payload_bound [OF sealed_manifest_verified sealed_manifest_verified this
      sample_sealed [folded sealed_manifest_inventory] sample_sealed [folded sealed_manifest_inventory]
      sealed_collision_free_both]
  have "di_records (pp_desired_state (sealed_manifest ''1'')) \<noteq> di_records (pp_desired_state (sealed_manifest ''2''))"
    by (simp add: sealed_manifest_inventory sealed_inventory_def flattened_for_def sealed_release_def kept_record_def
        sample_record_def)
  then have "sealed_manifest ''1'' \<noteq> sealed_manifest ''2''" by metis
  then show ?thesis using bound by simp
qed

theorem desired_state_exact_witness:
  "distinct (map fr_record_id (di_records (sealed_inventory ''1'')))
   \<and> set (di_scope_releases (sealed_inventory ''1''))
     = {(''HK-LEG-ORDINANCES'', lr_release_id (sealed_release ''1''))}"
  using desired_state_exact [OF sample_inventory_composed [of "''1''"]]
  by (simp add: sealed_release_def)

theorem corpus_order_independent_witness:
  "freeze_corpus_release tagged_platform sample_encoder sample_release_input
       [fr_record (sample_record ''rec_2''), fr_record (sample_record ''rec_1'')]
     = freeze_corpus_release tagged_platform sample_encoder sample_release_input
       [fr_record (sample_record ''rec_1''), fr_record (sample_record ''rec_2'')]
   \<and> compose_desired_state tagged_platform sample_encoder [''B'', ''A''] [sealed_release ''1''] ''key'' ''2026''
     = compose_desired_state tagged_platform sample_encoder [''A'', ''B''] [sealed_release ''1''] ''key'' ''2026''"
  using corpus_order_independent [of "[fr_record (sample_record ''rec_2''), fr_record (sample_record ''rec_1'')]"
      "[fr_record (sample_record ''rec_1''), fr_record (sample_record ''rec_2'')]"
      "[''B'', ''A'']" "[''A'', ''B'']" "[sealed_release ''1'']" "[sealed_release ''1'']"]
  by (simp add: add_mset_commute)

end
