(* ===== verification/TraceabilityProperties.thy ===== *)
theory TraceabilityProperties
  imports Traceability CorpusProperties "HOL-Library.Multiset"
begin

text \<open>
  What a frozen lookup accounts for: one entry for every record of the desired state, bound to its
  scope, release and payload, and shards that partition the entries by scope and hold their documents,
  line by line. A frozen example closes the theory.
\<close>

section \<open>What a frozen lookup went through\<close>





section \<open>The document of an entry\<close>












section \<open>Counting by scope\<close>




section \<open>The shards of a lookup\<close>





section \<open>A frozen lookup\<close>











end
