(* ===== verification/Bytes.thy ===== *)
theory Bytes
  imports Prelude
begin

text \<open>
  What the code takes from \<^verbatim>\<open>str.encode\<close>, \<^verbatim>\<open>bytes.decode\<close> and \<^verbatim>\<open>base64\<close>: strict UTF-8 over code points,
  and the URL-safe base64 alphabet without padding. A byte is a \<^typ>\<open>char\<close>, a code point a \<^typ>\<open>nat\<close>.
  Both encodings are read back exactly.
\<close>

section \<open>UTF-8\<close>

definition is_scalar :: "nat \<Rightarrow> bool" where
  "is_scalar n \<longleftrightarrow> n < 0xD800 \<or> 0xE000 \<le> n \<and> n < 0x110000"

definition utf8_point :: "nat \<Rightarrow> nat list" where
  "utf8_point n =
     (if n < 0x80 then [n]
      else if n < 0x800 then [0xC0 + n div 64, 0x80 + n mod 64]
      else if n < 0x10000 then [0xE0 + n div 4096, 0x80 + n div 64 mod 64, 0x80 + n mod 64]
      else [0xF0 + n div 262144, 0x80 + n div 4096 mod 64, 0x80 + n div 64 mod 64, 0x80 + n mod 64])"

text \<open>\<^verbatim>\<open>text.encode("utf-8")\<close>: a surrogate raises.\<close>

definition utf8_encode :: "nat list \<Rightarrow> string option" where
  "utf8_encode points = (if list_all is_scalar points
     then Some (map char_of (concat (map utf8_point points))) else None)"

definition is_continuation :: "nat \<Rightarrow> bool" where
  "is_continuation b \<longleftrightarrow> 0x80 \<le> b \<and> b < 0xC0"

text \<open>
  \<^verbatim>\<open>raw.decode("utf-8", errors="strict")\<close>: the shortest form of every code point is the only one
  accepted, and no surrogate is.
\<close>

fun utf8_points :: "nat list \<Rightarrow> nat list option" where
  "utf8_points [] = Some []"
| "utf8_points (a # s) =
     (if a < 0x80 then map_option (Cons a) (utf8_points s)
      else case s of
        [] \<Rightarrow> None
      | b # t \<Rightarrow>
          if 0xC2 \<le> a \<and> a < 0xE0 \<and> is_continuation b
          then map_option (Cons ((a - 0xC0) * 64 + (b - 0x80))) (utf8_points t)
          else (case t of
            [] \<Rightarrow> None
          | c # u \<Rightarrow>
              if 0xE0 \<le> a \<and> a < 0xF0 \<and> is_continuation b \<and> is_continuation c
                \<and> (a = 0xE0 \<longrightarrow> 0xA0 \<le> b) \<and> (a = 0xED \<longrightarrow> b < 0xA0)
              then map_option (Cons ((a - 0xE0) * 4096 + (b - 0x80) * 64 + (c - 0x80))) (utf8_points u)
              else (case u of
                [] \<Rightarrow> None
              | d # v \<Rightarrow>
                  if 0xF0 \<le> a \<and> a < 0xF5 \<and> is_continuation b \<and> is_continuation c \<and> is_continuation d
                    \<and> (a = 0xF0 \<longrightarrow> 0x90 \<le> b) \<and> (a = 0xF4 \<longrightarrow> b < 0x90)
                  then map_option (Cons ((a - 0xF0) * 262144 + (b - 0x80) * 4096 + (c - 0x80) * 64 + (d - 0x80)))
                    (utf8_points v)
                  else None)))"

definition utf8_decode :: "string \<Rightarrow> nat list option" where
  "utf8_decode raw = utf8_points (map of_char raw)"

lemma utf8_points_point:
  assumes "is_scalar n"
  shows "utf8_points (utf8_point n @ s) = map_option (Cons n) (utf8_points s)"
proof -
  consider "n < 0x80" | "0x80 \<le> n" "n < 0x800" | "0x800 \<le> n" "n < 0x10000" | "0x10000 \<le> n" "n < 0x110000"
    using assms by (cases "n < 0x80"; cases "n < 0x800"; cases "n < 0x10000") (auto simp: is_scalar_def)
  then show ?thesis
  proof cases
    case 1 then show ?thesis by (simp add: utf8_point_def)
  next
    case 2
    define a b where "a = n div 64" and "b = n mod 64"
    have n: "a * 64 + b = n" and b: "b < 64" by (simp_all add: a_def b_def)
    have "2 \<le> a" "a < 32" using 2 n b by auto
    then show ?thesis using 2 n b by (simp add: utf8_point_def is_continuation_def flip: a_def b_def)
  next
    case 3
    define a b c where "a = n div 4096" and "b = n div 64 mod 64" and "c = n mod 64"
    have "n = n div 64 * 64 + c" "n div 64 = a * 64 + b"
      using div_mult2_eq [of n 64 64] by (simp_all add: a_def b_def c_def)
    then have n: "a * 4096 + b * 64 + c = n" by simp
    have bc: "b < 64" "c < 64" by (simp_all add: b_def c_def)
    have a: "a < 16" "a = 0 \<longrightarrow> 32 \<le> b" "a = 13 \<longrightarrow> b < 32"
      using 3 n bc assms by (auto simp: is_scalar_def)
    then show ?thesis using 3 n bc
      by (simp add: utf8_point_def is_continuation_def flip: a_def b_def c_def)
  next
    case 4
    define a b c d where "a = n div 262144" and "b = n div 4096 mod 64" and "c = n div 64 mod 64" and "d = n mod 64"
    have "n = n div 64 * 64 + d" "n div 64 = n div 4096 * 64 + c" "n div 4096 = a * 64 + b"
      using div_mult2_eq [of n 64 64] div_mult2_eq [of n 4096 64] by (simp_all add: a_def b_def c_def d_def)
    then have n: "a * 262144 + b * 4096 + c * 64 + d = n" by simp
    have bc: "b < 64" "c < 64" "d < 64" by (simp_all add: b_def c_def d_def)
    have a: "a < 5" "a = 0 \<longrightarrow> 16 \<le> b" "a = 4 \<longrightarrow> b < 16"
      using 4 n bc by auto
    then show ?thesis using 4 n bc
      by (simp add: utf8_point_def is_continuation_def flip: a_def b_def c_def d_def)
  qed
qed


lemma utf8_point_byte: "is_scalar n \<Longrightarrow> b \<in> set (utf8_point n) \<Longrightarrow> b < 256"
  by (auto simp: utf8_point_def is_scalar_def less_mult_imp_div_less split: if_splits)

lemma utf8_decode_encode:
  assumes "utf8_encode points = Some raw"
  shows "utf8_decode raw = Some points"
proof -
  have scalars: "list_all is_scalar points" and raw: "raw = map char_of (concat (map utf8_point points))"
    using assms by (auto simp: utf8_encode_def split: if_splits)
  have "map (of_char \<circ> (char_of :: nat \<Rightarrow> char)) (concat (map utf8_point points)) = concat (map utf8_point points)"
    by (rule map_idI) (use scalars utf8_point_byte in \<open>auto simp: list_all_iff\<close>)
  moreover have "utf8_points (concat (map utf8_point points)) = Some points"
    using scalars by (induction points) (simp_all add: utf8_points_point)
  ultimately show ?thesis by (simp add: utf8_decode_def raw)
qed

lemma utf8_decode_ascii: "list_all (\<lambda>c. (of_char c :: nat) < 0x80) raw \<Longrightarrow> utf8_decode raw = Some (map of_char raw)"
  by (induction raw) (auto simp: utf8_decode_def)

text \<open>The decoder accepts nothing but what the encoder writes.\<close>

lemma join_digits: "(y::nat) < m \<Longrightarrow> (x * m + y) div m = x" "(y::nat) < m \<Longrightarrow> (x * m + y) mod m = y"
  by simp_all

lemma utf8_two: "2 \<le> x \<Longrightarrow> x < 32 \<Longrightarrow> y < 64 \<Longrightarrow> utf8_point (x * 64 + y) = [0xC0 + x, 0x80 + y]"
  by (simp add: utf8_point_def)

text \<open>A number by its digits to the base 64.\<close>

lemma utf8_three:
  assumes "x < 16" "y < 64" "z < 64" "x = 0 \<longrightarrow> 32 \<le> y" and n: "n = (x * 64 + y) * 64 + z"
  shows "utf8_point n = [0xE0 + x, 0x80 + y, 0x80 + z]"
proof -
  have d: "n div 64 = x * 64 + y" "n mod 64 = z"
    unfolding n by (rule join_digits [OF assms(3)])+
  have "n div 4096 = x" using d(1) assms(2) join_digits(1) [of y 64 x] div_mult2_eq [of n 64 64] by simp
  moreover have "n div 64 mod 64 = y" using d(1) assms(2) by simp
  moreover have "0x800 \<le> n \<and> n < 0x10000" using assms by (cases "x = 0") auto
  ultimately show ?thesis using d(2) by (simp add: utf8_point_def)
qed

lemma utf8_four:
  assumes "x < 5" "y < 64" "z < 64" "w < 64" "x = 0 \<longrightarrow> 16 \<le> y" "x = 4 \<longrightarrow> y < 16"
    and n: "n = ((x * 64 + y) * 64 + z) * 64 + w"
  shows "utf8_point n = [0xF0 + x, 0x80 + y, 0x80 + z, 0x80 + w]"
proof -
  have d: "n div 64 = (x * 64 + y) * 64 + z" "n mod 64 = w"
    unfolding n by (rule join_digits [OF assms(4)])+
  have e: "n div 64 div 64 = x * 64 + y" "n div 64 mod 64 = z"
    unfolding d(1) by (rule join_digits [OF assms(3)])+
  have f: "n div 4096 = x * 64 + y" using e(1) div_mult2_eq [of n 64 64] by simp
  have "n div 262144 = n div 4096 div 64" using div_mult2_eq [of n 4096 64] by simp
  then have "n div 262144 = x" "n div 4096 mod 64 = y" using assms(2) by (simp_all add: f)
  moreover have "0x10000 \<le> n" using assms by (cases "x = 0") auto
  ultimately show ?thesis using d(2) e(2) by (simp add: utf8_point_def)
qed

lemma utf8_points_canonical:
  "utf8_points bs = Some ps \<Longrightarrow> concat (map utf8_point ps) = bs \<and> list_all is_scalar ps"
proof (induction bs arbitrary: ps rule: utf8_points.induct)
  case (2 a s)
  show ?case
  proof (cases "a < 0x80")
    case True
    then show ?thesis using 2 by (auto simp: utf8_point_def is_scalar_def)
  next
    case False
    note big = False
    obtain b t where s: "s = b # t" using 2 False by (cases s) auto
    show ?thesis
    proof (cases "0xC2 \<le> a \<and> a < 0xE0 \<and> is_continuation b")
      case True
      obtain qs where qs: "utf8_points t = Some qs" "ps = ((a - 0xC0) * 64 + (b - 0x80)) # qs"
        using 2(5) big True by (auto simp: s)
      have "2 \<le> a - 0xC0" "a - 0xC0 < 32" "b - 0x80 < 64" "0xC0 \<le> a" "0x80 \<le> b"
        using True by (auto simp: is_continuation_def)
      then have "utf8_point ((a - 0xC0) * 64 + (b - 0x80)) = [a, b]" by (simp only: utf8_two le_add_diff_inverse)
      moreover have "is_scalar ((a - 0xC0) * 64 + (b - 0x80))"
        using True by (auto simp: is_scalar_def is_continuation_def)
      ultimately show ?thesis using 2(2) [OF big s True qs(1)] by (simp add: s qs(2))
    next
      case False
      note two = False
      obtain c u where t: "t = c # u" using 2(5) big False by (cases t) (auto simp: s)
      show ?thesis
      proof (cases "0xE0 \<le> a \<and> a < 0xF0 \<and> is_continuation b \<and> is_continuation c
                \<and> (a = 0xE0 \<longrightarrow> 0xA0 \<le> b) \<and> (a = 0xED \<longrightarrow> b < 0xA0)")
        case True
        let ?n = "(a - 0xE0) * 4096 + (b - 0x80) * 64 + (c - 0x80)"
        obtain qs where qs: "utf8_points u = Some qs" "ps = ?n # qs"
          using 2(5) big two True by (auto simp: s t)
        have "?n = ((a - 0xE0) * 64 + (b - 0x80)) * 64 + (c - 0x80)" by simp
        moreover have "a - 0xE0 < 16" "b - 0x80 < 64" "c - 0x80 < 64" "a - 0xE0 = 0 \<longrightarrow> 32 \<le> b - 0x80"
            "0xE0 \<le> a" "0x80 \<le> b" "0x80 \<le> c" using True by (auto simp: is_continuation_def)
        ultimately have "utf8_point ?n = [a, b, c]" by (simp only: utf8_three le_add_diff_inverse)
        moreover have "is_scalar ?n"
        proof -
          consider "a < 0xED" | "a = 0xED" | "0xEE \<le> a" by linarith
          then show ?thesis by cases (use True in \<open>auto simp: is_scalar_def is_continuation_def\<close>)
        qed
        ultimately show ?thesis using 2(3) [OF big s two t True qs(1)] by (simp add: s t qs(2))
      next
        case False
        note three = False
        obtain d v where u: "u = d # v" using 2(5) big two False by (cases u) (auto simp: s t)
        let ?n = "(a - 0xF0) * 262144 + (b - 0x80) * 4096 + (c - 0x80) * 64 + (d - 0x80)"
        have four: "0xF0 \<le> a \<and> a < 0xF5 \<and> is_continuation b \<and> is_continuation c \<and> is_continuation d
                    \<and> (a = 0xF0 \<longrightarrow> 0x90 \<le> b) \<and> (a = 0xF4 \<longrightarrow> b < 0x90)"
          using 2(5) big two three by (auto simp: s t u split: if_splits)
        obtain qs where qs: "utf8_points v = Some qs" "ps = ?n # qs"
          using 2(5) big two three four by (auto simp: s t u)
        have "?n = (((a - 0xF0) * 64 + (b - 0x80)) * 64 + (c - 0x80)) * 64 + (d - 0x80)" by simp
        moreover have "a - 0xF0 < 5" "b - 0x80 < 64" "c - 0x80 < 64" "d - 0x80 < 64"
            "a - 0xF0 = 0 \<longrightarrow> 16 \<le> b - 0x80" "a - 0xF0 = 4 \<longrightarrow> b - 0x80 < 16"
            "0xF0 \<le> a" "0x80 \<le> b" "0x80 \<le> c" "0x80 \<le> d" using four by (auto simp: is_continuation_def)
        ultimately have "utf8_point ?n = [a, b, c, d]" by (simp only: utf8_four le_add_diff_inverse)
        moreover have "is_scalar ?n" using four by (auto simp: is_scalar_def is_continuation_def)
        ultimately show ?thesis using 2(4) [OF big s two t three u four qs(1)] by (simp add: s t u qs(2))
      qed
    qed
  qed
qed simp

lemma utf8_encode_decode:
  assumes "utf8_decode raw = Some points"
  shows "utf8_encode points = Some raw"
  using utf8_points_canonical [OF assms [unfolded utf8_decode_def]]
  by (simp add: utf8_encode_def map_idI)

lemma utf8_encode_Nil: "utf8_encode points = Some raw \<Longrightarrow> raw = [] \<longleftrightarrow> points = []"
  by (cases points) (auto simp: utf8_encode_def utf8_point_def split: if_splits)

section \<open>Base64\<close>

definition base64_alphabet :: string where
  "base64_alphabet = ''ABCDEFGHIJKLMNOPQRSTUVWXYZabcdefghijklmnopqrstuvwxyz0123456789-_''"

definition base64_char :: "nat \<Rightarrow> char" where
  "base64_char n = base64_alphabet ! n"

definition base64_value :: "char \<Rightarrow> nat option" where
  "base64_value c = map_of (zip base64_alphabet [0..<64]) c"

text \<open>\<^verbatim>\<open>base64.urlsafe_b64encode(raw).rstrip(b"=")\<close>, by groups of three bytes.\<close>

fun base64_sextets :: "nat list \<Rightarrow> nat list" where
  "base64_sextets [] = []"
| "base64_sextets [a] = [a div 4, a mod 4 * 16]"
| "base64_sextets [a, b] = [a div 4, a mod 4 * 16 + b div 16, b mod 16 * 4]"
| "base64_sextets (a # b # c # s) =
     [a div 4, a mod 4 * 16 + b div 16, b mod 16 * 4 + c div 64, c mod 64] @ base64_sextets s"

definition base64_encode :: "string \<Rightarrow> string" where
  "base64_encode raw = map base64_char (base64_sextets (map of_char raw))"

text \<open>
  \<^verbatim>\<open>base64.urlsafe_b64decode\<close> of a payload over the alphabet, padded to a multiple of four; one
  character more than such a multiple raises. Left-over bits are dropped.
\<close>

fun base64_octets :: "nat list \<Rightarrow> nat list option" where
  "base64_octets [] = Some []"
| "base64_octets [x] = None"
| "base64_octets [x, y] = Some [x * 4 + y div 16]"
| "base64_octets [x, y, z] = Some [x * 4 + y div 16, y mod 16 * 16 + z div 4]"
| "base64_octets (x # y # z # w # s) =
     map_option (\<lambda>octets. [x * 4 + y div 16, y mod 16 * 16 + z div 4, z mod 4 * 64 + w] @ octets) (base64_octets s)"

definition base64_decode :: "string \<Rightarrow> string option" where
  "base64_decode payload = (let values = map base64_value payload in
     if None \<in> set values then None
     else map_option (map char_of) (base64_octets (map the values)))"

lemma base64_alphabet_facts:
  "length base64_alphabet = 64" "distinct base64_alphabet"
  by code_simp+

lemma base64_value_char: "n < 64 \<Longrightarrow> base64_value (base64_char n) = Some n"
  unfolding base64_value_def base64_char_def
  by (rule map_of_is_SomeI) (auto simp: base64_alphabet_facts set_zip)

lemma octet_parts:
  fixes b :: nat
  assumes "b < 256"
  shows "b div 4 < 64" and "b div 16 < 16" and "b div 64 < 4"
  using assms by (simp_all add: less_mult_imp_div_less)

lemma sextet_sums:
  fixes x y a b :: nat
  shows "x < 16 \<Longrightarrow> a mod 4 * 16 + x < 64" and "y < 4 \<Longrightarrow> b mod 16 * 4 + y < 64"
proof -
  have "a mod 4 < 4" "b mod 16 < 16" by simp_all
  then show "x < 16 \<Longrightarrow> a mod 4 * 16 + x < 64" "y < 4 \<Longrightarrow> b mod 16 * 4 + y < 64" by linarith+
qed

lemma base64_octets_sextets:
  "list_all (\<lambda>b. b < 256) s \<Longrightarrow> base64_octets (base64_sextets s) = Some s"
  by (induction s rule: base64_sextets.induct) (simp_all add: octet_parts)

lemma base64_sextets_bound: "list_all (\<lambda>b. b < 256) s \<Longrightarrow> x \<in> set (base64_sextets s) \<Longrightarrow> x < 64"
  by (induction s rule: base64_sextets.induct) (auto simp: octet_parts sextet_sums sextet_sums [of 0, simplified] sextet_sums(2) [of 0, simplified])

lemma base64_decode_encode: "base64_decode (base64_encode raw) = Some raw"
proof -
  let ?s = "map of_char raw :: nat list"
  have bytes: "list_all (\<lambda>b. b < 256) ?s" by (simp add: list_all_iff)
  have sextets: "map base64_value (base64_encode raw) = map Some (base64_sextets ?s)"
    using base64_sextets_bound [OF bytes] by (simp add: base64_encode_def base64_value_char)
  have "map (char_of \<circ> (of_char :: char \<Rightarrow> nat)) raw = raw" by (rule map_idI) simp
  then show ?thesis
    using base64_octets_sextets [OF bytes]
    by (simp add: base64_decode_def Let_def sextets comp_def image_iff)
qed

lemma base64_encode_alphabet: "set (base64_encode raw) \<subseteq> set base64_alphabet"
  using base64_sextets_bound [of "map of_char raw"]
  by (auto simp: base64_encode_def base64_char_def list_all_iff base64_alphabet_facts)

lemma length_base64_encode: "3 * length (base64_encode raw) \<le> 4 * length raw + 2"
proof -
  have "3 * length (base64_sextets s) \<le> 4 * length s + 2" for s
    by (induction s rule: base64_sextets.induct) simp_all
  from this [of "map of_char raw"] show ?thesis by (simp add: base64_encode_def)
qed

lemma base64_encode_Nil [simp]: "base64_encode raw = [] \<longleftrightarrow> raw = []"
proof -
  have "base64_sextets s = [] \<longleftrightarrow> s = []" for s by (cases s rule: base64_sextets.cases) simp_all
  then show ?thesis by (simp add: base64_encode_def)
qed

end
