(* ===== verification/StrictJson.thy ===== *)
theory StrictJson
  imports Json Bytes
begin

text \<open>
  The strict reader of \<^verbatim>\<open>packages/contracts/src/asklegal_contracts/strict_json.py\<close> with the grammar of
  Python's \<^verbatim>\<open>json.loads\<close> it configures, over text of code points below 256. A document with other
  code points is \<^verbatim>\<open>OutsideModel\<close>; so is, until it is shown not to happen, one that exhausts the fuel
  of the recursive descent.
\<close>

section \<open>Failures\<close>

datatype contract_error_code =
    BODY_TOO_LARGE | CANONICALIZATION_FAILED | MALFORMED_JSON | NON_CANONICAL_JSON | SCHEMA_INVALID
  | SCHEMA_REFERENCE_FORBIDDEN | TYPE_BINDING_INVALID | UNKNOWN_SCHEMA

datatype json_failure = Violation contract_error_code | OutsideModel | OutOfFuel

abbreviation malformed :: "json_failure + 'a" where
  "malformed \<equiv> Inl (Violation MALFORMED_JSON)"

section \<open>Strings\<close>

definition is_json_space :: "char \<Rightarrow> bool" where
  "is_json_space c \<longleftrightarrow> c \<in> set [CHR 0x20, CHR 0x09, CHR 0x0A, CHR 0x0D]"

definition skip_space :: "string \<Rightarrow> string" where
  "skip_space s = dropWhile is_json_space s"

definition hex_digit_value :: "char \<Rightarrow> nat option" where
  "hex_digit_value c = (if is_digit c then Some (of_char c - 48)
     else if in_range (CHR ''a'') (CHR ''f'') c then Some (of_char c - 87)
     else if in_range (CHR ''A'') (CHR ''F'') c then Some (of_char c - 55)
     else None)"

definition hex4_value :: "string \<Rightarrow> nat option" where
  "hex4_value digits = (case map hex_digit_value digits of
     [Some a, Some b, Some c, Some d] \<Rightarrow> Some (a * 4096 + b * 256 + c * 16 + d)
   | _ \<Rightarrow> None)"

definition simple_escape :: "char \<Rightarrow> char option" where
  "simple_escape c = map_of (zip ([CHR 0x22, CHR 0x5C] @ ''/bfnrt'')
     [CHR 0x22, CHR 0x5C, CHR ''/'', CHR 0x08, CHR 0x0C, CHR 0x0A, CHR 0x0D, CHR 0x09]) c"

text \<open>The characters of a string after its opening quote, and what follows its closing one.\<close>

function (sequential) parse_string :: "string \<Rightarrow> json_failure + string \<times> string" where
  "parse_string [] = malformed"
| "parse_string (c # s) =
     (if c = CHR 0x22 then Inr ([], s)
      else if c = CHR 0x5C then (case s of
        [] \<Rightarrow> malformed
      | e # t \<Rightarrow>
          if e = CHR ''u'' then (case hex4_value (take 4 t) of
            None \<Rightarrow> malformed
          | Some n \<Rightarrow> if n < 256
              then and_then (parse_string (drop 4 t)) (\<lambda>(text, rest). Inr (char_of n # text, rest))
              else Inl OutsideModel)
          else (case simple_escape e of
            None \<Rightarrow> malformed
          | Some ch \<Rightarrow> and_then (parse_string t) (\<lambda>(text, rest). Inr (ch # text, rest))))
      else if (of_char c :: nat) < 32 then malformed
      else and_then (parse_string s) (\<lambda>(text, rest). Inr (c # text, rest)))"
  by pat_completeness auto
termination by (relation "measure length") auto

section \<open>Numbers\<close>

text \<open>
  \<^verbatim>\<open>(-?(?:0|[1-9][0-9]*))(\.[0-9]+)?([eE][-+]?[0-9]+)?\<close>: the integer part, the fraction with its point,
  the exponent with its sign, and what follows.
\<close>

record number_token =
  nt_negative :: bool
  nt_digits :: string
  nt_fraction :: string
  nt_exponent :: "(char \<times> string \<times> string) option"

definition scan_integer :: "string \<Rightarrow> (bool \<times> string \<times> string) option" where
  "scan_integer s = (let negative = (s \<noteq> [] \<and> hd s = CHR ''-''); t = (if negative then tl s else s) in
     if t = [] \<or> \<not> is_digit (hd t) then None
     else if hd t = CHR ''0'' then Some (negative, ''0'', tl t)
     else Some (negative, takeWhile is_digit t, dropWhile is_digit t))"

definition scan_fraction :: "string \<Rightarrow> string \<times> string" where
  "scan_fraction s = (case s of
     p # d # _ \<Rightarrow> if p = CHR ''.'' \<and> is_digit d then (takeWhile is_digit (tl s), dropWhile is_digit (tl s)) else ([], s)
   | _ \<Rightarrow> ([], s))"

definition scan_exponent :: "string \<Rightarrow> (char \<times> string \<times> string) option \<times> string" where
  "scan_exponent s = (case s of
     e # t \<Rightarrow>
       let sign = takeWhile (\<lambda>c. c = CHR ''+'' \<or> c = CHR ''-'') (take 1 t); u = drop (length sign) t in
       if (e = CHR ''e'' \<or> e = CHR ''E'') \<and> u \<noteq> [] \<and> is_digit (hd u)
       then (Some (e, sign, takeWhile is_digit u), dropWhile is_digit u) else (None, s)
   | [] \<Rightarrow> (None, s))"

definition scan_number :: "string \<Rightarrow> (number_token \<times> string) option" where
  "scan_number s = (case scan_integer s of
     None \<Rightarrow> None
   | Some (negative, digits, t) \<Rightarrow>
       let (fraction, u) = scan_fraction t; (exponent, v) = scan_exponent u in
       Some (\<lparr>nt_negative = negative, nt_digits = digits, nt_fraction = fraction, nt_exponent = exponent\<rparr>, v))"

definition digits_value :: "string \<Rightarrow> nat" where
  "digits_value s = foldl (\<lambda>n c. 10 * n + (of_char c - 48)) 0 s"

definition max_safe_integer :: int where
  "max_safe_integer = 9007199254740991"

text \<open>\<^verbatim>\<open>_parse_integer\<close>; \<^verbatim>\<open>int\<close> refuses more than 4300 digits.\<close>

definition parse_integer :: "number_token \<Rightarrow> json_failure + json" where
  "parse_integer t = (let value = (if nt_negative t then - int (digits_value (nt_digits t)) else int (digits_value (nt_digits t))) in
     guarded
       [raise_if (nt_negative t \<and> nt_digits t = ''0'') (Violation NON_CANONICAL_JSON),
        raise_if (4300 < length (nt_digits t)) (Violation MALFORMED_JSON),
        raise_if (value < - max_safe_integer \<or> max_safe_integer < value) (Violation NON_CANONICAL_JSON)]
       (Inr (JNumber value)))"

text \<open>
  \<^verbatim>\<open>_parse_float\<close>. The magnitude of the token is \<^term>\<open>m * 10 powi e\<close> for the integer \<^term>\<open>m\<close> of its
  digits: it rounds to infinity from \<^term>\<open>2 ^ 1024 - 2 ^ 970\<close> on, and to zero up to \<^term>\<open>1 / 2 ^ 1075\<close>.
\<close>

definition token_magnitude :: "number_token \<Rightarrow> nat \<times> int" where
  "token_magnitude t = (digits_value (nt_digits t @ nt_fraction t),
     (case nt_exponent t of None \<Rightarrow> 0
      | Some (_, sign, digits) \<Rightarrow> if sign = ''-'' then - int (digits_value digits) else int (digits_value digits))
     - int (length (nt_fraction t)))"

definition rounds_to_infinity :: "nat \<times> int \<Rightarrow> bool" where
  "rounds_to_infinity v = (case v of (m, e) \<Rightarrow>
     (2 ^ 1024 - 2 ^ 970) * 10 ^ nat (- e) \<le> m * 10 ^ nat e)"

definition rounds_to_zero :: "nat \<times> int \<Rightarrow> bool" where
  "rounds_to_zero v = (case v of (m, e) \<Rightarrow> m * 10 ^ nat e * 2 ^ 1075 \<le> 10 ^ nat (- e))"

definition number_text :: "number_token \<Rightarrow> string" where
  "number_text t = (if nt_negative t then ''-'' else '''') @ nt_digits t
     @ (if nt_fraction t = [] then [] else ''.'' @ nt_fraction t)
     @ (case nt_exponent t of None \<Rightarrow> [] | Some (e, sign, digits) \<Rightarrow> [e] @ sign @ digits)"

definition parse_float :: "number_token \<Rightarrow> json_failure + json" where
  "parse_float t = guarded
     [raise_if (rounds_to_infinity (token_magnitude t)) (Violation MALFORMED_JSON),
      raise_if (rounds_to_zero (token_magnitude t) \<and> nt_negative t) (Violation NON_CANONICAL_JSON)]
     (Inr (JReal (number_text t)))"

definition parse_number :: "string \<Rightarrow> json_failure + json \<times> string" where
  "parse_number s = (case scan_number s of
     None \<Rightarrow> malformed
   | Some (t, rest) \<Rightarrow> and_then
       (if nt_fraction t = [] \<and> nt_exponent t = None then parse_integer t else parse_float t)
       (\<lambda>j. Inr (j, rest)))"

section \<open>Values\<close>

text \<open>\<^verbatim>\<open>_object_from_pairs\<close>: a repeated key raises.\<close>

definition object_from_pairs :: "(string \<times> json) list \<Rightarrow> json_failure + json" where
  "object_from_pairs pairs = (if distinct (map fst pairs) then Inr (JObject pairs) else malformed)"

text \<open>A value at the head of the text; the elements of an array and the members of an object to their end.\<close>

fun parse_value :: "nat \<Rightarrow> string \<Rightarrow> json_failure + json \<times> string"
  and parse_items :: "nat \<Rightarrow> string \<Rightarrow> json_failure + json list \<times> string"
  and parse_members :: "nat \<Rightarrow> string \<Rightarrow> json_failure + (string \<times> json) list \<times> string" where
  "parse_value 0 s = Inl OutOfFuel"
| "parse_value (Suc n) s =
     (case s of
        [] \<Rightarrow> malformed
      | c # t \<Rightarrow>
          if c = CHR 0x22 then and_then (parse_string t) (\<lambda>(text, rest). Inr (JText text, rest))
          else if c = CHR 0x7B then
            (let u = skip_space t in
             if u \<noteq> [] \<and> hd u = CHR 0x7D then Inr (JObject [], tl u)
             else and_then (parse_members n u) (\<lambda>(pairs, rest).
               and_then (object_from_pairs pairs) (\<lambda>j. Inr (j, rest))))
          else if c = CHR 0x5B then
            (let u = skip_space t in
             if u \<noteq> [] \<and> hd u = CHR 0x5D then Inr (JArray [], tl u)
             else and_then (parse_items n u) (\<lambda>(items, rest). Inr (JArray items, rest)))
          else if starts_with s ''null'' then Inr (JNull, drop 4 s)
          else if starts_with s ''true'' then Inr (JBoolean True, drop 4 s)
          else if starts_with s ''false'' then Inr (JBoolean False, drop 5 s)
          else if starts_with s ''NaN'' \<or> starts_with s ''Infinity'' \<or> starts_with s ''-Infinity'' then malformed
          else parse_number s)"
| "parse_items 0 s = Inl OutOfFuel"
| "parse_items (Suc n) s = and_then (parse_value n s) (\<lambda>(j, t).
     case skip_space t of
       [] \<Rightarrow> malformed
     | c # u \<Rightarrow>
         if c = CHR 0x5D then Inr ([j], u)
         else if c = CHR 0x2C then and_then (parse_items n (skip_space u)) (\<lambda>(js, rest). Inr (j # js, rest))
         else malformed)"
| "parse_members 0 s = Inl OutOfFuel"
| "parse_members (Suc n) s =
     (if s = [] \<or> hd s \<noteq> CHR 0x22 then malformed
      else and_then (parse_string (tl s)) (\<lambda>(key, t).
        case skip_space t of
          [] \<Rightarrow> malformed
        | c # u \<Rightarrow>
            if c \<noteq> CHR 0x3A then malformed
            else and_then (parse_value n (skip_space u)) (\<lambda>(j, v).
              case skip_space v of
                [] \<Rightarrow> malformed
              | d # w \<Rightarrow>
                  if d = CHR 0x7D then Inr ([(key, j)], w)
                  else if d = CHR 0x2C then and_then (parse_members n (skip_space w))
                    (\<lambda>(pairs, rest). Inr ((key, j) # pairs, rest))
                  else malformed)))"

definition parse_document :: "string \<Rightarrow> json_failure + json" where
  "parse_document text = and_then (parse_value (2 * length text + 1) (skip_space text)) (\<lambda>(j, rest).
     if skip_space rest = [] then Inr j else malformed)"

text \<open>Text below code point 256 has no surrogate, so \<^verbatim>\<open>checked_json_value\<close> accepts what was read.\<close>

definition parse_json_bytes :: "string \<Rightarrow> int \<Rightarrow> json_failure + json" where
  "parse_json_bytes raw max_bytes = guarded
     [raise_if (max_bytes < 1 \<or> max_bytes < int (length raw)) (Violation BODY_TOO_LARGE),
      raise_if (starts_with raw [CHR 0xEF, CHR 0xBB, CHR 0xBF]) (Violation NON_CANONICAL_JSON)]
     (case utf8_decode raw of
        None \<Rightarrow> malformed
      | Some points \<Rightarrow> if list_all (\<lambda>p. p < 256) points then parse_document (map char_of points)
          else Inl OutsideModel)"

section \<open>Canonical text\<close>

text \<open>
  The values whose RFC 8785 text is what \<^verbatim>\<open>json.dumps\<close> writes: printable ASCII text, safe integers and
  objects in the order of their keys. \<^verbatim>\<open>encoder_law\<close> is what the standard documents for them.
\<close>

definition plain_text :: "string \<Rightarrow> bool" where
  "plain_text s \<longleftrightarrow> list_all (\<lambda>c. 32 \<le> (of_char c :: nat) \<and> (of_char c :: nat) \<le> 126) s"

fun plain_json :: "json \<Rightarrow> bool" where
  "plain_json (JText s) \<longleftrightarrow> plain_text s"
| "plain_json (JNumber i) \<longleftrightarrow> \<bar>i\<bar> \<le> max_safe_integer"
| "plain_json (JReal token) \<longleftrightarrow> False"
| "plain_json (JArray items) \<longleftrightarrow> list_all plain_json items"
| "plain_json (JObject pairs) \<longleftrightarrow> sorted (map fst pairs) \<and> distinct (map fst pairs)
     \<and> list_all (\<lambda>(k, j). plain_text k \<and> plain_json j) pairs"
| "plain_json j \<longleftrightarrow> True"

definition encoder_law :: "encoder \<Rightarrow> bool" where
  "encoder_law E \<longleftrightarrow> (\<forall>j. plain_json j \<longrightarrow> E j = Some (json_text j))"

end
