(* ===== verification/StrictJsonProperties.thy ===== *)
theory StrictJsonProperties
  imports StrictJson
begin

text \<open>
  The strict reader always answers, answers only with values of safe integers and distinct keys,
  and reads back what \<^verbatim>\<open>json.dumps\<close> writes.
\<close>

section \<open>What is left to read\<close>

lemma skip_space_length [simp]: "length (skip_space s) \<le> length s"
  by (simp add: skip_space_def length_dropWhile_le)

lemma skip_space_ConsD: "skip_space s = c # t \<Longrightarrow> length t < length s"
  using skip_space_length [of s] by simp

lemma parse_string_rest: "parse_string s = Inr (cs, rest) \<Longrightarrow> length rest < length s"
  by (induction s arbitrary: cs rest rule: parse_string.induct)
    (fastforce split: if_splits list.splits option.splits)+

lemma parse_string_fuel: "parse_string s \<noteq> Inl OutOfFuel"
  by (induction s rule: parse_string.induct)
    (auto simp: and_then_Inl split: if_splits list.splits option.splits)

lemma scan_number_rest: "scan_number s = Some (t, rest) \<Longrightarrow> length rest < length s"
proof -
  have fraction: "length (snd (scan_fraction s)) \<le> length s" for s
    by (auto simp: scan_fraction_def split: list.splits intro: le_SucI length_dropWhile_le)
  have exponent: "length (snd (scan_exponent s)) \<le> length s" for s
  proof -
    have "length (dropWhile is_digit (drop n t)) \<le> Suc (length t)" for n t
      using length_dropWhile_le [of is_digit "drop n t"] by simp
    then show ?thesis by (auto simp: scan_exponent_def Let_def split: list.splits)
  qed
  assume "scan_number s = Some (t, rest)"
  then obtain negative digits u where u: "scan_integer s = Some (negative, digits, u)"
      and rest: "rest = snd (scan_exponent (snd (scan_fraction u)))"
    by (auto simp: scan_number_def Let_def split: option.splits prod.splits)
  have "length u < length s"
    using u length_dropWhile_le [of is_digit]
    by (cases s; cases "tl s") (auto simp: scan_integer_def Let_def split: if_splits
        intro: le_less_trans [OF length_dropWhile_le])
  then show ?thesis using fraction [of u] exponent [of "snd (scan_fraction u)"] by (simp add: rest)
qed

lemma parse_number_rest: "parse_number s = Inr (j, rest) \<Longrightarrow> length rest < length s"
  by (auto simp: parse_number_def dest: scan_number_rest split: option.splits)

lemma parse_number_fuel: "parse_number s \<noteq> Inl OutOfFuel"
  by (auto simp: parse_number_def parse_integer_def parse_float_def guarded_def raise_if_def Let_def and_then_Inl
      split: option.splits)

section \<open>Fuel\<close>

text \<open>How a value was read, by its first character.\<close>

lemma parse_value_Inr:
  assumes "parse_value (Suc n) s = Inr (j, rest)"
  obtains (str) t cs where "s = CHR 0x22 # t" "parse_string t = Inr (cs, rest)" "j = JText cs"
  | (empty) t where "tl (skip_space t) = rest" "skip_space t \<noteq> []" "length t < length s" "j = JObject [] \<or> j = JArray []"
  | (members) t pairs where "length t < length s" "parse_members n (skip_space t) = Inr (pairs, rest)"
      "distinct (map fst pairs)" "j = JObject pairs"
  | (items) t js where "length t < length s" "parse_items n (skip_space t) = Inr (js, rest)" "j = JArray js"
  | (word) k where "s \<noteq> []" "rest = drop k s" "0 < k" "j \<in> {JNull, JBoolean True, JBoolean False}"
  | (num) "parse_number s = Inr (j, rest)"
proof -
  obtain c t where s: "s = c # t" using assms by (cases s) auto
  consider "c = CHR 0x22" | "c = CHR 0x7B" | "c = CHR 0x5B" | "c \<noteq> CHR 0x22" "c \<noteq> CHR 0x7B" "c \<noteq> CHR 0x5B"
    by blast
  then show ?thesis
  proof cases
    case 1
    then show ?thesis using assms str by (auto simp: s)
  next
    case 2
    then show ?thesis
      using assms empty [of t] members [of t] by (auto simp: s Let_def object_from_pairs_def split: if_splits)
  next
    case 3
    then show ?thesis using assms empty [of t] items [of t] by (auto simp: s Let_def split: if_splits)
  next
    case 4
    then show ?thesis
      using assms word [of 4] word [of 5] num
      by (simp add: s split: if_splits)
  qed
qed

lemma parse_items_Inr:
  assumes "parse_items (Suc n) s = Inr (js, rest)"
  obtains j t c u where "parse_value n s = Inr (j, t)" "skip_space t = c # u"
    "js = [j] \<and> rest = u \<or> (\<exists>js'. parse_items n (skip_space u) = Inr (js', rest) \<and> js = j # js')"
proof -
  obtain j t where v: "parse_value n s = Inr (j, t)" using assms by auto
  obtain c u where t: "skip_space t = c # u" using assms v by (cases "skip_space t") auto
  show ?thesis by (rule that [OF v t]) (use assms v t in \<open>auto split: if_splits\<close>)
qed

lemma parse_members_Inr:
  assumes "parse_members (Suc n) s = Inr (ps, rest)"
  obtains key t c u j v d w where "parse_string (tl s) = Inr (key, t)" "skip_space t = c # u"
    "parse_value n (skip_space u) = Inr (j, v)" "skip_space v = d # w"
    "ps = [(key, j)] \<and> rest = w \<or> (\<exists>ps'. parse_members n (skip_space w) = Inr (ps', rest) \<and> ps = (key, j) # ps')"
proof -
  obtain key t where k: "parse_string (tl s) = Inr (key, t)" using assms by (auto split: if_splits)
  obtain c u where t: "skip_space t = c # u" using assms k by (cases "skip_space t") (auto split: if_splits)
  obtain j v where v: "parse_value n (skip_space u) = Inr (j, v)" using assms k t by (auto split: if_splits)
  obtain d w where w: "skip_space v = d # w" using assms k t v by (cases "skip_space v") (auto split: if_splits)
  show ?thesis by (rule that [OF k t v w]) (use assms k t v w in \<open>auto split: if_splits\<close>)
qed

lemma parse_rest:
  "(\<forall>s j rest. parse_value n s = Inr (j, rest) \<longrightarrow> length rest < length s)
   \<and> (\<forall>s js rest. parse_items n s = Inr (js, rest) \<longrightarrow> length rest < length s)
   \<and> (\<forall>s ps rest. parse_members n s = Inr (ps, rest) \<longrightarrow> length rest < length s)"
proof (induction n)
  case (Suc n)
  have "length rest < length s" if v: "parse_value (Suc n) s = Inr (j, rest)" for s j rest
    using v
  proof (cases rule: parse_value_Inr)
    case (str t cs)
    then show ?thesis by (auto dest: parse_string_rest)
  next
    case (empty t)
    then have "length rest < length (skip_space t)" by auto
    then show ?thesis using empty skip_space_length [of t] by linarith
  next
    case (members t pairs)
    then have "length rest < length (skip_space t)" using Suc by blast
    then show ?thesis using members skip_space_length [of t] by linarith
  next
    case (items t js)
    then have "length rest < length (skip_space t)" using Suc by blast
    then show ?thesis using items skip_space_length [of t] by linarith
  qed (auto dest: parse_number_rest)
  moreover have "length rest < length s" if i: "parse_items (Suc n) s = Inr (js, rest)" for s js rest
    using i
  proof (rule parse_items_Inr)
    fix j t c u
    assume t: "parse_value n s = Inr (j, t)" "skip_space t = c # u"
      "js = [j] \<and> rest = u \<or> (\<exists>js'. parse_items n (skip_space u) = Inr (js', rest) \<and> js = j # js')"
    have "length t < length s" using t(1) Suc by blast
    then have u: "length u < length s" using skip_space_ConsD [OF t(2)] by linarith
    moreover have "length rest < length s" if "parse_items n (skip_space u) = Inr (js', rest)" for js'
    proof -
      have "length rest < length (skip_space u)" using that Suc by blast
      then show ?thesis using u skip_space_length [of u] by linarith
    qed
    ultimately show ?thesis using t(3) by blast
  qed
  moreover have "length rest < length s" if m: "parse_members (Suc n) s = Inr (ps, rest)" for s ps rest
    using m
  proof (rule parse_members_Inr)
    fix key t c u j v d w
    assume t: "parse_string (tl s) = Inr (key, t)" "skip_space t = c # u"
      "parse_value n (skip_space u) = Inr (j, v)" "skip_space v = d # w"
      "ps = [(key, j)] \<and> rest = w \<or> (\<exists>ps'. parse_members n (skip_space w) = Inr (ps', rest) \<and> ps = (key, j) # ps')"
    have "length v < length (skip_space u)" using t(3) Suc by blast
    then have w: "length w < length s"
      using parse_string_rest [OF t(1)] skip_space_ConsD [OF t(2)] skip_space_ConsD [OF t(4)] skip_space_length [of u]
        length_tl [of s] by linarith
    moreover have "length rest < length s" if "parse_members n (skip_space w) = Inr (ps', rest)" for ps'
    proof -
      have "length rest < length (skip_space w)" using that Suc by blast
      then show ?thesis using w skip_space_length [of w] by linarith
    qed
    ultimately show ?thesis using t(5) by blast
  qed
  ultimately show ?case by blast
qed simp

text \<open>Two units of fuel for every character are enough: one for its value, one for its list.\<close>

lemma parse_fuel:
  "(\<forall>s. 2 * length s < n \<longrightarrow> parse_value n s \<noteq> Inl OutOfFuel)
   \<and> (\<forall>s. 2 * length s + 1 < n \<longrightarrow> parse_items n s \<noteq> Inl OutOfFuel)
   \<and> (\<forall>s. 2 * length s + 1 < n \<longrightarrow> parse_members n s \<noteq> Inl OutOfFuel)"
proof (induction n)
  case (Suc n)
  have one: "parse_value n s \<noteq> Inl OutOfFuel" if "2 * length s < n" for s
    using Suc that by blast
  have many: "parse_items n s \<noteq> Inl OutOfFuel" "parse_members n s \<noteq> Inl OutOfFuel" if "2 * length s + 1 < n" for s
    using Suc that by blast+
  have "parse_value (Suc n) s \<noteq> Inl OutOfFuel" if "2 * length s < Suc n" for s
  proof (cases s)
    case (Cons c t)
    then have "2 * length (skip_space t) + 1 < n"
      using that skip_space_length [of t] by (simp del: skip_space_length)
    then have m: "parse_items n (skip_space t) \<noteq> Inl OutOfFuel" "parse_members n (skip_space t) \<noteq> Inl OutOfFuel"
      using many by blast+
    consider "c = CHR 0x22" | "c = CHR 0x7B" | "c = CHR 0x5B" | "c \<noteq> CHR 0x22" "c \<noteq> CHR 0x7B" "c \<noteq> CHR 0x5B"
      by blast
    then show ?thesis
    proof cases
      case 1
      then show ?thesis using parse_string_fuel [of t] by (auto simp: Cons and_then_Inl)
    next
      case 2
      then show ?thesis using m by (auto simp: Cons Let_def and_then_Inl object_from_pairs_def)
    next
      case 3
      then show ?thesis using m by (auto simp: Cons Let_def and_then_Inl)
    next
      case 4
      then show ?thesis using parse_number_fuel [of s] by (simp add: Cons)
    qed
  qed simp
  moreover have "parse_items (Suc n) s \<noteq> Inl OutOfFuel" if len: "2 * length s + 1 < Suc n" for s
  proof
    assume a: "parse_items (Suc n) s = Inl OutOfFuel"
    have "2 * length s < n" using len by simp
    then obtain j t where v: "parse_value n s = Inr (j, t)"
      using a one [of s] by (cases "parse_value n s") auto
    obtain c u where t: "skip_space t = c # u" using a v by (cases "skip_space t") auto
    have u: "parse_items n (skip_space u) = Inl OutOfFuel" using a v t by (auto simp: and_then_Inl split: if_splits)
    have "length t < length s" using v parse_rest [of n] by blast
    then have "2 * length (skip_space u) + 1 < n"
      using len skip_space_ConsD [OF t] skip_space_length [of u] by linarith
    then show False using many u by blast
  qed
  moreover have "parse_members (Suc n) s \<noteq> Inl OutOfFuel" if len: "2 * length s + 1 < Suc n" for s
  proof
    assume a: "parse_members (Suc n) s = Inl OutOfFuel"
    obtain key t where k: "parse_string (tl s) = Inr (key, t)"
      using a parse_string_fuel [of "tl s"] by (cases "parse_string (tl s)") (auto split: if_splits)
    obtain c u where t: "skip_space t = c # u" using a k by (cases "skip_space t") (auto split: if_splits)
    have u: "2 * length (skip_space u) < n"
      using len parse_string_rest [OF k] skip_space_ConsD [OF t] skip_space_length [of u] length_tl [of s] by linarith
    obtain j v where v: "parse_value n (skip_space u) = Inr (j, v)"
      using a k t one [OF u] by (cases "parse_value n (skip_space u)") (auto split: if_splits)
    obtain d w where w: "skip_space v = d # w"
      using a k t v by (cases "skip_space v") (auto split: if_splits)
    have "length v < length (skip_space u)" using v parse_rest [of n] by blast
    then have "2 * length (skip_space w) + 1 < n"
      using u skip_space_ConsD [OF w] skip_space_length [of w] by linarith
    then show False using a k t v w many by (auto simp: and_then_Inl split: if_splits)
  qed
  ultimately show ?case by blast
qed simp

text \<open>
  The strict reader always answers. Whatever the bytes and the ceiling, the recursive descent
  has fuel enough: the reader returns a value or raises a contract violation, unless the document
  has a code point the model has no text for.
\<close>

theorem strict_reader_answers: "parse_json_bytes raw max_bytes \<noteq> Inl OutOfFuel"
proof -
  have "parse_document s \<noteq> Inl OutOfFuel" for s
  proof -
    have "2 * length (skip_space s) < 2 * length s + 1"
      using skip_space_length [of s] by (simp del: skip_space_length)
    then have "parse_value (2 * length s + 1) (skip_space s) \<noteq> Inl OutOfFuel"
      by (rule parse_fuel [THEN conjunct1, rule_format])
    then show ?thesis unfolding parse_document_def and_then_Inl by (auto simp del: parse_value.simps split: if_splits)
  qed
  then show ?thesis by (auto simp: parse_json_bytes_def guarded_def raise_if_def split: option.splits)
qed

section \<open>Reading back what was written\<close>

definition delimited :: "string \<Rightarrow> bool" where
  "delimited rest \<longleftrightarrow> rest = [] \<or> hd rest \<in> set [CHR 0x2C, CHR 0x5D, CHR 0x7D]"

lemma hex_digit_value_char: "k < 16 \<Longrightarrow> hex_digit_value (hex_char k) = Some k"
proof -
  have "list_all (\<lambda>k. hex_digit_value (hex_char k) = Some k) [0..<16]" by code_simp
  then show "k < 16 \<Longrightarrow> hex_digit_value (hex_char k) = Some k" by (simp add: list_all_iff)
qed

lemma hex_digit_zero: "hex_digit_value (CHR ''0'') = Some 0"
  by code_simp

lemma hex4_padded:
  assumes "n < 256"
  shows "hex4_value (padded_hex 4 n) = Some n"
proof (cases "n < 16")
  case True
  then have "hexadecimal n = [hex_char n]" by (simp add: hexadecimal.simps)
  then show ?thesis
    using True by (simp add: padded_hex_def hex4_value_def hex_digit_value_char numeral_3_eq_3 hex_digit_zero)
next
  case False
  have "n div 16 < 16" using assms by (simp add: less_mult_imp_div_less)
  then have "hexadecimal n = [hex_char (n div 16), hex_char (n mod 16)]"
    using False by (simp add: hexadecimal.simps [of n] hexadecimal.simps [of "n div 16"])
  then show ?thesis
    using hex_digit_value_char [OF \<open>n div 16 < 16\<close>] hex_digit_value_char [of "n mod 16"]
    by (simp add: padded_hex_def hex4_value_def numeral_2_eq_2 hex_digit_zero)
qed

lemma length_padded_hex4: "n < 256 \<Longrightarrow> length (padded_hex 4 n) = 4"
  using padded_hex_word [of n 4] by (simp add: hex_word_def)

lemma parse_json_char:
  "parse_string (json_char c @ s) = and_then (parse_string s) (\<lambda>(cs, rest). Inr (c # cs, rest))"
proof -
  let ?n = "of_char c :: nat"
  consider "?n \<in> {34, 92, 10, 13, 9, 12, 8}" | "?n \<notin> {34, 92, 10, 13, 9, 12, 8}" "32 \<le> ?n" "?n \<le> 126"
    | "?n \<notin> {34, 92, 10, 13, 9, 12, 8}" "\<not> (32 \<le> ?n \<and> ?n \<le> 126)" by blast
  then show ?thesis
  proof cases
    case 1
    moreover have "c = char_of ?n" by simp
    moreover have "char_of (34::nat) = CHR 0x22" "char_of (92::nat) = CHR 0x5C" "char_of (10::nat) = CHR 0x0A"
        "char_of (13::nat) = CHR 0x0D" "char_of (9::nat) = CHR 0x09" "char_of (12::nat) = CHR 0x0C"
        "char_of (8::nat) = CHR 0x08"
      by code_simp+
    ultimately have "c \<in> {CHR 0x22, CHR 0x5C, CHR 0x0A, CHR 0x0D, CHR 0x09, CHR 0x0C, CHR 0x08}"
      by (elim insertE emptyE) (metis insertI1 insertI2)+
    then show ?thesis by (auto simp: json_char_def simple_escape_def)
  next
    case 2
    then have "c \<noteq> CHR 0x22" "c \<noteq> CHR 0x5C" by auto
    then show ?thesis using 2 by (simp add: json_char_def)
  next
    case 3
    then have "json_char c = [CHR 0x5C, CHR ''u''] @ padded_hex 4 ?n" by (simp add: json_char_def Let_def)
    moreover have "?n < 256" by simp
    ultimately show ?thesis using hex4_padded [of ?n] length_padded_hex4 [of ?n] by simp
  qed
qed

lemma parse_json_string: "parse_string (concat (map json_char s) @ CHR 0x22 # rest) = Inr (s, rest)"
  by (induction s) (simp_all add: parse_json_char del: parse_string.simps, simp)

lemma decimal_digit: "(n::nat) < 10 \<Longrightarrow> is_digit (char_of (48 + n)) \<and> of_char (char_of (48 + n) :: char) - 48 = n \<and> (char_of (48 + n) = CHR ''0'' \<longrightarrow> n = 0)"
proof -
  have "list_all (\<lambda>n::nat. is_digit (char_of (48 + n)) \<and> of_char (char_of (48 + n) :: char) - 48 = n
      \<and> (char_of (48 + n) = CHR ''0'' \<longrightarrow> n = 0)) [0..<10]" by code_simp
  then show "n < 10 \<Longrightarrow> ?thesis" by (simp add: list_all_iff)
qed

lemma decimal_nat_digits: "list_all is_digit (decimal_nat n)" "decimal_nat n \<noteq> []"
  by (induction n rule: decimal_nat.induct; subst decimal_nat.simps; simp add: decimal_digit)+

lemma decimal_nat_head: "hd (decimal_nat n) = CHR ''0'' \<Longrightarrow> n = 0"
proof (induction n rule: decimal_nat.induct)
  case (1 n)
  then show ?case
  proof (cases "n < 10")
    case True
    then show ?thesis using 1(2) decimal_digit [of n] by (simp add: decimal_nat.simps [of n])
  next
    case False
    then have "n div 10 = 0" using 1 decimal_nat_digits(2) [of "n div 10"] by (simp add: decimal_nat.simps [of n])
    then show ?thesis using False by simp
  qed
qed

lemma decimal_nat_value: "digits_value (decimal_nat n) = n"
proof (induction n rule: decimal_nat.induct)
  case (1 n)
  then show ?case
    using decimal_digit [of n] decimal_digit [of "n mod 10"]
    by (cases "n < 10") (simp_all add: decimal_nat.simps [of n] digits_value_def)
qed

lemma decimal_nat_length: "n < 10 ^ Suc k \<Longrightarrow> length (decimal_nat n) \<le> Suc k"
proof (induction k arbitrary: n)
  case (Suc k)
  have "n div 10 < 10 ^ Suc k" using Suc.prems by (simp add: less_mult_imp_div_less)
  then show ?case using Suc.IH [of "n div 10"] by (simp add: decimal_nat.simps [of n])
qed (simp add: decimal_nat.simps)

lemma delimited_number:
  assumes "delimited rest"
  shows "dropWhile is_digit (decimal_nat n @ rest) = rest" "takeWhile is_digit (decimal_nat n @ rest) = decimal_nat n"
    "scan_fraction rest = ([], rest)" "scan_exponent rest = (None, rest)"
proof -
  have "\<not> is_digit (CHR 0x2C)" "\<not> is_digit (CHR 0x5D)" "\<not> is_digit (CHR 0x7D)" by code_simp+
  then have stop: "rest = [] \<or> \<not> is_digit (hd rest)" using assms by (auto simp: delimited_def)
  then have "takeWhile is_digit rest = []" "dropWhile is_digit rest = rest" by (cases rest; simp)+
  then show "dropWhile is_digit (decimal_nat n @ rest) = rest" "takeWhile is_digit (decimal_nat n @ rest) = decimal_nat n"
    using decimal_nat_digits(1) [of n] by (simp_all add: list_all_iff dropWhile_append2 takeWhile_append2)
  show "scan_fraction rest = ([], rest)" "scan_exponent rest = (None, rest)"
    using assms by (auto simp: delimited_def scan_fraction_def scan_exponent_def Let_def split: list.splits)
qed

lemma scan_decimal_nat:
  assumes "delimited rest"
  shows "scan_integer (decimal_nat n @ rest) = Some (False, decimal_nat n, rest)"
    and "scan_integer (''-'' @ decimal_nat n @ rest) = Some (True, decimal_nat n, rest)"
proof -
  obtain d ds where d: "decimal_nat n = d # ds" using decimal_nat_digits(2) [of n] by (cases "decimal_nat n") auto
  have digit: "is_digit d" using decimal_nat_digits(1) [of n] by (simp add: d)
  have "\<not> is_digit (CHR ''-'')" by code_simp
  then have sign: "d \<noteq> CHR ''-''" using digit by auto
  have zero: "d = CHR ''0'' \<Longrightarrow> ds = []" using decimal_nat_head [of n] d by (auto simp: decimal_nat.simps [of 0])
  note scanned = delimited_number(1,2) [OF assms, of n, unfolded d, simplified digit, simplified]
  show "scan_integer (decimal_nat n @ rest) = Some (False, decimal_nat n, rest)"
    "scan_integer (''-'' @ decimal_nat n @ rest) = Some (True, decimal_nat n, rest)"
    using sign digit zero scanned by (auto simp: d scan_integer_def Let_def)
qed

lemma parse_decimal:
  assumes "delimited rest" and "\<bar>i\<bar> \<le> max_safe_integer"
  shows "parse_number (decimal i @ rest) = Inr (JNumber i, rest)"
proof -
  have "nat \<bar>i\<bar> < 10 ^ Suc 15" using assms(2) by (simp add: max_safe_integer_def)
  then have len: "length (decimal_nat (nat \<bar>i\<bar>)) \<le> 4300" using decimal_nat_length [of "nat \<bar>i\<bar>" 15] by simp
  have zero: "decimal_nat n = ''0'' \<Longrightarrow> n = 0" for n using decimal_nat_head [of n] by simp
  show ?thesis
  proof (cases "i < 0")
    case True
    then have "decimal_nat (nat (- i)) \<noteq> ''0''" using zero by fastforce
    then show ?thesis
      using True assms(2) len scan_decimal_nat(2) [OF assms(1), of "nat (- i)"] delimited_number(3,4) [OF assms(1)]
      by (simp add: parse_number_def scan_number_def decimal_def parse_integer_def guarded_def raise_if_def
          decimal_nat_value Let_def)
  next
    case False
    then show ?thesis
      using assms(2) len scan_decimal_nat(1) [OF assms(1), of "nat i"] delimited_number(3,4) [OF assms(1)]
      by (simp add: parse_number_def scan_number_def decimal_def parse_integer_def guarded_def raise_if_def
          decimal_nat_value Let_def)
  qed
qed

fun readable :: "json \<Rightarrow> bool" where
  "readable (JNumber i) \<longleftrightarrow> \<bar>i\<bar> \<le> max_safe_integer"
| "readable (JReal token) \<longleftrightarrow> False"
| "readable (JArray items) \<longleftrightarrow> list_all readable items"
| "readable (JObject pairs) \<longleftrightarrow> distinct (map fst pairs) \<and> list_all (\<lambda>(k, j). readable j) pairs"
| "readable j \<longleftrightarrow> True"

lemma decimal_head: "\<exists>c t. decimal i = c # t \<and> (is_digit c \<or> c = CHR ''-'' \<and> (\<exists>d u. t = d # u \<and> is_digit d))"
proof -
  have "\<exists>d u. decimal_nat n = d # u \<and> is_digit d" for n
    using decimal_nat_digits [of n] by (cases "decimal_nat n") auto
  then show ?thesis by (fastforce simp: decimal_def)
qed

text \<open>No written value starts with a character that ends a list or is skipped.\<close>

lemma json_text_head:
  "readable j \<Longrightarrow> \<exists>c t. json_text j = c # t \<and> \<not> is_json_space c \<and> c \<notin> set [CHR 0x5D, CHR 0x7D, CHR 0x2C, CHR 0x3A]"
proof (cases j)
  case (JNumber i)
  have "\<not> is_digit c" if "is_json_space c \<or> c \<in> set [CHR 0x5D, CHR 0x7D, CHR 0x2C, CHR 0x3A]" for c
  proof -
    have "list_all (\<lambda>c. \<not> is_digit c) [CHR 0x20, CHR 0x09, CHR 0x0A, CHR 0x0D, CHR 0x5D, CHR 0x7D, CHR 0x2C, CHR 0x3A]"
      by code_simp
    then show ?thesis using that by (auto simp: is_json_space_def)
  qed
  moreover have "\<not> is_json_space (CHR ''-'')" by code_simp
  ultimately show ?thesis using decimal_head [of i] JNumber by fastforce
qed (auto simp: json_string_def is_json_space_def)

lemma skip_json_text: "readable j \<Longrightarrow> skip_space (json_text j @ s) = json_text j @ s"
  using json_text_head [of j] by (auto simp: skip_space_def)

lemma skip_nonspace: "\<not> is_json_space c \<Longrightarrow> skip_space (c # s) = c # s"
  by (simp add: skip_space_def)

lemma json_punctuation: "\<not> is_json_space (CHR 0x5D)" "\<not> is_json_space (CHR 0x7D)" "\<not> is_json_space (CHR 0x2C)"
  "\<not> is_json_space (CHR 0x3A)" "\<not> is_json_space (CHR 0x22)"
  by code_simp+

lemma join_Cons: "xs \<noteq> [] \<Longrightarrow> join d (x # xs) = x @ d @ join d xs"
  by (cases xs) auto

definition reads_back :: "json \<Rightarrow> bool" where
  "reads_back j \<longleftrightarrow> (\<forall>n rest. delimited rest \<longrightarrow> 2 * length (json_text j) \<le> n
     \<longrightarrow> parse_value n (json_text j @ rest) = Inr (j, rest))"

lemma parse_items_text:
  "xs \<noteq> [] \<Longrightarrow> list_all readable xs \<Longrightarrow> list_all reads_back xs
     \<Longrightarrow> 2 * (length (join '','' (map json_text xs)) + 1) \<le> n
     \<Longrightarrow> parse_items n (join '','' (map json_text xs) @ CHR 0x5D # rest) = Inr (xs, rest)"
proof (induction xs arbitrary: n)
  case (Cons x xs)
  then obtain m where n: "n = Suc m" by (cases n) auto
  show ?case
  proof (cases "xs = []")
    case True
    have "delimited (CHR 0x5D # rest)" by (simp add: delimited_def)
    moreover have "2 * length (json_text x) \<le> m" using Cons.prems(4) by (simp add: n True)
    ultimately have "parse_value m (json_text x @ CHR 0x5D # rest) = Inr (x, CHR 0x5D # rest)"
      using Cons.prems(3) by (simp add: reads_back_def)
    then show ?thesis by (simp add: n True skip_nonspace json_punctuation)
  next
    case False
    have t: "join '','' (map json_text (x # xs)) = json_text x @ '','' @ join '','' (map json_text xs)"
      using False by (simp add: join_Cons)
    let ?rest = "join '','' (map json_text xs) @ CHR 0x5D # rest"
    have "delimited (CHR 0x2C # ?rest)" by (simp add: delimited_def)
    moreover have len: "2 * (length (json_text x) + length (join '','' (map json_text xs)) + 2) \<le> Suc m"
      using Cons.prems(4) by (simp only: t n) simp
    ultimately have "parse_value m (json_text x @ CHR 0x2C # ?rest) = Inr (x, CHR 0x2C # ?rest)"
      using Cons.prems(3) by (simp add: reads_back_def)
    moreover have "parse_items m ?rest = Inr (xs, rest)"
      using Cons.IH [of m] Cons.prems False len by simp
    moreover have "skip_space ?rest = ?rest"
    proof -
      obtain y ys where "xs = y # ys" using False by (cases xs) auto
      then show ?thesis using skip_json_text [of y] Cons.prems(2) by (cases ys) auto
    qed
    ultimately show ?thesis unfolding n t by (simp add: skip_nonspace json_punctuation)
  qed
qed simp

lemma parse_members_text:
  "ps \<noteq> [] \<Longrightarrow> list_all (\<lambda>(k, j). readable j) ps \<Longrightarrow> list_all (\<lambda>(k, j). reads_back j) ps
     \<Longrightarrow> 2 * (length (join '','' (map (\<lambda>(k, j). json_string k @ '':'' @ json_text j) ps)) + 1) \<le> n
     \<Longrightarrow> parse_members n (join '','' (map (\<lambda>(k, j). json_string k @ '':'' @ json_text j) ps) @ CHR 0x7D # rest)
       = Inr (ps, rest)"
proof (induction ps arbitrary: n)
  case (Cons p ps)
  then obtain m where n: "n = Suc m" by (cases n) auto
  obtain k j where p: "p = (k, j)" by (cases p)
  let ?members = "map (\<lambda>(k, j). json_string k @ '':'' @ json_text j)"
  have key: "parse_string (concat (map json_char k) @ CHR 0x22 # CHR 0x3A # s) = Inr (k, CHR 0x3A # s)" for s
    by (rule parse_json_string)
  have j: "readable j" "reads_back j" using Cons.prems by (simp_all add: p)
  show ?case
  proof (cases "ps = []")
    case True
    have "delimited (CHR 0x7D # rest)" by (simp add: delimited_def)
    moreover have "2 * length (json_text j) \<le> m" using Cons.prems(4) by (simp add: n True p json_string_def)
    ultimately have "parse_value m (json_text j @ CHR 0x7D # rest) = Inr (j, CHR 0x7D # rest)"
      using j by (simp add: reads_back_def)
    then show ?thesis
      using skip_json_text [OF j(1), of "CHR 0x7D # rest"]
      by (simp add: n True p json_string_def key skip_nonspace json_punctuation del: parse_string.simps)
  next
    case False
    have t: "join '','' (?members (p # ps)) = json_string k @ '':'' @ json_text j @ '','' @ join '','' (?members ps)"
      using False by (simp add: join_Cons p)
    let ?rest = "join '','' (?members ps) @ CHR 0x7D # rest"
    have "delimited (CHR 0x2C # ?rest)" by (simp add: delimited_def)
    moreover have len: "2 * (length (json_text j) + length (join '','' (?members ps)) + 2) \<le> Suc m"
      using Cons.prems(4) by (simp only: t n) (simp add: json_string_def)
    ultimately have "parse_value m (json_text j @ CHR 0x2C # ?rest) = Inr (j, CHR 0x2C # ?rest)"
      using j by (simp add: reads_back_def)
    moreover have "parse_members m ?rest = Inr (ps, rest)"
      using Cons.IH [of m] Cons.prems False len by simp
    moreover have "skip_space ?rest = ?rest"
    proof -
      obtain q qs where "ps = q # qs" using False by (cases ps) auto
      then show ?thesis by (cases q; cases qs) (simp_all add: json_string_def skip_nonspace json_punctuation)
    qed
    ultimately show ?thesis
      unfolding n t using skip_json_text [OF j(1), of "CHR 0x2C # ?rest"]
      by (simp add: p json_string_def [of k] key skip_nonspace json_punctuation del: parse_string.simps)
  qed
qed simp

lemma starts_with_differ: "c \<noteq> p \<Longrightarrow> starts_with (c # s) (p # ps) = False"
  by (simp add: starts_with_def)

lemma parse_value_decimal:
  assumes "delimited rest" and "\<bar>i\<bar> \<le> max_safe_integer"
  shows "parse_value (Suc n) (decimal i @ rest) = Inr (JNumber i, rest)"
proof -
  obtain c t where t: "decimal i = c # t" and c: "is_digit c \<or> c = CHR ''-'' \<and> (\<exists>d u. t = d # u \<and> is_digit d)"
    using decimal_head [of i] by blast
  have "list_all (\<lambda>c. \<not> is_digit c) [CHR 0x22, CHR 0x7B, CHR 0x5B, CHR ''n'', CHR ''t'', CHR ''f'', CHR ''N'', CHR ''I'', CHR ''-'']"
    by code_simp
  then have other: "c \<notin> set [CHR 0x22, CHR 0x7B, CHR 0x5B, CHR ''n'', CHR ''t'', CHR ''f'', CHR ''N'', CHR ''I'']"
      "\<not> starts_with (c # t @ rest) ''-Infinity''"
    using c by (auto simp: starts_with_def)
  have "parse_value (Suc n) ((c # t) @ rest) = parse_number ((c # t) @ rest)"
    using other by (simp add: starts_with_differ)
  then show ?thesis using parse_decimal [OF assms] by (simp add: t)
qed

lemma reads_backI:
  assumes "json_text j \<noteq> []"
    and "\<And>m rest. delimited rest \<Longrightarrow> 2 * length (json_text j) \<le> Suc m
      \<Longrightarrow> parse_value (Suc m) (json_text j @ rest) = Inr (j, rest)"
  shows "reads_back j"
  unfolding reads_back_def
proof (intro allI impI)
  fix n rest
  assume "delimited rest" "2 * length (json_text j) \<le> n"
  with assms show "parse_value n (json_text j @ rest) = Inr (j, rest)" by (cases n) simp_all
qed

lemma readable_reads_back: "readable j \<Longrightarrow> reads_back j"
proof (induction j)
  case (JArray xs)
  show ?case
  proof (rule reads_backI)
    fix m rest
    assume len: "2 * length (json_text (JArray xs)) \<le> Suc m"
    show "parse_value (Suc m) (json_text (JArray xs) @ rest) = Inr (JArray xs, rest)"
    proof (cases "xs = []")
      case True
      then show ?thesis by (simp add: skip_nonspace json_punctuation)
    next
      case False
      have items: "parse_items m (join '','' (map json_text xs) @ CHR 0x5D # rest) = Inr (xs, rest)"
        by (rule parse_items_text) (use JArray False len in \<open>auto simp: list_all_iff\<close>)
      obtain y ys where xs: "xs = y # ys" using False by (cases xs) auto
      obtain c t where y: "json_text y = c # t" "\<not> is_json_space c" "c \<noteq> CHR 0x5D"
        using json_text_head [of y] JArray.prems by (auto simp: xs)
      then obtain s where s: "join '','' (map json_text xs) @ CHR 0x5D # rest = c # s"
        by (cases ys) (auto simp: xs)
      have "json_text (JArray xs) @ rest = CHR 0x5B # join '','' (map json_text xs) @ CHR 0x5D # rest" by simp
      then show ?thesis using items y(2,3) by (simp add: s skip_nonspace)
    qed
  qed simp
next
  case (JObject ps)
  show ?case
  proof (rule reads_backI)
    fix m rest
    assume len: "2 * length (json_text (JObject ps)) \<le> Suc m"
    let ?members = "join '','' (map (\<lambda>(k, j). json_string k @ '':'' @ json_text j) ps)"
    show "parse_value (Suc m) (json_text (JObject ps) @ rest) = Inr (JObject ps, rest)"
    proof (cases "ps = []")
      case True
      then show ?thesis by (simp add: skip_nonspace json_punctuation)
    next
      case False
      have "list_all (\<lambda>(k, j). reads_back j) ps"
        using JObject by (fastforce simp: list_all_iff)
      then have members: "parse_members m (?members @ CHR 0x7D # rest) = Inr (ps, rest)"
        by (intro parse_members_text) (use JObject.prems False len in auto)
      obtain s where s: "?members @ CHR 0x7D # rest = CHR 0x22 # s"
        using False by (cases ps; cases "tl ps") (auto simp: json_string_def)
      then have t: "json_text (JObject ps) @ rest = CHR 0x7B # CHR 0x22 # s" by simp
      show ?thesis
        unfolding t using members JObject.prems
        by (simp add: s [simplified] skip_nonspace json_punctuation object_from_pairs_def)
    qed
  qed simp
next
  case (JText s)
  show ?case
    by (rule reads_backI) (simp_all add: json_string_def parse_json_string del: parse_string.simps)
next
  case (JNumber i)
  show ?case
  proof (rule reads_backI)
    show "json_text (JNumber i) \<noteq> []" using decimal_head [of i] by auto
  qed (use JNumber parse_value_decimal in simp)
qed (auto intro!: reads_backI simp: starts_with_def split: if_splits)

lemma ascii_digit: "is_digit c \<Longrightarrow> (of_char c :: nat) < 0x80"
  by (simp add: is_digit_def in_range_def)

lemma ascii_json_char: "c' \<in> set (json_char c) \<Longrightarrow> (of_char c' :: nat) < 0x80"
proof -
  have hex: "(of_char d :: nat) < 0x80" if "is_hex d" for d
    using that by (auto simp: is_hex_def is_digit_def in_range_def)
  have "(of_char c :: nat) < 16 ^ 4" by (rule less_trans [of _ 256]) simp_all
  then have "list_all is_hex (padded_hex 4 (of_char c))"
    using padded_hex_word [of "of_char c" 4] by (simp add: hex_word_def)
  then show "c' \<in> set (json_char c) \<Longrightarrow> ?thesis"
    using hex by (auto simp: json_char_def Let_def list_all_iff split: if_splits)
qed

lemma ascii_json_string: "c \<in> set (json_string s) \<Longrightarrow> (of_char c :: nat) < 0x80"
  using ascii_json_char by (auto simp: json_string_def)

lemma ascii_join: "c \<in> set (join d xs) \<Longrightarrow> c \<in> set d \<or> (\<exists>x \<in> set xs. c \<in> set x)"
  by (induction d xs rule: join.induct) auto

lemma ascii_json_text: "readable j \<Longrightarrow> c \<in> set (json_text j) \<Longrightarrow> (of_char c :: nat) < 0x80"
proof (induction j arbitrary: c)
  case (JArray xs)
  then show ?case by (auto simp: list_all_iff dest!: ascii_join)
next
  case (JObject ps)
  then show ?case by (fastforce simp: list_all_iff dest!: ascii_join dest: ascii_json_string)
next
  case (JNumber i)
  then show ?case
    using decimal_nat_digits(1) by (auto simp: decimal_def list_all_iff ascii_digit split: if_splits)
qed (auto split: if_splits dest: ascii_json_string)

lemma parse_json_text:
  assumes "readable j" and "int (length (json_text j)) \<le> max_bytes"
  shows "parse_json_bytes (json_text j) max_bytes = Inr j"
proof -
  obtain c t where t: "json_text j = c # t" "\<not> is_json_space c" using json_text_head [OF assms(1)] by blast
  have ascii: "list_all (\<lambda>c. (of_char c :: nat) < 0x80) (json_text j)"
    using ascii_json_text [OF assms(1)] by (simp add: list_all_iff)
  have "parse_value (2 * length (json_text j) + 1) (json_text j @ []) = Inr (j, [])"
    using readable_reads_back [OF assms(1)] by (simp add: reads_back_def delimited_def del: parse_value.simps)
  then have "parse_document (json_text j) = Inr j"
    using skip_json_text [OF assms(1), of "[]"] skip_space_length [of "[]"]
    by (simp add: parse_document_def del: parse_value.simps json_text.simps)
  moreover have "\<not> starts_with (json_text j) [CHR 0xEF, CHR 0xBB, CHR 0xBF]"
    using ascii by (auto simp: t starts_with_def)
  moreover have "map char_of (map of_char (json_text j) :: nat list) = json_text j"
    by (simp add: map_idI)
  moreover have "list_all (\<lambda>p. p < 256) (map of_char (json_text j) :: nat list)" by (simp add: list_all_iff)
  moreover have "1 \<le> max_bytes" using assms(2) by (simp add: t)
  ultimately show ?thesis
    using assms(2) utf8_decode_ascii [OF ascii]
    by (simp add: parse_json_bytes_def guarded_def raise_if_def)
qed

text \<open>
  C31: What \<^verbatim>\<open>json.dumps\<close> writes is read back. For a value without numbers that have a fraction or an
  exponent, whose integers are safe and whose objects have distinct keys, reading the compact text of
  \<^verbatim>\<open>json.dumps\<close> gives the value, whenever the ceiling admits its length. The same holds of the RFC 8785
  bytes of such a value if its text is printable ASCII and its keys are in order, for an encoder that is
  as the standard has it on these values.
\<close>

theorem written_json_is_read_back:
  assumes "readable j" and "int (length (json_text j)) \<le> max_bytes"
  shows "parse_json_bytes (json_text j) max_bytes = Inr j
    \<and> (encoder_law E \<and> plain_json j \<longrightarrow> map_option (\<lambda>raw. parse_json_bytes raw max_bytes) (E j) = Some (Inr j))"
  using parse_json_text [OF assms] by (simp add: encoder_law_def)

lemma written_json_is_read_back_witness:
  "parse_json_bytes (json_text (JObject [(''a'', JArray [JNumber (- 5), JNull]), (''b'', JText ''x'')])) 64
     = Inr (JObject [(''a'', JArray [JNumber (- 5), JNull]), (''b'', JText ''x'')])
   \<and> map_option (\<lambda>raw. parse_json_bytes raw 64) (Some (json_text (JArray [JNumber 7, JText ''x'']))) = Some (Inr (JArray [JNumber 7, JText ''x'']))"
proof -
  have "encoder_law (\<lambda>j. Some (json_text j))" by (simp add: encoder_law_def)
  moreover have "plain_json (JArray [JNumber 7, JText ''x''])" by code_simp
  moreover have "map_option (\<lambda>raw. parse_json_bytes raw 64) (Some (json_text (JArray [JNumber 7, JText ''x''])))
      = Some (Inr (JArray [JNumber 7, JText ''x'']))"
    if "encoder_law (\<lambda>j. Some (json_text j))" "plain_json (JArray [JNumber 7, JText ''x''])"
    by (rule written_json_is_read_back [THEN conjunct2, THEN mp, OF _ _ conjI [OF that]]) code_simp+
  moreover have "parse_json_bytes (json_text (JObject [(''a'', JArray [JNumber (- 5), JNull]), (''b'', JText ''x'')])) 64
      = Inr (JObject [(''a'', JArray [JNumber (- 5), JNull]), (''b'', JText ''x'')])"
    by (rule written_json_is_read_back [THEN conjunct1]) code_simp+
  ultimately show ?thesis by blast
qed

section \<open>What is accepted\<close>

fun strict_json :: "json \<Rightarrow> bool" where
  "strict_json (JNumber i) \<longleftrightarrow> \<bar>i\<bar> \<le> max_safe_integer"
| "strict_json (JArray items) \<longleftrightarrow> list_all strict_json items"
| "strict_json (JObject pairs) \<longleftrightarrow> distinct (map fst pairs) \<and> list_all (\<lambda>(k, j). strict_json j) pairs"
| "strict_json j \<longleftrightarrow> True"

lemma parse_number_strict: "parse_number s = Inr (j, rest) \<Longrightarrow> strict_json j"
  by (auto simp: parse_number_def parse_integer_def parse_float_def guarded_Inr Let_def split: option.splits if_splits)

lemma parse_strict:
  "(\<forall>s j rest. parse_value n s = Inr (j, rest) \<longrightarrow> strict_json j)
   \<and> (\<forall>s js rest. parse_items n s = Inr (js, rest) \<longrightarrow> list_all strict_json js)
   \<and> (\<forall>s ps rest. parse_members n s = Inr (ps, rest) \<longrightarrow> list_all (\<lambda>(k, j). strict_json j) ps)"
proof (induction n)
  case (Suc n)
  have "strict_json j" if "parse_value (Suc n) s = Inr (j, rest)" for s j rest
    using that
  proof (cases rule: parse_value_Inr)
    case (members t pairs)
    then have "list_all (\<lambda>(k, j). strict_json j) pairs" using Suc by blast
    then show ?thesis using members by simp
  next
    case (items t js)
    then have "list_all strict_json js" using Suc by blast
    then show ?thesis using items by simp
  qed (use parse_number_strict in auto)
  moreover have "list_all strict_json js" if "parse_items (Suc n) s = Inr (js, rest)" for s js rest
    by (rule parse_items_Inr [OF that]) (use Suc in fastforce)
  moreover have "list_all (\<lambda>(k, j). strict_json j) ps" if "parse_members (Suc n) s = Inr (ps, rest)" for s ps rest
    by (rule parse_members_Inr [OF that]) (use Suc in fastforce)
  ultimately show ?case by blast
qed simp

lemma parse_document_strict: "parse_document s = Inr j \<Longrightarrow> strict_json j"
proof -
  assume "parse_document s = Inr j"
  then obtain rest where "parse_value (2 * length s + 1) (skip_space s) = Inr (j, rest)"
    by (auto simp: parse_document_def simp del: parse_value.simps split: if_splits)
  then show ?thesis by (rule parse_strict [THEN conjunct1, rule_format])
qed

text \<open>
  Only strict documents are accepted. What the reader returns has distinct keys in every object
  and no integer beyond the safe range, and came from no more bytes than the ceiling admits.
\<close>

theorem read_json_is_strict:
  assumes "parse_json_bytes raw max_bytes = Inr j"
  shows "strict_json j \<and> int (length raw) \<le> max_bytes"
  using assms
  by (auto simp: parse_json_bytes_def guarded_Inr dest: parse_document_strict split: option.splits if_splits)

lemma read_json_is_strict_witness: "strict_json (JObject [(''a'', JNumber 1)])"
  by (rule read_json_is_strict [THEN conjunct1, of "json_text (JObject [(''a'', JNumber 1)])" 100]) code_simp

end
