(* ===== verification/VaultFiles.thy ===== *)
theory VaultFiles
  imports Stores
begin

text \<open>
  The part of a file system the local vault uses, below one of its roots: folders, documents and
  symbolic links by their path. The root itself is a folder. The limits a file system sets on names
  and space, and changes by other processes in the middle of an operation, are not modelled.
\<close>

datatype node = Folder | Document string | Alias

type_synonym path = "string list"
type_synonym tree = "(path \<times> node) list"

definition node_at :: "tree \<Rightarrow> path \<Rightarrow> node option" where
  "node_at t path = (if path = [] then Some Folder else map_of t path)"

fun document :: "node option \<Rightarrow> string option" where
  "document (Some (Document content)) = Some content"
| "document _ = None"

text \<open>The non-empty prefixes of a path, itself included.\<close>

definition steps_to :: "path \<Rightarrow> path list" where
  "steps_to path = map (\<lambda>i. take i path) [1..<Suc (length path)]"

text \<open>\<^verbatim>\<open>path.mkdir(parents=True, exist_ok=True)\<close>: \<^const>\<open>None\<close> where something else is in the way.\<close>

definition make_folders :: "path \<Rightarrow> tree \<Rightarrow> tree option" where
  "make_folders path t =
     (if list_all (\<lambda>p. node_at t p = None \<or> node_at t p = Some Folder) (steps_to path)
      then Some (map (\<lambda>p. (p, Folder)) (filter (\<lambda>p. node_at t p = None) (steps_to path)) @ t)
      else None)"

text \<open>\<^verbatim>\<open>path.write_bytes(content)\<close> and \<^verbatim>\<open>path.unlink()\<close>.\<close>

definition write_file :: "path \<Rightarrow> string \<Rightarrow> tree \<Rightarrow> tree option" where
  "write_file path content t =
     (if node_at t path = Some Folder \<or> node_at t (butlast path) \<noteq> Some Folder then None
      else Some (AList.update path (Document content) t))"

definition remove_file :: "path \<Rightarrow> tree \<Rightarrow> tree" where
  "remove_file path t = AList.delete path t"

text \<open>\<^verbatim>\<open>directory.iterdir()\<close>: the names and nodes of the children.\<close>

definition children :: "path \<Rightarrow> tree \<Rightarrow> (string \<times> node) list" where
  "children folder t = map (\<lambda>(p, n). (last p, n)) (filter (\<lambda>(p, n). p \<noteq> [] \<and> butlast p = folder) t)"

section \<open>Well-formed trees\<close>

text \<open>Every node has one path, and lies in a folder.\<close>

definition tree_ok :: "tree \<Rightarrow> bool" where
  "tree_ok t \<longleftrightarrow> distinct (map fst t)
     \<and> list_all (\<lambda>(p, n). p \<noteq> [] \<and> n \<noteq> Alias \<and> node_at t (butlast p) = Some Folder) t"

lemma node_at_Nil [simp]: "node_at t [] = Some Folder"
  by (simp add: node_at_def)

lemma node_at_empty: "path \<noteq> [] \<Longrightarrow> node_at [] path = None"
  by (simp add: node_at_def)

lemma tree_ok_empty [simp]: "tree_ok []"
  by (simp add: tree_ok_def)

lemma tree_ok_node: "tree_ok t \<Longrightarrow> node_at t p = Some n \<Longrightarrow> n \<noteq> Alias"
  by (auto simp: tree_ok_def list_all_iff node_at_def dest!: map_of_SomeD split: if_splits)

lemma tree_ok_parent: "tree_ok t \<Longrightarrow> node_at t p = Some n \<Longrightarrow> node_at t (butlast p) = Some Folder"
  by (auto simp: tree_ok_def list_all_iff node_at_def dest!: map_of_SomeD split: if_splits)

lemma tree_ok_prefix:
  assumes "tree_ok t" and "node_at t (p @ q) = Some n" and "q \<noteq> []"
  shows "node_at t p = Some Folder"
  using assms(2,3)
proof (induction q arbitrary: n rule: rev_induct)
  case (snoc x q)
  have "node_at t (p @ q) = Some Folder" using tree_ok_parent [OF assms(1) snoc.prems(1)] by (simp add: butlast_append)
  then show ?case using snoc.IH by (cases "q = []") auto
qed simp

lemma mem_steps_to: "p \<in> set (steps_to path) \<longleftrightarrow> p \<noteq> [] \<and> (\<exists>q. path = p @ q)"
proof
  assume "p \<in> set (steps_to path)"
  then obtain i where "1 \<le> i" "i \<le> length path" "p = take i path" by (auto simp: steps_to_def)
  then show "p \<noteq> [] \<and> (\<exists>q. path = p @ q)" by (auto intro: append_take_drop_id [symmetric])
next
  assume "p \<noteq> [] \<and> (\<exists>q. path = p @ q)"
  then obtain q where "p \<noteq> []" "path = p @ q" by blast
  then show "p \<in> set (steps_to path)"
    by (auto simp: steps_to_def Suc_le_eq intro!: image_eqI [of _ _ "length p"])
qed

lemma distinct_steps_to: "distinct (steps_to path)"
proof -
  have "map length (steps_to path) = [1..<Suc (length path)]"
    by (auto simp: steps_to_def intro!: map_idI)
  then show ?thesis by (metis distinct_map distinct_upt)
qed

section \<open>What the operations change\<close>

lemma node_at_make_folders:
  assumes "make_folders path t = Some t'"
  shows "node_at t' p = (if p \<in> set (steps_to path) \<and> node_at t p = None then Some Folder else node_at t p)"
proof -
  let ?new = "filter (\<lambda>p. node_at t p = None) (steps_to path)"
  have t': "t' = map (\<lambda>p. (p, Folder)) ?new @ t" using assms by (simp add: make_folders_def split: if_splits)
  have "map_of (map (\<lambda>p. (p, Folder)) qs) p = (if p \<in> set qs then Some Folder else None)" for qs :: "path list"
    by (induction qs) auto
  then show ?thesis by (cases "p = []") (auto simp: node_at_def t' map_add_def split: option.splits)
qed

lemma node_at_write_file:
  "write_file path content t = Some t' \<Longrightarrow> node_at t' p = (if p = path then Some (Document content) else node_at t p)"
  by (auto simp: write_file_def node_at_def update_conv' split: if_splits)

lemma node_at_remove_file: "path \<noteq> [] \<Longrightarrow> node_at (remove_file path t) p = (if p = path then None else node_at t p)"
  by (auto simp: remove_file_def node_at_def delete_conv')

lemma make_folders_ok:
  assumes "tree_ok t" and "make_folders path t = Some t'"
  shows "tree_ok t'"
proof -
  let ?new = "filter (\<lambda>p. node_at t p = None) (steps_to path)"
  have ok: "list_all (\<lambda>p. node_at t p = None \<or> node_at t p = Some Folder) (steps_to path)"
    and t': "t' = map (\<lambda>p. (p, Folder)) ?new @ t"
    using assms(2) by (auto simp: make_folders_def split: if_splits)
  have "distinct (map fst t')"
    using assms(1) distinct_steps_to
    by (auto simp: t' tree_ok_def comp_def node_at_def mem_steps_to map_of_eq_None_iff)
  moreover have "node_at t' (butlast p) = Some Folder" if "p \<in> set ?new" for p
  proof (cases "butlast p = []")
    case False
    from that obtain q where "path = p @ q" "p \<noteq> []" by (auto simp: mem_steps_to)
    then have "path = butlast p @ (last p # q)" by simp
    then have "butlast p \<in> set (steps_to path)" using False by (auto simp: mem_steps_to simp del: append_butlast_last_id)
    then show ?thesis using ok by (auto simp: node_at_make_folders [OF assms(2)] list_all_iff)
  qed simp
  moreover have "node_at t' (butlast p) = Some Folder" if "(p, n) \<in> set t" for p n
    using assms(1) that by (auto simp: node_at_make_folders [OF assms(2)] tree_ok_def list_all_iff)
  ultimately show ?thesis
    using assms(1) by (auto simp: tree_ok_def t' list_all_iff mem_steps_to)
qed

lemma update_set_subset: "x \<in> set (AList.update k v m) \<Longrightarrow> x = (k, v) \<or> x \<in> set m"
  by (induction m) (auto split: if_splits)

lemma write_file_ok:
  assumes "tree_ok t" and "path \<noteq> []" and "write_file path content t = Some t'"
  shows "tree_ok t'"
proof -
  have t': "t' = AList.update path (Document content) t"
    and free: "node_at t path \<noteq> Some Folder" "node_at t (butlast path) = Some Folder"
    using assms(3) by (auto simp: write_file_def split: if_splits)
  have keep: "node_at t' (butlast p) = Some Folder" if "node_at t (butlast p) = Some Folder" for p
    using that free(1) by (auto simp: node_at_write_file [OF assms(3)])
  have "p \<noteq> [] \<and> n \<noteq> Alias \<and> node_at t' (butlast p) = Some Folder" if "(p, n) \<in> set t'" for p n
  proof -
    have "(p, n) = (path, Document content) \<or> (p, n) \<in> set t"
      using that by (auto simp: t' dest: update_set_subset)
    then show ?thesis
      using assms(1,2) free(2) keep by (fastforce simp: tree_ok_def list_all_iff)
  qed
  moreover have "distinct (map fst t')" using assms(1) by (simp add: tree_ok_def t')
  ultimately show ?thesis by (auto simp: tree_ok_def list_all_iff)
qed

lemma remove_file_ok:
  assumes "tree_ok t" and "document (node_at t path) \<noteq> None"
  shows "tree_ok (remove_file path t)"
proof -
  have path: "path \<noteq> []" using assms(2) by auto
  have other: "node_at (remove_file path t) (butlast p) = Some Folder" if "node_at t (butlast p) = Some Folder" for p
    using that assms(2) by (auto simp: node_at_remove_file [OF path])
  have "distinct (map fst (remove_file path t))"
    using assms(1) by (simp add: tree_ok_def remove_file_def AList.distinct_delete)
  moreover have "(p, n) \<in> set t" if "(p, n) \<in> set (remove_file path t)" for p n
    using that by (simp add: remove_file_def AList.delete_eq)
  ultimately show ?thesis
    using assms(1) other by (fastforce simp: tree_ok_def list_all_iff)
qed

section \<open>The children of a folder\<close>

lemma mem_children:
  assumes "distinct (map fst t)" and "list_all (\<lambda>(p, n). p \<noteq> []) t"
  shows "(name, n) \<in> set (children folder t) \<longleftrightarrow> node_at t (folder @ [name]) = Some n"
proof
  assume "(name, n) \<in> set (children folder t)"
  then obtain p where p: "(p, n) \<in> set t" "p \<noteq> []" "butlast p = folder" "last p = name"
    by (auto simp: children_def)
  then have "p = folder @ [name]" by auto
  then show "node_at t (folder @ [name]) = Some n" using p(1) assms(1) by (simp add: node_at_def)
next
  assume "node_at t (folder @ [name]) = Some n"
  then have "(folder @ [name], n) \<in> set t" by (auto simp: node_at_def dest: map_of_SomeD)
  then show "(name, n) \<in> set (children folder t)"
    by (force simp: children_def)
qed

lemma distinct_children:
  assumes "distinct (map fst t)"
  shows "distinct (map fst (children folder t))"
proof -
  let ?own = "filter (\<lambda>(p, n). p \<noteq> [] \<and> butlast p = folder) t"
  have "map fst (children folder t) = map last (map fst ?own)"
    by (simp add: children_def comp_def split_def)
  moreover have "distinct (map fst ?own)" using assms by (rule distinct_map_filter)
  moreover have "inj_on last (set (map fst ?own))"
    by (rule inj_onI) (auto, metis append_butlast_last_id)
  ultimately show ?thesis by (simp only: distinct_map simp_thms)
qed

end
