(* ===== verification/VaultModel.thy ===== *)
theory VaultModel
  imports StrictJson
begin

text \<open>
  The values of \<^verbatim>\<open>packages/evidence-vault/src/asklegal_evidence_vault/model.py\<close>: exact references,
  retention profiles, artifact descriptors, manifests and receipts, each with the checks of its
  \<^verbatim>\<open>__post_init__\<close>. The types of the fields are exact in the model, so the \<^verbatim>\<open>TypeError\<close> branches of
  the code have no counterpart. A byte string is a \<^typ>\<open>string\<close>; the version a provider issues is a
  list of code points, for it may hold any.
\<close>

section \<open>Failures\<close>

text \<open>
  The evidence errors and those of the S3 adapter, the \<^verbatim>\<open>ValueError\<close> of a validation, a missing file,
  a failed file operation and an exception of a client that no handler names. \<^verbatim>\<open>Unmodelled\<close> stands
  for text with code points above 255.
\<close>

datatype s3_vault_error_code =
  S3_CLIENT | S3_CONFIGURATION | S3_CREDENTIAL | S3_PROVIDER | S3_READINESS | S3_RESPONSE | S3_RETENTION

datatype evidence_error =
    VaultCollision string | CorruptEvidence string | EvidenceIntegrityIncident string
  | PackageIncomplete string | RetentionBlocked string | S3VaultError s3_vault_error_code
  | ValueFault string | ContractFault contract_error_code
  | FileMissing string | OsFault | ClientFault | Unmodelled

section \<open>Text and identifiers\<close>

definition evidence_text :: "string \<Rightarrow> string \<Rightarrow> evidence_error option" where
  "evidence_text s field = raise_if (\<not> is_exact_text s)
     (ValueFault (field @ '' must be non-empty and whitespace-exact''))"

definition fingerprint_text :: "string \<Rightarrow> string \<Rightarrow> evidence_error option" where
  "fingerprint_text s field = first_raise
     [evidence_text s field,
      raise_if (\<not> fingerprint_pattern s)
        (ValueFault (field @ '' must be sha256:<64 lowercase hexadecimal characters>''))]"

definition identifier_text :: "string \<Rightarrow> string \<Rightarrow> evidence_error option" where
  "identifier_text s field = first_raise
     [evidence_text s field,
      raise_if (\<not> id_pattern s) (ValueFault (field @ '' must be a register-issued opaque identifier''))]"

definition bytes_fingerprint :: "platform \<Rightarrow> string \<Rightarrow> string" where
  "bytes_fingerprint P content = sha256_fingerprint P content"

section \<open>Versions\<close>

definition local_version_pattern :: "string \<Rightarrow> bool" where
  "local_version_pattern s \<longleftrightarrow> s \<noteq> [] \<and> hd s = CHR ''v'' \<and> hex_word 64 (tl s)"

text \<open>The payload of \<^verbatim>\<open>^s3v_([A-Za-z0-9_-]{1,684})$\<close>.\<close>

definition s3_version_payload :: "string \<Rightarrow> string option" where
  "s3_version_payload s = (let payload = drop 4 s in
     if starts_with s ''s3v_'' \<and> payload \<noteq> [] \<and> length payload \<le> 684
       \<and> list_all (\<lambda>c. c \<in> set base64_alphabet) payload
     then Some payload else None)"

definition max_provider_version_bytes :: nat where
  "max_provider_version_bytes = 512"

definition first_control_codepoint :: nat where
  "first_control_codepoint = 0x20"

text \<open>The bytes of a payload and the provider version they encode.\<close>

definition decoded_payload :: "string \<Rightarrow> (string \<times> nat list) option" where
  "decoded_payload payload = (case base64_decode payload of
     None \<Rightarrow> None
   | Some decoded \<Rightarrow> map_option (\<lambda>provider_version. (decoded, provider_version)) (utf8_decode decoded))"

definition check_version :: "string \<Rightarrow> evidence_error option" where
  "check_version s = first_raise
     [evidence_text s ''version_id'',
      if local_version_pattern s then None
      else case s3_version_payload s of
        None \<Rightarrow> Some (ValueFault ''version_id must be one exact adapter-owned immutable version'')
      | Some payload \<Rightarrow> (case decoded_payload payload of
          None \<Rightarrow> Some (ValueFault ''version_id must contain one canonical UTF-8 S3 version'')
        | Some (decoded, provider_version) \<Rightarrow> raise_if
            (provider_version = [] \<or> max_provider_version_bytes < length decoded
             \<or> list_ex (\<lambda>p. p < first_control_codepoint) provider_version
             \<or> base64_encode decoded \<noteq> payload)
            (ValueFault ''version_id must contain one canonical UTF-8 S3 version''))]"

text \<open>\<^verbatim>\<open>str.isspace\<close> and \<^verbatim>\<open>str.strip\<close> on code points.\<close>

definition point_is_space :: "nat \<Rightarrow> bool" where
  "point_is_space p \<longleftrightarrow> 9 \<le> p \<and> p \<le> 13 \<or> 28 \<le> p \<and> p \<le> 32 \<or> p = 0x85 \<or> p = 0xA0 \<or> p = 0x1680
     \<or> 0x2000 \<le> p \<and> p \<le> 0x200A \<or> p = 0x2028 \<or> p = 0x2029 \<or> p = 0x202F \<or> p = 0x205F \<or> p = 0x3000"

definition is_exact_points :: "nat list \<Rightarrow> bool" where
  "is_exact_points points \<longleftrightarrow> points \<noteq> [] \<and> \<not> point_is_space (hd points) \<and> \<not> point_is_space (last points)"

definition s3_version_reference :: "nat list \<Rightarrow> evidence_error + string" where
  "s3_version_reference provider = guarded
     [raise_if (\<not> is_exact_points provider)
        (ValueFault ''provider_version_id must be non-empty and whitespace-exact'')]
     (case utf8_encode provider of
        None \<Rightarrow> Inl (ValueFault ''surrogates not allowed'')
      | Some raw \<Rightarrow> (let reference = ''s3v_'' @ base64_encode raw in guarded
          [raise_if (max_provider_version_bytes < length raw
             \<or> list_ex (\<lambda>p. p < first_control_codepoint) provider)
             (ValueFault ''provider_version_id is outside the exact safe boundary''),
           check_version reference]
          (Inr reference)))"

definition s3_provider_version_id :: "string \<Rightarrow> evidence_error + nat list" where
  "s3_provider_version_id reference = guarded [check_version reference]
     (case s3_version_payload reference of
        None \<Rightarrow> Inl (ValueFault ''version_id is not an S3 provider version reference'')
      | Some payload \<Rightarrow> (case decoded_payload payload of
          None \<Rightarrow> Inl (ValueFault ''Incorrect padding'')
        | Some (decoded, provider_version) \<Rightarrow> Inr provider_version))"

section \<open>Logical keys\<close>

definition safe_segment :: "string \<Rightarrow> bool" where
  "safe_segment s \<longleftrightarrow> s \<noteq> [] \<and> length s \<le> 128 \<and> (is_lower (hd s) \<or> is_digit (hd s))
     \<and> list_all (\<lambda>c. is_lower c \<or> is_digit c \<or> c \<in> set ''._-'') (tl s)"

definition key_parts :: "string \<Rightarrow> string list" where
  "key_parts key = split_on (CHR ''/'') key"

lemma split_on_Cons: "\<exists>w ws. split_on d s = w # ws"
  by (induction s) (auto split: list.splits)

lemma join_split_on: "join [d] (split_on d s) = s"
proof (induction s)
  case (Cons c s)
  obtain w ws where "split_on d s = w # ws" using split_on_Cons by blast
  with Cons show ?case by (cases ws) auto
qed simp

definition contains_text :: "string \<Rightarrow> string \<Rightarrow> bool" where
  "contains_text s sub \<longleftrightarrow> list_ex (\<lambda>i. starts_with (drop i s) sub) [0..<length s]"

definition validate_logical_key :: "string \<Rightarrow> evidence_error option" where
  "validate_logical_key key = first_raise
     [evidence_text key ''logical_key'',
      raise_if (starts_with key ''/'' \<or> ''..'' \<in> set (key_parts key) \<or> contains_text key ''//'')
        (ValueFault ''logical_key must be relative, normalized, and contained''),
      raise_if (\<not> list_all safe_segment (key_parts key))
        (ValueFault ''logical_key contains an unsafe segment'')]"

section \<open>Closed vocabularies\<close>

datatype vault_name = PRIMARY | RECOVERY

datatype artifact_class =
  ACQUISITION_ATTEMPT | SOURCE_CONTENT | SOURCE_METADATA | HOSTILE_ISOLATED | PACKAGE_MANIFEST

fun artifact_class_value :: "artifact_class \<Rightarrow> string" where
  "artifact_class_value ACQUISITION_ATTEMPT = ''ACQUISITION_ATTEMPT''"
| "artifact_class_value SOURCE_CONTENT = ''SOURCE_CONTENT''"
| "artifact_class_value SOURCE_METADATA = ''SOURCE_METADATA''"
| "artifact_class_value HOSTILE_ISOLATED = ''HOSTILE_ISOLATED''"
| "artifact_class_value PACKAGE_MANIFEST = ''PACKAGE_MANIFEST''"

datatype hostile_reason =
    ACTIVE_CONTENT | ARCHIVE_RECURSION | DECOMPRESSION_RATIO | DIGEST_MISMATCH | ENCODING_DECLARATION
  | LENGTH_MISMATCH | MALWARE_SIGNATURE | MEDIA_TYPE | PATH_TRAVERSAL | SIZE_LIMIT | TRUNCATED

section \<open>Values\<close>

record retention_profile =
  rp_profile_id :: string
  rp_retain_until :: string
  rp_legal_hold :: bool

definition new_retention_profile :: "retention_profile \<Rightarrow> evidence_error + retention_profile" where
  "new_retention_profile r = construct
     [evidence_text (rp_profile_id r) ''profile_id'', evidence_text (rp_retain_until r) ''retain_until''] r"

record hostile_classification =
  hc_admitted :: bool
  hc_reasons :: "hostile_reason list"

definition new_hostile_classification ::
    "hostile_classification \<Rightarrow> evidence_error + hostile_classification" where
  "new_hostile_classification c = construct
     [raise_if (hc_admitted c = (hc_reasons c \<noteq> []))
        (ValueFault ''admitted content has no reasons and rejected content has at least one'')] c"

record artifact_descriptor =
  ad_artifact_id :: string
  ad_artifact_version_id :: string
  ad_artifact_class :: artifact_class
  ad_source_id :: string
  ad_observation_id :: string
  ad_observation_cutoff :: string
  ad_acquired_at :: string
  ad_acquisition_method :: string
  ad_source_locator :: string
  ad_declared_media_type :: string
  ad_detected_media_type :: string
  ad_content_encoding :: string
  ad_character_encoding :: string
  ad_transport_metadata :: "(string \<times> string) list"
  ad_retention :: retention_profile

definition lower_char :: "char \<Rightarrow> char" where
  "lower_char c = (let n = (of_char c :: nat) in
     if 65 \<le> n \<and> n \<le> 90 \<or> 192 \<le> n \<and> n \<le> 222 \<and> n \<noteq> 215 then char_of (n + 32) else c)"

text \<open>The loop over the transport metadata, with the keys seen so far.\<close>

fun check_transport :: "string list \<Rightarrow> (string \<times> string) list \<Rightarrow> evidence_error option" where
  "check_transport keys [] = None"
| "check_transport keys ((key, val) # items) = first_raise
     [evidence_text key ''transport metadata key'',
      evidence_text val ''transport metadata value'',
      raise_if (map lower_char key \<in> set [''authorization'', ''cookie'', ''proxy-authorization'', ''set-cookie''])
        (ValueFault ''secret-bearing transport metadata is forbidden''),
      raise_if (key \<in> set keys) (ValueFault ''transport metadata keys must be unique''),
      check_transport (key # keys) items]"

definition new_artifact_descriptor :: "artifact_descriptor \<Rightarrow> evidence_error + artifact_descriptor" where
  "new_artifact_descriptor d = construct
     [identifier_text (ad_artifact_id d) ''artifact_id'',
      identifier_text (ad_artifact_version_id d) ''artifact_version_id'',
      identifier_text (ad_source_id d) ''source_id'',
      identifier_text (ad_observation_id d) ''observation_id'',
      evidence_text (ad_observation_cutoff d) ''observation_cutoff'',
      evidence_text (ad_acquired_at d) ''acquired_at'',
      evidence_text (ad_acquisition_method d) ''acquisition_method'',
      evidence_text (ad_source_locator d) ''source_locator'',
      evidence_text (ad_declared_media_type d) ''declared_media_type'',
      evidence_text (ad_detected_media_type d) ''detected_media_type'',
      evidence_text (ad_content_encoding d) ''content_encoding'',
      evidence_text (ad_character_encoding d) ''character_encoding'',
      check_transport [] (ad_transport_metadata d)] d"

record object_reference =
  or_vault :: vault_name
  or_logical_key :: string
  or_version_id :: string
  or_fingerprint :: string
  or_byte_length :: int

definition new_object_reference :: "object_reference \<Rightarrow> evidence_error + object_reference" where
  "new_object_reference r = construct
     [validate_logical_key (or_logical_key r),
      check_version (or_version_id r),
      fingerprint_text (or_fingerprint r) ''fingerprint'',
      raise_if (or_byte_length r < 0) (ValueFault ''byte_length cannot be negative'')] r"

record write_receipt =
  wr_reference :: object_reference
  wr_created :: bool
  wr_read_back_verified :: bool
  wr_retention :: retention_profile

definition new_write_receipt :: "write_receipt \<Rightarrow> evidence_error + write_receipt" where
  "new_write_receipt w = construct
     [raise_if (\<not> wr_read_back_verified w)
        (ValueFault ''a successful vault write receipt must include verified read-back'')] w"

record read_receipt =
  rr_reference :: object_reference
  rr_required_use :: string
  rr_artifact_class :: artifact_class
  rr_accessed_at :: string

definition new_read_receipt :: "read_receipt \<Rightarrow> evidence_error + read_receipt" where
  "new_read_receipt r = construct
     [evidence_text (rr_required_use r) ''required_use'', evidence_text (rr_accessed_at r) ''accessed_at''] r"

section \<open>Manifests and receipts of packages\<close>

record manifest_entry =
  me_descriptor :: artifact_descriptor
  me_primary :: object_reference

definition new_manifest_entry :: "manifest_entry \<Rightarrow> evidence_error + manifest_entry" where
  "new_manifest_entry e = construct
     [raise_if (or_vault (me_primary e) \<noteq> PRIMARY)
        (ValueFault ''manifest entries require a primary-vault reference'')] e"

record evidence_manifest =
  em_package_kind :: string
  em_package_id :: string
  em_observation_id :: string
  em_entries :: "manifest_entry list"

definition entry_artifact :: "manifest_entry \<Rightarrow> string" where
  "entry_artifact e = ad_artifact_id (me_descriptor e)"

definition new_evidence_manifest :: "evidence_manifest \<Rightarrow> evidence_error + evidence_manifest" where
  "new_evidence_manifest m = construct
     [evidence_text (em_package_kind m) ''package_kind'',
      raise_if (\<not> safe_segment (em_package_kind m))
        (ValueFault ''package_kind must be one bounded lowercase path segment''),
      identifier_text (em_package_id m) ''package_id'',
      identifier_text (em_observation_id m) ''observation_id'',
      raise_if (em_entries m = []) (ValueFault ''entries must be one non-empty exact tuple''),
      raise_if (\<not> distinct (map entry_artifact (em_entries m)))
        (ValueFault ''manifest artifact identities must be unique'')] m"

definition entry_document :: "manifest_entry \<Rightarrow> json" where
  "entry_document e = JObject
     [(''artifact_class'', JText (artifact_class_value (ad_artifact_class (me_descriptor e)))),
      (''artifact_id'', JText (ad_artifact_id (me_descriptor e))),
      (''artifact_version_id'', JText (ad_artifact_version_id (me_descriptor e))),
      (''byte_length'', JNumber (or_byte_length (me_primary e))),
      (''fingerprint'', JText (or_fingerprint (me_primary e))),
      (''logical_key'', JText (or_logical_key (me_primary e))),
      (''primary_version_id'', JText (or_version_id (me_primary e)))]"

definition manifest_document :: "evidence_manifest \<Rightarrow> json" where
  "manifest_document m = JObject
     [(''entries'', JArray (map entry_document (sort_key entry_artifact (em_entries m)))),
      (''observation_id'', JText (em_observation_id m)),
      (''package_id'', JText (em_package_id m)),
      (''package_kind'', JText (em_package_kind m)),
      (''schema_id'', JText ''asklegal.evidence-manifest''),
      (''schema_version'', JText ''1.0.0'')]"

record copy_receipt =
  cr_primary :: object_reference
  cr_recovery :: object_reference

definition new_copy_receipt :: "copy_receipt \<Rightarrow> evidence_error + copy_receipt" where
  "new_copy_receipt c = construct
     [raise_if (or_vault (cr_primary c) \<noteq> PRIMARY \<or> or_vault (cr_recovery c) \<noteq> RECOVERY)
        (ValueFault ''copy receipt must bind primary to recovery''),
      raise_if ((or_fingerprint (cr_primary c), or_byte_length (cr_primary c))
          \<noteq> (or_fingerprint (cr_recovery c), or_byte_length (cr_recovery c)))
        (ValueFault ''copy receipt content facts must agree'')] c"

record package_receipt =
  pr_manifest :: evidence_manifest
  pr_primary_manifest :: object_reference
  pr_recovery_manifest :: object_reference
  pr_copies :: "copy_receipt list"

definition new_package_receipt :: "package_receipt \<Rightarrow> evidence_error + package_receipt" where
  "new_package_receipt r = construct
     [raise_if (or_vault (pr_primary_manifest r) \<noteq> PRIMARY)
        (ValueFault ''primary manifest receipt must reference the primary vault''),
      raise_if (or_vault (pr_recovery_manifest r) \<noteq> RECOVERY)
        (ValueFault ''recovery manifest receipt must reference the recovery vault''),
      raise_if (or_fingerprint (pr_primary_manifest r) \<noteq> or_fingerprint (pr_recovery_manifest r))
        (ValueFault ''primary and recovery manifest bytes must agree''),
      raise_if (set (map me_primary (em_entries (pr_manifest r))) \<noteq> set (map cr_primary (pr_copies r)))
        (PackageIncomplete ''every manifest entry requires one recovery copy'')] r"

section \<open>Derived keys\<close>

definition content_logical_key :: "string \<Rightarrow> evidence_error + string" where
  "content_logical_key fingerprint = guarded [fingerprint_text fingerprint ''fingerprint'']
     (let digest = drop 7 fingerprint in
      Inr (''objects/sha256/'' @ take 2 digest @ ''/'' @ drop 2 digest))"

definition manifest_logical_key :: "evidence_manifest \<Rightarrow> string \<Rightarrow> evidence_error + string" where
  "manifest_logical_key m fingerprint = guarded [fingerprint_text fingerprint ''fingerprint'']
     (let digest = drop 7 fingerprint in
      Inr (''packages/'' @ em_package_kind m @ ''/'' @ em_package_id m @ ''/'' @ digest @ ''.json''))"

end
