(* ===== verification/LocalVault.thy ===== *)
theory LocalVault
  imports VaultFiles VaultModel StrictJsonProperties
begin

text \<open>
  \<^verbatim>\<open>LocalImmutableVault\<close> of \<^verbatim>\<open>packages/evidence-vault/src/asklegal_evidence_vault/local.py\<close>: an object per
  file below the objects root, its retention per JSON file below the metadata root. An operation
  runs under the lock of its key and is one step here; what it wrote before it raised stays. The
  creation of the roots and of the lock files is not modelled. \<^verbatim>\<open>canonicalize\<close> is the encoder \<^verbatim>\<open>E\<close>.
\<close>

record vault =
  v_name :: vault_name
  v_objects :: tree
  v_metadata :: tree

definition empty_vault :: "vault_name \<Rightarrow> vault" where
  "empty_vault name = \<lparr>v_name = name, v_objects = [], v_metadata = []\<rparr>"

section \<open>Paths\<close>

definition contained :: "tree \<Rightarrow> string \<Rightarrow> string \<Rightarrow> evidence_error + path" where
  "contained root key filename = (let candidate = key_parts key @ [filename] in construct
     [validate_logical_key key,
      raise_if (list_ex (\<lambda>p. node_at root p = Some Alias) (steps_to candidate))
        (ValueFault ''local vault path contains a symlink'')] candidate)"

definition regular_child_names :: "tree \<Rightarrow> path \<Rightarrow> string \<Rightarrow> evidence_error + string list" where
  "regular_child_names root directory key = (case node_at root directory of
     None \<Rightarrow> Inr []
   | Some Folder \<Rightarrow> (let entries = children directory root in construct
       [raise_if (list_ex (\<lambda>(name, n). document (Some n) = None) entries) (CorruptEvidence key)]
       (map fst entries))
   | Some _ \<Rightarrow> Inl (CorruptEvidence key))"

definition remove_json_suffix :: "string \<Rightarrow> string" where
  "remove_json_suffix name = (if ends_with name ''.json'' then take (length name - 5) name else name)"

text \<open>The validations before an operation enters the lock of its key.\<close>

definition enter_key_lock :: "vault \<Rightarrow> string \<Rightarrow> evidence_error option" where
  "enter_key_lock V key = raised_by (contained (v_objects V) key ''lock-validation'')"

section \<open>Reading\<close>

definition read_exact_unlocked :: "platform \<Rightarrow> vault \<Rightarrow> object_reference \<Rightarrow> evidence_error + string" where
  "read_exact_unlocked P V r = and_then (contained (v_objects V) (or_logical_key r) (or_version_id r)) (\<lambda>path.
     case document (node_at (v_objects V) path) of
       None \<Rightarrow> Inl (FileMissing (or_logical_key r))
     | Some content \<Rightarrow> construct
         [raise_if (int (length content) \<noteq> or_byte_length r \<or> bytes_fingerprint P content \<noteq> or_fingerprint r)
            (CorruptEvidence (or_logical_key r))] content)"

definition own_reference :: "vault \<Rightarrow> object_reference \<Rightarrow> evidence_error option" where
  "own_reference V r = raise_if (or_vault r \<noteq> v_name V) (ValueFault ''reference names a different vault'')"

definition read_exact :: "platform \<Rightarrow> vault \<Rightarrow> object_reference \<Rightarrow> evidence_error + string" where
  "read_exact P V r = guarded [own_reference V r, enter_key_lock V (or_logical_key r)] (read_exact_unlocked P V r)"

definition read_for_use ::
    "platform \<Rightarrow> vault \<Rightarrow> object_reference \<Rightarrow> string \<Rightarrow> artifact_class \<Rightarrow> string
       \<Rightarrow> evidence_error + string \<times> read_receipt" where
  "read_for_use P V r required_use artifact_class accessed_at =
     and_then (read_exact P V r) (\<lambda>content.
     and_then (new_read_receipt \<lparr>rr_reference = r, rr_required_use = required_use,
         rr_artifact_class = artifact_class, rr_accessed_at = accessed_at\<rparr>) (\<lambda>receipt.
     Inr (content, receipt)))"

definition exists_exact :: "platform \<Rightarrow> vault \<Rightarrow> object_reference \<Rightarrow> evidence_error + bool" where
  "exists_exact P V r = (case read_exact P V r of
     Inr _ \<Rightarrow> Inr True
   | Inl (FileMissing _) \<Rightarrow> Inr False
   | Inl (CorruptEvidence _) \<Rightarrow> Inr False
   | Inl (EvidenceIntegrityIncident _) \<Rightarrow> Inr False
   | Inl e \<Rightarrow> Inl e)"

section \<open>Retention\<close>

text \<open>The text \<^verbatim>\<open>json.dumps(..., sort_keys=True, separators=(",", ":"))\<close> writes.\<close>

definition retention_document :: "int \<Rightarrow> string \<Rightarrow> retention_profile \<Rightarrow> json" where
  "retention_document byte_length fingerprint r = JObject
     [(''byte_length'', JNumber byte_length),
      (''fingerprint'', JText fingerprint),
      (''legal_hold'', JBoolean (rp_legal_hold r)),
      (''profile_id'', JText (rp_profile_id r)),
      (''retain_until'', JText (rp_retain_until r))]"

definition canonicalize :: "encoder \<Rightarrow> json \<Rightarrow> evidence_error + string" where
  "canonicalize E j = (case E j of None \<Rightarrow> Inl (ContractFault CANONICALIZATION_FAILED) | Some raw \<Rightarrow> Inr raw)"

fun json_fields :: "json \<Rightarrow> (string \<times> json) list" where
  "json_fields (JObject kvs) = kvs"
| "json_fields _ = []"

text \<open>
  The profile in a metadata document. Every failure of the parser but \<^const>\<open>OutsideModel\<close> is a
  \<^verbatim>\<open>ValueError\<close>, and so \<^verbatim>\<open>CorruptEvidence\<close>.
\<close>

definition parse_retention :: "encoder \<Rightarrow> object_reference \<Rightarrow> string \<Rightarrow> evidence_error + retention_profile" where
  "parse_retention E r raw = (case parse_json_bytes raw (max (int (length raw)) 1) of
     Inl (Violation _) \<Rightarrow> Inl (CorruptEvidence (or_logical_key r))
   | Inl _ \<Rightarrow> Inl Unmodelled
   | Inr doc \<Rightarrow> (case map (map_of (json_fields doc))
         [''byte_length'', ''fingerprint'', ''profile_id'', ''retain_until'', ''legal_hold''] of
       [Some (JNumber byte_length), Some (JText fingerprint), Some (JText profile_id),
        Some (JText retain_until), Some (JBoolean legal_hold)] \<Rightarrow>
         guarded
           [raise_if (set (map fst (json_fields doc))
              \<noteq> set [''byte_length'', ''fingerprint'', ''legal_hold'', ''profile_id'', ''retain_until''])
              (CorruptEvidence (or_logical_key r)),
            raise_if (byte_length \<noteq> or_byte_length r \<or> fingerprint \<noteq> or_fingerprint r)
              (CorruptEvidence (or_logical_key r))]
           (and_then (new_retention_profile \<lparr>rp_profile_id = profile_id, rp_retain_until = retain_until,
               rp_legal_hold = legal_hold\<rparr>) (\<lambda>retained.
            and_then (canonicalize E doc) (\<lambda>text.
            construct [raise_if (text \<noteq> raw) (CorruptEvidence (or_logical_key r))] retained)))
     | _ \<Rightarrow> Inl (CorruptEvidence (or_logical_key r))))"

definition retention_unlocked :: "encoder \<Rightarrow> vault \<Rightarrow> object_reference \<Rightarrow> evidence_error + retention_profile" where
  "retention_unlocked E V r =
     and_then (contained (v_metadata V) (or_logical_key r) (or_version_id r @ ''.json'')) (\<lambda>path.
     case document (node_at (v_metadata V) path) of
       None \<Rightarrow> Inl (CorruptEvidence (or_logical_key r))
     | Some raw \<Rightarrow> parse_retention E r raw)"

definition retention :: "encoder \<Rightarrow> vault \<Rightarrow> object_reference \<Rightarrow> evidence_error + retention_profile" where
  "retention E V r = guarded [own_reference V r, enter_key_lock V (or_logical_key r)] (retention_unlocked E V r)"

section \<open>The current version of a key\<close>

definition resolve_current_unlocked ::
    "platform \<Rightarrow> encoder \<Rightarrow> vault \<Rightarrow> string \<Rightarrow> evidence_error + object_reference option" where
  "resolve_current_unlocked P E V key =
     and_then (contained (v_objects V) key ''placeholder'') (\<lambda>placeholder.
     let candidate = butlast placeholder in
     if node_at (v_objects V) candidate \<noteq> Some Folder then Inr None
     else and_then (regular_child_names (v_objects V) candidate key) (\<lambda>versions.
       if length versions \<noteq> 1 then Inl (CorruptEvidence key)
       else and_then (contained (v_metadata V) key ''placeholder.json'') (\<lambda>metadata_placeholder.
         and_then (regular_child_names (v_metadata V) (butlast metadata_placeholder) key) (\<lambda>metadata_versions.
           if metadata_versions \<noteq> [hd versions @ ''.json''] then Inl (CorruptEvidence key)
           else (case document (node_at (v_objects V) (candidate @ [hd versions])) of
             None \<Rightarrow> Inl OsFault
           | Some content \<Rightarrow>
               and_then (new_object_reference \<lparr>or_vault = v_name V, or_logical_key = key,
                   or_version_id = hd versions, or_fingerprint = bytes_fingerprint P content,
                   or_byte_length = int (length content)\<rparr>) (\<lambda>r.
               and_then (read_exact_unlocked P V r) (\<lambda>_.
               and_then (retention_unlocked E V r) (\<lambda>_. Inr (Some r)))))))))"

definition resolve_current ::
    "platform \<Rightarrow> encoder \<Rightarrow> vault \<Rightarrow> string \<Rightarrow> evidence_error + object_reference option" where
  "resolve_current P E V key = guarded [validate_logical_key key, enter_key_lock V key]
     (resolve_current_unlocked P E V key)"

section \<open>Creating\<close>

definition local_version :: "platform \<Rightarrow> string \<Rightarrow> string" where
  "local_version P content = CHR ''v'' # drop 7 (bytes_fingerprint P content)"

text \<open>The two paths of a content, where the key holds nothing or this version alone.\<close>

definition admit_create :: "platform \<Rightarrow> vault \<Rightarrow> string \<Rightarrow> string \<Rightarrow> evidence_error + path \<times> path" where
  "admit_create P V key content = (let version_id = local_version P content in
     and_then (contained (v_objects V) key version_id) (\<lambda>object_path.
     and_then (contained (v_metadata V) key (version_id @ ''.json'')) (\<lambda>metadata_path.
     and_then (regular_child_names (v_objects V) (butlast object_path) key) (\<lambda>existing_versions.
     and_then (regular_child_names (v_metadata V) (butlast metadata_path) key) (\<lambda>names.
     let metadata_versions = map remove_json_suffix names in
     construct
       [raise_if (existing_versions \<notin> set [[], [version_id]] \<or> metadata_versions \<notin> set [[], [version_id]]
          \<or> (existing_versions \<noteq> []) \<noteq> (metadata_versions \<noteq> [])) (VaultCollision key)]
       (object_path, metadata_path))))))"

definition make_object_folders :: "path \<Rightarrow> path \<Rightarrow> vault \<Rightarrow> (evidence_error + unit) \<times> vault" where
  "make_object_folders object_path metadata_path V =
     (case make_folders (butlast object_path) (v_objects V) of
        None \<Rightarrow> (Inl OsFault, V)
      | Some objects \<Rightarrow> (case make_folders (butlast metadata_path) (v_metadata V) of
          None \<Rightarrow> (Inl OsFault, V\<lparr>v_objects := objects\<rparr>)
        | Some metadata \<Rightarrow> (Inr (), V\<lparr>v_objects := objects, v_metadata := metadata\<rparr>)))"

definition write_object :: "path \<Rightarrow> string \<Rightarrow> path \<Rightarrow> string \<Rightarrow> vault \<Rightarrow> (evidence_error + unit) \<times> vault" where
  "write_object object_path content metadata_path text V =
     (case write_file object_path content (v_objects V) of
        None \<Rightarrow> (Inl OsFault, V)
      | Some objects \<Rightarrow> (case write_file metadata_path text (v_metadata V) of
          None \<Rightarrow> (Inl OsFault, V\<lparr>v_objects := objects\<rparr>)
        | Some metadata \<Rightarrow> (Inr (), V\<lparr>v_objects := objects, v_metadata := metadata\<rparr>)))"

definition store_object :: "path \<Rightarrow> string \<Rightarrow> path \<Rightarrow> string \<Rightarrow> vault \<Rightarrow> (evidence_error + unit) \<times> vault" where
  "store_object object_path content metadata_path text V =
     (case make_object_folders object_path metadata_path V of
        (Inl e, V') \<Rightarrow> (Inl e, V')
      | (Inr _, V') \<Rightarrow> write_object object_path content metadata_path text V')"

text \<open>The object is stored if it is not there, and compared if it is.\<close>

definition place_object ::
    "platform \<Rightarrow> string \<Rightarrow> string \<Rightarrow> retention_profile \<Rightarrow> path \<Rightarrow> path \<Rightarrow> vault \<Rightarrow> (evidence_error + bool) \<times> vault" where
  "place_object P key content r object_path metadata_path V =
     (case node_at (v_objects V) object_path of
        None \<Rightarrow> (case store_object object_path content metadata_path
            (json_text (retention_document (int (length content)) (bytes_fingerprint P content) r)) V of
          (Inl e, V') \<Rightarrow> (Inl e, V')
        | (Inr _, V') \<Rightarrow> (Inr True, V'))
      | Some n \<Rightarrow> (case document (Some n) of
          None \<Rightarrow> (Inl OsFault, V)
        | Some existing \<Rightarrow> (construct
            [raise_if (length existing \<noteq> length content
               \<or> bytes_fingerprint P existing \<noteq> bytes_fingerprint P content) (VaultCollision key)] False, V)))"

definition confirm_create ::
    "platform \<Rightarrow> encoder \<Rightarrow> vault \<Rightarrow> string \<Rightarrow> string \<Rightarrow> retention_profile \<Rightarrow> bool \<Rightarrow> evidence_error + write_receipt" where
  "confirm_create P E V key content r created =
     and_then (new_object_reference \<lparr>or_vault = v_name V, or_logical_key = key,
         or_version_id = local_version P content, or_fingerprint = bytes_fingerprint P content,
         or_byte_length = int (length content)\<rparr>) (\<lambda>reference.
     and_then (read_exact_unlocked P V reference) (\<lambda>_.
     and_then (retention_unlocked E V reference) (\<lambda>retained.
     guarded [raise_if (retained \<noteq> r) (VaultCollision key)]
       (new_write_receipt \<lparr>wr_reference = reference, wr_created = created,
          wr_read_back_verified = True, wr_retention = r\<rparr>))))"

definition conditional_create ::
    "platform \<Rightarrow> encoder \<Rightarrow> string \<Rightarrow> string \<Rightarrow> retention_profile \<Rightarrow> vault \<Rightarrow> (evidence_error + write_receipt) \<times> vault" where
  "conditional_create P E key content r V =
     (case guarded [validate_logical_key key, enter_key_lock V key] (admit_create P V key content) of
        Inl e \<Rightarrow> (Inl e, V)
      | Inr (object_path, metadata_path) \<Rightarrow> (case place_object P key content r object_path metadata_path V of
          (Inl e, V') \<Rightarrow> (Inl e, V')
        | (Inr created, V') \<Rightarrow> (confirm_create P E V' key content r created, V')))"

section \<open>Destruction and fault injection\<close>

definition destroy_exact ::
    "platform \<Rightarrow> encoder \<Rightarrow> object_reference \<Rightarrow> bool \<Rightarrow> string \<Rightarrow> vault \<Rightarrow> (evidence_error + unit) \<times> vault" where
  "destroy_exact P E r authorized now V =
     (case guarded [own_reference V r, enter_key_lock V (or_logical_key r)]
         (and_then (retention_unlocked E V r) (\<lambda>retained.
          guarded [raise_if (\<not> authorized \<or> rp_legal_hold retained \<or> now < rp_retain_until retained)
            (RetentionBlocked (or_logical_key r))]
            (and_then (read_exact_unlocked P V r) (\<lambda>_.
             and_then (contained (v_objects V) (or_logical_key r) (or_version_id r)) (\<lambda>object_path.
             and_then (contained (v_metadata V) (or_logical_key r) (or_version_id r @ ''.json'')) (\<lambda>metadata_path.
             Inr (object_path, metadata_path))))))) of
        Inl e \<Rightarrow> (Inl e, V)
      | Inr (object_path, metadata_path) \<Rightarrow>
          (Inr (), V\<lparr>v_objects := remove_file object_path (v_objects V),
                     v_metadata := remove_file metadata_path (v_metadata V)\<rparr>))"

definition inject_corruption ::
    "object_reference \<Rightarrow> string \<Rightarrow> vault \<Rightarrow> (evidence_error + unit) \<times> vault" where
  "inject_corruption r content V =
     (case contained (v_objects V) (or_logical_key r) (or_version_id r) of
        Inl e \<Rightarrow> (Inl e, V)
      | Inr path \<Rightarrow> (case write_file path content (v_objects V) of
          None \<Rightarrow> (Inl OsFault, V)
        | Some objects \<Rightarrow> (Inr (), V\<lparr>v_objects := objects\<rparr>)))"

section \<open>Histories\<close>

datatype vault_op =
    Create string string retention_profile
  | Destroy object_reference bool string
  | Corrupt object_reference string

definition vault_step :: "platform \<Rightarrow> encoder \<Rightarrow> vault_op \<Rightarrow> vault \<Rightarrow> (evidence_error + write_receipt option) \<times> vault" where
  "vault_step P E op V = (case op of
     Create key content r \<Rightarrow> map_prod (map_sum id Some) id (conditional_create P E key content r V)
   | Destroy r authorized now \<Rightarrow> map_prod (map_sum id (\<lambda>_. None)) id (destroy_exact P E r authorized now V)
   | Corrupt r content \<Rightarrow> map_prod (map_sum id (\<lambda>_. None)) id (inject_corruption r content V))"

text \<open>The content of an object, whatever checks a read would make.\<close>

definition object_at :: "vault \<Rightarrow> string \<Rightarrow> string \<Rightarrow> string option" where
  "object_at V key version = document (node_at (v_objects V) (key_parts key @ [version]))"

definition metadata_at :: "vault \<Rightarrow> string \<Rightarrow> string \<Rightarrow> string option" where
  "metadata_at V key version = document (node_at (v_metadata V) (key_parts key @ [version @ ''.json'']))"

end
