(* ===== verification/EvidencePackages.thy ===== *)
theory EvidencePackages
  imports LocalVault
begin

text \<open>
  The services over a vault: \<^verbatim>\<open>RecoveryCopier\<close>, \<^verbatim>\<open>TwoVaultEvidenceReader\<close> and
  \<^verbatim>\<open>ManifestLastPackageWriter\<close> of \<^verbatim>\<open>local.py\<close>, over the protocol of \<^verbatim>\<open>ports.py\<close>. A vault is its
  operations and its state; a service gets and returns the states of the vaults it was bound to.
\<close>

section \<open>The vault protocol\<close>

record 's vault_interface =
  vi_name :: "'s \<Rightarrow> vault_name"
  vi_create :: "string \<Rightarrow> string \<Rightarrow> retention_profile \<Rightarrow> 's \<Rightarrow> (evidence_error + write_receipt) \<times> 's"
  vi_read :: "'s \<Rightarrow> object_reference \<Rightarrow> evidence_error + string"
  vi_read_for_use :: "'s \<Rightarrow> object_reference \<Rightarrow> string \<Rightarrow> artifact_class \<Rightarrow> string
    \<Rightarrow> evidence_error + string \<times> read_receipt"

definition local_interface :: "platform \<Rightarrow> encoder \<Rightarrow> vault vault_interface" where
  "local_interface P E = \<lparr>vi_name = v_name, vi_create = conditional_create P E, vi_read = read_exact P,
     vi_read_for_use = read_for_use P\<rparr>"

section \<open>Copying\<close>

definition bind_pair :: "'p vault_interface \<Rightarrow> 'r vault_interface \<Rightarrow> 'p \<Rightarrow> 'r \<Rightarrow> evidence_error + unit" where
  "bind_pair I J p s = construct
     [raise_if (vi_name I p \<noteq> PRIMARY) (ValueFault ''primary adapter must have PRIMARY role''),
      raise_if (vi_name J s \<noteq> RECOVERY) (ValueFault ''recovery adapter must have RECOVERY role'')] ()"

definition copy_exact ::
    "'p vault_interface \<Rightarrow> 'r vault_interface \<Rightarrow> 'p \<Rightarrow> object_reference \<Rightarrow> retention_profile \<Rightarrow> 'r
       \<Rightarrow> (evidence_error + copy_receipt) \<times> 'r" where
  "copy_exact I J p reference r s =
     (case vi_read I p reference of
        Inl e \<Rightarrow> (Inl e, s)
      | Inr content \<Rightarrow> (case vi_create J (or_logical_key reference) content r s of
          (Inl e, s') \<Rightarrow> (Inl e, s')
        | (Inr receipt, s') \<Rightarrow>
            (and_then (vi_read J s' (wr_reference receipt)) (\<lambda>copied.
             guarded [raise_if (copied \<noteq> content) (CorruptEvidence (or_logical_key reference))]
               (new_copy_receipt \<lparr>cr_primary = reference, cr_recovery = wr_reference receipt\<rparr>)), s')))"

section \<open>Reading with two vaults\<close>

fun is_corrupt :: "evidence_error \<Rightarrow> bool" where
  "is_corrupt (CorruptEvidence _) = True"
| "is_corrupt (EvidenceIntegrityIncident _) = True"
| "is_corrupt _ = False"

fun is_missing :: "evidence_error \<Rightarrow> bool" where
  "is_missing (FileMissing _) = True"
| "is_missing _ = False"

definition read_two_vaults ::
    "'p vault_interface \<Rightarrow> 'r vault_interface \<Rightarrow> 'p \<Rightarrow> 'r \<Rightarrow> copy_receipt \<Rightarrow> string \<Rightarrow> artifact_class \<Rightarrow> string
       \<Rightarrow> evidence_error + string \<times> read_receipt" where
  "read_two_vaults I J p s copy required_use artifact_class accessed_at =
     (case vi_read_for_use I p (cr_primary copy) required_use artifact_class accessed_at of
        Inr result \<Rightarrow> Inr result
      | Inl primary_error \<Rightarrow>
          if \<not> is_corrupt primary_error then Inl primary_error
          else (case vi_read J s (cr_recovery copy) of
            Inl recovery_error \<Rightarrow>
              if is_corrupt recovery_error \<or> is_missing recovery_error
              then Inl (EvidenceIntegrityIncident ''primary and recovery exact versions disagree or are corrupt'')
              else Inl recovery_error
          | Inr _ \<Rightarrow> Inl (EvidenceIntegrityIncident
              ''primary exact version is corrupt; verified recovery was not substituted'')))"

section \<open>Writing packages\<close>

record package_writer =
  pw_entries :: "(string \<times> manifest_entry) list"
  pw_manifest :: "evidence_manifest option"
  pw_primary_manifest :: "object_reference option"

definition new_package_writer :: "'p vault_interface \<Rightarrow> 'p \<Rightarrow> evidence_error + package_writer" where
  "new_package_writer I p = construct
     [raise_if (vi_name I p \<noteq> PRIMARY) (ValueFault ''package writer requires the primary vault'')]
     \<lparr>pw_entries = [], pw_manifest = None, pw_primary_manifest = None\<rparr>"

definition stage_content ::
    "platform \<Rightarrow> 'p vault_interface \<Rightarrow> artifact_descriptor \<Rightarrow> string \<Rightarrow> package_writer \<times> 'p
       \<Rightarrow> (evidence_error + manifest_entry) \<times> package_writer \<times> 'p" where
  "stage_content P I descriptor content = (\<lambda>(w, p).
     case content_logical_key (bytes_fingerprint P content) of
       Inl e \<Rightarrow> (Inl e, w, p)
     | Inr key \<Rightarrow> (case vi_create I key content (ad_retention descriptor) p of
         (Inl e, p') \<Rightarrow> (Inl e, w, p')
       | (Inr receipt, p') \<Rightarrow>
           (case new_manifest_entry \<lparr>me_descriptor = descriptor, me_primary = wr_reference receipt\<rparr> of
              Inl e \<Rightarrow> (Inl e, w, p')
            | Inr entry \<Rightarrow>
                if map_of (pw_entries w) (ad_artifact_id descriptor) \<in> {None, Some entry}
                then (Inr entry, w\<lparr>pw_entries := AList.update (ad_artifact_id descriptor) entry (pw_entries w)\<rparr>, p')
                else (Inl (VaultCollision (ad_artifact_id descriptor)), w, p'))))"

definition manifest_of :: "string \<Rightarrow> string \<Rightarrow> string \<Rightarrow> package_writer \<Rightarrow> evidence_manifest" where
  "manifest_of package_kind package_id observation_id w = \<lparr>em_package_kind = package_kind,
     em_package_id = package_id, em_observation_id = observation_id, em_entries = map snd (pw_entries w)\<rparr>"

definition commit_manifest ::
    "platform \<Rightarrow> encoder \<Rightarrow> 'p vault_interface \<Rightarrow> string \<Rightarrow> string \<Rightarrow> string \<Rightarrow> retention_profile \<Rightarrow> package_writer \<times> 'p
       \<Rightarrow> (evidence_error + evidence_manifest \<times> object_reference) \<times> package_writer \<times> 'p" where
  "commit_manifest P E I package_kind package_id observation_id r = (\<lambda>(w, p).
     case and_then (new_evidence_manifest (manifest_of package_kind package_id observation_id w)) (\<lambda>manifest.
          and_then (canonicalize E (manifest_document manifest)) (\<lambda>manifest_bytes.
          and_then (manifest_logical_key manifest (bytes_fingerprint P manifest_bytes)) (\<lambda>key.
          Inr (manifest, manifest_bytes, key)))) of
       Inl e \<Rightarrow> (Inl e, w, p)
     | Inr (manifest, manifest_bytes, key) \<Rightarrow> (case vi_create I key manifest_bytes r p of
         (Inl e, p') \<Rightarrow> (Inl e, w, p')
       | (Inr receipt, p') \<Rightarrow>
           if pw_manifest w \<noteq> None \<and> pw_manifest w \<noteq> Some manifest then (Inl (VaultCollision package_id), w, p')
           else (Inr (manifest, wr_reference receipt),
             w\<lparr>pw_manifest := Some manifest, pw_primary_manifest := Some (wr_reference receipt)\<rparr>, p')))"

text \<open>The copies of a list of references, in order, until one raises.\<close>

fun copy_all ::
    "'p vault_interface \<Rightarrow> 'r vault_interface \<Rightarrow> 'p \<Rightarrow> retention_profile \<Rightarrow> object_reference list \<Rightarrow> 'r
       \<Rightarrow> (evidence_error + copy_receipt list) \<times> 'r" where
  "copy_all I J p r [] s = (Inr [], s)"
| "copy_all I J p r (reference # references) s = (case copy_exact I J p reference r s of
     (Inl e, s') \<Rightarrow> (Inl e, s')
   | (Inr copy, s') \<Rightarrow> (case copy_all I J p r references s' of
       (Inl e, s'') \<Rightarrow> (Inl e, s'')
     | (Inr copies, s'') \<Rightarrow> (Inr (copy # copies), s'')))"

text \<open>The vaults are those of the copier: its primary need not be the writer's.\<close>

definition finalize_recovery ::
    "'p vault_interface \<Rightarrow> 'r vault_interface \<Rightarrow> retention_profile \<Rightarrow> package_writer \<Rightarrow> 'p \<Rightarrow> 'r
       \<Rightarrow> (evidence_error + package_receipt) \<times> 'r" where
  "finalize_recovery I J r w p s =
     (case (pw_manifest w, pw_primary_manifest w) of
       (Some manifest, Some primary_manifest) \<Rightarrow>
         (case copy_all I J p r (map me_primary (em_entries manifest)) s of
            (Inl e, s') \<Rightarrow> (Inl e, s')
          | (Inr copies, s') \<Rightarrow> (case copy_exact I J p primary_manifest r s' of
              (Inl e, s'') \<Rightarrow> (Inl e, s'')
            | (Inr manifest_copy, s'') \<Rightarrow>
                (new_package_receipt \<lparr>pr_manifest = manifest, pr_primary_manifest = primary_manifest,
                   pr_recovery_manifest = cr_recovery manifest_copy, pr_copies = copies\<rparr>, s'')))
     | _ \<Rightarrow> (Inl (PackageIncomplete ''primary manifest has not been committed''), s))"

definition committed :: "package_writer \<Rightarrow> bool" where
  "committed w \<longleftrightarrow> pw_manifest w \<noteq> None \<and> pw_primary_manifest w \<noteq> None"

definition restart :: "package_writer \<Rightarrow> package_writer" where
  "restart w = \<lparr>pw_entries = pw_entries w, pw_manifest = pw_manifest w, pw_primary_manifest = pw_primary_manifest w\<rparr>"

section \<open>Histories of a writer\<close>

datatype writer_op =
    Stage artifact_descriptor string
  | Commit string string string retention_profile
  | Restart

definition writer_step ::
    "platform \<Rightarrow> encoder \<Rightarrow> 'p vault_interface \<Rightarrow> writer_op \<Rightarrow> package_writer \<times> 'p
       \<Rightarrow> (evidence_error + unit) \<times> package_writer \<times> 'p" where
  "writer_step P E I op s = (case op of
     Stage descriptor content \<Rightarrow> map_prod (map_sum id (\<lambda>_. ())) id (stage_content P I descriptor content s)
   | Commit kind package observation r \<Rightarrow>
       map_prod (map_sum id (\<lambda>_. ())) id (commit_manifest P E I kind package observation r s)
   | Restart \<Rightarrow> (Inr (), restart (fst s), snd s))"

end
