(* ===== verification/LocalVaultFacts.thy ===== *)
theory LocalVaultFacts
  imports LocalVault
begin

text \<open>What the operations of the local vault keep, in any state and in the states it reaches.\<close>

section \<open>Paths\<close>

lemma key_parts_inj: "key_parts key = key_parts key' \<longleftrightarrow> key = key'"
  by (metis key_parts_def join_split_on)

lemma key_parts_Nil [simp]: "key_parts key \<noteq> []"
  using split_on_Cons by (metis key_parts_def list.distinct(1))

lemma path_inj: "key_parts key @ [name] = key_parts key' @ [name'] \<longleftrightarrow> key = key' \<and> name = name'"
  by (simp add: key_parts_inj)

lemma contained_Inr:
  "contained root key filename = Inr path \<longleftrightarrow> validate_logical_key key = None \<and> path = key_parts key @ [filename]
     \<and> (\<forall>p \<in> set (steps_to path). node_at root p \<noteq> Some Alias)"
  by (auto simp: contained_def Let_def list_ex_iff)

lemma contained_ok: "tree_ok root \<Longrightarrow> validate_logical_key key = None
    \<Longrightarrow> contained root key filename = Inr (key_parts key @ [filename])"
  by (auto simp: contained_Inr dest: tree_ok_node)

lemma document_Some [simp]: "document n = Some content \<longleftrightarrow> n = Some (Document content)"
  by (cases n rule: document.cases) auto

section \<open>Documents are only added\<close>

definition tree_grows :: "tree \<Rightarrow> tree \<Rightarrow> bool" where
  "tree_grows t t' \<longleftrightarrow> (\<forall>p n. node_at t p = Some n \<longrightarrow> node_at t' p = Some n)"

lemma tree_grows_refl [simp]: "tree_grows t t"
  by (simp add: tree_grows_def)

lemma tree_grows_trans: "tree_grows t u \<Longrightarrow> tree_grows u v \<Longrightarrow> tree_grows t v"
  by (simp add: tree_grows_def)

lemma extends_make_folders: "make_folders path t = Some t' \<Longrightarrow> tree_grows t t'"
  by (simp add: tree_grows_def node_at_make_folders)

lemma extends_write_file: "node_at t path = None \<Longrightarrow> write_file path content t = Some t' \<Longrightarrow> tree_grows t t'"
  by (auto simp: tree_grows_def node_at_write_file)

text \<open>What a creation does to the object tree, whatever it returns.\<close>

lemma make_object_folders_cases:
  assumes "make_object_folders op mp V = (x, V')"
  obtains "x = Inl OsFault" "V' = V"
  | objects where "make_folders (butlast op) (v_objects V) = Some objects" "x = Inl OsFault" "V' = V\<lparr>v_objects := objects\<rparr>"
  | objects metadata where "make_folders (butlast op) (v_objects V) = Some objects"
      "make_folders (butlast mp) (v_metadata V) = Some metadata" "x = Inr ()"
      "V' = V\<lparr>v_objects := objects, v_metadata := metadata\<rparr>"
  using assms by (auto simp: make_object_folders_def split: option.splits)

lemma write_object_cases:
  assumes "write_object op content mp txt V = (x, V')"
  obtains "x = Inl OsFault" "V' = V"
  | objects where "write_file op content (v_objects V) = Some objects" "x = Inl OsFault" "V' = V\<lparr>v_objects := objects\<rparr>"
  | objects metadata where "write_file op content (v_objects V) = Some objects"
      "write_file mp txt (v_metadata V) = Some metadata" "x = Inr ()"
      "V' = V\<lparr>v_objects := objects, v_metadata := metadata\<rparr>"
  using assms by (auto simp: write_object_def split: option.splits)

lemma node_at_own_folders:
  assumes "make_folders (butlast path) t = Some t'" and "path \<noteq> []"
  shows "node_at t' path = node_at t path"
proof -
  have "path \<notin> set (steps_to (butlast path))"
  proof
    assume "path \<in> set (steps_to (butlast path))"
    then obtain q where "butlast path = path @ q" by (auto simp: mem_steps_to)
    then have "length path - 1 = length path + length q" by (metis length_append length_butlast)
    then show False using assms(2) by (cases path) auto
  qed
  then show ?thesis by (simp add: node_at_make_folders [OF assms(1)])
qed

lemma store_object_extends:
  assumes "store_object op content mp txt V = (x, V')" and "node_at (v_objects V) op = None"
  shows "tree_grows (v_objects V) (v_objects V')"
proof -
  obtain y W where y: "make_object_folders op mp V = (y, W)" by fastforce
  have op: "op \<noteq> []" using assms(2) by auto
  have "tree_grows (v_objects V) (v_objects W) \<and> node_at (v_objects W) op = node_at (v_objects V) op"
    by (rule make_object_folders_cases [OF y]) (simp_all add: extends_make_folders node_at_own_folders op)
  then have folders: "tree_grows (v_objects V) (v_objects W)" "node_at (v_objects W) op = None"
    using assms(2) by auto
  show ?thesis
  proof (cases y)
    case (Inl e)
    then show ?thesis using assms(1) y folders by (simp add: store_object_def)
  next
    case (Inr u)
    then have "write_object op content mp txt W = (x, V')" using assms(1) y by (simp add: store_object_def)
    then have "tree_grows (v_objects W) (v_objects V')"
      by (rule write_object_cases) (auto intro: extends_write_file folders(2))
    then show ?thesis using folders(1) by (blast intro: tree_grows_trans)
  qed
qed

lemma place_object_extends:
  assumes "place_object P key content r op mp V = (x, V')"
  shows "tree_grows (v_objects V) (v_objects V')"
proof (cases "node_at (v_objects V) op")
  case None
  obtain y W where y: "store_object op content mp (json_text (retention_document (int (length content))
      (bytes_fingerprint P content) r)) V = (y, W)" by fastforce
  have "V' = W" using assms None y by (cases y) (auto simp: place_object_def)
  then show ?thesis using store_object_extends [OF y None] by simp
next
  case (Some n)
  then show ?thesis using assms by (auto simp: place_object_def split: option.splits)
qed

lemma conditional_create_extends: "tree_grows (v_objects V) (v_objects (snd (conditional_create P E key content r V)))"
proof -
  have "tree_grows (v_objects V) (v_objects V')" if "place_object P key content r op mp V = (x, V')" for x V' op mp
    using that by (rule place_object_extends)
  then show ?thesis
    by (auto simp: conditional_create_def split: sum.splits prod.splits)
qed

lemma destroy_exact_Inr:
  assumes "destroy_exact P E r authorized now V = (Inr u, V')"
  shows "own_reference V r = None" and "validate_logical_key (or_logical_key r) = None"
    and "\<exists>retained. retention E V r = Inr retained \<and> authorized \<and> \<not> rp_legal_hold retained
      \<and> rp_retain_until retained \<le> now"
    and "\<exists>content. read_exact P V r = Inr content"
    and "V' = V\<lparr>v_objects := remove_file (key_parts (or_logical_key r) @ [or_version_id r]) (v_objects V),
      v_metadata := remove_file (key_parts (or_logical_key r) @ [or_version_id r @ ''.json'']) (v_metadata V)\<rparr>"
  using assms
  by (auto simp: destroy_exact_def retention_def read_exact_def guarded_Inr contained_Inr enter_key_lock_def
      split: sum.splits prod.splits)

lemma destroy_exact_Inl: "destroy_exact P E r authorized now V = (Inl e, V') \<Longrightarrow> V' = V"
  by (auto simp: destroy_exact_def split: sum.splits prod.splits)

lemma inject_corruption_other:
  assumes "inject_corruption r content V = (x, V')" and "p \<noteq> key_parts (or_logical_key r) @ [or_version_id r]"
  shows "node_at (v_objects V') p = node_at (v_objects V) p"
  using assms by (auto simp: inject_corruption_def contained_Inr node_at_write_file split: sum.splits option.splits)

section \<open>The invariant of a vault nobody tampers with\<close>

text \<open>
  Every object carries the version of its content and has a retention document of its own, of a
  profile \<^verbatim>\<open>R\<close> admits; every retention document belongs to an object; a key has one version at most.
\<close>

definition stored_retention :: "platform \<Rightarrow> string \<Rightarrow> retention_profile \<Rightarrow> string" where
  "stored_retention P content r =
     json_text (retention_document (int (length content)) (bytes_fingerprint P content) r)"

abbreviation object_document :: "vault \<Rightarrow> path \<Rightarrow> string option" where
  "object_document V p \<equiv> document (node_at (v_objects V) p)"

abbreviation metadata_document :: "vault \<Rightarrow> path \<Rightarrow> string option" where
  "metadata_document V p \<equiv> document (node_at (v_metadata V) p)"

definition vault_ok :: "platform \<Rightarrow> (retention_profile \<Rightarrow> bool) \<Rightarrow> vault \<Rightarrow> bool" where
  "vault_ok P R V \<longleftrightarrow> tree_ok (v_objects V) \<and> tree_ok (v_metadata V)
     \<and> (\<forall>dir name content. object_document V (dir @ [name]) = Some content \<longrightarrow>
          name = local_version P content
          \<and> (\<exists>r. R r \<and> metadata_document V (dir @ [name @ ''.json'']) = Some (stored_retention P content r)))
     \<and> (\<forall>dir name raw. metadata_document V (dir @ [name]) = Some raw \<longrightarrow>
          (\<exists>version. name = version @ ''.json'' \<and> object_document V (dir @ [version]) \<noteq> None))
     \<and> (\<forall>dir name name'. object_document V (dir @ [name]) \<noteq> None \<and> object_document V (dir @ [name']) \<noteq> None
          \<longrightarrow> name = name')"

lemma empty_vault_ok: "vault_ok P R (empty_vault name)"
proof -
  have "document (node_at [] p) = None" for p by (cases p) (auto simp: node_at_def)
  then show ?thesis by (simp add: vault_ok_def empty_vault_def)
qed

lemma regular_child_names_Inr:
  assumes "tree_ok t" and "regular_child_names t dir key = Inr names"
  shows "distinct names" and "name \<in> set names \<longleftrightarrow> document (node_at t (dir @ [name])) \<noteq> None"
    and "node_at t (dir @ [name]) \<noteq> Some Folder"
proof -
  have t: "distinct (map fst t)" "list_all (\<lambda>(p, n). p \<noteq> []) t" using assms(1) by (auto simp: tree_ok_def list_all_iff)
  show "distinct names"
    using assms(2) distinct_children [OF t(1)]
    by (auto simp: regular_child_names_def Let_def split: option.splits node.splits)
  have "(name \<in> set names \<longleftrightarrow> document (node_at t (dir @ [name])) \<noteq> None) \<and> node_at t (dir @ [name]) \<noteq> Some Folder"
  proof (cases "node_at t dir")
    case None
    have "node_at t (dir @ [name]) = None"
      using tree_ok_prefix [OF assms(1), of dir "[name]"] None by (cases "node_at t (dir @ [name])") auto
    then show ?thesis using assms(2) None by (simp add: regular_child_names_def)
  next
    case (Some n)
    then have names: "names = map fst (children dir t)"
      and docs: "\<forall>(name, n) \<in> set (children dir t). document (Some n) \<noteq> None"
      using assms(2) by (auto simp: regular_child_names_def Let_def list_ex_iff split: node.splits)
    show ?thesis
    proof (cases "node_at t (dir @ [name])")
      case None
      then have "(name, m) \<notin> set (children dir t)" for m using mem_children [OF t, of name m dir] by simp
      then show ?thesis using None by (auto simp: names)
    next
      case (Some m)
      then have m: "(name, m) \<in> set (children dir t)" using mem_children [OF t, of name m dir] by simp
      then have "document (Some m) \<noteq> None" using docs by fast
      moreover have "name \<in> set names" using m by (force simp: names)
      ultimately show ?thesis using Some by (cases m) auto
    qed
  qed
  then show "name \<in> set names \<longleftrightarrow> document (node_at t (dir @ [name])) \<noteq> None"
    and "node_at t (dir @ [name]) \<noteq> Some Folder" by auto
qed

lemma admit_create_Inr:
  assumes "tree_ok (v_objects V)" and "tree_ok (v_metadata V)"
    and "admit_create P V key content = Inr (op, mp)"
  shows "op = key_parts key @ [local_version P content]" "mp = key_parts key @ [local_version P content @ ''.json'']"
    and "validate_logical_key key = None"
    and "object_document V op = None \<Longrightarrow> node_at (v_objects V) (key_parts key @ [name]) = None"
    and "object_document V op = None \<Longrightarrow> node_at (v_metadata V) (key_parts key @ [name]) = None"
proof -
  let ?v = "local_version P content"
  obtain names metadata_names where
    op: "op = key_parts key @ [?v]" and mp: "mp = key_parts key @ [?v @ ''.json'']" and key: "validate_logical_key key = None"
    and names: "regular_child_names (v_objects V) (key_parts key) key = Inr names"
    and metadata: "regular_child_names (v_metadata V) (key_parts key) key = Inr metadata_names"
    and state: "names \<in> set [[], [?v]]" "names = [] \<longleftrightarrow> metadata_names = []"
    using assms(3) by (auto simp: admit_create_def contained_Inr Let_def)
  show "op = key_parts key @ [?v]" "mp = key_parts key @ [?v @ ''.json'']" "validate_logical_key key = None"
    using op mp key by simp_all
  have empty: "names = []" "metadata_names = []" if "object_document V op = None"
    using that state regular_child_names_Inr(2) [OF assms(1) names, of ?v] by (auto simp: op)
  show "node_at (v_objects V) (key_parts key @ [name]) = None" if "object_document V op = None"
    using empty(1) [OF that] regular_child_names_Inr(2,3) [OF assms(1) names, of name] tree_ok_node [OF assms(1)]
    by (cases "node_at (v_objects V) (key_parts key @ [name])" rule: document.cases) auto
  show "node_at (v_metadata V) (key_parts key @ [name]) = None" if "object_document V op = None"
    using empty(2) [OF that] regular_child_names_Inr(2,3) [OF assms(2) metadata, of name] tree_ok_node [OF assms(2)]
    by (cases "node_at (v_metadata V) (key_parts key @ [name])" rule: document.cases) auto
qed

text \<open>Storing writes both documents or neither.\<close>

lemma document_make_folders: "make_folders path t = Some t' \<Longrightarrow> document (node_at t' p) = document (node_at t p)"
  by (simp add: node_at_make_folders)

lemma write_file_possible:
  assumes "make_folders (butlast path) t = Some t'" and "path \<noteq> []" and "node_at t path = None"
  shows "write_file path content t' = Some (AList.update path (Document content) t')"
proof -
  have "node_at t' (butlast path) = Some Folder"
  proof (cases "butlast path = []")
    case False
    then have "butlast path \<in> set (steps_to (butlast path))" by (auto simp: mem_steps_to)
    then show ?thesis using assms(1) by (auto simp: node_at_make_folders [OF assms(1)] make_folders_def list_all_iff split: if_splits)
  qed simp
  then show ?thesis using node_at_own_folders [OF assms(1,2)] assms(3) by (simp add: write_file_def)
qed

lemma store_object_outcome:
  assumes "store_object op content mp txt V = (x, V')" and "op \<noteq> []" "mp \<noteq> []"
    and "tree_ok (v_objects V)" "tree_ok (v_metadata V)"
    and "node_at (v_objects V) op = None" "node_at (v_metadata V) mp = None"
  shows "tree_ok (v_objects V')" and "tree_ok (v_metadata V')"
    and "x = Inl OsFault \<and> (\<forall>p. object_document V' p = object_document V p) \<and> (\<forall>p. metadata_document V' p = metadata_document V p)
       \<or> x = Inr () \<and> object_document V' = (object_document V)(op \<mapsto> content)
          \<and> metadata_document V' = (metadata_document V)(mp \<mapsto> txt)"
proof -
  let ?goal = "tree_ok (v_objects V') \<and> tree_ok (v_metadata V')
    \<and> (x = Inl OsFault \<and> (\<forall>p. object_document V' p = object_document V p) \<and> (\<forall>p. metadata_document V' p = metadata_document V p)
       \<or> x = Inr () \<and> object_document V' = (object_document V)(op \<mapsto> content)
          \<and> metadata_document V' = (metadata_document V)(mp \<mapsto> txt))"
  obtain y W where y: "make_object_folders op mp V = (y, W)" by fastforce
  have ?goal
  proof (cases rule: make_object_folders_cases [OF y])
    case 1
    then show ?thesis using assms(1,4,5) y by (auto simp: store_object_def)
  next
    case (2 objects)
    then show ?thesis using assms(1,4,5) y make_folders_ok by (auto simp: store_object_def document_make_folders)
  next
    case (3 objects metadata)
    have w: "write_file op content objects = Some (AList.update op (Document content) objects)"
        "write_file mp txt metadata = Some (AList.update mp (Document txt) metadata)"
      using 3 assms(2,3,6,7) by (auto intro: write_file_possible)
    have r: "x = Inr ()" "v_objects V' = AList.update op (Document content) objects"
        "v_metadata V' = AList.update mp (Document txt) metadata"
      using assms(1) y 3 w by (auto simp: store_object_def write_object_def)
    have "tree_ok objects" "tree_ok metadata" using 3 assms(4,5) make_folders_ok by blast+
    then show ?thesis
      using write_file_ok [OF _ assms(2) w(1)] write_file_ok [OF _ assms(3) w(2)]
      by (auto simp: r node_at_write_file [OF w(1)] node_at_write_file [OF w(2)]
          document_make_folders [OF 3(1)] document_make_folders [OF 3(2)])
  qed
  then show "tree_ok (v_objects V')" and "tree_ok (v_metadata V')"
    and "x = Inl OsFault \<and> (\<forall>p. object_document V' p = object_document V p) \<and> (\<forall>p. metadata_document V' p = metadata_document V p)
       \<or> x = Inr () \<and> object_document V' = (object_document V)(op \<mapsto> content)
          \<and> metadata_document V' = (metadata_document V)(mp \<mapsto> txt)" by blast+
qed

text \<open>The documents decide the invariant.\<close>

lemma vault_ok_documents:
  assumes "vault_ok P R V" and "tree_ok (v_objects V')" and "tree_ok (v_metadata V')"
    and "\<forall>p. object_document V' p = object_document V p" and "\<forall>p. metadata_document V' p = metadata_document V p"
  shows "vault_ok P R V'"
  using assms by (simp add: vault_ok_def)

lemma vault_okD:
  assumes "vault_ok P R V"
  shows "tree_ok (v_objects V)" and "tree_ok (v_metadata V)"
    and "object_document V (dir @ [name]) = Some content \<Longrightarrow> name = local_version P content"
    and "object_document V (dir @ [name]) = Some content
      \<Longrightarrow> \<exists>r. R r \<and> metadata_document V (dir @ [name @ ''.json'']) = Some (stored_retention P content r)"
    and "metadata_document V (dir @ [name]) = Some raw
      \<Longrightarrow> \<exists>version. name = version @ ''.json'' \<and> object_document V (dir @ [version]) \<noteq> None"
    and "object_document V (dir @ [name]) \<noteq> None \<Longrightarrow> object_document V (dir @ [name']) \<noteq> None \<Longrightarrow> name = name'"
  using assms unfolding vault_ok_def by blast+

lemma vault_ok_stored:
  assumes "vault_ok P R V" and "tree_ok (v_objects V')" and "tree_ok (v_metadata V')" and "R r"
    and "object_document V' = (object_document V)(dir @ [local_version P content] \<mapsto> content)"
    and "metadata_document V' = (metadata_document V)(dir @ [local_version P content @ ''.json''] \<mapsto> stored_retention P content r)"
    and "\<And>name. object_document V (dir @ [name]) = None"
  shows "vault_ok P R V'"
proof -
  have o: "object_document V' p = (if p = dir @ [local_version P content] then Some content else object_document V p)"
    and m: "metadata_document V' p = (if p = dir @ [local_version P content @ ''.json''] then Some (stored_retention P content r)
      else metadata_document V p)" for p
    by (simp_all add: fun_cong [OF assms(5)] fun_cong [OF assms(6)])
  have "name = local_version P c
      \<and> (\<exists>r. R r \<and> metadata_document V' (d @ [name @ ''.json'']) = Some (stored_retention P c r))"
    if "object_document V' (d @ [name]) = Some c" for d name c
  proof (cases "d = dir \<and> name = local_version P content")
    case True
    then show ?thesis using that assms(4) by (auto simp: o m)
  next
    case False
    then have old: "object_document V (d @ [name]) = Some c" using that by (simp add: o split: if_splits)
    then have "d \<noteq> dir" using assms(7) by (metis option.distinct(1))
    then show ?thesis using vault_okD(3,4) [OF assms(1) old] by (simp add: m)
  qed
  moreover have "\<exists>version. name = version @ ''.json'' \<and> object_document V' (d @ [version]) \<noteq> None"
    if "metadata_document V' (d @ [name]) = Some raw" for d name raw
  proof (cases "d = dir \<and> name = local_version P content @ ''.json''")
    case True
    then show ?thesis by (auto simp: o)
  next
    case False
    then have "metadata_document V (d @ [name]) = Some raw" using that by (simp add: m split: if_splits)
    then obtain version where "name = version @ ''.json''" "object_document V (d @ [version]) \<noteq> None"
      using vault_okD(5) [OF assms(1)] by blast
    then show ?thesis by (auto simp: o)
  qed
  moreover have "name = name'"
    if "object_document V' (d @ [name]) \<noteq> None" "object_document V' (d @ [name']) \<noteq> None" for d name name'
  proof (cases "d = dir")
    case True
    then show ?thesis using that assms(7) by (simp add: o split: if_splits)
  next
    case False
    then show ?thesis using that vault_okD(6) [OF assms(1), of d name name'] by (simp add: o)
  qed
  ultimately show ?thesis using assms(2,3) unfolding vault_ok_def by blast
qed

text \<open>A creation that is admitted stores both documents at a key that has none, or changes none.\<close>

lemma place_object_outcome:
  assumes "tree_ok (v_objects V)" "tree_ok (v_metadata V)" and "admit_create P V key content = Inr (op, mp)"
    and "place_object P key content r op mp V = (x, V')"
  shows "tree_ok (v_objects V')" and "tree_ok (v_metadata V')"
    and "x \<noteq> Inr True \<and> (\<forall>p. object_document V' p = object_document V p) \<and> (\<forall>p. metadata_document V' p = metadata_document V p)
       \<or> x = Inr True
          \<and> (\<forall>name. node_at (v_objects V) (key_parts key @ [name]) = None)
          \<and> (\<forall>name. node_at (v_metadata V) (key_parts key @ [name]) = None)
          \<and> object_document V' = (object_document V)(key_parts key @ [local_version P content] \<mapsto> content)
          \<and> metadata_document V' = (metadata_document V)
              (key_parts key @ [local_version P content @ ''.json''] \<mapsto> stored_retention P content r)"
  (is ?outcome)
proof -
  note admitted = admit_create_Inr [OF assms(1-3)]
  have "tree_ok (v_objects V') \<and> tree_ok (v_metadata V') \<and> ?outcome"
  proof (cases "node_at (v_objects V) op")
    case (Some n)
    then show ?thesis using assms(1,2,4) by (auto simp: place_object_def split: option.splits)
  next
    case None
    then have free: "node_at (v_objects V) (key_parts key @ [name]) = None"
        "node_at (v_metadata V) (key_parts key @ [name]) = None" for name
      using admitted(4,5) by simp_all
    obtain y W where y: "store_object op content mp (stored_retention P content r) V = (y, W)" by fastforce
    then have x: "V' = W" "x = map_sum id (\<lambda>_. True) y"
      using assms(4) None by (cases y, auto simp: place_object_def stored_retention_def)+
    have "op \<noteq> []" "mp \<noteq> []" "node_at (v_metadata V) mp = None" by (simp_all add: admitted(1,2) free)
    note outcome = store_object_outcome [OF y this(1,2) assms(1,2) None this(3)]
    from outcome(3) show ?thesis
      by (elim disjE conjE) (simp_all add: x free outcome(1,2) admitted(1,2))
  qed
  then show "tree_ok (v_objects V')" "tree_ok (v_metadata V')" ?outcome by blast+
qed

lemma conditional_create_cases:
  obtains (raised) e where "conditional_create P E key content r V = (Inl e, V)"
  | (placed) op mp x V' where "admit_create P V key content = Inr (op, mp)" "validate_logical_key key = None"
      "enter_key_lock V key = None" "place_object P key content r op mp V = (x, V')"
      "conditional_create P E key content r V
        = ((case x of Inl e \<Rightarrow> Inl e | Inr created \<Rightarrow> confirm_create P E V' key content r created), V')"
proof (cases "guarded [validate_logical_key key, enter_key_lock V key] (admit_create P V key content)")
  case (Inl e)
  then show ?thesis using raised by (simp add: conditional_create_def)
next
  case (Inr paths)
  obtain op mp where paths: "paths = (op, mp)" by fastforce
  obtain x V' where x: "place_object P key content r op mp V = (x, V')" by fastforce
  have "admit_create P V key content = Inr (op, mp)" "validate_logical_key key = None" "enter_key_lock V key = None"
    using Inr by (auto simp: paths guarded_Inr)
  moreover have "conditional_create P E key content r V
      = ((case x of Inl e \<Rightarrow> Inl e | Inr created \<Rightarrow> confirm_create P E V' key content r created), V')"
    using Inr x by (simp add: paths conditional_create_def split: sum.splits)
  ultimately show ?thesis using placed x by blast
qed

lemma conditional_create_vault_ok:
  assumes "vault_ok P R V" and "R r"
  shows "vault_ok P R (snd (conditional_create P E key content r V))"
proof (cases rule: conditional_create_cases [of P E key content r V])
  case (placed op mp x V')
  note outcome = place_object_outcome [OF vault_okD(1,2) [OF assms(1)] placed(1,4)]
  from outcome(3) have "vault_ok P R V'"
  proof (elim disjE conjE)
    assume "\<forall>p. object_document V' p = object_document V p" "\<forall>p. metadata_document V' p = metadata_document V p"
    then show ?thesis using vault_ok_documents [OF assms(1) outcome(1,2)] by simp
  next
    assume "\<forall>name. node_at (v_objects V) (key_parts key @ [name]) = None"
      "object_document V' = (object_document V)(key_parts key @ [local_version P content] \<mapsto> content)"
      "metadata_document V' = (metadata_document V)
              (key_parts key @ [local_version P content @ ''.json''] \<mapsto> stored_retention P content r)"
    then show ?thesis using vault_ok_stored [OF assms(1) outcome(1,2) assms(2), of "key_parts key" content] by simp
  qed
  then show ?thesis by (simp add: placed(5))
qed (use assms(1) in simp)

lemma conditional_create_metadata:
  assumes "vault_ok P R V" and "metadata_document V p = Some raw"
  shows "metadata_document (snd (conditional_create P E key content r V)) p = Some raw"
proof (cases rule: conditional_create_cases [of P E key content r V])
  case (placed op mp x V')
  from place_object_outcome(3) [OF vault_okD(1,2) [OF assms(1)] placed(1,4)]
  have "metadata_document V' p = Some raw"
  proof (elim disjE conjE)
    assume free: "\<forall>name. node_at (v_metadata V) (key_parts key @ [name]) = None"
      and upd: "metadata_document V' = (metadata_document V)
              (key_parts key @ [local_version P content @ ''.json''] \<mapsto> stored_retention P content r)"
    have "p \<noteq> key_parts key @ [local_version P content @ ''.json'']" using free assms(2) by auto
    then show ?thesis using assms(2) fun_cong [OF upd, of p] by (simp del: document_Some)
  qed (use assms(2) in simp)
  then show ?thesis by (simp add: placed(5))
qed (use assms(2) in simp)

lemma destroy_exact_vault_ok:
  assumes "vault_ok P R V"
  shows "vault_ok P R (snd (destroy_exact P E r authorized now V))"
proof (cases "destroy_exact P E r authorized now V")
  case (Pair x V')
  show ?thesis
  proof (cases x)
    case (Inl e)
    then show ?thesis using destroy_exact_Inl Pair assms by fastforce
  next
    case (Inr u)
    let ?dir = "key_parts (or_logical_key r)" and ?v = "or_version_id r"
    note d = destroy_exact_Inr [OF Pair [unfolded Inr]]
    have V': "v_objects V' = remove_file (?dir @ [?v]) (v_objects V)"
        "v_metadata V' = remove_file (?dir @ [?v @ ''.json'']) (v_metadata V)"
      by (simp_all add: d(5))
    have "object_document V (?dir @ [?v]) \<noteq> None"
      using d(4) by (auto simp: read_exact_def guarded_Inr read_exact_unlocked_def contained_Inr split: option.splits)
    moreover have "metadata_document V (?dir @ [?v @ ''.json'']) \<noteq> None"
      using d(3) by (auto simp: retention_def guarded_Inr retention_unlocked_def contained_Inr split: option.splits)
    ultimately have trees: "tree_ok (v_objects V')" "tree_ok (v_metadata V')"
      using remove_file_ok vault_okD(1,2) [OF assms] by (simp_all add: V')
    have o: "object_document V' p = (if p = ?dir @ [?v] then None else object_document V p)"
      and m: "metadata_document V' p = (if p = ?dir @ [?v @ ''.json''] then None else metadata_document V p)" for p
      by (simp_all add: V' node_at_remove_file)
    have "vault_ok P R V'"
      unfolding vault_ok_def
    proof (intro conjI allI impI)
      fix d name c
      assume a: "object_document V' (d @ [name]) = Some c"
      then have old: "object_document V (d @ [name]) = Some c" and "d @ [name] \<noteq> ?dir @ [?v]"
        by (simp_all add: o split: if_splits)
      then show "name = local_version P c"
        "\<exists>r. R r \<and> metadata_document V' (d @ [name @ ''.json'']) = Some (stored_retention P c r)"
        using vault_okD(3,4) [OF assms old] by (simp_all add: m)
    next
      fix d name raw
      assume "metadata_document V' (d @ [name]) = Some raw"
      then have "metadata_document V (d @ [name]) = Some raw" "d @ [name] \<noteq> ?dir @ [?v @ ''.json'']"
        by (simp_all add: m split: if_splits)
      moreover from this(1) obtain version where "name = version @ ''.json''" "object_document V (d @ [version]) \<noteq> None"
        using vault_okD(5) [OF assms] by blast
      ultimately show "\<exists>version. name = version @ ''.json'' \<and> object_document V' (d @ [version]) \<noteq> None"
        by (auto simp: o)
    next
      fix d name name'
      assume "object_document V' (d @ [name]) \<noteq> None \<and> object_document V' (d @ [name']) \<noteq> None"
      then show "name = name'" using vault_okD(6) [OF assms, of d name name'] by (simp add: o split: if_splits)
    qed (fact trees)+
    then show ?thesis by (simp add: Pair)
  qed
qed

fun lawful_op :: "(retention_profile \<Rightarrow> bool) \<Rightarrow> vault_op \<Rightarrow> bool" where
  "lawful_op R (Create key content r) = R r"
| "lawful_op R (Destroy r authorized now) = True"
| "lawful_op R (Corrupt r content) = False"

text \<open>A vault reached without tampering is sound.\<close>

interpretation vaults: state_store "empty_vault name" "vault_step P E" "lawful_op R" "vault_ok P R"
  for name P E R
proof
  show "vault_ok P R (empty_vault name)" by (rule empty_vault_ok)
  show "vault_ok P R (snd (vault_step P E op V))" if "vault_ok P R V" "lawful_op R op" for op V
    using that conditional_create_vault_ok destroy_exact_vault_ok
    by (cases op) (auto simp: vault_step_def)
qed

section \<open>Retention\<close>

lemma retention_document_readable:
  "int (length content) \<le> max_safe_integer \<Longrightarrow> readable (retention_document (int (length content)) fingerprint r)"
  by (simp add: retention_document_def)

lemma parse_stored_retention:
  assumes "int (length content) \<le> max_safe_integer"
  shows "parse_json_bytes (stored_retention P content r) (max (int (length (stored_retention P content r))) 1)
    = Inr (retention_document (int (length content)) (bytes_fingerprint P content) r)"
  unfolding stored_retention_def by (rule parse_json_text [OF retention_document_readable [OF assms]]) simp

text \<open>Whatever a reference says, the profile it retains is the one stored beside the object.\<close>

lemma retention_stored:
  assumes "metadata_at V (or_logical_key ref) (or_version_id ref) = Some (stored_retention P content r)"
    and "int (length content) \<le> max_safe_integer" and "retention E V ref = Inr retained"
  shows "retained = r"
proof -
  have "parse_retention E ref (stored_retention P content r) = Inr retained"
    using assms(1,3) by (auto simp: retention_def retention_unlocked_def guarded_Inr contained_Inr metadata_at_def)
  then show ?thesis
    by (auto simp: parse_retention_def parse_stored_retention [OF assms(2)] retention_document_def guarded_Inr
        new_retention_profile_def split: if_splits)
qed

end
