(* ===== verification/VaultRefinement.thy ===== *)
theory VaultRefinement
  imports LocalVaultFacts
begin

text \<open>
  What a creation does at a key whose folder holds nothing else, over a retention of printable text:
  it stores, accepts or refuses, as a write-once map does.
\<close>

section \<open>Storing under plain retention\<close>

text \<open>The profiles whose retention document is canonical as \<^verbatim>\<open>json.dumps\<close> writes it.\<close>

definition plain_retention :: "retention_profile \<Rightarrow> bool" where
  "plain_retention r \<longleftrightarrow> new_retention_profile r = Inr r \<and> plain_text (rp_profile_id r) \<and> plain_text (rp_retain_until r)"

definition create_reference :: "platform \<Rightarrow> vault_name \<Rightarrow> string \<Rightarrow> string \<Rightarrow> object_reference" where
  "create_reference P name key content = \<lparr>or_vault = name, or_logical_key = key,
     or_version_id = local_version P content, or_fingerprint = bytes_fingerprint P content,
     or_byte_length = int (length content)\<rparr>"

definition create_receipt :: "platform \<Rightarrow> vault_name \<Rightarrow> string \<Rightarrow> string \<Rightarrow> retention_profile \<Rightarrow> bool \<Rightarrow> write_receipt" where
  "create_receipt P name key content r created = \<lparr>wr_reference = create_reference P name key content,
     wr_created = created, wr_read_back_verified = True, wr_retention = r\<rparr>"

lemma local_version_digest: "local_version P content = CHR ''v'' # sha256_hex P content"
  by (simp add: local_version_def bytes_fingerprint_def sha256_fingerprint_def)

lemma local_version_inj: "local_version P c = local_version P c' \<longleftrightarrow> bytes_fingerprint P c = bytes_fingerprint P c'"
  by (simp add: local_version_digest bytes_fingerprint_def sha256_fingerprint_def)

lemma plain_hex: "is_hex c \<Longrightarrow> 32 \<le> (of_char c :: nat) \<and> (of_char c :: nat) \<le> 126"
  by (auto simp: char_class_defs)

lemma bytes_fingerprint_plain: "digest_law P \<Longrightarrow> plain_text (bytes_fingerprint P content)"
  by (auto simp: bytes_fingerprint_def sha256_fingerprint_def plain_text_def digest_law_def hex_word_def list_all_iff
      dest: plain_hex)

lemma prefixed_hex_exact: "\<not> is_space c \<Longrightarrow> hex_word n h \<Longrightarrow> 0 < n \<Longrightarrow> is_exact_text (c # s @ h)"
  by (cases h rule: rev_cases) (auto simp: is_exact_text_iff hex_word_def is_hex_not_space)

lemma prefix_not_space: "\<not> is_space (CHR ''s'')" "\<not> is_space (CHR ''v'')"
  by code_simp+

lemma bytes_fingerprint_text: "digest_law P \<Longrightarrow> fingerprint_text (bytes_fingerprint P content) field = None"
  using fingerprint_law [of P content] prefixed_hex_exact [OF prefix_not_space(1), of 64 "sha256_hex P content" "''ha256:''"]
  by (simp add: fingerprint_text_def evidence_text_def bytes_fingerprint_def digest_law_def sha256_fingerprint_def)

lemma check_local_version: "digest_law P \<Longrightarrow> check_version (local_version P content) = None"
  using prefixed_hex_exact [OF prefix_not_space(2), of 64 "sha256_hex P content" "[]"]
  by (simp add: check_version_def evidence_text_def digest_law_def local_version_digest local_version_pattern_def)

lemma create_reference_valid:
  "digest_law P \<Longrightarrow> validate_logical_key key = None
    \<Longrightarrow> new_object_reference (create_reference P name key content) = Inr (create_reference P name key content)"
  by (simp add: new_object_reference_def create_reference_def check_local_version bytes_fingerprint_text)

lemma parse_plain_retention:
  assumes "digest_law P" and "encoder_law E" and "plain_retention r" and "int (length content) \<le> max_safe_integer"
    and "or_byte_length ref = int (length content)" and "or_fingerprint ref = bytes_fingerprint P content"
  shows "parse_retention E ref (stored_retention P content r) = Inr r"
proof -
  let ?doc = "retention_document (int (length content)) (bytes_fingerprint P content) r"
  have keys: "sorted [''byte_length'', ''fingerprint'', ''legal_hold'', ''profile_id'', ''retain_until'']"
    "list_all plain_text [''byte_length'', ''fingerprint'', ''legal_hold'', ''profile_id'', ''retain_until'']"
    by code_simp+
  then have "plain_json ?doc"
    using assms(3,4) bytes_fingerprint_plain [OF assms(1)] by (simp add: retention_document_def plain_retention_def)
  then have "E ?doc = Some (stored_retention P content r)"
    using assms(2) by (simp add: encoder_law_def stored_retention_def)
  then show ?thesis
    using assms(3,5,6)
    by (simp add: parse_retention_def parse_stored_retention [OF assms(4)] retention_document_def guarded_def
        canonicalize_def plain_retention_def new_retention_profile_def raise_if_def insert_commute)
qed

text \<open>A stored object is confirmed under its own profile alone.\<close>

lemma stored_is_confirmed:
  assumes "digest_law P" and "encoder_law E" and "plain_retention q" and "int (length content) \<le> max_safe_integer"
    and "validate_logical_key key = None" and "tree_ok (v_objects V)" and "tree_ok (v_metadata V)"
    and "object_at V key (local_version P content) = Some content"
    and "metadata_at V key (local_version P content) = Some (stored_retention P content q)"
  shows "read_exact_unlocked P V (create_reference P (v_name V) key content) = Inr content"
    and "retention_unlocked E V (create_reference P (v_name V) key content) = Inr q"
    and "confirm_create P E V key content r created
      = (if q = r then Inr (create_receipt P (v_name V) key content r created) else Inl (VaultCollision key))"
proof -
  let ?ref = "create_reference P (v_name V) key content"
  show read: "read_exact_unlocked P V ?ref = Inr content"
    using assms(5,8) contained_ok [OF assms(6,5)]
    by (simp add: read_exact_unlocked_def create_reference_def object_at_def)
  have "parse_retention E ?ref (stored_retention P content q) = Inr q"
    by (rule parse_plain_retention [OF assms(1-4)]) (simp_all add: create_reference_def)
  then show ret: "retention_unlocked E V ?ref = Inr q"
    using assms(9) contained_ok [OF assms(7,5)]
    by (simp add: retention_unlocked_def create_reference_def metadata_at_def)
  show "confirm_create P E V key content r created
      = (if q = r then Inr (create_receipt P (v_name V) key content r created) else Inl (VaultCollision key))"
    using create_reference_valid [OF assms(1,5), of "v_name V" content] read ret
    by (simp add: confirm_create_def create_reference_def [symmetric] guarded_def raise_if_def new_write_receipt_def
        create_receipt_def construct_def)
qed

section \<open>Creating at an open key\<close>

text \<open>Nothing but folders on the way to the key, and no folder below it.\<close>

definition open_key :: "vault \<Rightarrow> string \<Rightarrow> bool" where
  "open_key V key \<longleftrightarrow>
     list_all (\<lambda>t. list_all (\<lambda>p. node_at t p = None \<or> node_at t p = Some Folder) (steps_to (key_parts key))
       \<and> list_all (\<lambda>(name, n). n \<noteq> Folder) (children (key_parts key) t)) [v_objects V, v_metadata V]"

lemma open_key_tree:
  assumes "open_key V key" and "tree_ok t" and "t = v_objects V \<or> t = v_metadata V"
  shows "node_at t (key_parts key) = None \<or> node_at t (key_parts key) = Some Folder"
    and "node_at t (key_parts key @ [name]) \<noteq> Some Folder"
    and "make_folders (key_parts key) t \<noteq> None"
proof -
  have steps: "list_all (\<lambda>p. node_at t p = None \<or> node_at t p = Some Folder) (steps_to (key_parts key))"
    and kids: "list_all (\<lambda>(name, n). n \<noteq> Folder) (children (key_parts key) t)"
    using assms(1,3) by (auto simp: open_key_def)
  have "key_parts key \<in> set (steps_to (key_parts key))" by (auto simp: mem_steps_to)
  then show "node_at t (key_parts key) = None \<or> node_at t (key_parts key) = Some Folder"
    using steps by (simp add: list_all_iff)
  show "node_at t (key_parts key @ [name]) \<noteq> Some Folder"
    using kids mem_children [of t name Folder "key_parts key"] assms(2) by (fastforce simp: tree_ok_def list_all_iff)
  show "make_folders (key_parts key) t \<noteq> None" using steps by (simp add: make_folders_def)
qed

lemma regular_child_names_open:
  assumes "tree_ok t" and "node_at t dir = None \<or> node_at t dir = Some Folder"
    and "\<And>name. node_at t (dir @ [name]) \<noteq> Some Folder"
  obtains names where "regular_child_names t dir key = Inr names"
proof -
  have t: "distinct (map fst t)" "list_all (\<lambda>(p, n). p \<noteq> []) t" using assms(1) by (auto simp: tree_ok_def list_all_iff)
  have "document (Some n) \<noteq> None" if "(name, n) \<in> set (children dir t)" for name n
  proof -
    have "node_at t (dir @ [name]) = Some n" using that mem_children [OF t] by blast
    then show ?thesis using assms(3) [of name] tree_ok_node [OF assms(1)] by (cases n) auto
  qed
  then have "regular_child_names t dir key = Inr (if node_at t dir = None then [] else map fst (children dir t))"
    using assms(2) by (auto simp: regular_child_names_def Let_def list_ex_iff)
  then show ?thesis by (rule that)
qed

lemma sole_name:
  assumes "distinct names" and "\<And>name. name \<in> set names \<longleftrightarrow> name = v"
  shows "names = [v]"
proof (cases names)
  case Nil
  then show ?thesis using assms(2) [of v] by simp
next
  case (Cons n ns)
  then have "n = v" using assms(2) [of n] by simp
  moreover have "ns = []" using assms(1) assms(2) [of "hd ns"] Cons \<open>n = v\<close> by (cases ns) auto
  ultimately show ?thesis using Cons by simp
qed

lemma remove_json_suffix_json: "remove_json_suffix (version @ ''.json'') = version"
  by (simp add: remove_json_suffix_def ends_with_def)

text \<open>The names below an open key of a sound vault: none, or one version with its profile.\<close>

lemma open_key_names:
  assumes "vault_ok P R V" and "open_key V key"
  obtains (empty) "regular_child_names (v_objects V) (key_parts key) key = Inr []"
      "regular_child_names (v_metadata V) (key_parts key) key = Inr []"
      "\<And>name. object_at V key name = None"
  | (single) v where "regular_child_names (v_objects V) (key_parts key) key = Inr [v]"
      "regular_child_names (v_metadata V) (key_parts key) key = Inr [v @ ''.json'']"
      "object_at V key v \<noteq> None"
proof -
  note trees = vault_okD(1,2) [OF assms(1)]
  obtain names where names: "regular_child_names (v_objects V) (key_parts key) key = Inr names"
    using regular_child_names_open [OF trees(1)] open_key_tree [OF assms(2) trees(1)] by blast
  obtain metas where metas: "regular_child_names (v_metadata V) (key_parts key) key = Inr metas"
    using regular_child_names_open [OF trees(2)] open_key_tree [OF assms(2) trees(2)] by blast
  note n = regular_child_names_Inr(1,2) [OF trees(1) names]
  note m = regular_child_names_Inr(1,2) [OF trees(2) metas]
  show ?thesis
  proof (cases names)
    case Nil
    then have none: "object_document V (key_parts key @ [name]) = None" for name
      using n(2) [of name] by (cases "object_document V (key_parts key @ [name])") auto
    moreover have "metas = []"
    proof (cases metas)
      case (Cons a as)
      then have "metadata_document V (key_parts key @ [a]) \<noteq> None" using m(2) [of a] by (simp del: document_Some)
      then show ?thesis using vault_okD(5) [OF assms(1)] none by (metis option.exhaust)
    qed
    ultimately show ?thesis using empty names metas Nil by (simp add: object_at_def)
  next
    case (Cons v vs)
    then have v: "object_document V (key_parts key @ [v]) \<noteq> None" using n(2) [of v] by (simp del: document_Some)
    have "name \<in> set names \<longleftrightarrow> name = v" for name
      using n(2) [of name] vault_okD(6) [OF assms(1) v, of name] v by auto
    then have names_v: "names = [v]" by (rule sole_name [OF n(1)])
    have "name \<in> set metas \<longleftrightarrow> name = v @ ''.json''" for name
    proof
      assume "name \<in> set metas"
      then have "metadata_document V (key_parts key @ [name]) \<noteq> None" using m(2) by blast
      then obtain version where "name = version @ ''.json''" "object_document V (key_parts key @ [version]) \<noteq> None"
        using vault_okD(5) [OF assms(1)] by (metis option.exhaust)
      then show "name = v @ ''.json''" using vault_okD(6) [OF assms(1) v] by blast
    next
      assume "name = v @ ''.json''"
      then show "name \<in> set metas" using v vault_okD(4) [OF assms(1)] m(2) by (metis option.distinct(1) option.exhaust)
    qed
    then have "metas = [v @ ''.json'']" by (rule sole_name [OF m(1)])
    then show ?thesis using single names metas names_v v by (simp add: object_at_def)
  qed
qed

lemma entered_key: "tree_ok (v_objects V) \<Longrightarrow> validate_logical_key key = None \<Longrightarrow> enter_key_lock V key = None"
  by (auto simp: enter_key_lock_def contained_ok)

lemma store_object_possible:
  assumes "make_folders (butlast op) (v_objects V) \<noteq> None" and "make_folders (butlast mp) (v_metadata V) \<noteq> None"
    and "op \<noteq> []" "mp \<noteq> []" and "node_at (v_objects V) op = None" and "node_at (v_metadata V) mp = None"
  shows "fst (store_object op content mp txt V) = Inr ()"
proof -
  obtain objects metadata where "make_folders (butlast op) (v_objects V) = Some objects"
      "make_folders (butlast mp) (v_metadata V) = Some metadata" using assms(1,2) by blast
  then show ?thesis
    using write_file_possible [OF _ assms(3,5)] write_file_possible [OF _ assms(4,6)]
    by (simp add: store_object_def make_object_folders_def write_object_def)
qed

lemma admit_create_names:
  assumes "tree_ok (v_objects V)" and "tree_ok (v_metadata V)" and "validate_logical_key key = None"
    and "regular_child_names (v_objects V) (key_parts key) key = Inr names"
    and "regular_child_names (v_metadata V) (key_parts key) key = Inr metas"
  shows "admit_create P V key content = (let v = local_version P content in
    if names \<in> set [[], [v]] \<and> map remove_json_suffix metas \<in> set [[], [v]] \<and> (names = [] \<longleftrightarrow> metas = [])
    then Inr (key_parts key @ [v], key_parts key @ [v @ ''.json'']) else Inl (VaultCollision key))"
  using assms(4,5) contained_ok [OF assms(1,3)] contained_ok [OF assms(2,3)]
  by (auto simp: admit_create_def Let_def construct_def raise_if_def)

lemma open_key_iff:
  assumes "tree_ok (v_objects V)" and "tree_ok (v_metadata V)"
  shows "open_key V key \<longleftrightarrow> (\<forall>t \<in> {v_objects V, v_metadata V}.
    (\<forall>p \<in> set (steps_to (key_parts key)). node_at t p = None \<or> node_at t p = Some Folder)
    \<and> (\<forall>name. node_at t (key_parts key @ [name]) \<noteq> Some Folder))"
proof -
  have "list_all (\<lambda>(name, n). n \<noteq> Folder) (children (key_parts key) t)
      \<longleftrightarrow> (\<forall>name. node_at t (key_parts key @ [name]) \<noteq> Some Folder)" if "tree_ok t" for t
    using mem_children [of t _ Folder "key_parts key"] that by (fastforce simp: tree_ok_def list_all_iff)
  then show ?thesis using assms by (auto simp: open_key_def list_all_iff)
qed

lemma store_object_nodes:
  assumes "store_object op content mp txt V = (Inr u, V')"
  shows "node_at (v_objects V') p = (if p = op then Some (Document content)
      else if p \<in> set (steps_to (butlast op)) \<and> node_at (v_objects V) p = None then Some Folder else node_at (v_objects V) p)"
    and "node_at (v_metadata V') p = (if p = mp then Some (Document txt)
      else if p \<in> set (steps_to (butlast mp)) \<and> node_at (v_metadata V) p = None then Some Folder else node_at (v_metadata V) p)"
proof -
  obtain objects metadata where f: "make_folders (butlast op) (v_objects V) = Some objects"
      "make_folders (butlast mp) (v_metadata V) = Some metadata"
      and w: "write_file op content objects = Some (v_objects V')" "write_file mp txt metadata = Some (v_metadata V')"
    using assms by (auto simp: store_object_def make_object_folders_def write_object_def split: option.splits)
  show "node_at (v_objects V') p = (if p = op then Some (Document content)
      else if p \<in> set (steps_to (butlast op)) \<and> node_at (v_objects V) p = None then Some Folder else node_at (v_objects V) p)"
    by (simp add: node_at_write_file [OF w(1)] node_at_make_folders [OF f(1)])
  show "node_at (v_metadata V') p = (if p = mp then Some (Document txt)
      else if p \<in> set (steps_to (butlast mp)) \<and> node_at (v_metadata V) p = None then Some Folder else node_at (v_metadata V) p)"
    by (simp add: node_at_write_file [OF w(2)] node_at_make_folders [OF f(2)])
qed

lemma open_key_stored:
  assumes "tree_ok (v_objects V)" "tree_ok (v_metadata V)" "tree_ok (v_objects V')" "tree_ok (v_metadata V')"
    and "open_key V key"
    and "store_object (key_parts key @ [v]) content (key_parts key @ [w]) txt V = (Inr u, V')"
  shows "open_key V' key"
proof -
  have own: "key_parts key @ [x] \<notin> set (steps_to (key_parts key))" for x by (auto simp: mem_steps_to)
  show ?thesis
    using assms(5) store_object_nodes [OF assms(6)] own
    by (auto simp: open_key_iff [OF assms(1,2)] open_key_iff [OF assms(3,4)] mem_steps_to)
qed

text \<open>
  A vault whose keys all have \<^verbatim>\<open>n\<close> parts: folders down to depth \<^verbatim>\<open>n\<close>, documents just below. Every such
  key is open.
\<close>

definition flat_tree :: "nat \<Rightarrow> tree \<Rightarrow> bool" where
  "flat_tree n t \<longleftrightarrow> (\<forall>p. (node_at t p = Some Folder \<longrightarrow> length p \<le> n)
     \<and> (document (node_at t p) \<noteq> None \<longrightarrow> length p = Suc n))"

definition flat :: "nat \<Rightarrow> vault \<Rightarrow> bool" where
  "flat n V \<longleftrightarrow> flat_tree n (v_objects V) \<and> flat_tree n (v_metadata V)"

lemma empty_flat: "flat n (empty_vault name)"
proof -
  have "node_at [] p = (if p = [] then Some Folder else None)" for p by (simp add: node_at_def)
  then show ?thesis by (simp add: flat_def flat_tree_def empty_vault_def)
qed

lemma flat_open:
  assumes "tree_ok (v_objects V)" and "tree_ok (v_metadata V)" and "flat n V" and "length (key_parts key) = n"
  shows "open_key V key"
proof -
  have "(\<forall>p \<in> set (steps_to (key_parts key)). node_at t p = None \<or> node_at t p = Some Folder)
      \<and> (\<forall>name. node_at t (key_parts key @ [name]) \<noteq> Some Folder)" if t: "tree_ok t" "flat_tree n t" for t
  proof (intro conjI ballI allI)
    fix p assume "p \<in> set (steps_to (key_parts key))"
    then have "length p \<le> n" using assms(4) by (auto simp: mem_steps_to)
    then show "node_at t p = None \<or> node_at t p = Some Folder"
      using t tree_ok_node [OF t(1), of p] by (cases "node_at t p" rule: document.cases) (auto simp: flat_tree_def)
  next
    fix name show "node_at t (key_parts key @ [name]) \<noteq> Some Folder"
      using t(2) assms(4) by (auto simp: flat_tree_def)
  qed
  then show ?thesis using assms(1-3) by (simp add: open_key_iff [OF assms(1,2)] flat_def)
qed

lemma flat_stored:
  assumes "flat n V" and "length (key_parts key) = n"
    and "store_object (key_parts key @ [v]) content (key_parts key @ [w]) data V = (Inr u, V')"
  shows "flat n V'"
  using assms(1,2) store_object_nodes [OF assms(3)]
  by (auto simp: flat_def flat_tree_def mem_steps_to)

lemma place_object_name: "place_object P key content r op mp V = (x, V') \<Longrightarrow> v_name V' = v_name V"
  by (auto simp: place_object_def store_object_def make_object_folders_def write_object_def
      split: option.splits sum.splits prod.splits)

lemma conditional_create_name: "v_name (snd (conditional_create P E key content r V)) = v_name V"
proof (cases rule: conditional_create_cases [of P E key content r V])
  case (placed op mp x V')
  then show ?thesis using place_object_name [OF placed(4)] by simp
qed simp

text \<open>A creation at an open key that holds nothing stores its two documents, and confirms what it stored.\<close>

lemma fresh_placed:
  assumes "vault_ok P R V" and "open_key V key" and "validate_logical_key key = None"
    and "\<And>name. object_at V key name = None"
  obtains V' where "conditional_create P E key content r V = (confirm_create P E V' key content r True, V')"
    and "tree_ok (v_objects V')" and "tree_ok (v_metadata V')" and "v_name V' = v_name V" and "open_key V' key"
    and "\<And>n. flat n V \<Longrightarrow> length (key_parts key) = n \<Longrightarrow> flat n V'"
    and "object_document V' = (object_document V)(key_parts key @ [local_version P content] \<mapsto> content)"
    and "metadata_document V' = (metadata_document V)
       (key_parts key @ [local_version P content @ ''.json''] \<mapsto> stored_retention P content r)"
proof -
  let ?op = "key_parts key @ [local_version P content]" and ?mp = "key_parts key @ [local_version P content @ ''.json'']"
  note trees = vault_okD(1,2) [OF assms(1)]
  have admit: "admit_create P V key content = Inr (?op, ?mp)"
  proof (cases rule: open_key_names [OF assms(1,2), case_names empty single])
    case empty
    then show ?thesis by (simp add: admit_create_names [OF trees assms(3)] Let_def)
  next
    case (single v)
    then show ?thesis using assms(4) by simp
  qed
  note admitted = admit_create_Inr(4,5) [OF trees admit]
  have free: "node_at (v_objects V) ?op = None" "node_at (v_metadata V) ?mp = None"
    using admitted assms(4) [of "local_version P content"] by (simp_all add: object_at_def)
  obtain x V' where x: "store_object ?op content ?mp (stored_retention P content r) V = (x, V')" by fastforce
  have "fst (store_object ?op content ?mp (stored_retention P content r) V) = Inr ()"
    using free open_key_tree(3) [OF assms(2) trees(1)] open_key_tree(3) [OF assms(2) trees(2)]
    by (intro store_object_possible) auto
  then have x: "store_object ?op content ?mp (stored_retention P content r) V = (Inr (), V')" using x by simp
  have "place_object P key content r ?op ?mp V = (Inr True, V')"
    using x free by (simp add: place_object_def stored_retention_def)
  then have c: "conditional_create P E key content r V = (confirm_create P E V' key content r True, V')"
    using admit assms(3) entered_key [OF trees(1) assms(3)] by (simp add: conditional_create_def guarded_def)
  have "?op \<noteq> []" "?mp \<noteq> []" by simp_all
  note outcome = store_object_outcome [OF x this trees free]
  have "v_name V' = v_name V"
    using x by (auto simp: store_object_def make_object_folders_def write_object_def split: option.splits)
  moreover have "open_key V' key" by (rule open_key_stored [OF trees outcome(1,2) assms(2) x])
  moreover have "flat n V \<Longrightarrow> length (key_parts key) = n \<Longrightarrow> flat n V'" for n by (rule flat_stored [OF _ _ x])
  ultimately show ?thesis using c outcome that by simp
qed

text \<open>The outcomes of a creation at an open key.\<close>

lemma create_fresh:
  assumes "digest_law P" and "encoder_law E" and "plain_retention r" and "int (length content) \<le> max_safe_integer"
    and "vault_ok P R V" and "open_key V key" and "validate_logical_key key = None"
    and "\<And>name. object_at V key name = None"
  obtains V' where "conditional_create P E key content r V = (Inr (create_receipt P (v_name V) key content r True), V')"
    and "open_key V' key" and "\<And>n. flat n V \<Longrightarrow> length (key_parts key) = n \<Longrightarrow> flat n V'"
    and "object_document V' = (object_document V)(key_parts key @ [local_version P content] \<mapsto> content)"
    and "metadata_document V' = (metadata_document V)
       (key_parts key @ [local_version P content @ ''.json''] \<mapsto> stored_retention P content r)"
proof -
  obtain V' where V': "conditional_create P E key content r V = (confirm_create P E V' key content r True, V')"
      "tree_ok (v_objects V')" "tree_ok (v_metadata V')" "v_name V' = v_name V" "open_key V' key"
      "\<And>n. flat n V \<Longrightarrow> length (key_parts key) = n \<Longrightarrow> flat n V'"
    and docs: "object_document V' = (object_document V)(key_parts key @ [local_version P content] \<mapsto> content)"
      "metadata_document V' = (metadata_document V)
         (key_parts key @ [local_version P content @ ''.json''] \<mapsto> stored_retention P content r)"
    using fresh_placed [OF assms(5-8)] by blast
  have "confirm_create P E V' key content r True = Inr (create_receipt P (v_name V) key content r True)"
    using stored_is_confirmed(3) [OF assms(1-4,7) V'(2,3)] fun_cong [OF docs(1), of "key_parts key @ [local_version P content]"]
      fun_cong [OF docs(2), of "key_parts key @ [local_version P content @ ''.json'']"]
    by (simp add: object_at_def metadata_at_def V'(4))
  then show ?thesis using V'(1,5,6) docs that by simp
qed

lemma create_again:
  assumes "digest_law P" and "encoder_law E" and "plain_retention q" and "int (length content) \<le> max_safe_integer"
    and "vault_ok P R V" and "open_key V key" and "validate_logical_key key = None"
    and "object_at V key (local_version P stored) = Some stored"
    and "metadata_at V key (local_version P stored) = Some (stored_retention P stored q)"
    and "bytes_fingerprint P stored = bytes_fingerprint P content \<Longrightarrow> stored = content"
  shows "conditional_create P E key content r V
    = (if stored = content \<and> q = r then Inr (create_receipt P (v_name V) key content r False) else Inl (VaultCollision key), V)"
proof -
  note trees = vault_okD(1,2) [OF assms(5)]
  note entered = entered_key [OF trees(1) assms(7)]
  let ?v = "local_version P stored"
  have names: "regular_child_names (v_objects V) (key_parts key) key = Inr [?v]
      \<and> regular_child_names (v_metadata V) (key_parts key) key = Inr [?v @ ''.json'']"
  proof (cases rule: open_key_names [OF assms(5,6), case_names empty single])
    case (single v)
    have "v = ?v" using vault_okD(6) [OF assms(5), of "key_parts key" v ?v] single(3) assms(8)
      by (simp add: object_at_def del: document_Some)
    then show ?thesis using single by simp
  qed (use assms(8) in simp)
  note admit = admit_create_names [OF trees assms(7) names [THEN conjunct1] names [THEN conjunct2]]
  show ?thesis
  proof (cases "stored = content")
    case True
    then have "admit_create P V key content = Inr (key_parts key @ [?v], key_parts key @ [?v @ ''.json''])"
      by (simp add: admit Let_def remove_json_suffix_json)
    moreover have "place_object P key content r (key_parts key @ [?v]) (key_parts key @ [?v @ ''.json'']) V = (Inr False, V)"
      using assms(8) True by (simp add: place_object_def object_at_def construct_def raise_if_def)
    moreover have "confirm_create P E V key content r False
        = (if q = r then Inr (create_receipt P (v_name V) key content r False) else Inl (VaultCollision key))"
      by (rule stored_is_confirmed(3) [OF assms(1-4,7) trees]) (use assms(8,9) True in simp_all)
    ultimately show ?thesis
      using entered assms(7) True by (simp add: conditional_create_def guarded_def)
  next
    case False
    then have "?v \<noteq> local_version P content" using assms(10) local_version_inj by blast
    then have "admit_create P V key content = Inl (VaultCollision key)"
      by (simp add: admit Let_def)
    then show ?thesis using entered assms(7) False by (simp add: conditional_create_def guarded_def)
  qed
qed

section \<open>The write-once map\<close>

text \<open>What a key holds: the content and the profile of its first creation.\<close>

type_synonym contents = "string \<Rightarrow> (string \<times> retention_profile) option"

definition abstract_create :: "string \<Rightarrow> string \<Rightarrow> retention_profile \<Rightarrow> contents \<Rightarrow> (evidence_error + bool) \<times> contents" where
  "abstract_create key content r A = (case A key of
     None \<Rightarrow> (Inr True, A(key \<mapsto> (content, r)))
   | Some held \<Rightarrow> (if held = (content, r) then Inr False else Inl (VaultCollision key), A))"

definition represents :: "platform \<Rightarrow> vault \<Rightarrow> contents \<Rightarrow> bool" where
  "represents P V A \<longleftrightarrow> (\<forall>key. case A key of
     None \<Rightarrow> \<forall>name. object_at V key name = None
   | Some (c, r) \<Rightarrow> object_at V key (local_version P c) = Some c
       \<and> metadata_at V key (local_version P c) = Some (stored_retention P c r))"

lemma empty_represents: "represents P (empty_vault name) Map.empty"
  by (simp add: represents_def empty_vault_def object_at_def node_at_empty)

lemma represents_None: "represents P V A \<Longrightarrow> A key = None \<Longrightarrow> object_at V key name = None"
  by (auto simp: represents_def dest!: spec [of _ key])

lemma represents_Some:
  "represents P V A \<Longrightarrow> A key = Some (c, r) \<Longrightarrow> object_at V key (local_version P c) = Some c"
  "represents P V A \<Longrightarrow> A key = Some (c, r) \<Longrightarrow> metadata_at V key (local_version P c) = Some (stored_retention P c r)"
  by (auto simp: represents_def dest!: spec [of _ key])

lemma represents_stored:
  assumes "represents P V A" and "A key = None"
    and "object_document V' = (object_document V)(key_parts key @ [local_version P content] \<mapsto> content)"
    and "metadata_document V' = (metadata_document V)
       (key_parts key @ [local_version P content @ ''.json''] \<mapsto> stored_retention P content r)"
  shows "represents P V' (A(key \<mapsto> (content, r)))"
proof -
  have o: "object_at V' k name = (if k = key \<and> name = local_version P content then Some content else object_at V k name)" for k name
    using fun_cong [OF assms(3), of "key_parts k @ [name]"] by (simp add: object_at_def key_parts_inj del: document_Some)
  have m: "metadata_at V' k name = (if k = key \<and> name = local_version P content then Some (stored_retention P content r)
      else metadata_at V k name)" for k name
    using fun_cong [OF assms(4), of "key_parts k @ [name @ ''.json'']"] by (simp add: metadata_at_def key_parts_inj del: document_Some)
  show ?thesis
    unfolding represents_def
  proof
    fix k
    show "case (A(key \<mapsto> (content, r))) k of None \<Rightarrow> \<forall>name. object_at V' k name = None
      | Some (c, q) \<Rightarrow> object_at V' k (local_version P c) = Some c
          \<and> metadata_at V' k (local_version P c) = Some (stored_retention P c q)"
      using represents_None [OF assms(1), of k] represents_Some [OF assms(1), of k]
      by (cases "k = key") (auto simp: o m split: option.splits)
  qed
qed

lemma create_refines:
  assumes "digest_law P" and "encoder_law E" and "plain_retention r" and "int (length content) \<le> max_safe_integer"
    and "vault_ok P plain_retention V" and "open_key V key" and "validate_logical_key key = None"
    and "represents P V A" and "\<forall>c q. A key = Some (c, q) \<longrightarrow> plain_retention q
      \<and> (bytes_fingerprint P c = bytes_fingerprint P content \<longrightarrow> c = content)"
  shows "\<exists>V'. conditional_create P E key content r V
      = (map_sum id (create_receipt P (v_name V) key content r) (fst (abstract_create key content r A)), V')
    \<and> open_key V' key \<and> (\<forall>n. flat n V \<and> length (key_parts key) = n \<longrightarrow> flat n V')
    \<and> represents P V' (snd (abstract_create key content r A))"
proof (cases "A key")
  case None
  obtain V' where "conditional_create P E key content r V = (Inr (create_receipt P (v_name V) key content r True), V')"
    and "open_key V' key" "\<And>n. flat n V \<Longrightarrow> length (key_parts key) = n \<Longrightarrow> flat n V'"
    and "object_document V' = (object_document V)(key_parts key @ [local_version P content] \<mapsto> content)"
    and "metadata_document V' = (metadata_document V)
       (key_parts key @ [local_version P content @ ''.json''] \<mapsto> stored_retention P content r)"
    using create_fresh [OF assms(1-7) represents_None [OF assms(8) None]] by blast
  then show ?thesis using represents_stored [OF assms(8) None] None by (simp add: abstract_create_def)
next
  case (Some held)
  obtain c q where held: "held = (c, q)" by fastforce
  have "plain_retention q" "bytes_fingerprint P c = bytes_fingerprint P content \<Longrightarrow> c = content"
    using assms(9) Some held by blast+
  note again = create_again [OF assms(1,2) this(1) assms(4-7) represents_Some [OF assms(8) Some [unfolded held]] this(2)]
  then show ?thesis using assms(6,8) Some by (simp add: again held abstract_create_def)
qed

text \<open>A history of creations, with its answers.\<close>

type_synonym creation = "string \<times> string \<times> retention_profile"

definition create_step :: "platform \<Rightarrow> encoder \<Rightarrow> creation \<Rightarrow> vault \<Rightarrow> (evidence_error + write_receipt) \<times> vault" where
  "create_step P E c V = (case c of (key, content, r) \<Rightarrow> conditional_create P E key content r V)"

definition abstract_step :: "creation \<Rightarrow> contents \<Rightarrow> (evidence_error + bool) \<times> contents" where
  "abstract_step c A = (case c of (key, content, r) \<Rightarrow> abstract_create key content r A)"

fun answers :: "('op \<Rightarrow> 's \<Rightarrow> 'r \<times> 's) \<Rightarrow> 'op list \<Rightarrow> 's \<Rightarrow> 'r list" where
  "answers step [] s = []"
| "answers step (op # ops) s = fst (step op s) # answers step ops (snd (step op s))"

definition receipt_for :: "platform \<Rightarrow> vault_name \<Rightarrow> creation \<Rightarrow> bool \<Rightarrow> write_receipt" where
  "receipt_for P name c created = (case c of (key, content, r) \<Rightarrow> create_receipt P name key content r created)"

text \<open>The creations of a history at keys of \<^verbatim>\<open>n\<close> parts, under printable profiles.\<close>

definition plain_creation :: "nat \<Rightarrow> creation \<Rightarrow> bool" where
  "plain_creation n c \<longleftrightarrow> (case c of (key, content, r) \<Rightarrow> validate_logical_key key = None
     \<and> length (key_parts key) = n \<and> plain_retention r \<and> int (length content) \<le> max_safe_integer)"

text \<open>What a map took from a history: printable profiles, and contents the digest tells apart.\<close>

definition held_from :: "creation list \<Rightarrow> contents \<Rightarrow> bool" where
  "held_from cs A \<longleftrightarrow> (\<forall>key c q. A key = Some (c, q) \<longrightarrow> (\<exists>k. (k, c, q) \<in> set cs))"

lemma abstract_held:
  "held_from cs A \<Longrightarrow> (key, content, r) \<in> set cs \<Longrightarrow> held_from cs (snd (abstract_create key content r A))"
  by (auto simp: held_from_def abstract_create_def split: option.splits)

lemma create_history_refines:
  assumes "digest_law P" and "encoder_law E" and "list_all (plain_creation n) cs"
    and "inj_on (bytes_fingerprint P) ((\<lambda>(key, content, r). content) ` set cs)"
    and "set ops \<subseteq> set cs" and "vault_ok P plain_retention V" and "flat n V" and "represents P V A" and "held_from cs A"
  shows "answers (create_step P E) ops V
      = map2 (\<lambda>c. map_sum id (receipt_for P (v_name V) c)) ops (answers abstract_step ops A)
    \<and> represents P (run (create_step P E) ops V) (run abstract_step ops A)"
  using assms(5-9)
proof (induction ops arbitrary: V A)
  case (Cons op ops)
  obtain key content r where op: "op = (key, content, r)" by (cases op)
  then have mem: "(key, content, r) \<in> set cs" using Cons.prems(1) by simp
  then have plain: "validate_logical_key key = None" "length (key_parts key) = n" "plain_retention r"
      "int (length content) \<le> max_safe_integer"
    using assms(3) by (auto simp: list_all_iff plain_creation_def)
  have held: "\<forall>c q. A key = Some (c, q) \<longrightarrow> plain_retention q
      \<and> (bytes_fingerprint P c = bytes_fingerprint P content \<longrightarrow> c = content)"
  proof (intro allI impI)
    fix c q assume "A key = Some (c, q)"
    then obtain k where k: "(k, c, q) \<in> set cs" using Cons.prems(5) unfolding held_from_def by blast
    then have "plain_retention q" using assms(3) by (auto simp: list_all_iff plain_creation_def)
    moreover have "c \<in> (\<lambda>(key, content, r). content) ` set cs" "content \<in> (\<lambda>(key, content, r). content) ` set cs"
      using k mem by force+
    ultimately show "plain_retention q \<and> (bytes_fingerprint P c = bytes_fingerprint P content \<longrightarrow> c = content)"
      using inj_onD [OF assms(4)] by blast
  qed
  have "open_key V key"
    by (rule flat_open [OF vault_okD(1,2) [OF Cons.prems(2)] Cons.prems(3) plain(2)])
  then obtain V' where V': "conditional_create P E key content r V
        = (map_sum id (create_receipt P (v_name V) key content r) (fst (abstract_create key content r A)), V')"
      and flat: "\<forall>n. flat n V \<and> length (key_parts key) = n \<longrightarrow> flat n V'"
      and rep: "represents P V' (snd (abstract_create key content r A))"
    using create_refines [OF assms(1,2) plain(3,4) Cons.prems(2) _ plain(1) Cons.prems(4) held] by blast
  have "vault_ok P plain_retention V'"
    using conditional_create_vault_ok [OF Cons.prems(2) plain(3), of E key content] by (simp add: V')
  moreover have "v_name V' = v_name V"
    using conditional_create_name [of P E key content r V] by (simp add: V')
  ultimately show ?case
    using Cons.IH [of V' "snd (abstract_create key content r A)"] Cons.prems(1,3) flat plain(2) rep
      abstract_held [OF Cons.prems(5) mem]
    by (simp add: op create_step_def abstract_step_def V' receipt_for_def id_def)
qed simp

section \<open>The current version\<close>

lemma resolve_current_names:
  assumes "tree_ok (v_objects V)" and "tree_ok (v_metadata V)" and "validate_logical_key key = None"
    and "regular_child_names (v_objects V) (key_parts key) key = Inr names"
    and "regular_child_names (v_metadata V) (key_parts key) key = Inr metas"
  shows "resolve_current P E V key =
    (if node_at (v_objects V) (key_parts key) \<noteq> Some Folder then Inr None
     else if length names \<noteq> 1 \<or> metas \<noteq> [hd names @ ''.json''] then Inl (CorruptEvidence key)
     else case object_at V key (hd names) of None \<Rightarrow> Inl OsFault
       | Some content \<Rightarrow> and_then (new_object_reference \<lparr>or_vault = v_name V, or_logical_key = key,
                   or_version_id = hd names, or_fingerprint = bytes_fingerprint P content,
                   or_byte_length = int (length content)\<rparr>) (\<lambda>r.
               and_then (read_exact_unlocked P V r) (\<lambda>_.
               and_then (retention_unlocked E V r) (\<lambda>_. Inr (Some r)))))"
  using assms(3-5) entered_key [OF assms(1,3)] contained_ok [OF assms(1,3)] contained_ok [OF assms(2,3)]
  by (simp add: resolve_current_def resolve_current_unlocked_def guarded_def Let_def object_at_def)

lemma resolve_stored:
  assumes "digest_law P" and "encoder_law E" and "plain_retention r" and "int (length content) \<le> max_safe_integer"
    and "vault_ok P R V" and "open_key V key" and "validate_logical_key key = None"
    and "object_at V key (local_version P content) = Some content"
    and "metadata_at V key (local_version P content) = Some (stored_retention P content r)"
  shows "resolve_current P E V key = Inr (Some (create_reference P (v_name V) key content))"
proof (cases rule: open_key_names [OF assms(5,6), case_names empty single])
  case (single v)
  note trees = vault_okD(1,2) [OF assms(5)]
  have "v = local_version P content"
    using vault_okD(6) [OF assms(5), of "key_parts key" v "local_version P content"] single(3) assms(8)
    by (simp add: object_at_def del: document_Some)
  moreover have "node_at (v_objects V) (key_parts key) = Some Folder"
    using tree_ok_prefix [OF trees(1), of "key_parts key" "[local_version P content]"] assms(8)
    by (auto simp: object_at_def)
  ultimately show ?thesis
    using resolve_current_names [OF trees assms(7) single(1,2)] assms(8)
      create_reference_valid [OF assms(1,7), of "v_name V" content] stored_is_confirmed(1,2) [OF assms(1-4,7) trees assms(8,9)]
    by (simp add: create_reference_def)
qed (use assms(8) in simp)

section \<open>Text that two encoders write differently\<close>

text \<open>Where the canonical text is another than the one written, the document is refused for good.\<close>

lemma parse_other_retention:
  assumes "int (length content) \<le> max_safe_integer" and "new_retention_profile r = Inr r"
    and "E (retention_document (int (length content)) (bytes_fingerprint P content) r) = Some other"
    and "other \<noteq> stored_retention P content r"
  shows "parse_retention E ref (stored_retention P content r) = Inl (CorruptEvidence (or_logical_key ref))"
  using assms(2-4)
  by (cases r) (simp add: parse_retention_def parse_stored_retention [OF assms(1)] retention_document_def guarded_def
      canonicalize_def construct_def raise_if_def insert_commute)

lemma other_retention_unconfirmed:
  assumes "int (length content) \<le> max_safe_integer" and "new_retention_profile q = Inr q"
    and "E (retention_document (int (length content)) (bytes_fingerprint P content) q) = Some other"
    and "other \<noteq> stored_retention P content q"
    and "digest_law P" and "validate_logical_key key = None" and "tree_ok (v_objects V)" and "tree_ok (v_metadata V)"
    and "object_at V key (local_version P content) = Some content"
    and "metadata_at V key (local_version P content) = Some (stored_retention P content q)"
  shows "confirm_create P E V key content r created = Inl (CorruptEvidence key)"
proof -
  let ?ref = "create_reference P (v_name V) key content"
  have "read_exact_unlocked P V ?ref = Inr content"
    using assms(6,9) contained_ok [OF assms(7,6)]
    by (simp add: read_exact_unlocked_def create_reference_def object_at_def)
  moreover have "retention_unlocked E V ?ref = Inl (CorruptEvidence key)"
    using assms(10) contained_ok [OF assms(8,6)] parse_other_retention [where E = E and P = P and r = q and content = content, OF assms(1-4), of ?ref]
    by (simp add: retention_unlocked_def create_reference_def metadata_at_def)
  ultimately show ?thesis
    using create_reference_valid [OF assms(5,6), of "v_name V" content]
    by (simp add: confirm_create_def create_reference_def [symmetric])
qed

lemma poisoned_replay:
  assumes "vault_ok P R V" and "open_key V key" and "validate_logical_key key = None"
    and "object_at V key (local_version P content) = Some content"
    and "\<And>created. confirm_create P E V key content r created = Inl e"
  shows "conditional_create P E key content r V = (Inl e, V)"
proof -
  note trees = vault_okD(1,2) [OF assms(1)]
  let ?v = "local_version P content"
  have "admit_create P V key content = Inr (key_parts key @ [?v], key_parts key @ [?v @ ''.json''])"
  proof (cases rule: open_key_names [OF assms(1,2), case_names empty single])
    case (single v)
    have "v = ?v" using vault_okD(6) [OF assms(1), of "key_parts key" v ?v] single(3) assms(4)
      by (simp add: object_at_def del: document_Some)
    then show ?thesis
      using admit_create_names [OF trees assms(3) single(1,2), of P content] by (simp add: Let_def remove_json_suffix_json)
  qed (use assms(4) in simp)
  moreover have "place_object P key content r (key_parts key @ [?v]) (key_parts key @ [?v @ ''.json'']) V = (Inr False, V)"
    using assms(4) by (simp add: place_object_def object_at_def construct_def raise_if_def)
  ultimately show ?thesis
    using assms(3,5) entered_key [OF trees(1) assms(3)] by (simp add: conditional_create_def guarded_def)
qed

end
