(* ===== verification/VaultVersions.thy ===== *)
theory VaultVersions
  imports VaultModel
begin

text \<open>
  The references of provider versions are a bijective encoding of the versions the code admits, and
  the keys it derives are valid keys.
\<close>

section \<open>Provider versions\<close>

lemma starts_with_drop: "starts_with s p \<Longrightarrow> s = p @ drop (length p) s"
  by (metis append_take_drop_id starts_with_def)

lemma s3_payload_reference:
  assumes "s3_version_payload r = Some payload"
  shows "r = ''s3v_'' @ payload" and "\<not> local_version_pattern r"
proof -
  have "starts_with r ''s3v_''" "payload = drop 4 r"
    using assms by (auto simp: s3_version_payload_def Let_def split: if_splits)
  then show r: "r = ''s3v_'' @ payload" using starts_with_drop [of r "''s3v_''"] by (simp add: eval_nat_numeral)
  show "\<not> local_version_pattern r" by (simp add: r local_version_pattern_def)
qed

lemma s3_payload_encoded:
  assumes "raw \<noteq> []" and "length raw \<le> max_provider_version_bytes"
  shows "s3_version_payload (''s3v_'' @ base64_encode raw) = Some (base64_encode raw)"
  using assms length_base64_encode [of raw] base64_encode_alphabet [of raw]
  by (auto simp: s3_version_payload_def Let_def starts_with_def max_provider_version_bytes_def list_all_iff)

lemma provider_version_iff:
  "s3_provider_version_id r = Inr p \<longleftrightarrow>
     is_exact_text r \<and> p \<noteq> [] \<and> \<not> list_ex (\<lambda>c. c < first_control_codepoint) p
     \<and> (\<exists>raw. utf8_encode p = Some raw \<and> length raw \<le> max_provider_version_bytes \<and> r = ''s3v_'' @ base64_encode raw)"
  (is "_ \<longleftrightarrow> ?rhs")
proof
  assume a: "s3_provider_version_id r = Inr p"
  then obtain payload raw where payload: "s3_version_payload r = Some payload"
      and raw: "decoded_payload payload = Some (raw, p)" and ok: "check_version r = None"
    by (auto simp: s3_provider_version_id_def guarded_Inr split: option.splits)
  have r: "r = ''s3v_'' @ payload" "\<not> local_version_pattern r" using s3_payload_reference [OF payload] by blast+
  have "is_exact_text r" "p \<noteq> []" "\<not> list_ex (\<lambda>c. c < first_control_codepoint) p"
      "length raw \<le> max_provider_version_bytes" "base64_encode raw = payload"
    using ok by (auto simp: check_version_def evidence_text_def r(2) payload raw)
  moreover have "utf8_encode p = Some raw"
    using raw by (auto simp: decoded_payload_def utf8_encode_decode split: option.splits)
  ultimately show ?rhs using r(1) by auto
next
  assume ?rhs
  then obtain raw where p: "is_exact_text r" "p \<noteq> []" "\<not> list_ex (\<lambda>c. c < first_control_codepoint) p"
      and raw: "utf8_encode p = Some raw" "length raw \<le> max_provider_version_bytes" "r = ''s3v_'' @ base64_encode raw"
    by blast
  have "raw \<noteq> []" using p(2) utf8_encode_Nil [OF raw(1)] by blast
  then have payload: "s3_version_payload r = Some (base64_encode raw)" using s3_payload_encoded raw(2,3) by simp
  have decoded: "decoded_payload (base64_encode raw) = Some (raw, p)"
    by (simp add: decoded_payload_def base64_decode_encode utf8_decode_encode [OF raw(1)])
  have "\<not> local_version_pattern r" using s3_payload_reference [OF payload] by blast
  then have "check_version r = None"
    using p raw(2) by (simp add: check_version_def evidence_text_def payload decoded)
  then show "s3_provider_version_id r = Inr p"
    by (simp add: s3_provider_version_id_def guarded_def payload decoded)
qed

lemma encoded_reference_exact:
  assumes "raw \<noteq> []"
  shows "is_exact_text (''s3v_'' @ base64_encode raw)"
proof -
  have "list_all (\<lambda>c. \<not> is_space c) base64_alphabet" by code_simp
  then have "\<not> is_space (last (base64_encode raw))"
    using base64_encode_alphabet [of raw] assms last_in_set [of "base64_encode raw"] by (simp add: list_all_iff subset_iff)
  moreover have "\<not> is_space (CHR ''s'')" by code_simp
  ultimately show ?thesis using assms by (simp add: is_exact_text_iff)
qed

lemma version_reference_iff:
  "s3_version_reference p = Inr r \<longleftrightarrow>
     is_exact_points p \<and> \<not> list_ex (\<lambda>c. c < first_control_codepoint) p
     \<and> (\<exists>raw. utf8_encode p = Some raw \<and> length raw \<le> max_provider_version_bytes \<and> r = ''s3v_'' @ base64_encode raw)"
  (is "_ \<longleftrightarrow> ?rhs")
proof
  assume "s3_version_reference p = Inr r"
  then show ?rhs
    by (auto simp: s3_version_reference_def guarded_Inr Let_def split: option.splits)
next
  assume rhs: ?rhs
  then obtain raw where raw: "utf8_encode p = Some raw" "length raw \<le> max_provider_version_bytes"
      "r = ''s3v_'' @ base64_encode raw" by blast
  have "p \<noteq> []" using rhs by (auto simp: is_exact_points_def)
  then have "is_exact_text r" using encoded_reference_exact utf8_encode_Nil [OF raw(1)] raw(3) by blast
  then have "s3_provider_version_id r = Inr p"
    unfolding provider_version_iff using rhs \<open>p \<noteq> []\<close> by blast
  then have "check_version r = None" by (simp add: s3_provider_version_id_def guarded_Inr)
  then show "s3_version_reference p = Inr r"
    using rhs raw by (simp add: s3_version_reference_def guarded_def raise_if_def Let_def)
qed

text \<open>
  References of provider versions are exact both ways. A version has the reference \<^verbatim>\<open>r\<close> just where
  it is whitespace-exact and \<^verbatim>\<open>r\<close> decodes to it: the encoding is injective, is undone by
  \<^verbatim>\<open>s3_provider_version_id\<close>, and no second spelling of a reference is accepted.
\<close>

theorem s3_version_round_trip:
  "s3_version_reference p = Inr r \<longleftrightarrow> is_exact_points p \<and> s3_provider_version_id r = Inr p"
  unfolding version_reference_iff provider_version_iff
  using encoded_reference_exact utf8_encode_Nil by (metis is_exact_points_def)

section \<open>Derived keys\<close>

lemma split_on_append: "split_on d (s @ d # t) = split_on d s @ split_on d t"
proof (induction s)
  case (Cons c s)
  obtain w ws where "split_on d s = w # ws" using split_on_Cons by blast
  with Cons show ?case by simp
qed simp

lemma split_on_plain: "d \<notin> set s \<Longrightarrow> split_on d s = [s]"
  by (induction s) auto

lemma hex_not_slash: "is_hex c \<Longrightarrow> c \<noteq> CHR ''/''"
  by (auto simp: char_class_defs)

lemma hex_segment_char: "is_hex c \<Longrightarrow> is_lower c \<or> is_digit c"
  by (auto simp: char_class_defs)

lemma hex_segment:
  assumes "list_all is_hex s" and "s \<noteq> []" and "length s \<le> 123"
  shows "safe_segment s" and "safe_segment (s @ ''.json'')"
proof -
  have "list_all (\<lambda>c. is_lower c \<or> is_digit c) (hd s # tl s)"
    using assms(1,2) hex_segment_char by (auto simp: list_all_iff)
  then have h: "is_lower (hd s) \<or> is_digit (hd s)" "list_all (\<lambda>c. is_lower c \<or> is_digit c) (tl s)" by simp_all
  show "safe_segment s" using h assms(2,3) by (auto simp: safe_segment_def list_all_iff)
  have "list_all (\<lambda>c. is_lower c \<or> is_digit c \<or> c \<in> set ''._-'') ''.json''" by code_simp
  then show "safe_segment (s @ ''.json'')" using h assms(2,3) by (auto simp: safe_segment_def list_all_iff)
qed

lemma segment_not_slash:
  assumes "safe_segment s"
  shows "CHR ''/'' \<notin> set s"
proof -
  have slash: "\<not> is_lower (CHR ''/'')" "\<not> is_digit (CHR ''/'')" "CHR ''/'' \<notin> set ''._-''" by code_simp+
  show ?thesis
    using assms slash by (cases s) (auto simp: safe_segment_def list_all_iff)
qed

lemma segment_not_dots: "safe_segment s \<Longrightarrow> s \<noteq> ''..''"
proof -
  have "\<not> safe_segment ''..''" by code_simp
  then show "safe_segment s \<Longrightarrow> s \<noteq> ''..''" by blast
qed

text \<open>Safe segments joined by slashes are a valid key with these parts.\<close>

lemma key_parts_join:
  assumes "list_all safe_segment parts" and "parts \<noteq> []"
  shows "key_parts (join ''/'' parts) = parts"
  using assms
proof (induction parts rule: induct_list012)
  case (2 s)
  then show ?case by (simp add: key_parts_def split_on_plain segment_not_slash)
next
  case (3 s s' parts)
  then have "key_parts (join ''/'' (s' # parts)) = s' # parts" by simp
  then show ?case using 3(3) by (simp add: key_parts_def split_on_append split_on_plain segment_not_slash)
qed simp

lemma segment_char_not_space:
  assumes "safe_segment s" and "c \<in> set s"
  shows "\<not> is_space c"
proof -
  have "is_lower c \<or> is_digit c \<or> c \<in> set ''._-''"
    using assms by (cases s) (auto simp: safe_segment_def list_all_iff)
  moreover have "list_all (\<lambda>c. \<not> is_space c) ''._-''" by code_simp
  ultimately show ?thesis
    by (auto simp: list_all_iff char_class_defs is_space_def Let_def)
qed

lemma join_ends:
  assumes "list_all (\<lambda>p. p \<noteq> []) parts" and "parts \<noteq> []"
  shows "join d parts \<noteq> [] \<and> hd (join d parts) = hd (hd parts) \<and> last (join d parts) = last (last parts)"
  using assms by (induction d parts rule: join.induct) auto

lemma double_slash_part: "contains_text s ''//'' \<Longrightarrow> [] \<in> set (key_parts s)"
proof -
  assume "contains_text s ''//''"
  then obtain i where "starts_with (drop i s) ''//''" by (auto simp: contains_text_def list_ex_iff)
  then obtain t where t: "drop i s = CHR ''/'' # CHR ''/'' # t"
    using starts_with_drop [of "drop i s" "''//''"] by auto
  have "s = take i s @ CHR ''/'' # CHR ''/'' # t" using append_take_drop_id [of i s] unfolding t by simp
  then have "key_parts s = split_on (CHR ''/'') (take i s) @ [] # split_on (CHR ''/'') t"
    unfolding key_parts_def by (metis split_on_append split_on.simps(2))
  then show ?thesis by simp
qed

lemma safe_key:
  assumes "list_all safe_segment (key_parts key)"
  shows "validate_logical_key key = None"
proof -
  have parts: "join ''/'' (key_parts key) = key" "key_parts key \<noteq> []" "list_all (\<lambda>p. p \<noteq> []) (key_parts key)"
  proof -
    show "join ''/'' (key_parts key) = key" by (simp only: key_parts_def join_split_on)
    show "key_parts key \<noteq> []" using split_on_Cons [of "CHR ''/''" key] by (auto simp: key_parts_def)
    show "list_all (\<lambda>p. p \<noteq> []) (key_parts key)" using assms by (auto simp: list_all_iff safe_segment_def)
  qed
  note ends = join_ends [OF parts(3,2), of "''/''", unfolded parts(1)]
  have "hd (key_parts key) \<in> set (key_parts key)" "last (key_parts key) \<in> set (key_parts key)"
    using parts(2) by simp_all
  then have safe: "safe_segment (hd (key_parts key))" "safe_segment (last (key_parts key))"
    using assms by (simp_all add: list_all_iff)
  then have "hd (hd (key_parts key)) \<in> set (hd (key_parts key))" "last (last (key_parts key)) \<in> set (last (key_parts key))"
    by (simp_all add: safe_segment_def)
  then have "\<not> is_space (hd key)" "\<not> is_space (last key)"
    using ends safe segment_char_not_space by simp_all
  then have "is_exact_text key" using ends by (simp add: is_exact_text_iff)
  moreover have "[] \<notin> set (key_parts key)" using parts(3) by (auto simp: list_all_iff)
  moreover have "\<not> starts_with key ''/''"
  proof
    assume "starts_with key ''/''"
    then have "key = CHR ''/'' # drop 1 key" using starts_with_drop [of key "''/''"] by simp
    then have "[] \<in> set (key_parts key)"
      by (metis key_parts_def list.set_intros(1) split_on.simps(2))
    with calculation(2) show False by simp
  qed
  moreover have "''..'' \<notin> set (key_parts key)" using assms segment_not_dots by (auto simp: list_all_iff)
  ultimately show ?thesis
    using double_slash_part assms by (auto simp: validate_logical_key_def evidence_text_def)
qed

lemma joined_key_valid:
  "list_all safe_segment parts \<Longrightarrow> parts \<noteq> [] \<Longrightarrow> validate_logical_key (join ''/'' parts) = None"
  by (rule safe_key) (simp add: key_parts_join)

lemma fingerprint_digest:
  assumes "fingerprint_pattern f"
  shows "f = ''sha256:'' @ drop 7 f" and "hex_word 64 (drop 7 f)"
proof -
  have "length ''sha256:'' = 7" by simp
  then show "f = ''sha256:'' @ drop 7 f"
    using assms starts_with_drop [of f "''sha256:''"] unfolding fingerprint_pattern_def by metis
qed (use assms in \<open>simp add: fingerprint_pattern_def\<close>)

lemma digest_segments:
  assumes "hex_word 64 d"
  shows "safe_segment (take 2 d)" and "safe_segment (drop 2 d)" and "safe_segment (d @ ''.json'')"
proof -
  have hex: "length d = 64" "list_all is_hex d" using assms by (simp_all add: hex_word_def)
  then have "list_all is_hex (take 2 d)" "list_all is_hex (drop 2 d)"
    by (auto simp: list_all_iff dest: in_set_takeD in_set_dropD)
  then show "safe_segment (take 2 d)" "safe_segment (drop 2 d)" using hex by (auto intro!: hex_segment(1))
  show "safe_segment (d @ ''.json'')" using hex by (intro hex_segment(2)) auto
qed

lemma content_key_parts:
  assumes "content_logical_key f = Inr key"
  obtains d where "f = ''sha256:'' @ d" and "key = join ''/'' [''objects'', ''sha256'', take 2 d, drop 2 d]"
    and "list_all safe_segment [''objects'', ''sha256'', take 2 d, drop 2 d]"
proof -
  obtain d where d: "d = drop 7 f" by simp
  have f: "fingerprint_pattern f" and key: "key = ''objects/sha256/'' @ take 2 d @ ''/'' @ drop 2 d"
    using assms by (auto simp: content_logical_key_def guarded_Inr fingerprint_text_def Let_def d)
  have "list_all safe_segment [''objects'', ''sha256'']" by code_simp
  then show ?thesis
    using that [of d] fingerprint_digest [OF f] digest_segments(1,2) [of d] by (simp add: d [symmetric] key)
qed

lemma content_key_valid: "content_logical_key f = Inr key \<Longrightarrow> validate_logical_key key = None"
  using content_key_parts [of f key] joined_key_valid by (metis list.distinct(1))

lemma content_key_inj:
  assumes "content_logical_key f = Inr key" and "content_logical_key g = Inr key"
  shows "f = g"
proof -
  obtain d where d: "f = ''sha256:'' @ d" "key = join ''/'' [''objects'', ''sha256'', take 2 d, drop 2 d]"
      "list_all safe_segment [''objects'', ''sha256'', take 2 d, drop 2 d]"
    using content_key_parts [OF assms(1)] by blast
  obtain e where e: "g = ''sha256:'' @ e" "key = join ''/'' [''objects'', ''sha256'', take 2 e, drop 2 e]"
      "list_all safe_segment [''objects'', ''sha256'', take 2 e, drop 2 e]"
    using content_key_parts [OF assms(2)] by blast
  have "[''objects'', ''sha256'', take 2 d, drop 2 d] = [''objects'', ''sha256'', take 2 e, drop 2 e]"
    using key_parts_join [OF d(3)] key_parts_join [OF e(3)] d(2) e(2) by (metis list.distinct(1))
  then have "take 2 d @ drop 2 d = take 2 e @ drop 2 e" by (simp only: list.inject)
  then show ?thesis by (simp add: d(1) e(1))
qed

lemma identifier_segment:
  assumes "id_pattern s"
  shows "safe_segment s"
proof -
  have len: "length s = 52" and hex: "list_all is_hex (drop 4 s)"
    using assms by (auto simp: id_pattern_def hex_word_def)
  obtain a s1 where 1: "s = a # s1" using len by (cases s) auto
  obtain b s2 where 2: "s1 = b # s2" using len 1 by (cases s1) auto
  obtain c s3 where 3: "s2 = c # s3" using len 1 2 by (cases s2) auto
  obtain d t where 4: "s3 = d # t" using len 1 2 3 by (cases s3) auto
  have t: "drop 4 s = t" by (simp add: 1 2 3 4)
  have "is_lower a" "is_lower b \<or> is_digit b" "is_lower c \<or> is_digit c" "d = CHR ''_''"
    using assms by (simp_all add: id_pattern_def 1 2 3 4)
  moreover have "list_all (\<lambda>c. is_lower c \<or> is_digit c) t"
    using hex t hex_segment_char by (auto simp: list_all_iff)
  ultimately show ?thesis using len by (auto simp: safe_segment_def 1 2 3 4 list_all_iff)
qed

lemma manifest_key_parts:
  assumes "new_evidence_manifest m = Inr m" and "manifest_logical_key m f = Inr key"
  shows "key = join ''/'' [''packages'', em_package_kind m, em_package_id m, drop 7 f @ ''.json'']"
    and "list_all safe_segment [''packages'', em_package_kind m, em_package_id m, drop 7 f @ ''.json'']"
proof -
  have f: "fingerprint_pattern f"
    and key: "key = ''packages/'' @ em_package_kind m @ ''/'' @ em_package_id m @ ''/'' @ drop 7 f @ ''.json''"
    using assms(2) by (auto simp: manifest_logical_key_def guarded_Inr fingerprint_text_def Let_def)
  show "key = join ''/'' [''packages'', em_package_kind m, em_package_id m, drop 7 f @ ''.json'']" by (simp add: key)
  have "safe_segment (em_package_kind m)" "safe_segment (em_package_id m)"
    using assms(1) by (auto simp: new_evidence_manifest_def identifier_text_def identifier_segment)
  moreover have "safe_segment ''packages''" by code_simp
  ultimately show "list_all safe_segment [''packages'', em_package_kind m, em_package_id m, drop 7 f @ ''.json'']"
    using digest_segments(3) [OF fingerprint_digest(2) [OF f]] by simp
qed

text \<open>
  Derived keys are valid and keep contents and packages apart. The key of a content and the key of
  a manifest are normalized contained keys, a content key determines its digest, and no content has the
  key of a manifest.
\<close>

theorem derived_keys_valid:
  assumes "new_evidence_manifest m = Inr m" and "content_logical_key f = Inr content_key"
    and "manifest_logical_key m g = Inr manifest_key"
  shows "validate_logical_key content_key = None \<and> validate_logical_key manifest_key = None
    \<and> (\<forall>h. content_logical_key h = Inr content_key \<longrightarrow> h = f) \<and> content_key \<noteq> manifest_key"
proof -
  note m = manifest_key_parts [OF assms(1,3)]
  obtain d where d: "content_key = join ''/'' [''objects'', ''sha256'', take 2 d, drop 2 d]"
      "list_all safe_segment [''objects'', ''sha256'', take 2 d, drop 2 d]"
    using content_key_parts [OF assms(2)] by blast
  have "hd (key_parts content_key) = ''objects''" "hd (key_parts manifest_key) = ''packages''"
    using key_parts_join [OF d(2)] key_parts_join [OF m(2)] d(1) m(1) by simp_all
  then have "content_key \<noteq> manifest_key" by auto
  then show ?thesis
    using content_key_valid [OF assms(2)] content_key_inj [OF assms(2)] joined_key_valid [OF m(2)] m(1) by simp
qed

lemma derived_keys_valid_witness:
  "\<exists>content_key. content_logical_key (''sha256:'' @ replicate 64 (CHR ''0'')) = Inr content_key
     \<and> validate_logical_key content_key = None"
proof -
  let ?ref = "\<lparr>or_vault = PRIMARY, or_logical_key = ''a'', or_version_id = ''v'', or_fingerprint = ''f'', or_byte_length = 0\<rparr>"
  let ?d = "\<lparr>ad_artifact_id = ''a'', ad_artifact_version_id = ''v'', ad_artifact_class = SOURCE_CONTENT, ad_source_id = ''s'',
    ad_observation_id = ''o'', ad_observation_cutoff = ''c'', ad_acquired_at = ''a'', ad_acquisition_method = ''m'',
    ad_source_locator = ''l'', ad_declared_media_type = ''t'', ad_detected_media_type = ''t'', ad_content_encoding = ''e'',
    ad_character_encoding = ''u'', ad_transport_metadata = [],
    ad_retention = \<lparr>rp_profile_id = ''p'', rp_retain_until = ''u'', rp_legal_hold = False\<rparr>\<rparr>"
  let ?m = "\<lparr>em_package_kind = ''case'', em_package_id = ''pkg_'' @ replicate 48 (CHR ''0''),
    em_observation_id = ''obs_'' @ replicate 48 (CHR ''0''), em_entries = [\<lparr>me_descriptor = ?d, me_primary = ?ref\<rparr>]\<rparr>"
  have "new_evidence_manifest ?m = Inr ?m" by code_simp
  moreover have "content_logical_key (''sha256:'' @ replicate 64 (CHR ''0''))
      = Inr (''objects/sha256/00/'' @ replicate 62 (CHR ''0''))" by code_simp
  moreover have "manifest_logical_key ?m (''sha256:'' @ replicate 64 (CHR ''0''))
      = Inr (''packages/case/pkg_'' @ replicate 48 (CHR ''0'') @ ''/'' @ replicate 64 (CHR ''0'') @ ''.json'')" by code_simp
  ultimately show ?thesis using derived_keys_valid by blast
qed

end
