(* ===== verification/EvidenceServices.thy ===== *)
theory EvidenceServices
  imports EvidencePackages VaultRefinement VaultVersions
begin

text \<open>
  The contract of a vault, what the package services make of it, and the local vault as a provider.
\<close>

lemma restart_same: "restart w = w"
  by (simp add: restart_def)

section \<open>The contract of a vault\<close>

text \<open>
  A receipt names the key and the digest asked for and can be read; a read matches its reference; a
  creation, successful or not, takes nothing back that could be read.
\<close>

locale immutable_vault =
  fixes P :: platform and I :: "'s vault_interface"
  assumes create_name: "vi_name I (snd (vi_create I key content r s)) = vi_name I s"
    and create_receipt: "vi_create I key content r s = (Inr w, s') \<Longrightarrow>
      or_logical_key (wr_reference w) = key \<and> or_fingerprint (wr_reference w) = bytes_fingerprint P content
      \<and> or_byte_length (wr_reference w) = int (length content) \<and> (\<exists>c. vi_read I s' (wr_reference w) = Inr c)"
    and read_matches: "vi_read I s ref = Inr c \<Longrightarrow> or_vault ref = vi_name I s
      \<and> bytes_fingerprint P c = or_fingerprint ref \<and> int (length c) = or_byte_length ref"
    and create_keeps: "vi_read I s ref = Inr c \<Longrightarrow> vi_read I (snd (vi_create I key content r s)) ref = Inr c"
    and read_for_use: "vi_read_for_use I s ref use artifact_class at = and_then (vi_read I s ref) (\<lambda>content.
      and_then (new_read_receipt \<lparr>rr_reference = ref, rr_required_use = use, rr_artifact_class = artifact_class,
        rr_accessed_at = at\<rparr>) (\<lambda>receipt. Inr (content, receipt)))"
begin

definition exactly_readable :: "'s \<Rightarrow> object_reference \<Rightarrow> bool" where
  "exactly_readable s ref \<longleftrightarrow> (\<exists>c. vi_read I s ref = Inr c)"

lemma create_readable: "exactly_readable s ref \<Longrightarrow> exactly_readable (snd (vi_create I key content r s)) ref"
  using create_keeps by (fastforce simp: exactly_readable_def)

text \<open>
  What a writer has taken in is in its vault: every staged entry, and once committed the manifest and
  every entry it lists.
\<close>

definition manifest_held :: "encoder \<Rightarrow> 's \<Rightarrow> evidence_manifest \<Rightarrow> object_reference \<Rightarrow> bool" where
  "manifest_held E s m ref \<longleftrightarrow> (\<exists>raw. E (manifest_document m) = Some raw \<and> or_fingerprint ref = bytes_fingerprint P raw)
     \<and> exactly_readable s ref \<and> (\<forall>e \<in> set (em_entries m). exactly_readable s (me_primary e))"

definition writer_ok :: "encoder \<Rightarrow> package_writer \<times> 's \<Rightarrow> bool" where
  "writer_ok E ws \<longleftrightarrow> (case ws of (w, s) \<Rightarrow>
     (\<forall>(k, e) \<in> set (pw_entries w). k = entry_artifact e \<and> exactly_readable s (me_primary e))
     \<and> (case (pw_manifest w, pw_primary_manifest w) of
          (None, None) \<Rightarrow> True
        | (Some m, Some ref) \<Rightarrow> manifest_held E s m ref
        | _ \<Rightarrow> False))"

lemma writer_ok_grows:
  assumes "writer_ok E (w, s)" and "\<And>ref. exactly_readable s ref \<Longrightarrow> exactly_readable s' ref"
  shows "writer_ok E (w, s')"
  using assms by (auto simp: writer_ok_def manifest_held_def split: option.splits)

lemma writer_ok_create: "writer_ok E (w, s) \<Longrightarrow> vi_create I key content r s = (x, s') \<Longrightarrow> writer_ok E (w, s')"
  using writer_ok_grows create_readable by (metis snd_conv)

lemma stage_writer_ok:
  assumes "writer_ok E (w, s)"
  shows "writer_ok E (snd (stage_content P I descriptor content (w, s)))"
proof (cases "content_logical_key (bytes_fingerprint P content)")
  case (Inl e)
  then show ?thesis using assms by (simp add: stage_content_def)
next
  case (Inr key)
  obtain x s' where x: "vi_create I key content (ad_retention descriptor) s = (x, s')" by fastforce
  have kept: "writer_ok E (w, s')" by (rule writer_ok_create [OF assms x])
  show ?thesis
  proof (cases x)
    case (Inl e)
    then show ?thesis using Inr x kept by (simp add: stage_content_def)
  next
    case (Inr receipt)
    let ?entry = "\<lparr>me_descriptor = descriptor, me_primary = wr_reference receipt\<rparr>"
    have "exactly_readable s' (wr_reference receipt)" using create_receipt x Inr by (auto simp: exactly_readable_def)
    then have "writer_ok E (w\<lparr>pw_entries := AList.update (ad_artifact_id descriptor) ?entry (pw_entries w)\<rparr>, s')"
      using kept update_set_subset
      by (fastforce simp: writer_ok_def entry_artifact_def split: option.splits)
    then show ?thesis using \<open>content_logical_key _ = Inr key\<close> x Inr kept
      by (auto simp: stage_content_def new_manifest_entry_def split: sum.splits)
  qed
qed

lemma commit_writer_ok:
  assumes "writer_ok E (w, s)"
  shows "writer_ok E (snd (commit_manifest P E I kind package observation r (w, s)))"
proof (cases "and_then (new_evidence_manifest (manifest_of kind package observation w)) (\<lambda>manifest.
          and_then (canonicalize E (manifest_document manifest)) (\<lambda>manifest_bytes.
          and_then (manifest_logical_key manifest (bytes_fingerprint P manifest_bytes)) (\<lambda>key.
          Inr (manifest, manifest_bytes, key))))")
  case (Inl e)
  then show ?thesis using assms by (simp add: commit_manifest_def)
next
  case (Inr parts)
  obtain m raw key where parts: "parts = (m, raw, key)" by (cases parts)
  then have m: "m = manifest_of kind package observation w" and raw: "E (manifest_document m) = Some raw"
    using Inr by (auto simp: new_evidence_manifest_def canonicalize_def split: option.splits)
  obtain x s' where x: "vi_create I key raw r s = (x, s')" by fastforce
  have kept: "writer_ok E (w, s')" by (rule writer_ok_create [OF assms x])
  show ?thesis
  proof (cases x)
    case (Inl e)
    then show ?thesis using Inr parts x kept by (simp add: commit_manifest_def)
  next
    case (Inr receipt)
    have "manifest_held E s' m (wr_reference receipt)"
      using raw create_receipt [OF x [unfolded Inr]] kept
      by (auto simp: manifest_held_def exactly_readable_def writer_ok_def m manifest_of_def)
    then have "writer_ok E (w\<lparr>pw_manifest := Some m, pw_primary_manifest := Some (wr_reference receipt)\<rparr>, s')"
      using kept by (simp add: writer_ok_def)
    then show ?thesis using \<open>_ = Inr parts\<close> parts x Inr kept by (simp add: commit_manifest_def)
  qed
qed

lemma writer_step_ok: "writer_ok E ws \<Longrightarrow> writer_ok E (snd (writer_step P E I op ws))"
  using stage_writer_ok commit_writer_ok
  by (cases ws; cases op) (auto simp: writer_step_def restart_same)

lemma new_writer_ok: "new_package_writer I s = Inr w \<Longrightarrow> writer_ok E (w, s)"
  by (auto simp: new_package_writer_def writer_ok_def)

lemma writer_history_ok: "new_package_writer I s = Inr w \<Longrightarrow> writer_ok E (run (writer_step P E I) ops (w, s))"
proof (induction ops rule: rev_induct)
  case (snoc op ops)
  then show ?case using writer_step_ok by (simp add: run_append)
qed (simp add: new_writer_ok)

end

section \<open>Two vaults\<close>

locale vault_pair = primary: immutable_vault P I + recovery: immutable_vault P J
  for P :: platform and I :: "'p vault_interface" and J :: "'r vault_interface"
begin

definition same_content :: "'p \<Rightarrow> 'r \<Rightarrow> object_reference \<Rightarrow> object_reference \<Rightarrow> bool" where
  "same_content p s first second \<longleftrightarrow> (\<exists>c. vi_read I p first = Inr c \<and> vi_read J s second = Inr c)"

lemma copied:
  assumes "copy_exact I J p ref r s = (Inr copy, s')"
  shows "cr_primary copy = ref" and "same_content p s' ref (cr_recovery copy)"
  using assms
  by (auto simp: copy_exact_def same_content_def guarded_Inr new_copy_receipt_def split: sum.splits prod.splits)

lemma copy_keeps:
  assumes "same_content p s first second"
  shows "same_content p (snd (copy_exact I J p ref r s)) first second"
proof -
  obtain c where c: "vi_read I p first = Inr c" "vi_read J s second = Inr c" using assms by (auto simp: same_content_def)
  have "vi_read J (snd (copy_exact I J p ref r s)) second = Inr c"
    using c(2) recovery.create_keeps [OF c(2)]
    by (auto simp: copy_exact_def split: sum.splits prod.splits) (metis snd_conv)+
  then show ?thesis using c(1) by (auto simp: same_content_def)
qed

lemma copy_all_keeps:
  "same_content p s first second \<Longrightarrow> same_content p (snd (copy_all I J p r refs s)) first second"
proof (induction refs arbitrary: s)
  case (Cons ref refs)
  obtain x s' where x: "copy_exact I J p ref r s = (x, s')" by fastforce
  have kept: "same_content p s' first second" using copy_keeps [OF Cons.prems, of ref r] by (simp add: x)
  then show ?case using Cons.IH [of s'] x by (cases x) (auto split: prod.splits sum.splits)
qed simp

lemma all_copied:
  "copy_all I J p r refs s = (Inr copies, s') \<Longrightarrow> map cr_primary copies = refs
     \<and> (\<forall>copy \<in> set copies. same_content p s' (cr_primary copy) (cr_recovery copy))"
proof (induction refs arbitrary: s copies)
  case (Cons ref refs)
  obtain copy t where copy: "copy_exact I J p ref r s = (Inr copy, t)"
    using Cons.prems by (auto split: prod.splits sum.splits)
  obtain rest where rest: "copy_all I J p r refs t = (Inr rest, s')" "copies = copy # rest"
    using Cons.prems by (auto simp: copy split: prod.splits sum.splits)
  have "same_content p s' ref (cr_recovery copy)"
    using copy_all_keeps [OF copied(2) [OF copy], of r refs] by (simp add: rest(1))
  then show ?case using Cons.IH [OF rest(1)] copied(1) [OF copy] by (simp add: rest(2))
qed simp

lemma finalized:
  assumes "finalize_recovery I J r w p s = (Inr receipt, s')"
  shows "pw_manifest w = Some (pr_manifest receipt)" and "pw_primary_manifest w = Some (pr_primary_manifest receipt)"
    and "map cr_primary (pr_copies receipt) = map me_primary (em_entries (pr_manifest receipt))"
    and "\<forall>copy \<in> set (pr_copies receipt). same_content p s' (cr_primary copy) (cr_recovery copy)"
    and "same_content p s' (pr_primary_manifest receipt) (pr_recovery_manifest receipt)"
proof -
  obtain m ref copies t manifest_copy where m: "pw_manifest w = Some m" "pw_primary_manifest w = Some ref"
      and copies: "copy_all I J p r (map me_primary (em_entries m)) s = (Inr copies, t)"
      and manifest: "copy_exact I J p ref r t = (Inr manifest_copy, s')"
      and receipt: "receipt = \<lparr>pr_manifest = m, pr_primary_manifest = ref,
        pr_recovery_manifest = cr_recovery manifest_copy, pr_copies = copies\<rparr>"
    using assms by (auto simp: finalize_recovery_def new_package_receipt_def split: option.splits sum.splits prod.splits)
  have "\<forall>copy \<in> set copies. same_content p s' (cr_primary copy) (cr_recovery copy)"
    using all_copied [OF copies] copy_keeps [of p t _ _ ref r] by (auto simp: manifest)
  then show "pw_manifest w = Some (pr_manifest receipt)" "pw_primary_manifest w = Some (pr_primary_manifest receipt)"
    "map cr_primary (pr_copies receipt) = map me_primary (em_entries (pr_manifest receipt))"
    "\<forall>copy \<in> set (pr_copies receipt). same_content p s' (cr_primary copy) (cr_recovery copy)"
    "same_content p s' (pr_primary_manifest receipt) (pr_recovery_manifest receipt)"
    using m all_copied [OF copies] copied(2) [OF manifest] by (simp_all add: receipt)
qed

lemma two_vaults_read:
  "read_two_vaults I J p s copy use artifact_class at = Inr (content, receipt) \<longleftrightarrow>
     vi_read I p (cr_primary copy) = Inr content
     \<and> new_read_receipt \<lparr>rr_reference = cr_primary copy, rr_required_use = use, rr_artifact_class = artifact_class,
          rr_accessed_at = at\<rparr> = Inr receipt"
  by (auto simp: read_two_vaults_def primary.read_for_use split: sum.splits)

lemma two_vaults_incident:
  assumes "vi_read I p (cr_primary copy) = Inl e" and "is_corrupt e"
    and "\<forall>e'. vi_read J s (cr_recovery copy) = Inl e' \<longrightarrow> is_corrupt e' \<or> is_missing e'"
  shows "\<exists>message. read_two_vaults I J p s copy use artifact_class at = Inl (EvidenceIntegrityIncident message)"
  using assms by (auto simp: read_two_vaults_def primary.read_for_use split: sum.splits)

end

section \<open>The local vault keeps the contract\<close>

text \<open>A creation adds to the object tree, and no symbolic link.\<close>

definition grows :: "vault \<Rightarrow> vault \<Rightarrow> bool" where
  "grows V V' \<longleftrightarrow> v_name V' = v_name V \<and> tree_grows (v_objects V) (v_objects V')
     \<and> (\<forall>p. node_at (v_objects V') p = Some Alias \<longrightarrow> node_at (v_objects V) p = Some Alias)"

lemma grows_contained:
  assumes "grows V V'"
  shows "contained (v_objects V') key name = Inr path \<longleftrightarrow> contained (v_objects V) key name = Inr path"
proof -
  have "node_at (v_objects V) p = Some Alias \<longleftrightarrow> node_at (v_objects V') p = Some Alias" for p
    using assms unfolding grows_def tree_grows_def by blast
  then show ?thesis by (simp add: contained_Inr)
qed

lemma grows_entered: "grows V V' \<Longrightarrow> enter_key_lock V key = None \<Longrightarrow> enter_key_lock V' key = None"
  by (simp add: enter_key_lock_def grows_contained)

lemma grows_read:
  assumes "grows V V'" and "read_exact P V ref = Inr c"
  shows "read_exact P V' ref = Inr c"
proof -
  obtain path where path: "contained (v_objects V) (or_logical_key ref) (or_version_id ref) = Inr path"
      and doc: "node_at (v_objects V) path = Some (Document c)"
    using assms(2) by (auto simp: read_exact_def guarded_Inr read_exact_unlocked_def split: option.splits)
  have "node_at (v_objects V') path = Some (Document c)" using doc assms(1) unfolding grows_def tree_grows_def by blast
  then show ?thesis
    using assms(2) path grows_contained [OF assms(1), THEN iffD2, OF path] grows_entered [OF assms(1), of "or_logical_key ref"] doc
      assms(1) [unfolded grows_def, THEN conjunct1]
    by (simp add: read_exact_def guarded_Inr read_exact_unlocked_def own_reference_def)
qed

lemma place_object_grows:
  assumes "place_object P key content r op mp V = (x, V')"
  shows "grows V V'"
proof -
  have folders: "node_at t p = Some Alias" if "make_folders q t = Some t'" "node_at t' p = Some Alias" for q t t' p
    using that by (auto simp: node_at_make_folders split: if_splits)
  have files: "node_at t p = Some Alias" if "write_file q c t = Some t'" "node_at t' p = Some Alias" for q c t t' p
    using that by (auto simp: node_at_write_file split: if_splits)
  have made: "v_name W = v_name V \<and> (\<forall>p. node_at (v_objects W) p = Some Alias \<longrightarrow> node_at (v_objects V) p = Some Alias)"
    if "make_object_folders op mp V = (y, W)" for y W
    by (rule make_object_folders_cases [OF that]) (auto intro: folders)
  have written: "v_name W = v_name U \<and> (\<forall>p. node_at (v_objects W) p = Some Alias \<longrightarrow> node_at (v_objects U) p = Some Alias)"
    if "write_object op content mp data U = (y, W)" for y U W data
    by (rule write_object_cases [OF that]) (auto intro: files)
  have "v_name W = v_name V \<and> (\<forall>p. node_at (v_objects W) p = Some Alias \<longrightarrow> node_at (v_objects V) p = Some Alias)"
    if stored: "store_object op content mp data V = (y, W)" for y W data
  proof -
    obtain z U where z: "make_object_folders op mp V = (z, U)" by fastforce
    show ?thesis
    proof (cases z)
      case (Inl e)
      then show ?thesis using stored z made [OF z] by (simp add: store_object_def)
    next
      case (Inr u)
      then have "write_object op content mp data U = (y, W)" using stored z by (simp add: store_object_def)
      then show ?thesis using made [OF z] written by metis
    qed
  qed
  then have "v_name V' = v_name V \<and> (\<forall>p. node_at (v_objects V') p = Some Alias \<longrightarrow> node_at (v_objects V) p = Some Alias)"
    using assms by (auto simp: place_object_def split: option.splits prod.splits sum.splits)
  then show ?thesis using place_object_extends [OF assms] by (simp add: grows_def)
qed

lemma conditional_create_grows: "grows V (snd (conditional_create P E key content r V))"
proof (cases rule: conditional_create_cases [of P E key content r V])
  case (placed op mp x V')
  then show ?thesis using place_object_grows [OF placed(4)] by simp
qed (simp add: grows_def)

lemma local_created:
  assumes "conditional_create P E key content r V = (Inr w, V')"
  shows "wr_reference w = create_reference P (v_name V) key content"
    and "\<exists>c. read_exact P V' (wr_reference w) = Inr c"
proof -
  have "grows V V'" using conditional_create_grows [of V P E key content r] by (simp add: assms)
  show "wr_reference w = create_reference P (v_name V) key content" "\<exists>c. read_exact P V' (wr_reference w) = Inr c"
    using assms
  proof (atomize(full), cases rule: conditional_create_cases [of P E key content r V])
    case (placed op mp x W)
    then obtain created where "confirm_create P E V' key content r created = Inr w"
      using assms by (cases x) auto
    then obtain c where c: "read_exact_unlocked P V' (create_reference P (v_name V') key content) = Inr c"
        and w: "wr_reference w = create_reference P (v_name V') key content"
      by (auto simp: confirm_create_def new_object_reference_def new_write_receipt_def guarded_Inr create_reference_def)
    have "enter_key_lock V' key = None" using grows_entered \<open>grows V V'\<close> placed(3) by blast
    then show "wr_reference w = create_reference P (v_name V) key content \<and> (\<exists>c. read_exact P V' (wr_reference w) = Inr c)"
      using c w \<open>grows V V'\<close>
      by (auto simp: read_exact_def guarded_Inr own_reference_def create_reference_def grows_def)
  qed simp
qed

interpretation local: immutable_vault P "local_interface P E"
  for P E
proof
  fix key content r V w V' ref c use artifact_class at
  show "vi_name (local_interface P E) (snd (vi_create (local_interface P E) key content r V)) = vi_name (local_interface P E) V"
    using conditional_create_grows by (simp add: local_interface_def grows_def)
  show "vi_create (local_interface P E) key content r V = (Inr w, V') \<Longrightarrow>
      or_logical_key (wr_reference w) = key \<and> or_fingerprint (wr_reference w) = bytes_fingerprint P content
      \<and> or_byte_length (wr_reference w) = int (length content) \<and> (\<exists>c. vi_read (local_interface P E) V' (wr_reference w) = Inr c)"
    using local_created by (simp add: local_interface_def create_reference_def)
  show "vi_read (local_interface P E) V ref = Inr c \<Longrightarrow> or_vault ref = vi_name (local_interface P E) V
      \<and> bytes_fingerprint P c = or_fingerprint ref \<and> int (length c) = or_byte_length ref"
    by (auto simp: local_interface_def read_exact_def guarded_Inr own_reference_def read_exact_unlocked_def split: option.splits)
  show "vi_read (local_interface P E) V ref = Inr c
      \<Longrightarrow> vi_read (local_interface P E) (snd (vi_create (local_interface P E) key content r V)) ref = Inr c"
    using grows_read [OF conditional_create_grows] by (simp add: local_interface_def)
  show "vi_read_for_use (local_interface P E) V ref use artifact_class at = and_then (vi_read (local_interface P E) V ref) (\<lambda>content.
      and_then (new_read_receipt \<lparr>rr_reference = ref, rr_required_use = use, rr_artifact_class = artifact_class,
        rr_accessed_at = at\<rparr>) (\<lambda>receipt. Inr (content, receipt)))"
    by (simp add: local_interface_def read_for_use_def)
qed

interpretation locals: vault_pair P "local_interface P E" "local_interface P E"
  for P E
  by unfold_locales

end
