(* ===== verification/LocalVaultProperties.thy ===== *)
theory LocalVaultProperties
  imports VaultRefinement
begin

text \<open>
  What the local vault promises: objects are single assignment, leave only by an authorised and
  due destruction, and are read back exactly; over a retention of printable text it refines a
  write-once map. The last section has the states it cannot leave.
\<close>

section \<open>A sample vault\<close>

definition sample_retention :: "bool \<Rightarrow> retention_profile" where
  "sample_retention hold = \<lparr>rp_profile_id = ''p'', rp_retain_until = ''2030'', rp_legal_hold = hold\<rparr>"

abbreviation plain_encoder :: encoder where
  "plain_encoder \<equiv> \<lambda>j. Some (json_text j)"

abbreviation empty_primary :: vault where
  "empty_primary \<equiv> empty_vault PRIMARY"

definition sample_vault :: "vault_name \<Rightarrow> bool \<Rightarrow> vault" where
  "sample_vault name hold = snd (conditional_create demo_platform plain_encoder ''a'' ''xy'' (sample_retention hold) (empty_vault name))"

lemma sample_conditions:
  "digest_law demo_platform" "encoder_law plain_encoder" "plain_retention (sample_retention hold)"
  "validate_logical_key ''a'' = None" "open_key (empty_vault name) ''a''" "int (length ''xy'') \<le> max_safe_integer"
proof -
  show "plain_retention (sample_retention hold)" by (cases hold; simp only:; code_simp)
  show "validate_logical_key ''a'' = None" by code_simp
  show "open_key (empty_vault name) ''a''" by (cases name; simp only:; code_simp)
qed (simp_all add: demo_digest_law encoder_law_def max_safe_integer_def)

lemma sample_created:
  "conditional_create demo_platform plain_encoder ''a'' ''xy'' (sample_retention hold) (empty_vault name)
     = (Inr (create_receipt demo_platform name ''a'' ''xy'' (sample_retention hold) True), sample_vault name hold)"
  "open_key (sample_vault name hold) ''a''"
  "object_at (sample_vault name hold) ''a'' (local_version demo_platform ''xy'') = Some ''xy''"
  "metadata_at (sample_vault name hold) ''a'' (local_version demo_platform ''xy'')
     = Some (stored_retention demo_platform ''xy'' (sample_retention hold))"
  "vault_ok demo_platform plain_retention (sample_vault name hold)"
  "v_name (sample_vault name hold) = name"
proof -
  let ?V = "empty_vault name"
  have none: "object_at ?V ''a'' v = None" for v
    by (rule represents_None [OF empty_represents]) simp
  obtain V' where V': "conditional_create demo_platform plain_encoder ''a'' ''xy'' (sample_retention hold) ?V
        = (Inr (create_receipt demo_platform (v_name ?V) ''a'' ''xy'' (sample_retention hold) True), V')"
      "open_key V' ''a''"
      "object_document V' = (object_document ?V)(key_parts ''a'' @ [local_version demo_platform ''xy''] \<mapsto> ''xy'')"
      "metadata_document V' = (metadata_document ?V)(key_parts ''a'' @ [local_version demo_platform ''xy'' @ ''.json'']
         \<mapsto> stored_retention demo_platform ''xy'' (sample_retention hold))"
    by (rule create_fresh [OF sample_conditions(1-3,6) empty_vault_ok sample_conditions(5,4) none])
  then have V: "V' = sample_vault name hold" by (simp add: sample_vault_def)
  have "v_name ?V = name" by (simp add: empty_vault_def)
  then show "conditional_create demo_platform plain_encoder ''a'' ''xy'' (sample_retention hold) ?V
     = (Inr (create_receipt demo_platform name ''a'' ''xy'' (sample_retention hold) True), sample_vault name hold)"
    using V'(1) V by simp
  show "open_key (sample_vault name hold) ''a''" using V'(2) V by simp
  show "object_at (sample_vault name hold) ''a'' (local_version demo_platform ''xy'') = Some ''xy''"
    using fun_cong [OF V'(3), of "key_parts ''a'' @ [local_version demo_platform ''xy'']"] by (simp add: object_at_def V)
  show "metadata_at (sample_vault name hold) ''a'' (local_version demo_platform ''xy'')
     = Some (stored_retention demo_platform ''xy'' (sample_retention hold))"
    using fun_cong [OF V'(4), of "key_parts ''a'' @ [local_version demo_platform ''xy'' @ ''.json'']"]
    by (simp add: metadata_at_def V)
  show "vault_ok demo_platform plain_retention (sample_vault name hold)"
    unfolding sample_vault_def by (rule conditional_create_vault_ok [where R = plain_retention, OF empty_vault_ok sample_conditions(3)])
  show "v_name (sample_vault name hold) = name"
    using conditional_create_name \<open>v_name ?V = name\<close> unfolding sample_vault_def by simp
qed

section \<open>Reading\<close>

text \<open>
  A read returns the stored object or nothing. In any state of the vault, whatever was written
  into its files, \<^verbatim>\<open>read_exact\<close> returns exactly the bytes stored under the reference, and only where
  their length and digest are those the reference names.
\<close>

theorem exact_read_integrity:
  "read_exact P V r = Inr content \<longleftrightarrow>
     or_vault r = v_name V \<and> enter_key_lock V (or_logical_key r) = None
     \<and> (\<exists>path. contained (v_objects V) (or_logical_key r) (or_version_id r) = Inr path)
     \<and> object_at V (or_logical_key r) (or_version_id r) = Some content
     \<and> int (length content) = or_byte_length r \<and> bytes_fingerprint P content = or_fingerprint r"
  by (auto simp: read_exact_def guarded_Inr own_reference_def read_exact_unlocked_def object_at_def contained_Inr
      split: option.splits)

section \<open>Single assignment\<close>

lemma step_object:
  assumes "object_at V key version = Some content"
  shows "object_at (snd (vault_step P E op V)) key version = Some content
     \<or> (\<exists>r authorized now retained. op = Destroy r authorized now \<and> or_logical_key r = key
          \<and> or_version_id r = version \<and> authorized \<and> retention E V r = Inr retained
          \<and> \<not> rp_legal_hold retained \<and> rp_retain_until retained \<le> now)
     \<or> (\<exists>r c. op = Corrupt r c \<and> or_logical_key r = key \<and> or_version_id r = version)"
proof (cases op)
  case (Create k c r)
  have "node_at (v_objects V) (key_parts key @ [version]) = Some (Document content)"
    using assms by (simp add: object_at_def)
  then show ?thesis using conditional_create_extends [of V P E k c r]
    by (simp add: Create vault_step_def object_at_def tree_grows_def)
next
  case (Destroy r authorized now)
  obtain x V' where V': "destroy_exact P E r authorized now V = (x, V')" by fastforce
  show ?thesis
  proof (cases x)
    case (Inl e)
    then show ?thesis using V' assms destroy_exact_Inl by (fastforce simp: Destroy vault_step_def)
  next
    case (Inr u)
    note d = destroy_exact_Inr [OF V' [unfolded Inr]]
    show ?thesis
    proof (cases "or_logical_key r = key \<and> or_version_id r = version")
      case True
      then show ?thesis using d(3) Destroy by blast
    next
      case False
      then have "key_parts key @ [version] \<noteq> key_parts (or_logical_key r) @ [or_version_id r]" by (auto simp: key_parts_inj)
      then show ?thesis using assms
        by (auto simp: Destroy vault_step_def V' d(5) object_at_def node_at_remove_file)
    qed
  qed
next
  case (Corrupt r c)
  obtain x V' where V': "inject_corruption r c V = (x, V')" by fastforce
  show ?thesis
  proof (cases "or_logical_key r = key \<and> or_version_id r = version")
    case False
    then have "key_parts key @ [version] \<noteq> key_parts (or_logical_key r) @ [or_version_id r]" by (auto simp: key_parts_inj)
    then show ?thesis using assms inject_corruption_other [OF V', of "key_parts key @ [version]"]
      by (auto simp: Corrupt vault_step_def V' object_at_def)
  qed (use Corrupt in blast)
qed

text \<open>
  Objects are immutable. From any state, an operation leaves the bytes of every stored object as
  they are, unless it is the test-only fault injection on that very object, or a destruction of it
  that is authorised and whose retained profile has no legal hold and is past its date.
\<close>

theorem stored_objects_are_immutable:
  "object_at V key version = Some content \<Longrightarrow>
   object_at (snd (vault_step P E op V)) key version = Some content
     \<or> (\<exists>r authorized now retained. op = Destroy r authorized now \<and> or_logical_key r = key
          \<and> or_version_id r = version \<and> authorized \<and> retention E V r = Inr retained
          \<and> \<not> rp_legal_hold retained \<and> rp_retain_until retained \<le> now)
     \<or> (\<exists>r c. op = Corrupt r c \<and> or_logical_key r = key \<and> or_version_id r = version)"
  by (rule step_object)

lemma stored_objects_are_immutable_witness:
  "object_at (snd (vault_step demo_platform plain_encoder (Create ''a'' ''z'' (sample_retention False)) (sample_vault PRIMARY True)))
     ''a'' (local_version demo_platform ''xy'') = Some ''xy''"
  using stored_objects_are_immutable [OF sample_created(3), of demo_platform plain_encoder
      "Create ''a'' ''z'' (sample_retention False)" PRIMARY True] by simp

section \<open>Retention\<close>

text \<open>Destructions that are not due for an object.\<close>

fun spares :: "retention_profile \<Rightarrow> vault_op \<Rightarrow> bool" where
  "spares r (Destroy _ authorized now) \<longleftrightarrow> \<not> authorized \<or> rp_legal_hold r \<or> now < rp_retain_until r"
| "spares r (Create _ _ _) \<longleftrightarrow> True"
| "spares r (Corrupt _ _) \<longleftrightarrow> False"

lemma spared_step:
  assumes ok: "vault_ok P R V" "lawful_op R op" and op: "spares r op"
    and stored: "object_at V key version = Some content" "metadata_at V key version = Some (stored_retention P content r)"
    and len: "int (length content) \<le> max_safe_integer"
  shows "object_at (snd (vault_step P E op V)) key version = Some content"
  using step_object [OF stored(1), of P E op]
proof (elim disjE exE conjE)
  fix ref authorized now retained
  assume a: "op = Destroy ref authorized now" "or_logical_key ref = key" "or_version_id ref = version"
    "authorized" "retention E V ref = Inr retained" "\<not> rp_legal_hold retained" "rp_retain_until retained \<le> now"
  then have "retained = r" using retention_stored [of V ref P content r E retained] stored(2) len by simp
  then show ?thesis using a op by auto
next
  fix ref c assume "op = Corrupt ref c"
  then show ?thesis using op by simp
qed

lemma spared_metadata:
  assumes ok: "vault_ok P R V" "lawful_op R op" and op: "spares r op"
    and stored: "object_at V key version = Some content" "metadata_at V key version = Some (stored_retention P content r)"
    and len: "int (length content) \<le> max_safe_integer"
  shows "metadata_at (snd (vault_step P E op V)) key version = Some (stored_retention P content r)"
proof (cases op)
  case (Create k c r')
  then show ?thesis using conditional_create_metadata [OF ok(1)] stored(2)
    by (simp add: vault_step_def metadata_at_def del: document_Some)
next
  case (Destroy ref authorized now)
  obtain x V' where V': "destroy_exact P E ref authorized now V = (x, V')" by fastforce
  show ?thesis
  proof (cases x)
    case (Inl e)
    then show ?thesis using V' stored(2) destroy_exact_Inl by (fastforce simp: Destroy vault_step_def)
  next
    case (Inr u)
    note d = destroy_exact_Inr [OF V' [unfolded Inr]]
    have "\<not> (or_logical_key ref = key \<and> or_version_id ref = version)"
    proof
      assume "or_logical_key ref = key \<and> or_version_id ref = version"
      then show False
        using d(3) retention_stored [of V ref P content r E] stored(2) len op by (auto simp: Destroy)
    qed
    then have "key_parts key @ [version @ ''.json''] \<noteq> key_parts (or_logical_key ref) @ [or_version_id ref @ ''.json'']"
      by (auto simp: key_parts_inj)
    then show ?thesis using stored(2)
      by (simp add: Destroy vault_step_def V' d(5) metadata_at_def node_at_remove_file)
  qed
qed (use op in simp)

lemma spared_history:
  assumes "vault_ok P R V" "list_all (lawful_op R) ops" "list_all (spares r) ops"
    and "object_at V key version = Some content" "metadata_at V key version = Some (stored_retention P content r)"
    and "int (length content) \<le> max_safe_integer"
  shows "object_at (run (vault_step P E) ops V) key version = Some content"
  using assms
proof (induction ops arbitrary: V)
  case (Cons op ops)
  then show ?case
    using spared_step [of P R V op r key version content E] spared_metadata [of P R V op r key version content E]
      vaults.step_inv [of P R V op E]
    by simp
qed simp

text \<open>
  C29: What is held stays. In a vault nobody tampered with, an object whose stored profile has a legal
  hold, or a date no destruction of the history reaches, keeps its bytes through any history of
  creations and destructions, of any keys, authorised or not.
\<close>

theorem retained_objects_survive:
  assumes "vault_ok P R V" and "list_all (lawful_op R) ops" and "list_all (spares r) ops"
    and "object_at V key version = Some content" and "metadata_at V key version = Some (stored_retention P content r)"
    and "int (length content) \<le> max_safe_integer"
  shows "object_at (run (vault_step P E) ops V) key version = Some content"
  using assms by (rule spared_history)

lemma retained_objects_survive_witness:
  "object_at (run (vault_step demo_platform plain_encoder)
      [Destroy (create_reference demo_platform PRIMARY ''a'' ''xy'') True ''2099'', Create ''a'' ''z'' (sample_retention False)]
      (sample_vault PRIMARY True)) ''a'' (local_version demo_platform ''xy'') = Some ''xy''"
  by (rule retained_objects_survive [OF sample_created(5) _ _ sample_created(3,4) sample_conditions(6)])
    (simp_all add: sample_conditions(3), simp add: sample_retention_def)

section \<open>The invariant\<close>

text \<open>
  A vault stays sound. Whatever creations and destructions a vault goes through, failed ones
  included, every object lies under the version of its own content with one retention document
  beside it, every retention document belongs to an object, and a key has at most one version.
\<close>

theorem reached_vault_is_sound:
  "list_all (lawful_op R) ops \<Longrightarrow> vault_ok P R (run (vault_step P E) ops (empty_vault name))"
  by (rule vaults.reachable_inv)

lemma reached_vault_is_sound_witness:
  "vault_ok demo_platform plain_retention (run (vault_step demo_platform plain_encoder)
     [Create ''a'' ''xy'' (sample_retention True), Destroy (create_reference demo_platform PRIMARY ''a'' ''xy'') True ''2099'']
     empty_primary)"
  by (rule reached_vault_is_sound) (simp add: sample_conditions(3))

section \<open>Creation\<close>

text \<open>
  C27: The local vault refines a write-once map. Over any history of creations at keys of one length,
  under printable profiles, a sound vault answers each creation as a map from keys to their first
  content and profile does: it stores at a free key, accepts the same content and profile without
  storing, and refuses anything else with \<^verbatim>\<open>VaultCollision\<close>; and it ends representing the map. The
  digest tells the contents offered apart.
\<close>

theorem vault_refines_write_once_map:
  assumes "digest_law P" and "encoder_law E" and "list_all (plain_creation n) ops"
    and "inj_on (bytes_fingerprint P) ((\<lambda>(key, content, r). content) ` set ops)"
  shows "answers (create_step P E) ops (empty_vault name)
      = map2 (\<lambda>c. map_sum id (receipt_for P name c)) ops (answers abstract_step ops Map.empty)
    \<and> represents P (run (create_step P E) ops (empty_vault name)) (run abstract_step ops Map.empty)"
proof -
  have "held_from ops Map.empty" by (simp add: held_from_def)
  from create_history_refines [OF assms subset_refl empty_vault_ok empty_flat empty_represents this, of name]
  show ?thesis by (simp add: empty_vault_def)
qed

lemma vault_refines_write_once_map_witness:
  "represents demo_platform (run (create_step demo_platform plain_encoder)
      [(''a'', ''xy'', sample_retention True), (''a'', ''z'', sample_retention False), (''a'', ''xy'', sample_retention True)] empty_primary)
    [''a'' \<mapsto> (''xy'', sample_retention True)]"
proof -
  let ?ops = "[(''a'', ''xy'', sample_retention True), (''a'', ''z'', sample_retention False), (''a'', ''xy'', sample_retention True)]"
  have "bytes_fingerprint demo_platform ''xy'' \<noteq> bytes_fingerprint demo_platform ''z''" by code_simp
  then have "inj_on (bytes_fingerprint demo_platform) ((\<lambda>(key, content, r). content) ` set ?ops)"
    by (auto simp: inj_on_def)
  moreover have "length (key_parts ''a'') = 1" by code_simp
  then have "list_all (plain_creation 1) ?ops"
    using sample_conditions(3,4) by (simp add: plain_creation_def max_safe_integer_def)
  ultimately show ?thesis
    using vault_refines_write_once_map [OF sample_conditions(1,2), of 1 ?ops PRIMARY]
    by (simp add: abstract_step_def abstract_create_def)
qed

lemma created_current:
  assumes "digest_law P" and "encoder_law E" and "plain_retention r" and "int (length content) \<le> max_safe_integer"
    and "vault_ok P R V" and "open_key V key" and "validate_logical_key key = None"
    and "object_at V key (local_version P content) = Some content"
    and "metadata_at V key (local_version P content) = Some (stored_retention P content r)"
  shows "resolve_current P E V key = Inr (Some (create_reference P (v_name V) key content))
    \<and> read_exact P V (create_reference P (v_name V) key content) = Inr content
    \<and> retention E V (create_reference P (v_name V) key content) = Inr r"
proof -
  note trees = vault_okD(1,2) [OF assms(5)]
  show ?thesis
    using resolve_stored [OF assms] stored_is_confirmed(1,2) [OF assms(1-4,7) trees assms(8,9)] entered_key [OF trees(1) assms(7)]
    by (simp add: read_exact_def retention_def guarded_def own_reference_def create_reference_def raise_if_def)
qed

text \<open>
  What was created is current and read back. At a key created under a printable profile,
  \<^verbatim>\<open>resolve_current\<close> gives the one exact reference, \<^verbatim>\<open>read_exact\<close> its bytes and \<^verbatim>\<open>retention\<close> its
  profile.
\<close>

theorem created_object_is_current:
  assumes "digest_law P" and "encoder_law E" and "plain_retention r" and "int (length content) \<le> max_safe_integer"
    and "vault_ok P R V" and "open_key V key" and "validate_logical_key key = None"
    and "object_at V key (local_version P content) = Some content"
    and "metadata_at V key (local_version P content) = Some (stored_retention P content r)"
  shows "resolve_current P E V key = Inr (Some (create_reference P (v_name V) key content))
    \<and> read_exact P V (create_reference P (v_name V) key content) = Inr content
    \<and> retention E V (create_reference P (v_name V) key content) = Inr r"
  using assms by (rule created_current)

lemma created_object_is_current_witness:
  "read_exact demo_platform (sample_vault PRIMARY True) (create_reference demo_platform (v_name (sample_vault PRIMARY True)) ''a'' ''xy'') = Inr ''xy''"
  using created_object_is_current [OF sample_conditions(1-3,6) sample_created(5,2) sample_conditions(4) sample_created(3,4)] by blast

section \<open>States it does not leave\<close>

text \<open>
  Text the two encoders write differently poisons its key. Retention is written by \<^verbatim>\<open>json.dumps\<close>
  and checked against RFC 8785: where these differ, as for DEL or a character above 127, the first
  creation stores the object and raises \<^verbatim>\<open>CorruptEvidence\<close>, and so does every later one of the same
  content, under any profile.
\<close>

theorem unprintable_retention_poisons_key:
  assumes "digest_law P" and "int (length content) \<le> max_safe_integer" and "new_retention_profile r = Inr r"
    and "E (retention_document (int (length content)) (bytes_fingerprint P content) r) = Some other"
    and "other \<noteq> stored_retention P content r"
    and "vault_ok P (\<lambda>_. True) V" and "open_key V key" and "validate_logical_key key = None"
    and "\<And>name. object_at V key name = None"
  shows "\<exists>V'. conditional_create P E key content r V = (Inl (CorruptEvidence key), V')
    \<and> object_at V' key (local_version P content) = Some content
    \<and> (\<forall>q. conditional_create P E key content q V' = (Inl (CorruptEvidence key), V'))"
proof -
  obtain V' where V': "conditional_create P E key content r V = (confirm_create P E V' key content r True, V')"
      "tree_ok (v_objects V')" "tree_ok (v_metadata V')" "open_key V' key"
    and docs: "object_document V' = (object_document V)(key_parts key @ [local_version P content] \<mapsto> content)"
      "metadata_document V' = (metadata_document V)
         (key_parts key @ [local_version P content @ ''.json''] \<mapsto> stored_retention P content r)"
    using fresh_placed [OF assms(6-9)] by blast
  have stored: "object_at V' key (local_version P content) = Some content"
      "metadata_at V' key (local_version P content) = Some (stored_retention P content r)"
    using fun_cong [OF docs(1), of "key_parts key @ [local_version P content]"]
      fun_cong [OF docs(2), of "key_parts key @ [local_version P content @ ''.json'']"]
    by (simp_all add: object_at_def metadata_at_def)
  have refused: "confirm_create P E V' key content q created = Inl (CorruptEvidence key)" for q created
    by (rule other_retention_unconfirmed [where E = E, OF assms(2-5,1,8) V'(2,3) stored])
  have "vault_ok P (\<lambda>_. True) V'"
    using conditional_create_vault_ok [where r = r and E = E and key = key and content = content, OF assms(6)] by (simp add: V'(1))
  then have "conditional_create P E key content q V' = (Inl (CorruptEvidence key), V')" for q
    by (rule poisoned_replay [OF _ V'(4) assms(8) stored(1) refused])
  then show ?thesis using V'(1) refused stored(1) by auto
qed

text \<open>An encoder that leaves DEL as it is, as RFC 8785 does.\<close>

function (sequential) unescape_del :: "string \<Rightarrow> string" where
  "unescape_del [] = []"
| "unescape_del (c # s) = (if starts_with (c # s) (CHR 0x5C # ''u007f'') then CHR 0x7F # unescape_del (drop 5 s)
     else c # unescape_del s)"
  by pat_completeness auto
termination by (relation "measure length") auto

definition del_retention :: retention_profile where
  "del_retention = \<lparr>rp_profile_id = ''p'' @ [CHR 0x7F] @ ''q'', rp_retain_until = ''2030'', rp_legal_hold = False\<rparr>"

lemma unprintable_retention_poisons_key_witness:
  "\<exists>V'. conditional_create demo_platform (\<lambda>j. Some (unescape_del (json_text j))) ''a'' ''xy'' del_retention empty_primary
      = (Inl (CorruptEvidence ''a''), V')
    \<and> object_at V' ''a'' (local_version demo_platform ''xy'') = Some ''xy''
    \<and> (\<forall>q. conditional_create demo_platform (\<lambda>j. Some (unescape_del (json_text j))) ''a'' ''xy'' q V'
        = (Inl (CorruptEvidence ''a''), V'))"
proof (rule unprintable_retention_poisons_key [OF sample_conditions(1,6) _ refl _ empty_vault_ok sample_conditions(5,4)])
  show "new_retention_profile del_retention = Inr del_retention" by code_simp
  show "unescape_del (json_text (retention_document (int (length ''xy'')) (bytes_fingerprint demo_platform ''xy'') del_retention))
      \<noteq> stored_retention demo_platform ''xy'' del_retention" by code_simp
  show "object_at empty_primary ''a'' name = None" for name
    by (rule represents_None [OF empty_represents]) simp
qed

text \<open>
  A destroyed key never resolves. After the authorised destruction of the version of a key,
  \<^verbatim>\<open>resolve_current\<close> raises \<^verbatim>\<open>CorruptEvidence\<close> for the key, though nothing is retained under it: the
  folder it leaves is taken for a version that was lost.
\<close>

theorem destroyed_key_is_corrupt:
  assumes "vault_ok P R V" and "destroy_exact P E r authorized now V = (Inr u, V')"
  shows "resolve_current P E V' (or_logical_key r) = Inl (CorruptEvidence (or_logical_key r))"
proof -
  let ?key = "or_logical_key r"
  note d = destroy_exact_Inr [OF assms(2)]
  note trees = vault_okD(1,2) [OF assms(1)]
  have ok: "vault_ok P R V'" using destroy_exact_vault_ok [OF assms(1), of E r authorized now] by (simp add: assms(2))
  note trees' = vault_okD(1,2) [OF ok]
  have V': "v_objects V' = remove_file (key_parts ?key @ [or_version_id r]) (v_objects V)" by (simp add: d(5))
  have stored: "object_document V (key_parts ?key @ [or_version_id r]) \<noteq> None"
    using d(4) by (auto simp: read_exact_def guarded_Inr read_exact_unlocked_def contained_Inr split: option.splits)
  then have "node_at (v_objects V) (key_parts ?key) = Some Folder"
    using tree_ok_prefix [OF trees(1), of "key_parts ?key" "[or_version_id r]"] by auto
  then have folder: "node_at (v_objects V') (key_parts ?key) = Some Folder" by (simp add: V' node_at_remove_file)
  have none: "object_document V' (key_parts ?key @ [name]) = None" for name
    using vault_okD(6) [OF assms(1) stored, of name]
    by (cases "object_document V (key_parts ?key @ [name])") (auto simp: V' node_at_remove_file)
  have "names = []" if "regular_child_names (v_objects V') (key_parts ?key) ?key = Inr names" for names
    using regular_child_names_Inr(2) [OF trees'(1) that] none by (metis list.set_intros(1) neq_Nil_conv)
  moreover have "regular_child_names (v_objects V') (key_parts ?key) ?key = Inl e \<Longrightarrow> e = CorruptEvidence ?key" for e
    by (auto simp: regular_child_names_def folder Let_def raise_if_def split: if_splits)
  ultimately show ?thesis
    using d(2) folder entered_key [OF trees'(1) d(2)] contained_ok [OF trees'(1) d(2)]
    by (cases "regular_child_names (v_objects V') (key_parts ?key) ?key")
      (auto simp: resolve_current_def resolve_current_unlocked_def guarded_def Let_def)
qed

lemma destroyed_key_is_corrupt_witness:
  "resolve_current demo_platform plain_encoder
     (snd (destroy_exact demo_platform plain_encoder (create_reference demo_platform (v_name (sample_vault PRIMARY False)) ''a'' ''xy'')
        True ''2031'' (sample_vault PRIMARY False))) ''a'' = Inl (CorruptEvidence ''a'')"
proof -
  let ?ref = "create_reference demo_platform (v_name (sample_vault PRIMARY False)) ''a'' ''xy''"
  note trees = vault_okD(1,2) [OF sample_created(5)]
  note stored = stored_is_confirmed(1,2) [OF sample_conditions(1-3,6,4) trees sample_created(3,4)]
  have later: "\<not> (''2031'' :: string) < ''2030''" by code_simp
  obtain x V' where V': "destroy_exact demo_platform plain_encoder ?ref True ''2031'' (sample_vault PRIMARY False) = (x, V')" by fastforce
  have "x = Inr ()"
    using V' stored later entered_key [OF trees(1) sample_conditions(4)]
      contained_ok [OF trees(1) sample_conditions(4)] contained_ok [OF trees(2) sample_conditions(4)]
    by (auto simp: destroy_exact_def guarded_def own_reference_def create_reference_def raise_if_def sample_retention_def)
  then show ?thesis
    using destroyed_key_is_corrupt [OF sample_created(5) V' [unfolded \<open>x = Inr ()\<close>]]
    by (simp add: V') (simp add: create_reference_def)
qed

text \<open>
  An object blocks every key that its own key extends. The local vault keeps the versions of a key and the keys that
  extend it in one folder: while an object is stored below a key, every creation at the key, and its
  resolution, raise \<^verbatim>\<open>CorruptEvidence\<close>, whatever the key itself holds.
\<close>

theorem nested_object_corrupts_key:
  assumes "vault_ok P R V" and "validate_logical_key key = None"
    and "object_document V (key_parts nested @ [name]) \<noteq> None" and "key_parts nested = key_parts key @ part # parts"
  shows "conditional_create P E key content r V = (Inl (CorruptEvidence key), V)
    \<and> resolve_current P E V key = Inl (CorruptEvidence key)"
proof -
  note trees = vault_okD(1,2) [OF assms(1)]
  let ?path = "key_parts key @ [part]"
  have stored: "node_at (v_objects V) (?path @ parts @ [name]) \<noteq> None"
    using assms(3,4) by auto
  then have part: "node_at (v_objects V) ?path = Some Folder"
    using tree_ok_prefix [OF trees(1), of ?path "parts @ [name]"] by auto
  then have folder: "node_at (v_objects V) (key_parts key) = Some Folder"
    using tree_ok_prefix [OF trees(1), of "key_parts key" "[part]"] by auto
  have "(?path, Folder) \<in> set (v_objects V)" using part by (auto simp: node_at_def dest: map_of_SomeD)
  then have "(part, Folder) \<in> set (children (key_parts key) (v_objects V))" by (force simp: children_def)
  then have "list_ex (\<lambda>(name, n). document (Some n) = None) (children (key_parts key) (v_objects V))"
    by (force simp: list_ex_iff)
  then have listed: "regular_child_names (v_objects V) (key_parts key) key = Inl (CorruptEvidence key)"
    by (simp add: regular_child_names_def folder Let_def construct_def raise_if_def)
  show ?thesis
    using assms(2) folder listed entered_key [OF trees(1) assms(2)] contained_ok [OF trees(1) assms(2)]
      contained_ok [OF trees(2) assms(2)]
    by (simp add: conditional_create_def admit_create_def resolve_current_def resolve_current_unlocked_def
        guarded_def Let_def)
qed

end
