(* ===== verification/EvidenceProperties.thy ===== *)
theory EvidenceProperties
  imports EvidenceServices LocalVaultProperties
begin

text \<open>
  What the package services promise over the local vault: packages are written content first and
  manifest last, a finalized one is in both vaults byte for byte, the reader never substitutes the
  recovery copy, and a package of fresh contents does commit.
\<close>

lemma local_reads: "vi_read (local_interface P E) = read_exact P"
  by (simp add: local_interface_def)

section \<open>A fresh package commits\<close>

lemma segment_exact: "safe_segment s \<Longrightarrow> is_exact_text s"
  using segment_char_not_space [of s "hd s"] segment_char_not_space [of s "last s"]
  by (auto simp: is_exact_text_iff safe_segment_def)

lemma identifier_ok: "id_pattern s \<Longrightarrow> identifier_text s field = None"
  using segment_exact [OF identifier_segment] by (simp add: identifier_text_def evidence_text_def)

lemma content_key_exists:
  assumes "digest_law P"
  obtains key where "content_logical_key (bytes_fingerprint P content) = Inr key" and "length (key_parts key) = 4"
    and "hd (key_parts key) = ''objects''" and "validate_logical_key key = None"
proof -
  obtain key where key: "content_logical_key (bytes_fingerprint P content) = Inr key"
    using bytes_fingerprint_text [OF assms] by (simp add: content_logical_key_def guarded_def Let_def)
  obtain d where d: "key = join ''/'' [''objects'', ''sha256'', take 2 d, drop 2 d]"
      "list_all safe_segment [''objects'', ''sha256'', take 2 d, drop 2 d]"
    using content_key_parts [OF key] by blast
  then have "key_parts key = [''objects'', ''sha256'', take 2 d, drop 2 d]" using key_parts_join [OF d(2)] by simp
  then show ?thesis using that [OF key] content_key_valid [OF key] by simp
qed

text \<open>The state of a writer and its vault after the staging of fresh contents.\<close>

definition staged_state :: "platform \<Rightarrow> package_writer \<Rightarrow> vault \<Rightarrow> bool" where
  "staged_state P w V \<longleftrightarrow> vault_ok P plain_retention V \<and> flat 4 V \<and> v_name V = PRIMARY
     \<and> (\<exists>A. represents P V A
        \<and> (\<forall>key. A key \<noteq> None \<longrightarrow> (\<exists>(k, e) \<in> set (pw_entries w). or_logical_key (me_primary e) = key))
        \<and> (\<forall>(k, e) \<in> set (pw_entries w). content_logical_key (or_fingerprint (me_primary e)) = Inr (or_logical_key (me_primary e))))"

lemma create_at_free_key:
  assumes "digest_law P" and "encoder_law E" and "plain_retention r" and "int (length content) \<le> max_safe_integer"
    and "vault_ok P plain_retention V" "flat 4 V" "v_name V = PRIMARY" "represents P V A"
    and "validate_logical_key key = None" and "length (key_parts key) = 4" and "A key = None"
  obtains V' where "conditional_create P E key content r V = (Inr (create_receipt P PRIMARY key content r True), V')"
    and "vault_ok P plain_retention V'" "flat 4 V'" "v_name V' = PRIMARY" "represents P V' (A(key \<mapsto> (content, r)))"
proof -
  note trees = vault_okD(1,2) [OF assms(5)]
  have held: "\<forall>c q. A key = Some (c, q) \<longrightarrow> plain_retention q \<and> (bytes_fingerprint P c = bytes_fingerprint P content \<longrightarrow> c = content)"
    using assms(11) by simp
  obtain V' where V': "conditional_create P E key content r V
        = (map_sum id (create_receipt P (v_name V) key content r) (fst (abstract_create key content r A)), V')"
      "\<forall>n. flat n V \<and> length (key_parts key) = n \<longrightarrow> flat n V'" "represents P V' (snd (abstract_create key content r A))"
    using create_refines [OF assms(1-5) flat_open [OF trees assms(6,10)] assms(9,8) held] by blast
  have "vault_ok P plain_retention V'" "v_name V' = PRIMARY"
    using conditional_create_vault_ok [OF assms(5,3), of E key content] conditional_create_name [of P E key content r V] assms(7)
    by (simp_all add: V'(1))
  then show ?thesis using that [of V'] V' assms(6,7,10,11) by (simp add: abstract_create_def)
qed

text \<open>The entry of a content, at its own key, and the manifest of a list of contents.\<close>

definition content_key :: "platform \<Rightarrow> string \<Rightarrow> string" where
  "content_key P content = projr (content_logical_key (bytes_fingerprint P content))"

definition content_entry :: "platform \<Rightarrow> artifact_descriptor \<Rightarrow> string \<Rightarrow> manifest_entry" where
  "content_entry P d content = \<lparr>me_descriptor = d, me_primary = create_reference P PRIMARY (content_key P content) content\<rparr>"

definition content_entries :: "platform \<Rightarrow> (artifact_descriptor \<times> string) list \<Rightarrow> (string \<times> manifest_entry) list" where
  "content_entries P items = map (\<lambda>(d, content). (ad_artifact_id d, content_entry P d content)) items"

definition package_manifest ::
    "platform \<Rightarrow> string \<Rightarrow> string \<Rightarrow> string \<Rightarrow> (artifact_descriptor \<times> string) list \<Rightarrow> evidence_manifest" where
  "package_manifest P kind package observation items = \<lparr>em_package_kind = kind, em_package_id = package,
     em_observation_id = observation, em_entries = map (\<lambda>(d, content). content_entry P d content) items\<rparr>"

lemma content_key:
  assumes "digest_law P"
  shows "content_logical_key (bytes_fingerprint P content) = Inr (content_key P content)"
    and "length (key_parts (content_key P content)) = 4" and "validate_logical_key (content_key P content) = None"
  using content_key_exists [OF assms, of content] by (metis content_key_def sum.sel(2))+

lemma entry_fingerprint [simp]: "or_fingerprint (me_primary (content_entry P d content)) = bytes_fingerprint P content"
  by (simp add: content_entry_def create_reference_def)

lemma stage_fresh:
  assumes laws: "digest_law P" "encoder_law E" and state: "staged_state P w V"
    and content: "plain_retention (ad_retention d)" "int (length content) \<le> max_safe_integer"
    and fresh: "ad_artifact_id d \<notin> fst ` set (pw_entries w)"
      "\<forall>(k, e) \<in> set (pw_entries w). or_fingerprint (me_primary e) \<noteq> bytes_fingerprint P content"
  obtains V' where "stage_content P (local_interface P E) d content (w, V)
      = (Inr (content_entry P d content),
         w\<lparr>pw_entries := pw_entries w @ [(ad_artifact_id d, content_entry P d content)]\<rparr>, V')"
    and "staged_state P (w\<lparr>pw_entries := pw_entries w @ [(ad_artifact_id d, content_entry P d content)]\<rparr>) V'"
proof -
  let ?key = "content_key P content"
  note key = content_key [OF laws(1), of content]
  obtain A where ok: "vault_ok P plain_retention V" "flat 4 V" "v_name V = PRIMARY" "represents P V A"
      and keys: "\<forall>key. A key \<noteq> None \<longrightarrow> (\<exists>(k, e) \<in> set (pw_entries w). or_logical_key (me_primary e) = key)"
      and own: "\<forall>(k, e) \<in> set (pw_entries w). content_logical_key (or_fingerprint (me_primary e)) = Inr (or_logical_key (me_primary e))"
    using state by (auto simp: staged_state_def)
  have "A ?key = None"
  proof (rule ccontr)
    assume "A ?key \<noteq> None"
    then obtain k e where e: "(k, e) \<in> set (pw_entries w)" "or_logical_key (me_primary e) = ?key" using keys by fast
    then have "content_logical_key (or_fingerprint (me_primary e)) = Inr ?key" using own by auto
    then have "or_fingerprint (me_primary e) = bytes_fingerprint P content" using content_key_inj key(1) by blast
    then show False using e(1) fresh(2) by fast
  qed
  then obtain V' where V': "conditional_create P E ?key content (ad_retention d) V
        = (Inr (create_receipt P PRIMARY ?key content (ad_retention d) True), V')"
      "vault_ok P plain_retention V'" "flat 4 V'" "v_name V' = PRIMARY" "represents P V' (A(?key \<mapsto> (content, ad_retention d)))"
    using create_at_free_key [OF laws content ok key(3,2)] by blast
  have "new_manifest_entry (content_entry P d content) = Inr (content_entry P d content)"
    by (simp add: new_manifest_entry_def content_entry_def create_reference_def)
  then have "stage_content P (local_interface P E) d content (w, V)
      = (Inr (content_entry P d content),
         w\<lparr>pw_entries := pw_entries w @ [(ad_artifact_id d, content_entry P d content)]\<rparr>, V')"
    using key(1) V'(1) fresh(1) map_of_eq_None_iff [of "pw_entries w" "ad_artifact_id d"]
    by (simp add: stage_content_def local_interface_def create_receipt_def content_entry_def update_fresh)
  moreover have "staged_state P (w\<lparr>pw_entries := pw_entries w @ [(ad_artifact_id d, content_entry P d content)]\<rparr>) V'"
    unfolding staged_state_def
    using V'(2-5) keys own key(1) by (intro conjI exI [of _ "A(?key \<mapsto> (content, ad_retention d))"])
      (auto simp: content_entry_def create_reference_def)
  ultimately show ?thesis by (rule that)
qed

lemma stage_all_fresh:
  assumes laws: "digest_law P" "encoder_law E"
    and "staged_state P w V"
    and "\<forall>(d, content) \<in> set items. plain_retention (ad_retention d) \<and> int (length content) \<le> max_safe_integer"
    and "distinct (map (\<lambda>(d, content). ad_artifact_id d) items)"
    and "distinct (map (\<lambda>(d, content). bytes_fingerprint P content) items)"
    and "\<forall>(d, content) \<in> set items. ad_artifact_id d \<notin> fst ` set (pw_entries w)
      \<and> (\<forall>(k, e) \<in> set (pw_entries w). or_fingerprint (me_primary e) \<noteq> bytes_fingerprint P content)"
  obtains V' where "run (writer_step P E (local_interface P E)) (map (\<lambda>(d, content). Stage d content) items) (w, V)
      = (w\<lparr>pw_entries := pw_entries w @ content_entries P items\<rparr>, V')"
    and "staged_state P (w\<lparr>pw_entries := pw_entries w @ content_entries P items\<rparr>) V'"
  using assms(3-7)
proof (induction items arbitrary: w V thesis)
  case Nil
  show ?case by (rule Nil(1) [of V]) (use Nil in \<open>simp_all add: content_entries_def\<close>)
next
  case (Cons item items)
  obtain d content where item: "item = (d, content)" by fastforce
  have fresh: "ad_artifact_id d \<notin> fst ` set (pw_entries w)"
      "\<forall>(k, e) \<in> set (pw_entries w). or_fingerprint (me_primary e) \<noteq> bytes_fingerprint P content"
    using Cons.prems(6) by (auto simp: item)
  have plain: "plain_retention (ad_retention d)" "int (length content) \<le> max_safe_integer"
    using Cons.prems(3) by (auto simp: item)
  let ?w1 = "w\<lparr>pw_entries := pw_entries w @ [(ad_artifact_id d, content_entry P d content)]\<rparr>"
  obtain V1 where step: "stage_content P (local_interface P E) d content (w, V) = (Inr (content_entry P d content), ?w1, V1)"
      and state: "staged_state P ?w1 V1"
    using stage_fresh [OF laws Cons.prems(2) plain fresh] by blast
  have later: "\<forall>(d', content') \<in> set items. ad_artifact_id d' \<notin> fst ` set (pw_entries ?w1)
      \<and> (\<forall>(k, e) \<in> set (pw_entries ?w1). or_fingerprint (me_primary e) \<noteq> bytes_fingerprint P content')"
  proof (clarify, intro conjI)
    fix d' content' assume m: "(d', content') \<in> set items"
    then have "ad_artifact_id d' \<noteq> ad_artifact_id d" "bytes_fingerprint P content' \<noteq> bytes_fingerprint P content"
      using Cons.prems(4,5) by (auto simp: item image_iff split_def)
    then show "ad_artifact_id d' \<notin> fst ` set (pw_entries ?w1)"
      "\<forall>(k, e) \<in> set (pw_entries ?w1). or_fingerprint (me_primary e) \<noteq> bytes_fingerprint P content'"
      using m Cons.prems(6) by auto
  qed
  obtain V' where rest: "run (writer_step P E (local_interface P E)) (map (\<lambda>(d, content). Stage d content) items) (?w1, V1)
      = (?w1\<lparr>pw_entries := pw_entries ?w1 @ content_entries P items\<rparr>, V')"
      "staged_state P (?w1\<lparr>pw_entries := pw_entries ?w1 @ content_entries P items\<rparr>) V'"
  proof (rule Cons.IH [OF _ state])
    show "\<forall>(d, content) \<in> set items. plain_retention (ad_retention d) \<and> int (length content) \<le> max_safe_integer"
      using Cons.prems(3) by simp
    show "distinct (map (\<lambda>(d, content). ad_artifact_id d) items)"
      "distinct (map (\<lambda>(d, content). bytes_fingerprint P content) items)" using Cons.prems(4,5) by simp_all
  qed (use later in blast)+
  show ?case
  proof (rule Cons.prems(1) [of V'])
    show "run (writer_step P E (local_interface P E)) (map (\<lambda>(d, content). Stage d content) (item # items)) (w, V)
      = (w\<lparr>pw_entries := pw_entries w @ content_entries P (item # items)\<rparr>, V')"
      using rest(1) by (simp add: item writer_step_def step content_entries_def)
  qed (use rest(2) in \<open>simp add: item content_entries_def\<close>)
qed

lemma commit_fresh:
  assumes laws: "digest_law P" "encoder_law E" and state: "staged_state P w V" and "pw_manifest w = None"
    and m: "m = manifest_of kind package observation w" "new_evidence_manifest m = Inr m"
    and r: "plain_retention r" and raw: "E (manifest_document m) = Some raw" "int (length raw) \<le> max_safe_integer"
  shows "pw_manifest (fst (snd (commit_manifest P E (local_interface P E) kind package observation r (w, V)))) = Some m"
proof -
  obtain key where key: "manifest_logical_key m (bytes_fingerprint P raw) = Inr key"
    using bytes_fingerprint_text [OF laws(1)] by (simp add: manifest_logical_key_def guarded_def Let_def)
  note kp = manifest_key_parts [OF m(2) key]
  then have key_parts: "hd (key_parts key) = ''packages''" "length (key_parts key) = 4"
    using key_parts_join [OF kp(2)] by simp_all
  obtain A where ok: "vault_ok P plain_retention V" "flat 4 V" "v_name V = PRIMARY" "represents P V A"
      and keys: "\<forall>key. A key \<noteq> None \<longrightarrow> (\<exists>(k, e) \<in> set (pw_entries w). or_logical_key (me_primary e) = key)"
      and own: "\<forall>(k, e) \<in> set (pw_entries w). content_logical_key (or_fingerprint (me_primary e)) = Inr (or_logical_key (me_primary e))"
    using state by (auto simp: staged_state_def)
  have "A key = None"
  proof (rule ccontr)
    assume "A key \<noteq> None"
    then obtain k e where "(k, e) \<in> set (pw_entries w)" "or_logical_key (me_primary e) = key" using keys by fast
    then have "content_logical_key (or_fingerprint (me_primary e)) = Inr key" using own by fast
    then obtain d where "key = join ''/'' [''objects'', ''sha256'', take 2 d, drop 2 d]"
        "list_all safe_segment [''objects'', ''sha256'', take 2 d, drop 2 d]" using content_key_parts by blast
    then have "hd (key_parts key) = ''objects''" using key_parts_join by (metis list.distinct(1) list.sel(1))
    then show False by (simp add: key_parts(1))
  qed
  moreover have "validate_logical_key key = None" using joined_key_valid [OF kp(2)] kp(1) by simp
  ultimately obtain V' where "conditional_create P E key raw r V = (Inr (create_receipt P PRIMARY key raw r True), V')"
    using create_at_free_key [OF laws r raw(2) ok _ key_parts(2)] by blast
  then show ?thesis
    using m raw(1) key assms(4) by (simp add: commit_manifest_def canonicalize_def local_interface_def)
qed

lemma package_commits:
  assumes laws: "digest_law P" "encoder_law E"
    and items: "items \<noteq> []"
      "\<forall>(d, content) \<in> set items. plain_retention (ad_retention d) \<and> int (length content) \<le> max_safe_integer"
      "distinct (map (\<lambda>(d, content). ad_artifact_id d) items)"
      "distinct (map (\<lambda>(d, content). bytes_fingerprint P content) items)"
    and package: "safe_segment kind" "id_pattern package" "id_pattern observation" "plain_retention r"
    and raw: "E (manifest_document (package_manifest P kind package observation items)) = Some raw"
      "int (length raw) \<le> max_safe_integer"
    and w: "new_package_writer (local_interface P E) (empty_vault PRIMARY) = Inr w"
  shows "pw_manifest (fst (run (writer_step P E (local_interface P E))
      (map (\<lambda>(d, content). Stage d content) items @ [Commit kind package observation r]) (w, empty_vault PRIMARY)))
    = Some (package_manifest P kind package observation items)"
proof -
  have w0: "w = \<lparr>pw_entries = [], pw_manifest = None, pw_primary_manifest = None\<rparr>"
    using w by (simp add: new_package_writer_def)
  have start: "staged_state P w (empty_vault PRIMARY)"
    unfolding staged_state_def
    by (intro conjI exI [of _ Map.empty]) (simp_all add: empty_vault_ok empty_flat empty_represents w0, simp add: empty_vault_def)
  have none: "\<forall>(d, content) \<in> set items. ad_artifact_id d \<notin> fst ` set (pw_entries w)
      \<and> (\<forall>(k, e) \<in> set (pw_entries w). or_fingerprint (me_primary e) \<noteq> bytes_fingerprint P content)"
    by (simp add: w0 split_def)
  obtain V where staged: "run (writer_step P E (local_interface P E))
        (map (\<lambda>(d, content). Stage d content) items) (w, empty_vault PRIMARY) = (w\<lparr>pw_entries := content_entries P items\<rparr>, V)"
      and state: "staged_state P (w\<lparr>pw_entries := content_entries P items\<rparr>) V"
    using stage_all_fresh [OF laws start items(2-4) none] by (auto simp: w0)
  let ?m = "package_manifest P kind package observation items"
  have m: "?m = manifest_of kind package observation (w\<lparr>pw_entries := content_entries P items\<rparr>)"
    by (simp add: package_manifest_def manifest_of_def content_entries_def split_def comp_def)
  have "map entry_artifact (em_entries ?m) = map (\<lambda>(d, content). ad_artifact_id d) items"
    by (simp add: package_manifest_def entry_artifact_def content_entry_def split_def comp_def)
  then have "distinct (map entry_artifact (em_entries ?m))" using items(3) by simp
  moreover have "em_package_kind ?m = kind" "em_package_id ?m = package" "em_observation_id ?m = observation" "em_entries ?m \<noteq> []"
    using items(1) by (simp_all add: package_manifest_def)
  ultimately have valid: "new_evidence_manifest ?m = Inr ?m"
    using package(1-3) segment_exact by (simp add: new_evidence_manifest_def evidence_text_def identifier_ok)
  have "pw_manifest (fst (snd (commit_manifest P E (local_interface P E) kind package observation r
      (w\<lparr>pw_entries := content_entries P items\<rparr>, V)))) = Some ?m"
    by (rule commit_fresh [OF laws state _ m valid package(4) raw]) (simp add: w0)
  then show ?thesis by (simp add: run_append staged writer_step_def)
qed

text \<open>
  A package of fresh contents commits. On an empty primary vault, staging contents of distinct
  digests under descriptors of distinct artifacts with printable retention, and then committing under
  valid identifiers, gives the manifest of exactly these contents, in the order of their staging.
\<close>

theorem fresh_package_commits:
  assumes laws: "digest_law P" "encoder_law E"
    and items: "items \<noteq> []"
      "\<forall>(d, content) \<in> set items. plain_retention (ad_retention d) \<and> int (length content) \<le> max_safe_integer"
      "distinct (map (\<lambda>(d, content). ad_artifact_id d) items)"
      "distinct (map (\<lambda>(d, content). bytes_fingerprint P content) items)"
    and package: "safe_segment kind" "id_pattern package" "id_pattern observation" "plain_retention r"
    and raw: "E (manifest_document (package_manifest P kind package observation items)) = Some raw"
      "int (length raw) \<le> max_safe_integer"
    and w: "new_package_writer (local_interface P E) (empty_vault PRIMARY) = Inr w"
  shows "pw_manifest (fst (run (writer_step P E (local_interface P E))
      (map (\<lambda>(d, content). Stage d content) items @ [Commit kind package observation r]) (w, empty_vault PRIMARY)))
    = Some (package_manifest P kind package observation items)"
  using assms by (rule package_commits)

definition sample_descriptor :: artifact_descriptor where
  "sample_descriptor = \<lparr>ad_artifact_id = ''art_'' @ replicate 48 (CHR ''0''), ad_artifact_version_id = ''ver_'' @ replicate 48 (CHR ''0''),
     ad_artifact_class = SOURCE_CONTENT, ad_source_id = ''src_'' @ replicate 48 (CHR ''0''),
     ad_observation_id = ''obs_'' @ replicate 48 (CHR ''0''), ad_observation_cutoff = ''c'', ad_acquired_at = ''a'',
     ad_acquisition_method = ''m'', ad_source_locator = ''l'', ad_declared_media_type = ''t'', ad_detected_media_type = ''t'',
     ad_content_encoding = ''e'', ad_character_encoding = ''u'', ad_transport_metadata = [], ad_retention = sample_retention False\<rparr>"

definition sample_package :: string where
  "sample_package = ''pkg_'' @ replicate 48 (CHR ''0'')"

definition sample_observed :: string where
  "sample_observed = ''obs_'' @ replicate 48 (CHR ''0'')"

definition sample_evidence :: evidence_manifest where
  "sample_evidence = package_manifest demo_platform ''case'' sample_package sample_observed [(sample_descriptor, ''xy'')]"

definition sample_writer :: package_writer where
  "sample_writer = \<lparr>pw_entries = [], pw_manifest = None, pw_primary_manifest = None\<rparr>"

abbreviation demo_vault :: "vault vault_interface" where
  "demo_vault \<equiv> local_interface demo_platform plain_encoder"

definition sample_packaging :: "writer_op list" where
  "sample_packaging = map (\<lambda>(d, content). Stage d content) [(sample_descriptor, ''xy'')]
     @ [Commit ''case'' sample_package sample_observed (sample_retention False)]"

lemma sample_package_conditions:
  "safe_segment ''case''" "id_pattern sample_package" "id_pattern sample_observed"
  "int (length (json_text (manifest_document sample_evidence))) \<le> max_safe_integer"
  by code_simp+

lemma sample_items:
  "\<forall>(d, content) \<in> set [(sample_descriptor, ''xy'')]. plain_retention (ad_retention d) \<and> int (length content) \<le> max_safe_integer"
  using sample_conditions(3,6) by (simp add: sample_descriptor_def)

lemma sample_writer_new: "new_package_writer demo_vault empty_primary = Inr sample_writer"
  by (simp add: new_package_writer_def local_interface_def empty_vault_def sample_writer_def)

lemma sample_committed:
  "pw_manifest (fst (run (writer_step demo_platform plain_encoder demo_vault) sample_packaging (sample_writer, empty_primary)))
     = Some sample_evidence"
  unfolding sample_packaging_def sample_evidence_def
  by (rule package_commits [OF sample_conditions(1,2) _ sample_items _ _ sample_package_conditions(1-3) sample_conditions(3) refl
        sample_package_conditions(4) [unfolded sample_evidence_def] sample_writer_new]) simp_all

lemma fresh_package_commits_witness:
  "pw_manifest (fst (run (writer_step demo_platform plain_encoder demo_vault) sample_packaging (sample_writer, empty_primary)))
     = Some sample_evidence"
  unfolding sample_packaging_def sample_evidence_def
  by (rule fresh_package_commits [OF sample_conditions(1,2) _ sample_items _ _ sample_package_conditions(1-3) sample_conditions(3) refl
        sample_package_conditions(4) [unfolded sample_evidence_def] sample_writer_new]) simp_all

section \<open>Content first, manifest last\<close>

text \<open>
  A visible package is complete. After any history of staging, committing and restarting, failed
  operations included, a writer that exposes a manifest has in its primary vault an object with the
  digest of the canonical manifest, and every content object the manifest lists, each exactly_readable by its
  exact reference.
\<close>

theorem committed_package_is_complete:
  assumes "new_package_writer (local_interface P E) V = Inr w"
    and "run (writer_step P E (local_interface P E)) ops (w, V) = (w', V')" and "pw_manifest w' = Some m"
  shows "\<exists>ref. pw_primary_manifest w' = Some ref
    \<and> (\<exists>raw. E (manifest_document m) = Some raw \<and> or_fingerprint ref = bytes_fingerprint P raw)
    \<and> (\<exists>c. read_exact P V' ref = Inr c) \<and> (\<forall>e \<in> set (em_entries m). \<exists>c. read_exact P V' (me_primary e) = Inr c)"
proof -
  have "local.writer_ok P E E (w', V')"
    using local.writer_history_ok [OF assms(1), of E ops] by (simp add: assms(2))
  then show ?thesis
    using assms(3) by (auto simp: local.writer_ok_def local.manifest_held_def local.exactly_readable_def local_reads
        split: option.splits)
qed

lemma committed_package_is_complete_witness:
  "\<exists>ref. pw_primary_manifest (fst (run (writer_step demo_platform plain_encoder demo_vault) sample_packaging
      (sample_writer, empty_primary))) = Some ref"
  using committed_package_is_complete [OF sample_writer_new prod.collapse [symmetric] sample_committed] by blast

section \<open>Two vaults\<close>

text \<open>
  C30: A finalized package is in both vaults. A receipt of \<^verbatim>\<open>finalize_recovery\<close> is of the committed
  manifest; it has one copy for every entry of it, in its order; and each copy and the manifest read
  the same bytes, by their exact references, from the primary and from the recovery vault.
\<close>

theorem finalized_package_is_recoverable:
  assumes "finalize_recovery (local_interface P E) (local_interface P E) r w V R = (Inr receipt, R')"
  shows "pw_manifest w = Some (pr_manifest receipt) \<and> pw_primary_manifest w = Some (pr_primary_manifest receipt)
    \<and> map cr_primary (pr_copies receipt) = map me_primary (em_entries (pr_manifest receipt))
    \<and> (\<forall>copy \<in> set (pr_copies receipt). \<exists>c. read_exact P V (cr_primary copy) = Inr c \<and> read_exact P R' (cr_recovery copy) = Inr c)
    \<and> (\<exists>c. read_exact P V (pr_primary_manifest receipt) = Inr c \<and> read_exact P R' (pr_recovery_manifest receipt) = Inr c)"
  using locals.finalized [OF assms] by (simp add: locals.same_content_def local_reads)

lemma sample_current:
  "read_exact demo_platform (sample_vault name hold) (create_reference demo_platform name ''a'' ''xy'') = Inr ''xy''"
  using created_current [OF sample_conditions(1-3,6) sample_created(5,2) sample_conditions(4) sample_created(3,4)]
  by (simp add: sample_created(6))

text \<open>A copy of the sample object, into an empty recovery vault and once more.\<close>

lemma sample_copied:
  "copy_exact demo_vault demo_vault (sample_vault PRIMARY hold) (create_reference demo_platform PRIMARY ''a'' ''xy'')
      (sample_retention hold) (empty_vault RECOVERY)
   = (Inr \<lparr>cr_primary = create_reference demo_platform PRIMARY ''a'' ''xy'',
         cr_recovery = create_reference demo_platform RECOVERY ''a'' ''xy''\<rparr>, sample_vault RECOVERY hold)"
  "copy_exact demo_vault demo_vault (sample_vault PRIMARY hold) (create_reference demo_platform PRIMARY ''a'' ''xy'')
      (sample_retention hold) (sample_vault RECOVERY hold)
   = (Inr \<lparr>cr_primary = create_reference demo_platform PRIMARY ''a'' ''xy'',
         cr_recovery = create_reference demo_platform RECOVERY ''a'' ''xy''\<rparr>, sample_vault RECOVERY hold)"
proof -
  have again: "conditional_create demo_platform plain_encoder ''a'' ''xy'' (sample_retention hold) (sample_vault RECOVERY hold)
     = (Inr (create_receipt demo_platform RECOVERY ''a'' ''xy'' (sample_retention hold) False), sample_vault RECOVERY hold)"
    using create_again [where r = "sample_retention hold",
        OF sample_conditions(1-3,6) sample_created(5,2) sample_conditions(4) sample_created(3,4)]
    by (simp add: sample_created(6))
  have ref: "or_logical_key (create_reference demo_platform name ''a'' ''xy'') = ''a''" for name
    by (simp add: create_reference_def)
  have receipt: "wr_reference (create_receipt demo_platform RECOVERY ''a'' ''xy'' r created)
      = create_reference demo_platform RECOVERY ''a'' ''xy''" for r created by (simp add: create_receipt_def)
  have valid: "new_copy_receipt \<lparr>cr_primary = create_reference demo_platform PRIMARY ''a'' ''xy'',
         cr_recovery = create_reference demo_platform RECOVERY ''a'' ''xy''\<rparr>
     = Inr \<lparr>cr_primary = create_reference demo_platform PRIMARY ''a'' ''xy'',
         cr_recovery = create_reference demo_platform RECOVERY ''a'' ''xy''\<rparr>"
    by (simp add: new_copy_receipt_def create_reference_def)
  show "copy_exact demo_vault demo_vault (sample_vault PRIMARY hold) (create_reference demo_platform PRIMARY ''a'' ''xy'')
      (sample_retention hold) (empty_vault RECOVERY)
   = (Inr \<lparr>cr_primary = create_reference demo_platform PRIMARY ''a'' ''xy'',
         cr_recovery = create_reference demo_platform RECOVERY ''a'' ''xy''\<rparr>, sample_vault RECOVERY hold)"
    "copy_exact demo_vault demo_vault (sample_vault PRIMARY hold) (create_reference demo_platform PRIMARY ''a'' ''xy'')
      (sample_retention hold) (sample_vault RECOVERY hold)
   = (Inr \<lparr>cr_primary = create_reference demo_platform PRIMARY ''a'' ''xy'',
         cr_recovery = create_reference demo_platform RECOVERY ''a'' ''xy''\<rparr>, sample_vault RECOVERY hold)"
    by (simp_all add: copy_exact_def local_interface_def sample_current ref receipt valid again sample_created(1)
        guarded_def raise_if_def)
qed

definition sample_copied_manifest :: evidence_manifest where
  "sample_copied_manifest = sample_evidence\<lparr>em_entries := [\<lparr>me_descriptor = sample_descriptor,
     me_primary = create_reference demo_platform PRIMARY ''a'' ''xy''\<rparr>]\<rparr>"

definition sample_committed_writer :: package_writer where
  "sample_committed_writer = \<lparr>pw_entries = [], pw_manifest = Some sample_copied_manifest,
     pw_primary_manifest = Some (create_reference demo_platform PRIMARY ''a'' ''xy'')\<rparr>"

lemma sample_copied_entries: "map me_primary (em_entries sample_copied_manifest) = [create_reference demo_platform PRIMARY ''a'' ''xy'']"
  by (simp add: sample_copied_manifest_def)

lemma finalized_package_is_recoverable_witness:
  "pr_copies (projr (fst (finalize_recovery demo_vault demo_vault (sample_retention True) sample_committed_writer
      (sample_vault PRIMARY True) (empty_vault RECOVERY)))) \<noteq> []"
proof -
  obtain receipt where receipt: "finalize_recovery demo_vault demo_vault (sample_retention True) sample_committed_writer
      (sample_vault PRIMARY True) (empty_vault RECOVERY) = (Inr receipt, sample_vault RECOVERY True)"
    by (simp add: finalize_recovery_def sample_committed_writer_def sample_copied_entries sample_copied new_package_receipt_def)
      (simp add: create_reference_def)
  have "pw_manifest sample_committed_writer = Some (pr_manifest receipt)"
      "map cr_primary (pr_copies receipt) = map me_primary (em_entries (pr_manifest receipt))"
    using finalized_package_is_recoverable [OF receipt] by blast+
  then have "map cr_primary (pr_copies receipt) \<noteq> []"
    by (auto simp: sample_committed_writer_def sample_copied_entries)
  then show ?thesis by (simp add: receipt)
qed

text \<open>
  Recovery is never substituted. The two-vault reader returns bytes just where the primary vault
  reads exactly these bytes under the primary reference: whatever the recovery vault holds, it never
  decides what is returned.
\<close>

theorem recovery_is_never_substituted:
  "read_two_vaults (local_interface P E) (local_interface P E) V R copy use artifact_class at = Inr (content, receipt)
   \<longleftrightarrow> read_exact P V (cr_primary copy) = Inr content
     \<and> new_read_receipt \<lparr>rr_reference = cr_primary copy, rr_required_use = use, rr_artifact_class = artifact_class,
          rr_accessed_at = at\<rparr> = Inr receipt"
  using locals.two_vaults_read by (simp add: local_reads)

end
