(* ===== verification/RemoteVault.thy ===== *)
theory RemoteVault
  imports VaultModel
begin

text \<open>
  \<^verbatim>\<open>S3ImmutableVault\<close> of \<^verbatim>\<open>packages/evidence-vault/src/asklegal_evidence_vault/s3.py\<close>. The client is
  third-party code: a record of the operations the adapter calls, each answering with a response or an
  exception and with the next state of the provider, a read included. Nothing is assumed of it here.
\<close>

section \<open>What a client answers\<close>

text \<open>
  The values of a response: text by its code points, numbers, bytes, mappings (a key that is no
  \<^verbatim>\<open>str\<close> is \<^const>\<open>None\<close>), aware and naive datetimes, a body by what \<^verbatim>\<open>read(amount)\<close> returns, anything else.
\<close>

datatype s3_value =
    SText "nat list" | SInt int | SBytes string | SMap "(string option \<times> s3_value) list"
  | SInstant int | SNaive | SBody "nat \<Rightarrow> s3_value" | SOther

type_synonym s3_response = "(string \<times> s3_value) list"

datatype client_exception = ClientError s3_value | OtherException

record put_request =
  put_bucket :: string
  put_key :: string
  put_body :: string
  put_digest :: string
  put_profile :: string
  put_retain_until :: int
  put_legal_hold :: bool

type_synonym 'b client_call = "'b \<Rightarrow> (client_exception + s3_response) \<times> 'b"

record 'b s3_client =
  put_object :: "put_request \<Rightarrow> 'b client_call"
  get_object :: "string \<Rightarrow> string \<Rightarrow> nat list \<Rightarrow> 'b client_call"
  head_object :: "string \<Rightarrow> string \<Rightarrow> nat list option \<Rightarrow> 'b client_call"
  get_object_retention :: "string \<Rightarrow> string \<Rightarrow> nat list \<Rightarrow> 'b client_call"
  get_object_legal_hold :: "string \<Rightarrow> string \<Rightarrow> nat list \<Rightarrow> 'b client_call"
  get_bucket_versioning :: "string \<Rightarrow> 'b client_call"
  get_object_lock_configuration :: "string \<Rightarrow> 'b client_call"

definition points :: "string \<Rightarrow> nat list" where
  "points s = map of_char s"

text \<open>A \<^verbatim>\<open>str\<close> of the model, where every code point is below 256.\<close>

definition latin_text :: "nat list \<Rightarrow> string option" where
  "latin_text ps = (if list_all (\<lambda>p. p < 256) ps then Some (map char_of ps) else None)"

fun point_text :: "s3_value option \<Rightarrow> nat list option" where
  "point_text (Some (SText ps)) = Some ps"
| "point_text _ = None"

definition has_text :: "s3_value option \<Rightarrow> string \<Rightarrow> bool" where
  "has_text v s \<longleftrightarrow> point_text v = Some (points s)"

fun string_mapping :: "s3_value option \<Rightarrow> s3_response option" where
  "string_mapping (Some (SMap kvs)) = (if None \<in> set (map fst kvs) then None else Some (map (\<lambda>(k, v). (the k, v)) kvs))"
| "string_mapping _ = None"

text \<open>\<^verbatim>\<open>_client_error_code\<close>\<close>

definition client_error_code :: "s3_value \<Rightarrow> nat list" where
  "client_error_code response = (case string_mapping (Some response) of
     None \<Rightarrow> points ''UNKNOWN''
   | Some outer \<Rightarrow> (case string_mapping (map_of outer ''Error'') of
       None \<Rightarrow> points ''UNKNOWN''
     | Some error \<Rightarrow> (case point_text (map_of error ''Code'') of None \<Rightarrow> points ''UNKNOWN'' | Some code \<Rightarrow> code)))"

definition missing_codes :: "nat list list" where
  "missing_codes = map points [''404'', ''NoSuchKey'', ''NoSuchVersion'', ''NotFound'']"

definition precondition_codes :: "nat list list" where
  "precondition_codes = map points [''412'', ''ConditionalRequestConflict'', ''PreconditionFailed'']"

definition response_text :: "s3_response \<Rightarrow> string \<Rightarrow> evidence_error + nat list" where
  "response_text response field = (case point_text (map_of response field) of
     Some (p # ps) \<Rightarrow> Inr (p # ps) | _ \<Rightarrow> Inl (S3VaultError S3_RESPONSE))"

section \<open>Settings and credentials\<close>

record vault_settings =
  vs_vault_name :: vault_name
  vs_endpoint_url :: string
  vs_bucket :: string
  vs_ca_bundle_path :: string
  vs_region :: string

fun settings_for :: "vault_name \<Rightarrow> string \<times> string \<times> string" where
  "settings_for PRIMARY = (''https://vault-primary:7070'', ''asklegal-primary-evidence'',
     ''/etc/asklegal/trust/vault-primary-ca.pem'')"
| "settings_for RECOVERY = (''https://vault-recovery:7070'', ''asklegal-recovery-evidence'',
     ''/etc/asklegal/trust/vault-recovery-ca.pem'')"

definition new_vault_settings :: "vault_settings \<Rightarrow> evidence_error + vault_settings" where
  "new_vault_settings s = construct
     [raise_if ((vs_endpoint_url s, vs_bucket s, vs_ca_bundle_path s) \<noteq> settings_for (vs_vault_name s)
        \<or> vs_region s \<noteq> ''us-east-1'') (S3VaultError S3_CONFIGURATION)] s"

definition settings_for_vault :: "vault_name \<Rightarrow> evidence_error + vault_settings" where
  "settings_for_vault name = (case settings_for name of (endpoint, bucket, ca_bundle) \<Rightarrow>
     new_vault_settings \<lparr>vs_vault_name = name, vs_endpoint_url = endpoint, vs_bucket = bucket,
       vs_ca_bundle_path = ca_bundle, vs_region = ''us-east-1''\<rparr>)"

definition credential_part :: "json option \<Rightarrow> string option" where
  "credential_part j = (case j of
     Some (JText s) \<Rightarrow> if is_exact_text s \<and> length (utf8 s) \<le> 1024
       \<and> \<not> list_ex (\<lambda>c. (of_char c :: nat) < first_control_codepoint) s then Some s else None
   | _ \<Rightarrow> None)"

text \<open>\<^verbatim>\<open>S3AccessCredential.from_bytes\<close>: the pair of the two parts.\<close>

definition credential_from_bytes :: "string \<Rightarrow> evidence_error + string \<times> string" where
  "credential_from_bytes raw = (case parse_json_bytes raw 4096 of
     Inl (Violation _) \<Rightarrow> Inl (S3VaultError S3_CREDENTIAL)
   | Inl _ \<Rightarrow> Inl Unmodelled
   | Inr (JObject kvs) \<Rightarrow>
       if set (map fst kvs) \<noteq> set [''access_key_id'', ''secret_access_key''] then Inl (S3VaultError S3_CREDENTIAL)
       else (case (credential_part (map_of kvs ''access_key_id''), credential_part (map_of kvs ''secret_access_key'')) of
         (Some access_key, Some secret_key) \<Rightarrow> Inr (access_key, secret_key)
       | _ \<Rightarrow> Inl (S3VaultError S3_CREDENTIAL))
   | Inr _ \<Rightarrow> Inl (S3VaultError S3_CREDENTIAL))"

text \<open>The limits \<^verbatim>\<open>create_v1_s3_client\<close> checks before it calls the third-party session.\<close>

definition check_client_limits :: "int \<Rightarrow> int \<Rightarrow> int \<Rightarrow> evidence_error option" where
  "check_client_limits retry_attempts connect_timeout read_timeout = raise_if
     (\<not> (1 \<le> retry_attempts \<and> retry_attempts \<le> 5) \<or> \<not> (1 \<le> connect_timeout \<and> connect_timeout \<le> 60)
      \<or> \<not> (1 \<le> read_timeout \<and> read_timeout \<le> 60)) (S3VaultError S3_CONFIGURATION)"

section \<open>Dates\<close>

text \<open>A text \<^verbatim>\<open>fromisoformat\<close> reads that ends in \<^verbatim>\<open>Z\<close> is in UTC.\<close>

definition retention_datetime :: "platform \<Rightarrow> string \<Rightarrow> evidence_error + int" where
  "retention_datetime P s = (case from_iso P s of
     None \<Rightarrow> Inl (S3VaultError S3_RETENTION)
   | Some (t, utc) \<Rightarrow> if ends_with s ''Z'' \<and> utc then Inr t else Inl (S3VaultError S3_RETENTION))"

text \<open>
  \<^verbatim>\<open>_canonical_utc\<close> of an aware datetime is \<^verbatim>\<open>S\<close>: \<^verbatim>\<open>isoformat(timespec="seconds")\<close> with \<^verbatim>\<open>Z\<close>, or an
  overflow.
\<close>

type_synonym seconds_text = "int \<Rightarrow> string option"

fun canonical_utc :: "seconds_text \<Rightarrow> s3_value option \<Rightarrow> evidence_error + string" where
  "canonical_utc S (Some (SInstant t)) = (case S t of None \<Rightarrow> Inl ClientFault | Some s \<Rightarrow> Inr s)"
| "canonical_utc S _ = Inl (S3VaultError S3_RETENTION)"

section \<open>Reading\<close>

record s3_vault =
  sv_settings :: vault_settings

abbreviation sv_bucket :: "s3_vault \<Rightarrow> string" where
  "sv_bucket V \<equiv> vs_bucket (sv_settings V)"

abbreviation sv_name :: "s3_vault \<Rightarrow> vault_name" where
  "sv_name V \<equiv> vs_vault_name (sv_settings V)"

text \<open>\<^verbatim>\<open>_validate_reference\<close>, with the provider version it decodes.\<close>

definition s3_validate_reference :: "s3_vault \<Rightarrow> object_reference \<Rightarrow> evidence_error + nat list" where
  "s3_validate_reference V r = guarded
     [raise_if (or_vault r \<noteq> sv_name V) (ValueFault ''reference names a different vault'')]
     (s3_provider_version_id (or_version_id r))"

text \<open>A call whose response, or failure, is handled; the provider goes on from the state it left.\<close>

definition calling :: "'b client_call \<Rightarrow> (s3_value \<Rightarrow> evidence_error) \<Rightarrow>
    (s3_response \<Rightarrow> 'b \<Rightarrow> (evidence_error + 'a) \<times> 'b) \<Rightarrow> 'b \<Rightarrow> (evidence_error + 'a) \<times> 'b" where
  "calling call handler f b = (case call b of
     (Inl (ClientError response), b') \<Rightarrow> (Inl (handler response), b')
   | (Inl OtherException, b') \<Rightarrow> (Inl ClientFault, b')
   | (Inr response, b') \<Rightarrow> f response b')"

definition checked_body :: "platform \<Rightarrow> object_reference \<Rightarrow> s3_response \<Rightarrow> evidence_error + string" where
  "checked_body P r response = (case map_of response ''Body'' of
     Some (SBody reader) \<Rightarrow> (case reader (nat (or_byte_length r + 1)) of
         SBytes content \<Rightarrow> construct
           [raise_if (int (length content) \<noteq> or_byte_length r \<or> bytes_fingerprint P content \<noteq> or_fingerprint r)
              (CorruptEvidence (or_logical_key r))] content
       | _ \<Rightarrow> Inl (CorruptEvidence (or_logical_key r)))
   | _ \<Rightarrow> Inl (S3VaultError S3_RESPONSE))"

definition s3_read_exact ::
    "platform \<Rightarrow> 'b s3_client \<Rightarrow> s3_vault \<Rightarrow> object_reference \<Rightarrow> 'b \<Rightarrow> (evidence_error + string) \<times> 'b" where
  "s3_read_exact P C V r b = (case s3_validate_reference V r of
     Inl e \<Rightarrow> (Inl e, b)
   | Inr version \<Rightarrow> calling (get_object C (sv_bucket V) (or_logical_key r) version)
       (\<lambda>response. if client_error_code response \<in> set missing_codes then FileMissing (or_logical_key r)
          else S3VaultError S3_PROVIDER)
       (\<lambda>response b'. (checked_body P r response, b')) b)"

definition s3_read_for_use ::
    "platform \<Rightarrow> 'b s3_client \<Rightarrow> s3_vault \<Rightarrow> object_reference \<Rightarrow> string \<Rightarrow> artifact_class \<Rightarrow> string \<Rightarrow> 'b
       \<Rightarrow> (evidence_error + string \<times> read_receipt) \<times> 'b" where
  "s3_read_for_use P C V r required_use artifact_class accessed_at b =
     (case s3_read_exact P C V r b of (x, b') \<Rightarrow> (and_then x (\<lambda>content.
        and_then (new_read_receipt \<lparr>rr_reference = r, rr_required_use = required_use,
            rr_artifact_class = artifact_class, rr_accessed_at = accessed_at\<rparr>) (\<lambda>receipt.
        Inr (content, receipt))), b'))"

definition s3_exists_exact ::
    "platform \<Rightarrow> 'b s3_client \<Rightarrow> s3_vault \<Rightarrow> object_reference \<Rightarrow> 'b \<Rightarrow> (evidence_error + bool) \<times> 'b" where
  "s3_exists_exact P C V r b = (case s3_read_exact P C V r b of
     (Inr _, b') \<Rightarrow> (Inr True, b')
   | (Inl (FileMissing _), b') \<Rightarrow> (Inr False, b')
   | (Inl (CorruptEvidence _), b') \<Rightarrow> (Inr False, b')
   | (Inl (S3VaultError _), b') \<Rightarrow> (Inr False, b')
   | (Inl e, b') \<Rightarrow> (Inl e, b'))"

section \<open>Retention\<close>

fun is_mapping :: "s3_value option \<Rightarrow> bool" where
  "is_mapping (Some (SMap _)) = True"
| "is_mapping _ = False"

text \<open>
  The legal hold, an absent one as \<^verbatim>\<open>OFF\<close>. A status or a code that is a mapping is unhashable, which
  the membership test raises on.
\<close>

definition absent_hold_codes :: "nat list list" where
  "absent_hold_codes = map points [''NoSuchObjectLockConfiguration'', ''ObjectLockConfigurationNotFoundError'']"

definition error_code_value :: "s3_value \<Rightarrow> s3_value option" where
  "error_code_value response = (case string_mapping (Some response) of
     None \<Rightarrow> None
   | Some outer \<Rightarrow> (case string_mapping (map_of outer ''Error'') of None \<Rightarrow> None | Some error \<Rightarrow> map_of error ''Code''))"

definition read_legal_hold ::
    "'b s3_client \<Rightarrow> s3_vault \<Rightarrow> string \<Rightarrow> nat list \<Rightarrow> 'b \<Rightarrow> (evidence_error + s3_response) \<times> 'b" where
  "read_legal_hold C V key version b = (case get_object_legal_hold C (sv_bucket V) key version b of
     (Inr response, b') \<Rightarrow> (Inr response, b')
   | (Inl OtherException, b') \<Rightarrow> (Inl ClientFault, b')
   | (Inl (ClientError response), b') \<Rightarrow>
       (let code = error_code_value response in
        if is_mapping code then (Inl ClientFault, b')
        else (case point_text code of
          Some t \<Rightarrow> if t \<in> set absent_hold_codes
            then (Inr [(''LegalHold'', SMap [(Some ''Status'', SText (points ''OFF''))])], b')
            else (Inl (S3VaultError S3_PROVIDER), b')
        | None \<Rightarrow> (Inl (S3VaultError S3_PROVIDER), b'))))"

definition retained_profile ::
    "seconds_text \<Rightarrow> s3_response \<Rightarrow> s3_response \<Rightarrow> s3_response \<Rightarrow> evidence_error + retention_profile" where
  "retained_profile S head retention_response hold_response =
     (case (string_mapping (map_of head ''Metadata''), string_mapping (map_of retention_response ''Retention''),
            string_mapping (map_of hold_response ''LegalHold'')) of
        (Some metadata, Some retention_value, Some hold_value) \<Rightarrow>
          (let hold_status = map_of hold_value ''Status'' in guarded
             [raise_if (\<not> has_text (map_of retention_value ''Mode'') ''COMPLIANCE'') (S3VaultError S3_RETENTION),
              raise_if (is_mapping hold_status) ClientFault,
              raise_if (\<not> has_text hold_status ''ON'' \<and> \<not> has_text hold_status ''OFF'') (S3VaultError S3_RETENTION)]
             (case (point_text (map_of metadata ''asklegal-retention-profile''), map_of retention_value ''RetainUntilDate'') of
                (Some profile, Some until) \<Rightarrow> (case latin_text profile of
                    None \<Rightarrow> Inl Unmodelled
                  | Some profile_id \<Rightarrow> and_then (canonical_utc S (Some until)) (\<lambda>retain_until.
                      new_retention_profile \<lparr>rp_profile_id = profile_id, rp_retain_until = retain_until,
                        rp_legal_hold = has_text hold_status ''ON''\<rparr>))
              | _ \<Rightarrow> Inl (S3VaultError S3_RETENTION)))
      | _ \<Rightarrow> Inl (S3VaultError S3_RETENTION))"

definition s3_retention ::
    "seconds_text \<Rightarrow> 'b s3_client \<Rightarrow> s3_vault \<Rightarrow> object_reference \<Rightarrow> 'b \<Rightarrow> (evidence_error + retention_profile) \<times> 'b" where
  "s3_retention S C V r b = (case s3_validate_reference V r of
     Inl e \<Rightarrow> (Inl e, b)
   | Inr version \<Rightarrow>
       calling (head_object C (sv_bucket V) (or_logical_key r) (Some version)) (\<lambda>_. S3VaultError S3_PROVIDER) (\<lambda>head.
       calling (get_object_retention C (sv_bucket V) (or_logical_key r) version) (\<lambda>_. S3VaultError S3_PROVIDER)
         (\<lambda>retention_response b'.
         case read_legal_hold C V (or_logical_key r) version b' of
           (Inl e, b'') \<Rightarrow> (Inl e, b'')
         | (Inr hold_response, b'') \<Rightarrow> (retained_profile S head retention_response hold_response, b''))) b)"

section \<open>Creating\<close>

text \<open>The reference to a provider version of a content.\<close>

definition s3_reference ::
    "platform \<Rightarrow> s3_vault \<Rightarrow> string \<Rightarrow> nat list \<Rightarrow> string \<Rightarrow> int \<Rightarrow> evidence_error + object_reference" where
  "s3_reference P V key version fingerprint byte_length = and_then (s3_version_reference version) (\<lambda>version_id.
     new_object_reference \<lparr>or_vault = sv_name V, or_logical_key = key, or_version_id = version_id,
       or_fingerprint = fingerprint, or_byte_length = byte_length\<rparr>)"

definition s3_adopt_existing ::
    "platform \<Rightarrow> seconds_text \<Rightarrow> 'b s3_client \<Rightarrow> s3_vault \<Rightarrow> string \<Rightarrow> string \<Rightarrow> retention_profile \<Rightarrow> 'b
       \<Rightarrow> (evidence_error + write_receipt) \<times> 'b" where
  "s3_adopt_existing P S C V key content r =
     calling (head_object C (sv_bucket V) key None) (\<lambda>_. S3VaultError S3_PROVIDER) (\<lambda>response b.
     case and_then (response_text response ''VersionId'') (\<lambda>version.
         s3_reference P V key version (bytes_fingerprint P content) (int (length content))) of
       Inl e \<Rightarrow> (Inl e, b)
     | Inr reference \<Rightarrow> (case s3_read_exact P C V reference b of
         (Inl (CorruptEvidence _), b') \<Rightarrow> (Inl (VaultCollision key), b')
       | (Inl e, b') \<Rightarrow> (Inl e, b')
       | (Inr existing, b') \<Rightarrow>
           if existing \<noteq> content then (Inl (VaultCollision key), b')
           else (case s3_retention S C V reference b' of
             (Inl e, b'') \<Rightarrow> (Inl e, b'')
           | (Inr retained, b'') \<Rightarrow>
               (guarded [raise_if (retained \<noteq> r) (VaultCollision key)]
                  (new_write_receipt \<lparr>wr_reference = reference, wr_created = False,
                     wr_read_back_verified = True, wr_retention = r\<rparr>), b''))))"

definition s3_confirm_created ::
    "platform \<Rightarrow> seconds_text \<Rightarrow> 'b s3_client \<Rightarrow> s3_vault \<Rightarrow> string \<Rightarrow> string \<Rightarrow> retention_profile
       \<Rightarrow> s3_response \<Rightarrow> 'b \<Rightarrow> (evidence_error + write_receipt) \<times> 'b" where
  "s3_confirm_created P S C V key content r response b =
     (case and_then (response_text response ''VersionId'') (\<lambda>version.
         s3_reference P V key version (bytes_fingerprint P content) (int (length content))) of
       Inl e \<Rightarrow> (Inl e, b)
     | Inr reference \<Rightarrow> (case s3_read_exact P C V reference b of
         (Inl e, b') \<Rightarrow> (Inl e, b')
       | (Inr _, b') \<Rightarrow> (case s3_retention S C V reference b' of
           (Inl e, b'') \<Rightarrow> (Inl e, b'')
         | (Inr retained, b'') \<Rightarrow>
             (guarded [raise_if (retained \<noteq> r) (S3VaultError S3_RETENTION)]
                (new_write_receipt \<lparr>wr_reference = reference, wr_created = True,
                   wr_read_back_verified = True, wr_retention = r\<rparr>), b''))))"

definition s3_conditional_create ::
    "platform \<Rightarrow> seconds_text \<Rightarrow> 'b s3_client \<Rightarrow> s3_vault \<Rightarrow> string \<Rightarrow> string \<Rightarrow> retention_profile \<Rightarrow> 'b
       \<Rightarrow> (evidence_error + write_receipt) \<times> 'b" where
  "s3_conditional_create P S C V key content r b =
     (case guarded
         [validate_logical_key key, raise_if (\<not> safe_segment (rp_profile_id r)) (S3VaultError S3_RETENTION)]
         (retention_datetime P (rp_retain_until r)) of
        Inl e \<Rightarrow> (Inl e, b)
      | Inr retain_until \<Rightarrow>
          (case put_object C \<lparr>put_bucket = sv_bucket V, put_key = key, put_body = content,
               put_digest = sha256_hex P content, put_profile = rp_profile_id r,
               put_retain_until = retain_until, put_legal_hold = rp_legal_hold r\<rparr> b of
             (Inl (ClientError response), b') \<Rightarrow>
               if client_error_code response \<in> set precondition_codes
               then s3_adopt_existing P S C V key content r b'
               else (Inl (S3VaultError S3_PROVIDER), b')
           | (Inl OtherException, b') \<Rightarrow> (Inl ClientFault, b')
           | (Inr response, b') \<Rightarrow> s3_confirm_created P S C V key content r response b'))"

section \<open>The current version and readiness\<close>

fun int_of :: "s3_value option \<Rightarrow> int option" where
  "int_of (Some (SInt i)) = Some i"
| "int_of _ = None"

definition s3_resolve_current ::
    "platform \<Rightarrow> 'b s3_client \<Rightarrow> s3_vault \<Rightarrow> string \<Rightarrow> 'b \<Rightarrow> (evidence_error + object_reference option) \<times> 'b" where
  "s3_resolve_current P C V key b = (case validate_logical_key key of
     Some e \<Rightarrow> (Inl e, b)
   | None \<Rightarrow> (case head_object C (sv_bucket V) key None b of
       (Inl (ClientError response), b') \<Rightarrow>
         if client_error_code response \<in> set missing_codes then (Inr None, b') else (Inl (S3VaultError S3_PROVIDER), b')
     | (Inl OtherException, b') \<Rightarrow> (Inl ClientFault, b')
     | (Inr head, b') \<Rightarrow>
         (case and_then (response_text head ''VersionId'') (\<lambda>version.
             case (string_mapping (map_of head ''Metadata''), int_of (map_of head ''ContentLength'')) of
               (Some metadata, Some byte_length) \<Rightarrow>
                 if byte_length < 0 then Inl (S3VaultError S3_PROVIDER)
                 else (case point_text (map_of metadata ''asklegal-sha256'') of
                   None \<Rightarrow> Inl (S3VaultError S3_PROVIDER)
                 | Some digest \<Rightarrow> (case latin_text digest of
                     None \<Rightarrow> Inl Unmodelled
                   | Some d \<Rightarrow> s3_reference P V key version (''sha256:'' @ d) byte_length))
             | _ \<Rightarrow> Inl (S3VaultError S3_PROVIDER)) of
            Inl e \<Rightarrow> (Inl e, b')
          | Inr reference \<Rightarrow> (case s3_read_exact P C V reference b' of
              (Inl e, b'') \<Rightarrow> (Inl e, b'')
            | (Inr _, b'') \<Rightarrow> (Inr (Some reference), b'')))))"

definition s3_check_readiness :: "'b s3_client \<Rightarrow> s3_vault \<Rightarrow> 'b \<Rightarrow> (evidence_error + unit) \<times> 'b" where
  "s3_check_readiness C V =
     calling (get_bucket_versioning C (sv_bucket V)) (\<lambda>_. S3VaultError S3_READINESS) (\<lambda>versioning.
     calling (get_object_lock_configuration C (sv_bucket V)) (\<lambda>_. S3VaultError S3_READINESS) (\<lambda>object_lock b.
     (case string_mapping (map_of object_lock ''ObjectLockConfiguration'') of
        Some lock_configuration \<Rightarrow> construct
          [raise_if (\<not> has_text (map_of versioning ''Status'') ''Enabled''
             \<or> \<not> has_text (map_of lock_configuration ''ObjectLockEnabled'') ''Enabled'') (S3VaultError S3_READINESS)] ()
      | None \<Rightarrow> Inl (S3VaultError S3_READINESS), b)))"

end
