(* ===== verification/RemoteVaultFacts.thy ===== *)
theory RemoteVaultFacts
  imports RemoteVault VaultRefinement VaultVersions
begin

text \<open>
  What a receipt and a read of the S3 vault mean whatever the provider does, and what the vault does
  over a bucket that keeps the documented contract of versioning, object lock and conditional put.
\<close>

section \<open>Any provider\<close>

lemma checked_body_Inr:
  "checked_body P r response = Inr content \<Longrightarrow> int (length content) = or_byte_length r \<and> bytes_fingerprint P content = or_fingerprint r"
  by (auto simp: checked_body_def split: option.splits s3_value.splits)

lemma s3_read_Inr:
  assumes "s3_read_exact P C V r b = (Inr content, b')"
  shows "or_vault r = sv_name V" and "int (length content) = or_byte_length r" and "bytes_fingerprint P content = or_fingerprint r"
    and "\<exists>version response. s3_provider_version_id (or_version_id r) = Inr version
      \<and> get_object C (sv_bucket V) (or_logical_key r) version b = (Inr response, b') \<and> checked_body P r response = Inr content"
  using assms checked_body_Inr
  by (auto simp: s3_read_exact_def s3_validate_reference_def calling_def guarded_Inr
      split: sum.splits prod.splits client_exception.splits if_splits)

lemma s3_reference_Inr:
  "s3_reference P V key version fingerprint n = Inr ref \<Longrightarrow>
     or_vault ref = sv_name V \<and> or_logical_key ref = key \<and> or_fingerprint ref = fingerprint \<and> or_byte_length ref = n
     \<and> s3_version_reference version = Inr (or_version_id ref) \<and> new_object_reference ref = Inr ref"
  by (auto simp: s3_reference_def new_object_reference_def)

text \<open>The bytes and the profile a receipt was given for.\<close>

definition read_back ::
    "platform \<Rightarrow> seconds_text \<Rightarrow> 'b s3_client \<Rightarrow> s3_vault \<Rightarrow> object_reference \<Rightarrow> string \<Rightarrow> retention_profile \<Rightarrow> 'b \<Rightarrow> bool" where
  "read_back P S C V ref content r b' \<longleftrightarrow>
     (\<exists>b b1. s3_read_exact P C V ref b = (Inr content, b1) \<and> s3_retention S C V ref b1 = (Inr r, b'))"

lemma adopted:
  assumes "s3_adopt_existing P S C V key content r b = (Inr w, b')"
  shows "or_logical_key (wr_reference w) = key \<and> \<not> wr_created w \<and> wr_retention w = r
    \<and> read_back P S C V (wr_reference w) content r b'"
proof -
  obtain response b0 where head: "head_object C (sv_bucket V) key None b = (Inr response, b0)"
    using assms by (auto simp: s3_adopt_existing_def calling_def split: sum.splits prod.splits client_exception.splits)
  obtain ref where ref: "and_then (response_text response ''VersionId'') (\<lambda>version.
      s3_reference P V key version (bytes_fingerprint P content) (int (length content))) = Inr ref"
    using assms head by (auto simp: s3_adopt_existing_def calling_def split: sum.splits)
  obtain x b1 where x: "s3_read_exact P C V ref b0 = (x, b1)" by fastforce
  have xc: "x = Inr content"
    using assms head ref x by (auto simp: s3_adopt_existing_def calling_def split: sum.splits evidence_error.splits if_splits)
  obtain y b2 where y: "s3_retention S C V ref b1 = (y, b2)" by fastforce
  have "y = Inr r" "b2 = b'" "w = \<lparr>wr_reference = ref, wr_created = False, wr_read_back_verified = True, wr_retention = r\<rparr>"
    using assms head ref x xc y
    by (auto simp: s3_adopt_existing_def calling_def guarded_Inr new_write_receipt_def split: sum.splits)
  then show ?thesis using x xc y ref s3_reference_Inr by (auto simp: read_back_def)
qed

lemma confirmed:
  assumes "s3_confirm_created P S C V key content r response b = (Inr w, b')"
  shows "\<exists>c. or_logical_key (wr_reference w) = key \<and> wr_created w \<and> wr_retention w = r
    \<and> bytes_fingerprint P c = bytes_fingerprint P content \<and> length c = length content
    \<and> read_back P S C V (wr_reference w) c r b'"
proof -
  obtain ref where ref: "and_then (response_text response ''VersionId'') (\<lambda>version.
      s3_reference P V key version (bytes_fingerprint P content) (int (length content))) = Inr ref"
    using assms by (auto simp: s3_confirm_created_def split: sum.splits)
  obtain c b1 where c: "s3_read_exact P C V ref b = (Inr c, b1)"
    using assms ref by (auto simp: s3_confirm_created_def split: sum.splits prod.splits)
  obtain y b2 where y: "s3_retention S C V ref b1 = (y, b2)" by fastforce
  have "y = Inr r" "b2 = b'" "w = \<lparr>wr_reference = ref, wr_created = True, wr_read_back_verified = True, wr_retention = r\<rparr>"
    using assms ref c y
    by (auto simp: s3_confirm_created_def guarded_Inr new_write_receipt_def split: sum.splits)
  then show ?thesis using c y ref s3_reference_Inr s3_read_Inr(2,3) [OF c] by (fastforce simp: read_back_def)
qed

lemma s3_created:
  assumes "s3_conditional_create P S C V key content r b = (Inr w, b')"
  shows "or_logical_key (wr_reference w) = key \<and> wr_retention w = r
    \<and> (\<exists>c. bytes_fingerprint P c = bytes_fingerprint P content \<and> length c = length content
        \<and> (\<not> wr_created w \<longrightarrow> c = content) \<and> read_back P S C V (wr_reference w) c r b')"
proof -
  obtain t where "guarded [validate_logical_key key, raise_if (\<not> safe_segment (rp_profile_id r)) (S3VaultError S3_RETENTION)]
      (retention_datetime P (rp_retain_until r)) = Inr t"
    using assms by (auto simp: s3_conditional_create_def split: sum.splits)
  then obtain b1 where "(\<exists>response. s3_confirm_created P S C V key content r response b1 = (Inr w, b'))
      \<or> s3_adopt_existing P S C V key content r b1 = (Inr w, b')"
    using assms by (auto simp: s3_conditional_create_def split: sum.splits prod.splits client_exception.splits if_splits)
  then show ?thesis using confirmed adopted by (metis (no_types, lifting))
qed

section \<open>A bucket that keeps its contract\<close>

text \<open>What a bucket holds under a key: one version, never replaced.\<close>

record held_object =
  ho_version :: "nat list"
  ho_body :: string
  ho_profile :: string
  ho_until :: int
  ho_hold :: bool

type_synonym 'b bucket_view = "'b \<Rightarrow> string \<Rightarrow> held_object option"

definition put_held :: "put_request \<Rightarrow> nat list \<Rightarrow> held_object" where
  "put_held req version = \<lparr>ho_version = version, ho_body = put_body req, ho_profile = put_profile req,
     ho_until = put_retain_until req, ho_hold = put_legal_hold req\<rparr>"

text \<open>The versions whose reference the code admits; provider versions are bounded opaque text.\<close>

definition admitted_version :: "nat list \<Rightarrow> bool" where
  "admitted_version version \<longleftrightarrow> (\<exists>r. s3_version_reference version = Inr r)"

text \<open>\<^verbatim>\<open>PutObject\<close> with \<^verbatim>\<open>If-None-Match: *\<close>: a free key is written, a held one is refused.\<close>

definition put_law :: "'b s3_client \<Rightarrow> string \<Rightarrow> 'b bucket_view \<Rightarrow> bool" where
  "put_law C bucket view \<longleftrightarrow> (\<forall>b req. put_bucket req = bucket \<longrightarrow>
     (case view b (put_key req) of
        None \<Rightarrow> \<exists>response b' version. put_object C req b = (Inr response, b')
          \<and> map_of response ''VersionId'' = Some (SText version) \<and> admitted_version version
          \<and> view b' = (view b)(put_key req \<mapsto> put_held req version)
      | Some _ \<Rightarrow> \<exists>response. put_object C req b = (Inl (ClientError response), b)
          \<and> client_error_code response \<in> set precondition_codes))"

text \<open>\<^verbatim>\<open>GetObject\<close> and \<^verbatim>\<open>HeadObject\<close> of what is held; reading changes nothing.\<close>

definition get_law :: "'b s3_client \<Rightarrow> string \<Rightarrow> 'b bucket_view \<Rightarrow> bool" where
  "get_law C bucket view \<longleftrightarrow> (\<forall>b key o1. view b key = Some o1 \<longrightarrow>
     admitted_version (ho_version o1)
     \<and> (\<exists>response reader. get_object C bucket key (ho_version o1) b = (Inr response, b)
          \<and> map_of response ''Body'' = Some (SBody reader) \<and> (\<forall>n. reader n = SBytes (take n (ho_body o1))))
     \<and> (\<forall>version \<in> {None, Some (ho_version o1)}. \<exists>response metadata. head_object C bucket key version b = (Inr response, b)
          \<and> map_of response ''VersionId'' = Some (SText (ho_version o1))
          \<and> string_mapping (map_of response ''Metadata'') = Some metadata
          \<and> map_of metadata ''asklegal-retention-profile'' = Some (SText (points (ho_profile o1)))))"

text \<open>
  Object lock: the mode and date of the version, and its legal hold, which the gateway reports as
  absent where it was never set.
\<close>

definition lock_law :: "'b s3_client \<Rightarrow> string \<Rightarrow> 'b bucket_view \<Rightarrow> bool" where
  "lock_law C bucket view \<longleftrightarrow> (\<forall>b key o1. view b key = Some o1 \<longrightarrow>
     (\<exists>response retained. get_object_retention C bucket key (ho_version o1) b = (Inr response, b)
        \<and> string_mapping (map_of response ''Retention'') = Some retained
        \<and> map_of retained ''Mode'' = Some (SText (points ''COMPLIANCE''))
        \<and> map_of retained ''RetainUntilDate'' = Some (SInstant (ho_until o1)))
     \<and> (let status = (if ho_hold o1 then ''ON'' else ''OFF'') in
        (\<exists>response hold. get_object_legal_hold C bucket key (ho_version o1) b = (Inr response, b)
          \<and> string_mapping (map_of response ''LegalHold'') = Some hold \<and> map_of hold ''Status'' = Some (SText (points status)))
        \<or> \<not> ho_hold o1 \<and> (\<exists>response code. get_object_legal_hold C bucket key (ho_version o1) b = (Inl (ClientError response), b)
          \<and> error_code_value response = Some (SText code) \<and> code \<in> set absent_hold_codes)))"

definition bucket_law :: "'b s3_client \<Rightarrow> string \<Rightarrow> 'b bucket_view \<Rightarrow> bool" where
  "bucket_law C bucket view \<longleftrightarrow> put_law C bucket view \<and> get_law C bucket view \<and> lock_law C bucket view"

lemma latin_points [simp]: "latin_text (points s) = Some s"
  by (simp add: latin_text_def points_def list_all_iff comp_def)

lemma points_inj [simp]: "points s = points t \<longleftrightarrow> s = t"
  by (metis latin_points option.inject)

lemma admitted_provider: "s3_version_reference version = Inr r \<Longrightarrow> s3_provider_version_id r = Inr version"
  unfolding version_reference_iff provider_version_iff
  using encoded_reference_exact utf8_encode_Nil by (metis is_exact_points_def)

lemma held_read:
  assumes "bucket_law C (sv_bucket V) view" and "view b (or_logical_key ref) = Some o1"
    and "or_vault ref = sv_name V" and "s3_version_reference (ho_version o1) = Inr (or_version_id ref)"
  shows "s3_read_exact P C V ref b
    = (if int (length (ho_body o1)) = or_byte_length ref \<and> bytes_fingerprint P (ho_body o1) = or_fingerprint ref
       then Inr (ho_body o1) else Inl (CorruptEvidence (or_logical_key ref)), b)"
proof -
  obtain response reader where get: "get_object C (sv_bucket V) (or_logical_key ref) (ho_version o1) b = (Inr response, b)"
      and body: "map_of response ''Body'' = Some (SBody reader)" "\<And>n. reader n = SBytes (take n (ho_body o1))"
    using assms(1,2) unfolding bucket_law_def get_law_def by meson
  have valid: "s3_validate_reference V ref = Inr (ho_version o1)"
    using assms(3) admitted_provider [OF assms(4)] by (simp add: s3_validate_reference_def guarded_def raise_if_def)
  have "checked_body P ref response = (if int (length (ho_body o1)) = or_byte_length ref \<and> bytes_fingerprint P (ho_body o1) = or_fingerprint ref
       then Inr (ho_body o1) else Inl (CorruptEvidence (or_logical_key ref)))"
  proof (cases "length (ho_body o1) \<le> nat (or_byte_length ref + 1)")
    case True
    then have "take (nat (or_byte_length ref + 1)) (ho_body o1) = ho_body o1" by simp
    then show ?thesis by (simp add: checked_body_def body construct_def raise_if_def)
  next
    case False
    then have len: "length (take (nat (or_byte_length ref + 1)) (ho_body o1)) = nat (or_byte_length ref + 1)" by simp
    have "int (length (ho_body o1)) \<noteq> or_byte_length ref" using False by linarith
    moreover have "int (nat (or_byte_length ref + 1)) \<noteq> or_byte_length ref" by linarith
    ultimately show ?thesis using len by (simp add: checked_body_def body construct_def raise_if_def min_def)
  qed
  then show ?thesis by (simp add: s3_read_exact_def valid calling_def get)
qed

text \<open>The profile of a held object, its date as \<^verbatim>\<open>S\<close> writes it.\<close>

definition held_profile :: "seconds_text \<Rightarrow> held_object \<Rightarrow> retention_profile" where
  "held_profile S o1 = \<lparr>rp_profile_id = ho_profile o1, rp_retain_until = the (S (ho_until o1)), rp_legal_hold = ho_hold o1\<rparr>"

definition sound_held :: "seconds_text \<Rightarrow> held_object \<Rightarrow> bool" where
  "sound_held S o1 \<longleftrightarrow> S (ho_until o1) \<noteq> None \<and> new_retention_profile (held_profile S o1) = Inr (held_profile S o1)"

lemma held_hold:
  assumes "lock_law C (sv_bucket V) view" and "view b key = Some o1"
  shows "\<exists>response hold. read_legal_hold C V key (ho_version o1) b = (Inr response, b)
    \<and> string_mapping (map_of response ''LegalHold'') = Some hold
    \<and> map_of hold ''Status'' = Some (SText (points (if ho_hold o1 then ''ON'' else ''OFF'')))"
proof -
  have "(\<exists>response hold. get_object_legal_hold C (sv_bucket V) key (ho_version o1) b = (Inr response, b)
          \<and> string_mapping (map_of response ''LegalHold'') = Some hold
          \<and> map_of hold ''Status'' = Some (SText (points (if ho_hold o1 then ''ON'' else ''OFF''))))
        \<or> \<not> ho_hold o1 \<and> (\<exists>response code. get_object_legal_hold C (sv_bucket V) key (ho_version o1) b = (Inl (ClientError response), b)
          \<and> error_code_value response = Some (SText code) \<and> code \<in> set absent_hold_codes)"
    using assms unfolding lock_law_def Let_def by meson
  then show ?thesis
    by (elim disjE exE conjE) (simp_all add: read_legal_hold_def Let_def)
qed

lemma held_retention:
  assumes "bucket_law C (sv_bucket V) view" and "view b (or_logical_key ref) = Some o1"
    and "or_vault ref = sv_name V" and "s3_version_reference (ho_version o1) = Inr (or_version_id ref)" and "sound_held S o1"
  shows "s3_retention S C V ref b = (Inr (held_profile S o1), b)"
proof -
  have valid: "s3_validate_reference V ref = Inr (ho_version o1)"
    using assms(3) admitted_provider [OF assms(4)] by (simp add: s3_validate_reference_def guarded_def raise_if_def)
  obtain head metadata where head: "head_object C (sv_bucket V) (or_logical_key ref) (Some (ho_version o1)) b = (Inr head, b)"
      "string_mapping (map_of head ''Metadata'') = Some metadata"
      "map_of metadata ''asklegal-retention-profile'' = Some (SText (points (ho_profile o1)))"
    using assms(1,2) unfolding bucket_law_def get_law_def by (meson insert_iff)
  obtain response retained where lock: "get_object_retention C (sv_bucket V) (or_logical_key ref) (ho_version o1) b = (Inr response, b)"
      "string_mapping (map_of response ''Retention'') = Some retained"
      "map_of retained ''Mode'' = Some (SText (points ''COMPLIANCE''))"
      "map_of retained ''RetainUntilDate'' = Some (SInstant (ho_until o1))"
    using assms(1,2) unfolding bucket_law_def lock_law_def by meson
  obtain hresponse hold where hold: "read_legal_hold C V (or_logical_key ref) (ho_version o1) b = (Inr hresponse, b)"
      "string_mapping (map_of hresponse ''LegalHold'') = Some hold"
      "map_of hold ''Status'' = Some (SText (points (if ho_hold o1 then ''ON'' else ''OFF'')))"
    using held_hold assms(1,2) unfolding bucket_law_def by meson
  have "retained_profile S head response hresponse = Inr (held_profile S o1)"
    using assms(5) head(2,3) lock(2-4) hold(2,3)
    by (auto simp: retained_profile_def Let_def guarded_def raise_if_def has_text_def sound_held_def held_profile_def)
  then show ?thesis by (simp add: s3_retention_def valid calling_def head(1) lock(1) hold(1))
qed

end
