(* ===== verification/RemoteVaultProperties.thy ===== *)
theory RemoteVaultProperties
  imports RemoteVaultFacts LocalVaultProperties
begin

text \<open>
  What the S3 vault promises: its receipts are read back whatever the provider does; over a bucket
  that keeps its contract it refines the write-once map the local vault refines, and answers as that
  one does. The last section has the dates it stores and cannot confirm.
\<close>

section \<open>One creation over a sound bucket\<close>

text \<open>The creations whose date is the canonical text of its instant.\<close>

definition dated_profile :: "platform \<Rightarrow> seconds_text \<Rightarrow> retention_profile \<Rightarrow> bool" where
  "dated_profile P S r \<longleftrightarrow> safe_segment (rp_profile_id r) \<and> new_retention_profile r = Inr r
     \<and> (case retention_datetime P (rp_retain_until r) of Inl _ \<Rightarrow> False | Inr t \<Rightarrow> S t = Some (rp_retain_until r))"

lemma dated_profileE:
  assumes "dated_profile P S r"
  obtains t where "retention_datetime P (rp_retain_until r) = Inr t" "S t = Some (rp_retain_until r)"
  using assms by (auto simp: dated_profile_def split: sum.splits)

definition request_for :: "platform \<Rightarrow> s3_vault \<Rightarrow> string \<Rightarrow> string \<Rightarrow> retention_profile \<Rightarrow> int \<Rightarrow> put_request" where
  "request_for P V key content r t = \<lparr>put_bucket = sv_bucket V, put_key = key, put_body = content,
     put_digest = sha256_hex P content, put_profile = rp_profile_id r, put_retain_until = t,
     put_legal_hold = rp_legal_hold r\<rparr>"

definition held_reference :: "platform \<Rightarrow> s3_vault \<Rightarrow> string \<Rightarrow> string \<Rightarrow> string \<Rightarrow> object_reference" where
  "held_reference P V key content version_id = \<lparr>or_vault = sv_name V, or_logical_key = key,
     or_version_id = version_id, or_fingerprint = bytes_fingerprint P content, or_byte_length = int (length content)\<rparr>"

lemma s3_reference_admitted:
  assumes "digest_law P" and "validate_logical_key key = None" and "s3_version_reference version = Inr vid"
  shows "s3_reference P V key version (bytes_fingerprint P content) (int (length content))
    = Inr (held_reference P V key content vid)"
proof -
  have "check_version vid = None"
    using admitted_provider [OF assms(3)] by (simp add: s3_provider_version_id_def guarded_Inr)
  then show ?thesis
    using assms by (simp add: s3_reference_def new_object_reference_def held_reference_def bytes_fingerprint_text)
qed

lemma admitted_text: "s3_version_reference version = Inr vid \<Longrightarrow> map_of response field = Some (SText version)
    \<Longrightarrow> response_text response field = Inr version"
  unfolding version_reference_iff by (cases version) (auto simp: response_text_def is_exact_points_def)

lemma held_reference_fields:
  "or_vault (held_reference P V key content vid) = sv_name V"
  "or_logical_key (held_reference P V key content vid) = key"
  "or_version_id (held_reference P V key content vid) = vid"
  "or_fingerprint (held_reference P V key content vid) = bytes_fingerprint P content"
  "or_byte_length (held_reference P V key content vid) = int (length content)"
  by (simp_all add: held_reference_def)

lemma confirm_held:
  assumes "digest_law P" and "bucket_law C (sv_bucket V) view" and "validate_logical_key key = None"
    and "view b key = Some o1" and "ho_body o1 = content" and "sound_held S o1"
    and "map_of response ''VersionId'' = Some (SText (ho_version o1))" and "s3_version_reference (ho_version o1) = Inr vid"
  shows "s3_confirm_created P S C V key content r response b
    = (if held_profile S o1 = r
       then Inr \<lparr>wr_reference = held_reference P V key content vid, wr_created = True, wr_read_back_verified = True, wr_retention = r\<rparr>
       else Inl (S3VaultError S3_RETENTION), b)"
proof -
  let ?ref = "held_reference P V key content vid"
  note f = held_reference_fields [of P V key content vid]
  have read: "s3_read_exact P C V ?ref b = (Inr content, b)"
    using held_read [OF assms(2), where ref = ?ref and b = b and ?o1.0 = o1 and P = P] assms(4,5,8) by (simp add: f)
  have ret: "s3_retention S C V ?ref b = (Inr (held_profile S o1), b)"
    using held_retention [OF assms(2), where ref = ?ref and b = b and ?o1.0 = o1 and S = S] assms(4,6,8) by (simp add: f)
  show ?thesis
    by (simp add: s3_confirm_created_def admitted_text [OF assms(8,7)] s3_reference_admitted [OF assms(1,3,8)] read ret
        guarded_def raise_if_def new_write_receipt_def construct_def)
qed

lemma adopt_held:
  assumes "digest_law P" and "bucket_law C (sv_bucket V) view" and "validate_logical_key key = None"
    and "view b key = Some o1" and "sound_held S o1"
    and "bytes_fingerprint P (ho_body o1) = bytes_fingerprint P content \<Longrightarrow> ho_body o1 = content"
  shows "\<exists>x. s3_adopt_existing P S C V key content r b = (x, b) \<and> map_sum id wr_created x
    = (if (ho_body o1, held_profile S o1) = (content, r) then Inr False else Inl (VaultCollision key))"
proof -
  obtain response vid where head: "head_object C (sv_bucket V) key None b = (Inr response, b)"
      "map_of response ''VersionId'' = Some (SText (ho_version o1))" "s3_version_reference (ho_version o1) = Inr vid"
    using assms(2,4) unfolding bucket_law_def get_law_def admitted_version_def by (meson insert_iff)
  let ?ref = "held_reference P V key content vid"
  note f = held_reference_fields [of P V key content vid]
  have read: "s3_read_exact P C V ?ref b = (if ho_body o1 = content then Inr content else Inl (CorruptEvidence key), b)"
    using held_read [OF assms(2), where ref = ?ref and b = b and ?o1.0 = o1 and P = P] assms(4,6) head(3) by (auto simp: f)
  have ret: "s3_retention S C V ?ref b = (Inr (held_profile S o1), b)"
    using held_retention [OF assms(2), where ref = ?ref and b = b and ?o1.0 = o1 and S = S] assms(4,5) head(3) by (simp add: f)
  show ?thesis
    by (simp add: s3_adopt_existing_def calling_def head(1) admitted_text [OF head(3,2)]
        s3_reference_admitted [OF assms(1,3) head(3)] read ret guarded_def raise_if_def new_write_receipt_def construct_def)
qed

lemma put_answer:
  assumes "validate_logical_key key = None" and "safe_segment (rp_profile_id r)"
    and "retention_datetime P (rp_retain_until r) = Inr t"
  shows "s3_conditional_create P S C V key content r b = (case put_object C (request_for P V key content r t) b of
     (Inl (ClientError response), b') \<Rightarrow>
       if client_error_code response \<in> set precondition_codes then s3_adopt_existing P S C V key content r b'
       else (Inl (S3VaultError S3_PROVIDER), b')
   | (Inl OtherException, b') \<Rightarrow> (Inl ClientFault, b')
   | (Inr response, b') \<Rightarrow> s3_confirm_created P S C V key content r response b')"
  using assms by (simp add: s3_conditional_create_def guarded_def raise_if_def request_for_def)

lemma put_free:
  assumes "put_law C bucket view" and "put_bucket req = bucket" and "view b (put_key req) = None"
  shows "\<exists>response b' version. put_object C req b = (Inr response, b')
    \<and> map_of response ''VersionId'' = Some (SText version) \<and> admitted_version version
    \<and> view b' = (view b)(put_key req \<mapsto> put_held req version)"
  using assms(1) [unfolded put_law_def, rule_format, OF assms(2), of b] unfolding assms(3) by simp

lemma put_refused:
  assumes "put_law C bucket view" and "put_bucket req = bucket" and "view b (put_key req) = Some o1"
  shows "\<exists>response. put_object C req b = (Inl (ClientError response), b)
    \<and> client_error_code response \<in> set precondition_codes"
  using assms(1) [unfolded put_law_def, rule_format, OF assms(2), of b] unfolding assms(3) by simp

text \<open>What a free key holds after the put, whatever the date's text.\<close>

lemma create_free:
  assumes "digest_law P" and "bucket_law C (sv_bucket V) view" and "validate_logical_key key = None"
    and "safe_segment (rp_profile_id r)" and "retention_datetime P (rp_retain_until r) = Inr t"
    and "S t \<noteq> None" and "new_retention_profile (r\<lparr>rp_retain_until := the (S t)\<rparr>) = Inr (r\<lparr>rp_retain_until := the (S t)\<rparr>)"
    and "view b key = None"
  obtains b' o1 vid where "view b' = (view b)(key \<mapsto> o1)" "ho_body o1 = content"
    "held_profile S o1 = r\<lparr>rp_retain_until := the (S t)\<rparr>" "sound_held S o1"
    "s3_conditional_create P S C V key content r b
      = (if S t = Some (rp_retain_until r)
         then Inr \<lparr>wr_reference = held_reference P V key content vid, wr_created = True, wr_read_back_verified = True, wr_retention = r\<rparr>
         else Inl (S3VaultError S3_RETENTION), b')"
proof -
  let ?req = "request_for P V key content r t"
  have req: "put_bucket ?req = sv_bucket V" "put_key ?req = key" by (simp_all add: request_for_def)
  have "put_law C (sv_bucket V) view" using assms(2) by (simp add: bucket_law_def)
  then obtain response b' version where put: "put_object C ?req b = (Inr response, b')"
      "map_of response ''VersionId'' = Some (SText version)" "admitted_version version"
      "view b' = (view b)(key \<mapsto> put_held ?req version)"
    using put_free [of C "sv_bucket V" view ?req b] assms(8) req by auto
  obtain vid where vid: "s3_version_reference version = Inr vid" using put(3) by (auto simp: admitted_version_def)
  let ?o = "put_held ?req version"
  have o1: "ho_body ?o = content" "held_profile S ?o = r\<lparr>rp_retain_until := the (S t)\<rparr>" "ho_version ?o = version" "ho_until ?o = t"
    by (simp_all add: put_held_def request_for_def held_profile_def)
  have sound: "sound_held S ?o" using assms(6,7) o1 by (simp add: sound_held_def)
  have "r\<lparr>rp_retain_until := the (S t)\<rparr> = r \<longleftrightarrow> S t = Some (rp_retain_until r)"
    using assms(6) by (cases r) auto
  then have "s3_conditional_create P S C V key content r b
      = (if S t = Some (rp_retain_until r)
         then Inr \<lparr>wr_reference = held_reference P V key content vid, wr_created = True, wr_read_back_verified = True, wr_retention = r\<rparr>
         else Inl (S3VaultError S3_RETENTION), b')"
    using confirm_held [OF assms(1-3), where b = b' and ?o1.0 = ?o and content = content and S = S and vid = vid and r = r] put o1 sound vid
    by (simp add: put_answer [OF assms(3-5)])
  then show ?thesis using that put(4) o1 sound by blast
qed

text \<open>The map a bucket stands for.\<close>

definition held_contents :: "seconds_text \<Rightarrow> (string \<Rightarrow> held_object option) \<Rightarrow> contents" where
  "held_contents S m = (\<lambda>key. map_option (\<lambda>o1. (ho_body o1, held_profile S o1)) (m key))"

definition sound_bucket :: "seconds_text \<Rightarrow> (string \<Rightarrow> held_object option) \<Rightarrow> bool" where
  "sound_bucket S m \<longleftrightarrow> (\<forall>key o1. m key = Some o1 \<longrightarrow> sound_held S o1)"

lemma held_contents_update: "held_contents S (m(key \<mapsto> o1)) = (held_contents S m)(key \<mapsto> (ho_body o1, held_profile S o1))"
  by (auto simp: held_contents_def)

lemma create_held:
  assumes "digest_law P" and "bucket_law C (sv_bucket V) view" and "validate_logical_key key = None"
    and "safe_segment (rp_profile_id r)" and "retention_datetime P (rp_retain_until r) = Inr t"
    and "view b key = Some o1" and "sound_held S o1"
    and "bytes_fingerprint P (ho_body o1) = bytes_fingerprint P content \<Longrightarrow> ho_body o1 = content"
  shows "\<exists>x. s3_conditional_create P S C V key content r b = (x, b) \<and> map_sum id wr_created x
    = (if (ho_body o1, held_profile S o1) = (content, r) then Inr False else Inl (VaultCollision key))"
proof -
  let ?req = "request_for P V key content r t"
  have req: "put_bucket ?req = sv_bucket V" "put_key ?req = key" by (simp_all add: request_for_def)
  have "put_law C (sv_bucket V) view" using assms(2) by (simp add: bucket_law_def)
  then obtain response where "put_object C ?req b = (Inl (ClientError response), b)"
      "client_error_code response \<in> set precondition_codes"
    using put_refused [of C "sv_bucket V" view ?req b] assms(6) req by auto
  then show ?thesis using adopt_held [OF assms(1-3,6-8), of r] by (simp add: put_answer [OF assms(3-5)])
qed

lemma s3_create_refines:
  assumes "digest_law P" and "bucket_law C (sv_bucket V) view" and "validate_logical_key key = None"
    and "dated_profile P S r" and "sound_bucket S (view b)"
    and "\<forall>c q. held_contents S (view b) key = Some (c, q) \<longrightarrow> bytes_fingerprint P c = bytes_fingerprint P content \<longrightarrow> c = content"
  shows "\<exists>x b'. s3_conditional_create P S C V key content r b = (x, b')
    \<and> map_sum id wr_created x = fst (abstract_create key content r (held_contents S (view b)))
    \<and> held_contents S (view b') = snd (abstract_create key content r (held_contents S (view b)))
    \<and> sound_bucket S (view b')"
proof -
  obtain t where t: "retention_datetime P (rp_retain_until r) = Inr t" "S t = Some (rp_retain_until r)"
    using dated_profileE [OF assms(4)] .
  have r: "safe_segment (rp_profile_id r)" "r\<lparr>rp_retain_until := the (S t)\<rparr> = r" "new_retention_profile r = Inr r"
    using assms(4) t(2) by (simp_all add: dated_profile_def)
  show ?thesis
  proof (cases "view b key")
    case None
    have prof: "S t \<noteq> None" "new_retention_profile (r\<lparr>rp_retain_until := the (S t)\<rparr>) = Inr (r\<lparr>rp_retain_until := the (S t)\<rparr>)"
      using r t(2) by simp_all
    show ?thesis
      by (rule create_free [where S = S and content = content and r = r and t = t, OF assms(1-3) r(1) t(1) prof None])
        (use None assms(5) t(2) r(2) in \<open>auto simp: held_contents_update abstract_create_def held_contents_def sound_bucket_def\<close>)
  next
    case (Some o1)
    then have "sound_held S o1" "bytes_fingerprint P (ho_body o1) = bytes_fingerprint P content \<Longrightarrow> ho_body o1 = content"
      using assms(5,6) by (auto simp: sound_bucket_def held_contents_def)
    from create_held [OF assms(1-3) r(1) t(1) Some this] show ?thesis
      using assms(5) Some by (auto simp: abstract_create_def held_contents_def)
  qed
qed

section \<open>Histories\<close>

definition s3_create_step ::
    "platform \<Rightarrow> seconds_text \<Rightarrow> 'b s3_client \<Rightarrow> s3_vault \<Rightarrow> creation \<Rightarrow> 'b \<Rightarrow> (evidence_error + write_receipt) \<times> 'b" where
  "s3_create_step P S C V c b = (case c of (key, content, r) \<Rightarrow> s3_conditional_create P S C V key content r b)"

definition dated_creation :: "platform \<Rightarrow> seconds_text \<Rightarrow> creation \<Rightarrow> bool" where
  "dated_creation P S c \<longleftrightarrow> (case c of (key, content, r) \<Rightarrow> validate_logical_key key = None \<and> dated_profile P S r)"

abbreviation (input) offered :: "creation list \<Rightarrow> string set" where
  "offered cs \<equiv> (\<lambda>(key, content, r). content) ` set cs"

lemma held_from_offered:
  assumes "held_from cs A" and "(key, content, r) \<in> set cs" and "inj_on (bytes_fingerprint P) (offered cs)"
  shows "\<forall>c q. A key = Some (c, q) \<longrightarrow> bytes_fingerprint P c = bytes_fingerprint P content \<longrightarrow> c = content"
proof (intro allI impI)
  fix c q assume held: "A key = Some (c, q)" and same: "bytes_fingerprint P c = bytes_fingerprint P content"
  from held obtain k where "(k, c, q) \<in> set cs" using assms(1) unfolding held_from_def by blast
  then have "c \<in> offered cs" "content \<in> offered cs" using assms(2) by force+
  then show "c = content" using inj_onD [OF assms(3) same] by blast
qed

lemma s3_history_refines:
  assumes "digest_law P" and "bucket_law C (sv_bucket V) view" and "list_all (dated_creation P S) cs"
    and "inj_on (bytes_fingerprint P) (offered cs)"
    and "set ops \<subseteq> set cs" and "sound_bucket S (view b)" and "held_from cs (held_contents S (view b))"
  shows "map (map_sum id wr_created) (answers (s3_create_step P S C V) ops b) = answers abstract_step ops (held_contents S (view b))
    \<and> held_contents S (view (run (s3_create_step P S C V) ops b)) = run abstract_step ops (held_contents S (view b))"
  using assms(5-7)
proof (induction ops arbitrary: b)
  case (Cons op ops)
  obtain key content r where op: "op = (key, content, r)" by (cases op)
  then have mem: "(key, content, r) \<in> set cs" using Cons.prems(1) by simp
  then have "validate_logical_key key = None" "dated_profile P S r"
    using assms(3) by (auto simp: list_all_iff dated_creation_def)
  from s3_create_refines [OF assms(1,2) this Cons.prems(2) held_from_offered [OF Cons.prems(3) mem assms(4)]]
  obtain x b' where step: "s3_conditional_create P S C V key content r b = (x, b')"
      "map_sum id wr_created x = fst (abstract_create key content r (held_contents S (view b)))"
      "held_contents S (view b') = snd (abstract_create key content r (held_contents S (view b)))"
      "sound_bucket S (view b')"
    by blast
  have "held_from cs (held_contents S (view b'))" unfolding step(3) by (rule abstract_held [OF Cons.prems(3) mem])
  then show ?case
    using Cons.IH [OF _ step(4)] Cons.prems(1) by (simp add: op s3_create_step_def abstract_step_def step(1,3) step(2) [unfolded id_def] id_def)
qed simp

text \<open>From a bucket that holds nothing.\<close>

lemma s3_history_from_empty:
  assumes "digest_law P" and "bucket_law C (sv_bucket V) view" and "list_all (dated_creation P S) ops"
    and "inj_on (bytes_fingerprint P) (offered ops)" and "view b = Map.empty"
  shows "map (map_sum id wr_created) (answers (s3_create_step P S C V) ops b) = answers abstract_step ops Map.empty
    \<and> held_contents S (view (run (s3_create_step P S C V) ops b)) = run abstract_step ops Map.empty"
proof -
  have "held_contents S (view b) = Map.empty" by (auto simp: held_contents_def assms(5))
  then show ?thesis
    using s3_history_refines [OF assms(1-4) subset_refl, of b] by (simp add: assms(5) sound_bucket_def held_from_def)
qed

section \<open>A sample bucket\<close>

text \<open>A bucket of the requests it took, each under the version \<^verbatim>\<open>1\<close>.\<close>

type_synonym sample_bucket = "string \<Rightarrow> put_request option"

definition sample_version :: "nat list" where
  "sample_version = points ''1''"

definition sample_view :: "sample_bucket \<Rightarrow> string \<Rightarrow> held_object option" where
  "sample_view b key = map_option (\<lambda>req. put_held req sample_version) (b key)"

abbreviation sample_refusal :: "string \<Rightarrow> (client_exception + s3_response)" where
  "sample_refusal code \<equiv> Inl (ClientError (SMap [(Some ''Error'', SMap [(Some ''Code'', SText (points code))])]))"

definition sample_answer :: "sample_bucket \<Rightarrow> string \<Rightarrow> nat list option \<Rightarrow> (put_request \<Rightarrow> s3_response)
    \<Rightarrow> (client_exception + s3_response) \<times> sample_bucket" where
  "sample_answer b key version f = (case b key of
     Some req \<Rightarrow> if version \<in> {None, Some sample_version} then (Inr (f req), b) else (sample_refusal ''NoSuchVersion'', b)
   | None \<Rightarrow> (sample_refusal ''NoSuchKey'', b))"

definition sample_client :: "sample_bucket s3_client" where
  "sample_client = \<lparr>
     put_object = (\<lambda>req b. case b (put_key req) of
        None \<Rightarrow> (Inr [(''VersionId'', SText sample_version)], b(put_key req \<mapsto> req))
      | Some _ \<Rightarrow> (sample_refusal ''PreconditionFailed'', b)),
     get_object = (\<lambda>bucket key version b. sample_answer b key (Some version)
        (\<lambda>req. [(''Body'', SBody (\<lambda>n. SBytes (take n (put_body req))))])),
     head_object = (\<lambda>bucket key version b. sample_answer b key version
        (\<lambda>req. [(''VersionId'', SText sample_version), (''ContentLength'', SInt (int (length (put_body req)))),
          (''Metadata'', SMap [(Some ''asklegal-retention-profile'', SText (points (put_profile req))),
             (Some ''asklegal-sha256'', SText (points (put_digest req)))])])),
     get_object_retention = (\<lambda>bucket key version b. sample_answer b key (Some version)
        (\<lambda>req. [(''Retention'', SMap [(Some ''Mode'', SText (points ''COMPLIANCE'')),
           (Some ''RetainUntilDate'', SInstant (put_retain_until req))])])),
     get_object_legal_hold = (\<lambda>bucket key version b. sample_answer b key (Some version)
        (\<lambda>req. [(''LegalHold'', SMap [(Some ''Status'', SText (points (if put_legal_hold req then ''ON'' else ''OFF'')))])])),
     get_bucket_versioning = (\<lambda>bucket b. (Inr [(''Status'', SText (points ''Enabled''))], b)),
     get_object_lock_configuration = (\<lambda>bucket b.
        (Inr [(''ObjectLockConfiguration'', SMap [(Some ''ObjectLockEnabled'', SText (points ''Enabled''))])], b))\<rparr>"

lemma sample_bucket_law: "bucket_law sample_client bucket sample_view"
proof -
  have one: "sample_version = [49]" by (simp add: sample_version_def points_def)
  have "is_exact_points [49]" by (simp add: is_exact_points_def point_is_space_def)
  then have adm: "admitted_version sample_version"
    unfolding admitted_version_def version_reference_iff one
    by (simp add: max_provider_version_bytes_def first_control_codepoint_def utf8_encode_def is_scalar_def utf8_point_def)
  have "put_law sample_client bucket sample_view"
    using adm by (auto simp: put_law_def sample_client_def sample_view_def precondition_codes_def client_error_code_def
        split: option.splits)
  moreover have "get_law sample_client bucket sample_view"
    using adm by (auto simp: get_law_def sample_client_def sample_view_def sample_answer_def put_held_def)
  moreover have "lock_law sample_client bucket sample_view"
    by (auto simp: lock_law_def sample_client_def sample_view_def sample_answer_def put_held_def)
  ultimately show ?thesis by (simp add: bucket_law_def)
qed

text \<open>Two dates of one second, one of them with a fraction.\<close>

definition sample_until :: string where
  "sample_until = ''2030-01-01T00:00:00Z''"

definition sample_fraction :: string where
  "sample_fraction = ''2030-01-01T00:00:00.5Z''"

definition dated_platform :: platform where
  "dated_platform = demo_platform\<lparr>from_iso := (\<lambda>s. if s = sample_until then Some (0, True)
     else if s = sample_fraction then Some (500000, True) else None)\<rparr>"

definition sample_seconds :: seconds_text where
  "sample_seconds t = (if 0 \<le> t \<and> t < 1000000 then Some sample_until else None)"

definition dated_retention :: "string \<Rightarrow> retention_profile" where
  "dated_retention until = \<lparr>rp_profile_id = ''p'', rp_retain_until = until, rp_legal_hold = True\<rparr>"

definition sample_s3 :: s3_vault where
  "sample_s3 = \<lparr>sv_settings = \<lparr>vs_vault_name = PRIMARY, vs_endpoint_url = ''https://vault-primary:7070'',
     vs_bucket = ''asklegal-primary-evidence'', vs_ca_bundle_path = ''/etc/asklegal/trust/vault-primary-ca.pem'',
     vs_region = ''us-east-1''\<rparr>\<rparr>"

lemma dated_fields [simp]: "rp_profile_id (dated_retention u) = ''p''" "rp_retain_until (dated_retention u) = u"
  by (simp_all add: dated_retention_def)

lemma dated_platform_law: "digest_law dated_platform"
  using demo_digest_law by (simp add: digest_law_def dated_platform_def)

lemma dated_sample: "dated_profile dated_platform sample_seconds (dated_retention sample_until)"
proof -
  have "safe_segment ''p''" "ends_with sample_until ''Z''" by code_simp+
  moreover have "new_retention_profile (dated_retention sample_until) = Inr (dated_retention sample_until)" by code_simp
  ultimately show ?thesis
    by (simp add: dated_profile_def retention_datetime_def dated_platform_def sample_seconds_def)
qed

lemma dated_plain: "plain_retention (dated_retention sample_until)"
  by code_simp

definition sample_history :: "creation list" where
  "sample_history = [(''a'', ''xy'', dated_retention sample_until), (''a'', ''z'', dated_retention sample_until),
     (''a'', ''xy'', dated_retention sample_until)]"

lemma sample_history_conditions:
  "list_all (dated_creation dated_platform sample_seconds) sample_history"
  "list_all (plain_creation 1) sample_history"
  "inj_on (bytes_fingerprint dated_platform) (offered sample_history)"
proof -
  have len: "length (key_parts ''a'') = 1" by code_simp
  have "bytes_fingerprint dated_platform ''xy'' \<noteq> bytes_fingerprint dated_platform ''z''" by code_simp
  then show "inj_on (bytes_fingerprint dated_platform) (offered sample_history)"
    by (auto simp: inj_on_def sample_history_def)
  show "list_all (dated_creation dated_platform sample_seconds) sample_history"
    using dated_sample sample_conditions(4) by (simp add: sample_history_def dated_creation_def)
  show "list_all (plain_creation 1) sample_history"
    using dated_plain sample_conditions(4) len by (simp add: sample_history_def plain_creation_def max_safe_integer_def)
qed

section \<open>Receipts\<close>

text \<open>
  An S3 receipt is backed by what the provider returned. Whatever the provider answers to any
  call, a creation returns a receipt only after reading bytes of the content's length and digest (of
  a present object: exactly its bytes) and the same retention profile back under the receipt's own
  reference.
\<close>

theorem s3_receipts_are_read_back:
  assumes "s3_conditional_create P S C V key content r b = (Inr w, b')"
  shows "or_logical_key (wr_reference w) = key \<and> wr_retention w = r
    \<and> (\<exists>c. bytes_fingerprint P c = bytes_fingerprint P content \<and> length c = length content
        \<and> (\<not> wr_created w \<longrightarrow> c = content) \<and> read_back P S C V (wr_reference w) c r b')"
  using assms by (rule s3_created)

lemma sample_stored:
  obtains w b' where "s3_conditional_create dated_platform sample_seconds sample_client sample_s3 ''a'' ''xy''
    (dated_retention sample_until) Map.empty = (Inr w, b')" "wr_created w"
proof -
  have "sound_bucket sample_seconds (sample_view Map.empty)" by (simp add: sound_bucket_def sample_view_def)
  moreover have "held_contents sample_seconds (sample_view Map.empty) = Map.empty"
    by (auto simp: held_contents_def sample_view_def)
  ultimately obtain x b' where x: "s3_conditional_create dated_platform sample_seconds sample_client sample_s3 ''a'' ''xy''
      (dated_retention sample_until) Map.empty = (x, b')" "map_sum id wr_created x = Inr True"
    using s3_create_refines [OF dated_platform_law sample_bucket_law sample_conditions(4) dated_sample,
        of Map.empty "''xy''" sample_s3]
    by (auto simp: abstract_create_def)
  then show ?thesis using that by (cases x) auto
qed

lemma s3_receipts_are_read_back_witness:
  "\<exists>w b' c. s3_conditional_create dated_platform sample_seconds sample_client sample_s3 ''a'' ''xy''
        (dated_retention sample_until) Map.empty = (Inr w, b')
     \<and> length c = 2 \<and> read_back dated_platform sample_seconds sample_client sample_s3 (wr_reference w) c
        (dated_retention sample_until) b'"
proof -
  obtain w b' where w: "s3_conditional_create dated_platform sample_seconds sample_client sample_s3 ''a'' ''xy''
      (dated_retention sample_until) Map.empty = (Inr w, b')" "wr_created w"
    by (rule sample_stored)
  show ?thesis using s3_receipts_are_read_back [OF w(1)] w(1) by (auto simp: eval_nat_numeral)
qed

section \<open>One contract for both vaults\<close>

text \<open>
  The S3 vault refines a write-once map. Over a bucket that keeps versioning, object lock and
  conditional put, any history of creations whose dates are canonical answers each creation as the
  map from keys to their first content and profile does, and the bucket ends holding that map. The
  digest tells the contents offered apart.
\<close>

theorem s3_vault_refines_write_once_map:
  assumes "digest_law P" and "bucket_law C (sv_bucket V) view" and "list_all (dated_creation P S) ops"
    and "inj_on (bytes_fingerprint P) ((\<lambda>(key, content, r). content) ` set ops)" and "view b = Map.empty"
  shows "map (map_sum id wr_created) (answers (s3_create_step P S C V) ops b) = answers abstract_step ops Map.empty
    \<and> held_contents S (view (run (s3_create_step P S C V) ops b)) = run abstract_step ops Map.empty"
  using assms by (rule s3_history_from_empty)

lemma empty_sample_view: "sample_view Map.empty = Map.empty"
  by (auto simp: sample_view_def)

lemma s3_vault_refines_write_once_map_witness:
  "map (map_sum id wr_created) (answers (s3_create_step dated_platform sample_seconds sample_client sample_s3) sample_history Map.empty)
     = [Inr True, Inl (VaultCollision ''a''), Inr False]"
  using s3_vault_refines_write_once_map [where view = sample_view and b = Map.empty and V = sample_s3,
      OF dated_platform_law sample_bucket_law sample_history_conditions(1,3) empty_sample_view]
  by (simp add: sample_history_def abstract_step_def abstract_create_def)

lemma length_answers: "length (answers step ops s) = length ops"
  by (induction ops arbitrary: s) simp_all

lemma receipt_created: "map_sum id wr_created (map_sum id (receipt_for P name c) x) = x"
  by (cases x; cases c) (simp_all add: receipt_for_def create_receipt_def)

lemma created_answers:
  "length xs = length ops \<Longrightarrow> map (map_sum id wr_created) (map2 (\<lambda>c. map_sum id (receipt_for P name c)) ops xs) = xs"
  by (induction xs ops rule: list_induct2) (simp_all only: zip_Cons_Cons zip_Nil list.map case_prod_conv receipt_created)

text \<open>
  C28: On plain creations the two vaults are interchangeable. The local vault and the S3 vault over a
  sound bucket, each starting empty and given the same history of creations, store the same ones, accept
  the same ones as already present and refuse the same ones with the same error, provided that
  every key is a valid key and all have one number of segments; every retention profile is valid and
  printable, its date an exact second in the very text the S3 vault reads back; no content is longer
  than a safe integer; and the digest tells the contents offered apart. Without these they do differ: at
  a key that another stored key extends only the local vault raises
  (\<^verbatim>\<open>nested_object_corrupts_key\<close>), under a date with a fraction of a second only the S3 vault
  (\<^verbatim>\<open>inexact_date_locks_object\<close>).
\<close>

theorem both_vaults_answer_alike:
  assumes "digest_law P" and "encoder_law E" and "bucket_law C (sv_bucket V) view"
    and "list_all (plain_creation n) ops" and "list_all (dated_creation P S) ops"
    and "inj_on (bytes_fingerprint P) ((\<lambda>(key, content, r). content) ` set ops)" and "view b = Map.empty"
  shows "map (map_sum id wr_created) (answers (create_step P E) ops (empty_vault name))
    = map (map_sum id wr_created) (answers (s3_create_step P S C V) ops b)"
proof -
  have "answers (create_step P E) ops (empty_vault name)
      = map2 (\<lambda>c. map_sum id (receipt_for P name c)) ops (answers abstract_step ops Map.empty)"
    using create_history_refines [OF assms(1,2,4,6) subset_refl empty_vault_ok empty_flat empty_represents, of name]
    by (simp add: empty_vault_def held_from_def)
  moreover have "length (answers abstract_step ops Map.empty) = length ops" by (rule length_answers)
  ultimately show ?thesis using s3_history_from_empty [OF assms(1,3,5-7)] created_answers by metis
qed

lemma both_vaults_answer_alike_witness:
  "map (map_sum id wr_created) (answers (create_step dated_platform plain_encoder) sample_history (empty_vault PRIMARY))
    = map (map_sum id wr_created) (answers (s3_create_step dated_platform sample_seconds sample_client sample_s3) sample_history Map.empty)"
  by (rule both_vaults_answer_alike [where view = sample_view and b = Map.empty and V = sample_s3,
      OF dated_platform_law sample_conditions(2) sample_bucket_law sample_history_conditions(2,1,3) empty_sample_view])

section \<open>Dates it cannot confirm\<close>

text \<open>
  A date with a fraction of a second locks an object it then refuses. The date is sent exactly and
  read back as text in whole seconds: where the two texts differ, the first creation stores the
  object under a COMPLIANCE lock and raises the retention error, and every retry of it is refused as
  a collision.
\<close>

theorem inexact_date_locks_object:
  assumes "digest_law P" and "bucket_law C (sv_bucket V) view" and "validate_logical_key key = None"
    and "safe_segment (rp_profile_id r)" and "retention_datetime P (rp_retain_until r) = Inr t"
    and "S t = Some other" and "other \<noteq> rp_retain_until r"
    and "new_retention_profile (r\<lparr>rp_retain_until := other\<rparr>) = Inr (r\<lparr>rp_retain_until := other\<rparr>)"
    and "view b key = None"
  shows "\<exists>b' o1. s3_conditional_create P S C V key content r b = (Inl (S3VaultError S3_RETENTION), b')
    \<and> view b' key = Some o1 \<and> ho_body o1 = content
    \<and> s3_conditional_create P S C V key content r b' = (Inl (VaultCollision key), b')"
proof -
  have S: "S t \<noteq> None" "the (S t) = other" "S t \<noteq> Some (rp_retain_until r)" using assms(6,7) by auto
  have prof: "new_retention_profile (r\<lparr>rp_retain_until := the (S t)\<rparr>) = Inr (r\<lparr>rp_retain_until := the (S t)\<rparr>)"
    using assms(8) S(2) by simp
  obtain b' o1 where b': "view b' = (view b)(key \<mapsto> o1)" "ho_body o1 = content"
      "held_profile S o1 = r\<lparr>rp_retain_until := other\<rparr>" "sound_held S o1"
      "s3_conditional_create P S C V key content r b = (Inl (S3VaultError S3_RETENTION), b')"
    by (rule create_free [where S = S and content = content and r = r and t = t, OF assms(1-5) S(1) prof assms(9)])
      (use S(2,3) in simp)
  have held: "view b' key = Some o1" by (simp add: b'(1))
  have "held_profile S o1 \<noteq> r" using b'(3) assms(7) by (cases r) auto
  then obtain x where x: "s3_conditional_create P S C V key content r b' = (x, b')" "map_sum id wr_created x = Inl (VaultCollision key)"
    using create_held [where S = S and content = content, OF assms(1-5) held b'(4)] b'(2) by auto
  then have "s3_conditional_create P S C V key content r b' = (Inl (VaultCollision key), b')" by (cases x) auto
  then show ?thesis using b'(2,5) held by blast
qed

lemma inexact_date_locks_object_witness:
  "\<exists>b' o1. s3_conditional_create dated_platform sample_seconds sample_client sample_s3 ''a'' ''xy''
        (dated_retention sample_fraction) Map.empty = (Inl (S3VaultError S3_RETENTION), b')
    \<and> sample_view b' ''a'' = Some o1 \<and> ho_body o1 = ''xy''
    \<and> s3_conditional_create dated_platform sample_seconds sample_client sample_s3 ''a'' ''xy''
        (dated_retention sample_fraction) b' = (Inl (VaultCollision ''a''), b')"
proof (rule inexact_date_locks_object [OF dated_platform_law sample_bucket_law sample_conditions(4)])
  show "safe_segment (rp_profile_id (dated_retention sample_fraction))" by code_simp
  have "ends_with sample_fraction ''Z''" "sample_fraction \<noteq> sample_until" by code_simp+
  then show "retention_datetime dated_platform (rp_retain_until (dated_retention sample_fraction)) = Inr 500000"
    "sample_until \<noteq> rp_retain_until (dated_retention sample_fraction)"
    by (simp_all add: retention_datetime_def dated_platform_def)
  show "sample_seconds 500000 = Some sample_until" by (simp add: sample_seconds_def)
  show "new_retention_profile (dated_retention sample_fraction\<lparr>rp_retain_until := sample_until\<rparr>)
      = Inr (dated_retention sample_fraction\<lparr>rp_retain_until := sample_until\<rparr>)" by code_simp
qed (simp add: sample_view_def)

end
