(* ===== verification/CaseWork.thy ===== *)
theory CaseWork
  imports StrictJson Stores
begin

text \<open>
  The blocked work of Hong Kong cases:
  \<^verbatim>\<open>packages/management-register/src/asklegal_management_register_ports/hk_case_work.py\<close>. A private
  snapshot of the source and the value it is taken of are one record here, so capturing a value and
  rebuilding one from its snapshot, which detach it from its caller, need no definition of their own
  except where the shape changes. A \<^verbatim>\<open>TypeError\<close>, \<^verbatim>\<open>ValueError\<close> or \<^verbatim>\<open>AttributeError\<close>, which every handler
  catches together, is \<^verbatim>\<open>WorkFault\<close>.
\<close>

section \<open>Vocabulary and failures\<close>

datatype work_stage = PROPOSITION_DECISION | PROPOSITION_CHALLENGE | TREATMENT_DECISION | TREATMENT_CHALLENGE

fun work_stage_value :: "work_stage \<Rightarrow> string" where
  "work_stage_value PROPOSITION_DECISION = ''PROPOSITION_DECISION''"
| "work_stage_value PROPOSITION_CHALLENGE = ''PROPOSITION_CHALLENGE''"
| "work_stage_value TREATMENT_DECISION = ''TREATMENT_DECISION''"
| "work_stage_value TREATMENT_CHALLENGE = ''TREATMENT_CHALLENGE''"

datatype work_status = BLOCKED_SEMANTIC_CAPABILITY_DISABLED

fun work_status_value :: "work_status \<Rightarrow> string" where
  "work_status_value BLOCKED_SEMANTIC_CAPABILITY_DISABLED = ''BLOCKED_SEMANTIC_CAPABILITY_DISABLED''"

definition required_blockers :: "string list" where
  "required_blockers = [''AUTHENTIC_INVENTORY_NOT_ADMITTED'', ''CURRENT_AUTHORITY_NOT_ESTABLISHED'',
     ''REGISTER_IDENTITY_ISSUANCE_UNAVAILABLE'', ''SEMANTIC_WORKFLOW_NOT_ADMITTED'', ''SEMANTIC_CAPABILITY_DISABLED'']"

datatype work_error_code =
    REQUEST_INVALID | CHECKPOINT_INVALID | IDENTITY_CONFLICT | REPLAY_MISMATCH | CHECKPOINT_MISSING
  | POSITIVE_RESULT_UNSUPPORTED

datatype work_raise = WorkError work_error_code | WorkFault

text \<open>\<^verbatim>\<open>except (AttributeError, TypeError, ValueError): raise HKCaseWorkError(code)\<close>, after a re-raise of
  \<^verbatim>\<open>HKCaseWorkError\<close>, and without it: the error is a \<^verbatim>\<open>ValueError\<close> itself.\<close>

fun fault_as :: "work_error_code \<Rightarrow> work_raise + 'a \<Rightarrow> work_raise + 'a" where
  "fault_as code (Inl WorkFault) = Inl (WorkError code)"
| "fault_as code r = r"

fun all_as :: "work_error_code \<Rightarrow> work_raise + 'a \<Rightarrow> work_raise + 'a" where
  "all_as code (Inl _) = Inl (WorkError code)"
| "all_as code (Inr x) = Inr x"

section \<open>Text\<close>

definition max_text_length :: nat where
  "max_text_length = 512"

definition max_checkpoint_bytes :: nat where
  "max_checkpoint_bytes = 16384"

definition work_text :: "string \<Rightarrow> work_raise option" where
  "work_text s = raise_if (s = [] \<or> max_text_length < length s) WorkFault"

definition work_fingerprint :: "string \<Rightarrow> work_raise option" where
  "work_fingerprint s = first_raise [work_text s, raise_if (length s \<noteq> 71 \<or> \<not> fingerprint_pattern s) WorkFault]"

text \<open>\<^verbatim>\<open>[A-Za-z0-9][A-Za-z0-9._:/+-]{0,511}\<close>, without \<^verbatim>\<open>://\<close>\<close>

definition is_alphanumeric :: "char \<Rightarrow> bool" where
  "is_alphanumeric c \<longleftrightarrow> is_upper c \<or> is_lower c \<or> is_digit c"

definition opaque_pattern :: "string \<Rightarrow> bool" where
  "opaque_pattern s \<longleftrightarrow> s \<noteq> [] \<and> length s \<le> 512 \<and> is_alphanumeric (hd s)
     \<and> list_all (\<lambda>c. is_alphanumeric c \<or> c \<in> set ''._:/+-'') (tl s)"

definition has_scheme :: "string \<Rightarrow> bool" where
  "has_scheme s \<longleftrightarrow> list_ex (\<lambda>i. starts_with (drop i s) ''://'') [0..<length s]"

definition opaque_ref :: "string \<Rightarrow> work_raise option" where
  "opaque_ref s = first_raise [work_text s, raise_if (has_scheme s \<or> \<not> opaque_pattern s) WorkFault]"

text \<open>The texts \<^verbatim>\<open>int(text, 16)\<close> reads: spaces around, a sign, a prefix, single underscores between digits.\<close>

definition is_hex_digit :: "char \<Rightarrow> bool" where
  "is_hex_digit c \<longleftrightarrow> is_hex c \<or> in_range (CHR ''A'') (CHR ''F'') c"

definition reads_base16 :: "string \<Rightarrow> bool" where
  "reads_base16 s = (let t = strip s;
     u = (if t \<noteq> [] \<and> (hd t = CHR ''+'' \<or> hd t = CHR ''-'') then tl t else t);
     v = (if starts_with u ''0x'' \<or> starts_with u ''0X''
          then (if starts_with (drop 2 u) ''_'' then drop 3 u else drop 2 u) else u)
     in list_all (\<lambda>group. group \<noteq> [] \<and> list_all is_hex_digit group) (split_on (CHR ''_'') v))"

definition work_prefix :: string where
  "work_prefix = ''hk-case-work:''"

definition check_work_item_id :: "string \<Rightarrow> work_raise option" where
  "check_work_item_id s = first_raise
     [work_text s, raise_if (length s \<noteq> length work_prefix + 64 \<or> \<not> starts_with s work_prefix) WorkFault,
      raise_if (\<not> reads_base16 (drop (length work_prefix) s)) WorkFault]"

section \<open>Canonical text\<close>

fun sort_members :: "json \<Rightarrow> json" where
  "sort_members (JArray items) = JArray (map sort_members items)"
| "sort_members (JObject pairs) = JObject (sort_key fst (map (\<lambda>(k, v). (k, sort_members v)) pairs))"
| "sort_members j = j"

text \<open>
  \<^verbatim>\<open>_canonical\<close>, of documents of validated text: it is ASCII, which \<^verbatim>\<open>ensure_ascii=False\<close> writes as
  \<^const>\<open>json_text\<close> does, and its bytes are its characters.
\<close>

definition work_canonical :: "json \<Rightarrow> string" where
  "work_canonical j = json_text (sort_members j)"

section \<open>Requests\<close>

record work_request =
  wq_workflow_version :: string
  wq_source_cycle_ref :: string
  wq_source_cycle_fingerprint :: string
  wq_accounting_checkpoint_ref :: string
  wq_accounting_checkpoint_fingerprint :: string
  wq_withholding_checkpoint_ref :: string
  wq_withholding_checkpoint_fingerprint :: string
  wq_listing_id :: string
  wq_stage :: work_stage
  wq_subject_fingerprint :: string
  wq_input_fingerprint :: string

definition validate_request_snapshot :: "work_request \<Rightarrow> work_raise + work_request" where
  "validate_request_snapshot q = construct
     [opaque_ref (wq_workflow_version q), opaque_ref (wq_source_cycle_ref q), work_fingerprint (wq_source_cycle_fingerprint q),
      opaque_ref (wq_accounting_checkpoint_ref q), work_fingerprint (wq_accounting_checkpoint_fingerprint q),
      opaque_ref (wq_withholding_checkpoint_ref q), work_fingerprint (wq_withholding_checkpoint_fingerprint q),
      opaque_ref (wq_listing_id q), work_fingerprint (wq_subject_fingerprint q), work_fingerprint (wq_input_fingerprint q)] q"

definition snapshot_work_request :: "work_request \<Rightarrow> work_raise + work_request" where
  "snapshot_work_request q = all_as REQUEST_INVALID (validate_request_snapshot q)"

definition request_members :: "work_request \<Rightarrow> (string \<times> json) list" where
  "request_members q =
     [(''schema_id'', JText ''asklegal.hk-case-work-request/v1''),
      (''workflow_version'', JText (wq_workflow_version q)),
      (''source_cycle_ref'', JText (wq_source_cycle_ref q)),
      (''source_cycle_fingerprint'', JText (wq_source_cycle_fingerprint q)),
      (''accounting_checkpoint_ref'', JText (wq_accounting_checkpoint_ref q)),
      (''accounting_checkpoint_fingerprint'', JText (wq_accounting_checkpoint_fingerprint q)),
      (''withholding_checkpoint_ref'', JText (wq_withholding_checkpoint_ref q)),
      (''withholding_checkpoint_fingerprint'', JText (wq_withholding_checkpoint_fingerprint q)),
      (''listing_id'', JText (wq_listing_id q)),
      (''stage'', JText (work_stage_value (wq_stage q))),
      (''subject_fingerprint'', JText (wq_subject_fingerprint q)),
      (''input_fingerprint'', JText (wq_input_fingerprint q))]"

section \<open>Identities\<close>

text \<open>\<^verbatim>\<open>HKCaseWorkIdentity\<close>, whose fields are those of a request and the derived identifier.\<close>

record work_identity = work_request +
  wi_work_item_id :: string

record identity_snapshot =
  is_work_item_id :: string
  is_request :: work_request

definition capture_identity :: "work_identity \<Rightarrow> identity_snapshot" where
  "capture_identity i = \<lparr>is_work_item_id = wi_work_item_id i, is_request = work_request.truncate i\<rparr>"

definition identity_from_snapshot :: "identity_snapshot \<Rightarrow> work_identity" where
  "identity_from_snapshot s = work_request.extend (is_request s) (work_identity.fields (is_work_item_id s))"

definition derived_work_id :: "platform \<Rightarrow> work_request \<Rightarrow> string" where
  "derived_work_id P q = work_prefix @ drop 7 (sha256_fingerprint P (work_canonical (JObject (request_members q))))"

definition validate_identity_snapshot :: "platform \<Rightarrow> identity_snapshot \<Rightarrow> work_raise + identity_snapshot" where
  "validate_identity_snapshot P s = guarded [check_work_item_id (is_work_item_id s)]
     (and_then (validate_request_snapshot (is_request s)) (\<lambda>request. construct
        [raise_if (is_work_item_id s \<noteq> derived_work_id P request) WorkFault]
        \<lparr>is_work_item_id = is_work_item_id s, is_request = request\<rparr>))"

definition new_work_identity :: "platform \<Rightarrow> work_identity \<Rightarrow> work_raise + work_identity" where
  "new_work_identity P i = and_then (all_as REQUEST_INVALID (validate_identity_snapshot P (capture_identity i))) (\<lambda>_. Inr i)"

definition identity_members :: "identity_snapshot \<Rightarrow> bool \<Rightarrow> (string \<times> json) list" where
  "identity_members s include_id = request_members (is_request s)
     @ (if include_id then [(''work_item_id'', JText (is_work_item_id s))] else [])"

definition identity_facts :: "platform \<Rightarrow> work_identity \<Rightarrow> bool \<Rightarrow> work_raise + json" where
  "identity_facts P i include_id = and_then (validate_identity_snapshot P (capture_identity i))
     (\<lambda>s. Inr (JObject (identity_members s include_id)))"

definition build_work_identity :: "platform \<Rightarrow> work_request \<Rightarrow> work_raise + work_identity" where
  "build_work_identity P request = and_then (snapshot_work_request request) (\<lambda>detached.
     and_then (validate_request_snapshot detached) (\<lambda>q.
     Inr (identity_from_snapshot \<lparr>is_work_item_id = derived_work_id P q, is_request = q\<rparr>)))"

section \<open>Checkpoints\<close>

record work_checkpoint =
  cp_identity :: work_identity
  cp_status :: work_status
  cp_blocker_codes :: "string list"
  cp_result_ref :: "string option"
  cp_result_fingerprint :: "string option"
  cp_checkpoint_fingerprint :: string

record checkpoint_snapshot =
  ck_identity :: identity_snapshot
  ck_status :: work_status
  ck_blocker_codes :: "string list"
  ck_fingerprint :: string

definition validate_blocker_codes :: "string list \<Rightarrow> work_raise + string list" where
  "validate_blocker_codes codes = construct (map work_text codes @ [raise_if (codes \<noteq> required_blockers) WorkFault]) codes"

definition checkpoint_document :: "identity_snapshot \<Rightarrow> string list \<Rightarrow> string option \<Rightarrow> json" where
  "checkpoint_document s codes fingerprint = JObject
     ([(''schema_id'', JText ''asklegal.hk-case-work-checkpoint/v1''),
       (''identity'', JObject (identity_members s True)),
       (''status'', JText (work_status_value BLOCKED_SEMANTIC_CAPABILITY_DISABLED)),
       (''blocker_codes'', JArray (map JText codes)),
       (''result_ref'', JNull),
       (''result_fingerprint'', JNull)]
      @ (case fingerprint of None \<Rightarrow> [] | Some f \<Rightarrow> [(''checkpoint_fingerprint'', JText f)]))"

definition derived_checkpoint_fingerprint :: "platform \<Rightarrow> identity_snapshot \<Rightarrow> string list \<Rightarrow> string" where
  "derived_checkpoint_fingerprint P s codes = sha256_fingerprint P (work_canonical (checkpoint_document s codes None))"

definition validate_checkpoint_snapshot :: "platform \<Rightarrow> work_checkpoint \<Rightarrow> work_raise + checkpoint_snapshot" where
  "validate_checkpoint_snapshot P c =
     and_then (validate_identity_snapshot P (capture_identity (cp_identity c))) (\<lambda>identity.
     and_then (validate_blocker_codes (cp_blocker_codes c)) (\<lambda>codes. construct
       [raise_if (cp_result_ref c \<noteq> None \<or> cp_result_fingerprint c \<noteq> None) (WorkError POSITIVE_RESULT_UNSUPPORTED),
        raise_if (cp_status c \<noteq> BLOCKED_SEMANTIC_CAPABILITY_DISABLED) WorkFault,
        work_fingerprint (cp_checkpoint_fingerprint c),
        raise_if (cp_checkpoint_fingerprint c \<noteq> derived_checkpoint_fingerprint P identity codes) WorkFault]
       \<lparr>ck_identity = identity, ck_status = cp_status c, ck_blocker_codes = codes,
         ck_fingerprint = cp_checkpoint_fingerprint c\<rparr>))"

definition checkpoint_from_snapshot :: "checkpoint_snapshot \<Rightarrow> work_checkpoint" where
  "checkpoint_from_snapshot s = \<lparr>cp_identity = identity_from_snapshot (ck_identity s), cp_status = ck_status s,
     cp_blocker_codes = ck_blocker_codes s, cp_result_ref = None, cp_result_fingerprint = None,
     cp_checkpoint_fingerprint = ck_fingerprint s\<rparr>"

definition canonical_snapshot :: "checkpoint_snapshot \<Rightarrow> string" where
  "canonical_snapshot s = work_canonical (checkpoint_document (ck_identity s) (ck_blocker_codes s) (Some (ck_fingerprint s)))"

definition new_work_checkpoint :: "platform \<Rightarrow> work_checkpoint \<Rightarrow> work_raise + work_checkpoint" where
  "new_work_checkpoint P c = and_then (fault_as CHECKPOINT_INVALID (validate_checkpoint_snapshot P c)) (\<lambda>_. Inr c)"

definition copy_checkpoint :: "platform \<Rightarrow> work_checkpoint \<Rightarrow> work_raise + work_checkpoint" where
  "copy_checkpoint P c = and_then (validate_checkpoint_snapshot P c) (\<lambda>s. Inr (checkpoint_from_snapshot s))"

definition replay_work_checkpoint :: "platform \<Rightarrow> work_checkpoint \<Rightarrow> work_raise + work_checkpoint" where
  "replay_work_checkpoint P c = and_then (fault_as CHECKPOINT_INVALID (validate_checkpoint_snapshot P c)) (\<lambda>_. Inr c)"

definition canonical_work_checkpoint :: "platform \<Rightarrow> work_checkpoint \<Rightarrow> work_raise + string" where
  "canonical_work_checkpoint P c = and_then (fault_as CHECKPOINT_INVALID (validate_checkpoint_snapshot P c))
     (\<lambda>s. Inr (canonical_snapshot s))"

section \<open>The factory\<close>

text \<open>
  Issuance is by object identity. A checkpoint object has an address, \<^verbatim>\<open>id(checkpoint)\<close>, which a later
  object may get again, an identity no other object ever has, and the value it holds now. The
  registry keeps for an address the object it was issued to and its canonical text; a dead weak
  reference is one to an object nobody can pass in. The runtime picks the place of a new object.
\<close>

record object_place =
  op_address :: nat
  op_serial :: nat

record checkpoint_object =
  co_place :: object_place
  co_value :: work_checkpoint

type_synonym checkpoint_factory = "(nat \<times> nat \<times> string) list"

definition new_factory :: checkpoint_factory where
  "new_factory = []"

definition issue_blocked ::
    "platform \<Rightarrow> work_identity \<Rightarrow> string list \<Rightarrow> object_place \<Rightarrow> checkpoint_factory
       \<Rightarrow> (work_raise + checkpoint_object) \<times> checkpoint_factory" where
  "issue_blocked P i codes place F =
     (case fault_as CHECKPOINT_INVALID
         (and_then (validate_identity_snapshot P (capture_identity i)) (\<lambda>identity.
          and_then (validate_blocker_codes codes) (\<lambda>blockers.
          Inr \<lparr>ck_identity = identity, ck_status = BLOCKED_SEMANTIC_CAPABILITY_DISABLED, ck_blocker_codes = blockers,
            ck_fingerprint = derived_checkpoint_fingerprint P identity blockers\<rparr>))) of
        Inl e \<Rightarrow> (Inl e, F)
      | Inr s \<Rightarrow> (Inr \<lparr>co_place = place, co_value = checkpoint_from_snapshot s\<rparr>,
          AList.update (op_address place) (op_serial place, canonical_snapshot s) F))"

definition issued_snapshot :: "platform \<Rightarrow> checkpoint_factory \<Rightarrow> checkpoint_object \<Rightarrow> work_raise + checkpoint_snapshot" where
  "issued_snapshot P F c = and_then (validate_checkpoint_snapshot P (co_value c)) (\<lambda>s.
     case map_of F (op_address (co_place c)) of
       None \<Rightarrow> Inl WorkFault
     | Some (serial, expected) \<Rightarrow> construct
         [raise_if (serial \<noteq> op_serial (co_place c) \<or> canonical_snapshot s \<noteq> expected) WorkFault] s)"

definition assert_issued :: "platform \<Rightarrow> checkpoint_factory \<Rightarrow> checkpoint_object \<Rightarrow> work_raise + checkpoint_object" where
  "assert_issued P F c = and_then (all_as REPLAY_MISMATCH (issued_snapshot P F c)) (\<lambda>_. Inr c)"

record prepared_write =
  wp_checkpoint :: work_checkpoint
  wp_canonical :: string
  wp_work_item_id :: string
  wp_checkpoint_fingerprint :: string
  wp_blocker_codes :: "string list"

definition prepare_port_write :: "platform \<Rightarrow> checkpoint_factory \<Rightarrow> checkpoint_object \<Rightarrow> work_raise + prepared_write" where
  "prepare_port_write P F c = fault_as REPLAY_MISMATCH (and_then (issued_snapshot P F c) (\<lambda>s.
     Inr \<lparr>wp_checkpoint = checkpoint_from_snapshot s, wp_canonical = canonical_snapshot s,
       wp_work_item_id = is_work_item_id (ck_identity s), wp_checkpoint_fingerprint = ck_fingerprint s,
       wp_blocker_codes = ck_blocker_codes s\<rparr>))"

definition returned_projection ::
    "platform \<Rightarrow> work_checkpoint \<Rightarrow> string \<Rightarrow> work_raise + string \<times> string \<times> string list" where
  "returned_projection P c expected = fault_as REPLAY_MISMATCH (and_then (validate_checkpoint_snapshot P c) (\<lambda>s.
     construct [raise_if (canonical_snapshot s \<noteq> expected) WorkFault]
       (is_work_item_id (ck_identity s), ck_fingerprint s, ck_blocker_codes s)))"

definition build_blocked_checkpoint ::
    "platform \<Rightarrow> work_identity \<Rightarrow> string list \<Rightarrow> object_place \<Rightarrow> work_raise + checkpoint_object" where
  "build_blocked_checkpoint P i codes place = fst (issue_blocked P i codes place new_factory)"

section \<open>The store\<close>

type_synonym checkpoint_store = "(string \<times> work_checkpoint) list"

definition admit_checkpoint :: "platform \<Rightarrow> work_checkpoint \<Rightarrow> string \<Rightarrow> work_raise + work_checkpoint \<times> string" where
  "admit_checkpoint P c expected = fault_as CHECKPOINT_INVALID (guarded
     [raise_if (expected = [] \<or> max_checkpoint_bytes < length expected) WorkFault]
     (and_then (validate_checkpoint_snapshot P c) (\<lambda>captured.
      let incoming = checkpoint_from_snapshot captured in
      and_then (validate_checkpoint_snapshot P incoming) (\<lambda>s. construct
        [raise_if (canonical_snapshot s \<noteq> expected) WorkFault] (incoming, canonical_snapshot s)))))"

definition stored_checkpoint :: "platform \<Rightarrow> checkpoint_store \<Rightarrow> string \<Rightarrow> work_raise + work_checkpoint" where
  "stored_checkpoint P T key = (case map_of T key of
     None \<Rightarrow> Inl (WorkError CHECKPOINT_MISSING)
   | Some c \<Rightarrow> copy_checkpoint P c)"

definition record_checkpoint ::
    "platform \<Rightarrow> work_checkpoint \<Rightarrow> string \<Rightarrow> checkpoint_store \<Rightarrow> (work_raise + work_checkpoint) \<times> checkpoint_store" where
  "record_checkpoint P c expected T =
     (case admit_checkpoint P c expected of
        Inl e \<Rightarrow> (Inl e, T)
      | Inr (incoming, canonical) \<Rightarrow> (let key = wi_work_item_id (cp_identity incoming) in
          case map_of T key of
            None \<Rightarrow> (let T' = AList.update key incoming T in (stored_checkpoint P T' key, T'))
          | Some current \<Rightarrow> (case validate_checkpoint_snapshot P current of
              Inl e \<Rightarrow> (Inl e, T)
            | Inr s \<Rightarrow> if canonical_snapshot s \<noteq> canonical then (Inl (WorkError IDENTITY_CONFLICT), T)
                else (stored_checkpoint P T key, T))))"

definition get_checkpoint :: "platform \<Rightarrow> checkpoint_store \<Rightarrow> string \<Rightarrow> work_raise + work_checkpoint" where
  "get_checkpoint P T work_item_id = guarded
     [map_option (\<lambda>_. WorkError CHECKPOINT_MISSING) (check_work_item_id work_item_id)] (stored_checkpoint P T work_item_id)"

end
