(* ===== verification/CaseWorkFacts.thy ===== *)
theory CaseWorkFacts
  imports CaseWork StrictJsonProperties
begin

text \<open>
  What the validations of blocked case work admit, and what its canonical texts determine: a valid
  identity is its request's, a valid checkpoint its identity's, and the text of either determines it.
\<close>

section \<open>Canonical text\<close>

lemma json_text_inj: "readable a \<Longrightarrow> readable b \<Longrightarrow> json_text a = json_text b \<Longrightarrow> a = b"
  by (metis parse_json_text order_refl sum.inject(2))

definition member_value :: "json \<Rightarrow> string \<Rightarrow> json option" where
  "member_value j k = (case j of JObject pairs \<Rightarrow> map_of pairs k | _ \<Rightarrow> None)"

abbreviation sorted_pairs :: "(string \<times> json) list \<Rightarrow> (string \<times> json) list" where
  "sorted_pairs pairs \<equiv> map (\<lambda>(k, v). (k, sort_members v)) pairs"

lemma fst_sorted_pair [simp]: "fst \<circ> (\<lambda>(k, v). (k, sort_members v)) = fst"
  by auto

lemma map_of_sorted_pairs: "map_of (sorted_pairs pairs) k = map_option sort_members (map_of pairs k)"
  by (induction pairs) auto

lemma member_value_sorted:
  "distinct (map fst pairs) \<Longrightarrow> member_value (sort_members (JObject pairs)) k = map_option sort_members (map_of pairs k)"
  by (simp add: member_value_def map_of_sorted_pairs)

lemma readable_sorted:
  "distinct (map fst pairs) \<Longrightarrow> list_all (\<lambda>(k, v). readable (sort_members v)) pairs \<Longrightarrow> readable (sort_members (JObject pairs))"
  by (auto simp: list_all_iff)

lemma work_canonical_inj:
  assumes "work_canonical a = work_canonical b" and "readable (sort_members a)" and "readable (sort_members b)"
  shows "sort_members a = sort_members b"
  using assms json_text_inj by (simp add: work_canonical_def)

lemma request_member_keys: "distinct (map fst (request_members q))"
  unfolding request_members_def by simp

lemma identity_member_keys: "distinct (map fst (identity_members s b))"
  unfolding identity_members_def request_members_def by simp

lemma request_readable: "readable (sort_members (JObject (request_members q)))"
  by (rule readable_sorted [OF request_member_keys]) (simp add: request_members_def)

lemma identity_readable: "readable (sort_members (JObject (identity_members s b)))"
  by (rule readable_sorted [OF identity_member_keys]) (simp add: identity_members_def request_members_def)

lemma work_stage_value_inj: "work_stage_value a = work_stage_value b \<Longrightarrow> a = b"
  by (cases a; cases b) simp_all

lemma request_members_determine:
  fixes q q' :: work_request
  assumes "\<And>k. map_of (request_members q) k = map_of (request_members q') k"
  shows "q = q'"
proof -
  have "map_of (request_members q) k = map_of (request_members q') k" for k by (rule assms)
  note m = this [unfolded request_members_def]
  have "wq_workflow_version q = wq_workflow_version q'" using m [of "''workflow_version''"] by simp
  moreover have "wq_source_cycle_ref q = wq_source_cycle_ref q'" using m [of "''source_cycle_ref''"] by simp
  moreover have "wq_source_cycle_fingerprint q = wq_source_cycle_fingerprint q'" using m [of "''source_cycle_fingerprint''"] by simp
  moreover have "wq_accounting_checkpoint_ref q = wq_accounting_checkpoint_ref q'" using m [of "''accounting_checkpoint_ref''"] by simp
  moreover have "wq_accounting_checkpoint_fingerprint q = wq_accounting_checkpoint_fingerprint q'"
    using m [of "''accounting_checkpoint_fingerprint''"] by simp
  moreover have "wq_withholding_checkpoint_ref q = wq_withholding_checkpoint_ref q'" using m [of "''withholding_checkpoint_ref''"] by simp
  moreover have "wq_withholding_checkpoint_fingerprint q = wq_withholding_checkpoint_fingerprint q'"
    using m [of "''withholding_checkpoint_fingerprint''"] by simp
  moreover have "wq_listing_id q = wq_listing_id q'" using m [of "''listing_id''"] by simp
  moreover have "wq_stage q = wq_stage q'" using m [of "''stage''"] work_stage_value_inj by simp
  moreover have "wq_subject_fingerprint q = wq_subject_fingerprint q'" using m [of "''subject_fingerprint''"] by simp
  moreover have "wq_input_fingerprint q = wq_input_fingerprint q'" using m [of "''input_fingerprint''"] by simp
  ultimately show ?thesis by simp
qed

lemma request_member_scalar: "map_of (request_members q) k = Some v \<Longrightarrow> sort_members v = v"
  unfolding request_members_def by (auto split: if_splits)

lemma identity_member_scalar: "map_of (identity_members s b) k = Some v \<Longrightarrow> sort_members v = v"
  unfolding identity_members_def request_members_def by (auto split: if_splits)

text \<open>The text of a request determines it.\<close>

lemma request_text_inj:
  assumes "work_canonical (JObject (request_members q)) = work_canonical (JObject (request_members q'))"
  shows "q = (q' :: work_request)"
proof (rule request_members_determine)
  fix k
  have "sort_members (JObject (request_members q)) = sort_members (JObject (request_members q'))"
    by (rule work_canonical_inj [OF assms request_readable request_readable])
  then have "map_option sort_members (map_of (request_members q) k) = map_option sort_members (map_of (request_members q') k)"
    using member_value_sorted [OF request_member_keys] by metis
  then show "map_of (request_members q) k = map_of (request_members q') k"
    using request_member_scalar by (cases "map_of (request_members q) k"; cases "map_of (request_members q') k") auto
qed

section \<open>What the validations admit\<close>

lemma validate_request_Inr: "validate_request_snapshot q = Inr q' \<Longrightarrow> q' = q"
  by (simp add: validate_request_snapshot_def)

lemma validate_identity_Inr:
  "validate_identity_snapshot P s = Inr s' \<longleftrightarrow> s' = s \<and> check_work_item_id (is_work_item_id s) = None
     \<and> validate_request_snapshot (is_request s) = Inr (is_request s) \<and> is_work_item_id s = derived_work_id P (is_request s)"
  by (auto simp: validate_identity_snapshot_def guarded_Inr dest: validate_request_Inr)

lemma validate_blockers_Inr: "validate_blocker_codes codes = Inr codes' \<longleftrightarrow> codes' = codes \<and> codes = required_blockers"
proof -
  have "list_all (\<lambda>c. work_text c = None) required_blockers" by code_simp
  then show ?thesis
    by (auto simp: validate_blocker_codes_def first_raise_append_None first_raise_None_iff list_all_iff)
qed

lemma capture_from_snapshot [simp]: "capture_identity (identity_from_snapshot s) = s"
  by (simp add: capture_identity_def identity_from_snapshot_def work_request.defs work_identity.defs)

lemma from_captured [simp]: "identity_from_snapshot (capture_identity i) = i"
  by (simp add: capture_identity_def identity_from_snapshot_def work_request.defs work_identity.defs)

lemma work_id_of_captured [simp]: "is_work_item_id (capture_identity i) = wi_work_item_id i"
  by (simp add: capture_identity_def)

text \<open>A valid checkpoint is what its snapshot rebuilds: blocked, and with no result.\<close>

lemma validate_checkpoint_Inr:
  "validate_checkpoint_snapshot P c = Inr s \<longleftrightarrow>
     c = checkpoint_from_snapshot s \<and> validate_identity_snapshot P (ck_identity s) = Inr (ck_identity s)
     \<and> ck_blocker_codes s = required_blockers \<and> work_fingerprint (ck_fingerprint s) = None
     \<and> ck_fingerprint s = derived_checkpoint_fingerprint P (ck_identity s) required_blockers"
  (is "_ \<longleftrightarrow> ?rhs")
proof
  assume "validate_checkpoint_snapshot P c = Inr s"
  then show ?rhs
    by (cases c; cases s)
      (auto simp: validate_checkpoint_snapshot_def validate_blockers_Inr checkpoint_from_snapshot_def
        dest: validate_identity_Inr [THEN iffD1])
next
  assume ?rhs
  then show "validate_checkpoint_snapshot P c = Inr s"
    by (cases s; cases "ck_status s")
      (auto simp: validate_checkpoint_snapshot_def validate_blockers_Inr checkpoint_from_snapshot_def
        split: if_splits)
qed

section \<open>The text of a checkpoint\<close>

lemma identity_members_determine:
  assumes "\<And>k. map_of (identity_members s True) k = map_of (identity_members s' True) k"
  shows "s = s'"
proof -
  have absent: "map_of (request_members q) ''work_item_id'' = None" for q :: work_request
    unfolding request_members_def by simp
  have "map_of (request_members (is_request s)) k = map_of (request_members (is_request s')) k" for k
    using assms [of k] absent by (cases "k = ''work_item_id''") (auto simp: identity_members_def map_add_def split: option.splits if_splits)
  then have "is_request s = is_request s'" by (rule request_members_determine)
  moreover have "is_work_item_id s = is_work_item_id s'"
    using assms [of "''work_item_id''"] absent by (simp add: identity_members_def map_add_def)
  ultimately show ?thesis by simp
qed

lemma identity_text_inj:
  assumes "sort_members (JObject (identity_members s True)) = sort_members (JObject (identity_members s' True))"
  shows "s = s'"
proof (rule identity_members_determine)
  fix k
  have "map_option sort_members (map_of (identity_members s True) k) = map_option sort_members (map_of (identity_members s' True) k)"
    using assms member_value_sorted [OF identity_member_keys] by metis
  then show "map_of (identity_members s True) k = map_of (identity_members s' True) k"
    using identity_member_scalar by (cases "map_of (identity_members s True) k"; cases "map_of (identity_members s' True) k") auto
qed

text \<open>A checkpoint document by its members.\<close>

definition checkpoint_members :: "identity_snapshot \<Rightarrow> string list \<Rightarrow> string option \<Rightarrow> (string \<times> json) list" where
  "checkpoint_members s codes fingerprint =
     [(''schema_id'', JText ''asklegal.hk-case-work-checkpoint/v1''),
      (''identity'', JObject (identity_members s True)),
      (''status'', JText (work_status_value BLOCKED_SEMANTIC_CAPABILITY_DISABLED)),
      (''blocker_codes'', JArray (map JText codes)),
      (''result_ref'', JNull),
      (''result_fingerprint'', JNull)]
     @ (case fingerprint of None \<Rightarrow> [] | Some f \<Rightarrow> [(''checkpoint_fingerprint'', JText f)])"

lemma checkpoint_document_members: "checkpoint_document s codes f = JObject (checkpoint_members s codes f)"
  by (simp only: checkpoint_document_def checkpoint_members_def)

lemma checkpoint_member_keys: "distinct (map fst (checkpoint_members s codes f))"
  unfolding checkpoint_members_def by (cases f) simp_all

lemma map_sort_text [simp]: "map (sort_members \<circ> JText) codes = map JText codes"
  by (induction codes) auto

lemma checkpoint_readable: "readable (sort_members (checkpoint_document s codes f))"
proof -
  have "list_all (\<lambda>(k, v). readable (sort_members v)) (checkpoint_members s codes f)"
    using identity_readable [of s True]
    by (cases f) (simp_all add: checkpoint_members_def list_all_iff del: sort_members.simps(2))
  then show ?thesis unfolding checkpoint_document_members by (rule readable_sorted [OF checkpoint_member_keys])
qed

lemma map_JText_inj [simp]: "map JText xs = map JText ys \<longleftrightarrow> xs = ys"
  by (rule inj_map_eq_map) (simp add: inj_def)

text \<open>The text of a checkpoint determines it.\<close>

lemma canonical_snapshot_inj: "canonical_snapshot s = canonical_snapshot s' \<longleftrightarrow> s = s'"
proof
  assume "canonical_snapshot s = canonical_snapshot s'"
  then have "sort_members (checkpoint_document (ck_identity s) (ck_blocker_codes s) (Some (ck_fingerprint s)))
      = sort_members (checkpoint_document (ck_identity s') (ck_blocker_codes s') (Some (ck_fingerprint s')))"
    unfolding canonical_snapshot_def by (rule work_canonical_inj) (rule checkpoint_readable)+
  then have m: "map_option sort_members (map_of (checkpoint_members (ck_identity s) (ck_blocker_codes s) (Some (ck_fingerprint s))) k)
      = map_option sort_members (map_of (checkpoint_members (ck_identity s') (ck_blocker_codes s') (Some (ck_fingerprint s'))) k)" for k
    using member_value_sorted [OF checkpoint_member_keys] unfolding checkpoint_document_members by metis
  have "ck_identity s = ck_identity s'"
    by (rule identity_text_inj) (use m [of "''identity''"] in \<open>simp add: checkpoint_members_def del: sort_members.simps(2)\<close>)
  moreover have "ck_blocker_codes s = ck_blocker_codes s'" using m [of "''blocker_codes''"] by (simp add: checkpoint_members_def)
  moreover have "ck_fingerprint s = ck_fingerprint s'" using m [of "''checkpoint_fingerprint''"] by (simp add: checkpoint_members_def)
  moreover have "ck_status s = ck_status s'" by (cases "ck_status s"; cases "ck_status s'") simp
  ultimately show "s = s'" by simp
qed simp

section \<open>The length of a checkpoint\<close>

lemma json_char_bound: "32 \<le> (of_char c :: nat) \<Longrightarrow> (of_char c :: nat) \<le> 126 \<Longrightarrow> length (json_char c) \<le> 2"
  by (simp add: json_char_def Let_def)

lemma json_string_bound: "plain_text s \<Longrightarrow> length (json_string s) \<le> 2 * length s + 2"
proof -
  have "plain_text s \<Longrightarrow> length (concat (map json_char s)) \<le> 2 * length s"
  proof (induction s)
    case (Cons c s)
    then have "length (json_char c) \<le> 2" using json_char_bound by (simp add: plain_text_def)
    then show ?case using Cons by (simp add: plain_text_def)
  qed simp
  then show "plain_text s \<Longrightarrow> ?thesis" by (simp add: json_string_def)
qed

lemma length_join: "length (join d xs) \<le> sum_list (map (\<lambda>x. length x + length d) xs)"
  by (induction d xs rule: join.induct) auto

lemma sum_insort: "sum_list (map f (insort_key g x xs)) = f x + sum_list (map f xs)" for f :: "'a \<Rightarrow> nat"
  by (induction xs) auto

lemma sum_sort: "sum_list (map f (sort_key g xs)) = sum_list (map f xs)" for f :: "'a \<Rightarrow> nat"
  by (induction xs) (auto simp: sum_insort)

lemma object_bound:
  assumes "list_all (\<lambda>(k, v). plain_text k) pairs"
  shows "length (json_text (sort_members (JObject pairs)))
    \<le> 2 + sum_list (map (\<lambda>(k, v). 2 * length k + 4 + length (json_text (sort_members v))) pairs)"
proof -
  let ?member = "\<lambda>(k, v). json_string k @ '':'' @ json_text v"
  have "length (json_text (sort_members (JObject pairs)))
      \<le> 2 + sum_list (map (\<lambda>kv. length (?member kv) + 1) (sort_key fst (sorted_pairs pairs)))"
    using length_join [of "'',''" "map ?member (sort_key fst (sorted_pairs pairs))"] by (simp add: comp_def)
  also have "\<dots> = 2 + sum_list (map (\<lambda>kv. length (?member kv) + 1) (sorted_pairs pairs))"
    by (simp only: sum_sort)
  also have "\<dots> \<le> 2 + sum_list (map (\<lambda>(k, v). 2 * length k + 4 + length (json_text (sort_members v))) pairs)"
    using assms by (induction pairs) (auto dest!: json_string_bound)
  finally show ?thesis .
qed

lemma opaque_plain:
  assumes "opaque_ref s = None"
  shows "plain_text s" and "length s \<le> 512"
proof -
  have o: "opaque_pattern s" using assms by (simp add: opaque_ref_def)
  then show "length s \<le> 512" by (simp add: opaque_pattern_def)
  have alnum: "32 \<le> (of_char c :: nat) \<and> (of_char c :: nat) \<le> 126" if "is_alphanumeric c" for c
    using that by (auto simp: is_alphanumeric_def char_class_defs)
  define marks where "marks = ''._:/+-''"
  have punct: "list_all (\<lambda>c. 32 \<le> (of_char c :: nat) \<and> (of_char c :: nat) \<le> 126) marks" unfolding marks_def by code_simp
  have "is_alphanumeric c \<or> c \<in> set marks" if "c \<in> set s" for c
    using o that unfolding opaque_pattern_def marks_def [symmetric] by (cases s) (auto simp: list_all_iff)
  then show "plain_text s" using alnum punct unfolding plain_text_def list_all_iff by blast
qed

lemma hex_plain: "list_all is_hex s \<Longrightarrow> plain_text s"
  by (auto simp: plain_text_def list_all_iff char_class_defs)

lemma plain_append [simp]: "plain_text (s @ t) \<longleftrightarrow> plain_text s \<and> plain_text t"
  by (simp add: plain_text_def)

lemma fingerprint_plain:
  assumes "fingerprint_pattern s"
  shows "plain_text s" and "length s = 71"
proof -
  have "length ''sha256:'' = 7" by simp
  then have "s = ''sha256:'' @ drop 7 s"
    using assms append_take_drop_id [of 7 s] unfolding fingerprint_pattern_def starts_with_def by metis
  moreover have "plain_text ''sha256:''" by code_simp
  moreover have "plain_text (drop 7 s)" using assms by (simp add: fingerprint_pattern_def hex_word_def hex_plain)
  ultimately show "plain_text s" by (metis plain_append)
qed (rule fingerprint_pattern_length [OF assms])

lemma work_fingerprint_None: "work_fingerprint s = None \<longleftrightarrow> fingerprint_pattern s"
  using fingerprint_pattern_length [of s] by (auto simp: work_fingerprint_def work_text_def max_text_length_def)

lemma fingerprint_json: "work_fingerprint s = None \<Longrightarrow> length (json_string s) \<le> 144"
  using json_string_bound [OF fingerprint_plain(1), of s] fingerprint_plain(2) [of s] work_fingerprint_None [of s] by simp

lemma opaque_json: "opaque_ref s = None \<Longrightarrow> length (json_string s) \<le> 1026"
  using json_string_bound [OF opaque_plain(1), of s] opaque_plain(2) [of s] by simp

lemma derived_id_length: "digest_law P \<Longrightarrow> length (derived_work_id P q) = 77 \<and> plain_text (derived_work_id P q)"
proof -
  have "plain_text work_prefix" by code_simp
  moreover have "length work_prefix = 13" by (simp add: work_prefix_def)
  ultimately show "digest_law P \<Longrightarrow> ?thesis"
    by (simp add: derived_work_id_def sha256_fingerprint_def digest_law_def hex_word_def hex_plain)
qed

lemma request_members_bound:
  assumes "validate_request_snapshot q = Inr q"
  shows "sum_list (map (\<lambda>(k, v). 2 * length k + 4 + length (json_text (sort_members v))) (request_members q)) \<le> 7000"
proof -
  have "plain_text ''asklegal.hk-case-work-request/v1''" by code_simp
  then have schema: "length (json_string ''asklegal.hk-case-work-request/v1'') \<le> 66" by (drule_tac json_string_bound) simp
  have "list_all (\<lambda>s. plain_text s \<and> length s \<le> 21) (map work_stage_value [PROPOSITION_DECISION, PROPOSITION_CHALLENGE, TREATMENT_DECISION, TREATMENT_CHALLENGE])"
    by code_simp
  then have "plain_text (work_stage_value (wq_stage q)) \<and> length (work_stage_value (wq_stage q)) \<le> 21"
    by (cases "wq_stage q") simp_all
  then have stage: "length (json_string (work_stage_value (wq_stage q))) \<le> 44" using json_string_bound by fastforce
  have "opaque_ref (wq_workflow_version q) = None" "opaque_ref (wq_source_cycle_ref q) = None"
      "opaque_ref (wq_accounting_checkpoint_ref q) = None" "opaque_ref (wq_withholding_checkpoint_ref q) = None"
      "opaque_ref (wq_listing_id q) = None" "work_fingerprint (wq_source_cycle_fingerprint q) = None"
      "work_fingerprint (wq_accounting_checkpoint_fingerprint q) = None"
      "work_fingerprint (wq_withholding_checkpoint_fingerprint q) = None"
      "work_fingerprint (wq_subject_fingerprint q) = None" "work_fingerprint (wq_input_fingerprint q) = None"
    using assms by (simp_all add: validate_request_snapshot_def)
  note this(1-5) [THEN opaque_json] this(6-10) [THEN fingerprint_json]
  then show ?thesis using schema stage unfolding request_members_def by simp
qed

lemma request_keys_plain: "list_all (\<lambda>(k, v). plain_text k) (request_members q)"
proof -
  have "list_all plain_text (map fst (request_members q))" unfolding request_members_def list.map fst_conv by code_simp
  then show ?thesis by (simp add: list_all_iff case_prod_unfold)
qed

text \<open>The canonical text of a valid checkpoint is within the ceiling of the store.\<close>

lemma checkpoint_text_bound:
  assumes "digest_law P" and "validate_checkpoint_snapshot P c = Inr s"
  shows "canonical_snapshot s \<noteq> []" and "length (canonical_snapshot s) \<le> max_checkpoint_bytes"
proof -
  have s: "validate_request_snapshot (is_request (ck_identity s)) = Inr (is_request (ck_identity s))"
      "is_work_item_id (ck_identity s) = derived_work_id P (is_request (ck_identity s))"
      "ck_blocker_codes s = required_blockers" "work_fingerprint (ck_fingerprint s) = None"
    using assms(2) by (auto simp: validate_checkpoint_Inr validate_identity_Inr)
  have "plain_text ''work_item_id''" by code_simp
  then have id_keys: "list_all (\<lambda>(k, v). plain_text k) (identity_members (ck_identity s) True)"
    using request_keys_plain by (simp add: identity_members_def)
  have "length (json_string (is_work_item_id (ck_identity s))) \<le> 156"
    using derived_id_length [OF assms(1)] json_string_bound s(2) by fastforce
  then have identity: "length (json_text (sort_members (JObject (identity_members (ck_identity s) True)))) \<le> 8000"
    using object_bound [OF id_keys] request_members_bound [OF s(1)] by (simp add: identity_members_def del: sort_members.simps json_text.simps(7), simp)
  have "length (json_text (JArray (map JText required_blockers))) \<le> 1000" by code_simp
  then have blockers: "length (json_text (sort_members (JArray (map JText (ck_blocker_codes s))))) \<le> 1000"
    by (simp add: s(3))
  have status: "length (json_string ''BLOCKED_SEMANTIC_CAPABILITY_DISABLED'') \<le> 100"
      "length (json_string ''asklegal.hk-case-work-checkpoint/v1'') \<le> 100" by code_simp+
  have keys: "list_all (\<lambda>(k, v). plain_text k) (checkpoint_members (ck_identity s) (ck_blocker_codes s) (Some (ck_fingerprint s)))"
  proof -
    have "list_all plain_text [''schema_id'', ''identity'', ''status'', ''blocker_codes'', ''result_ref'', ''result_fingerprint'', ''checkpoint_fingerprint'']"
      by code_simp
    then show ?thesis by (simp add: checkpoint_members_def)
  qed
  show "length (canonical_snapshot s) \<le> max_checkpoint_bytes"
    using object_bound [OF keys] identity blockers status fingerprint_json [OF s(4)]
    unfolding canonical_snapshot_def work_canonical_def checkpoint_document_members max_checkpoint_bytes_def
    by (simp add: checkpoint_members_def del: sort_members.simps(1,2) json_text.simps(6,7))
  show "canonical_snapshot s \<noteq> []" by (simp add: canonical_snapshot_def work_canonical_def checkpoint_document_members)
qed

end
