(* ===== verification/CaseWorkProperties.thy ===== *)
theory CaseWorkProperties
  imports CaseWorkFacts
begin

text \<open>
  What the blocked case work promises: the only durable checkpoint of an identity is the blocked one,
  a store keeps it for good, and a factory vouches only for the objects it issued.
\<close>

section \<open>Derived identifiers\<close>

lemma split_hex: "list_all is_hex s \<Longrightarrow> split_on (CHR ''_'') s = [s]"
  by (induction s) (auto simp: char_class_defs)

lemma hex_reads:
  assumes "hex_word 64 s"
  shows "reads_base16 s"
proof -
  have hex: "list_all is_hex s" "s \<noteq> []" "tl s \<noteq> []" using assms by (auto simp: hex_word_def tl_Nil)
  have strip: "strip s = s" using hex_word_exact_text [OF assms] by (simp add: is_exact_text_def)
  have "is_hex (hd s)" "is_hex (hd (tl s))" using hex by (cases s; cases "tl s"; simp)+
  moreover have "\<not> is_hex (CHR ''+'')" "\<not> is_hex (CHR ''-'')" "\<not> is_hex (CHR ''x'')" "\<not> is_hex (CHR ''X'')" by code_simp+
  ultimately have "hd s \<noteq> CHR ''+''" "hd s \<noteq> CHR ''-''" "hd (tl s) \<noteq> CHR ''x''" "hd (tl s) \<noteq> CHR ''X''" by metis+
  moreover have "starts_with s [CHR ''0'', x] \<Longrightarrow> hd (tl s) = x" for x
    by (cases s; cases "tl s") (auto simp: starts_with_def)
  ultimately have "\<not> starts_with s ''0x''" "\<not> starts_with s ''0X''" "hd s \<noteq> CHR ''+''" "hd s \<noteq> CHR ''-''" by blast+
  moreover have "list_all is_hex_digit s" using hex(1) by (auto simp: is_hex_digit_def list_all_iff)
  ultimately show ?thesis using hex by (simp add: reads_base16_def strip split_hex)
qed

lemma derived_id_checked:
  assumes "digest_law P"
  shows "check_work_item_id (derived_work_id P q) = None"
proof -
  have len: "length work_prefix = 13" by (simp add: work_prefix_def)
  have tail: "derived_work_id P q = work_prefix @ sha256_hex P (work_canonical (JObject (request_members q)))"
    by (simp add: derived_work_id_def sha256_fingerprint_def)
  have hex: "hex_word 64 (sha256_hex P (work_canonical (JObject (request_members q))))" using assms by (simp add: digest_law_def)
  then have "length (derived_work_id P q) = 77" by (simp add: tail len hex_word_def)
  then show ?thesis
    using hex_reads [OF hex] len by (auto simp: check_work_item_id_def work_text_def max_text_length_def tail)
qed

text \<open>The snapshot of the blocked checkpoint of a request.\<close>

definition request_identity :: "platform \<Rightarrow> work_request \<Rightarrow> identity_snapshot" where
  "request_identity P q = \<lparr>is_work_item_id = derived_work_id P q, is_request = q\<rparr>"

definition blocked_snapshot :: "platform \<Rightarrow> work_request \<Rightarrow> checkpoint_snapshot" where
  "blocked_snapshot P q = \<lparr>ck_identity = request_identity P q, ck_status = BLOCKED_SEMANTIC_CAPABILITY_DISABLED,
     ck_blocker_codes = required_blockers,
     ck_fingerprint = derived_checkpoint_fingerprint P (request_identity P q) required_blockers\<rparr>"

abbreviation valid_request :: "work_request \<Rightarrow> bool" where
  "valid_request q \<equiv> validate_request_snapshot q = Inr q"

lemma request_identity_valid:
  "digest_law P \<Longrightarrow> valid_request q \<Longrightarrow> validate_identity_snapshot P (request_identity P q) = Inr (request_identity P q)"
  by (simp add: validate_identity_Inr request_identity_def derived_id_checked)

lemma build_identity_Inr:
  "build_work_identity P q = Inr i \<longleftrightarrow> valid_request q \<and> i = identity_from_snapshot (request_identity P q)"
proof -
  have "snapshot_work_request q = Inr q' \<longleftrightarrow> q' = q \<and> valid_request q" for q'
    using validate_request_Inr [of q] by (cases "validate_request_snapshot q") (auto simp: snapshot_work_request_def)
  then show ?thesis
    using validate_request_Inr [of q] by (auto simp: build_work_identity_def request_identity_def)
qed

lemma validate_blocked:
  assumes "digest_law P"
  shows "validate_checkpoint_snapshot P c = Inr s
    \<longleftrightarrow> (\<exists>q. valid_request q \<and> s = blocked_snapshot P q) \<and> c = checkpoint_from_snapshot s"
proof -
  have "ck_status s = BLOCKED_SEMANTIC_CAPABILITY_DISABLED" by (cases "ck_status s") simp
  moreover have "work_fingerprint (derived_checkpoint_fingerprint P (request_identity P q) required_blockers) = None" for q
    using fingerprint_law [OF assms] by (simp add: work_fingerprint_None derived_checkpoint_fingerprint_def)
  ultimately show ?thesis
    by (cases s; cases "ck_identity s")
      (auto simp: validate_checkpoint_Inr validate_identity_Inr blocked_snapshot_def request_identity_def
        derived_id_checked [OF assms])
qed

lemma blockers_valid [simp]: "validate_blocker_codes required_blockers = Inr required_blockers"
  by (simp add: validate_blockers_Inr)

lemma issued_blocked:
  assumes issued: "issue_blocked P i codes place F = (Inr ob, F')"
  shows "(\<exists>q. valid_request q \<and> i = identity_from_snapshot (request_identity P q) \<and> codes = required_blockers
      \<and> ob = \<lparr>co_place = place, co_value = checkpoint_from_snapshot (blocked_snapshot P q)\<rparr>
      \<and> F' = AList.update (op_address place) (op_serial place, canonical_snapshot (blocked_snapshot P q)) F)"
proof -
  from issued obtain s b where valid: "validate_identity_snapshot P (capture_identity i) = Inr s"
      "validate_blocker_codes codes = Inr b"
    by (cases "validate_identity_snapshot P (capture_identity i)"; cases "validate_blocker_codes codes")
      (auto simp: issue_blocked_def split: sum.splits elim!: fault_as.elims)
  define q where "q = is_request s"
  have s: "s = request_identity P q" "valid_request q" "capture_identity i = s"
    using valid(1) by (cases s; auto simp: validate_identity_Inr request_identity_def q_def)+
  then have "i = identity_from_snapshot (request_identity P q)" by (metis from_captured)
  moreover have "codes = required_blockers" using valid(2) by (simp add: validate_blockers_Inr)
  moreover have "validate_identity_snapshot P (request_identity P q) = Inr (request_identity P q)" using valid(1) s(1,3) by simp
  then have "ob = \<lparr>co_place = place, co_value = checkpoint_from_snapshot (blocked_snapshot P q)\<rparr>
      \<and> F' = AList.update (op_address place) (op_serial place, canonical_snapshot (blocked_snapshot P q)) F"
    using issued s(1,3) \<open>codes = required_blockers\<close> by (simp add: issue_blocked_def blocked_snapshot_def)
  ultimately show ?thesis using s(2) by blast
qed

lemma issue_Inr:
  assumes "digest_law P"
  shows "issue_blocked P i codes place F = (Inr ob, F') \<longleftrightarrow>
    (\<exists>q. valid_request q \<and> i = identity_from_snapshot (request_identity P q) \<and> codes = required_blockers
      \<and> ob = \<lparr>co_place = place, co_value = checkpoint_from_snapshot (blocked_snapshot P q)\<rparr>
      \<and> F' = AList.update (op_address place) (op_serial place, canonical_snapshot (blocked_snapshot P q)) F)"
    (is "?issued \<longleftrightarrow> ?blocked")
proof
  assume ?blocked
  then show ?issued
    using request_identity_valid [OF assms] by (auto simp: issue_blocked_def blocked_snapshot_def)
qed (rule issued_blocked)

section \<open>Checkpoints\<close>

lemma replay_Inr: "replay_work_checkpoint P c = Inr c' \<longleftrightarrow> c' = c \<and> (\<exists>s. validate_checkpoint_snapshot P c = Inr s)"
  by (cases "validate_checkpoint_snapshot P c") (auto simp: replay_work_checkpoint_def elim!: fault_as.elims)

lemma canonical_Inr: "canonical_work_checkpoint P c = Inr e \<longleftrightarrow> (\<exists>s. validate_checkpoint_snapshot P c = Inr s \<and> e = canonical_snapshot s)"
  by (cases "validate_checkpoint_snapshot P c") (auto simp: canonical_work_checkpoint_def elim!: fault_as.elims)

text \<open>
  The only durable checkpoint of an identity is the blocked one. A checkpoint is replayed exactly
  when it is what issuing the required blockers for a derived identity gives: it has no result, and
  identity, blockers and fingerprint leave nothing to choose.
\<close>

theorem sole_checkpoint_is_blocked:
  assumes "digest_law P"
  shows "replay_work_checkpoint P c = Inr c' \<longleftrightarrow> c' = c \<and> (\<exists>q. build_work_identity P q = Inr (cp_identity c)
    \<and> build_blocked_checkpoint P (cp_identity c) required_blockers place = Inr \<lparr>co_place = place, co_value = c\<rparr>)"
proof -
  have "build_blocked_checkpoint P i required_blockers place = Inr \<lparr>co_place = place, co_value = c\<rparr>
      \<longleftrightarrow> (\<exists>q. valid_request q \<and> i = identity_from_snapshot (request_identity P q)
            \<and> c = checkpoint_from_snapshot (blocked_snapshot P q))" for i
    using issue_Inr [OF assms, of i required_blockers place new_factory "\<lparr>co_place = place, co_value = c\<rparr>"]
    by (cases "issue_blocked P i required_blockers place new_factory") (auto simp: build_blocked_checkpoint_def)
  moreover have "cp_identity (checkpoint_from_snapshot (blocked_snapshot P q)) = identity_from_snapshot (request_identity P q)" for q
    by (simp add: checkpoint_from_snapshot_def blocked_snapshot_def)
  ultimately show ?thesis by (auto simp: replay_Inr validate_blocked [OF assms] build_identity_Inr)
qed

text \<open>A valid request, and the blocked checkpoint of its identity.\<close>

definition sample_work_request :: work_request where
  "sample_work_request = \<lparr>wq_workflow_version = ''v1'', wq_source_cycle_ref = ''cycle:1'',
     wq_source_cycle_fingerprint = ''sha256:'' @ replicate 64 (CHR ''a''), wq_accounting_checkpoint_ref = ''acc/1'',
     wq_accounting_checkpoint_fingerprint = ''sha256:'' @ replicate 64 (CHR ''b''), wq_withholding_checkpoint_ref = ''w+1'',
     wq_withholding_checkpoint_fingerprint = ''sha256:'' @ replicate 64 (CHR ''c''), wq_listing_id = ''L.1'',
     wq_stage = TREATMENT_DECISION, wq_subject_fingerprint = ''sha256:'' @ replicate 64 (CHR ''d''),
     wq_input_fingerprint = ''sha256:'' @ replicate 64 (CHR ''e'')\<rparr>"

definition sample_work_identity :: work_identity where
  "sample_work_identity = identity_from_snapshot (request_identity demo_platform sample_work_request)"

definition sample_checkpoint :: work_checkpoint where
  "sample_checkpoint = checkpoint_from_snapshot (blocked_snapshot demo_platform sample_work_request)"

lemma sample_request_valid: "valid_request sample_work_request"
  by code_simp

lemma sample_checkpoint_valid:
  "validate_checkpoint_snapshot demo_platform sample_checkpoint = Inr (blocked_snapshot demo_platform sample_work_request)"
  using sample_request_valid by (auto simp: validate_blocked [OF demo_digest_law] sample_checkpoint_def)

lemma sample_canonical:
  "canonical_work_checkpoint demo_platform sample_checkpoint
     = Inr (canonical_snapshot (blocked_snapshot demo_platform sample_work_request))"
  using sample_checkpoint_valid by (auto simp: canonical_Inr)

lemma sample_issued:
  "issue_blocked demo_platform sample_work_identity required_blockers place F
     = (Inr \<lparr>co_place = place, co_value = sample_checkpoint\<rparr>, AList.update (op_address place)
         (op_serial place, canonical_snapshot (blocked_snapshot demo_platform sample_work_request)) F)"
  using sample_request_valid by (auto simp: issue_Inr [OF demo_digest_law] sample_work_identity_def sample_checkpoint_def)

lemma sole_checkpoint_is_blocked_witness:
  "\<exists>q. build_work_identity demo_platform q = Inr (cp_identity sample_checkpoint)
    \<and> build_blocked_checkpoint demo_platform (cp_identity sample_checkpoint) required_blockers \<lparr>op_address = 1, op_serial = 1\<rparr>
        = Inr \<lparr>co_place = \<lparr>op_address = 1, op_serial = 1\<rparr>, co_value = sample_checkpoint\<rparr>"
proof -
  have "replay_work_checkpoint demo_platform sample_checkpoint = Inr sample_checkpoint"
    using sample_checkpoint_valid by (simp add: replay_Inr)
  then show ?thesis using sole_checkpoint_is_blocked [OF demo_digest_law] by blast
qed

text \<open>
  A valid checkpoint always fits. Its canonical text is not empty and within the 16,384 bytes a
  store takes, whatever the lengths of the references in its identity.
\<close>

theorem checkpoint_fits_store:
  assumes "digest_law P" and "canonical_work_checkpoint P c = Inr text"
  shows "text \<noteq> [] \<and> length text \<le> max_checkpoint_bytes"
  using assms checkpoint_text_bound [OF assms(1)] by (auto simp: canonical_Inr)

lemma checkpoint_fits_store_witness:
  "length (canonical_snapshot (blocked_snapshot demo_platform sample_work_request)) \<le> max_checkpoint_bytes"
  using checkpoint_fits_store [OF demo_digest_law sample_canonical] by blast

section \<open>The store\<close>

definition record_step ::
    "platform \<Rightarrow> work_checkpoint \<times> string \<Rightarrow> checkpoint_store \<Rightarrow> (work_raise + work_checkpoint) \<times> checkpoint_store" where
  "record_step P = (\<lambda>(c, expected). record_checkpoint P c expected)"

definition store_ok :: "platform \<Rightarrow> checkpoint_store \<Rightarrow> bool" where
  "store_ok P T \<longleftrightarrow> (\<forall>k c. map_of T k = Some c \<longrightarrow>
     (\<exists>s. validate_checkpoint_snapshot P c = Inr s \<and> is_work_item_id (ck_identity s) = k))"

lemma validated_from: "validate_checkpoint_snapshot P c = Inr s \<Longrightarrow> checkpoint_from_snapshot s = c"
  by (simp add: validate_checkpoint_Inr)

lemma validated_key: "validate_checkpoint_snapshot P c = Inr s \<Longrightarrow> wi_work_item_id (cp_identity c) = is_work_item_id (ck_identity s)"
  by (auto simp: validate_checkpoint_Inr checkpoint_from_snapshot_def identity_from_snapshot_def work_request.defs work_identity.defs)

lemma admit_Inr:
  "admit_checkpoint P c expected = Inr r \<longleftrightarrow> (\<exists>s. validate_checkpoint_snapshot P c = Inr s \<and> r = (c, expected)
     \<and> expected = canonical_snapshot s \<and> expected \<noteq> [] \<and> length expected \<le> max_checkpoint_bytes)"
proof -
  have "fault_as code x = Inr r \<longleftrightarrow> x = Inr r" for code and x :: "work_raise + work_checkpoint \<times> string"
    by (cases "(code, x)" rule: fault_as.cases) auto
  then show ?thesis
    using validated_from by (auto simp: admit_checkpoint_def guarded_Inr Let_def)
qed

lemma stored_valid: "map_of T k = Some c \<Longrightarrow> validate_checkpoint_snapshot P c = Inr s \<Longrightarrow> stored_checkpoint P T k = Inr c"
  by (simp add: stored_checkpoint_def copy_checkpoint_def validated_from)

lemma record_new:
  assumes "admit_checkpoint P c expected = Inr r" and "map_of T (wi_work_item_id (cp_identity c)) = None"
  shows "record_checkpoint P c expected T = (Inr c, AList.update (wi_work_item_id (cp_identity c)) c T)"
proof -
  obtain s where "validate_checkpoint_snapshot P c = Inr s" "admit_checkpoint P c expected = Inr (c, expected)"
    using assms(1) by (auto simp: admit_Inr)
  then show ?thesis using assms(2) stored_valid by (simp add: record_checkpoint_def Let_def)
qed

lemma record_known:
  assumes "admit_checkpoint P c expected = Inr r" and "map_of T (wi_work_item_id (cp_identity c)) = Some current"
    and "store_ok P T"
  shows "record_checkpoint P c expected T = (if current = c then Inr c else Inl (WorkError IDENTITY_CONFLICT), T)"
proof -
  obtain s0 where "validate_checkpoint_snapshot P current = Inr s0" using assms(2,3) unfolding store_ok_def by blast
  moreover obtain s where "validate_checkpoint_snapshot P c = Inr s" "expected = canonical_snapshot s"
      "admit_checkpoint P c expected = Inr (c, expected)"
    using assms(1) by (auto simp: admit_Inr)
  ultimately have s: "validate_checkpoint_snapshot P c = Inr s" "expected = canonical_snapshot s"
      "validate_checkpoint_snapshot P current = Inr s0" "admit_checkpoint P c expected = Inr (c, expected)" by blast+
  then have "s0 = s \<longleftrightarrow> current = c" using validated_from by (metis sum.inject(2))
  then show ?thesis
    using assms(2) s(2,3,4) stored_valid [OF assms(2) s(3)] by (simp add: record_checkpoint_def Let_def canonical_snapshot_inj)
qed

lemma record_state:
  assumes "store_ok P T"
  shows "map_of (snd (record_checkpoint P c expected T)) k
    = (if k = wi_work_item_id (cp_identity c) \<and> map_of T k = None \<and> (\<exists>r. admit_checkpoint P c expected = Inr r)
       then Some c else map_of T k)"
proof (cases "admit_checkpoint P c expected")
  case (Inl e)
  then show ?thesis by (simp add: record_checkpoint_def)
next
  case (Inr r)
  then show ?thesis
    using record_new [OF Inr, of T] record_known [OF Inr _ assms] by (cases "map_of T (wi_work_item_id (cp_identity c))") auto
qed

interpretation case_work: state_store "[]" "record_step P" "\<lambda>_. True" "store_ok P" for P
proof (unfold_locales, goal_cases)
  case 1
  then show ?case by (simp add: store_ok_def)
next
  case (2 T op)
  then show ?case
    using validated_key by (cases op) (auto simp: store_ok_def record_step_def record_state admit_Inr)
qed

lemma get_recorded:
  assumes "validate_checkpoint_snapshot P c = Inr s" and "map_of T (wi_work_item_id (cp_identity c)) = Some c"
  shows "get_checkpoint P T (wi_work_item_id (cp_identity c)) = Inr c"
proof -
  have "check_work_item_id (is_work_item_id (ck_identity s)) = None"
    using assms(1) unfolding validate_checkpoint_Inr validate_identity_Inr by blast
  then have "check_work_item_id (wi_work_item_id (cp_identity c)) = None" by (simp only: validated_key [OF assms(1)])
  then show ?thesis using stored_valid [OF assms(2,1)] by (simp add: get_checkpoint_def guarded_def)
qed

lemma record_keeps: "store_ok P T \<Longrightarrow> map_of T k = Some c \<Longrightarrow> map_of (snd (record_step P op T)) k = Some c"
  by (cases op) (simp add: record_step_def record_state)

lemma kept_for_good: "store_ok P T \<Longrightarrow> map_of T k = Some c \<Longrightarrow> map_of (run (record_step P) ops T) k = Some c"
  by (rule case_work.run_persists) (auto simp: record_keeps list_all_iff)

text \<open>The request of a checkpoint, and whether the digest tells it apart from what a store holds.\<close>

definition request_text :: "work_checkpoint \<Rightarrow> string" where
  "request_text c = work_canonical (JObject (request_members (is_request (capture_identity (cp_identity c)))))"

definition digest_tells_apart :: "platform \<Rightarrow> string \<Rightarrow> checkpoint_store \<Rightarrow> bool" where
  "digest_tells_apart P wanted T \<longleftrightarrow>
     list_all (\<lambda>(k, held). sha256_hex P (request_text held) = sha256_hex P wanted \<longrightarrow> request_text held = wanted) T"

lemma same_id_same_checkpoint:
  assumes "digest_law P" and "validate_checkpoint_snapshot P c = Inr s" and "validate_checkpoint_snapshot P d = Inr t"
    and "is_work_item_id (ck_identity s) = is_work_item_id (ck_identity t)"
    and "sha256_hex P (request_text d) = sha256_hex P (request_text c) \<Longrightarrow> request_text d = request_text c"
  shows "d = c"
proof -
  obtain q r where q: "s = blocked_snapshot P q" "c = checkpoint_from_snapshot s"
    and r: "t = blocked_snapshot P r" "d = checkpoint_from_snapshot t"
    using assms(2,3) by (auto simp: validate_blocked [OF assms(1)])
  have requests: "request_text c = work_canonical (JObject (request_members q))" "request_text d = work_canonical (JObject (request_members r))"
    using q r by (simp_all add: request_text_def checkpoint_from_snapshot_def blocked_snapshot_def request_identity_def)
  have "sha256_hex P (work_canonical (JObject (request_members r))) = sha256_hex P (work_canonical (JObject (request_members q)))"
    using assms(4) q(1) r(1) by (simp add: blocked_snapshot_def request_identity_def derived_work_id_def sha256_fingerprint_def)
  then have "r = q" using assms(5) requests request_text_inj by metis
  then show ?thesis using q r by simp
qed

lemma recorded:
  assumes "digest_law P" and "store_ok P T" and "validate_checkpoint_snapshot P c = Inr s" and "digest_tells_apart P (request_text c) T"
  shows "\<exists>T'. record_checkpoint P c (canonical_snapshot s) T = (Inr c, T') \<and> store_ok P T'
    \<and> map_of T' (wi_work_item_id (cp_identity c)) = Some c"
proof -
  let ?key = "wi_work_item_id (cp_identity c)"
  have admitted: "admit_checkpoint P c (canonical_snapshot s) = Inr (c, canonical_snapshot s)"
    using assms(3) checkpoint_text_bound [OF assms(1,3)] by (simp add: admit_Inr)
  have ok: "store_ok P (snd (record_checkpoint P c (canonical_snapshot s) T))"
    using case_work.step_inv [OF assms(2), of "(c, canonical_snapshot s)"] by (simp add: record_step_def)
  show ?thesis
  proof (cases "map_of T ?key")
    case None
    then show ?thesis using record_new [OF admitted] ok by simp
  next
    case (Some held)
    then obtain t where t: "validate_checkpoint_snapshot P held = Inr t" "is_work_item_id (ck_identity t) = ?key"
      using assms(2) unfolding store_ok_def by blast
    have "(?key, held) \<in> set T" using Some by (rule map_of_SomeD)
    then have "sha256_hex P (request_text held) = sha256_hex P (request_text c) \<Longrightarrow> request_text held = request_text c"
      using assms(4) by (auto simp: digest_tells_apart_def list_all_iff)
    then have "held = c" using same_id_same_checkpoint [OF assms(1,3) t(1)] t(2) validated_key [OF assms(3)] by simp
    then show ?thesis using record_known [OF admitted Some assms(2)] ok Some by simp
  qed
qed

text \<open>
  A valid checkpoint is recorded once and for good. Whatever was offered to a store before, it
  takes a valid checkpoint with its canonical text, and whatever is offered afterwards, reading its
  work identifier gives that checkpoint: an identity conflict needs two requests with one digest.
\<close>

theorem checkpoint_recorded_for_good:
  assumes "digest_law P" and "canonical_work_checkpoint P c = Inr text"
    and "digest_tells_apart P (request_text c) (run (record_step P) before [])"
  shows "\<exists>T. record_checkpoint P c text (run (record_step P) before []) = (Inr c, T)
    \<and> (\<forall>later. get_checkpoint P (run (record_step P) later T) (wi_work_item_id (cp_identity c)) = Inr c)"
proof -
  obtain s where s: "validate_checkpoint_snapshot P c = Inr s" "text = canonical_snapshot s"
    using assms(2) by (auto simp: canonical_Inr)
  have "store_ok P (run (record_step P) before [])" by (rule case_work.reachable_inv) (simp add: list_all_iff)
  from recorded [OF assms(1) this s(1) assms(3)] show ?thesis
    using s kept_for_good get_recorded [OF s(1)] by blast
qed

lemma checkpoint_recorded_for_good_witness:
  "\<exists>T. fst (record_checkpoint demo_platform sample_checkpoint
        (canonical_snapshot (blocked_snapshot demo_platform sample_work_request)) []) = Inr sample_checkpoint
     \<and> get_checkpoint demo_platform (run (record_step demo_platform) [(sample_checkpoint, ''x'')] T)
        (wi_work_item_id (cp_identity sample_checkpoint)) = Inr sample_checkpoint"
  using checkpoint_recorded_for_good [OF demo_digest_law sample_canonical, of "[]"]
  by (auto simp: digest_tells_apart_def simp del: run_Cons)

section \<open>Issuance\<close>

definition issue_step ::
    "platform \<Rightarrow> work_identity \<times> string list \<times> object_place \<Rightarrow> checkpoint_factory
       \<Rightarrow> (work_raise + checkpoint_object) \<times> checkpoint_factory" where
  "issue_step P = (\<lambda>(i, codes, place). issue_blocked P i codes place)"

definition vouched :: "platform \<Rightarrow> (work_identity \<times> string list \<times> object_place) set \<Rightarrow> checkpoint_factory \<Rightarrow> bool" where
  "vouched P calls F \<longleftrightarrow> (\<forall>address serial expected. map_of F address = Some (serial, expected) \<longrightarrow>
     (\<exists>q. (identity_from_snapshot (request_identity P q), required_blockers,
            \<lparr>op_address = address, op_serial = serial\<rparr>) \<in> calls
        \<and> valid_request q \<and> expected = canonical_snapshot (blocked_snapshot P q)))"

lemma issue_Inl_state: "fst (issue_blocked P i codes place F) = Inl e \<Longrightarrow> snd (issue_blocked P i codes place F) = F"
  by (simp add: issue_blocked_def split: sum.splits)

interpretation factory: state_store new_factory "issue_step P" "\<lambda>call. call \<in> calls" "vouched P calls"
  for P calls
proof (unfold_locales, goal_cases)
  case 1
  then show ?case by (simp add: vouched_def new_factory_def)
next
  case (2 F call)
  obtain i codes place where call: "call = (i, codes, place)" by (cases call)
  show ?case
  proof (cases "fst (issue_step P call F)")
    case (Inl e)
    then show ?thesis using 2(1) issue_Inl_state by (fastforce simp: issue_step_def call)
  next
    case (Inr ob)
    then have "issue_blocked P i codes place F = (Inr ob, snd (issue_step P call F))"
      by (simp add: issue_step_def call prod_eq_iff)
    from issued_blocked [OF this] show ?thesis
      using 2 by (cases place) (auto simp: vouched_def call split: if_splits)
  qed
qed

lemma issued_Inr:
  "issued_snapshot P F ob = Inr s \<longleftrightarrow> validate_checkpoint_snapshot P (co_value ob) = Inr s
     \<and> map_of F (op_address (co_place ob)) = Some (op_serial (co_place ob), canonical_snapshot s)"
  by (auto simp: issued_snapshot_def split: option.splits)

lemma assert_Inr: "assert_issued P F ob = Inr ob' \<longleftrightarrow> ob' = ob \<and> (\<exists>s. issued_snapshot P F ob = Inr s)"
  by (cases "issued_snapshot P F ob") (auto simp: assert_issued_def)

text \<open>
  A factory vouches only for what it issued. After any history of issuances, an object that
  passes \<^verbatim>\<open>assert_issued\<close> is the very object one of them returned, at its place and with the value it
  was issued with: copies, equal objects, objects at a reused address and altered ones are refused.
\<close>

theorem only_issued_objects_pass:
  assumes "digest_law P" and "assert_issued P (run (issue_step P) calls new_factory) ob = Inr ob'"
  shows "\<exists>(i, codes, place) \<in> set calls. build_blocked_checkpoint P i codes place = Inr ob"
proof -
  obtain s where s: "validate_checkpoint_snapshot P (co_value ob) = Inr s"
      "map_of (run (issue_step P) calls new_factory) (op_address (co_place ob)) = Some (op_serial (co_place ob), canonical_snapshot s)"
    using assms(2) by (auto simp: assert_Inr issued_Inr)
  have place: "\<lparr>op_address = op_address p, op_serial = op_serial p\<rparr> = p" for p :: object_place by simp
  have "vouched P (set calls) (run (issue_step P) calls new_factory)"
    by (rule factory.reachable_inv) (simp add: list_all_iff)
  then obtain q where q: "(identity_from_snapshot (request_identity P q), required_blockers, co_place ob) \<in> set calls"
      "valid_request q" "canonical_snapshot s = canonical_snapshot (blocked_snapshot P q)"
    using s(2) place unfolding vouched_def by metis
  have "co_value ob = checkpoint_from_snapshot (blocked_snapshot P q)"
    using q(3) validated_from [OF s(1)] by (simp add: canonical_snapshot_inj)
  then have "issue_blocked P (identity_from_snapshot (request_identity P q)) required_blockers (co_place ob) new_factory
      = (Inr ob, AList.update (op_address (co_place ob)) (op_serial (co_place ob), canonical_snapshot (blocked_snapshot P q)) new_factory)"
    using q(2) by (auto simp: issue_Inr [OF assms(1)])
  then show ?thesis using q(1) by (auto simp: build_blocked_checkpoint_def intro!: bexI)
qed

lemma only_issued_objects_pass_witness:
  "\<exists>(i, codes, place) \<in> set [(sample_work_identity, required_blockers, \<lparr>op_address = 1, op_serial = 1\<rparr>)].
     build_blocked_checkpoint demo_platform i codes place
       = Inr \<lparr>co_place = \<lparr>op_address = 1, op_serial = 1\<rparr>, co_value = sample_checkpoint\<rparr>"
proof (rule only_issued_objects_pass [OF demo_digest_law])
  have "issued_snapshot demo_platform (snd (issue_blocked demo_platform sample_work_identity required_blockers
        \<lparr>op_address = 1, op_serial = 1\<rparr> new_factory)) \<lparr>co_place = \<lparr>op_address = 1, op_serial = 1\<rparr>, co_value = sample_checkpoint\<rparr>
      = Inr (blocked_snapshot demo_platform sample_work_request)"
    using sample_checkpoint_valid by (simp add: issued_Inr sample_issued)
  then show "assert_issued demo_platform (run (issue_step demo_platform)
      [(sample_work_identity, required_blockers, \<lparr>op_address = 1, op_serial = 1\<rparr>)] new_factory)
      \<lparr>co_place = \<lparr>op_address = 1, op_serial = 1\<rparr>, co_value = sample_checkpoint\<rparr>
      = Inr \<lparr>co_place = \<lparr>op_address = 1, op_serial = 1\<rparr>, co_value = sample_checkpoint\<rparr>"
    by (simp add: assert_Inr issue_step_def)
qed

text \<open>
  Blocked work reaches the store. From a valid request, deriving its identity, issuing the
  required blockers, preparing the write, recording it in a store of any history and projecting what
  comes back all succeed, and reading the work identifier then gives the checkpoint.
\<close>

theorem blocked_work_reaches_store:
  assumes "digest_law P" and "build_work_identity P q = Inr i"
    and "digest_tells_apart P (work_canonical (JObject (request_members q))) (run (record_step P) before [])"
  shows "\<exists>ob F' w T. issue_blocked P i required_blockers place F = (Inr ob, F') \<and> prepare_port_write P F' ob = Inr w
    \<and> record_checkpoint P (wp_checkpoint w) (wp_canonical w) (run (record_step P) before []) = (Inr (wp_checkpoint w), T)
    \<and> returned_projection P (wp_checkpoint w) (wp_canonical w)
        = Inr (wp_work_item_id w, wp_checkpoint_fingerprint w, wp_blocker_codes w)
    \<and> wp_work_item_id w = wi_work_item_id i \<and> get_checkpoint P T (wi_work_item_id i) = Inr (co_value ob)"
proof -
  let ?s = "blocked_snapshot P q" and ?T = "run (record_step P) before []"
  have q: "valid_request q" "i = identity_from_snapshot (request_identity P q)" using assms(2) by (simp_all add: build_identity_Inr)
  define ob where "ob = \<lparr>co_place = place, co_value = checkpoint_from_snapshot ?s\<rparr>"
  have wanted: "request_text (checkpoint_from_snapshot ?s) = work_canonical (JObject (request_members q))"
    by (simp add: request_text_def checkpoint_from_snapshot_def blocked_snapshot_def request_identity_def)
  have valid: "validate_checkpoint_snapshot P (checkpoint_from_snapshot ?s) = Inr ?s"
    using q(1) by (auto simp: validate_blocked [OF assms(1)])
  define F' where "F' = AList.update (op_address place) (op_serial place, canonical_snapshot ?s) F"
  have issue: "issue_blocked P i required_blockers place F = (Inr ob, F')"
    using q by (auto simp: issue_Inr [OF assms(1)] F'_def ob_def)
  let ?w = "\<lparr>wp_checkpoint = checkpoint_from_snapshot ?s, wp_canonical = canonical_snapshot ?s,
    wp_work_item_id = is_work_item_id (ck_identity ?s), wp_checkpoint_fingerprint = ck_fingerprint ?s,
    wp_blocker_codes = ck_blocker_codes ?s\<rparr>"
  have "issued_snapshot P F' ob = Inr ?s" using valid by (simp add: issued_Inr ob_def F'_def)
  then have prepared: "prepare_port_write P F' ob = Inr ?w" by (simp add: prepare_port_write_def)
  have id: "wi_work_item_id (cp_identity (checkpoint_from_snapshot ?s)) = wi_work_item_id i"
    "is_work_item_id (ck_identity ?s) = wi_work_item_id i"
    using q(2) validated_key [OF valid] by (simp_all add: checkpoint_from_snapshot_def blocked_snapshot_def)
  have "store_ok P ?T" by (rule case_work.reachable_inv) (simp add: list_all_iff)
  then obtain T where T: "record_checkpoint P (checkpoint_from_snapshot ?s) (canonical_snapshot ?s) ?T = (Inr (checkpoint_from_snapshot ?s), T)"
      "map_of T (wi_work_item_id i) = Some (checkpoint_from_snapshot ?s)"
    using recorded [OF assms(1) _ valid] assms(3) id(1) by (auto simp: wanted)
  have "get_checkpoint P T (wi_work_item_id i) = Inr (checkpoint_from_snapshot ?s)"
    using get_recorded [OF valid] T(2) id(1) by simp
  moreover have "returned_projection P (wp_checkpoint ?w) (wp_canonical ?w)
      = Inr (wp_work_item_id ?w, wp_checkpoint_fingerprint ?w, wp_blocker_codes ?w)"
    using valid by (simp add: returned_projection_def construct_def raise_if_def)
  ultimately show ?thesis using issue prepared T(1) id(2) by (intro exI [of _ ob] exI [of _ F'] exI [of _ ?w] exI [of _ T]) (simp add: ob_def)
qed

lemma blocked_work_reaches_store_witness:
  "\<exists>ob w. prepare_port_write demo_platform (snd (issue_blocked demo_platform sample_work_identity required_blockers \<lparr>op_address = 1, op_serial = 1\<rparr> new_factory)) ob = Inr w
     \<and> fst (record_checkpoint demo_platform (wp_checkpoint w) (wp_canonical w) []) = Inr (wp_checkpoint w)"
proof -
  have "build_work_identity demo_platform sample_work_request = Inr sample_work_identity"
    using sample_request_valid by (simp add: build_identity_Inr sample_work_identity_def)
  moreover have "digest_tells_apart demo_platform c (run (record_step demo_platform) [] [])" for c
    by (simp add: digest_tells_apart_def)
  ultimately obtain ob F' w T where w: "issue_blocked demo_platform sample_work_identity required_blockers \<lparr>op_address = 1, op_serial = 1\<rparr> new_factory = (Inr ob, F')"
      "prepare_port_write demo_platform F' ob = Inr w"
      "record_checkpoint demo_platform (wp_checkpoint w) (wp_canonical w) (run (record_step demo_platform) [] []) = (Inr (wp_checkpoint w), T)"
    using blocked_work_reaches_store [OF demo_digest_law] by blast
  have "fst (record_checkpoint demo_platform (wp_checkpoint w) (wp_canonical w) []) = Inr (wp_checkpoint w)"
    using w(3) by simp
  then show ?thesis using w(1,2) by auto
qed

end
