(* ===== verification/RulebookModel.thy ===== *)
theory RulebookModel
  imports Json Stores
begin

text \<open>
  The values of an executable rulebook package, as \<^verbatim>\<open>packages/legal-desks/src/\<close>
  \<^verbatim>\<open>asklegal_legal_desks/model.py\<close> closes them: the vocabulary, the package as it is loaded, its
  activation and the result of executing it.
\<close>

section \<open>Vocabulary\<close>

datatype rulebook_error_code =
    AMBIGUOUS | CONTRACT_MISMATCH | ENVIRONMENT_MISUSE | EVALUATION_LEAKAGE | EXPIRED_PROFILE | FINGERPRINT_DRIFT
  | INCOMPLETE_SOURCE_INVENTORY | INVENTORY_MISMATCH | NON_TOTAL | OVERLAPPING_SCOPES | PACKAGE_NOT_ACTIVE
  | PATH_INVALID | STALE_ACTIVATION | UNKNOWN_CODE

fun rulebook_error_value :: "rulebook_error_code \<Rightarrow> string" where
  "rulebook_error_value AMBIGUOUS = ''RULEBOOK_AMBIGUOUS''"
| "rulebook_error_value CONTRACT_MISMATCH = ''CONTRACT_MISMATCH''"
| "rulebook_error_value ENVIRONMENT_MISUSE = ''ENVIRONMENT_MISUSE''"
| "rulebook_error_value EVALUATION_LEAKAGE = ''EVALUATION_LEAKAGE''"
| "rulebook_error_value EXPIRED_PROFILE = ''EXPIRED_PROFILE''"
| "rulebook_error_value FINGERPRINT_DRIFT = ''FINGERPRINT_DRIFT''"
| "rulebook_error_value INCOMPLETE_SOURCE_INVENTORY = ''INCOMPLETE_SOURCE_INVENTORY''"
| "rulebook_error_value INVENTORY_MISMATCH = ''INVENTORY_MISMATCH''"
| "rulebook_error_value NON_TOTAL = ''RULEBOOK_NON_TOTAL''"
| "rulebook_error_value OVERLAPPING_SCOPES = ''OVERLAPPING_SCOPES''"
| "rulebook_error_value PACKAGE_NOT_ACTIVE = ''PACKAGE_NOT_ACTIVE''"
| "rulebook_error_value PATH_INVALID = ''PATH_INVALID''"
| "rulebook_error_value STALE_ACTIVATION = ''STALE_ACTIVATION''"
| "rulebook_error_value UNKNOWN_CODE = ''UNKNOWN_CODE''"

text \<open>
  \<^verbatim>\<open>RulebookError\<close>: a code and a detail. \<^verbatim>\<open>RulebookFault\<close> is any other exception, and \<^verbatim>\<open>RulebookOutside\<close> an
  input of the loader the model does not cover.
\<close>

datatype rulebook_error = RulebookError rulebook_error_code string | RulebookFault | RulebookOutside

datatype readiness_state =
    READY_ACTIVE | ATTESTED_INACTIVE | DECISION_READY | NOT_READY_SCOPE | SUPERSEDED | SUSPENDED

definition readiness_values :: "(string \<times> readiness_state) list" where
  "readiness_values = [(''ACTIVE'', READY_ACTIVE), (''ATTESTED_INACTIVE'', ATTESTED_INACTIVE),
     (''DECISION_READY'', DECISION_READY), (''NOT_READY'', NOT_READY_SCOPE), (''SUPERSEDED'', SUPERSEDED),
     (''SUSPENDED'', SUSPENDED)]"

datatype legal_disposition = CANDIDATE | NO_CHANGE | QUARANTINE | REVIEW | WITHHOLD

definition disposition_values :: "(string \<times> legal_disposition) list" where
  "disposition_values = [(''CANDIDATE'', CANDIDATE), (''NO_CHANGE'', NO_CHANGE), (''QUARANTINE'', QUARANTINE),
     (''REVIEW'', REVIEW), (''WITHHOLD'', WITHHOLD)]"

fun disposition_value :: "legal_disposition \<Rightarrow> string" where
  "disposition_value CANDIDATE = ''CANDIDATE''"
| "disposition_value NO_CHANGE = ''NO_CHANGE''"
| "disposition_value QUARANTINE = ''QUARANTINE''"
| "disposition_value REVIEW = ''REVIEW''"
| "disposition_value WITHHOLD = ''WITHHOLD''"

datatype predicate_operator = FACT_ABSENT | FACT_EQUALS | FACT_PRESENT

definition operator_values :: "(string \<times> predicate_operator) list" where
  "operator_values = [(''ABSENT'', FACT_ABSENT), (''EQUALS'', FACT_EQUALS), (''PRESENT'', FACT_PRESENT)]"

datatype generative_task =
    HK_CASE_PROPOSITION_ANALYSIS
  | HK_CASE_PROPOSITION_CHALLENGE
  | HK_LATER_TREATMENT_DISCOVERY
  | HK_LATER_TREATMENT_CANDIDATE_ANALYSIS
  | HK_REGULATORY_UPDATE_ANALYSIS
  | HK_REGULATORY_UPDATE_CHALLENGE
  | HK_REGULATORY_RECORD_ANALYSIS
  | HK_REGULATORY_RECORD_CHALLENGE
  | GAZETTE_EVENT_ANALYSIS
  | GAZETTE_EVENT_CHALLENGE
  | RECONSTRUCTION_PLAN_DECISION
  | RECONSTRUCTION_PLAN_CHALLENGE

definition generative_task_values :: "(string \<times> generative_task) list" where
  "generative_task_values = [(''HK_CASE_PROPOSITION_ANALYSIS'', HK_CASE_PROPOSITION_ANALYSIS),
     (''HK_CASE_PROPOSITION_CHALLENGE'', HK_CASE_PROPOSITION_CHALLENGE),
     (''HK_LATER_TREATMENT_DISCOVERY'', HK_LATER_TREATMENT_DISCOVERY),
     (''HK_LATER_TREATMENT_CANDIDATE_ANALYSIS'', HK_LATER_TREATMENT_CANDIDATE_ANALYSIS),
     (''HK_REGULATORY_UPDATE_ANALYSIS'', HK_REGULATORY_UPDATE_ANALYSIS),
     (''HK_REGULATORY_UPDATE_CHALLENGE'', HK_REGULATORY_UPDATE_CHALLENGE),
     (''HK_REGULATORY_RECORD_ANALYSIS'', HK_REGULATORY_RECORD_ANALYSIS),
     (''HK_REGULATORY_RECORD_CHALLENGE'', HK_REGULATORY_RECORD_CHALLENGE),
     (''GAZETTE_EVENT_ANALYSIS'', GAZETTE_EVENT_ANALYSIS),
     (''GAZETTE_EVENT_CHALLENGE'', GAZETTE_EVENT_CHALLENGE),
     (''RECONSTRUCTION_PLAN_DECISION'', RECONSTRUCTION_PLAN_DECISION),
     (''RECONSTRUCTION_PLAN_CHALLENGE'', RECONSTRUCTION_PLAN_CHALLENGE)]"

definition semantic_task_pairs :: "(generative_task \<times> generative_task) list" where
  "semantic_task_pairs = [(HK_CASE_PROPOSITION_ANALYSIS, HK_CASE_PROPOSITION_CHALLENGE),
     (HK_LATER_TREATMENT_DISCOVERY, HK_LATER_TREATMENT_CANDIDATE_ANALYSIS),
     (HK_REGULATORY_UPDATE_ANALYSIS, HK_REGULATORY_UPDATE_CHALLENGE),
     (HK_REGULATORY_RECORD_ANALYSIS, HK_REGULATORY_RECORD_CHALLENGE),
     (GAZETTE_EVENT_ANALYSIS, GAZETTE_EVENT_CHALLENGE),
     (RECONSTRUCTION_PLAN_DECISION, RECONSTRUCTION_PLAN_CHALLENGE)]"

section \<open>Reading timestamps\<close>

text \<open>
  \<^verbatim>\<open>datetime.fromisoformat\<close> followed by \<^verbatim>\<open>astimezone(UTC)\<close>: a \<^verbatim>\<open>ValueError\<close>, a value without a time zone, or
  the instant, \<^const>\<open>None\<close> where it is outside the years \<^verbatim>\<open>datetime\<close> has.
\<close>

datatype time_reading = Unreadable | Naive | Aware "int option"

type_synonym time_reader = "string \<Rightarrow> time_reading"

section \<open>Packages\<close>

record package_file =
  pf_path :: string
  pf_role :: string
  pf_byte_size :: int
  pf_fingerprint :: string

record source_definition =
  sd_source_id :: string
  sd_role :: string
  sd_endpoint_families :: "string list"
  sd_checking_tier :: string
  sd_permitted_use :: string
  sd_completeness_rule :: string
  sd_outage_consequence :: string

record rule_scope =
  rs_scope_id :: string
  rs_ownership_keys :: "string list"
  rs_required_source_ids :: "string list"
  rs_zero_record_rule :: string
  rs_withholding_rule :: string
  rs_readiness :: readiness_state
  rs_blocker_codes :: "string list"

record scope_family =
  sf_family_id :: string
  sf_ownership_key_pattern :: string
  sf_required_source_ids :: "string list"
  sf_concrete_scope_rule :: string
  sf_blocker_codes :: "string list"

record rule_predicate =
  pd_fact :: string
  pd_operator :: predicate_operator
  pd_value :: "string option"

record rule_definition =
  rd_rule_id :: string
  rd_scope_id :: string
  rd_predicates :: "rule_predicate list"
  rd_evidence_roles :: "string list"
  rd_disposition :: legal_disposition
  rd_reason_code :: string
  rd_failure_code :: "string option"
  rd_next_action :: string

record semantic_profile =
  se_profile_id :: string
  se_task :: string
  se_provider :: string
  se_resource_class :: string
  se_geography_class :: string
  se_deployment_name :: string
  se_model_id :: string
  se_model_version :: string
  se_api_contract :: string
  se_tokenizer :: string
  se_prompt_fingerprint :: string
  se_input_schema :: string
  se_output_schema :: string
  se_evidence_budget_bytes :: int
  se_max_output_tokens :: int
  se_content_filter_policy :: string
  se_retry_policy :: string
  se_data_handling_profile :: string
  se_evaluator_id :: string
  se_threshold_basis_points :: int
  se_expires_at :: string
  se_stateful_features :: bool
  se_allowed_environments :: "string list"

record rulebook_manifest =
  rm_package_id :: string
  rm_package_version :: string
  rm_package_fingerprint :: string
  rm_jurisdiction :: string
  rm_environment :: string
  rm_material_family :: string
  rm_legal_desk_owner :: string
  rm_effective_cutoff :: string
  rm_predecessor :: "string option"
  rm_contract_locks :: "string list"
  rm_code_locks :: "string list"
  rm_source_universe_fingerprint :: string
  rm_scope_readiness :: "(string \<times> readiness_state) list"
  rm_unresolved_policy_codes :: "string list"
  rm_impact_declaration :: string
  rm_minimum_engine_version :: string
  rm_files :: "package_file list"

record loaded_rulebook =
  lr_manifest :: rulebook_manifest
  lr_sources :: "source_definition list"
  lr_scopes :: "rule_scope list"
  lr_scope_families :: "scope_family list"
  lr_rules :: "rule_definition list"
  lr_semantic_profiles :: "semantic_profile list"
  lr_fixture_ids :: "string list"
  lr_evaluation_ids :: "string list"
  lr_attestation_ids :: "string list"

record activation_record =
  ar_activation_id :: string
  ar_package_id :: string
  ar_package_fingerprint :: string
  ar_engine_build :: string
  ar_contract_set_fingerprint :: string
  ar_deterministic_suite_fingerprint :: string
  ar_semantic_profile_ids :: "string list"
  ar_owner_attestation_id :: string
  ar_allowed_scope_ids :: "string list"
  ar_environment :: string
  ar_activated_at :: string

record processing_subject =
  ps_subject_id :: string
  ps_scope_id :: string
  ps_observation_id :: string
  ps_source_snapshot_id :: string
  ps_evidence_refs :: "string list"
  ps_evidence_roles :: "string list"
  ps_prior_state :: string
  ps_facts :: "(string \<times> string) list"
  ps_input_fingerprint :: string

record rule_trace_entry =
  te_rule_id :: string
  te_matched :: bool
  te_predicate_results :: "bool list"

record rule_execution_result =
  rx_result_id :: string
  rx_package_id :: string
  rx_package_version :: string
  rx_package_fingerprint :: string
  rx_rule_id :: string
  rx_subject_id :: string
  rx_evidence_refs :: "string list"
  rx_prior_state :: string
  rx_trace :: "rule_trace_entry list"
  rx_processing_result :: string
  rx_disposition :: "legal_disposition option"
  rx_reason_code :: string
  rx_failure_code :: "string option"
  rx_coverage_effect :: string
  rx_review_effect :: string
  rx_candidate_artifact_refs :: "string list"
  rx_next_action :: string
  rx_immutable :: bool

text \<open>A text or \<^verbatim>\<open>null\<close>.\<close>

definition nullable_text :: "string option \<Rightarrow> json" where
  "nullable_text s = (case s of None \<Rightarrow> JNull | Some s \<Rightarrow> JText s)"

end
