(* ===== verification/RuleEngine.thy ===== *)
theory RuleEngine
  imports RulebookModel
begin

text \<open>
  The lifecycle of rulebook packages and the engine that executes their rules:
  \<^verbatim>\<open>packages/legal-desks/src/asklegal_legal_desks/engine.py\<close>. The lock makes the operations of the
  lifecycle atomic, so a history is a sequence of them.
\<close>

section \<open>Lifecycle\<close>

type_synonym active_rulebook = "loaded_rulebook \<times> activation_record"

record rulebook_lifecycle =
  rl_active :: "((string \<times> string \<times> string) \<times> active_rulebook) list"
  rl_state :: "((string \<times> string) \<times> readiness_state) list"

definition new_lifecycle :: rulebook_lifecycle where
  "new_lifecycle = \<lparr>rl_active = [], rl_state = []\<rparr>"

definition desk_key :: "rulebook_manifest \<Rightarrow> string \<times> string \<times> string" where
  "desk_key m = (rm_environment m, rm_jurisdiction m, rm_material_family m)"

text \<open>The dictionary of the scopes by identity: the last of two with one identity.\<close>

definition scope_named :: "loaded_rulebook \<Rightarrow> string \<Rightarrow> rule_scope option" where
  "scope_named p scope_id = map_of (dict_of (map (\<lambda>s. (rs_scope_id s, s)) (lr_scopes p))) scope_id"

definition check_activation :: "loaded_rulebook \<Rightarrow> activation_record \<Rightarrow> string \<Rightarrow> string \<Rightarrow> rulebook_error option" where
  "check_activation p a contract_set engine_build = (let m = lr_manifest p in first_raise
     ([raise_if
        (ar_package_id a \<noteq> rm_package_id m \<or> ar_package_fingerprint a \<noteq> rm_package_fingerprint m
         \<or> ar_environment a \<noteq> rm_environment m \<or> ar_engine_build a \<noteq> engine_build
         \<or> ar_contract_set_fingerprint a \<noteq> contract_set \<or> ar_owner_attestation_id a \<notin> set (lr_attestation_ids p)
         \<or> set (ar_semantic_profile_ids a) \<noteq> set (map se_profile_id (lr_semantic_profiles p)))
        (RulebookError STALE_ACTIVATION ''''),
       raise_if (ar_allowed_scope_ids a = [] \<or> \<not> set (ar_allowed_scope_ids a) \<subseteq> set (map rs_scope_id (lr_scopes p)))
        (RulebookError STALE_ACTIVATION ''scope set'')]
      @ map (\<lambda>scope_id. raise_if (map_option rs_readiness (scope_named p scope_id) \<noteq> Some ATTESTED_INACTIVE)
          (RulebookError PACKAGE_NOT_ACTIVE scope_id)) (ar_allowed_scope_ids a)))"

definition activate_rulebook ::
    "loaded_rulebook \<Rightarrow> activation_record \<Rightarrow> string \<Rightarrow> string \<Rightarrow> rulebook_lifecycle
       \<Rightarrow> (rulebook_error + active_rulebook) \<times> rulebook_lifecycle" where
  "activate_rulebook p a contract_set engine_build L =
     (case check_activation p a contract_set engine_build of
        Some e \<Rightarrow> (Inl e, L)
      | None \<Rightarrow> (let key = desk_key (lr_manifest p) in
          if map_of (rl_active L) key \<notin> {None, Some (p, a)}
          then (Inl (RulebookError STALE_ACTIVATION ''another version active''), L)
          else (Inr (p, a), L\<lparr>rl_active := AList.update key (p, a) (rl_active L),
            rl_state := foldl (\<lambda>state scope_id. AList.update (rm_package_fingerprint (lr_manifest p), scope_id) READY_ACTIVE state)
              (rl_state L) (ar_allowed_scope_ids a)\<rparr>)))"

definition require_active :: "rulebook_lifecycle \<Rightarrow> string \<Rightarrow> string \<Rightarrow> rulebook_error option" where
  "require_active L fingerprint scope_id = raise_if (map_of (rl_state L) (fingerprint, scope_id) \<noteq> Some READY_ACTIVE)
     (RulebookError PACKAGE_NOT_ACTIVE scope_id)"

definition suspend_scope ::
    "string \<Rightarrow> string \<Rightarrow> rulebook_lifecycle \<Rightarrow> (rulebook_error + unit) \<times> rulebook_lifecycle" where
  "suspend_scope fingerprint scope_id L =
     (case require_active L fingerprint scope_id of
        Some e \<Rightarrow> (Inl e, L)
      | None \<Rightarrow> (Inr (), L\<lparr>rl_state := AList.update (fingerprint, scope_id) SUSPENDED (rl_state L)\<rparr>))"

text \<open>A history of the lifecycle is a sequence of activations and suspensions.\<close>

datatype lifecycle_op =
    ActivateRulebook loaded_rulebook activation_record string string
  | SuspendScope string string

fun lifecycle_step :: "lifecycle_op \<Rightarrow> rulebook_lifecycle \<Rightarrow> (rulebook_error + unit) \<times> rulebook_lifecycle" where
  "lifecycle_step (ActivateRulebook p a contract_set engine_build) L =
     (case activate_rulebook p a contract_set engine_build L of (r, L') \<Rightarrow> (and_then r (\<lambda>_. Inr ()), L'))"
| "lifecycle_step (SuspendScope fingerprint scope_id) L = suspend_scope fingerprint scope_id L"

section \<open>Execution\<close>

definition engine_id :: "platform \<Rightarrow> string \<Rightarrow> string list \<Rightarrow> string" where
  "engine_id P prefix parts = prefix @ ''_'' @ take 48 (sha256_hex P (utf8 (join [CHR 0x1F] parts)))"

definition predicate_holds :: "(string \<times> string) list \<Rightarrow> rule_predicate \<Rightarrow> bool" where
  "predicate_holds facts p = (case pd_operator p of
     FACT_ABSENT \<Rightarrow> map_of facts (pd_fact p) = None
   | FACT_PRESENT \<Rightarrow> map_of facts (pd_fact p) \<noteq> None
   | FACT_EQUALS \<Rightarrow> map_of facts (pd_fact p) = pd_value p)"

definition trace_rule :: "processing_subject \<Rightarrow> rule_definition \<Rightarrow> rule_trace_entry" where
  "trace_rule subject rule = (let results = map (predicate_holds (dict_of (ps_facts subject))) (rd_predicates rule) in
     \<lparr>te_rule_id = rd_rule_id rule,
      te_matched = (list_all id results \<and> set (rd_evidence_roles rule) \<subseteq> set (ps_evidence_roles subject)),
      te_predicate_results = results\<rparr>)"

definition scope_rules :: "loaded_rulebook \<Rightarrow> processing_subject \<Rightarrow> rule_definition list" where
  "scope_rules p subject = filter (\<lambda>rule. rd_scope_id rule = ps_scope_id subject) (lr_rules p)"

definition matching_rules :: "loaded_rulebook \<Rightarrow> processing_subject \<Rightarrow> rule_definition list" where
  "matching_rules p subject = filter (\<lambda>rule. te_matched (trace_rule subject rule)) (scope_rules p subject)"

definition blocked_result ::
    "platform \<Rightarrow> loaded_rulebook \<Rightarrow> processing_subject \<Rightarrow> rulebook_error_code \<Rightarrow> rule_execution_result" where
  "blocked_result P p subject code = (let m = lr_manifest p in
     \<lparr>rx_result_id = engine_id P ''rul'' [rm_package_fingerprint m, ps_input_fingerprint subject],
      rx_package_id = rm_package_id m, rx_package_version = rm_package_version m,
      rx_package_fingerprint = rm_package_fingerprint m, rx_rule_id = [], rx_subject_id = ps_subject_id subject,
      rx_evidence_refs = ps_evidence_refs subject, rx_prior_state = ps_prior_state subject,
      rx_trace = map (trace_rule subject) (scope_rules p subject), rx_processing_result = ''BLOCKED'',
      rx_disposition = None, rx_reason_code = rulebook_error_value code,
      rx_failure_code = Some (rulebook_error_value code), rx_coverage_effect = ''BLOCK_SCOPE'',
      rx_review_effect = ''OPEN_LEGAL_DESK_REVIEW'', rx_candidate_artifact_refs = [], rx_next_action = ''STOP'',
      rx_immutable = True\<rparr>)"

definition decided_result ::
    "platform \<Rightarrow> loaded_rulebook \<Rightarrow> processing_subject \<Rightarrow> rule_definition \<Rightarrow> rule_execution_result" where
  "decided_result P p subject rule = (let m = lr_manifest p;
     result_id = engine_id P ''rul'' [rm_package_fingerprint m, ps_input_fingerprint subject, rd_rule_id rule] in
     \<lparr>rx_result_id = result_id,
      rx_package_id = rm_package_id m, rx_package_version = rm_package_version m,
      rx_package_fingerprint = rm_package_fingerprint m, rx_rule_id = rd_rule_id rule, rx_subject_id = ps_subject_id subject,
      rx_evidence_refs = ps_evidence_refs subject, rx_prior_state = ps_prior_state subject,
      rx_trace = map (trace_rule subject) (scope_rules p subject), rx_processing_result = ''SUCCEEDED'',
      rx_disposition = Some (rd_disposition rule), rx_reason_code = rd_reason_code rule,
      rx_failure_code = rd_failure_code rule, rx_coverage_effect = ''ACCOUNTED'',
      rx_review_effect = (if rd_disposition rule \<in> {QUARANTINE, REVIEW} then ''OPEN_REVIEW'' else ''NONE''),
      rx_candidate_artifact_refs = (if rd_disposition rule = CANDIDATE
        then [engine_id P ''car'' [result_id, ''CANDIDATE'']] else []),
      rx_next_action = rd_next_action rule, rx_immutable = True\<rparr>)"

definition execute_rules ::
    "platform \<Rightarrow> rulebook_lifecycle \<Rightarrow> loaded_rulebook \<Rightarrow> processing_subject \<Rightarrow> rulebook_error + rule_execution_result" where
  "execute_rules P L p subject = guarded
     [require_active L (rm_package_fingerprint (lr_manifest p)) (ps_scope_id subject),
      raise_if (\<not> distinct (ps_evidence_refs subject) \<or> ps_evidence_refs subject = []) (RulebookError CONTRACT_MISMATCH ''evidence refs''),
      raise_if (length (dict_of (ps_facts subject)) \<noteq> length (ps_facts subject)) (RulebookError CONTRACT_MISMATCH ''duplicate facts'')]
     (Inr (case matching_rules p subject of
        [] \<Rightarrow> blocked_result P p subject NON_TOTAL
      | [rule] \<Rightarrow> decided_result P p subject rule
      | _ \<Rightarrow> blocked_result P p subject AMBIGUOUS))"

section \<open>Canonical results\<close>

definition trace_document :: "rule_trace_entry \<Rightarrow> json" where
  "trace_document t = JObject [(''matched'', JBoolean (te_matched t)),
     (''predicate_results'', JArray (map JBoolean (te_predicate_results t))), (''rule_id'', JText (te_rule_id t))]"

definition result_document :: "rule_execution_result \<Rightarrow> json" where
  "result_document r = JObject
     [(''candidate_artifact_refs'', JArray (map JText (rx_candidate_artifact_refs r))),
      (''coverage_effect'', JText (rx_coverage_effect r)),
      (''disposition'', nullable_text (map_option disposition_value (rx_disposition r))),
      (''evidence_refs'', JArray (map JText (rx_evidence_refs r))),
      (''failure_code'', nullable_text (rx_failure_code r)),
      (''immutable'', JBoolean (rx_immutable r)),
      (''next_action'', JText (rx_next_action r)),
      (''package_fingerprint'', JText (rx_package_fingerprint r)),
      (''package_id'', JText (rx_package_id r)),
      (''package_version'', JText (rx_package_version r)),
      (''prior_state'', JText (rx_prior_state r)),
      (''processing_result'', JText (rx_processing_result r)),
      (''reason_code'', JText (rx_reason_code r)),
      (''result_id'', JText (rx_result_id r)),
      (''review_effect'', JText (rx_review_effect r)),
      (''rule_id'', JText (rx_rule_id r)),
      (''subject_id'', JText (rx_subject_id r)),
      (''trace'', JArray (map trace_document (rx_trace r)))]"

definition canonical_result :: "encoder \<Rightarrow> rule_execution_result \<Rightarrow> string option" where
  "canonical_result E r = E (result_document r)"

end
