(* ===== verification/SemanticGate.thy ===== *)
theory SemanticGate
  imports RulebookModel Bytes
begin

text \<open>
  The gate in front of the generative tasks and the rendering of candidates:
  \<^verbatim>\<open>packages/processing/src/asklegal_processing/\<close> \<^verbatim>\<open>model.py\<close>, \<^verbatim>\<open>semantic.py\<close> and \<^verbatim>\<open>render.py\<close>.
  The runner of the tasks is a function over a state of its own; the two runners of the package
  are instances of what the gate relies on.
\<close>

section \<open>Values\<close>

text \<open>\<^verbatim>\<open>ProcessingError\<close> with its message, and any other exception.\<close>

datatype processing_raise = ProcessingError string | ProcessingFault

record semantic_request =
  sq_request_id :: string
  sq_task :: string
  sq_phase :: string
  sq_profile_id :: string
  sq_package_fingerprint :: string
  sq_subject_id :: string
  sq_evidence_refs :: "string list"
  sq_evidence_bytes :: string
  sq_input_fingerprint :: string

record semantic_decision =
  sc_request_id :: string
  sc_task :: string
  sc_phase :: string
  sc_decision_code :: string
  sc_supporting_evidence_refs :: "string list"
  sc_unresolved_facts :: "string list"
  sc_challenge_code :: string
  sc_output_fingerprint :: string
  sc_provider :: string
  sc_provider_request_id :: string
  sc_effect_receipt_id :: string

definition semantic_effect_receipt_id :: "platform \<Rightarrow> string \<Rightarrow> string \<Rightarrow> string \<Rightarrow> string" where
  "semantic_effect_receipt_id P request_id provider_request_id output_fingerprint =
     ''mec_'' @ take 48 (sha256_hex P
       (utf8 (request_id @ [CHR 0x1F] @ provider_request_id @ [CHR 0x1F] @ output_fingerprint)))"

record admitted_decision =
  ad_primary_profile_id :: string
  ad_challenge_profile_id :: string
  ad_primary :: semantic_decision
  ad_challenge :: semantic_decision
  ad_admitted_fields :: "(string \<times> string) list"
  ad_immutable :: bool

record candidate_artifact =
  ca_artifact_id :: string
  ca_rule_result_id :: string
  ca_subject_id :: string
  ca_disposition :: string
  ca_evidence_refs :: "string list"
  ca_semantic_decision_ref :: "string option"
  ca_canonical_bytes :: string
  ca_fingerprint :: string

section \<open>Runners\<close>

type_synonym 's task_runner =
  "semantic_profile \<Rightarrow> semantic_request \<Rightarrow> 's \<Rightarrow> (processing_raise + semantic_decision) \<times> 's"

definition challenge_code :: "string \<Rightarrow> processing_raise + string" where
  "challenge_code c = construct
     [raise_if (c \<notin> {''NOT_APPLICABLE'', ''PASS'', ''FAIL''}) (ProcessingError ''UNKNOWN_CHALLENGE_CODE'')] c"

definition disabled_runner :: "'s task_runner" where
  "disabled_runner profile request s = (Inl (ProcessingError ''SEMANTIC_CAPABILITY_DISABLED''), s)"

text \<open>
  The outputs of \<^verbatim>\<open>DeterministicSemanticTaskRunner\<close>, by task, phase and input fingerprint: the decision
  code, the supporting references, the unresolved facts and the challenge code. Its state is the
  list of the requests it answered.
\<close>

type_synonym task_outputs = "((string \<times> string \<times> string) \<times> string \<times> string list \<times> string list \<times> string) list"

definition output_document :: "semantic_request \<Rightarrow> string \<Rightarrow> string list \<Rightarrow> string list \<Rightarrow> string \<Rightarrow> json" where
  "output_document request code refs unresolved challenge = JObject
     [(''challenge_code'', JText challenge), (''decision_code'', JText code), (''phase'', JText (sq_phase request)),
      (''request_id'', JText (sq_request_id request)), (''supporting_evidence_refs'', JArray (map JText refs)),
      (''task'', JText (sq_task request)), (''unresolved_facts'', JArray (map JText unresolved))]"

definition deterministic_runner :: "platform \<Rightarrow> encoder \<Rightarrow> task_outputs \<Rightarrow> string list task_runner" where
  "deterministic_runner P E outputs profile request invocations =
     (if se_provider profile \<noteq> ''LOCAL_FAKE'' \<or> ''LOCAL_SYNTHETIC'' \<notin> set (se_allowed_environments profile)
      then (Inl (ProcessingError ''LOCAL_FAKE_ENVIRONMENT_MISUSE''), invocations)
      else case map_of outputs (sq_task request, sq_phase request, sq_input_fingerprint request) of
        None \<Rightarrow> (Inl (ProcessingError ''NO_EXACT_SYNTHETIC_OUTPUT''), invocations)
      | Some (code, refs, unresolved, challenge) \<Rightarrow>
          (case E (output_document request code refs unresolved challenge) of
             None \<Rightarrow> (Inl ProcessingFault, invocations)
           | Some raw \<Rightarrow>
               (and_then (challenge_code challenge) (\<lambda>challenge. Inr
                 \<lparr>sc_request_id = sq_request_id request, sc_task = sq_task request, sc_phase = sq_phase request,
                  sc_decision_code = code, sc_supporting_evidence_refs = refs, sc_unresolved_facts = unresolved,
                  sc_challenge_code = challenge, sc_output_fingerprint = sha256_fingerprint P raw,
                  sc_provider = ''UNREPORTED'', sc_provider_request_id = ''unreported'',
                  sc_effect_receipt_id = ''unreported''\<rparr>),
                invocations @ [sq_request_id request])))"

section \<open>The gate\<close>

definition parse_expiry :: "time_reader \<Rightarrow> string \<Rightarrow> processing_raise + int" where
  "parse_expiry clock value = (case clock value of
     Unreadable \<Rightarrow> Inl (ProcessingError ''PROFILE_EXPIRY_INVALID'')
   | Naive \<Rightarrow> Inl (ProcessingError ''PROFILE_EXPIRY_INVALID'')
   | Aware None \<Rightarrow> Inl ProcessingFault
   | Aware (Some instant) \<Rightarrow> Inr instant)"

definition check_unexpired :: "time_reader \<Rightarrow> string \<Rightarrow> string \<Rightarrow> processing_raise option" where
  "check_unexpired clock expires_at now = raised_by
     (and_then (parse_expiry clock expires_at) (\<lambda>expiry. and_then (parse_expiry clock now) (\<lambda>instant.
        construct [raise_if (expiry \<le> instant) (ProcessingError ''PROFILE_EXPIRED'')] ())))"

definition task_pair_known :: "string \<Rightarrow> string \<Rightarrow> bool" where
  "task_pair_known primary challenge \<longleftrightarrow>
     (case (map_of generative_task_values primary, map_of generative_task_values challenge) of
        (Some a, Some b) \<Rightarrow> (a, b) \<in> set semantic_task_pairs
      | _ \<Rightarrow> False)"

definition check_workflow ::
    "time_reader \<Rightarrow> semantic_profile \<times> semantic_profile \<Rightarrow> semantic_request \<times> semantic_request
       \<Rightarrow> string \<Rightarrow> string \<Rightarrow> processing_raise option" where
  "check_workflow clock profiles requests environment now =
     (case (profiles, requests) of ((pp, cp), (pr, cr)) \<Rightarrow> first_raise
       [raise_if (se_profile_id pp \<noteq> sq_profile_id pr \<or> se_task pp \<noteq> sq_task pr
          \<or> se_profile_id cp \<noteq> sq_profile_id cr \<or> se_task cp \<noteq> sq_task cr)
          (ProcessingError ''PROFILE_REQUEST_MISMATCH''),
        raise_if (environment \<notin> set (se_allowed_environments pp) \<or> environment \<notin> set (se_allowed_environments cp))
          (ProcessingError ''PROFILE_ENVIRONMENT_MISMATCH''),
        check_unexpired clock (se_expires_at pp) now,
        check_unexpired clock (se_expires_at cp) now,
        raise_if (se_stateful_features pp \<or> se_stateful_features cp)
          (ProcessingError ''STATEFUL_PROVIDER_FEATURE_FORBIDDEN''),
        raise_if (se_evidence_budget_bytes pp < int (length (sq_evidence_bytes pr))
          \<or> se_evidence_budget_bytes cp < int (length (sq_evidence_bytes cr)))
          (ProcessingError ''EVIDENCE_BUDGET_EXCEEDED''),
        raise_if (map_of generative_task_values (sq_task pr) = None \<or> map_of generative_task_values (sq_task cr) = None)
          (ProcessingError ''UNKNOWN_GENERATIVE_TASK''),
        raise_if (sq_request_id pr = sq_request_id cr \<or> se_profile_id pp = se_profile_id cp
          \<or> se_prompt_fingerprint pp = se_prompt_fingerprint cp
          \<or> sq_phase cr \<noteq> ''CHALLENGE'' \<or> sq_phase pr \<noteq> ''DECISION''
          \<or> \<not> task_pair_known (sq_task pr) (sq_task cr)
          \<or> sq_package_fingerprint cr \<noteq> sq_package_fingerprint pr \<or> sq_subject_id cr \<noteq> sq_subject_id pr
          \<or> sq_evidence_refs cr \<noteq> sq_evidence_refs pr \<or> sq_evidence_bytes cr \<noteq> sq_evidence_bytes pr
          \<or> sq_input_fingerprint cr \<noteq> sq_input_fingerprint pr)
          (ProcessingError ''CHALLENGE_BINDING_MISMATCH'')])"

definition answers_rejected :: "semantic_request \<times> semantic_request \<Rightarrow> semantic_decision \<Rightarrow> semantic_decision \<Rightarrow> bool" where
  "answers_rejected requests primary challenge = (case requests of (pr, cr) \<Rightarrow>
     sc_request_id primary \<noteq> sq_request_id pr \<or> sc_task primary \<noteq> sq_task pr \<or> sc_phase primary \<noteq> ''DECISION''
     \<or> \<not> set (sc_supporting_evidence_refs primary) \<subseteq> set (sq_evidence_refs pr) \<or> sc_unresolved_facts primary \<noteq> []
     \<or> sc_request_id challenge \<noteq> sq_request_id cr \<or> sc_task challenge \<noteq> sq_task cr \<or> sc_phase challenge \<noteq> ''CHALLENGE''
     \<or> \<not> set (sc_supporting_evidence_refs challenge) \<subseteq> set (sq_evidence_refs pr)
     \<or> sc_challenge_code challenge \<noteq> ''PASS'' \<or> sc_decision_code challenge \<noteq> sc_decision_code primary)"

definition gate_decide ::
    "time_reader \<Rightarrow> 's task_runner \<Rightarrow> semantic_profile \<times> semantic_profile \<Rightarrow> semantic_request \<times> semantic_request
       \<Rightarrow> string \<Rightarrow> string \<Rightarrow> 's \<Rightarrow> (processing_raise + admitted_decision) \<times> 's" where
  "gate_decide clock invoke profiles requests environment now s =
     (case check_workflow clock profiles requests environment now of
        Some e \<Rightarrow> (Inl e, s)
      | None \<Rightarrow> (case invoke (fst profiles) (fst requests) s of
          (Inl e, s') \<Rightarrow> (Inl e, s')
        | (Inr primary, s') \<Rightarrow> (case invoke (snd profiles) (snd requests) s' of
            (Inl e, s'') \<Rightarrow> (Inl e, s'')
          | (Inr challenge, s'') \<Rightarrow>
              (construct [raise_if (answers_rejected requests primary challenge) (ProcessingError ''SEMANTIC_DECISION_REJECTED'')]
                 \<lparr>ad_primary_profile_id = se_profile_id (fst profiles),
                  ad_challenge_profile_id = se_profile_id (snd profiles),
                  ad_primary = primary, ad_challenge = challenge,
                  ad_admitted_fields = [(''semantic.decision_code'', sc_decision_code primary)],
                  ad_immutable = True\<rparr>, s''))))"

section \<open>Rendering\<close>

definition candidate_document :: "rule_execution_result \<Rightarrow> legal_disposition \<Rightarrow> string option \<Rightarrow> json" where
  "candidate_document r d semantic_ref = JObject
     [(''artifact_kind'', JText ''LEGAL_PROCESSING_CANDIDATE''), (''disposition'', JText (disposition_value d)),
      (''evidence_refs'', JArray (map JText (rx_evidence_refs r))), (''rule_result_id'', JText (rx_result_id r)),
      (''semantic_decision_ref'', nullable_text semantic_ref), (''subject_id'', JText (rx_subject_id r))]"

text \<open>A result that succeeded with an empty list of artifact references is an \<^verbatim>\<open>IndexError\<close>.\<close>

definition render_candidate ::
    "platform \<Rightarrow> encoder \<Rightarrow> rule_execution_result \<Rightarrow> admitted_decision option
       \<Rightarrow> processing_raise + candidate_artifact option" where
  "render_candidate P E r semantic =
     (case rx_disposition r of
        None \<Rightarrow> Inr None
      | Some d \<Rightarrow>
          if rx_processing_result r \<noteq> ''SUCCEEDED'' \<or> d \<noteq> CANDIDATE then Inr None
          else if rx_failure_code r \<noteq> None then Inl (ProcessingError ''FAILED_RESULT_CANNOT_RENDER'')
          else (let semantic_ref = map_option (\<lambda>s. sc_output_fingerprint (ad_primary s)) semantic in
            case (E (candidate_document r d semantic_ref), rx_candidate_artifact_refs r) of
              (Some raw, artifact # _) \<Rightarrow> Inr (Some
                \<lparr>ca_artifact_id = artifact, ca_rule_result_id = rx_result_id r, ca_subject_id = rx_subject_id r,
                 ca_disposition = disposition_value d, ca_evidence_refs = rx_evidence_refs r,
                 ca_semantic_decision_ref = semantic_ref, ca_canonical_bytes = raw,
                 ca_fingerprint = sha256_fingerprint P raw\<rparr>)
            | _ \<Rightarrow> Inl ProcessingFault))"

end
