(* ===== verification/LegalProcessing.thy ===== *)
theory LegalProcessing
  imports RuleEngine SemanticGate OutcomeRegisters EvidencePackages
begin

text \<open>
  The legal-processing service, \<^verbatim>\<open>apps/legal-processing-worker/src/asklegal_legal_processing_worker/\<close>
  \<^verbatim>\<open>service.py\<close>: an observation of the acquisition register with the receipt of its evidence package
  is processed under a rulebook package, and the result is recorded in the processing register.
\<close>

datatype service_raise =
  FromEngine rulebook_error | FromProcessing processing_raise | FromRegister outcome_error

fun raise_as :: "('e \<Rightarrow> 'f) \<Rightarrow> 'e + 'a \<Rightarrow> 'f + 'a" where
  "raise_as f (Inl e) = Inl (f e)"
| "raise_as f (Inr x) = Inr x"

text \<open>The state behind the service: the lifecycle it was bound to, the register and the runner's state.\<close>

record 's processing_service =
  sv_lifecycle :: rulebook_lifecycle
  sv_register :: legal_processing_register
  sv_runner :: 's

definition receipt_artifacts :: "package_receipt \<Rightarrow> string list" where
  "receipt_artifacts receipt = map entry_artifact (em_entries (pr_manifest receipt))"

definition validate_evidence ::
    "acquisition_observation \<Rightarrow> package_receipt \<Rightarrow> processing_subject \<Rightarrow> loaded_rulebook \<Rightarrow> rulebook_error option" where
  "validate_evidence a receipt subject p = first_raise
     [raise_if (ao_disposition a \<noteq> ''SNAPSHOT_PRESERVED'' \<or> ao_consequence a \<noteq> ''LEGAL_PROCESSING_ELIGIBLE''
        \<or> ao_source_snapshot_id a = []) (RulebookError CONTRACT_MISMATCH ''M4 eligibility''),
      raise_if (em_package_id (pr_manifest receipt) \<noteq> ao_evidence_package_id a
        \<or> em_observation_id (pr_manifest receipt) \<noteq> ao_observation_id a
        \<or> or_version_id (pr_primary_manifest receipt) \<noteq> ao_primary_manifest_version a
        \<or> or_version_id (pr_recovery_manifest receipt) \<noteq> ao_recovery_manifest_version a
        \<or> or_fingerprint (pr_primary_manifest receipt) \<noteq> ao_manifest_fingerprint a)
        (RulebookError FINGERPRINT_DRIFT ''M4 evidence receipt''),
      raise_if (ps_observation_id subject \<noteq> ao_observation_id a \<or> ps_source_snapshot_id subject \<noteq> ao_source_snapshot_id a
        \<or> ao_source_id a \<notin> set (map sd_source_id (lr_sources p)))
        (RulebookError CONTRACT_MISMATCH ''processing subject''),
      raise_if (\<not> set (ps_evidence_refs subject) \<subseteq> set (receipt_artifacts receipt))
        (RulebookError CONTRACT_MISMATCH ''unpreserved evidence'')]"

definition profile_of :: "loaded_rulebook \<Rightarrow> semantic_request \<Rightarrow> semantic_profile option" where
  "profile_of p request = find (\<lambda>profile. se_profile_id profile = sq_profile_id request) (lr_semantic_profiles p)"

definition decide_semantics ::
    "time_reader \<Rightarrow> 's task_runner \<Rightarrow> loaded_rulebook \<Rightarrow> (semantic_request \<times> semantic_request) option \<Rightarrow> string \<Rightarrow> 's
       \<Rightarrow> (service_raise + admitted_decision option) \<times> 's" where
  "decide_semantics clock invoke p requests now s =
     (case requests of
        None \<Rightarrow> (Inr None, s)
      | Some (primary, challenge) \<Rightarrow> (case (profile_of p primary, profile_of p challenge) of
          (Some pp, Some cp) \<Rightarrow>
            (case gate_decide clock invoke (pp, cp) (primary, challenge) (rm_environment (lr_manifest p)) now s of
               (r, s') \<Rightarrow> (raise_as FromProcessing (and_then r (\<lambda>d. Inr (Some d))), s'))
        | _ \<Rightarrow> (Inl (FromEngine (RulebookError PACKAGE_NOT_ACTIVE ''semantic profile'')), s)))"

definition effective_subject :: "processing_subject \<Rightarrow> admitted_decision option \<Rightarrow> processing_subject" where
  "effective_subject subject semantic = (case semantic of
     None \<Rightarrow> subject
   | Some d \<Rightarrow> subject\<lparr>ps_facts := ps_facts subject @ ad_admitted_fields d\<rparr>)"

definition processing_record ::
    "acquisition_observation \<Rightarrow> loaded_rulebook \<Rightarrow> processing_subject \<Rightarrow> rule_execution_result
       \<Rightarrow> candidate_artifact option \<Rightarrow> admitted_decision option \<Rightarrow> legal_processing_record" where
  "processing_record a p subject r candidate semantic =
     \<lparr>lp_result_id = rx_result_id r, lp_input_fingerprint = ps_input_fingerprint subject,
      lp_observation_id = ao_observation_id a, lp_source_snapshot_id = ao_source_snapshot_id a,
      lp_package_id = rm_package_id (lr_manifest p), lp_package_fingerprint = rm_package_fingerprint (lr_manifest p),
      lp_rule_id = rx_rule_id r,
      lp_disposition = (case rx_disposition r of Some d \<Rightarrow> disposition_value d | None \<Rightarrow> ''BLOCK''),
      lp_reason_code = rx_reason_code r,
      lp_failure_code = (case rx_failure_code r of Some c \<Rightarrow> c | None \<Rightarrow> []),
      lp_evidence_refs = rx_evidence_refs r,
      lp_candidate_artifact_id = (case candidate of Some c \<Rightarrow> ca_artifact_id c | None \<Rightarrow> []),
      lp_candidate_artifact_fingerprint = (case candidate of Some c \<Rightarrow> ca_fingerprint c | None \<Rightarrow> []),
      lp_semantic_decision_fingerprint = (case semantic of Some d \<Rightarrow> sc_output_fingerprint (ad_primary d) | None \<Rightarrow> []),
      lp_next_action = rx_next_action r\<rparr>"

definition evaluate_subject ::
    "platform \<Rightarrow> encoder \<Rightarrow> rulebook_lifecycle \<Rightarrow> acquisition_observation \<Rightarrow> loaded_rulebook \<Rightarrow> processing_subject
       \<Rightarrow> admitted_decision option
       \<Rightarrow> service_raise + rule_execution_result \<times> candidate_artifact option \<times> legal_processing_record" where
  "evaluate_subject P E L a p subject semantic =
     and_then (raise_as FromEngine (execute_rules P L p (effective_subject subject semantic))) (\<lambda>r.
     and_then (raise_as FromProcessing (render_candidate P E r semantic)) (\<lambda>candidate.
     Inr (r, candidate, processing_record a p subject r candidate semantic)))"

definition process_subject ::
    "platform \<Rightarrow> encoder \<Rightarrow> time_reader \<Rightarrow> 's task_runner \<Rightarrow> acquisition_observation \<Rightarrow> package_receipt
       \<Rightarrow> loaded_rulebook \<Rightarrow> processing_subject \<Rightarrow> (semantic_request \<times> semantic_request) option \<Rightarrow> string
       \<Rightarrow> 's processing_service
       \<Rightarrow> (service_raise + rule_execution_result \<times> candidate_artifact option \<times> legal_processing_record)
          \<times> 's processing_service" where
  "process_subject P E clock invoke a receipt p subject requests now S =
     (case validate_evidence a receipt subject p of
        Some e \<Rightarrow> (Inl (FromEngine e), S)
      | None \<Rightarrow> (case decide_semantics clock invoke p requests now (sv_runner S) of
          (Inl e, s) \<Rightarrow> (Inl e, S\<lparr>sv_runner := s\<rparr>)
        | (Inr semantic, s) \<Rightarrow> (case evaluate_subject P E (sv_lifecycle S) a p subject semantic of
            Inl e \<Rightarrow> (Inl e, S\<lparr>sv_runner := s\<rparr>)
          | Inr (r, candidate, entry) \<Rightarrow> (case record_processing_result entry (sv_register S) of
              (Inl e, R) \<Rightarrow> (Inl (FromRegister e), S\<lparr>sv_runner := s, sv_register := R\<rparr>)
            | (Inr recorded, R) \<Rightarrow> (Inr (r, candidate, recorded), S\<lparr>sv_runner := s, sv_register := R\<rparr>)))))"

end
