(* ===== verification/RuleEngineProperties.thy ===== *)
theory RuleEngineProperties
  imports RuleEngine "HOL-Library.Multiset"
begin

text \<open>
  What the lifecycle and the rule engine guarantee: which history lets a scope execute, that the
  version under a key is final, and that a result depends on the rules that match and not on their
  order.
\<close>

section \<open>The lifecycle\<close>

definition lifecycle_ok :: "rulebook_lifecycle \<Rightarrow> bool" where
  "lifecycle_ok L \<longleftrightarrow> (\<forall>key p a. map_of (rl_active L) key = Some (p, a) \<longrightarrow> desk_key (lr_manifest p) = key
     \<and> check_activation p a (ar_contract_set_fingerprint a) (ar_engine_build a) = None)"

lemma scope_states:
  "map_of (foldl (\<lambda>state scope_id. AList.update (f, scope_id) st state) m xs) (g, s)
     = (if g = f \<and> s \<in> set xs then Some st else map_of m (g, s))"
  by (induction xs arbitrary: m) auto

lemma activate_Inr:
  "activate_rulebook p a c b L = (Inr x, L') \<longleftrightarrow> x = (p, a) \<and> check_activation p a c b = None
     \<and> map_of (rl_active L) (desk_key (lr_manifest p)) \<in> {None, Some (p, a)}
     \<and> L' = L\<lparr>rl_active := AList.update (desk_key (lr_manifest p)) (p, a) (rl_active L),
          rl_state := foldl (\<lambda>state scope_id. AList.update (rm_package_fingerprint (lr_manifest p), scope_id) READY_ACTIVE state)
            (rl_state L) (ar_allowed_scope_ids a)\<rparr>"
  by (cases "map_of (rl_active L) (desk_key (lr_manifest p))")
    (auto simp: activate_rulebook_def Let_def split: option.splits if_splits)

lemma activate_Inl: "activate_rulebook p a c b L = (Inl e, L') \<Longrightarrow> L' = L"
  by (auto simp: activate_rulebook_def Let_def split: option.splits if_splits)

lemma suspend_Inr:
  "suspend_scope f s L = (Inr x, L') \<longleftrightarrow> map_of (rl_state L) (f, s) = Some READY_ACTIVE
     \<and> L' = L\<lparr>rl_state := AList.update (f, s) SUSPENDED (rl_state L)\<rparr>"
  by (auto simp: suspend_scope_def require_active_def raise_if_def)

lemma suspend_Inl: "suspend_scope f s L = (Inl e, L') \<Longrightarrow> L' = L"
  by (auto simp: suspend_scope_def require_active_def raise_if_def split: if_splits)

lemma suspend_active: "rl_active (snd (suspend_scope f s L)) = rl_active L"
  by (simp add: suspend_scope_def split: option.splits)

lemma activation_accepted:
  "fst (lifecycle_step (ActivateRulebook q a c b) L) = Inr () \<longleftrightarrow>
     check_activation q a c b = None \<and> map_of (rl_active L) (desk_key (lr_manifest q)) \<in> {None, Some (q, a)}"
  by (cases "map_of (rl_active L) (desk_key (lr_manifest q))")
    (auto simp: activate_rulebook_def Let_def split: option.splits)

lemma activation_exact: "check_activation p a c b = None \<Longrightarrow> c = ar_contract_set_fingerprint a \<and> b = ar_engine_build a"
  by (simp add: check_activation_def Let_def)

lemma activation_attested:
  "check_activation p a c b = None \<Longrightarrow> s \<in> set (ar_allowed_scope_ids a)
     \<Longrightarrow> map_option rs_readiness (scope_named p s) = Some ATTESTED_INACTIVE \<and> ar_owner_attestation_id a \<in> set (lr_attestation_ids p)"
  by (auto simp: check_activation_def Let_def first_raise_None_iff)

lemma lifecycle_ok_step: "lifecycle_ok L \<Longrightarrow> lifecycle_ok (snd (lifecycle_step op L))"
proof (cases op)
  case (ActivateRulebook p a c b)
  assume ok: "lifecycle_ok L"
  obtain r L' where step: "activate_rulebook p a c b L = (r, L')" by fastforce
  show ?thesis
  proof (cases r)
    case (Inl e)
    with step ok ActivateRulebook show ?thesis by (auto dest: activate_Inl)
  next
    case (Inr x)
    note effect = step [unfolded Inr activate_Inr]
    have "snd (lifecycle_step op L) = L'" by (simp add: ActivateRulebook step)
    then show ?thesis
      using ok effect activation_exact [of p a c b] by (auto simp: lifecycle_ok_def)
  qed
next
  case (SuspendScope f s)
  then show "lifecycle_ok L \<Longrightarrow> ?thesis" by (simp add: lifecycle_ok_def suspend_active)
qed

interpretation rulebooks: atomic_store new_lifecycle lifecycle_step "\<lambda>_. True" lifecycle_ok
proof
  show "lifecycle_ok new_lifecycle" by (simp add: lifecycle_ok_def new_lifecycle_def)
  show "fst (lifecycle_step op L) = Inl e \<Longrightarrow> snd (lifecycle_step op L) = L" for op L e
    by (cases op; cases "fst (lifecycle_step op L)")
      (auto simp: activate_rulebook_def suspend_scope_def Let_def split: option.splits if_splits)
qed (rule lifecycle_ok_step)

section \<open>Authority\<close>

text \<open>The activation in a history that lets a scope execute.\<close>

definition authorises :: "lifecycle_op list \<Rightarrow> string \<Rightarrow> string \<Rightarrow> lifecycle_op list \<Rightarrow> loaded_rulebook \<Rightarrow> activation_record
    \<Rightarrow> string \<Rightarrow> string \<Rightarrow> lifecycle_op list \<Rightarrow> bool" where
  "authorises ops f s before q a c b after \<longleftrightarrow> ops = before @ ActivateRulebook q a c b # after
     \<and> fst (lifecycle_step (ActivateRulebook q a c b) (run lifecycle_step before new_lifecycle)) = Inr ()
     \<and> rm_package_fingerprint (lr_manifest q) = f \<and> s \<in> set (ar_allowed_scope_ids a)
     \<and> SuspendScope f s \<notin> set after"

lemma step_state:
  "map_of (rl_state (snd (lifecycle_step op L))) (f, s) =
     (case op of
        ActivateRulebook q a c b \<Rightarrow>
          if fst (lifecycle_step op L) = Inr () \<and> f = rm_package_fingerprint (lr_manifest q) \<and> s \<in> set (ar_allowed_scope_ids a)
          then Some READY_ACTIVE else map_of (rl_state L) (f, s)
      | SuspendScope g t \<Rightarrow>
          if (g, t) = (f, s) \<and> map_of (rl_state L) (f, s) = Some READY_ACTIVE then Some SUSPENDED
          else map_of (rl_state L) (f, s))"
proof (cases op)
  case (ActivateRulebook q a c b)
  obtain r L' where step: "activate_rulebook q a c b L = (r, L')" by fastforce
  show ?thesis
  proof (cases r)
    case (Inl e)
    with step ActivateRulebook show ?thesis by (auto dest: activate_Inl)
  next
    case (Inr x)
    then have "fst (lifecycle_step op L) = Inr ()" "snd (lifecycle_step op L) = L'" by (simp_all add: ActivateRulebook step)
    then show ?thesis using step [unfolded Inr activate_Inr] by (auto simp: scope_states ActivateRulebook)
  qed
next
  case (SuspendScope g t)
  obtain r L' where step: "suspend_scope g t L = (r, L')" by fastforce
  then show ?thesis
    by (cases r) (auto simp: SuspendScope suspend_Inr suspend_scope_def require_active_def raise_if_def split: if_splits)
qed

lemma active_origin:
  "map_of (rl_state (run lifecycle_step ops new_lifecycle)) (f, s) = Some READY_ACTIVE
     \<longleftrightarrow> (\<exists>before q a c b after. authorises ops f s before q a c b after)"
proof (induction ops rule: rev_induct)
  case Nil
  then show ?case by (simp add: new_lifecycle_def authorises_def)
next
  case (snoc op ops)
  let ?L = "run lifecycle_step ops new_lifecycle"
  have grown: "authorises (ops @ [op]) f s before q a c b (after @ [op])"
    if "authorises ops f s before q a c b after" "op \<noteq> SuspendScope f s" for before q a c b after
    using that by (simp add: authorises_def)
  have shrunk: "op \<noteq> SuspendScope f s"
      "before = ops \<and> op = ActivateRulebook q a c b \<or> (\<exists>after'. authorises ops f s before q a c b after')"
    if "authorises (ops @ [op]) f s before q a c b after" for before q a c b after
    using that by (cases after rule: rev_cases; auto simp: authorises_def simp del: lifecycle_step.simps)+
  have kept: "(\<exists>before q a c b after. authorises (ops @ [op]) f s before q a c b after)
      \<longleftrightarrow> (\<exists>before q a c b after. authorises ops f s before q a c b after)"
    if "op \<noteq> SuspendScope f s" "\<And>q a c b after. \<not> authorises (ops @ [op]) f s ops q a c b after"
  proof
    assume "\<exists>before q a c b after. authorises (ops @ [op]) f s before q a c b after"
    then obtain before q a c b after where found: "authorises (ops @ [op]) f s before q a c b after" by blast
    with that(2) have "before \<noteq> ops" by blast
    with shrunk(2) [OF found] show "\<exists>before q a c b after. authorises ops f s before q a c b after" by blast
  qed (blast dest: grown [OF _ that(1)])
  show ?case
  proof (cases op)
    case (SuspendScope g t)
    have "\<not> authorises (ops @ [op]) f s ops q a c b after" for q a c b after
      using SuspendScope by (auto simp: authorises_def)
    with SuspendScope snoc.IH kept shrunk(1) show ?thesis
      by (cases "(g, t) = (f, s)") (auto simp: run_append step_state simp del: lifecycle_step.simps)
  next
    case (ActivateRulebook q a c b)
    have last: "authorises (ops @ [op]) f s ops q' a' c' b' after \<longleftrightarrow> after = [] \<and> op = ActivateRulebook q' a' c' b'
        \<and> fst (lifecycle_step op ?L) = Inr () \<and> f = rm_package_fingerprint (lr_manifest q) \<and> s \<in> set (ar_allowed_scope_ids a)"
      for q' a' c' b' after
      using ActivateRulebook by (auto simp: authorises_def simp del: lifecycle_step.simps)
    show ?thesis
    proof (cases "fst (lifecycle_step op ?L) = Inr () \<and> f = rm_package_fingerprint (lr_manifest q) \<and> s \<in> set (ar_allowed_scope_ids a)")
      case True
      then have "authorises (ops @ [op]) f s ops q a c b []" using ActivateRulebook last by blast
      with True ActivateRulebook show ?thesis by (simp add: run_append step_state del: lifecycle_step.simps) blast
    next
      case False
      then have "\<not> authorises (ops @ [op]) f s ops q' a' c' b' after" for q' a' c' b' after
        unfolding last by blast
      then have "(\<exists>before q a c b after. authorises (ops @ [op]) f s before q a c b after)
          \<longleftrightarrow> (\<exists>before q a c b after. authorises ops f s before q a c b after)"
        using ActivateRulebook by (intro kept) simp_all
      with False ActivateRulebook snoc.IH show ?thesis by (auto simp: run_append step_state simp del: lifecycle_step.simps)
    qed
  qed
qed

definition subject_ready :: "processing_subject \<Rightarrow> bool" where
  "subject_ready subject \<longleftrightarrow> distinct (ps_evidence_refs subject) \<and> ps_evidence_refs subject \<noteq> []
     \<and> length (dict_of (ps_facts subject)) = length (ps_facts subject)"

lemma engine_executes:
  "execute_rules P L p subject = Inr r \<longleftrightarrow> map_of (rl_state L) (rm_package_fingerprint (lr_manifest p), ps_scope_id subject) = Some READY_ACTIVE
     \<and> subject_ready subject
     \<and> r = (case matching_rules p subject of [] \<Rightarrow> blocked_result P p subject NON_TOTAL
         | [rule] \<Rightarrow> decided_result P p subject rule | _ \<Rightarrow> blocked_result P p subject AMBIGUOUS)"
  by (auto simp: execute_rules_def guarded_Inr require_active_def subject_ready_def)

text \<open>
  C16: a package executes on a subject exactly when the subject is well formed and the history has
  an accepted activation of a package with that fingerprint, by an attested owner, which allows the
  scope of the subject, attested and not yet active in that package, and which no suspension of the
  scope follows.
\<close>

theorem execution_needs_authority:
  "(\<exists>r. execute_rules P (run lifecycle_step ops new_lifecycle) p subject = Inr r) \<longleftrightarrow>
     subject_ready subject
     \<and> (\<exists>before q a c b after.
          authorises ops (rm_package_fingerprint (lr_manifest p)) (ps_scope_id subject) before q a c b after
          \<and> ar_owner_attestation_id a \<in> set (lr_attestation_ids q)
          \<and> map_option rs_readiness (scope_named q (ps_scope_id subject)) = Some ATTESTED_INACTIVE)"
proof -
  have "ar_owner_attestation_id a \<in> set (lr_attestation_ids q)
      \<and> map_option rs_readiness (scope_named q s) = Some ATTESTED_INACTIVE"
    if "authorises ops f s before q a c b after" for f s before q a c b after
  proof -
    have "check_activation q a c b = None" "s \<in> set (ar_allowed_scope_ids a)"
      using that by (auto simp: authorises_def activation_accepted simp del: lifecycle_step.simps)
    then show ?thesis using activation_attested [of q a c b s] by simp
  qed
  note attested = this
  show ?thesis
    unfolding engine_executes active_origin by (intro iffI; elim exE conjE) (metis attested)+
qed

section \<open>The version under a key is final\<close>

text \<open>The package and activation a key has are never replaced.\<close>

lemma active_kept:
  "map_of (rl_active L) key = Some (p, a) \<Longrightarrow> map_of (rl_active (snd (lifecycle_step op L))) key = Some (p, a)"
  by (cases op; cases "map_of (rl_active L) key")
    (auto simp: suspend_active activate_rulebook_def Let_def split: option.splits)

lemma accepted_again:
  "check_activation p a c b = None \<Longrightarrow> map_of (rl_active L) (desk_key (lr_manifest p)) = Some (p, a) \<Longrightarrow>
     \<exists>L'. activate_rulebook p a c b L = (Inr (p, a), L')
       \<and> (\<forall>s \<in> set (ar_allowed_scope_ids a). require_active L' (rm_package_fingerprint (lr_manifest p)) s = None)"
  by (simp add: activate_rulebook_def require_active_def scope_states)

text \<open>
  C17: once a package is active for an environment, jurisdiction and material family, every later
  activation of another package or under another record for them is refused, whatever was suspended
  in between; and the same activation is accepted again, which makes each of its scopes active, also
  a suspended one.
\<close>

theorem active_version_is_final:
  assumes "map_of (rl_active (run lifecycle_step ops new_lifecycle)) (desk_key (lr_manifest p)) = Some (p, a)"
  shows "let T = run lifecycle_step (ops @ later) new_lifecycle in
      (\<forall>q b c d. desk_key (lr_manifest q) = desk_key (lr_manifest p) \<and> (q, b) \<noteq> (p, a)
         \<longrightarrow> (\<exists>e. activate_rulebook q b c d T = (Inl e, T)))
    \<and> (\<exists>L. activate_rulebook p a (ar_contract_set_fingerprint a) (ar_engine_build a) T = (Inr (p, a), L)
         \<and> (\<forall>s \<in> set (ar_allowed_scope_ids a). require_active L (rm_package_fingerprint (lr_manifest p)) s = None))"
proof -
  let ?S = "run lifecycle_step ops new_lifecycle" and ?T = "run lifecycle_step (ops @ later) new_lifecycle"
  have ok: "lifecycle_ok ?S" by (rule rulebooks.reachable_inv) (simp add: list_all_iff)
  have "map_of (rl_active (run lifecycle_step later ?S)) (desk_key (lr_manifest p)) = Some (p, a)"
    by (rule rulebooks.run_persists [OF active_kept ok _ assms]) (simp_all add: list_all_iff)
  then have T: "map_of (rl_active ?T) (desk_key (lr_manifest p)) = Some (p, a)" by (simp add: run_append)
  have check: "check_activation p a (ar_contract_set_fingerprint a) (ar_engine_build a) = None"
    using ok assms unfolding lifecycle_ok_def by blast
  have "\<exists>e. activate_rulebook q b c d ?T = (Inl e, ?T)"
    if "desk_key (lr_manifest q) = desk_key (lr_manifest p)" "(q, b) \<noteq> (p, a)" for q b c d
  proof (cases "activate_rulebook q b c d ?T")
    case (Pair r T')
    show ?thesis
    proof (cases r)
      case (Inl e)
      with Pair activate_Inl show ?thesis by blast
    next
      case (Inr x)
      have "map_of (rl_active ?T) (desk_key (lr_manifest q)) \<in> {None, Some (q, b)}"
        using Pair [unfolded Inr activate_Inr] by blast
      then have "Some (p, a) \<in> {None, Some (q, b)}" unfolding that(1) T .
      with that(2) show ?thesis by blast
    qed
  qed
  moreover have "\<exists>L. activate_rulebook p a (ar_contract_set_fingerprint a) (ar_engine_build a) ?T = (Inr (p, a), L)
      \<and> (\<forall>s \<in> set (ar_allowed_scope_ids a). require_active L (rm_package_fingerprint (lr_manifest p)) s = None)"
    using accepted_again [OF check] T by blast
  ultimately show ?thesis unfolding Let_def by blast
qed

section \<open>A small rulebook\<close>

text \<open>An encoder that never fails, for the examples.\<close>

definition total_encoder :: encoder where
  "total_encoder j = Some (json_text j)"

text \<open>Two rules of one scope: one for a created record, one for an unchanged one.\<close>

definition sample_rule :: "string \<Rightarrow> string \<Rightarrow> legal_disposition \<Rightarrow> rule_definition" where
  "sample_rule rule_id kind disposition = \<lparr>rd_rule_id = rule_id, rd_scope_id = ''scope'',
     rd_predicates = [\<lparr>pd_fact = ''change_kind'', pd_operator = FACT_EQUALS, pd_value = Some kind\<rparr>],
     rd_evidence_roles = [''SOURCE''], rd_disposition = disposition, rd_reason_code = ''EXACT'', rd_failure_code = None,
     rd_next_action = ''NEXT''\<rparr>"

definition sample_rule_manifest :: rulebook_manifest where
  "sample_rule_manifest = \<lparr>rm_package_id = ''pkg'', rm_package_version = ''1'', rm_package_fingerprint = ''fp'',
     rm_jurisdiction = ''ZZZ'', rm_environment = ''LOCAL_SYNTHETIC'', rm_material_family = ''TEST_LEGAL_MATERIAL'',
     rm_legal_desk_owner = ''desk'', rm_effective_cutoff = ''now'', rm_predecessor = None, rm_contract_locks = [''c''],
     rm_code_locks = [], rm_source_universe_fingerprint = ''u'', rm_scope_readiness = [(''scope'', ATTESTED_INACTIVE)],
     rm_unresolved_policy_codes = [], rm_impact_declaration = ''none'', rm_minimum_engine_version = ''1.0.0'', rm_files = []\<rparr>"

definition sample_scope :: rule_scope where
  "sample_scope = \<lparr>rs_scope_id = ''scope'', rs_ownership_keys = [''key''], rs_required_source_ids = [''source''],
     rs_zero_record_rule = ''zero'', rs_withholding_rule = ''withhold'', rs_readiness = ATTESTED_INACTIVE, rs_blocker_codes = []\<rparr>"

definition sample_source :: source_definition where
  "sample_source = \<lparr>sd_source_id = ''source'', sd_role = ''CONTROLLING'', sd_endpoint_families = [], sd_checking_tier = ''1'',
     sd_permitted_use = ''LEGAL'', sd_completeness_rule = ''all'', sd_outage_consequence = ''stop''\<rparr>"

definition sample_rulebook :: loaded_rulebook where
  "sample_rulebook = \<lparr>lr_manifest = sample_rule_manifest, lr_sources = [sample_source], lr_scopes = [sample_scope],
     lr_scope_families = [], lr_rules = [sample_rule ''rule-1'' ''CREATE'' CANDIDATE, sample_rule ''rule-2'' ''NONE'' NO_CHANGE],
     lr_semantic_profiles = [], lr_fixture_ids = [''f''], lr_evaluation_ids = [''e''], lr_attestation_ids = [''att'']\<rparr>"

definition sample_activation :: activation_record where
  "sample_activation = \<lparr>ar_activation_id = ''act'', ar_package_id = ''pkg'', ar_package_fingerprint = ''fp'',
     ar_engine_build = ''build'', ar_contract_set_fingerprint = ''c'', ar_deterministic_suite_fingerprint = ''d'',
     ar_semantic_profile_ids = [], ar_owner_attestation_id = ''att'', ar_allowed_scope_ids = [''scope''],
     ar_environment = ''LOCAL_SYNTHETIC'', ar_activated_at = ''now''\<rparr>"

definition sample_subject :: processing_subject where
  "sample_subject = \<lparr>ps_subject_id = ''subject'', ps_scope_id = ''scope'', ps_observation_id = ''obs-1'',
     ps_source_snapshot_id = ''snap-1'', ps_evidence_refs = [''art-1''], ps_evidence_roles = [''SOURCE''],
     ps_prior_state = ''NONE'', ps_facts = [(''change_kind'', ''CREATE'')], ps_input_fingerprint = ''input''\<rparr>"

lemmas sample_rulebook_defs = sample_rule_def sample_rule_manifest_def sample_scope_def sample_source_def
  sample_rulebook_def sample_activation_def sample_subject_def

definition sample_lifecycle :: rulebook_lifecycle where
  "sample_lifecycle = run lifecycle_step [ActivateRulebook sample_rulebook sample_activation ''c'' ''build''] new_lifecycle"

lemma sample_lifecycle_state:
  "sample_lifecycle = \<lparr>rl_active = [((''LOCAL_SYNTHETIC'', ''ZZZ'', ''TEST_LEGAL_MATERIAL''), (sample_rulebook, sample_activation))],
     rl_state = [((''fp'', ''scope''), READY_ACTIVE)]\<rparr>"
  by (simp add: sample_lifecycle_def activate_rulebook_def check_activation_def scope_named_def dict_of_def desk_key_def
      new_lifecycle_def raise_if_def sample_rulebook_defs)

lemma active_version_is_final_witness:
  "\<exists>e. activate_rulebook (sample_rulebook\<lparr>lr_rules := []\<rparr>) sample_activation ''c'' ''build'' sample_lifecycle
     = (Inl e, sample_lifecycle)"
proof -
  let ?ops = "[ActivateRulebook sample_rulebook sample_activation ''c'' ''build'']"
  have "map_of (rl_active (run lifecycle_step ?ops new_lifecycle)) (desk_key (lr_manifest sample_rulebook))
      = Some (sample_rulebook, sample_activation)"
    using sample_lifecycle_state by (simp only: sample_lifecycle_def) (simp add: desk_key_def sample_rulebook_defs)
  from active_version_is_final [OF this, of "[]"]
  have "\<forall>q b c d. desk_key (lr_manifest q) = desk_key (lr_manifest sample_rulebook) \<and> (q, b) \<noteq> (sample_rulebook, sample_activation)
      \<longrightarrow> (\<exists>e. activate_rulebook q b c d sample_lifecycle = (Inl e, sample_lifecycle))"
    unfolding Let_def append_Nil2 sample_lifecycle_def by blast
  moreover have "sample_rulebook\<lparr>lr_rules := []\<rparr> \<noteq> sample_rulebook" by (simp add: sample_rulebook_def)
  moreover have "desk_key (lr_manifest (sample_rulebook\<lparr>lr_rules := []\<rparr>)) = desk_key (lr_manifest sample_rulebook)" by simp
  ultimately show ?thesis by blast
qed

section \<open>Deciding by the rules\<close>

text \<open>
  When a rule applies to a subject: it is of the scope, every predicate holds of the facts, and the
  evidence has every role it asks for.
\<close>

definition fact_condition :: "(string \<times> string) list \<Rightarrow> rule_predicate \<Rightarrow> bool" where
  "fact_condition facts p \<longleftrightarrow> (case pd_operator p of
     FACT_ABSENT \<Rightarrow> pd_fact p \<notin> fst ` set facts
   | FACT_PRESENT \<Rightarrow> pd_fact p \<in> fst ` set facts
   | FACT_EQUALS \<Rightarrow> (case pd_value p of None \<Rightarrow> pd_fact p \<notin> fst ` set facts | Some v \<Rightarrow> (pd_fact p, v) \<in> set facts))"

definition rule_applies :: "processing_subject \<Rightarrow> rule_definition \<Rightarrow> bool" where
  "rule_applies subject rule \<longleftrightarrow> rd_scope_id rule = ps_scope_id subject
     \<and> (\<forall>p \<in> set (rd_predicates rule). fact_condition (ps_facts subject) p)
     \<and> set (rd_evidence_roles rule) \<subseteq> set (ps_evidence_roles subject)"

lemma length_update: "length (AList.update k v m) = (if k \<in> fst ` set m then length m else Suc (length m))"
  by (induction m) auto

lemma dict_of_keys: "fst ` set (dict_of kvs) = fst ` set kvs"
proof (induction kvs rule: rev_induct)
  case (snoc kv kvs)
  obtain k v where kv: "kv = (k, v)" by fastforce
  have "fst ` set (AList.update k v m) = insert k (fst ` set m)" for m :: "('a \<times> 'b) list"
    by (induction m) auto
  with snoc show ?case by (simp add: kv dict_of_snoc)
qed (simp add: dict_of_def)

lemma dict_of_bound: "length (dict_of kvs) \<le> length kvs"
  by (induction kvs rule: rev_induct) (auto simp: dict_of_def length_update split: prod.splits)

lemma dict_of_length: "length (dict_of kvs) = length kvs \<longleftrightarrow> distinct (map fst kvs)"
proof (induction kvs rule: rev_induct)
  case (snoc kv kvs)
  obtain k v where kv: "kv = (k, v)" by fastforce
  have keys: "k \<in> fst ` set (dict_of kvs) \<longleftrightarrow> k \<in> fst ` set kvs" by (simp only: dict_of_keys)
  show ?case
    using snoc dict_of_bound [of kvs] unfolding kv dict_of_snoc length_update keys by auto
qed (simp add: dict_of_def)

lemma predicate_condition:
  assumes "distinct (map fst facts)"
  shows "predicate_holds (dict_of facts) p \<longleftrightarrow> fact_condition facts p"
proof -
  have "map_of facts f = None \<longleftrightarrow> f \<notin> fst ` set facts" "map_of facts f = Some v \<longleftrightarrow> (f, v) \<in> set facts" for f v
    using assms by (auto simp: map_of_eq_None_iff)
  then show ?thesis
    by (simp add: predicate_holds_def fact_condition_def dict_of_distinct [OF assms] split: predicate_operator.splits option.splits)
qed

lemma matching_applies:
  "subject_ready subject \<Longrightarrow> matching_rules p subject = filter (rule_applies subject) (lr_rules p)"
  by (auto simp: matching_rules_def scope_rules_def trace_rule_def Let_def rule_applies_def list_all_iff subject_ready_def
      dict_of_length predicate_condition intro!: filter_cong)

text \<open>
  C18: a result succeeds exactly when one rule of the package applies to the subject, and then has
  the identity, disposition and action of that rule, with a candidate artifact exactly for the
  disposition of candidates and a review exactly for quarantine and review. Otherwise it is blocked:
  no disposition, no artifact, a review of the legal desk, and the code that says whether no rule
  applied or several did.
\<close>

theorem one_rule_decides:
  assumes "execute_rules P L p subject = Inr r"
  shows "(rx_processing_result r = ''SUCCEEDED'' \<longleftrightarrow> size (filter_mset (rule_applies subject) (mset (lr_rules p))) = 1)
    \<and> (\<forall>rule \<in> set (lr_rules p). rule_applies subject rule \<and> rx_processing_result r = ''SUCCEEDED'' \<longrightarrow>
      rx_rule_id r = rd_rule_id rule \<and> rx_disposition r = Some (rd_disposition rule) \<and> rx_next_action r = rd_next_action rule
      \<and> (rx_candidate_artifact_refs r \<noteq> [] \<longleftrightarrow> rd_disposition rule = CANDIDATE)
      \<and> (rx_review_effect r = ''OPEN_REVIEW'' \<longleftrightarrow> rd_disposition rule \<in> {QUARANTINE, REVIEW}))
    \<and> (rx_processing_result r \<noteq> ''SUCCEEDED'' \<longrightarrow> rx_disposition r = None \<and> rx_candidate_artifact_refs r = []
      \<and> rx_review_effect r = ''OPEN_LEGAL_DESK_REVIEW'' \<and> rx_coverage_effect r = ''BLOCK_SCOPE''
      \<and> (rx_failure_code r = Some ''RULEBOOK_NON_TOTAL'' \<longleftrightarrow> (\<forall>rule \<in> set (lr_rules p). \<not> rule_applies subject rule))
      \<and> (rx_failure_code r = Some ''RULEBOOK_AMBIGUOUS'' \<longleftrightarrow> 2 \<le> size (filter_mset (rule_applies subject) (mset (lr_rules p)))))"
proof -
  let ?found = "filter (rule_applies subject) (lr_rules p)"
  have size: "size (filter_mset (rule_applies subject) (mset (lr_rules p))) = length ?found" by (metis mset_filter size_mset)
  have r: "r = (case ?found of [] \<Rightarrow> blocked_result P p subject NON_TOTAL
         | [rule] \<Rightarrow> decided_result P p subject rule | _ \<Rightarrow> blocked_result P p subject AMBIGUOUS)"
    using assms matching_applies [of subject p] by (simp add: engine_executes)
  note results = blocked_result_def decided_result_def Let_def
  have sole: "rx_processing_result r = ''SUCCEEDED'' \<longleftrightarrow> length ?found = 1"
    unfolding r by (simp add: results split: list.splits)
  have decided: "r = decided_result P p subject rule"
    if "rule \<in> set (lr_rules p)" "rule_applies subject rule" "length ?found = 1" for rule
  proof -
    have "rule \<in> set ?found" using that by simp
    with that(3) have "?found = [rule]" by (cases ?found) auto
    then show ?thesis unfolding r by simp
  qed
  have none: "?found = [] \<longleftrightarrow> (\<forall>rule \<in> set (lr_rules p). \<not> rule_applies subject rule)" by (simp add: filter_empty_conv)
  have blocked: "r = blocked_result P p subject (if ?found = [] then NON_TOTAL else AMBIGUOUS)" if "length ?found \<noteq> 1"
    using that unfolding r by (auto split: list.splits)
  have "rx_disposition r = None \<and> rx_candidate_artifact_refs r = []
      \<and> rx_review_effect r = ''OPEN_LEGAL_DESK_REVIEW'' \<and> rx_coverage_effect r = ''BLOCK_SCOPE''
      \<and> (rx_failure_code r = Some ''RULEBOOK_NON_TOTAL'' \<longleftrightarrow> ?found = [])
      \<and> (rx_failure_code r = Some ''RULEBOOK_AMBIGUOUS'' \<longleftrightarrow> 2 \<le> length ?found)" if "length ?found \<noteq> 1"
    using that by (cases ?found) (auto simp: blocked [OF that] results Suc_le_eq)
  then show ?thesis
    unfolding size sole none by (auto simp: decided results)
qed

lemma one_rule_decides_witness:
  "\<exists>r. execute_rules demo_platform sample_lifecycle sample_rulebook sample_subject = Inr r
     \<and> rx_processing_result r = ''SUCCEEDED''"
proof -
  have "subject_ready sample_subject" by (simp add: subject_ready_def dict_of_def sample_subject_def)
  then obtain r where r: "execute_rules demo_platform sample_lifecycle sample_rulebook sample_subject = Inr r"
    by (auto simp: engine_executes sample_lifecycle_state sample_rulebook_defs)
  have "filter_mset (rule_applies sample_subject) (mset (lr_rules sample_rulebook)) = {#sample_rule ''rule-1'' ''CREATE'' CANDIDATE#}"
    by (simp add: sample_rulebook_defs rule_applies_def fact_condition_def)
  with one_rule_decides [OF r] r show ?thesis by simp
qed

section \<open>Order\<close>

lemma trace_of_facts:
  assumes "distinct (map fst (ps_facts s))" and "mset facts = mset (ps_facts s)"
  shows "trace_rule (s\<lparr>ps_facts := facts\<rparr>) rule = trace_rule s rule"
proof -
  have "distinct (map fst facts)" using assms by (metis mset_eq_imp_distinct_iff mset_map)
  moreover have "set facts = set (ps_facts s)" using assms(2) by (rule mset_eq_setD)
  ultimately have "predicate_holds (dict_of facts) p = predicate_holds (dict_of (ps_facts s)) p" for p
    using assms(1) by (simp only: predicate_condition fact_condition_def)
  then have "predicate_holds (dict_of facts) = predicate_holds (dict_of (ps_facts s))" by (rule ext)
  then show ?thesis by (simp add: trace_rule_def Let_def)
qed

lemma sole_of_mset: "mset xs = mset ys \<Longrightarrow> xs = [x] \<longleftrightarrow> ys = [x]"
  by (metis mset_single_iff_right)

lemma execute_Inl:
  "execute_rules P L p s = Inl e \<longleftrightarrow> first_raise
     [require_active L (rm_package_fingerprint (lr_manifest p)) (ps_scope_id s),
      raise_if (\<not> distinct (ps_evidence_refs s) \<or> ps_evidence_refs s = []) (RulebookError CONTRACT_MISMATCH ''evidence refs''),
      raise_if (\<not> distinct (map fst (ps_facts s))) (RulebookError CONTRACT_MISMATCH ''duplicate facts'')] = Some e"
  by (simp add: execute_rules_def guarded_def dict_of_length raise_if_def split: option.splits)

text \<open>
  C19: the order in which a package lists its rules and a subject its facts does not matter: the
  same error, or the same result, up to the order of the trace, which lists the same entries.
\<close>

theorem rule_order_irrelevant:
  assumes "mset rules = mset (lr_rules p)" and "mset facts = mset (ps_facts s)"
  shows "case (execute_rules P L p s, execute_rules P L (p\<lparr>lr_rules := rules\<rparr>) (s\<lparr>ps_facts := facts\<rparr>)) of
      (Inl e, Inl e') \<Rightarrow> e' = e
    | (Inr r, Inr r') \<Rightarrow> r'\<lparr>rx_trace := []\<rparr> = r\<lparr>rx_trace := []\<rparr> \<and> mset (rx_trace r') = mset (rx_trace r)
    | _ \<Rightarrow> False"
proof (cases "\<exists>r. execute_rules P L p s = Inr r")
  case True
  let ?p = "p\<lparr>lr_rules := rules\<rparr>" and ?s = "s\<lparr>ps_facts := facts\<rparr>"
  from True have ready: "subject_ready s" and active: "map_of (rl_state L) (rm_package_fingerprint (lr_manifest p), ps_scope_id s) = Some READY_ACTIVE"
    by (auto simp: engine_executes)
  have keys: "distinct (map fst (ps_facts s))" using ready by (simp add: subject_ready_def dict_of_length)
  then have "distinct (map fst facts)" using assms(2) by (metis mset_eq_imp_distinct_iff mset_map)
  with ready have ready': "subject_ready ?s" by (simp add: subject_ready_def dict_of_length)
  have traces: "trace_rule ?s = trace_rule s" by (rule ext) (rule trace_of_facts [OF keys assms(2)])
  have found: "mset (matching_rules ?p ?s) = mset (matching_rules p s)"
    using assms(1) by (simp add: matching_rules_def scope_rules_def traces)
  have listed: "mset (map (trace_rule s) (scope_rules ?p ?s)) = mset (map (trace_rule s) (scope_rules p s))"
    using assms(1) by (simp add: scope_rules_def)
  have blocked: "(blocked_result P ?p ?s c)\<lparr>rx_trace := []\<rparr> = (blocked_result P p s c)\<lparr>rx_trace := []\<rparr>"
    "mset (rx_trace (blocked_result P ?p ?s c)) = mset (rx_trace (blocked_result P p s c))" for c
    using listed by (simp_all add: blocked_result_def Let_def traces)
  have decided: "(decided_result P ?p ?s rule)\<lparr>rx_trace := []\<rparr> = (decided_result P p s rule)\<lparr>rx_trace := []\<rparr>"
    "mset (rx_trace (decided_result P ?p ?s rule)) = mset (rx_trace (decided_result P p s rule))" for rule
    using listed by (simp_all add: decided_result_def Let_def traces)
  show ?thesis
  proof (cases "\<exists>rule. matching_rules p s = [rule]")
    case True
    then obtain rule where rule: "matching_rules p s = [rule]" by blast
    then have "matching_rules ?p ?s = [rule]" using sole_of_mset [OF found] by simp
    with rule ready ready' active
    have "execute_rules P L p s = Inr (decided_result P p s rule)" "execute_rules P L ?p ?s = Inr (decided_result P ?p ?s rule)"
      by (simp_all add: engine_executes)
    with decided show ?thesis by simp
  next
    case False
    define c where "c = (if matching_rules p s = [] then NON_TOTAL else AMBIGUOUS)"
    have "matching_rules ?p ?s = [] \<longleftrightarrow> matching_rules p s = []" using found by (metis mset_zero_iff)
    moreover have "\<nexists>rule. matching_rules ?p ?s = [rule]" using False sole_of_mset [OF found] by simp
    ultimately
    have "execute_rules P L p s = Inr (blocked_result P p s c)" "execute_rules P L ?p ?s = Inr (blocked_result P ?p ?s c)"
      using False ready ready' active by (auto simp: engine_executes c_def split: list.splits)
    with blocked show ?thesis by simp
  qed
next
  case False
  then obtain e where e: "execute_rules P L p s = Inl e" by (cases "execute_rules P L p s") auto
  have "distinct (map fst facts) \<longleftrightarrow> distinct (map fst (ps_facts s))"
    using assms(2) by (metis mset_eq_imp_distinct_iff mset_map)
  with e have "execute_rules P L (p\<lparr>lr_rules := rules\<rparr>) (s\<lparr>ps_facts := facts\<rparr>) = Inl e" unfolding execute_Inl by simp
  with e show ?thesis by simp
qed

lemma rule_order_irrelevant_witness:
  "\<exists>r r'. execute_rules demo_platform sample_lifecycle sample_rulebook sample_subject = Inr r
     \<and> execute_rules demo_platform sample_lifecycle (sample_rulebook\<lparr>lr_rules := rev (lr_rules sample_rulebook)\<rparr>) sample_subject = Inr r'
     \<and> rx_rule_id r' = rx_rule_id r"
proof -
  have "subject_ready sample_subject" by (simp add: subject_ready_def dict_of_def sample_subject_def)
  then obtain r where r: "execute_rules demo_platform sample_lifecycle sample_rulebook sample_subject = Inr r"
    by (auto simp: engine_executes sample_lifecycle_state sample_rulebook_defs)
  have "mset (rev (lr_rules sample_rulebook)) = mset (lr_rules sample_rulebook)" by simp
  from rule_order_irrelevant [OF this refl, of demo_platform sample_lifecycle sample_subject] r
  obtain r' where "execute_rules demo_platform sample_lifecycle (sample_rulebook\<lparr>lr_rules := rev (lr_rules sample_rulebook)\<rparr>)
      (sample_subject\<lparr>ps_facts := ps_facts sample_subject\<rparr>) = Inr r'" "r'\<lparr>rx_trace := []\<rparr> = r\<lparr>rx_trace := []\<rparr>"
    by (auto split: sum.splits)
  moreover from this(2) have "rx_rule_id (r'\<lparr>rx_trace := []\<rparr>) = rx_rule_id (r\<lparr>rx_trace := []\<rparr>)" by (rule arg_cong)
  then have "rx_rule_id r' = rx_rule_id r" by simp
  ultimately show ?thesis using r by (simp del: rule_execution_result.update_convs)
qed

end
