(* ===== verification/LegalProcessingProperties.thy ===== *)
theory LegalProcessingProperties
  imports LegalProcessing RuleEngineProperties EvidenceProperties
begin

text \<open>
  What the semantic gate and the legal-processing service guarantee: what an admitted decision
  went through, what a recorded result stands on, and what a failed call leaves behind.
\<close>

section \<open>Runners\<close>

text \<open>
  The contract of a runner: an answer is to its request. The two runners of the package keep it,
  and with it the gate needs no more than that the answers agree.
\<close>

locale semantic_runner =
  fixes invoke :: "'s task_runner"
  assumes answers: "invoke profile request s = (Inr d, s') \<Longrightarrow>
     sc_request_id d = sq_request_id request \<and> sc_task d = sq_task request \<and> sc_phase d = sq_phase request"
begin

lemma accepted_by_agreement:
  assumes "check_workflow clock (pp, cp) (pr, cr) environment now = None"
    and "invoke pp pr s = (Inr d, s1)" and "invoke cp cr s1 = (Inr c, s2)"
  shows "answers_rejected (pr, cr) d c \<longleftrightarrow>
     \<not> set (sc_supporting_evidence_refs d) \<subseteq> set (sq_evidence_refs pr) \<or> sc_unresolved_facts d \<noteq> []
     \<or> \<not> set (sc_supporting_evidence_refs c) \<subseteq> set (sq_evidence_refs pr)
     \<or> sc_challenge_code c \<noteq> ''PASS'' \<or> sc_decision_code c \<noteq> sc_decision_code d"
proof -
  have "sq_phase pr = ''DECISION''" "sq_phase cr = ''CHALLENGE''"
    using assms(1) by (simp_all add: check_workflow_def)
  with answers [OF assms(2)] answers [OF assms(3)] show ?thesis by (simp add: answers_rejected_def)
qed

end

interpretation disabled: semantic_runner disabled_runner
  by unfold_locales (simp add: disabled_runner_def)

lemma deterministic_Inr:
  "deterministic_runner P E outputs profile request s = (Inr d, s') \<Longrightarrow>
     sc_request_id d = sq_request_id request \<and> sc_task d = sq_task request \<and> sc_phase d = sq_phase request
     \<and> s' = s @ [sq_request_id request]"
  by (auto simp: deterministic_runner_def and_then_Inr split: if_splits option.splits)

interpretation deterministic: semantic_runner "deterministic_runner P E outputs" for P E outputs
  by unfold_locales (blast dest: deterministic_Inr)

section \<open>The gate\<close>

lemma gate_Inr:
  "gate_decide clock invoke (pp, cp) (pr, cr) environment now s = (Inr d, s') \<longleftrightarrow>
     check_workflow clock (pp, cp) (pr, cr) environment now = None
     \<and> (\<exists>primary challenge s1. invoke pp pr s = (Inr primary, s1) \<and> invoke cp cr s1 = (Inr challenge, s')
        \<and> \<not> answers_rejected (pr, cr) primary challenge
        \<and> d = \<lparr>ad_primary_profile_id = se_profile_id pp, ad_challenge_profile_id = se_profile_id cp,
             ad_primary = primary, ad_challenge = challenge,
             ad_admitted_fields = [(''semantic.decision_code'', sc_decision_code primary)], ad_immutable = True\<rparr>)"
  by (auto simp: gate_decide_def split: option.splits prod.splits sum.splits)

lemma unexpired:
  "check_unexpired clock expires now = None \<longleftrightarrow>
     (\<exists>expiry instant. clock expires = Aware (Some expiry) \<and> clock now = Aware (Some instant) \<and> instant < expiry)"
  by (auto simp: check_unexpired_def parse_expiry_def split: time_reading.splits option.splits)

text \<open>
  C22: a decision is admitted only after an independent challenge. Whatever the runner is, the two
  requests went, in this order, to different profiles with different prompts, allowed in the environment, not
  expired and without state, for a decision task and the challenge task that belongs to it, on the same subject, evidence and
  input; the decision left no fact unresolved; both answers rest on the evidence of the request only, and
  the challenge passed with the code of the decision, which is the only admitted field.
\<close>

theorem admitted_decision_was_challenged:
  assumes "gate_decide clock invoke (pp, cp) (pr, cr) environment now s = (Inr d, s')"
  shows "(\<exists>s1. invoke pp pr s = (Inr (ad_primary d), s1) \<and> invoke cp cr s1 = (Inr (ad_challenge d), s'))
    \<and> se_profile_id pp \<noteq> se_profile_id cp \<and> se_prompt_fingerprint pp \<noteq> se_prompt_fingerprint cp
    \<and> sq_request_id pr \<noteq> sq_request_id cr \<and> task_pair_known (se_task pp) (se_task cp)
    \<and> (\<forall>profile \<in> {pp, cp}. environment \<in> set (se_allowed_environments profile) \<and> \<not> se_stateful_features profile
         \<and> (\<exists>expiry instant. clock (se_expires_at profile) = Aware (Some expiry) \<and> clock now = Aware (Some instant) \<and> instant < expiry)
         \<and> int (length (sq_evidence_bytes pr)) \<le> se_evidence_budget_bytes profile)
    \<and> sq_subject_id cr = sq_subject_id pr \<and> sq_evidence_bytes cr = sq_evidence_bytes pr
    \<and> sq_evidence_refs cr = sq_evidence_refs pr \<and> sq_input_fingerprint cr = sq_input_fingerprint pr
    \<and> sc_request_id (ad_primary d) = sq_request_id pr \<and> sc_request_id (ad_challenge d) = sq_request_id cr
    \<and> sc_unresolved_facts (ad_primary d) = [] \<and> sc_challenge_code (ad_challenge d) = ''PASS''
    \<and> sc_decision_code (ad_challenge d) = sc_decision_code (ad_primary d)
    \<and> set (sc_supporting_evidence_refs (ad_primary d)) \<union> set (sc_supporting_evidence_refs (ad_challenge d)) \<subseteq> set (sq_evidence_refs pr)
    \<and> ad_admitted_fields d = [(''semantic.decision_code'', sc_decision_code (ad_primary d))]"
proof -
  have check: "check_workflow clock (pp, cp) (pr, cr) environment now = None"
    using assms by (simp add: gate_Inr)
  obtain s1 where run: "invoke pp pr s = (Inr (ad_primary d), s1)" "invoke cp cr s1 = (Inr (ad_challenge d), s')"
      "\<not> answers_rejected (pr, cr) (ad_primary d) (ad_challenge d)"
      "ad_admitted_fields d = [(''semantic.decision_code'', sc_decision_code (ad_primary d))]"
    using assms by (auto simp: gate_Inr)
  show ?thesis
    using run check by (auto simp: check_workflow_def answers_rejected_def unexpired not_less)
qed

section \<open>The service\<close>

lemma evaluate_Inr:
  "evaluate_subject P E L a p subject semantic = Inr (r, candidate, entry) \<longleftrightarrow>
     execute_rules P L p (effective_subject subject semantic) = Inr r \<and> render_candidate P E r semantic = Inr candidate
     \<and> entry = processing_record a p subject r candidate semantic"
proof -
  have raise_Inr: "raise_as f x = Inr y \<longleftrightarrow> x = Inr y" for f :: "'e \<Rightarrow> 'f" and x and y :: 'b by (cases x) auto
  show ?thesis by (auto simp: evaluate_subject_def raise_Inr)
qed

lemma effective_fields [simp]:
  "ps_scope_id (effective_subject s semantic) = ps_scope_id s"
  "ps_evidence_refs (effective_subject s semantic) = ps_evidence_refs s"
  "ps_subject_id (effective_subject s semantic) = ps_subject_id s"
  by (simp_all add: effective_subject_def split: option.splits)

lemma process_Inr:
  assumes "process_subject P E clock invoke a receipt p subject requests now S = (Inr (r, candidate, recorded), S')"
  shows "\<exists>semantic s. validate_evidence a receipt subject p = None
    \<and> decide_semantics clock invoke p requests now (sv_runner S) = (Inr semantic, s)
    \<and> evaluate_subject P E (sv_lifecycle S) a p subject semantic = Inr (r, candidate, processing_record a p subject r candidate semantic)
    \<and> record_processing_result (processing_record a p subject r candidate semantic) (sv_register S) = (Inr recorded, sv_register S')
    \<and> sv_lifecycle S' = sv_lifecycle S \<and> sv_runner S' = s"
  using assms by (auto simp: process_subject_def evaluate_Inr split: option.splits sum.splits prod.splits)

lemma processed_refs:
  assumes "execute_rules P L p s = Inr r"
  shows "rx_evidence_refs r = ps_evidence_refs s \<and> rx_package_fingerprint r = rm_package_fingerprint (lr_manifest p)"
proof -
  have r: "r = (case matching_rules p s of [] \<Rightarrow> blocked_result P p s NON_TOTAL
         | [rule] \<Rightarrow> decided_result P p s rule | _ \<Rightarrow> blocked_result P p s AMBIGUOUS)"
    using assms by (simp add: engine_executes)
  show ?thesis unfolding r by (simp add: blocked_result_def decided_result_def Let_def split: list.splits)
qed

text \<open>
  C9: a result the service returns is recorded for good and stands on what it was given: the
  observation is of a preserved snapshot eligible for legal processing, its scope is active in the lifecycle, its
  evidence is of the package the receipt names, the record binds observation, snapshot, package and result, and
  whatever is recorded later, the register answers with this record.
\<close>

theorem recorded_result_stands:
  assumes "process_subject P E clock invoke a receipt p subject requests now S = (Inr (r, candidate, recorded), S')"
  shows "ao_disposition a = ''SNAPSHOT_PRESERVED'' \<and> ao_consequence a = ''LEGAL_PROCESSING_ELIGIBLE''
    \<and> em_package_id (pr_manifest receipt) = ao_evidence_package_id a
    \<and> or_fingerprint (pr_primary_manifest receipt) = ao_manifest_fingerprint a
    \<and> ao_source_id a \<in> set (map sd_source_id (lr_sources p))
    \<and> require_active (sv_lifecycle S) (rm_package_fingerprint (lr_manifest p)) (ps_scope_id subject) = None
    \<and> set (lp_evidence_refs recorded) \<subseteq> set (receipt_artifacts receipt) \<and> lp_evidence_refs recorded \<noteq> []
    \<and> lp_observation_id recorded = ao_observation_id a \<and> lp_source_snapshot_id recorded = ps_source_snapshot_id subject
    \<and> lp_package_fingerprint recorded = rx_package_fingerprint r \<and> lp_result_id recorded = rx_result_id r
    \<and> sv_lifecycle S' = sv_lifecycle S
    \<and> get_processing_result (rx_result_id r) (run record_processing_result later (sv_register S')) = Inr recorded"
proof -
  obtain semantic s where steps: "validate_evidence a receipt subject p = None"
      "evaluate_subject P E (sv_lifecycle S) a p subject semantic = Inr (r, candidate, processing_record a p subject r candidate semantic)"
      "record_processing_result (processing_record a p subject r candidate semantic) (sv_register S) = (Inr recorded, sv_register S')"
      "sv_lifecycle S' = sv_lifecycle S"
    using process_Inr [OF assms] by blast
  have executed: "execute_rules P (sv_lifecycle S) p (effective_subject subject semantic) = Inr r"
    using steps(2) by (simp add: evaluate_Inr)
  have recorded: "recorded = processing_record a p subject r candidate semantic"
      "map_of (sv_register S') (lp_result_id recorded) = Some recorded"
    using processing.put_outcome [of "processing_record a p subject r candidate semantic" "sv_register S"] steps(3) by simp_all
  have "map_of (run record_processing_result later (sv_register S')) (lp_result_id recorded) = Some recorded"
    using recorded(2) by (simp add: processing.first_write_wins_from)
  moreover have "lp_result_id recorded = rx_result_id r" by (simp add: recorded(1) processing_record_def)
  ultimately have found: "get_processing_result (rx_result_id r) (run record_processing_result later (sv_register S')) = Inr recorded"
    by (simp add: get_processing_result_def)
  have refs: "rx_evidence_refs r = ps_evidence_refs subject" "rx_package_fingerprint r = rm_package_fingerprint (lr_manifest p)"
    using processed_refs [OF executed] by simp_all
  have active: "require_active (sv_lifecycle S) (rm_package_fingerprint (lr_manifest p)) (ps_scope_id subject) = None"
      "ps_evidence_refs subject \<noteq> []"
    using executed by (simp_all add: engine_executes require_active_def subject_ready_def)
  show ?thesis
    using steps(1,4) found active refs by (simp add: validate_evidence_def recorded(1) processing_record_def)
qed

text \<open>
  C10: what is processed was preserved twice. If the receipt came from finalizing a package over a primary and
  a recovery vault, every evidence reference of the result names an artifact of that package whose
  content both vaults read, alike, by the exact references of one of its copies.
\<close>

theorem processed_evidence_is_preserved:
  assumes "finalize_recovery (local_interface Q F) (local_interface Q F) profile w V R = (Inr receipt, R')"
    and "process_subject P E clock invoke a receipt p subject requests now S = (Inr (r, candidate, recorded), S')"
    and "ref \<in> set (rx_evidence_refs r)"
  shows "\<exists>entry \<in> set (em_entries (pr_manifest receipt)). \<exists>copy \<in> set (pr_copies receipt). \<exists>content.
     entry_artifact entry = ref \<and> cr_primary copy = me_primary entry
     \<and> read_exact Q V (cr_primary copy) = Inr content \<and> read_exact Q R' (cr_recovery copy) = Inr content"
proof -
  obtain semantic s where steps: "validate_evidence a receipt subject p = None"
      "evaluate_subject P E (sv_lifecycle S) a p subject semantic = Inr (r, candidate, processing_record a p subject r candidate semantic)"
    using process_Inr [OF assms(2)] by blast
  then have "execute_rules P (sv_lifecycle S) p (effective_subject subject semantic) = Inr r" by (simp add: evaluate_Inr)
  then have "ref \<in> set (receipt_artifacts receipt)"
    using steps(1) assms(3) processed_refs by (auto simp: validate_evidence_def)
  then obtain entry where entry: "entry \<in> set (em_entries (pr_manifest receipt))" "entry_artifact entry = ref"
    by (auto simp: receipt_artifacts_def)
  have "me_primary entry \<in> set (map cr_primary (pr_copies receipt))"
    unfolding locals.finalized(3) [OF assms(1)] using entry(1) by simp
  then obtain copy where copy: "copy \<in> set (pr_copies receipt)" "cr_primary copy = me_primary entry" by auto
  with locals.finalized(4) [OF assms(1)] obtain content
    where "read_exact Q V (cr_primary copy) = Inr content" "read_exact Q R' (cr_recovery copy) = Inr content"
    by (auto simp: locals.same_content_def local_reads)
  with entry copy show ?thesis by blast
qed

lemma decided_state:
  assumes "decide_semantics clock invoke p requests now s = (d, s')"
  shows "s' = s \<or> (\<exists>pr cr pp cp. requests = Some (pr, cr) \<and> profile_of p pr = Some pp \<and> profile_of p cr = Some cp
     \<and> check_workflow clock (pp, cp) (pr, cr) (rm_environment (lr_manifest p)) now = None)"
  using assms by (auto simp: decide_semantics_def gate_decide_def split: option.splits prod.splits)

text \<open>
  C12: a call that fails records nothing: register and lifecycle are as they were, and the runner too
  unless the semantic requests had profiles and the evidence was accepted.
\<close>

theorem failed_processing_records_nothing:
  assumes "process_subject P E clock invoke a receipt p subject requests now S = (Inl e, S')"
  shows "sv_register S' = sv_register S \<and> sv_lifecycle S' = sv_lifecycle S
    \<and> (sv_runner S' = sv_runner S \<or> validate_evidence a receipt subject p = None
         \<and> (\<exists>pr cr pp cp. requests = Some (pr, cr) \<and> profile_of p pr = Some pp \<and> profile_of p cr = Some cp
             \<and> check_workflow clock (pp, cp) (pr, cr) (rm_environment (lr_manifest p)) now = None))"
proof -
  have kept: "R = s" if "record_processing_result entry s = (Inl f, R)" for entry s f R
    using that by (auto simp: record_processing_result_def split: option.splits if_splits)
  have "sv_register S' = sv_register S \<and> sv_lifecycle S' = sv_lifecycle S
    \<and> (sv_runner S' = sv_runner S \<or> validate_evidence a receipt subject p = None
        \<and> (\<exists>d. decide_semantics clock invoke p requests now (sv_runner S) = (d, sv_runner S')))"
    using assms kept by (auto simp: process_subject_def split: option.splits sum.splits prod.splits)
  then show ?thesis by (auto dest!: decided_state)
qed

text \<open>A snapshot of the sample package's receipt, and the sample observation that names it.\<close>

definition sample_package_receipt :: package_receipt where
  "sample_package_receipt = \<lparr>pr_manifest = \<lparr>em_package_kind = ''case'', em_package_id = ''p'', em_observation_id = ''obs-1'',
       em_entries = [\<lparr>me_descriptor = sample_descriptor\<lparr>ad_artifact_id := ''art-1''\<rparr>,
         me_primary = create_reference demo_platform PRIMARY ''a'' ''xy''\<rparr>]\<rparr>,
     pr_primary_manifest = (create_reference demo_platform PRIMARY ''a'' ''xy'')\<lparr>or_version_id := ''1'', or_fingerprint := ''m''\<rparr>,
     pr_recovery_manifest = (create_reference demo_platform RECOVERY ''a'' ''xy'')\<lparr>or_version_id := ''1''\<rparr>, pr_copies = []\<rparr>"

definition desk_rulebook :: loaded_rulebook where
  "desk_rulebook = sample_rulebook\<lparr>lr_sources := [sample_source\<lparr>sd_source_id := ''s''\<rparr>]\<rparr>"

definition sample_service :: "string list processing_service" where
  "sample_service = \<lparr>sv_lifecycle = sample_lifecycle, sv_register = [], sv_runner = []\<rparr>"

lemma sample_evidence_valid: "validate_evidence sample_observation sample_package_receipt sample_subject desk_rulebook = None"
  by (simp add: validate_evidence_def sample_observation_def sample_package_receipt_def sample_subject_def desk_rulebook_def
      receipt_artifacts_def entry_artifact_def)

lemma failed_processing_records_nothing_witness:
  "sv_register (snd (process_subject demo_platform plain_encoder (\<lambda>_. Unreadable) disabled_runner sample_observation sample_package_receipt
      desk_rulebook (sample_subject\<lparr>ps_evidence_refs := [''art-2'']\<rparr>) None ''now'' sample_service)) = []"
proof -
  let ?call = "process_subject demo_platform plain_encoder (\<lambda>_. Unreadable) disabled_runner sample_observation sample_package_receipt
      desk_rulebook (sample_subject\<lparr>ps_evidence_refs := [''art-2'']\<rparr>) None ''now'' sample_service"
  have "validate_evidence sample_observation sample_package_receipt (sample_subject\<lparr>ps_evidence_refs := [''art-2'']\<rparr>) desk_rulebook
      = Some (RulebookError CONTRACT_MISMATCH ''unpreserved evidence'')"
    by (simp add: validate_evidence_def sample_observation_def sample_package_receipt_def sample_subject_def desk_rulebook_def
        receipt_artifacts_def entry_artifact_def raise_if_def)
  then have "?call = (Inl (FromEngine (RulebookError CONTRACT_MISMATCH ''unpreserved evidence'')), snd ?call)"
    by (simp add: process_subject_def)
  from failed_processing_records_nothing [OF this] show ?thesis by (simp add: sample_service_def)
qed

section \<open>From evidence to a candidate\<close>


lemma sample_ready: "subject_ready sample_subject"
  by (simp add: subject_ready_def dict_of_def sample_subject_def)




text \<open>Every subject with the facts of the sample one is processed under the sample rulebook.\<close>

lemma desk_processes:
  assumes "validate_evidence a receipt s desk_rulebook = None" and "subject_ready s" and "ps_scope_id s = ''scope''"
    and "ps_facts s = [(''change_kind'', ''CREATE'')]" and "ps_evidence_roles s = [''SOURCE'']"
  shows "\<exists>r candidate recorded S'. process_subject demo_platform total_encoder (\<lambda>_. Unreadable) disabled_runner a receipt
      desk_rulebook s None ''now'' sample_service = (Inr (r, candidate, recorded), S') \<and> rx_evidence_refs r = ps_evidence_refs s"
proof -
  have "mset (matching_rules desk_rulebook s) = {#sample_rule ''rule-1'' ''CREATE'' CANDIDATE#}"
    using assms(3-5)
    by (simp add: matching_applies [OF assms(2)] desk_rulebook_def sample_rulebook_defs rule_applies_def fact_condition_def)
  then have "matching_rules desk_rulebook s = [sample_rule ''rule-1'' ''CREATE'' CANDIDATE]" by simp
  then have executed: "execute_rules demo_platform (sv_lifecycle sample_service) desk_rulebook s
      = Inr (decided_result demo_platform desk_rulebook s (sample_rule ''rule-1'' ''CREATE'' CANDIDATE))"
    using assms(2,3) by (simp add: engine_executes sample_service_def sample_lifecycle_state desk_rulebook_def sample_rulebook_defs)
  then show ?thesis
    using assms(1)
    by (simp add: process_subject_def decide_semantics_def evaluate_subject_def effective_subject_def render_candidate_def
        decided_result_def Let_def sample_rule_def total_encoder_def sample_service_def record_processing_result_def)
qed

lemma recorded_result_stands_witness:
  "\<exists>r candidate recorded S'. process_subject demo_platform total_encoder (\<lambda>_. Unreadable) disabled_runner sample_observation
      sample_package_receipt desk_rulebook sample_subject None ''now'' sample_service = (Inr (r, candidate, recorded), S')
     \<and> get_processing_result (rx_result_id r) (sv_register S') = Inr recorded"
proof -
  have s: "ps_scope_id sample_subject = ''scope''" "ps_facts sample_subject = [(''change_kind'', ''CREATE'')]"
      "ps_evidence_roles sample_subject = [''SOURCE'']" by (simp_all add: sample_subject_def)
  obtain r candidate recorded S' where processed: "process_subject demo_platform total_encoder (\<lambda>_. Unreadable) disabled_runner
      sample_observation sample_package_receipt desk_rulebook sample_subject None ''now'' sample_service = (Inr (r, candidate, recorded), S')"
    using desk_processes [OF sample_evidence_valid sample_ready s] by blast
  with recorded_result_stands [OF processed, of "[]"] show ?thesis by auto
qed

text \<open>The receipt of the sample package, finalized, and an observation of it.\<close>

definition final_receipt :: package_receipt where
  "final_receipt = \<lparr>pr_manifest = sample_copied_manifest, pr_primary_manifest = create_reference demo_platform PRIMARY ''a'' ''xy'',
     pr_recovery_manifest = create_reference demo_platform RECOVERY ''a'' ''xy'',
     pr_copies = [\<lparr>cr_primary = create_reference demo_platform PRIMARY ''a'' ''xy'',
        cr_recovery = create_reference demo_platform RECOVERY ''a'' ''xy''\<rparr>]\<rparr>"

definition final_observation :: acquisition_observation where
  "final_observation = sample_observation\<lparr>ao_evidence_package_id := em_package_id sample_copied_manifest,
     ao_observation_id := em_observation_id sample_copied_manifest,
     ao_primary_manifest_version := or_version_id (pr_primary_manifest final_receipt),
     ao_recovery_manifest_version := or_version_id (pr_recovery_manifest final_receipt),
     ao_manifest_fingerprint := or_fingerprint (pr_primary_manifest final_receipt)\<rparr>"

definition final_subject :: processing_subject where
  "final_subject = sample_subject\<lparr>ps_observation_id := em_observation_id sample_copied_manifest,
     ps_evidence_refs := [ad_artifact_id sample_descriptor]\<rparr>"

lemma final_finalized:
  "finalize_recovery demo_vault demo_vault (sample_retention True) sample_committed_writer (sample_vault PRIMARY True) (empty_vault RECOVERY)
     = (Inr final_receipt, sample_vault RECOVERY True)"
  by (simp add: finalize_recovery_def sample_committed_writer_def sample_copied_entries sample_copied new_package_receipt_def
      final_receipt_def) (simp add: create_reference_def)

lemma processed_evidence_is_preserved_witness:
  "\<exists>r x S'. process_subject demo_platform total_encoder (\<lambda>_. Unreadable) disabled_runner final_observation final_receipt
      desk_rulebook final_subject None ''now'' sample_service = (Inr (r, x), S')
     \<and> (\<exists>copy \<in> set (pr_copies final_receipt). \<exists>content. read_exact demo_platform (sample_vault PRIMARY True) (cr_primary copy) = Inr content)"
proof -
  have s: "subject_ready final_subject" "ps_scope_id final_subject = ''scope''" "ps_facts final_subject = [(''change_kind'', ''CREATE'')]"
      "ps_evidence_roles final_subject = [''SOURCE'']"
    by (simp_all add: final_subject_def sample_subject_def subject_ready_def dict_of_def)
  have "validate_evidence final_observation final_receipt final_subject desk_rulebook = None"
    by (simp add: validate_evidence_def final_observation_def final_receipt_def final_subject_def sample_observation_def
        sample_subject_def desk_rulebook_def receipt_artifacts_def sample_copied_manifest_def entry_artifact_def)
  then obtain r candidate recorded S' where processed: "process_subject demo_platform total_encoder (\<lambda>_. Unreadable) disabled_runner
      final_observation final_receipt desk_rulebook final_subject None ''now'' sample_service = (Inr (r, candidate, recorded), S')"
      "rx_evidence_refs r = ps_evidence_refs final_subject"
    using desk_processes s by blast
  have "ad_artifact_id sample_descriptor \<in> set (rx_evidence_refs r)" by (simp add: processed(2) final_subject_def)
  from processed_evidence_is_preserved [OF final_finalized processed(1) this] processed(1) show ?thesis by blast
qed

section \<open>Semantic requests\<close>

text \<open>
  C23: the requests of a call are compared with each other, not with what is processed: with the deterministic
  runner, a call with requests about one subject and package gives the same outcome and state as the call with
  the same requests about any other subject and package.
\<close>

theorem requests_not_bound_to_subject:
  "process_subject P E clock (deterministic_runner Q F outputs) a receipt p subject
      (Some (pr\<lparr>sq_subject_id := s1, sq_package_fingerprint := f1\<rparr>, cr\<lparr>sq_subject_id := s1, sq_package_fingerprint := f1\<rparr>)) now S
   = process_subject P E clock (deterministic_runner Q F outputs) a receipt p subject
      (Some (pr\<lparr>sq_subject_id := s2, sq_package_fingerprint := f2\<rparr>, cr\<lparr>sq_subject_id := s2, sq_package_fingerprint := f2\<rparr>)) now S"
proof -
  have run: "deterministic_runner Q F outputs profile (request\<lparr>sq_subject_id := s, sq_package_fingerprint := f\<rparr>)
      = deterministic_runner Q F outputs profile request" for profile request s f
    by (rule ext) (simp add: deterministic_runner_def output_document_def split: option.splits prod.splits)
  have check: "check_workflow clock profiles (pr\<lparr>sq_subject_id := s1, sq_package_fingerprint := f1\<rparr>,
        cr\<lparr>sq_subject_id := s1, sq_package_fingerprint := f1\<rparr>) environment now
      = check_workflow clock profiles (pr\<lparr>sq_subject_id := s2, sq_package_fingerprint := f2\<rparr>,
        cr\<lparr>sq_subject_id := s2, sq_package_fingerprint := f2\<rparr>) environment now" for profiles environment
    by (simp add: check_workflow_def split: prod.splits)
  have rejected: "answers_rejected (pr\<lparr>sq_subject_id := s, sq_package_fingerprint := f\<rparr>, cr\<lparr>sq_subject_id := s, sq_package_fingerprint := f\<rparr>)
      = answers_rejected (pr, cr)" for s f
    by (intro ext) (simp add: answers_rejected_def)
  have profile: "profile_of p (request\<lparr>sq_subject_id := s, sq_package_fingerprint := f\<rparr>) = profile_of p request" for request s f
    by (simp add: profile_of_def)
  have "decide_semantics clock (deterministic_runner Q F outputs) p
      (Some (pr\<lparr>sq_subject_id := s1, sq_package_fingerprint := f1\<rparr>, cr\<lparr>sq_subject_id := s1, sq_package_fingerprint := f1\<rparr>)) now s
    = decide_semantics clock (deterministic_runner Q F outputs) p
      (Some (pr\<lparr>sq_subject_id := s2, sq_package_fingerprint := f2\<rparr>, cr\<lparr>sq_subject_id := s2, sq_package_fingerprint := f2\<rparr>)) now s" for s
    unfolding decide_semantics_def gate_decide_def option.case prod.case prod.sel profile check run rejected by (rule refl)
  then show ?thesis unfolding process_subject_def by (simp only:)
qed

text \<open>
  the generative tasks run before the lifecycle is asked. With the deterministic runner, a call whose requests
  are admitted but whose scope is not active, suspended say, fails with the error of the lifecycle after both
  requests were answered.
\<close>

theorem inactive_scope_runs_semantics:
  assumes "validate_evidence a receipt subject p = None" and "profile_of p pr = Some pp" and "profile_of p cr = Some cp"
    and "gate_decide clock (deterministic_runner Q F outputs) (pp, cp) (pr, cr) (rm_environment (lr_manifest p)) now (sv_runner S) = (Inr d, s')"
    and "require_active (sv_lifecycle S) (rm_package_fingerprint (lr_manifest p)) (ps_scope_id subject) = Some e"
  shows "process_subject P E clock (deterministic_runner Q F outputs) a receipt p subject (Some (pr, cr)) now S
    = (Inl (FromEngine e), S\<lparr>sv_runner := sv_runner S @ [sq_request_id pr, sq_request_id cr]\<rparr>)"
proof -
  have "s' = sv_runner S @ [sq_request_id pr, sq_request_id cr]"
    using assms(4) by (auto simp: gate_Inr dest!: deterministic_Inr)
  moreover have "decide_semantics clock (deterministic_runner Q F outputs) p (Some (pr, cr)) now (sv_runner S) = (Inr (Some d), s')"
    using assms(2-4) by (simp add: decide_semantics_def)
  moreover have "execute_rules P (sv_lifecycle S) p (effective_subject subject (Some d)) = Inl e"
    using assms(5) by (simp add: execute_Inl)
  ultimately show ?thesis using assms(1) by (simp add: process_subject_def evaluate_subject_def)
qed

text \<open>A decision and its challenge, with the outputs of a deterministic runner for both.\<close>

definition gate_profile :: "string \<Rightarrow> string \<Rightarrow> semantic_profile" where
  "gate_profile profile_id task = \<lparr>se_profile_id = profile_id, se_task = task, se_provider = ''LOCAL_FAKE'', se_resource_class = [],
     se_geography_class = [], se_deployment_name = [], se_model_id = [], se_model_version = [], se_api_contract = [],
     se_tokenizer = [], se_prompt_fingerprint = profile_id, se_input_schema = [], se_output_schema = [],
     se_evidence_budget_bytes = 8, se_max_output_tokens = 8, se_content_filter_policy = [], se_retry_policy = [],
     se_data_handling_profile = [], se_evaluator_id = [], se_threshold_basis_points = 0, se_expires_at = ''later'',
     se_stateful_features = False, se_allowed_environments = [''LOCAL_SYNTHETIC'']\<rparr>"

definition gate_request :: "string \<Rightarrow> string \<Rightarrow> string \<Rightarrow> string \<Rightarrow> semantic_request" where
  "gate_request request_id task phase profile_id = \<lparr>sq_request_id = request_id, sq_task = task, sq_phase = phase,
     sq_profile_id = profile_id, sq_package_fingerprint = ''fp'', sq_subject_id = ''subject'', sq_evidence_refs = [''art-1''],
     sq_evidence_bytes = ''xy'', sq_input_fingerprint = ''input''\<rparr>"

abbreviation gate_profiles :: "semantic_profile \<times> semantic_profile" where
  "gate_profiles \<equiv> (gate_profile ''one'' ''GAZETTE_EVENT_ANALYSIS'', gate_profile ''two'' ''GAZETTE_EVENT_CHALLENGE'')"

abbreviation gate_requests :: "semantic_request \<times> semantic_request" where
  "gate_requests \<equiv> (gate_request ''q1'' ''GAZETTE_EVENT_ANALYSIS'' ''DECISION'' ''one'',
     gate_request ''q2'' ''GAZETTE_EVENT_CHALLENGE'' ''CHALLENGE'' ''two'')"

definition gate_outputs :: task_outputs where
  "gate_outputs = [((''GAZETTE_EVENT_ANALYSIS'', ''DECISION'', ''input''), (''CODE'', [''art-1''], [], ''NOT_APPLICABLE'')),
     ((''GAZETTE_EVENT_CHALLENGE'', ''CHALLENGE'', ''input''), (''CODE'', [], [], ''PASS''))]"

definition gate_clock :: time_reader where
  "gate_clock s = Aware (Some (if s = ''later'' then 1 else 0))"

abbreviation gate_runner :: "string list task_runner" where
  "gate_runner \<equiv> deterministic_runner demo_platform total_encoder gate_outputs"

lemma gate_checked: "check_workflow gate_clock gate_profiles gate_requests ''LOCAL_SYNTHETIC'' ''now'' = None"
  by (simp add: check_workflow_def gate_profile_def gate_request_def unexpired gate_clock_def task_pair_known_def
      generative_task_values_def semantic_task_pairs_def)

lemma gate_answers:
  "\<exists>primary challenge. gate_runner (fst gate_profiles) (fst gate_requests) s = (Inr primary, s @ [''q1''])
     \<and> gate_runner (snd gate_profiles) (snd gate_requests) (s @ [''q1'']) = (Inr challenge, s @ [''q1'', ''q2''])
     \<and> \<not> answers_rejected gate_requests primary challenge"
proof -
  obtain primary where primary: "gate_runner (fst gate_profiles) (fst gate_requests) s = (Inr primary, s @ [''q1''])"
      "sc_decision_code primary = ''CODE''" "sc_unresolved_facts primary = []" "sc_supporting_evidence_refs primary = [''art-1'']"
    by (simp add: deterministic_runner_def gate_profile_def gate_request_def gate_outputs_def total_encoder_def challenge_code_def
        construct_def raise_if_def)
  obtain challenge where challenge:
      "gate_runner (snd gate_profiles) (snd gate_requests) (s @ [''q1'']) = (Inr challenge, s @ [''q1'', ''q2''])"
      "sc_decision_code challenge = ''CODE''" "sc_supporting_evidence_refs challenge = []" "sc_challenge_code challenge = ''PASS''"
    by (simp add: deterministic_runner_def gate_profile_def gate_request_def gate_outputs_def total_encoder_def challenge_code_def
        construct_def raise_if_def)
  have "answers_rejected gate_requests primary challenge \<longleftrightarrow> False"
    using deterministic.accepted_by_agreement [OF gate_checked [unfolded prod.sel] primary(1) [unfolded prod.sel] challenge(1) [unfolded prod.sel]]
      primary challenge by (simp add: gate_request_def)
  with primary(1) challenge(1) show ?thesis by blast
qed

lemma gate_decides:
  "\<exists>d. gate_decide gate_clock gate_runner gate_profiles gate_requests ''LOCAL_SYNTHETIC'' ''now'' s = (Inr d, s @ [''q1'', ''q2''])"
  using gate_answers [of s] gate_checked unfolding gate_Inr prod.sel by blast

lemma admitted_decision_was_challenged_witness:
  "\<exists>d. gate_decide gate_clock gate_runner gate_profiles gate_requests ''LOCAL_SYNTHETIC'' ''now'' [] = (Inr d, [''q1'', ''q2''])
     \<and> sc_challenge_code (ad_challenge d) = ''PASS''"
proof -
  obtain d where d: "gate_decide gate_clock gate_runner gate_profiles gate_requests ''LOCAL_SYNTHETIC'' ''now'' [] = (Inr d, [''q1'', ''q2''])"
    using gate_decides [of "[]"] by auto
  from admitted_decision_was_challenged [OF d] d show ?thesis by blast
qed

lemma inactive_scope_runs_semantics_witness:
  "process_subject demo_platform total_encoder gate_clock gate_runner sample_observation sample_package_receipt
      (desk_rulebook\<lparr>lr_semantic_profiles := [gate_profile ''one'' ''GAZETTE_EVENT_ANALYSIS'', gate_profile ''two'' ''GAZETTE_EVENT_CHALLENGE'']\<rparr>) (sample_subject\<lparr>ps_scope_id := ''other''\<rparr>)
      (Some gate_requests) ''now'' sample_service
    = (Inl (FromEngine (RulebookError PACKAGE_NOT_ACTIVE ''other'')), sample_service\<lparr>sv_runner := [''q1'', ''q2'']\<rparr>)"
proof -
  let ?p = "desk_rulebook\<lparr>lr_semantic_profiles := [gate_profile ''one'' ''GAZETTE_EVENT_ANALYSIS'', gate_profile ''two'' ''GAZETTE_EVENT_CHALLENGE'']\<rparr>"
  let ?s = "sample_subject\<lparr>ps_scope_id := ''other''\<rparr>"
  have valid: "validate_evidence sample_observation sample_package_receipt ?s ?p = None"
    using sample_evidence_valid by (simp add: validate_evidence_def)
  have profiles:
      "profile_of ?p (gate_request ''q1'' ''GAZETTE_EVENT_ANALYSIS'' ''DECISION'' ''one'') = Some (gate_profile ''one'' ''GAZETTE_EVENT_ANALYSIS'')"
      "profile_of ?p (gate_request ''q2'' ''GAZETTE_EVENT_CHALLENGE'' ''CHALLENGE'' ''two'') = Some (gate_profile ''two'' ''GAZETTE_EVENT_CHALLENGE'')"
    by (simp_all add: profile_of_def gate_request_def gate_profile_def)
  obtain d where d: "gate_decide gate_clock gate_runner gate_profiles gate_requests ''LOCAL_SYNTHETIC'' ''now'' [] = (Inr d, [''q1'', ''q2''])"
    using gate_decides [of "[]"] by auto
  have env: "rm_environment (lr_manifest ?p) = ''LOCAL_SYNTHETIC''" "sv_runner sample_service = []"
    by (simp_all add: desk_rulebook_def sample_rulebook_defs sample_service_def)
  have inactive: "require_active (sv_lifecycle sample_service) (rm_package_fingerprint (lr_manifest ?p)) (ps_scope_id ?s)
      = Some (RulebookError PACKAGE_NOT_ACTIVE ''other'')"
    by (simp add: require_active_def raise_if_def sample_service_def sample_lifecycle_state desk_rulebook_def sample_rulebook_defs)
  have ids: "sq_request_id (gate_request i t ph pr) = i" for i t ph pr by (simp add: gate_request_def)
  show ?thesis
    using inactive_scope_runs_semantics [OF valid profiles _ inactive, of gate_clock demo_platform total_encoder gate_outputs "''now''" d]
      d env by (simp add: ids)
qed

end
