(* ===== verification/RulebookLoader.thy ===== *)
theory RulebookLoader
  imports RulebookModel StrictJson VaultFiles
begin

text \<open>
  The loader of rulebook packages, \<^verbatim>\<open>packages/legal-desks/src/asklegal_legal_desks/loader.py\<close>. A package
  directory is a \<^typ>\<open>tree\<close>; its list has the nodes in the order a walk of the directory visits them.
  Text has code points below 256, whose NFC form is the text itself and whose order is that of its
  UTF-8 bytes. A document with other text, and a fixture in one of the HK regulatory conformance
  formats, is \<^const>\<open>RulebookOutside\<close>.
\<close>

section \<open>Members of documents\<close>

type_synonym member_list = "(string \<times> json) list"

abbreviation mismatch :: "string \<Rightarrow> rulebook_error" where
  "mismatch label \<equiv> RulebookError CONTRACT_MISMATCH label"

definition loader_object :: "json \<Rightarrow> string \<Rightarrow> rulebook_error + member_list" where
  "loader_object v label = (case v of JObject pairs \<Rightarrow> Inr pairs | _ \<Rightarrow> Inl (mismatch label))"

definition loader_array :: "json option \<Rightarrow> string \<Rightarrow> rulebook_error + json list" where
  "loader_array v label = (case v of Some (JArray items) \<Rightarrow> Inr items | _ \<Rightarrow> Inl (mismatch label))"

definition loader_string :: "json option \<Rightarrow> string \<Rightarrow> rulebook_error + string" where
  "loader_string v label = (case v of
     Some (JText s) \<Rightarrow> if s = [] then Inl (mismatch label) else Inr s | _ \<Rightarrow> Inl (mismatch label))"

definition loader_integer :: "json option \<Rightarrow> string \<Rightarrow> rulebook_error + int" where
  "loader_integer v label = (case v of Some (JNumber i) \<Rightarrow> Inr i | _ \<Rightarrow> Inl (mismatch label))"

definition loader_boolean :: "json option \<Rightarrow> string \<Rightarrow> rulebook_error + bool" where
  "loader_boolean v label = (case v of Some (JBoolean b) \<Rightarrow> Inr b | _ \<Rightarrow> Inl (mismatch label))"

definition loader_strings :: "json option \<Rightarrow> string \<Rightarrow> rulebook_error + string list" where
  "loader_strings v label = and_then (loader_array v label) (\<lambda>items.
     and_then (collect (\<lambda>item. loader_string (Some item) label) items) (\<lambda>texts.
       construct [raise_if (\<not> distinct texts) (mismatch label)] texts))"

text \<open>A text or \<^verbatim>\<open>null\<close>, and a member of a closed vocabulary.\<close>

definition loader_nullable :: "json option \<Rightarrow> string \<Rightarrow> rulebook_error + string option" where
  "loader_nullable v label = (case v of
     Some JNull \<Rightarrow> Inr None | Some (JText s) \<Rightarrow> Inr (Some s) | _ \<Rightarrow> Inl (mismatch label))"

definition loader_code :: "(string \<times> 'a) list \<Rightarrow> json option \<Rightarrow> string \<Rightarrow> string \<Rightarrow> rulebook_error + 'a" where
  "loader_code values v label unknown = and_then (loader_string v label) (\<lambda>s.
     case map_of values s of None \<Rightarrow> Inl (RulebookError UNKNOWN_CODE unknown) | Some x \<Rightarrow> Inr x)"

definition exact_keys :: "member_list \<Rightarrow> string list \<Rightarrow> string \<Rightarrow> rulebook_error option" where
  "exact_keys d expected label = raise_if (set (map fst d) \<noteq> set expected) (mismatch label)"

definition text_field :: "member_list \<Rightarrow> string \<Rightarrow> rulebook_error + string" where
  "text_field d key = loader_string (map_of d key) key"

definition texts_field :: "member_list \<Rightarrow> string \<Rightarrow> rulebook_error + string list" where
  "texts_field d key = loader_strings (map_of d key) key"

section \<open>Files\<close>

definition max_file_bytes :: int where
  "max_file_bytes = 2000000"

definition read_package_json :: "tree \<Rightarrow> path \<Rightarrow> rulebook_error + member_list" where
  "read_package_json t path = (case document (node_at t path) of
     None \<Rightarrow> Inl (mismatch (last path))
   | Some raw \<Rightarrow> (case parse_json_bytes raw max_file_bytes of
       Inl (Violation _) \<Rightarrow> Inl (mismatch (last path))
     | Inl _ \<Rightarrow> Inl RulebookOutside
     | Inr v \<Rightarrow> loader_object v (last path)))"

definition manifest_fingerprint :: "platform \<Rightarrow> encoder \<Rightarrow> member_list \<Rightarrow> rulebook_error + string" where
  "manifest_fingerprint P E d = (case E (JObject (filter (\<lambda>(k, v). k \<noteq> ''package_fingerprint'') d)) of
     None \<Rightarrow> Inl RulebookFault
   | Some raw \<Rightarrow> Inr (sha256_fingerprint P raw))"

text \<open>\<^verbatim>\<open>PurePosixPath(relative)\<close>: its parts, and its text.\<close>

definition posix_parts :: "string \<Rightarrow> path" where
  "posix_parts s = filter (\<lambda>part. part \<noteq> [] \<and> part \<noteq> ''.'') (split_on (CHR ''/'') s)"

definition posix_text :: "path \<Rightarrow> string" where
  "posix_text parts = (if parts = [] then ''.'' else join ''/'' parts)"

definition validate_path :: "string \<Rightarrow> rulebook_error option" where
  "validate_path relative = raise_if
     (relative = [] \<or> starts_with relative ''/'' \<or> CHR 0x5C \<in> set relative \<or> ''..'' \<in> set (posix_parts relative)
      \<or> posix_text (posix_parts relative) \<noteq> relative) (RulebookError PATH_INVALID relative)"

definition package_files :: "tree \<Rightarrow> rulebook_error + string list" where
  "package_files t = (case find (\<lambda>(p, n). n = Alias) t of
     Some (p, n) \<Rightarrow> Inl (RulebookError PATH_INVALID (last p))
   | None \<Rightarrow> Inr (sort (map (\<lambda>(p, n). join ''/'' p) (filter (\<lambda>(p, n). document (Some n) \<noteq> None) t))))"

definition required_directories :: "string list" where
  "required_directories = [''attestations'', ''catalogues'', ''contracts'', ''evaluations'', ''expected'', ''fixtures'',
     ''profiles'', ''renderers'', ''rules'', ''scopes'', ''sources'']"

definition file_roles :: "string list" where
  "file_roles = [''ATTESTATION'', ''CATALOGUE'', ''CONTRACT'', ''DETERMINISTIC_FIXTURE'', ''EVALUATION'', ''EXPECTED_ARTIFACT'',
     ''PROFILE'', ''RENDERER'', ''RULES'', ''SCOPE_REGISTRY'', ''SEMANTIC_FIXTURE'', ''SOURCE_UNIVERSE'']"

definition source_roles :: "string list" where
  "source_roles = [''CONTROLLING'', ''CORROBORATING'', ''DISCOVERY'', ''EXCLUDED'', ''SPECIFICATION'', ''TRIGGER'']"

text \<open>A declared file that is not a document is an \<^verbatim>\<open>OSError\<close> when it is read.\<close>

definition check_file :: "platform \<Rightarrow> tree \<Rightarrow> package_file \<Rightarrow> rulebook_error option" where
  "check_file P t f = first_raise
     [validate_path (pf_path f),
      raise_if (pf_role f \<notin> set file_roles) (RulebookError UNKNOWN_CODE (pf_role f)),
      (case document (node_at t (posix_parts (pf_path f))) of
         None \<Rightarrow> Some RulebookFault
       | Some raw \<Rightarrow> raise_if (pf_byte_size f \<noteq> int (length raw) \<or> pf_fingerprint f \<noteq> sha256_fingerprint P raw)
           (RulebookError FINGERPRINT_DRIFT (pf_path f)))]"

definition validate_inventory :: "platform \<Rightarrow> tree \<Rightarrow> rulebook_manifest \<Rightarrow> rulebook_error option" where
  "validate_inventory P t m = raised_by (and_then (package_files t) (\<lambda>actual.
     let declared = map pf_path (rm_files m) in
     construct
      ([raise_if (declared \<noteq> sort declared) (RulebookError INVENTORY_MISMATCH ''file order''),
        raise_if (count_list actual ''package.json'' \<noteq> 1 \<or> \<not> distinct declared
          \<or> filter (\<lambda>path. path \<noteq> ''package.json'') actual \<noteq> declared) (RulebookError INVENTORY_MISMATCH []),
        raise_if (\<not> set required_directories \<subseteq> set (map fst (filter (\<lambda>(name, n). n = Folder) (children [] t))))
          (RulebookError INVENTORY_MISMATCH ''required directories'')]
       @ map (check_file P t) (rm_files m)) ()))"

text \<open>The \<^verbatim>\<open>*.json\<close> nodes of a folder, and those anywhere below it, in order.\<close>

definition json_children :: "path \<Rightarrow> tree \<Rightarrow> path list" where
  "json_children folder t = sort (map fst (filter (\<lambda>(p, n). p \<noteq> [] \<and> butlast p = folder \<and> ends_with (last p) ''.json'') t))"

definition json_below :: "path \<Rightarrow> tree \<Rightarrow> path list" where
  "json_below folder t = sort (map fst (filter (\<lambda>(p, n).
     length folder < length p \<and> take (length folder) p = folder \<and> ends_with (last p) ''.json'') t))"

section \<open>The manifest\<close>

definition manifest_keys :: "string list" where
  "manifest_keys = [''schema_id'', ''schema_version'', ''package_id'', ''package_version'', ''package_fingerprint'',
     ''jurisdiction'', ''environment'', ''material_family'', ''legal_desk_owner'', ''effective_cutoff'', ''predecessor'',
     ''contract_locks'', ''code_locks'', ''source_universe_fingerprint'', ''scope_readiness'', ''unresolved_policy_codes'',
     ''impact_declaration'', ''minimum_engine_version'', ''files'']"

definition parse_package_file :: "json \<Rightarrow> rulebook_error + package_file" where
  "parse_package_file v = and_then (loader_object v ''file'') (\<lambda>d.
     guarded [exact_keys d [''path'', ''role'', ''byte_size'', ''fingerprint''] ''file'']
     (and_then (text_field d ''path'') (\<lambda>path.
      and_then (text_field d ''role'') (\<lambda>role.
      and_then (loader_integer (map_of d ''byte_size'') ''byte_size'') (\<lambda>byte_size.
      and_then (text_field d ''fingerprint'') (\<lambda>fingerprint.
      Inr \<lparr>pf_path = path, pf_role = role, pf_byte_size = byte_size, pf_fingerprint = fingerprint\<rparr>))))))"

definition parse_readiness :: "json \<Rightarrow> rulebook_error + string \<times> readiness_state" where
  "parse_readiness v = and_then (loader_object v ''scope_readiness'') (\<lambda>d.
     guarded [exact_keys d [''scope_id'', ''state''] ''scope_readiness'']
     (and_then (text_field d ''scope_id'') (\<lambda>scope_id.
      and_then (loader_code readiness_values (map_of d ''state'') ''state'' ''readiness'') (\<lambda>state.
      Inr (scope_id, state)))))"

definition parse_manifest :: "member_list \<Rightarrow> rulebook_error + rulebook_manifest" where
  "parse_manifest d = guarded
     [exact_keys d manifest_keys ''package.json'',
      raise_if (map_of d ''schema_id'' \<noteq> Some (JText ''asklegal.executable-source-rulebook-package'')) (mismatch ''schema_id'')]
     (and_then (and_then (loader_array (map_of d ''files'') ''files'') (collect parse_package_file)) (\<lambda>files.
      and_then (and_then (loader_array (map_of d ''scope_readiness'') ''scope_readiness'') (collect parse_readiness)) (\<lambda>readiness.
      and_then (loader_nullable (map_of d ''predecessor'') ''predecessor'') (\<lambda>predecessor.
      and_then (text_field d ''package_id'') (\<lambda>package_id.
      and_then (text_field d ''package_version'') (\<lambda>package_version.
      and_then (text_field d ''package_fingerprint'') (\<lambda>package_fingerprint.
      and_then (text_field d ''jurisdiction'') (\<lambda>jurisdiction.
      and_then (text_field d ''environment'') (\<lambda>environment.
      and_then (text_field d ''material_family'') (\<lambda>material_family.
      and_then (text_field d ''legal_desk_owner'') (\<lambda>legal_desk_owner.
      and_then (text_field d ''effective_cutoff'') (\<lambda>effective_cutoff.
      and_then (texts_field d ''contract_locks'') (\<lambda>contract_locks.
      and_then (texts_field d ''code_locks'') (\<lambda>code_locks.
      and_then (text_field d ''source_universe_fingerprint'') (\<lambda>source_universe_fingerprint.
      and_then (texts_field d ''unresolved_policy_codes'') (\<lambda>unresolved_policy_codes.
      and_then (text_field d ''impact_declaration'') (\<lambda>impact_declaration.
      and_then (text_field d ''minimum_engine_version'') (\<lambda>minimum_engine_version.
      Inr \<lparr>rm_package_id = package_id, rm_package_version = package_version, rm_package_fingerprint = package_fingerprint,
        rm_jurisdiction = jurisdiction, rm_environment = environment, rm_material_family = material_family,
        rm_legal_desk_owner = legal_desk_owner, rm_effective_cutoff = effective_cutoff, rm_predecessor = predecessor,
        rm_contract_locks = contract_locks, rm_code_locks = code_locks,
        rm_source_universe_fingerprint = source_universe_fingerprint, rm_scope_readiness = readiness,
        rm_unresolved_policy_codes = unresolved_policy_codes, rm_impact_declaration = impact_declaration,
        rm_minimum_engine_version = minimum_engine_version, rm_files = files\<rparr>))))))))))))))))))"

end
