(* ===== verification/RulebookPackage.thy ===== *)
theory RulebookPackage
  imports RulebookLoader
begin

text \<open>
  The parts of a rulebook package and their composition, \<^verbatim>\<open>load_rulebook_package\<close>, of
  \<^verbatim>\<open>packages/legal-desks/src/asklegal_legal_desks/loader.py\<close>: sources, scopes, rules, blockers,
  semantic profiles, fixtures and evaluations.
\<close>

section \<open>Sources\<close>

definition source_keys :: "string list" where
  "source_keys = [''source_id'', ''role'', ''endpoint_families'', ''checking_tier'', ''permitted_use'',
     ''completeness_rule'', ''outage_consequence'']"

definition parse_source :: "json \<Rightarrow> rulebook_error + source_definition" where
  "parse_source v = and_then (loader_object v ''source'') (\<lambda>d. guarded [exact_keys d source_keys ''source'']
     (and_then (loader_string (map_of d ''role'') ''source role'') (\<lambda>role.
      guarded [raise_if (role \<notin> set source_roles) (RulebookError UNKNOWN_CODE role)]
      (and_then (text_field d ''permitted_use'') (\<lambda>permitted_use.
      guarded [raise_if ((role = ''EXCLUDED'') \<noteq> (permitted_use = ''EXCLUDED'')) (RulebookError INCOMPLETE_SOURCE_INVENTORY [])]
      (and_then (text_field d ''source_id'') (\<lambda>source_id.
      and_then (texts_field d ''endpoint_families'') (\<lambda>endpoint_families.
      and_then (text_field d ''checking_tier'') (\<lambda>checking_tier.
      and_then (text_field d ''completeness_rule'') (\<lambda>completeness_rule.
      and_then (text_field d ''outage_consequence'') (\<lambda>outage_consequence.
      Inr \<lparr>sd_source_id = source_id, sd_role = role, sd_endpoint_families = endpoint_families,
        sd_checking_tier = checking_tier, sd_permitted_use = permitted_use, sd_completeness_rule = completeness_rule,
        sd_outage_consequence = outage_consequence\<rparr>)))))))))))"

definition parse_sources :: "platform \<Rightarrow> tree \<Rightarrow> rulebook_manifest \<Rightarrow> rulebook_error + source_definition list" where
  "parse_sources P t m = (let path = [''sources'', ''source-universe.json''] in
     case document (node_at t path) of
       None \<Rightarrow> Inl RulebookFault
     | Some raw \<Rightarrow>
         guarded [raise_if (sha256_fingerprint P raw \<noteq> rm_source_universe_fingerprint m)
           (RulebookError FINGERPRINT_DRIFT ''source universe'')]
         (and_then (read_package_json t path) (\<lambda>d.
          guarded [exact_keys d [''complete'', ''sources''] ''source universe'',
            raise_if (map_of d ''complete'' \<noteq> Some (JBoolean True)) (RulebookError INCOMPLETE_SOURCE_INVENTORY [])]
          (and_then (and_then (loader_array (map_of d ''sources'') ''sources'') (collect parse_source)) (\<lambda>sources.
           construct [raise_if (sources = [] \<or> \<not> distinct (map sd_source_id sources))
             (RulebookError INCOMPLETE_SOURCE_INVENTORY [])] sources)))))"

section \<open>Scopes\<close>

definition scope_keys :: "string list" where
  "scope_keys = [''scope_id'', ''ownership_keys'', ''required_source_ids'', ''zero_record_rule'', ''withholding_rule'',
     ''readiness'', ''blocker_codes'']"

definition parse_scope :: "string list \<Rightarrow> string list \<Rightarrow> json \<Rightarrow> rulebook_error + rule_scope" where
  "parse_scope source_ids owned v = and_then (loader_object v ''scope'') (\<lambda>d. guarded [exact_keys d scope_keys ''scope'']
     (and_then (texts_field d ''ownership_keys'') (\<lambda>ownership.
      guarded [raise_if (ownership = [] \<or> set owned \<inter> set ownership \<noteq> {}) (RulebookError OVERLAPPING_SCOPES [])]
      (and_then (texts_field d ''required_source_ids'') (\<lambda>required.
      guarded [raise_if (required = [] \<or> \<not> set required \<subseteq> set source_ids) (RulebookError INCOMPLETE_SOURCE_INVENTORY [])]
      (and_then (loader_code readiness_values (map_of d ''readiness'') ''readiness'' ''readiness'') (\<lambda>readiness.
      and_then (texts_field d ''blocker_codes'') (\<lambda>blockers.
      guarded [raise_if ((readiness = NOT_READY_SCOPE) \<noteq> (blockers \<noteq> []))
        (mismatch ''NOT_READY scopes require blockers and ready scopes forbid them'')]
      (and_then (text_field d ''scope_id'') (\<lambda>scope_id.
      and_then (text_field d ''zero_record_rule'') (\<lambda>zero_record_rule.
      and_then (text_field d ''withholding_rule'') (\<lambda>withholding_rule.
      Inr \<lparr>rs_scope_id = scope_id, rs_ownership_keys = ownership, rs_required_source_ids = required,
        rs_zero_record_rule = zero_record_rule, rs_withholding_rule = withholding_rule, rs_readiness = readiness,
        rs_blocker_codes = blockers\<rparr>))))))))))))"

text \<open>The scopes in order, with the keys owned by those before.\<close>

fun parse_scope_list :: "string list \<Rightarrow> string list \<Rightarrow> json list \<Rightarrow> rulebook_error + rule_scope list" where
  "parse_scope_list source_ids owned [] = Inr []"
| "parse_scope_list source_ids owned (v # vs) = and_then (parse_scope source_ids owned v) (\<lambda>scope.
     and_then (parse_scope_list source_ids (owned @ rs_ownership_keys scope) vs) (\<lambda>scopes. Inr (scope # scopes)))"

definition family_keys :: "string list" where
  "family_keys = [''family_id'', ''ownership_key_pattern'', ''required_source_ids'', ''concrete_scope_rule'', ''blocker_codes'']"

definition parse_scope_family :: "string list \<Rightarrow> json \<Rightarrow> rulebook_error + scope_family" where
  "parse_scope_family source_ids v = and_then (loader_object v ''scope_family'') (\<lambda>d.
     guarded [exact_keys d family_keys ''scope_family'']
     (and_then (loader_strings (map_of d ''required_source_ids'') ''family required_source_ids'') (\<lambda>required.
      and_then (loader_strings (map_of d ''blocker_codes'') ''family blocker_codes'') (\<lambda>blockers.
      guarded [raise_if (required = [] \<or> \<not> set required \<subseteq> set source_ids \<or> blockers = [])
        (RulebookError INCOMPLETE_SOURCE_INVENTORY [])]
      (and_then (text_field d ''family_id'') (\<lambda>family_id.
      and_then (text_field d ''ownership_key_pattern'') (\<lambda>pattern.
      and_then (text_field d ''concrete_scope_rule'') (\<lambda>concrete_scope_rule.
      Inr \<lparr>sf_family_id = family_id, sf_ownership_key_pattern = pattern, sf_required_source_ids = required,
        sf_concrete_scope_rule = concrete_scope_rule, sf_blocker_codes = blockers\<rparr>))))))))"

definition parse_scope_families :: "json option \<Rightarrow> string list \<Rightarrow> rulebook_error + scope_family list" where
  "parse_scope_families v source_ids =
     (if v = None \<or> v = Some JNull then Inr []
      else and_then (and_then (loader_array v ''scope_families'') (collect (parse_scope_family source_ids))) (\<lambda>families.
        construct [raise_if (families = [] \<or> map sf_family_id families \<noteq> sort (map sf_family_id families)
          \<or> \<not> distinct (map sf_family_id families) \<or> \<not> distinct (map sf_ownership_key_pattern families))
          (RulebookError OVERLAPPING_SCOPES [])] families))"

definition parse_scopes :: "tree \<Rightarrow> source_definition list \<Rightarrow> rulebook_error + rule_scope list \<times> scope_family list" where
  "parse_scopes t sources = and_then (read_package_json t [''scopes'', ''release-scopes.json'']) (\<lambda>d.
     guarded
       [raise_if (set (map fst d) \<notin> {{''complete_non_overlap'', ''scopes''}, {''complete_non_overlap'', ''scopes'', ''scope_families''}})
          (mismatch ''scopes''),
        raise_if (map_of d ''complete_non_overlap'' \<noteq> Some (JBoolean True)) (RulebookError OVERLAPPING_SCOPES [])]
     (let source_ids = map sd_source_id sources in
      and_then (and_then (loader_array (map_of d ''scopes'') ''scopes'') (parse_scope_list source_ids [])) (\<lambda>scopes.
      guarded [raise_if (\<not> distinct (map rs_scope_id scopes)) (RulebookError OVERLAPPING_SCOPES [])]
      (and_then (parse_scope_families (map_of d ''scope_families'') source_ids) (\<lambda>families.
       construct [raise_if (scopes = [] \<and> families = []) (RulebookError OVERLAPPING_SCOPES [])] (scopes, families))))))"

section \<open>Rules\<close>

definition parse_predicate :: "json \<Rightarrow> rulebook_error + rule_predicate" where
  "parse_predicate v = and_then (loader_object v ''predicate'') (\<lambda>d.
     guarded [exact_keys d [''fact'', ''operator'', ''value''] ''predicate'']
     (and_then (loader_code operator_values (map_of d ''operator'') ''operator'' ''operator'') (\<lambda>operator.
      and_then (loader_nullable (map_of d ''value'') ''predicate value'') (\<lambda>value.
      guarded [raise_if (operator = FACT_EQUALS \<and> value = None) (mismatch ''EQUALS value'')]
      (and_then (text_field d ''fact'') (\<lambda>fact.
      Inr \<lparr>pd_fact = fact, pd_operator = operator, pd_value = value\<rparr>))))))"

definition rule_keys :: "string list" where
  "rule_keys = [''rule_id'', ''scope_id'', ''predicates'', ''evidence_roles'', ''disposition'', ''reason_code'',
     ''failure_code'', ''next_action'']"

definition parse_rule :: "string list \<Rightarrow> json \<Rightarrow> rulebook_error + rule_definition" where
  "parse_rule scope_ids v = and_then (loader_object v ''rule'') (\<lambda>d. guarded [exact_keys d rule_keys ''rule'']
     (and_then (and_then (loader_array (map_of d ''predicates'') ''predicates'') (collect parse_predicate)) (\<lambda>predicates.
      and_then (text_field d ''scope_id'') (\<lambda>scope_id.
      guarded [raise_if (scope_id \<notin> set scope_ids) (mismatch scope_id)]
      (and_then (loader_code disposition_values (map_of d ''disposition'') ''disposition'' ''disposition'') (\<lambda>disposition.
      and_then (loader_nullable (map_of d ''failure_code'') ''failure_code'') (\<lambda>failure.
      and_then (text_field d ''rule_id'') (\<lambda>rule_id.
      and_then (texts_field d ''evidence_roles'') (\<lambda>evidence_roles.
      and_then (text_field d ''reason_code'') (\<lambda>reason_code.
      and_then (text_field d ''next_action'') (\<lambda>next_action.
      Inr \<lparr>rd_rule_id = rule_id, rd_scope_id = scope_id, rd_predicates = predicates, rd_evidence_roles = evidence_roles,
        rd_disposition = disposition, rd_reason_code = reason_code, rd_failure_code = failure,
        rd_next_action = next_action\<rparr>)))))))))))"

definition parse_rules :: "tree \<Rightarrow> rule_scope list \<Rightarrow> rulebook_error + rule_definition list" where
  "parse_rules t scopes = and_then (read_package_json t [''rules'', ''terminal-rules.json'']) (\<lambda>d.
     guarded [exact_keys d [''rules''] ''rules'']
     (and_then (and_then (loader_array (map_of d ''rules'') ''rules'') (collect (parse_rule (map rs_scope_id scopes)))) (\<lambda>rules.
      construct [raise_if (\<not> distinct (map rd_rule_id rules)
          \<or> rules = [] \<and> list_ex (\<lambda>scope. rs_readiness scope \<noteq> NOT_READY_SCOPE) scopes) (mismatch ''rules'')] rules)))"

section \<open>Blockers\<close>

text \<open>The codes of one catalogue entry by entry, then those of the catalogues, in order.\<close>

fun define_blockers :: "json list \<Rightarrow> string list \<Rightarrow> rulebook_error + string list" where
  "define_blockers [] defined = Inr defined"
| "define_blockers (v # vs) defined = and_then (loader_object v ''blocker_code'') (\<lambda>d.
     guarded [exact_keys d [''code'', ''meaning''] ''blocker_code'']
     (and_then (loader_string (map_of d ''code'') ''blocker code'') (\<lambda>code.
      and_then (loader_string (map_of d ''meaning'') ''blocker meaning'') (\<lambda>meaning.
      guarded [raise_if (code \<in> set defined) (mismatch ''duplicate blocker'')] (define_blockers vs (defined @ [code]))))))"

fun catalogued_blockers :: "tree \<Rightarrow> path list \<Rightarrow> string list \<Rightarrow> rulebook_error + string list" where
  "catalogued_blockers t [] defined = Inr defined"
| "catalogued_blockers t (p # ps) defined = and_then (read_package_json t p) (\<lambda>d.
     if map_of d ''blocker_codes'' = None \<or> map_of d ''blocker_codes'' = Some JNull then catalogued_blockers t ps defined
     else and_then (and_then (loader_array (map_of d ''blocker_codes'') ''blocker_codes'') (\<lambda>codes. define_blockers codes defined))
       (catalogued_blockers t ps))"

definition referenced_blockers :: "rule_scope list \<Rightarrow> scope_family list \<Rightarrow> string list" where
  "referenced_blockers scopes families = concat (map rs_blocker_codes scopes) @ concat (map sf_blocker_codes families)"

definition validate_blockers :: "tree \<Rightarrow> rulebook_manifest \<Rightarrow> rule_scope list \<Rightarrow> scope_family list \<Rightarrow> rulebook_error option" where
  "validate_blockers t m scopes families = raised_by
     (and_then (catalogued_blockers t (json_children [''catalogues''] t) []) (\<lambda>defined.
      construct [raise_if (set (referenced_blockers scopes families) \<noteq> set defined
          \<or> \<not> set (rm_unresolved_policy_codes m) \<subseteq> set (referenced_blockers scopes families))
        (RulebookError UNKNOWN_CODE ''readiness blocker'')] ()))"

section \<open>Semantic profiles\<close>

definition profile_keys :: "string list" where
  "profile_keys = [''profile_id'', ''task'', ''provider'', ''resource_class'', ''geography_class'', ''deployment_name'',
     ''model_id'', ''model_version'', ''api_contract'', ''tokenizer'', ''prompt_fingerprint'', ''input_schema'',
     ''output_schema'', ''evidence_budget_bytes'', ''max_output_tokens'', ''content_filter_policy'', ''retry_policy'',
     ''data_handling_profile'', ''evaluator_id'', ''threshold_basis_points'', ''expires_at'', ''stateful_features'',
     ''allowed_environments'']"

definition loader_timestamp :: "time_reader \<Rightarrow> string \<Rightarrow> rulebook_error + int" where
  "loader_timestamp clock value = (case clock value of
     Unreadable \<Rightarrow> Inl (mismatch ''timestamp'') | Naive \<Rightarrow> Inl (mismatch ''timestamp'')
   | Aware None \<Rightarrow> Inl RulebookFault | Aware (Some instant) \<Rightarrow> Inr instant)"

text \<open>
  \<^verbatim>\<open>token.lower()\<close>, compared with words of ASCII letters only: no character below 256 outside the capital
  letters has an ASCII letter as its lower case.
\<close>

definition ascii_lower :: "string \<Rightarrow> string" where
  "ascii_lower s = map (\<lambda>c. if is_upper c then char_of ((of_char c :: nat) + 32) else c) s"

definition is_floating :: "string \<Rightarrow> bool" where
  "is_floating token \<longleftrightarrow> ascii_lower token \<in> {''latest'', ''current'', ''default''}"

definition parse_profile :: "time_reader \<Rightarrow> string \<Rightarrow> string \<Rightarrow> json \<Rightarrow> rulebook_error + semantic_profile" where
  "parse_profile clock environment now v = and_then (loader_object v ''profile'') (\<lambda>d.
     guarded [exact_keys d profile_keys ''profile'']
     (and_then (text_field d ''task'') (\<lambda>task.
      guarded [raise_if (map_of generative_task_values task = None) (RulebookError UNKNOWN_CODE task)]
      (and_then (text_field d ''model_id'') (\<lambda>model_id.
      and_then (text_field d ''model_version'') (\<lambda>model_version.
      and_then (text_field d ''deployment_name'') (\<lambda>deployment_name.
      guarded [raise_if (is_floating model_id \<or> is_floating model_version \<or> is_floating deployment_name) (mismatch ''floating model'')]
      (and_then (texts_field d ''allowed_environments'') (\<lambda>allowed.
      guarded [raise_if (environment \<notin> set allowed) (RulebookError ENVIRONMENT_MISUSE ''semantic profile'')]
      (and_then (loader_boolean (map_of d ''stateful_features'') ''stateful_features'') (\<lambda>stateful.
      guarded [raise_if stateful (RulebookError ENVIRONMENT_MISUSE ''semantic profile'')]
      (and_then (text_field d ''expires_at'') (\<lambda>expires_at.
      and_then (loader_timestamp clock expires_at) (\<lambda>expiry.
      and_then (loader_timestamp clock now) (\<lambda>instant.
      guarded [raise_if (expiry \<le> instant) (RulebookError EXPIRED_PROFILE [])]
      (and_then (text_field d ''profile_id'') (\<lambda>profile_id.
      and_then (text_field d ''provider'') (\<lambda>provider.
      and_then (text_field d ''resource_class'') (\<lambda>resource_class.
      and_then (text_field d ''geography_class'') (\<lambda>geography_class.
      and_then (text_field d ''api_contract'') (\<lambda>api_contract.
      and_then (text_field d ''tokenizer'') (\<lambda>tokenizer.
      and_then (text_field d ''prompt_fingerprint'') (\<lambda>prompt_fingerprint.
      and_then (text_field d ''input_schema'') (\<lambda>input_schema.
      and_then (text_field d ''output_schema'') (\<lambda>output_schema.
      and_then (loader_integer (map_of d ''evidence_budget_bytes'') ''evidence_budget_bytes'') (\<lambda>evidence_budget_bytes.
      and_then (loader_integer (map_of d ''max_output_tokens'') ''max_output_tokens'') (\<lambda>max_output_tokens.
      and_then (text_field d ''content_filter_policy'') (\<lambda>content_filter_policy.
      and_then (text_field d ''retry_policy'') (\<lambda>retry_policy.
      and_then (text_field d ''data_handling_profile'') (\<lambda>data_handling_profile.
      and_then (text_field d ''evaluator_id'') (\<lambda>evaluator_id.
      and_then (loader_integer (map_of d ''threshold_basis_points'') ''threshold_basis_points'') (\<lambda>threshold.
      Inr \<lparr>se_profile_id = profile_id, se_task = task, se_provider = provider, se_resource_class = resource_class,
        se_geography_class = geography_class, se_deployment_name = deployment_name, se_model_id = model_id,
        se_model_version = model_version, se_api_contract = api_contract, se_tokenizer = tokenizer,
        se_prompt_fingerprint = prompt_fingerprint, se_input_schema = input_schema, se_output_schema = output_schema,
        se_evidence_budget_bytes = evidence_budget_bytes, se_max_output_tokens = max_output_tokens,
        se_content_filter_policy = content_filter_policy, se_retry_policy = retry_policy,
        se_data_handling_profile = data_handling_profile, se_evaluator_id = evaluator_id,
        se_threshold_basis_points = threshold, se_expires_at = expires_at, se_stateful_features = False,
        se_allowed_environments = allowed\<rparr>))))))))))))))))))))))))))))))))"

definition parse_profiles :: "time_reader \<Rightarrow> tree \<Rightarrow> string \<Rightarrow> string \<Rightarrow> rulebook_error + semantic_profile list" where
  "parse_profiles clock t environment now = and_then (read_package_json t [''profiles'', ''semantic-profiles.json'']) (\<lambda>d.
     guarded [exact_keys d [''profiles''] ''profiles'']
     (and_then (and_then (loader_array (map_of d ''profiles'') ''profiles'') (collect (parse_profile clock environment now))) (\<lambda>profiles.
      construct [raise_if (\<not> distinct (map se_profile_id profiles) \<or> \<not> distinct (map se_task profiles))
        (mismatch ''duplicate profile'')] profiles)))"

section \<open>Fixtures and evaluations\<close>

definition conformance_schemas :: "string list" where
  "conformance_schemas = map (\<lambda>part. ''asklegal.hk-regulatory.'' @ part) [''package-integrity-case'', ''source-decision-case'',
     ''state-decision-case'', ''boundary-decision-case'', ''rendering-decision-case'', ''partition-decision-case'',
     ''coverage-decision-case'', ''identity-decision-case'']"

definition fixture_inputs :: "member_list \<Rightarrow> string list" where
  "fixture_inputs d = (case map_of d ''input_fingerprint'' of Some (JText s) \<Rightarrow> [s] | _ \<Rightarrow> [])"

definition parse_fixture :: "tree \<Rightarrow> path \<Rightarrow> rulebook_error + string \<times> string list" where
  "parse_fixture t p = and_then (read_package_json t p) (\<lambda>d.
     guarded [raise_if (map_of d ''schema_id'' \<in> set (map (\<lambda>s. Some (JText s)) conformance_schemas)) RulebookOutside]
     (and_then (text_field d ''fixture_id'') (\<lambda>fixture_id. Inr (fixture_id, fixture_inputs d))))"

definition parse_evaluation :: "tree \<Rightarrow> path \<Rightarrow> rulebook_error + string \<times> string list" where
  "parse_evaluation t p = and_then (read_package_json t p) (\<lambda>d.
     and_then (text_field d ''evaluation_id'') (\<lambda>evaluation_id.
     and_then (if map_of d ''protected_reference_fingerprints'' \<in> {None, Some JNull} then Inr []
               else texts_field d ''protected_reference_fingerprints'') (\<lambda>refs. Inr (evaluation_id, refs))))"

definition fixtures_and_evaluations :: "tree \<Rightarrow> rulebook_error + string list \<times> string list" where
  "fixtures_and_evaluations t =
     and_then (collect (parse_fixture t) (json_below [''fixtures''] t)) (\<lambda>fixtures.
     and_then (collect (parse_evaluation t) (json_children [''evaluations''] t)) (\<lambda>evaluations.
     construct [raise_if (set (map fst fixtures) \<inter> set (map fst evaluations) \<noteq> {}
         \<or> set (concat (map snd fixtures)) \<inter> set (concat (map snd evaluations)) \<noteq> {}) (RulebookError EVALUATION_LEAKAGE [])]
       (map fst fixtures, map fst evaluations)))"

definition parse_attestation :: "tree \<Rightarrow> path \<Rightarrow> rulebook_error + string" where
  "parse_attestation t p = and_then (read_package_json t p) (\<lambda>d. text_field d ''attestation_id'')"

section \<open>The package\<close>

definition engine_version_default :: string where
  "engine_version_default = ''1.0.0''"

text \<open>The guards on the manifest that do not read another file.\<close>

definition check_manifest :: "string \<Rightarrow> rulebook_manifest \<Rightarrow> string \<Rightarrow> string \<Rightarrow> string \<Rightarrow> rulebook_error option" where
  "check_manifest fingerprint m environment contract_set engine_version = first_raise
     [raise_if (rm_package_fingerprint m \<noteq> fingerprint) (RulebookError FINGERPRINT_DRIFT ''package manifest''),
      raise_if (rm_minimum_engine_version m \<noteq> engine_version) (mismatch ''engine version''),
      raise_if (contract_set \<notin> set (rm_contract_locks m)) (mismatch ''contract set''),
      raise_if (rm_environment m \<noteq> environment) (RulebookError ENVIRONMENT_MISUSE []),
      (if rm_jurisdiction m = ''ZZZ''
       then raise_if (environment \<noteq> ''LOCAL_SYNTHETIC'' \<or> rm_material_family m \<noteq> ''TEST_LEGAL_MATERIAL'')
         (RulebookError ENVIRONMENT_MISUSE ''reserved package'')
       else raise_if (environment = ''LOCAL_SYNTHETIC'') (RulebookError ENVIRONMENT_MISUSE ''real jurisdiction''))]"

definition check_scope_readiness :: "rulebook_manifest \<Rightarrow> rule_scope list \<Rightarrow> rulebook_error option" where
  "check_scope_readiness m scopes = first_raise
     [raise_if (set (dict_of (rm_scope_readiness m)) \<noteq> set (dict_of (map (\<lambda>scope. (rs_scope_id scope, rs_readiness scope)) scopes)))
        (mismatch ''scope readiness''),
      raise_if (list_ex (\<lambda>scope. rs_readiness scope \<noteq> NOT_READY_SCOPE) scopes \<and> starts_with (rm_legal_desk_owner m) ''UNASSIGNED_'')
        (mismatch ''legal desk owner'')]"

definition check_proofs :: "rule_scope list \<Rightarrow> string list \<Rightarrow> string list \<Rightarrow> string list \<Rightarrow> rulebook_error option" where
  "check_proofs scopes fixtures evaluations attestations = first_raise
     [raise_if (list_ex (\<lambda>scope. rs_readiness scope \<noteq> NOT_READY_SCOPE) scopes \<and> (fixtures = [] \<or> evaluations = []))
        (mismatch ''proof inventory''),
      raise_if (list_ex (\<lambda>scope. rs_readiness scope \<notin> {NOT_READY_SCOPE, DECISION_READY}) scopes \<and> attestations = [])
        (mismatch ''attestation inventory'')]"

text \<open>The directory named \<^verbatim>\<open>root\<close> is \<^const>\<open>None\<close> where there is none.\<close>

definition load_rulebook_package ::
    "platform \<Rightarrow> encoder \<Rightarrow> time_reader \<Rightarrow> string \<Rightarrow> tree option \<Rightarrow> string \<Rightarrow> string \<Rightarrow> string \<Rightarrow> string
       \<Rightarrow> rulebook_error + loaded_rulebook" where
  "load_rulebook_package P E clock root folder environment contract_set now engine_version =
     (case folder of
        None \<Rightarrow> Inl (RulebookError INVENTORY_MISMATCH root)
      | Some t \<Rightarrow>
          and_then (read_package_json t [''package.json'']) (\<lambda>d.
          and_then (parse_manifest d) (\<lambda>m.
          and_then (manifest_fingerprint P E d) (\<lambda>fingerprint.
          guarded [check_manifest fingerprint m environment contract_set engine_version, validate_inventory P t m]
          (and_then (parse_sources P t m) (\<lambda>sources.
          and_then (parse_scopes t sources) (\<lambda>(scopes, families).
          guarded [check_scope_readiness m scopes, validate_blockers t m scopes families]
          (and_then (parse_rules t scopes) (\<lambda>rules.
          and_then (parse_profiles clock t environment now) (\<lambda>profiles.
          and_then (fixtures_and_evaluations t) (\<lambda>(fixtures, evaluations).
          and_then (collect (parse_attestation t) (json_children [''attestations''] t)) (\<lambda>attestations.
          construct [check_proofs scopes fixtures evaluations attestations]
            \<lparr>lr_manifest = m, lr_sources = sources, lr_scopes = scopes, lr_scope_families = families, lr_rules = rules,
             lr_semantic_profiles = profiles, lr_fixture_ids = fixtures, lr_evaluation_ids = evaluations,
             lr_attestation_ids = attestations\<rparr>))))))))))))"

end
