(* ===== verification/RulebookProperties.thy ===== *)
theory RulebookProperties
  imports RulebookPackage RuleEngineProperties VaultVersions
begin

text \<open>
  What loading a rulebook package guarantees: the loaded package is closed and consistent, its
  manifest pins every file of the directory, and it can be activated and executed.
\<close>

section \<open>Parts\<close>

lemma collect_all: "collect f xs = Inr ys \<Longrightarrow> (\<And>x y. f x = Inr y \<Longrightarrow> Q y) \<Longrightarrow> list_all Q ys"
  by (auto simp: list_all_iff dest: collect_member)

lemma loader_strings_Inr: "loader_strings v label = Inr xs \<Longrightarrow> distinct xs"
  by (auto simp: loader_strings_def)

lemma parse_sources_Inr:
  "parse_sources P t m = Inr sources \<Longrightarrow> sources \<noteq> [] \<and> distinct (map sd_source_id sources)"
  by (auto simp: parse_sources_def guarded_Inr Let_def split: option.splits)

definition scope_closed :: "string list \<Rightarrow> rule_scope \<Rightarrow> bool" where
  "scope_closed source_ids s \<longleftrightarrow> rs_ownership_keys s \<noteq> [] \<and> rs_required_source_ids s \<noteq> []
     \<and> set (rs_required_source_ids s) \<subseteq> set source_ids \<and> (rs_readiness s = NOT_READY_SCOPE \<longleftrightarrow> rs_blocker_codes s \<noteq> [])"

lemma parse_scope_Inr:
  assumes "parse_scope source_ids owned v = Inr s"
  shows "scope_closed source_ids s \<and> distinct (rs_ownership_keys s) \<and> set owned \<inter> set (rs_ownership_keys s) = {}"
  using assms by (auto simp: parse_scope_def guarded_Inr scope_closed_def texts_field_def dest: loader_strings_Inr)

lemma parse_scope_list_Inr:
  "parse_scope_list source_ids owned vs = Inr scopes \<Longrightarrow>
     list_all (scope_closed source_ids) scopes \<and> distinct (concat (map rs_ownership_keys scopes))
     \<and> set owned \<inter> set (concat (map rs_ownership_keys scopes)) = {}"
proof (induction vs arbitrary: owned scopes)
  case (Cons v vs)
  then obtain s rest where s: "parse_scope source_ids owned v = Inr s"
      "parse_scope_list source_ids (owned @ rs_ownership_keys s) vs = Inr rest" "scopes = s # rest" by auto
  from Cons.IH [OF s(2)] parse_scope_Inr [OF s(1)] show ?case by (auto simp: s(3))
qed simp

lemma parse_families_Inr:
  "parse_scope_families v source_ids = Inr families \<Longrightarrow>
     list_all (\<lambda>f. set (sf_required_source_ids f) \<subseteq> set source_ids \<and> sf_blocker_codes f \<noteq> []) families
     \<and> distinct (map sf_family_id families) \<and> distinct (map sf_ownership_key_pattern families)"
proof (cases "v = None \<or> v = Some JNull")
  case False
  assume parsed: "parse_scope_families v source_ids = Inr families"
  have family: "set (sf_required_source_ids f) \<subseteq> set source_ids \<and> sf_blocker_codes f \<noteq> []"
    if "parse_scope_family source_ids j = Inr f" for j f
    using that by (auto simp: parse_scope_family_def guarded_Inr)
  from parsed False obtain items where "collect (parse_scope_family source_ids) items = Inr families"
      "distinct (map sf_family_id families)" "distinct (map sf_ownership_key_pattern families)"
    by (auto simp: parse_scope_families_def)
  then show ?thesis using family by (auto simp: list_all_iff dest: collect_member)
qed (auto simp: parse_scope_families_def)

lemma parse_scopes_Inr:
  assumes "parse_scopes t sources = Inr (scopes, families)"
  shows "list_all (scope_closed (map sd_source_id sources)) scopes \<and> distinct (concat (map rs_ownership_keys scopes))
    \<and> distinct (map rs_scope_id scopes)
    \<and> list_all (\<lambda>f. set (sf_required_source_ids f) \<subseteq> set (map sd_source_id sources) \<and> sf_blocker_codes f \<noteq> []) families"
  using assms by (auto simp: parse_scopes_def guarded_Inr Let_def dest!: parse_scope_list_Inr parse_families_Inr simp del: set_map)

definition rule_closed :: "string list \<Rightarrow> rule_definition \<Rightarrow> bool" where
  "rule_closed scope_ids r \<longleftrightarrow> rd_scope_id r \<in> set scope_ids
     \<and> list_all (\<lambda>p. pd_operator p = FACT_EQUALS \<longrightarrow> pd_value p \<noteq> None) (rd_predicates r)"

lemma parse_rule_Inr: "parse_rule scope_ids v = Inr r \<Longrightarrow> rule_closed scope_ids r"
proof -
  assume "parse_rule scope_ids v = Inr r"
  then obtain items where "collect parse_predicate items = Inr (rd_predicates r)" "rd_scope_id r \<in> set scope_ids"
    by (auto simp: parse_rule_def guarded_Inr)
  moreover have "pd_operator p = FACT_EQUALS \<longrightarrow> pd_value p \<noteq> None" if "parse_predicate j = Inr p" for j p
    using that by (auto simp: parse_predicate_def guarded_Inr)
  ultimately show ?thesis by (auto simp: rule_closed_def list_all_iff dest: collect_member)
qed

lemma parse_rules_Inr:
  "parse_rules t scopes = Inr rules \<Longrightarrow> list_all (rule_closed (map rs_scope_id scopes)) rules \<and> distinct (map rd_rule_id rules)
     \<and> (rules = [] \<longrightarrow> list_all (\<lambda>s. rs_readiness s = NOT_READY_SCOPE) scopes)"
  by (auto simp: parse_rules_def guarded_Inr list_all_iff list_ex_iff elim: collect_all [OF _ parse_rule_Inr, unfolded list_all_iff, rule_format] simp del: set_map)

definition profile_admitted :: "time_reader \<Rightarrow> string \<Rightarrow> string \<Rightarrow> semantic_profile \<Rightarrow> bool" where
  "profile_admitted clock environment now f \<longleftrightarrow> environment \<in> set (se_allowed_environments f) \<and> \<not> se_stateful_features f
     \<and> map_of generative_task_values (se_task f) \<noteq> None \<and> \<not> is_floating (se_model_id f)
     \<and> (case (clock (se_expires_at f), clock now) of (Aware (Some expiry), Aware (Some instant)) \<Rightarrow> instant < expiry | _ \<Rightarrow> False)"

lemma loader_timestamp_Inr: "loader_timestamp clock s = Inr i \<longleftrightarrow> clock s = Aware (Some i)"
  by (auto simp: loader_timestamp_def split: time_reading.splits option.splits)

lemma parse_profile_Inr: "parse_profile clock environment now v = Inr f \<Longrightarrow> profile_admitted clock environment now f"
  by (auto simp: parse_profile_def guarded_Inr profile_admitted_def loader_timestamp_Inr not_le)

lemma parse_profiles_Inr:
  "parse_profiles clock t environment now = Inr profiles \<Longrightarrow>
     list_all (profile_admitted clock environment now) profiles \<and> distinct (map se_profile_id profiles) \<and> distinct (map se_task profiles)"
  by (auto simp: parse_profiles_def guarded_Inr elim: collect_all [OF _ parse_profile_Inr])

section \<open>Closed packages\<close>

definition package_closed :: "loaded_rulebook \<Rightarrow> bool" where
  "package_closed p \<longleftrightarrow>
     lr_sources p \<noteq> [] \<and> distinct (map sd_source_id (lr_sources p))
     \<and> list_all (scope_closed (map sd_source_id (lr_sources p))) (lr_scopes p)
     \<and> distinct (map rs_scope_id (lr_scopes p)) \<and> distinct (concat (map rs_ownership_keys (lr_scopes p)))
     \<and> set (dict_of (rm_scope_readiness (lr_manifest p))) = set (map (\<lambda>s. (rs_scope_id s, rs_readiness s)) (lr_scopes p))
     \<and> list_all (rule_closed (map rs_scope_id (lr_scopes p))) (lr_rules p) \<and> distinct (map rd_rule_id (lr_rules p))
     \<and> distinct (map se_profile_id (lr_semantic_profiles p)) \<and> distinct (map se_task (lr_semantic_profiles p))
     \<and> set (lr_fixture_ids p) \<inter> set (lr_evaluation_ids p) = {}
     \<and> set (rm_unresolved_policy_codes (lr_manifest p)) \<subseteq> set (referenced_blockers (lr_scopes p) (lr_scope_families p))
     \<and> (\<forall>s \<in> set (lr_scopes p). rs_readiness s \<noteq> NOT_READY_SCOPE \<longrightarrow>
          lr_rules p \<noteq> [] \<and> lr_fixture_ids p \<noteq> [] \<and> lr_evaluation_ids p \<noteq> []
          \<and> \<not> starts_with (rm_legal_desk_owner (lr_manifest p)) ''UNASSIGNED_''
          \<and> (rs_readiness s \<noteq> DECISION_READY \<longrightarrow> lr_attestation_ids p \<noteq> []))"

text \<open>What each step of \<^verbatim>\<open>load_rulebook_package\<close> gave.\<close>

lemma load_Inr:
  assumes "load_rulebook_package P E clock root folder environment contract_set now version = Inr p"
  shows "\<exists>t d fingerprint. folder = Some t \<and> read_package_json t [''package.json''] = Inr d
    \<and> parse_manifest d = Inr (lr_manifest p) \<and> manifest_fingerprint P E d = Inr fingerprint
    \<and> check_manifest fingerprint (lr_manifest p) environment contract_set version = None
    \<and> validate_inventory P t (lr_manifest p) = None
    \<and> parse_sources P t (lr_manifest p) = Inr (lr_sources p)
    \<and> parse_scopes t (lr_sources p) = Inr (lr_scopes p, lr_scope_families p)
    \<and> check_scope_readiness (lr_manifest p) (lr_scopes p) = None
    \<and> validate_blockers t (lr_manifest p) (lr_scopes p) (lr_scope_families p) = None
    \<and> parse_rules t (lr_scopes p) = Inr (lr_rules p)
    \<and> parse_profiles clock t environment now = Inr (lr_semantic_profiles p)
    \<and> fixtures_and_evaluations t = Inr (lr_fixture_ids p, lr_evaluation_ids p)
    \<and> collect (parse_attestation t) (json_children [''attestations''] t) = Inr (lr_attestation_ids p)
    \<and> check_proofs (lr_scopes p) (lr_fixture_ids p) (lr_evaluation_ids p) (lr_attestation_ids p) = None"
  using assms by (auto simp: load_rulebook_package_def guarded_Inr split: option.splits)

lemma loaded_closed:
  assumes "load_rulebook_package P E clock root folder environment contract_set now version = Inr p"
  shows "package_closed p \<and> rm_environment (lr_manifest p) = environment \<and> contract_set \<in> set (rm_contract_locks (lr_manifest p))
    \<and> (rm_jurisdiction (lr_manifest p) = ''ZZZ'' \<longleftrightarrow> environment = ''LOCAL_SYNTHETIC'')
    \<and> list_all (profile_admitted clock environment now) (lr_semantic_profiles p)"
proof -
  obtain t fingerprint where parts:
      "check_manifest fingerprint (lr_manifest p) environment contract_set version = None"
      "parse_sources P t (lr_manifest p) = Inr (lr_sources p)"
      "parse_scopes t (lr_sources p) = Inr (lr_scopes p, lr_scope_families p)"
      "check_scope_readiness (lr_manifest p) (lr_scopes p) = None"
      "validate_blockers t (lr_manifest p) (lr_scopes p) (lr_scope_families p) = None"
      "parse_rules t (lr_scopes p) = Inr (lr_rules p)"
      "parse_profiles clock t environment now = Inr (lr_semantic_profiles p)"
      "fixtures_and_evaluations t = Inr (lr_fixture_ids p, lr_evaluation_ids p)"
      "check_proofs (lr_scopes p) (lr_fixture_ids p) (lr_evaluation_ids p) (lr_attestation_ids p) = None"
    using load_Inr [OF assms] by blast
  note scopes = parse_scopes_Inr [OF parts(3)] and rules = parse_rules_Inr [OF parts(6)]
  have "distinct (map fst (map (\<lambda>s. (rs_scope_id s, rs_readiness s)) (lr_scopes p)))"
    using scopes by (simp add: comp_def)
  then have readiness: "set (dict_of (rm_scope_readiness (lr_manifest p))) = set (map (\<lambda>s. (rs_scope_id s, rs_readiness s)) (lr_scopes p))"
    using parts(4) by (simp add: check_scope_readiness_def dict_of_distinct del: set_map)
  have leak: "set (lr_fixture_ids p) \<inter> set (lr_evaluation_ids p) = {}"
    using parts(8) by (auto simp: fixtures_and_evaluations_def)
  have blockers: "set (rm_unresolved_policy_codes (lr_manifest p)) \<subseteq> set (referenced_blockers (lr_scopes p) (lr_scope_families p))"
    using parts(5) by (auto simp: validate_blockers_def)
  have ready: "lr_rules p \<noteq> [] \<and> lr_fixture_ids p \<noteq> [] \<and> lr_evaluation_ids p \<noteq> []
      \<and> \<not> starts_with (rm_legal_desk_owner (lr_manifest p)) ''UNASSIGNED_'' \<and> (rs_readiness s \<noteq> DECISION_READY \<longrightarrow> lr_attestation_ids p \<noteq> [])"
    if "s \<in> set (lr_scopes p)" "rs_readiness s \<noteq> NOT_READY_SCOPE" for s
    using that parts(4,9) rules by (auto simp: check_scope_readiness_def check_proofs_def list_all_iff list_ex_iff)
  have "package_closed p"
    unfolding package_closed_def
    using parse_sources_Inr [OF parts(2)] scopes rules parse_profiles_Inr [OF parts(7)] readiness leak blockers ready by blast
  moreover have "rm_environment (lr_manifest p) = environment \<and> contract_set \<in> set (rm_contract_locks (lr_manifest p))
      \<and> (rm_jurisdiction (lr_manifest p) = ''ZZZ'' \<longleftrightarrow> environment = ''LOCAL_SYNTHETIC'')"
    using parts(1) by (auto simp: check_manifest_def split: if_splits)
  ultimately show ?thesis using parse_profiles_Inr [OF parts(7)] by blast
qed

text \<open>
  C21: a package that loads is closed. Its sources, scopes, rules and profiles have distinct identities; every
  scope rests on listed sources, owns keys no other scope owns, and is blocked exactly when it is not ready; the
  manifest declares the readiness of exactly these scopes; every rule is of a listed scope; no fixture is
  an evaluation; a scope that is ready has rules, fixtures and evaluations, and one beyond the decision an attestation
  too. And every semantic profile may run in the environment, has no state and is not expired.
\<close>

theorem loaded_package_is_closed:
  assumes "load_rulebook_package P E clock root folder environment contract_set now version = Inr p"
  shows "package_closed p \<and> rm_environment (lr_manifest p) = environment \<and> contract_set \<in> set (rm_contract_locks (lr_manifest p))
    \<and> (rm_jurisdiction (lr_manifest p) = ''ZZZ'' \<longleftrightarrow> environment = ''LOCAL_SYNTHETIC'')
    \<and> list_all (profile_admitted clock environment now) (lr_semantic_profiles p)"
  using assms by (rule loaded_closed)

section \<open>The manifest pins the directory\<close>

text \<open>A directory as a file system has it: one node per path, and names that are single path segments.\<close>

definition file_name :: "string \<Rightarrow> bool" where
  "file_name s \<longleftrightarrow> s \<noteq> [] \<and> s \<noteq> ''.'' \<and> s \<noteq> ''..'' \<and> CHR ''/'' \<notin> set s"

definition directory_ok :: "tree \<Rightarrow> bool" where
  "directory_ok t \<longleftrightarrow> distinct (map fst t) \<and> list_all (\<lambda>(p, n). p \<noteq> [] \<and> list_all file_name p) t"

lemma split_on_join:
  "p \<noteq> [] \<Longrightarrow> list_all (\<lambda>s. CHR ''/'' \<notin> set s) p \<Longrightarrow> split_on (CHR ''/'') (join ''/'' p) = p"
proof (induction "''/''" p rule: join.induct)
  case (3 x y xs)
  then show ?case by (simp add: split_on_append split_on_plain)
qed (simp_all add: split_on_plain)

lemma posix_parts_join: "p \<noteq> [] \<Longrightarrow> list_all file_name p \<Longrightarrow> posix_parts (join ''/'' p) = p"
proof -
  assume p: "p \<noteq> []" "list_all file_name p"
  then have "split_on (CHR ''/'') (join ''/'' p) = p"
    by (intro split_on_join) (auto simp: list_all_iff file_name_def)
  then show ?thesis using p(2) by (auto simp: posix_parts_def list_all_iff file_name_def intro!: filter_True)
qed

lemma node_in: "node_at t p = Some n \<Longrightarrow> p \<noteq> [] \<Longrightarrow> (p, n) \<in> set t"
  by (auto simp: node_at_def dest: map_of_SomeD)

lemma in_node: "directory_ok t \<Longrightarrow> (p, n) \<in> set t \<Longrightarrow> p \<noteq> [] \<and> node_at t p = Some n \<and> list_all file_name p"
  by (auto simp: directory_ok_def node_at_def list_all_iff)

lemma package_files_Inr:
  "package_files t = Inr actual \<Longrightarrow> p \<noteq> [] \<Longrightarrow> document (node_at t p) = Some raw \<Longrightarrow> join ''/'' p \<in> set actual"
proof -
  assume files: "package_files t = Inr actual" and p: "p \<noteq> []" "document (node_at t p) = Some raw"
  then obtain n where "(p, n) \<in> set t" "document (Some n) = Some raw"
    by (cases "node_at t p") (auto dest: node_in)
  with files show ?thesis
    by (auto simp: package_files_def image_iff split: option.splits) blast
qed

lemma inventory_pins:
  assumes "validate_inventory P t m = None" and "directory_ok t" and "document (node_at t p) = Some raw" and "p \<noteq> []" and "p \<noteq> [''package.json'']"
  shows "\<exists>f \<in> set (rm_files m). posix_parts (pf_path f) = p \<and> pf_fingerprint f = sha256_fingerprint P raw"
proof -
  obtain actual where actual: "package_files t = Inr actual" "filter (\<lambda>path. path \<noteq> ''package.json'') actual = map pf_path (rm_files m)"
      "\<forall>f \<in> set (rm_files m). check_file P t f = None"
    using assms(1) by (auto simp: validate_inventory_def Let_def first_raise_None_iff)
  have names: "list_all file_name p"
    using assms(2,3,4) by (cases "node_at t p") (auto dest: node_in in_node)
  have parts: "posix_parts (join ''/'' p) = p" using assms(4) names by (rule posix_parts_join)
  have "posix_parts ''package.json'' = [''package.json'']" by (simp add: posix_parts_def)
  then have "join ''/'' p \<noteq> ''package.json''" using assms(5) parts by metis
  then have "join ''/'' p \<in> set (map pf_path (rm_files m))"
    using package_files_Inr [OF actual(1) assms(4,3)] unfolding actual(2) [symmetric] by simp
  then obtain f where f: "f \<in> set (rm_files m)" "pf_path f = join ''/'' p" by auto
  with actual(3) have "check_file P t f = None" by blast
  with f(2) parts assms(3) show ?thesis by (intro bexI [OF _ f(1)]) (simp add: check_file_def)
qed

lemma inventory_reads:
  assumes "validate_inventory P t m = None" and "f \<in> set (rm_files m)"
  shows "\<exists>raw. document (node_at t (posix_parts (pf_path f))) = Some raw \<and> pf_fingerprint f = sha256_fingerprint P raw"
proof -
  have "check_file P t f = None"
    using assms by (auto simp: validate_inventory_def Let_def first_raise_None_iff)
  then show ?thesis by (auto simp: check_file_def split: option.splits)
qed

lemma same_documents:
  assumes "validate_inventory P t m = None" and "validate_inventory P t' m' = None" and "rm_files m' = rm_files m"
    and "directory_ok t" and "p \<noteq> [''package.json'']"
    and "\<And>raw raw'. document (node_at t p) = Some raw \<Longrightarrow> document (node_at t' p) = Some raw' \<Longrightarrow>
      sha256_hex P raw = sha256_hex P raw' \<Longrightarrow> raw = raw'"
    and "document (node_at t p) = Some raw"
  shows "document (node_at t' p) = Some raw"
proof -
  have "p \<noteq> []" using assms(7) by auto
  from inventory_pins [OF assms(1,4,7) this assms(5)] obtain f
    where f: "f \<in> set (rm_files m')" "posix_parts (pf_path f) = p" "pf_fingerprint f = sha256_fingerprint P raw"
    unfolding assms(3) by blast
  from inventory_reads [OF assms(2) f(1)] f(2,3) obtain raw'
    where "document (node_at t' p) = Some raw'" "sha256_hex P raw = sha256_hex P raw'"
    by (auto simp: sha256_fingerprint_def)
  with assms(6,7) show ?thesis by blast
qed

text \<open>Listings of documents are the same in directories with the same documents.\<close>

lemma present_node: "directory_ok t \<Longrightarrow> p \<in> fst ` set t \<longleftrightarrow> p \<noteq> [] \<and> node_at t p \<noteq> None"
  by (cases "node_at t p") (auto dest: in_node node_in intro: image_eqI [where x = "(p, _)"])

lemma json_children_set:
  "directory_ok t \<Longrightarrow> p \<in> set (json_children folder t) \<longleftrightarrow>
     p \<noteq> [] \<and> butlast p = folder \<and> ends_with (last p) ''.json'' \<and> node_at t p \<noteq> None"
  using present_node [of t p] by (auto simp: json_children_def)

lemma json_below_set:
  "directory_ok t \<Longrightarrow> p \<in> set (json_below folder t) \<longleftrightarrow>
     length folder < length p \<and> take (length folder) p = folder \<and> ends_with (last p) ''.json'' \<and> node_at t p \<noteq> None"
  using present_node [of t p] by (auto simp: json_below_def)

lemma listing_distinct:
  "directory_ok t \<Longrightarrow> distinct (json_children folder t) \<and> sorted (json_children folder t)
     \<and> distinct (json_below folder t) \<and> sorted (json_below folder t)"
  by (auto simp: json_children_def json_below_def directory_ok_def distinct_map intro: inj_on_subset)

lemma read_document: "read_package_json t p = Inr d \<Longrightarrow> document (node_at t p) \<noteq> None"
  by (auto simp: read_package_json_def split: option.splits)

lemma collect_same: "(\<And>x. x \<in> set xs \<Longrightarrow> f x = g x) \<Longrightarrow> collect f xs = collect g xs"
  by (induction xs) auto

lemma collected_documents:
  assumes "collect f ps = Inr xs" and "\<And>p x. f p = Inr x \<Longrightarrow> \<exists>d. read_package_json t p = Inr d"
  shows "\<forall>p \<in> set ps. document (node_at t p) \<noteq> None"
  using assms by (meson collect_total read_document)

text \<open>Two directories with the same documents, apart from the manifest.\<close>

definition same_files :: "tree \<Rightarrow> tree \<Rightarrow> bool" where
  "same_files t t' \<longleftrightarrow> (\<forall>p. p \<noteq> [''package.json''] \<longrightarrow> document (node_at t' p) = document (node_at t p))"

lemma same_files_read: "same_files t t' \<Longrightarrow> p \<noteq> [''package.json''] \<Longrightarrow> read_package_json t' p = read_package_json t p"
  by (simp add: read_package_json_def same_files_def)

lemma document_node: "document n \<noteq> None \<Longrightarrow> n \<noteq> None"
  by (cases n) simp_all

lemma same_listed:
  assumes "same_files t t'" and "\<And>p. p \<in> set xs \<longleftrightarrow> C p \<and> node_at t p \<noteq> None" and "\<And>p. p \<in> set ys \<longleftrightarrow> C p \<and> node_at t' p \<noteq> None"
    and "\<forall>p \<in> set xs. document (node_at t p) \<noteq> None" and "\<forall>p \<in> set ys. document (node_at t' p) \<noteq> None"
    and "\<And>p. C p \<Longrightarrow> p \<noteq> [''package.json'']" and "distinct xs" "sorted xs" "distinct ys" "sorted ys"
  shows "ys = xs"
proof -
  have same: "document (node_at t' p) = document (node_at t p)" if "C p" for p
    using assms(1) assms(6) [OF that] by (simp add: same_files_def)
  have "p \<in> set ys \<longleftrightarrow> p \<in> set xs" for p
  proof
    assume p: "p \<in> set ys"
    with assms(3,5) have "C p" "document (node_at t' p) \<noteq> None" by blast+
    with same have "node_at t p \<noteq> None" by (metis document_node)
    with \<open>C p\<close> assms(2) show "p \<in> set xs" by blast
  next
    assume p: "p \<in> set xs"
    with assms(2,4) have "C p" "document (node_at t p) \<noteq> None" by blast+
    with same have "node_at t' p \<noteq> None" by (metis document_node)
    with \<open>C p\<close> assms(3) show "p \<in> set ys" by blast
  qed
  then show ?thesis using assms(7-) by (intro sorted_distinct_set_unique) auto
qed

lemma same_listing:
  assumes "same_files t t'" and "directory_ok t" and "directory_ok t'"
    and "\<forall>p \<in> set (json_children [f] t). document (node_at t p) \<noteq> None"
    and "\<forall>p \<in> set (json_children [f] t'). document (node_at t' p) \<noteq> None"
  shows "json_children [f] t' = json_children [f] t"
  by (rule same_listed [OF assms(1) json_children_set [OF assms(2), unfolded conj_assoc [symmetric]]
        json_children_set [OF assms(3), unfolded conj_assoc [symmetric]] assms(4,5)])
    (use listing_distinct [OF assms(2)] listing_distinct [OF assms(3)] in auto)

lemma same_listing_below:
  assumes "same_files t t'" and "directory_ok t" and "directory_ok t'"
    and "\<forall>p \<in> set (json_below [f] t). document (node_at t p) \<noteq> None"
    and "\<forall>p \<in> set (json_below [f] t'). document (node_at t' p) \<noteq> None"
  shows "json_below [f] t' = json_below [f] t"
  by (rule same_listed [OF assms(1) json_below_set [OF assms(2), unfolded conj_assoc [symmetric]]
        json_below_set [OF assms(3), unfolded conj_assoc [symmetric]] assms(4,5)])
    (use listing_distinct [OF assms(2)] listing_distinct [OF assms(3)] in auto)

lemma listed_not_manifest:
  "directory_ok t \<Longrightarrow> p \<in> set (json_children [f] t) \<union> set (json_below [f] t) \<Longrightarrow> p \<noteq> [''package.json'']"
  by (auto simp: json_children_set json_below_set)

lemma fixture_reads: "parse_fixture t p = Inr x \<Longrightarrow> \<exists>d. read_package_json t p = Inr d"
  by (auto simp: parse_fixture_def)

lemma evaluation_reads: "parse_evaluation t p = Inr x \<Longrightarrow> \<exists>d. read_package_json t p = Inr d"
  by (auto simp: parse_evaluation_def)

lemma attestation_reads: "parse_attestation t p = Inr x \<Longrightarrow> \<exists>d. read_package_json t p = Inr d"
  by (auto simp: parse_attestation_def)

lemma same_fixtures:
  assumes "same_files t t'" and "directory_ok t" and "directory_ok t'"
    and "fixtures_and_evaluations t = Inr x" and "fixtures_and_evaluations t' = Inr x'"
  shows "x' = x"
proof -
  obtain fs es where f: "collect (parse_fixture t) (json_below [''fixtures''] t) = Inr fs"
      "collect (parse_evaluation t) (json_children [''evaluations''] t) = Inr es" "x = (map fst fs, map fst es)"
    using assms(4) by (auto simp: fixtures_and_evaluations_def)
  obtain fs' es' where f': "collect (parse_fixture t') (json_below [''fixtures''] t') = Inr fs'"
      "collect (parse_evaluation t') (json_children [''evaluations''] t') = Inr es'" "x' = (map fst fs', map fst es')"
    using assms(5) by (auto simp: fixtures_and_evaluations_def)
  have below: "json_below [''fixtures''] t' = json_below [''fixtures''] t"
    by (rule same_listing_below [OF assms(1-3) collected_documents [OF f(1) fixture_reads] collected_documents [OF f'(1) fixture_reads]])
  have children: "json_children [''evaluations''] t' = json_children [''evaluations''] t"
    by (rule same_listing [OF assms(1-3) collected_documents [OF f(2) evaluation_reads] collected_documents [OF f'(2) evaluation_reads]])
  have read: "read_package_json t' p = read_package_json t p"
    if "p \<in> set (json_below [''fixtures''] t) \<union> set (json_children [''evaluations''] t)" for p
    using that listed_not_manifest [OF assms(2)] by (intro same_files_read [OF assms(1)]) blast
  have "collect (parse_fixture t') (json_below [''fixtures''] t) = collect (parse_fixture t) (json_below [''fixtures''] t)"
    by (rule collect_same) (simp add: parse_fixture_def read)
  moreover have "collect (parse_evaluation t') (json_children [''evaluations''] t) = collect (parse_evaluation t) (json_children [''evaluations''] t)"
    by (rule collect_same) (simp add: parse_evaluation_def read)
  ultimately have "fs' = fs" "es' = es" using f(1,2) f'(1,2) unfolding below children by simp_all
  with f(3) f'(3) show ?thesis by simp
qed

lemma same_attestations:
  assumes "same_files t t'" and "directory_ok t" and "directory_ok t'"
    and "collect (parse_attestation t) (json_children [''attestations''] t) = Inr xs"
    and "collect (parse_attestation t') (json_children [''attestations''] t') = Inr xs'"
  shows "xs' = xs"
proof -
  have children: "json_children [''attestations''] t' = json_children [''attestations''] t"
    by (rule same_listing [OF assms(1-3) collected_documents [OF assms(4) attestation_reads] collected_documents [OF assms(5) attestation_reads]])
  have "read_package_json t' p = read_package_json t p" if "p \<in> set (json_children [''attestations''] t)" for p
    using that listed_not_manifest [OF assms(2)] by (intro same_files_read [OF assms(1)]) blast
  then have "collect (parse_attestation t') (json_children [''attestations''] t) = collect (parse_attestation t) (json_children [''attestations''] t)"
    by (intro collect_same) (simp add: parse_attestation_def)
  then show ?thesis using assms(4,5) unfolding children by simp
qed

text \<open>
  C20: the manifest determines the package. If two directories load, in the same environment and at the same time, with the same
  manifest, and no two files at one path have one digest without being equal, then they hold the
  same documents, byte for byte, apart from the text of the manifest itself, and the loaded packages are equal. So a
  file that is changed, added or removed after the manifest was written makes the load fail.
\<close>

theorem manifest_determines_package:
  assumes "load_rulebook_package P E clock root (Some t) environment contract_set now version = Inr p"
    and "load_rulebook_package P E clock root' (Some t') environment contract_set now version = Inr p'"
    and "lr_manifest p' = lr_manifest p" and "directory_ok t" and "directory_ok t'"
    and "\<And>q raw raw'. document (node_at t q) = Some raw \<Longrightarrow> document (node_at t' q) = Some raw' \<Longrightarrow>
      sha256_hex P raw = sha256_hex P raw' \<Longrightarrow> raw = raw'"
  shows "p' = p \<and> (\<forall>q. q \<noteq> [''package.json''] \<longrightarrow> document (node_at t' q) = document (node_at t q))"
proof -
  have parts: "validate_inventory P t (lr_manifest p) = None" "parse_sources P t (lr_manifest p) = Inr (lr_sources p)"
      "parse_scopes t (lr_sources p) = Inr (lr_scopes p, lr_scope_families p)" "parse_rules t (lr_scopes p) = Inr (lr_rules p)"
      "parse_profiles clock t environment now = Inr (lr_semantic_profiles p)"
      "fixtures_and_evaluations t = Inr (lr_fixture_ids p, lr_evaluation_ids p)"
      "collect (parse_attestation t) (json_children [''attestations''] t) = Inr (lr_attestation_ids p)"
    using load_Inr [OF assms(1)] by blast+
  have parts': "validate_inventory P t' (lr_manifest p) = None" "parse_sources P t' (lr_manifest p) = Inr (lr_sources p')"
      "parse_scopes t' (lr_sources p') = Inr (lr_scopes p', lr_scope_families p')" "parse_rules t' (lr_scopes p') = Inr (lr_rules p')"
      "parse_profiles clock t' environment now = Inr (lr_semantic_profiles p')"
      "fixtures_and_evaluations t' = Inr (lr_fixture_ids p', lr_evaluation_ids p')"
      "collect (parse_attestation t') (json_children [''attestations''] t') = Inr (lr_attestation_ids p')"
    using load_Inr [OF assms(2)] unfolding assms(3) by blast+
  have "document (node_at t' q) = document (node_at t q)" if "q \<noteq> [''package.json'']" for q
  proof (cases "document (node_at t q)")
    case None
    show ?thesis
    proof (cases "document (node_at t' q)")
      case (Some raw)
      have apart: "raw = raw'" if "document (node_at t' q) = Some raw" "document (node_at t q) = Some raw'"
          "sha256_hex P raw = sha256_hex P raw'" for raw raw'
        by (rule assms(6) [OF that(2,1) that(3) [symmetric], symmetric])
      have "document (node_at t q) = Some raw"
        by (rule same_documents [OF parts'(1) parts(1) refl assms(5) that apart Some])
      with Some show ?thesis by (simp only:)
    qed (simp add: None)
  next
    case (Some raw)
    have "document (node_at t' q) = Some raw"
      by (rule same_documents [OF parts(1) parts'(1) refl assms(4) that assms(6) Some])
    with Some show ?thesis by (simp only:)
  qed
  then have same: "same_files t t'" by (simp add: same_files_def)
  note read = same_files_read [OF same]
  have "document (node_at t' [''sources'', ''source-universe.json'']) = document (node_at t [''sources'', ''source-universe.json''])"
    using same by (simp add: same_files_def)
  then have "parse_sources P t' m = parse_sources P t m" for m
    unfolding parse_sources_def Let_def using read [of "[''sources'', ''source-universe.json'']"] by (simp split: option.split)
  with parts(2) parts'(2) have sources: "lr_sources p' = lr_sources p" by simp
  have "parse_scopes t' = parse_scopes t" "parse_rules t' = parse_rules t" "parse_profiles clock t' = parse_profiles clock t"
    by (intro ext; simp add: parse_scopes_def parse_rules_def parse_profiles_def read)+
  with parts(3-5) parts'(3-5) sources
  have "lr_scopes p' = lr_scopes p" "lr_scope_families p' = lr_scope_families p" "lr_rules p' = lr_rules p"
      "lr_semantic_profiles p' = lr_semantic_profiles p" by simp_all
  moreover note sources
  moreover have "lr_fixture_ids p' = lr_fixture_ids p" "lr_evaluation_ids p' = lr_evaluation_ids p"
    using same_fixtures [OF same assms(4,5) parts(6) parts'(6)] by simp_all
  moreover have "lr_attestation_ids p' = lr_attestation_ids p"
    by (rule same_attestations [OF same assms(4,5) parts(7) parts'(7)])
  ultimately have "p' = p" using assms(3) by (cases p; cases p') simp
  with same show ?thesis by (simp add: same_files_def)
qed

section \<open>From a directory to a result\<close>

definition exact_activation :: "loaded_rulebook \<Rightarrow> string \<Rightarrow> string \<Rightarrow> string \<Rightarrow> string \<Rightarrow> string list \<Rightarrow> string \<Rightarrow> activation_record" where
  "exact_activation p i suite build contract_set scope_ids at = \<lparr>ar_activation_id = i,
     ar_package_id = rm_package_id (lr_manifest p), ar_package_fingerprint = rm_package_fingerprint (lr_manifest p),
     ar_engine_build = build, ar_contract_set_fingerprint = contract_set, ar_deterministic_suite_fingerprint = suite,
     ar_semantic_profile_ids = map se_profile_id (lr_semantic_profiles p), ar_owner_attestation_id = hd (lr_attestation_ids p),
     ar_allowed_scope_ids = scope_ids, ar_environment = rm_environment (lr_manifest p), ar_activated_at = at\<rparr>"

lemma scope_named_distinct:
  "distinct (map rs_scope_id (lr_scopes p)) \<Longrightarrow> s \<in> set (lr_scopes p) \<Longrightarrow> scope_named p (rs_scope_id s) = Some s"
proof -
  assume distinct: "distinct (map rs_scope_id (lr_scopes p))" and s: "s \<in> set (lr_scopes p)"
  let ?d = "map (\<lambda>s. (rs_scope_id s, s)) (lr_scopes p)"
  have "distinct (map fst ?d)" using distinct by (simp add: comp_def)
  moreover from this s have "map_of ?d (rs_scope_id s) = Some s" by (intro map_of_is_SomeI) auto
  ultimately show ?thesis by (simp add: scope_named_def dict_of_distinct)
qed

text \<open>
  a package that loads can be put to work. With an activation that repeats its identities and names its first
  attestation, for attested scopes of it, a lifecycle with no version for its key accepts it, and then every
  well-formed subject of such a scope gets a result of this package.
\<close>

theorem loaded_package_executes:
  assumes "load_rulebook_package P E clock root folder environment contract_set now version = Inr p"
    and "scopes \<noteq> []" and "set scopes \<subseteq> set (lr_scopes p)" and "\<forall>s \<in> set scopes. rs_readiness s = ATTESTED_INACTIVE"
    and "map_of (rl_active L) (desk_key (lr_manifest p)) = None"
  shows "\<exists>L'. activate_rulebook p (exact_activation p i suite build contract_set (map rs_scope_id scopes) at) contract_set build L
      = (Inr (p, exact_activation p i suite build contract_set (map rs_scope_id scopes) at), L')
    \<and> (\<forall>subject. subject_ready subject \<and> ps_scope_id subject \<in> set (map rs_scope_id scopes) \<longrightarrow>
        (\<exists>r. execute_rules P L' p subject = Inr r \<and> rx_package_fingerprint r = rm_package_fingerprint (lr_manifest p)
           \<and> rx_subject_id r = ps_subject_id subject))"
proof -
  let ?a = "exact_activation p i suite build contract_set (map rs_scope_id scopes) at"
  have closed: "package_closed p" using loaded_closed [OF assms(1)] by blast
  have "scope_named p (rs_scope_id s) = Some s" if "s \<in> set scopes" for s
    using scope_named_distinct [of p s] that assms(3) closed by (auto simp: package_closed_def)
  then have scopes: "\<forall>s \<in> set scopes. map_option rs_readiness (scope_named p (rs_scope_id s)) = Some ATTESTED_INACTIVE"
    using assms(4) by simp
  have "lr_attestation_ids p \<noteq> []"
    using closed assms(2-4) by (cases scopes) (auto simp: package_closed_def)
  then have "check_activation p ?a contract_set build = None"
    using scopes assms(2,3) by (auto simp: check_activation_def Let_def exact_activation_def first_raise_None_iff)
  then obtain L' where active: "activate_rulebook p ?a contract_set build L = (Inr (p, ?a), L')"
      "\<And>x. map_of (rl_state L') (rm_package_fingerprint (lr_manifest p), x)
        = (if x \<in> set (map rs_scope_id scopes) then Some READY_ACTIVE else map_of (rl_state L) (rm_package_fingerprint (lr_manifest p), x))"
    using assms(5) by (simp add: activate_rulebook_def scope_states) (simp add: exact_activation_def)
  have "\<exists>r. execute_rules P L' p subject = Inr r \<and> rx_package_fingerprint r = rm_package_fingerprint (lr_manifest p)
      \<and> rx_subject_id r = ps_subject_id subject"
    if "subject_ready subject" "ps_scope_id subject \<in> set (map rs_scope_id scopes)" for subject
    using that by (simp add: engine_executes active(2) blocked_result_def decided_result_def Let_def split: list.splits)
  with active(1) show ?thesis by blast
qed

end
