(* ===== verification/JsonSize.thy ===== *)
theory JsonSize
  imports StrictJsonProperties
begin

text \<open>
  How long the text of a JSON value is at most, for the examples: a document of bounded size is within
  the limits of the strict reader and of the vaults.
\<close>

text \<open>A bound on the length of the text of a value, which simplifies without writing the text.\<close>

fun json_size :: "json \<Rightarrow> nat" where
  "json_size (JText s) = 6 * length s + 2"
| "json_size (JNumber i) = nat \<bar>i\<bar> + 2"
| "json_size (JReal token) = length token"
| "json_size (JArray xs) = 2 + sum_list (map (\<lambda>x. Suc (json_size x)) xs)"
| "json_size (JObject kvs) = 2 + sum_list (map (\<lambda>(k, v). 6 * length k + 4 + json_size v) kvs)"
| "json_size j = 5"

lemma decimal_size: "length (decimal i) \<le> nat \<bar>i\<bar> + 2"
proof -
  have "length (decimal_nat n) \<le> n + 1" for n by (induction n rule: decimal_nat.induct) (subst decimal_nat.simps, auto)
  from this [of "nat \<bar>i\<bar>"] show ?thesis by (auto simp: decimal_def intro: le_trans)
qed

lemma json_string_size: "length (json_string s) \<le> 6 * length s + 2"
proof -
  have "length (concat (map json_char s)) \<le> 6 * length s"
  proof (induction s)
    case (Cons c s)
    have "(of_char c :: nat) < 16 ^ 4" 
      by (rule less_trans [of _ 256]) (metis of_char_mod_256 mod_less_divisor zero_less_numeral, simp)
    then have "length (padded_hex 4 (of_char c)) = 4" using padded_hex_word [of "of_char c" 4] by (simp add: hex_word_def)
    then have "length (json_char c) \<le> 6" by (simp add: json_char_def Let_def)
    with Cons show ?case by simp
  qed simp
  then show ?thesis by (simp add: json_string_def)
qed

lemma join_size: "length (join '','' (map f xs)) \<le> sum_list (map (\<lambda>x. Suc (length (f x))) xs)"
  by (induction xs rule: induct_list012) auto

lemma json_text_size: "length (json_text j) \<le> json_size j"
proof (induction j)
  case (JArray xs)
  have "length (join '','' (map json_text xs)) \<le> sum_list (map (\<lambda>x. Suc (length (json_text x))) xs)" by (rule join_size)
  also have "\<dots> \<le> sum_list (map (\<lambda>x. Suc (json_size x)) xs)" by (rule sum_list_mono) (simp add: JArray)
  finally show ?case by simp
next
  case (JObject kvs)
  let ?f = "\<lambda>(k, v). json_string k @ '':'' @ json_text v"
  have "length (join '','' (map ?f kvs)) \<le> sum_list (map (\<lambda>kv. Suc (length (?f kv))) kvs)" by (rule join_size)
  also have "\<dots> \<le> sum_list (map (\<lambda>(k, v). 6 * length k + 4 + json_size v) kvs)"
  proof (rule sum_list_mono)
    fix kv assume kv: "kv \<in> set kvs"
    obtain k v where kv': "kv = (k, v)" by fastforce
    have "length (json_text v) \<le> json_size v" using JObject [of kv v] kv by (simp add: kv')
    with json_string_size [of k] show "Suc (length (?f kv)) \<le> (\<lambda>(k, v). 6 * length k + 4 + json_size v) kv"
      by (simp add: kv')
  qed
  finally show ?case by simp
qed (use decimal_size json_string_size in simp_all)

end
