(* ===== verification/RulebookExamples.thy ===== *)
theory RulebookExamples
  imports RulebookProperties JsonSize
begin

text \<open>A package directory that loads, with its manifest, and the properties of loading applied to it.\<close>

section \<open>The documents\<close>

definition sample_parts :: "(path \<times> string \<times> json) list" where
  "sample_parts =
    [([''attestations'', ''a.json''], ''ATTESTATION'', JObject [(''attestation_id'', JText ''att'')]),
     ([''evaluations'', ''e.json''], ''EVALUATION'', JObject [(''evaluation_id'', JText ''e'')]),
     ([''fixtures'', ''f.json''], ''DETERMINISTIC_FIXTURE'', JObject [(''fixture_id'', JText ''f'')]),
     ([''profiles'', ''semantic-profiles.json''], ''PROFILE'', JObject [(''profiles'', JArray [])]),
     ([''rules'', ''terminal-rules.json''], ''RULES'', JObject [(''rules'', JArray [JObject
        [(''disposition'', JText ''CANDIDATE''), (''evidence_roles'', JArray [JText ''SOURCE'']), (''failure_code'', JNull),
         (''next_action'', JText ''NEXT''), (''predicates'', JArray [JObject
            [(''fact'', JText ''change_kind''), (''operator'', JText ''EQUALS''), (''value'', JText ''CREATE'')]]),
         (''reason_code'', JText ''EXACT''), (''rule_id'', JText ''rule-1''), (''scope_id'', JText ''scope'')]])]),
     ([''scopes'', ''release-scopes.json''], ''SCOPE_REGISTRY'', JObject [(''complete_non_overlap'', JBoolean True),
        (''scopes'', JArray [JObject
          [(''blocker_codes'', JArray []), (''ownership_keys'', JArray [JText ''key'']),
           (''readiness'', JText ''ATTESTED_INACTIVE''), (''required_source_ids'', JArray [JText ''source'']),
           (''scope_id'', JText ''scope''), (''withholding_rule'', JText ''withhold''), (''zero_record_rule'', JText ''zero'')]])]),
     ([''sources'', ''source-universe.json''], ''SOURCE_UNIVERSE'', JObject [(''complete'', JBoolean True),
        (''sources'', JArray [JObject
          [(''checking_tier'', JText ''1''), (''completeness_rule'', JText ''all''), (''endpoint_families'', JArray []),
           (''outage_consequence'', JText ''stop''), (''permitted_use'', JText ''LEGAL''), (''role'', JText ''CONTROLLING''),
           (''source_id'', JText ''source'')]])])]"

definition sample_file_entry :: "path \<times> string \<times> json \<Rightarrow> json" where
  "sample_file_entry part = (case part of (p, role, j) \<Rightarrow> JObject
     [(''byte_size'', JNumber (int (length (json_text j)))), (''fingerprint'', JText (sha256_fingerprint demo_platform (json_text j))),
      (''path'', JText (join ''/'' p)), (''role'', JText role)])"

definition sample_manifest_body :: "(string \<times> json) list" where
  "sample_manifest_body =
    [(''schema_id'', JText ''asklegal.executable-source-rulebook-package''), (''schema_version'', JText ''1''),
     (''package_id'', JText ''pkg''), (''package_version'', JText ''1''),
     (''jurisdiction'', JText ''ZZZ''), (''environment'', JText ''LOCAL_SYNTHETIC''),
     (''material_family'', JText ''TEST_LEGAL_MATERIAL''), (''legal_desk_owner'', JText ''desk''),
     (''effective_cutoff'', JText ''now''), (''predecessor'', JNull),
     (''contract_locks'', JArray [JText ''c'']), (''code_locks'', JArray []),
     (''source_universe_fingerprint'', JText (sha256_fingerprint demo_platform (json_text (snd (snd (last sample_parts)))))),
     (''scope_readiness'', JArray [JObject [(''scope_id'', JText ''scope''), (''state'', JText ''ATTESTED_INACTIVE'')]]),
     (''unresolved_policy_codes'', JArray []), (''impact_declaration'', JText ''none''),
     (''minimum_engine_version'', JText ''1.0.0''), (''files'', JArray (map sample_file_entry sample_parts))]"

definition sample_package_fingerprint :: string where
  "sample_package_fingerprint = sha256_fingerprint demo_platform (json_text (JObject sample_manifest_body))"

definition sample_members :: "(string \<times> json) list" where
  "sample_members = take 4 sample_manifest_body
     @ (''package_fingerprint'', JText sample_package_fingerprint) # drop 4 sample_manifest_body"

abbreviation sample_manifest_json :: json where
  "sample_manifest_json \<equiv> JObject sample_members"

text \<open>The directory, with any further folders.\<close>

definition sample_directory :: "string list \<Rightarrow> tree" where
  "sample_directory extra = map (\<lambda>(p, role, j). (p, Document (json_text j))) sample_parts
     @ ([''package.json''], Document (json_text sample_manifest_json)) # map (\<lambda>f. ([f], Folder)) (required_directories @ extra)"

lemma demo_fingerprint_length: "length (sha256_fingerprint demo_platform raw) = 71"
  using demo_digest_law by (simp add: sha256_fingerprint_def digest_law_def hex_word_def)

lemma sample_readable: "(p, role, j) \<in> set sample_parts \<Longrightarrow> readable j \<and> json_size j \<le> 3000"
  by (auto simp: sample_parts_def)

lemma sample_size: "(p, role, j) \<in> set sample_parts \<Longrightarrow> length (json_text j) \<le> 3000"
  using sample_readable [of p role j] json_text_size [of j] by linarith

lemma sample_entry_size:
  "part \<in> set sample_parts \<Longrightarrow> Suc (json_size (sample_file_entry part)) \<le> 5000 \<and> readable (sample_file_entry part)"
proof -
  assume part: "part \<in> set sample_parts"
  obtain p role j where p: "part = (p, role, j)" by (cases part)
  have "length (json_text j) \<le> 3000" using sample_size part p by blast
  moreover have "length (join ''/'' p) \<le> 40 \<and> length role \<le> 25" using part by (auto simp: p sample_parts_def)
  ultimately show ?thesis by (simp add: sample_file_entry_def p demo_fingerprint_length max_safe_integer_def)
qed

lemma sample_manifest_size: "length (json_text sample_manifest_json) \<le> 100000" "readable sample_manifest_json"
proof -
  have "sum_list (map (\<lambda>x. Suc (json_size x)) (map sample_file_entry sample_parts)) \<le> sum_list (map (\<lambda>_. 5000) sample_parts)"
    unfolding map_map by (rule sum_list_mono) (use sample_entry_size in auto)
  then have entries: "sum_list (map (\<lambda>x. Suc (json_size x)) (map sample_file_entry sample_parts)) \<le> 35000"
    by (simp add: sample_parts_def)
  then have "json_size sample_manifest_json \<le> 100000"
    unfolding sample_members_def sample_manifest_body_def sample_package_fingerprint_def by (simp add: demo_fingerprint_length)
  then show "length (json_text sample_manifest_json) \<le> 100000" using json_text_size [of sample_manifest_json] by linarith
  show "readable sample_manifest_json"
    using sample_entry_size by (simp add: sample_members_def sample_manifest_body_def list_all_iff)
qed

section \<open>Loading it\<close>

definition sample_file :: "path \<times> string \<times> json \<Rightarrow> package_file" where
  "sample_file part = (case part of (p, role, j) \<Rightarrow>
     \<lparr>pf_path = join ''/'' p, pf_role = role, pf_byte_size = int (length (json_text j)),
      pf_fingerprint = sha256_fingerprint demo_platform (json_text j)\<rparr>)"

definition loaded_manifest :: rulebook_manifest where
  "loaded_manifest = sample_rule_manifest
     \<lparr>rm_package_fingerprint := sample_package_fingerprint,
      rm_source_universe_fingerprint := sha256_fingerprint demo_platform (json_text (snd (snd (last sample_parts)))),
      rm_files := map sample_file sample_parts\<rparr>"

definition sample_loaded :: loaded_rulebook where
  "sample_loaded = \<lparr>lr_manifest = loaded_manifest, lr_sources = [sample_source], lr_scopes = [sample_scope],
     lr_scope_families = [], lr_rules = [sample_rule ''rule-1'' ''CREATE'' CANDIDATE], lr_semantic_profiles = [],
     lr_fixture_ids = [''f''], lr_evaluation_ids = [''e''], lr_attestation_ids = [''att'']\<rparr>"

lemma sample_nodes:
  "(p, role, j) \<in> set sample_parts \<Longrightarrow> node_at (sample_directory extra) p = Some (Document (json_text j))"
  "node_at (sample_directory extra) [''package.json''] = Some (Document (json_text sample_manifest_json))"
proof -
  let ?docs = "map (\<lambda>(p, role, j). (p, Document (json_text j))) sample_parts"
  have distinct: "distinct (map fst ?docs)" by (simp add: sample_parts_def)
  show "node_at (sample_directory extra) p = Some (Document (json_text j))" if part: "(p, role, j) \<in> set sample_parts"
  proof -
    have "(p, Document (json_text j)) \<in> set ?docs" using part by force
    with distinct have "map_of ?docs p = Some (Document (json_text j))" by (rule map_of_is_SomeI)
    moreover have "p \<noteq> []" using part by (auto simp: sample_parts_def)
    ultimately show ?thesis by (simp add: node_at_def sample_directory_def map_add_def)
  qed
  have "map_of ?docs [''package.json''] = None" by (simp add: sample_parts_def)
  then show "node_at (sample_directory extra) [''package.json''] = Some (Document (json_text sample_manifest_json))"
    by (simp add: node_at_def sample_directory_def map_add_def)
qed

lemma sample_reads:
  "(p, role, j) \<in> set sample_parts \<Longrightarrow> read_package_json (sample_directory extra) p = loader_object j (last p)"
  "read_package_json (sample_directory extra) [''package.json''] = loader_object sample_manifest_json ''package.json''"
proof -
  show "read_package_json (sample_directory extra) p = loader_object j (last p)" if part: "(p, role, j) \<in> set sample_parts"
  proof -
    have "parse_json_bytes (json_text j) max_file_bytes = Inr j"
      using sample_readable [OF part] sample_size [OF part] by (intro parse_json_text) (simp_all add: max_file_bytes_def)
    then show ?thesis by (simp add: read_package_json_def sample_nodes(1) [OF part])
  qed
  have "parse_json_bytes (json_text sample_manifest_json) max_file_bytes = Inr sample_manifest_json"
    using sample_manifest_size by (intro parse_json_text) (simp_all add: max_file_bytes_def)
  then show "read_package_json (sample_directory extra) [''package.json''] = loader_object sample_manifest_json ''package.json''"
    by (simp add: read_package_json_def sample_nodes(2))
qed

lemmas loader_simps = loader_object_def loader_array_def loader_string_def loader_integer_def loader_boolean_def loader_strings_def
  loader_nullable_def loader_code_def exact_keys_def text_field_def texts_field_def guarded_def construct_def raise_if_def

lemma sample_file_parsed: "part \<in> set sample_parts \<Longrightarrow> parse_package_file (sample_file_entry part) = Inr (sample_file part)"
proof -
  assume part: "part \<in> set sample_parts"
  obtain p role j where p: "part = (p, role, j)" by (cases part)
  have "join ''/'' p \<noteq> [] \<and> role \<noteq> []" using part by (auto simp: p sample_parts_def)
  moreover have "sha256_fingerprint demo_platform (json_text j) \<noteq> []" by (simp add: sha256_fingerprint_def)
  moreover have "{''byte_size'', ''fingerprint'', ''path'', ''role''} = {''path'', ''role'', ''byte_size'', ''fingerprint''}" by blast
  ultimately show ?thesis
    by (simp add: parse_package_file_def sample_file_entry_def sample_file_def p loader_simps del: and_then_Inr)
qed

lemma collect_map: "(\<And>x. x \<in> set xs \<Longrightarrow> f (g x) = Inr (h x)) \<Longrightarrow> collect f (map g xs) = Inr (map h xs)"
  by (induction xs) auto

lemma sample_manifest_parsed: "parse_manifest sample_members = Inr loaded_manifest"
proof -
  have files: "collect parse_package_file (map sample_file_entry sample_parts) = Inr (map sample_file sample_parts)"
    by (rule collect_map) (rule sample_file_parsed)
  define universe where "universe = sha256_fingerprint demo_platform (json_text (snd (snd (last sample_parts))))"
  have nonempty: "sample_package_fingerprint \<noteq> []" "universe \<noteq> []"
    by (simp_all add: sample_package_fingerprint_def universe_def sha256_fingerprint_def)
  define entries where "entries = map sample_file_entry sample_parts"
  show ?thesis
    using nonempty files
    unfolding sample_members_def loaded_manifest_def sample_manifest_body_def universe_def [symmetric] entries_def [symmetric]
    by (simp add: parse_manifest_def loader_simps manifest_keys_def parse_readiness_def readiness_values_def sample_rule_manifest_def
        del: and_then_Inr)
qed

lemma sample_paths:
  "map (\<lambda>(p, role, j). validate_path (join ''/'' p)) sample_parts = replicate 7 None"
  "map (\<lambda>(p, role, j). posix_parts (join ''/'' p)) sample_parts = map fst sample_parts"
  "sort (map (\<lambda>(p, role, j). join ''/'' p) sample_parts @ [''package.json''])
     = [''attestations/a.json'', ''evaluations/e.json'', ''fixtures/f.json'', ''package.json'',
        ''profiles/semantic-profiles.json'', ''rules/terminal-rules.json'', ''scopes/release-scopes.json'', ''sources/source-universe.json'']"
  by code_simp+

lemma sample_file_checked: "part \<in> set sample_parts \<Longrightarrow> check_file demo_platform (sample_directory extra) (sample_file part) = None"
proof -
  assume part: "part \<in> set sample_parts"
  obtain p role j where p: "part = (p, role, j)" by (cases part)
  have "validate_path (join ''/'' p) \<in> set (replicate 7 None)"
    unfolding sample_paths(1) [symmetric] using part p by force
  moreover have "posix_parts (join ''/'' p) = p"
    using map_eq_conv [THEN iffD1, OF sample_paths(2)] part p by force
  moreover have "role \<in> set file_roles" using part by (auto simp: p sample_parts_def file_roles_def)
  moreover have "node_at (sample_directory extra) p = Some (Document (json_text j))" using sample_nodes(1) part p by blast
  ultimately show ?thesis by (simp add: check_file_def sample_file_def p)
qed

lemma sample_package_files:
  "package_files (sample_directory extra) = Inr [''attestations/a.json'', ''evaluations/e.json'', ''fixtures/f.json'', ''package.json'',
     ''profiles/semantic-profiles.json'', ''rules/terminal-rules.json'', ''scopes/release-scopes.json'', ''sources/source-universe.json'']"
proof -
  have "find (\<lambda>(p, n). n = Alias) (sample_directory extra) = None" by (auto simp: find_None_iff sample_directory_def)
  moreover have "map (\<lambda>(p, n). join ''/'' p) (filter (\<lambda>(p, n). document (Some n) \<noteq> None) (sample_directory extra))
      = map (\<lambda>(p, role, j). join ''/'' p) sample_parts @ [''package.json'']"
    by (simp add: sample_directory_def filter_map comp_def split_def)
  ultimately show ?thesis by (simp only: package_files_def option.case sample_paths(3))
qed

lemma package_inventory: "validate_inventory demo_platform (sample_directory extra) loaded_manifest = None"
proof -
  have declared: "map pf_path (rm_files loaded_manifest) = [''attestations/a.json'', ''evaluations/e.json'', ''fixtures/f.json'',
     ''profiles/semantic-profiles.json'', ''rules/terminal-rules.json'', ''scopes/release-scopes.json'', ''sources/source-universe.json'']"
    by (simp add: loaded_manifest_def sample_parts_def sample_file_def)
  have sorted: "sort (map pf_path (rm_files loaded_manifest)) = map pf_path (rm_files loaded_manifest)"
    unfolding declared by code_simp
  have "\<forall>f \<in> set (rm_files loaded_manifest). check_file demo_platform (sample_directory extra) f = None"
    using sample_file_checked by (simp add: loaded_manifest_def)
  moreover have "set required_directories \<subseteq> set (map fst (filter (\<lambda>(name, n). n = Folder) (children [] (sample_directory extra))))"
    by (force simp: children_def sample_directory_def)
  ultimately show ?thesis
    using sorted unfolding validate_inventory_def sample_package_files declared Let_def
    by (simp add: first_raise_None_iff ball_simps del: set_map) simp
qed

lemma sample_sources_parsed: "parse_sources demo_platform (sample_directory extra) loaded_manifest = Inr [sample_source]"
proof -
  have last: "last sample_parts \<in> set sample_parts" "fst (last sample_parts) = [''sources'', ''source-universe.json'']"
    by (simp_all add: sample_parts_def)
  then have "([''sources'', ''source-universe.json''], fst (snd (last sample_parts)), snd (snd (last sample_parts))) \<in> set sample_parts"
    by (metis prod.collapse)
  note found = sample_nodes(1) [OF this] sample_reads(1) [OF this]
  have "rm_source_universe_fingerprint loaded_manifest = sha256_fingerprint demo_platform (json_text (snd (snd (last sample_parts))))"
    by (simp add: loaded_manifest_def)
  then have "parse_sources demo_platform (sample_directory extra) loaded_manifest
      = and_then (loader_object (snd (snd (last sample_parts))) ''source-universe.json'') (\<lambda>d.
          guarded [exact_keys d [''complete'', ''sources''] ''source universe'',
            raise_if (map_of d ''complete'' \<noteq> Some (JBoolean True)) (RulebookError INCOMPLETE_SOURCE_INVENTORY [])]
          (and_then (and_then (loader_array (map_of d ''sources'') ''sources'') (collect parse_source)) (\<lambda>sources.
           construct [raise_if (sources = [] \<or> \<not> distinct (map sd_source_id sources))
             (RulebookError INCOMPLETE_SOURCE_INVENTORY [])] sources)))"
    using found by (simp add: parse_sources_def guarded_def raise_if_def)
  also have "\<dots> = Inr [sample_source]"
    by (simp add: sample_parts_def loader_simps parse_source_def source_keys_def insert_commute source_roles_def sample_source_def
        del: and_then_Inr)
  finally show ?thesis .
qed

lemma sample_listings:
  "json_children [''catalogues''] (sample_directory extra) = []"
  "json_children [''evaluations''] (sample_directory extra) = [[''evaluations'', ''e.json'']]"
  "json_children [''attestations''] (sample_directory extra) = [[''attestations'', ''a.json'']]"
  "json_below [''fixtures''] (sample_directory extra) = [[''fixtures'', ''f.json'']]"
  by (simp_all add: json_children_def json_below_def sample_directory_def sample_parts_def filter_map comp_def ends_with_def)

lemma package_documents:
  "read_package_json (sample_directory extra) [''attestations'', ''a.json''] = Inr [(''attestation_id'', JText ''att'')]"
  "read_package_json (sample_directory extra) [''evaluations'', ''e.json''] = Inr [(''evaluation_id'', JText ''e'')]"
  "read_package_json (sample_directory extra) [''fixtures'', ''f.json''] = Inr [(''fixture_id'', JText ''f'')]"
  "read_package_json (sample_directory extra) [''profiles'', ''semantic-profiles.json''] = Inr [(''profiles'', JArray [])]"
  "read_package_json (sample_directory extra) [''rules'', ''terminal-rules.json''] = loader_object (snd (snd (sample_parts ! 4))) []"
  "read_package_json (sample_directory extra) [''scopes'', ''release-scopes.json''] = loader_object (snd (snd (sample_parts ! 5))) []"
  by (subst sample_reads(1), force simp: sample_parts_def, simp add: loader_object_def sample_parts_def)+

lemma sample_scopes_parsed: "parse_scopes (sample_directory extra) [sample_source] = Inr ([sample_scope], [])"
  unfolding parse_scopes_def package_documents
  by (simp add: sample_parts_def loader_simps parse_scope_def scope_keys_def insert_commute readiness_values_def Let_def
      parse_scope_families_def sample_scope_def sample_source_def del: and_then_Inr)

lemma sample_rules_parsed: "parse_rules (sample_directory extra) [sample_scope] = Inr [sample_rule ''rule-1'' ''CREATE'' CANDIDATE]"
  unfolding parse_rules_def package_documents
  by (simp add: sample_parts_def loader_simps parse_rule_def rule_keys_def insert_commute disposition_values_def
      parse_predicate_def operator_values_def sample_rule_def sample_scope_def del: and_then_Inr)

lemma sample_profiles_parsed: "parse_profiles clock (sample_directory extra) environment now = Inr []"
  by (simp add: parse_profiles_def package_documents loader_simps del: and_then_Inr)

lemma sample_fixtures_parsed: "fixtures_and_evaluations (sample_directory extra) = Inr ([''f''], [''e''])"
  by (simp add: fixtures_and_evaluations_def sample_listings parse_fixture_def parse_evaluation_def package_documents loader_simps
      conformance_schemas_def fixture_inputs_def del: and_then_Inr)

lemma sample_attestations_parsed: "parse_attestation (sample_directory extra) [''attestations'', ''a.json''] = Inr ''att''"
  by (simp add: parse_attestation_def package_documents loader_simps del: and_then_Inr)

lemma sample_blockers: "validate_blockers (sample_directory extra) loaded_manifest [sample_scope] [] = None"
  by (simp add: validate_blockers_def sample_listings referenced_blockers_def sample_scope_def loaded_manifest_def sample_rule_manifest_def)

lemma package_fingerprint_computed: "manifest_fingerprint demo_platform total_encoder sample_members = Inr sample_package_fingerprint"
proof -
  have "filter (\<lambda>(k, v). k \<noteq> ''package_fingerprint'') sample_members = sample_manifest_body"
    by (simp add: sample_members_def sample_manifest_body_def)
  then show ?thesis by (simp add: manifest_fingerprint_def total_encoder_def sample_package_fingerprint_def)
qed

lemma sample_loads:
  "load_rulebook_package demo_platform total_encoder clock root (Some (sample_directory extra)) ''LOCAL_SYNTHETIC'' ''c'' now ''1.0.0''
     = Inr sample_loaded"
proof -
  have manifest: "read_package_json (sample_directory extra) [''package.json''] = Inr sample_members"
    by (simp add: sample_reads(2) loader_object_def)
  have checked: "check_manifest sample_package_fingerprint loaded_manifest ''LOCAL_SYNTHETIC'' ''c'' ''1.0.0'' = None"
    by (simp add: check_manifest_def loaded_manifest_def sample_rule_manifest_def)
  have readiness: "check_scope_readiness loaded_manifest [sample_scope] = None"
    by (simp add: check_scope_readiness_def loaded_manifest_def sample_rule_manifest_def sample_scope_def dict_of_def starts_with_def)
  have proofs: "check_proofs [sample_scope] [''f''] [''e''] [''att''] = None" by (simp add: check_proofs_def)
  show ?thesis
    unfolding load_rulebook_package_def option.case manifest sample_manifest_parsed package_fingerprint_computed and_then.simps
    by (simp add: checked package_inventory sample_sources_parsed sample_scopes_parsed readiness sample_blockers sample_rules_parsed
        sample_profiles_parsed sample_fixtures_parsed sample_listings sample_attestations_parsed proofs sample_loaded_def guarded_def
        construct_def del: and_then_Inr)
qed

section \<open>The properties of loading, applied to it\<close>

lemma loaded_package_is_closed_witness:
  "package_closed sample_loaded"
  using loaded_package_is_closed [OF sample_loads [of "\<lambda>_. Unreadable" "[]" "[]" "[]"]] by blast

lemma sample_directory_ok: "extra = [] \<or> extra = [''drafts''] \<Longrightarrow> directory_ok (sample_directory extra)"
  by (auto simp: directory_ok_def sample_directory_def sample_parts_def required_directories_def file_name_def)

text \<open>The directory again, with an empty folder of drafts.\<close>

lemma manifest_determines_package_witness:
  "document (node_at (sample_directory [''drafts'']) [''fixtures'', ''f.json''])
     = document (node_at (sample_directory []) [''fixtures'', ''f.json''])"
proof -
  have same: "raw = raw'" if "document (node_at (sample_directory []) q) = Some raw" "document (node_at (sample_directory [''drafts'']) q) = Some raw'"
    for q raw raw'
  proof -
    have "map_of (map (\<lambda>f. ([f], Folder)) names) q \<in> {None, Some Folder}" for names
      by (induction names) auto
    then show ?thesis
      using that by (auto simp: node_at_def sample_directory_def map_add_def split: if_splits option.splits)
  qed
  have loads: "load_rulebook_package demo_platform total_encoder (\<lambda>_. Unreadable) [] (Some (sample_directory extra)) ''LOCAL_SYNTHETIC'' ''c''
      ''now'' ''1.0.0'' = Inr sample_loaded" for extra by (rule sample_loads)
  have "\<forall>q. q \<noteq> [''package.json''] \<longrightarrow> document (node_at (sample_directory [''drafts'']) q) = document (node_at (sample_directory []) q)"
    by (rule conjunct2 [OF manifest_determines_package [OF loads loads refl]])
      (rule sample_directory_ok, simp, rule sample_directory_ok, simp, rule same)
  then have "[''fixtures'', ''f.json''] \<noteq> [''package.json''] \<longrightarrow> ?thesis" by (rule spec)
  then show ?thesis by simp
qed

lemma loaded_package_executes_witness:
  "\<exists>L' r. activate_rulebook sample_loaded (exact_activation sample_loaded ''act'' ''d'' ''build'' ''c'' [''scope''] ''now'') ''c'' ''build'' new_lifecycle
      = (Inr (sample_loaded, exact_activation sample_loaded ''act'' ''d'' ''build'' ''c'' [''scope''] ''now''), L')
    \<and> execute_rules demo_platform L' sample_loaded sample_subject = Inr r"
proof -
  have scopes: "[sample_scope] \<noteq> []" "set [sample_scope] \<subseteq> set (lr_scopes sample_loaded)"
      "\<forall>s \<in> set [sample_scope]. rs_readiness s = ATTESTED_INACTIVE" "map rs_scope_id [sample_scope] = [''scope'']"
    by (simp_all add: sample_loaded_def sample_scope_def)
  have "map_of (rl_active new_lifecycle) (desk_key (lr_manifest sample_loaded)) = None" by (simp add: new_lifecycle_def)
  from loaded_package_executes [OF sample_loads [of "\<lambda>_. Unreadable" "[]" "[]" "[]"] scopes(1-3) this, of "''act''" "''d''" "''build''" "''now''"]
  obtain L' where L': "activate_rulebook sample_loaded (exact_activation sample_loaded ''act'' ''d'' ''build'' ''c'' [''scope''] ''now'') ''c'' ''build'' new_lifecycle
      = (Inr (sample_loaded, exact_activation sample_loaded ''act'' ''d'' ''build'' ''c'' [''scope''] ''now''), L')"
      "\<And>subject. subject_ready subject \<and> ps_scope_id subject \<in> set [''scope''] \<Longrightarrow> \<exists>r. execute_rules demo_platform L' sample_loaded subject = Inr r"
    unfolding scopes(4) by blast
  have "subject_ready sample_subject \<and> ps_scope_id sample_subject \<in> set [''scope'']"
    by (simp add: subject_ready_def dict_of_def sample_subject_def)
  from L'(2) [OF this] L'(1) show ?thesis by blast
qed

end
