(* ===== verification/SourceConnectors.thy ===== *)
theory SourceConnectors
  imports VaultModel Stores
begin

text \<open>
  The values of \<^verbatim>\<open>packages/source-connectors/src/asklegal_source_connectors/model.py\<close>: registered
  sources and endpoints, requests, responses and their classification, results of the watcher and the
  scraper, and the accounting of outcomes.
\<close>

section \<open>Values\<close>

text \<open>The exceptions of the package, and any other that leaves it.\<close>

datatype source_raise =
  SourceValueError | SourceTypeError | SourceLookupError | SourcePermissionError | SourceFault

definition source_text :: "string \<Rightarrow> source_raise option" where
  "source_text s = raise_if (\<not> is_exact_text s) SourceValueError"

definition source_positive :: "int \<Rightarrow> source_raise option" where
  "source_positive i = raise_if (i < 1) SourceValueError"

definition source_identifier :: "string \<Rightarrow> string \<Rightarrow> source_raise option" where
  "source_identifier s prefix = first_raise
     [source_text s, raise_if (\<not> id_pattern s \<or> \<not> starts_with s (prefix @ ''_'')) SourceValueError]"

definition source_strings :: "string list \<Rightarrow> source_raise option" where
  "source_strings xs = first_raise
     [raise_if (xs = []) SourceTypeError, raise_if ([] \<in> set xs) SourceTypeError, raise_if (\<not> distinct xs) SourceValueError]"

datatype source_policy_state = SOURCE_CONFIGURED | SOURCE_DISABLED | SOURCE_EXPIRED | SOURCE_UNDECIDED

datatype authentication_class = NO_AUTHENTICATION | MANAGED_SECRET

datatype http_method = HTTP_GET | HTTP_HEAD

fun http_method_value :: "http_method \<Rightarrow> string" where
  "http_method_value HTTP_GET = ''GET''"
| "http_method_value HTTP_HEAD = ''HEAD''"

datatype watcher_result_code =
    WATCHED_NO_CHANGE | WATCHED_POSSIBLE_CHANGE | WATCHED_UNAVAILABLE | WATCHED_CONTRACT_CHANGED
  | WATCHED_INCOMPLETE | WATCHED_UNSAFE

fun watcher_code_value :: "watcher_result_code \<Rightarrow> string" where
  "watcher_code_value WATCHED_NO_CHANGE = ''SUPPORTED_NO_CHANGE''"
| "watcher_code_value WATCHED_POSSIBLE_CHANGE = ''POSSIBLE_CHANGE''"
| "watcher_code_value WATCHED_UNAVAILABLE = ''SOURCE_UNAVAILABLE''"
| "watcher_code_value WATCHED_CONTRACT_CHANGED = ''SOURCE_CONTRACT_CHANGED''"
| "watcher_code_value WATCHED_INCOMPLETE = ''INCOMPLETE_OBSERVATION''"
| "watcher_code_value WATCHED_UNSAFE = ''UNSAFE_RESPONSE''"

datatype scraper_result_code =
    SCRAPED_SNAPSHOT | SCRAPED_NO_CHANGE | SCRAPED_PARTIAL | SCRAPED_UNAVAILABLE | SCRAPED_CONTRACT_CHANGED
  | SCRAPED_UNSAFE

fun scraper_code_value :: "scraper_result_code \<Rightarrow> string" where
  "scraper_code_value SCRAPED_SNAPSHOT = ''SNAPSHOT_PRESERVED''"
| "scraper_code_value SCRAPED_NO_CHANGE = ''SUPPORTED_NO_CHANGE_AFTER_CAPTURE''"
| "scraper_code_value SCRAPED_PARTIAL = ''PARTIAL_CAPTURE''"
| "scraper_code_value SCRAPED_UNAVAILABLE = ''SOURCE_UNAVAILABLE''"
| "scraper_code_value SCRAPED_CONTRACT_CHANGED = ''SOURCE_CONTRACT_CHANGED''"
| "scraper_code_value SCRAPED_UNSAFE = ''UNSAFE_RESPONSE''"

datatype observation_disposition =
  OBSERVED_NO_CHANGE | OBSERVED_SNAPSHOT | OBSERVED_CONTRACT_REVIEW | OBSERVED_COVERAGE_GAP | OBSERVED_QUARANTINE

fun disposition_code :: "observation_disposition \<Rightarrow> string" where
  "disposition_code OBSERVED_NO_CHANGE = ''COMPLETE_NO_CHANGE''"
| "disposition_code OBSERVED_SNAPSHOT = ''SNAPSHOT_PRESERVED''"
| "disposition_code OBSERVED_CONTRACT_REVIEW = ''SOURCE_CONTRACT_REVIEW''"
| "disposition_code OBSERVED_COVERAGE_GAP = ''COVERAGE_GAP''"
| "disposition_code OBSERVED_QUARANTINE = ''QUARANTINE''"

datatype acquisition_consequence = NO_CONSEQUENCE | PROCESSING_ELIGIBLE

fun consequence_value :: "acquisition_consequence \<Rightarrow> string" where
  "consequence_value NO_CONSEQUENCE = ''NONE''"
| "consequence_value PROCESSING_ELIGIBLE = ''LEGAL_PROCESSING_ELIGIBLE''"

record registered_source =
  gs_source_id :: string
  gs_version :: string
  gs_jurisdiction :: string
  gs_material_family :: string
  gs_endpoint_ids :: "string list"
  gs_policy_state :: source_policy_state
  gs_permitted_use :: string
  gs_authorization_expires_at :: string

definition new_registered_source :: "registered_source \<Rightarrow> source_raise + registered_source" where
  "new_registered_source s = construct
     [source_identifier (gs_source_id s) ''src'', source_text (gs_version s), source_text (gs_jurisdiction s),
      source_text (gs_material_family s), source_text (gs_permitted_use s), source_text (gs_authorization_expires_at s),
      raise_if (gs_endpoint_ids s = []) SourceValueError,
      raise_if ([] \<in> set (gs_endpoint_ids s)) SourceTypeError,
      first_raise (map (\<lambda>i. source_identifier i ''sep'') (gs_endpoint_ids s)),
      raise_if (\<not> distinct (gs_endpoint_ids s)) SourceValueError] s"

record endpoint_contract =
  en_endpoint_id :: string
  en_version :: string
  en_source_id :: string
  en_rulebook_id :: string
  en_rulebook_version :: string
  en_allowed_host :: string
  en_allowed_path_prefix :: string
  en_methods :: "http_method list"
  en_redirect_hosts :: "string list"
  en_authentication_class :: authentication_class
  en_media_types :: "string list"
  en_max_bytes :: int
  en_max_pages :: int
  en_max_items :: int
  en_time_budget_seconds :: int
  en_complete_inventory_required :: bool
  en_http_304_proves_no_change :: bool
  en_equal_signal_proves_no_change :: bool
  en_required_capture_roles :: "string list"

definition new_endpoint_contract :: "endpoint_contract \<Rightarrow> source_raise + endpoint_contract" where
  "new_endpoint_contract e = construct
     [source_identifier (en_endpoint_id e) ''sep'', source_identifier (en_source_id e) ''src'',
      source_identifier (en_rulebook_id e) ''rbp'',
      source_text (en_version e), source_text (en_rulebook_version e), source_text (en_allowed_host e),
      source_text (en_allowed_path_prefix e),
      raise_if (en_methods e = []) SourceTypeError,
      source_strings (en_redirect_hosts e), source_strings (en_media_types e),
      source_strings (en_required_capture_roles e),
      source_positive (en_max_bytes e), source_positive (en_max_pages e), source_positive (en_max_items e),
      source_positive (en_time_budget_seconds e)] e"

section \<open>The registry\<close>

record source_registry =
  sg_sources :: "(string \<times> registered_source) list"
  sg_endpoints :: "(string \<times> endpoint_contract) list"

definition new_source_registry ::
    "registered_source list \<Rightarrow> endpoint_contract list \<Rightarrow> source_raise + source_registry" where
  "new_source_registry sources endpoints =
     (let by_source = dict_of (map (\<lambda>s. (gs_source_id s, s)) sources);
          by_endpoint = dict_of (map (\<lambda>e. (en_endpoint_id e, e)) endpoints) in
      construct
        [raise_if (length by_source \<noteq> length sources \<or> length by_endpoint \<noteq> length endpoints) SourceValueError,
         raise_if (list_ex (\<lambda>s. list_ex (\<lambda>i. map_option en_source_id (map_of by_endpoint i) \<noteq> Some (gs_source_id s))
           (gs_endpoint_ids s)) sources) SourceValueError]
        \<lparr>sg_sources = by_source, sg_endpoints = by_endpoint\<rparr>)"

definition registry_source_ids :: "source_registry \<Rightarrow> string list" where
  "registry_source_ids g = sort (map fst (sg_sources g))"

definition resolve_source ::
    "source_registry \<Rightarrow> string \<Rightarrow> string \<Rightarrow> string \<Rightarrow> string \<Rightarrow> source_raise + registered_source \<times> endpoint_contract" where
  "resolve_source g source_id source_version endpoint_id endpoint_version =
     (case (map_of (sg_sources g) source_id, map_of (sg_endpoints g) endpoint_id) of
        (Some s, Some e) \<Rightarrow> construct
          [raise_if (gs_version s \<noteq> source_version \<or> en_version e \<noteq> endpoint_version) SourceLookupError,
           raise_if (en_source_id e \<noteq> gs_source_id s) SourceLookupError] (s, e)
      | _ \<Rightarrow> Inl SourceLookupError)"

record accounting_result =
  oa_registered_source_ids :: "string list"
  oa_accounted_source_ids :: "string list"
  oa_missing_source_ids :: "string list"
  oa_duplicate_source_ids :: "string list"

definition accounting_complete :: "accounting_result \<Rightarrow> bool" where
  "accounting_complete r \<longleftrightarrow> oa_missing_source_ids r = [] \<and> oa_duplicate_source_ids r = []"

text \<open>The loop over the outcomes, with the counts so far.\<close>

fun count_outcomes ::
    "string list \<Rightarrow> (string \<times> nat) list \<Rightarrow> (string \<times> observation_disposition) list
       \<Rightarrow> source_raise + (string \<times> nat) list" where
  "count_outcomes registered counts [] = Inr counts"
| "count_outcomes registered counts ((source_id, disposition) # outcomes) = guarded
     [source_text source_id, raise_if (source_id \<notin> set registered) SourceLookupError]
     (count_outcomes registered
       (AList.update source_id ((case map_of counts source_id of None \<Rightarrow> 0 | Some n \<Rightarrow> n) + 1) counts) outcomes)"

definition account_outcomes ::
    "source_registry \<Rightarrow> (string \<times> observation_disposition) list \<Rightarrow> source_raise + accounting_result" where
  "account_outcomes g outcomes =
     and_then (count_outcomes (registry_source_ids g) [] outcomes) (\<lambda>counts. Inr
       \<lparr>oa_registered_source_ids = registry_source_ids g,
        oa_accounted_source_ids = sort (map fst counts),
        oa_missing_source_ids = filter (\<lambda>i. i \<notin> fst ` set counts) (registry_source_ids g),
        oa_duplicate_source_ids = sort (map fst (filter (\<lambda>(i, n). n \<noteq> 1) counts))\<rparr>)"

section \<open>Requests and responses\<close>

record retry_profile =
  ry_attempt_ceiling :: int
  ry_max_elapsed_seconds :: int
  ry_backoff_seconds :: "int list"
  ry_jitter_seed :: int
  ry_honor_retry_after :: bool

definition new_retry_profile :: "retry_profile \<Rightarrow> source_raise + retry_profile" where
  "new_retry_profile r = construct
     [source_positive (ry_attempt_ceiling r), source_positive (ry_max_elapsed_seconds r),
      raise_if (ry_backoff_seconds r = []) SourceValueError,
      raise_if (list_ex (\<lambda>i. i < 0) (ry_backoff_seconds r)) SourceTypeError] r"

record connector_request =
  cq_pipeline_run_id :: string
  cq_work_item_id :: string
  cq_observation_id :: string
  cq_observation_cutoff :: string
  cq_source_id :: string
  cq_source_version :: string
  cq_endpoint_id :: string
  cq_endpoint_version :: string
  cq_rulebook_id :: string
  cq_rulebook_version :: string
  cq_method :: http_method
  cq_previous_observation_id :: string
  cq_previous_snapshot_id :: string
  cq_prior_signal :: string
  cq_retry_profile :: retry_profile

definition new_connector_request :: "connector_request \<Rightarrow> source_raise + connector_request" where
  "new_connector_request q = construct
     [source_identifier (cq_pipeline_run_id q) ''run'', source_identifier (cq_work_item_id q) ''wki'',
      source_identifier (cq_observation_id q) ''obs'', source_identifier (cq_source_id q) ''src'',
      source_identifier (cq_endpoint_id q) ''sep'', source_identifier (cq_rulebook_id q) ''rbp'',
      source_identifier (cq_previous_observation_id q) ''obs'', source_identifier (cq_previous_snapshot_id q) ''snp'',
      source_text (cq_observation_cutoff q), source_text (cq_source_version q), source_text (cq_endpoint_version q),
      source_text (cq_rulebook_version q), source_text (cq_prior_signal q)] q"

record synthetic_response =
  sy_status_code :: int
  sy_host :: string
  sy_path :: string
  sy_media_type :: string
  sy_body :: string
  sy_declared_length :: int
  sy_content_encoding :: string
  sy_character_encoding :: string
  sy_signal :: string
  sy_redirect_host :: string
  sy_transient :: bool
  sy_authentication_failed :: bool
  sy_truncated :: bool

definition new_synthetic_response :: "synthetic_response \<Rightarrow> source_raise + synthetic_response" where
  "new_synthetic_response r = construct
     [raise_if (\<not> (100 \<le> sy_status_code r \<and> sy_status_code r \<le> 599)) SourceValueError,
      source_text (sy_host r), source_text (sy_path r), source_text (sy_media_type r), source_text (sy_content_encoding r),
      source_text (sy_character_encoding r), source_text (sy_signal r), source_text (sy_redirect_host r),
      raise_if (sy_declared_length r < 0) SourceTypeError] r"

record synthetic_page =
  pg_response :: synthetic_response
  pg_cursor :: string
  pg_next_cursor :: string
  pg_member_ids :: "string list"
  pg_declared_total :: int
  pg_inventory_generation :: string

definition new_synthetic_page :: "synthetic_page \<Rightarrow> source_raise + synthetic_page" where
  "new_synthetic_page p = construct
     [source_text (pg_cursor p), source_text (pg_next_cursor p), source_text (pg_inventory_generation p),
      raise_if ([] \<in> set (pg_member_ids p)) SourceTypeError,
      raise_if (pg_declared_total p < 0) SourceTypeError] p"

section \<open>Results\<close>

record acquisition_artifact =
  aq_role :: string
  aq_response :: synthetic_response
  aq_classification :: hostile_classification

definition new_acquisition_artifact :: "acquisition_artifact \<Rightarrow> source_raise + acquisition_artifact" where
  "new_acquisition_artifact a = construct [source_text (aq_role a)] a"

record watcher_result =
  wt_code :: watcher_result_code
  wt_artifacts :: "acquisition_artifact list"
  wt_affected_boundary :: string
  wt_attempts :: int

definition new_watcher_result :: "watcher_result \<Rightarrow> source_raise + watcher_result" where
  "new_watcher_result w = construct
     [raise_if (wt_artifacts w = []) SourceValueError, source_text (wt_affected_boundary w),
      source_positive (wt_attempts w)] w"

record scraper_result =
  sk_code :: scraper_result_code
  sk_artifacts :: "acquisition_artifact list"
  sk_member_ids :: "string list"
  sk_cursors :: "string list"
  sk_declared_total :: int
  sk_restart_count :: int
  sk_attempts :: int

definition new_scraper_result :: "scraper_result \<Rightarrow> source_raise + scraper_result" where
  "new_scraper_result s = construct
     [raise_if (sk_artifacts s = []) SourceValueError,
      raise_if (sk_declared_total s < 0) SourceTypeError, raise_if (sk_restart_count s < 0) SourceTypeError,
      source_positive (sk_attempts s)] s"

record acquisition_outcome =
  ou_disposition :: observation_disposition
  ou_consequence :: acquisition_consequence
  ou_watcher :: watcher_result
  ou_scraper :: "scraper_result option"
  ou_evidence_package_id :: string

definition new_acquisition_outcome :: "acquisition_outcome \<Rightarrow> source_raise + acquisition_outcome" where
  "new_acquisition_outcome r = construct
     [source_text (ou_evidence_package_id r),
      raise_if (ou_consequence r = PROCESSING_ELIGIBLE \<and> ou_disposition r \<noteq> OBSERVED_SNAPSHOT) SourceValueError] r"

end
