(* ===== verification/SyntheticConnector.thy ===== *)
theory SyntheticConnector
  imports SourceConnectors
begin

text \<open>
  The admission of hostile content and the reference connector: \<^verbatim>\<open>admission.py\<close> and \<^verbatim>\<open>synthetic.py\<close> of
  \<^verbatim>\<open>packages/source-connectors/src/asklegal_source_connectors/\<close>. A set of reasons is a list of them,
  sorted and freed of repetitions where the code sorts it.
\<close>

section \<open>Archives\<close>

text \<open>
  What \<^verbatim>\<open>zipfile\<close> makes of bytes or of an entry: a value, an exception the handler of
  \<^verbatim>\<open>_archive_reasons\<close> names (\<^verbatim>\<open>OSError\<close>, \<^verbatim>\<open>ValueError\<close>, \<^verbatim>\<open>BadZipFile\<close>), or another one, such as the
  \<^verbatim>\<open>RuntimeError\<close> for an encrypted entry.
\<close>

datatype 'a unzipped = Unzipped 'a | ZipCaught | ZipEscapes

record archive_entry =
  ze_filename :: string
  ze_compress_size :: int
  ze_file_size :: int
  ze_content :: "string unzipped"

type_synonym archive_reader = "string \<Rightarrow> archive_entry list unzipped"

record admission_policy =
  po_max_archive_depth :: int
  po_max_expansion_ratio :: int

definition new_admission_policy :: "admission_policy \<Rightarrow> source_raise + admission_policy" where
  "new_admission_policy p = construct
     [raise_if (po_max_archive_depth p < 0) SourceTypeError, raise_if (po_max_expansion_ratio p < 1) SourceTypeError] p"

definition default_admission_policy :: admission_policy where
  "default_admission_policy = \<lparr>po_max_archive_depth = 2, po_max_expansion_ratio = 100\<rparr>"

text \<open>\<^verbatim>\<open>PurePosixPath(name)\<close> is absolute, or has a part \<^verbatim>\<open>..\<close>.\<close>

definition escaping_name :: "string \<Rightarrow> bool" where
  "escaping_name name \<longleftrightarrow> starts_with name ''/'' \<or> ''..'' \<in> set (split_on (CHR ''/'') name)"

definition nested_archive :: "string \<Rightarrow> bool" where
  "nested_archive name \<longleftrightarrow> ends_with (map lower_char name) ''.zip''"

text \<open>
  The loop over the entries, with the reasons and the sizes so far; \<^verbatim>\<open>nested\<close> is the recursive call,
  \<^verbatim>\<open>deepest\<close> whether the depth is the last one allowed. \<^const>\<open>None\<close> is an exception that escapes.
\<close>

fun walk_archive ::
    "int \<Rightarrow> bool \<Rightarrow> (string \<Rightarrow> hostile_reason list option) \<Rightarrow> hostile_reason list \<Rightarrow> int \<Rightarrow> int \<Rightarrow> archive_entry list
       \<Rightarrow> hostile_reason list option" where
  "walk_archive ratio deepest nested reasons compressed uncompressed [] =
     Some (reasons @ (if compressed * ratio < uncompressed then [DECOMPRESSION_RATIO] else []))"
| "walk_archive ratio deepest nested reasons compressed uncompressed (e # es) =
     (let reasons' = reasons @ (if escaping_name (ze_filename e) then [PATH_TRAVERSAL] else []);
          compressed' = compressed + max (ze_compress_size e) 1;
          uncompressed' = uncompressed + ze_file_size e in
      if \<not> nested_archive (ze_filename e)
      then walk_archive ratio deepest nested reasons' compressed' uncompressed' es
      else if deepest
      then walk_archive ratio deepest nested (reasons' @ [ARCHIVE_RECURSION]) compressed' uncompressed' es
      else (case ze_content e of
          ZipEscapes \<Rightarrow> None
        | ZipCaught \<Rightarrow> Some (reasons' @ [TRUNCATED])
        | Unzipped content \<Rightarrow> (case nested content of
            None \<Rightarrow> None
          | Some inner \<Rightarrow> walk_archive ratio deepest nested (reasons' @ inner) compressed' uncompressed' es)))"

function archive_reasons ::
    "archive_reader \<Rightarrow> admission_policy \<Rightarrow> string \<Rightarrow> int \<Rightarrow> hostile_reason list option" where
  "archive_reasons Z policy content depth =
     (if po_max_archive_depth policy < depth then Some [ARCHIVE_RECURSION]
      else case Z content of
          ZipEscapes \<Rightarrow> None
        | ZipCaught \<Rightarrow> Some [TRUNCATED]
        | Unzipped entries \<Rightarrow> walk_archive (po_max_expansion_ratio policy) (po_max_archive_depth policy \<le> depth)
            (\<lambda>inner. archive_reasons Z policy inner (depth + 1)) [] 0 0 entries)"
  by pat_completeness auto

termination
  by (relation "measure (\<lambda>(Z, policy, content, depth). nat (po_max_archive_depth policy + 1 - depth))") auto

declare archive_reasons.simps [simp del]

section \<open>Admission\<close>

fun hostile_reason_value :: "hostile_reason \<Rightarrow> string" where
  "hostile_reason_value ACTIVE_CONTENT = ''ACTIVE_CONTENT''"
| "hostile_reason_value ARCHIVE_RECURSION = ''ARCHIVE_RECURSION''"
| "hostile_reason_value DECOMPRESSION_RATIO = ''DECOMPRESSION_RATIO''"
| "hostile_reason_value DIGEST_MISMATCH = ''DIGEST_MISMATCH''"
| "hostile_reason_value ENCODING_DECLARATION = ''ENCODING_DECLARATION''"
| "hostile_reason_value LENGTH_MISMATCH = ''LENGTH_MISMATCH''"
| "hostile_reason_value MALWARE_SIGNATURE = ''MALWARE_SIGNATURE''"
| "hostile_reason_value MEDIA_TYPE = ''MEDIA_TYPE''"
| "hostile_reason_value PATH_TRAVERSAL = ''PATH_TRAVERSAL''"
| "hostile_reason_value SIZE_LIMIT = ''SIZE_LIMIT''"
| "hostile_reason_value TRUNCATED = ''TRUNCATED''"

definition classified :: "hostile_reason list \<Rightarrow> hostile_classification" where
  "classified reasons = (let ordered = sort_key hostile_reason_value (remdups reasons) in
     \<lparr>hc_admitted = (ordered = []), hc_reasons = ordered\<rparr>)"

text \<open>\<^verbatim>\<open>bytes.lower()\<close>: the ASCII letters only.\<close>

definition lower_bytes :: "string \<Rightarrow> string" where
  "lower_bytes = map (\<lambda>c. if is_upper c then char_of ((of_char c :: nat) + 32) else c)"

record content_input =
  ci_body :: string
  ci_media_type :: string
  ci_max_bytes :: int
  ci_declared_length :: int
  ci_truncated :: bool
  ci_character_encoding :: string

definition transport_reasons :: "content_input \<Rightarrow> hostile_reason list" where
  "transport_reasons c =
     (if ci_max_bytes c < int (length (ci_body c)) then [SIZE_LIMIT] else [])
     @ (if ci_declared_length c \<noteq> int (length (ci_body c)) then [LENGTH_MISMATCH] else [])
     @ (if ci_truncated c then [TRUNCATED] else [])
     @ (if map lower_char (ci_character_encoding c) \<notin> {''binary'', ''utf-8''} then [ENCODING_DECLARATION] else [])"

definition body_reasons :: "content_input \<Rightarrow> hostile_reason list" where
  "body_reasons c = (let lowered = lower_bytes (ci_body c) in
     (if contains_text lowered ''eicar-standard-antivirus-test-file'' then [MALWARE_SIGNATURE] else [])
     @ (if ci_media_type c \<in> {''text/html'', ''application/xhtml+xml''}
          \<and> (contains_text lowered ''<script'' \<or> contains_text lowered ''javascript:'') then [ACTIVE_CONTENT] else [])
     @ (if ci_media_type c \<in> {''application/xml'', ''application/rss+xml'', ''application/xhtml+xml'', ''text/xml''}
          \<and> (contains_text lowered ''<!doctype'' \<or> contains_text lowered ''<!entity'') then [ACTIVE_CONTENT] else []))"

definition is_archive :: "string \<Rightarrow> bool" where
  "is_archive media_type \<longleftrightarrow> media_type \<in> {''application/zip'', ''application/x-zip-compressed''}"

definition classify_content ::
    "archive_reader \<Rightarrow> content_input \<Rightarrow> admission_policy \<Rightarrow> source_raise + hostile_classification" where
  "classify_content Z c policy = guarded
     [raise_if (ci_media_type c = []) SourceTypeError, raise_if (ci_max_bytes c < 1) SourceTypeError,
      raise_if (ci_declared_length c < 0) SourceTypeError, raise_if (ci_character_encoding c = []) SourceTypeError]
     (case (if is_archive (ci_media_type c) then archive_reasons Z policy (ci_body c) 0 else Some []) of
        None \<Rightarrow> Inl SourceFault
      | Some inner \<Rightarrow> Inr (classified (transport_reasons c @ body_reasons c @ inner)))"

definition response_input :: "synthetic_response \<Rightarrow> endpoint_contract \<Rightarrow> content_input" where
  "response_input r e = \<lparr>ci_body = sy_body r, ci_media_type = sy_media_type r, ci_max_bytes = en_max_bytes e,
     ci_declared_length = sy_declared_length r, ci_truncated = sy_truncated r,
     ci_character_encoding = sy_character_encoding r\<rparr>"

definition admit_response ::
    "archive_reader \<Rightarrow> synthetic_response \<Rightarrow> endpoint_contract \<Rightarrow> admission_policy
       \<Rightarrow> source_raise + hostile_classification" where
  "admit_response Z r e policy = and_then (classify_content Z (response_input r e) policy) (\<lambda>c. Inr (classified
     (hc_reasons c
      @ (if sy_host r \<noteq> en_allowed_host e \<or> \<not> starts_with (sy_path r) (en_allowed_path_prefix e)
         then [PATH_TRAVERSAL] else [])
      @ (if sy_redirect_host r \<notin> set (en_redirect_hosts e) then [PATH_TRAVERSAL] else [])
      @ (if sy_media_type r \<notin> set (en_media_types e) then [MEDIA_TYPE] else []))))"

section \<open>Requests\<close>

definition admit_request ::
    "source_registry \<Rightarrow> connector_request \<Rightarrow> source_raise + registered_source \<times> endpoint_contract" where
  "admit_request g q =
     and_then (resolve_source g (cq_source_id q) (cq_source_version q) (cq_endpoint_id q) (cq_endpoint_version q))
       (\<lambda>(s, e). construct
         [raise_if (gs_policy_state s \<noteq> SOURCE_CONFIGURED) SourcePermissionError,
          raise_if (gs_authorization_expires_at s < cq_observation_cutoff q) SourcePermissionError,
          raise_if (cq_rulebook_id q \<noteq> en_rulebook_id e \<or> cq_rulebook_version q \<noteq> en_rulebook_version e) SourceLookupError,
          raise_if (cq_method q \<notin> set (en_methods e)) SourcePermissionError] (s, e))"

definition contract_drift :: "synthetic_response \<Rightarrow> endpoint_contract \<Rightarrow> bool" where
  "contract_drift r e \<longleftrightarrow> sy_host r \<noteq> en_allowed_host e \<or> \<not> starts_with (sy_path r) (en_allowed_path_prefix e)
     \<or> sy_redirect_host r \<notin> set (en_redirect_hosts e) \<or> sy_media_type r \<notin> set (en_media_types e)"

definition attempts_of :: "connector_request \<Rightarrow> 'a list \<Rightarrow> 'a list" where
  "attempts_of q xs = take (nat (ry_attempt_ceiling (cq_retry_profile q))) xs"

section \<open>The watcher\<close>

definition watched ::
    "endpoint_contract \<Rightarrow> acquisition_artifact list \<Rightarrow> int \<Rightarrow> watcher_result_code \<Rightarrow> source_raise + watcher_result" where
  "watched e artifacts attempts code = new_watcher_result \<lparr>wt_code = code, wt_artifacts = artifacts,
     wt_affected_boundary = en_allowed_path_prefix e, wt_attempts = attempts\<rparr>"

definition response_code ::
    "connector_request \<Rightarrow> endpoint_contract \<Rightarrow> synthetic_response \<Rightarrow> watcher_result_code" where
  "response_code q e r =
     (if sy_status_code r = 304
      then if en_http_304_proves_no_change e then WATCHED_NO_CHANGE else WATCHED_INCOMPLETE
      else if sy_status_code r \<noteq> 200 then WATCHED_CONTRACT_CHANGED
      else if sy_signal r = cq_prior_signal q
      then if en_equal_signal_proves_no_change e then WATCHED_NO_CHANGE else WATCHED_INCOMPLETE
      else WATCHED_POSSIBLE_CHANGE)"

text \<open>The loop over the responses, with the artifacts and the number of attempts so far.\<close>

fun watch_loop ::
    "archive_reader \<Rightarrow> admission_policy \<Rightarrow> connector_request \<Rightarrow> endpoint_contract \<Rightarrow> acquisition_artifact list \<Rightarrow> int
       \<Rightarrow> synthetic_response list \<Rightarrow> source_raise + watcher_result" where
  "watch_loop Z policy q e artifacts attempts [] = watched e artifacts attempts WATCHED_UNAVAILABLE"
| "watch_loop Z policy q e artifacts attempts (r # rs) =
     and_then (admit_response Z r e policy) (\<lambda>classification.
     and_then (new_acquisition_artifact \<lparr>aq_role = ''WATCHER_ATTEMPT'', aq_response = r,
         aq_classification = classification\<rparr>) (\<lambda>artifact.
       (let seen = artifacts @ [artifact] in
        if contract_drift r e then watched e seen (attempts + 1) WATCHED_CONTRACT_CHANGED
        else if \<not> hc_admitted classification then watched e seen (attempts + 1) WATCHED_UNSAFE
        else if sy_authentication_failed r then watched e seen (attempts + 1) WATCHED_CONTRACT_CHANGED
        else if sy_transient r then watch_loop Z policy q e seen (attempts + 1) rs
        else watched e seen (attempts + 1) (response_code q e r))))"

definition watch_source ::
    "archive_reader \<Rightarrow> admission_policy \<Rightarrow> source_registry \<Rightarrow> connector_request \<Rightarrow> synthetic_response list
       \<Rightarrow> source_raise + watcher_result" where
  "watch_source Z policy g q responses = and_then (admit_request g q) (\<lambda>(s, e).
     guarded [raise_if (responses = []) SourceValueError]
       (watch_loop Z policy q e [] 0 (attempts_of q responses)))"

section \<open>The scraper\<close>

text \<open>What the loop over the pages of an attempt leaves: the artifacts and the two flags.\<close>

record page_scan =
  pn_artifacts :: "acquisition_artifact list"
  pn_unsafe :: bool
  pn_contract_changed :: bool

fun scan_pages ::
    "archive_reader \<Rightarrow> admission_policy \<Rightarrow> endpoint_contract \<Rightarrow> int \<Rightarrow> page_scan \<Rightarrow> synthetic_page list
       \<Rightarrow> source_raise + page_scan" where
  "scan_pages Z policy e index scan [] = Inr scan"
| "scan_pages Z policy e index scan (page # pages) =
     (let r = pg_response page in
      and_then (admit_response Z r e policy) (\<lambda>classification.
      and_then (new_acquisition_artifact \<lparr>aq_role = ''SCRAPER_PAGE_'' @ decimal (index + 1), aq_response = r,
          aq_classification = classification\<rparr>) (\<lambda>artifact.
      scan_pages Z policy e (index + 1)
        \<lparr>pn_artifacts = pn_artifacts scan @ [artifact],
         pn_unsafe = (pn_unsafe scan \<or> \<not> contract_drift r e \<and> \<not> hc_admitted classification),
         pn_contract_changed = (let changed = pn_contract_changed scan \<or> contract_drift r e in
           if sy_authentication_failed r \<or> sy_status_code r \<noteq> 200 then changed \<or> \<not> sy_transient r else changed)\<rparr>
        pages)))"

definition inventory_complete :: "synthetic_page list \<Rightarrow> endpoint_contract \<Rightarrow> string list \<Rightarrow> bool" where
  "inventory_complete pages e found =
     (if en_max_pages e < int (length pages) \<or> en_max_items e < int (length found) then False
      else if \<not> distinct found then False
      else case remdups (map pg_declared_total pages) of
          [declared] \<Rightarrow> declared = int (length found)
            \<and> list_all2 (\<lambda>page next_cursor. pg_next_cursor page = next_cursor) pages (map pg_cursor (tl pages) @ [''END''])
            \<and> (\<not> en_complete_inventory_required e \<or> pages \<noteq> [])
        | _ \<Rightarrow> False)"

text \<open>The variables of \<^verbatim>\<open>scrape\<close>.\<close>

record scrape_state =
  st_artifacts :: "acquisition_artifact list"
  st_attempts :: int
  st_restarts :: int
  st_members :: "string list"
  st_cursors :: "string list"
  st_total :: int

definition scraped :: "scrape_state \<Rightarrow> scraper_result_code \<Rightarrow> source_raise + scraper_result" where
  "scraped st code = new_scraper_result \<lparr>sk_code = code, sk_artifacts = st_artifacts st,
     sk_member_ids = st_members st, sk_cursors = st_cursors st, sk_declared_total = st_total st,
     sk_restart_count = st_restarts st, sk_attempts = st_attempts st\<rparr>"

definition capture_code ::
    "connector_request \<Rightarrow> endpoint_contract \<Rightarrow> synthetic_page list \<Rightarrow> scraper_result_code" where
  "capture_code q e pages =
     (if \<not> inventory_complete pages e (concat (map pg_member_ids pages)) then SCRAPED_PARTIAL
      else if list_all (\<lambda>page. sy_signal (pg_response page) = cq_prior_signal q) pages then SCRAPED_NO_CHANGE
      else SCRAPED_SNAPSHOT)"

text \<open>The loop over the attempts; \<^verbatim>\<open>given\<close> is the number of attempts passed to \<^verbatim>\<open>scrape\<close>.\<close>

fun scrape_loop ::
    "archive_reader \<Rightarrow> admission_policy \<Rightarrow> connector_request \<Rightarrow> endpoint_contract \<Rightarrow> int \<Rightarrow> scrape_state
       \<Rightarrow> synthetic_page list list \<Rightarrow> source_raise + scraper_result" where
  "scrape_loop Z policy q e given st [] = scraped st SCRAPED_UNAVAILABLE"
| "scrape_loop Z policy q e given st (pages # attempts) =
     (if pages = [] then scrape_loop Z policy q e given (st\<lparr>st_attempts := st_attempts st + 1\<rparr>) attempts
      else and_then (scan_pages Z policy e 0
          \<lparr>pn_artifacts = st_artifacts st, pn_unsafe = False, pn_contract_changed = False\<rparr> pages) (\<lambda>scan.
        (let st' = \<lparr>st_artifacts = pn_artifacts scan, st_attempts = st_attempts st + 1, st_restarts = st_restarts st,
               st_members = concat (map pg_member_ids pages), st_cursors = map pg_cursor pages,
               st_total = pg_declared_total (last pages)\<rparr>;
             restarted = st'\<lparr>st_restarts := st_restarts st + 1\<rparr> in
         if pn_unsafe scan then scraped st' SCRAPED_UNSAFE
         else if pn_contract_changed scan then scraped st' SCRAPED_CONTRACT_CHANGED
         else if list_ex (\<lambda>page. sy_transient (pg_response page)) pages
         then scrape_loop Z policy q e given st' attempts
         else if length (remdups (map pg_inventory_generation pages)) \<noteq> 1
         then if st_restarts restarted < given then scrape_loop Z policy q e given restarted attempts
           else scraped restarted SCRAPED_PARTIAL
         else scraped st' (capture_code q e pages))))"

definition scrape_source ::
    "archive_reader \<Rightarrow> admission_policy \<Rightarrow> source_registry \<Rightarrow> connector_request \<Rightarrow> synthetic_page list list
       \<Rightarrow> source_raise + scraper_result" where
  "scrape_source Z policy g q attempts = and_then (admit_request g q) (\<lambda>(s, e).
     guarded [raise_if (attempts = []) SourceValueError]
       (scrape_loop Z policy q e (int (length attempts))
         \<lparr>st_artifacts = [], st_attempts = 0, st_restarts = 0, st_members = [], st_cursors = [], st_total = 0\<rparr>
         (attempts_of q attempts)))"

end
