(* ===== verification/Acquisition.thy ===== *)
theory Acquisition
  imports SyntheticConnector OutcomeRegisters EvidencePackages
begin

text \<open>
  The acquisition service, \<^verbatim>\<open>apps/acquisition-worker/src/asklegal_acquisition_worker/service.py\<close>: a source
  is observed, what was received is written to the primary vault as an evidence package, and the
  observation is recorded once the package is in the recovery vault. The state of the service is the
  primary vault and the acquisition register.
\<close>

datatype acquisition_raise =
  FromSource source_raise | FromVault evidence_error | FromObservations outcome_error | AcquisitionValueError

text \<open>The connector: its registry and its admission policy.\<close>

record synthetic_connector =
  kn_registry :: source_registry
  kn_policy :: admission_policy

record pending_observation =
  pe_request :: connector_request
  pe_watcher :: watcher_result
  pe_scraper :: "scraper_result option"
  pe_disposition :: observation_disposition
  pe_consequence :: acquisition_consequence
  pe_package_id :: string
  pe_snapshot_id :: string
  pe_issue_id :: string
  pe_input_fingerprint :: string
  pe_manifest :: evidence_manifest
  pe_primary_manifest :: object_reference
  pe_writer :: package_writer

section \<open>Identities\<close>

definition acquisition_id :: "platform \<Rightarrow> string \<Rightarrow> string \<Rightarrow> string" where
  "acquisition_id P prefix seed = prefix @ ''_'' @ take 48 (sha256_hex P (utf8 seed))"

definition issue_id_of :: "platform \<Rightarrow> observation_disposition \<Rightarrow> string \<Rightarrow> string" where
  "issue_id_of P d observation = (case d of
     OBSERVED_COVERAGE_GAP \<Rightarrow> acquisition_id P ''cgp'' observation
   | OBSERVED_QUARANTINE \<Rightarrow> acquisition_id P ''qua'' observation
   | OBSERVED_CONTRACT_REVIEW \<Rightarrow> acquisition_id P ''scr'' observation
   | _ \<Rightarrow> [])"

definition request_values :: "connector_request \<Rightarrow> string list" where
  "request_values q = [cq_pipeline_run_id q, cq_work_item_id q, cq_observation_id q, cq_observation_cutoff q,
     cq_source_id q, cq_source_version q, cq_endpoint_id q, cq_endpoint_version q, cq_rulebook_id q,
     cq_rulebook_version q, http_method_value (cq_method q), cq_previous_observation_id q,
     cq_previous_snapshot_id q, cq_prior_signal q]"

definition input_fingerprint ::
    "platform \<Rightarrow> connector_request \<Rightarrow> synthetic_response list \<Rightarrow> synthetic_page list list \<Rightarrow> string" where
  "input_fingerprint P q responses attempts = sha256_fingerprint P
     (concat (map (\<lambda>v. utf8 v @ [CHR 0x00]) (request_values q))
      @ concat (map (\<lambda>r. sy_body r @ utf8 (sy_signal r)) responses)
      @ concat (map (\<lambda>attempt. concat (map (\<lambda>page. sy_body (pg_response page) @ utf8 (pg_cursor page)
          @ utf8 (pg_inventory_generation page)) attempt)) attempts))"

section \<open>Observation\<close>

definition observe_source ::
    "archive_reader \<Rightarrow> synthetic_connector \<Rightarrow> connector_request \<Rightarrow> synthetic_response list \<Rightarrow> synthetic_page list list
       \<Rightarrow> source_raise + watcher_result \<times> scraper_result option" where
  "observe_source Z k q responses attempts =
     and_then (watch_source Z (kn_policy k) (kn_registry k) q responses) (\<lambda>w.
       if wt_code w = WATCHED_POSSIBLE_CHANGE
       then guarded [raise_if (attempts = []) SourceValueError]
         (and_then (scrape_source Z (kn_policy k) (kn_registry k) q attempts) (\<lambda>s. Inr (w, Some s)))
       else Inr (w, None))"

fun classify_capture :: "scraper_result_code \<Rightarrow> observation_disposition \<times> acquisition_consequence" where
  "classify_capture SCRAPED_SNAPSHOT = (OBSERVED_SNAPSHOT, PROCESSING_ELIGIBLE)"
| "classify_capture SCRAPED_NO_CHANGE = (OBSERVED_NO_CHANGE, NO_CONSEQUENCE)"
| "classify_capture SCRAPED_CONTRACT_CHANGED = (OBSERVED_CONTRACT_REVIEW, NO_CONSEQUENCE)"
| "classify_capture SCRAPED_UNSAFE = (OBSERVED_QUARANTINE, NO_CONSEQUENCE)"
| "classify_capture _ = (OBSERVED_COVERAGE_GAP, NO_CONSEQUENCE)"

fun classify_observation ::
    "watcher_result_code \<Rightarrow> scraper_result_code option
       \<Rightarrow> source_raise + observation_disposition \<times> acquisition_consequence" where
  "classify_observation WATCHED_NO_CHANGE s = Inr (OBSERVED_NO_CHANGE, NO_CONSEQUENCE)"
| "classify_observation WATCHED_CONTRACT_CHANGED s = Inr (OBSERVED_CONTRACT_REVIEW, NO_CONSEQUENCE)"
| "classify_observation WATCHED_UNAVAILABLE s = Inr (OBSERVED_COVERAGE_GAP, NO_CONSEQUENCE)"
| "classify_observation WATCHED_INCOMPLETE s = Inr (OBSERVED_COVERAGE_GAP, NO_CONSEQUENCE)"
| "classify_observation WATCHED_UNSAFE s = Inr (OBSERVED_QUARANTINE, NO_CONSEQUENCE)"
| "classify_observation WATCHED_POSSIBLE_CHANGE None = Inl SourceValueError"
| "classify_observation WATCHED_POSSIBLE_CHANGE (Some code) = Inr (classify_capture code)"

section \<open>Writing the package\<close>

definition artifact_descriptor_of ::
    "platform \<Rightarrow> connector_request \<Rightarrow> retention_profile \<Rightarrow> int \<Rightarrow> acquisition_artifact \<Rightarrow> artifact_descriptor" where
  "artifact_descriptor_of P q profile index a =
     (let r = aq_response a;
          seed = cq_observation_id q @ '':'' @ aq_role a @ '':'' @ decimal index in
      \<lparr>ad_artifact_id = acquisition_id P ''art'' seed,
       ad_artifact_version_id = acquisition_id P ''evi'' (seed @ '':'' @ sha256_hex P (sy_body r)),
       ad_artifact_class = (if hc_admitted (aq_classification a) then SOURCE_CONTENT else HOSTILE_ISOLATED),
       ad_source_id = cq_source_id q, ad_observation_id = cq_observation_id q,
       ad_observation_cutoff = cq_observation_cutoff q, ad_acquired_at = cq_observation_cutoff q,
       ad_acquisition_method = http_method_value (cq_method q),
       ad_source_locator = ''https://'' @ sy_host r @ sy_path r,
       ad_declared_media_type = sy_media_type r, ad_detected_media_type = sy_media_type r,
       ad_content_encoding = sy_content_encoding r, ad_character_encoding = sy_character_encoding r,
       ad_transport_metadata = [(''declared-length'', decimal (sy_declared_length r)),
         (''status-code'', decimal (sy_status_code r))],
       ad_retention = profile\<rparr>)"

text \<open>The staging of the artifacts, in order, until one raises.\<close>

fun stage_artifacts ::
    "platform \<Rightarrow> 'p vault_interface \<Rightarrow> connector_request \<Rightarrow> retention_profile \<Rightarrow> int \<Rightarrow> acquisition_artifact list
       \<Rightarrow> package_writer \<times> 'p \<Rightarrow> (evidence_error + unit) \<times> package_writer \<times> 'p" where
  "stage_artifacts P I q profile index [] ws = (Inr (), ws)"
| "stage_artifacts P I q profile index (a # as) ws =
     (case new_artifact_descriptor (artifact_descriptor_of P q profile index a) of
        Inl e \<Rightarrow> (Inl e, ws)
      | Inr d \<Rightarrow> (case stage_content P I d (sy_body (aq_response a)) ws of
          (Inl e, ws') \<Rightarrow> (Inl e, ws')
        | (Inr entry, ws') \<Rightarrow> stage_artifacts P I q profile (index + 1) as ws'))"

definition received_artifacts :: "watcher_result \<Rightarrow> scraper_result option \<Rightarrow> acquisition_artifact list" where
  "received_artifacts w s = wt_artifacts w @ (case s of None \<Rightarrow> [] | Some s \<Rightarrow> sk_artifacts s)"

definition package_kind :: "observation_disposition \<Rightarrow> string" where
  "package_kind d = (if d = OBSERVED_SNAPSHOT then ''source-snapshot'' else ''acquisition-attempt'')"

definition write_package ::
    "platform \<Rightarrow> encoder \<Rightarrow> connector_request \<Rightarrow> retention_profile \<Rightarrow> string \<Rightarrow> string \<Rightarrow> acquisition_artifact list \<Rightarrow> vault
       \<Rightarrow> (evidence_error + package_writer \<times> evidence_manifest \<times> object_reference) \<times> vault" where
  "write_package P E q profile kind package artifacts V =
     (case new_package_writer (local_interface P E) V of
        Inl e \<Rightarrow> (Inl e, V)
      | Inr w \<Rightarrow> (case stage_artifacts P (local_interface P E) q profile 1 artifacts (w, V) of
          (Inl e, w', V') \<Rightarrow> (Inl e, V')
        | (Inr _, ws) \<Rightarrow>
            (case commit_manifest P E (local_interface P E) kind package (cq_observation_id q) profile ws of
               (Inl e, w', V') \<Rightarrow> (Inl e, V')
             | (Inr (manifest, reference), w', V') \<Rightarrow> (Inr (w', manifest, reference), V'))))"

definition prepare_observation ::
    "platform \<Rightarrow> encoder \<Rightarrow> archive_reader \<Rightarrow> synthetic_connector \<Rightarrow> retention_profile \<Rightarrow> connector_request
       \<Rightarrow> synthetic_response list \<Rightarrow> synthetic_page list list \<Rightarrow> vault
       \<Rightarrow> (acquisition_raise + pending_observation) \<times> vault" where
  "prepare_observation P E Z k profile q responses attempts V =
     (case and_then (observe_source Z k q responses attempts) (\<lambda>(w, s).
          and_then (classify_observation (wt_code w) (map_option sk_code s)) (\<lambda>(d, c). Inr (w, s, d, c))) of
        Inl e \<Rightarrow> (Inl (FromSource e), V)
      | Inr (w, s, d, c) \<Rightarrow>
          (let fingerprint = input_fingerprint P q responses attempts;
               package = acquisition_id P ''pkg'' (cq_observation_id q @ '':'' @ fingerprint) in
           case write_package P E q profile (package_kind d) package (received_artifacts w s) V of
             (Inl e, V') \<Rightarrow> (Inl (FromVault e), V')
           | (Inr (writer, manifest, reference), V') \<Rightarrow>
               (Inr \<lparr>pe_request = q, pe_watcher = w, pe_scraper = s, pe_disposition = d, pe_consequence = c,
                  pe_package_id = package,
                  pe_snapshot_id = (if d = OBSERVED_SNAPSHOT then acquisition_id P ''snp'' (cq_observation_id q) else []),
                  pe_issue_id = issue_id_of P d (cq_observation_id q), pe_input_fingerprint = fingerprint,
                  pe_manifest = manifest, pe_primary_manifest = reference, pe_writer = writer\<rparr>, V')))"

section \<open>Recording\<close>

definition observation_of :: "pending_observation \<Rightarrow> package_receipt \<Rightarrow> acquisition_observation" where
  "observation_of pending receipt =
     \<lparr>ao_observation_id = cq_observation_id (pe_request pending), ao_input_fingerprint = pe_input_fingerprint pending,
      ao_source_id = cq_source_id (pe_request pending), ao_endpoint_id = cq_endpoint_id (pe_request pending),
      ao_observation_cutoff = cq_observation_cutoff (pe_request pending),
      ao_watcher_result = watcher_code_value (wt_code (pe_watcher pending)),
      ao_scraper_result = map_option (\<lambda>s. scraper_code_value (sk_code s)) (pe_scraper pending),
      ao_disposition = disposition_code (pe_disposition pending),
      ao_consequence = consequence_value (pe_consequence pending),
      ao_evidence_package_id = pe_package_id pending,
      ao_primary_manifest_version = or_version_id (pr_primary_manifest receipt),
      ao_recovery_manifest_version = or_version_id (pr_recovery_manifest receipt),
      ao_manifest_fingerprint = or_fingerprint (pr_primary_manifest receipt),
      ao_source_snapshot_id = pe_snapshot_id pending, ao_issue_id = pe_issue_id pending\<rparr>"

definition record_after_recovery ::
    "pending_observation \<Rightarrow> package_receipt \<Rightarrow> acquisition_register
       \<Rightarrow> (acquisition_raise + acquisition_observation) \<times> acquisition_register" where
  "record_after_recovery pending receipt R =
     (case guarded [raise_if (pr_manifest receipt \<noteq> pe_manifest pending) AcquisitionValueError,
            raise_if (pr_primary_manifest receipt \<noteq> pe_primary_manifest pending) AcquisitionValueError]
          (map_sum FromObservations id (new_acquisition_observation (observation_of pending receipt))) of
        Inl e \<Rightarrow> (Inl e, R)
      | Inr entry \<Rightarrow> (case record_observation entry R of
          (Inl e, R') \<Rightarrow> (Inl (FromObservations e), R')
        | (Inr recorded, R') \<Rightarrow> (Inr recorded, R')))"

end
