(* ===== verification/ConnectorProperties.thy ===== *)
theory ConnectorProperties
  imports SyntheticConnector StrictJsonProperties "HOL-Library.Multiset"
begin

text \<open>
  What the source registry and the reference connector guarantee: what admitted content is, which
  response a watcher result rests on, what a finished capture proves, and that no source is lost in
  the accounting of outcomes.
\<close>

section \<open>Archives\<close>

text \<open>
  The reference: an archive with \<^verbatim>\<open>n\<close> levels of archives below it is clean if it can be read, no name
  escapes, it does not expand beyond the ratio, and every archive in it is clean in turn.
\<close>

definition clean_level :: "archive_reader \<Rightarrow> admission_policy \<Rightarrow> (string \<Rightarrow> bool) \<Rightarrow> string \<Rightarrow> bool" where
  "clean_level Z policy inner_clean content \<longleftrightarrow> (case Z content of
     Unzipped entries \<Rightarrow>
       list_all (\<lambda>e. \<not> escaping_name (ze_filename e)
         \<and> (nested_archive (ze_filename e) \<longrightarrow> (case ze_content e of Unzipped inner \<Rightarrow> inner_clean inner | _ \<Rightarrow> False))) entries
       \<and> sum_list (map ze_file_size entries)
           \<le> sum_list (map (\<lambda>e. max (ze_compress_size e) 1) entries) * po_max_expansion_ratio policy
   | _ \<Rightarrow> False)"

primrec clean_archive :: "archive_reader \<Rightarrow> admission_policy \<Rightarrow> nat \<Rightarrow> string \<Rightarrow> bool" where
  "clean_archive Z policy 0 = clean_level Z policy (\<lambda>_. False)"
| "clean_archive Z policy (Suc n) = clean_level Z policy (clean_archive Z policy n)"

lemma walk_clean:
  "walk_archive ratio deepest nested reasons c u es = Some [] \<longleftrightarrow> reasons = []
     \<and> list_all (\<lambda>e. \<not> escaping_name (ze_filename e)
         \<and> (nested_archive (ze_filename e) \<longrightarrow> (case ze_content e of
              Unzipped inner \<Rightarrow> \<not> deepest \<and> nested inner = Some [] | _ \<Rightarrow> False))) es
     \<and> u + sum_list (map ze_file_size es) \<le> (c + sum_list (map (\<lambda>e. max (ze_compress_size e) 1) es)) * ratio"
proof (induction es arbitrary: deepest reasons c u)
  case (Cons e es)
  show ?case
    by (cases "ze_content e") (auto simp: Cons.IH Let_def add.assoc split: option.splits cong: unzipped.case_cong)
qed auto

lemma archive_level:
  assumes "depth \<le> po_max_archive_depth policy"
  shows "archive_reasons Z policy content depth = Some [] \<longleftrightarrow> clean_level Z policy
     (\<lambda>inner. depth < po_max_archive_depth policy \<and> archive_reasons Z policy inner (depth + 1) = Some []) content"
proof -
  have "po_max_archive_depth policy \<noteq> depth \<longleftrightarrow> depth < po_max_archive_depth policy" using assms by auto
  then show ?thesis
    using assms unfolding archive_reasons.simps [of Z policy content depth] clean_level_def
    by (simp add: walk_clean not_le split: unzipped.split)
qed

lemma archive_clean:
  "depth \<le> po_max_archive_depth policy \<Longrightarrow> archive_reasons Z policy content depth = Some []
     \<longleftrightarrow> clean_archive Z policy (nat (po_max_archive_depth policy - depth)) content"
proof (induction "nat (po_max_archive_depth policy - depth)" arbitrary: depth content)
  case 0
  then have "depth = po_max_archive_depth policy" by simp
  then show ?case using archive_level [of depth policy Z content] by simp
next
  case (Suc n)
  have rest: "nat (po_max_archive_depth policy - (depth + 1)) = n" "depth + 1 \<le> po_max_archive_depth policy"
      "nat (po_max_archive_depth policy - depth) = Suc n"
    using Suc.hyps(2) by simp_all
  have "archive_reasons Z policy inner (depth + 1) = Some [] \<longleftrightarrow> clean_archive Z policy n inner" for inner
    using Suc.hyps(1) [of "depth + 1" inner] rest by simp
  then show ?case using archive_level [of depth policy Z content] rest(2) Suc.prems by (simp add: rest(3))
qed

lemma classified_admitted [simp]: "hc_admitted (classified reasons) \<longleftrightarrow> reasons = []"
proof -
  have "sort_key hostile_reason_value (remdups reasons) = [] \<longleftrightarrow> remdups reasons = []"
    by (metis length_0_conv length_sort)
  then show ?thesis by (simp add: classified_def Let_def)
qed

lemma classified_reasons [simp]: "hc_reasons (classified reasons) = [] \<longleftrightarrow> reasons = []"
  using classified_admitted [of reasons] unfolding classified_def Let_def by simp

text \<open>
  C13: exactly inert content is admitted. A body is admitted just when it is within the size limit and
  as long as declared, not truncated, of a declared encoding, carries no malware signature and, by its
  media type, no active content, and, if it is an archive, is clean down to the deepest level the
  policy allows: readable, no entry outside the target folder, no expansion beyond the ratio, and no
  further archive below that level.
\<close>

theorem admitted_content_is_inert:
  assumes "new_admission_policy policy = Inr policy" and "classify_content Z c policy = Inr classification"
  shows "hc_admitted classification \<longleftrightarrow>
    int (length (ci_body c)) \<le> ci_max_bytes c \<and> ci_declared_length c = int (length (ci_body c)) \<and> \<not> ci_truncated c
    \<and> map lower_char (ci_character_encoding c) \<in> {''binary'', ''utf-8''}
    \<and> \<not> contains_text (lower_bytes (ci_body c)) ''eicar-standard-antivirus-test-file''
    \<and> (ci_media_type c \<in> {''text/html'', ''application/xhtml+xml''} \<longrightarrow>
         \<not> contains_text (lower_bytes (ci_body c)) ''<script'' \<and> \<not> contains_text (lower_bytes (ci_body c)) ''javascript:'')
    \<and> (ci_media_type c \<in> {''application/xml'', ''application/rss+xml'', ''application/xhtml+xml'', ''text/xml''} \<longrightarrow>
         \<not> contains_text (lower_bytes (ci_body c)) ''<!doctype'' \<and> \<not> contains_text (lower_bytes (ci_body c)) ''<!entity'')
    \<and> (is_archive (ci_media_type c) \<longrightarrow> clean_archive Z policy (nat (po_max_archive_depth policy)) (ci_body c))"
proof -
  have "0 \<le> po_max_archive_depth policy" using assms(1) by (simp add: new_admission_policy_def)
  then have clean: "archive_reasons Z policy (ci_body c) 0 = Some []
      \<longleftrightarrow> clean_archive Z policy (nat (po_max_archive_depth policy)) (ci_body c)"
    using archive_clean [of 0 policy Z "ci_body c"] by simp
  obtain inner where inner: "(if is_archive (ci_media_type c) then archive_reasons Z policy (ci_body c) 0 else Some []) = Some inner"
      and classification: "classification = classified (transport_reasons c @ body_reasons c @ inner)"
    using assms(2) by (auto simp: classify_content_def guarded_Inr split: option.splits)
  have "inner = [] \<longleftrightarrow> (is_archive (ci_media_type c) \<longrightarrow> clean_archive Z policy (nat (po_max_archive_depth policy)) (ci_body c))"
    using inner clean by (auto split: if_splits)
  moreover have "transport_reasons c = [] \<longleftrightarrow> int (length (ci_body c)) \<le> ci_max_bytes c
      \<and> ci_declared_length c = int (length (ci_body c)) \<and> \<not> ci_truncated c
      \<and> map lower_char (ci_character_encoding c) \<in> {''binary'', ''utf-8''}"
    by (simp add: transport_reasons_def not_less)
  moreover have "body_reasons c = [] \<longleftrightarrow>
      \<not> contains_text (lower_bytes (ci_body c)) ''eicar-standard-antivirus-test-file''
    \<and> (ci_media_type c \<in> {''text/html'', ''application/xhtml+xml''} \<longrightarrow>
         \<not> contains_text (lower_bytes (ci_body c)) ''<script'' \<and> \<not> contains_text (lower_bytes (ci_body c)) ''javascript:'')
    \<and> (ci_media_type c \<in> {''application/xml'', ''application/rss+xml'', ''application/xhtml+xml'', ''text/xml''} \<longrightarrow>
         \<not> contains_text (lower_bytes (ci_body c)) ''<!doctype'' \<and> \<not> contains_text (lower_bytes (ci_body c)) ''<!entity'')"
    unfolding body_reasons_def Let_def append_is_Nil_conv by auto
  ultimately show ?thesis unfolding classification classified_admitted append_is_Nil_conv by (simp only: conj_assoc)
qed

section \<open>Watching\<close>

definition admitted_by :: "archive_reader \<Rightarrow> admission_policy \<Rightarrow> endpoint_contract \<Rightarrow> synthetic_response \<Rightarrow> bool" where
  "admitted_by Z policy e r \<longleftrightarrow> (case admit_response Z r e policy of Inr c \<Rightarrow> hc_admitted c | Inl _ \<Rightarrow> False)"

text \<open>Artifacts that carry the classification their response has.\<close>

definition truly_classified ::
    "archive_reader \<Rightarrow> admission_policy \<Rightarrow> endpoint_contract \<Rightarrow> acquisition_artifact list \<Rightarrow> bool" where
  "truly_classified Z policy e artifacts \<longleftrightarrow>
     list_all (\<lambda>a. admit_response Z (aq_response a) e policy = Inr (aq_classification a)) artifacts"

lemma admitted_conforms: "admitted_by Z policy e r \<Longrightarrow> \<not> contract_drift r e"
  by (auto simp: admitted_by_def admit_response_def contract_drift_def and_then_Inr split: sum.splits if_splits)

lemma classified_as_admitted:
  "admit_response Z r e policy = Inr c \<Longrightarrow> hc_admitted c \<longleftrightarrow> admitted_by Z policy e r"
  by (simp add: admitted_by_def)

text \<open>A response that lets the watcher go on, and the code of one that does not.\<close>

definition passing :: "archive_reader \<Rightarrow> admission_policy \<Rightarrow> endpoint_contract \<Rightarrow> synthetic_response \<Rightarrow> bool" where
  "passing Z policy e r \<longleftrightarrow> admitted_by Z policy e r \<and> \<not> sy_authentication_failed r \<and> sy_transient r"

definition conclusion ::
    "archive_reader \<Rightarrow> admission_policy \<Rightarrow> connector_request \<Rightarrow> endpoint_contract \<Rightarrow> synthetic_response
       \<Rightarrow> watcher_result_code" where
  "conclusion Z policy q e r =
     (if contract_drift r e then WATCHED_CONTRACT_CHANGED
      else if \<not> admitted_by Z policy e r then WATCHED_UNSAFE
      else if sy_authentication_failed r then WATCHED_CONTRACT_CHANGED
      else response_code q e r)"

lemma watched_Inr:
  "watched e artifacts attempts code = Inr w \<Longrightarrow> wt_code w = code \<and> wt_artifacts w = artifacts \<and> wt_attempts w = attempts"
  by (auto simp: watched_def new_watcher_result_def)

lemma watch_loop_Inr:
  "watch_loop Z policy q e artifacts n rs = Inr w \<Longrightarrow>
     \<exists>seen rest added. rs = seen @ rest \<and> wt_artifacts w = artifacts @ added \<and> map aq_response added = seen
       \<and> truly_classified Z policy e added \<and> wt_attempts w = n + int (length seen)
       \<and> (wt_code w = WATCHED_UNAVAILABLE \<and> rest = [] \<and> list_all (passing Z policy e) seen
          \<or> (\<exists>earlier r. seen = earlier @ [r] \<and> list_all (passing Z policy e) earlier \<and> \<not> passing Z policy e r
               \<and> wt_code w = conclusion Z policy q e r))"
proof (induction rs arbitrary: artifacts n)
  case Nil
  then show ?case by (auto dest!: watched_Inr simp: truly_classified_def)
next
  case (Cons r rs)
  obtain c where c: "admit_response Z r e policy = Inr c" using Cons.prems by (auto simp: and_then_Inr)
  let ?a = "\<lparr>aq_role = ''WATCHER_ATTEMPT'', aq_response = r, aq_classification = c\<rparr>"
  have a: "new_acquisition_artifact ?a = Inr ?a" using Cons.prems by (auto simp: c new_acquisition_artifact_def)
  note adm = classified_as_admitted [OF c]
  show ?case
  proof (cases "passing Z policy e r")
    case True
    then have "watch_loop Z policy q e (artifacts @ [?a]) (n + 1) rs = Inr w"
      using Cons.prems adm admitted_conforms [of Z policy e r] by (simp add: c a passing_def Let_def)
    from Cons.IH [OF this] obtain seen rest added where ih: "rs = seen @ rest" "wt_artifacts w = (artifacts @ [?a]) @ added"
        "map aq_response added = seen" "truly_classified Z policy e added" "wt_attempts w = n + 1 + int (length seen)"
        "wt_code w = WATCHED_UNAVAILABLE \<and> rest = [] \<and> list_all (passing Z policy e) seen
          \<or> (\<exists>earlier r. seen = earlier @ [r] \<and> list_all (passing Z policy e) earlier \<and> \<not> passing Z policy e r
               \<and> wt_code w = conclusion Z policy q e r)" by blast
    have "wt_code w = WATCHED_UNAVAILABLE \<and> rest = [] \<and> list_all (passing Z policy e) (r # seen)
          \<or> (\<exists>earlier r'. r # seen = earlier @ [r'] \<and> list_all (passing Z policy e) earlier \<and> \<not> passing Z policy e r'
               \<and> wt_code w = conclusion Z policy q e r')"
      using ih(6) True by (metis append_Cons list.pred_inject(2))
    then show ?thesis using ih(1-5) c
      by (intro exI [of _ "r # seen"] exI [of _ rest] exI [of _ "?a # added"]) (simp add: truly_classified_def)
  next
    case False
    have "watched e (artifacts @ [?a]) (n + 1) (conclusion Z policy q e r) = Inr w"
      using Cons.prems adm False unfolding conclusion_def by (simp add: c a passing_def Let_def split: if_splits)
    then show ?thesis using False c by (intro exI [of _ "[r]"] exI [of _ rs] exI [of _ "[?a]"])
      (auto dest!: watched_Inr simp: truly_classified_def)
  qed
qed

section \<open>Scraping\<close>

text \<open>What a finished capture proves of its pages.\<close>

definition complete_capture ::
    "archive_reader \<Rightarrow> admission_policy \<Rightarrow> endpoint_contract \<Rightarrow> synthetic_page list \<Rightarrow> bool" where
  "complete_capture Z policy e pages \<longleftrightarrow>
     pages \<noteq> []
     \<and> (\<forall>page \<in> set pages. admitted_by Z policy e (pg_response page) \<and> sy_status_code (pg_response page) = 200
          \<and> \<not> sy_authentication_failed (pg_response page) \<and> \<not> sy_transient (pg_response page)
          \<and> pg_inventory_generation page = pg_inventory_generation (hd pages)
          \<and> pg_declared_total page = int (length (concat (map pg_member_ids pages))))
     \<and> distinct (concat (map pg_member_ids pages))
     \<and> int (length pages) \<le> en_max_pages e \<and> int (length (concat (map pg_member_ids pages))) \<le> en_max_items e
     \<and> (\<forall>i < length pages. pg_next_cursor (pages ! i) = (if i + 1 = length pages then ''END'' else pg_cursor (pages ! (i + 1))))"

lemma remdups_same: "xs \<noteq> [] \<Longrightarrow> \<forall>x \<in> set xs. f x = v \<Longrightarrow> remdups (map f xs) = [v]"
proof (induction xs)
  case (Cons x xs)
  then show ?case by (cases xs) auto
qed simp

lemma remdups_singleton: "remdups (map f xs) = [v] \<longleftrightarrow> xs \<noteq> [] \<and> (\<forall>x \<in> set xs. f x = v)"
proof
  assume "remdups (map f xs) = [v]"
  then have "f ` set xs = {v}" by (metis list.set(1,2) list.set_map set_remdups)
  then show "xs \<noteq> [] \<and> (\<forall>x \<in> set xs. f x = v)" by auto
qed (blast intro: remdups_same)

lemma one_value: "length (remdups (map f xs)) = 1 \<longleftrightarrow> xs \<noteq> [] \<and> (\<forall>x \<in> set xs. f x = f (hd xs))"
proof -
  have "length (remdups (map f xs)) = 1 \<longleftrightarrow> (\<exists>v. remdups (map f xs) = [v])" by (auto simp: length_Suc_conv)
  also have "\<dots> \<longleftrightarrow> xs \<noteq> [] \<and> (\<forall>x \<in> set xs. f x = f (hd xs))"
    unfolding remdups_singleton using hd_in_set by metis
  finally show ?thesis .
qed

lemma next_cursors:
  "list_all2 (\<lambda>page next_cursor. pg_next_cursor page = next_cursor) pages (map pg_cursor (tl pages) @ [''END''])
     \<longleftrightarrow> pages \<noteq> [] \<and> (\<forall>i < length pages. pg_next_cursor (pages ! i)
            = (if i + 1 = length pages then ''END'' else pg_cursor (pages ! (i + 1))))"
  by (cases pages) (auto simp: list_all2_conv_all_nth nth_append less_Suc_eq)

lemma inventory_complete_iff:
  "inventory_complete pages e found \<longleftrightarrow> pages \<noteq> [] \<and> distinct found
     \<and> int (length pages) \<le> en_max_pages e \<and> int (length found) \<le> en_max_items e
     \<and> (\<forall>page \<in> set pages. pg_declared_total page = int (length found))
     \<and> (\<forall>i < length pages. pg_next_cursor (pages ! i)
          = (if i + 1 = length pages then ''END'' else pg_cursor (pages ! (i + 1))))"
proof -
  have "(case remdups (map pg_declared_total pages) of
          [declared] \<Rightarrow> declared = int (length found)
            \<and> list_all2 (\<lambda>page next_cursor. pg_next_cursor page = next_cursor) pages (map pg_cursor (tl pages) @ [''END''])
            \<and> (\<not> en_complete_inventory_required e \<or> pages \<noteq> [])
        | _ \<Rightarrow> False)
     \<longleftrightarrow> remdups (map pg_declared_total pages) = [int (length found)]
       \<and> list_all2 (\<lambda>page next_cursor. pg_next_cursor page = next_cursor) pages (map pg_cursor (tl pages) @ [''END''])
       \<and> (\<not> en_complete_inventory_required e \<or> pages \<noteq> [])"
    by (cases "remdups (map pg_declared_total pages)"; cases "tl (remdups (map pg_declared_total pages))") auto
  then show ?thesis
    unfolding inventory_complete_def by (auto simp: remdups_singleton next_cursors simp del: map_append)
qed

lemma scan_pages_Inr:
  "scan_pages Z policy e index scan pages = Inr scan' \<Longrightarrow>
     (\<exists>added. pn_artifacts scan' = pn_artifacts scan @ added \<and> map aq_response added = map pg_response pages
        \<and> truly_classified Z policy e added)
     \<and> (pn_unsafe scan' \<longleftrightarrow> pn_unsafe scan
          \<or> (\<exists>page \<in> set pages. \<not> contract_drift (pg_response page) e \<and> \<not> admitted_by Z policy e (pg_response page)))
     \<and> (pn_contract_changed scan' \<longleftrightarrow> pn_contract_changed scan
          \<or> (\<exists>page \<in> set pages. contract_drift (pg_response page) e
              \<or> (sy_authentication_failed (pg_response page) \<or> sy_status_code (pg_response page) \<noteq> 200)
                \<and> \<not> sy_transient (pg_response page)))"
proof (induction pages arbitrary: index scan)
  case Nil
  then show ?case by (auto simp: truly_classified_def)
next
  case (Cons page pages)
  obtain c where c: "admit_response Z (pg_response page) e policy = Inr c"
    using Cons.prems by (auto simp: and_then_Inr Let_def)
  let ?a = "\<lparr>aq_role = ''SCRAPER_PAGE_'' @ decimal (index + 1), aq_response = pg_response page, aq_classification = c\<rparr>"
  obtain scan1 where scan1: "scan_pages Z policy e (index + 1) scan1 pages = Inr scan'"
      "pn_artifacts scan1 = pn_artifacts scan @ [?a]"
      "pn_unsafe scan1 \<longleftrightarrow> pn_unsafe scan \<or> \<not> contract_drift (pg_response page) e \<and> \<not> admitted_by Z policy e (pg_response page)"
      "pn_contract_changed scan1 \<longleftrightarrow> pn_contract_changed scan \<or> contract_drift (pg_response page) e
        \<or> (sy_authentication_failed (pg_response page) \<or> sy_status_code (pg_response page) \<noteq> 200)
          \<and> \<not> sy_transient (pg_response page)"
    using Cons.prems by (auto simp: c Let_def classified_as_admitted [OF c] new_acquisition_artifact_def)
  from Cons.IH [OF scan1(1)] obtain added where added: "pn_artifacts scan' = pn_artifacts scan1 @ added"
      "map aq_response added = map pg_response pages" "truly_classified Z policy e added" by blast
  have "pn_artifacts scan' = pn_artifacts scan @ ?a # added \<and> map aq_response (?a # added) = map pg_response (page # pages)
      \<and> truly_classified Z policy e (?a # added)"
    using added scan1(2) c by (simp add: truly_classified_def)
  moreover note Cons.IH [OF scan1(1), THEN conjunct2]
  ultimately show ?case by (auto simp: scan1(3,4))
qed

lemma scraped_Inr:
  "scraped st code = Inr s \<Longrightarrow> sk_code s = code \<and> sk_artifacts s = st_artifacts st \<and> sk_member_ids s = st_members st
     \<and> sk_restart_count s = st_restarts st \<and> sk_attempts s = st_attempts st"
  by (auto simp: scraped_def new_scraper_result_def)

lemma capture_code_complete:
  assumes "\<forall>page \<in> set pages. admitted_by Z policy e (pg_response page) \<and> sy_status_code (pg_response page) = 200
      \<and> \<not> sy_authentication_failed (pg_response page) \<and> \<not> sy_transient (pg_response page)"
    and "length (remdups (map pg_inventory_generation pages)) = 1"
  shows "capture_code q e pages = (if \<not> complete_capture Z policy e pages then SCRAPED_PARTIAL
    else if list_all (\<lambda>page. sy_signal (pg_response page) = cq_prior_signal q) pages then SCRAPED_NO_CHANGE
    else SCRAPED_SNAPSHOT)"
proof -
  have "inventory_complete pages e (concat (map pg_member_ids pages)) \<longleftrightarrow> complete_capture Z policy e pages"
    using assms unfolding inventory_complete_iff complete_capture_def one_value by blast
  then show ?thesis by (simp add: capture_code_def)
qed

text \<open>An attempt whose pages are neither unsafe nor off contract.\<close>

lemma scanned_clean:
  assumes "scan_pages Z policy e index \<lparr>pn_artifacts = artifacts, pn_unsafe = False, pn_contract_changed = False\<rparr> pages = Inr scan"
    and "\<not> pn_unsafe scan" and "\<not> pn_contract_changed scan"
  obtains added where "pn_artifacts scan = artifacts @ added" and "map aq_response added = map pg_response pages"
    and "truly_classified Z policy e added" and "\<forall>page \<in> set pages. admitted_by Z policy e (pg_response page)"
    and "\<forall>page \<in> set pages. \<not> sy_transient (pg_response page) \<longrightarrow>
      sy_status_code (pg_response page) = 200 \<and> \<not> sy_authentication_failed (pg_response page)"
proof -
  note scan = scan_pages_Inr [OF assms(1)]
  show ?thesis using that scan assms(2,3) by (simp, blast)
qed

definition finished_capture ::
    "archive_reader \<Rightarrow> admission_policy \<Rightarrow> connector_request \<Rightarrow> endpoint_contract \<Rightarrow> synthetic_page list list
       \<Rightarrow> acquisition_artifact list \<Rightarrow> scraper_result \<Rightarrow> bool" where
  "finished_capture Z policy q e attempts added s \<longleftrightarrow> (\<exists>earlier pages later. attempts = earlier @ pages # later
     \<and> complete_capture Z policy e pages \<and> map aq_response added = map pg_response (concat earlier @ pages)
     \<and> list_all (\<lambda>a. admitted_by Z policy e (aq_response a)) added
     \<and> sk_member_ids s = concat (map pg_member_ids pages)
     \<and> (sk_code s = SCRAPED_NO_CHANGE \<longleftrightarrow>
          list_all (\<lambda>page. sy_signal (pg_response page) = cq_prior_signal q) pages))"

lemma all_admitted:
  assumes "map aq_response added = map pg_response pages" and "\<forall>page \<in> set pages. admitted_by Z policy e (pg_response page)"
  shows "list_all (\<lambda>a. admitted_by Z policy e (aq_response a)) added"
proof -
  have "list_all (admitted_by Z policy e) (map aq_response added)" using assms by (simp add: list_all_iff)
  then show ?thesis by (simp add: list.pred_map comp_def)
qed

lemma finished_later:
  assumes "finished_capture Z policy q e attempts added s" and "map aq_response added' = map pg_response pages"
    and "\<forall>page \<in> set pages. admitted_by Z policy e (pg_response page)"
  shows "finished_capture Z policy q e (pages # attempts) (added' @ added) s"
proof -
  have "list_all (\<lambda>a. admitted_by Z policy e (aq_response a)) added'" by (rule all_admitted [OF assms(2,3)])
  moreover obtain earlier now later where now: "attempts = earlier @ now # later"
      "complete_capture Z policy e now" "map aq_response added = map pg_response (concat earlier @ now)"
      "list_all (\<lambda>a. admitted_by Z policy e (aq_response a)) added" "sk_member_ids s = concat (map pg_member_ids now)"
      "sk_code s = SCRAPED_NO_CHANGE \<longleftrightarrow> list_all (\<lambda>page. sy_signal (pg_response page) = cq_prior_signal q) now"
    using assms(1) unfolding finished_capture_def by blast
  ultimately show ?thesis
    unfolding finished_capture_def using now assms(2)
    by (intro exI [of _ "pages # earlier"] exI [of _ now] exI [of _ later]) simp
qed

lemma scrape_loop_Inr:
  "scrape_loop Z policy q e given st attempts = Inr s \<Longrightarrow>
     \<exists>added. sk_artifacts s = st_artifacts st @ added \<and> truly_classified Z policy e added
       \<and> (sk_code s \<in> {SCRAPED_SNAPSHOT, SCRAPED_NO_CHANGE} \<longrightarrow> finished_capture Z policy q e attempts added s)"
proof (induction attempts arbitrary: st)
  case Nil
  then show ?case by (auto dest!: scraped_Inr simp: truly_classified_def)
next
  case (Cons pages attempts)
  show ?case
  proof (cases "pages = []")
    case True
    then have "scrape_loop Z policy q e given (st\<lparr>st_attempts := st_attempts st + 1\<rparr>) attempts = Inr s"
      using Cons.prems by simp
    from Cons.IH [OF this] obtain added where added: "sk_artifacts s = st_artifacts st @ added" "truly_classified Z policy e added"
        "sk_code s \<in> {SCRAPED_SNAPSHOT, SCRAPED_NO_CHANGE} \<longrightarrow> finished_capture Z policy q e attempts added s" by auto
    then show ?thesis using finished_later [of Z policy q e attempts added s "[]" "[]"] True by auto
  next
    case False
    obtain scan where scan: "scan_pages Z policy e 0
        \<lparr>pn_artifacts = st_artifacts st, pn_unsafe = False, pn_contract_changed = False\<rparr> pages = Inr scan"
      using Cons.prems False by (auto simp: and_then_Inr)
    show ?thesis
    proof (cases "pn_unsafe scan \<or> pn_contract_changed scan")
      case True
      then have "sk_code s \<in> {SCRAPED_UNSAFE, SCRAPED_CONTRACT_CHANGED} \<and> sk_artifacts s = pn_artifacts scan"
        using Cons.prems False by (auto simp: scan Let_def dest!: scraped_Inr split: if_splits)
      then show ?thesis using scan_pages_Inr [OF scan] by auto
    next
      case clean: False
      obtain added where added: "pn_artifacts scan = st_artifacts st @ added" "map aq_response added = map pg_response pages"
          "truly_classified Z policy e added" "\<forall>page \<in> set pages. admitted_by Z policy e (pg_response page)"
          "\<forall>page \<in> set pages. \<not> sy_transient (pg_response page) \<longrightarrow>
            sy_status_code (pg_response page) = 200 \<and> \<not> sy_authentication_failed (pg_response page)"
        using scanned_clean [OF scan] clean by blast
      have on: "\<exists>added. sk_artifacts s = st_artifacts st @ added \<and> truly_classified Z policy e added
          \<and> (sk_code s \<in> {SCRAPED_SNAPSHOT, SCRAPED_NO_CHANGE} \<longrightarrow> finished_capture Z policy q e (pages # attempts) added s)"
        if "scrape_loop Z policy q e given st' attempts = Inr s" "st_artifacts st' = pn_artifacts scan" for st'
      proof -
        from Cons.IH [OF that(1)] obtain later where "sk_artifacts s = st_artifacts st' @ later" "truly_classified Z policy e later"
            "sk_code s \<in> {SCRAPED_SNAPSHOT, SCRAPED_NO_CHANGE} \<longrightarrow> finished_capture Z policy q e attempts later s" by blast
        then show ?thesis using that(2) added finished_later [OF _ added(2,4)]
          by (intro exI [of _ "added @ later"]) (auto simp: truly_classified_def)
      qed
      let ?st = "\<lparr>st_artifacts = pn_artifacts scan, st_attempts = st_attempts st + 1, st_restarts = st_restarts st,
          st_members = concat (map pg_member_ids pages), st_cursors = map pg_cursor pages,
          st_total = pg_declared_total (last pages)\<rparr>"
      consider (next_attempt) st' where "scrape_loop Z policy q e given st' attempts = Inr s" "st_artifacts st' = pn_artifacts scan"
        | (partial) "sk_code s = SCRAPED_PARTIAL" "sk_artifacts s = pn_artifacts scan"
        | (final) "scraped ?st (capture_code q e pages) = Inr s"
            "\<not> list_ex (\<lambda>page. sy_transient (pg_response page)) pages" "length (remdups (map pg_inventory_generation pages)) = 1"
        using Cons.prems False clean by (auto simp: scan Let_def dest: scraped_Inr split: if_splits)
      then show ?thesis
      proof cases
        case next_attempt
        then show ?thesis by (rule on)
      next
        case partial
        then show ?thesis using added by auto
      next
        case final
        have "\<forall>page \<in> set pages. admitted_by Z policy e (pg_response page) \<and> sy_status_code (pg_response page) = 200
            \<and> \<not> sy_authentication_failed (pg_response page) \<and> \<not> sy_transient (pg_response page)"
          using added(4,5) final(2) by (auto simp: list_ex_iff)
        note code = capture_code_complete [OF this final(3), of q]
        have s: "sk_code s = capture_code q e pages" "sk_artifacts s = st_artifacts st @ added"
            "sk_member_ids s = concat (map pg_member_ids pages)"
          using scraped_Inr [OF final(1)] added(1) by simp_all
        have all: "list_all (\<lambda>a. admitted_by Z policy e (aq_response a)) added"
          by (rule all_admitted [OF added(2,4)])
        have "finished_capture Z policy q e (pages # attempts) added s"
          if "sk_code s \<in> {SCRAPED_SNAPSHOT, SCRAPED_NO_CHANGE}"
        proof -
          have c: "complete_capture Z policy e pages" "sk_code s = SCRAPED_NO_CHANGE
              \<longleftrightarrow> list_all (\<lambda>page. sy_signal (pg_response page) = cq_prior_signal q) pages"
            using that unfolding s(1) code by (simp_all split: if_splits)
          show ?thesis unfolding finished_capture_def
            by (rule exI [of _ "[]"], rule exI [of _ pages], rule exI [of _ attempts]) (simp add: c s(3) all added(2))
        qed
        then show ?thesis using s(2) added(3) by blast
      qed
    qed
  qed
qed

section \<open>Restarts\<close>

lemma page_role_exact: "is_exact_text (''SCRAPER_PAGE_'' @ decimal i)" if "0 \<le> i"
proof -
  have digits: "list_all is_digit (decimal_nat (nat i))" "decimal_nat (nat i) \<noteq> []" by (rule decimal_nat_digits)+
  then have "is_digit (last (decimal_nat (nat i)))" by (simp add: list_all_iff)
  then have "\<not> is_space (last (decimal_nat (nat i)))" by (auto simp: char_class_defs is_space_def Let_def)
  then show ?thesis using that digits(2) by (simp add: is_exact_text_iff decimal_def) (simp add: is_space_def)
qed

lemma scan_pages_total:
  "0 \<le> index \<Longrightarrow> \<forall>page \<in> set pages. admitted_by Z policy e (pg_response page) \<Longrightarrow> \<exists>scan'. scan_pages Z policy e index scan pages = Inr scan'"
proof (induction pages arbitrary: index scan)
  case (Cons page pages)
  obtain c where c: "admit_response Z (pg_response page) e policy = Inr c"
    using Cons.prems(2) by (auto simp: admitted_by_def split: sum.splits)
  show ?case using Cons.IH [of "index + 1"] Cons.prems page_role_exact [of "index + 1"]
    by (simp add: c Let_def new_acquisition_artifact_def construct_def source_text_def raise_if_def)
qed simp

text \<open>An attempt in which the inventory of the source moved on, and nothing else went wrong.\<close>

definition moving_capture ::
    "archive_reader \<Rightarrow> admission_policy \<Rightarrow> endpoint_contract \<Rightarrow> synthetic_page list \<Rightarrow> bool" where
  "moving_capture Z policy e pages \<longleftrightarrow>
     (\<exists>page \<in> set pages. pg_inventory_generation page \<noteq> pg_inventory_generation (hd pages))
     \<and> (\<forall>page \<in> set pages. admitted_by Z policy e (pg_response page) \<and> sy_status_code (pg_response page) = 200
          \<and> \<not> sy_authentication_failed (pg_response page) \<and> \<not> sy_transient (pg_response page))"

lemma scanned_total:
  assumes "\<forall>page \<in> set pages. admitted_by Z policy e (pg_response page) \<and> sy_status_code (pg_response page) = 200
      \<and> \<not> sy_authentication_failed (pg_response page) \<and> \<not> sy_transient (pg_response page)"
  obtains scan where "scan_pages Z policy e 0 \<lparr>pn_artifacts = artifacts, pn_unsafe = False, pn_contract_changed = False\<rparr> pages = Inr scan"
    and "\<not> pn_unsafe scan" and "\<not> pn_contract_changed scan" and "length (pn_artifacts scan) = length artifacts + length pages"
proof -
  obtain scan where scan: "scan_pages Z policy e 0 \<lparr>pn_artifacts = artifacts, pn_unsafe = False, pn_contract_changed = False\<rparr> pages = Inr scan"
    using scan_pages_total [of 0 pages Z policy e] assms by fastforce
  note facts = scan_pages_Inr [OF scan]
  have "\<not> pn_unsafe scan" "\<not> pn_contract_changed scan"
    using facts assms admitted_conforms by fastforce+
  moreover have "length (pn_artifacts scan) = length artifacts + length pages"
    using facts by (auto dest: map_eq_imp_length_eq)
  ultimately show ?thesis using that scan by blast
qed

text \<open>What an attempt does that finds the inventory moving.\<close>

lemma moving_step:
  assumes "moving_capture Z policy e pages" and "0 \<le> st_attempts st" and "0 \<le> st_restarts st"
  obtains st' where "st_artifacts st' \<noteq> []" and "st_restarts st' = st_restarts st + 1" and "st_attempts st' = st_attempts st + 1"
    and "0 \<le> st_total st' \<longleftrightarrow> 0 \<le> pg_declared_total (last pages)"
    and "\<And>attempts. scrape_loop Z policy q e given st (pages # attempts) =
      (if st_restarts st' < given then scrape_loop Z policy q e given st' attempts else scraped st' SCRAPED_PARTIAL)"
proof -
  have clean: "\<forall>page \<in> set pages. admitted_by Z policy e (pg_response page) \<and> sy_status_code (pg_response page) = 200
      \<and> \<not> sy_authentication_failed (pg_response page) \<and> \<not> sy_transient (pg_response page)"
    and pages: "pages \<noteq> []" and moving: "length (remdups (map pg_inventory_generation pages)) \<noteq> 1"
    using assms(1) unfolding moving_capture_def one_value by auto
  obtain scan where scan: "scan_pages Z policy e 0 \<lparr>pn_artifacts = st_artifacts st, pn_unsafe = False, pn_contract_changed = False\<rparr> pages = Inr scan"
      "\<not> pn_unsafe scan" "\<not> pn_contract_changed scan" "length (pn_artifacts scan) = length (st_artifacts st) + length pages"
    using scanned_total [OF clean] by blast
  let ?next = "\<lparr>st_artifacts = pn_artifacts scan, st_attempts = st_attempts st + 1, st_restarts = st_restarts st + 1,
     st_members = concat (map pg_member_ids pages), st_cursors = map pg_cursor pages, st_total = pg_declared_total (last pages)\<rparr>"
  have "pn_artifacts scan \<noteq> []" using scan(4) pages by auto
  moreover have "scrape_loop Z policy q e given st (pages # attempts) =
      (if st_restarts ?next < given then scrape_loop Z policy q e given ?next attempts else scraped ?next SCRAPED_PARTIAL)" for attempts
    using clean pages scan moving by (simp add: Let_def list_ex_iff)
  ultimately show ?thesis using that [of ?next] by simp
qed

lemma restarts_continue:
  assumes "complete_capture Z policy e pages" and "int (length attempts) + st_restarts st < given"
    and "0 \<le> st_restarts st" and "0 \<le> st_attempts st"
  shows "list_all (moving_capture Z policy e) attempts \<Longrightarrow>
    \<exists>s. scrape_loop Z policy q e given st (attempts @ [pages]) = Inr s
      \<and> sk_code s = (if list_all (\<lambda>page. sy_signal (pg_response page) = cq_prior_signal q) pages then SCRAPED_NO_CHANGE
          else SCRAPED_SNAPSHOT)
      \<and> sk_restart_count s = st_restarts st + int (length attempts)"
  using assms(2-4)
proof (induction attempts arbitrary: st)
  case Nil
  have clean: "\<forall>page \<in> set pages. admitted_by Z policy e (pg_response page) \<and> sy_status_code (pg_response page) = 200
      \<and> \<not> sy_authentication_failed (pg_response page) \<and> \<not> sy_transient (pg_response page)"
    and pages: "pages \<noteq> []" and generation: "length (remdups (map pg_inventory_generation pages)) = 1"
    using assms(1) unfolding complete_capture_def one_value by blast+
  obtain scan where scan: "scan_pages Z policy e 0 \<lparr>pn_artifacts = st_artifacts st, pn_unsafe = False, pn_contract_changed = False\<rparr> pages = Inr scan"
      "\<not> pn_unsafe scan" "\<not> pn_contract_changed scan" "length (pn_artifacts scan) = length (st_artifacts st) + length pages"
    using scanned_total [OF clean] by blast
  have declared: "0 \<le> pg_declared_total (last pages)"
    using assms(1) last_in_set [OF pages] unfolding complete_capture_def by simp
  have "pn_artifacts scan \<noteq> []" using scan(4) pages by auto
  then show ?case
    using clean pages scan(1-3) generation declared Nil.prems assms(1) capture_code_complete [OF clean generation, of q]
    by (auto simp: Let_def list_ex_iff scraped_def new_scraper_result_def source_positive_def construct_def raise_if_def)
next
  case (Cons attempt attempts)
  have moving: "moving_capture Z policy e attempt" using Cons.prems(1) by simp
  obtain st' where st': "st_restarts st' = st_restarts st + 1" "st_attempts st' = st_attempts st + 1"
      "scrape_loop Z policy q e given st (attempt # (attempts @ [pages]))
        = (if st_restarts st' < given then scrape_loop Z policy q e given st' (attempts @ [pages]) else scraped st' SCRAPED_PARTIAL)"
    using moving_step [OF moving Cons.prems(4,3), of q given] by metis
  then have "scrape_loop Z policy q e given st (attempt # (attempts @ [pages])) = scrape_loop Z policy q e given st' (attempts @ [pages])"
    using Cons.prems(2) by simp
  then show ?case using Cons.IH [of st'] Cons.prems by (simp add: st'(1,2) add.commute add.left_commute)
qed

lemma moving_loop:
  assumes "list_all (moving_capture Z policy e) attempts"
    and "list_all (list_all (\<lambda>page. new_synthetic_page page = Inr page)) attempts"
    and "int (length attempts) + st_restarts st \<le> given" and "0 \<le> st_restarts st" and "0 \<le> st_attempts st"
    and "attempts = [] \<Longrightarrow> st_artifacts st \<noteq> [] \<and> 0 \<le> st_total st \<and> 0 < st_attempts st"
  shows "\<exists>r. scrape_loop Z policy q e given st attempts = Inr r \<and> sk_restart_count r = st_restarts st + int (length attempts)
    \<and> sk_attempts r = st_attempts st + int (length attempts)
    \<and> sk_code r = (if attempts \<noteq> [] \<and> int (length attempts) + st_restarts st = given then SCRAPED_PARTIAL else SCRAPED_UNAVAILABLE)"
  using assms
proof (induction attempts arbitrary: st)
  case Nil
  then show ?case by (simp add: scraped_def new_scraper_result_def source_positive_def construct_def raise_if_def)
next
  case (Cons attempt attempts)
  have moving: "moving_capture Z policy e attempt" using Cons.prems(1) by simp
  obtain st' where st': "st_artifacts st' \<noteq> []" "st_restarts st' = st_restarts st + 1" "st_attempts st' = st_attempts st + 1"
      "0 \<le> st_total st' \<longleftrightarrow> 0 \<le> pg_declared_total (last attempt)"
      "scrape_loop Z policy q e given st (attempt # attempts)
        = (if st_restarts st' < given then scrape_loop Z policy q e given st' attempts else scraped st' SCRAPED_PARTIAL)"
    using moving_step [OF moving Cons.prems(5,4), of q given] by metis
  have "attempt \<noteq> []" using moving by (auto simp: moving_capture_def)
  then have "new_synthetic_page (last attempt) = Inr (last attempt)"
    using Cons.prems(2) last_in_set [of attempt] by (simp add: list_all_iff)
  then have total: "0 \<le> st_total st'" by (simp add: st'(4) new_synthetic_page_def)
  show ?case
  proof (cases "st_restarts st' < given")
    case True
    then show ?thesis using Cons.IH [of st'] Cons.prems st'(1-3,5) total by (auto simp: add.commute add.left_commute)
  next
    case False
    then have none: "attempts = []" using Cons.prems(3) by (cases attempts) (simp_all add: st'(2))
    then have "st_restarts st + 1 = given" using False Cons.prems(3) by (simp add: st'(2))
    then show ?thesis using none Cons.prems(4,5) total False
      by (simp add: st'(1-3) st'(5) [unfolded none] scraped_def new_scraper_result_def source_positive_def construct_def raise_if_def del: scrape_loop.simps)
  qed
qed

section \<open>Accounting\<close>

definition count_in :: "(string \<times> nat) list \<Rightarrow> string \<Rightarrow> nat" where
  "count_in counts i = (case map_of counts i of None \<Rightarrow> 0 | Some n \<Rightarrow> n)"

lemma count_outcomes_Inr:
  "count_outcomes registered counts outcomes = Inr counts' \<Longrightarrow> distinct (map fst counts) \<Longrightarrow> \<forall>i n. map_of counts i = Some n \<longrightarrow> 0 < n \<Longrightarrow>
     distinct (map fst counts') \<and> (\<forall>i n. map_of counts' i = Some n \<longrightarrow> 0 < n) \<and> set (map fst outcomes) \<subseteq> set registered
     \<and> (\<forall>i. count_in counts' i = count_in counts i + count_list (map fst outcomes) i)"
proof (induction outcomes arbitrary: counts)
  case (Cons outcome outcomes)
  obtain i d where outcome: "outcome = (i, d)" by fastforce
  let ?counts = "AList.update i (count_in counts i + 1) counts"
  have step: "count_outcomes registered ?counts outcomes = Inr counts'" "i \<in> set registered"
    using Cons.prems(1) by (auto simp: outcome guarded_Inr count_in_def)
  have positive: "\<forall>j n. map_of ?counts j = Some n \<longrightarrow> 0 < n" using Cons.prems(3) by (auto simp: update_conv)
  show ?case using Cons.IH [OF step(1) _ positive] Cons.prems(2) step(2)
    by (auto simp: outcome distinct_update update_conv count_in_def)
qed simp

lemma dict_keys_distinct: "distinct (map fst (dict_of kvs))"
proof (induction kvs rule: rev_induct)
  case (snoc kv kvs)
  then show ?case by (cases kv) (simp add: dict_of_snoc distinct_update)
qed (simp add: dict_of_def)

lemma registry_ids_distinct: "new_source_registry sources endpoints = Inr g \<Longrightarrow> distinct (registry_source_ids g)"
  by (auto simp: new_source_registry_def registry_source_ids_def Let_def dict_keys_distinct)

section \<open>A sample source\<close>

definition zeros :: string where
  "zeros = replicate 48 (CHR ''0'')"

definition sample_registered_source :: registered_source where
  "sample_registered_source = \<lparr>gs_source_id = ''src_'' @ zeros, gs_version = ''1'', gs_jurisdiction = ''HK'', gs_material_family = ''cases'',
     gs_endpoint_ids = [''sep_'' @ zeros], gs_policy_state = SOURCE_CONFIGURED, gs_permitted_use = ''use'',
     gs_authorization_expires_at = ''2030''\<rparr>"

definition sample_endpoint :: endpoint_contract where
  "sample_endpoint = \<lparr>en_endpoint_id = ''sep_'' @ zeros, en_version = ''1'', en_source_id = ''src_'' @ zeros,
     en_rulebook_id = ''rbp_'' @ zeros, en_rulebook_version = ''1'', en_allowed_host = ''h'', en_allowed_path_prefix = ''/'',
     en_methods = [HTTP_GET], en_redirect_hosts = [''h''], en_authentication_class = NO_AUTHENTICATION,
     en_media_types = [''text/plain''], en_max_bytes = 9, en_max_pages = 2, en_max_items = 2, en_time_budget_seconds = 1,
     en_complete_inventory_required = True, en_http_304_proves_no_change = True, en_equal_signal_proves_no_change = False,
     en_required_capture_roles = [''r'']\<rparr>"

definition sample_registry :: source_registry where
  "sample_registry = \<lparr>sg_sources = [(''src_'' @ zeros, sample_registered_source)], sg_endpoints = [(''sep_'' @ zeros, sample_endpoint)]\<rparr>"

definition sample_connector_request :: connector_request where
  "sample_connector_request = \<lparr>cq_pipeline_run_id = ''run_'' @ zeros, cq_work_item_id = ''wki_'' @ zeros,
     cq_observation_id = ''obs_'' @ zeros, cq_observation_cutoff = ''2026'', cq_source_id = ''src_'' @ zeros,
     cq_source_version = ''1'', cq_endpoint_id = ''sep_'' @ zeros, cq_endpoint_version = ''1'',
     cq_rulebook_id = ''rbp_'' @ zeros, cq_rulebook_version = ''1'', cq_method = HTTP_GET,
     cq_previous_observation_id = ''obs_'' @ zeros, cq_previous_snapshot_id = ''snp_'' @ zeros, cq_prior_signal = ''old'',
     cq_retry_profile = \<lparr>ry_attempt_ceiling = 3, ry_max_elapsed_seconds = 1, ry_backoff_seconds = [0], ry_jitter_seed = 0,
       ry_honor_retry_after = False\<rparr>\<rparr>"

definition sample_response :: "int \<Rightarrow> string \<Rightarrow> string \<Rightarrow> synthetic_response" where
  "sample_response status body signal = \<lparr>sy_status_code = status, sy_host = ''h'', sy_path = ''/x'', sy_media_type = ''text/plain'',
     sy_body = body, sy_declared_length = int (length body), sy_content_encoding = ''identity'', sy_character_encoding = ''utf-8'',
     sy_signal = signal, sy_redirect_host = ''h'', sy_transient = False, sy_authentication_failed = False, sy_truncated = False\<rparr>"

definition sample_page :: "string \<Rightarrow> string \<Rightarrow> string \<Rightarrow> string \<Rightarrow> synthetic_page" where
  "sample_page body cursor next_cursor generation = \<lparr>pg_response = sample_response 200 body ''new'', pg_cursor = cursor,
     pg_next_cursor = next_cursor, pg_member_ids = [body], pg_declared_total = 2, pg_inventory_generation = generation\<rparr>"

definition sample_pages :: "synthetic_page list" where
  "sample_pages = [sample_page ''a'' ''1'' ''2'' ''g'', sample_page ''b'' ''2'' ''END'' ''g'']"

definition moving_pages :: "synthetic_page list" where
  "moving_pages = [sample_page ''a'' ''1'' ''2'' ''f'', sample_page ''b'' ''2'' ''END'' ''g'']"

text \<open>A reader that finds no archive.\<close>

definition no_archives :: archive_reader where
  "no_archives content = ZipCaught"

lemma sample_admitted_request: "admit_request sample_registry sample_connector_request = Inr (sample_registered_source, sample_endpoint)"
  by (simp add: admit_request_def resolve_source_def sample_registry_def sample_connector_request_def sample_registered_source_def
      sample_endpoint_def construct_def raise_if_def)

lemma sample_classified:
  "body \<in> {''a'', ''b'', ''c''} \<Longrightarrow> admit_response no_archives (sample_response status body signal) sample_endpoint default_admission_policy
     = Inr \<lparr>hc_admitted = True, hc_reasons = []\<rparr>"
  by (auto simp: admit_response_def classify_content_def response_input_def sample_response_def sample_endpoint_def is_archive_def
      transport_reasons_def body_reasons_def contains_text_def starts_with_def lower_bytes_def char_class_defs Let_def
      guarded_def raise_if_def classified_def lower_char_def)

lemma sample_watched:
  assumes "body \<in> {''a'', ''b'', ''c''}"
  shows "watch_source no_archives default_admission_policy sample_registry sample_connector_request
      [sample_response status body signal]
    = Inr \<lparr>wt_code = response_code sample_connector_request sample_endpoint (sample_response status body signal),
        wt_artifacts = [\<lparr>aq_role = ''WATCHER_ATTEMPT'', aq_response = sample_response status body signal,
          aq_classification = \<lparr>hc_admitted = True, hc_reasons = []\<rparr>\<rparr>],
        wt_affected_boundary = ''/'', wt_attempts = 1\<rparr>"
proof -
  have "attempts_of sample_connector_request [r] = [r]" for r :: synthetic_response
    by (simp add: attempts_of_def sample_connector_request_def)
  moreover have "\<not> contract_drift (sample_response status body signal) sample_endpoint"
    "\<not> sy_authentication_failed (sample_response status body signal)" "\<not> sy_transient (sample_response status body signal)"
    by (simp_all add: contract_drift_def sample_response_def sample_endpoint_def starts_with_def)
  moreover have "source_text ''WATCHER_ATTEMPT'' = None" "source_text ''/'' = None"
    by (simp_all add: source_text_def is_exact_text_iff is_space_def)
  moreover have "en_allowed_path_prefix sample_endpoint = ''/''" by (simp add: sample_endpoint_def)
  ultimately show ?thesis
    using sample_classified [OF assms, of status signal]
    by (simp add: watch_source_def sample_admitted_request guarded_def raise_if_def watched_def new_watcher_result_def
        new_acquisition_artifact_def construct_def source_positive_def)
qed

lemma sample_capture: "complete_capture no_archives default_admission_policy sample_endpoint sample_pages"
  by (auto simp: complete_capture_def sample_pages_def sample_page_def admitted_by_def sample_classified less_Suc_eq)
    (simp_all add: sample_response_def sample_endpoint_def)

lemma sample_moving: "moving_capture no_archives default_admission_policy sample_endpoint moving_pages"
  by (auto simp: moving_capture_def moving_pages_def sample_page_def admitted_by_def sample_classified)
    (simp_all add: sample_response_def)

section \<open>Properties\<close>

definition sample_content :: "string \<Rightarrow> content_input" where
  "sample_content body = \<lparr>ci_body = body, ci_media_type = ''application/zip'', ci_max_bytes = 9,
     ci_declared_length = int (length body), ci_truncated = False, ci_character_encoding = ''binary''\<rparr>"

text \<open>A reader that finds in \<^verbatim>\<open>a\<close> the archive \<^verbatim>\<open>b\<close>, and in that one a text.\<close>

definition sample_archives :: archive_reader where
  "sample_archives content =
     (if content = ''a'' then Unzipped [\<lparr>ze_filename = ''b.ZIP'', ze_compress_size = 1, ze_file_size = 1, ze_content = Unzipped ''b''\<rparr>]
      else if content = ''b'' then Unzipped [\<lparr>ze_filename = ''t/x'', ze_compress_size = 0, ze_file_size = 100, ze_content = Unzipped ''c''\<rparr>]
      else ZipCaught)"

lemma sample_content_classified:
  "classify_content sample_archives (sample_content ''a'') default_admission_policy = Inr \<lparr>hc_admitted = True, hc_reasons = []\<rparr>"
proof -
  have "archive_reasons sample_archives default_admission_policy ''b'' 1 = Some []"
    by (simp add: archive_reasons.simps [of _ _ "''b''"] sample_archives_def default_admission_policy_def nested_archive_def
        escaping_name_def ends_with_def starts_with_def lower_char_def)
  then have "archive_reasons sample_archives default_admission_policy ''a'' 0 = Some []"
    by (simp add: archive_reasons.simps [of _ _ "''a''"]) (simp add: sample_archives_def default_admission_policy_def
        nested_archive_def escaping_name_def ends_with_def starts_with_def lower_char_def)
  then show ?thesis
    by (simp add: classify_content_def sample_content_def is_archive_def transport_reasons_def body_reasons_def contains_text_def
        starts_with_def lower_bytes_def char_class_defs guarded_def raise_if_def classified_def lower_char_def)
qed

lemma admitted_content_is_inert_witness:
  "clean_archive sample_archives default_admission_policy 2 ''a''"
proof -
  have "new_admission_policy default_admission_policy = Inr default_admission_policy"
    by (simp add: new_admission_policy_def default_admission_policy_def construct_def raise_if_def)
  from admitted_content_is_inert [OF this sample_content_classified] show ?thesis
    by (simp add: sample_content_def is_archive_def default_admission_policy_def)
qed

text \<open>
  C14: a watcher result rests on the responses and on nothing else. The request was admitted: the source is
  configured, its authorization lasts until the cutoff, versions, rulebook and method are those of the
  contract. The artifacts are the responses up to the first that does not pass, each with its own
  classification, at most the ceiling; every earlier one is a safe transient failure. The code is that of
  this response by the contract, and \<^verbatim>\<open>SOURCE_UNAVAILABLE\<close> only when every allowed attempt passed.
\<close>

theorem watcher_result_rests_on_responses:
  assumes "watch_source Z policy g q responses = Inr w"
  shows "\<exists>s e. map_of (sg_sources g) (cq_source_id q) = Some s \<and> map_of (sg_endpoints g) (cq_endpoint_id q) = Some e
    \<and> gs_policy_state s = SOURCE_CONFIGURED \<and> cq_observation_cutoff q \<le> gs_authorization_expires_at s
    \<and> gs_version s = cq_source_version q \<and> en_version e = cq_endpoint_version q \<and> en_source_id e = gs_source_id s
    \<and> en_rulebook_id e = cq_rulebook_id q \<and> en_rulebook_version e = cq_rulebook_version q \<and> cq_method q \<in> set (en_methods e)
    \<and> truly_classified Z policy e (wt_artifacts w)
    \<and> wt_attempts w = int (length (wt_artifacts w)) \<and> wt_attempts w \<le> max 0 (ry_attempt_ceiling (cq_retry_profile q))
    \<and> (\<exists>rest. attempts_of q responses = map aq_response (wt_artifacts w) @ rest
        \<and> (wt_code w = WATCHED_UNAVAILABLE \<and> rest = [] \<and> list_all (passing Z policy e) (map aq_response (wt_artifacts w))
           \<or> (\<exists>earlier r. map aq_response (wt_artifacts w) = earlier @ [r] \<and> list_all (passing Z policy e) earlier
                \<and> \<not> passing Z policy e r \<and> wt_code w = conclusion Z policy q e r)))"
proof -
  obtain s e where request: "admit_request g q = Inr (s, e)"
      and loop: "watch_loop Z policy q e [] 0 (attempts_of q responses) = Inr w"
    using assms by (auto simp: watch_source_def guarded_Inr)
  from watch_loop_Inr [OF loop] obtain rest where rest: "attempts_of q responses = map aq_response (wt_artifacts w) @ rest"
      "truly_classified Z policy e (wt_artifacts w)" "wt_attempts w = int (length (wt_artifacts w))"
      "wt_code w = WATCHED_UNAVAILABLE \<and> rest = [] \<and> list_all (passing Z policy e) (map aq_response (wt_artifacts w))
        \<or> (\<exists>earlier r. map aq_response (wt_artifacts w) = earlier @ [r] \<and> list_all (passing Z policy e) earlier
             \<and> \<not> passing Z policy e r \<and> wt_code w = conclusion Z policy q e r)"
    by auto
  have "length (wt_artifacts w) \<le> nat (ry_attempt_ceiling (cq_retry_profile q))"
    using arg_cong [OF rest(1), of length] by (simp add: attempts_of_def)
  then have "wt_attempts w \<le> max 0 (ry_attempt_ceiling (cq_retry_profile q))" using rest(3) by simp
  then show ?thesis using request rest
    by (intro exI [of _ s] exI [of _ e] conjI exI [of _ rest])
      (auto simp: admit_request_def resolve_source_def not_less split: option.splits)
qed

lemma watcher_result_rests_on_responses_witness:
  "wt_attempts (projr (watch_source no_archives default_admission_policy sample_registry sample_connector_request
     [sample_response 304 ''a'' ''new''])) \<le> 3"
proof -
  obtain w where w: "watch_source no_archives default_admission_policy sample_registry sample_connector_request
      [sample_response 304 ''a'' ''new''] = Inr w"
    using sample_watched [of "''a''" 304 "''new''"] by simp
  from watcher_result_rests_on_responses [OF w] have "wt_attempts w \<le> 3" by (auto simp: sample_connector_request_def)
  then show ?thesis by (simp add: w)
qed

text \<open>
  C40: \<^verbatim>\<open>scrape\<close> restarts more often than it says. Its docstring promises to fail closed after one restart;
  the code has no such limit, and only the ceiling of attempts bounds the restarts. After any number of
  attempts that find the inventory moving, a complete capture within the ceiling still ends in a snapshot,
  or in no change when every page has the prior signal, with as many restarts as there were attempts
  before it: from two restarts on, this is what the docstring rules out. It fails closed only when no
  attempt is left: attempts that all find the inventory moving end in a partial capture, or, where the
  ceiling cuts them off, as an unavailable source, with one restart for each attempt made.
\<close>

theorem only_ceiling_bounds_restarts:
  assumes "admit_request g q = Inr (s, e)" and "list_all (moving_capture Z policy e) attempts"
  shows "(complete_capture Z policy e pages \<and> int (length attempts) < ry_attempt_ceiling (cq_retry_profile q) \<longrightarrow>
      (\<exists>r. scrape_source Z policy g q (attempts @ [pages]) = Inr r \<and> sk_restart_count r = int (length attempts)
        \<and> sk_code r = (if list_all (\<lambda>page. sy_signal (pg_response page) = cq_prior_signal q) pages then SCRAPED_NO_CHANGE
            else SCRAPED_SNAPSHOT)))
    \<and> (attempts \<noteq> [] \<and> 0 < ry_attempt_ceiling (cq_retry_profile q)
        \<and> list_all (list_all (\<lambda>page. new_synthetic_page page = Inr page)) attempts \<longrightarrow>
      (\<exists>r. scrape_source Z policy g q attempts = Inr r
        \<and> sk_restart_count r = min (int (length attempts)) (ry_attempt_ceiling (cq_retry_profile q))
        \<and> sk_attempts r = min (int (length attempts)) (ry_attempt_ceiling (cq_retry_profile q))
        \<and> sk_code r = (if int (length attempts) \<le> ry_attempt_ceiling (cq_retry_profile q) then SCRAPED_PARTIAL
            else SCRAPED_UNAVAILABLE)))"
proof (intro conjI impI)
  let ?start = "\<lparr>st_artifacts = [], st_attempts = 0, st_restarts = 0, st_members = [], st_cursors = [], st_total = 0\<rparr>"
  assume captured: "complete_capture Z policy e pages \<and> int (length attempts) < ry_attempt_ceiling (cq_retry_profile q)"
  have "attempts_of q (attempts @ [pages]) = attempts @ [pages]"
    using conjunct2 [OF captured] by (simp add: attempts_of_def)
  then show "\<exists>r. scrape_source Z policy g q (attempts @ [pages]) = Inr r \<and> sk_restart_count r = int (length attempts)
      \<and> sk_code r = (if list_all (\<lambda>page. sy_signal (pg_response page) = cq_prior_signal q) pages then SCRAPED_NO_CHANGE
          else SCRAPED_SNAPSHOT)"
    using restarts_continue [OF conjunct1 [OF captured] _ _ _ assms(2), where given = "int (length (attempts @ [pages]))"
        and st = ?start and q = q]
    by (auto simp: scrape_source_def assms(1) guarded_def raise_if_def)
next
  let ?start = "\<lparr>st_artifacts = [], st_attempts = 0, st_restarts = 0, st_members = [], st_cursors = [], st_total = 0\<rparr>"
  let ?ceiling = "ry_attempt_ceiling (cq_retry_profile q)"
  assume "attempts \<noteq> [] \<and> 0 < ?ceiling \<and> list_all (list_all (\<lambda>page. new_synthetic_page page = Inr page)) attempts"
  then have given: "attempts \<noteq> []" "0 < ?ceiling" "list_all (list_all (\<lambda>page. new_synthetic_page page = Inr page)) attempts"
    by blast+
  have made: "int (length (attempts_of q attempts)) = min (int (length attempts)) ?ceiling"
    using given by (simp add: attempts_of_def)
  then have some: "attempts_of q attempts \<noteq> []" using given by (auto simp: min_def split: if_splits)
  have "list_all (moving_capture Z policy e) (attempts_of q attempts)"
      "list_all (list_all (\<lambda>page. new_synthetic_page page = Inr page)) (attempts_of q attempts)"
    using assms(2) given by (auto simp: list_all_iff attempts_of_def dest!: in_set_takeD)
  from moving_loop [OF this, of ?start "int (length attempts)" q] some made given
  show "\<exists>r. scrape_source Z policy g q attempts = Inr r \<and> sk_restart_count r = min (int (length attempts)) ?ceiling
      \<and> sk_attempts r = min (int (length attempts)) ?ceiling
      \<and> sk_code r = (if int (length attempts) \<le> ?ceiling then SCRAPED_PARTIAL else SCRAPED_UNAVAILABLE)"
    by (auto simp: scrape_source_def assms(1) guarded_def raise_if_def min_def split: if_splits)
qed

lemma only_ceiling_bounds_restarts_witness:
  "sk_restart_count (projr (scrape_source no_archives default_admission_policy sample_registry sample_connector_request
     [moving_pages, moving_pages, sample_pages])) = 2
   \<and> sk_code (projr (scrape_source no_archives default_admission_policy sample_registry sample_connector_request
     [moving_pages, moving_pages])) = SCRAPED_PARTIAL"
proof -
  let ?scrape = "scrape_source no_archives default_admission_policy sample_registry sample_connector_request"
  have ceiling: "ry_attempt_ceiling (cq_retry_profile sample_connector_request) = 3"
    by (simp add: sample_connector_request_def)
  have moving: "list_all (moving_capture no_archives default_admission_policy sample_endpoint) [moving_pages, moving_pages]"
    by (simp add: sample_moving)
  have pages: "list_all (list_all (\<lambda>page. new_synthetic_page page = Inr page)) [moving_pages, moving_pages]" by code_simp
  note bounds = only_ceiling_bounds_restarts [OF sample_admitted_request moving, unfolded ceiling]
  obtain r where "?scrape ([moving_pages, moving_pages] @ [sample_pages]) = Inr r" "sk_restart_count r = 2"
    using bounds [THEN conjunct1, of sample_pages] sample_capture by auto
  moreover obtain r' where "?scrape [moving_pages, moving_pages] = Inr r'" "sk_code r' = SCRAPED_PARTIAL"
    using bounds [THEN conjunct2] pages by auto
  ultimately show ?thesis by simp
qed

text \<open>An attempt without any page leaves a scraper result no evidence, and the construction raises.\<close>

theorem pageless_capture_raises:
  assumes "admit_request g q = Inr (s, e)" and "attempts \<noteq> []" and "list_all (\<lambda>pages. pages = []) attempts"
  shows "scrape_source Z policy g q attempts = Inl SourceValueError"
proof -
  have "scrape_loop Z policy q e given st attempts = Inl SourceValueError"
    if "st_artifacts st = []" "list_all (\<lambda>pages. pages = []) attempts" for given st and attempts :: "synthetic_page list list"
    using that by (induction attempts arbitrary: st) (auto simp: scraped_def new_scraper_result_def construct_def raise_if_def)
  moreover have "list_all (\<lambda>pages. pages = []) (attempts_of q attempts)"
    using assms(3) by (auto simp: list_all_iff attempts_of_def dest: in_set_takeD)
  ultimately show ?thesis using assms(1,2) by (simp add: scrape_source_def guarded_def raise_if_def)
qed

text \<open>
  C15: no source is lost in the accounting. Missing are exactly the registered sources that no outcome
  names, duplicate exactly those that several name, unregistered ones are refused, and the accounting is
  complete just when the outcomes name every registered source once.
\<close>

theorem accounting_loses_no_source:
  assumes "new_source_registry sources endpoints = Inr g" and "account_outcomes g outcomes = Inr r"
  shows "set (map fst outcomes) \<subseteq> set (registry_source_ids g)
    \<and> set (oa_missing_source_ids r) = set (registry_source_ids g) - set (map fst outcomes)
    \<and> set (oa_duplicate_source_ids r) = {i. 2 \<le> count_list (map fst outcomes) i}
    \<and> (accounting_complete r \<longleftrightarrow> mset (map fst outcomes) = mset (registry_source_ids g))"
proof -
  obtain counts where counts: "count_outcomes (registry_source_ids g) [] outcomes = Inr counts"
      and r: "r = \<lparr>oa_registered_source_ids = registry_source_ids g, oa_accounted_source_ids = sort (map fst counts),
        oa_missing_source_ids = filter (\<lambda>i. i \<notin> fst ` set counts) (registry_source_ids g),
        oa_duplicate_source_ids = sort (map fst (filter (\<lambda>(i, n). n \<noteq> 1) counts))\<rparr>"
    using assms(2) by (auto simp: account_outcomes_def)
  have facts: "distinct (map fst counts)" "\<forall>i n. map_of counts i = Some n \<longrightarrow> 0 < n"
      "set (map fst outcomes) \<subseteq> set (registry_source_ids g)" "\<forall>i. count_in counts i = count_list (map fst outcomes) i"
    using count_outcomes_Inr [OF counts] by (auto simp: count_in_def)
  have keys: "fst ` set counts = set (map fst outcomes)"
  proof -
    have "i \<in> fst ` set counts \<longleftrightarrow> 0 < count_in counts i" for i
    proof (cases "map_of counts i")
      case None
      then have "i \<notin> fst ` set counts" by (simp add: map_of_eq_None_iff)
      with None show ?thesis by (simp add: count_in_def)
    next
      case (Some n)
      then show ?thesis using facts(2) map_of_SomeD [OF Some] by (force simp: count_in_def)
    qed
    then have "i \<in> fst ` set counts \<longleftrightarrow> 0 < count_list (map fst outcomes) i" for i using facts(4) by simp
    then show ?thesis by (auto simp: count_list_0_iff simp flip: neq0_conv)
  qed
  have missing: "set (oa_missing_source_ids r) = set (registry_source_ids g) - set (map fst outcomes)"
    using keys by (auto simp: r)
  have duplicate: "set (oa_duplicate_source_ids r) = {i. 2 \<le> count_list (map fst outcomes) i}"
  proof -
    have "(i, n) \<in> set counts \<longleftrightarrow> map_of counts i = Some n" for i n using facts(1) by simp
    then have "set (oa_duplicate_source_ids r) = {i. \<exists>n. map_of counts i = Some n \<and> n \<noteq> 1}" by (force simp: r)
    also have "\<dots> = {i. 2 \<le> count_in counts i}"
      using facts(2) by (fastforce simp: count_in_def split: option.splits)
    finally show ?thesis using facts(4) by simp
  qed
  have "accounting_complete r \<longleftrightarrow> (\<forall>i \<in> set (registry_source_ids g). count_list (map fst outcomes) i = 1)"
  proof -
    have "accounting_complete r \<longleftrightarrow> set (oa_missing_source_ids r) = {} \<and> set (oa_duplicate_source_ids r) = {}"
      by (simp add: accounting_complete_def)
    also have "\<dots> \<longleftrightarrow> set (registry_source_ids g) \<subseteq> set (map fst outcomes) \<and> (\<forall>i. count_list (map fst outcomes) i < 2)"
      unfolding missing duplicate by (auto simp: not_le)
    also have "\<dots> \<longleftrightarrow> (\<forall>i \<in> set (registry_source_ids g). count_list (map fst outcomes) i = 1)"
    proof -
      have two: "count_list (map fst outcomes) i < 2 \<longleftrightarrow>
          count_list (map fst outcomes) i = 0 \<or> count_list (map fst outcomes) i = 1" for i by auto
      have named: "i \<in> set (map fst outcomes) \<longleftrightarrow> count_list (map fst outcomes) i \<noteq> 0" for i by (simp only: count_list_0_iff not_not)
      show ?thesis using facts(3) unfolding two subset_iff named by (metis One_nat_def zero_neq_one)
    qed
    finally show ?thesis .
  qed
  also have "\<dots> \<longleftrightarrow> mset (map fst outcomes) = mset (registry_source_ids g)"
  proof -
    have "count (mset (registry_source_ids g)) i = (if i \<in> set (registry_source_ids g) then 1 else 0)" for i
      using registry_ids_distinct [OF assms(1)] by (simp only: distinct_count_atmost_1)
    moreover have "count_list (map fst outcomes) i = 0" if "i \<notin> set (registry_source_ids g)" for i
      using that facts(3) by (auto simp: count_list_0_iff)
    ultimately show ?thesis unfolding multiset_eq_iff count_mset by metis
  qed
  finally show ?thesis using facts(3) missing duplicate by blast
qed

lemma accounting_loses_no_source_witness:
  "accounting_complete (projr (account_outcomes sample_registry [(''src_'' @ zeros, OBSERVED_QUARANTINE)]))"
proof -
  have g: "new_source_registry [sample_registered_source] [sample_endpoint] = Inr sample_registry"
    by (simp add: new_source_registry_def sample_registry_def dict_of_def sample_registered_source_def sample_endpoint_def construct_def raise_if_def)
  have ids: "registry_source_ids sample_registry = [''src_'' @ zeros]" by (simp add: registry_source_ids_def sample_registry_def)
  have "is_exact_text (''src_'' @ zeros)" by (simp add: is_exact_text_iff zeros_def is_space_def)
  then obtain r where r: "account_outcomes sample_registry [(''src_'' @ zeros, OBSERVED_QUARANTINE)] = Inr r"
    by (simp add: account_outcomes_def ids guarded_def source_text_def raise_if_def)
  have "accounting_complete r" using accounting_loses_no_source [OF g r] ids by simp
  then show ?thesis by (simp only: r sum.sel)
qed

end
