(* ===== verification/AcquisitionProperties.thy ===== *)
theory AcquisitionProperties
  imports Acquisition ConnectorProperties LegalProcessing EvidenceProperties
begin

text \<open>
  What the acquisition service guarantees: what its evidence package holds, what an eligible snapshot
  and an observation without change rest on, and what the legal-processing service makes of the
  recorded observation.
\<close>

section \<open>Observing\<close>

lemma observe_Inr:
  assumes "observe_source Z k q responses attempts = Inr (w, s)"
  obtains source e where "admit_request (kn_registry k) q = Inr (source, e)"
    and "watch_loop Z (kn_policy k) q e [] 0 (attempts_of q responses) = Inr w"
    and "s = None \<and> wt_code w \<noteq> WATCHED_POSSIBLE_CHANGE
      \<or> (\<exists>r st given. s = Some r \<and> wt_code w = WATCHED_POSSIBLE_CHANGE \<and> st_artifacts st = []
           \<and> scrape_loop Z (kn_policy k) q e given st (attempts_of q attempts) = Inr r)"
proof -
  have watch: "watch_source Z (kn_policy k) (kn_registry k) q responses = Inr w"
    using assms by (auto simp: observe_source_def guarded_Inr split: if_splits)
  then obtain source e where request: "admit_request (kn_registry k) q = Inr (source, e)"
      and loop: "watch_loop Z (kn_policy k) q e [] 0 (attempts_of q responses) = Inr w"
    by (auto simp: watch_source_def guarded_Inr)
  show ?thesis
  proof (cases "wt_code w = WATCHED_POSSIBLE_CHANGE")
    case True
    then obtain r where "scrape_source Z (kn_policy k) (kn_registry k) q attempts = Inr r" "s = Some r"
      using assms watch by (auto simp: observe_source_def guarded_Inr)
    then show ?thesis using that [OF request loop] True
      by (auto simp: scrape_source_def request guarded_Inr) (metis scrape_state.select_convs(1))
  next
    case False
    then show ?thesis using that [OF request loop] assms watch by (auto simp: observe_source_def)
  qed
qed

lemma watched_truly:
  "watch_loop Z policy q e [] 0 rs = Inr w \<Longrightarrow> truly_classified Z policy e (wt_artifacts w)"
  using watch_loop_Inr [of Z policy q e "[]" 0 rs w] by auto

lemma observed_truly:
  assumes "observe_source Z k q responses attempts = Inr (w, s)" and "admit_request (kn_registry k) q = Inr (source, e)"
  shows "truly_classified Z (kn_policy k) e (received_artifacts w s)"
proof -
  obtain source' e' where o: "admit_request (kn_registry k) q = Inr (source', e')"
      "watch_loop Z (kn_policy k) q e' [] 0 (attempts_of q responses) = Inr w"
      "s = None \<and> wt_code w \<noteq> WATCHED_POSSIBLE_CHANGE
        \<or> (\<exists>r st given. s = Some r \<and> wt_code w = WATCHED_POSSIBLE_CHANGE \<and> st_artifacts st = []
           \<and> scrape_loop Z (kn_policy k) q e' given st (attempts_of q attempts) = Inr r)"
    using observe_Inr [OF assms(1)] by metis
  have e: "e' = e" using o(1) assms(2) by simp
  have "truly_classified Z (kn_policy k) e (wt_artifacts w)" using watched_truly o(2) by (simp add: e)
  moreover have "truly_classified Z (kn_policy k) e (sk_artifacts r)" if s: "s = Some r" for r
  proof -
    obtain st given where "st_artifacts st = []" "scrape_loop Z (kn_policy k) q e given st (attempts_of q attempts) = Inr r"
      using o(3) s by (auto simp: e)
    then show ?thesis using scrape_loop_Inr by fastforce
  qed
  ultimately show ?thesis by (auto simp: received_artifacts_def truly_classified_def split: option.split)
qed

lemma conclusive_change:
  assumes "watch_loop Z policy q e [] 0 rs = Inr w" and "wt_code w = WATCHED_POSSIBLE_CHANGE"
  shows "list_all (\<lambda>a. admitted_by Z policy e (aq_response a)) (wt_artifacts w)"
proof -
  obtain earlier r where "map aq_response (wt_artifacts w) = earlier @ [r]" "list_all (passing Z policy e) earlier"
      "conclusion Z policy q e r = WATCHED_POSSIBLE_CHANGE"
    using watch_loop_Inr [OF assms(1)] assms(2) by auto
  then have "list_all (admitted_by Z policy e) (map aq_response (wt_artifacts w))"
    by (auto simp: conclusion_def passing_def list_all_iff split: if_splits)
  then show ?thesis by (simp add: list.pred_map comp_def)
qed

section \<open>The package\<close>

lemma stage_Inr:
  assumes "stage_content P (local_interface P E) d c (w, V) = (Inr entry, w', V')"
  shows "me_descriptor entry = d" and "or_fingerprint (me_primary entry) = bytes_fingerprint P c"
    and "map_of (pw_entries w) (ad_artifact_id d) \<in> {None, Some entry}"
    and "w' = w\<lparr>pw_entries := AList.update (ad_artifact_id d) entry (pw_entries w)\<rparr>"
proof -
  obtain key receipt where create: "vi_create (local_interface P E) key c (ad_retention d) V = (Inr receipt, V')"
      and entry: "new_manifest_entry \<lparr>me_descriptor = d, me_primary = wr_reference receipt\<rparr> = Inr entry"
      and rest: "map_of (pw_entries w) (ad_artifact_id d) \<in> {None, Some entry}"
        "w' = w\<lparr>pw_entries := AList.update (ad_artifact_id d) entry (pw_entries w)\<rparr>"
    using assms by (auto simp: stage_content_def split: sum.splits prod.splits if_splits)
  from entry have "entry = \<lparr>me_descriptor = d, me_primary = wr_reference receipt\<rparr>" by (simp add: new_manifest_entry_def)
  then show "me_descriptor entry = d" "or_fingerprint (me_primary entry) = bytes_fingerprint P c"
    using local.create_receipt [OF create] by simp_all
  show "map_of (pw_entries w) (ad_artifact_id d) \<in> {None, Some entry}"
    "w' = w\<lparr>pw_entries := AList.update (ad_artifact_id d) entry (pw_entries w)\<rparr>" by (rule rest)+
qed

text \<open>An entry holds an artifact: its description, the digest of its body, hostile content isolated.\<close>

definition entry_holds :: "platform \<Rightarrow> connector_request \<Rightarrow> acquisition_artifact \<Rightarrow> manifest_entry \<Rightarrow> bool" where
  "entry_holds P q a entry \<longleftrightarrow>
     ad_artifact_class (me_descriptor entry) = (if hc_admitted (aq_classification a) then SOURCE_CONTENT else HOSTILE_ISOLATED)
     \<and> ad_source_id (me_descriptor entry) = cq_source_id q \<and> ad_observation_id (me_descriptor entry) = cq_observation_id q
     \<and> ad_source_locator (me_descriptor entry) = ''https://'' @ sy_host (aq_response a) @ sy_path (aq_response a)
     \<and> or_fingerprint (me_primary entry) = bytes_fingerprint P (sy_body (aq_response a))"

lemma staged_entries:
  "stage_artifacts P (local_interface P E) q r index as (w, V) = (Inr (), w', V') \<Longrightarrow> distinct (map fst (pw_entries w)) \<Longrightarrow>
     distinct (map fst (pw_entries w'))
     \<and> (\<forall>k e. map_of (pw_entries w) k = Some e \<longrightarrow> map_of (pw_entries w') k = Some e)
     \<and> (\<forall>a \<in> set as. \<exists>k e. map_of (pw_entries w') k = Some e \<and> entry_holds P q a e)
     \<and> (\<forall>k e. map_of (pw_entries w') k = Some e \<longrightarrow> map_of (pw_entries w) k = Some e \<or> (\<exists>a \<in> set as. entry_holds P q a e))
     \<and> pw_manifest w' = pw_manifest w \<and> pw_primary_manifest w' = pw_primary_manifest w
     \<and> (local.writer_ok P E E' (w, V) \<longrightarrow> local.writer_ok P E E' (w', V'))"
proof (induction as arbitrary: index w V)
  case (Cons a as)
  let ?d = "artifact_descriptor_of P q r index a"
  obtain entry w1 V1 where d: "new_artifact_descriptor ?d = Inr ?d"
      and stage: "stage_content P (local_interface P E) ?d (sy_body (aq_response a)) (w, V) = (Inr entry, w1, V1)"
      and rest: "stage_artifacts P (local_interface P E) q r (index + 1) as (w1, V1) = (Inr (), w', V')"
    using Cons.prems(1) by (auto simp: new_artifact_descriptor_def split: sum.splits prod.splits)
  note facts = stage_Inr [OF stage]
  have "distinct (map fst (pw_entries w1))" using Cons.prems(2) facts(4) by (simp add: distinct_update)
  note ih = Cons.IH [OF rest this]
  have holds: "entry_holds P q a entry" using facts(1,2) by (simp add: entry_holds_def artifact_descriptor_of_def Let_def)
  have mine: "map_of (pw_entries w1) (ad_artifact_id ?d) = Some entry" using facts(4) by (simp add: update_conv)
  have kept: "map_of (pw_entries w) k = Some x \<Longrightarrow> map_of (pw_entries w1) k = Some x" for k x
    using facts(3,4) by (auto simp: update_conv)
  have source: "map_of (pw_entries w1) k = Some x \<Longrightarrow> map_of (pw_entries w) k = Some x \<or> x = entry" for k x
    using facts(4) by (auto simp: update_conv split: if_splits)
  have writer: "local.writer_ok P E E' (w, V) \<Longrightarrow> local.writer_ok P E E' (w1, V1)"
    using local.stage_writer_ok [where E = E' and w = w and s = V and descriptor = ?d and content = "sy_body (aq_response a)"] stage
    by fastforce
  show ?case
  proof (intro conjI)
    show "distinct (map fst (pw_entries w'))" using ih by blast
    show "\<forall>k e. map_of (pw_entries w) k = Some e \<longrightarrow> map_of (pw_entries w') k = Some e" using ih kept by blast
    show "\<forall>b \<in> set (a # as). \<exists>k e. map_of (pw_entries w') k = Some e \<and> entry_holds P q b e"
      using ih mine holds unfolding list.set by blast
    show "\<forall>k e. map_of (pw_entries w') k = Some e \<longrightarrow>
        map_of (pw_entries w) k = Some e \<or> (\<exists>b \<in> set (a # as). entry_holds P q b e)"
      using ih source holds unfolding list.set by blast
    show "pw_manifest w' = pw_manifest w" "pw_primary_manifest w' = pw_primary_manifest w" using ih facts(4) by simp_all
    show "local.writer_ok P E E' (w, V) \<longrightarrow> local.writer_ok P E E' (w', V')" using ih writer by blast
  qed
qed simp

text \<open>An artifact that a manifest lists and a vault can read back.\<close>

definition preserved ::
    "platform \<Rightarrow> connector_request \<Rightarrow> vault \<Rightarrow> evidence_manifest \<Rightarrow> acquisition_artifact \<Rightarrow> manifest_entry \<Rightarrow> bool" where
  "preserved P q V m a entry \<longleftrightarrow> entry \<in> set (em_entries m) \<and> entry_holds P q a entry
     \<and> (\<exists>c. read_exact P V (me_primary entry) = Inr c \<and> bytes_fingerprint P c = bytes_fingerprint P (sy_body (aq_response a)))"

lemma read_digest: "read_exact P V ref = Inr c \<Longrightarrow> bytes_fingerprint P c = or_fingerprint ref"
  using local.read_matches [of P E V ref c] by (simp add: local_reads)

lemma package_Inr:
  assumes "write_package P E q r kind package as V = (Inr (w, m, ref), V')"
  shows "em_package_kind m = kind" and "em_package_id m = package" and "em_observation_id m = cq_observation_id q"
    and "pw_manifest w = Some m" and "pw_primary_manifest w = Some ref"
    and "\<exists>raw. E (manifest_document m) = Some raw \<and> or_fingerprint ref = bytes_fingerprint P raw"
    and "\<exists>c. read_exact P V' ref = Inr c"
    and "\<forall>a \<in> set as. \<exists>entry. preserved P q V' m a entry"
    and "\<forall>entry \<in> set (em_entries m). \<exists>a \<in> set as. preserved P q V' m a entry"
proof -
  obtain w0 where w0: "new_package_writer (local_interface P E) V = Inr w0"
    using assms by (cases "new_package_writer (local_interface P E) V") (simp_all add: write_package_def)
  obtain w1 V1 where staged: "stage_artifacts P (local_interface P E) q r 1 as (w0, V) = (Inr (), w1, V1)"
      and commit: "commit_manifest P E (local_interface P E) kind package (cq_observation_id q) r (w1, V1) = (Inr (m, ref), w, V')"
    using assms by (auto simp: write_package_def w0 split: sum.splits prod.splits)
  have empty: "pw_entries w0 = []" "pw_manifest w0 = None" using w0 by (auto simp: new_package_writer_def)
  have "distinct (map fst (pw_entries w0))" by (simp add: empty(1))
  note entries = staged_entries [OF staged this, unfolded empty]
  obtain raw key receipt where manifest: "new_evidence_manifest (manifest_of kind package (cq_observation_id q) w1) = Inr m"
      and w: "w = w1\<lparr>pw_manifest := Some m, pw_primary_manifest := Some ref\<rparr>"
    using commit by (auto simp: commit_manifest_def and_then_Inr split: sum.splits prod.splits if_splits)
  have m: "m = manifest_of kind package (cq_observation_id q) w1" using manifest by (simp add: new_evidence_manifest_def)
  show "em_package_kind m = kind" "em_package_id m = package" "em_observation_id m = cq_observation_id q"
    by (simp_all add: m manifest_of_def)
  show pw: "pw_manifest w = Some m" "pw_primary_manifest w = Some ref" by (simp_all add: w)
  have "local.writer_ok P E E (w1, V1)"
    using entries local.new_writer_ok [OF w0] by blast
  then have "local.writer_ok P E E (w, V')"
    using local.commit_writer_ok [where E = E and w = w1 and s = V1 and kind = kind and package = package
        and observation = "cq_observation_id q" and r = r] commit by fastforce
  then have held: "local.manifest_held P E E V' m ref" using pw by (simp add: local.writer_ok_def)
  then show "\<exists>raw. E (manifest_document m) = Some raw \<and> or_fingerprint ref = bytes_fingerprint P raw"
    "\<exists>c. read_exact P V' ref = Inr c"
    by (simp_all add: local.manifest_held_def local.exactly_readable_def local_reads)
  have readable: "\<exists>c. read_exact P V' (me_primary entry) = Inr c" if "entry \<in> set (em_entries m)" for entry
    using held that by (simp add: local.manifest_held_def local.exactly_readable_def local_reads)
  have listed: "entry \<in> set (em_entries m) \<longleftrightarrow> (\<exists>k. map_of (pw_entries w1) k = Some entry)" for entry
  proof -
    have "map_of (pw_entries w1) k = Some entry \<longleftrightarrow> (k, entry) \<in> set (pw_entries w1)" for k using entries by simp
    then show ?thesis by (force simp: m manifest_of_def)
  qed
  have kept: "preserved P q V' m a entry" if "entry \<in> set (em_entries m)" "entry_holds P q a entry" for a entry
    using that readable [OF that(1)] read_digest by (fastforce simp: preserved_def entry_holds_def)
  show "\<forall>a \<in> set as. \<exists>entry. preserved P q V' m a entry" using entries listed kept by metis
  show "\<forall>entry \<in> set (em_entries m). \<exists>a \<in> set as. preserved P q V' m a entry"
    using entries listed kept unfolding map_of.simps by (metis option.distinct(1))
qed

lemma prepare_Inr:
  assumes "prepare_observation P E Z k r q responses attempts V = (Inr p, V')"
  obtains "observe_source Z k q responses attempts = Inr (pe_watcher p, pe_scraper p)"
    and "classify_observation (wt_code (pe_watcher p)) (map_option sk_code (pe_scraper p))
      = Inr (pe_disposition p, pe_consequence p)"
    and "write_package P E q r (package_kind (pe_disposition p)) (pe_package_id p)
      (received_artifacts (pe_watcher p) (pe_scraper p)) V = (Inr (pe_writer p, pe_manifest p, pe_primary_manifest p), V')"
    and "pe_request p = q" and "pe_input_fingerprint p = input_fingerprint P q responses attempts"
    and "pe_snapshot_id p = (if pe_disposition p = OBSERVED_SNAPSHOT then acquisition_id P ''snp'' (cq_observation_id q) else [])"
    and "pe_issue_id p = issue_id_of P (pe_disposition p) (cq_observation_id q)"
  using assms by (auto simp: prepare_observation_def Let_def split: sum.splits prod.splits)

section \<open>What an observation rests on\<close>

text \<open>
  C5: whatever was received is in the package. When an observation is pending, its manifest is committed,
  bound by digest and readable in the primary vault; for every response of the watcher and every page of
  the scraper it has an entry that reads back with the digest of the body received, under the source, the
  observation and the locator it came from; the classification is the one the response has, a response
  that is not admitted is isolated as hostile; and no entry is of anything else.
\<close>

theorem received_content_is_preserved:
  assumes "prepare_observation P E Z k r q responses attempts V = (Inr p, V')"
    and "admit_request (kn_registry k) q = Inr (s, e)"
  shows "pw_manifest (pe_writer p) = Some (pe_manifest p) \<and> pw_primary_manifest (pe_writer p) = Some (pe_primary_manifest p)
    \<and> (\<exists>raw. E (manifest_document (pe_manifest p)) = Some raw
         \<and> or_fingerprint (pe_primary_manifest p) = bytes_fingerprint P raw)
    \<and> (\<exists>c. read_exact P V' (pe_primary_manifest p) = Inr c)
    \<and> em_observation_id (pe_manifest p) = cq_observation_id q \<and> em_package_id (pe_manifest p) = pe_package_id p
    \<and> truly_classified Z (kn_policy k) e (received_artifacts (pe_watcher p) (pe_scraper p))
    \<and> (\<forall>a \<in> set (received_artifacts (pe_watcher p) (pe_scraper p)). \<exists>entry. preserved P q V' (pe_manifest p) a entry)
    \<and> (\<forall>entry \<in> set (em_entries (pe_manifest p)).
         \<exists>a \<in> set (received_artifacts (pe_watcher p) (pe_scraper p)). preserved P q V' (pe_manifest p) a entry)"
  by (rule prepare_Inr [OF assms(1)]) (simp add: package_Inr observed_truly [OF _ assms(2)])

text \<open>The capture behind an observation that was not settled by the watcher.\<close>

lemma captured:
  assumes "prepare_observation P E Z k r q responses attempts V = (Inr p, V')" and "pe_scraper p = Some s"
    and "sk_code s \<in> {SCRAPED_SNAPSHOT, SCRAPED_NO_CHANGE}"
  obtains source e pages where "admit_request (kn_registry k) q = Inr (source, e)"
    and "wt_code (pe_watcher p) = WATCHED_POSSIBLE_CHANGE" and "pages \<in> set (attempts_of q attempts)"
    and "complete_capture Z (kn_policy k) e pages" and "sk_member_ids s = concat (map pg_member_ids pages)"
    and "sk_code s = SCRAPED_NO_CHANGE \<longleftrightarrow> list_all (\<lambda>page. sy_signal (pg_response page) = cq_prior_signal q) pages"
    and "\<forall>page \<in> set pages. \<exists>a \<in> set (sk_artifacts s). aq_response a = pg_response page"
    and "\<forall>a \<in> set (received_artifacts (pe_watcher p) (pe_scraper p)). admitted_by Z (kn_policy k) e (aq_response a)"
proof -
  obtain source e where o: "admit_request (kn_registry k) q = Inr (source, e)"
      "watch_loop Z (kn_policy k) q e [] 0 (attempts_of q responses) = Inr (pe_watcher p)"
      "\<exists>r st given. pe_scraper p = Some r \<and> wt_code (pe_watcher p) = WATCHED_POSSIBLE_CHANGE \<and> st_artifacts st = []
           \<and> scrape_loop Z (kn_policy k) q e given st (attempts_of q attempts) = Inr r"
    using prepare_Inr [OF assms(1)] observe_Inr assms(2) by (metis option.distinct(1))
  then obtain st given where st: "wt_code (pe_watcher p) = WATCHED_POSSIBLE_CHANGE" "st_artifacts st = []"
      "scrape_loop Z (kn_policy k) q e given st (attempts_of q attempts) = Inr s"
    using assms(2) by auto
  obtain added where added: "sk_artifacts s = added" "finished_capture Z (kn_policy k) q e (attempts_of q attempts) added s"
    using scrape_loop_Inr [OF st(3)] assms(3) st(2) by auto
  then obtain earlier pages later where capture: "attempts_of q attempts = earlier @ pages # later"
      "complete_capture Z (kn_policy k) e pages" "map aq_response added = map pg_response (concat earlier @ pages)"
      "list_all (\<lambda>a. admitted_by Z (kn_policy k) e (aq_response a)) added"
      "sk_member_ids s = concat (map pg_member_ids pages)"
      "sk_code s = SCRAPED_NO_CHANGE \<longleftrightarrow> list_all (\<lambda>page. sy_signal (pg_response page) = cq_prior_signal q) pages"
    unfolding finished_capture_def by blast
  have "pg_response page \<in> set (map aq_response added)" if "page \<in> set pages" for page
    unfolding capture(3) using that by simp
  then have "\<forall>page \<in> set pages. \<exists>a \<in> set (sk_artifacts s). aq_response a = pg_response page"
    unfolding added(1) by fastforce
  moreover have "\<forall>a \<in> set (received_artifacts (pe_watcher p) (pe_scraper p)). admitted_by Z (kn_policy k) e (aq_response a)"
    using conclusive_change [OF o(2) st(1)] capture(4) added(1)
    by (auto simp: received_artifacts_def assms(2) list_all_iff)
  ultimately show ?thesis using that o(1) st(1) capture by auto
qed

text \<open>
  C4: only a complete capture becomes eligible. An observation is eligible for legal processing just when
  it is a preserved snapshot, and then the watcher saw a possible change at a source whose authorization
  holds, and within the allowed attempts there is a complete capture: every page admitted and served as
  such, one generation of the inventory, pages linked from first to last, as many distinct members as each
  page declares, within the limits, and not all with the prior signal. Every page of it is preserved, and
  nothing in the package is hostile.
\<close>

theorem eligible_snapshot_is_complete:
  assumes "prepare_observation P E Z k r q responses attempts V = (Inr p, V')"
  shows "(pe_consequence p = PROCESSING_ELIGIBLE \<longleftrightarrow> pe_disposition p = OBSERVED_SNAPSHOT)
    \<and> (pe_consequence p = PROCESSING_ELIGIBLE \<longrightarrow>
        (\<exists>s e pages. admit_request (kn_registry k) q = Inr (s, e) \<and> wt_code (pe_watcher p) = WATCHED_POSSIBLE_CHANGE
           \<and> pages \<in> set (attempts_of q attempts) \<and> complete_capture Z (kn_policy k) e pages
           \<and> (\<exists>page \<in> set pages. sy_signal (pg_response page) \<noteq> cq_prior_signal q)
           \<and> (\<forall>page \<in> set pages. \<exists>a entry. aq_response a = pg_response page \<and> preserved P q V' (pe_manifest p) a entry))
        \<and> (\<forall>entry \<in> set (em_entries (pe_manifest p)). ad_artifact_class (me_descriptor entry) = SOURCE_CONTENT)
        \<and> em_package_kind (pe_manifest p) = ''source-snapshot'')"
proof -
  obtain classify: "classify_observation (wt_code (pe_watcher p)) (map_option sk_code (pe_scraper p))
      = Inr (pe_disposition p, pe_consequence p)"
    and observe: "observe_source Z k q responses attempts = Inr (pe_watcher p, pe_scraper p)"
    and package: "write_package P E q r (package_kind (pe_disposition p)) (pe_package_id p)
      (received_artifacts (pe_watcher p) (pe_scraper p)) V = (Inr (pe_writer p, pe_manifest p, pe_primary_manifest p), V')"
    using prepare_Inr [OF assms] by metis
  have eligible: "(pe_consequence p = PROCESSING_ELIGIBLE \<longleftrightarrow> pe_disposition p = OBSERVED_SNAPSHOT)
      \<and> (pe_disposition p = OBSERVED_SNAPSHOT \<longrightarrow> (\<exists>s. pe_scraper p = Some s \<and> sk_code s = SCRAPED_SNAPSHOT))"
    using classify
    by (cases "(wt_code (pe_watcher p), map_option sk_code (pe_scraper p))" rule: classify_observation.cases;
        cases "sk_code (the (pe_scraper p))") auto
  show ?thesis
  proof (cases "pe_disposition p = OBSERVED_SNAPSHOT")
    case True
    then obtain s where s: "pe_scraper p = Some s" "sk_code s = SCRAPED_SNAPSHOT" using eligible by blast
    then have "sk_code s \<in> {SCRAPED_SNAPSHOT, SCRAPED_NO_CHANGE}" by simp
    then obtain source e pages where c: "admit_request (kn_registry k) q = Inr (source, e)"
        "wt_code (pe_watcher p) = WATCHED_POSSIBLE_CHANGE" "pages \<in> set (attempts_of q attempts)"
        "complete_capture Z (kn_policy k) e pages"
        "sk_code s = SCRAPED_NO_CHANGE \<longleftrightarrow> list_all (\<lambda>page. sy_signal (pg_response page) = cq_prior_signal q) pages"
        "\<forall>page \<in> set pages. \<exists>a \<in> set (sk_artifacts s). aq_response a = pg_response page"
        "\<forall>a \<in> set (received_artifacts (pe_watcher p) (pe_scraper p)). admitted_by Z (kn_policy k) e (aq_response a)"
      using captured [OF assms s(1)] by metis
    have changed: "\<exists>page \<in> set pages. sy_signal (pg_response page) \<noteq> cq_prior_signal q"
      using c(5) s(2) by (simp add: list_all_iff)
    have kept: "\<exists>a entry. aq_response a = pg_response page \<and> preserved P q V' (pe_manifest p) a entry" if page: "page \<in> set pages" for page
    proof -
      obtain a where "a \<in> set (received_artifacts (pe_watcher p) (pe_scraper p))" "aq_response a = pg_response page"
        using c(6) page s(1) by (auto simp: received_artifacts_def)
      then show ?thesis using package_Inr(8) [OF package] by blast
    qed
    have clean: "ad_artifact_class (me_descriptor entry) = SOURCE_CONTENT" if entry: "entry \<in> set (em_entries (pe_manifest p))" for entry
    proof -
      obtain a where a: "a \<in> set (received_artifacts (pe_watcher p) (pe_scraper p))" "preserved P q V' (pe_manifest p) a entry"
        using package_Inr(9) [OF package] entry by blast
      have "admit_response Z (aq_response a) e (kn_policy k) = Inr (aq_classification a)"
        using observed_truly [OF observe c(1)] a(1) by (simp add: truly_classified_def list_all_iff)
      then have "hc_admitted (aq_classification a)" using c(7) a(1) by (simp add: classified_as_admitted)
      then show ?thesis using a(2) by (simp add: preserved_def entry_holds_def)
    qed
    show ?thesis
      using eligible True c(1-4) changed kept clean package_Inr(1) [OF package] by (simp add: package_kind_def) blast
  next
    case False
    then show ?thesis using eligible by simp
  qed
qed

text \<open>
  C8: no change is never a guess. An observation without change either has a conclusive watcher response,
  safe, not transient and authenticated, that the contract lets prove it, a 304 or a 200 with the prior
  signal; or a complete capture whose every page has the prior signal.
\<close>

theorem no_change_needs_proof:
  assumes "prepare_observation P E Z k r q responses attempts V = (Inr p, V')" and "pe_disposition p = OBSERVED_NO_CHANGE"
  shows "\<exists>s e. admit_request (kn_registry k) q = Inr (s, e)
    \<and> ((\<exists>earlier u. pe_scraper p = None \<and> map aq_response (wt_artifacts (pe_watcher p)) = earlier @ [u]
          \<and> list_all (passing Z (kn_policy k) e) earlier
          \<and> admitted_by Z (kn_policy k) e u \<and> \<not> sy_authentication_failed u \<and> \<not> sy_transient u
          \<and> (sy_status_code u = 304 \<and> en_http_304_proves_no_change e
             \<or> sy_status_code u = 200 \<and> sy_signal u = cq_prior_signal q \<and> en_equal_signal_proves_no_change e))
       \<or> (\<exists>pages. pages \<in> set (attempts_of q attempts) \<and> complete_capture Z (kn_policy k) e pages
          \<and> (\<forall>page \<in> set pages. sy_signal (pg_response page) = cq_prior_signal q)))"
proof -
  obtain classify: "classify_observation (wt_code (pe_watcher p)) (map_option sk_code (pe_scraper p))
      = Inr (pe_disposition p, pe_consequence p)"
    and observe: "observe_source Z k q responses attempts = Inr (pe_watcher p, pe_scraper p)"
    using prepare_Inr [OF assms(1)] by metis
  obtain source e where o: "admit_request (kn_registry k) q = Inr (source, e)"
      "watch_loop Z (kn_policy k) q e [] 0 (attempts_of q responses) = Inr (pe_watcher p)"
      "pe_scraper p = None \<longleftrightarrow> wt_code (pe_watcher p) \<noteq> WATCHED_POSSIBLE_CHANGE"
    by (rule observe_Inr [OF observe]) auto
  have "wt_code (pe_watcher p) = WATCHED_NO_CHANGE \<and> pe_scraper p = None
      \<or> (\<exists>s. pe_scraper p = Some s \<and> sk_code s = SCRAPED_NO_CHANGE)"
    using classify assms(2) o(3)
    by (cases "(wt_code (pe_watcher p), map_option sk_code (pe_scraper p))" rule: classify_observation.cases;
        cases "sk_code (the (pe_scraper p))") auto
  then show ?thesis
  proof
    assume w: "wt_code (pe_watcher p) = WATCHED_NO_CHANGE \<and> pe_scraper p = None"
    then obtain earlier u where u: "map aq_response (wt_artifacts (pe_watcher p)) = earlier @ [u]"
        "list_all (passing Z (kn_policy k) e) earlier" "\<not> passing Z (kn_policy k) e u"
        "conclusion Z (kn_policy k) q e u = WATCHED_NO_CHANGE"
      using watch_loop_Inr [OF o(2)] by auto
    have "admitted_by Z (kn_policy k) e u \<and> \<not> sy_authentication_failed u \<and> \<not> sy_transient u
          \<and> (sy_status_code u = 304 \<and> en_http_304_proves_no_change e
             \<or> sy_status_code u = 200 \<and> sy_signal u = cq_prior_signal q \<and> en_equal_signal_proves_no_change e)"
      using u(3,4) by (auto simp: conclusion_def response_code_def passing_def split: if_splits)
    then show ?thesis using o(1) w u(1,2) by blast
  next
    assume "\<exists>s. pe_scraper p = Some s \<and> sk_code s = SCRAPED_NO_CHANGE"
    then obtain s where s: "pe_scraper p = Some s" "sk_code s = SCRAPED_NO_CHANGE" by blast
    then have "sk_code s \<in> {SCRAPED_SNAPSHOT, SCRAPED_NO_CHANGE}" by simp
    then obtain e' source' pages where "admit_request (kn_registry k) q = Inr (source', e')" "pages \<in> set (attempts_of q attempts)"
        "complete_capture Z (kn_policy k) e' pages"
        "sk_code s = SCRAPED_NO_CHANGE \<longleftrightarrow> list_all (\<lambda>page. sy_signal (pg_response page) = cq_prior_signal q) pages"
      using captured [OF assms(1) s(1)] by metis
    then show ?thesis using s(2) by (auto simp: list_all_iff)
  qed
qed

section \<open>Recording and processing\<close>

lemma record_Inr:
  assumes "record_after_recovery p receipt R = (Inr a, R')"
  shows "a = observation_of p receipt" and "pr_manifest receipt = pe_manifest p"
    and "pr_primary_manifest receipt = pe_primary_manifest p"
    and "get_observation (cq_observation_id (pe_request p)) R' = Inr a"
proof -
  obtain entry where entry: "new_acquisition_observation (observation_of p receipt) = Inr entry"
      and binds: "pr_manifest receipt = pe_manifest p" "pr_primary_manifest receipt = pe_primary_manifest p"
      and recorded: "record_observation entry R = (Inr a, R')"
    using assms unfolding record_after_recovery_def guarded_def
    by (cases "new_acquisition_observation (observation_of p receipt)") (auto simp: raise_if_def split: sum.splits prod.splits if_splits)
  have same: "entry = observation_of p receipt" using entry by (simp add: new_acquisition_observation_def)
  show "pr_manifest receipt = pe_manifest p" "pr_primary_manifest receipt = pe_primary_manifest p" by (rule binds)+
  have key: "ao_observation_id entry = cq_observation_id (pe_request p)" by (simp add: same observation_of_def)
  show "a = observation_of p receipt" "get_observation (cq_observation_id (pe_request p)) R' = Inr a"
    using recorded key same
    by (auto simp: record_observation_def get_observation_def update_conv split: option.splits if_splits)
qed

text \<open>
  C6: a recorded observation is processable just when it is eligible. Once the observation is recorded, it
  is what the register returns for its identity, and the legal-processing service accepts it with its
  receipt for a subject exactly if it is eligible, the subject names this observation and this snapshot,
  the rulebook knows the source, and the evidence of the subject is in the package.
\<close>

theorem recorded_observation_is_processable:
  assumes "prepare_observation P E Z k r q responses attempts V = (Inr p, V')"
    and "record_after_recovery p receipt R = (Inr a, R')"
  shows "get_observation (cq_observation_id q) R' = Inr a
    \<and> (validate_evidence a receipt subject rulebook = None \<longleftrightarrow>
         pe_consequence p = PROCESSING_ELIGIBLE \<and> ps_observation_id subject = cq_observation_id q
         \<and> ps_source_snapshot_id subject = acquisition_id P ''snp'' (cq_observation_id q)
         \<and> cq_source_id q \<in> set (map sd_source_id (lr_sources rulebook))
         \<and> set (ps_evidence_refs subject) \<subseteq> set (map entry_artifact (em_entries (pe_manifest p))))"
proof -
  obtain classify: "classify_observation (wt_code (pe_watcher p)) (map_option sk_code (pe_scraper p))
      = Inr (pe_disposition p, pe_consequence p)"
    and package: "write_package P E q r (package_kind (pe_disposition p)) (pe_package_id p)
      (received_artifacts (pe_watcher p) (pe_scraper p)) V = (Inr (pe_writer p, pe_manifest p, pe_primary_manifest p), V')"
    and request: "pe_request p = q"
    and snapshot: "pe_snapshot_id p = (if pe_disposition p = OBSERVED_SNAPSHOT then acquisition_id P ''snp'' (cq_observation_id q) else [])"
    using prepare_Inr [OF assms(1)] by metis
  note recorded = record_Inr [OF assms(2)]
  have eligible: "pe_consequence p = PROCESSING_ELIGIBLE \<longleftrightarrow> pe_disposition p = OBSERVED_SNAPSHOT"
    using classify
    by (cases "(wt_code (pe_watcher p), map_option sk_code (pe_scraper p))" rule: classify_observation.cases;
        cases "sk_code (the (pe_scraper p))") auto
  have codes: "disposition_code d = ''SNAPSHOT_PRESERVED'' \<longleftrightarrow> d = OBSERVED_SNAPSHOT"
    "consequence_value c = ''LEGAL_PROCESSING_ELIGIBLE'' \<longleftrightarrow> c = PROCESSING_ELIGIBLE" for d c
    by (cases d; simp) (cases c; simp)
  have "acquisition_id P ''snp'' s \<noteq> []" for s by (simp add: acquisition_id_def)
  then show ?thesis
    using recorded eligible codes snapshot package_Inr(2,3) [OF package]
    by (auto simp: validate_evidence_def observation_of_def request receipt_artifacts_def)
qed

section \<open>Where the service does less than it says\<close>

text \<open>
  C39: the input fingerprint misses what decides. For a watched response that proves no change by its 304, the
  same response with status 500 has the same input fingerprint, whatever is captured after it, and so the
  same package identity, yet one is an observation without change and the other a contract review.
\<close>

theorem input_fingerprint_misses_status:
  assumes "admit_request g q = Inr (s, e)" and "1 \<le> ry_attempt_ceiling (cq_retry_profile q)"
    and "admitted_by Z policy e u" and "\<not> sy_authentication_failed u" and "\<not> sy_transient u"
    and "sy_status_code u = 304" and "en_http_304_proves_no_change e" and "is_exact_text (en_allowed_path_prefix e)"
  shows "input_fingerprint P q (u\<lparr>sy_status_code := 500\<rparr> # later) attempts = input_fingerprint P q (u # later) attempts
    \<and> (\<exists>w w'. watch_source Z policy g q (u # later) = Inr w
         \<and> watch_source Z policy g q (u\<lparr>sy_status_code := 500\<rparr> # later) = Inr w'
         \<and> classify_observation (wt_code w) None = Inr (OBSERVED_NO_CHANGE, NO_CONSEQUENCE)
         \<and> classify_observation (wt_code w') None = Inr (OBSERVED_CONTRACT_REVIEW, NO_CONSEQUENCE))"
proof -
  obtain c where c: "admit_response Z u e policy = Inr c" "hc_admitted c"
    using assms(3) by (auto simp: admitted_by_def split: sum.splits)
  have input: "response_input (u\<lparr>sy_status_code := n\<rparr>) e = response_input u e" for n by (simp add: response_input_def)
  have c': "admit_response Z (u\<lparr>sy_status_code := 500\<rparr>) e policy = Inr c"
    using c(1) by (simp add: admit_response_def input)
  have drift: "\<not> contract_drift u e" using admitted_conforms [OF assms(3)] .
  then have drift': "\<not> contract_drift (u\<lparr>sy_status_code := 500\<rparr>) e" by (simp add: contract_drift_def)
  have take: "attempts_of q (x # later) = x # attempts_of (q\<lparr>cq_retry_profile := (cq_retry_profile q)
      \<lparr>ry_attempt_ceiling := ry_attempt_ceiling (cq_retry_profile q) - 1\<rparr>\<rparr>) later" for x
    using assms(2) by (simp add: attempts_of_def take_Cons' nat_diff_distrib)
  have role: "is_exact_text ''WATCHER_ATTEMPT''" by (simp add: is_exact_text_iff is_space_def)
  have "input_fingerprint P q (u\<lparr>sy_status_code := 500\<rparr> # later) attempts = input_fingerprint P q (u # later) attempts"
    by (simp add: input_fingerprint_def)
  moreover have "\<exists>w. watch_source Z policy g q (u # later) = Inr w \<and> wt_code w = WATCHED_NO_CHANGE"
    using assms(4-8) c drift role
    by (simp add: watch_source_def assms(1) take guarded_def raise_if_def new_acquisition_artifact_def construct_def
        source_text_def watched_def new_watcher_result_def source_positive_def response_code_def)
  moreover have "\<exists>w. watch_source Z policy g q (u\<lparr>sy_status_code := 500\<rparr> # later) = Inr w \<and> wt_code w = WATCHED_CONTRACT_CHANGED"
    using assms(4-8) c c' drift' role
    by (simp add: watch_source_def assms(1) take guarded_def raise_if_def new_acquisition_artifact_def construct_def
        source_text_def watched_def new_watcher_result_def source_positive_def response_code_def)
  ultimately show ?thesis by auto
qed

lemma input_fingerprint_misses_status_witness:
  "input_fingerprint demo_platform sample_connector_request [(sample_response 304 ''a'' ''new'')\<lparr>sy_status_code := 500\<rparr>] []
     = input_fingerprint demo_platform sample_connector_request [sample_response 304 ''a'' ''new''] []"
  using input_fingerprint_misses_status [OF sample_admitted_request, of no_archives default_admission_policy
      "sample_response 304 ''a'' ''new''" demo_platform "[]" "[]"]
  by (simp add: admitted_by_def sample_classified) (simp add: sample_connector_request_def sample_response_def sample_endpoint_def
      is_exact_text_iff is_space_def)

lemma walk_skips:
  "list_all (\<lambda>x. \<not> nested_archive (ze_filename x)) before \<Longrightarrow>
     \<exists>reasons' c' u'. walk_archive ratio deepest nested reasons c u (before @ es) = walk_archive ratio deepest nested reasons' c' u' es"
  by (induction before arbitrary: reasons c u) (auto simp: Let_def)

text \<open>
  C38: an archive that cannot be opened is not isolated but aborts the observation. If the first response is an
  archive with a nested archive that \<^verbatim>\<open>zipfile\<close> refuses with another exception than those the admission
  handles, as it does for an encrypted entry, the observation raises it: nothing is classified, nothing of
  the attempt reaches the vault, and there is no pending observation to record.
\<close>

theorem unreadable_archive_aborts_observation:
  assumes "admit_request (kn_registry k) q = Inr (s, e)" and "1 \<le> ry_attempt_ceiling (cq_retry_profile q)"
    and "is_archive (sy_media_type u)" and "0 < po_max_archive_depth (kn_policy k)" and "1 \<le> en_max_bytes e"
    and "0 \<le> sy_declared_length u" and "sy_character_encoding u \<noteq> []"
    and "Z (sy_body u) = Unzipped (before @ x # after)" and "list_all (\<lambda>x. \<not> nested_archive (ze_filename x)) before"
    and "nested_archive (ze_filename x)" and "ze_content x = ZipEscapes"
  shows "prepare_observation P E Z k r q (u # later) attempts V = (Inl (FromSource SourceFault), V)"
proof -
  have "walk_archive ratio False nested [] 0 0 (before @ x # after) = None" for ratio nested
  proof -
    obtain reasons c n where "walk_archive ratio False nested [] 0 0 (before @ x # after)
        = walk_archive ratio False nested reasons c n (x # after)"
      using walk_skips [OF assms(9)] by blast
    then show ?thesis by (simp add: Let_def assms(10,11))
  qed
  then have "archive_reasons Z (kn_policy k) (sy_body u) 0 = None"
    using assms(4) by (simp add: archive_reasons.simps [of _ _ "sy_body u"] assms(8))
  moreover have "sy_media_type u \<noteq> []" using assms(3) by (auto simp: is_archive_def)
  ultimately have "admit_response Z u e (kn_policy k) = Inl SourceFault"
    using assms(3,5-7) by (simp add: admit_response_def classify_content_def response_input_def guarded_def raise_if_def)
  moreover obtain rest where "attempts_of q (u # later) = u # rest"
    using assms(2) by (auto simp: attempts_of_def take_Cons')
  ultimately show ?thesis
    by (simp add: prepare_observation_def observe_source_def watch_source_def assms(1) guarded_def raise_if_def)
qed

end
