(* ===== verification/AcquisitionExamples.thy ===== *)
theory AcquisitionExamples
  imports AcquisitionProperties JsonSize
begin

text \<open>
  That the acquisition service gets there: a clean capture is prepared, its observation is eligible and
  can be recorded; and the properties of the service applied to such a run.
\<close>

section \<open>Descriptions\<close>

lemma decimal_exact: "0 \<le> i \<Longrightarrow> is_exact_text (decimal i)"
proof -
  assume "0 \<le> i"
  have digits: "list_all is_digit (decimal_nat (nat i))" "decimal_nat (nat i) \<noteq> []" by (rule decimal_nat_digits)+
  then have "is_digit (hd (decimal_nat (nat i)))" "is_digit (last (decimal_nat (nat i)))" by (simp_all add: list_all_iff)
  moreover have "is_digit c \<Longrightarrow> \<not> is_space c" for c by (auto simp: char_class_defs is_space_def Let_def)
  ultimately show ?thesis using \<open>0 \<le> i\<close> digits(2) by (simp add: is_exact_text_iff decimal_def)
qed

lemma acquisition_id_pattern:
  assumes "digest_law P" and "prefix \<in> {''art'', ''evi'', ''pkg''}"
  shows "id_pattern (acquisition_id P prefix seed)"
proof -
  have "hex_word 64 (sha256_hex P (utf8 seed))" using assms(1) by (simp add: digest_law_def)
  then have "hex_word 48 (take 48 (sha256_hex P (utf8 seed)))"
    by (auto simp: hex_word_def list_all_iff dest: in_set_takeD)
  then show ?thesis using assms(2) by (auto simp: id_pattern_def acquisition_id_def hex_word_def char_class_defs)
qed

lemma descriptor_valid:
  assumes "digest_law P" and "new_connector_request q = Inr q" and "new_synthetic_response (aq_response a) = Inr (aq_response a)"
  shows "new_artifact_descriptor (artifact_descriptor_of P q r index a) = Inr (artifact_descriptor_of P q r index a)"
proof -
  let ?u = "aq_response a"
  have q: "id_pattern (cq_source_id q)" "id_pattern (cq_observation_id q)" "is_exact_text (cq_observation_cutoff q)"
    using assms(2) by (simp_all add: new_connector_request_def source_identifier_def source_text_def)
  have u: "is_exact_text (sy_host ?u)" "is_exact_text (sy_path ?u)" "is_exact_text (sy_media_type ?u)"
      "is_exact_text (sy_content_encoding ?u)" "is_exact_text (sy_character_encoding ?u)" "0 \<le> sy_declared_length ?u"
      "0 \<le> sy_status_code ?u"
    using assms(3) by (simp_all add: new_synthetic_response_def source_text_def)
  have locator: "is_exact_text (''https://'' @ sy_host ?u @ sy_path ?u)"
    using u(2) by (simp add: is_exact_text_iff is_space_def)
  have "is_exact_text (http_method_value (cq_method q))"
    by (cases "cq_method q") (simp_all add: is_exact_text_iff is_space_def)
  moreover have "is_exact_text ''declared-length''" "is_exact_text ''status-code''"
    by (simp_all add: is_exact_text_iff is_space_def)
  moreover have "map lower_char ''declared-length'' = ''declared-length''" "map lower_char ''status-code'' = ''status-code''"
    by (simp_all add: lower_char_def)
  ultimately show ?thesis
    using q u(3-5) locator decimal_exact [OF u(6)] decimal_exact [OF u(7)] assms(1)
    by (simp add: new_artifact_descriptor_def artifact_descriptor_of_def Let_def identifier_ok acquisition_id_pattern evidence_text_def
        construct_def raise_if_def del: map_eq_conv list.map)
qed

section \<open>A package of fresh contents\<close>

fun artifact_items ::
    "platform \<Rightarrow> connector_request \<Rightarrow> retention_profile \<Rightarrow> int \<Rightarrow> acquisition_artifact list \<Rightarrow> (artifact_descriptor \<times> string) list" where
  "artifact_items P q r index [] = []"
| "artifact_items P q r index (a # as) =
     (artifact_descriptor_of P q r index a, sy_body (aq_response a)) # artifact_items P q r (index + 1) as"

definition fresh_items :: "platform \<Rightarrow> (artifact_descriptor \<times> string) list \<Rightarrow> bool" where
  "fresh_items P items \<longleftrightarrow>
     (\<forall>(d, content) \<in> set items. plain_retention (ad_retention d) \<and> int (length content) \<le> max_safe_integer)
     \<and> distinct (map (\<lambda>(d, content). ad_artifact_id d) items)
     \<and> distinct (map (\<lambda>(d, content). bytes_fingerprint P content) items)"

lemma staged_fresh:
  assumes laws: "digest_law P" "encoder_law E" and q: "new_connector_request q = Inr q"
  shows "\<lbrakk>staged_state P w V; fresh_items P (artifact_items P q r index as);
      \<forall>a \<in> set as. new_synthetic_response (aq_response a) = Inr (aq_response a);
      \<forall>(d, content) \<in> set (artifact_items P q r index as). ad_artifact_id d \<notin> fst ` set (pw_entries w)
        \<and> (\<forall>(k, e) \<in> set (pw_entries w). or_fingerprint (me_primary e) \<noteq> bytes_fingerprint P content)\<rbrakk>
    \<Longrightarrow> \<exists>V'. stage_artifacts P (local_interface P E) q r index as (w, V)
          = (Inr (), w\<lparr>pw_entries := pw_entries w @ content_entries P (artifact_items P q r index as)\<rparr>, V')
        \<and> staged_state P (w\<lparr>pw_entries := pw_entries w @ content_entries P (artifact_items P q r index as)\<rparr>) V'"
proof (induction as arbitrary: index w V)
  case Nil
  then show ?case by (simp add: content_entries_def)
next
  case (Cons a as)
  let ?d = "artifact_descriptor_of P q r index a" and ?content = "sy_body (aq_response a)"
  have plain: "plain_retention (ad_retention ?d)" "int (length ?content) \<le> max_safe_integer"
    using Cons.prems(2) by (simp_all add: fresh_items_def)
  have fresh: "ad_artifact_id ?d \<notin> fst ` set (pw_entries w)"
      "\<forall>(k, e) \<in> set (pw_entries w). or_fingerprint (me_primary e) \<noteq> bytes_fingerprint P ?content"
    using Cons.prems(4) by auto
  let ?w1 = "w\<lparr>pw_entries := pw_entries w @ [(ad_artifact_id ?d, content_entry P ?d ?content)]\<rparr>"
  obtain V1 where step: "stage_content P (local_interface P E) ?d ?content (w, V) = (Inr (content_entry P ?d ?content), ?w1, V1)"
      and state: "staged_state P ?w1 V1"
    using stage_fresh [OF laws Cons.prems(1) plain fresh] by blast
  have later: "\<forall>(d, content) \<in> set (artifact_items P q r (index + 1) as). ad_artifact_id d \<notin> fst ` set (pw_entries ?w1)
      \<and> (\<forall>(k, e) \<in> set (pw_entries ?w1). or_fingerprint (me_primary e) \<noteq> bytes_fingerprint P content)"
  proof (clarify, intro conjI)
    fix d content assume m: "(d, content) \<in> set (artifact_items P q r (index + 1) as)"
    then have "ad_artifact_id d \<noteq> ad_artifact_id ?d" "bytes_fingerprint P content \<noteq> bytes_fingerprint P ?content"
      using Cons.prems(2) by (auto simp: fresh_items_def image_iff split_def)
    then show "ad_artifact_id d \<notin> fst ` set (pw_entries ?w1)"
      "\<forall>(k, e) \<in> set (pw_entries ?w1). or_fingerprint (me_primary e) \<noteq> bytes_fingerprint P content"
      using m Cons.prems(4) by auto
  qed
  have "fresh_items P (artifact_items P q r (index + 1) as)" using Cons.prems(2) by (simp add: fresh_items_def)
  from Cons.IH [OF state this _ later] Cons.prems(3) obtain V' where rest:
      "stage_artifacts P (local_interface P E) q r (index + 1) as (?w1, V1)
        = (Inr (), ?w1\<lparr>pw_entries := pw_entries ?w1 @ content_entries P (artifact_items P q r (index + 1) as)\<rparr>, V')"
      "staged_state P (?w1\<lparr>pw_entries := pw_entries ?w1 @ content_entries P (artifact_items P q r (index + 1) as)\<rparr>) V'"
    by auto
  have d: "new_artifact_descriptor ?d = Inr ?d" using descriptor_valid [OF laws(1) q] Cons.prems(3) by simp
  show ?case using rest by (intro exI [of _ V']) (simp add: d step content_entries_def)
qed

lemma commit_outcome:
  assumes "pw_manifest w = None"
    and "pw_manifest (fst (snd (commit_manifest P E I kind package observation r (w, V)))) = Some m"
  shows "\<exists>ref w' V'. commit_manifest P E I kind package observation r (w, V) = (Inr (m, ref), w', V')"
  using assms by (auto simp: commit_manifest_def split: sum.splits prod.splits if_splits)

lemma fresh_package_written:
  assumes laws: "digest_law P" "encoder_law E" and q: "new_connector_request q = Inr q"
    and items: "as \<noteq> []" "fresh_items P (artifact_items P q r 1 as)"
      "\<forall>a \<in> set as. new_synthetic_response (aq_response a) = Inr (aq_response a)"
    and package: "safe_segment kind" "id_pattern package" "plain_retention r"
    and m: "m = package_manifest P kind package (cq_observation_id q) (artifact_items P q r 1 as)"
    and raw: "E (manifest_document m) = Some raw" "int (length raw) \<le> max_safe_integer"
  shows "\<exists>w ref V'. write_package P E q r kind package as (empty_vault PRIMARY) = (Inr (w, m, ref), V')"
proof -
  let ?w = "\<lparr>pw_entries = [], pw_manifest = None, pw_primary_manifest = None\<rparr>"
  let ?items = "artifact_items P q r 1 as"
  let ?w1 = "?w\<lparr>pw_entries := content_entries P ?items\<rparr>"
  have start: "staged_state P ?w (empty_vault PRIMARY)"
    unfolding staged_state_def
    by (intro conjI exI [of _ Map.empty]) (simp_all add: empty_vault_ok empty_flat empty_represents, simp add: empty_vault_def)
  obtain V1 where staged: "stage_artifacts P (local_interface P E) q r 1 as (?w, empty_vault PRIMARY) = (Inr (), ?w1, V1)"
      and state: "staged_state P ?w1 V1"
    using staged_fresh [OF laws q start items(2,3)] by auto
  have shape: "m = manifest_of kind package (cq_observation_id q) ?w1"
    by (simp add: m package_manifest_def manifest_of_def content_entries_def split_def comp_def)
  have "map entry_artifact (em_entries m) = map (\<lambda>(d, content). ad_artifact_id d) ?items"
    by (simp add: m package_manifest_def entry_artifact_def content_entry_def split_def comp_def)
  then have "distinct (map entry_artifact (em_entries m))" using items(2) by (simp add: fresh_items_def)
  moreover have "em_package_kind m = kind" "em_package_id m = package" "em_observation_id m = cq_observation_id q" "em_entries m \<noteq> []"
    using items(1) by (cases as; simp add: m package_manifest_def)+
  moreover have "id_pattern (cq_observation_id q)"
    using q by (simp add: new_connector_request_def source_identifier_def)
  ultimately have valid: "new_evidence_manifest m = Inr m"
    using package(1,2) segment_exact by (simp add: new_evidence_manifest_def evidence_text_def identifier_ok)
  have "pw_manifest (fst (snd (commit_manifest P E (local_interface P E) kind package (cq_observation_id q) r (?w1, V1)))) = Some m"
    by (rule commit_fresh [OF laws state _ shape valid package(3) raw]) simp
  from commit_outcome [OF _ this] obtain ref w' V' where "commit_manifest P E (local_interface P E) kind package (cq_observation_id q) r (?w1, V1) = (Inr (m, ref), w', V')"
    by auto
  moreover have "new_package_writer (local_interface P E) (empty_vault PRIMARY) = Inr ?w"
    by (simp add: new_package_writer_def local_interface_def empty_vault_def construct_def raise_if_def)
  ultimately show ?thesis by (auto simp: write_package_def staged)
qed

section \<open>A clean capture\<close>

definition clean_artifact :: "string \<Rightarrow> synthetic_response \<Rightarrow> acquisition_artifact" where
  "clean_artifact role u = \<lparr>aq_role = role, aq_response = u, aq_classification = \<lparr>hc_admitted = True, hc_reasons = []\<rparr>\<rparr>"

fun page_artifacts :: "int \<Rightarrow> synthetic_page list \<Rightarrow> acquisition_artifact list" where
  "page_artifacts i [] = []"
| "page_artifacts i (page # pages) =
     clean_artifact (''SCRAPER_PAGE_'' @ decimal i) (pg_response page) # page_artifacts (i + 1) pages"

definition capture_artifacts :: "synthetic_response \<Rightarrow> synthetic_page list \<Rightarrow> acquisition_artifact list" where
  "capture_artifacts u pages = clean_artifact ''WATCHER_ATTEMPT'' u # page_artifacts 1 pages"

text \<open>The manifest of a watched response and the pages captured after it.\<close>

definition capture_package_id :: "platform \<Rightarrow> connector_request \<Rightarrow> synthetic_response \<Rightarrow> synthetic_page list \<Rightarrow> string" where
  "capture_package_id P q u pages =
     acquisition_id P ''pkg'' (cq_observation_id q @ '':'' @ input_fingerprint P q [u] [pages])"

definition capture_manifest ::
    "platform \<Rightarrow> connector_request \<Rightarrow> retention_profile \<Rightarrow> synthetic_response \<Rightarrow> synthetic_page list \<Rightarrow> evidence_manifest" where
  "capture_manifest P q r u pages = package_manifest P ''source-snapshot'' (capture_package_id P q u pages)
     (cq_observation_id q) (artifact_items P q r 1 (capture_artifacts u pages))"

lemma admitted_clean: "admitted_by Z policy e u \<longleftrightarrow> admit_response Z u e policy = Inr \<lparr>hc_admitted = True, hc_reasons = []\<rparr>"
proof -
  have "classified reasons = \<lparr>hc_admitted = True, hc_reasons = []\<rparr>" if "hc_admitted (classified reasons)" for reasons
  proof -
    have "reasons = []" using that by simp
    then show ?thesis by (simp add: classified_def)
  qed
  moreover have "\<exists>reasons. c = classified reasons" if "admit_response Z u e policy = Inr c" for c
    using that unfolding admit_response_def and_then_Inr by blast
  moreover have "admitted_by Z policy e u \<longleftrightarrow> (\<exists>c. admit_response Z u e policy = Inr c \<and> hc_admitted c)"
    by (simp add: admitted_by_def split: sum.split)
  ultimately show ?thesis by (metis hostile_classification.select_convs(1))
qed

lemma scanned_pages:
  assumes "0 \<le> index"
    and "\<forall>page \<in> set pages. admitted_by Z policy e (pg_response page) \<and> sy_status_code (pg_response page) = 200
      \<and> \<not> sy_authentication_failed (pg_response page) \<and> \<not> sy_transient (pg_response page)"
  shows "scan_pages Z policy e index scan pages = Inr (scan\<lparr>pn_artifacts := pn_artifacts scan @ page_artifacts (index + 1) pages\<rparr>)"
  using assms
proof (induction pages arbitrary: index scan)
  case (Cons page pages)
  have c: "admit_response Z (pg_response page) e policy = Inr \<lparr>hc_admitted = True, hc_reasons = []\<rparr>"
      "\<not> contract_drift (pg_response page) e"
    using Cons.prems(2) admitted_clean admitted_conforms by auto
  then show ?case using Cons.IH [of "index + 1"] Cons.prems page_role_exact [of "index + 1"]
    by (simp add: Let_def new_acquisition_artifact_def construct_def source_text_def raise_if_def clean_artifact_def)
qed simp

lemma clean_capture_observed:
  assumes "admit_request (kn_registry k) q = Inr (s, e)" and "1 \<le> ry_attempt_ceiling (cq_retry_profile q)"
    and "is_exact_text (en_allowed_path_prefix e)"
    and "admitted_by Z (kn_policy k) e u" "\<not> sy_authentication_failed u" "\<not> sy_transient u"
    and "response_code q e u = WATCHED_POSSIBLE_CHANGE"
    and "complete_capture Z (kn_policy k) e pages" and "\<exists>page \<in> set pages. sy_signal (pg_response page) \<noteq> cq_prior_signal q"
  obtains w c where "observe_source Z k q [u] [pages] = Inr (w, Some c)" and "wt_code w = WATCHED_POSSIBLE_CHANGE"
    and "sk_code c = SCRAPED_SNAPSHOT" and "received_artifacts w (Some c) = capture_artifacts u pages"
proof -
  have one: "attempts_of q [x] = [x]" for x :: 'x using assms(2) by (simp add: attempts_of_def take_Cons')
  have role: "is_exact_text ''WATCHER_ATTEMPT''" by (simp add: is_exact_text_iff is_space_def)
  have u: "admit_response Z u e (kn_policy k) = Inr \<lparr>hc_admitted = True, hc_reasons = []\<rparr>" "\<not> contract_drift u e"
    using assms(4) admitted_clean admitted_conforms by auto
  obtain w where w: "watch_source Z (kn_policy k) (kn_registry k) q [u] = Inr w" "wt_code w = WATCHED_POSSIBLE_CHANGE"
      "wt_artifacts w = [clean_artifact ''WATCHER_ATTEMPT'' u]"
    using u assms(1,3,5-7) role
    by (simp add: watch_source_def one guarded_def raise_if_def new_acquisition_artifact_def construct_def source_text_def
        watched_def new_watcher_result_def source_positive_def clean_artifact_def)
  have clean: "\<forall>page \<in> set pages. admitted_by Z (kn_policy k) e (pg_response page) \<and> sy_status_code (pg_response page) = 200
      \<and> \<not> sy_authentication_failed (pg_response page) \<and> \<not> sy_transient (pg_response page)"
    and pages: "pages \<noteq> []" and generation: "length (remdups (map pg_inventory_generation pages)) = 1"
    using assms(8) unfolding complete_capture_def one_value by blast+
  have declared: "0 \<le> pg_declared_total (last pages)"
    using assms(8) last_in_set [OF pages] unfolding complete_capture_def by simp
  have "page_artifacts 1 pages \<noteq> []" using pages by (cases pages) auto
  moreover have "\<not> list_all (\<lambda>page. sy_signal (pg_response page) = cq_prior_signal q) pages" using assms(9) by (auto simp: list_all_iff)
  moreover have "\<not> list_ex (\<lambda>page. sy_transient (pg_response page)) pages" using clean by (auto simp: list_ex_iff)
  ultimately obtain c where "scrape_source Z (kn_policy k) (kn_registry k) q [pages] = Inr c" "sk_code c = SCRAPED_SNAPSHOT"
      "sk_artifacts c = page_artifacts 1 pages"
    using scanned_pages [OF order_refl clean] capture_code_complete [OF clean generation, of q] assms(1,8) pages generation declared
    by (simp add: scrape_source_def one guarded_def raise_if_def Let_def scraped_def new_scraper_result_def construct_def
        source_positive_def)
  then show ?thesis using that [of w c] w
    by (simp add: observe_source_def guarded_def raise_if_def received_artifacts_def capture_artifacts_def)
qed

lemma clean_capture_prepared:
  assumes laws: "digest_law P" "encoder_law E" and r: "plain_retention r" and q: "new_connector_request q = Inr q"
    and request: "admit_request (kn_registry k) q = Inr (s, e)" "1 \<le> ry_attempt_ceiling (cq_retry_profile q)"
      "is_exact_text (en_allowed_path_prefix e)"
    and watched: "admitted_by Z (kn_policy k) e u" "\<not> sy_authentication_failed u" "\<not> sy_transient u"
      "response_code q e u = WATCHED_POSSIBLE_CHANGE" "new_synthetic_response u = Inr u"
    and capture: "complete_capture Z (kn_policy k) e pages" "\<exists>page \<in> set pages. sy_signal (pg_response page) \<noteq> cq_prior_signal q"
      "\<forall>page \<in> set pages. new_synthetic_response (pg_response page) = Inr (pg_response page)"
    and fresh: "fresh_items P (artifact_items P q r 1 (capture_artifacts u pages))"
    and raw: "E (manifest_document (capture_manifest P q r u pages)) = Some raw" "int (length raw) \<le> max_safe_integer"
  shows "\<exists>p V'. prepare_observation P E Z k r q [u] [pages] (empty_vault PRIMARY) = (Inr p, V')
    \<and> pe_consequence p = PROCESSING_ELIGIBLE \<and> pe_manifest p = capture_manifest P q r u pages
    \<and> (\<forall>receipt R. pr_manifest receipt = pe_manifest p \<and> pr_primary_manifest receipt = pe_primary_manifest p
         \<and> map_of R (cq_observation_id q) = None \<longrightarrow>
         (\<exists>a R'. record_after_recovery p receipt R = (Inr a, R') \<and> ao_consequence a = ''LEGAL_PROCESSING_ELIGIBLE''))"
proof -
  obtain w c where o: "observe_source Z k q [u] [pages] = Inr (w, Some c)" "wt_code w = WATCHED_POSSIBLE_CHANGE"
      "sk_code c = SCRAPED_SNAPSHOT" "received_artifacts w (Some c) = capture_artifacts u pages"
    using clean_capture_observed [OF request watched(1-4) capture(1,2)] by blast
  let ?as = "capture_artifacts u pages"
  have valid: "\<forall>a \<in> set ?as. new_synthetic_response (aq_response a) = Inr (aq_response a)"
  proof -
    have "\<forall>a \<in> set (page_artifacts i pages). aq_response a \<in> pg_response ` set pages" for i
      by (induction pages arbitrary: i) (auto simp: clean_artifact_def)
    then have "\<forall>a \<in> set ?as. aq_response a = u \<or> aq_response a \<in> pg_response ` set pages"
      by (auto simp: capture_artifacts_def clean_artifact_def)
    then show ?thesis using watched(5) capture(3) by auto
  qed
  have "safe_segment ''source-snapshot''" by code_simp
  moreover have "id_pattern (capture_package_id P q u pages)"
    unfolding capture_package_id_def by (rule acquisition_id_pattern [OF laws(1)]) simp
  moreover have "?as \<noteq> []" by (simp add: capture_artifacts_def)
  ultimately obtain writer ref V' where package: "write_package P E q r ''source-snapshot'' (capture_package_id P q u pages) ?as
      (empty_vault PRIMARY) = (Inr (writer, capture_manifest P q r u pages, ref), V')"
    using fresh_package_written [OF laws q _ fresh valid _ _ r capture_manifest_def raw] by blast
  then obtain p where p: "prepare_observation P E Z k r q [u] [pages] (empty_vault PRIMARY) = (Inr p, V')"
      "pe_consequence p = PROCESSING_ELIGIBLE" "pe_disposition p = OBSERVED_SNAPSHOT" "pe_manifest p = capture_manifest P q r u pages"
      "pe_request p = q" "pe_watcher p = w" "pe_scraper p = Some c" "pe_issue_id p = []"
      "pe_snapshot_id p = acquisition_id P ''snp'' (cq_observation_id q)"
    by (simp add: prepare_observation_def o package_kind_def capture_package_id_def Let_def issue_id_of_def)
  have "\<exists>a R'. record_after_recovery p receipt R = (Inr a, R') \<and> ao_consequence a = ''LEGAL_PROCESSING_ELIGIBLE''"
    if "pr_manifest receipt = pe_manifest p" "pr_primary_manifest receipt = pe_primary_manifest p"
      "map_of R (cq_observation_id q) = None" for receipt R
  proof -
    let ?a = "observation_of p receipt"
    have "new_acquisition_observation ?a = Inr ?a"
      using o(2,3) p(2-9) by (simp add: new_acquisition_observation_def observation_of_def watcher_codes_def scraper_codes_def
          disposition_codes_def acquisition_id_def)
    moreover have "ao_observation_id ?a = cq_observation_id q" using p(5) by (simp add: observation_of_def)
    ultimately show ?thesis using that p(2)
      by (simp add: record_after_recovery_def guarded_def raise_if_def record_observation_def) (simp add: observation_of_def)
  qed
  then show ?thesis using p(1,2,4) by blast
qed

text \<open>
  C7: a clean capture becomes eligible. Let an admitted request meet a safe response that signals a change, and a
  complete capture not all of the prior signal, with fresh contents of distinct digests and distinct
  artifact identities, a printable retention profile and a manifest that can be encoded. From an empty primary
  vault the observation is prepared, with exactly the manifest of the response and the pages; it is eligible,
  and with any receipt for its package the register records it under its identity.
\<close>

theorem clean_capture_becomes_eligible:
  assumes laws: "digest_law P" "encoder_law E" and r: "plain_retention r" and q: "new_connector_request q = Inr q"
    and request: "admit_request (kn_registry k) q = Inr (s, e)" "1 \<le> ry_attempt_ceiling (cq_retry_profile q)"
      "is_exact_text (en_allowed_path_prefix e)"
    and watched: "admitted_by Z (kn_policy k) e u" "\<not> sy_authentication_failed u" "\<not> sy_transient u"
      "response_code q e u = WATCHED_POSSIBLE_CHANGE" "new_synthetic_response u = Inr u"
    and capture: "complete_capture Z (kn_policy k) e pages" "\<exists>page \<in> set pages. sy_signal (pg_response page) \<noteq> cq_prior_signal q"
      "\<forall>page \<in> set pages. new_synthetic_response (pg_response page) = Inr (pg_response page)"
    and fresh: "fresh_items P (artifact_items P q r 1 (capture_artifacts u pages))"
    and raw: "E (manifest_document (capture_manifest P q r u pages)) = Some raw" "int (length raw) \<le> max_safe_integer"
  shows "\<exists>p V'. prepare_observation P E Z k r q [u] [pages] (empty_vault PRIMARY) = (Inr p, V')
    \<and> pe_consequence p = PROCESSING_ELIGIBLE \<and> pe_manifest p = capture_manifest P q r u pages
    \<and> (\<forall>receipt R. pr_manifest receipt = pe_manifest p \<and> pr_primary_manifest receipt = pe_primary_manifest p
         \<and> map_of R (cq_observation_id q) = None \<longrightarrow>
         (\<exists>a R'. record_after_recovery p receipt R = (Inr a, R') \<and> ao_consequence a = ''LEGAL_PROCESSING_ELIGIBLE''))"
  by (rule clean_capture_prepared [OF assms])

section \<open>A run\<close>

text \<open>A platform whose digests differ in every part for texts of different lengths.\<close>

definition marked_platform :: platform where
  "marked_platform = demo_platform\<lparr>sha256_hex := (\<lambda>raw. let h = padded_hex 16 (length raw mod 251) in h @ h @ h @ h)\<rparr>"

lemma marked_digest_law: "digest_law marked_platform"
proof -
  have "hex_word 16 (padded_hex 16 (length s mod 251))" for s :: string
  proof (rule padded_hex_word)
    have "length s mod 251 < 251" by simp
    also have "(251::nat) < 16 ^ 16" by simp
    finally show "length s mod 251 < 16 ^ 16" .
  qed simp
  then show ?thesis by (simp add: digest_law_def marked_platform_def hex_word_def Let_def)
qed

definition sole_page :: synthetic_page where
  "sole_page = \<lparr>pg_response = sample_response 200 ''ok'' ''new'', pg_cursor = ''1'', pg_next_cursor = ''END'', pg_member_ids = [''m''],
     pg_declared_total = 1, pg_inventory_generation = ''g''\<rparr>"

abbreviation sample_connector :: synthetic_connector where
  "sample_connector \<equiv> \<lparr>kn_registry = sample_registry, kn_policy = default_admission_policy\<rparr>"

abbreviation changed_response :: synthetic_response where
  "changed_response \<equiv> sample_response 200 ''a'' ''new''"

lemma sole_page_admitted:
  "admit_response no_archives (sample_response 200 ''ok'' ''new'') sample_endpoint default_admission_policy
     = Inr \<lparr>hc_admitted = True, hc_reasons = []\<rparr>"
  by (auto simp: admit_response_def classify_content_def response_input_def sample_response_def sample_endpoint_def is_archive_def
      transport_reasons_def body_reasons_def contains_text_def starts_with_def lower_bytes_def char_class_defs Let_def
      guarded_def raise_if_def classified_def lower_char_def)

lemma sole_capture: "complete_capture no_archives default_admission_policy sample_endpoint [sole_page]"
  by (simp add: complete_capture_def sole_page_def admitted_by_def sole_page_admitted)
    (simp add: sample_response_def sample_endpoint_def)

lemma sample_fresh:
  "fresh_items marked_platform (artifact_items marked_platform sample_connector_request (sample_retention True) 1
     (capture_artifacts changed_response [sole_page]))"
  by code_simp

lemma sample_manifest_length:
  "int (length (json_text (manifest_document (capture_manifest marked_platform sample_connector_request (sample_retention True)
     changed_response [sole_page])))) \<le> max_safe_integer"
proof -
  have "int (json_size (manifest_document (capture_manifest marked_platform sample_connector_request (sample_retention True)
     changed_response [sole_page]))) \<le> max_safe_integer"
    by code_simp
  with json_text_size [of "manifest_document (capture_manifest marked_platform sample_connector_request (sample_retention True)
     changed_response [sole_page])"] show ?thesis by linarith
qed

lemma sample_values:
  "new_connector_request sample_connector_request = Inr sample_connector_request"
  "new_synthetic_response changed_response = Inr changed_response"
  "new_synthetic_response (pg_response sole_page) = Inr (pg_response sole_page)"
  by code_simp+

lemma sample_run_conditions:
  "digest_law marked_platform" "encoder_law plain_encoder" "plain_retention (sample_retention True)"
  "new_connector_request sample_connector_request = Inr sample_connector_request"
  "admit_request (kn_registry sample_connector) sample_connector_request = Inr (sample_registered_source, sample_endpoint)"
  "1 \<le> ry_attempt_ceiling (cq_retry_profile sample_connector_request)" "is_exact_text (en_allowed_path_prefix sample_endpoint)"
  "admitted_by no_archives (kn_policy sample_connector) sample_endpoint changed_response"
  "\<not> sy_authentication_failed changed_response" "\<not> sy_transient changed_response"
  "response_code sample_connector_request sample_endpoint changed_response = WATCHED_POSSIBLE_CHANGE"
  "new_synthetic_response changed_response = Inr changed_response"
  "complete_capture no_archives (kn_policy sample_connector) sample_endpoint [sole_page]"
  "\<exists>page \<in> set [sole_page]. sy_signal (pg_response page) \<noteq> cq_prior_signal sample_connector_request"
  "\<forall>page \<in> set [sole_page]. new_synthetic_response (pg_response page) = Inr (pg_response page)"
  "fresh_items marked_platform (artifact_items marked_platform sample_connector_request (sample_retention True) 1
     (capture_artifacts changed_response [sole_page]))"
  using marked_digest_law sample_conditions(2,3) sample_fresh sample_values sample_admitted_request sole_capture
  by (simp_all add: admitted_by_def sample_classified)
    (simp_all add: sample_connector_request_def sample_endpoint_def sample_response_def response_code_def sole_page_def
      is_exact_text_iff is_space_def)

lemma sample_prepared:
  obtains p V where "prepare_observation marked_platform plain_encoder no_archives sample_connector (sample_retention True)
      sample_connector_request [changed_response] [[sole_page]] (empty_vault PRIMARY) = (Inr p, V)"
    and "pe_consequence p = PROCESSING_ELIGIBLE"
    and "\<And>receipt. pr_manifest receipt = pe_manifest p \<Longrightarrow> pr_primary_manifest receipt = pe_primary_manifest p \<Longrightarrow>
      \<exists>a R. record_after_recovery p receipt [] = (Inr a, R)"
proof -
  have "\<exists>p V'. prepare_observation marked_platform plain_encoder no_archives sample_connector (sample_retention True)
      sample_connector_request [changed_response] [[sole_page]] (empty_vault PRIMARY) = (Inr p, V')
    \<and> pe_consequence p = PROCESSING_ELIGIBLE
    \<and> pe_manifest p = capture_manifest marked_platform sample_connector_request (sample_retention True) changed_response [sole_page]
    \<and> (\<forall>receipt R. pr_manifest receipt = pe_manifest p \<and> pr_primary_manifest receipt = pe_primary_manifest p
         \<and> map_of R (cq_observation_id sample_connector_request) = None \<longrightarrow>
         (\<exists>a R'. record_after_recovery p receipt R = (Inr a, R') \<and> ao_consequence a = ''LEGAL_PROCESSING_ELIGIBLE''))"
    by (rule clean_capture_prepared [OF sample_run_conditions refl sample_manifest_length])
  then show ?thesis using that by (metis map_of.simps(1))
qed

lemma clean_capture_becomes_eligible_witness:
  "\<exists>p V. prepare_observation marked_platform plain_encoder no_archives sample_connector (sample_retention True)
      sample_connector_request [changed_response] [[sole_page]] (empty_vault PRIMARY) = (Inr p, V)"
  using clean_capture_becomes_eligible [OF sample_run_conditions refl sample_manifest_length] by blast

lemma received_content_is_preserved_witness:
  "\<exists>p V. prepare_observation marked_platform plain_encoder no_archives sample_connector (sample_retention True)
      sample_connector_request [changed_response] [[sole_page]] (empty_vault PRIMARY) = (Inr p, V)
    \<and> (\<exists>c. read_exact marked_platform V (pe_primary_manifest p) = Inr c)"
proof -
  obtain p V where p: "prepare_observation marked_platform plain_encoder no_archives sample_connector (sample_retention True)
      sample_connector_request [changed_response] [[sole_page]] (empty_vault PRIMARY) = (Inr p, V)"
    using sample_prepared by blast
  from received_content_is_preserved [OF p sample_run_conditions(5)] p show ?thesis by blast
qed

lemma eligible_snapshot_is_complete_witness:
  "\<exists>p V. prepare_observation marked_platform plain_encoder no_archives sample_connector (sample_retention True)
      sample_connector_request [changed_response] [[sole_page]] (empty_vault PRIMARY) = (Inr p, V)
    \<and> em_package_kind (pe_manifest p) = ''source-snapshot''"
proof -
  obtain p V where p: "prepare_observation marked_platform plain_encoder no_archives sample_connector (sample_retention True)
      sample_connector_request [changed_response] [[sole_page]] (empty_vault PRIMARY) = (Inr p, V)"
      "pe_consequence p = PROCESSING_ELIGIBLE"
    using sample_prepared by blast
  from eligible_snapshot_is_complete [OF p(1)] p show ?thesis by blast
qed

lemma recorded_observation_is_processable_witness:
  "\<exists>p V receipt a R. prepare_observation marked_platform plain_encoder no_archives sample_connector (sample_retention True)
      sample_connector_request [changed_response] [[sole_page]] (empty_vault PRIMARY) = (Inr p, V)
    \<and> record_after_recovery p receipt [] = (Inr a, R) \<and> get_observation (cq_observation_id sample_connector_request) R = Inr a"
proof -
  obtain p V where p: "prepare_observation marked_platform plain_encoder no_archives sample_connector (sample_retention True)
      sample_connector_request [changed_response] [[sole_page]] (empty_vault PRIMARY) = (Inr p, V)"
      "\<And>receipt. pr_manifest receipt = pe_manifest p \<Longrightarrow> pr_primary_manifest receipt = pe_primary_manifest p \<Longrightarrow>
        \<exists>a R. record_after_recovery p receipt [] = (Inr a, R)"
    using sample_prepared by blast
  let ?receipt = "\<lparr>pr_manifest = pe_manifest p, pr_primary_manifest = pe_primary_manifest p,
      pr_recovery_manifest = pe_primary_manifest p, pr_copies = []\<rparr>"
  obtain a R where a: "record_after_recovery p ?receipt [] = (Inr a, R)" using p(2) [of ?receipt] by auto
  from recorded_observation_is_processable [OF p(1) a] p(1) a show ?thesis by blast
qed

text \<open>A watched 304 is an observation without change.\<close>

abbreviation unchanged_response :: synthetic_response where
  "unchanged_response \<equiv> sample_response 304 ''a'' ''new''"

abbreviation unchanged_items :: "(artifact_descriptor \<times> string) list" where
  "unchanged_items \<equiv> artifact_items marked_platform sample_connector_request (sample_retention True) 1
     [clean_artifact ''WATCHER_ATTEMPT'' unchanged_response]"

lemma unchanged_conditions:
  "fresh_items marked_platform unchanged_items"
  "new_synthetic_response unchanged_response = Inr unchanged_response"
  "safe_segment ''acquisition-attempt''"
  by code_simp+

definition unchanged_manifest :: evidence_manifest where
  "unchanged_manifest = package_manifest marked_platform ''acquisition-attempt''
     (acquisition_id marked_platform ''pkg'' (cq_observation_id sample_connector_request @ '':'' @
       input_fingerprint marked_platform sample_connector_request [unchanged_response] []))
     (cq_observation_id sample_connector_request) unchanged_items"

lemma unchanged_length: "int (length (json_text (manifest_document unchanged_manifest))) \<le> max_safe_integer"
proof -
  have "int (json_size (manifest_document unchanged_manifest)) \<le> max_safe_integer" by code_simp
  with json_text_size [of "manifest_document unchanged_manifest"] show ?thesis by linarith
qed

lemma unchanged_observed:
  obtains w where "observe_source no_archives sample_connector sample_connector_request [unchanged_response] [] = Inr (w, None)"
    and "wt_code w = WATCHED_NO_CHANGE" and "received_artifacts w None = [clean_artifact ''WATCHER_ATTEMPT'' unchanged_response]"
proof -
  have "response_code sample_connector_request sample_endpoint unchanged_response = WATCHED_NO_CHANGE"
    by (simp add: response_code_def sample_response_def sample_endpoint_def)
  then show ?thesis using that sample_watched [of "''a''" 304 "''new''"]
    by (simp add: observe_source_def received_artifacts_def clean_artifact_def)
qed

lemma unchanged_prepared:
  obtains p V where "prepare_observation marked_platform plain_encoder no_archives sample_connector (sample_retention True)
      sample_connector_request [unchanged_response] [] (empty_vault PRIMARY) = (Inr p, V)"
    and "pe_disposition p = OBSERVED_NO_CHANGE"
proof -
  obtain w where w: "observe_source no_archives sample_connector sample_connector_request [unchanged_response] [] = Inr (w, None)"
      "wt_code w = WATCHED_NO_CHANGE" "received_artifacts w None = [clean_artifact ''WATCHER_ATTEMPT'' unchanged_response]"
    by (rule unchanged_observed)
  have "id_pattern (acquisition_id marked_platform ''pkg'' s)" for s by (rule acquisition_id_pattern [OF marked_digest_law]) simp
  then obtain writer ref V where "write_package marked_platform plain_encoder sample_connector_request (sample_retention True)
      ''acquisition-attempt'' (acquisition_id marked_platform ''pkg'' (cq_observation_id sample_connector_request @ '':'' @
         input_fingerprint marked_platform sample_connector_request [unchanged_response] []))
      [clean_artifact ''WATCHER_ATTEMPT'' unchanged_response] (empty_vault PRIMARY) = (Inr (writer, unchanged_manifest, ref), V)"
    using fresh_package_written [OF marked_digest_law sample_conditions(2) sample_values(1) _ unchanged_conditions(1) _
        unchanged_conditions(3) _ sample_conditions(3) unchanged_manifest_def refl unchanged_length] unchanged_conditions(2)
    by (auto simp: clean_artifact_def)
  then show ?thesis using that by (simp add: prepare_observation_def w package_kind_def Let_def)
qed

lemma no_change_needs_proof_witness:
  "\<exists>p V. prepare_observation marked_platform plain_encoder no_archives sample_connector (sample_retention True)
      sample_connector_request [unchanged_response] [] (empty_vault PRIMARY) = (Inr p, V)
    \<and> sy_status_code unchanged_response = 304 \<and> pe_disposition p = OBSERVED_NO_CHANGE"
proof -
  obtain p V where p: "prepare_observation marked_platform plain_encoder no_archives sample_connector (sample_retention True)
      sample_connector_request [unchanged_response] [] (empty_vault PRIMARY) = (Inr p, V)" "pe_disposition p = OBSERVED_NO_CHANGE"
    by (rule unchanged_prepared)
  from no_change_needs_proof [OF p] have "\<exists>s e. admit_request sample_registry sample_connector_request = Inr (s, e)" by auto
  then show ?thesis using p by (simp add: sample_response_def)
qed

lemma unreadable_archive_aborts_observation_witness:
  "prepare_observation marked_platform plain_encoder (\<lambda>_. Unzipped [\<lparr>ze_filename = ''x.zip'', ze_compress_size = 1,
       ze_file_size = 1, ze_content = ZipEscapes\<rparr>]) sample_connector (sample_retention True) sample_connector_request
     [changed_response\<lparr>sy_media_type := ''application/zip''\<rparr>] [] (empty_vault PRIMARY)
   = (Inl (FromSource SourceFault), empty_vault PRIMARY)"
  using unreadable_archive_aborts_observation [where before = "[]" and after = "[]" and later = "[]" and attempts = "[]"
      and u = "changed_response\<lparr>sy_media_type := ''application/zip''\<rparr>" and V = "empty_vault PRIMARY" and E = plain_encoder
      and P = marked_platform and r = "sample_retention True", OF sample_run_conditions(5,6)]
  by (simp add: is_archive_def default_admission_policy_def sample_endpoint_def sample_response_def nested_archive_def ends_with_def
      lower_char_def)

end
