(* ===== verification/Spec2Isabelle.thy ===== *)
theory Spec2Isabelle
  imports Lifecycles RegisterProperties OutcomeRegisters TimestampOrder ApprovalProperties
    WorkflowProperties ServiceExamples CoverageProperties TraceabilityProperties
    StrictJsonProperties EvidenceProperties RemoteVaultProperties CaseWorkProperties
    LegalProcessingProperties RulebookExamples AcquisitionExamples
begin

text \<open>
  AskLegal is a pipeline that turns captured legal sources into the records a legal assistant
  serves. Workers capture sources as evidence packages in a pair of immutable vaults, legal desks
  turn them into records, a human administrator approves one exact promotion manifest, and a
  promotion worker builds a replacement target and cuts serving over to it. What holds the pipeline
  together, and what is modelled here, is the state every worker reads and writes: the lifecycles of
  runs and work items, the Management Register of commands and effects, the approval register, the
  durable review workflow, the evidence vaults, the rulebook packages and the service that decides
  under them what an observed source becomes, the corpus that is promoted, and the promotion service
  with the stores it acts on.

  \<^bold>\<open>Theories and sources\<close> (paths below \<^verbatim>\<open>src/\<close>)

  \<^item> \<^verbatim>\<open>Prelude\<close>: raising validations as values, Python's text and dictionary operations, the text
    patterns, the lemma collections \<^verbatim>\<open>guard_simps\<close> and \<^verbatim>\<open>pattern_simps\<close>.
  \<^item> \<^verbatim>\<open>Lifecycles\<close>: \<^verbatim>\<open>packages/domain/.../lifecycles.py\<close>. The state machines, \<^verbatim>\<open>StateMachine.start\<close> and
    \<^verbatim>\<open>transition\<close>, the five declared machines and quarantine re-entry.
  \<^item> \<^verbatim>\<open>OperationCodes\<close>, \<^verbatim>\<open>Operations\<close>: \<^verbatim>\<open>packages/domain/.../operations.py\<close>. The closed vocabularies
    and the value objects of commands, results, effect intents and effect receipts; a constructor
    \<^verbatim>\<open>new_x\<close> is the \<^verbatim>\<open>__post_init__\<close> of class \<^verbatim>\<open>X\<close>: the record, or the error it raises.
  \<^item> \<^verbatim>\<open>Platform\<close>: number formatting and flat \<^verbatim>\<open>json.dumps\<close>, and the record \<^verbatim>\<open>platform\<close> of what the code
    takes from \<^verbatim>\<open>hashlib\<close> and \<^verbatim>\<open>datetime\<close>.
  \<^item> \<^verbatim>\<open>Stores\<close>: the contracts of stores, as locales (below).
  \<^item> \<^verbatim>\<open>RegisterModel\<close>, \<^verbatim>\<open>Register\<close>, \<^verbatim>\<open>RegisterSteps\<close>, \<^verbatim>\<open>RegisterInvariant\<close>, \<^verbatim>\<open>RegisterProperties\<close>,
    \<^verbatim>\<open>RegisterExamples\<close>: \<^verbatim>\<open>packages/management-register/.../model.py\<close> and \<^verbatim>\<open>fake.py\<close>. The values of the
    register, its operations (submission, claims, renewals, attempts, receipts, policies, recovery),
    its histories and their invariant, its properties, and a worked history.
  \<^item> \<^verbatim>\<open>OutcomeRegisters\<close>: \<^verbatim>\<open>acquisition.py\<close> and \<^verbatim>\<open>legal_processing.py\<close> of the same package.
  \<^item> \<^verbatim>\<open>TimestampOrder\<close>, \<^verbatim>\<open>Approval\<close>, \<^verbatim>\<open>ApprovalProperties\<close>: \<^verbatim>\<open>approval.py\<close> of the same package.
  \<^item> \<^verbatim>\<open>CaseWork\<close>, \<^verbatim>\<open>CaseWorkFacts\<close>, \<^verbatim>\<open>CaseWorkProperties\<close>: \<^verbatim>\<open>hk_case_work.py\<close> of the same package. Requests,
    derived identities and blocked checkpoints, the factory that issues them by object identity, and
    their store.
  \<^item> \<^verbatim>\<open>Durable\<close>, \<^verbatim>\<open>DurableSteps\<close>, \<^verbatim>\<open>DurableProperties\<close>, \<^verbatim>\<open>WorkflowProperties\<close>:
    \<^verbatim>\<open>packages/durable-task-adapter/...\<close> \<^verbatim>\<open>models.py\<close>, \<^verbatim>\<open>fake_register.py\<close>, \<^verbatim>\<open>workflow.py\<close>. The generator
    \<^verbatim>\<open>review_gate_orchestrator\<close> is a resumable state: \<^verbatim>\<open>start_orchestration\<close> runs it to its first
    \<^verbatim>\<open>yield\<close>, \<^verbatim>\<open>resume\<close> from one \<^verbatim>\<open>yield\<close> to the next.
  \<^item> \<^verbatim>\<open>PromotionModel\<close>, \<^verbatim>\<open>Manifests\<close>, \<^verbatim>\<open>ManifestProperties\<close>: \<^verbatim>\<open>packages/promotion/...\<close> \<^verbatim>\<open>model.py\<close> and
    \<^verbatim>\<open>builder.py\<close>, with the coverage release gate of \<^verbatim>\<open>packages/corpus/.../builder.py\<close>.
  \<^item> \<^verbatim>\<open>Corpus\<close>, \<^verbatim>\<open>Coverage\<close>, \<^verbatim>\<open>Traceability\<close> and \<^verbatim>\<open>CorpusProperties\<close>, \<^verbatim>\<open>CoverageProperties\<close>,
    \<^verbatim>\<open>TraceabilityProperties\<close>: \<^verbatim>\<open>packages/corpus/...\<close> \<^verbatim>\<open>model.py\<close> and \<^verbatim>\<open>builder.py\<close>. Sealing releases,
    composing the desired state of a target, freezing coverage under a source cycle, reading a
    source cycle back, and the traceability lookup with its shards.
  \<^item> \<^verbatim>\<open>ServingStores\<close>, \<^verbatim>\<open>ServingProperties\<close>: \<^verbatim>\<open>packages/promotion/.../local.py\<close>.
  \<^item> \<^verbatim>\<open>PromotionService\<close>, \<^verbatim>\<open>ServiceFacts\<close>, \<^verbatim>\<open>ServiceProperties\<close>, \<^verbatim>\<open>ServiceExamples\<close>:
    \<^verbatim>\<open>apps/promotion-worker/.../service.py\<close> in its local composition: every port is the local store
    modelled above, the embedding provider and the token counter are arguments.
  \<^item> \<^verbatim>\<open>Json\<close>, \<^verbatim>\<open>Bytes\<close>, \<^verbatim>\<open>StrictJson\<close>, \<^verbatim>\<open>StrictJsonProperties\<close>: JSON values and their text, UTF-8 and base64
    as the standard library has them, and \<^verbatim>\<open>packages/contracts/.../strict_json.py\<close> with the grammar of
    \<^verbatim>\<open>json.loads\<close> it configures.
  \<^item> \<^verbatim>\<open>VaultModel\<close>, \<^verbatim>\<open>VaultVersions\<close>: \<^verbatim>\<open>packages/evidence-vault/.../model.py\<close>. The evidence values, version
    references and logical keys.
  \<^item> \<^verbatim>\<open>VaultFiles\<close>, \<^verbatim>\<open>LocalVault\<close>, \<^verbatim>\<open>LocalVaultFacts\<close>, \<^verbatim>\<open>VaultRefinement\<close>, \<^verbatim>\<open>LocalVaultProperties\<close>:
    \<^verbatim>\<open>LocalImmutableVault\<close> of \<^verbatim>\<open>local.py\<close> of the same package, over a tree of folders, files and aliases.
  \<^item> \<^verbatim>\<open>EvidencePackages\<close>, \<^verbatim>\<open>EvidenceServices\<close>, \<^verbatim>\<open>EvidenceProperties\<close>: the recovery copier, the two-vault reader
    and the manifest-last package writer of \<^verbatim>\<open>local.py\<close>, over any vault that has the operations of
    \<^verbatim>\<open>ports.py\<close>.
  \<^item> \<^verbatim>\<open>RemoteVault\<close>, \<^verbatim>\<open>RemoteVaultFacts\<close>, \<^verbatim>\<open>RemoteVaultProperties\<close>: \<^verbatim>\<open>S3ImmutableVault\<close> of \<^verbatim>\<open>s3.py\<close>, over a
    client that is a record of arbitrary operations.
  \<^item> \<^verbatim>\<open>RulebookModel\<close>, \<^verbatim>\<open>RuleEngine\<close>, \<^verbatim>\<open>RuleEngineProperties\<close>: \<^verbatim>\<open>packages/legal-desks/...\<close> \<^verbatim>\<open>model.py\<close> and
    \<^verbatim>\<open>engine.py\<close>. The values of an executable rulebook package, the lifecycle that activates packages
    and suspends scopes, and the engine that traces every rule and lets exactly one decide.
  \<^item> \<^verbatim>\<open>RulebookLoader\<close>, \<^verbatim>\<open>RulebookPackage\<close>, \<^verbatim>\<open>RulebookProperties\<close>, \<^verbatim>\<open>RulebookExamples\<close>: \<^verbatim>\<open>loader.py\<close> of the same
    package, from the bytes of a package directory to the loaded package. The directory is the tree of
    \<^verbatim>\<open>VaultFiles\<close>, its documents are read by \<^verbatim>\<open>StrictJson\<close>; the examples load a whole directory.
  \<^item> \<^verbatim>\<open>SemanticGate\<close>: \<^verbatim>\<open>packages/processing/...\<close> \<^verbatim>\<open>model.py\<close>, \<^verbatim>\<open>semantic.py\<close>, \<^verbatim>\<open>render.py\<close>. The gate in front
    of a generative task, its two runners, and the canonical bytes of a candidate.
  \<^item> \<^verbatim>\<open>LegalProcessing\<close>, \<^verbatim>\<open>LegalProcessingProperties\<close>: \<^verbatim>\<open>apps/legal-processing-worker/.../service.py\<close>, composed
    of the lifecycle and the engine, the gate, the receipts of evidence packages and the processing
    register.
  \<^item> \<^verbatim>\<open>SourceConnectors\<close>, \<^verbatim>\<open>SyntheticConnector\<close>, \<^verbatim>\<open>ConnectorProperties\<close>: \<^verbatim>\<open>packages/source-connectors/...\<close>
    \<^verbatim>\<open>model.py\<close>, \<^verbatim>\<open>admission.py\<close>, \<^verbatim>\<open>synthetic.py\<close>. The registry of sources and endpoints, the classification
    of hostile content with its walk through nested archives, and the reference connector: the loop of
    the watcher over responses and that of the scraper over pages and restarts.
  \<^item> \<^verbatim>\<open>Acquisition\<close>, \<^verbatim>\<open>AcquisitionProperties\<close>, \<^verbatim>\<open>AcquisitionExamples\<close>:
    \<^verbatim>\<open>apps/acquisition-worker/.../service.py\<close>, composed of the reference connector, the package writer of
    \<^verbatim>\<open>EvidenceServices\<close> and the acquisition register. \<^verbatim>\<open>JsonSize\<close> bounds the length of JSON text for the
    examples.

  \<^bold>\<open>How code is represented.\<close> A frozen dataclass is a record, a \<^verbatim>\<open>StrEnum\<close> a datatype with a function
  to its text values. A Python \<^verbatim>\<open>dict\<close> is an association list in insertion order, a \<^verbatim>\<open>set\<close> that is only
  tested a list or a set. Python integers are \<^typ>\<open>int\<close>. A \<^verbatim>\<open>str\<close> is a \<^typ>\<open>string\<close>, one \<^typ>\<open>char\<close> for each
  code point below 256, ordered as Python orders text. An operation of a store takes the store and
  returns its result, \<^const>\<open>Inl\<close> for a raise, together with the store as the call leaves it, also
  when it raises. Locks make each operation atomic, so a history is a list of operations.

  \<^bold>\<open>Interfaces.\<close> \<^verbatim>\<open>Stores\<close> states three contracts as locales. \<^verbatim>\<open>state_store\<close>: an invariant that every
  operation keeps, hence every history; interpreted by the approval register, the durable register,
  the local vault, the checkpoint factory and store, and the promotion service. \<^verbatim>\<open>atomic_store\<close>: moreover a raise changes nothing; interpreted by the
  Management Register, the serving state store and the lifecycle of rulebooks. \<^verbatim>\<open>write_once\<close>: the first record under a key
  stays; interpreted by the acquisition and the processing register. \<^verbatim>\<open>Lifecycles\<close> has the contract of
  a declared machine, \<^verbatim>\<open>lifecycle\<close>, interpreted by each of the five. \<^verbatim>\<open>EvidenceServices\<close> has the contract of
  an immutable vault, \<^verbatim>\<open>immutable_vault\<close>, and of a primary and a recovery vault, \<^verbatim>\<open>vault_pair\<close>, in which
  the writer and the copier are proved; both are interpreted on the local vault.
  \<^verbatim>\<open>LegalProcessingProperties\<close> has the contract of a task runner, \<^verbatim>\<open>semantic_runner\<close>, interpreted by the
  disabled and the deterministic runner. The promotion service is
  composed of the approval register, the manifests and the local stores, and its properties are
  proved from theirs: \<^verbatim>\<open>proceed\<close> sequences its steps, and the lemmas \<^verbatim>\<open>*_frame\<close> of \<^verbatim>\<open>ServiceFacts\<close>
  state what a step leaves alone, \<^verbatim>\<open>*_Inr\<close> what has happened when it succeeded.

  \<^bold>\<open>What the properties show.\<close>

  \<^item> Promotion: nothing is activated that has not passed every gate
    (\<^verbatim>\<open>activation_passed_every_gate\<close>), an approved promotion goes through
    (\<^verbatim>\<open>approved_promotion_succeeds\<close>), an approval serves one lineage, a lineage is replayed, a result
    tells what is active, the serving states form a chain of receipts (\<^verbatim>\<open>serving_states_chain\<close>),
    manifests are bound by their fingerprint and carry only admitted authority.
  \<^item> The corpus: a manifest fingerprint binds the payload that is served
    (\<^verbatim>\<open>approved_payload_bound\<close>, from a record over its release and the desired state to the manifest),
    the desired state is the exact union of its releases (\<^verbatim>\<open>desired_state_exact\<close>), whatever the
    order of the inputs, coverage follows its source cycle, source cycles are read back as
    written, and a lookup accounts for every record: its shards partition the entries, line by line.
  \<^item> The Management Register: replay of submissions, fencing (\<^verbatim>\<open>stale_token_fenced\<close>), finality of
    receipts, versions without gaps, one winner for each key, failure without trace, recovery as a
    round trip, bounded attempts, projections as a fold of the events.
  \<^item> Lifecycles: a run succeeds only through review and approval; the exact result of every
    transition request; histories as paths. The durable workflow: effects at most once, authorised
    and replayed, recovery by bisimulation, termination and liveness of the orchestration.
    Approvals: human, final, used up by a failed validity check.
  \<^item> Evidence: the local vault and the S3 vault refine one write-once map
    (\<^verbatim>\<open>vault_refines_write_once_map\<close>, \<^verbatim>\<open>s3_vault_refines_write_once_map\<close>) and so answer alike on plain
    creations (\<^verbatim>\<open>both_vaults_answer_alike\<close>: keys of one depth, printable profiles, dates in exact seconds,
    contents the digest tells apart); held objects survive every history, committed packages are complete,
    finalized ones recoverable, corruption is never hidden by the recovery copy, and an S3 receipt
    is given only for what was read back, whatever the provider does. The strict JSON reader always
    answers (\<^verbatim>\<open>strict_reader_answers\<close>) and reads back what \<^verbatim>\<open>json.dumps\<close> writes of values without fractional numbers.
  \<^item> Case work: the only durable checkpoint of an identity is the blocked one, a store keeps it for
    good, its factory vouches only for the objects it issued, and the whole path from a request to the
    store succeeds (\<^verbatim>\<open>blocked_work_reaches_store\<close>).
  \<^item> Rulebooks: a directory that loads is closed and consistent (\<^verbatim>\<open>loaded_package_is_closed\<close>), pinned byte
    for byte by its manifest (\<^verbatim>\<open>manifest_determines_package\<close>), and can be activated and executed
    (\<^verbatim>\<open>loaded_package_executes\<close>). A scope executes exactly when the history activated its package and
    did not suspend it since (\<^verbatim>\<open>execution_needs_authority\<close>); the version active for a desk is final;
    a result is decided by the one rule that applies, in whatever order the rules stand.
  \<^item> Legal processing: a recorded result stands on an eligible observation with its evidence package
    (\<^verbatim>\<open>recorded_result_stands\<close>), held in both vaults (\<^verbatim>\<open>processed_evidence_is_preserved\<close>), a failed
    call records nothing, eligible evidence becomes a candidate, and an admitted semantic decision
    has passed an independent challenge (\<^verbatim>\<open>admitted_decision_was_challenged\<close>).
  \<^item> Acquisition: an eligible snapshot is a complete, admitted inventory
    (\<^verbatim>\<open>eligible_snapshot_is_complete\<close>), everything received is in the package, isolated when it is hostile
    (\<^verbatim>\<open>received_content_is_preserved\<close>), a recorded observation is what legal processing accepts
    (\<^verbatim>\<open>recorded_observation_is_processable\<close>), no change is reported only on proof
    (\<^verbatim>\<open>no_change_needs_proof\<close>), and a clean capture becomes eligible
    (\<^verbatim>\<open>clean_capture_becomes_eligible\<close>). Admitted content is inert at every depth of archives
    (\<^verbatim>\<open>admitted_content_is_inert\<close>), a watcher result rests on its responses, the accounting loses no
    source.
  \<^item> Where the code does less than it says: \<^verbatim>\<open>requests_not_bound_to_subject\<close>,
    \<^verbatim>\<open>inactive_scope_runs_semantics\<close>, \<^verbatim>\<open>active_target_can_be_retired\<close>, \<^verbatim>\<open>submission_applied\<close>
    (unsorted effects raise), \<^verbatim>\<open>attempts_ignore_receipts\<close>, \<^verbatim>\<open>fractional_expiry_accepted\<close>,
    \<^verbatim>\<open>long_command_id_never_acknowledged\<close>, \<^verbatim>\<open>unprintable_retention_poisons_key\<close>,
    \<^verbatim>\<open>destroyed_key_is_corrupt\<close>, \<^verbatim>\<open>inexact_date_locks_object\<close>, \<^verbatim>\<open>unreadable_archive_aborts_observation\<close>,
    \<^verbatim>\<open>input_fingerprint_misses_status\<close>, \<^verbatim>\<open>pageless_capture_raises\<close>, \<^verbatim>\<open>nested_object_corrupts_key\<close>,
    \<^verbatim>\<open>only_ceiling_bounds_restarts\<close> (\<^verbatim>\<open>scrape\<close> promises to fail closed after one restart, and does so only
    when its attempts run out), \<^verbatim>\<open>active_version_is_final\<close> (the lifecycle of rulebooks promises
    supersession, which no operation does).

  \<^bold>\<open>Parameters.\<close> SHA-256, the ISO 8601 reader and writer, the RFC 8785 encoder, the S3 client, what
  \<^verbatim>\<open>zipfile\<close> finds in an archive (\<^verbatim>\<open>archive_reader\<close>), the
  runner of generative tasks, the embedding provider with its floating point arithmetic and the
  tokenizer are arguments. Where a theorem needs their
  documented behaviour it names it: \<^verbatim>\<open>digest_law\<close> (a digest has 64 hexadecimal digits),
  \<^verbatim>\<open>clock_law_at\<close> (how the ISO reader reads an instant the writer wrote), \<^verbatim>\<open>no_collision\<close>
  (approval identities of the history do not collide), \<^verbatim>\<open>collision_free\<close> (nor do the documents
  digested for two manifests), \<^verbatim>\<open>encoder_law\<close> (the canonical text of printable documents),
  \<^verbatim>\<open>bucket_law\<close> (versioning, object lock and conditional put of a bucket).
  \<^verbatim>\<open>demo_platform\<close>, \<^verbatim>\<open>tagged_platform\<close>, \<^verbatim>\<open>dated_platform\<close>, the sample encoders and \<^verbatim>\<open>sample_client\<close> satisfy
  them, and the witnesses run on them.

  \<^bold>\<open>Bounds.\<close> The recursive descent of the JSON reader has fuel, twice the length of the text and one,
  which \<^verbatim>\<open>strict_reader_answers\<close> shows never runs out; no other definition uses fuel. \<^verbatim>\<open>StateMachine._reachable_states\<close> terminates because each round adds
  a state, \<^verbatim>\<open>archive_reasons\<close> because each level of archives uses up the depth the policy allows. The orchestration returns within 33 deliveries: at most 16 review events with one
  resolution each, and one effect (\<^verbatim>\<open>workflow_returns\<close>).

  \<^bold>\<open>Not modelled.\<close> The composition of the promotion service with a real serving profile and a real
  effect authority, and \<^verbatim>\<open>execute_hk_v1\<close>; the remote adapters, the SQL store behind the register
  contract, the HTTP surfaces and process wiring: all of them calls to third-party services. Of the
  vaults, the creation of roots and of lock files, a crash between the two writes of a creation, file
  system limits and the construction of the boto3 session; of the JSON reader, Python's recursion
  limit and code points above 255, which are the explicit outcomes \<^verbatim>\<open>OutsideModel\<close> and \<^verbatim>\<open>Unmodelled\<close>.
  Of the rulebook loader, fixtures in the HK regulatory conformance formats, which are the outcome
  \<^verbatim>\<open>RulebookOutside\<close>, and the order of a file system: the tree lists its nodes as the walk visits them.
  The proposal packages with their member validation and the identity registry.
  The parsers of the legal desks and the connectors to external sources (\<^verbatim>\<open>official.py\<close> and its
  companions) read HTTP, HTML and XML with large literal tables and are left aside, as are the pipelines
  of the acquisition worker beside \<^verbatim>\<open>service.py\<close>, tools, infrastructure and documents. Of what is modelled, the detail texts of errors
  are left out, and so are checks that Python values have their annotated types, which typing gives
  here.
\<close>

end
